(* ===== verification/Prelude.thy ===== *)
theory Prelude
  imports Main
begin

text \<open>
  Shared base of the development: JavaScript values as they arrive from JSON, the character
  classes behind the source's regular expressions, canonical decimal amounts, UTF-8 and JSON
  string quoting, insertion-ordered deduplication, and the generic list lemmas that the
  component theories use.

  A JavaScript string is a HOL \<^typ>\<open>string\<close>: one \<^typ>\<open>char\<close> per UTF-16 code unit, so the model
  speaks about strings whose code units are below 256.  A number is \<open>JInt\<close> when it is an
  integer and \<open>JNonInt\<close> (kept by its text) when it is a fraction, NaN or an infinity.  An object
  is the list of its own properties in insertion order.
\<close>

named_theorems js_simps \<open>evaluation of JavaScript accessors and guards\<close>

section \<open>JavaScript values\<close>

datatype jsval =
    JUndef
  | JNull
  | JBool bool
  | JInt int
  | JNonInt string
  | JStr string
  | JArr "jsval list"
  | JObj "(string \<times> jsval) list"

text \<open>\<open>typeof v === "object" && v !== null && !Array.isArray(v)\<close>\<close>

fun isPlainObject :: "jsval \<Rightarrow> bool" where
  "isPlainObject (JObj _) = True"
| "isPlainObject _ = False"

text \<open>\<open>Object.keys(v)\<close> and the property read \<open>v.k\<close>; a property that is absent reads as undefined.\<close>

fun jkeys :: "jsval \<Rightarrow> string list" where
  "jkeys (JObj kvs) = map fst kvs"
| "jkeys _ = []"

fun jget :: "jsval \<Rightarrow> string \<Rightarrow> jsval" where
  "jget (JObj kvs) k = (case map_of kvs k of Some v \<Rightarrow> v | None \<Rightarrow> JUndef)"
| "jget _ k = JUndef"

text \<open>\<open>typeof v === "string" && P(v)\<close>, and the narrowed string afterwards.\<close>

fun jstr_is :: "(string \<Rightarrow> bool) \<Rightarrow> jsval \<Rightarrow> bool" where
  "jstr_is P (JStr s) = P s"
| "jstr_is P _ = False"

fun jstr :: "jsval \<Rightarrow> string" where
  "jstr (JStr s) = s"
| "jstr _ = []"

fun jint :: "jsval \<Rightarrow> int" where
  "jint (JInt i) = i"
| "jint _ = 0"

text \<open>\<open>Number.MAX_SAFE_INTEGER\<close> and \<open>Number.isSafeInteger\<close>.\<close>

definition MAX_SAFE_INTEGER :: int where
  "MAX_SAFE_INTEGER = 9007199254740991"

fun isSafeInteger :: "jsval \<Rightarrow> bool" where
  "isSafeInteger (JInt i) = (\<bar>i\<bar> \<le> MAX_SAFE_INTEGER)"
| "isSafeInteger _ = False"

lemma jstr_is_iff: "jstr_is P v \<longleftrightarrow> (\<exists>s. v = JStr s \<and> P s)"
  by (cases v) auto

lemma isSafeInteger_iff: "isSafeInteger v \<longleftrightarrow> (\<exists>i. v = JInt i \<and> \<bar>i\<bar> \<le> MAX_SAFE_INTEGER)"
  by (cases v) auto

lemma isPlainObject_iff: "isPlainObject v \<longleftrightarrow> (\<exists>kvs. v = JObj kvs)"
  by (cases v) auto

declare jget.simps [js_simps] jkeys.simps [js_simps] jstr_is.simps [js_simps]
  isSafeInteger.simps [js_simps] isPlainObject.simps [js_simps]

section \<open>Sums as results\<close>

text \<open>\<open>Inl\<close> is a failure, \<open>Inr\<close> a success; \<open>sbind\<close> continues after a success.\<close>

fun sbind :: "'e + 'a \<Rightarrow> ('a \<Rightarrow> 'e + 'b) \<Rightarrow> 'e + 'b" where
  "sbind (Inl e) f = Inl e"
| "sbind (Inr a) f = f a"

definition ensure :: "bool \<Rightarrow> 'e \<Rightarrow> 'e + unit" where
  "ensure b e = (if b then Inr () else Inl e)"

lemma sbind_Inr_iff: "sbind m f = Inr b \<longleftrightarrow> (\<exists>a. m = Inr a \<and> f a = Inr b)"
  by (cases m) auto

lemma sbind_Inl_iff: "sbind m f = Inl e \<longleftrightarrow> m = Inl e \<or> (\<exists>a. m = Inr a \<and> f a = Inl e)"
  by (cases m) auto

lemma ensure_Inr_iff [simp]: "ensure b e = Inr u \<longleftrightarrow> b"
  by (simp add: ensure_def)

lemma ensure_Inl_iff [simp]: "ensure b e = Inl e' \<longleftrightarrow> \<not> b \<and> e' = e"
  by (auto simp: ensure_def)

fun isOk :: "'e + 'a \<Rightarrow> bool" where
  "isOk (Inl _) = False"
| "isOk (Inr _) = True"

lemma isOk_iff: "isOk r \<longleftrightarrow> (\<exists>a. r = Inr a)"
  by (cases r) auto

text \<open>A chain of guards \<open>if g then Inl e else ...\<close>, read from its result.\<close>

lemma if_Inl_eq_Inr [js_simps]: "(if b then Inl e else r) = Inr a \<longleftrightarrow> \<not> b \<and> r = Inr a"
  by simp

lemma if_Inl_eq_Inl [js_simps]: "(if b then Inl e else r) = Inl e' \<longleftrightarrow> (b \<and> e = e') \<or> (\<not> b \<and> r = Inl e')"
  by auto

lemma jstr_JStr: "jstr_is P v \<Longrightarrow> v = JStr (jstr v)"
  by (cases v) auto

lemma jstr_is_jstr: "jstr_is P v \<Longrightarrow> P (jstr v)"
  by (cases v) auto

lemma find_unknown_None: "find (\<lambda>k. k \<notin> set fs) ks = None \<longleftrightarrow> set ks \<subseteq> set fs"
  by (auto simp: find_None_iff)

text \<open>\<open>s.startsWith(prefix)\<close>\<close>

definition starts_with :: "string \<Rightarrow> string \<Rightarrow> bool" where
  "starts_with s prefix \<longleftrightarrow> take (length prefix) s = prefix"

text \<open>Whether a value counts as true, and whether it is null or undefined.\<close>

fun jtruthy :: "jsval \<Rightarrow> bool" where
  "jtruthy JNull = False"
| "jtruthy JUndef = False"
| "jtruthy (JBool b) = b"
| "jtruthy (JInt i) = (i \<noteq> 0)"
| "jtruthy (JStr s) = (s \<noteq> [])"
| "jtruthy _ = True"

definition nullish :: "jsval \<Rightarrow> bool" where
  "nullish v \<longleftrightarrow> v = JNull \<or> v = JUndef"

section \<open>Character classes\<close>

definition code :: "char \<Rightarrow> nat" where
  "code c = of_char c"

definition is_digit :: "char \<Rightarrow> bool" where
  "is_digit c \<longleftrightarrow> 48 \<le> code c \<and> code c \<le> 57"

definition is_lower :: "char \<Rightarrow> bool" where
  "is_lower c \<longleftrightarrow> 97 \<le> code c \<and> code c \<le> 122"

definition is_upper :: "char \<Rightarrow> bool" where
  "is_upper c \<longleftrightarrow> 65 \<le> code c \<and> code c \<le> 90"

definition is_alnum :: "char \<Rightarrow> bool" where
  "is_alnum c \<longleftrightarrow> is_digit c \<or> is_lower c \<or> is_upper c"

text \<open>\<open>^[class]{lo,hi}$\<close>: every character in the class, length within the bounds.\<close>

definition class_between :: "(char \<Rightarrow> bool) \<Rightarrow> nat \<Rightarrow> nat \<Rightarrow> string \<Rightarrow> bool" where
  "class_between P lo hi s \<longleftrightarrow> lo \<le> length s \<and> length s \<le> hi \<and> list_all P s"

text \<open>\<open>trim()\<close> on the model's characters: white space at both ends is dropped.\<close>

definition js_space :: "char \<Rightarrow> bool" where
  "js_space c \<longleftrightarrow> 9 \<le> code c \<and> code c \<le> 13 \<or> code c = 32 \<or> code c = 160"

definition trim :: "string \<Rightarrow> string" where
  "trim s = rev (dropWhile js_space (rev (dropWhile js_space s)))"

lemma code_less_256: "code c < 256"
  by (simp add: code_def of_char_def)

lemma code_inject: "code c = code d \<longleftrightarrow> c = d"
  by (simp add: code_def)

lemma char_of_code [simp]: "char_of (code c) = c"
  by (simp add: code_def)

lemma code_char_of: "n < 256 \<Longrightarrow> code (char_of n) = n"
  by (simp add: code_def)

end
