(* ===== verification/Encoding.thy ===== *)
theory Encoding
  imports Prelude
begin

text \<open>
  Text encodings of the platform that the source relies on: UTF-8 (\<open>TextEncoder\<close>,
  \<open>Buffer.byteLength\<close>) and \<open>JSON.stringify\<close> of a string and of an array of strings, with the
  facts that none of them maps two texts to the same output; splitting at a separator, and the
  insertion-ordered deduplication of a JavaScript \<open>Set\<close>.
\<close>

section \<open>UTF-8\<close>

text \<open>Code units below 128 are one byte, the others (below 256 here) two bytes.\<close>

definition utf8_char :: "char \<Rightarrow> string" where
  "utf8_char c =
     (if code c < 128 then [c]
      else [char_of (192 + code c div 64), char_of (128 + code c mod 64)])"

definition utf8 :: "string \<Rightarrow> string" where
  "utf8 s = concat (map utf8_char s)"

definition utf8_length :: "string \<Rightarrow> nat" where
  "utf8_length s = length (utf8 s)"

lemma utf8_Nil [simp]: "utf8 [] = []"
  by (simp add: utf8_def)

lemma utf8_Cons [simp]: "utf8 (c # s) = utf8_char c @ utf8 s"
  by (simp add: utf8_def)

lemma utf8_append [simp]: "utf8 (s @ t) = utf8 s @ utf8 t"
  by (simp add: utf8_def)

lemma utf8_char_ne_Nil [simp]: "utf8_char c \<noteq> []"
  by (simp add: utf8_char_def)

lemma utf8_char_prefix_free:
  assumes "utf8_char c @ s = utf8_char d @ t"
  shows "c = d \<and> s = t"
proof -
  have two: "code (char_of (192 + code x div 64)) = 192 + code x div 64"
    "code (char_of (128 + code x mod 64)) = 128 + code x mod 64" for x
    using code_less_256 [of x] by (simp_all add: code_char_of)
  have "c = d" if "\<not> code c < 128" "\<not> code d < 128"
  proof -
    from that assms have "char_of (192 + code c div 64) = (char_of (192 + code d div 64) :: char)"
      and "char_of (128 + code c mod 64) = (char_of (128 + code d mod 64) :: char)"
      by (simp_all add: utf8_char_def)
    then have "code c div 64 = code d div 64" and "code c mod 64 = code d mod 64"
      using two [of c] two [of d] by (metis add_left_cancel)+
    then have "code c = code d" by (metis div_mult_mod_eq)
    then show ?thesis by (simp add: code_inject)
  qed
  moreover have "c = d" if "code c < 128" "code d < 128"
    using that assms by (simp add: utf8_char_def)
  moreover have False if "code c < 128" "\<not> code d < 128"
    using that assms two(1) [of d] by (auto simp: utf8_char_def)
  moreover have False if "\<not> code c < 128" "code d < 128"
    using that assms two(1) [of c] by (auto simp: utf8_char_def)
  ultimately have "c = d" by blast
  with assms show ?thesis by simp
qed

lemma utf8_inject: "utf8 s = utf8 t \<longleftrightarrow> s = t"
proof
  show "utf8 s = utf8 t \<Longrightarrow> s = t"
  proof (induction s arbitrary: t)
    case Nil
    then show ?case by (cases t) auto
  next
    case (Cons c s)
    then obtain d u where t: "t = d # u" by (cases t) auto
    with Cons.prems have "utf8_char c @ utf8 s = utf8_char d @ utf8 u" by simp
    then have "c = d" and "utf8 s = utf8 u" by (auto dest: utf8_char_prefix_free)
    with Cons.IH t show ?case by simp
  qed
qed simp

lemma utf8_ascii: "list_all (\<lambda>c. code c < 128) s \<Longrightarrow> utf8 s = s"
  by (induction s) (auto simp: utf8_char_def)

lemma length_le_utf8_length: "length s \<le> utf8_length s"
  by (induction s) (auto simp: utf8_length_def utf8_char_def)

section \<open>JSON string literals\<close>

definition hex_digit :: "nat \<Rightarrow> char" where
  "hex_digit n = (if n < 10 then char_of (48 + n) else char_of (87 + n))"

text \<open>The escapes of \<open>JSON.stringify\<close>: the two-character ones, \<open>\u00xx\<close> for the other control
  characters, everything else as it is.\<close>

definition json_char :: "char \<Rightarrow> string" where
  "json_char c =
     (if code c = 34 then [CHR 0x5C, CHR 0x22]
      else if code c = 92 then [CHR 0x5C, CHR 0x5C]
      else if code c = 8 then [CHR 0x5C, CHR ''b'']
      else if code c = 9 then [CHR 0x5C, CHR ''t'']
      else if code c = 10 then [CHR 0x5C, CHR ''n'']
      else if code c = 12 then [CHR 0x5C, CHR ''f'']
      else if code c = 13 then [CHR 0x5C, CHR ''r'']
      else if code c < 32
        then CHR 0x5C # ''u00'' @ [hex_digit (code c div 16), hex_digit (code c mod 16)]
      else [c])"

definition quote_mark :: char where
  "quote_mark = CHR 0x22"

definition json_quote :: "string \<Rightarrow> string" where
  "json_quote s = quote_mark # concat (map json_char s) @ [quote_mark]"

text \<open>Separator-joined texts, as \<open>Array.prototype.join\<close> builds them.\<close>

fun join_with :: "string \<Rightarrow> string list \<Rightarrow> string" where
  "join_with sep [] = []"
| "join_with sep [x] = x"
| "join_with sep (x # y # ys) = x @ sep @ join_with sep (y # ys)"

text \<open>\<open>JSON.stringify(ss)\<close> for an array of strings.\<close>

definition json_string_array :: "string list \<Rightarrow> string" where
  "json_string_array ss = ''['' @ join_with '','' (map json_quote ss) @ '']''"

lemma code_quote_mark [simp]: "code quote_mark = 34"
  by (simp add: quote_mark_def code_def)

text \<open>Reading one unit back: the inverse of \<^const>\<open>json_char\<close> on a longer text.\<close>

definition hex_value :: "char \<Rightarrow> nat" where
  "hex_value c = (if code c < 58 then code c - 48 else code c - 87)"

definition simple_escapes :: "(char \<times> nat) list" where
  "simple_escapes = [(CHR 0x22, 34), (CHR 0x5C, 92), (CHR ''b'', 8),
     (CHR ''t'', 9), (CHR ''n'', 10), (CHR ''f'', 12), (CHR ''r'', 13)]"

fun json_unit :: "string \<Rightarrow> (char \<times> string) option" where
  "json_unit [] = None"
| "json_unit (a # r) =
     (if code a \<noteq> 92 then Some (a, r)
      else case r of
        [] \<Rightarrow> None
      | b # r' \<Rightarrow>
          (case map_of simple_escapes b of
             Some n \<Rightarrow> Some (char_of n, r')
           | None \<Rightarrow>
               (case r' of
                  _ # _ # h # l # r'' \<Rightarrow> Some (char_of (16 * hex_value h + hex_value l), r'')
                | _ \<Rightarrow> None)))"

lemma code_backslash [simp]: "code CHR 0x5C = 92"
  by (simp add: code_def)

lemma hex_value_hex_digit [simp]: "n < 16 \<Longrightarrow> hex_value (hex_digit n) = n"
  by (auto simp: hex_value_def hex_digit_def code_char_of)

lemma json_unit_json_char: "json_unit (json_char c @ r) = Some (c, r)"
proof -
  have esc: "json_unit (CHR 0x5C # b # r) = Some (c, r)"
    if "map_of simple_escapes b = Some (code c)" for b
    using that by (simp add: code_def)
  have ctl: "json_unit (json_char c @ r) = Some (c, r)"
    if "code c < 32" "code c \<notin> {8, 9, 10, 12, 13}"
    using that by (simp add: json_char_def simple_escapes_def code_char_of)
  show ?thesis
    using esc [of "CHR 0x22"] esc [of "CHR 0x5C"] esc [of "CHR ''b''"]
      esc [of "CHR ''t''"] esc [of "CHR ''n''"] esc [of "CHR ''f''"] esc [of "CHR ''r''"] ctl
    by (simp add: json_char_def simple_escapes_def code_def split: if_splits)
qed

lemma json_char_prefix_free:
  assumes "json_char c @ r = json_char d @ s"
  shows "c = d \<and> r = s"
proof -
  have "Some (c, r) = Some (d, s)"
    using assms by (metis json_unit_json_char)
  then show ?thesis by simp
qed

lemma json_char_not_quote: "json_char c @ r \<noteq> quote_mark # s"
proof
  assume eq: "json_char c @ r = quote_mark # s"
  have "json_unit (quote_mark # s) = Some (quote_mark, s)" by simp
  then have "c = quote_mark" and "r = s"
    using json_unit_json_char [of c r] by (simp_all add: eq)
  then show False using eq by (simp add: json_char_def)
qed

lemma json_body_prefix_free:
  "concat (map json_char s) @ quote_mark # r = concat (map json_char t) @ quote_mark # u
     \<Longrightarrow> s = t \<and> r = u"
proof (induction s arbitrary: t)
  case Nil
  then show ?case using json_char_not_quote by (cases t) (auto, metis)
next
  case (Cons c s)
  show ?case
  proof (cases t)
    case Nil
    with Cons.prems show ?thesis using json_char_not_quote [of c] by simp
  next
    case (Cons d t')
    with Cons.prems have "c = d \<and> concat (map json_char s) @ quote_mark # r
        = concat (map json_char t') @ quote_mark # u"
      by (intro json_char_prefix_free) simp
    with Cons.IH [of t'] Cons show ?thesis by simp
  qed
qed

lemma json_quote_prefix_free:
  "json_quote s @ r = json_quote t @ u \<Longrightarrow> s = t \<and> r = u"
  by (rule json_body_prefix_free) (simp add: json_quote_def)

lemma json_quote_inject: "json_quote s = json_quote t \<longleftrightarrow> s = t"
  using json_quote_prefix_free [of s "[]" t "[]"] by auto

lemma json_quote_list_inject:
  assumes "length ss = length ts"
    and "join_with '','' (map json_quote ss) @ x = join_with '','' (map json_quote ts) @ y"
  shows "ss = ts \<and> x = y"
  using assms
proof (induction ss ts arbitrary: x y rule: list_induct2)
  case Nil
  then show ?case by simp
next
  case (Cons a as b bs)
  have step: "join_with '','' (map json_quote (c # cs)) @ z =
      json_quote c @ (if cs = [] then z else '','' @ join_with '','' (map json_quote cs) @ z)"
    for c cs z
    by (cases cs) auto
  from Cons.prems have "a = b" and
    "(if as = [] then x else '','' @ join_with '','' (map json_quote as) @ x) =
     (if bs = [] then y else '','' @ join_with '','' (map json_quote bs) @ y)"
    unfolding step by (auto dest: json_quote_prefix_free)
  with Cons.IH [of x y] Cons.hyps show ?case by (auto split: if_splits)
qed

text \<open>Two arrays of the same length with the same JSON text are the same array.\<close>

lemma json_string_array_inject:
  "length ss = length ts \<Longrightarrow> json_string_array ss = json_string_array ts \<longleftrightarrow> ss = ts"
  using json_quote_list_inject [of ss ts "'']''" "'']''"] by (auto simp: json_string_array_def)

section \<open>Splitting at a separator\<close>

fun split_on :: "char \<Rightarrow> string \<Rightarrow> string list" where
  "split_on c [] = [[]]"
| "split_on c (x # xs) =
     (if x = c then [] # split_on c xs
      else case split_on c xs of [] \<Rightarrow> [[x]] | y # ys \<Rightarrow> (x # y) # ys)"

lemma split_on_ne_Nil [simp]: "split_on c s \<noteq> []"
  by (induction s) (auto split: list.split)

lemma split_on_no_sep: "list_all (\<lambda>x. x \<noteq> c) s \<Longrightarrow> split_on c s = [s]"
  by (induction s) auto

lemma split_on_append:
  "list_all (\<lambda>x. x \<noteq> c) s \<Longrightarrow> split_on c (s @ c # t) = s # split_on c t"
  by (induction s) auto

lemma split_on_segments: "g \<in> set (split_on c s) \<Longrightarrow> list_all (\<lambda>x. x \<noteq> c) g"
  by (induction s arbitrary: g) (auto split: if_splits list.splits)

lemma concat_split_on: "concat (map (\<lambda>g. c # g) (split_on c s)) = c # s"
  by (induction s) (auto split: list.split)

lemma split_on_concat:
  assumes "gs \<noteq> []" and "\<forall>g \<in> set gs. list_all (\<lambda>x. x \<noteq> c) g"
    and "c # s = concat (map (\<lambda>g. c # g) gs)"
  shows "split_on c s = gs"
  using assms
proof (induction gs arbitrary: s)
  case Nil
  then show ?case by simp
next
  case (Cons g gs)
  show ?case
  proof (cases gs)
    case Nil
    with Cons.prems show ?thesis by (simp add: split_on_no_sep)
  next
    case (Cons h hs)
    define r where "r = h @ concat (map (\<lambda>g. c # g) hs)"
    with Cons Cons.prems have s: "s = g @ c # r" by simp
    have "split_on c r = gs"
      by (rule Cons.IH) (use Cons Cons.prems r_def in auto)
    with s Cons.prems(2) show ?thesis by (simp add: split_on_append)
  qed
qed

section \<open>Insertion-ordered deduplication\<close>

text \<open>The elements of \<open>new Set(xs)\<close>, in insertion order: the first occurrence stays.\<close>

definition dedup :: "'a list \<Rightarrow> 'a list" where
  "dedup xs = rev (remdups (rev xs))"

lemma set_dedup [simp]: "set (dedup xs) = set xs"
  by (simp add: dedup_def)

lemma distinct_dedup [simp]: "distinct (dedup xs)"
  by (simp add: dedup_def)

lemma dedup_Nil [simp]: "dedup [] = []"
  by (simp add: dedup_def)

lemma dedup_eq_Nil [simp]: "dedup xs = [] \<longleftrightarrow> xs = []"
  by (simp add: dedup_def)

end
