(* ===== verification/Platform.thy ===== *)
theory Platform
  imports Prelude Encoding "HOL-Library.List_Lexorder" "HOL-Library.Char_ord"
begin

text \<open>
  Code outside the repository, as one record of functions that the definitions take as an
  argument: the Solana address and Ed25519 libraries, RFC 8785 canonicalization, SHA-256, the URL
  parser, and \<open>parseJson\<close>, the reading of JSON text from bytes (\<open>None\<close> where it throws; the double
  arithmetic of its numbers is the runtime's).  The predicates below name the documented behaviour that some theorems rely on;
  \<open>jnorm\<close> says when two JSON values are the same up to the order of object keys, which is all
  that canonicalization forgets.

  An address and a signature are their base58 texts; a message is the list of its bytes.  A
  signing key is named by a text.
\<close>

type_synonym address = string
type_synonym bytes = string
type_synonym signing_key = string

text \<open>The parts of a parsed URL that the source reads; \<open>url_text\<close> is \<open>url.toString()\<close>.\<close>

record url_parts =
  url_protocol :: string
  url_username :: string
  url_password :: string
  url_search :: string
  url_hash :: string
  url_pathname :: string
  url_text :: string

record platform =
  isAddress :: "string \<Rightarrow> bool"
  isSignature :: "string \<Rightarrow> bool"
  importable :: "address \<Rightarrow> bool"
  verifyRaw :: "address \<Rightarrow> string \<Rightarrow> bytes \<Rightarrow> bool"
  keyAddress :: "signing_key \<Rightarrow> address"
  signRaw :: "signing_key \<Rightarrow> bytes \<Rightarrow> string"
  canonicalize :: "jsval \<Rightarrow> string option"
  sha256 :: "bytes \<Rightarrow> string"
  parseUrl :: "string \<Rightarrow> url_parts option"
  parseJson :: "bytes \<Rightarrow> jsval option"

section \<open>JSON values up to key order\<close>

fun json_value :: "jsval \<Rightarrow> bool" where
  "json_value JUndef = False"
| "json_value (JNonInt _) = False"
| "json_value (JArr vs) = (\<forall>v \<in> set vs. json_value v)"
| "json_value (JObj kvs) = (distinct (map fst kvs) \<and> (\<forall>kv \<in> set kvs. json_value (snd kv)))"
| "json_value _ = True"

fun jnorm :: "jsval \<Rightarrow> jsval" where
  "jnorm (JArr vs) = JArr (map jnorm vs)"
| "jnorm (JObj kvs) = JObj (sort_key fst (map (\<lambda>kv. (fst kv, jnorm (snd kv))) kvs))"
| "jnorm v = v"

lemma map_of_sort_key:
  assumes "distinct (map fst xs)"
  shows "map_of (sort_key fst xs) = map_of xs"
proof (rule map_of_eqI)
  show "set (map fst (sort_key fst xs)) = set (map fst xs)" by simp
  have "distinct (map fst (sort_key fst xs))"
    using assms by (metis distinct_map distinct_sort inj_on_cong set_sort)
  then show "\<forall>k\<in>set (map fst (sort_key fst xs)). map_of (sort_key fst xs) k = map_of xs k"
    using assms by (metis map_of_eq_Some_iff map_of_SomeD map_of_is_SomeI set_sort
      weak_map_of_SomeI option.exhaust)
qed

lemma distinct_sort_key: "distinct (map fst (sort_key fst xs)) \<longleftrightarrow> distinct (map fst xs)"
  by (induction xs) (auto simp: distinct_insort_key)

lemma map_of_map_snd: "map_of (map (\<lambda>kv. (fst kv, f (snd kv))) xs) k = map_option f (map_of xs k)"
  by (induction xs) auto

lemma jget_jnorm:
  assumes "distinct (map fst kvs)"
  shows "jget (jnorm (JObj kvs)) k = jnorm (jget (JObj kvs) k)"
proof -
  have "distinct (map fst (map (\<lambda>kv. (fst kv, jnorm (snd kv))) kvs))"
    using assms by (simp add: comp_def)
  then show ?thesis
    by (simp add: map_of_sort_key map_of_map_snd split: option.split)
qed

text \<open>Values with the same normal form agree on every property.\<close>

lemma jnorm_jget_cong:
  assumes "jnorm (JObj a) = jnorm (JObj b)" "distinct (map fst a)" "distinct (map fst b)"
  shows "jnorm (jget (JObj a) k) = jnorm (jget (JObj b) k)"
  using assms jget_jnorm [of a k] jget_jnorm [of b k] by simp

lemma jnorm_JStr_iff [simp]: "jnorm (JStr s) = jnorm (JStr t) \<longleftrightarrow> s = t"
  by simp

section \<open>Documented behaviour of the platform\<close>

text \<open>Ed25519: what a key signs verifies under its own address.\<close>

definition signatures_verify :: "platform \<Rightarrow> bool" where
  "signatures_verify px \<longleftrightarrow>
     (\<forall>k m. isAddress px (keyAddress px k) \<and> importable px (keyAddress px k)
        \<and> isSignature px (signRaw px k m) \<and> verifyRaw px (keyAddress px k) (signRaw px k m) m)"

text \<open>RFC 8785: every JSON value has a canonical text, and it determines the value up to key order.\<close>

definition canonical_total :: "platform \<Rightarrow> bool" where
  "canonical_total px \<longleftrightarrow> (\<forall>v. json_value v \<longrightarrow> canonicalize px v \<noteq> None)"

definition canonical_faithful :: "platform \<Rightarrow> bool" where
  "canonical_faithful px \<longleftrightarrow>
     (\<forall>v w. json_value v \<longrightarrow> json_value w \<longrightarrow> canonicalize px v = canonicalize px w
        \<longrightarrow> jnorm v = jnorm w)"

text \<open>JSON text read back: parsing the canonical text of a value gives that value up to key order.\<close>

definition json_reads_back :: "platform \<Rightarrow> bool" where
  "json_reads_back px \<longleftrightarrow>
     (\<forall>v s. json_value v \<longrightarrow> canonicalize px v = Some s \<longrightarrow>
        (\<exists>w. parseJson px (utf8 s) = Some w \<and> json_value w \<and> jnorm w = jnorm v))"

text \<open>SHA-256 does not collide on the given messages.\<close>

definition collision_free_on :: "platform \<Rightarrow> bytes set \<Rightarrow> bool" where
  "collision_free_on px M \<longleftrightarrow> inj_on (sha256 px) M"

lemma canonical_faithfulD:
  "canonical_faithful px \<Longrightarrow> json_value v \<Longrightarrow> json_value w
     \<Longrightarrow> canonicalize px v = canonicalize px w \<Longrightarrow> jnorm v = jnorm w"
  unfolding canonical_faithful_def by blast

lemma canonical_totalD:
  "canonical_total px \<Longrightarrow> json_value v \<Longrightarrow> \<exists>s. canonicalize px v = Some s"
  by (auto simp: canonical_total_def)

section \<open>Domain-separated digests\<close>

text \<open>\<open>canonicalBytes(prefix, value)\<close> (packages/mandate/src/canonical.ts): the UTF-8 bytes of the
  prefix and the canonical text; \<open>None\<close> is the thrown error for a value without one.\<close>

definition canonicalBytes :: "platform \<Rightarrow> string \<Rightarrow> jsval \<Rightarrow> bytes option" where
  "canonicalBytes px prefix v = map_option (\<lambda>s. utf8 (prefix @ s)) (canonicalize px v)"

definition sha256Hex :: "platform \<Rightarrow> bytes \<Rightarrow> string" where
  "sha256Hex px b = sha256 px b"

definition canonicalDigest :: "platform \<Rightarrow> string \<Rightarrow> jsval \<Rightarrow> string option" where
  "canonicalDigest px prefix v = map_option (sha256Hex px) (canonicalBytes px prefix v)"

lemma canonicalBytes_total:
  "canonical_total px \<Longrightarrow> json_value v \<Longrightarrow> \<exists>b. canonicalBytes px prefix v = Some b"
  by (auto simp: canonicalBytes_def dest: canonical_totalD)

lemma canonicalBytes_inject:
  assumes "canonical_faithful px" "json_value v" "json_value w"
    and "canonicalBytes px prefix v = Some b" "canonicalBytes px prefix w = Some b"
  shows "jnorm v = jnorm w"
proof -
  from assms(4,5) have "canonicalize px v = canonicalize px w"
    by (auto simp: canonicalBytes_def utf8_inject)
  with assms(1-3) show ?thesis by (rule canonical_faithfulD)
qed

text \<open>The messages hashed for a set of values; equal digests of values on whose messages the hash
  does not collide come from equal values.\<close>

definition digest_inputs :: "platform \<Rightarrow> string \<Rightarrow> jsval set \<Rightarrow> bytes set" where
  "digest_inputs px prefix V = {b. \<exists>v \<in> V. canonicalBytes px prefix v = Some b}"

lemma canonicalDigest_inject:
  assumes "canonical_total px" "canonical_faithful px" "json_value v" "json_value w"
    and "collision_free_on px (digest_inputs px prefix {v, w})"
    and "canonicalDigest px prefix v = canonicalDigest px prefix w"
  shows "jnorm v = jnorm w"
proof -
  obtain b c where b: "canonicalBytes px prefix v = Some b" and c: "canonicalBytes px prefix w = Some c"
    using canonicalBytes_total assms(1,3,4) by blast
  with assms(6) have "sha256 px b = sha256 px c"
    by (simp add: canonicalDigest_def sha256Hex_def)
  moreover have "b \<in> digest_inputs px prefix {v, w}" "c \<in> digest_inputs px prefix {v, w}"
    using b c by (auto simp: digest_inputs_def)
  ultimately have "b = c"
    using assms(5) by (auto simp: collision_free_on_def dest: inj_onD)
  with b c assms(2-4) show ?thesis by (blast intro: canonicalBytes_inject)
qed

lemma canonicalDigest_total:
  "canonical_total px \<Longrightarrow> json_value v \<Longrightarrow> \<exists>d. canonicalDigest px prefix v = Some d"
  using canonicalBytes_total [of px v prefix] by (auto simp: canonicalDigest_def)

end
