(* ===== verification/Decimal.thy ===== *)
theory Decimal
  imports Prelude
begin

text \<open>
  Atomic amounts.  The source keeps every amount as a canonical decimal string and computes with
  \<open>BigInt\<close>: \<open>BigInt(s)\<close> is \<open>dec s\<close>, \<open>n.toString()\<close> is \<open>show_nat n\<close>, and the pattern
  \<open>^(0|[1-9][0-9]{0,19})$\<close> is \<open>atomic_pattern\<close>.  The lemmas give the round trips between
  the two, and that every u64 value has a canonical text of at most 20 digits.
\<close>

definition digit_val :: "char \<Rightarrow> nat" where
  "digit_val c = code c - 48"

definition digit_char :: "nat \<Rightarrow> char" where
  "digit_char d = char_of (48 + d)"

definition dec :: "string \<Rightarrow> nat" where
  "dec s = foldl (\<lambda>n c. 10 * n + digit_val c) 0 s"

fun show_nat :: "nat \<Rightarrow> string" where
  "show_nat n = (if n < 10 then [digit_char n] else show_nat (n div 10) @ [digit_char (n mod 10)])"

declare show_nat.simps [simp del]

fun atomic_pattern :: "string \<Rightarrow> bool" where
  "atomic_pattern [] = False"
| "atomic_pattern (c # cs) =
     (if c = CHR ''0'' then cs = []
      else is_digit c \<and> length cs \<le> 19 \<and> list_all is_digit cs)"

text \<open>Largest SPL token amount (u64).\<close>

definition MAX_U64 :: nat where
  "MAX_U64 = 18446744073709551615"

section \<open>Digits\<close>

lemma code_digit_char: "d < 10 \<Longrightarrow> code (digit_char d) = 48 + d"
  by (simp add: digit_char_def code_char_of)

lemma digit_val_digit_char [simp]: "d < 10 \<Longrightarrow> digit_val (digit_char d) = d"
  by (simp add: digit_val_def code_digit_char)

lemma is_digit_digit_char [simp]: "d < 10 \<Longrightarrow> is_digit (digit_char d)"
  by (simp add: is_digit_def code_digit_char)

lemma digit_val_less_10: "is_digit c \<Longrightarrow> digit_val c < 10"
  by (auto simp: is_digit_def digit_val_def)

lemma digit_char_digit_val [simp]: "is_digit c \<Longrightarrow> digit_char (digit_val c) = c"
  by (auto simp: is_digit_def digit_char_def digit_val_def)

lemma code_0 [simp]: "code CHR ''0'' = 48"
  by (simp add: code_def)

lemma digit_val_0 [simp]: "digit_val CHR ''0'' = 0"
  by (simp add: digit_val_def)

lemma is_digit_0 [simp]: "is_digit CHR ''0''"
  by (simp add: is_digit_def)

lemma digit_char_0_iff: "d < 10 \<Longrightarrow> digit_char d = CHR ''0'' \<longleftrightarrow> d = 0"
  using code_digit_char [of d] code_digit_char [of 0]
  by (metis add.right_neutral add_left_cancel code_0 code_inject zero_less_numeral)

lemma digit_char_0 [simp]: "digit_char 0 = CHR ''0''"
  by (simp add: digit_char_0_iff)

lemma digit_val_0_iff: "is_digit c \<Longrightarrow> digit_val c = 0 \<longleftrightarrow> c = CHR ''0''"
  by (metis digit_char_0 digit_char_digit_val digit_val_0)

section \<open>Reading and printing\<close>

lemma dec_Nil [simp]: "dec [] = 0"
  by (simp add: dec_def)

lemma dec_snoc [simp]: "dec (s @ [c]) = 10 * dec s + digit_val c"
  by (simp add: dec_def)

lemma dec_singleton [simp]: "dec [c] = digit_val c"
  by (simp add: dec_def)

lemma dec_show_nat [simp]: "dec (show_nat n) = n"
proof (induction n rule: show_nat.induct)
  case (1 n)
  show ?case
  proof (cases "n < 10")
    case True
    then show ?thesis by (subst show_nat.simps) simp
  next
    case False
    with 1 show ?thesis by (subst show_nat.simps) simp
  qed
qed

lemma show_nat_inject: "show_nat m = show_nat n \<longleftrightarrow> m = n"
  by (metis dec_show_nat)

lemma show_nat_ne_Nil [simp]: "show_nat n \<noteq> []"
  by (subst show_nat.simps) simp

lemma show_nat_digits: "list_all is_digit (show_nat n)"
proof (induction n rule: show_nat.induct)
  case (1 n)
  then show ?case by (subst show_nat.simps) simp
qed

lemma hd_show_nat: "hd (show_nat n) = CHR ''0'' \<longleftrightarrow> n = 0"
proof (induction n rule: show_nat.induct)
  case (1 n)
  show ?case
  proof (cases "n < 10")
    case True
    then show ?thesis by (subst show_nat.simps) (simp add: digit_char_0_iff)
  next
    case False
    with 1 show ?thesis by (subst show_nat.simps) simp
  qed
qed

lemma show_nat_0 [simp]: "show_nat 0 = ''0''"
  by (subst show_nat.simps) simp

lemma length_show_nat: "n < 10 ^ Suc k \<Longrightarrow> length (show_nat n) \<le> Suc k"
proof (induction k arbitrary: n)
  case 0
  then show ?case by (subst show_nat.simps) simp
next
  case (Suc k)
  show ?case
  proof (cases "n < 10")
    case True
    then show ?thesis by (subst show_nat.simps) simp
  next
    case False
    from Suc.prems have "n div 10 < 10 ^ Suc k"
      by (simp add: less_mult_imp_div_less)
    then have "length (show_nat (n div 10)) \<le> Suc k" by (rule Suc.IH)
    with False show ?thesis by (subst show_nat.simps) simp
  qed
qed

lemma atomic_pattern_show_nat: "n < 10 ^ 20 \<Longrightarrow> atomic_pattern (show_nat n)"
proof -
  assume "n < 10 ^ 20"
  then have len: "length (show_nat n) \<le> 20"
    using length_show_nat [of n 19] by simp
  obtain c cs where s: "show_nat n = c # cs"
    by (cases "show_nat n") auto
  have "cs = []" if "c = CHR ''0''"
    using hd_show_nat [of n] s that by simp
  then show ?thesis
    using s len show_nat_digits [of n] by auto
qed

lemma atomic_pattern_u64: "n \<le> MAX_U64 \<Longrightarrow> atomic_pattern (show_nat n)"
  by (rule atomic_pattern_show_nat) (simp add: MAX_U64_def)

section \<open>Canonical text is the printed value\<close>

definition canonical_digits :: "string \<Rightarrow> bool" where
  "canonical_digits s \<longleftrightarrow> s \<noteq> [] \<and> list_all is_digit s \<and> (hd s = CHR ''0'' \<longrightarrow> s = ''0'')"

lemma atomic_pattern_iff: "atomic_pattern s \<longleftrightarrow> canonical_digits s \<and> length s \<le> 20"
  by (cases s) (auto simp: canonical_digits_def)

lemma dec_eq_0: "canonical_digits s \<Longrightarrow> dec s = 0 \<Longrightarrow> s = ''0''"
proof (induction s rule: rev_induct)
  case Nil
  then show ?case by (simp add: canonical_digits_def)
next
  case (snoc c s)
  show ?case
  proof (cases "s = []")
    case True
    with snoc.prems show ?thesis by (auto simp: canonical_digits_def digit_val_0_iff)
  next
    case False
    with snoc.prems(1) have "canonical_digits s" and "hd s \<noteq> CHR ''0''"
      by (auto simp: canonical_digits_def)
    with snoc show ?thesis by auto
  qed
qed

lemma show_nat_dec_digits: "canonical_digits s \<Longrightarrow> show_nat (dec s) = s"
proof (induction s rule: rev_induct)
  case Nil
  then show ?case by (simp add: canonical_digits_def)
next
  case (snoc c s)
  from snoc.prems have c: "is_digit c" by (simp add: canonical_digits_def)
  show ?case
  proof (cases "s = []")
    case True
    with c show ?thesis by (subst show_nat.simps) (simp add: digit_val_less_10)
  next
    case False
    with snoc.prems have s: "canonical_digits s" and "hd s \<noteq> CHR ''0''"
      by (auto simp: canonical_digits_def)
    then have "dec s \<noteq> 0" using dec_eq_0 by fastforce
    with snoc.IH [OF s] c show ?thesis
      by (subst show_nat.simps) (simp add: digit_val_less_10)
  qed
qed

lemma show_nat_dec: "atomic_pattern s \<Longrightarrow> show_nat (dec s) = s"
  by (simp add: atomic_pattern_iff show_nat_dec_digits)

lemma dec_inject: "atomic_pattern s \<Longrightarrow> atomic_pattern t \<Longrightarrow> dec s = dec t \<longleftrightarrow> s = t"
  by (metis show_nat_dec)

lemma dec_bound: "list_all is_digit s \<Longrightarrow> dec s < 10 ^ length s"
proof (induction s rule: rev_induct)
  case Nil
  then show ?case by simp
next
  case (snoc c s)
  then have "dec s < 10 ^ length s" and "digit_val c < 10"
    by (auto simp: digit_val_less_10)
  then show ?case by simp
qed

lemma dec_atomic_bound: "atomic_pattern s \<Longrightarrow> dec s < 10 ^ 20"
proof -
  assume s: "atomic_pattern s"
  then have "dec s < 10 ^ length s"
    by (auto simp: atomic_pattern_iff canonical_digits_def intro: dec_bound)
  also have "(10::nat) ^ length s \<le> 10 ^ 20"
    using s by (intro power_increasing) (auto simp: atomic_pattern_iff)
  finally show ?thesis .
qed

end
