(* ===== verification/Transport_Encoding.thy ===== *)
theory Transport_Encoding
  imports Encoding
begin

text \<open>
  Encodings of the Node runtime used for HTTP headers and bodies: base64, base64url without padding
  (\<open>Buffer.toString("base64url")\<close>, \<open>Buffer.from(s, "base64url")\<close>) and the decoding of UTF-8, with
  their round trips.
\<close>

section \<open>base64url\<close>

definition b64_digit :: "nat \<Rightarrow> char" where
  "b64_digit n = (if n < 26 then char_of (65 + n) else if n < 52 then char_of (71 + n)
     else if n < 62 then char_of (n - 4) else if n = 62 then CHR ''-'' else CHR ''_'')"

definition b64_value :: "char \<Rightarrow> nat" where
  "b64_value c = (if is_upper c then code c - 65 else if is_lower c then code c - 71
     else if is_digit c then code c + 4 else if c = CHR ''-'' then 62 else 63)"

definition is_b64url_char :: "char \<Rightarrow> bool" where
  "is_b64url_char c \<longleftrightarrow> is_alnum c \<or> c = CHR ''_'' \<or> c = CHR ''-''"

fun base64url_encode :: "string \<Rightarrow> string" where
  "base64url_encode [] = []"
| "base64url_encode [a] = [b64_digit (code a div 4), b64_digit (code a mod 4 * 16)]"
| "base64url_encode [a, b] =
     [b64_digit (code a div 4), b64_digit (code a mod 4 * 16 + code b div 16), b64_digit (code b mod 16 * 4)]"
| "base64url_encode (a # b # c # r) =
     [b64_digit (code a div 4), b64_digit (code a mod 4 * 16 + code b div 16),
      b64_digit (code b mod 16 * 4 + code c div 64), b64_digit (code c mod 64)] @ base64url_encode r"

text \<open>A trailing single character carries no byte; surplus bits of the last one are ignored.\<close>

fun b64_bytes :: "nat list \<Rightarrow> string" where
  "b64_bytes (p # q # r # s # rest) =
     [char_of (p * 4 + q div 16), char_of (q mod 16 * 16 + r div 4), char_of (r mod 4 * 64 + s)] @ b64_bytes rest"
| "b64_bytes [p, q, r] = [char_of (p * 4 + q div 16), char_of (q mod 16 * 16 + r div 4)]"
| "b64_bytes [p, q] = [char_of (p * 4 + q div 16)]"
| "b64_bytes [p] = []"
| "b64_bytes [] = []"

definition base64url_decode :: "string \<Rightarrow> string" where
  "base64url_decode s = b64_bytes (map b64_value s)"

lemma b64_digit_code: "n < 64 \<Longrightarrow> code (b64_digit n) =
    (if n < 26 then 65 + n else if n < 52 then 71 + n else if n < 62 then n - 4 else if n = 62 then 45 else 95)"
  by (simp add: b64_digit_def code_char_of code_def [of "CHR ''-''"] code_def [of "CHR ''_''"])

lemma b64_value_digit: "n < 64 \<Longrightarrow> b64_value (b64_digit n) = n"
proof -
  assume n: "n < 64"
  have "b64_digit n = CHR ''-'' \<longleftrightarrow> code (b64_digit n) = 45" "b64_digit n = CHR ''_'' \<longleftrightarrow> code (b64_digit n) = 95"
    unfolding code_inject [symmetric] by (simp_all add: code_def [of "CHR ''-''"] code_def [of "CHR ''_''"])
  then show ?thesis
    using n b64_digit_code [OF n] unfolding b64_value_def is_upper_def is_lower_def is_digit_def by auto
qed

lemma b64_digit_char: "n < 64 \<Longrightarrow> is_b64url_char (b64_digit n)"
proof -
  assume n: "n < 64"
  have "b64_digit n = CHR ''-'' \<longleftrightarrow> code (b64_digit n) = 45" "b64_digit n = CHR ''_'' \<longleftrightarrow> code (b64_digit n) = 95"
    unfolding code_inject [symmetric] by (simp_all add: code_def [of "CHR ''-''"] code_def [of "CHR ''_''"])
  then show ?thesis
    using n b64_digit_code [OF n]
    unfolding is_b64url_char_def is_alnum_def is_upper_def is_lower_def is_digit_def by auto
qed

lemma byte_parts:
  "code a div 4 < 64" "code a mod 4 * 16 + code b div 16 < 64" "code b mod 16 * 4 + code c div 64 < 64"
  "code c mod 64 < 64" "code a mod 4 * 16 < 64" "code b mod 16 * 4 < 64"
proof -
  have "code b div 16 < 16" "code c div 64 < 4" "code a div 4 < 64"
    using code_less_256 [of a] code_less_256 [of b] code_less_256 [of c] by (simp_all add: div_less_iff_less_mult)
  moreover have "code a mod 4 < 4" "code b mod 16 < 16" by simp_all
  ultimately show "code a div 4 < 64" "code a mod 4 * 16 + code b div 16 < 64"
    "code b mod 16 * 4 + code c div 64 < 64" "code a mod 4 * 16 < 64" "code b mod 16 * 4 < 64"
    by linarith+
qed simp

lemma byte_rests:
  "code b div 16 div 16 = 0" "code b div 16 mod 16 = code b div 16"
  "code c div 64 div 4 = 0" "code c div 64 mod 4 = code c div 64"
  using code_less_256 [of b] code_less_256 [of c]
  by (simp_all add: div_mult2_eq [symmetric] div_less_iff_less_mult)

lemma base64url_roundtrip: "base64url_decode (base64url_encode bs) = bs"
  by (induction bs rule: base64url_encode.induct)
    (simp_all add: base64url_decode_def b64_value_digit byte_parts byte_rests)

lemma base64url_inject: "base64url_encode a = base64url_encode b \<longleftrightarrow> a = b"
  using base64url_roundtrip by metis

lemma base64url_chars: "list_all is_b64url_char (base64url_encode bs)"
  by (induction bs rule: base64url_encode.induct) (simp_all add: b64_digit_char byte_parts)

lemma base64url_eq_Nil [simp]: "base64url_encode bs = [] \<longleftrightarrow> bs = []"
  by (cases bs rule: base64url_encode.cases) simp_all

section \<open>base64\<close>

text \<open>\<open>Buffer.toString("base64")\<close> and \<open>Buffer.from(s, "base64")\<close>: the other alphabet, with padding.  Decoding
  stops at the padding; it is given only texts over the alphabet.\<close>

definition url_to_std :: "char \<Rightarrow> char" where
  "url_to_std c = (if c = CHR ''-'' then CHR ''+'' else if c = CHR ''_'' then CHR ''/'' else c)"

definition std_to_url :: "char \<Rightarrow> char" where
  "std_to_url c = (if c = CHR ''+'' then CHR ''-'' else if c = CHR ''/'' then CHR ''_'' else c)"

definition base64_encode :: "string \<Rightarrow> string" where
  "base64_encode bs = map url_to_std (base64url_encode bs) @ replicate ((3 - length bs mod 3) mod 3) CHR ''=''"

definition base64_decode :: "string \<Rightarrow> string" where
  "base64_decode s = base64url_decode (map std_to_url (takeWhile (\<lambda>c. c \<noteq> CHR ''='') s))"

lemma std_url_char: "is_b64url_char c \<Longrightarrow> std_to_url (url_to_std c) = c \<and> url_to_std c \<noteq> CHR ''=''"
  by (auto simp: url_to_std_def std_to_url_def is_b64url_char_def is_alnum_def is_digit_def is_lower_def is_upper_def code_def)

lemma base64_roundtrip: "base64_decode (base64_encode bs) = bs"
proof -
  have "list_all (\<lambda>c. std_to_url (url_to_std c) = c \<and> url_to_std c \<noteq> CHR ''='') (base64url_encode bs)"
    using base64url_chars [of bs] std_url_char by (simp add: list_all_iff)
  then have "takeWhile (\<lambda>c. c \<noteq> CHR ''='') (base64_encode bs) = map url_to_std (base64url_encode bs)"
    and "map std_to_url (map url_to_std (base64url_encode bs)) = base64url_encode bs"
    by (auto simp: base64_encode_def list_all_iff takeWhile_append map_idI takeWhile_eq_all_conv)
  then show ?thesis unfolding base64_decode_def by (simp add: base64url_roundtrip)
qed

section \<open>Decoding UTF-8\<close>

text \<open>\<open>None\<close> for bytes that are not the encoding of a text of the model.\<close>

fun utf8_decode :: "string \<Rightarrow> string option" where
  "utf8_decode [] = Some []"
| "utf8_decode (a # r) =
     (if code a < 128 then map_option (Cons a) (utf8_decode r)
      else case r of
        b # r' \<Rightarrow>
          if (code a = 194 \<or> code a = 195) \<and> 128 \<le> code b \<and> code b < 192
          then map_option (Cons (char_of ((code a - 192) * 64 + (code b - 128)))) (utf8_decode r') else None
      | [] \<Rightarrow> None)"

lemma utf8_decode_utf8: "utf8_decode (utf8 s) = Some s"
proof (induction s)
  case (Cons c s)
  have "code c div 64 < 4" "code c mod 64 < 64" using code_less_256 [of c] by auto
  moreover have "2 \<le> code c div 64" if "\<not> code c < 128" using that by auto
  ultimately have "\<not> code c < 128 \<Longrightarrow> code c div 64 = 2 \<or> code c div 64 = 3" by linarith
  then consider "code c < 128" | "\<not> code c < 128" "code c div 64 = 2" "128 + code c mod 64 = code c"
    | "\<not> code c < 128" "code c div 64 = 3" "192 + code c mod 64 = code c"
    using div_mult_mod_eq [of "code c" 64] by fastforce
  then show ?case
    by cases (use Cons \<open>code c mod 64 < 64\<close> in \<open>simp_all add: utf8_char_def code_char_of\<close>)
qed simp

lemma utf8_decode_Some: "utf8_decode b = Some s \<Longrightarrow> utf8 s = b"
proof (induction b arbitrary: s rule: utf8_decode.induct)
  case (2 a r)
  show ?case
  proof (cases "code a < 128")
    case True
    with 2 show ?thesis by (auto simp: utf8_char_def)
  next
    case False
    then obtain b r' t where r: "r = b # r'" "code a = 194 \<or> code a = 195" "128 \<le> code b" "code b < 192"
      "utf8_decode r' = Some t" "s = char_of ((code a - 192) * 64 + (code b - 128)) # t"
      using 2(3) by (auto split: list.splits if_splits)
    have "utf8 t = r'" using 2(2) [OF False r(1)] r by blast
    moreover have "utf8_char (char_of ((code a - 192) * 64 + (code b - 128))) = [a, b]"
    proof -
      define n where "n = (code a - 192) * 64 + (code b - 128)"
      have "n < 256" "\<not> n < 128" "n div 64 = code a - 192" "n mod 64 = code b - 128"
        using r(2-4) by (auto simp: n_def mod_nat_eqI)
      then show ?thesis using r(2,3) unfolding n_def [symmetric] utf8_char_def
        by (auto simp: code_char_of)
    qed
    ultimately show ?thesis using r by simp
  qed
qed simp

lemma utf8_decode_iff: "utf8_decode b = Some s \<longleftrightarrow> b = utf8 s"
  using utf8_decode_utf8 utf8_decode_Some by blast

end
