(* ===== verification/Sample_Platform.thy ===== *)
theory Sample_Platform
  imports Platform Decimal Transport_Encoding
begin

text \<open>
  Concrete platforms on which the witnesses evaluate: a prefix-free JSON text, applied to the
  normal form, serves as canonicalization and satisfies the laws of \<open>Platform\<close>; a signature
  is the signing address followed by the message.  They only show that the hypotheses of the
  theorems can hold; no definition of the model depends on them.
\<close>

fun jtext :: "jsval \<Rightarrow> string" where
  "jtext JUndef = ''u''"
| "jtext JNull = ''n''"
| "jtext (JBool b) = (if b then ''t'' else ''f'')"
| "jtext (JInt i) = (if i < 0 then ''-'' else ''+'') @ json_quote (show_nat (nat \<bar>i\<bar>))"
| "jtext (JNonInt s) = ''x'' @ json_quote s"
| "jtext (JStr s) = ''s'' @ json_quote s"
| "jtext (JArr vs) = ''a'' @ concat (map (\<lambda>v. '','' @ jtext v) vs) @ ''.''"
| "jtext (JObj kvs) =
     ''o'' @ concat (map (\<lambda>kv. '','' @ json_quote (fst kv) @ jtext (snd kv)) kvs) @ ''.''"

lemma concat_units_inject:
  assumes "\<And>x y r s. x \<in> set xs \<Longrightarrow> f x @ r = f y @ s \<Longrightarrow> x = y \<and> r = s"
    and "concat (map (\<lambda>x. '','' @ f x) xs) @ ''.'' @ r = concat (map (\<lambda>x. '','' @ f x) ys) @ ''.'' @ s"
  shows "xs = ys \<and> r = s"
  using assms
proof (induction xs arbitrary: ys)
  case Nil
  then show ?case by (cases ys) auto
next
  case (Cons x xs)
  then obtain y zs where ys: "ys = y # zs" by (cases ys) auto
  with Cons.prems(2) have "f x @ concat (map (\<lambda>x. '','' @ f x) xs) @ ''.'' @ r
      = f y @ concat (map (\<lambda>x. '','' @ f x) zs) @ ''.'' @ s"
    by simp
  then have "x = y" and rest: "concat (map (\<lambda>x. '','' @ f x) xs) @ ''.'' @ r
      = concat (map (\<lambda>x. '','' @ f x) zs) @ ''.'' @ s"
    using Cons.prems(1) [of x] by auto
  have "xs = zs \<and> r = s"
    by (rule Cons.IH) (use Cons.prems(1) rest in auto)
  with \<open>x = y\<close> ys show ?case by simp
qed

lemma int_eq_of_sign: "(i < 0) = (j < 0) \<Longrightarrow> \<bar>i\<bar> = \<bar>j\<bar> \<Longrightarrow> i = (j::int)"
  by linarith

text \<open>The first character of a text tells the constructor.\<close>

fun jtag :: "jsval \<Rightarrow> char" where
  "jtag JUndef = CHR ''u''"
| "jtag JNull = CHR ''n''"
| "jtag (JBool b) = (if b then CHR ''t'' else CHR ''f'')"
| "jtag (JInt i) = (if i < 0 then CHR ''-'' else CHR ''+'')"
| "jtag (JNonInt s) = CHR ''x''"
| "jtag (JStr s) = CHR ''s''"
| "jtag (JArr vs) = CHR ''a''"
| "jtag (JObj kvs) = CHR ''o''"

fun jbody :: "jsval \<Rightarrow> string" where
  "jbody (JInt i) = json_quote (show_nat (nat \<bar>i\<bar>))"
| "jbody (JNonInt s) = json_quote s"
| "jbody (JStr s) = json_quote s"
| "jbody (JArr vs) = concat (map (\<lambda>v. '','' @ jtext v) vs) @ ''.''"
| "jbody (JObj kvs) =
     concat (map (\<lambda>kv. '','' @ json_quote (fst kv) @ jtext (snd kv)) kvs) @ ''.''"
| "jbody _ = []"

lemma jtext_tag_body: "jtext v = jtag v # jbody v"
  by (cases v) simp_all

lemma jtext_split:
  "jtext v @ r = jtext w @ s \<longleftrightarrow> jtag v = jtag w \<and> jbody v @ r = jbody w @ s"
  by (simp add: jtext_tag_body)

lemma jtag_cases:
  "jtag (JArr vs) = jtag w \<Longrightarrow> \<exists>ws. w = JArr ws"
  "jtag (JObj kvs) = jtag w \<Longrightarrow> \<exists>lws. w = JObj lws"
  "jtag (JStr t) = jtag w \<Longrightarrow> \<exists>u. w = JStr u"
  "jtag (JNonInt t) = jtag w \<Longrightarrow> \<exists>u. w = JNonInt u"
  "jtag (JInt i) = jtag w \<Longrightarrow> \<exists>j. w = JInt j \<and> (i < 0) = (j < 0)"
  "jtag (JBool b) = jtag w \<Longrightarrow> w = JBool b"
  "jtag JUndef = jtag w \<Longrightarrow> w = JUndef"
  "jtag JNull = jtag w \<Longrightarrow> w = JNull"
  by (cases w; simp split: if_splits)+

lemma jtext_prefix_free: "jtext v @ r = jtext w @ s \<Longrightarrow> v = w \<and> r = s"
proof (induction v arbitrary: w r s)
  case (JInt i)
  then obtain j where w: "w = JInt j" "(i < 0) = (j < 0)"
    unfolding jtext_split using jtag_cases(5) by blast
  then have "show_nat (nat \<bar>i\<bar>) = show_nat (nat \<bar>j\<bar>) \<and> r = s"
    using JInt unfolding jtext_split by (intro json_quote_prefix_free) simp
  with w show ?case by (auto simp: show_nat_inject intro: int_eq_of_sign)
next
  case (JArr vs)
  then obtain ws where w: "w = JArr ws"
    unfolding jtext_split using jtag_cases(1) by blast
  have eq: "concat (map (\<lambda>v. '','' @ jtext v) vs) @ ''.'' @ r
      = concat (map (\<lambda>v. '','' @ jtext v) ws) @ ''.'' @ s"
    using JArr.prems unfolding jtext_split w jbody.simps append_assoc by (rule conjunct2)
  have "vs = ws \<and> r = s"
    by (rule concat_units_inject [where f = jtext, OF JArr.IH eq])
  with w show ?case by simp
next
  case (JObj kvs)
  then obtain lws where w: "w = JObj lws"
    unfolding jtext_split using jtag_cases(2) by blast
  have unit: "kv = lw \<and> x = y"
    if "kv \<in> set kvs"
      and "(json_quote (fst kv) @ jtext (snd kv)) @ x = (json_quote (fst lw) @ jtext (snd lw)) @ y"
    for kv lw x y
  proof -
    from that(2) have "json_quote (fst kv) @ jtext (snd kv) @ x = json_quote (fst lw) @ jtext (snd lw) @ y"
      by simp
    from json_quote_prefix_free [OF this]
    have "fst kv = fst lw" and eq: "jtext (snd kv) @ x = jtext (snd lw) @ y" by blast+
    moreover have "snd kv \<in> Basic_BNFs.snds kv"
      by (cases kv) (simp add: prod_set_simps)
    then have "snd kv = snd lw \<and> x = y"
      using that(1) eq by (intro JObj.IH [of kv "snd kv"])
    ultimately show ?thesis by (simp add: prod_eq_iff)
  qed
  have eq: "concat (map (\<lambda>kv. '','' @ json_quote (fst kv) @ jtext (snd kv)) kvs) @ ''.'' @ r
      = concat (map (\<lambda>kv. '','' @ json_quote (fst kv) @ jtext (snd kv)) lws) @ ''.'' @ s"
    using JObj.prems unfolding jtext_split w jbody.simps append_assoc by (rule conjunct2)
  have "kvs = lws \<and> r = s"
    by (rule concat_units_inject [where f = "\<lambda>kv. json_quote (fst kv) @ jtext (snd kv)", OF unit eq])
  with w show ?case by simp
next
  case (JStr t)
  then obtain u where "w = JStr u" unfolding jtext_split using jtag_cases(3) by blast
  with JStr show ?case by (auto dest: json_quote_prefix_free)
next
  case (JNonInt t)
  then obtain u where "w = JNonInt u" unfolding jtext_split using jtag_cases(4) by blast
  with JNonInt show ?case by (auto dest: json_quote_prefix_free)
next
  case (JBool b)
  then have "w = JBool b" unfolding jtext_split using jtag_cases(6) by blast
  with JBool show ?case by simp
next
  case JUndef
  then have "w = JUndef" unfolding jtext_split using jtag_cases(7) by blast
  with JUndef show ?case by simp
next
  case JNull
  then have "w = JNull" unfolding jtext_split using jtag_cases(8) by blast
  with JNull show ?case by simp
qed

lemma jtext_inject: "jtext v = jtext w \<longleftrightarrow> v = w"
  using jtext_prefix_free [of v "[]" w "[]"] by auto

section \<open>Reading the sample text back\<close>

fun read_quoted :: "nat \<Rightarrow> string \<Rightarrow> (string \<times> string) option" where
  "read_quoted 0 t = None"
| "read_quoted (Suc n) [] = None"
| "read_quoted (Suc n) (c # t) =
     (if c = quote_mark then Some ([], t)
      else case json_unit (c # t) of None \<Rightarrow> None
        | Some (d, r) \<Rightarrow> map_option (\<lambda>(s, r'). (d # s, r')) (read_quoted n r))"

definition read_text :: "string \<Rightarrow> (string \<times> string) option" where
  "read_text t = (case t of [] \<Rightarrow> None | c # r \<Rightarrow> if c = quote_mark then read_quoted (Suc (length r)) r else None)"

lemma json_char_ne_Nil: "json_char c \<noteq> []"
  by (simp add: json_char_def)

lemma read_quoted_body: "length s < n \<Longrightarrow> read_quoted n (concat (map json_char s) @ quote_mark # r) = Some (s, r)"
proof (induction s arbitrary: n)
  case Nil
  then show ?case by (cases n) simp_all
next
  case (Cons c s)
  then obtain m where n: "n = Suc m" "length s < m" by (cases n) auto
  obtain d t where dt: "json_char c @ concat (map json_char s) @ quote_mark # r = d # t"
    using json_char_ne_Nil [of c] by (cases "json_char c") auto
  moreover have "d \<noteq> quote_mark"
    using json_char_not_quote [of c "concat (map json_char s) @ quote_mark # r"] dt by metis
  moreover have "json_unit (d # t) = Some (c, concat (map json_char s) @ quote_mark # r)"
    using json_unit_json_char dt by metis
  ultimately show ?case using Cons.IH [OF n(2)] n(1) by simp
qed

lemma length_quoted: "length s \<le> length (concat (map json_char s))"
  by (induction s) (auto, metis One_nat_def Suc_leI add_mono json_char_ne_Nil length_greater_0_conv plus_1_eq_Suc)

lemma read_text_quote: "read_text (json_quote s @ r) = Some (s, r)"
proof -
  have "length s < Suc (length (concat (map json_char s) @ quote_mark # r))"
    using length_quoted [of s] by simp
  from read_quoted_body [OF this, of r] show ?thesis by (simp add: read_text_def json_quote_def)
qed

fun jread :: "nat \<Rightarrow> string \<Rightarrow> (jsval \<times> string) option"
  and jread_items :: "nat \<Rightarrow> string \<Rightarrow> (jsval list \<times> string) option"
  and jread_members :: "nat \<Rightarrow> string \<Rightarrow> ((string \<times> jsval) list \<times> string) option" where
  "jread 0 t = None"
| "jread (Suc n) [] = None"
| "jread (Suc n) (c # t) =
     (if c = CHR ''u'' then Some (JUndef, t)
      else if c = CHR ''n'' then Some (JNull, t)
      else if c = CHR ''t'' then Some (JBool True, t)
      else if c = CHR ''f'' then Some (JBool False, t)
      else if c = CHR ''+'' then map_option (\<lambda>(s, r). (JInt (int (dec s)), r)) (read_text t)
      else if c = CHR ''-'' then map_option (\<lambda>(s, r). (JInt (- int (dec s)), r)) (read_text t)
      else if c = CHR ''x'' then map_option (\<lambda>(s, r). (JNonInt s, r)) (read_text t)
      else if c = CHR ''s'' then map_option (\<lambda>(s, r). (JStr s, r)) (read_text t)
      else if c = CHR ''a'' then map_option (\<lambda>(vs, r). (JArr vs, r)) (jread_items n t)
      else if c = CHR ''o'' then map_option (\<lambda>(kvs, r). (JObj kvs, r)) (jread_members n t)
      else None)"
| "jread_items 0 t = None"
| "jread_items (Suc n) [] = None"
| "jread_items (Suc n) (c # t) =
     (if c = CHR ''.'' then Some ([], t)
      else case jread n t of None \<Rightarrow> None
        | Some (v, r) \<Rightarrow> map_option (\<lambda>(vs, r'). (v # vs, r')) (jread_items n r))"
| "jread_members 0 t = None"
| "jread_members (Suc n) [] = None"
| "jread_members (Suc n) (c # t) =
     (if c = CHR ''.'' then Some ([], t)
      else case read_text t of None \<Rightarrow> None
        | Some (k, r) \<Rightarrow> (case jread n r of None \<Rightarrow> None
          | Some (v, r') \<Rightarrow> map_option (\<lambda>(kvs, r''). ((k, v) # kvs, r'')) (jread_members n r')))"

lemma read_items_text:
  assumes "\<And>v n r. v \<in> set vs \<Longrightarrow> length (jtext v) \<le> n \<Longrightarrow> jread n (jtext v @ r) = Some (v, r)"
    and "length (concat (map (\<lambda>v. '','' @ jtext v) vs) @ ''.'') \<le> n"
  shows "jread_items n (concat (map (\<lambda>v. '','' @ jtext v) vs) @ ''.'' @ r) = Some (vs, r)"
  using assms
proof (induction vs arbitrary: n)
  case Nil
  then show ?case by (cases n) simp_all
next
  case (Cons v vs)
  then obtain m where n: "n = Suc m" by (cases n) auto
  have "jread m (jtext v @ concat (map (\<lambda>v. '','' @ jtext v) vs) @ ''.'' @ r)
      = Some (v, concat (map (\<lambda>v. '','' @ jtext v) vs) @ ''.'' @ r)"
    using Cons.prems n by (intro Cons.prems(1)) simp_all
  moreover have "jread_items m (concat (map (\<lambda>v. '','' @ jtext v) vs) @ ''.'' @ r) = Some (vs, r)"
    using Cons.prems n by (intro Cons.IH) simp_all
  ultimately show ?case using n by simp
qed

lemma read_members_text:
  assumes "\<And>kv n r. kv \<in> set kvs \<Longrightarrow> length (jtext (snd kv)) \<le> n \<Longrightarrow> jread n (jtext (snd kv) @ r) = Some (snd kv, r)"
    and "length (concat (map (\<lambda>kv. '','' @ json_quote (fst kv) @ jtext (snd kv)) kvs) @ ''.'') \<le> n"
  shows "jread_members n (concat (map (\<lambda>kv. '','' @ json_quote (fst kv) @ jtext (snd kv)) kvs) @ ''.'' @ r) = Some (kvs, r)"
  using assms
proof (induction kvs arbitrary: n)
  case Nil
  then show ?case by (cases n) simp_all
next
  case (Cons kv kvs)
  let ?rest = "concat (map (\<lambda>kv. '','' @ json_quote (fst kv) @ jtext (snd kv)) kvs) @ ''.'' @ r"
  obtain m where n: "n = Suc m" using Cons.prems by (cases n) auto
  have "jread m (jtext (snd kv) @ ?rest) = Some (snd kv, ?rest)"
    using Cons.prems n by (intro Cons.prems(1)) simp_all
  moreover have "jread_members m ?rest = Some (kvs, r)"
    using Cons.prems n by (intro Cons.IH) simp_all
  moreover have "read_text (json_quote (fst kv) @ jtext (snd kv) @ ?rest) = Some (fst kv, jtext (snd kv) @ ?rest)"
    by (rule read_text_quote)
  ultimately show ?case using n by simp
qed

lemma jread_jtext: "length (jtext v) \<le> n \<Longrightarrow> jread n (jtext v @ r) = Some (v, r)"
proof -
  have fuel: "\<exists>m. n = Suc m" if "length (jtext v) \<le> n" for v n
    using that by (cases n) (simp_all add: jtext_tag_body)
  show "length (jtext v) \<le> n \<Longrightarrow> jread n (jtext v @ r) = Some (v, r)"
  proof (induction v arbitrary: n r)
  case (JInt i)
  then obtain m where "n = Suc m" using fuel by blast
  then show ?case by (cases "i < 0") (auto simp: read_text_quote dec_show_nat)
next
  case (JArr vs)
  then obtain m where n: "n = Suc m" "length (concat (map (\<lambda>v. '','' @ jtext v) vs) @ ''.'') \<le> m"
    by (cases n) auto
  from read_items_text [OF JArr.IH n(2)] n(1) show ?case by simp
next
  case (JObj kvs)
  then obtain m where n: "n = Suc m"
      "length (concat (map (\<lambda>kv. '','' @ json_quote (fst kv) @ jtext (snd kv)) kvs) @ ''.'') \<le> m"
    by (cases n) auto
  have "jread k (jtext (snd kv) @ x) = Some (snd kv, x)" if "kv \<in> set kvs" "length (jtext (snd kv)) \<le> k" for kv k x
    using that by (intro JObj.IH [of kv "snd kv"]) (auto simp: prod_set_simps intro: snds.intros)
  from read_members_text [OF this n(2)] n(1) show ?case by simp
next
  case (JBool b)
  then show ?case by (cases n; cases b) simp_all
next
  case JUndef
  then show ?case by (cases n) simp_all
next
  case JNull
  then show ?case by (cases n) simp_all
next
  case (JNonInt s)
  then show ?case by (cases n) (simp_all add: read_text_quote)
next
  case (JStr s)
  then show ?case by (cases n) (simp_all add: read_text_quote)
qed
qed

lemma jnorm_idem: "jnorm (jnorm v) = jnorm v"
proof (induction v)
  case (JObj kvs)
  have "map (\<lambda>kv. (fst kv, jnorm (snd kv))) (sort_key fst (map (\<lambda>kv. (fst kv, jnorm (snd kv))) kvs))
      = sort_key fst (map (\<lambda>kv. (fst kv, jnorm (snd kv))) kvs)"
    using JObj by (intro map_idI) (force simp: prod_eq_iff prod_set_simps)
  then show ?case by (simp add: sort_key_id_if_sorted)
qed simp_all

lemma json_value_jnorm: "json_value v \<Longrightarrow> json_value (jnorm v)"
proof (induction v)
  case (JObj kvs)
  then show ?case
    by (auto simp: comp_def distinct_sort_key prod_set_simps)
qed auto

definition sample_parse_json :: "string \<Rightarrow> jsval option" where
  "sample_parse_json b = (case utf8_decode b of None \<Rightarrow> None
     | Some t \<Rightarrow> (case jread (length t) t of Some (v, []) \<Rightarrow> Some v | _ \<Rightarrow> None))"

section \<open>The platforms\<close>

definition sample_canonicalize :: "jsval \<Rightarrow> string option" where
  "sample_canonicalize v = Some (jtext (jnorm v))"

text \<open>URLs without scheme or host: the text itself is the path.\<close>

definition sample_parse :: "string \<Rightarrow> url_parts option" where
  "sample_parse u =
     Some \<lparr> url_protocol = ''https:'', url_username = [], url_password = [], url_search = [],
            url_hash = [], url_pathname = u, url_text = u \<rparr>"

text \<open>A platform whose hash is the identity (no collisions at all), and one whose hash has the
  shape of a SHA-256 digest (64 hex digits).\<close>

definition sample_platform :: platform where
  "sample_platform =
     \<lparr> isAddress = (\<lambda>s. s \<noteq> []), isSignature = (\<lambda>s. s \<noteq> []), importable = (\<lambda>_. True),
       verifyRaw = (\<lambda>a s m. s = a @ CHR ''/'' # m), keyAddress = (\<lambda>k. ''K'' @ k),
       signRaw = (\<lambda>k m. (''K'' @ k) @ CHR ''/'' # m), canonicalize = sample_canonicalize,
       sha256 = (\<lambda>m. m), parseUrl = sample_parse, parseJson = sample_parse_json \<rparr>"

definition hex_platform :: platform where
  "hex_platform = sample_platform \<lparr> sha256 := (\<lambda>_. replicate 64 CHR ''a'') \<rparr>"

lemma sample_signatures: "signatures_verify sample_platform" "signatures_verify hex_platform"
  by (simp_all add: signatures_verify_def sample_platform_def hex_platform_def)

lemma sample_canonical_total:
  "canonical_total sample_platform" "canonical_total hex_platform"
  by (simp_all add: canonical_total_def sample_platform_def hex_platform_def sample_canonicalize_def)

lemma sample_canonical_faithful:
  "canonical_faithful sample_platform" "canonical_faithful hex_platform"
  by (simp_all add: canonical_faithful_def sample_platform_def hex_platform_def
      sample_canonicalize_def jtext_inject)

lemma sample_json_reads_back: "json_reads_back sample_platform" "json_reads_back hex_platform"
proof -
  have "sample_parse_json (utf8 (jtext (jnorm v))) = Some (jnorm v)" for v
    using jread_jtext [of "jnorm v" "length (jtext (jnorm v))" "[]"]
    by (simp add: sample_parse_json_def utf8_decode_utf8)
  then show "json_reads_back sample_platform" "json_reads_back hex_platform"
    by (auto simp: json_reads_back_def sample_platform_def hex_platform_def sample_canonicalize_def
        jnorm_idem intro: json_value_jnorm)
qed

lemma sample_collision_free: "collision_free_on sample_platform M"
  by (simp add: collision_free_on_def sample_platform_def inj_on_def)

text \<open>A platform whose keys and signatures are base58 texts, for the sample messages.\<close>

definition base58_platform :: platform where
  "base58_platform = hex_platform \<lparr> signRaw := (\<lambda>k m. ''s'' @ k), verifyRaw := (\<lambda>a s m. s = ''s'' @ drop 1 a) \<rparr>"

lemma base58_platform_laws: "signatures_verify base58_platform" "canonical_total base58_platform" "json_reads_back base58_platform"
  using sample_canonical_total(2) sample_json_reads_back(2)
  by (auto simp: signatures_verify_def canonical_total_def json_reads_back_def base58_platform_def)
    (auto simp: hex_platform_def sample_platform_def)

text \<open>The length of a sample text, field by field, and bounds on the encodings.\<close>

fun jlen :: "jsval \<Rightarrow> nat" where
  "jlen (JArr vs) = 2 + sum_list (map (\<lambda>v. 1 + jlen v) vs)"
| "jlen (JObj kvs) = 2 + sum_list (map (\<lambda>kv. 1 + length (json_quote (fst kv)) + jlen (snd kv)) kvs)"
| "jlen v = length (jtext v)"

lemma length_jtext: "length (jtext v) = jlen v"
proof (induction v)
  case (JArr vs)
  then have "map (\<lambda>v. Suc (length (jtext v))) vs = map (\<lambda>v. Suc (jlen v)) vs" by simp
  from arg_cong [where f = sum_list, OF this] show ?case by (simp add: length_concat comp_def del: sum_list_Suc)
next
  case (JObj kvs)
  then have "length (jtext (snd kv)) = jlen (snd kv)" if "kv \<in> set kvs" for kv
    using that by (cases kv) (auto simp: prod_set_simps)
  then have "map (\<lambda>kv. Suc (length (json_quote (fst kv)) + length (jtext (snd kv)))) kvs
      = map (\<lambda>kv. Suc (length (json_quote (fst kv)) + jlen (snd kv))) kvs" by simp
  from arg_cong [where f = sum_list, OF this] show ?case by (simp add: length_concat comp_def del: sum_list_Suc)
qed simp_all

lemma sum_list_sort_key: "sum_list (map f (sort_key k xs)) = (sum_list (map f xs) :: nat)"
proof -
  have ins: "sum_list (map f (insort_key k x ys)) = f x + (sum_list (map f ys) :: nat)" for x ys
    by (induction ys) auto
  show ?thesis by (induction xs) (simp_all add: ins)
qed

lemma jlen_jnorm: "jlen (jnorm v) = jlen v"
proof (induction v)
  case (JArr vs)
  then have "map (\<lambda>v. Suc (jlen (jnorm v))) vs = map (\<lambda>v. Suc (jlen v)) vs" by simp
  from arg_cong [where f = sum_list, OF this] show ?case by (simp add: comp_def del: sum_list_Suc)
next
  case (JObj kvs)
  then have "jlen (jnorm (snd kv)) = jlen (snd kv)" if "kv \<in> set kvs" for kv
    using that by (cases kv) (auto simp: prod_set_simps)
  then have "map (\<lambda>kv. Suc (length (json_quote (fst kv)) + jlen (jnorm (snd kv)))) kvs
      = map (\<lambda>kv. Suc (length (json_quote (fst kv)) + jlen (snd kv))) kvs" by simp
  from arg_cong [where f = sum_list, OF this] show ?case
    by (simp add: sum_list_sort_key comp_def del: sum_list_Suc)
qed simp_all

lemma length_utf8: "length (utf8 s) \<le> 2 * length s"
  by (induction s) (auto simp: utf8_def utf8_char_def)

lemma length_base64url: "length (base64url_encode s) \<le> 2 * length s"
  by (induction s rule: base64url_encode.induct) auto

lemma length_json_quote: "length (json_quote s) = 2 + sum_list (map (\<lambda>c. length (json_char c)) s)"
  by (simp add: json_quote_def length_concat comp_def)

lemma length_json_quote_le: "length (json_quote s) \<le> 2 + 6 * length s"
proof -
  have "sum_list (map (\<lambda>c. length (json_char c)) s) \<le> 6 * length s"
    by (induction s) (auto simp: json_char_def)
  then show ?thesis unfolding length_json_quote by simp
qed

end
