(* ===== verification/Mandate_Operation.thy ===== *)
theory Mandate_Operation
  imports Platform Sample_Platform
begin

text \<open>
  packages/mandate/src/operation.ts: the exact business operation a human approves and an agent
  asks for.  \<open>ExactOperation\<close> is \<open>ExactOperationV1\<close>; \<open>validateExactOperation\<close> is the strict
  parser of an untrusted operation, with one error per rejected field in place of the diagnostic
  texts.  The lemmas characterise the two regular expressions as languages, the accepted inputs,
  and what the operation digest identifies.
\<close>

record ExactOperation =
  op_method :: string
  op_resource :: string
  op_operation :: string
  op_datasetId :: string

datatype operation_error =
    OperationNotObject
  | OperationUnexpectedField string
  | OperationMethodInvalid
  | OperationResourceInvalid
  | OperationActionInvalid
  | OperationDatasetInvalid

definition OPERATION_METHODS :: "string list" where
  "OPERATION_METHODS = [''POST'']"

definition REPORT_OPERATIONS :: "string list" where
  "REPORT_OPERATIONS = [''summarize'', ''export'']"

definition OPERATION_FIELDS :: "string list" where
  "OPERATION_FIELDS = [''method'', ''resource'', ''operation'', ''datasetId'']"

definition EXACT_OPERATION_PREFIX :: string where
  "EXACT_OPERATION_PREFIX = ''virtual-haibin/exact-operation:v1'' @ [CHR 0x0A]"

section \<open>Patterns\<close>

definition is_segment_char :: "char \<Rightarrow> bool" where
  "is_segment_char c \<longleftrightarrow> is_alnum c \<or> c = CHR ''_'' \<or> c = CHR ''-''"

text \<open>\<open>/^(\/[A-Za-z0-9_-]{1,32}){1,8}$/\<close>\<close>

fun resource_pattern :: "string \<Rightarrow> bool" where
  "resource_pattern [] = False"
| "resource_pattern (c # cs) =
     (c = CHR ''/'' \<and> length (split_on CHR ''/'' cs) \<le> 8
      \<and> list_all (class_between is_segment_char 1 32) (split_on CHR ''/'' cs))"

definition is_dataset_char :: "char \<Rightarrow> bool" where
  "is_dataset_char c \<longleftrightarrow> is_lower c \<or> is_digit c"

text \<open>\<open>/^[a-z0-9](?:[a-z0-9-]{0,62}[a-z0-9])?$/\<close>\<close>

fun dataset_pattern :: "string \<Rightarrow> bool" where
  "dataset_pattern [] = False"
| "dataset_pattern (c # cs) =
     (is_dataset_char c
      \<and> (cs = [] \<or> is_dataset_char (last cs)
           \<and> class_between (\<lambda>x. is_dataset_char x \<or> x = CHR ''-'') 0 62 (butlast cs)))"

section \<open>Operations\<close>

definition validateExactOperation :: "jsval \<Rightarrow> operation_error + ExactOperation" where
  "validateExactOperation candidate =
     (if \<not> isPlainObject candidate then Inl OperationNotObject
      else case find (\<lambda>k. k \<notin> set OPERATION_FIELDS) (jkeys candidate) of
        Some k \<Rightarrow> Inl (OperationUnexpectedField k)
      | None \<Rightarrow>
        if \<not> jstr_is (\<lambda>s. s \<in> set OPERATION_METHODS) (jget candidate ''method'')
        then Inl OperationMethodInvalid
        else if \<not> jstr_is resource_pattern (jget candidate ''resource'')
        then Inl OperationResourceInvalid
        else if \<not> jstr_is (\<lambda>s. s \<in> set REPORT_OPERATIONS) (jget candidate ''operation'')
        then Inl OperationActionInvalid
        else if \<not> jstr_is dataset_pattern (jget candidate ''datasetId'')
        then Inl OperationDatasetInvalid
        else Inr \<lparr> op_method = jstr (jget candidate ''method''),
                   op_resource = jstr (jget candidate ''resource''),
                   op_operation = jstr (jget candidate ''operation''),
                   op_datasetId = jstr (jget candidate ''datasetId'') \<rparr>)"

text \<open>The object \<open>normalized(operation)\<close> builds, which is also the operation's JSON form.\<close>

definition operation_json :: "ExactOperation \<Rightarrow> jsval" where
  "operation_json p =
     JObj [(''method'', JStr (op_method p)), (''resource'', JStr (op_resource p)),
           (''operation'', JStr (op_operation p)), (''datasetId'', JStr (op_datasetId p))]"

definition computeOperationDigest :: "platform \<Rightarrow> ExactOperation \<Rightarrow> string option" where
  "computeOperationDigest px p = canonicalDigest px EXACT_OPERATION_PREFIX (operation_json p)"

text \<open>Decoding the UTF-8 bytes of the canonical text gives the text itself.\<close>

definition operationRequestBody :: "platform \<Rightarrow> ExactOperation \<Rightarrow> string option" where
  "operationRequestBody px p =
     canonicalize px (JObj [(''operation'', JStr (op_operation p)), (''datasetId'', JStr (op_datasetId p))])"

definition operationsEqual :: "ExactOperation \<Rightarrow> ExactOperation \<Rightarrow> bool" where
  "operationsEqual a b \<longleftrightarrow>
     op_method a = op_method b \<and> op_resource a = op_resource b
     \<and> op_operation a = op_operation b \<and> op_datasetId a = op_datasetId b"

section \<open>The pattern languages\<close>

lemma slash_not_segment_char: "\<not> is_segment_char CHR ''/''"
  by (simp add: is_segment_char_def is_alnum_def is_digit_def is_lower_def is_upper_def code_def)

lemma class_between_no_sep:
  "class_between is_segment_char lo hi g \<Longrightarrow> list_all (\<lambda>x. x \<noteq> CHR ''/'') g"
  using slash_not_segment_char unfolding class_between_def list_all_iff by metis

lemma resource_pattern_language:
  "resource_pattern s \<longleftrightarrow>
     (\<exists>gs. s = concat (map (\<lambda>g. CHR ''/'' # g) gs) \<and> 1 \<le> length gs \<and> length gs \<le> 8
        \<and> list_all (class_between is_segment_char 1 32) gs)" (is "?L \<longleftrightarrow> ?R")
proof
  assume ?L
  then obtain cs where s: "s = CHR ''/'' # cs" and n: "length (split_on CHR ''/'' cs) \<le> 8"
    and g: "list_all (class_between is_segment_char 1 32) (split_on CHR ''/'' cs)"
    by (cases s) auto
  have "1 \<le> length (split_on CHR ''/'' cs)"
    by (simp add: Suc_le_eq)
  with s n g show ?R
    by (intro exI [of _ "split_on CHR ''/'' cs"]) (simp add: concat_split_on)
next
  assume ?R
  then obtain gs where s: "s = concat (map (\<lambda>g. CHR ''/'' # g) gs)" and n: "1 \<le> length gs" "length gs \<le> 8"
    and g: "list_all (class_between is_segment_char 1 32) gs" by blast
  from n obtain h hs where gs: "gs = h # hs" by (cases gs) auto
  have "split_on CHR ''/'' (h @ concat (map (\<lambda>g. CHR ''/'' # g) hs)) = gs"
  proof (rule split_on_concat)
    show "gs \<noteq> []" using gs by simp
    show "\<forall>g\<in>set gs. list_all (\<lambda>x. x \<noteq> CHR ''/'') g"
      using g class_between_no_sep unfolding list_all_iff [of _ gs] by blast
  qed (simp add: gs)
  with s gs n g show ?L by simp
qed

lemma dataset_pattern_iff:
  "dataset_pattern s \<longleftrightarrow>
     s \<noteq> [] \<and> length s \<le> 64 \<and> is_dataset_char (hd s) \<and> is_dataset_char (last s)
     \<and> list_all (\<lambda>x. is_dataset_char x \<or> x = CHR ''-'') s"
proof (cases s)
  case (Cons c cs)
  show ?thesis
  proof (cases "cs = []")
    case False
    then have "cs = butlast cs @ [last cs]" by simp
    then have split: "list_all P cs \<longleftrightarrow> list_all P (butlast cs) \<and> P (last cs)" for P
      by (metis list.pred_inject list_all_append)
    from False have "0 < length cs" by simp
    with Cons False show ?thesis
      by (auto simp: split class_between_def)
  qed (use Cons in auto)
qed simp

section \<open>What the parser accepts\<close>

definition wf_operation :: "ExactOperation \<Rightarrow> bool" where
  "wf_operation p \<longleftrightarrow>
     op_method p \<in> set OPERATION_METHODS \<and> resource_pattern (op_resource p)
     \<and> op_operation p \<in> set REPORT_OPERATIONS \<and> dataset_pattern (op_datasetId p)"

lemma validateExactOperation_Inr_iff:
  "validateExactOperation v = Inr p \<longleftrightarrow>
     isPlainObject v \<and> set (jkeys v) \<subseteq> set OPERATION_FIELDS \<and> wf_operation p
     \<and> jget v ''method'' = JStr (op_method p) \<and> jget v ''resource'' = JStr (op_resource p)
     \<and> jget v ''operation'' = JStr (op_operation p) \<and> jget v ''datasetId'' = JStr (op_datasetId p)"
  (is "?L \<longleftrightarrow> ?R")
proof
  assume ?L
  then have obj: "isPlainObject v" and none: "find (\<lambda>k. k \<notin> set OPERATION_FIELDS) (jkeys v) = None"
    by (auto simp: validateExactOperation_def split: if_splits option.splits)
  with \<open>?L\<close> show ?R
    by (auto simp: validateExactOperation_def wf_operation_def js_simps jstr_is_iff
        find_unknown_None [symmetric])
next
  assume ?R
  then show ?L
    by (simp add: validateExactOperation_def wf_operation_def find_unknown_None [THEN iffD2])
qed

lemma validateExactOperation_wf: "validateExactOperation v = Inr p \<Longrightarrow> wf_operation p"
  by (simp add: validateExactOperation_Inr_iff)

lemma jget_operation_json [js_simps]:
  "jget (operation_json p) ''method'' = JStr (op_method p)"
  "jget (operation_json p) ''resource'' = JStr (op_resource p)"
  "jget (operation_json p) ''operation'' = JStr (op_operation p)"
  "jget (operation_json p) ''datasetId'' = JStr (op_datasetId p)"
  by (simp_all add: operation_json_def)

lemma validate_operation_json: "wf_operation p \<Longrightarrow> validateExactOperation (operation_json p) = Inr p"
  unfolding validateExactOperation_Inr_iff
  by (simp add: js_simps) (simp add: operation_json_def OPERATION_FIELDS_def)

lemma json_value_operation [simp]: "json_value (operation_json p)"
  by (simp add: operation_json_def)

lemma operationsEqual_iff: "operationsEqual a b \<longleftrightarrow> a = b"
  by (cases a; cases b) (auto simp: operationsEqual_def)

lemma jnorm_operation_json: "jnorm (operation_json a) = jnorm (operation_json b) \<longleftrightarrow> a = b"
proof
  assume eq: "jnorm (operation_json a) = jnorm (operation_json b)"
  have "jget (jnorm (operation_json p)) k = jnorm (jget (operation_json p) k)" for p k
    unfolding operation_json_def by (rule jget_jnorm) simp
  then have "jnorm (jget (operation_json a) k) = jnorm (jget (operation_json b) k)" for k
    using eq by metis
  from this [of "''method''"] this [of "''resource''"] this [of "''operation''"] this [of "''datasetId''"]
  show "a = b" by (cases a; cases b) (simp add: js_simps)
qed simp

lemma operation_digest_identifies:
  assumes "canonical_total px" "canonical_faithful px"
    and "collision_free_on px
          (digest_inputs px EXACT_OPERATION_PREFIX {operation_json a, operation_json b})"
    and "computeOperationDigest px a = computeOperationDigest px b"
  shows "a = b"
  using canonicalDigest_inject [OF assms(1,2) json_value_operation json_value_operation assms(3)]
    assms(4)
  unfolding computeOperationDigest_def jnorm_operation_json .

end
