(* ===== verification/Mandate_Permit.thy ===== *)
theory Mandate_Permit
  imports Mandate_Operation
begin

text \<open>
  packages/mandate/src/{types,domain,validate,canonical,crypto}.ts and computePermitDigest of
  authorization-request.ts: the purchase permit a human signs.  \<open>permit_v1\<close> holds the fields v1
  and v2 share (\<open>SharedPermitFields\<close>), \<open>permit_v2\<close> extends it with the exact operation, and
  \<open>'p signed\<close> adds the detached signature; the constant fields version, domain, subdelegation
  and algorithm appear where the object is built (the \<open>_json\<close> functions).  Signing and
  verification are proved once, in the locale \<open>permit_format\<close>, and interpreted for both versions.
\<close>

datatype PermitReasonCode =
    INVALID_SCHEMA | UNSUPPORTED_VERSION | INVALID_DOMAIN | INVALID_GRANT_ID | INVALID_ISSUER
  | INVALID_AGENT | INVALID_SERVICE | INVALID_CAPABILITY | INVALID_NETWORK | INVALID_MINT
  | INVALID_RECIPIENT | INVALID_AMOUNT | INVALID_TIME_RANGE | INVALID_SUBDELEGATION
  | INVALID_OPERATION | INVALID_SIGNATURE

record permit_v1 =
  pp_grantId :: string
  pp_issuer :: string
  pp_authorizedAgent :: string
  pp_service :: string
  pp_capability :: string
  pp_network :: string
  pp_mint :: string
  pp_recipient :: string
  pp_maxPerCall :: string
  pp_maxTotal :: string
  pp_issuedAt :: int
  pp_expiresAt :: int

record permit_v2 = permit_v1 +
  pp_operation :: ExactOperation

record 'p signed =
  sg_body :: 'p
  sg_signature :: string

definition PURCHASE_PERMIT_DOMAIN :: string where
  "PURCHASE_PERMIT_DOMAIN = ''virtual-haibin/purchase-permit''"

definition SUPPORTED_NETWORKS :: "string list" where
  "SUPPORTED_NETWORKS = [''solana-payment-sandbox'', ''devnet'']"

section \<open>Field patterns\<close>

text \<open>\<open>/^[A-Za-z0-9_.-]{1,128}$/\<close> and \<open>/^[A-Za-z0-9_.:-]{1,128}$/\<close>\<close>

definition grant_id_pattern :: "string \<Rightarrow> bool" where
  "grant_id_pattern = class_between (\<lambda>c. is_segment_char c \<or> c = CHR ''.'') 1 128"

definition identifier_pattern :: "string \<Rightarrow> bool" where
  "identifier_pattern = class_between (\<lambda>c. is_segment_char c \<or> c = CHR ''.'' \<or> c = CHR '':'') 1 128"

definition isBase58PublicKey :: "platform \<Rightarrow> jsval \<Rightarrow> bool" where
  "isBase58PublicKey px = jstr_is (\<lambda>s. 0 < length s \<and> isAddress px s)"

definition isSafeTimestamp :: "jsval \<Rightarrow> bool" where
  "isSafeTimestamp v \<longleftrightarrow> isSafeInteger v \<and> 0 < jint v"

section \<open>Validation\<close>

definition validateSharedFields :: "platform \<Rightarrow> jsval \<Rightarrow> PermitReasonCode + permit_v1" where
  "validateSharedFields px c =
     (if jget c ''domain'' \<noteq> JStr PURCHASE_PERMIT_DOMAIN then Inl INVALID_DOMAIN
      else if \<not> jstr_is grant_id_pattern (jget c ''grantId'') then Inl INVALID_GRANT_ID
      else if \<not> isBase58PublicKey px (jget c ''issuer'') then Inl INVALID_ISSUER
      else if \<not> isBase58PublicKey px (jget c ''authorizedAgent'') then Inl INVALID_AGENT
      else if \<not> jstr_is identifier_pattern (jget c ''service'') then Inl INVALID_SERVICE
      else if \<not> jstr_is identifier_pattern (jget c ''capability'') then Inl INVALID_CAPABILITY
      else if \<not> jstr_is (\<lambda>s. s \<in> set SUPPORTED_NETWORKS) (jget c ''network'') then Inl INVALID_NETWORK
      else if \<not> isBase58PublicKey px (jget c ''mint'') then Inl INVALID_MINT
      else if \<not> isBase58PublicKey px (jget c ''recipient'') then Inl INVALID_RECIPIENT
      else if \<not> jstr_is atomic_pattern (jget c ''maxPerCallAtomic'') then Inl INVALID_AMOUNT
      else if \<not> jstr_is atomic_pattern (jget c ''maxTotalAtomic'') then Inl INVALID_AMOUNT
      else let maxPerCall = dec (jstr (jget c ''maxPerCallAtomic''));
               maxTotal = dec (jstr (jget c ''maxTotalAtomic'')) in
           if maxPerCall \<le> 0 \<or> maxPerCall > MAX_U64 then Inl INVALID_AMOUNT
      else if maxTotal \<le> 0 \<or> maxTotal > MAX_U64 then Inl INVALID_AMOUNT
      else if maxPerCall > maxTotal then Inl INVALID_AMOUNT
      else if \<not> isSafeTimestamp (jget c ''issuedAt'') then Inl INVALID_TIME_RANGE
      else if \<not> isSafeTimestamp (jget c ''expiresAt'') then Inl INVALID_TIME_RANGE
      else if jint (jget c ''expiresAt'') \<le> jint (jget c ''issuedAt'') then Inl INVALID_TIME_RANGE
      else if jget c ''subdelegation'' \<noteq> JBool False then Inl INVALID_SUBDELEGATION
      else Inr \<lparr> pp_grantId = jstr (jget c ''grantId''),
                 pp_issuer = jstr (jget c ''issuer''),
                 pp_authorizedAgent = jstr (jget c ''authorizedAgent''),
                 pp_service = jstr (jget c ''service''),
                 pp_capability = jstr (jget c ''capability''),
                 pp_network = jstr (jget c ''network''),
                 pp_mint = jstr (jget c ''mint''),
                 pp_recipient = jstr (jget c ''recipient''),
                 pp_maxPerCall = jstr (jget c ''maxPerCallAtomic''),
                 pp_maxTotal = jstr (jget c ''maxTotalAtomic''),
                 pp_issuedAt = jint (jget c ''issuedAt''),
                 pp_expiresAt = jint (jget c ''expiresAt'') \<rparr>)"

definition validateUnsignedPurchasePermit :: "platform \<Rightarrow> jsval \<Rightarrow> PermitReasonCode + permit_v1" where
  "validateUnsignedPurchasePermit px c =
     (if \<not> isPlainObject c then Inl INVALID_SCHEMA
      else if jget c ''version'' \<noteq> JInt 1 then Inl UNSUPPORTED_VERSION
      else validateSharedFields px c)"

definition validateUnsignedPurchasePermitV2 :: "platform \<Rightarrow> jsval \<Rightarrow> PermitReasonCode + permit_v2" where
  "validateUnsignedPurchasePermitV2 px c =
     (if \<not> isPlainObject c then Inl INVALID_SCHEMA
      else if jget c ''version'' \<noteq> JInt 2 then Inl UNSUPPORTED_VERSION
      else case validateSharedFields px c of
        Inl e \<Rightarrow> Inl e
      | Inr shared \<Rightarrow>
        (case validateExactOperation (jget c ''operation'') of
           Inl _ \<Rightarrow> Inl INVALID_OPERATION
         | Inr p \<Rightarrow> Inr (permit_v1.extend shared (permit_v2.fields p))))"

section \<open>Canonical form, signing and verification\<close>

definition shared_permit_fields :: "'a permit_v1_scheme \<Rightarrow> (string \<times> jsval) list" where
  "shared_permit_fields p =
     [(''domain'', JStr PURCHASE_PERMIT_DOMAIN), (''grantId'', JStr (pp_grantId p)),
      (''issuer'', JStr (pp_issuer p)), (''authorizedAgent'', JStr (pp_authorizedAgent p)),
      (''service'', JStr (pp_service p)), (''capability'', JStr (pp_capability p)),
      (''network'', JStr (pp_network p)), (''mint'', JStr (pp_mint p)),
      (''recipient'', JStr (pp_recipient p)), (''maxPerCallAtomic'', JStr (pp_maxPerCall p)),
      (''maxTotalAtomic'', JStr (pp_maxTotal p)), (''issuedAt'', JInt (pp_issuedAt p)),
      (''expiresAt'', JInt (pp_expiresAt p)), (''subdelegation'', JBool False)]"

definition permit_v1_fields :: "permit_v1 \<Rightarrow> (string \<times> jsval) list" where
  "permit_v1_fields p = (''version'', JInt 1) # shared_permit_fields p"

definition permit_v2_fields :: "permit_v2 \<Rightarrow> (string \<times> jsval) list" where
  "permit_v2_fields p =
     (''version'', JInt 2) # shared_permit_fields p @ [(''operation'', operation_json (pp_operation p))]"

definition PERMIT_V1_PREFIX :: string where
  "PERMIT_V1_PREFIX = PURCHASE_PERMIT_DOMAIN @ '':v1'' @ [CHR 0x0A]"

definition PERMIT_V2_PREFIX :: string where
  "PERMIT_V2_PREFIX = PURCHASE_PERMIT_DOMAIN @ '':v2'' @ [CHR 0x0A]"

definition canonicalizeUnsignedPurchasePermit :: "platform \<Rightarrow> permit_v1 \<Rightarrow> bytes option" where
  "canonicalizeUnsignedPurchasePermit px p =
     canonicalBytes px PERMIT_V1_PREFIX (JObj (permit_v1_fields p))"

definition canonicalizeUnsignedPurchasePermitV2 :: "platform \<Rightarrow> permit_v2 \<Rightarrow> bytes option" where
  "canonicalizeUnsignedPurchasePermitV2 px p =
     canonicalBytes px PERMIT_V2_PREFIX (JObj (permit_v2_fields p))"

definition signature_json :: "string \<Rightarrow> jsval" where
  "signature_json s = JObj [(''algorithm'', JStr ''ed25519''), (''signature'', JStr s)]"

datatype sign_error =
    SignInvalid PermitReasonCode
  | SignerMismatch
  | SignNotCanonicalizable

definition signValidated ::
  "platform \<Rightarrow> ('p \<Rightarrow> bytes option) \<Rightarrow> ('p \<Rightarrow> address) \<Rightarrow> PermitReasonCode + 'p \<Rightarrow> signing_key
     \<Rightarrow> sign_error + 'p signed" where
  "signValidated px to_bytes issuer validation signer =
     (case validation of
        Inl e \<Rightarrow> Inl (SignInvalid e)
      | Inr permit \<Rightarrow>
        if keyAddress px signer \<noteq> issuer permit then Inl SignerMismatch
        else case to_bytes permit of
          None \<Rightarrow> Inl SignNotCanonicalizable
        | Some b \<Rightarrow> Inr \<lparr> sg_body = permit, sg_signature = signRaw px signer b \<rparr>)"

definition signPurchasePermit :: "platform \<Rightarrow> jsval \<Rightarrow> signing_key \<Rightarrow> sign_error + permit_v1 signed" where
  "signPurchasePermit px unsigned signer =
     signValidated px (canonicalizeUnsignedPurchasePermit px) pp_issuer
       (validateUnsignedPurchasePermit px unsigned) signer"

definition signPurchasePermitV2 :: "platform \<Rightarrow> jsval \<Rightarrow> signing_key \<Rightarrow> sign_error + permit_v2 signed" where
  "signPurchasePermitV2 px unsigned signer =
     signValidated px (canonicalizeUnsignedPurchasePermitV2 px) pp_issuer
       (validateUnsignedPurchasePermitV2 px unsigned) signer"

text \<open>The outer \<open>try/catch\<close> turns a failing canonicalization into INVALID_SCHEMA.\<close>

definition verifyWith ::
  "platform \<Rightarrow> ('p \<Rightarrow> bytes option) \<Rightarrow> ('p \<Rightarrow> address) \<Rightarrow> (jsval \<Rightarrow> PermitReasonCode + 'p) \<Rightarrow> jsval
     \<Rightarrow> PermitReasonCode + 'p signed" where
  "verifyWith px to_bytes issuer validate candidate =
     (if \<not> isPlainObject candidate then Inl INVALID_SCHEMA
      else case validate candidate of
        Inl e \<Rightarrow> Inl e
      | Inr permit \<Rightarrow>
        let sig = jget candidate ''signature'' in
        if \<not> isPlainObject sig then Inl INVALID_SIGNATURE
        else if jget sig ''algorithm'' \<noteq> JStr ''ed25519'' then Inl INVALID_SIGNATURE
        else if \<not> jstr_is (isSignature px) (jget sig ''signature'') then Inl INVALID_SIGNATURE
        else if \<not> (isAddress px (issuer permit) \<and> importable px (issuer permit)) then Inl INVALID_ISSUER
        else case to_bytes permit of
          None \<Rightarrow> Inl INVALID_SCHEMA
        | Some b \<Rightarrow>
          if \<not> verifyRaw px (issuer permit) (jstr (jget sig ''signature'')) b then Inl INVALID_SIGNATURE
          else Inr \<lparr> sg_body = permit, sg_signature = jstr (jget sig ''signature'') \<rparr>)"

definition verifyPurchasePermit :: "platform \<Rightarrow> jsval \<Rightarrow> PermitReasonCode + permit_v1 signed" where
  "verifyPurchasePermit px =
     verifyWith px (canonicalizeUnsignedPurchasePermit px) pp_issuer (validateUnsignedPurchasePermit px)"

definition verifyPurchasePermitV2 :: "platform \<Rightarrow> jsval \<Rightarrow> PermitReasonCode + permit_v2 signed" where
  "verifyPurchasePermitV2 px =
     verifyWith px (canonicalizeUnsignedPurchasePermitV2 px) pp_issuer (validateUnsignedPurchasePermitV2 px)"

text \<open>The signed permit as a JSON object, and the object whose digest identifies it.\<close>

definition signed_permit_json :: "permit_v1 signed \<Rightarrow> jsval" where
  "signed_permit_json sp =
     JObj (permit_v1_fields (sg_body sp) @ [(''signature'', signature_json (sg_signature sp))])"

definition signed_permit_v2_json :: "permit_v2 signed \<Rightarrow> jsval" where
  "signed_permit_v2_json sp =
     JObj (permit_v2_fields (sg_body sp) @ [(''signature'', signature_json (sg_signature sp))])"

definition permit_digest_object_v1 :: "permit_v1 signed \<Rightarrow> jsval" where
  "permit_digest_object_v1 sp =
     JObj ((''version'', JInt 1) # shared_permit_fields (sg_body sp)
             @ [(''signature'', signature_json (sg_signature sp))])"

definition permit_digest_object_v2 :: "permit_v2 signed \<Rightarrow> jsval" where
  "permit_digest_object_v2 sp =
     JObj ((''version'', JInt 2) # shared_permit_fields (sg_body sp)
             @ [(''signature'', signature_json (sg_signature sp)),
                (''operation'', operation_json (pp_operation (sg_body sp)))])"

definition PERMIT_V1_DIGEST_PREFIX :: string where
  "PERMIT_V1_DIGEST_PREFIX = PURCHASE_PERMIT_DOMAIN @ '':v1:digest'' @ [CHR 0x0A]"

definition PERMIT_V2_DIGEST_PREFIX :: string where
  "PERMIT_V2_DIGEST_PREFIX = PURCHASE_PERMIT_DOMAIN @ '':v2:digest'' @ [CHR 0x0A]"

definition computePermitDigestV1 :: "platform \<Rightarrow> permit_v1 signed \<Rightarrow> string option" where
  "computePermitDigestV1 px sp = canonicalDigest px PERMIT_V1_DIGEST_PREFIX (permit_digest_object_v1 sp)"

definition computePermitDigest :: "platform \<Rightarrow> permit_v2 signed \<Rightarrow> string option" where
  "computePermitDigest px sp = canonicalDigest px PERMIT_V2_DIGEST_PREFIX (permit_digest_object_v2 sp)"

section \<open>Well-formed permits\<close>

definition wf_permit :: "platform \<Rightarrow> 'a permit_v1_scheme \<Rightarrow> bool" where
  "wf_permit px p \<longleftrightarrow>
     grant_id_pattern (pp_grantId p)
     \<and> list_all (\<lambda>a. a \<noteq> [] \<and> isAddress px a)
         [pp_issuer p, pp_authorizedAgent p, pp_mint p, pp_recipient p]
     \<and> identifier_pattern (pp_service p) \<and> identifier_pattern (pp_capability p)
     \<and> pp_network p \<in> set SUPPORTED_NETWORKS
     \<and> atomic_pattern (pp_maxPerCall p) \<and> atomic_pattern (pp_maxTotal p)
     \<and> 0 < dec (pp_maxPerCall p) \<and> dec (pp_maxPerCall p) \<le> dec (pp_maxTotal p)
     \<and> dec (pp_maxTotal p) \<le> MAX_U64
     \<and> 0 < pp_issuedAt p \<and> pp_issuedAt p < pp_expiresAt p \<and> pp_expiresAt p \<le> MAX_SAFE_INTEGER"

definition permit_fields_read :: "jsval \<Rightarrow> 'a permit_v1_scheme \<Rightarrow> bool" where
  "permit_fields_read v p \<longleftrightarrow> (\<forall>(k, x) \<in> set (shared_permit_fields p). jget v k = x)"

lemma isSafeTimestamp_iff: "isSafeTimestamp v \<longleftrightarrow> (\<exists>i. v = JInt i \<and> 0 < i \<and> i \<le> MAX_SAFE_INTEGER)"
  by (cases v) (auto simp: isSafeTimestamp_def MAX_SAFE_INTEGER_def)

lemma isBase58PublicKey_iff: "isBase58PublicKey px v \<longleftrightarrow> (\<exists>s. v = JStr s \<and> s \<noteq> [] \<and> isAddress px s)"
  by (auto simp: isBase58PublicKey_def jstr_is_iff)

lemma permit_fields_read_simps:
  "permit_fields_read v p \<longleftrightarrow>
     jget v ''domain'' = JStr PURCHASE_PERMIT_DOMAIN \<and> jget v ''grantId'' = JStr (pp_grantId p)
     \<and> jget v ''issuer'' = JStr (pp_issuer p) \<and> jget v ''authorizedAgent'' = JStr (pp_authorizedAgent p)
     \<and> jget v ''service'' = JStr (pp_service p) \<and> jget v ''capability'' = JStr (pp_capability p)
     \<and> jget v ''network'' = JStr (pp_network p) \<and> jget v ''mint'' = JStr (pp_mint p)
     \<and> jget v ''recipient'' = JStr (pp_recipient p)
     \<and> jget v ''maxPerCallAtomic'' = JStr (pp_maxPerCall p)
     \<and> jget v ''maxTotalAtomic'' = JStr (pp_maxTotal p)
     \<and> jget v ''issuedAt'' = JInt (pp_issuedAt p) \<and> jget v ''expiresAt'' = JInt (pp_expiresAt p)
     \<and> jget v ''subdelegation'' = JBool False"
  by (simp add: permit_fields_read_def shared_permit_fields_def)

lemma validateSharedFields_Inr_iff:
  "validateSharedFields px v = Inr p \<longleftrightarrow> wf_permit px p \<and> permit_fields_read v p" (is "?L \<longleftrightarrow> ?R")
proof
  assume ?L
  then show ?R
    unfolding validateSharedFields_def Let_def if_Inl_eq_Inr not_not jstr_is_iff
        isBase58PublicKey_iff isSafeTimestamp_iff permit_fields_read_simps wf_permit_def
    by clarsimp
next
  assume ?R
  then show ?L
    unfolding validateSharedFields_def Let_def if_Inl_eq_Inr not_not jstr_is_iff
        isBase58PublicKey_iff isSafeTimestamp_iff permit_fields_read_simps wf_permit_def
    by simp
qed

definition wf_permit_v2 :: "platform \<Rightarrow> permit_v2 \<Rightarrow> bool" where
  "wf_permit_v2 px p \<longleftrightarrow> wf_permit px p \<and> wf_operation (pp_operation p)"

lemma permit_v2_split:
  "permit_v1.extend q (permit_v2.fields x) = p \<longleftrightarrow> permit_v1.truncate p = q \<and> pp_operation p = x"
  by (cases q; cases p) (auto simp: permit_v1.extend_def permit_v1.truncate_def permit_v2.fields_def)

lemma wf_permit_truncate [simp]: "wf_permit px (permit_v1.truncate p) \<longleftrightarrow> wf_permit px p"
  by (simp add: wf_permit_def permit_v1.truncate_def)

lemma fields_read_truncate [simp]: "permit_fields_read v (permit_v1.truncate p) \<longleftrightarrow> permit_fields_read v p"
  by (simp add: permit_fields_read_simps permit_v1.truncate_def)

lemma validateUnsignedPurchasePermit_Inr_iff:
  "validateUnsignedPurchasePermit px v = Inr p \<longleftrightarrow>
     isPlainObject v \<and> jget v ''version'' = JInt 1 \<and> wf_permit px p \<and> permit_fields_read v p"
  unfolding validateUnsignedPurchasePermit_def if_Inl_eq_Inr validateSharedFields_Inr_iff by simp

lemma validateUnsignedPurchasePermitV2_Inr_iff:
  "validateUnsignedPurchasePermitV2 px v = Inr p \<longleftrightarrow>
     isPlainObject v \<and> jget v ''version'' = JInt 2 \<and> wf_permit_v2 px p \<and> permit_fields_read v p
     \<and> validateExactOperation (jget v ''operation'') = Inr (pp_operation p)"
proof -
  have "(case validateSharedFields px v of Inl e \<Rightarrow> Inl e
      | Inr shared \<Rightarrow> (case validateExactOperation (jget v ''operation'') of
           Inl _ \<Rightarrow> Inl INVALID_OPERATION
         | Inr x \<Rightarrow> Inr (permit_v1.extend shared (permit_v2.fields x)))) = Inr p \<longleftrightarrow>
     validateSharedFields px v = Inr (permit_v1.truncate p)
     \<and> validateExactOperation (jget v ''operation'') = Inr (pp_operation p)"
    by (auto simp: permit_v2_split split: sum.splits)
  then show ?thesis
    unfolding validateUnsignedPurchasePermitV2_def if_Inl_eq_Inr validateSharedFields_Inr_iff
      wf_permit_v2_def
    using validateExactOperation_wf by auto
qed

lemma fields_read_own:
  "permit_fields_read (JObj (permit_v1_fields q @ xs)) q"
  "permit_fields_read (JObj (permit_v2_fields p @ xs)) p"
  by (simp_all add: permit_fields_read_simps permit_v1_fields_def permit_v2_fields_def
      shared_permit_fields_def)

lemma validate_permit_v1_fields:
  "wf_permit px p \<Longrightarrow> validateUnsignedPurchasePermit px (JObj (permit_v1_fields p @ xs)) = Inr p"
  unfolding validateUnsignedPurchasePermit_Inr_iff
  by (simp add: fields_read_own) (simp add: permit_v1_fields_def)

lemma validate_permit_v2_fields:
  assumes "wf_permit_v2 px p"
  shows "validateUnsignedPurchasePermitV2 px (JObj (permit_v2_fields p @ xs)) = Inr p"
proof -
  have "jget (JObj (permit_v2_fields p @ xs)) ''operation'' = operation_json (pp_operation p)"
    "jget (JObj (permit_v2_fields p @ xs)) ''version'' = JInt 2"
    by (simp_all add: permit_v2_fields_def shared_permit_fields_def)
  with assms show ?thesis
    unfolding validateUnsignedPurchasePermitV2_Inr_iff
    by (simp add: fields_read_own validate_operation_json wf_permit_v2_def del: jget.simps)
qed

section \<open>Signing and verification, once for every permit version\<close>

locale permit_format =
  fixes px :: platform
    and validate :: "jsval \<Rightarrow> PermitReasonCode + 'p"
    and fields :: "'p \<Rightarrow> (string \<times> jsval) list"
    and to_bytes :: "'p \<Rightarrow> bytes option"
    and issuer :: "'p \<Rightarrow> address"
    and wf :: "'p \<Rightarrow> bool"
    and prefix :: string
  assumes validate_fields: "wf p \<Longrightarrow> validate (JObj (fields p @ xs)) = Inr p"
    and validate_wf: "validate v = Inr p \<Longrightarrow> wf p"
    and wf_issuer: "wf p \<Longrightarrow> isAddress px (issuer p)"
    and no_signature_field: "''signature'' \<notin> fst ` set (fields p)"
    and to_bytes_eq: "to_bytes p = canonicalBytes px prefix (JObj (fields p))"
    and fields_json: "json_value (JObj (fields p))"
begin

lemma signature_read:
  "jget (JObj (fields p @ [(''signature'', signature_json s)])) ''signature'' = signature_json s"
proof -
  have "map_of (fields p) ''signature'' = None"
    using no_signature_field [of p] by (simp add: map_of_eq_None_iff)
  then show ?thesis by (simp add: map_add_def)
qed

lemma verify_iff:
  "verifyWith px to_bytes issuer validate c = Inr sp \<longleftrightarrow>
     isPlainObject c \<and> validate c = Inr (sg_body sp)
     \<and> isPlainObject (jget c ''signature'')
     \<and> jget (jget c ''signature'') ''algorithm'' = JStr ''ed25519''
     \<and> jget (jget c ''signature'') ''signature'' = JStr (sg_signature sp)
     \<and> isSignature px (sg_signature sp) \<and> importable px (issuer (sg_body sp))
     \<and> (\<exists>b. to_bytes (sg_body sp) = Some b
          \<and> verifyRaw px (issuer (sg_body sp)) (sg_signature sp) b)"
proof (cases "validate c")
  case (Inl e)
  then show ?thesis by (auto simp: verifyWith_def)
next
  case (Inr p)
  show ?thesis
  proof (cases "to_bytes p")
    case None
    then show ?thesis
      by (cases sp) (auto simp: verifyWith_def Inr js_simps Let_def)
  next
    case (Some b)
    have "isAddress px (issuer p)" using Inr validate_wf wf_issuer by blast
    with Some show ?thesis
      by (cases sp) (auto simp: verifyWith_def Inr js_simps Let_def jstr_is_iff)
  qed
qed

lemma sign_iff:
  "signValidated px to_bytes issuer (validate c) k = Inr sp \<longleftrightarrow>
     validate c = Inr (sg_body sp) \<and> keyAddress px k = issuer (sg_body sp)
     \<and> (\<exists>b. to_bytes (sg_body sp) = Some b \<and> sg_signature sp = signRaw px k b)"
  by (cases sp) (auto simp: signValidated_def js_simps split: sum.splits option.splits)

text \<open>What the issuer signs verifies, and verification returns exactly the signed permit.\<close>

lemma sign_then_verify:
  assumes "signatures_verify px" "canonical_total px" "wf p" "keyAddress px k = issuer p"
  shows "\<exists>s. signValidated px to_bytes issuer (validate (JObj (fields p))) k
               = Inr \<lparr> sg_body = p, sg_signature = s \<rparr>
    \<and> verifyWith px to_bytes issuer validate (JObj (fields p @ [(''signature'', signature_json s)]))
        = Inr \<lparr> sg_body = p, sg_signature = s \<rparr>"
proof -
  obtain b where b: "to_bytes p = Some b"
    using canonicalBytes_total [OF assms(2) fields_json] to_bytes_eq by metis
  have v: "validate (JObj (fields p)) = Inr p"
    using validate_fields [OF assms(3), of "[]"] by simp
  have "signValidated px to_bytes issuer (validate (JObj (fields p))) k
          = Inr \<lparr> sg_body = p, sg_signature = signRaw px k b \<rparr>"
    using v b assms(4) unfolding sign_iff by simp
  moreover have "verifyWith px to_bytes issuer validate
      (JObj (fields p @ [(''signature'', signature_json (signRaw px k b))]))
        = Inr \<lparr> sg_body = p, sg_signature = signRaw px k b \<rparr>"
    using assms b unfolding verify_iff signature_read
    by (auto simp: signature_json_def validate_fields signatures_verify_def)
      (metis assms(4))+
  ultimately show ?thesis by blast
qed

end

lemma distinct_permit_fields:
  "distinct (map fst (permit_v1_fields q))" "distinct (map fst (permit_v2_fields p))"
  by (simp_all add: permit_v1_fields_def permit_v2_fields_def shared_permit_fields_def)

lemma json_value_permit_fields:
  "json_value (JObj (permit_v1_fields q))" "json_value (JObj (permit_v2_fields p))"
  by (simp_all add: permit_v1_fields_def permit_v2_fields_def shared_permit_fields_def)

interpretation pv1: permit_format px "validateUnsignedPurchasePermit px" permit_v1_fields
    "canonicalizeUnsignedPurchasePermit px" pp_issuer "wf_permit px" PERMIT_V1_PREFIX for px
proof unfold_locales
  show "''signature'' \<notin> fst ` set (permit_v1_fields p)" for p
    by (simp add: permit_v1_fields_def shared_permit_fields_def)
qed (auto simp: validate_permit_v1_fields validateUnsignedPurchasePermit_Inr_iff
      canonicalizeUnsignedPurchasePermit_def json_value_permit_fields wf_permit_def
      simp del: json_value.simps)

interpretation pv2: permit_format px "validateUnsignedPurchasePermitV2 px" permit_v2_fields
    "canonicalizeUnsignedPurchasePermitV2 px" pp_issuer "wf_permit_v2 px" PERMIT_V2_PREFIX for px
proof unfold_locales
  show "''signature'' \<notin> fst ` set (permit_v2_fields p)" for p
    by (simp add: permit_v2_fields_def shared_permit_fields_def)
qed (auto simp: validate_permit_v2_fields validateUnsignedPurchasePermitV2_Inr_iff
      canonicalizeUnsignedPurchasePermitV2_def json_value_permit_fields wf_permit_v2_def wf_permit_def
      simp del: json_value.simps)

section \<open>Digests\<close>

lemma jnorm_reads_agree:
  assumes "jnorm (JObj a) = jnorm (JObj b)" "distinct (map fst a)" "distinct (map fst b)"
  shows "jget (JObj a) k = JStr x \<Longrightarrow> jget (JObj b) k = JStr y \<Longrightarrow> x = y"
    and "jget (JObj a) k = JInt i \<Longrightarrow> jget (JObj b) k = JInt j \<Longrightarrow> i = j"
  using jnorm_jget_cong [OF assms, of k] by simp_all

lemma jnorm_signature_json: "jnorm (signature_json s) = jnorm (signature_json t) \<longleftrightarrow> s = t"
  unfolding signature_json_def
  by (auto dest!: jnorm_reads_agree(1) [where k = "''signature''" and x = s and y = t])

lemma permit_digest_object_v2_reads:
  "permit_fields_read (permit_digest_object_v2 sp) (sg_body sp)"
  "jget (permit_digest_object_v2 sp) ''operation'' = operation_json (pp_operation (sg_body sp))"
  "jget (permit_digest_object_v2 sp) ''signature'' = signature_json (sg_signature sp)"
  by (simp_all add: permit_fields_read_simps permit_digest_object_v2_def shared_permit_fields_def)

lemma permit_v2_eqI:
  assumes "permit_fields_read v p" "permit_fields_read w q" "pp_operation p = pp_operation q"
    and "\<And>k. jnorm (jget v k) = jnorm (jget w k)"
  shows "p = (q :: permit_v2)"
proof -
  note c = assms(4)
  from assms(1-3) c [of "''grantId''"] c [of "''issuer''"] c [of "''authorizedAgent''"]
    c [of "''service''"] c [of "''capability''"] c [of "''network''"] c [of "''mint''"]
    c [of "''recipient''"] c [of "''maxPerCallAtomic''"] c [of "''maxTotalAtomic''"]
    c [of "''issuedAt''"] c [of "''expiresAt''"]
  show ?thesis
    unfolding permit_fields_read_simps by (cases p; cases q) simp
qed

lemma json_value_permit_digest_object: "json_value (permit_digest_object_v2 sp)"
  by (simp add: permit_digest_object_v2_def shared_permit_fields_def signature_json_def)

lemma jnorm_permit_digest_object:
  assumes "jnorm (permit_digest_object_v2 a) = jnorm (permit_digest_object_v2 b)"
  shows "a = b"
proof -
  have d: "distinct (map fst ((''version'', JInt 2) # shared_permit_fields (sg_body sp)
             @ [(''signature'', signature_json (sg_signature sp)),
                (''operation'', operation_json (pp_operation (sg_body sp)))]))" for sp
    by (simp add: shared_permit_fields_def)
  have c: "jnorm (jget (permit_digest_object_v2 a) k) = jnorm (jget (permit_digest_object_v2 b) k)" for k
    using jnorm_jget_cong [OF assms [unfolded permit_digest_object_v2_def] d d]
    unfolding permit_digest_object_v2_def .
  have "pp_operation (sg_body a) = pp_operation (sg_body b)"
    using c [of "''operation''"] unfolding permit_digest_object_v2_reads jnorm_operation_json .
  then have "sg_body a = sg_body b"
    by (rule permit_v2_eqI [OF permit_digest_object_v2_reads(1) permit_digest_object_v2_reads(1) _ c])
  moreover have "sg_signature a = sg_signature b"
    using c [of "''signature''"] unfolding permit_digest_object_v2_reads jnorm_signature_json .
  ultimately show ?thesis by (cases a; cases b) simp
qed

lemma permit_digest_identifies:
  assumes "canonical_total px" "canonical_faithful px"
    and "collision_free_on px
          (digest_inputs px PERMIT_V2_DIGEST_PREFIX {permit_digest_object_v2 a, permit_digest_object_v2 b})"
    and "computePermitDigest px a = computePermitDigest px b"
  shows "a = b"
proof (rule jnorm_permit_digest_object)
  show "jnorm (permit_digest_object_v2 a) = jnorm (permit_digest_object_v2 b)"
    using assms by (intro canonicalDigest_inject) (simp_all add: json_value_permit_digest_object computePermitDigest_def)
qed

end
