(* ===== verification/Mandate_Request.thy ===== *)
theory Mandate_Request
  imports Mandate_Permit
begin

text \<open>
  packages/mandate/src/authorization-request.ts: the request an agent signs with its identity
  key.  \<open>request_v1\<close> holds the fields both versions share, \<open>request_v2\<close> adds the operation.
  A rejected request carries which field was rejected in place of the diagnostic text.
\<close>

record request_v1 =
  rq_audience :: string
  rq_grantId :: string
  rq_permitDigest :: string
  rq_invocationId :: string
  rq_service :: string
  rq_capability :: string
  rq_network :: string
  rq_mint :: string
  rq_recipient :: string
  rq_amountAtomic :: string
  rq_issuedAt :: int

record request_v2 = request_v1 +
  rq_operation :: ExactOperation

datatype request_error =
    RequestNotObject
  | RequestUnexpectedField string
  | RequestProtocolOrVersion
  | RequestField string
  | RequestOperation operation_error

definition AUTHORIZATION_REQUEST_PROTOCOL :: string where
  "AUTHORIZATION_REQUEST_PROTOCOL = ''virtual-haibin/authorization-request''"

definition REQUEST_FIELDS_V1 :: "string list" where
  "REQUEST_FIELDS_V1 =
     [''protocol'', ''version'', ''audience'', ''grantId'', ''permitDigest'', ''invocationId'',
      ''service'', ''capability'', ''network'', ''mint'', ''recipient'', ''amountAtomic'', ''issuedAt'']"

definition REQUEST_FIELDS_V2 :: "string list" where
  "REQUEST_FIELDS_V2 = REQUEST_FIELDS_V1 @ [''operation'']"

text \<open>\<open>/^[0-9a-f]{64}$/\<close>\<close>

definition is_hex_char :: "char \<Rightarrow> bool" where
  "is_hex_char c \<longleftrightarrow> is_digit c \<or> 97 \<le> code c \<and> code c \<le> 102"

definition digest_pattern :: "string \<Rightarrow> bool" where
  "digest_pattern = class_between is_hex_char 64 64"

definition MAX_FIELD_LENGTH :: nat where
  "MAX_FIELD_LENGTH = 256"

definition isBoundedString :: "jsval \<Rightarrow> bool" where
  "isBoundedString = jstr_is (\<lambda>s. 0 < length s \<and> length s \<le> MAX_FIELD_LENGTH)"

section \<open>Validation\<close>

definition validateSharedRequestFields ::
  "jsval \<Rightarrow> int \<Rightarrow> string list \<Rightarrow> request_error + request_v1" where
  "validateSharedRequestFields c version allowedFields =
     (if \<not> isPlainObject c then Inl RequestNotObject
      else case find (\<lambda>k. k \<notin> set allowedFields) (jkeys c) of
        Some k \<Rightarrow> Inl (RequestUnexpectedField k)
      | None \<Rightarrow>
        if jget c ''protocol'' \<noteq> JStr AUTHORIZATION_REQUEST_PROTOCOL \<or> jget c ''version'' \<noteq> JInt version
        then Inl RequestProtocolOrVersion
        else case find (\<lambda>f. \<not> jstr_is identifier_pattern (jget c f)) [''audience'', ''grantId'', ''invocationId''] of
          Some f \<Rightarrow> Inl (RequestField f)
        | None \<Rightarrow>
          if \<not> jstr_is digest_pattern (jget c ''permitDigest'') then Inl (RequestField ''permitDigest'')
          else case find (\<lambda>f. \<not> isBoundedString (jget c f))
                 [''service'', ''capability'', ''network'', ''mint'', ''recipient''] of
            Some f \<Rightarrow> Inl (RequestField f)
          | None \<Rightarrow>
            if \<not> jstr_is atomic_pattern (jget c ''amountAtomic'') then Inl (RequestField ''amountAtomic'')
            else if \<not> isSafeInteger (jget c ''issuedAt'') \<or> jint (jget c ''issuedAt'') \<le> 0
            then Inl (RequestField ''issuedAt'')
            else Inr \<lparr> rq_audience = jstr (jget c ''audience''),
                       rq_grantId = jstr (jget c ''grantId''),
                       rq_permitDigest = jstr (jget c ''permitDigest''),
                       rq_invocationId = jstr (jget c ''invocationId''),
                       rq_service = jstr (jget c ''service''),
                       rq_capability = jstr (jget c ''capability''),
                       rq_network = jstr (jget c ''network''),
                       rq_mint = jstr (jget c ''mint''),
                       rq_recipient = jstr (jget c ''recipient''),
                       rq_amountAtomic = jstr (jget c ''amountAtomic''),
                       rq_issuedAt = jint (jget c ''issuedAt'') \<rparr>)"

definition validateAuthorizationRequest :: "jsval \<Rightarrow> request_error + request_v1" where
  "validateAuthorizationRequest c = validateSharedRequestFields c 1 REQUEST_FIELDS_V1"

definition validateAuthorizationRequestV2 :: "jsval \<Rightarrow> request_error + request_v2" where
  "validateAuthorizationRequestV2 c =
     (case validateSharedRequestFields c 2 REQUEST_FIELDS_V2 of
        Inl e \<Rightarrow> Inl e
      | Inr shared \<Rightarrow>
        (case validateExactOperation (jget c ''operation'') of
           Inl e \<Rightarrow> Inl (RequestOperation e)
         | Inr p \<Rightarrow> Inr (request_v1.extend shared (request_v2.fields p))))"

section \<open>Canonical form, signing and verification\<close>

definition shared_request_fields :: "'a request_v1_scheme \<Rightarrow> int \<Rightarrow> (string \<times> jsval) list" where
  "shared_request_fields r version =
     [(''protocol'', JStr AUTHORIZATION_REQUEST_PROTOCOL), (''version'', JInt version),
      (''audience'', JStr (rq_audience r)), (''grantId'', JStr (rq_grantId r)),
      (''permitDigest'', JStr (rq_permitDigest r)), (''invocationId'', JStr (rq_invocationId r)),
      (''service'', JStr (rq_service r)), (''capability'', JStr (rq_capability r)),
      (''network'', JStr (rq_network r)), (''mint'', JStr (rq_mint r)),
      (''recipient'', JStr (rq_recipient r)), (''amountAtomic'', JStr (rq_amountAtomic r)),
      (''issuedAt'', JInt (rq_issuedAt r))]"

definition request_json :: "request_v1 \<Rightarrow> jsval" where
  "request_json r = JObj (shared_request_fields r 1)"

definition request_v2_json :: "request_v2 \<Rightarrow> jsval" where
  "request_v2_json r = JObj (shared_request_fields r 2 @ [(''operation'', operation_json (rq_operation r))])"

definition REQUEST_V1_PREFIX :: string where
  "REQUEST_V1_PREFIX = AUTHORIZATION_REQUEST_PROTOCOL @ '':v1'' @ [CHR 0x0A]"

definition REQUEST_V2_PREFIX :: string where
  "REQUEST_V2_PREFIX = AUTHORIZATION_REQUEST_PROTOCOL @ '':v2'' @ [CHR 0x0A]"

definition canonicalizeAuthorizationRequest :: "platform \<Rightarrow> request_v1 \<Rightarrow> bytes option" where
  "canonicalizeAuthorizationRequest px r = canonicalBytes px REQUEST_V1_PREFIX (request_json r)"

definition canonicalizeAuthorizationRequestV2 :: "platform \<Rightarrow> request_v2 \<Rightarrow> bytes option" where
  "canonicalizeAuthorizationRequestV2 px r = canonicalBytes px REQUEST_V2_PREFIX (request_v2_json r)"

datatype request_sign_error =
    RequestSignInvalid request_error
  | RequestNotCanonicalizable

definition signAuthorizationRequest ::
  "platform \<Rightarrow> request_v1 \<Rightarrow> signing_key \<Rightarrow> request_sign_error + string" where
  "signAuthorizationRequest px request agentIdentity =
     (case validateAuthorizationRequest (request_json request) of
        Inl e \<Rightarrow> Inl (RequestSignInvalid e)
      | Inr r \<Rightarrow>
        (case canonicalizeAuthorizationRequest px r of
           None \<Rightarrow> Inl RequestNotCanonicalizable
         | Some b \<Rightarrow> Inr (signRaw px agentIdentity b)))"

definition signAuthorizationRequestV2 ::
  "platform \<Rightarrow> request_v2 \<Rightarrow> signing_key \<Rightarrow> request_sign_error + string" where
  "signAuthorizationRequestV2 px request agentIdentity =
     (case validateAuthorizationRequestV2 (request_v2_json request) of
        Inl e \<Rightarrow> Inl (RequestSignInvalid e)
      | Inr r \<Rightarrow>
        (case canonicalizeAuthorizationRequestV2 px r of
           None \<Rightarrow> Inl RequestNotCanonicalizable
         | Some b \<Rightarrow> Inr (signRaw px agentIdentity b)))"

text \<open>Shared by both request versions: \<open>message\<close> is the canonical form, \<open>None\<close> where building it
  throws; every throw is caught and reads as false.\<close>

definition verifyAuthorizationRequestSignature ::
  "platform \<Rightarrow> bytes option \<Rightarrow> jsval \<Rightarrow> address \<Rightarrow> bool" where
  "verifyAuthorizationRequestSignature px message candidateSignature expectedAgent =
     (if \<not> isPlainObject candidateSignature then False
      else if jget candidateSignature ''algorithm'' \<noteq> JStr ''ed25519''
            \<or> \<not> jstr_is (isSignature px) (jget candidateSignature ''signature'') then False
      else if \<not> (isAddress px expectedAgent \<and> importable px expectedAgent) then False
      else case message of
        None \<Rightarrow> False
      | Some b \<Rightarrow> verifyRaw px expectedAgent (jstr (jget candidateSignature ''signature'')) b)"

section \<open>Well-formed requests\<close>

definition wf_request :: "'a request_v1_scheme \<Rightarrow> bool" where
  "wf_request r \<longleftrightarrow>
     list_all identifier_pattern [rq_audience r, rq_grantId r, rq_invocationId r]
     \<and> digest_pattern (rq_permitDigest r)
     \<and> list_all (\<lambda>s. 0 < length s \<and> length s \<le> MAX_FIELD_LENGTH)
         [rq_service r, rq_capability r, rq_network r, rq_mint r, rq_recipient r]
     \<and> atomic_pattern (rq_amountAtomic r)
     \<and> 0 < rq_issuedAt r \<and> rq_issuedAt r \<le> MAX_SAFE_INTEGER"

definition request_fields_read :: "jsval \<Rightarrow> 'a request_v1_scheme \<Rightarrow> int \<Rightarrow> bool" where
  "request_fields_read v r version \<longleftrightarrow> (\<forall>(k, x) \<in> set (shared_request_fields r version). jget v k = x)"

lemma request_fields_read_simps:
  "request_fields_read v r version \<longleftrightarrow>
     jget v ''protocol'' = JStr AUTHORIZATION_REQUEST_PROTOCOL \<and> jget v ''version'' = JInt version
     \<and> jget v ''audience'' = JStr (rq_audience r) \<and> jget v ''grantId'' = JStr (rq_grantId r)
     \<and> jget v ''permitDigest'' = JStr (rq_permitDigest r)
     \<and> jget v ''invocationId'' = JStr (rq_invocationId r)
     \<and> jget v ''service'' = JStr (rq_service r) \<and> jget v ''capability'' = JStr (rq_capability r)
     \<and> jget v ''network'' = JStr (rq_network r) \<and> jget v ''mint'' = JStr (rq_mint r)
     \<and> jget v ''recipient'' = JStr (rq_recipient r)
     \<and> jget v ''amountAtomic'' = JStr (rq_amountAtomic r)
     \<and> jget v ''issuedAt'' = JInt (rq_issuedAt r)"
  by (simp add: request_fields_read_def shared_request_fields_def)

lemma case_find_Inr:
  "(case find P xs of Some k \<Rightarrow> Inl (e k) | None \<Rightarrow> r) = Inr a \<longleftrightarrow> list_all (\<lambda>x. \<not> P x) xs \<and> r = Inr a"
proof (cases "find P xs")
  case None
  then have "list_all (\<lambda>x. \<not> P x) xs" by (simp add: find_None_iff list_all_iff)
  with None show ?thesis by simp
next
  case (Some x)
  then have "P x \<and> x \<in> set xs" by (metis find_Some_iff nth_mem)
  with Some show ?thesis by (auto simp: list_all_iff)
qed

lemma safe_positive_iff:
  "isSafeInteger v \<and> 0 < jint v \<longleftrightarrow> (\<exists>i. v = JInt i \<and> 0 < i \<and> i \<le> MAX_SAFE_INTEGER)"
  by (cases v) (auto simp: MAX_SAFE_INTEGER_def)

lemma validateSharedRequestFields_Inr_iff:
  "validateSharedRequestFields v n fs = Inr r \<longleftrightarrow>
     isPlainObject v \<and> set (jkeys v) \<subseteq> set fs \<and> wf_request r \<and> request_fields_read v r n"
  (is "?L \<longleftrightarrow> ?R")
proof -
  have keys: "list_all (\<lambda>x. x \<in> set fs) (jkeys v) \<longleftrightarrow> set (jkeys v) \<subseteq> set fs"
    by (auto simp: list_all_iff)
  have issued: "\<not> (\<not> isSafeInteger w \<or> jint w \<le> 0) \<longleftrightarrow> isSafeInteger w \<and> 0 < jint w" for w
    by auto
  show ?thesis
  proof
    assume ?L
    then show ?R
      unfolding validateSharedRequestFields_def if_Inl_eq_Inr case_find_Inr issued not_not keys safe_positive_iff
        jstr_is_iff isBoundedString_def request_fields_read_simps wf_request_def
      by clarsimp
  next
    assume ?R
    then show ?L
      unfolding validateSharedRequestFields_def if_Inl_eq_Inr case_find_Inr issued not_not keys safe_positive_iff
        jstr_is_iff isBoundedString_def request_fields_read_simps wf_request_def
      by simp
  qed
qed

definition wf_request_v2 :: "request_v2 \<Rightarrow> bool" where
  "wf_request_v2 r \<longleftrightarrow> wf_request r \<and> wf_operation (rq_operation r)"

lemma request_v2_split:
  "request_v1.extend q (request_v2.fields x) = r \<longleftrightarrow> request_v1.truncate r = q \<and> rq_operation r = x"
  by (cases q; cases r) (auto simp: request_v1.extend_def request_v1.truncate_def request_v2.fields_def)

lemma validateAuthorizationRequestV2_Inr_iff:
  "validateAuthorizationRequestV2 v = Inr r \<longleftrightarrow>
     isPlainObject v \<and> set (jkeys v) \<subseteq> set REQUEST_FIELDS_V2 \<and> wf_request_v2 r
     \<and> request_fields_read v r 2 \<and> validateExactOperation (jget v ''operation'') = Inr (rq_operation r)"
proof -
  have "validateAuthorizationRequestV2 v = Inr r \<longleftrightarrow>
     validateSharedRequestFields v 2 REQUEST_FIELDS_V2 = Inr (request_v1.truncate r)
     \<and> validateExactOperation (jget v ''operation'') = Inr (rq_operation r)"
    unfolding validateAuthorizationRequestV2_def by (auto simp: request_v2_split split: sum.splits)
  moreover have "wf_request (request_v1.truncate r) \<longleftrightarrow> wf_request r"
    by (simp add: wf_request_def request_v1.truncate_def)
  moreover have "request_fields_read v (request_v1.truncate r) 2 \<longleftrightarrow> request_fields_read v r 2"
    by (simp add: request_fields_read_simps request_v1.truncate_def)
  ultimately show ?thesis
    unfolding validateSharedRequestFields_Inr_iff wf_request_v2_def
    using validateExactOperation_wf by auto
qed

lemma validate_request_v2_json:
  assumes "wf_request_v2 r"
  shows "validateAuthorizationRequestV2 (request_v2_json r) = Inr r"
proof -
  have "jget (request_v2_json r) ''operation'' = operation_json (rq_operation r)"
    "request_fields_read (request_v2_json r) r 2" "isPlainObject (request_v2_json r)"
    "set (jkeys (request_v2_json r)) \<subseteq> set REQUEST_FIELDS_V2"
    by (simp_all add: request_fields_read_simps request_v2_json_def shared_request_fields_def
        REQUEST_FIELDS_V2_def REQUEST_FIELDS_V1_def)
  with assms show ?thesis
    unfolding validateAuthorizationRequestV2_Inr_iff
    by (simp add: validate_operation_json wf_request_v2_def)
qed

lemma json_value_request_v2 [simp]: "json_value (request_v2_json r)"
  by (simp add: request_v2_json_def shared_request_fields_def)

lemma verifyAuthorizationRequestSignature_iff:
  "verifyAuthorizationRequestSignature px m s a \<longleftrightarrow>
     (\<exists>t b. isPlainObject s \<and> jget s ''algorithm'' = JStr ''ed25519'' \<and> jget s ''signature'' = JStr t
        \<and> isSignature px t \<and> isAddress px a \<and> importable px a \<and> m = Some b \<and> verifyRaw px a t b)"
  by (auto simp: verifyAuthorizationRequestSignature_def jstr_is_iff split: option.splits)

text \<open>A request that an agent signs verifies under that agent's address, and only a well-formed
  request is signed.\<close>

lemma request_sign_then_verify:
  assumes "signatures_verify px" "canonical_total px" "wf_request_v2 r"
  shows "\<exists>s. signAuthorizationRequestV2 px r k = Inr s
    \<and> verifyAuthorizationRequestSignature px (canonicalizeAuthorizationRequestV2 px r)
        (signature_json s) (keyAddress px k)"
proof -
  obtain b where b: "canonicalizeAuthorizationRequestV2 px r = Some b"
    using canonicalBytes_total [OF assms(2) json_value_request_v2]
    unfolding canonicalizeAuthorizationRequestV2_def by blast
  show ?thesis
  proof (intro exI conjI)
    show "signAuthorizationRequestV2 px r k = Inr (signRaw px k b)"
      using b validate_request_v2_json [OF assms(3)] by (simp add: signAuthorizationRequestV2_def)
    show "verifyAuthorizationRequestSignature px (canonicalizeAuthorizationRequestV2 px r)
        (signature_json (signRaw px k b)) (keyAddress px k)"
      using b assms(1) unfolding verifyAuthorizationRequestSignature_iff
      by (simp add: signature_json_def signatures_verify_def)
  qed
qed

lemma sign_request_wf: "signAuthorizationRequestV2 px r k = Inr s \<Longrightarrow> wf_request_v2 r"
proof -
  assume "signAuthorizationRequestV2 px r k = Inr s"
  then obtain r' where "validateAuthorizationRequestV2 (request_v2_json r) = Inr r'"
    by (auto simp: signAuthorizationRequestV2_def split: sum.splits)
  then have "wf_request_v2 r'" "request_fields_read (request_v2_json r) r' 2"
    "validateExactOperation (jget (request_v2_json r) ''operation'') = Inr (rq_operation r')"
    unfolding validateAuthorizationRequestV2_Inr_iff by blast+
  moreover from this(2,3) have "r' = r"
    unfolding request_fields_read_simps validateExactOperation_Inr_iff
    by (cases r; cases r') (simp add: request_v2_json_def shared_request_fields_def operation_json_def)
  ultimately show ?thesis by simp
qed

end
