(* ===== verification/Payments_Types.thy ===== *)
theory Payments_Types
  imports Platform Decimal
begin

text \<open>
  packages/payments/src/{types,paid-request,settlement-profile}.ts and the challenge parser of
  x402-exact-provider.ts.  The payment data types, the digest that binds an outbound request, the
  trusted settlement profile, and the strict normalization of an untrusted 402 challenge.
\<close>

section \<open>Data types\<close>

record PaidResource =
  rc_serviceId :: string
  rc_capability :: string
  rc_url :: string
  rc_method :: string

record PaymentRequirement =
  pm_protocol :: string
  pm_x402Version :: int
  pm_acceptsIndex :: nat
  pm_scheme :: string
  pm_network :: string
  pm_asset :: string
  pm_payTo :: string
  pm_amountAtomic :: string
  pm_feePayer :: "string option"
  pm_maxTimeoutSeconds :: "jsval option"
  pm_resourceUrl :: "string option"

datatype ChallengeRejectionCode =
    CHALLENGE_NOT_PAYMENT_REQUIRED
  | CHALLENGE_REDIRECT
  | CHALLENGE_MALFORMED
  | UNSUPPORTED_PAYMENT_PROTOCOL

record PaymentChallenge =
  ch_requirements :: "PaymentRequirement list"
  ch_requestSha256 :: string
  ch_raw :: jsval

datatype ChallengeResult =
    Rejected ChallengeRejectionCode
  | Challenge PaymentChallenge

record PaymentAttempt =
  at_protocol :: string
  at_scheme :: string
  at_settlementProfile :: string
  at_network :: string
  at_payer :: string
  at_payerSignature :: string
  at_feePayer :: string
  at_asset :: string
  at_payTo :: string
  at_amountAtomic :: string
  at_blockhash :: string
  at_lastValidBlockHeight :: string
  at_resourceUrl :: string
  at_requestSha256 :: string
  at_transactionBase64 :: "string option"
  at_preparedAt :: int

record ConfirmedSettlement =
  cs_transactionId :: string
  cs_slot :: "string option"
  cs_facilitatorReportedTransaction :: "string option"
  cs_confirmedAt :: int

record PaidResult =
  rs_httpStatus :: int
  rs_json :: jsval
  rs_sha256 :: string
  rs_bytes :: nat
  rs_bodyBase64 :: "string option"
  rs_serviceAcknowledgementHeader :: "string option"

record PaymentExecution =
  ex_attempt :: PaymentAttempt
  ex_settlement :: ConfirmedSettlement
  ex_result :: PaidResult

datatype SettlementLookup =
    LookupConfirmed ConfirmedSettlement
  | LookupFailedOnchain string string
  | LookupExpired string
  | LookupPending "string option"
  | LookupInconclusive

section \<open>The outbound request and its digest\<close>

record PaidRequest =
  pq_url :: string
  pq_method :: string
  pq_contentType :: string
  pq_body :: string
  pq_sha256 :: string

definition PAID_REQUEST_DOMAIN :: string where
  "PAID_REQUEST_DOMAIN = ''virtual-haibin/paid-request:v1'' @ [CHR 0x0A]"

text \<open>The digest is over the JSON array of the four strings, whose encoding is unambiguous.\<close>

definition computePaidRequestDigest :: "platform \<Rightarrow> PaidRequest \<Rightarrow> string" where
  "computePaidRequestDigest px r =
     sha256 px (utf8 (PAID_REQUEST_DOMAIN
       @ json_string_array [pq_method r, pq_url r, pq_contentType r, pq_body r]))"

definition createPaidRequest :: "platform \<Rightarrow> string \<Rightarrow> string \<Rightarrow> string \<Rightarrow> PaidRequest" where
  "createPaidRequest px url mthd body =
     (let fields = \<lparr> pq_url = url, pq_method = mthd, pq_contentType = ''application/json'',
                     pq_body = body, pq_sha256 = [] \<rparr>
      in fields \<lparr> pq_sha256 := computePaidRequestDigest px fields \<rparr>)"

definition paidRequestMatches :: "platform \<Rightarrow> PaidRequest \<Rightarrow> string \<Rightarrow> bool" where
  "paidRequestMatches px request expectedSha256 \<longleftrightarrow>
     computePaidRequestDigest px request = pq_sha256 request \<and> pq_sha256 request = expectedSha256"

definition paid_request_message :: "PaidRequest \<Rightarrow> bytes" where
  "paid_request_message r =
     utf8 (PAID_REQUEST_DOMAIN @ json_string_array [pq_method r, pq_url r, pq_contentType r, pq_body r])"

lemma computePaidRequestDigest_message: "computePaidRequestDigest px r = sha256 px (paid_request_message r)"
  by (simp add: computePaidRequestDigest_def paid_request_message_def)

lemma digest_ignores_stored: "computePaidRequestDigest px (r \<lparr> pq_sha256 := d \<rparr>) = computePaidRequestDigest px r"
  by (simp add: computePaidRequestDigest_def)

lemma createPaidRequest_simps [simp]:
  "pq_url (createPaidRequest px u m b) = u" "pq_method (createPaidRequest px u m b) = m"
  "pq_contentType (createPaidRequest px u m b) = ''application/json''"
  "pq_body (createPaidRequest px u m b) = b"
  "pq_sha256 (createPaidRequest px u m b) = computePaidRequestDigest px (createPaidRequest px u m b)"
  by (simp_all add: createPaidRequest_def Let_def computePaidRequestDigest_def)

lemma created_request_matches:
  "paidRequestMatches px (createPaidRequest px u m b) d \<longleftrightarrow> d = pq_sha256 (createPaidRequest px u m b)"
  by (auto simp: paidRequestMatches_def)

text \<open>Two requests with the same digest are the same request: no two field tuples share a message.\<close>

lemma paid_request_message_inject:
  "paid_request_message a = paid_request_message b \<longleftrightarrow>
     pq_method a = pq_method b \<and> pq_url a = pq_url b \<and> pq_contentType a = pq_contentType b
     \<and> pq_body a = pq_body b"
  by (simp add: paid_request_message_def utf8_inject json_string_array_inject)

lemma paid_request_identified:
  assumes "collision_free_on px {paid_request_message a, paid_request_message b}"
    and "paidRequestMatches px a d" "paidRequestMatches px b d"
  shows "a = b"
proof -
  from assms(2,3) have "sha256 px (paid_request_message a) = sha256 px (paid_request_message b)"
    by (simp add: paidRequestMatches_def computePaidRequestDigest_message)
  with assms(1) have "paid_request_message a = paid_request_message b"
    by (auto simp: collision_free_on_def dest: inj_onD)
  with assms(2,3) show ?thesis
    by (cases a; cases b) (simp add: paid_request_message_inject paidRequestMatches_def)
qed

section \<open>Settlement profile\<close>

record SettlementProfile =
  sp_name :: string
  sp_permitNetwork :: string
  sp_environment :: string
  sp_rpcUrl :: string
  sp_acceptedChallengeNetworks :: "string list"
  sp_allowedAssets :: "string list"
  sp_protocol :: string
  sp_x402Version :: int
  sp_scheme :: string
  sp_requiredBlockhashPrefix :: string

definition SANDBOX_USDC_MINT :: string where
  "SANDBOX_USDC_MINT = ''EPjFWdd5AufqSSqeM2qN1xzybapC8G4wEGGkZwyTDt1v''"

definition SANDBOX_ADVERTISED_NETWORK :: string where
  "SANDBOX_ADVERTISED_NETWORK = ''solana:5eykt4UsFv8P8NJdTREpY1vzqKqZKvdp''"

definition strip_trailing_slash :: "string \<Rightarrow> string" where
  "strip_trailing_slash s = (if s \<noteq> [] \<and> last s = CHR ''/'' then butlast s else s)"

text \<open>\<open>None\<close> is a throw: an unparsable URL, a scheme other than http(s), or embedded credentials.
  The assets are given by mint (the label is for people only).\<close>

definition solanaPaymentSandboxProfile :: "platform \<Rightarrow> string \<Rightarrow> SettlementProfile option" where
  "solanaPaymentSandboxProfile px rpcUrl =
     (case parseUrl px rpcUrl of
        None \<Rightarrow> None
      | Some u \<Rightarrow>
        if url_protocol u \<noteq> ''https:'' \<and> url_protocol u \<noteq> ''http:'' then None
        else if url_username u \<noteq> [] \<or> url_password u \<noteq> [] then None
        else Some \<lparr> sp_name = ''solana-payment-sandbox'',
                    sp_permitNetwork = ''solana-payment-sandbox'',
                    sp_environment = ''sandbox'',
                    sp_rpcUrl = strip_trailing_slash (url_text u),
                    sp_acceptedChallengeNetworks = [SANDBOX_ADVERTISED_NETWORK],
                    sp_allowedAssets = [SANDBOX_USDC_MINT],
                    sp_protocol = ''x402'', sp_x402Version = 2, sp_scheme = ''exact'',
                    sp_requiredBlockhashPrefix = ''SURFNETxSAFEHASH'' \<rparr>)"

section \<open>Normalizing a 402 challenge\<close>

definition MAX_ACCEPTS :: nat where
  "MAX_ACCEPTS = 16"

fun is_jnumber :: "jsval \<Rightarrow> bool" where
  "is_jnumber (JInt _) = True"
| "is_jnumber (JNonInt _) = True"
| "is_jnumber _ = False"

definition str_opt :: "jsval \<Rightarrow> string option" where
  "str_opt v = (case v of JStr s \<Rightarrow> Some s | _ \<Rightarrow> None)"

text \<open>One entry of \<open>accepts\<close>: \<open>None\<close> where \<open>forEach\<close> returns without pushing.\<close>

definition normalize_entry :: "string option \<Rightarrow> nat \<Rightarrow> jsval \<Rightarrow> PaymentRequirement option" where
  "normalize_entry resourceUrl acceptsIndex entry =
     (if \<not> isPlainObject entry then None
      else if \<not> jstr_is (\<lambda>_. True) (jget entry ''scheme'') \<or> \<not> jstr_is (\<lambda>_. True) (jget entry ''network'')
        \<or> \<not> jstr_is (\<lambda>_. True) (jget entry ''asset'') \<or> \<not> jstr_is (\<lambda>_. True) (jget entry ''payTo'')
        \<or> \<not> jstr_is (\<lambda>s. atomic_pattern s \<and> \<not> dec s > MAX_U64) (jget entry ''amount'') then None
      else let extra = (if isPlainObject (jget entry ''extra'') then jget entry ''extra'' else JObj []) in
        Some \<lparr> pm_protocol = ''x402'', pm_x402Version = 2, pm_acceptsIndex = acceptsIndex,
               pm_scheme = jstr (jget entry ''scheme''), pm_network = jstr (jget entry ''network''),
               pm_asset = jstr (jget entry ''asset''), pm_payTo = jstr (jget entry ''payTo''),
               pm_amountAtomic = jstr (jget entry ''amount''),
               pm_feePayer = str_opt (jget extra ''feePayer''),
               pm_maxTimeoutSeconds = (if is_jnumber (jget entry ''maxTimeoutSeconds'')
                 then Some (jget entry ''maxTimeoutSeconds'') else None),
               pm_resourceUrl = resourceUrl \<rparr>)"

fun jarr :: "jsval \<Rightarrow> jsval list option" where
  "jarr (JArr vs) = Some vs"
| "jarr _ = None"

definition normalizeChallenge :: "jsval \<Rightarrow> string \<Rightarrow> ChallengeResult" where
  "normalizeChallenge decoded requestSha256 =
     (if \<not> isPlainObject decoded then Rejected CHALLENGE_MALFORMED
      else if jget decoded ''x402Version'' \<noteq> JInt 2 then Rejected UNSUPPORTED_PAYMENT_PROTOCOL
      else case jarr (jget decoded ''accepts'') of
        None \<Rightarrow> Rejected CHALLENGE_MALFORMED
      | Some accepts \<Rightarrow>
        if length accepts = 0 \<or> length accepts > MAX_ACCEPTS then Rejected CHALLENGE_MALFORMED
        else let resourceUrl = (if isPlainObject (jget decoded ''resource'')
                   then str_opt (jget (jget decoded ''resource'') ''url'') else None);
                 requirements = List.map_filter (\<lambda>(i, e). normalize_entry resourceUrl i e)
                   (List.enumerate 0 accepts)
             in if length requirements = 0 then Rejected CHALLENGE_MALFORMED
                else Challenge \<lparr> ch_requirements = requirements, ch_requestSha256 = requestSha256,
                                 ch_raw = decoded \<rparr>)"

text \<open>A requirement is verbatim the entry of the challenge at its index.\<close>

definition verbatim_requirement :: "jsval \<Rightarrow> PaymentRequirement \<Rightarrow> bool" where
  "verbatim_requirement entry m \<longleftrightarrow>
     jget entry ''scheme'' = JStr (pm_scheme m) \<and> jget entry ''network'' = JStr (pm_network m)
     \<and> jget entry ''asset'' = JStr (pm_asset m) \<and> jget entry ''payTo'' = JStr (pm_payTo m)
     \<and> jget entry ''amount'' = JStr (pm_amountAtomic m)
     \<and> (\<forall>f. pm_feePayer m = Some f \<longleftrightarrow> jget (jget entry ''extra'') ''feePayer'' = JStr f)
     \<and> atomic_pattern (pm_amountAtomic m) \<and> dec (pm_amountAtomic m) \<le> MAX_U64
     \<and> pm_protocol m = ''x402'' \<and> pm_x402Version m = 2"

lemma if_None_eq_Some: "(if b then None else r) = Some a \<longleftrightarrow> \<not> b \<and> r = Some a"
  by simp

lemma str_opt_iff: "str_opt v = Some s \<longleftrightarrow> v = JStr s"
  by (cases v) (auto simp: str_opt_def)

lemma str_opt_JUndef [simp]: "str_opt JUndef = None"
  by (simp add: str_opt_def)

lemma jget_not_object: "\<not> isPlainObject v \<Longrightarrow> jget v k = JUndef"
  by (cases v) auto

lemma normalize_entry_verbatim:
  "normalize_entry u i e = Some m \<Longrightarrow> verbatim_requirement e m \<and> pm_acceptsIndex m = i \<and> pm_resourceUrl m = u"
proof -
  assume "normalize_entry u i e = Some m"
  moreover have "str_opt (jget (if isPlainObject x then x else JObj []) k) = str_opt (jget x k)" for x k
    by (simp add: jget_not_object)
  ultimately show ?thesis
    unfolding normalize_entry_def verbatim_requirement_def Let_def if_None_eq_Some de_Morgan_disj
      not_not jstr_is_iff
    by (clarsimp simp: str_opt_iff)
qed

lemma normalizeChallenge_Challenge:
  assumes "normalizeChallenge d h = Challenge c"
  shows "ch_raw c = d \<and> ch_requestSha256 c = h \<and> ch_requirements c \<noteq> []
    \<and> jget d ''x402Version'' = JInt 2
    \<and> (\<exists>accepts. jget d ''accepts'' = JArr accepts \<and> length accepts \<le> MAX_ACCEPTS
        \<and> (\<forall>m \<in> set (ch_requirements c). pm_acceptsIndex m < length accepts
             \<and> verbatim_requirement (accepts ! pm_acceptsIndex m) m))"
proof -
  obtain accepts where acc: "jarr (jget d ''accepts'') = Some accepts"
    using assms by (auto simp: normalizeChallenge_def split: if_splits option.splits)
  then have arr: "jget d ''accepts'' = JArr accepts"
    by (cases "jget d ''accepts''") auto
  define u where "u = (if isPlainObject (jget d ''resource'')
                   then str_opt (jget (jget d ''resource'') ''url'') else None)"
  have c: "jget d ''x402Version'' = JInt 2" "length accepts \<le> MAX_ACCEPTS"
    "ch_requirements c \<noteq> []" "ch_requestSha256 c = h" "ch_raw c = d"
    "ch_requirements c = List.map_filter (\<lambda>(i, e). normalize_entry u i e) (List.enumerate 0 accepts)"
    using assms acc unfolding normalizeChallenge_def u_def by (auto simp: Let_def split: if_splits)
  have "pm_acceptsIndex m < length accepts \<and> verbatim_requirement (accepts ! pm_acceptsIndex m) m"
    if "m \<in> set (ch_requirements c)" for m
  proof -
    from that obtain i e where ie: "(i, e) \<in> set (List.enumerate 0 accepts)" "normalize_entry u i e = Some m"
      unfolding c(6) by (auto simp: map_filter_def)
    then have "i < length accepts" "accepts ! i = e" by (auto simp: in_set_enumerate_eq)
    with normalize_entry_verbatim [OF ie(2)] show ?thesis by simp
  qed
  with c arr show ?thesis by blast
qed

end
