(* ===== verification/Evidence_Signed.thy ===== *)
theory Evidence_Signed
  imports Mandate_Permit Mandate_Request Payments_Types
begin

text \<open>
  packages/evidence/src/{receipt,service,manifest,types}.ts: the messages the authority and the
  paid service sign, and the manifest that binds an evidence bundle by digests.  All of them are
  signed and verified the same way: canonical JSON behind a domain prefix, verified only against a
  key the caller pinned.  The locale \<open>pinned_message\<close> states that contract once; receipts, service
  authorizations, acknowledgements and manifests interpret it.

  The constant fields (version, domain, algorithm, method, contentType) appear where the object is
  built.  Unsigned values are records; signed ones are \<open>'p signed\<close>.
\<close>

section \<open>Signing and verification against a pinned key\<close>

datatype pinned_sign_error =
    SignerKeyMismatch
  | ValueNotCanonicalizable

definition sign_pinned ::
  "platform \<Rightarrow> ('p \<Rightarrow> bytes option) \<Rightarrow> ('p \<Rightarrow> address) \<Rightarrow> 'p \<Rightarrow> signing_key \<Rightarrow> pinned_sign_error + 'p signed" where
  "sign_pinned px to_bytes key unsigned signer =
     (if keyAddress px signer \<noteq> key unsigned then Inl SignerKeyMismatch
      else case to_bytes unsigned of
        None \<Rightarrow> Inl ValueNotCanonicalizable
      | Some b \<Rightarrow> Inr \<lparr> sg_body = unsigned, sg_signature = signRaw px signer b \<rparr>)"

text \<open>Every throw inside the \<open>try\<close> reads as false.\<close>

definition verify_pinned ::
  "platform \<Rightarrow> ('p \<Rightarrow> bytes option) \<Rightarrow> ('p \<Rightarrow> address) \<Rightarrow> 'p signed \<Rightarrow> address \<Rightarrow> bool" where
  "verify_pinned px to_bytes key signd pinnedKey =
     (if key (sg_body signd) \<noteq> pinnedKey \<or> \<not> isSignature px (sg_signature signd) then False
      else if \<not> (isAddress px pinnedKey \<and> importable px pinnedKey) then False
      else case to_bytes (sg_body signd) of
        None \<Rightarrow> False
      | Some b \<Rightarrow> verifyRaw px pinnedKey (sg_signature signd) b)"

definition opt_json :: "('a \<Rightarrow> jsval) \<Rightarrow> 'a option \<Rightarrow> jsval" where
  "opt_json f x = (case x of None \<Rightarrow> JNull | Some a \<Rightarrow> f a)"

lemma json_value_opt_json: "(\<And>a. json_value (f a)) \<Longrightarrow> json_value (opt_json f x)"
  by (cases x) (simp_all add: opt_json_def)

section \<open>Authorization receipts\<close>

datatype verdict = ALLOW | DENY

fun verdict_text :: "verdict \<Rightarrow> string" where
  "verdict_text ALLOW = ''ALLOW''"
| "verdict_text DENY = ''DENY''"

record receipt_v1 =
  rcp_invocationId :: string
  rcp_grantId :: string
  rcp_authority :: string
  rcp_agent :: string
  rcp_permitDigest :: string
  rcp_requestFingerprint :: string
  rcp_service :: string
  rcp_capability :: string
  rcp_network :: string
  rcp_mint :: string
  rcp_recipient :: string
  rcp_amountAtomic :: string
  rcp_decision :: verdict
  rcp_reasonCodes :: "string list"
  rcp_paymentTransactionId :: "string option"
  rcp_decidedAt :: int

record receipt_v2 = receipt_v1 +
  rcp_operation :: ExactOperation
  rcp_operationDigest :: string

datatype signed_receipt =
    ReceiptV1 "receipt_v1 signed"
  | ReceiptV2 "receipt_v2 signed"

definition AUTHORIZATION_RECEIPT_DOMAIN :: string where
  "AUTHORIZATION_RECEIPT_DOMAIN = ''virtual-haibin/authorization-receipt''"

definition receipt_fields :: "'a receipt_v1_scheme \<Rightarrow> int \<Rightarrow> (string \<times> jsval) list" where
  "receipt_fields r version =
     [(''version'', JInt version), (''domain'', JStr AUTHORIZATION_RECEIPT_DOMAIN),
      (''invocationId'', JStr (rcp_invocationId r)), (''grantId'', JStr (rcp_grantId r)),
      (''authority'', JStr (rcp_authority r)), (''agent'', JStr (rcp_agent r)),
      (''permitDigest'', JStr (rcp_permitDigest r)),
      (''requestFingerprint'', JStr (rcp_requestFingerprint r)),
      (''service'', JStr (rcp_service r)), (''capability'', JStr (rcp_capability r)),
      (''network'', JStr (rcp_network r)), (''mint'', JStr (rcp_mint r)),
      (''recipient'', JStr (rcp_recipient r)), (''amountAtomic'', JStr (rcp_amountAtomic r)),
      (''decision'', JStr (verdict_text (rcp_decision r))),
      (''reasonCodes'', JArr (map JStr (rcp_reasonCodes r))),
      (''paymentTransactionId'', opt_json JStr (rcp_paymentTransactionId r)),
      (''decidedAt'', JInt (rcp_decidedAt r))]"

definition receipt_v2_fields :: "receipt_v2 \<Rightarrow> (string \<times> jsval) list" where
  "receipt_v2_fields r = receipt_fields r 2
     @ [(''operation'', operation_json (rcp_operation r)), (''operationDigest'', JStr (rcp_operationDigest r))]"

definition canonicalizeReceiptV1 :: "platform \<Rightarrow> receipt_v1 \<Rightarrow> bytes option" where
  "canonicalizeReceiptV1 px r =
     canonicalBytes px (AUTHORIZATION_RECEIPT_DOMAIN @ '':v1'' @ [CHR 0x0A]) (JObj (receipt_fields r 1))"

definition canonicalizeReceipt :: "platform \<Rightarrow> receipt_v2 \<Rightarrow> bytes option" where
  "canonicalizeReceipt px r =
     canonicalBytes px (AUTHORIZATION_RECEIPT_DOMAIN @ '':v2'' @ [CHR 0x0A]) (JObj (receipt_v2_fields r))"

definition signAuthorizationReceiptV1 ::
  "platform \<Rightarrow> receipt_v1 \<Rightarrow> signing_key \<Rightarrow> pinned_sign_error + receipt_v1 signed" where
  "signAuthorizationReceiptV1 px = sign_pinned px (canonicalizeReceiptV1 px) rcp_authority"

definition signAuthorizationReceipt ::
  "platform \<Rightarrow> receipt_v2 \<Rightarrow> signing_key \<Rightarrow> pinned_sign_error + receipt_v2 signed" where
  "signAuthorizationReceipt px = sign_pinned px (canonicalizeReceipt px) rcp_authority"

definition verifyAuthorizationReceiptSignature :: "platform \<Rightarrow> receipt_v2 signed \<Rightarrow> address \<Rightarrow> bool" where
  "verifyAuthorizationReceiptSignature px = verify_pinned px (canonicalizeReceipt px) rcp_authority"

section \<open>Service authorization and acknowledgement\<close>

record service_authorization =
  sa_authority :: string
  sa_invocationId :: string
  sa_grantId :: string
  sa_url :: string
  sa_requestSha256 :: string
  sa_operationDigest :: string
  sa_network :: string
  sa_asset :: string
  sa_payTo :: string
  sa_amountAtomic :: string
  sa_issuedAt :: int
  sa_expiresAt :: int

record service_acknowledgement =
  sk_service :: string
  sk_invocationId :: string
  sk_authorizationDigest :: string
  sk_requestSha256 :: string
  sk_method :: string
  sk_resource :: string
  sk_operation :: string
  sk_datasetId :: string
  sk_transaction :: "string option"
  sk_asset :: string
  sk_payTo :: string
  sk_amountAtomic :: string
  sk_httpStatus :: int
  sk_sha256 :: string
  sk_bytes :: int
  sk_fulfilledAt :: int

definition SERVICE_AUTHORIZATION_DOMAIN :: string where
  "SERVICE_AUTHORIZATION_DOMAIN = ''virtual-haibin/service-authorization''"

definition SERVICE_ACKNOWLEDGEMENT_DOMAIN :: string where
  "SERVICE_ACKNOWLEDGEMENT_DOMAIN = ''virtual-haibin/service-acknowledgement''"

definition SERVICE_AUTHORIZATION_TTL_MS :: int where
  "SERVICE_AUTHORIZATION_TTL_MS = 120000"

definition service_authorization_fields :: "service_authorization \<Rightarrow> (string \<times> jsval) list" where
  "service_authorization_fields a =
     [(''version'', JInt 1), (''domain'', JStr SERVICE_AUTHORIZATION_DOMAIN),
      (''authority'', JStr (sa_authority a)), (''invocationId'', JStr (sa_invocationId a)),
      (''grantId'', JStr (sa_grantId a)),
      (''request'', JObj [(''method'', JStr ''POST''), (''url'', JStr (sa_url a)),
        (''contentType'', JStr ''application/json''), (''requestSha256'', JStr (sa_requestSha256 a))]),
      (''operationDigest'', JStr (sa_operationDigest a)),
      (''payment'', JObj [(''network'', JStr (sa_network a)), (''asset'', JStr (sa_asset a)),
        (''payTo'', JStr (sa_payTo a)), (''amountAtomic'', JStr (sa_amountAtomic a))]),
      (''issuedAt'', JInt (sa_issuedAt a)), (''expiresAt'', JInt (sa_expiresAt a))]"

definition service_acknowledgement_fields :: "service_acknowledgement \<Rightarrow> (string \<times> jsval) list" where
  "service_acknowledgement_fields k =
     [(''version'', JInt 1), (''domain'', JStr SERVICE_ACKNOWLEDGEMENT_DOMAIN),
      (''service'', JStr (sk_service k)), (''invocationId'', JStr (sk_invocationId k)),
      (''authorizationDigest'', JStr (sk_authorizationDigest k)),
      (''requestSha256'', JStr (sk_requestSha256 k)),
      (''received'', JObj [(''method'', JStr (sk_method k)), (''resource'', JStr (sk_resource k)),
        (''operation'', JStr (sk_operation k)), (''datasetId'', JStr (sk_datasetId k))]),
      (''payment'', JObj [(''transaction'', opt_json JStr (sk_transaction k)),
        (''asset'', JStr (sk_asset k)), (''payTo'', JStr (sk_payTo k)),
        (''amountAtomic'', JStr (sk_amountAtomic k))]),
      (''result'', JObj [(''httpStatus'', JInt (sk_httpStatus k)),
        (''contentType'', JStr ''application/json''), (''sha256'', JStr (sk_sha256 k)),
        (''bytes'', JInt (sk_bytes k))]),
      (''fulfilledAt'', JInt (sk_fulfilledAt k))]"

definition service_canonicalBytes :: "platform \<Rightarrow> string \<Rightarrow> jsval \<Rightarrow> bytes option" where
  "service_canonicalBytes px domain v = canonicalBytes px (domain @ '':v1'' @ [CHR 0x0A]) v"

definition signServiceAuthorization ::
  "platform \<Rightarrow> service_authorization \<Rightarrow> signing_key \<Rightarrow> pinned_sign_error + service_authorization signed" where
  "signServiceAuthorization px = sign_pinned px
     (\<lambda>a. service_canonicalBytes px SERVICE_AUTHORIZATION_DOMAIN (JObj (service_authorization_fields a)))
     sa_authority"

definition verifyServiceAuthorizationSignature ::
  "platform \<Rightarrow> service_authorization signed \<Rightarrow> address \<Rightarrow> bool" where
  "verifyServiceAuthorizationSignature px = verify_pinned px
     (\<lambda>a. service_canonicalBytes px SERVICE_AUTHORIZATION_DOMAIN (JObj (service_authorization_fields a)))
     sa_authority"

definition signServiceAcknowledgement ::
  "platform \<Rightarrow> service_acknowledgement \<Rightarrow> signing_key \<Rightarrow> pinned_sign_error + service_acknowledgement signed" where
  "signServiceAcknowledgement px = sign_pinned px
     (\<lambda>k. service_canonicalBytes px SERVICE_ACKNOWLEDGEMENT_DOMAIN (JObj (service_acknowledgement_fields k)))
     sk_service"

definition verifyServiceAcknowledgementSignature ::
  "platform \<Rightarrow> service_acknowledgement signed \<Rightarrow> address \<Rightarrow> bool" where
  "verifyServiceAcknowledgementSignature px = verify_pinned px
     (\<lambda>k. service_canonicalBytes px SERVICE_ACKNOWLEDGEMENT_DOMAIN (JObj (service_acknowledgement_fields k)))
     sk_service"

definition ARTIFACT_DOMAIN :: string where
  "ARTIFACT_DOMAIN = ''virtual-haibin/evidence-artifact''"

definition artifactDigest :: "platform \<Rightarrow> string \<Rightarrow> jsval \<Rightarrow> string option" where
  "artifactDigest px name v =
     canonicalDigest px (ARTIFACT_DOMAIN @ '':'' @ name @ '':v1'' @ [CHR 0x0A]) v"

definition signed_json :: "('p \<Rightarrow> (string \<times> jsval) list) \<Rightarrow> 'p signed \<Rightarrow> jsval" where
  "signed_json flds s = JObj (flds (sg_body s) @ [(''signature'', signature_json (sg_signature s))])"

definition serviceAuthorizationDigest :: "platform \<Rightarrow> service_authorization signed \<Rightarrow> string option" where
  "serviceAuthorizationDigest px a =
     artifactDigest px ''service-authorization'' (signed_json service_authorization_fields a)"

section \<open>The pinned-message contract\<close>

locale pinned_message =
  fixes px :: platform
    and prefix :: "'p \<Rightarrow> string"
    and fields :: "'p \<Rightarrow> (string \<times> jsval) list"
    and to_bytes :: "'p \<Rightarrow> bytes option"
    and key :: "'p \<Rightarrow> address"
  assumes fields_json: "json_value (JObj (fields p))"
    and to_bytes_eq: "to_bytes p = canonicalBytes px (prefix p) (JObj (fields p))"
begin

lemma verify_iff:
  "verify_pinned px to_bytes key s k \<longleftrightarrow>
     key (sg_body s) = k \<and> isSignature px (sg_signature s) \<and> isAddress px k \<and> importable px k
     \<and> (\<exists>b. canonicalBytes px (prefix (sg_body s)) (JObj (fields (sg_body s))) = Some b
          \<and> verifyRaw px k (sg_signature s) b)"
  by (auto simp: verify_pinned_def to_bytes_eq split: option.splits)

text \<open>What a key holder signs verifies against that key, and against no other pinned key.\<close>

lemma sign_then_verify:
  assumes "signatures_verify px" "canonical_total px" "keyAddress px k = key p"
  shows "\<exists>s. sign_pinned px to_bytes key p k = Inr s \<and> sg_body s = p
    \<and> (\<forall>pinned. verify_pinned px to_bytes key s pinned \<longleftrightarrow> pinned = key p)"
proof -
  obtain b where b: "to_bytes p = Some b"
    using canonicalBytes_total [OF assms(2) fields_json] unfolding to_bytes_eq by blast
  let ?s = "\<lparr> sg_body = p, sg_signature = signRaw px k b \<rparr>"
  have "sign_pinned px to_bytes key p k = Inr ?s"
    using b assms(3) by (simp add: sign_pinned_def)
  moreover have "verify_pinned px to_bytes key ?s pinned \<longleftrightarrow> pinned = key p" for pinned
    using b assms unfolding verify_iff to_bytes_eq [symmetric]
    by (auto simp: signatures_verify_def) (metis assms(3))+
  ultimately show ?thesis by (intro exI [of _ ?s]) simp
qed

lemma sign_only_own_key: "sign_pinned px to_bytes key p k = Inr s \<Longrightarrow> keyAddress px k = key p \<and> sg_body s = p"
  by (auto simp: sign_pinned_def split: if_splits option.splits)

lemma verified_key: "verify_pinned px to_bytes key s k \<Longrightarrow> key (sg_body s) = k"
  by (simp add: verify_iff)

end

lemma json_value_JStr_list [simp]: "json_value (JArr (map JStr xs))"
  by auto

lemma json_value_opt_JStr [simp]: "json_value (opt_json JStr x)"
  by (rule json_value_opt_json) simp

lemma json_value_receipt_fields:
  "json_value (JObj (receipt_fields r n))" "json_value (JObj (receipt_v2_fields r'))"
  by (simp_all add: receipt_fields_def receipt_v2_fields_def)

lemma json_value_service_fields:
  "json_value (JObj (service_authorization_fields a))" "json_value (JObj (service_acknowledgement_fields k))"
  by (simp_all add: service_authorization_fields_def service_acknowledgement_fields_def)

interpretation receipt_message: pinned_message px "\<lambda>_. AUTHORIZATION_RECEIPT_DOMAIN @ '':v2'' @ [CHR 0x0A]"
    receipt_v2_fields "canonicalizeReceipt px" rcp_authority for px
  by unfold_locales (rule json_value_receipt_fields, simp add: canonicalizeReceipt_def)

interpretation receipt_v1_message: pinned_message px "\<lambda>_. AUTHORIZATION_RECEIPT_DOMAIN @ '':v1'' @ [CHR 0x0A]"
    "\<lambda>r. receipt_fields r 1" "canonicalizeReceiptV1 px" rcp_authority for px
  by unfold_locales (rule json_value_receipt_fields, simp add: canonicalizeReceiptV1_def)

interpretation authorization_message: pinned_message px "\<lambda>_. SERVICE_AUTHORIZATION_DOMAIN @ '':v1'' @ [CHR 0x0A]" service_authorization_fields
    "\<lambda>a. service_canonicalBytes px SERVICE_AUTHORIZATION_DOMAIN (JObj (service_authorization_fields a))"
    sa_authority for px
  by unfold_locales (rule json_value_service_fields, simp add: service_canonicalBytes_def)

interpretation acknowledgement_message: pinned_message px "\<lambda>_. SERVICE_ACKNOWLEDGEMENT_DOMAIN @ '':v1'' @ [CHR 0x0A]" service_acknowledgement_fields
    "\<lambda>k. service_canonicalBytes px SERVICE_ACKNOWLEDGEMENT_DOMAIN (JObj (service_acknowledgement_fields k))"
    sk_service for px
  by unfold_locales (rule json_value_service_fields, simp add: service_canonicalBytes_def)

end
