(* ===== verification/Authority_Store.thy ===== *)
theory Authority_Store
  imports Evidence_Signed Mandate_Request
begin

text \<open>
  apps/authority/src/store/{types,sqlite-store}.ts: the durable state of the authority and every
  operation on it.  A table is the list of its rows in insertion order; a statement
  \<open>UPDATE ... WHERE\<close> maps the matching rows and counts them; an operation runs as one
  transaction, so an error leaves the store as it was.  JSON columns hold the typed value they
  serialise.  Amounts stay decimal texts and are computed through \<open>dec\<close> and \<open>show_nat\<close>, as the
  source does with BigInt.  \<open>now\<close> is the injected clock's value during the transaction.
\<close>

section \<open>Rows and tables\<close>

datatype inv_state = RESERVED | DENIED | CONFIRMED | FAILED | RECONCILIATION_REQUIRED

datatype stored_request =
    StoredV1 request_v1
  | StoredV2 request_v2

record stored_authorization =
  sv_permit :: "permit_v2 signed"
  sv_agentSignature :: string

record invocation =
  inv_id :: string
  inv_fingerprint :: string
  inv_issuer :: string
  inv_grantId :: string
  inv_agent :: string
  inv_request :: stored_request
  inv_amountAtomic :: string
  inv_state :: inv_state
  inv_reasonCodes :: "string list"
  inv_paymentTransactionId :: "string option"
  inv_paymentRequirement :: "PaymentRequirement option"
  inv_paymentAttempt :: "PaymentAttempt option"
  inv_settlement :: "ConfirmedSettlement option"
  inv_result :: "PaidResult option"
  inv_receipt :: "signed_receipt option"
  inv_authorization :: "stored_authorization option"
  inv_serviceAuthorization :: "service_authorization signed option"
  inv_stateReason :: "string option"
  inv_decidedAt :: int
  inv_createdAt :: int
  inv_updatedAt :: int

record grant =
  gr_issuer :: string
  gr_grantId :: string
  gr_permitDigest :: string
  gr_maxTotalAtomic :: string
  gr_reservedAtomic :: string
  gr_consumedAtomic :: string
  gr_createdAt :: int
  gr_updatedAt :: int

record transition =
  tr_invocationId :: string
  tr_from :: "inv_state option"
  tr_to :: inv_state
  tr_reason :: "string option"
  tr_at :: int

record store =
  st_grants :: "grant list"
  st_invocations :: "invocation list"
  st_transitions :: "transition list"

definition empty_store :: store where
  "empty_store = \<lparr> st_grants = [], st_invocations = [], st_transitions = [] \<rparr>"

datatype store_error =
    InvocationMissing
  | GrantMissing
  | InvalidStateTransition
  | ReserveRefused
  | ReservedBelowReservation
  | UnexpectedChanges
  | ConstraintViolated

text \<open>The column constraint \<open>atomicCheck\<close>.\<close>

definition atomicCheck :: "string \<Rightarrow> bool" where
  "atomicCheck c \<longleftrightarrow> c \<noteq> [] \<and> list_all is_digit c \<and> (c = ''0'' \<or> hd c \<noteq> CHR ''0'') \<and> length c \<le> 20"

definition invocation_check :: "invocation \<Rightarrow> bool" where
  "invocation_check i \<longleftrightarrow>
     atomicCheck (inv_amountAtomic i)
     \<and> (inv_state i \<noteq> CONFIRMED \<or> inv_paymentTransactionId i \<noteq> None)"

definition grant_check :: "grant \<Rightarrow> bool" where
  "grant_check g \<longleftrightarrow>
     atomicCheck (gr_maxTotalAtomic g) \<and> atomicCheck (gr_reservedAtomic g) \<and> atomicCheck (gr_consumedAtomic g)"

section \<open>Statements\<close>

definition selectInvocation :: "store \<Rightarrow> string \<Rightarrow> invocation option" where
  "selectInvocation s x = find (\<lambda>i. inv_id i = x) (st_invocations s)"

definition selectGrant :: "store \<Rightarrow> string \<Rightarrow> string \<Rightarrow> grant option" where
  "selectGrant s issuer grantId =
     find (\<lambda>g. gr_issuer g = issuer \<and> gr_grantId g = grantId) (st_grants s)"

definition requireInvocation :: "store \<Rightarrow> string \<Rightarrow> store_error + invocation" where
  "requireInvocation s x =
     (case selectInvocation s x of None \<Rightarrow> Inl InvocationMissing | Some i \<Rightarrow> Inr i)"

definition requireState :: "store \<Rightarrow> string \<Rightarrow> inv_state \<Rightarrow> store_error + invocation" where
  "requireState s x expected =
     sbind (requireInvocation s x)
       (\<lambda>i. if inv_state i \<noteq> expected then Inl InvalidStateTransition else Inr i)"

definition requireGrant :: "store \<Rightarrow> string \<Rightarrow> string \<Rightarrow> store_error + grant" where
  "requireGrant s issuer grantId =
     (case selectGrant s issuer grantId of None \<Rightarrow> Inl GrantMissing | Some g \<Rightarrow> Inr g)"

text \<open>An UPDATE of invocations: the number of changed rows and the new store.\<close>

definition update_invocations ::
  "(invocation \<Rightarrow> bool) \<Rightarrow> (invocation \<Rightarrow> invocation) \<Rightarrow> store \<Rightarrow> store_error + nat \<times> store" where
  "update_invocations P f s =
     (if \<not> list_all (\<lambda>i. invocation_check (f i)) (filter P (st_invocations s)) then Inl ConstraintViolated
      else Inr (length (filter P (st_invocations s)),
                s \<lparr> st_invocations := map (\<lambda>i. if P i then f i else i) (st_invocations s) \<rparr>))"

definition expectOneChange :: "store_error + nat \<times> store \<Rightarrow> store_error + store" where
  "expectOneChange r = sbind r (\<lambda>(n, s). if n \<noteq> 1 then Inl UnexpectedChanges else Inr s)"

definition insertInvocation :: "invocation \<Rightarrow> store \<Rightarrow> store_error + store" where
  "insertInvocation i s =
     (if selectInvocation s (inv_id i) \<noteq> None \<or> \<not> invocation_check i
        \<or> selectGrant s (inv_issuer i) (inv_grantId i) = None then Inl ConstraintViolated
      else Inr (s \<lparr> st_invocations := st_invocations s @ [i] \<rparr>))"

definition insertGrant :: "grant \<Rightarrow> store \<Rightarrow> store_error + store" where
  "insertGrant g s =
     (if selectGrant s (gr_issuer g) (gr_grantId g) \<noteq> None \<or> \<not> grant_check g then Inl ConstraintViolated
      else Inr (s \<lparr> st_grants := st_grants s @ [g] \<rparr>))"

definition updateGrantAmounts ::
  "string \<Rightarrow> string \<Rightarrow> int \<Rightarrow> string \<Rightarrow> string \<Rightarrow> store \<Rightarrow> store_error + store" where
  "updateGrantAmounts reserved consumed now issuer grantId s =
     (let P = (\<lambda>g. gr_issuer g = issuer \<and> gr_grantId g = grantId);
          f = (\<lambda>g. g \<lparr> gr_reservedAtomic := reserved, gr_consumedAtomic := consumed, gr_updatedAt := now \<rparr>)
      in if \<not> list_all (\<lambda>g. grant_check (f g)) (filter P (st_grants s)) then Inl ConstraintViolated
         else Inr (s \<lparr> st_grants := map (\<lambda>g. if P g then f g else g) (st_grants s) \<rparr>))"

definition recordTransition ::
  "string \<Rightarrow> inv_state option \<Rightarrow> inv_state \<Rightarrow> string option \<Rightarrow> int \<Rightarrow> store \<Rightarrow> store_error + store" where
  "recordTransition x from to reason at s =
     (if selectInvocation s x = None then Inl ConstraintViolated
      else Inr (s \<lparr> st_transitions := st_transitions s
        @ [\<lparr> tr_invocationId = x, tr_from = from, tr_to = to, tr_reason = reason, tr_at = at \<rparr>] \<rparr>))"

definition transitionState ::
  "string \<Rightarrow> inv_state \<Rightarrow> inv_state \<Rightarrow> string \<Rightarrow> int \<Rightarrow> store \<Rightarrow> store_error + store" where
  "transitionState x from to reason now s =
     sbind (expectOneChange (update_invocations (\<lambda>i. inv_id i = x \<and> inv_state i = from)
              (\<lambda>i. i \<lparr> inv_state := to, inv_stateReason := Some reason, inv_updatedAt := now \<rparr>) s))
       (recordTransition x (Some from) to (Some reason) now)"

text \<open>reserved -= amount; consumed += amount\<close>

definition consumeReservation :: "invocation \<Rightarrow> int \<Rightarrow> store \<Rightarrow> store_error + store" where
  "consumeReservation i now s =
     sbind (requireGrant s (inv_issuer i) (inv_grantId i)) (\<lambda>g.
       let amount = dec (inv_amountAtomic i); reserved = dec (gr_reservedAtomic g) in
       if reserved < amount then Inl ReservedBelowReservation
       else updateGrantAmounts (show_nat (reserved - amount)) (show_nat (dec (gr_consumedAtomic g) + amount))
              now (gr_issuer g) (gr_grantId g) s)"

text \<open>reserved -= amount\<close>

definition releaseReservation :: "invocation \<Rightarrow> int \<Rightarrow> store \<Rightarrow> store_error + store" where
  "releaseReservation i now s =
     sbind (requireGrant s (inv_issuer i) (inv_grantId i)) (\<lambda>g.
       let amount = dec (inv_amountAtomic i); reserved = dec (gr_reservedAtomic g) in
       if reserved < amount then Inl ReservedBelowReservation
       else updateGrantAmounts (show_nat (reserved - amount)) (gr_consumedAtomic g)
              now (gr_issuer g) (gr_grantId g) s)"

section \<open>Operations\<close>

text \<open>COMMIT on a result, ROLLBACK on an error.\<close>

definition transaction :: "(store \<Rightarrow> store_error + 'a \<times> store) \<Rightarrow> store \<Rightarrow> (store_error + 'a) \<times> store" where
  "transaction body s = (case body s of Inl e \<Rightarrow> (Inl e, s) | Inr (a, s') \<Rightarrow> (Inr a, s'))"

record grant_terms =
  gt_issuer :: string
  gt_grantId :: string
  gt_permitDigest :: string
  gt_maxTotalAtomic :: string

record reserve_input =
  ri_invocationId :: string
  ri_fingerprint :: string
  ri_grant :: grant_terms
  ri_agent :: string
  ri_request :: request_v2
  ri_amountAtomic :: string
  ri_decidedAt :: int
  ri_paymentRequirement :: "PaymentRequirement option"
  ri_authorization :: "stored_authorization option"

datatype budget_decision = BudgetAllowed | BudgetDenied "string list"

datatype reserve_result =
    ReserveExisting invocation
  | ReserveGrantConflict grant
  | ReserveReserved invocation
  | ReserveDenied invocation

record confirm_payment =
  cp_transactionId :: string
  cp_settledAt :: int
  cp_settlement :: "ConfirmedSettlement option"
  cp_result :: "PaidResult option"

datatype reconciliation_outcome =
    OutcomeConfirmed ConfirmedSettlement
  | OutcomeFailed string

record recovery_result =
  rr_reconciliationRequired :: "string list"
  rr_releasedNeverSubmitted :: "string list"

definition joined_codes :: "string list \<Rightarrow> string option" where
  "joined_codes codes = (let t = join_with '','' codes in if t = [] then None else Some t)"

definition writeDecision ::
  "reserve_input \<Rightarrow> invocation option \<Rightarrow> inv_state \<Rightarrow> string list \<Rightarrow> int \<Rightarrow> store \<Rightarrow> store_error + store" where
  "writeDecision input existing state reasonCodes now s =
     sbind (case existing of
         None \<Rightarrow> insertInvocation
           \<lparr> inv_id = ri_invocationId input, inv_fingerprint = ri_fingerprint input,
             inv_issuer = gt_issuer (ri_grant input), inv_grantId = gt_grantId (ri_grant input),
             inv_agent = ri_agent input, inv_request = StoredV2 (ri_request input),
             inv_amountAtomic = ri_amountAtomic input, inv_state = state,
             inv_reasonCodes = reasonCodes, inv_paymentTransactionId = None,
             inv_paymentRequirement = ri_paymentRequirement input, inv_paymentAttempt = None,
             inv_settlement = None, inv_result = None, inv_receipt = None,
             inv_authorization = ri_authorization input, inv_serviceAuthorization = None,
             inv_stateReason = None, inv_decidedAt = ri_decidedAt input,
             inv_createdAt = now, inv_updatedAt = now \<rparr> s
       | Some _ \<Rightarrow> expectOneChange (update_invocations
           (\<lambda>i. inv_id i = ri_invocationId input \<and> inv_state i = FAILED)
           (\<lambda>i. i \<lparr> inv_state := state, inv_reasonCodes := reasonCodes,
                   inv_request := StoredV2 (ri_request input), inv_amountAtomic := ri_amountAtomic input,
                   inv_paymentRequirement := ri_paymentRequirement input,
                   inv_authorization := ri_authorization input, inv_paymentAttempt := None,
                   inv_serviceAuthorization := None, inv_settlement := None, inv_result := None,
                   inv_paymentTransactionId := None, inv_decidedAt := ri_decidedAt input,
                   inv_stateReason := None, inv_updatedAt := now \<rparr>) s))
       (recordTransition (ri_invocationId input) (map_option inv_state existing) state
          (joined_codes reasonCodes) now)"

definition reserve_grant :: "reserve_input \<Rightarrow> int \<Rightarrow> store \<Rightarrow> store_error + grant \<times> store" where
  "reserve_grant input now s =
     (let t = ri_grant input in
      case selectGrant s (gt_issuer t) (gt_grantId t) of
        Some g \<Rightarrow> Inr (g, s)
      | None \<Rightarrow>
        sbind (insertGrant \<lparr> gr_issuer = gt_issuer t, gr_grantId = gt_grantId t,
                 gr_permitDigest = gt_permitDigest t, gr_maxTotalAtomic = gt_maxTotalAtomic t,
                 gr_reservedAtomic = ''0'', gr_consumedAtomic = ''0'',
                 gr_createdAt = now, gr_updatedAt = now \<rparr> s)
          (\<lambda>s'. sbind (requireGrant s' (gt_issuer t) (gt_grantId t)) (\<lambda>g. Inr (g, s'))))"

text \<open>The part of \<open>reserve\<close> after the grant is pinned: evaluate the budget, then write the decision.\<close>

definition reserve_decide ::
  "reserve_input \<Rightarrow> (string \<Rightarrow> budget_decision) \<Rightarrow> invocation option \<Rightarrow> int \<Rightarrow> grant \<Rightarrow> store
     \<Rightarrow> store_error + reserve_result \<times> store" where
  "reserve_decide input evaluate existing now g s =
     (let reserved = dec (gr_reservedAtomic g); consumed = dec (gr_consumedAtomic g) in
      case evaluate (show_nat (reserved + consumed)) of
        BudgetDenied codes \<Rightarrow>
          sbind (writeDecision input existing DENIED codes now s) (\<lambda>s'.
            sbind (requireInvocation s' (ri_invocationId input)) (\<lambda>i. Inr (ReserveDenied i, s')))
      | BudgetAllowed \<Rightarrow>
          let amount = dec (ri_amountAtomic input); newReserved = reserved + amount in
          if amount \<le> 0 \<or> newReserved + consumed > dec (gr_maxTotalAtomic g) \<or> newReserved > MAX_U64
          then Inl ReserveRefused
          else sbind (updateGrantAmounts (show_nat newReserved) (gr_consumedAtomic g) now
                        (gr_issuer g) (gr_grantId g) s) (\<lambda>s'.
            sbind (writeDecision input existing RESERVED [] now s') (\<lambda>s''.
              sbind (requireInvocation s'' (ri_invocationId input)) (\<lambda>i. Inr (ReserveReserved i, s'')))))"

definition reserve ::
  "reserve_input \<Rightarrow> (string \<Rightarrow> budget_decision) \<Rightarrow> int \<Rightarrow> store \<Rightarrow> (store_error + reserve_result) \<times> store" where
  "reserve input evaluate now = transaction (\<lambda>s.
     let existing = selectInvocation s (ri_invocationId input);
         retryingFailed = (case existing of None \<Rightarrow> False
           | Some i \<Rightarrow> inv_state i = FAILED \<and> inv_fingerprint i = ri_fingerprint input)
     in case (if retryingFailed then None else existing) of
          Some i \<Rightarrow> Inr (ReserveExisting i, s)
        | None \<Rightarrow> sbind (reserve_grant input now s) (\<lambda>(g, s').
              if gr_permitDigest g \<noteq> gt_permitDigest (ri_grant input)
                 \<or> gr_maxTotalAtomic g \<noteq> gt_maxTotalAtomic (ri_grant input)
              then Inr (ReserveGrantConflict g, s')
              else reserve_decide input evaluate existing now g s'))"

definition recordPaymentAttempt ::
  "string \<Rightarrow> PaymentAttempt \<Rightarrow> service_authorization signed option \<Rightarrow> int \<Rightarrow> store
     \<Rightarrow> (store_error + unit) \<times> store" where
  "recordPaymentAttempt x attempt authorization now = transaction (\<lambda>s.
     sbind (requireState s x RESERVED) (\<lambda>i.
       if inv_paymentAttempt i \<noteq> None then Inl InvalidStateTransition
       else sbind (expectOneChange (update_invocations
              (\<lambda>j. inv_id j = x \<and> inv_state j = RESERVED \<and> inv_paymentAttempt j = None)
              (\<lambda>j. j \<lparr> inv_paymentAttempt := Some attempt,
                      inv_serviceAuthorization := authorization, inv_updatedAt := now \<rparr>) s)) (\<lambda>s'.
            sbind (recordTransition x (Some RESERVED) RESERVED
                     (Some (''payment attempt '' @ at_payerSignature attempt)) now s')
              (\<lambda>s''. Inr ((), s'')))))"

definition confirm ::
  "string \<Rightarrow> confirm_payment \<Rightarrow> int \<Rightarrow> store \<Rightarrow> (store_error + invocation) \<times> store" where
  "confirm x payment now = transaction (\<lambda>s.
     sbind (requireState s x RESERVED) (\<lambda>i.
     sbind (consumeReservation i now s) (\<lambda>s1.
     sbind (expectOneChange (update_invocations
              (\<lambda>j. inv_id j = x \<and> inv_state j = RESERVED)
              (\<lambda>j. j \<lparr> inv_state := CONFIRMED, inv_paymentTransactionId := Some (cp_transactionId payment),
                      inv_settlement := cp_settlement payment, inv_result := cp_result payment,
                      inv_updatedAt := now \<rparr>) s1)) (\<lambda>s2.
     sbind (recordTransition x (Some RESERVED) CONFIRMED
              (Some (''payment '' @ cp_transactionId payment)) now s2) (\<lambda>s3.
     sbind (requireInvocation s3 x) (\<lambda>c. Inr (c, s3)))))))"

definition resolveReconciliation ::
  "string \<Rightarrow> reconciliation_outcome \<Rightarrow> int \<Rightarrow> store \<Rightarrow> (store_error + invocation) \<times> store" where
  "resolveReconciliation x outcome now = transaction (\<lambda>s.
     sbind (requireState s x RECONCILIATION_REQUIRED) (\<lambda>i.
     sbind (case outcome of
         OutcomeConfirmed settlement \<Rightarrow>
           let reason = ''reconciled: settled in '' @ cs_transactionId settlement in
           sbind (consumeReservation i now s) (\<lambda>s1.
           sbind (expectOneChange (update_invocations
                    (\<lambda>j. inv_id j = x \<and> inv_state j = RECONCILIATION_REQUIRED)
                    (\<lambda>j. j \<lparr> inv_state := CONFIRMED,
                            inv_paymentTransactionId := Some (cs_transactionId settlement),
                            inv_settlement := Some settlement, inv_stateReason := Some reason,
                            inv_updatedAt := now \<rparr>) s1))
             (recordTransition x (Some RECONCILIATION_REQUIRED) CONFIRMED (Some reason) now))
       | OutcomeFailed reason \<Rightarrow>
           sbind (releaseReservation i now s)
             (transitionState x RECONCILIATION_REQUIRED FAILED (''reconciled: '' @ reason) now)) (\<lambda>s'.
     sbind (requireInvocation s' x) (\<lambda>c. Inr (c, s')))))"

text \<open>\<open>ORDER BY created_at\<close>; rows created in the same millisecond keep their insertion order.\<close>

definition listReconciliationRequired :: "store \<Rightarrow> invocation list" where
  "listReconciliationRequired s =
     sort_key inv_createdAt (filter (\<lambda>i. inv_state i = RECONCILIATION_REQUIRED) (st_invocations s))"

definition fail :: "string \<Rightarrow> string \<Rightarrow> int \<Rightarrow> store \<Rightarrow> (store_error + unit) \<times> store" where
  "fail x reason now = transaction (\<lambda>s.
     sbind (requireState s x RESERVED) (\<lambda>i.
     sbind (releaseReservation i now s) (\<lambda>s1.
     sbind (transitionState x RESERVED FAILED reason now s1) (\<lambda>s2. Inr ((), s2)))))"

definition markReconciliationRequired :: "string \<Rightarrow> string \<Rightarrow> int \<Rightarrow> store \<Rightarrow> (store_error + unit) \<times> store" where
  "markReconciliationRequired x reason now = transaction (\<lambda>s.
     sbind (requireState s x RESERVED) (\<lambda>_.
     sbind (transitionState x RESERVED RECONCILIATION_REQUIRED reason now s) (\<lambda>s2. Inr ((), s2))))"

definition attachReceipt ::
  "string \<Rightarrow> signed_receipt \<Rightarrow> int \<Rightarrow> store \<Rightarrow> (store_error + signed_receipt) \<times> store" where
  "attachReceipt x receipt now = transaction (\<lambda>s.
     sbind (update_invocations
              (\<lambda>i. inv_id i = x \<and> inv_receipt i = None \<and> inv_state i \<in> {DENIED, CONFIRMED})
              (\<lambda>i. i \<lparr> inv_receipt := Some receipt, inv_updatedAt := now \<rparr>) s) (\<lambda>(_, s').
     sbind (requireInvocation s' x) (\<lambda>i.
       case inv_receipt i of None \<Rightarrow> Inl InvalidStateTransition | Some r \<Rightarrow> Inr (r, s'))))"

text \<open>The loop of \<open>recoverInterruptedInvocations\<close> over the ids and attempt flags selected first.\<close>

fun recover_rows ::
  "string \<Rightarrow> int \<Rightarrow> (string \<times> bool) list \<Rightarrow> recovery_result \<Rightarrow> store \<Rightarrow> store_error + recovery_result \<times> store" where
  "recover_rows reason now [] result s = Inr (result, s)"
| "recover_rows reason now ((x, has_attempt) # rows) result s =
     (if has_attempt then
        sbind (transitionState x RESERVED RECONCILIATION_REQUIRED reason now s) (\<lambda>s'.
          recover_rows reason now rows
            (result \<lparr> rr_reconciliationRequired := rr_reconciliationRequired result @ [x] \<rparr>) s')
      else
        sbind (requireInvocation s x) (\<lambda>i.
        sbind (releaseReservation i now s) (\<lambda>s1.
        sbind (transitionState x RESERVED FAILED
                 (reason @ ''; no payment attempt recorded, credential never transmitted'') now s1) (\<lambda>s2.
          recover_rows reason now rows
            (result \<lparr> rr_releasedNeverSubmitted := rr_releasedNeverSubmitted result @ [x] \<rparr>) s2))))"

definition selectReserved :: "store \<Rightarrow> (string \<times> bool) list" where
  "selectReserved s =
     map (\<lambda>i. (inv_id i, inv_paymentAttempt i \<noteq> None))
       (sort_key inv_createdAt (filter (\<lambda>i. inv_state i = RESERVED) (st_invocations s)))"

definition recoverInterruptedInvocations ::
  "string \<Rightarrow> int \<Rightarrow> store \<Rightarrow> (store_error + recovery_result) \<times> store" where
  "recoverInterruptedInvocations reason now = transaction (\<lambda>s.
     recover_rows reason now (selectReserved s)
       \<lparr> rr_reconciliationRequired = [], rr_releasedNeverSubmitted = [] \<rparr> s)"

end
