(* ===== verification/Authority_Store_Inv.thy ===== *)
theory Authority_Store_Inv
  imports Authority_Store
begin

text \<open>
  The invariant of the authority's store and its preservation.  Every grant's reserved amount is
  the sum over its held invocations (RESERVED or RECONCILIATION_REQUIRED), its consumed amount the
  sum over its CONFIRMED ones, and together they stay within the grant's total; the transition log
  of each invocation is a path of the state machine that ends in the row's state.

  Each operation is first computed on a store that satisfies the invariant (it succeeds exactly in
  the states it is meant for); preservation then follows from three moves: a row changes with its
  grant's amounts, a row is added, a grant is added.
\<close>

section \<open>The invariant\<close>

definition inv_key :: "invocation \<Rightarrow> string \<times> string" where
  "inv_key i = (inv_issuer i, inv_grantId i)"

definition gr_key :: "grant \<Rightarrow> string \<times> string" where
  "gr_key g = (gr_issuer g, gr_grantId g)"

definition held_amount :: "invocation \<Rightarrow> nat" where
  "held_amount i = (if inv_state i \<in> {RESERVED, RECONCILIATION_REQUIRED} then dec (inv_amountAtomic i) else 0)"

definition spent_amount :: "invocation \<Rightarrow> nat" where
  "spent_amount i = (if inv_state i = CONFIRMED then dec (inv_amountAtomic i) else 0)"

definition total_for :: "(invocation \<Rightarrow> nat) \<Rightarrow> string \<times> string \<Rightarrow> invocation list \<Rightarrow> nat" where
  "total_for c k rows = sum_list (map (\<lambda>i. if inv_key i = k then c i else 0) rows)"

definition grant_ok :: "invocation list \<Rightarrow> grant \<Rightarrow> bool" where
  "grant_ok rows g \<longleftrightarrow>
     grant_check g
     \<and> dec (gr_reservedAtomic g) = total_for held_amount (gr_key g) rows
     \<and> dec (gr_consumedAtomic g) = total_for spent_amount (gr_key g) rows
     \<and> dec (gr_reservedAtomic g) + dec (gr_consumedAtomic g) \<le> dec (gr_maxTotalAtomic g)"

definition row_ok :: "invocation \<Rightarrow> bool" where
  "row_ok i \<longleftrightarrow>
     invocation_check i
     \<and> (inv_receipt i \<noteq> None \<longrightarrow> inv_state i \<in> {DENIED, CONFIRMED})
     \<and> (inv_paymentTransactionId i \<noteq> None \<longrightarrow> inv_state i = CONFIRMED)
     \<and> (inv_state i = DENIED \<longrightarrow> inv_paymentAttempt i = None)"

definition keys_ok :: "store \<Rightarrow> bool" where
  "keys_ok s \<longleftrightarrow>
     distinct (map inv_id (st_invocations s)) \<and> distinct (map gr_key (st_grants s))
     \<and> inv_key ` set (st_invocations s) \<subseteq> gr_key ` set (st_grants s)"

text \<open>The state machine of an invocation; \<open>None\<close> is "no row yet".\<close>

fun allowed_step :: "inv_state option \<Rightarrow> inv_state \<Rightarrow> bool" where
  "allowed_step None t \<longleftrightarrow> t \<in> {RESERVED, DENIED}"
| "allowed_step (Some FAILED) t \<longleftrightarrow> t \<in> {RESERVED, DENIED}"
| "allowed_step (Some RESERVED) t \<longleftrightarrow> t \<in> {RESERVED, CONFIRMED, FAILED, RECONCILIATION_REQUIRED}"
| "allowed_step (Some RECONCILIATION_REQUIRED) t \<longleftrightarrow> t \<in> {CONFIRMED, FAILED}"
| "allowed_step (Some DENIED) t \<longleftrightarrow> False"
| "allowed_step (Some CONFIRMED) t \<longleftrightarrow> False"

fun path :: "inv_state option \<Rightarrow> transition list \<Rightarrow> inv_state option \<Rightarrow> bool" where
  "path from [] to \<longleftrightarrow> from = to"
| "path from (t # ts) to \<longleftrightarrow>
     tr_from t = from \<and> allowed_step from (tr_to t) \<and> path (Some (tr_to t)) ts to"

definition history :: "store \<Rightarrow> string \<Rightarrow> transition list" where
  "history s x = filter (\<lambda>t. tr_invocationId t = x) (st_transitions s)"

definition state_of :: "store \<Rightarrow> string \<Rightarrow> inv_state option" where
  "state_of s x = map_option inv_state (selectInvocation s x)"

definition history_ok :: "store \<Rightarrow> bool" where
  "history_ok s \<longleftrightarrow> (\<forall>x. path None (history s x) (state_of s x))"

definition store_inv :: "store \<Rightarrow> bool" where
  "store_inv s \<longleftrightarrow>
     keys_ok s \<and> (\<forall>i \<in> set (st_invocations s). row_ok i)
     \<and> (\<forall>g \<in> set (st_grants s). grant_ok (st_invocations s) g) \<and> history_ok s"

lemma atomicCheck_iff: "atomicCheck c \<longleftrightarrow> atomic_pattern c"
  by (cases c) (auto simp: atomicCheck_def atomic_pattern_iff canonical_digits_def)

lemma path_snoc: "path a (ts @ [t]) c \<longleftrightarrow> path a ts (tr_from t) \<and> allowed_step (tr_from t) (tr_to t) \<and> c = Some (tr_to t)"
  by (induction ts arbitrary: a) auto

section \<open>Rows\<close>

definition row_update :: "string \<Rightarrow> (invocation \<Rightarrow> invocation) \<Rightarrow> invocation list \<Rightarrow> invocation list" where
  "row_update x f rows = map (\<lambda>j. if inv_id j = x then f j else j) rows"

lemma selectInvocation_Some:
  "selectInvocation s x = Some i \<Longrightarrow> i \<in> set (st_invocations s) \<and> inv_id i = x"
  by (auto simp: selectInvocation_def find_Some_iff)

lemma selectInvocation_None: "selectInvocation s x = None \<longleftrightarrow> x \<notin> inv_id ` set (st_invocations s)"
  by (auto simp: selectInvocation_def find_None_iff)

lemma selectInvocation_eq:
  "distinct (map inv_id (st_invocations s)) \<Longrightarrow>
     selectInvocation s x = Some i \<longleftrightarrow> i \<in> set (st_invocations s) \<and> inv_id i = x"
proof -
  assume d: "distinct (map inv_id (st_invocations s))"
  have "selectInvocation s x = Some i" if i: "i \<in> set (st_invocations s)" "inv_id i = x"
  proof (cases "selectInvocation s x")
    case None
    with i show ?thesis by (auto simp: selectInvocation_None)
  next
    case (Some j)
    then have "j \<in> set (st_invocations s)" "inv_id j = x" by (auto dest: selectInvocation_Some)
    with d i have "j = i" by (auto simp: distinct_map dest: inj_onD)
    with Some show ?thesis by simp
  qed
  then show ?thesis using selectInvocation_Some by blast
qed

lemma other_ids: "distinct (map inv_id (a # rows)) \<Longrightarrow> j \<in> set rows \<Longrightarrow> inv_id j \<noteq> inv_id a"
  by (metis distinct.simps(2) image_eqI list.simps(9) set_map)

lemma filter_by_id:
  assumes "distinct (map inv_id rows)" "i \<in> set rows" "inv_id i = x"
  shows "filter (\<lambda>j. inv_id j = x \<and> Q j) rows = (if Q i then [i] else [])"
  using assms
proof (induction rows)
  case Nil
  then show ?case by simp
next
  case (Cons a rows)
  show ?case
  proof (cases "inv_id a = x")
    case True
    with Cons.prems have "a = i" by force
    moreover have "filter (\<lambda>j. inv_id j = x \<and> Q j) rows = []"
      using other_ids [OF Cons.prems(1)] True by (auto simp: filter_empty_conv)
    ultimately show ?thesis using True by simp
  next
    case False
    with Cons show ?thesis by auto
  qed
qed

lemma update_one_row:
  assumes "distinct (map inv_id (st_invocations s))" "selectInvocation s x = Some i" "Q i"
  shows "update_invocations (\<lambda>j. inv_id j = x \<and> Q j) f s =
    (if invocation_check (f i) then Inr (1, s \<lparr> st_invocations := row_update x f (st_invocations s) \<rparr>)
     else Inl ConstraintViolated)"
proof -
  have i: "i \<in> set (st_invocations s)" "inv_id i = x" using assms(2) by (auto dest: selectInvocation_Some)
  have flt: "filter (\<lambda>j. inv_id j = x \<and> Q j) (st_invocations s) = [i]"
    using filter_by_id [OF assms(1) i] assms(3) by simp
  have "j = i" if "j \<in> set (st_invocations s)" "inv_id j = x" for j
    using that i assms(1) by (auto simp: distinct_map dest: inj_onD)
  then have "map (\<lambda>j. if inv_id j = x \<and> Q j then f j else j) (st_invocations s)
      = row_update x f (st_invocations s)"
    using assms(3) by (auto simp: row_update_def)
  with flt show ?thesis by (simp add: update_invocations_def)
qed

lemma set_row_update:
  "j \<in> set (row_update x f rows) \<Longrightarrow> (\<exists>i \<in> set rows. inv_id i = x \<and> j = f i) \<or> j \<in> set rows \<and> inv_id j \<noteq> x"
  by (auto simp: row_update_def)

lemma map_id_row_update:
  assumes "\<And>i. inv_id (f i) = inv_id i"
  shows "map inv_id (row_update x f rows) = map inv_id rows"
  using assms by (auto simp: row_update_def)

lemma total_row_update:
  assumes "distinct (map inv_id rows)" "i \<in> set rows" "inv_id i = x" "inv_key (f i) = inv_key i"
  shows "total_for c k (row_update x f rows) + (if inv_key i = k then c i else 0)
    = total_for c k rows + (if inv_key i = k then c (f i) else 0)"
  using assms(1-3)
proof (induction rows)
  case Nil
  then show ?case by simp
next
  case (Cons a rows)
  show ?case
  proof (cases "inv_id a = x")
    case True
    with Cons.prems have "a = i" by force
    moreover have "row_update x f rows = rows"
      using other_ids [OF Cons.prems(1)] True unfolding row_update_def by (intro map_idI) auto
    ultimately show ?thesis using True assms(4) by (simp add: row_update_def total_for_def)
  next
    case False
    with Cons have "total_for c k (row_update x f rows) + (if inv_key i = k then c i else 0)
        = total_for c k rows + (if inv_key i = k then c (f i) else 0)"
      by auto
    with False show ?thesis by (simp add: row_update_def total_for_def)
  qed
qed

lemma total_append: "total_for c k (rows @ [i]) = total_for c k rows + (if inv_key i = k then c i else 0)"
  by (simp add: total_for_def)

lemma total_ge: "i \<in> set rows \<Longrightarrow> inv_key i = k \<Longrightarrow> c i \<le> total_for c k rows"
proof -
  assume "i \<in> set rows" "inv_key i = k"
  then have "(if inv_key i = k then c i else 0) \<in> set (map (\<lambda>i. if inv_key i = k then c i else 0) rows)"
    by force
  then have "(if inv_key i = k then c i else 0) \<le> total_for c k rows"
    unfolding total_for_def by (rule member_le_sum_list) simp_all
  with \<open>inv_key i = k\<close> show ?thesis by simp
qed

lemma total_none: "k \<notin> inv_key ` set rows \<Longrightarrow> total_for c k rows = 0"
  unfolding total_for_def by (induction rows) auto

section \<open>Grants\<close>

lemma selectGrant_key: "selectGrant s a b = find (\<lambda>g. gr_key g = (a, b)) (st_grants s)"
  by (simp add: selectGrant_def gr_key_def)

lemma selectGrant_Some: "selectGrant s a b = Some g \<Longrightarrow> g \<in> set (st_grants s) \<and> gr_key g = (a, b)"
  by (auto simp: selectGrant_key find_Some_iff)

lemma selectGrant_None: "selectGrant s a b = None \<longleftrightarrow> (a, b) \<notin> gr_key ` set (st_grants s)"
  by (force simp: selectGrant_key find_None_iff)

definition set_amounts :: "string \<times> string \<Rightarrow> string \<Rightarrow> string \<Rightarrow> int \<Rightarrow> store \<Rightarrow> store" where
  "set_amounts k r c now s = s \<lparr> st_grants := map (\<lambda>g. if gr_key g = k
     then g \<lparr> gr_reservedAtomic := r, gr_consumedAtomic := c, gr_updatedAt := now \<rparr> else g) (st_grants s) \<rparr>"

lemma distinct_grant_eq:
  "distinct (map gr_key gs) \<Longrightarrow> g \<in> set gs \<Longrightarrow> h \<in> set gs \<Longrightarrow> gr_key g = gr_key h \<Longrightarrow> g = h"
  by (auto simp: distinct_map dest: inj_onD)

lemma updateGrantAmounts_ok:
  assumes "keys_ok s" "g \<in> set (st_grants s)" "gr_key g = (a, b)"
    and "atomic_pattern (gr_maxTotalAtomic g)" "atomic_pattern r" "atomic_pattern c"
  shows "updateGrantAmounts r c now a b s = Inr (set_amounts (a, b) r c now s)"
proof -
  have "list_all (\<lambda>g. grant_check (g \<lparr> gr_reservedAtomic := r, gr_consumedAtomic := c, gr_updatedAt := now \<rparr>))
      (filter (\<lambda>g. gr_issuer g = a \<and> gr_grantId g = b) (st_grants s))"
    unfolding list_all_iff
  proof
    fix h assume "h \<in> set (filter (\<lambda>g. gr_issuer g = a \<and> gr_grantId g = b) (st_grants s))"
    then have "h = g"
      using assms(1-3) by (intro distinct_grant_eq [of "st_grants s"]) (auto simp: keys_ok_def gr_key_def)
    with assms(4-6) show "grant_check (h \<lparr> gr_reservedAtomic := r, gr_consumedAtomic := c, gr_updatedAt := now \<rparr>)"
      by (simp add: grant_check_def atomicCheck_iff)
  qed
  then show ?thesis
    by (simp add: updateGrantAmounts_def set_amounts_def gr_key_def)
qed

section \<open>The three moves\<close>

definition set_row :: "string \<Rightarrow> (invocation \<Rightarrow> invocation) \<Rightarrow> store \<Rightarrow> store" where
  "set_row x f s = s \<lparr> st_invocations := row_update x f (st_invocations s) \<rparr>"

definition log_step ::
  "string \<Rightarrow> inv_state option \<Rightarrow> inv_state \<Rightarrow> string option \<Rightarrow> int \<Rightarrow> store \<Rightarrow> store" where
  "log_step x from to reason at s = s \<lparr> st_transitions := st_transitions s
     @ [\<lparr> tr_invocationId = x, tr_from = from, tr_to = to, tr_reason = reason, tr_at = at \<rparr>] \<rparr>"

lemma set_row_simps [simp]:
  "st_grants (set_row x f s) = st_grants s" "st_transitions (set_row x f s) = st_transitions s"
  "st_invocations (set_row x f s) = row_update x f (st_invocations s)"
  by (simp_all add: set_row_def)

lemma log_step_simps [simp]:
  "st_grants (log_step x from to r at s) = st_grants s"
  "st_invocations (log_step x from to r at s) = st_invocations s"
  "selectInvocation (log_step x from to r at s) y = selectInvocation s y"
  "selectGrant (log_step x from to r at s) a b = selectGrant s a b"
  by (simp_all add: log_step_def selectInvocation_def selectGrant_def)

lemma set_amounts_simps [simp]:
  "st_invocations (set_amounts k r c now s) = st_invocations s"
  "st_transitions (set_amounts k r c now s) = st_transitions s"
  "selectInvocation (set_amounts k r c now s) y = selectInvocation s y"
  by (simp_all add: set_amounts_def selectInvocation_def)

lemma grant_key_set_amounts: "map gr_key (st_grants (set_amounts k r c now s)) = map gr_key (st_grants s)"
  by (simp add: set_amounts_def gr_key_def)

lemma selectInvocation_set_row:
  assumes "\<And>j. inv_id (f j) = inv_id j"
  shows "selectInvocation (set_row x f s) y
    = (if y = x then map_option f (selectInvocation s x) else selectInvocation s y)"
proof -
  have "find (\<lambda>i. inv_id i = y) (row_update x f rows)
      = (if y = x then map_option f (find (\<lambda>i. inv_id i = x) rows) else find (\<lambda>i. inv_id i = y) rows)" for rows
    using assms by (induction rows) (auto simp: row_update_def)
  then show ?thesis by (simp add: selectInvocation_def)
qed

lemma selectInvocation_set_row_same:
  "(\<And>j. inv_id (f j) = inv_id j) \<Longrightarrow> selectInvocation s x = Some i \<Longrightarrow> selectInvocation (set_row x f s) x = Some (f i)"
  by (simp add: selectInvocation_set_row)

lemma keys_ok_moves:
  assumes "keys_ok s" "\<And>j. inv_id (f j) = inv_id j" "\<And>j. inv_key (f j) = inv_key j"
  shows "keys_ok (set_row x f s)"
proof -
  have "inv_key ` set (row_update x f (st_invocations s)) = inv_key ` set (st_invocations s)"
    unfolding row_update_def set_map image_image by (rule image_cong) (simp_all add: assms(3))
  with assms show ?thesis by (simp add: keys_ok_def map_id_row_update)
qed

lemma keys_ok_set_amounts: "keys_ok s \<Longrightarrow> keys_ok (set_amounts k r c now s)"
  using grant_key_set_amounts [of k r c now s]
  unfolding keys_ok_def by (metis set_amounts_simps(1) set_map)

lemma keys_ok_log [simp]: "keys_ok (log_step x from to r at s) \<longleftrightarrow> keys_ok s"
  by (simp add: keys_ok_def)

lemma history_log:
  "history (log_step x from to r at s) y = history s y
     @ (if y = x then [\<lparr> tr_invocationId = x, tr_from = from, tr_to = to, tr_reason = r, tr_at = at \<rparr>] else [])"
  by (simp add: history_def log_step_def)

text \<open>A logged step extends the path of its invocation and leaves the others alone.\<close>

lemma history_ok_log:
  assumes "history_ok s" "allowed_step (state_of s x) to" "st_transitions s' = st_transitions s"
    and "\<And>y. state_of s' y = (if y = x then Some to else state_of s y)"
  shows "history_ok (log_step x (state_of s x) to r at s')"
proof -
  have h: "history s' y = history s y" for y using assms(3) by (simp add: history_def)
  have "path None (history s x) (state_of s x)" using assms(1) by (simp add: history_ok_def)
  with assms show ?thesis
    unfolding history_ok_def history_log h
    by (auto simp: path_snoc state_of_def)
qed

lemma grants_ok_row:
  assumes "keys_ok s" "selectInvocation s x = Some i" "inv_key (f i) = inv_key i"
    and "held_amount (f i) = held_amount i" "spent_amount (f i) = spent_amount i"
    and "\<forall>g \<in> set (st_grants s). grant_ok (st_invocations s) g"
  shows "\<forall>g \<in> set (st_grants s). grant_ok (row_update x f (st_invocations s)) g"
proof
  fix g assume g: "g \<in> set (st_grants s)"
  have i: "i \<in> set (st_invocations s)" "inv_id i = x" using assms(2) by (auto dest: selectInvocation_Some)
  have d: "distinct (map inv_id (st_invocations s))" using assms(1) by (simp add: keys_ok_def)
  have "total_for held_amount k (row_update x f (st_invocations s)) = total_for held_amount k (st_invocations s)" for k
    using total_row_update [where c = held_amount and k = k and f = f, OF d i assms(3)] assms(4) by (cases "inv_key i = k") auto
  moreover have "total_for spent_amount k (row_update x f (st_invocations s)) = total_for spent_amount k (st_invocations s)" for k
    using total_row_update [where c = spent_amount and k = k and f = f, OF d i assms(3)] assms(5) by (cases "inv_key i = k") auto
  ultimately show "grant_ok (row_update x f (st_invocations s)) g"
    using bspec [OF assms(6) g] by (simp add: grant_ok_def)
qed

lemma rows_ok_update:
  "\<forall>j \<in> set rows. row_ok j \<Longrightarrow> distinct (map inv_id rows) \<Longrightarrow> i \<in> set rows \<Longrightarrow> inv_id i = x \<Longrightarrow> row_ok (f i)
     \<Longrightarrow> \<forall>j \<in> set (row_update x f rows). row_ok j"
  by (auto dest!: set_row_update simp: distinct_map dest: inj_onD)

lemma state_of_set_row:
  assumes "\<And>j. inv_id (f j) = inv_id j" "selectInvocation s x = Some i"
  shows "state_of (set_row x f s) y = (if y = x then Some (inv_state (f i)) else state_of s y)"
  using assms by (simp add: state_of_def selectInvocation_set_row)

text \<open>A row changes and keeps what it holds and what it has spent.\<close>

lemma store_inv_row:
  assumes inv: "store_inv s" and i: "selectInvocation s x = Some i"
    and f: "\<And>j. inv_id (f j) = inv_id j" "\<And>j. inv_key (f j) = inv_key j" "row_ok (f i)"
    and amounts: "held_amount (f i) = held_amount i" "spent_amount (f i) = spent_amount i"
    and step: "allowed_step (Some (inv_state i)) (inv_state (f i))"
  shows "store_inv (log_step x (Some (inv_state i)) (inv_state (f i)) r at (set_row x f s))"
proof -
  have row: "i \<in> set (st_invocations s)" "inv_id i = x" using i by (auto dest: selectInvocation_Some)
  have k: "keys_ok s" and d: "distinct (map inv_id (st_invocations s))"
    using inv by (auto simp: store_inv_def keys_ok_def)
  have "history_ok (log_step x (state_of s x) (inv_state (f i)) r at (set_row x f s))"
    using inv step i by (intro history_ok_log) (simp_all add: store_inv_def selectInvocation_set_row f(1) state_of_def)
  then have "history_ok (log_step x (Some (inv_state i)) (inv_state (f i)) r at (set_row x f s))"
    using i by (simp add: state_of_def)
  moreover have "\<forall>j \<in> set (row_update x f (st_invocations s)). row_ok j"
    using inv d row f(3) by (intro rows_ok_update) (simp_all add: store_inv_def)
  moreover have "\<forall>g \<in> set (st_grants s). grant_ok (row_update x f (st_invocations s)) g"
    using inv by (intro grants_ok_row [where f = f, OF k i f(2) amounts]) (simp add: store_inv_def)
  ultimately show ?thesis
    using keys_ok_moves [OF k f(1,2)] by (simp add: store_inv_def)
qed

lemma grant_ok_bounds:
  "grant_ok rows g \<Longrightarrow> atomic_pattern (gr_maxTotalAtomic g) \<and> atomic_pattern (gr_reservedAtomic g)
     \<and> atomic_pattern (gr_consumedAtomic g)"
  by (simp add: grant_ok_def grant_check_def atomicCheck_iff)

text \<open>A row changes together with the amounts of its grant.\<close>

lemma store_inv_row_amounts:
  assumes inv: "store_inv s" and i: "selectInvocation s x = Some i"
    and g: "g \<in> set (st_grants s)" "gr_key g = inv_key i"
    and f: "\<And>j. inv_id (f j) = inv_id j" "\<And>j. inv_key (f j) = inv_key j" "row_ok (f i)"
    and r: "r + held_amount i = dec (gr_reservedAtomic g) + held_amount (f i)"
    and c: "c + spent_amount i = dec (gr_consumedAtomic g) + spent_amount (f i)"
    and bound: "r + c \<le> dec (gr_maxTotalAtomic g)"
    and step: "allowed_step (Some (inv_state i)) (inv_state (f i))"
  shows "store_inv (log_step x (Some (inv_state i)) (inv_state (f i)) why at
           (set_row x f (set_amounts (inv_key i) (show_nat r) (show_nat c) now s)))"
proof -
  let ?s = "set_amounts (inv_key i) (show_nat r) (show_nat c) now s"
  have row: "i \<in> set (st_invocations s)" "inv_id i = x" using i by (auto dest: selectInvocation_Some)
  have k: "keys_ok s" and d: "distinct (map inv_id (st_invocations s))"
    and dg: "distinct (map gr_key (st_grants s))"
    and gok: "\<forall>g \<in> set (st_grants s). grant_ok (st_invocations s) g"
    using inv by (auto simp: store_inv_def keys_ok_def)
  have "history_ok (log_step x (state_of s x) (inv_state (f i)) why at (set_row x f ?s))"
  proof (rule history_ok_log)
    show "state_of (set_row x f ?s) y = (if y = x then Some (inv_state (f i)) else state_of s y)" for y
      using i f(1) by (simp add: state_of_def selectInvocation_set_row)
  qed (use inv step i in \<open>simp_all add: store_inv_def state_of_def\<close>)
  then have "history_ok (log_step x (Some (inv_state i)) (inv_state (f i)) why at (set_row x f ?s))"
    using i by (simp add: state_of_def)
  moreover have "\<forall>j \<in> set (row_update x f (st_invocations s)). row_ok j"
    using inv d row f(3) by (intro rows_ok_update) (simp_all add: store_inv_def)
  moreover have "grant_ok (row_update x f (st_invocations s)) h'" if h': "h' \<in> set (st_grants ?s)" for h'
  proof -
    from h' obtain h where h: "h \<in> set (st_grants s)" "h' = (if gr_key h = inv_key i
        then h \<lparr> gr_reservedAtomic := show_nat r, gr_consumedAtomic := show_nat c, gr_updatedAt := now \<rparr> else h)"
      by (auto simp: set_amounts_def)
    note held = total_row_update [where c = held_amount and f = f, OF d row f(2)]
    note spent = total_row_update [where c = spent_amount and f = f, OF d row f(2)]
    have ok: "grant_ok (st_invocations s) h" using gok h(1) by blast
    show ?thesis
    proof (cases "gr_key h = inv_key i")
      case True
      with g h(1) dg have "h = g" by (metis distinct_grant_eq)
      have m: "dec (gr_maxTotalAtomic g) < 10 ^ 20"
        using grant_ok_bounds [OF ok] \<open>h = g\<close> dec_atomic_bound by blast
      then have "atomic_pattern (show_nat r)" "atomic_pattern (show_nat c)"
        using bound by (auto intro!: atomic_pattern_show_nat)
      with True h(2) \<open>h = g\<close> ok r c bound held [of "inv_key i"] spent [of "inv_key i"] g(2) show ?thesis
        by (simp add: grant_ok_def grant_check_def atomicCheck_iff gr_key_def)
    next
      case False
      with h(2) ok held [of "gr_key h"] spent [of "gr_key h"] show ?thesis
        by (auto simp: grant_ok_def)
    qed
  qed
  ultimately show ?thesis
    using keys_ok_moves [OF keys_ok_set_amounts [OF k] f(1,2)] by (simp add: store_inv_def)
qed

text \<open>A grant is added with nothing reserved or consumed.\<close>

lemma store_inv_add_grant:
  assumes inv: "store_inv s" and new: "gr_key g \<notin> gr_key ` set (st_grants s)"
    and g: "gr_reservedAtomic g = ''0''" "gr_consumedAtomic g = ''0''" "atomic_pattern (gr_maxTotalAtomic g)"
  shows "store_inv (s \<lparr> st_grants := st_grants s @ [g] \<rparr>)"
proof -
  have "gr_key g \<notin> inv_key ` set (st_invocations s)"
    using inv new by (auto simp: store_inv_def keys_ok_def)
  then have "grant_ok (st_invocations s) g"
    using g by (simp add: grant_ok_def grant_check_def atomicCheck_iff total_none)
  moreover have "history_ok (s \<lparr> st_grants := gs \<rparr>) = history_ok s" for gs
    by (simp add: history_ok_def history_def state_of_def selectInvocation_def)
  ultimately show ?thesis using inv new by (auto simp: store_inv_def keys_ok_def)
qed

lemma find_append: "find P (xs @ ys) = (case find P xs of None \<Rightarrow> find P ys | Some y \<Rightarrow> Some y)"
  by (induction xs) auto

text \<open>A row is added for a grant, whose amounts take in what the row holds.\<close>

lemma history_no_row:
  "history_ok s \<Longrightarrow> selectInvocation s x = None \<Longrightarrow> path None (history s x) None"
  unfolding history_ok_def by (metis state_of_def option.map_disc_iff)

lemma store_inv_add_row:
  assumes inv: "store_inv s" and new: "selectInvocation s (inv_id i) = None"
    and g: "g \<in> set (st_grants s)" "gr_key g = inv_key i"
    and i: "row_ok i" "inv_state i \<in> {RESERVED, DENIED}"
    and r: "r = dec (gr_reservedAtomic g) + held_amount i"
    and bound: "r + dec (gr_consumedAtomic g) \<le> dec (gr_maxTotalAtomic g)"
    and gs: "map gr_key gs = map gr_key (st_grants s)"
      "\<And>h'. h' \<in> set gs \<Longrightarrow> \<exists>h \<in> set (st_grants s). h' = h \<and> (gr_key h = inv_key i \<longrightarrow> held_amount i = 0)
         \<or> gr_key h = inv_key i \<and> h' = h \<lparr> gr_reservedAtomic := show_nat r, gr_updatedAt := now \<rparr>"
  shows "store_inv (log_step (inv_id i) None (inv_state i) why at
           (s \<lparr> st_grants := gs, st_invocations := st_invocations s @ [i] \<rparr>))"
proof -
  let ?s = "s \<lparr> st_grants := gs, st_invocations := st_invocations s @ [i] \<rparr>"
  have dg: "distinct (map gr_key (st_grants s))"
    and gok: "\<forall>g \<in> set (st_grants s). grant_ok (st_invocations s) g"
    using inv by (auto simp: store_inv_def keys_ok_def)
  have spent0: "spent_amount i = 0" using i(2) by (auto simp: spent_amount_def)
  have sel: "selectInvocation ?s y = (if y = inv_id i then Some i else selectInvocation s y)" for y
    using new by (auto simp: selectInvocation_def find_append split: option.split)
  have none: "state_of s (inv_id i) = None" using new by (simp add: state_of_def)
  have "history_ok (log_step (inv_id i) (state_of s (inv_id i)) (inv_state i) why at ?s)"
    using inv i(2) none by (intro history_ok_log) (auto simp: store_inv_def state_of_def sel)
  with none have "history_ok (log_step (inv_id i) None (inv_state i) why at ?s)" by simp
  moreover have "grant_ok (st_invocations s @ [i]) h'" if h': "h' \<in> set gs" for h'
  proof -
    from gs(2) [OF h'] obtain h where h: "h \<in> set (st_grants s)"
      and alt: "h' = h \<and> (gr_key h = inv_key i \<longrightarrow> held_amount i = 0)
        \<or> gr_key h = inv_key i \<and> h' = h \<lparr> gr_reservedAtomic := show_nat r, gr_updatedAt := now \<rparr>"
      by blast
    have ok: "grant_ok (st_invocations s) h" using gok h by blast
    show ?thesis
    proof (cases "h' = h")
      case True
      have "gr_key h = inv_key i \<longrightarrow> held_amount i = 0"
        using alt
      proof
        assume same: "gr_key h = inv_key i \<and> h' = h \<lparr> gr_reservedAtomic := show_nat r, gr_updatedAt := now \<rparr>"
        with g h dg have "h = g" by (metis distinct_grant_eq)
        with same True have "dec (gr_reservedAtomic g) = r"
          by (metis dec_show_nat grant.select_convs(5) grant.surjective grant.update_convs(5,8))
        with r show ?thesis by simp
      qed simp
      with ok True spent0 show ?thesis by (auto simp: grant_ok_def total_append)
    next
      case False
      with alt have k: "gr_key h = inv_key i"
        and h'': "h' = h \<lparr> gr_reservedAtomic := show_nat r, gr_updatedAt := now \<rparr>" by auto
      from k g h dg have "h = g" by (metis distinct_grant_eq)
      then have "r < 10 ^ 20"
        using bound grant_ok_bounds [OF ok] dec_atomic_bound [of "gr_maxTotalAtomic g"] by simp
      then have "atomic_pattern (show_nat r)" by (rule atomic_pattern_show_nat)
      with ok k h'' \<open>h = g\<close> r bound spent0 show ?thesis
        by (simp add: grant_ok_def grant_check_def atomicCheck_iff total_append gr_key_def)
    qed
  qed
  moreover have "keys_ok ?s"
  proof -
    have "gr_key ` set gs = gr_key ` set (st_grants s)" using gs(1) by (metis set_map)
    moreover have "inv_id i \<notin> inv_id ` set (st_invocations s)" using new by (simp add: selectInvocation_None)
    moreover have "inv_key i \<in> gr_key ` set (st_grants s)" using g by force
    ultimately show ?thesis using inv gs(1) by (auto simp: store_inv_def keys_ok_def)
  qed
  ultimately show ?thesis using inv i(1) by (auto simp: store_inv_def)
qed

end
