(* ===== verification/Authority_Store_Ops.thy ===== *)
theory Authority_Store_Ops
  imports Authority_Store_Inv
begin

text \<open>
  What each store operation does on a store that satisfies the invariant, and that it keeps it.
  From the state an operation is meant for it always succeeds; from any other it fails and leaves
  the store as it was.
\<close>

section \<open>Building blocks on a good store\<close>

lemma one_row:
  assumes "keys_ok s" "selectInvocation s x = Some i" "Q i" "invocation_check (f i)"
  shows "expectOneChange (update_invocations (\<lambda>j. inv_id j = x \<and> Q j) f s) = Inr (set_row x f s)"
proof -
  have "distinct (map inv_id (st_invocations s))" using assms(1) by (simp add: keys_ok_def)
  from update_one_row [where f = f and Q = Q, OF this assms(2,3)] assms(4)
  show ?thesis by (simp add: expectOneChange_def set_row_def)
qed

lemma recordTransition_ok:
  "selectInvocation s x = Some i \<Longrightarrow> recordTransition x from to r at s = Inr (log_step x from to r at s)"
  by (simp add: recordTransition_def log_step_def)

definition moved_to :: "inv_state \<Rightarrow> string \<Rightarrow> int \<Rightarrow> invocation \<Rightarrow> invocation" where
  "moved_to to reason now i = i \<lparr> inv_state := to, inv_stateReason := Some reason, inv_updatedAt := now \<rparr>"

lemma moved_to_simps [simp]:
  "inv_id (moved_to t r n i) = inv_id i" "inv_key (moved_to t r n i) = inv_key i"
  "inv_state (moved_to t r n i) = t" "inv_amountAtomic (moved_to t r n i) = inv_amountAtomic i"
  "inv_receipt (moved_to t r n i) = inv_receipt i"
  "inv_paymentAttempt (moved_to t r n i) = inv_paymentAttempt i"
  "inv_paymentTransactionId (moved_to t r n i) = inv_paymentTransactionId i"
  by (simp_all add: moved_to_def inv_key_def)

lemma store_inv_row_ok: "store_inv s \<Longrightarrow> selectInvocation s x = Some i \<Longrightarrow> row_ok i"
  by (auto simp: store_inv_def dest: selectInvocation_Some)

lemma store_inv_keys: "store_inv s \<Longrightarrow> keys_ok s"
  by (simp add: store_inv_def)

lemma row_ok_amount: "row_ok i \<Longrightarrow> atomic_pattern (inv_amountAtomic i)"
  by (simp add: row_ok_def invocation_check_def atomicCheck_iff)

lemma row_ok_moved:
  "row_ok i \<Longrightarrow> inv_state i \<in> {RESERVED, RECONCILIATION_REQUIRED}
     \<Longrightarrow> t \<in> {FAILED, RECONCILIATION_REQUIRED} \<Longrightarrow> row_ok (moved_to t r n i)"
  by (auto simp: row_ok_def invocation_check_def)

lemma row_ok_check: "row_ok i \<Longrightarrow> invocation_check i"
  by (simp add: row_ok_def)

lemma transitionState_ok:
  assumes "keys_ok s" "selectInvocation s x = Some i" "inv_state i = from" "row_ok (moved_to to r now i)"
  shows "transitionState x from to r now s
    = Inr (log_step x (Some from) to (Some r) now (set_row x (moved_to to r now) s))"
proof -
  have "expectOneChange (update_invocations (\<lambda>j. inv_id j = x \<and> inv_state j = from) (moved_to to r now) s)
      = Inr (set_row x (moved_to to r now) s)"
    using assms by (intro one_row [where i = i]) (simp_all add: row_ok_check)
  moreover have "selectInvocation (set_row x (moved_to to r now) s) x = Some (moved_to to r now i)"
    using assms(2) by (simp add: selectInvocation_set_row)
  ultimately show ?thesis
    by (simp add: transitionState_def moved_to_def [abs_def] recordTransition_ok)
qed

text \<open>The grant of a stored invocation, its amounts, and the two ways a reservation ends.\<close>

definition grant_of :: "store \<Rightarrow> invocation \<Rightarrow> grant" where
  "grant_of s i = the (selectGrant s (inv_issuer i) (inv_grantId i))"

lemma grant_of:
  assumes "store_inv s" "selectInvocation s x = Some i"
  shows "selectGrant s (inv_issuer i) (inv_grantId i) = Some (grant_of s i)"
    and "grant_of s i \<in> set (st_grants s)" "gr_key (grant_of s i) = inv_key i"
    and "grant_ok (st_invocations s) (grant_of s i)"
proof -
  have "inv_key i \<in> gr_key ` set (st_grants s)"
    using assms by (auto simp: store_inv_def keys_ok_def dest: selectInvocation_Some)
  then have "selectGrant s (inv_issuer i) (inv_grantId i) \<noteq> None"
    unfolding selectGrant_None by (simp add: inv_key_def)
  then show sel: "selectGrant s (inv_issuer i) (inv_grantId i) = Some (grant_of s i)"
    by (auto simp: grant_of_def)
  then show g: "grant_of s i \<in> set (st_grants s)" and "gr_key (grant_of s i) = inv_key i"
    by (auto dest: selectGrant_Some simp: inv_key_def)
  from g assms(1) show "grant_ok (st_invocations s) (grant_of s i)" by (simp add: store_inv_def)
qed

lemma held_within_reserved:
  assumes "store_inv s" "selectInvocation s x = Some i"
  shows "held_amount i \<le> dec (gr_reservedAtomic (grant_of s i))"
proof -
  have "held_amount i \<le> total_for held_amount (inv_key i) (st_invocations s)"
    using assms(2) by (intro total_ge) (auto dest: selectInvocation_Some)
  with grant_of(3,4) [OF assms] show ?thesis by (simp add: grant_ok_def)
qed

definition released :: "store \<Rightarrow> invocation \<Rightarrow> int \<Rightarrow> store" where
  "released s i now = set_amounts (inv_key i)
     (show_nat (dec (gr_reservedAtomic (grant_of s i)) - dec (inv_amountAtomic i)))
     (show_nat (dec (gr_consumedAtomic (grant_of s i)))) now s"

definition consumed :: "store \<Rightarrow> invocation \<Rightarrow> int \<Rightarrow> store" where
  "consumed s i now = set_amounts (inv_key i)
     (show_nat (dec (gr_reservedAtomic (grant_of s i)) - dec (inv_amountAtomic i)))
     (show_nat (dec (gr_consumedAtomic (grant_of s i)) + dec (inv_amountAtomic i))) now s"

lemma grant_amounts_updatable:
  assumes "store_inv s" "selectInvocation s x = Some i"
    and "r + c \<le> dec (gr_maxTotalAtomic (grant_of s i))"
  shows "updateGrantAmounts (show_nat r) (show_nat c) now (gr_issuer (grant_of s i)) (gr_grantId (grant_of s i)) s
    = Inr (set_amounts (inv_key i) (show_nat r) (show_nat c) now s)"
proof -
  note g = grant_of [OF assms(1,2)]
  have m: "atomic_pattern (gr_maxTotalAtomic (grant_of s i))"
    using grant_ok_bounds [OF g(4)] by blast
  then have "r < 10 ^ 20" "c < 10 ^ 20" using assms(3) dec_atomic_bound [OF m] by linarith+
  then have "updateGrantAmounts (show_nat r) (show_nat c) now (gr_issuer (grant_of s i)) (gr_grantId (grant_of s i)) s
      = Inr (set_amounts (gr_issuer (grant_of s i), gr_grantId (grant_of s i)) (show_nat r) (show_nat c) now s)"
    using assms(1) g(2) m
    by (intro updateGrantAmounts_ok [of s "grant_of s i"])
      (auto simp: store_inv_def gr_key_def intro: atomic_pattern_show_nat)
  with g(3) show ?thesis by (simp add: gr_key_def)
qed

lemma reservation_ends:
  assumes "store_inv s" "selectInvocation s x = Some i"
    and "inv_state i \<in> {RESERVED, RECONCILIATION_REQUIRED}"
  shows "releaseReservation i now s = Inr (released s i now)"
    and "consumeReservation i now s = Inr (consumed s i now)"
proof -
  note g = grant_of [OF assms(1,2)]
  let ?g = "grant_of s i"
  have le: "dec (inv_amountAtomic i) \<le> dec (gr_reservedAtomic ?g)"
    using held_within_reserved [OF assms(1,2)] assms(3) by (simp add: held_amount_def split: if_splits)
  have bound: "dec (gr_reservedAtomic ?g) + dec (gr_consumedAtomic ?g) \<le> dec (gr_maxTotalAtomic ?g)"
    using g(4) by (simp add: grant_ok_def)
  have canon: "show_nat (dec (gr_consumedAtomic ?g)) = gr_consumedAtomic ?g"
    using grant_ok_bounds [OF g(4)] by (simp add: show_nat_dec)
  have "updateGrantAmounts (show_nat (dec (gr_reservedAtomic ?g) - dec (inv_amountAtomic i)))
      (show_nat (dec (gr_consumedAtomic ?g))) now (gr_issuer ?g) (gr_grantId ?g) s = Inr (released s i now)"
    unfolding released_def using bound by (intro grant_amounts_updatable [OF assms(1,2)]) linarith
  with g(1) le canon show "releaseReservation i now s = Inr (released s i now)"
    by (simp add: releaseReservation_def requireGrant_def Let_def)
  have "updateGrantAmounts (show_nat (dec (gr_reservedAtomic ?g) - dec (inv_amountAtomic i)))
      (show_nat (dec (gr_consumedAtomic ?g) + dec (inv_amountAtomic i))) now (gr_issuer ?g) (gr_grantId ?g) s
      = Inr (consumed s i now)"
    unfolding consumed_def using bound le by (intro grant_amounts_updatable [OF assms(1,2)]) linarith
  with g(1) le show "consumeReservation i now s = Inr (consumed s i now)"
    by (simp add: consumeReservation_def requireGrant_def Let_def)
qed

lemma released_consumed_simps [simp]:
  "selectInvocation (released s i now) y = selectInvocation s y"
  "selectInvocation (consumed s i now) y = selectInvocation s y"
  by (simp_all add: released_def consumed_def)

lemma keys_ok_released: "keys_ok s \<Longrightarrow> keys_ok (released s i now)" "keys_ok s \<Longrightarrow> keys_ok (consumed s i now)"
  by (simp_all add: released_def consumed_def keys_ok_set_amounts)

lemma store_inv_released:
  assumes inv: "store_inv s" and i: "selectInvocation s x = Some i"
    and st: "inv_state i \<in> {RESERVED, RECONCILIATION_REQUIRED}"
  shows "store_inv (log_step x (Some (inv_state i)) FAILED why at
           (set_row x (moved_to FAILED r now) (released s i n)))"
proof -
  note g = grant_of [OF inv i]
  have le: "dec (inv_amountAtomic i) \<le> dec (gr_reservedAtomic (grant_of s i))"
    using held_within_reserved [OF inv i] st by (simp add: held_amount_def split: if_splits)
  have ok: "row_ok (moved_to FAILED r now i)"
    using st by (intro row_ok_moved [OF store_inv_row_ok [OF inv i]]) simp_all
  have "allowed_step (Some (inv_state i)) (inv_state (moved_to FAILED r now i))"
    using st by auto
  from store_inv_row_amounts [where f = "moved_to FAILED r now", OF inv i g(2,3) _ _ ok _ _ _ this,
      of "dec (gr_reservedAtomic (grant_of s i)) - dec (inv_amountAtomic i)"
         "dec (gr_consumedAtomic (grant_of s i))"] le st g(4)
  show ?thesis
    by (auto simp: released_def held_amount_def spent_amount_def grant_ok_def)
qed

text \<open>A confirmed row: \<open>f\<close> sets the state and the transaction id, whatever else it records.\<close>

lemma store_inv_consumed:
  assumes inv: "store_inv s" and i: "selectInvocation s x = Some i"
    and st: "inv_state i \<in> {RESERVED, RECONCILIATION_REQUIRED}"
    and f: "\<And>j. inv_id (f j) = inv_id j" "\<And>j. inv_key (f j) = inv_key j" "inv_state (f i) = CONFIRMED"
      "inv_amountAtomic (f i) = inv_amountAtomic i" "row_ok (f i)"
  shows "store_inv (log_step x (Some (inv_state i)) CONFIRMED why at (set_row x f (consumed s i n)))"
proof -
  note g = grant_of [OF inv i]
  have le: "dec (inv_amountAtomic i) \<le> dec (gr_reservedAtomic (grant_of s i))"
    using held_within_reserved [OF inv i] st by (simp add: held_amount_def split: if_splits)
  have "allowed_step (Some (inv_state i)) (inv_state (f i))"
    using st f(3) by auto
  from store_inv_row_amounts [where f = f, OF inv i g(2,3) f(1,2,5) _ _ _ this,
      of "dec (gr_reservedAtomic (grant_of s i)) - dec (inv_amountAtomic i)"
         "dec (gr_consumedAtomic (grant_of s i)) + dec (inv_amountAtomic i)"] le st g(4) f(3,4)
  show ?thesis
    by (auto simp: consumed_def held_amount_def spent_amount_def grant_ok_def)
qed

section \<open>Operations on one row\<close>

lemma requireState_iff:
  "requireState s x st = Inr i \<longleftrightarrow> selectInvocation s x = Some i \<and> inv_state i = st"
  by (auto simp: requireState_def requireInvocation_def sbind_Inr_iff split: option.splits)

lemma requireState_error:
  "state_of s x \<noteq> Some st \<Longrightarrow>
     requireState s x st = Inl (if state_of s x = None then InvocationMissing else InvalidStateTransition)"
  by (auto simp: requireState_def requireInvocation_def state_of_def split: option.splits)

lemma requireInvocation_ok [simp]: "selectInvocation s x = Some i \<Longrightarrow> requireInvocation s x = Inr i"
  by (simp add: requireInvocation_def)

lemma requireState_ok: "selectInvocation s x = Some i \<Longrightarrow> inv_state i = st \<Longrightarrow> requireState s x st = Inr i"
  by (simp add: requireState_iff)

lemma state_of_Some: "selectInvocation s x = Some i \<Longrightarrow> state_of s x = Some (inv_state i)"
  by (simp add: state_of_def)

lemma fail_ok:
  assumes "store_inv s" "selectInvocation s x = Some i" "inv_state i = RESERVED"
  shows "fail x r now s = (Inr (), log_step x (Some RESERVED) FAILED (Some r) now
           (set_row x (moved_to FAILED r now) (released s i now)))"
proof -
  have ok: "row_ok (moved_to FAILED r now i)"
    using assms(3) by (intro row_ok_moved [OF store_inv_row_ok [OF assms(1,2)]]) simp_all
  have "transitionState x RESERVED FAILED r now (released s i now)
      = Inr (log_step x (Some RESERVED) FAILED (Some r) now (set_row x (moved_to FAILED r now) (released s i now)))"
    using assms ok by (intro transitionState_ok) (simp_all add: keys_ok_released store_inv_keys)
  then show ?thesis
    using assms by (simp add: fail_def transaction_def requireState_ok reservation_ends)
qed

lemma fail_error:
  "state_of s x \<noteq> Some RESERVED \<Longrightarrow>
     fail x r now s = (Inl (if state_of s x = None then InvocationMissing else InvalidStateTransition), s)"
  by (simp add: fail_def transaction_def requireState_error)

lemma markReconciliationRequired_ok:
  assumes "store_inv s" "selectInvocation s x = Some i" "inv_state i = RESERVED"
  shows "markReconciliationRequired x r now s = (Inr (),
    log_step x (Some RESERVED) RECONCILIATION_REQUIRED (Some r) now
      (set_row x (moved_to RECONCILIATION_REQUIRED r now) s))"
proof -
  have ok: "row_ok (moved_to RECONCILIATION_REQUIRED r now i)"
    using assms(3) by (intro row_ok_moved [OF store_inv_row_ok [OF assms(1,2)]]) simp_all
  show ?thesis
    using assms ok
    by (simp add: markReconciliationRequired_def transaction_def requireState_ok transitionState_ok
        store_inv_keys)
qed

lemma markReconciliationRequired_error:
  "state_of s x \<noteq> Some RESERVED \<Longrightarrow> markReconciliationRequired x r now s
     = (Inl (if state_of s x = None then InvocationMissing else InvalidStateTransition), s)"
  by (simp add: markReconciliationRequired_def transaction_def requireState_error)

lemma store_inv_fail:
  assumes "store_inv s" shows "store_inv (snd (fail x r now s))"
proof (cases "state_of s x = Some RESERVED")
  case True
  then obtain i where i: "selectInvocation s x = Some i" "inv_state i = RESERVED" by (auto simp: state_of_def)
  have "store_inv (log_step x (Some (inv_state i)) FAILED (Some r) now
      (set_row x (moved_to FAILED r now) (released s i now)))"
    using i(2) by (intro store_inv_released [OF assms i(1)]) simp
  then show ?thesis using fail_ok [OF assms i] i(2) by simp
next
  case False
  then show ?thesis using assms by (simp add: fail_error)
qed

lemma store_inv_markReconciliationRequired:
  assumes "store_inv s" shows "store_inv (snd (markReconciliationRequired x r now s))"
proof (cases "state_of s x = Some RESERVED")
  case True
  then obtain i where i: "selectInvocation s x = Some i" "inv_state i = RESERVED" by (auto simp: state_of_def)
  have "store_inv (log_step x (Some (inv_state i)) (inv_state (moved_to RECONCILIATION_REQUIRED r now i)) (Some r) now
      (set_row x (moved_to RECONCILIATION_REQUIRED r now) s))"
    using i(2) by (intro store_inv_row [OF assms i(1)])
      (simp_all add: row_ok_moved [OF store_inv_row_ok [OF assms i(1)]] held_amount_def spent_amount_def)
  then show ?thesis using markReconciliationRequired_ok [OF assms i] i(2) by simp
next
  case False
  then show ?thesis using assms by (simp add: markReconciliationRequired_error)
qed

definition with_attempt :: "PaymentAttempt \<Rightarrow> service_authorization signed option \<Rightarrow> int \<Rightarrow> invocation \<Rightarrow> invocation" where
  "with_attempt a sa now j =
     j \<lparr> inv_paymentAttempt := Some a, inv_serviceAuthorization := sa, inv_updatedAt := now \<rparr>"

lemma with_attempt_simps [simp]:
  "inv_id (with_attempt a sa n i) = inv_id i" "inv_key (with_attempt a sa n i) = inv_key i"
  "inv_state (with_attempt a sa n i) = inv_state i" "inv_amountAtomic (with_attempt a sa n i) = inv_amountAtomic i"
  "inv_paymentAttempt (with_attempt a sa n i) = Some a"
  by (simp_all add: with_attempt_def inv_key_def)

lemma row_ok_with_attempt: "row_ok i \<Longrightarrow> inv_state i \<noteq> DENIED \<Longrightarrow> row_ok (with_attempt a sa n i)"
  by (simp add: row_ok_def with_attempt_def invocation_check_def)

lemma recordPaymentAttempt_ok:
  assumes "store_inv s" "selectInvocation s x = Some i" "inv_state i = RESERVED" "inv_paymentAttempt i = None"
  shows "recordPaymentAttempt x a sa now s = (Inr (),
    log_step x (Some RESERVED) RESERVED (Some (''payment attempt '' @ at_payerSignature a)) now
      (set_row x (with_attempt a sa now) s))"
proof -
  have "row_ok (with_attempt a sa now i)"
    using assms(3) by (intro row_ok_with_attempt store_inv_row_ok [OF assms(1,2)]) simp
  then have "expectOneChange (update_invocations
      (\<lambda>j. inv_id j = x \<and> inv_state j = RESERVED \<and> inv_paymentAttempt j = None) (with_attempt a sa now) s)
      = Inr (set_row x (with_attempt a sa now) s)"
    using assms by (intro one_row [where i = i]) (simp_all add: store_inv_keys row_ok_check)
  moreover have "selectInvocation (set_row x (with_attempt a sa now) s) x = Some (with_attempt a sa now i)"
    using assms(2) by (simp add: selectInvocation_set_row)
  ultimately show ?thesis
    using assms by (simp add: recordPaymentAttempt_def transaction_def requireState_ok
        recordTransition_ok with_attempt_def [abs_def])
qed

lemma recordPaymentAttempt_error:
  "(\<forall>i. selectInvocation s x = Some i \<longrightarrow> inv_state i = RESERVED \<longrightarrow> inv_paymentAttempt i \<noteq> None) \<Longrightarrow>
     recordPaymentAttempt x a sa now s
       = (Inl (if state_of s x = None then InvocationMissing else InvalidStateTransition), s)"
  by (cases "state_of s x = Some RESERVED")
    (auto simp: recordPaymentAttempt_def transaction_def requireState_error requireState_ok state_of_def)

lemma store_inv_recordPaymentAttempt:
  assumes "store_inv s" shows "store_inv (snd (recordPaymentAttempt x a sa now s))"
proof (cases "\<exists>i. selectInvocation s x = Some i \<and> inv_state i = RESERVED \<and> inv_paymentAttempt i = None")
  case True
  then obtain i where i: "selectInvocation s x = Some i" "inv_state i = RESERVED" "inv_paymentAttempt i = None"
    by blast
  have "store_inv (log_step x (Some (inv_state i)) (inv_state (with_attempt a sa now i))
      (Some (''payment attempt '' @ at_payerSignature a)) now (set_row x (with_attempt a sa now) s))"
    using i(2) by (intro store_inv_row [OF assms i(1)])
      (simp_all add: row_ok_with_attempt [OF store_inv_row_ok [OF assms i(1)]] held_amount_def spent_amount_def)
  then show ?thesis using recordPaymentAttempt_ok [OF assms i] i(2) by simp
next
  case False
  then show ?thesis using assms by (subst recordPaymentAttempt_error) auto
qed

section \<open>Confirmation and reconciliation\<close>

definition confirmed_by :: "confirm_payment \<Rightarrow> int \<Rightarrow> invocation \<Rightarrow> invocation" where
  "confirmed_by p now j =
     j \<lparr> inv_state := CONFIRMED, inv_paymentTransactionId := Some (cp_transactionId p),
         inv_settlement := cp_settlement p, inv_result := cp_result p, inv_updatedAt := now \<rparr>"

definition reconciled_by :: "ConfirmedSettlement \<Rightarrow> string \<Rightarrow> int \<Rightarrow> invocation \<Rightarrow> invocation" where
  "reconciled_by st reason now j =
     j \<lparr> inv_state := CONFIRMED, inv_paymentTransactionId := Some (cs_transactionId st),
         inv_settlement := Some st, inv_stateReason := Some reason, inv_updatedAt := now \<rparr>"

lemma confirmed_by_simps [simp]:
  "inv_id (confirmed_by p n i) = inv_id i" "inv_key (confirmed_by p n i) = inv_key i"
  "inv_state (confirmed_by p n i) = CONFIRMED" "inv_amountAtomic (confirmed_by p n i) = inv_amountAtomic i"
  "inv_id (reconciled_by st r n i) = inv_id i" "inv_key (reconciled_by st r n i) = inv_key i"
  "inv_state (reconciled_by st r n i) = CONFIRMED" "inv_amountAtomic (reconciled_by st r n i) = inv_amountAtomic i"
  by (simp_all add: confirmed_by_def reconciled_by_def inv_key_def)

lemma row_ok_confirmed: "row_ok i \<Longrightarrow> row_ok (confirmed_by p n i)" "row_ok i \<Longrightarrow> row_ok (reconciled_by st r n i)"
  by (simp_all add: row_ok_def invocation_check_def confirmed_by_def reconciled_by_def)

lemma confirm_ok:
  assumes "store_inv s" "selectInvocation s x = Some i" "inv_state i = RESERVED"
  shows "confirm x p now s = (Inr (confirmed_by p now i),
    log_step x (Some RESERVED) CONFIRMED (Some (''payment '' @ cp_transactionId p)) now
      (set_row x (confirmed_by p now) (consumed s i now)))"
proof -
  have "expectOneChange (update_invocations (\<lambda>j. inv_id j = x \<and> inv_state j = RESERVED)
      (confirmed_by p now) (consumed s i now)) = Inr (set_row x (confirmed_by p now) (consumed s i now))"
    using assms row_ok_confirmed(1) [OF store_inv_row_ok [OF assms(1,2)]]
    by (intro one_row [where i = i]) (simp_all add: keys_ok_released store_inv_keys row_ok_check)
  moreover have "selectInvocation (set_row x (confirmed_by p now) (consumed s i now)) x = Some (confirmed_by p now i)"
    using assms(2) by (simp add: selectInvocation_set_row)
  ultimately show ?thesis
    using assms by (simp add: confirm_def transaction_def requireState_ok reservation_ends
        recordTransition_ok confirmed_by_def [abs_def])
qed

lemma confirm_error:
  "state_of s x \<noteq> Some RESERVED \<Longrightarrow>
     confirm x p now s = (Inl (if state_of s x = None then InvocationMissing else InvalidStateTransition), s)"
  by (simp add: confirm_def transaction_def requireState_error)

lemma store_inv_confirm:
  assumes "store_inv s" shows "store_inv (snd (confirm x p now s))"
proof (cases "state_of s x = Some RESERVED")
  case True
  then obtain i where i: "selectInvocation s x = Some i" "inv_state i = RESERVED" by (auto simp: state_of_def)
  have "store_inv (log_step x (Some (inv_state i)) CONFIRMED (Some (''payment '' @ cp_transactionId p)) now
      (set_row x (confirmed_by p now) (consumed s i now)))"
    using i(2) row_ok_confirmed(1) [OF store_inv_row_ok [OF assms i(1)]]
    by (intro store_inv_consumed [OF assms i(1)]) simp_all
  then show ?thesis using confirm_ok [OF assms i] i(2) by simp
next
  case False
  then show ?thesis using assms by (simp add: confirm_error)
qed

lemma resolve_confirmed_ok:
  fixes st
  defines "why \<equiv> ''reconciled: settled in '' @ cs_transactionId st"
  assumes "store_inv s" "selectInvocation s x = Some i" "inv_state i = RECONCILIATION_REQUIRED"
  shows "resolveReconciliation x (OutcomeConfirmed st) now s = (Inr (reconciled_by st why now i),
    log_step x (Some RECONCILIATION_REQUIRED) CONFIRMED (Some why) now
      (set_row x (reconciled_by st why now) (consumed s i now)))"
proof -
  have "expectOneChange (update_invocations (\<lambda>j. inv_id j = x \<and> inv_state j = RECONCILIATION_REQUIRED)
      (reconciled_by st why now) (consumed s i now)) = Inr (set_row x (reconciled_by st why now) (consumed s i now))"
    using assms row_ok_confirmed(2) [OF store_inv_row_ok [OF assms(2,3)]]
    by (intro one_row [where i = i]) (simp_all add: keys_ok_released store_inv_keys row_ok_check)
  moreover have "selectInvocation (set_row x (reconciled_by st why now) (consumed s i now)) x
      = Some (reconciled_by st why now i)"
    using assms(3) by (simp add: selectInvocation_set_row)
  ultimately show ?thesis
    using assms by (simp add: resolveReconciliation_def transaction_def requireState_ok reservation_ends
        recordTransition_ok reconciled_by_def [abs_def] Let_def)
qed

lemma resolve_failed_ok:
  assumes "store_inv s" "selectInvocation s x = Some i" "inv_state i = RECONCILIATION_REQUIRED"
  shows "resolveReconciliation x (OutcomeFailed r) now s =
    (Inr (moved_to FAILED (''reconciled: '' @ r) now i),
     log_step x (Some RECONCILIATION_REQUIRED) FAILED (Some (''reconciled: '' @ r)) now
      (set_row x (moved_to FAILED (''reconciled: '' @ r) now) (released s i now)))"
proof -
  let ?m = "moved_to FAILED (''reconciled: '' @ r) now"
  have ok: "row_ok (?m i)"
    using assms(3) by (intro row_ok_moved [OF store_inv_row_ok [OF assms(1,2)]]) simp_all
  have "transitionState x RECONCILIATION_REQUIRED FAILED (''reconciled: '' @ r) now (released s i now)
      = Inr (log_step x (Some RECONCILIATION_REQUIRED) FAILED (Some (''reconciled: '' @ r)) now
          (set_row x ?m (released s i now)))"
    using assms ok by (intro transitionState_ok [where i = i]) (simp_all add: keys_ok_released store_inv_keys)
  moreover have "selectInvocation (set_row x ?m (released s i now)) x = Some (?m i)"
    using assms(2) by (simp add: selectInvocation_set_row)
  ultimately show ?thesis
    using assms by (simp add: resolveReconciliation_def transaction_def requireState_ok reservation_ends)
qed

lemma resolveReconciliation_error:
  "state_of s x \<noteq> Some RECONCILIATION_REQUIRED \<Longrightarrow> resolveReconciliation x out now s
     = (Inl (if state_of s x = None then InvocationMissing else InvalidStateTransition), s)"
  by (simp add: resolveReconciliation_def transaction_def requireState_error)

lemma store_inv_resolveReconciliation:
  assumes "store_inv s" shows "store_inv (snd (resolveReconciliation x out now s))"
proof (cases "state_of s x = Some RECONCILIATION_REQUIRED")
  case True
  then obtain i where i: "selectInvocation s x = Some i" "inv_state i = RECONCILIATION_REQUIRED"
    by (auto simp: state_of_def)
  show ?thesis
  proof (cases out)
    case (OutcomeConfirmed st)
    let ?why = "''reconciled: settled in '' @ cs_transactionId st"
    have "store_inv (log_step x (Some (inv_state i)) CONFIRMED (Some ?why) now
        (set_row x (reconciled_by st ?why now) (consumed s i now)))"
      using i(2) row_ok_confirmed(2) [OF store_inv_row_ok [OF assms i(1)]]
      by (intro store_inv_consumed [OF assms i(1)]) simp_all
    then show ?thesis using resolve_confirmed_ok [OF assms i] i(2) OutcomeConfirmed by simp
  next
    case (OutcomeFailed r)
    have "store_inv (log_step x (Some (inv_state i)) FAILED (Some (''reconciled: '' @ r)) now
        (set_row x (moved_to FAILED (''reconciled: '' @ r) now) (released s i now)))"
      using i(2) by (intro store_inv_released [OF assms i(1)]) simp
    then show ?thesis using resolve_failed_ok [OF assms i] i(2) OutcomeFailed by simp
  qed
next
  case False
  then show ?thesis using assms by (simp add: resolveReconciliation_error)
qed

section \<open>Receipts\<close>

definition with_receipt :: "signed_receipt \<Rightarrow> int \<Rightarrow> invocation \<Rightarrow> invocation" where
  "with_receipt r now i = i \<lparr> inv_receipt := Some r, inv_updatedAt := now \<rparr>"

lemma with_receipt_simps [simp]:
  "inv_id (with_receipt r n i) = inv_id i" "inv_key (with_receipt r n i) = inv_key i"
  "inv_state (with_receipt r n i) = inv_state i" "inv_amountAtomic (with_receipt r n i) = inv_amountAtomic i"
  "inv_receipt (with_receipt r n i) = Some r"
  by (simp_all add: with_receipt_def inv_key_def)

lemma attachReceipt_new:
  assumes "store_inv s" "selectInvocation s x = Some i" "inv_state i \<in> {DENIED, CONFIRMED}" "inv_receipt i = None"
  shows "attachReceipt x r now s = (Inr r, set_row x (with_receipt r now) s)"
proof -
  have "invocation_check (with_receipt r now i)"
    using row_ok_check [OF store_inv_row_ok [OF assms(1,2)]] by (simp add: invocation_check_def with_receipt_def)
  moreover have "distinct (map inv_id (st_invocations s))"
    using assms(1) by (simp add: store_inv_def keys_ok_def)
  ultimately have "update_invocations (\<lambda>j. inv_id j = x \<and> inv_receipt j = None \<and> inv_state j \<in> {DENIED, CONFIRMED})
      (with_receipt r now) s = Inr (1, set_row x (with_receipt r now) s)"
    using update_one_row [where f = "with_receipt r now" and s = s and x = x and i = i
        and Q = "\<lambda>j. inv_receipt j = None \<and> inv_state j \<in> {DENIED, CONFIRMED}"] assms(2-4)
    by (simp add: set_row_def)
  moreover have "selectInvocation (set_row x (with_receipt r now) s) x = Some (with_receipt r now i)"
    using assms(2) by (simp add: selectInvocation_set_row)
  ultimately show ?thesis
    by (simp add: attachReceipt_def transaction_def with_receipt_def [abs_def])
qed

lemma update_no_row:
  "\<forall>j \<in> set (st_invocations s). \<not> P j \<Longrightarrow> update_invocations P f s = Inr (0, s)"
proof -
  assume "\<forall>j \<in> set (st_invocations s). \<not> P j"
  then have "filter P (st_invocations s) = []" "map (\<lambda>i. if P i then f i else i) (st_invocations s) = st_invocations s"
    by (auto simp: filter_empty_conv intro: map_idI)
  then show ?thesis by (simp add: update_invocations_def)
qed

text \<open>The first receipt wins: a later one is dropped and the stored one returned.\<close>

lemma attachReceipt_other:
  assumes "store_inv s"
    and "\<forall>i. selectInvocation s x = Some i \<longrightarrow> inv_state i \<in> {DENIED, CONFIRMED} \<longrightarrow> inv_receipt i \<noteq> None"
  shows "attachReceipt x r now s = (case selectInvocation s x of
      None \<Rightarrow> (Inl InvocationMissing, s)
    | Some i \<Rightarrow> (case inv_receipt i of None \<Rightarrow> (Inl InvalidStateTransition, s) | Some r' \<Rightarrow> (Inr r', s)))"
proof -
  have "distinct (map inv_id (st_invocations s))" using assms(1) by (simp add: store_inv_def keys_ok_def)
  then have "\<forall>j \<in> set (st_invocations s).
      \<not> (inv_id j = x \<and> inv_receipt j = None \<and> inv_state j \<in> {DENIED, CONFIRMED})"
    using assms(2) selectInvocation_eq by blast
  from update_no_row [where P = "\<lambda>j. inv_id j = x \<and> inv_receipt j = None \<and> inv_state j \<in> {DENIED, CONFIRMED}", OF this]
  show ?thesis
    by (auto simp: attachReceipt_def transaction_def requireInvocation_def split: option.splits)
qed

text \<open>A change that touches neither state, amount, key nor receipt rules keeps the invariant unlogged.\<close>

lemma store_inv_unlogged:
  assumes inv: "store_inv s" and i: "selectInvocation s x = Some i"
    and f: "\<And>j. inv_id (f j) = inv_id j" "\<And>j. inv_key (f j) = inv_key j" "row_ok (f i)"
      "\<And>j. inv_state (f j) = inv_state j" "inv_amountAtomic (f i) = inv_amountAtomic i"
  shows "store_inv (set_row x f s)"
proof -
  have row: "i \<in> set (st_invocations s)" "inv_id i = x" using i by (auto dest: selectInvocation_Some)
  have k: "keys_ok s" and d: "distinct (map inv_id (st_invocations s))"
    using inv by (auto simp: store_inv_def keys_ok_def)
  have "state_of (set_row x f s) y = state_of s y" for y
    using i f(1,4) by (simp add: state_of_def selectInvocation_set_row)
  then have "history_ok (set_row x f s)"
    using inv by (simp add: history_ok_def history_def store_inv_def)
  moreover have "\<forall>j \<in> set (row_update x f (st_invocations s)). row_ok j"
    using inv d row f(3) by (intro rows_ok_update) (simp_all add: store_inv_def)
  moreover have "\<forall>g \<in> set (st_grants s). grant_ok (row_update x f (st_invocations s)) g"
    using inv f(4,5) by (intro grants_ok_row [where f = f, OF k i f(2)])
      (simp_all add: store_inv_def held_amount_def spent_amount_def)
  ultimately show ?thesis using keys_ok_moves [OF k f(1,2)] by (simp add: store_inv_def)
qed

lemma row_ok_with_receipt: "row_ok i \<Longrightarrow> inv_state i \<in> {DENIED, CONFIRMED} \<Longrightarrow> row_ok (with_receipt r n i)"
  by (auto simp: row_ok_def invocation_check_def with_receipt_def)

lemma store_inv_attachReceipt:
  assumes "store_inv s" shows "store_inv (snd (attachReceipt x r now s))"
proof (cases "\<exists>i. selectInvocation s x = Some i \<and> inv_state i \<in> {DENIED, CONFIRMED} \<and> inv_receipt i = None")
  case True
  then obtain i where i: "selectInvocation s x = Some i" "inv_state i \<in> {DENIED, CONFIRMED}" "inv_receipt i = None"
    by blast
  have "store_inv (set_row x (with_receipt r now) s)"
    using row_ok_with_receipt [OF store_inv_row_ok [OF assms i(1)] i(2)]
    by (intro store_inv_unlogged [OF assms i(1)]) simp_all
  then show ?thesis using attachReceipt_new [OF assms i] by simp
next
  case False
  then have "snd (attachReceipt x r now s) = s"
    by (subst attachReceipt_other [OF assms]) (auto split: option.splits)
  with assms show ?thesis by simp
qed

end
