(* ===== verification/Authority_Store_Reserve.thy ===== *)
theory Authority_Store_Reserve
  imports Authority_Store_Ops
begin

text \<open>
  Reservation, startup recovery, and the store seen as a sequence of operations.  \<open>reserve\<close> keeps
  the invariant provided that a retried FAILED invocation names the grant it was recorded with (its
  fingerprint covers the grant id and the permit digest); recovery empties the RESERVED state.
\<close>

section \<open>Reservation\<close>

definition input_key :: "reserve_input \<Rightarrow> string \<times> string" where
  "input_key input = (gt_issuer (ri_grant input), gt_grantId (ri_grant input))"

definition retry_same_grant :: "store \<Rightarrow> reserve_input \<Rightarrow> bool" where
  "retry_same_grant s input \<longleftrightarrow>
     (case selectInvocation s (ri_invocationId input) of
        None \<Rightarrow> True
      | Some i \<Rightarrow> inv_state i = FAILED \<longrightarrow> inv_fingerprint i = ri_fingerprint input
          \<longrightarrow> inv_key i = input_key input)"

definition new_row :: "reserve_input \<Rightarrow> inv_state \<Rightarrow> string list \<Rightarrow> int \<Rightarrow> invocation" where
  "new_row input state reasonCodes now =
     \<lparr> inv_id = ri_invocationId input, inv_fingerprint = ri_fingerprint input,
       inv_issuer = gt_issuer (ri_grant input), inv_grantId = gt_grantId (ri_grant input),
       inv_agent = ri_agent input, inv_request = StoredV2 (ri_request input),
       inv_amountAtomic = ri_amountAtomic input, inv_state = state,
       inv_reasonCodes = reasonCodes, inv_paymentTransactionId = None,
       inv_paymentRequirement = ri_paymentRequirement input, inv_paymentAttempt = None,
       inv_settlement = None, inv_result = None, inv_receipt = None,
       inv_authorization = ri_authorization input, inv_serviceAuthorization = None,
       inv_stateReason = None, inv_decidedAt = ri_decidedAt input,
       inv_createdAt = now, inv_updatedAt = now \<rparr>"

definition redecided :: "reserve_input \<Rightarrow> inv_state \<Rightarrow> string list \<Rightarrow> int \<Rightarrow> invocation \<Rightarrow> invocation" where
  "redecided input state reasonCodes now i =
     i \<lparr> inv_state := state, inv_reasonCodes := reasonCodes,
         inv_request := StoredV2 (ri_request input), inv_amountAtomic := ri_amountAtomic input,
         inv_paymentRequirement := ri_paymentRequirement input,
         inv_authorization := ri_authorization input, inv_paymentAttempt := None,
         inv_serviceAuthorization := None, inv_settlement := None, inv_result := None,
         inv_paymentTransactionId := None, inv_decidedAt := ri_decidedAt input,
         inv_stateReason := None, inv_updatedAt := now \<rparr>"

lemma new_row_simps [simp]:
  "inv_id (new_row p t c n) = ri_invocationId p" "inv_key (new_row p t c n) = input_key p"
  "inv_state (new_row p t c n) = t" "inv_amountAtomic (new_row p t c n) = ri_amountAtomic p"
  "inv_issuer (new_row p t c n) = gt_issuer (ri_grant p)" "inv_grantId (new_row p t c n) = gt_grantId (ri_grant p)"
  "inv_fingerprint (new_row p t c n) = ri_fingerprint p" "inv_paymentAttempt (new_row p t c n) = None"
  by (simp_all add: new_row_def inv_key_def input_key_def)

lemma redecided_simps [simp]:
  "inv_id (redecided p t c n i) = inv_id i" "inv_key (redecided p t c n i) = inv_key i"
  "inv_state (redecided p t c n i) = t" "inv_amountAtomic (redecided p t c n i) = ri_amountAtomic p"
  "inv_fingerprint (redecided p t c n i) = inv_fingerprint i" "inv_paymentAttempt (redecided p t c n i) = None"
  by (simp_all add: redecided_def inv_key_def)

lemma row_ok_new: "atomicCheck (ri_amountAtomic p) \<Longrightarrow> t \<in> {RESERVED, DENIED} \<Longrightarrow> row_ok (new_row p t c n)"
  by (auto simp: row_ok_def invocation_check_def new_row_def)

lemma row_ok_redecided:
  "row_ok i \<Longrightarrow> inv_state i = FAILED \<Longrightarrow> atomicCheck (ri_amountAtomic p) \<Longrightarrow> t \<in> {RESERVED, DENIED}
     \<Longrightarrow> row_ok (redecided p t c n i)"
  by (auto simp: row_ok_def invocation_check_def redecided_def)

text \<open>The store after a decision, in the two cases.\<close>

definition decided :: "reserve_input \<Rightarrow> invocation option \<Rightarrow> inv_state \<Rightarrow> string list \<Rightarrow> int \<Rightarrow> store \<Rightarrow> store" where
  "decided p existing t codes now s =
     (case existing of
        None \<Rightarrow> log_step (ri_invocationId p) None t (joined_codes codes) now
          (s \<lparr> st_invocations := st_invocations s @ [new_row p t codes now] \<rparr>)
      | Some i \<Rightarrow> log_step (ri_invocationId p) (Some (inv_state i)) t (joined_codes codes) now
          (set_row (ri_invocationId p) (redecided p t codes now) s))"

definition retry_or_new :: "store \<Rightarrow> reserve_input \<Rightarrow> invocation option \<Rightarrow> bool" where
  "retry_or_new s p existing \<longleftrightarrow>
     selectInvocation s (ri_invocationId p) = existing
     \<and> (\<forall>i. existing = Some i \<longrightarrow> inv_state i = FAILED)"

lemma selectInvocation_append:
  "selectInvocation (s \<lparr> st_invocations := st_invocations s @ [i] \<rparr>) y
     = (case selectInvocation s y of None \<Rightarrow> if inv_id i = y then Some i else None | Some j \<Rightarrow> Some j)"
  by (simp add: selectInvocation_def find_append split: option.split)

lemma selectInvocation_decided:
  assumes "retry_or_new s p existing"
  shows "selectInvocation (decided p existing t codes now s) y =
    (if y = ri_invocationId p
     then Some (case existing of None \<Rightarrow> new_row p t codes now | Some i \<Rightarrow> redecided p t codes now i)
     else selectInvocation s y)"
proof (cases existing)
  case None
  with assms show ?thesis
    by (auto simp: decided_def retry_or_new_def selectInvocation_append split: option.splits)
next
  case (Some i)
  with assms show ?thesis
    by (simp add: decided_def retry_or_new_def selectInvocation_set_row)
qed

lemma writeDecision_Inr:
  assumes "keys_ok s" "retry_or_new s p existing"
    and "writeDecision p existing t codes now s = Inr s'"
  shows "s' = decided p existing t codes now s \<and> (t \<noteq> CONFIRMED \<longrightarrow> atomicCheck (ri_amountAtomic p))"
proof (cases existing)
  case None
  with assms(3) obtain s1 where s1: "insertInvocation (new_row p t codes now) s = Inr s1"
    and tr: "recordTransition (ri_invocationId p) None t (joined_codes codes) now s1 = Inr s'"
    by (auto simp: writeDecision_def sbind_Inr_iff new_row_def)
  from s1 have "s1 = s \<lparr> st_invocations := st_invocations s @ [new_row p t codes now] \<rparr>"
    and "invocation_check (new_row p t codes now)"
    by (auto simp: insertInvocation_def split: if_splits)
  with tr None show ?thesis
    by (auto simp: decided_def recordTransition_def log_step_def invocation_check_def split: if_splits)
next
  case (Some i)
  with assms(2) have i: "selectInvocation s (ri_invocationId p) = Some i" "inv_state i = FAILED"
    by (auto simp: retry_or_new_def)
  have d: "distinct (map inv_id (st_invocations s))" using assms(1) by (simp add: keys_ok_def)
  note upd = update_one_row [where Q = "\<lambda>j. inv_state j = FAILED" and f = "redecided p t codes now", OF d i(1) i(2)]
  from assms(3) Some obtain s1 where
    s1: "expectOneChange (update_invocations (\<lambda>j. inv_id j = ri_invocationId p \<and> inv_state j = FAILED)
      (redecided p t codes now) s) = Inr s1"
    and tr: "recordTransition (ri_invocationId p) (Some (inv_state i)) t (joined_codes codes) now s1 = Inr s'"
    by (auto simp: writeDecision_def sbind_Inr_iff redecided_def [abs_def])
  from s1 upd have "s1 = set_row (ri_invocationId p) (redecided p t codes now) s"
    and "invocation_check (redecided p t codes now i)"
    by (auto simp: expectOneChange_def set_row_def split: if_splits)
  with tr Some show ?thesis
    by (auto simp: decided_def recordTransition_def log_step_def invocation_check_def split: if_splits)
qed

lemma store_inv_decided_denied:
  assumes inv: "store_inv s" and ex: "retry_or_new s p existing"
    and g: "selectGrant s (gt_issuer (ri_grant p)) (gt_grantId (ri_grant p)) = Some g"
    and a: "atomicCheck (ri_amountAtomic p)"
  shows "store_inv (decided p existing DENIED codes now s)"
proof (cases existing)
  case None
  have gk: "g \<in> set (st_grants s)" "gr_key g = input_key p"
    using g by (auto dest: selectGrant_Some simp: input_key_def)
  have ok: "grant_ok (st_invocations s) g" using inv gk(1) by (simp add: store_inv_def)
  have "store_inv (log_step (inv_id (new_row p DENIED codes now)) None (inv_state (new_row p DENIED codes now))
      (joined_codes codes) now (s \<lparr> st_grants := st_grants s,
         st_invocations := st_invocations s @ [new_row p DENIED codes now] \<rparr>))"
    using ex None a gk ok
    by (intro store_inv_add_row [OF inv _ gk(1), where r = "dec (gr_reservedAtomic g)" and now = 0])
      (auto simp: retry_or_new_def row_ok_new held_amount_def grant_ok_def)
  with None show ?thesis by (simp add: decided_def)
next
  case (Some i)
  with ex have i: "selectInvocation s (ri_invocationId p) = Some i" "inv_state i = FAILED"
    by (auto simp: retry_or_new_def)
  have "store_inv (log_step (ri_invocationId p) (Some (inv_state i)) (inv_state (redecided p DENIED codes now i))
      (joined_codes codes) now (set_row (ri_invocationId p) (redecided p DENIED codes now) s))"
    using i(2) a store_inv_row_ok [OF inv i(1)]
    by (intro store_inv_row [OF inv i(1)]) (simp_all add: row_ok_redecided held_amount_def spent_amount_def)
  with Some i show ?thesis by (simp add: decided_def)
qed

lemma store_inv_decided_reserved:
  assumes inv: "store_inv s" and ex: "retry_or_new s p existing"
    and g: "selectGrant s (gt_issuer (ri_grant p)) (gt_grantId (ri_grant p)) = Some g"
    and key: "\<And>i. existing = Some i \<Longrightarrow> inv_key i = input_key p"
    and a: "atomicCheck (ri_amountAtomic p)"
    and bound: "dec (gr_reservedAtomic g) + dec (ri_amountAtomic p) + dec (gr_consumedAtomic g)
      \<le> dec (gr_maxTotalAtomic g)"
  shows "store_inv (decided p existing RESERVED codes now
    (set_amounts (input_key p) (show_nat (dec (gr_reservedAtomic g) + dec (ri_amountAtomic p)))
       (gr_consumedAtomic g) n s))"
proof -
  have gk: "g \<in> set (st_grants s)" "gr_key g = input_key p"
    using g by (auto dest: selectGrant_Some simp: input_key_def)
  have ok: "grant_ok (st_invocations s) g" using inv gk(1) by (simp add: store_inv_def)
  have dg: "distinct (map gr_key (st_grants s))" using inv by (simp add: store_inv_def keys_ok_def)
  let ?r = "dec (gr_reservedAtomic g) + dec (ri_amountAtomic p)"
  let ?s = "set_amounts (input_key p) (show_nat ?r) (gr_consumedAtomic g) n s"
  show ?thesis
  proof (cases existing)
    case None
    have "store_inv (log_step (inv_id (new_row p RESERVED codes now)) None (inv_state (new_row p RESERVED codes now))
        (joined_codes codes) now (s \<lparr> st_grants := st_grants ?s,
           st_invocations := st_invocations s @ [new_row p RESERVED codes now] \<rparr>))"
    proof (rule store_inv_add_row [OF inv _ gk(1), where r = ?r and now = n])
      show "map gr_key (st_grants ?s) = map gr_key (st_grants s)" by (rule grant_key_set_amounts)
      fix h' assume "h' \<in> set (st_grants ?s)"
      then obtain h where h: "h \<in> set (st_grants s)" "h' = (if gr_key h = input_key p
          then h \<lparr> gr_reservedAtomic := show_nat ?r, gr_consumedAtomic := gr_consumedAtomic g, gr_updatedAt := n \<rparr>
          else h)"
        by (auto simp: set_amounts_def)
      show "\<exists>h \<in> set (st_grants s). h' = h \<and> (gr_key h = inv_key (new_row p RESERVED codes now)
            \<longrightarrow> held_amount (new_row p RESERVED codes now) = 0)
          \<or> gr_key h = inv_key (new_row p RESERVED codes now)
            \<and> h' = h \<lparr> gr_reservedAtomic := show_nat ?r, gr_updatedAt := n \<rparr>"
      proof (rule bexI [OF _ h(1)], cases "gr_key h = input_key p")
        case True
        with gk h(1) dg have "h = g" by (metis distinct_grant_eq)
        with True h(2) show "h' = h \<and> (gr_key h = inv_key (new_row p RESERVED codes now)
            \<longrightarrow> held_amount (new_row p RESERVED codes now) = 0)
          \<or> gr_key h = inv_key (new_row p RESERVED codes now)
            \<and> h' = h \<lparr> gr_reservedAtomic := show_nat ?r, gr_updatedAt := n \<rparr>"
          by simp
      next
        case False
        with h(2) show "h' = h \<and> (gr_key h = inv_key (new_row p RESERVED codes now)
            \<longrightarrow> held_amount (new_row p RESERVED codes now) = 0)
          \<or> gr_key h = inv_key (new_row p RESERVED codes now)
            \<and> h' = h \<lparr> gr_reservedAtomic := show_nat ?r, gr_updatedAt := n \<rparr>"
          by simp
      qed
    qed (use ex None a gk bound in \<open>auto simp: retry_or_new_def row_ok_new held_amount_def\<close>)
    moreover have "s \<lparr> st_grants := st_grants ?s,
           st_invocations := st_invocations s @ [new_row p RESERVED codes now] \<rparr>
        = ?s \<lparr> st_invocations := st_invocations ?s @ [new_row p RESERVED codes now] \<rparr>"
      by (simp add: set_amounts_def)
    ultimately show ?thesis using None by (simp add: decided_def)
  next
    case (Some i)
    with ex have i: "selectInvocation s (ri_invocationId p) = Some i" "inv_state i = FAILED"
      by (auto simp: retry_or_new_def)
    have k: "inv_key i = input_key p" using key Some by blast
    have canon: "show_nat (dec (gr_consumedAtomic g)) = gr_consumedAtomic g"
      using grant_ok_bounds [OF ok] by (simp add: show_nat_dec)
    have "store_inv (log_step (ri_invocationId p) (Some (inv_state i)) (inv_state (redecided p RESERVED codes now i))
        (joined_codes codes) now (set_row (ri_invocationId p) (redecided p RESERVED codes now)
          (set_amounts (inv_key i) (show_nat ?r) (show_nat (dec (gr_consumedAtomic g))) n s)))"
      using i(2) a gk k bound store_inv_row_ok [OF inv i(1)]
      by (intro store_inv_row_amounts [OF inv i(1) gk(1)])
        (simp_all add: row_ok_redecided held_amount_def spent_amount_def)
    with Some i k canon show ?thesis by (simp add: decided_def)
  qed
qed

text \<open>The grant a reservation works on, and the store with it.\<close>

lemma reserve_grant_Inr:
  assumes inv: "store_inv s" and "reserve_grant p now s = Inr (g, s1)"
  shows "store_inv s1" "selectGrant s1 (gt_issuer (ri_grant p)) (gt_grantId (ri_grant p)) = Some g"
    "st_invocations s1 = st_invocations s"
    "\<And>y. selectInvocation s1 y = selectInvocation s y"
    "selectGrant s (gt_issuer (ri_grant p)) (gt_grantId (ri_grant p)) = Some g \<Longrightarrow> s1 = s"
proof -
  let ?a = "gt_issuer (ri_grant p)" and ?b = "gt_grantId (ri_grant p)"
  have "store_inv s1 \<and> selectGrant s1 ?a ?b = Some g \<and> st_invocations s1 = st_invocations s
      \<and> (selectGrant s ?a ?b = Some g \<longrightarrow> s1 = s)"
  proof (cases "selectGrant s ?a ?b")
    case (Some h)
    with assms show ?thesis by (simp add: reserve_grant_def Let_def)
  next
    case None
    define n where "n = \<lparr> gr_issuer = ?a, gr_grantId = ?b, gr_permitDigest = gt_permitDigest (ri_grant p),
                 gr_maxTotalAtomic = gt_maxTotalAtomic (ri_grant p),
                 gr_reservedAtomic = ''0'', gr_consumedAtomic = ''0'',
                 gr_createdAt = now, gr_updatedAt = now \<rparr>"
    from assms(2) None have ins: "insertGrant n s = Inr s1" and req: "requireGrant s1 ?a ?b = Inr g"
      by (auto simp: reserve_grant_def Let_def sbind_Inr_iff n_def)
    from ins have s1: "s1 = s \<lparr> st_grants := st_grants s @ [n] \<rparr>" and chk: "grant_check n"
      by (auto simp: insertGrant_def split: if_splits)
    have "gr_key n \<notin> gr_key ` set (st_grants s)"
      using None unfolding selectGrant_None by (simp add: n_def gr_key_def)
    then have "store_inv s1"
      unfolding s1 using chk by (intro store_inv_add_grant [OF inv])
        (simp_all add: n_def grant_check_def atomicCheck_iff)
    with None req s1 show ?thesis by (auto simp: requireGrant_def split: option.splits)
  qed
  then show "store_inv s1" "selectGrant s1 ?a ?b = Some g" "st_invocations s1 = st_invocations s"
    "selectGrant s ?a ?b = Some g \<Longrightarrow> s1 = s"
    by blast+
  then show "selectInvocation s1 y = selectInvocation s y" for y by (simp add: selectInvocation_def)
qed

lemma reserve_decide_Inr:
  assumes inv: "store_inv s" and ex: "retry_or_new s p existing"
    and g: "selectGrant s (gt_issuer (ri_grant p)) (gt_grantId (ri_grant p)) = Some g"
    and key: "\<And>i. existing = Some i \<Longrightarrow> inv_key i = input_key p"
    and ok: "reserve_decide p evaluate existing now g s = Inr (res, s')"
  shows "store_inv s' \<and>
    (case evaluate (show_nat (dec (gr_reservedAtomic g) + dec (gr_consumedAtomic g))) of
       BudgetDenied codes \<Rightarrow> s' = decided p existing DENIED codes now s
         \<and> (\<exists>i. selectInvocation s' (ri_invocationId p) = Some i \<and> res = ReserveDenied i)
     | BudgetAllowed \<Rightarrow>
         0 < dec (ri_amountAtomic p)
         \<and> dec (gr_reservedAtomic g) + dec (gr_consumedAtomic g) + dec (ri_amountAtomic p) \<le> dec (gr_maxTotalAtomic g)
         \<and> s' = decided p existing RESERVED [] now (set_amounts (input_key p)
             (show_nat (dec (gr_reservedAtomic g) + dec (ri_amountAtomic p))) (gr_consumedAtomic g) now s)
         \<and> (\<exists>i. selectInvocation s' (ri_invocationId p) = Some i \<and> res = ReserveReserved i))"
proof -
  let ?r = "dec (gr_reservedAtomic g) + dec (ri_amountAtomic p)"
  let ?s = "set_amounts (input_key p) (show_nat ?r) (gr_consumedAtomic g) now s"
  have gk: "g \<in> set (st_grants s)" "gr_key g = input_key p"
    using g by (auto dest: selectGrant_Some simp: input_key_def)
  have gok: "grant_ok (st_invocations s) g" using inv gk(1) by (simp add: store_inv_def)
  show ?thesis
  proof (cases "evaluate (show_nat (dec (gr_reservedAtomic g) + dec (gr_consumedAtomic g)))")
    case (BudgetDenied codes)
    with ok obtain i where w: "writeDecision p existing DENIED codes now s = Inr s'"
      and i: "selectInvocation s' (ri_invocationId p) = Some i" "res = ReserveDenied i"
      by (auto simp: reserve_decide_def Let_def sbind_Inr_iff requireInvocation_def split: option.splits)
    from writeDecision_Inr [OF store_inv_keys [OF inv] ex w]
    have "s' = decided p existing DENIED codes now s" "atomicCheck (ri_amountAtomic p)" by simp_all
    with store_inv_decided_denied [OF inv ex g] i BudgetDenied show ?thesis by auto
  next
    case BudgetAllowed
    from ok BudgetAllowed obtain s1 i where
      b: "0 < dec (ri_amountAtomic p)" "?r + dec (gr_consumedAtomic g) \<le> dec (gr_maxTotalAtomic g)"
      and u: "updateGrantAmounts (show_nat ?r) (gr_consumedAtomic g) now (gr_issuer g) (gr_grantId g) s = Inr s1"
      and w: "writeDecision p existing RESERVED [] now s1 = Inr s'"
      and i: "selectInvocation s' (ri_invocationId p) = Some i" "res = ReserveReserved i"
      by (auto simp: reserve_decide_def Let_def sbind_Inr_iff requireInvocation_def
          split: option.splits if_splits)
    have m: "atomic_pattern (gr_maxTotalAtomic g)" "atomic_pattern (gr_consumedAtomic g)"
      using grant_ok_bounds [OF gok] by blast+
    have "?r < 10 ^ 20" using b(2) dec_atomic_bound [OF m(1)] by linarith
    with u have s1: "s1 = ?s"
      using updateGrantAmounts_ok [OF store_inv_keys [OF inv] gk(1) _ m(1) _ m(2),
          of "gr_issuer g" "gr_grantId g" "show_nat ?r" now] gk(2) atomic_pattern_show_nat [of ?r]
      by (simp add: gr_key_def)
    have ex1: "retry_or_new ?s p existing" using ex by (simp add: retry_or_new_def)
    have w': "s' = decided p existing RESERVED [] now ?s" "atomicCheck (ri_amountAtomic p)"
      using writeDecision_Inr [OF keys_ok_set_amounts [OF store_inv_keys [OF inv]] ex1, of RESERVED "[]" now]
        w s1 by auto
    with store_inv_decided_reserved [OF inv ex g key] b i BudgetAllowed show ?thesis
      by (simp add: ac_simps)
  qed
qed

lemma reserve_cases:
  assumes inv: "store_inv s" and key: "retry_same_grant s p"
    and r: "reserve p evaluate now s = (Inr res, s')"
  obtains
    (existing) i where "selectInvocation s (ri_invocationId p) = Some i"
      "\<not> (inv_state i = FAILED \<and> inv_fingerprint i = ri_fingerprint p)" "res = ReserveExisting i" "s' = s"
  | (conflict) g where "res = ReserveGrantConflict g" "s' = s" "retry_or_new s p (selectInvocation s (ri_invocationId p))"
      "selectGrant s (gt_issuer (ri_grant p)) (gt_grantId (ri_grant p)) = Some g"
      "gr_permitDigest g \<noteq> gt_permitDigest (ri_grant p) \<or> gr_maxTotalAtomic g \<noteq> gt_maxTotalAtomic (ri_grant p)"
  | (decided) g s1 where "store_inv s1" "retry_or_new s1 p (selectInvocation s (ri_invocationId p))"
      "\<And>i. selectInvocation s (ri_invocationId p) = Some i \<Longrightarrow> inv_fingerprint i = ri_fingerprint p"
      "reserve_grant p now s = Inr (g, s1)"
      "selectGrant s1 (gt_issuer (ri_grant p)) (gt_grantId (ri_grant p)) = Some g"
      "gr_permitDigest g = gt_permitDigest (ri_grant p)" "gr_maxTotalAtomic g = gt_maxTotalAtomic (ri_grant p)"
      "\<And>i. selectInvocation s (ri_invocationId p) = Some i \<Longrightarrow> inv_key i = input_key p"
      "reserve_decide p evaluate (selectInvocation s (ri_invocationId p)) now g s1 = Inr (res, s')"
proof -
  let ?e = "selectInvocation s (ri_invocationId p)"
  show ?thesis
  proof (cases "\<exists>i. ?e = Some i \<and> \<not> (inv_state i = FAILED \<and> inv_fingerprint i = ri_fingerprint p)")
    case True
    with r existing show ?thesis
      by (auto simp: reserve_def transaction_def Let_def split: if_splits sum.splits)
  next
    case False
    then have none: "(if (case ?e of None \<Rightarrow> False
           | Some i \<Rightarrow> inv_state i = FAILED \<and> inv_fingerprint i = ri_fingerprint p) then None else ?e) = None"
      by (auto split: option.split)
    from r obtain g s1 where rg: "reserve_grant p now s = Inr (g, s1)"
      and rest: "(if gr_permitDigest g \<noteq> gt_permitDigest (ri_grant p)
                 \<or> gr_maxTotalAtomic g \<noteq> gt_maxTotalAtomic (ri_grant p)
              then Inr (ReserveGrantConflict g, s1)
              else reserve_decide p evaluate ?e now g s1) = Inr (res, s')"
      unfolding reserve_def transaction_def Let_def none
      by (auto simp: sbind_Inr_iff split: sum.splits)
    note rg' = reserve_grant_Inr [OF inv rg]
    have ex: "retry_or_new s p ?e" "retry_or_new s1 p ?e"
      using False rg'(4) by (auto simp: retry_or_new_def)
    show ?thesis
    proof (cases "gr_permitDigest g \<noteq> gt_permitDigest (ri_grant p)
                 \<or> gr_maxTotalAtomic g \<noteq> gt_maxTotalAtomic (ri_grant p)")
      case True
      have "selectGrant s (gt_issuer (ri_grant p)) (gt_grantId (ri_grant p)) = Some g"
      proof (cases "selectGrant s (gt_issuer (ri_grant p)) (gt_grantId (ri_grant p))")
        case None
        with rg have "gr_permitDigest g = gt_permitDigest (ri_grant p)
            \<and> gr_maxTotalAtomic g = gt_maxTotalAtomic (ri_grant p)"
          by (auto simp: reserve_grant_def Let_def sbind_Inr_iff insertGrant_def requireGrant_def
              selectGrant_def find_append split: if_splits option.splits)
        with True show ?thesis by blast
      qed (use rg in \<open>simp add: reserve_grant_def Let_def\<close>)
      with True rest rg'(5) ex conflict show ?thesis by auto
    next
      case no: False
      show ?thesis
      proof (rule decided [OF rg'(1) ex(2) _ rg rg'(2)])
        show "inv_fingerprint i = ri_fingerprint p" if "?e = Some i" for i using False that by blast
        show "inv_key i = input_key p" if "?e = Some i" for i
          using key False that by (auto simp: retry_same_grant_def)
      qed (use no rest in simp_all)
    qed
  qed
qed

lemma reserve_Inl: "reserve p evaluate now s = (Inl e, s') \<Longrightarrow> s' = s"
  by (auto simp: reserve_def transaction_def split: sum.splits)

lemma store_inv_reserve:
  assumes "store_inv s" "retry_same_grant s p"
  shows "store_inv (snd (reserve p evaluate now s))"
proof -
  obtain r s' where r: "reserve p evaluate now s = (r, s')" by fastforce
  show ?thesis
  proof (cases r)
    case (Inl e)
    with r reserve_Inl assms show ?thesis by fastforce
  next
    case (Inr res)
    with r have "reserve p evaluate now s = (Inr res, s')" by simp
    from reserve_cases [OF assms this] reserve_decide_Inr r show ?thesis
      by (cases) (use assms in \<open>auto dest: reserve_decide_Inr\<close>)
  qed
qed

section \<open>Startup recovery\<close>

definition recovered :: "bool \<Rightarrow> inv_state" where
  "recovered has_attempt = (if has_attempt then RECONCILIATION_REQUIRED else FAILED)"

text \<open>What recovery keeps of a row and of a grant.\<close>

definition row_facts :: "invocation \<Rightarrow> (string \<times> string) \<times> string \<times> string \<times> PaymentAttempt option" where
  "row_facts i = (inv_key i, inv_fingerprint i, inv_amountAtomic i, inv_paymentAttempt i)"

definition pinned_terms :: "grant \<Rightarrow> string \<times> string" where
  "pinned_terms g = (gr_permitDigest g, gr_maxTotalAtomic g)"

lemma row_facts_moved [simp]: "row_facts (moved_to t r n i) = row_facts i"
  by (simp add: row_facts_def) (simp add: moved_to_def)

lemma find_map_same: "(\<And>g. P (f g) = P g) \<Longrightarrow> find P (map f gs) = map_option f (find P gs)"
  by (induction gs) auto

lemma pinned_set_amounts [simp]:
  "map_option pinned_terms (selectGrant (set_amounts k r c now s) a b) = map_option pinned_terms (selectGrant s a b)"
proof -
  have "selectGrant (set_amounts k r c now s) a b = map_option (\<lambda>g. if gr_key g = k
     then g \<lparr> gr_reservedAtomic := r, gr_consumedAtomic := c, gr_updatedAt := now \<rparr> else g) (selectGrant s a b)"
    unfolding selectGrant_def set_amounts_def by (simp add: find_map_same)
  then show ?thesis by (cases "selectGrant s a b") (simp_all add: pinned_terms_def)
qed

lemma selectGrant_set_row [simp]: "selectGrant (set_row x f s) a b = selectGrant s a b"
  by (simp add: selectGrant_def)

lemma recover_rows_ok:
  assumes "store_inv s" "distinct (map fst rows)"
    and "\<forall>(x, b) \<in> set rows. \<exists>i. selectInvocation s x = Some i \<and> inv_state i = RESERVED
          \<and> b = (inv_paymentAttempt i \<noteq> None)"
  shows "\<exists>s'. recover_rows reason now rows res s = Inr
      (\<lparr> rr_reconciliationRequired = rr_reconciliationRequired res @ map fst (filter snd rows),
         rr_releasedNeverSubmitted = rr_releasedNeverSubmitted res @ map fst (filter (\<lambda>r. \<not> snd r) rows) \<rparr>, s')
    \<and> store_inv s'
    \<and> (\<forall>y. state_of s' y = (case map_of rows y of Some b \<Rightarrow> Some (recovered b) | None \<Rightarrow> state_of s y))
    \<and> (\<forall>y. y \<notin> fst ` set rows \<longrightarrow> selectInvocation s' y = selectInvocation s y)
    \<and> (\<forall>y. map_option row_facts (selectInvocation s' y) = map_option row_facts (selectInvocation s y))
    \<and> (\<forall>a b. map_option pinned_terms (selectGrant s' a b) = map_option pinned_terms (selectGrant s a b))"
  using assms
proof (induction rows arbitrary: s res)
  case Nil
  then show ?case by simp
next
  case (Cons row rows)
  obtain x b where row: "row = (x, b)" by fastforce
  with Cons.prems(3) obtain i where i: "selectInvocation s x = Some i" "inv_state i = RESERVED"
    "b = (inv_paymentAttempt i \<noteq> None)" by auto
  define s1 where "s1 = (if b
    then log_step x (Some RESERVED) RECONCILIATION_REQUIRED (Some reason) now
      (set_row x (moved_to RECONCILIATION_REQUIRED reason now) s)
    else let r = reason @ ''; no payment attempt recorded, credential never transmitted'' in
      log_step x (Some RESERVED) FAILED (Some r) now (set_row x (moved_to FAILED r now) (released s i now)))"
  define res1 where "res1 = (if b
    then res \<lparr> rr_reconciliationRequired := rr_reconciliationRequired res @ [x] \<rparr>
    else res \<lparr> rr_releasedNeverSubmitted := rr_releasedNeverSubmitted res @ [x] \<rparr>)"
  have ok: "row_ok (moved_to t r now i)" if "t \<in> {FAILED, RECONCILIATION_REQUIRED}" for t r
    using i(2) that by (intro row_ok_moved [OF store_inv_row_ok [OF Cons.prems(1) i(1)]]) simp_all
  have step: "recover_rows reason now (row # rows) res s = recover_rows reason now rows res1 s1"
  proof (cases b)
    case True
    then show ?thesis
      using i ok row by (simp add: s1_def res1_def transitionState_ok store_inv_keys Cons.prems(1))
  next
    case False
    let ?r = "reason @ ''; no payment attempt recorded, credential never transmitted''"
    have "transitionState x RESERVED FAILED ?r now (released s i now)
        = Inr (log_step x (Some RESERVED) FAILED (Some ?r) now (set_row x (moved_to FAILED ?r now) (released s i now)))"
      using i ok by (intro transitionState_ok [where i = i])
        (simp_all add: keys_ok_released store_inv_keys Cons.prems(1))
    with False show ?thesis
      using i row reservation_ends(1) [OF Cons.prems(1) i(1)] by (simp add: s1_def res1_def Let_def)
  qed
  have inv1: "store_inv s1"
  proof (cases b)
    case True
    have "store_inv (log_step x (Some (inv_state i)) (inv_state (moved_to RECONCILIATION_REQUIRED reason now i))
        (Some reason) now (set_row x (moved_to RECONCILIATION_REQUIRED reason now) s))"
      using i(2) ok by (intro store_inv_row [OF Cons.prems(1) i(1)]) (simp_all add: held_amount_def spent_amount_def)
    with True i show ?thesis by (simp add: s1_def)
  next
    case False
    have "store_inv (log_step x (Some (inv_state i)) FAILED why now
        (set_row x (moved_to FAILED r now) (released s i now)))" for why r
      using i(2) by (intro store_inv_released [OF Cons.prems(1) i(1)]) simp
    with False i show ?thesis by (simp add: s1_def Let_def)
  qed
  have sel: "selectInvocation s1 y = selectInvocation s y" if "y \<noteq> x" for y
    using that by (simp add: s1_def Let_def selectInvocation_set_row)
  have facts: "map_option row_facts (selectInvocation s1 y) = map_option row_facts (selectInvocation s y)" for y
    using i(1) by (simp add: s1_def Let_def selectInvocation_set_row)
  have pins: "map_option pinned_terms (selectGrant s1 a c) = map_option pinned_terms (selectGrant s a c)" for a c
    by (simp add: s1_def Let_def released_def)
  have stx: "state_of s1 x = Some (recovered b)"
    using i by (simp add: s1_def Let_def state_of_def selectInvocation_set_row recovered_def)
  have "\<forall>(y, c) \<in> set rows. \<exists>i. selectInvocation s1 y = Some i \<and> inv_state i = RESERVED
          \<and> c = (inv_paymentAttempt i \<noteq> None)"
  proof (clarify)
    fix y c assume yc: "(y, c) \<in> set rows"
    then have "y \<noteq> x" using Cons.prems(2) row by (auto simp: rev_image_eqI)
    with sel yc Cons.prems(3) show "\<exists>i. selectInvocation s1 y = Some i \<and> inv_state i = RESERVED
          \<and> c = (inv_paymentAttempt i \<noteq> None)" by auto
  qed
  from Cons.IH [OF inv1 _ this, of res1] Cons.prems(2)
  obtain s' where s': "recover_rows reason now rows res1 s1 = Inr
      (\<lparr> rr_reconciliationRequired = rr_reconciliationRequired res1 @ map fst (filter snd rows),
         rr_releasedNeverSubmitted = rr_releasedNeverSubmitted res1 @ map fst (filter (\<lambda>r. \<not> snd r) rows) \<rparr>, s')"
    "store_inv s'"
    "\<forall>y. state_of s' y = (case map_of rows y of Some b \<Rightarrow> Some (recovered b) | None \<Rightarrow> state_of s1 y)"
    "\<forall>y. y \<notin> fst ` set rows \<longrightarrow> selectInvocation s' y = selectInvocation s1 y"
    "\<forall>y. map_option row_facts (selectInvocation s' y) = map_option row_facts (selectInvocation s1 y)"
    "\<forall>a b. map_option pinned_terms (selectGrant s' a b) = map_option pinned_terms (selectGrant s1 a b)"
    by auto
  have "state_of s' y = (case map_of (row # rows) y of Some b \<Rightarrow> Some (recovered b) | None \<Rightarrow> state_of s y)" for y
  proof (cases "y = x")
    case True
    then have "map_of rows y = None" using Cons.prems(2) row by (simp add: map_of_eq_None_iff)
    with s'(3) stx True row show ?thesis by simp
  next
    case False
    with s'(3) sel row show ?thesis by (auto simp: state_of_def split: option.split)
  qed
  with s' step row sel facts pins show ?case by (auto simp: res1_def)
qed

lemma selectReserved_rows:
  assumes "keys_ok s"
  shows "distinct (map fst (selectReserved s))"
    and "\<forall>(x, b) \<in> set (selectReserved s). \<exists>i. selectInvocation s x = Some i \<and> inv_state i = RESERVED
          \<and> b = (inv_paymentAttempt i \<noteq> None)"
    and "map_of (selectReserved s) y = (case selectInvocation s y of
           Some i \<Rightarrow> if inv_state i = RESERVED then Some (inv_paymentAttempt i \<noteq> None) else None | None \<Rightarrow> None)"
proof -
  have d: "distinct (map inv_id (st_invocations s))" using assms by (simp add: keys_ok_def)
  let ?r = "sort_key inv_createdAt (filter (\<lambda>i. inv_state i = RESERVED) (st_invocations s))"
  have inj: "inj_on inv_id (set (st_invocations s))" using d by (simp add: distinct_map)
  show dist: "distinct (map fst (selectReserved s))"
    using d inj by (auto simp: selectReserved_def comp_def distinct_map intro: inj_on_subset)
  show rows: "\<forall>(x, b) \<in> set (selectReserved s). \<exists>i. selectInvocation s x = Some i \<and> inv_state i = RESERVED
          \<and> b = (inv_paymentAttempt i \<noteq> None)"
    using selectInvocation_eq [OF d] by (auto simp: selectReserved_def)
  show "map_of (selectReserved s) y = (case selectInvocation s y of
           Some i \<Rightarrow> if inv_state i = RESERVED then Some (inv_paymentAttempt i \<noteq> None) else None | None \<Rightarrow> None)"
  proof (cases "map_of (selectReserved s) y")
    case None
    then have "y \<notin> fst ` set (selectReserved s)" by (simp add: map_of_eq_None_iff)
    then have "\<not> (\<exists>i. selectInvocation s y = Some i \<and> inv_state i = RESERVED)"
      using selectInvocation_eq [OF d] by (force simp: selectReserved_def)
    with None show ?thesis by (auto split: option.split)
  next
    case (Some b)
    then have "(y, b) \<in> set (selectReserved s)" by (rule map_of_SomeD)
    with rows Some show ?thesis by force
  qed
qed

text \<open>Recovery always succeeds; it moves every RESERVED invocation, by its recorded attempt, and
  nothing else.\<close>

lemma recover_ok:
  assumes "store_inv s"
  shows "\<exists>res s'. recoverInterruptedInvocations reason now s = (Inr res, s') \<and> store_inv s'
    \<and> rr_reconciliationRequired res = map fst (filter snd (selectReserved s))
    \<and> rr_releasedNeverSubmitted res = map fst (filter (\<lambda>r. \<not> snd r) (selectReserved s))
    \<and> (\<forall>y. state_of s' y = (case selectInvocation s y of None \<Rightarrow> None
         | Some i \<Rightarrow> Some (if inv_state i = RESERVED then recovered (inv_paymentAttempt i \<noteq> None) else inv_state i)))
    \<and> (\<forall>y. state_of s y \<noteq> Some RESERVED \<longrightarrow> selectInvocation s' y = selectInvocation s y)
    \<and> (\<forall>y. map_option row_facts (selectInvocation s' y) = map_option row_facts (selectInvocation s y))
    \<and> (\<forall>a b. map_option pinned_terms (selectGrant s' a b) = map_option pinned_terms (selectGrant s a b))"
proof -
  note sel = selectReserved_rows [OF store_inv_keys [OF assms]]
  from recover_rows_ok [OF assms sel(1,2), of reason now
      "\<lparr> rr_reconciliationRequired = [], rr_releasedNeverSubmitted = [] \<rparr>"]
  obtain s' where s': "recover_rows reason now (selectReserved s)
       \<lparr> rr_reconciliationRequired = [], rr_releasedNeverSubmitted = [] \<rparr> s
     = Inr (\<lparr> rr_reconciliationRequired = map fst (filter snd (selectReserved s)),
         rr_releasedNeverSubmitted = map fst (filter (\<lambda>r. \<not> snd r) (selectReserved s)) \<rparr>, s')"
    and inv: "store_inv s'"
    and st: "\<forall>y. state_of s' y = (case map_of (selectReserved s) y of Some b \<Rightarrow> Some (recovered b) | None \<Rightarrow> state_of s y)"
    and same: "\<forall>y. y \<notin> fst ` set (selectReserved s) \<longrightarrow> selectInvocation s' y = selectInvocation s y"
    and kept: "\<forall>y. map_option row_facts (selectInvocation s' y) = map_option row_facts (selectInvocation s y)"
      "\<forall>a b. map_option pinned_terms (selectGrant s' a b) = map_option pinned_terms (selectGrant s a b)"
    by auto
  have "y \<notin> fst ` set (selectReserved s)" if "state_of s y \<noteq> Some RESERVED" for y
    using that sel(2) by (force simp: state_of_def)
  with same have keep: "\<forall>y. state_of s y \<noteq> Some RESERVED \<longrightarrow> selectInvocation s' y = selectInvocation s y"
    by blast
  have "state_of s' y = (case selectInvocation s y of None \<Rightarrow> None
         | Some i \<Rightarrow> Some (if inv_state i = RESERVED then recovered (inv_paymentAttempt i \<noteq> None) else inv_state i))" for y
    using st unfolding sel(3) by (auto simp: state_of_def split: option.split)
  with s' inv keep kept show ?thesis
    by (intro exI [of _ "\<lparr> rr_reconciliationRequired = map fst (filter snd (selectReserved s)),
         rr_releasedNeverSubmitted = map fst (filter (\<lambda>r. \<not> snd r) (selectReserved s)) \<rparr>"] exI [of _ s'])
      (simp add: recoverInterruptedInvocations_def transaction_def)
qed

section \<open>Sequences of operations\<close>

datatype store_op =
    OpReserve reserve_input "string \<Rightarrow> budget_decision"
  | OpRecordAttempt string PaymentAttempt "service_authorization signed option"
  | OpConfirm string confirm_payment
  | OpFail string string
  | OpMarkReconciliation string string
  | OpResolve string reconciliation_outcome
  | OpAttachReceipt string signed_receipt
  | OpRecover string

text \<open>One operation at a clock time: the store it leaves.\<close>

fun apply_op :: "int \<times> store_op \<Rightarrow> store \<Rightarrow> store" where
  "apply_op (t, OpReserve p e) s = snd (reserve p e t s)"
| "apply_op (t, OpRecordAttempt x a sa) s = snd (recordPaymentAttempt x a sa t s)"
| "apply_op (t, OpConfirm x p) s = snd (confirm x p t s)"
| "apply_op (t, OpFail x r) s = snd (fail x r t s)"
| "apply_op (t, OpMarkReconciliation x r) s = snd (markReconciliationRequired x r t s)"
| "apply_op (t, OpResolve x out) s = snd (resolveReconciliation x out t s)"
| "apply_op (t, OpAttachReceipt x r) s = snd (attachReceipt x r t s)"
| "apply_op (t, OpRecover r) s = snd (recoverInterruptedInvocations r t s)"

fun op_obligation :: "store \<Rightarrow> store_op \<Rightarrow> bool" where
  "op_obligation s (OpReserve p e) = retry_same_grant s p"
| "op_obligation s _ = True"

fun run_ops :: "(int \<times> store_op) list \<Rightarrow> store \<Rightarrow> store" where
  "run_ops [] s = s"
| "run_ops (p # ps) s = run_ops ps (apply_op p s)"

lemma run_ops_append: "run_ops (ps @ qs) s = run_ops qs (run_ops ps s)"
  by (induction ps arbitrary: s) auto

text \<open>What \<open>store_inv\<close> asks of a sequence of operations: a retry of a FAILED invocation names the grant
  its row was created under.  The store does not check this, it goes by the fingerprint; in the authority
  the fingerprint covers the grant id and the permit digest.\<close>

fun ops_obligation :: "(int \<times> store_op) list \<Rightarrow> store \<Rightarrow> bool" where
  "ops_obligation [] s = True"
| "ops_obligation (p # ps) s = (op_obligation s (snd p) \<and> ops_obligation ps (apply_op p s))"

lemma store_inv_recover:
  assumes "store_inv s" shows "store_inv (snd (recoverInterruptedInvocations r t s))"
  using recover_ok [OF assms, of r t] by force

lemma store_inv_apply_op: "store_inv s \<Longrightarrow> op_obligation s o1 \<Longrightarrow> store_inv (apply_op (t, o1) s)"
  by (cases o1) (simp_all add: store_inv_reserve store_inv_recordPaymentAttempt store_inv_confirm
      store_inv_fail store_inv_markReconciliationRequired store_inv_resolveReconciliation
      store_inv_attachReceipt store_inv_recover)

lemma store_inv_run_ops: "store_inv s \<Longrightarrow> ops_obligation ps s \<Longrightarrow> store_inv (run_ops ps s)"
  by (induction ps arbitrary: s) (auto simp: store_inv_apply_op)

lemma store_inv_empty: "store_inv empty_store"
  by (simp add: store_inv_def empty_store_def keys_ok_def history_ok_def history_def state_of_def
      selectInvocation_def)

section \<open>One row through an operation\<close>

text \<open>A row stays, moves along the state machine, or receives its first receipt.\<close>

definition row_step :: "invocation option \<Rightarrow> invocation option \<Rightarrow> bool" where
  "row_step before after \<longleftrightarrow>
     after = before
     \<or> (\<exists>j. after = Some j \<and> allowed_step (map_option inv_state before) (inv_state j))
     \<or> (\<exists>i r t. before = Some i \<and> inv_state i \<in> {DENIED, CONFIRMED} \<and> inv_receipt i = None
          \<and> after = Some (with_receipt r t i))"

lemma row_step_refl [simp]: "row_step a a"
  by (simp add: row_step_def)

lemma row_step_moved:
  assumes "selectInvocation s x = Some i" "\<And>j. inv_id (f j) = inv_id j"
    and "allowed_step (Some (inv_state i)) (inv_state (f i))"
    and "\<And>z. selectInvocation s' z = selectInvocation s z"
  shows "row_step (selectInvocation s y) (selectInvocation (set_row x f s') y)"
  using assms by (auto simp: row_step_def selectInvocation_set_row)

lemma row_step_fail: "store_inv s \<Longrightarrow> row_step (selectInvocation s y) (selectInvocation (snd (fail x r t s)) y)"
proof (cases "state_of s x = Some RESERVED")
  case True
  moreover assume "store_inv s"
  ultimately show ?thesis
    by (auto simp: state_of_def fail_ok intro!: row_step_moved)
qed (simp add: fail_error)

lemma row_step_mark:
  "store_inv s \<Longrightarrow> row_step (selectInvocation s y) (selectInvocation (snd (markReconciliationRequired x r t s)) y)"
proof (cases "state_of s x = Some RESERVED")
  case True
  moreover assume "store_inv s"
  ultimately show ?thesis
    by (auto simp: state_of_def markReconciliationRequired_ok intro!: row_step_moved)
qed (simp add: markReconciliationRequired_error)

lemma row_step_record:
  "store_inv s \<Longrightarrow> row_step (selectInvocation s y) (selectInvocation (snd (recordPaymentAttempt x a sa t s)) y)"
proof (cases "\<exists>i. selectInvocation s x = Some i \<and> inv_state i = RESERVED \<and> inv_paymentAttempt i = None")
  case True
  moreover assume "store_inv s"
  ultimately show ?thesis
    by (auto simp: recordPaymentAttempt_ok intro!: row_step_moved)
next
  case False
  then show ?thesis by (subst recordPaymentAttempt_error) auto
qed

lemma row_step_confirm:
  "store_inv s \<Longrightarrow> row_step (selectInvocation s y) (selectInvocation (snd (confirm x p t s)) y)"
proof (cases "state_of s x = Some RESERVED")
  case True
  moreover assume "store_inv s"
  ultimately show ?thesis
    by (auto simp: state_of_def confirm_ok intro!: row_step_moved)
qed (simp add: confirm_error)

lemma row_step_resolve:
  "store_inv s \<Longrightarrow> row_step (selectInvocation s y) (selectInvocation (snd (resolveReconciliation x out t s)) y)"
proof (cases "state_of s x = Some RECONCILIATION_REQUIRED")
  case True
  moreover assume "store_inv s"
  ultimately show ?thesis
    by (cases out) (auto simp: state_of_def resolve_confirmed_ok resolve_failed_ok intro!: row_step_moved)
qed (simp add: resolveReconciliation_error)

lemma row_step_attach:
  assumes "store_inv s"
  shows "row_step (selectInvocation s y) (selectInvocation (snd (attachReceipt x r t s)) y)"
proof (cases "\<exists>i. selectInvocation s x = Some i \<and> inv_state i \<in> {DENIED, CONFIRMED} \<and> inv_receipt i = None")
  case True
  then obtain i where i: "selectInvocation s x = Some i" "inv_state i \<in> {DENIED, CONFIRMED}" "inv_receipt i = None"
    by blast
  show ?thesis
    using i unfolding attachReceipt_new [OF assms i] row_step_def
    by (auto simp: selectInvocation_set_row)
next
  case False
  then have "snd (attachReceipt x r t s) = s"
    by (subst attachReceipt_other [OF assms]) (auto split: option.splits)
  then show ?thesis by simp
qed

lemma row_step_recover:
  assumes "store_inv s"
  shows "row_step (selectInvocation s y) (selectInvocation (snd (recoverInterruptedInvocations r t s)) y)"
proof -
  obtain res s' where r: "recoverInterruptedInvocations r t s = (Inr res, s')"
    and st: "state_of s' y = (case selectInvocation s y of None \<Rightarrow> None
         | Some i \<Rightarrow> Some (if inv_state i = RESERVED then recovered (inv_paymentAttempt i \<noteq> None) else inv_state i))"
    and keep: "state_of s y \<noteq> Some RESERVED \<longrightarrow> selectInvocation s' y = selectInvocation s y"
    using recover_ok [OF assms, of r t] by blast
  show ?thesis
  proof (cases "state_of s y = Some RESERVED")
    case True
    then obtain i where i: "selectInvocation s y = Some i" "inv_state i = RESERVED" by (auto simp: state_of_def)
    with st obtain j where "selectInvocation s' y = Some j" "inv_state j = recovered (inv_paymentAttempt i \<noteq> None)"
      by (auto simp: state_of_def)
    with i r show ?thesis by (auto simp: row_step_def recovered_def)
  next
    case False
    with keep r show ?thesis by simp
  qed
qed

lemma row_step_reserve:
  assumes inv: "store_inv s" and key: "retry_same_grant s p"
  shows "row_step (selectInvocation s y) (selectInvocation (snd (reserve p e t s)) y)"
proof -
  obtain r s' where r: "reserve p e t s = (r, s')" by fastforce
  show ?thesis
  proof (cases r)
    case (Inl err)
    with r reserve_Inl have "s' = s" by blast
    with r show ?thesis by simp
  next
    case (Inr res)
    with r have res: "reserve p e t s = (Inr res, s')" by simp
    have "row_step (selectInvocation s y) (selectInvocation s' y)"
      using inv key res
    proof (cases rule: reserve_cases)
      case (decided g s1)
      let ?ex = "selectInvocation s (ri_invocationId p)"
      have s1: "selectInvocation s1 z = selectInvocation s z" for z
        by (rule reserve_grant_Inr(4) [OF inv decided(4)])
      have amt: "retry_or_new (set_amounts k a b n s1) p ?ex" for k a b n
        using decided(2) by (simp add: retry_or_new_def)
      from reserve_decide_Inr [OF decided(1,2,5,8,9)]
      have "\<exists>st codes. st \<in> {RESERVED, DENIED} \<and> selectInvocation s' y = (if y = ri_invocationId p
          then Some (case ?ex of None \<Rightarrow> new_row p st codes t | Some i \<Rightarrow> redecided p st codes t i)
          else selectInvocation s y)"
        by (auto simp: selectInvocation_decided [OF decided(2)] selectInvocation_decided [OF amt] s1
            split: budget_decision.splits)
      then obtain st codes where st: "st \<in> {RESERVED, DENIED}"
        and y: "selectInvocation s' y = (if y = ri_invocationId p
          then Some (case ?ex of None \<Rightarrow> new_row p st codes t | Some i \<Rightarrow> redecided p st codes t i)
          else selectInvocation s y)" by blast
      show ?thesis
      proof (cases "y = ri_invocationId p")
        case True
        have "map_option inv_state ?ex \<in> {None, Some FAILED}"
          using decided(2) by (cases ?ex) (auto simp: retry_or_new_def)
        with y st True show ?thesis
          by (cases ?ex) (auto simp: row_step_def)
      next
        case False
        with y show ?thesis by simp
      qed
    qed simp_all
    with r show ?thesis by simp
  qed
qed

lemma row_step_apply_op:
  "store_inv s \<Longrightarrow> op_obligation s p \<Longrightarrow> row_step (selectInvocation s y) (selectInvocation (apply_op (t, p) s) y)"
  by (cases p) (simp_all add: row_step_reserve row_step_fail row_step_mark row_step_record row_step_confirm
      row_step_resolve row_step_attach row_step_recover)

section \<open>The store as an interface\<close>

text \<open>What the authority relies on: operations keep the state good, good states stay within every
  grant's total, and a row moves only by \<open>row_step\<close>.\<close>

locale durable_store =
  fixes step :: "'op \<Rightarrow> 's \<Rightarrow> 's"
    and good :: "'s \<Rightarrow> bool"
    and obligation :: "'s \<Rightarrow> 'op \<Rightarrow> bool"
    and row :: "'s \<Rightarrow> string \<Rightarrow> invocation option"
    and committed :: "'s \<Rightarrow> string \<times> string \<Rightarrow> nat"
    and total :: "'s \<Rightarrow> string \<times> string \<Rightarrow> nat"
  assumes step_good: "good s \<Longrightarrow> obligation s p \<Longrightarrow> good (step p s)"
    and committed_bound: "good s \<Longrightarrow> committed s k \<le> total s k"
    and step_row: "good s \<Longrightarrow> obligation s p \<Longrightarrow> row_step (row s x) (row (step p s) x)"
begin

inductive reaches :: "'s \<Rightarrow> 's \<Rightarrow> bool" where
  stay: "reaches s s"
| go: "reaches s t \<Longrightarrow> obligation t p \<Longrightarrow> reaches s (step p t)"

lemma reaches_good: "reaches s t \<Longrightarrow> good s \<Longrightarrow> good t"
  by (induction rule: reaches.induct) (auto intro: step_good)

lemma budget_never_exceeded: "reaches s t \<Longrightarrow> good s \<Longrightarrow> committed t k \<le> total t k"
  using reaches_good committed_bound by blast

text \<open>Once decided or settled, a row changes only by its first receipt.\<close>

lemma settled_row_fixed:
  "reaches s t \<Longrightarrow> good s \<Longrightarrow> row s x = Some i \<Longrightarrow> inv_state i \<in> {DENIED, CONFIRMED}
     \<Longrightarrow> row t x = Some i \<or> inv_receipt i = None \<and> (\<exists>r n. row t x = Some (with_receipt r n i))"
proof (induction rule: reaches.induct)
  case (stay s)
  then show ?case by simp
next
  case (go s t p)
  then have "good t" by (blast intro: reaches_good)
  from step_row [OF this go.hyps(2), of x] go show ?case
    by (auto simp: row_step_def) blast+
qed

lemma settled_state_fixed:
  "reaches s t \<Longrightarrow> good s \<Longrightarrow> row s x = Some i \<Longrightarrow> inv_state i \<in> {DENIED, CONFIRMED}
     \<Longrightarrow> map_option inv_state (row t x) = Some (inv_state i)"
  using settled_row_fixed [of s t x i] by auto

lemma receipt_fixed:
  "reaches s t \<Longrightarrow> good s \<Longrightarrow> row s x = Some i \<Longrightarrow> inv_state i \<in> {DENIED, CONFIRMED} \<Longrightarrow> inv_receipt i = Some r
     \<Longrightarrow> row t x = Some i"
  using settled_row_fixed [of s t x i] by auto

end

definition committed_for :: "store \<Rightarrow> string \<times> string \<Rightarrow> nat" where
  "committed_for s k = (case selectGrant s (fst k) (snd k) of None \<Rightarrow> 0
     | Some g \<Rightarrow> dec (gr_reservedAtomic g) + dec (gr_consumedAtomic g))"

definition granted_total :: "store \<Rightarrow> string \<times> string \<Rightarrow> nat" where
  "granted_total s k = (case selectGrant s (fst k) (snd k) of None \<Rightarrow> 0 | Some g \<Rightarrow> dec (gr_maxTotalAtomic g))"

interpretation sqlite: durable_store apply_op store_inv "\<lambda>s p. op_obligation s (snd p)" selectInvocation
    committed_for granted_total
proof unfold_locales
  show "committed_for s k \<le> granted_total s k" if "store_inv s" for s k
    using that by (auto simp: committed_for_def granted_total_def store_inv_def grant_ok_def
        split: option.split dest!: selectGrant_Some)
qed (auto simp: store_inv_apply_op row_step_apply_op split: prod.splits)

lemma reaches_run_ops: "ops_obligation ps t \<Longrightarrow> sqlite.reaches s t \<Longrightarrow> sqlite.reaches s (run_ops ps t)"
  by (induction ps arbitrary: t) (auto intro: sqlite.go)

end
