(* ===== verification/Authority_Ledger.thy ===== *)
theory Authority_Ledger
  imports Authority_Store_Reserve
begin

text \<open>
  An abstract specification of the store and the proof that the store implements it.  The ledger keeps, per
  invocation, only its grant, fingerprint, amount, whether an attempt was recorded, and its state; per grant,
  only the terms it was pinned with.  It has no counters: what a grant has committed is the sum over its
  entries.  Each operation of the store is one total function on the ledger.
\<close>

section \<open>The ledger\<close>

record entry =
  le_key :: "string \<times> string"
  le_fingerprint :: string
  le_amount :: nat
  le_attempted :: bool
  le_state :: inv_state

text \<open>\<open>lg_grants\<close>: the permit digest and the total of each pinned grant.\<close>

record ledger =
  lg_entries :: "string \<Rightarrow> entry option"
  lg_grants :: "string \<times> string \<Rightarrow> (string \<times> string) option"

definition ledger_sum :: "inv_state set \<Rightarrow> ledger \<Rightarrow> string \<times> string \<Rightarrow> nat" where
  "ledger_sum states L k =
     (\<Sum>n \<in> {x \<in> dom (lg_entries L). le_key (the (lg_entries L x)) = k \<and> le_state (the (lg_entries L x)) \<in> states}.
        le_amount (the (lg_entries L n)))"

abbreviation ledger_held :: "ledger \<Rightarrow> string \<times> string \<Rightarrow> nat" where
  "ledger_held \<equiv> ledger_sum {RESERVED, RECONCILIATION_REQUIRED}"

abbreviation ledger_spent :: "ledger \<Rightarrow> string \<times> string \<Rightarrow> nat" where
  "ledger_spent \<equiv> ledger_sum {CONFIRMED}"

definition ledger_move :: "string \<Rightarrow> inv_state \<Rightarrow> inv_state \<Rightarrow> ledger \<Rightarrow> ledger" where
  "ledger_move x from to L =
     (case lg_entries L x of
        Some n \<Rightarrow> if le_state n = from then L \<lparr> lg_entries := (lg_entries L)(x \<mapsto> n \<lparr> le_state := to \<rparr>) \<rparr> else L
      | None \<Rightarrow> L)"

definition ledger_decide :: "reserve_input \<Rightarrow> inv_state \<Rightarrow> ledger \<Rightarrow> ledger" where
  "ledger_decide p st L =
     \<lparr> lg_entries = (lg_entries L)(ri_invocationId p \<mapsto>
         \<lparr> le_key = input_key p, le_fingerprint = ri_fingerprint p, le_amount = dec (ri_amountAtomic p),
           le_attempted = False, le_state = st \<rparr>),
       lg_grants = (lg_grants L)(input_key p \<mapsto>
         (gt_permitDigest (ri_grant p), gt_maxTotalAtomic (ri_grant p))) \<rparr>"

text \<open>A decision is made only for an id without an entry or with a FAILED one of the same fingerprint, on
  the terms the grant was pinned with, for well-formed amounts.\<close>

definition ledger_open :: "reserve_input \<Rightarrow> ledger \<Rightarrow> bool" where
  "ledger_open p L \<longleftrightarrow>
     (case lg_entries L (ri_invocationId p) of None \<Rightarrow> True
      | Some n \<Rightarrow> le_state n = FAILED \<and> le_fingerprint n = ri_fingerprint p)
     \<and> (case lg_grants L (input_key p) of None \<Rightarrow> True
        | Some t \<Rightarrow> t = (gt_permitDigest (ri_grant p), gt_maxTotalAtomic (ri_grant p)))
     \<and> atomicCheck (ri_amountAtomic p) \<and> atomicCheck (gt_maxTotalAtomic (ri_grant p))"

definition ledger_reserve :: "reserve_input \<Rightarrow> (string \<Rightarrow> budget_decision) \<Rightarrow> ledger \<Rightarrow> ledger" where
  "ledger_reserve p evaluate L =
     (let held = ledger_held L (input_key p); spent = ledger_spent L (input_key p); amount = dec (ri_amountAtomic p) in
      if \<not> ledger_open p L then L
      else case evaluate (show_nat (held + spent)) of
        BudgetDenied _ \<Rightarrow> ledger_decide p DENIED L
      | BudgetAllowed \<Rightarrow>
          if amount = 0 \<or> held + spent + amount > dec (gt_maxTotalAtomic (ri_grant p)) \<or> held + amount > MAX_U64
          then L else ledger_decide p RESERVED L)"

fun ledger_apply :: "store_op \<Rightarrow> ledger \<Rightarrow> ledger" where
  "ledger_apply (OpReserve p evaluate) L = ledger_reserve p evaluate L"
| "ledger_apply (OpRecordAttempt x a sa) L =
     (case lg_entries L x of
        Some n \<Rightarrow> if le_state n = RESERVED \<and> \<not> le_attempted n
                  then L \<lparr> lg_entries := (lg_entries L)(x \<mapsto> n \<lparr> le_attempted := True \<rparr>) \<rparr> else L
      | None \<Rightarrow> L)"
| "ledger_apply (OpConfirm x p) L = ledger_move x RESERVED CONFIRMED L"
| "ledger_apply (OpFail x r) L = ledger_move x RESERVED FAILED L"
| "ledger_apply (OpMarkReconciliation x r) L = ledger_move x RESERVED RECONCILIATION_REQUIRED L"
| "ledger_apply (OpResolve x outcome) L =
     ledger_move x RECONCILIATION_REQUIRED
       (case outcome of OutcomeConfirmed _ \<Rightarrow> CONFIRMED | OutcomeFailed _ \<Rightarrow> FAILED) L"
| "ledger_apply (OpAttachReceipt x r) L = L"
| "ledger_apply (OpRecover r) L =
     L \<lparr> lg_entries := (\<lambda>x. map_option
         (\<lambda>n. if le_state n = RESERVED then n \<lparr> le_state := recovered (le_attempted n) \<rparr> else n) (lg_entries L x)) \<rparr>"

section \<open>The ledger of a store\<close>

definition entry_of :: "invocation \<Rightarrow> entry" where
  "entry_of i = \<lparr> le_key = inv_key i, le_fingerprint = inv_fingerprint i, le_amount = dec (inv_amountAtomic i),
     le_attempted = (inv_paymentAttempt i \<noteq> None), le_state = inv_state i \<rparr>"

definition ledger_of :: "store \<Rightarrow> ledger" where
  "ledger_of s = \<lparr> lg_entries = (\<lambda>x. map_option entry_of (selectInvocation s x)),
     lg_grants = (\<lambda>k. map_option pinned_terms (selectGrant s (fst k) (snd k))) \<rparr>"

lemma ledger_of_simps [simp]:
  "lg_entries (ledger_of s) x = map_option entry_of (selectInvocation s x)"
  "lg_grants (ledger_of s) k = map_option pinned_terms (selectGrant s (fst k) (snd k))"
  by (simp_all add: ledger_of_def)

lemma entry_of_simps [simp]:
  "le_key (entry_of i) = inv_key i" "le_fingerprint (entry_of i) = inv_fingerprint i"
  "le_amount (entry_of i) = dec (inv_amountAtomic i)" "le_attempted (entry_of i) \<longleftrightarrow> inv_paymentAttempt i \<noteq> None"
  "le_state (entry_of i) = inv_state i"
  by (simp_all add: entry_of_def)

lemma ledger_eqI:
  "(\<And>x. lg_entries L x = lg_entries M x) \<Longrightarrow> (\<And>k. lg_grants L k = lg_grants M k) \<Longrightarrow> L = (M :: ledger)"
  by (rule ledger.equality) auto

lemma ledger_of_log [simp]: "ledger_of (log_step x from to r at s) = ledger_of s"
  by (rule ledger_eqI) simp_all

text \<open>The counters of a grant never show in the ledger.\<close>

lemma ledger_of_set_amounts [simp]: "ledger_of (set_amounts k r c now s) = ledger_of s"
  by (rule ledger_eqI) simp_all

lemma ledger_of_moves [simp]: "ledger_of (released s i now) = ledger_of s" "ledger_of (consumed s i now) = ledger_of s"
  by (simp_all add: released_def consumed_def)

lemma entry_of_changes [simp]:
  "entry_of (confirmed_by p t i) = (entry_of i) \<lparr> le_state := CONFIRMED \<rparr>"
  "entry_of (reconciled_by st r t i) = (entry_of i) \<lparr> le_state := CONFIRMED \<rparr>"
  "entry_of (moved_to to r t i) = (entry_of i) \<lparr> le_state := to \<rparr>"
  "entry_of (with_attempt a sa t i) = (entry_of i) \<lparr> le_attempted := True \<rparr>"
  "entry_of (with_receipt rc t i) = entry_of i"
  by (simp_all add: entry_of_def) (simp_all add: confirmed_by_def reconciled_by_def moved_to_def with_attempt_def with_receipt_def)

text \<open>A changed row is a changed entry.\<close>

lemma ledger_of_set_row:
  assumes "selectInvocation s x = Some i" "\<And>j. inv_id (f j) = inv_id j"
  shows "ledger_of (set_row x f s) = ledger_of s \<lparr> lg_entries := (lg_entries (ledger_of s))(x \<mapsto> entry_of (f i)) \<rparr>"
  using assms by (intro ledger_eqI) (simp_all add: selectInvocation_set_row)

lemma ledger_move_of:
  assumes "selectInvocation s x = Some i" "inv_state i = from"
    and "\<And>j. inv_id (f j) = inv_id j" "entry_of (f i) = (entry_of i) \<lparr> le_state := to \<rparr>"
  shows "ledger_of (set_row x f s) = ledger_move x from to (ledger_of s)"
  using assms by (simp add: ledger_of_set_row ledger_move_def)

lemma ledger_move_none: "state_of s x \<noteq> Some from \<Longrightarrow> ledger_move x from to (ledger_of s) = ledger_of s"
  by (auto simp: ledger_move_def state_of_def split: option.split)

section \<open>The sums are the counters\<close>

lemma ledger_sum_total:
  assumes "distinct (map inv_id (st_invocations s))"
  shows "ledger_sum states (ledger_of s) k
     = total_for (\<lambda>i. if inv_state i \<in> states then dec (inv_amountAtomic i) else 0) k (st_invocations s)"
proof -
  let ?P = "\<lambda>i. inv_key i = k \<and> inv_state i \<in> states"
  let ?I = "{i \<in> set (st_invocations s). ?P i}"
  have d: "distinct (st_invocations s)" "inj_on inv_id (set (st_invocations s))"
    using assms by (simp_all add: distinct_map)
  have sel: "selectInvocation s (inv_id i) = Some i" if "i \<in> set (st_invocations s)" for i
    using selectInvocation_eq [OF assms] that by blast
  have "{x \<in> dom (lg_entries (ledger_of s)). le_key (the (lg_entries (ledger_of s) x)) = k
          \<and> le_state (the (lg_entries (ledger_of s) x)) \<in> states} = inv_id ` ?I" (is "?D = _")
  proof (rule set_eqI)
    fix x
    show "x \<in> ?D \<longleftrightarrow> x \<in> inv_id ` ?I"
      using selectInvocation_eq [OF assms, of x] sel
      by (cases "selectInvocation s x") (auto simp: selectInvocation_None dom_def)
  qed
  then have "ledger_sum states (ledger_of s) k = (\<Sum>x \<in> inv_id ` ?I. le_amount (the (lg_entries (ledger_of s) x)))"
    by (simp add: ledger_sum_def)
  also have "\<dots> = (\<Sum>i \<in> ?I. dec (inv_amountAtomic i))"
    using d(2) by (subst sum.reindex) (auto intro: inj_on_subset sum.cong simp: sel)
  also have "\<dots> = (\<Sum>i \<in> set (st_invocations s). if ?P i then dec (inv_amountAtomic i) else 0)"
    by (rule sum.inter_filter) simp
  also have "\<dots> = sum_list (map (\<lambda>i. if ?P i then dec (inv_amountAtomic i) else 0) (st_invocations s))"
    by (rule sum_list_distinct_conv_sum_set [OF d(1), symmetric])
  also have "\<dots> = total_for (\<lambda>i. if inv_state i \<in> states then dec (inv_amountAtomic i) else 0) k (st_invocations s)"
    unfolding total_for_def by (intro arg_cong [where f = sum_list] map_cong) auto
  finally show ?thesis .
qed

lemma counters_are_sums:
  assumes "store_inv s" "selectGrant s a b = Some g"
  shows "dec (gr_reservedAtomic g) = ledger_held (ledger_of s) (a, b)"
    and "dec (gr_consumedAtomic g) = ledger_spent (ledger_of s) (a, b)"
proof -
  have g: "g \<in> set (st_grants s)" "gr_key g = (a, b)" using assms(2) by (auto dest: selectGrant_Some)
  have d: "distinct (map inv_id (st_invocations s))" using assms(1) by (simp add: store_inv_def keys_ok_def)
  have "grant_ok (st_invocations s) g" using assms(1) g(1) by (simp add: store_inv_def)
  moreover have "held_amount = (\<lambda>i. if inv_state i \<in> {RESERVED, RECONCILIATION_REQUIRED} then dec (inv_amountAtomic i) else 0)"
    "spent_amount = (\<lambda>i. if inv_state i \<in> {CONFIRMED} then dec (inv_amountAtomic i) else 0)"
    by (simp_all add: fun_eq_iff held_amount_def spent_amount_def)
  ultimately show "dec (gr_reservedAtomic g) = ledger_held (ledger_of s) (a, b)"
    "dec (gr_consumedAtomic g) = ledger_spent (ledger_of s) (a, b)"
    unfolding ledger_sum_total [OF d] by (simp_all add: grant_ok_def g(2))
qed

lemma no_grant_no_sums:
  assumes "store_inv s" "selectGrant s a b = None"
  shows "ledger_sum states (ledger_of s) (a, b) = 0"
proof -
  have d: "distinct (map inv_id (st_invocations s))" using assms(1) by (simp add: store_inv_def keys_ok_def)
  have "(a, b) \<notin> inv_key ` set (st_invocations s)"
    using assms by (auto simp: selectGrant_None store_inv_def keys_ok_def)
  then show ?thesis unfolding ledger_sum_total [OF d] by (rule total_none)
qed

section \<open>Each operation implements its abstract step\<close>

lemma refines_confirm:
  assumes "store_inv s" shows "ledger_of (snd (confirm x p t s)) = ledger_move x RESERVED CONFIRMED (ledger_of s)"
proof (cases "state_of s x = Some RESERVED")
  case True
  then obtain i where i: "selectInvocation s x = Some i" "inv_state i = RESERVED" by (auto simp: state_of_def)
  have "ledger_of (set_row x (confirmed_by p t) (consumed s i t)) = ledger_move x RESERVED CONFIRMED (ledger_of (consumed s i t))"
    using i by (intro ledger_move_of [where i = i]) simp_all
  with confirm_ok [OF assms i] show ?thesis by simp
qed (simp add: confirm_error ledger_move_none)

lemma refines_fail:
  assumes "store_inv s" shows "ledger_of (snd (fail x r t s)) = ledger_move x RESERVED FAILED (ledger_of s)"
proof (cases "state_of s x = Some RESERVED")
  case True
  then obtain i where i: "selectInvocation s x = Some i" "inv_state i = RESERVED" by (auto simp: state_of_def)
  have "ledger_of (set_row x (moved_to FAILED r t) (released s i t)) = ledger_move x RESERVED FAILED (ledger_of (released s i t))"
    using i by (intro ledger_move_of [where i = i]) simp_all
  with fail_ok [OF assms i] show ?thesis by simp
qed (simp add: fail_error ledger_move_none)

lemma refines_mark:
  assumes "store_inv s"
  shows "ledger_of (snd (markReconciliationRequired x r t s)) = ledger_move x RESERVED RECONCILIATION_REQUIRED (ledger_of s)"
proof (cases "state_of s x = Some RESERVED")
  case True
  then obtain i where i: "selectInvocation s x = Some i" "inv_state i = RESERVED" by (auto simp: state_of_def)
  have "ledger_of (set_row x (moved_to RECONCILIATION_REQUIRED r t) s) = ledger_move x RESERVED RECONCILIATION_REQUIRED (ledger_of s)"
    using i by (intro ledger_move_of [where i = i]) simp_all
  with markReconciliationRequired_ok [OF assms i] show ?thesis by simp
qed (simp add: markReconciliationRequired_error ledger_move_none)

lemma refines_resolve:
  assumes "store_inv s"
  shows "ledger_of (snd (resolveReconciliation x out t s)) = ledger_apply (OpResolve x out) (ledger_of s)"
proof (cases "state_of s x = Some RECONCILIATION_REQUIRED")
  case True
  then obtain i where i: "selectInvocation s x = Some i" "inv_state i = RECONCILIATION_REQUIRED" by (auto simp: state_of_def)
  show ?thesis
  proof (cases out)
    case (OutcomeConfirmed st)
    let ?f = "reconciled_by st (''reconciled: settled in '' @ cs_transactionId st) t"
    have "ledger_of (set_row x ?f (consumed s i t)) = ledger_move x RECONCILIATION_REQUIRED CONFIRMED (ledger_of (consumed s i t))"
      using i by (intro ledger_move_of [where i = i]) simp_all
    with resolve_confirmed_ok [OF assms i] OutcomeConfirmed show ?thesis by simp
  next
    case (OutcomeFailed r)
    let ?f = "moved_to FAILED (''reconciled: '' @ r) t"
    have "ledger_of (set_row x ?f (released s i t)) = ledger_move x RECONCILIATION_REQUIRED FAILED (ledger_of (released s i t))"
      using i by (intro ledger_move_of [where i = i]) simp_all
    with resolve_failed_ok [OF assms i] OutcomeFailed show ?thesis by simp
  qed
qed (simp add: resolveReconciliation_error ledger_move_none)

lemma refines_record:
  assumes "store_inv s"
  shows "ledger_of (snd (recordPaymentAttempt x a sa t s)) = ledger_apply (OpRecordAttempt x a sa) (ledger_of s)"
proof (cases "\<exists>i. selectInvocation s x = Some i \<and> inv_state i = RESERVED \<and> inv_paymentAttempt i = None")
  case True
  then obtain i where i: "selectInvocation s x = Some i" "inv_state i = RESERVED" "inv_paymentAttempt i = None" by blast
  with i recordPaymentAttempt_ok [OF assms i] show ?thesis by (simp add: ledger_of_set_row)
next
  case False
  then have "snd (recordPaymentAttempt x a sa t s) = s" by (subst recordPaymentAttempt_error) auto
  with False show ?thesis by (auto split: option.split)
qed

lemma refines_attach:
  assumes "store_inv s" shows "ledger_of (snd (attachReceipt x r t s)) = ledger_of s"
proof (cases "\<exists>i. selectInvocation s x = Some i \<and> inv_state i \<in> {DENIED, CONFIRMED} \<and> inv_receipt i = None")
  case True
  then obtain i where i: "selectInvocation s x = Some i" "inv_state i \<in> {DENIED, CONFIRMED}" "inv_receipt i = None" by blast
  with i show ?thesis unfolding attachReceipt_new [OF assms i]
    by (simp add: ledger_of_set_row) (rule ledger_eqI, auto)
next
  case False
  then show ?thesis by (subst attachReceipt_other [OF assms]) (auto split: option.splits)
qed

lemma refines_recover:
  assumes "store_inv s"
  shows "ledger_of (snd (recoverInterruptedInvocations r t s)) = ledger_apply (OpRecover r) (ledger_of s)"
proof -
  obtain res s' where run: "recoverInterruptedInvocations r t s = (Inr res, s')"
    and st: "\<And>y. state_of s' y = (case selectInvocation s y of None \<Rightarrow> None
         | Some i \<Rightarrow> Some (if inv_state i = RESERVED then recovered (inv_paymentAttempt i \<noteq> None) else inv_state i))"
    and kept: "\<And>y. map_option row_facts (selectInvocation s' y) = map_option row_facts (selectInvocation s y)"
      "\<And>a b. map_option pinned_terms (selectGrant s' a b) = map_option pinned_terms (selectGrant s a b)"
    using recover_ok [OF assms, of r t] by blast
  have "map_option entry_of (selectInvocation s' y) = map_option (\<lambda>n. if le_state n = RESERVED
      then n \<lparr> le_state := recovered (le_attempted n) \<rparr> else n) (map_option entry_of (selectInvocation s y))" for y
    using st [of y] kept(1) [of y]
    by (cases "selectInvocation s y"; cases "selectInvocation s' y")
      (auto simp: state_of_def row_facts_def entry_of_def)
  then show ?thesis using run kept(2) by (intro ledger_eqI) simp_all
qed

section \<open>Reserving\<close>

text \<open>Writing a decision succeeds on a well-formed amount.\<close>

lemma writeDecision_ok:
  assumes k: "keys_ok s" and row: "\<And>i. existing = Some i \<Longrightarrow> row_ok i" and ex: "retry_or_new s p existing"
    and g: "selectGrant s (gt_issuer (ri_grant p)) (gt_grantId (ri_grant p)) \<noteq> None"
    and a: "atomicCheck (ri_amountAtomic p)" and t: "t \<in> {RESERVED, DENIED}"
  shows "writeDecision p existing t codes now s = Inr (decided p existing t codes now s)"
proof (cases existing)
  case None
  have "insertInvocation (new_row p t codes now) s = Inr (s \<lparr> st_invocations := st_invocations s @ [new_row p t codes now] \<rparr>)"
    using ex None g a t row_ok_check [OF row_ok_new [OF a t]]
    by (simp add: insertInvocation_def retry_or_new_def)
  with None ex show ?thesis
    by (simp add: writeDecision_def new_row_def [symmetric] recordTransition_def decided_def log_step_def
        selectInvocation_append retry_or_new_def)
next
  case (Some i)
  with ex have i: "selectInvocation s (ri_invocationId p) = Some i" "inv_state i = FAILED"
    by (auto simp: retry_or_new_def)
  have "expectOneChange (update_invocations (\<lambda>j. inv_id j = ri_invocationId p \<and> inv_state j = FAILED)
      (redecided p t codes now) s) = Inr (set_row (ri_invocationId p) (redecided p t codes now) s)"
    using row_ok_check [OF row_ok_redecided [OF row [OF Some] i(2) a t]] i(2)
    by (intro one_row [OF k i(1)]) simp_all
  with Some i show ?thesis
    by (simp add: writeDecision_def recordTransition_def decided_def log_step_def redecided_def [abs_def]
        selectInvocation_set_row)
qed

lemma ledger_of_decided:
  assumes ex: "retry_or_new s p existing"
    and same: "\<And>i. existing = Some i \<Longrightarrow> inv_key i = input_key p \<and> inv_fingerprint i = ri_fingerprint p"
    and g: "map_option pinned_terms (selectGrant s (gt_issuer (ri_grant p)) (gt_grantId (ri_grant p)))
       = Some (gt_permitDigest (ri_grant p), gt_maxTotalAtomic (ri_grant p))"
  shows "ledger_of (decided p existing t codes now s) = ledger_decide p t (ledger_of s)"
proof (rule ledger_eqI)
  fix x
  show "lg_entries (ledger_of (decided p existing t codes now s)) x = lg_entries (ledger_decide p t (ledger_of s)) x"
    using same unfolding ledger_of_simps selectInvocation_decided [OF ex]
    by (cases existing) (auto simp: ledger_decide_def entry_of_def)
next
  fix k
  have "selectGrant (decided p existing t codes now s) a b = selectGrant s a b" for a b
    by (simp add: decided_def split: option.split) (simp add: selectGrant_def)
  then show "lg_grants (ledger_of (decided p existing t codes now s)) k = lg_grants (ledger_decide p t (ledger_of s)) k"
    using g by (cases k) (auto simp: ledger_decide_def input_key_def)
qed

lemma ledger_sum_entries: "lg_entries L = lg_entries M \<Longrightarrow> ledger_sum states L k = ledger_sum states M k"
  by (simp add: ledger_sum_def)

lemma updateGrantAmounts_reserve:
  assumes "store_inv s" "selectGrant s a b = Some g"
    and "r + dec (gr_consumedAtomic g) \<le> dec (gr_maxTotalAtomic g)"
  shows "updateGrantAmounts (show_nat r) (gr_consumedAtomic g) now (gr_issuer g) (gr_grantId g) s
     = Inr (set_amounts (a, b) (show_nat r) (gr_consumedAtomic g) now s)"
proof -
  have gk: "g \<in> set (st_grants s)" "gr_key g = (a, b)" using assms(2) by (auto dest: selectGrant_Some)
  then have "grant_ok (st_invocations s) g" using assms(1) by (simp add: store_inv_def)
  then have m: "atomic_pattern (gr_maxTotalAtomic g)" "atomic_pattern (gr_consumedAtomic g)"
    using grant_ok_bounds by blast+
  have "r < 10 ^ 20" using assms(3) dec_atomic_bound [OF m(1)] by linarith
  then show ?thesis
    using updateGrantAmounts_ok [OF store_inv_keys [OF assms(1)] gk(1) _ m(1) _ m(2),
        of "gr_issuer g" "gr_grantId g" "show_nat r" now] gk(2) atomic_pattern_show_nat [of r]
    by (simp add: gr_key_def)
qed

text \<open>The decision on a pinned grant: what it leaves, in every case.\<close>

lemma reserve_decide_ledger:
  assumes inv: "store_inv s" and ex: "retry_or_new s p existing"
    and same: "\<And>i. existing = Some i \<Longrightarrow> inv_key i = input_key p \<and> inv_fingerprint i = ri_fingerprint p"
    and g: "selectGrant s (gt_issuer (ri_grant p)) (gt_grantId (ri_grant p)) = Some g"
    and terms: "pinned_terms g = (gt_permitDigest (ri_grant p), gt_maxTotalAtomic (ri_grant p))"
  defines "r \<equiv> dec (gr_reservedAtomic g)" and "c \<equiv> dec (gr_consumedAtomic g)" and "a \<equiv> dec (ri_amountAtomic p)"
  shows "case reserve_decide p evaluate existing now g s of
      Inl e \<Rightarrow> \<not> atomicCheck (ri_amountAtomic p)
        \<or> evaluate (show_nat (r + c)) = BudgetAllowed \<and> (a = 0 \<or> r + c + a > dec (gt_maxTotalAtomic (ri_grant p)) \<or> r + a > MAX_U64)
    | Inr (res, s') \<Rightarrow> atomicCheck (ri_amountAtomic p)
        \<and> (case evaluate (show_nat (r + c)) of
             BudgetDenied codes \<Rightarrow> ledger_of s' = ledger_decide p DENIED (ledger_of s)
           | BudgetAllowed \<Rightarrow> ledger_of s' = ledger_decide p RESERVED (ledger_of s)
               \<and> \<not> (a = 0 \<or> r + c + a > dec (gt_maxTotalAtomic (ri_grant p)) \<or> r + a > MAX_U64))"
proof (cases "atomicCheck (ri_amountAtomic p)")
  case False
  have w: "\<exists>e. writeDecision p existing t codes now s1 = Inl e" if "keys_ok s1" "retry_or_new s1 p existing" "t \<noteq> CONFIRMED" for t codes s1
    using writeDecision_Inr [OF that(1,2), of t codes now] False that(3)
    by (cases "writeDecision p existing t codes now s1") auto
  have "\<exists>e. reserve_decide p evaluate existing now g s = Inl e"
  proof (cases "evaluate (show_nat (r + c))")
    case BudgetAllowed
    obtain e where "writeDecision p existing RESERVED [] now
        (set_amounts (gt_issuer (ri_grant p), gt_grantId (ri_grant p)) (show_nat (r + a)) (gr_consumedAtomic g) now s) = Inl e"
      using ex w [of "set_amounts (gt_issuer (ri_grant p), gt_grantId (ri_grant p)) (show_nat (r + a)) (gr_consumedAtomic g) now s"
          RESERVED "[]"]
      by (auto simp: keys_ok_set_amounts store_inv_keys inv retry_or_new_def)
    then show ?thesis
      using BudgetAllowed updateGrantAmounts_reserve [OF inv g, of "r + a" now] terms
      by (auto simp: reserve_decide_def Let_def r_def c_def a_def pinned_terms_def ac_simps)
  next
    case (BudgetDenied codes)
    with w [OF store_inv_keys [OF inv] ex, of DENIED codes] show ?thesis
      by (auto simp: reserve_decide_def Let_def r_def c_def)
  qed
  with False show ?thesis by auto
next
  case True
  have row: "row_ok i" if "existing = Some i" for i
    using that ex store_inv_row_ok [OF inv] by (auto simp: retry_or_new_def)
  note dec_ok = writeDecision_ok [OF _ row, where p = p and existing = existing]
  have led: "ledger_of (decided p existing t codes now s1) = ledger_decide p t (ledger_of s)"
    if "retry_or_new s1 p existing" "ledger_of s1 = ledger_of s" for t codes s1
  proof -
    have "lg_grants (ledger_of s1) (input_key p) = lg_grants (ledger_of s) (input_key p)" using that(2) by simp
    then have "map_option pinned_terms (selectGrant s1 (gt_issuer (ri_grant p)) (gt_grantId (ri_grant p))) = Some (pinned_terms g)"
      using g by (simp add: input_key_def)
    then show ?thesis using ledger_of_decided [OF that(1) same] that(2) terms by simp
  qed
  show ?thesis
  proof (cases "evaluate (show_nat (r + c))")
    case (BudgetDenied codes)
    have "writeDecision p existing DENIED codes now s = Inr (decided p existing DENIED codes now s)"
      using True g by (intro dec_ok ex) (simp_all add: store_inv_keys inv)
    then show ?thesis
      using BudgetDenied True led [OF ex refl, of DENIED codes] selectInvocation_decided [OF ex, of DENIED codes now]
      by (simp add: reserve_decide_def Let_def r_def c_def requireInvocation_def)
  next
    case BudgetAllowed
    show ?thesis
    proof (cases "a = 0 \<or> r + c + a > dec (gt_maxTotalAtomic (ri_grant p)) \<or> r + a > MAX_U64")
      case True
      then show ?thesis using BudgetAllowed terms
        by (auto simp: reserve_decide_def Let_def r_def c_def a_def pinned_terms_def ac_simps)
    next
      case False
      let ?s = "set_amounts (input_key p) (show_nat (r + a)) (gr_consumedAtomic g) now s"
      have ex1: "retry_or_new ?s p existing" using ex by (simp add: retry_or_new_def)
      have "map_option pinned_terms (selectGrant ?s (gt_issuer (ri_grant p)) (gt_grantId (ri_grant p))) \<noteq> None"
        unfolding pinned_set_amounts using g by simp
      then have "selectGrant ?s (gt_issuer (ri_grant p)) (gt_grantId (ri_grant p)) \<noteq> None" by (metis option.map_disc_iff)
      then have "writeDecision p existing RESERVED [] now ?s = Inr (decided p existing RESERVED [] now ?s)"
        using \<open>atomicCheck (ri_amountAtomic p)\<close>
        by (intro dec_ok ex1) (simp_all add: keys_ok_set_amounts store_inv_keys inv)
      moreover have "updateGrantAmounts (show_nat (r + a)) (gr_consumedAtomic g) now (gr_issuer g) (gr_grantId g) s = Inr ?s"
        using False terms updateGrantAmounts_reserve [OF inv g, of "r + a" now]
        by (simp add: input_key_def c_def pinned_terms_def ac_simps)
      ultimately show ?thesis
        using BudgetAllowed False \<open>atomicCheck (ri_amountAtomic p)\<close> led [OF ex1, of RESERVED "[]"] terms
          selectInvocation_decided [OF ex1, of RESERVED "[]" now]
        by (simp add: reserve_decide_def Let_def r_def c_def a_def pinned_terms_def requireInvocation_def ac_simps)
    qed
  qed
qed

lemma reserve_grant_Inl: "reserve_grant p now s = Inl e \<Longrightarrow> \<not> atomicCheck (gt_maxTotalAtomic (ri_grant p))"
  by (auto simp: reserve_grant_def insertGrant_def grant_check_def requireGrant_def selectGrant_def atomicCheck_def
      find_append Let_def split: option.splits if_splits)

text \<open>A grant that was already there keeps its terms, a new one is pinned with the given terms.\<close>

lemma reserve_grant_pinned:
  "reserve_grant p now s = Inr (g, s1) \<Longrightarrow>
     selectGrant s (gt_issuer (ri_grant p)) (gt_grantId (ri_grant p)) = Some g
     \<or> selectGrant s (gt_issuer (ri_grant p)) (gt_grantId (ri_grant p)) = None
       \<and> pinned_terms g = (gt_permitDigest (ri_grant p), gt_maxTotalAtomic (ri_grant p))"
  by (auto simp: reserve_grant_def insertGrant_def requireGrant_def selectGrant_def pinned_terms_def
      sbind_Inr_iff find_append Let_def split: option.splits if_splits)

lemma reserve_grant_others:
  "reserve_grant p now s = Inr (g, s1) \<Longrightarrow> (a, b) \<noteq> input_key p \<Longrightarrow> selectGrant s1 a b = selectGrant s a b"
  by (auto simp: reserve_grant_def insertGrant_def requireGrant_def selectGrant_def input_key_def
      sbind_Inr_iff find_append Let_def split: option.splits if_splits)

lemma refines_reserve:
  assumes inv: "store_inv s" and key: "retry_same_grant s p"
  shows "ledger_of (snd (reserve p evaluate now s)) = ledger_reserve p evaluate (ledger_of s)"
proof -
  let ?x = "ri_invocationId p" and ?a = "gt_issuer (ri_grant p)" and ?b = "gt_grantId (ri_grant p)"
  define terms where "terms = (gt_permitDigest (ri_grant p), gt_maxTotalAtomic (ri_grant p))"
  define existing where "existing = selectInvocation s ?x"
  define L where "L = ledger_of s"
  have k: "input_key p = (?a, ?b)" by (simp add: input_key_def)
  have grants: "lg_grants L (input_key p) = map_option pinned_terms (selectGrant s ?a ?b)" by (simp add: L_def k)
  show ?thesis
  proof (cases "\<exists>i. existing = Some i \<and> \<not> (inv_state i = FAILED \<and> inv_fingerprint i = ri_fingerprint p)")
    case True
    then have "snd (reserve p evaluate now s) = s"
      by (auto simp: reserve_def transaction_def Let_def existing_def)
    moreover have "\<not> ledger_open p L" using True by (auto simp: ledger_open_def existing_def L_def)
    ultimately show ?thesis by (simp add: ledger_reserve_def Let_def L_def)
  next
    case False
    then have ex: "retry_or_new s p existing" by (auto simp: retry_or_new_def existing_def)
    have same: "inv_key i = input_key p \<and> inv_fingerprint i = ri_fingerprint p" if "existing = Some i" for i
      using False that key by (auto simp: retry_same_grant_def existing_def)
    have body: "reserve p evaluate now s = transaction (\<lambda>s. sbind (reserve_grant p now s) (\<lambda>(g, s').
              if gr_permitDigest g \<noteq> gt_permitDigest (ri_grant p) \<or> gr_maxTotalAtomic g \<noteq> gt_maxTotalAtomic (ri_grant p)
              then Inr (ReserveGrantConflict g, s')
              else reserve_decide p evaluate existing now g s')) s"
      using False unfolding existing_def by (auto simp: reserve_def transaction_def Let_def split: option.split)
    have opn: "ledger_open p L \<longleftrightarrow> lg_grants L (input_key p) \<in> {None, Some terms}
        \<and> atomicCheck (ri_amountAtomic p) \<and> atomicCheck (gt_maxTotalAtomic (ri_grant p))"
      using False by (auto simp: ledger_open_def existing_def L_def terms_def split: option.split)
    show ?thesis
    proof (cases "reserve_grant p now s")
      case (Inl e)
      then have "snd (reserve p evaluate now s) = s" by (simp add: body transaction_def)
      moreover have "\<not> atomicCheck (gt_maxTotalAtomic (ri_grant p))"
        using Inl by (rule reserve_grant_Inl)
      ultimately show ?thesis using opn by (simp add: ledger_reserve_def Let_def L_def)
    next
      case (Inr gs)
      then obtain g s1 where rg: "reserve_grant p now s = Inr (g, s1)" by (cases gs) simp
      note r = reserve_grant_Inr [OF inv rg]
      show ?thesis
      proof (cases "pinned_terms g = terms")
        case False
        then have "snd (reserve p evaluate now s) = s1" by (auto simp: body transaction_def rg pinned_terms_def terms_def)
        moreover have "selectGrant s ?a ?b = Some g"
          using reserve_grant_pinned [OF rg] False by (auto simp: terms_def)
        moreover from this False have "\<not> ledger_open p L" unfolding opn grants by simp
        ultimately show ?thesis using r(5) by (simp add: ledger_reserve_def Let_def L_def)
      next
        case True
        have ent: "lg_entries (ledger_of s1) = lg_entries L" using r(4) by (simp add: L_def fun_eq_iff)
        have ex1: "retry_or_new s1 p existing" using ex r(4) by (simp add: retry_or_new_def)
        have sums: "dec (gr_reservedAtomic g) = ledger_held L (input_key p)" "dec (gr_consumedAtomic g) = ledger_spent L (input_key p)"
          using counters_are_sums [OF r(1,2)] ledger_sum_entries [OF ent] by (simp_all add: k)
        have max: "atomicCheck (gt_maxTotalAtomic (ri_grant p))"
        proof -
          have "g \<in> set (st_grants s1)" using r(2) by (auto dest: selectGrant_Some)
          then show ?thesis using r(1) True by (auto simp: store_inv_def grant_ok_def grant_check_def pinned_terms_def terms_def)
        qed
        have opn': "ledger_open p L \<longleftrightarrow> atomicCheck (ri_amountAtomic p)"
          using opn max grants True reserve_grant_pinned [OF rg] by (auto simp: terms_def)
        have dcd: "ledger_decide p t (ledger_of s1) = ledger_decide p t L" for t
          using reserve_grant_others [OF rg] ent
          by (auto simp: ledger_decide_def k L_def fun_eq_iff)
        have run: "snd (reserve p evaluate now s) = (case reserve_decide p evaluate existing now g s1 of Inl e \<Rightarrow> s | Inr (res, s') \<Rightarrow> s')"
          using True by (simp add: body transaction_def rg pinned_terms_def terms_def split: sum.split prod.split)
        note d = reserve_decide_ledger [OF r(1) ex1 same r(2) True [unfolded terms_def], of evaluate now,
            unfolded sums dcd, folded L_def]
        show ?thesis
        proof (cases "reserve_decide p evaluate existing now g s1")
          case (Inl e)
          with d run opn' show ?thesis by (auto simp: ledger_reserve_def Let_def L_def)
        next
          case (Inr rs)
          with d run opn' show ?thesis
            by (cases rs; cases "evaluate (show_nat (ledger_held L (input_key p) + ledger_spent L (input_key p)))")
              (auto simp: ledger_reserve_def Let_def L_def)
        qed
      qed
    qed
  qed
qed

lemma refines_apply_op:
  assumes "store_inv s" "op_obligation s op"
  shows "ledger_of (apply_op (t, op) s) = ledger_apply op (ledger_of s)"
  using assms by (cases op) (simp_all add: refines_reserve refines_record refines_confirm refines_fail refines_mark
      refines_resolve refines_attach refines_recover)

section \<open>Sequences of operations\<close>

definition empty_ledger :: ledger where
  "empty_ledger = \<lparr> lg_entries = (\<lambda>_. None), lg_grants = (\<lambda>_. None) \<rparr>"

fun run_ledger :: "store_op list \<Rightarrow> ledger \<Rightarrow> ledger" where
  "run_ledger [] L = L"
| "run_ledger (op # ops) L = run_ledger ops (ledger_apply op L)"

lemma ledger_of_empty: "ledger_of empty_store = empty_ledger"
  by (rule ledger_eqI) (simp_all add: empty_store_def empty_ledger_def selectInvocation_def selectGrant_def)

lemma refines_run_ops:
  "store_inv s \<Longrightarrow> ops_obligation ps s \<Longrightarrow> ledger_of (run_ops ps s) = run_ledger (map snd ps) (ledger_of s)"
proof (induction ps arbitrary: s)
  case (Cons p ps)
  obtain t op where p: "p = (t, op)" by fastforce
  with Cons.prems have "store_inv (apply_op (t, op) s)" "op_obligation s op" by (auto intro: store_inv_apply_op)
  with Cons p show ?case by (simp add: refines_apply_op)
qed simp

end
