(* ===== verification/Sample_Data.thy ===== *)
theory Sample_Data
  imports Sample_Platform Mandate_Request Payments_Types Authority_Store_Reserve
begin

text \<open>
  Concrete values for the witnesses: one operation, permit, request, payment attempt and
  settlement, and the well-formedness facts about them.
\<close>

lemmas char_simps = code_def is_digit_def is_lower_def is_upper_def is_alnum_def is_segment_char_def
  is_dataset_char_def is_hex_char_def

definition sample_operation :: ExactOperation where
  "sample_operation = \<lparr> op_method = ''POST'', op_resource = ''/report'', op_operation = ''summarize'',
     op_datasetId = ''d1'' \<rparr>"

definition sample_permit :: permit_v2 where
  "sample_permit = \<lparr> pp_grantId = ''G1'', pp_issuer = ''KI'', pp_authorizedAgent = ''KA'',
     pp_service = ''svc'', pp_capability = ''cap'', pp_network = ''devnet'', pp_mint = ''M'',
     pp_recipient = ''R'', pp_maxPerCall = ''5'', pp_maxTotal = ''9'', pp_issuedAt = 1,
     pp_expiresAt = 100, pp_operation = sample_operation \<rparr>"

definition sample_digest :: string where
  "sample_digest = replicate 64 CHR ''a''"

definition sample_request :: request_v2 where
  "sample_request = \<lparr> rq_audience = ''auth'', rq_grantId = ''G1'', rq_permitDigest = sample_digest,
     rq_invocationId = ''i1'', rq_service = ''svc'', rq_capability = ''cap'', rq_network = ''devnet'',
     rq_mint = ''M'', rq_recipient = ''R'', rq_amountAtomic = ''4'', rq_issuedAt = 50,
     rq_operation = sample_operation \<rparr>"

lemma digit_val_sample [simp]:
  "digit_val CHR ''4'' = 4" "digit_val CHR ''5'' = 5" "digit_val CHR ''9'' = 9"
  by (simp_all add: digit_val_def code_def)

lemma show_nat_sample [simp]: "show_nat 4 = ''4''"
  using show_nat_dec [of "''4''"] by (simp add: is_digit_def code_def)

lemma atomic_sample [simp]: "atomic_pattern ''4''" "atomic_pattern ''5''" "atomic_pattern ''9''" "atomic_pattern ''0''"
  by (simp_all add: char_simps)

lemma wf_sample_operation [simp]: "wf_operation sample_operation"
  by (simp add: wf_operation_def sample_operation_def OPERATION_METHODS_def REPORT_OPERATIONS_def
      class_between_def char_simps)

lemma wf_sample_permit [simp]: "wf_permit_v2 sample_platform sample_permit"
  by (simp add: wf_permit_v2_def wf_permit_def sample_permit_def grant_id_pattern_def identifier_pattern_def
      class_between_def char_simps sample_platform_def SUPPORTED_NETWORKS_def MAX_U64_def
      MAX_SAFE_INTEGER_def)

lemma wf_sample_request [simp]: "wf_request_v2 sample_request"
  by (simp add: wf_request_v2_def wf_request_def sample_request_def identifier_pattern_def digest_pattern_def
      class_between_def char_simps sample_digest_def MAX_FIELD_LENGTH_def MAX_SAFE_INTEGER_def list_all_iff)

definition sample_grant_terms :: grant_terms where
  "sample_grant_terms = \<lparr> gt_issuer = ''KI'', gt_grantId = ''G1'', gt_permitDigest = sample_digest,
     gt_maxTotalAtomic = ''9'' \<rparr>"

definition sample_reserve :: reserve_input where
  "sample_reserve = \<lparr> ri_invocationId = ''i1'', ri_fingerprint = ''f1'', ri_grant = sample_grant_terms,
     ri_agent = ''KA'', ri_request = sample_request, ri_amountAtomic = ''4'', ri_decidedAt = 60,
     ri_paymentRequirement = None, ri_authorization = None \<rparr>"

definition sample_attempt :: PaymentAttempt where
  "sample_attempt = \<lparr> at_protocol = ''x402'', at_scheme = ''exact'',
     at_settlementProfile = ''solana-payment-sandbox'', at_network = ''n'', at_payer = ''KP'',
     at_payerSignature = ''ps'', at_feePayer = ''F'', at_asset = ''M'', at_payTo = ''R'',
     at_amountAtomic = ''4'', at_blockhash = ''b'', at_lastValidBlockHeight = ''9'',
     at_resourceUrl = ''/report'', at_requestSha256 = sample_digest, at_transactionBase64 = None,
     at_preparedAt = 61 \<rparr>"

definition sample_payment :: confirm_payment where
  "sample_payment = \<lparr> cp_transactionId = ''tx'', cp_settledAt = 62, cp_settlement = None, cp_result = None \<rparr>"

text \<open>Reserve, record the attempt, confirm: the invocation ends CONFIRMED with 4 of 9 consumed.\<close>

definition sample_ops :: "(int \<times> store_op) list" where
  "sample_ops = [(60, OpReserve sample_reserve (\<lambda>_. BudgetAllowed)), (61, OpRecordAttempt ''i1'' sample_attempt None),
     (62, OpConfirm ''i1'' sample_payment)]"

lemma sample_obligation: "ops_obligation sample_ops empty_store"
  by (simp add: sample_ops_def retry_same_grant_def sample_reserve_def empty_store_def selectInvocation_def)

text \<open>After the first operation alone, and after all three.\<close>

definition reserved_store :: store where
  "reserved_store = run_ops (take 1 sample_ops) empty_store"

definition confirmed_store :: store where
  "confirmed_store = run_ops sample_ops empty_store"

lemma take_1_obligation: "ops_obligation (take 1 sample_ops) empty_store"
  using sample_obligation by (simp add: sample_ops_def)

lemma sample_stores_inv: "store_inv reserved_store" "store_inv confirmed_store"
  unfolding reserved_store_def confirmed_store_def
  by (rule store_inv_run_ops [OF store_inv_empty] take_1_obligation sample_obligation)+

lemmas store_run_simps = reserve_def transaction_def reserve_grant_def insertGrant_def requireGrant_def
  reserve_decide_def writeDecision_def insertInvocation_def recordTransition_def requireInvocation_def
  selectInvocation_def selectGrant_def updateGrantAmounts_def grant_check_def invocation_check_def
  atomicCheck_iff

lemma reserved_row: "selectInvocation reserved_store ''i1'' = Some (new_row sample_reserve RESERVED [] 60)"
  by (simp add: reserved_store_def sample_ops_def store_run_simps empty_store_def sample_reserve_def
      sample_grant_terms_def MAX_U64_def show_nat.simps digit_char_def new_row_def joined_codes_def code_def
      is_digit_def)

lemma state_recorded:
  "\<exists>i. selectInvocation (run_ops (take 2 sample_ops) empty_store) ''i1'' = Some i \<and> inv_state i = RESERVED"
proof -
  have "run_ops (take 2 sample_ops) empty_store
      = snd (recordPaymentAttempt ''i1'' sample_attempt None 61 reserved_store)"
    by (simp add: reserved_store_def sample_ops_def numeral_2_eq_2)
  also have "selectInvocation \<dots> ''i1'' = Some (with_attempt sample_attempt None 61 (new_row sample_reserve RESERVED [] 60))"
    using reserved_row by (simp add: recordPaymentAttempt_ok [OF sample_stores_inv(1)] selectInvocation_set_row)
  finally show ?thesis by simp
qed

lemma confirmed_row: "\<exists>i. selectInvocation confirmed_store ''i1'' = Some i \<and> inv_state i = CONFIRMED"
proof -
  let ?s = "run_ops (take 2 sample_ops) empty_store"
  obtain i where i: "selectInvocation ?s ''i1'' = Some i" "inv_state i = RESERVED"
    using state_recorded by blast
  have "ops_obligation (take 2 sample_ops) empty_store"
    using sample_obligation by (simp add: sample_ops_def numeral_2_eq_2)
  then have "store_inv ?s" by (rule store_inv_run_ops [OF store_inv_empty])
  then have "selectInvocation (snd (confirm ''i1'' sample_payment 62 ?s)) ''i1'' = Some (confirmed_by sample_payment 62 i)"
    using i by (simp add: confirm_ok selectInvocation_set_row)
  moreover have "confirmed_store = snd (confirm ''i1'' sample_payment 62 ?s)"
    by (simp add: confirmed_store_def sample_ops_def numeral_2_eq_2)
  ultimately show ?thesis by simp
qed

end
