(* ===== verification/Store_Properties.thy ===== *)
theory Store_Properties
  imports Authority_Ledger Sample_Data
begin

text \<open>
  Properties of the durable store, over arbitrary sequences of its operations from the empty
  database, and of single operations.
\<close>

lemma total_for_filter:
  "total_for held_amount (a, b) rows =
     sum_list (map (\<lambda>i. dec (inv_amountAtomic i)) (filter (\<lambda>i. inv_issuer i = a \<and> inv_grantId i = b
       \<and> inv_state i \<in> {RESERVED, RECONCILIATION_REQUIRED}) rows))"
  "total_for spent_amount (a, b) rows =
     sum_list (map (\<lambda>i. dec (inv_amountAtomic i)) (filter (\<lambda>i. inv_issuer i = a \<and> inv_grantId i = b
       \<and> inv_state i = CONFIRMED) rows))"
  by (induction rows) (auto simp: total_for_def held_amount_def spent_amount_def inv_key_def)

text \<open>Within the total, whatever runs: a good grant list has one row per grant, and in each row
  reserved and consumed stay within the total.  Unlike \<open>store_inv\<close>, this needs nothing of the
  operations: it does not say which invocations the two amounts come from.\<close>

definition within_total :: "store \<Rightarrow> bool" where
  "within_total s \<longleftrightarrow> distinct (map gr_key (st_grants s))
     \<and> (\<forall>g \<in> set (st_grants s). dec (gr_reservedAtomic g) + dec (gr_consumedAtomic g) \<le> dec (gr_maxTotalAtomic g))"

lemma within_total_cong: "st_grants s' = st_grants s \<Longrightarrow> within_total s' = within_total s"
  by (simp add: within_total_def)

lemma within_total_amounts:
  assumes "within_total s" "g \<in> set (st_grants s)"
    and "updateGrantAmounts r c now (gr_issuer g) (gr_grantId g) s = Inr s'"
    and "dec r + dec c \<le> dec (gr_maxTotalAtomic g)"
  shows "within_total s'"
proof -
  have s': "s' = set_amounts (gr_key g) r c now s"
    using assms(3) by (auto simp: updateGrantAmounts_def Let_def set_amounts_def gr_key_def split: if_splits)
  have same: "h = g" if "h \<in> set (st_grants s)" "gr_key h = gr_key g" for h
    using that assms(1,2) by (metis distinct_grant_eq within_total_def)
  show ?thesis
    using assms(1,4) unfolding within_total_def s' grant_key_set_amounts
    by (force simp: set_amounts_def dest: same)
qed

lemma within_total_rows:
  "update_invocations P f s = Inr (n, s') \<Longrightarrow> within_total s' = within_total s"
  "expectOneChange (update_invocations P f s) = Inr s' \<Longrightarrow> within_total s' = within_total s"
  "recordTransition x a b r t s = Inr s' \<Longrightarrow> within_total s' = within_total s"
  "insertInvocation i s = Inr s' \<Longrightarrow> within_total s' = within_total s"
  by (auto simp: update_invocations_def expectOneChange_def recordTransition_def insertInvocation_def
      intro!: within_total_cong split: if_splits)

lemma within_total_moves:
  "transitionState x a b r t s = Inr s' \<Longrightarrow> within_total s' = within_total s"
  "writeDecision p e st codes t s = Inr s' \<Longrightarrow> within_total s' = within_total s"
  by (auto simp: transitionState_def writeDecision_def sbind_Inr_iff within_total_rows split: option.splits)

lemma requireGrant_Inr: "requireGrant s a b = Inr g \<Longrightarrow> g \<in> set (st_grants s)"
  by (auto simp: requireGrant_def split: option.splits dest: selectGrant_Some)

lemma within_total_release:
  assumes "within_total s"
  shows "releaseReservation i t s = Inr s' \<Longrightarrow> within_total s'"
    and "consumeReservation i t s = Inr s' \<Longrightarrow> within_total s'"
proof -
  have ok: "dec (gr_reservedAtomic g) + dec (gr_consumedAtomic g) \<le> dec (gr_maxTotalAtomic g)"
    if "g \<in> set (st_grants s)" for g using assms that by (simp add: within_total_def)
  show "within_total s'" if "releaseReservation i t s = Inr s'"
    using that by (auto simp: releaseReservation_def Let_def sbind_Inr_iff split: if_splits
        dest!: requireGrant_Inr intro!: within_total_amounts [OF assms] dest: ok)
  show "within_total s'" if "consumeReservation i t s = Inr s'"
    using that by (auto simp: consumeReservation_def Let_def sbind_Inr_iff split: if_splits
        dest!: requireGrant_Inr intro!: within_total_amounts [OF assms] dest: ok)
qed

lemma within_total_reserve:
  assumes "within_total s" shows "within_total (snd (reserve p e t s))"
proof (cases "fst (reserve p e t s)")
  case (Inl err)
  then show ?thesis using assms reserve_Inl by (metis prod.collapse)
next
  case (Inr res)
  have grant: "within_total s1 \<and> g \<in> set (st_grants s1)" if r: "reserve_grant p t s = Inr (g, s1)" for g s1
  proof (cases "selectGrant s (gt_issuer (ri_grant p)) (gt_grantId (ri_grant p))")
    case None
    then have "gr_key n \<notin> gr_key ` set (st_grants s)"
      if "gr_issuer n = gt_issuer (ri_grant p)" "gr_grantId n = gt_grantId (ri_grant p)" for n
      using that by (simp add: selectGrant_None gr_key_def)
    with None r assms show ?thesis
      by (auto simp: reserve_grant_def Let_def sbind_Inr_iff insertGrant_def within_total_def
          split: if_splits dest!: requireGrant_Inr)
  next
    case (Some h)
    with r assms show ?thesis by (auto simp: reserve_grant_def Let_def dest: selectGrant_Some)
  qed
  have decide: "within_total s2" if r: "reserve_decide p e ex t g s1 = Inr (res, s2)"
      and s1: "within_total s1" "g \<in> set (st_grants s1)" for ex g s1 s2
    using r s1(1) by (auto simp: reserve_decide_def Let_def sbind_Inr_iff not_less ac_simps
        split: budget_decision.splits if_splits dest!: within_total_moves within_total_amounts [OF s1])
  from Inr obtain s2 where "reserve p e t s = (Inr res, s2)" by (metis prod.collapse)
  then show ?thesis
    using assms by (auto simp: reserve_def transaction_def Let_def sbind_Inr_iff
        split: option.splits if_splits sum.splits dest: grant decide)
qed

lemma within_total_recover_rows:
  "within_total s \<Longrightarrow> recover_rows r t rows res s = Inr (res', s') \<Longrightarrow> within_total s'"
proof (induction rows arbitrary: s res)
  case (Cons row rows)
  then show ?case
    by (cases row) (auto simp: sbind_Inr_iff split: if_splits
        dest!: within_total_moves dest: within_total_release)
qed simp

lemma within_total_transaction:
  assumes "within_total s" "\<And>a s'. body s = Inr (a, s') \<Longrightarrow> within_total s'"
  shows "within_total (snd (transaction body s))"
  using assms by (auto simp: transaction_def split: sum.split)

lemma within_total_apply_op:
  assumes "within_total s" shows "within_total (apply_op (t, p) s)"
proof (cases p)
  case (OpReserve i e)
  then show ?thesis using within_total_reserve [OF assms] by simp
next
  case (OpResolve x out)
  then show ?thesis
    by (cases out) (auto simp: resolveReconciliation_def sbind_Inr_iff Let_def
        intro!: within_total_transaction [OF assms] dest: within_total_release [OF assms]
        dest!: within_total_rows within_total_moves)
qed (auto simp: recordPaymentAttempt_def confirm_def fail_def markReconciliationRequired_def attachReceipt_def
      recoverInterruptedInvocations_def sbind_Inr_iff assms
      intro!: within_total_transaction [OF assms] split: if_splits option.splits
      dest!: within_total_rows within_total_moves
      dest: within_total_release [OF assms] within_total_recover_rows [OF assms])

lemma within_total_run_ops: "within_total s \<Longrightarrow> within_total (run_ops ps s)"
  by (induction ps arbitrary: s) (auto simp: within_total_apply_op)

text \<open>C1. Whatever operations run, in whatever order, on an initially empty database, no grant's
  reserved and consumed amounts ever exceed together the total the permit delegated.  If moreover
  every retry of a FAILED invocation named the grant its row was created under (the store does not
  check this: it recognises a retry by the fingerprint, in which the authority includes the grant id
  and the permit digest), the reserved amount is the sum over the grant's RESERVED and
  RECONCILIATION_REQUIRED invocations, and the consumed amount the sum over its CONFIRMED ones.\<close>

theorem grant_budget_never_exceeded:
  assumes "selectGrant (run_ops ps empty_store) a b = Some g"
  shows "dec (gr_reservedAtomic g) + dec (gr_consumedAtomic g) \<le> dec (gr_maxTotalAtomic g)
    \<and> (ops_obligation ps empty_store \<longrightarrow>
         dec (gr_reservedAtomic g) = sum_list (map (\<lambda>i. dec (inv_amountAtomic i))
           (filter (\<lambda>i. inv_issuer i = a \<and> inv_grantId i = b
              \<and> inv_state i \<in> {RESERVED, RECONCILIATION_REQUIRED}) (st_invocations (run_ops ps empty_store))))
       \<and> dec (gr_consumedAtomic g) = sum_list (map (\<lambda>i. dec (inv_amountAtomic i))
           (filter (\<lambda>i. inv_issuer i = a \<and> inv_grantId i = b \<and> inv_state i = CONFIRMED)
              (st_invocations (run_ops ps empty_store)))))"
proof (intro conjI impI)
  have g: "g \<in> set (st_grants (run_ops ps empty_store))" "gr_key g = (a, b)"
    using selectGrant_Some [OF assms] by blast+
  have "within_total (run_ops ps empty_store)"
    by (rule within_total_run_ops) (simp add: within_total_def empty_store_def)
  with g show "dec (gr_reservedAtomic g) + dec (gr_consumedAtomic g) \<le> dec (gr_maxTotalAtomic g)"
    by (simp add: within_total_def)
  assume ob: "ops_obligation ps empty_store"
  have "grant_ok (st_invocations (run_ops ps empty_store)) g"
    using store_inv_run_ops [OF store_inv_empty ob] g(1) by (simp add: store_inv_def)
  with g(2) show "dec (gr_reservedAtomic g) = sum_list (map (\<lambda>i. dec (inv_amountAtomic i))
           (filter (\<lambda>i. inv_issuer i = a \<and> inv_grantId i = b
              \<and> inv_state i \<in> {RESERVED, RECONCILIATION_REQUIRED}) (st_invocations (run_ops ps empty_store))))"
    "dec (gr_consumedAtomic g) = sum_list (map (\<lambda>i. dec (inv_amountAtomic i))
           (filter (\<lambda>i. inv_issuer i = a \<and> inv_grantId i = b \<and> inv_state i = CONFIRMED)
              (st_invocations (run_ops ps empty_store))))"
    by (simp_all add: grant_ok_def total_for_filter)
qed

lemma reserved_grant: "selectGrant reserved_store ''KI'' ''G1'' = Some \<lparr> gr_issuer = ''KI'', gr_grantId = ''G1'',
    gr_permitDigest = sample_digest, gr_maxTotalAtomic = ''9'', gr_reservedAtomic = ''4'',
    gr_consumedAtomic = ''0'', gr_createdAt = 60, gr_updatedAt = 60 \<rparr>"
  by (simp add: reserved_store_def sample_ops_def store_run_simps empty_store_def sample_reserve_def
      sample_grant_terms_def MAX_U64_def joined_codes_def code_def is_digit_def)

theorem grant_budget_never_exceeded_witness:
  "\<exists>g. selectGrant reserved_store ''KI'' ''G1'' = Some g
     \<and> dec (gr_reservedAtomic g) + dec (gr_consumedAtomic g) \<le> dec (gr_maxTotalAtomic g)
     \<and> dec (gr_reservedAtomic g) = sum_list (map (\<lambda>i. dec (inv_amountAtomic i))
           (filter (\<lambda>i. inv_issuer i = ''KI'' \<and> inv_grantId i = ''G1''
              \<and> inv_state i \<in> {RESERVED, RECONCILIATION_REQUIRED}) (st_invocations reserved_store)))"
  using grant_budget_never_exceeded [OF reserved_grant [unfolded reserved_store_def]] take_1_obligation
    reserved_grant unfolding reserved_store_def by blast

text \<open>The log of every invocation is a path of the state machine None -> RESERVED/DENIED,
  RESERVED -> RESERVED (attempt recorded)/CONFIRMED/FAILED/RECONCILIATION_REQUIRED,
  RECONCILIATION_REQUIRED -> CONFIRMED/FAILED, FAILED -> RESERVED/DENIED, which ends in the state
  the row has; CONFIRMED and DENIED have no way out.\<close>

theorem transition_log_is_path:
  assumes "ops_obligation ps empty_store" "s = run_ops ps empty_store"
  shows "path None (filter (\<lambda>t. tr_invocationId t = x) (st_transitions s))
           (map_option inv_state (selectInvocation s x))"
  using store_inv_run_ops [OF store_inv_empty assms(1)] assms(2)
  by (simp add: store_inv_def history_ok_def history_def state_of_def)

theorem transition_log_is_path_witness:
  "path None (filter (\<lambda>t. tr_invocationId t = ''i1'') (st_transitions confirmed_store))
     (map_option inv_state (selectInvocation confirmed_store ''i1''))"
  by (rule transition_log_is_path [OF sample_obligation confirmed_store_def])

lemma ops_obligation_append:
  "ops_obligation (ps @ qs) s \<longleftrightarrow> ops_obligation ps s \<and> ops_obligation qs (run_ops ps s)"
  by (induction ps arbitrary: s) auto

text \<open>C25. A decided or settled invocation is immutable: whatever runs later, a CONFIRMED or DENIED
  row keeps its state, amount, transaction, settlement, result and every other column, except that a
  row without a receipt may get its first one.\<close>

theorem settled_rows_immutable:
  assumes "ops_obligation (ps @ qs) empty_store"
    and "selectInvocation (run_ops ps empty_store) x = Some i" "inv_state i \<in> {DENIED, CONFIRMED}"
  shows "selectInvocation (run_ops (ps @ qs) empty_store) x = Some i
    \<or> inv_receipt i = None
      \<and> (\<exists>r t. selectInvocation (run_ops (ps @ qs) empty_store) x
           = Some (i \<lparr> inv_receipt := Some r, inv_updatedAt := t \<rparr>))"
proof -
  have ob: "ops_obligation ps empty_store" "ops_obligation qs (run_ops ps empty_store)"
    using assms(1) by (simp_all add: ops_obligation_append)
  have "sqlite.reaches (run_ops ps empty_store) (run_ops (ps @ qs) empty_store)"
    unfolding run_ops_append by (rule reaches_run_ops [OF ob(2) sqlite.stay])
  from sqlite.settled_row_fixed [OF this store_inv_run_ops [OF store_inv_empty ob(1)] assms(2,3)]
  show ?thesis by (simp add: with_receipt_def)
qed

theorem settled_rows_immutable_witness:
  "\<exists>i. selectInvocation (run_ops sample_ops empty_store) ''i1'' = Some i \<and>
     (selectInvocation (run_ops (sample_ops @ [(70, OpRecover ''restart''), (71, OpFail ''i1'' ''x'')]) empty_store) ''i1'' = Some i
      \<or> (\<exists>r t. selectInvocation (run_ops (sample_ops @ [(70, OpRecover ''restart''), (71, OpFail ''i1'' ''x'')]) empty_store) ''i1''
           = Some (i \<lparr> inv_receipt := Some r, inv_updatedAt := t \<rparr>)))"
proof -
  let ?qs = "[(70, OpRecover ''restart''), (71, OpFail ''i1'' ''x'')]"
  have ob: "ops_obligation (sample_ops @ ?qs) empty_store"
    unfolding ops_obligation_append using sample_obligation by simp
  obtain i where i: "selectInvocation (run_ops sample_ops empty_store) ''i1'' = Some i" "inv_state i = CONFIRMED"
    using confirmed_row unfolding confirmed_store_def by blast
  from settled_rows_immutable [OF ob i(1)] i show ?thesis by auto
qed

text \<open>Each operation on an existing invocation succeeds in exactly one situation, and in any
  other it fails and writes nothing: confirm, fail and markReconciliationRequired need RESERVED,
  recordPaymentAttempt needs RESERVED with no attempt recorded, resolveReconciliation needs
  RECONCILIATION_REQUIRED.  In particular no amount or row constraint can make them fail half-way.\<close>

theorem operations_succeed_exactly_in_their_state:
  assumes "store_inv s"
  shows "(case confirm x pay t s of (r, s') \<Rightarrow> (isOk r \<longleftrightarrow> state_of s x = Some RESERVED) \<and> (isOk r \<or> s' = s))
    \<and> (case fail x why t s of (r, s') \<Rightarrow> (isOk r \<longleftrightarrow> state_of s x = Some RESERVED) \<and> (isOk r \<or> s' = s))
    \<and> (case markReconciliationRequired x why t s of (r, s') \<Rightarrow>
         (isOk r \<longleftrightarrow> state_of s x = Some RESERVED) \<and> (isOk r \<or> s' = s))
    \<and> (case recordPaymentAttempt x a sa t s of (r, s') \<Rightarrow>
         (isOk r \<longleftrightarrow> (\<exists>i. selectInvocation s x = Some i \<and> inv_state i = RESERVED \<and> inv_paymentAttempt i = None))
         \<and> (isOk r \<or> s' = s))
    \<and> (case resolveReconciliation x out t s of (r, s') \<Rightarrow>
         (isOk r \<longleftrightarrow> state_of s x = Some RECONCILIATION_REQUIRED) \<and> (isOk r \<or> s' = s))"
proof (intro conjI)
  note inv = assms
  show "case confirm x pay t s of (r, s') \<Rightarrow> (isOk r \<longleftrightarrow> state_of s x = Some RESERVED) \<and> (isOk r \<or> s' = s)"
    by (cases "state_of s x = Some RESERVED") (auto simp: state_of_def confirm_ok [OF inv] confirm_error)
  show "case fail x why t s of (r, s') \<Rightarrow> (isOk r \<longleftrightarrow> state_of s x = Some RESERVED) \<and> (isOk r \<or> s' = s)"
    by (cases "state_of s x = Some RESERVED") (auto simp: state_of_def fail_ok [OF inv] fail_error)
  show "case markReconciliationRequired x why t s of (r, s') \<Rightarrow>
         (isOk r \<longleftrightarrow> state_of s x = Some RESERVED) \<and> (isOk r \<or> s' = s)"
    by (cases "state_of s x = Some RESERVED")
      (auto simp: state_of_def markReconciliationRequired_ok [OF inv] markReconciliationRequired_error)
  show "case recordPaymentAttempt x a sa t s of (r, s') \<Rightarrow>
         (isOk r \<longleftrightarrow> (\<exists>i. selectInvocation s x = Some i \<and> inv_state i = RESERVED \<and> inv_paymentAttempt i = None))
         \<and> (isOk r \<or> s' = s)"
  proof (cases "\<exists>i. selectInvocation s x = Some i \<and> inv_state i = RESERVED \<and> inv_paymentAttempt i = None")
    case True
    then show ?thesis by (auto simp: recordPaymentAttempt_ok [OF inv])
  next
    case False
    then show ?thesis by (subst recordPaymentAttempt_error) auto
  qed
  show "case resolveReconciliation x out t s of (r, s') \<Rightarrow>
         (isOk r \<longleftrightarrow> state_of s x = Some RECONCILIATION_REQUIRED) \<and> (isOk r \<or> s' = s)"
    by (cases "state_of s x = Some RECONCILIATION_REQUIRED"; cases out)
      (auto simp: state_of_def resolve_confirmed_ok [OF inv] resolve_failed_ok [OF inv] resolveReconciliation_error)
qed

theorem operations_succeed_exactly_in_their_state_witness:
  "isOk (fst (confirm ''i1'' sample_payment 62 reserved_store))
   \<and> \<not> isOk (fst (resolveReconciliation ''i1'' (OutcomeFailed ''x'') 62 reserved_store))"
  using operations_succeed_exactly_in_their_state [OF sample_stores_inv(1), of "''i1''" sample_payment 62 "[]"
      sample_attempt None "OutcomeFailed ''x''"] reserved_row
  by (simp add: state_of_def split: prod.splits)

definition amounts_of :: "store \<Rightarrow> string \<times> string \<Rightarrow> (nat \<times> nat) option" where
  "amounts_of s k = map_option (\<lambda>g. (dec (gr_reservedAtomic g), dec (gr_consumedAtomic g))) (selectGrant s (fst k) (snd k))"

lemma find_map_key:
  assumes "\<And>g. gr_key (f g) = gr_key g"
  shows "find (\<lambda>g. gr_key g = k) (map f gs) = map_option f (find (\<lambda>g. gr_key g = k) gs)"
  by (induction gs) (simp_all add: assms)

lemma amounts_of_set_amounts:
  "amounts_of (set_amounts k (show_nat r) (show_nat c) n s) k' =
     (if k' = k then map_option (\<lambda>_. (r, c)) (amounts_of s k) else amounts_of s k')"
proof -
  let ?f = "\<lambda>g. if gr_key g = k then g \<lparr> gr_reservedAtomic := show_nat r, gr_consumedAtomic := show_nat c, gr_updatedAt := n \<rparr> else g"
  have f: "gr_key (?f g) = gr_key g" for g by (simp add: gr_key_def)
  have find: "find (\<lambda>g. gr_key g = (a, b)) (map ?f (st_grants s)) = map_option ?f (find (\<lambda>g. gr_key g = (a, b)) (st_grants s))"
    for a b by (rule find_map_key) (rule f)
  have key: "find P xs = Some y \<Longrightarrow> P y" for P and xs :: "grant list" and y
    by (induction xs) (auto split: if_splits)
  show ?thesis
    by (cases k'; cases "find (\<lambda>g. gr_key g = k') (st_grants s)")
      (auto simp: amounts_of_def selectGrant_key set_amounts_def find dest: key)
qed

lemma amounts_of_moves [simp]:
  "amounts_of (log_step x a b c d s) k = amounts_of s k" "amounts_of (set_row x f s) k = amounts_of s k"
  by (simp_all add: amounts_of_def selectGrant_def set_row_def log_step_def)

lemma amounts_of_released:
  assumes "store_inv s" "selectInvocation s x = Some i" "amounts_of s (inv_key i) = Some (r, c)"
  shows "amounts_of (released s i t) k = (if k = inv_key i then Some (r - dec (inv_amountAtomic i), c) else amounts_of s k)"
    and "amounts_of (consumed s i t) k = (if k = inv_key i
           then Some (r - dec (inv_amountAtomic i), c + dec (inv_amountAtomic i)) else amounts_of s k)"
    and "held_amount i \<le> r"
proof -
  have "dec (gr_reservedAtomic (grant_of s i)) = r" "dec (gr_consumedAtomic (grant_of s i)) = c"
    using assms(3) grant_of(1) [OF assms(1,2)] by (simp_all add: amounts_of_def inv_key_def)
  with assms(3) held_within_reserved [OF assms(1,2)]
  show "amounts_of (released s i t) k = (if k = inv_key i then Some (r - dec (inv_amountAtomic i), c) else amounts_of s k)"
    and "amounts_of (consumed s i t) k = (if k = inv_key i
           then Some (r - dec (inv_amountAtomic i), c + dec (inv_amountAtomic i)) else amounts_of s k)"
    and "held_amount i \<le> r"
    by (simp_all add: released_def consumed_def amounts_of_set_amounts)
qed

text \<open>A confirmation moves exactly the invocation's amount from reserved to consumed of its own
  grant, so the committed total stays the same; failing or reconciling as failed gives exactly that
  amount back; marking for reconciliation keeps it reserved.  No other grant changes.\<close>

theorem amounts_move_exactly:
  assumes "store_inv s" "selectInvocation s x = Some i" "k = (inv_issuer i, inv_grantId i)"
    and "amounts_of s k = Some (r, c)" "n = dec (inv_amountAtomic i)"
  shows "if inv_state i = RESERVED then n \<le> r
      \<and> amounts_of (snd (confirm x pay t s)) = (amounts_of s)(k \<mapsto> (r - n, c + n))
      \<and> amounts_of (snd (fail x why t s)) = (amounts_of s)(k \<mapsto> (r - n, c))
      \<and> amounts_of (snd (markReconciliationRequired x why t s)) = amounts_of s
    else if inv_state i = RECONCILIATION_REQUIRED then n \<le> r
      \<and> amounts_of (snd (resolveReconciliation x (OutcomeConfirmed settled) t s)) = (amounts_of s)(k \<mapsto> (r - n, c + n))
      \<and> amounts_of (snd (resolveReconciliation x (OutcomeFailed why) t s)) = (amounts_of s)(k \<mapsto> (r - n, c))
    else snd (confirm x pay t s) = s \<and> snd (fail x why t s) = s
      \<and> snd (markReconciliationRequired x why t s) = s \<and> snd (resolveReconciliation x out t s) = s"
proof -
  have k: "amounts_of s (inv_key i) = Some (r, c)" "inv_key i = k" using assms by (simp_all add: inv_key_def)
  note am = amounts_of_released [OF assms(1,2) k(1)]
  consider "inv_state i = RESERVED" | "inv_state i = RECONCILIATION_REQUIRED"
    | "inv_state i \<noteq> RESERVED" "inv_state i \<noteq> RECONCILIATION_REQUIRED" by blast
  then show ?thesis
  proof cases
    case 1
    then show ?thesis
      using am(3) by (simp add: confirm_ok [OF assms(1,2)] fail_ok [OF assms(1,2)]
          markReconciliationRequired_ok [OF assms(1,2)] am(1,2) k(2) assms(5) fun_eq_iff held_amount_def)
  next
    case 2
    then show ?thesis
      using am(3) by (simp add: resolve_confirmed_ok [OF assms(1,2)] resolve_failed_ok [OF assms(1,2)]
          am(1,2) k(2) assms(5) fun_eq_iff held_amount_def)
  next
    case 3
    with assms(2) have "state_of s x \<noteq> Some RESERVED" "state_of s x \<noteq> Some RECONCILIATION_REQUIRED"
      by (simp_all add: state_of_def)
    with 3 show ?thesis
      by (simp add: confirm_error fail_error markReconciliationRequired_error resolveReconciliation_error)
  qed
qed

theorem amounts_move_exactly_witness:
  "amounts_of (snd (confirm ''i1'' sample_payment 62 reserved_store)) (''KI'', ''G1'') = Some (0, 4)"
proof -
  have "amounts_of reserved_store (''KI'', ''G1'') = Some (4, 0)"
    by (simp add: amounts_of_def reserved_grant)
  from amounts_move_exactly [OF sample_stores_inv(1) reserved_row _ this refl]
  have "amounts_of (snd (confirm ''i1'' sample_payment 62 reserved_store))
      = (amounts_of reserved_store)((''KI'', ''G1'') \<mapsto> (0, 4))"
    by (subst (asm) if_P; simp add: new_row_def sample_reserve_def sample_grant_terms_def)
  then show ?thesis by simp
qed

text \<open>A reservation is granted only to an invocation id that is new or whose earlier attempt FAILED
  with the same fingerprint, only when the evaluator, shown exactly the grant's committed total, allows
  it, and only for a positive amount that fits: it raises the committed total by exactly the amount,
  within the grant's total.\<close>

theorem reserve_grants_only_what_fits:
  assumes "store_inv s" "retry_same_grant s p" "reserve p evaluate t s = (Inr (ReserveReserved i), s')"
  shows "(case selectInvocation s (ri_invocationId p) of None \<Rightarrow> True
       | Some old \<Rightarrow> inv_state old = FAILED \<and> inv_fingerprint old = ri_fingerprint p)
    \<and> evaluate (show_nat (committed_for s (input_key p))) = BudgetAllowed
    \<and> 0 < dec (ri_amountAtomic p)
    \<and> committed_for s' (input_key p) = committed_for s (input_key p) + dec (ri_amountAtomic p)
    \<and> committed_for s' (input_key p) \<le> dec (gt_maxTotalAtomic (ri_grant p))
    \<and> selectInvocation s' (ri_invocationId p) = Some i \<and> inv_state i = RESERVED \<and> inv_paymentAttempt i = None
    \<and> inv_key i = input_key p \<and> inv_amountAtomic i = ri_amountAtomic p"
  using assms
proof (cases rule: reserve_cases)
  case (decided g s1)
  let ?old = "selectInvocation s (ri_invocationId p)"
  have sel1: "selectInvocation s1 z = selectInvocation s z" for z
    by (rule reserve_grant_Inr(4) [OF assms(1) decided(4)])
  have am1: "amounts_of s1 (input_key p) = Some (dec (gr_reservedAtomic g), dec (gr_consumedAtomic g))"
    using decided(5) by (simp add: amounts_of_def input_key_def)
  have com: "committed_for u k = (case amounts_of u k of None \<Rightarrow> 0 | Some (a, b) \<Rightarrow> a + b)" for u k
    by (simp add: committed_for_def amounts_of_def split: option.split)
  have com0: "committed_for s (input_key p) = dec (gr_reservedAtomic g) + dec (gr_consumedAtomic g)"
  proof (cases "selectGrant s (gt_issuer (ri_grant p)) (gt_grantId (ri_grant p))")
    case None
    with decided(4) have "gr_reservedAtomic g = ''0''" "gr_consumedAtomic g = ''0''"
      by (auto simp: reserve_grant_def Let_def sbind_Inr_iff insertGrant_def requireGrant_def
          selectGrant_def find_append split: if_splits option.splits)
    with None show ?thesis by (simp add: committed_for_def input_key_def)
  next
    case (Some h)
    with decided(4) show ?thesis by (simp add: committed_for_def input_key_def reserve_grant_def)
  qed
  note rd = reserve_decide_Inr [OF decided(1,2,5,8,9)]
  have allowed: "evaluate (show_nat (dec (gr_reservedAtomic g) + dec (gr_consumedAtomic g))) = BudgetAllowed"
    using rd by (auto split: budget_decision.splits)
  with rd have amt: "0 < dec (ri_amountAtomic p)"
      "dec (gr_reservedAtomic g) + dec (gr_consumedAtomic g) + dec (ri_amountAtomic p) \<le> dec (gr_maxTotalAtomic g)"
    and s': "s' = decided p ?old RESERVED [] t (set_amounts (input_key p)
             (show_nat (dec (gr_reservedAtomic g) + dec (ri_amountAtomic p))) (gr_consumedAtomic g) t s1)"
    and i: "selectInvocation s' (ri_invocationId p) = Some i" by auto
  have canon: "show_nat (dec (gr_consumedAtomic g)) = gr_consumedAtomic g"
    using decided(1,5) grant_ok_bounds by (auto simp: store_inv_def show_nat_dec dest!: selectGrant_Some)
  have "amounts_of s' (input_key p) = amounts_of (set_amounts (input_key p)
      (show_nat (dec (gr_reservedAtomic g) + dec (ri_amountAtomic p))) (show_nat (dec (gr_consumedAtomic g))) t s1) (input_key p)"
    unfolding s' canon
    by (cases ?old) (simp_all add: decided_def amounts_of_def selectGrant_def)
  then have "amounts_of s' (input_key p) = Some (dec (gr_reservedAtomic g) + dec (ri_amountAtomic p), dec (gr_consumedAtomic g))"
    using am1 by (simp add: amounts_of_set_amounts)
  then have "committed_for s' (input_key p) = committed_for s (input_key p) + dec (ri_amountAtomic p)"
    unfolding com0 by (simp add: com)
  moreover have "inv_state i = RESERVED \<and> inv_paymentAttempt i = None
      \<and> inv_key i = input_key p \<and> inv_amountAtomic i = ri_amountAtomic p"
  proof -
    have "retry_or_new (set_amounts k a b n s1) p ?old" for k a b n
      using decided(2) by (simp add: retry_or_new_def)
    from selectInvocation_decided [OF this] i show ?thesis
      unfolding s' by (cases ?old) (auto simp: decided(8))
  qed
  ultimately show ?thesis
    using decided(2,3,7) allowed amt com0 i sel1
    by (auto simp: retry_or_new_def split: option.split)
qed simp_all

theorem reserve_grants_only_what_fits_witness:
  "\<exists>i s'. reserve sample_reserve (\<lambda>_. BudgetAllowed) 60 empty_store = (Inr (ReserveReserved i), s')
     \<and> committed_for s' (''KI'', ''G1'') = 4"
proof -
  have ob: "retry_same_grant empty_store sample_reserve"
    using sample_obligation by (simp add: sample_ops_def)
  have "\<exists>i. fst (reserve sample_reserve (\<lambda>_. BudgetAllowed) 60 empty_store) = Inr (ReserveReserved i)"
    by (simp add: store_run_simps empty_store_def sample_reserve_def
      sample_grant_terms_def MAX_U64_def joined_codes_def code_def is_digit_def)
  then obtain i s' where r: "reserve sample_reserve (\<lambda>_. BudgetAllowed) 60 empty_store = (Inr (ReserveReserved i), s')"
    by (metis prod.collapse)
  from reserve_grants_only_what_fits [OF store_inv_empty ob r]
  have "committed_for s' (''KI'', ''G1'') = 4"
    by (simp add: input_key_def sample_reserve_def sample_grant_terms_def committed_for_def empty_store_def
        selectGrant_def)
  with r show ?thesis by blast
qed

text \<open>C28. Startup recovery always succeeds and leaves no invocation RESERVED: with a recorded attempt it
  becomes RECONCILIATION_REQUIRED (its amount stays committed), without one FAILED (released), and every
  other invocation keeps its row; the two reported lists are exactly those two groups.\<close>

theorem recovery_resolves_every_reservation:
  assumes "store_inv s"
  shows "\<exists>res s'. recoverInterruptedInvocations reason t s = (Inr res, s') \<and> store_inv s'
    \<and> (\<forall>x. state_of s' x \<noteq> Some RESERVED)
    \<and> (\<forall>x i. selectInvocation s x = Some i \<longrightarrow>
         (if inv_state i = RESERVED
          then state_of s' x = Some (if inv_paymentAttempt i = None then FAILED else RECONCILIATION_REQUIRED)
            \<and> (if inv_paymentAttempt i = None then x \<in> set (rr_releasedNeverSubmitted res)
               else x \<in> set (rr_reconciliationRequired res))
          else selectInvocation s' x = Some i))"
proof -
  obtain res s' where r: "recoverInterruptedInvocations reason t s = (Inr res, s')" "store_inv s'"
    and lists: "rr_reconciliationRequired res = map fst (filter snd (selectReserved s))"
      "rr_releasedNeverSubmitted res = map fst (filter (\<lambda>r. \<not> snd r) (selectReserved s))"
    and st: "\<forall>y. state_of s' y = (case selectInvocation s y of None \<Rightarrow> None
         | Some i \<Rightarrow> Some (if inv_state i = RESERVED then recovered (inv_paymentAttempt i \<noteq> None) else inv_state i))"
    and keep: "\<forall>y. state_of s y \<noteq> Some RESERVED \<longrightarrow> selectInvocation s' y = selectInvocation s y"
    using recover_ok [OF assms, of reason t] by blast
  have reserved: "(x, inv_paymentAttempt i \<noteq> None) \<in> set (selectReserved s)"
    if "selectInvocation s x = Some i" "inv_state i = RESERVED" for x i
    using selectReserved_rows(3) [OF store_inv_keys [OF assms], of x] that by (auto dest: map_of_SomeD)
  then have rel: "x \<in> set (rr_releasedNeverSubmitted res)"
      if "selectInvocation s x = Some i" "inv_state i = RESERVED" "inv_paymentAttempt i = None" for x i
    using that unfolding lists by force
  have rec: "x \<in> set (rr_reconciliationRequired res)"
      if "selectInvocation s x = Some i" "inv_state i = RESERVED" "inv_paymentAttempt i \<noteq> None" for x i
    using reserved [OF that(1,2)] that(3) unfolding lists by force
  show ?thesis
  proof (intro exI [of _ res] exI [of _ s'] conjI allI impI)
    show "recoverInterruptedInvocations reason t s = (Inr res, s')" "store_inv s'" by (rule r)+
    show "state_of s' x \<noteq> Some RESERVED" for x
      using st by (auto simp: recovered_def split: option.splits)
    show "if inv_state i = RESERVED
          then state_of s' x = Some (if inv_paymentAttempt i = None then FAILED else RECONCILIATION_REQUIRED)
            \<and> (if inv_paymentAttempt i = None then x \<in> set (rr_releasedNeverSubmitted res)
               else x \<in> set (rr_reconciliationRequired res))
          else selectInvocation s' x = Some i" if "selectInvocation s x = Some i" for x i
    proof (cases "inv_state i = RESERVED")
      case True
      with that st rel rec show ?thesis by (simp add: recovered_def)
    next
      case False
      with that keep show ?thesis by (simp add: state_of_def)
    qed
  qed
qed

theorem recovery_resolves_every_reservation_witness:
  "state_of (snd (recoverInterruptedInvocations ''restart'' 70 reserved_store)) ''i1'' = Some FAILED"
  using recovery_resolves_every_reservation [OF sample_stores_inv(1), of "''restart''" 70] reserved_row by auto

text \<open>The first receipt wins: attaching a receipt to a decided or confirmed invocation without one
  stores it, and whenever a receipt is there already that one is returned and nothing changes; any
  other invocation takes no receipt.\<close>

theorem first_receipt_wins:
  assumes "store_inv s"
  shows "case attachReceipt x r t s of
      (Inr stored, s') \<Rightarrow> (case selectInvocation s x of None \<Rightarrow> False | Some i \<Rightarrow>
        (case inv_receipt i of Some old \<Rightarrow> stored = old \<and> s' = s
         | None \<Rightarrow> inv_state i \<in> {DENIED, CONFIRMED} \<and> stored = r
             \<and> selectInvocation s' x = Some (i \<lparr> inv_receipt := Some r, inv_updatedAt := t \<rparr>)))
    | (Inl e, s') \<Rightarrow> s' = s \<and> (case selectInvocation s x of None \<Rightarrow> e = InvocationMissing
        | Some i \<Rightarrow> inv_receipt i = None \<and> inv_state i \<notin> {DENIED, CONFIRMED})"
proof (cases "\<exists>i. selectInvocation s x = Some i \<and> inv_state i \<in> {DENIED, CONFIRMED} \<and> inv_receipt i = None")
  case True
  then obtain i where i: "selectInvocation s x = Some i" "inv_state i \<in> {DENIED, CONFIRMED}" "inv_receipt i = None"
    by blast
  with attachReceipt_new [OF assms i] show ?thesis
    by (simp add: selectInvocation_set_row with_receipt_def)
next
  case False
  then have "attachReceipt x r t s = (case selectInvocation s x of
      None \<Rightarrow> (Inl InvocationMissing, s)
    | Some i \<Rightarrow> (case inv_receipt i of None \<Rightarrow> (Inl InvalidStateTransition, s) | Some r' \<Rightarrow> (Inr r', s)))"
    by (intro attachReceipt_other [OF assms]) auto
  with False show ?thesis by (auto split: option.splits)
qed

theorem first_receipt_wins_witness:
  "\<forall>r. \<not> isOk (fst (attachReceipt ''i1'' r 63 reserved_store))"
proof
  fix r
  show "\<not> isOk (fst (attachReceipt ''i1'' r 63 reserved_store))"
    using first_receipt_wins [OF sample_stores_inv(1), of "''i1''" r 63] reserved_row
    by (cases "attachReceipt ''i1'' r 63 reserved_store"; cases "fst (attachReceipt ''i1'' r 63 reserved_store)")
      (auto simp: new_row_def)
qed

lemma committed_for_amounts:
  "committed_for s k = (case amounts_of s k of None \<Rightarrow> 0 | Some (r, c) \<Rightarrow> r + c)"
  by (simp add: committed_for_def amounts_of_def split: option.split)

lemma committed_for_moves [simp]:
  "committed_for (log_step x a b c d s) k = committed_for s k" "committed_for (set_row x f s) k = committed_for s k"
  by (simp_all add: committed_for_amounts)

lemma committed_for_released:
  assumes "store_inv s" "selectInvocation s x = Some i" "inv_state i = RESERVED"
  shows "committed_for (released s i t) (inv_key i) + dec (inv_amountAtomic i) = committed_for s (inv_key i)"
proof -
  obtain r c where rc: "amounts_of s (inv_key i) = Some (r, c)"
    using grant_of(1) [OF assms(1,2)] by (simp add: amounts_of_def inv_key_def)
  from amounts_of_released [OF assms(1,2) rc] assms(3) rc show ?thesis
    by (simp add: committed_for_amounts held_amount_def)
qed

text \<open>C40. Recovery by one process does not fence a reservation that another process still holds.
  Take any RESERVED invocation without a recorded attempt in a store that satisfies the invariant, and
  let recovery release it.  Then the holder's recordPaymentAttempt fails, as the store's interface
  promises.  But once the same invocation has been retried under the same grant and is RESERVED again,
  the stale holder's recordPaymentAttempt succeeds (so that it transmits), the retry's own one fails,
  and the retry's \<open>fail\<close> then succeeds: it releases the amount the retry had reserved and leaves the row
  FAILED, to be retried once more, although the payment of the recorded attempt is under way.\<close>

theorem recovery_does_not_fence_retried_reservation:
  assumes "store_inv s" "selectInvocation s x = Some i" "inv_state i = RESERVED" "inv_paymentAttempt i = None"
    and "s2 = snd (recoverInterruptedInvocations why t2 s)"
    and "reserve p evaluate t3 s2 = (Inr (ReserveReserved j), s3)" "ri_invocationId p = x"
    and "k = (inv_issuer i, inv_grantId i)" "k = (gt_issuer (ri_grant p), gt_grantId (ri_grant p))"
    and "s4 = snd (recordPaymentAttempt x a sa t4 s3)" "s5 = snd (fail x r t5 s4)"
  shows "\<not> isOk (fst (recordPaymentAttempt x a sa t4 s2))
    \<and> isOk (fst (recordPaymentAttempt x a sa t4 s3))
    \<and> \<not> isOk (fst (recordPaymentAttempt x b sb t5 s4))
    \<and> isOk (fst (fail x r t5 s4))
    \<and> (\<exists>row. selectInvocation s5 x = Some row \<and> inv_state row = FAILED \<and> inv_paymentAttempt row = Some a)
    \<and> committed_for s3 k = committed_for s2 k + dec (ri_amountAtomic p)
    \<and> committed_for s5 k = committed_for s2 k"
proof -
  have inv2: "store_inv s2" and st2: "state_of s2 x = Some FAILED"
    and facts: "map_option row_facts (selectInvocation s2 x) = map_option row_facts (selectInvocation s x)"
    using recover_ok [OF assms(1), of why t2] assms(2-4) unfolding assms(5) by (force simp: recovered_def)+
  have key: "retry_same_grant s2 p"
    using facts assms(2,7,8,9) by (auto simp: retry_same_grant_def row_facts_def inv_key_def input_key_def split: option.split)
  from reserve_grants_only_what_fits [OF inv2 key assms(6)] assms(7,9)
  have j: "selectInvocation s3 x = Some j" "inv_state j = RESERVED" "inv_paymentAttempt j = None"
    "inv_key j = k" "inv_amountAtomic j = ri_amountAtomic p"
    and com3: "committed_for s3 k = committed_for s2 k + dec (ri_amountAtomic p)"
    by (auto simp: input_key_def)
  have inv3: "store_inv s3" using store_inv_reserve [OF inv2 key, of evaluate t3] assms(6) by simp
  note attempted = recordPaymentAttempt_ok [OF inv3 j(1-3), of a sa t4]
  have inv4: "store_inv s4" unfolding assms(10) by (rule store_inv_recordPaymentAttempt [OF inv3])
  have row4: "selectInvocation s4 x = Some (with_attempt a sa t4 j)"
    unfolding assms(10) attempted using j(1) by (simp add: selectInvocation_set_row)
  note failed = fail_ok [OF inv4 row4, of r t5]
  have com4: "committed_for s4 k = committed_for s3 k" unfolding assms(10) attempted by simp
  have fenced: "\<not> isOk (fst (recordPaymentAttempt x a sa t4 s2))"
    using st2 by (subst recordPaymentAttempt_error) (auto simp: state_of_def)
  have second: "\<not> isOk (fst (recordPaymentAttempt x b sb t5 s4))"
    using row4 by (subst recordPaymentAttempt_error) auto
  have row5: "selectInvocation s5 x = Some (moved_to FAILED r t5 (with_attempt a sa t4 j))"
    unfolding assms(11) using failed j(2) row4 by (simp add: selectInvocation_set_row)
  have "committed_for s5 k = committed_for (released s4 (with_attempt a sa t4 j) t5) k"
    unfolding assms(11) using failed j(2) by simp
  with committed_for_released [OF inv4 row4, of t5] j(2,4,5) com3 com4
  have "committed_for s5 k = committed_for s2 k" by simp
  with fenced second row5 com3 attempted failed j(2) show ?thesis
    by (auto simp: moved_to_def with_attempt_def)
qed

lemma show_nat_zero: "show_nat 0 = ''0''"
  by (simp add: digit_char_def)

theorem recovery_does_not_fence_retried_reservation_witness:
  "\<exists>s2 s3. s2 = snd (recoverInterruptedInvocations ''restart'' 70 reserved_store)
     \<and> s3 = snd (reserve sample_reserve (\<lambda>_. BudgetAllowed) 71 s2)
     \<and> \<not> isOk (fst (recordPaymentAttempt ''i1'' sample_attempt None 72 s2))
     \<and> isOk (fst (recordPaymentAttempt ''i1'' sample_attempt None 72 s3))
     \<and> (\<exists>s4. s4 = snd (recordPaymentAttempt ''i1'' sample_attempt None 72 s3)
          \<and> \<not> isOk (fst (recordPaymentAttempt ''i1'' sample_attempt None 74 s4))
          \<and> isOk (fst (fail ''i1'' ''PAYMENT_NOT_SUBMITTED'' 74 s4)))"
proof -
  define s2 where "s2 = snd (recoverInterruptedInvocations ''restart'' 70 reserved_store)"
  have "\<exists>j s3. reserve sample_reserve (\<lambda>_. BudgetAllowed) 71 s2 = (Inr (ReserveReserved j), s3)"
    by (simp add: s2_def reserved_store_def sample_ops_def store_run_simps empty_store_def sample_reserve_def
      sample_grant_terms_def MAX_U64_def show_nat_zero new_row_def joined_codes_def code_def is_digit_def
      recoverInterruptedInvocations_def selectReserved_def releaseReservation_def transitionState_def
      expectOneChange_def update_invocations_def)
  then obtain j s3 where s3: "reserve sample_reserve (\<lambda>_. BudgetAllowed) 71 s2 = (Inr (ReserveReserved j), s3)"
    by blast
  have ids: "ri_invocationId sample_reserve = ''i1''" "(''KI'', ''G1'') = (gt_issuer (ri_grant sample_reserve),
      gt_grantId (ri_grant sample_reserve))" "(''KI'', ''G1'') = (inv_issuer (new_row sample_reserve RESERVED [] 60),
      inv_grantId (new_row sample_reserve RESERVED [] 60))"
    by (simp_all add: sample_reserve_def sample_grant_terms_def)
  from recovery_does_not_fence_retried_reservation [OF sample_stores_inv(1) reserved_row _ _ s2_def s3 ids(1,3,2) refl refl,
      of sample_attempt None 72 sample_attempt None 74 "''PAYMENT_NOT_SUBMITTED''"]
  show ?thesis unfolding s2_def [symmetric] using s3 by auto
qed

text \<open>C10. The store implements an abstract ledger that keeps no counters at all.  Whatever sequence of
  operations runs on an initially empty database (a retried FAILED invocation naming the grant it was
  created under), the ledger read off the resulting store is the one the abstract operations compute, step
  by step, from the empty ledger: every operation has exactly the outcome its specification gives, for
  every input.  The two running counters of a grant are the sums over its entries.\<close>

theorem store_refines_ledger:
  assumes "ops_obligation ps empty_store"
  shows "ledger_of (run_ops ps empty_store) = run_ledger (map snd ps) empty_ledger
    \<and> (case selectGrant (run_ops ps empty_store) issuer grantId of
         None \<Rightarrow> ledger_held (run_ledger (map snd ps) empty_ledger) (issuer, grantId) = 0
       | Some g \<Rightarrow> dec (gr_reservedAtomic g) = ledger_held (run_ledger (map snd ps) empty_ledger) (issuer, grantId)
           \<and> dec (gr_consumedAtomic g) = ledger_spent (run_ledger (map snd ps) empty_ledger) (issuer, grantId))"
proof -
  have L: "ledger_of (run_ops ps empty_store) = run_ledger (map snd ps) empty_ledger"
    using refines_run_ops [OF store_inv_empty assms] by (simp add: ledger_of_empty)
  have inv: "store_inv (run_ops ps empty_store)" by (rule store_inv_run_ops [OF store_inv_empty assms])
  show ?thesis
    using counters_are_sums [OF inv, of issuer grantId] no_grant_no_sums [OF inv, of issuer grantId]
    unfolding L by (simp split: option.split)
qed

theorem store_refines_ledger_witness:
  "map_option le_state (lg_entries (run_ledger (map snd sample_ops) empty_ledger) ''i1'') = Some CONFIRMED"
proof -
  obtain i where "selectInvocation (run_ops sample_ops empty_store) ''i1'' = Some i" "inv_state i = CONFIRMED"
    using confirmed_row by (auto simp: confirmed_store_def)
  then have "map_option le_state (lg_entries (ledger_of (run_ops sample_ops empty_store)) ''i1'') = Some CONFIRMED"
    by simp
  then show ?thesis using store_refines_ledger [OF sample_obligation, of "''KI''" "''G1''"] by metis
qed

end
