(* ===== verification/Policy.thy ===== *)
theory Policy
  imports Mandate_Permit
begin

text \<open>
  packages/policy: the two decisions the authority takes on already verified inputs.  A decision
  is its flag and its reason codes in the order the code pushes them; the diagnostic texts that
  accompany the codes are left out.  \<open>clock\<close> is the time
  \<open>Date.now()\<close> would return, used when the request names no time.
\<close>

datatype OperationReasonCode =
    OPERATION_METHOD_MISMATCH
  | OPERATION_RESOURCE_MISMATCH
  | OPERATION_NOT_AUTHORIZED
  | OPERATION_ARGUMENT_NOT_AUTHORIZED

datatype PurchasePermitReasonCode =
    PERMIT_EXPIRED | SERVICE_MISMATCH | CAPABILITY_MISMATCH | NETWORK_MISMATCH | MINT_MISMATCH
  | RECIPIENT_MISMATCH | INVALID_AMOUNT | PER_CALL_LIMIT_EXCEEDED | TOTAL_BUDGET_EXCEEDED

record 'c decision =
  dc_allowed :: bool
  dc_reasonCodes :: "'c list"

record purchase_request =
  pr_service :: string
  pr_capability :: string
  pr_network :: string
  pr_mint :: string
  pr_recipient :: string
  pr_amountAtomic :: string
  pr_alreadySpentAtomic :: string
  pr_now :: "int option"

definition deny_if :: "bool \<Rightarrow> 'c \<Rightarrow> 'c list \<Rightarrow> 'c list" where
  "deny_if b c codes = (if b then codes @ [c] else codes)"

definition evaluateExactOperation :: "ExactOperation \<Rightarrow> ExactOperation \<Rightarrow> OperationReasonCode decision" where
  "evaluateExactOperation permitted requested =
     (let c0 = [];
          c1 = deny_if (op_method requested \<noteq> op_method permitted) OPERATION_METHOD_MISMATCH c0;
          c2 = deny_if (op_resource requested \<noteq> op_resource permitted) OPERATION_RESOURCE_MISMATCH c1;
          c3 = deny_if (op_operation requested \<noteq> op_operation permitted) OPERATION_NOT_AUTHORIZED c2;
          c4 = deny_if (op_datasetId requested \<noteq> op_datasetId permitted) OPERATION_ARGUMENT_NOT_AUTHORIZED c3
      in \<lparr> dc_allowed = (length c4 = 0), dc_reasonCodes = c4 \<rparr>)"

definition evaluatePurchasePermit ::
  "int \<Rightarrow> 'a permit_v1_scheme \<Rightarrow> purchase_request \<Rightarrow> PurchasePermitReasonCode decision" where
  "evaluatePurchasePermit clock permit request =
     (let now = (case pr_now request of Some t \<Rightarrow> t | None \<Rightarrow> clock);
          c0 = [];
          c1 = deny_if (now > pp_expiresAt permit) PERMIT_EXPIRED c0;
          c2 = deny_if (pr_service request \<noteq> pp_service permit) SERVICE_MISMATCH c1;
          c3 = deny_if (pr_capability request \<noteq> pp_capability permit) CAPABILITY_MISMATCH c2;
          c4 = deny_if (pr_network request \<noteq> pp_network permit) NETWORK_MISMATCH c3;
          c5 = deny_if (pr_mint request \<noteq> pp_mint permit) MINT_MISMATCH c4;
          c6 = deny_if (pr_recipient request \<noteq> pp_recipient permit) RECIPIENT_MISMATCH c5
      in if \<not> atomic_pattern (pr_amountAtomic request) \<or> \<not> atomic_pattern (pr_alreadySpentAtomic request)
         then \<lparr> dc_allowed = False, dc_reasonCodes = c6 @ [PurchasePermitReasonCode.INVALID_AMOUNT] \<rparr>
         else let amount = dec (pr_amountAtomic request) in
           if amount \<le> 0
           then \<lparr> dc_allowed = False, dc_reasonCodes = c6 @ [PurchasePermitReasonCode.INVALID_AMOUNT] \<rparr>
           else let alreadySpent = dec (pr_alreadySpentAtomic request);
                    maxPerCall = dec (pp_maxPerCall permit);
                    maxTotal = dec (pp_maxTotal permit);
                    c7 = deny_if (amount > maxPerCall) PER_CALL_LIMIT_EXCEEDED c6;
                    c8 = deny_if (alreadySpent + amount > maxTotal) TOTAL_BUDGET_EXCEEDED c7
                in \<lparr> dc_allowed = (length c8 = 0), dc_reasonCodes = c8 \<rparr>)"

text \<open>The codes as the strings they are in the source.\<close>

fun operation_code_text :: "OperationReasonCode \<Rightarrow> string" where
  "operation_code_text OPERATION_METHOD_MISMATCH = ''OPERATION_METHOD_MISMATCH''"
| "operation_code_text OPERATION_RESOURCE_MISMATCH = ''OPERATION_RESOURCE_MISMATCH''"
| "operation_code_text OPERATION_NOT_AUTHORIZED = ''OPERATION_NOT_AUTHORIZED''"
| "operation_code_text OPERATION_ARGUMENT_NOT_AUTHORIZED = ''OPERATION_ARGUMENT_NOT_AUTHORIZED''"

fun permit_code_text :: "PurchasePermitReasonCode \<Rightarrow> string" where
  "permit_code_text PERMIT_EXPIRED = ''PERMIT_EXPIRED''"
| "permit_code_text SERVICE_MISMATCH = ''SERVICE_MISMATCH''"
| "permit_code_text CAPABILITY_MISMATCH = ''CAPABILITY_MISMATCH''"
| "permit_code_text NETWORK_MISMATCH = ''NETWORK_MISMATCH''"
| "permit_code_text MINT_MISMATCH = ''MINT_MISMATCH''"
| "permit_code_text RECIPIENT_MISMATCH = ''RECIPIENT_MISMATCH''"
| "permit_code_text PurchasePermitReasonCode.INVALID_AMOUNT = ''INVALID_AMOUNT''"
| "permit_code_text PER_CALL_LIMIT_EXCEEDED = ''PER_CALL_LIMIT_EXCEEDED''"
| "permit_code_text TOTAL_BUDGET_EXCEEDED = ''TOTAL_BUDGET_EXCEEDED''"

section \<open>What the decisions mean\<close>

lemma deny_if_Nil [simp]: "deny_if b c codes = [] \<longleftrightarrow> \<not> b \<and> codes = []"
  by (simp add: deny_if_def)

lemma set_deny_if [simp]: "set (deny_if b c codes) = set codes \<union> (if b then {c} else {})"
  by (simp add: deny_if_def)

lemma evaluateExactOperation_allowed:
  "dc_allowed (evaluateExactOperation permitted requested) \<longleftrightarrow> requested = permitted"
  by (cases permitted; cases requested) (auto simp: evaluateExactOperation_def Let_def)

lemma evaluateExactOperation_codes:
  "set (dc_reasonCodes (evaluateExactOperation p r)) =
     (if op_method r \<noteq> op_method p then {OPERATION_METHOD_MISMATCH} else {})
     \<union> (if op_resource r \<noteq> op_resource p then {OPERATION_RESOURCE_MISMATCH} else {})
     \<union> (if op_operation r \<noteq> op_operation p then {OPERATION_NOT_AUTHORIZED} else {})
     \<union> (if op_datasetId r \<noteq> op_datasetId p then {OPERATION_ARGUMENT_NOT_AUTHORIZED} else {})"
  by (simp add: evaluateExactOperation_def Let_def)

lemma evaluateExactOperation_empty:
  "dc_allowed (evaluateExactOperation p r) \<longleftrightarrow> dc_reasonCodes (evaluateExactOperation p r) = []"
  by (simp add: evaluateExactOperation_def Let_def)

definition within_permit :: "int \<Rightarrow> 'a permit_v1_scheme \<Rightarrow> purchase_request \<Rightarrow> bool" where
  "within_permit clock permit request \<longleftrightarrow>
     (case pr_now request of Some t \<Rightarrow> t | None \<Rightarrow> clock) \<le> pp_expiresAt permit
     \<and> pr_service request = pp_service permit \<and> pr_capability request = pp_capability permit
     \<and> pr_network request = pp_network permit \<and> pr_mint request = pp_mint permit
     \<and> pr_recipient request = pp_recipient permit
     \<and> atomic_pattern (pr_amountAtomic request) \<and> atomic_pattern (pr_alreadySpentAtomic request)
     \<and> 0 < dec (pr_amountAtomic request)
     \<and> dec (pr_amountAtomic request) \<le> dec (pp_maxPerCall permit)
     \<and> dec (pr_alreadySpentAtomic request) + dec (pr_amountAtomic request) \<le> dec (pp_maxTotal permit)"

lemma evaluatePurchasePermit_allowed:
  "dc_allowed (evaluatePurchasePermit clock permit request) \<longleftrightarrow> within_permit clock permit request"
  by (auto simp: evaluatePurchasePermit_def within_permit_def Let_def)

lemma evaluatePurchasePermit_empty:
  "dc_allowed (evaluatePurchasePermit clock p r) \<longleftrightarrow> dc_reasonCodes (evaluatePurchasePermit clock p r) = []"
  by (simp add: evaluatePurchasePermit_def Let_def)

end
