(* ===== verification/Mandate_Properties.thy ===== *)
theory Mandate_Properties
  imports Sample_Data Policy
begin

text \<open>
  Properties of the mandate and policy packages: exact operations, purchase permits, authorization
  requests and the two evaluators.
\<close>

text \<open>The operation parser accepts exactly the JSON objects with no other key than method,
  resource, operation and datasetId, with POST, one of the two business actions, a path of one
  to eight slash-led segments of 1 to 32 characters of [A-Za-z0-9_-], and a dataset identifier
  of 1 to 64 characters of [a-z0-9-] that neither begins nor ends with a hyphen; and the value
  it returns is the one written in the object.\<close>

theorem operation_parser_exact:
  "validateExactOperation v = Inr p \<longleftrightarrow>
     (\<exists>kvs gs. v = JObj kvs
        \<and> fst ` set kvs \<subseteq> {''method'', ''resource'', ''operation'', ''datasetId''}
        \<and> jget v ''method'' = JStr (op_method p) \<and> op_method p = ''POST''
        \<and> jget v ''resource'' = JStr (op_resource p)
        \<and> op_resource p = concat (map (\<lambda>g. CHR ''/'' # g) gs) \<and> length gs \<in> {1..8}
        \<and> list_all (class_between is_segment_char 1 32) gs
        \<and> jget v ''operation'' = JStr (op_operation p) \<and> op_operation p \<in> {''summarize'', ''export''}
        \<and> jget v ''datasetId'' = JStr (op_datasetId p)
        \<and> length (op_datasetId p) \<in> {1..64}
        \<and> is_dataset_char (hd (op_datasetId p)) \<and> is_dataset_char (last (op_datasetId p))
        \<and> list_all (\<lambda>c. is_dataset_char c \<or> c = CHR ''-'') (op_datasetId p))"
proof -
  have ne: "s \<noteq> [] \<and> length s \<le> 64 \<longleftrightarrow> length s \<in> {1..64}" for s :: string
    by (cases s) auto
  show ?thesis
    unfolding validateExactOperation_Inr_iff isPlainObject_iff wf_operation_def
      resource_pattern_language dataset_pattern_iff
    by (auto simp: OPERATION_METHODS_def REPORT_OPERATIONS_def OPERATION_FIELDS_def Suc_le_eq
        image_subset_iff)
qed

text \<open>A v2 permit candidate validates exactly when it is an object with version 2, the Virtual
  Haibin domain and subdelegation false, in which every field reads back as the returned one, the
  identifiers match their patterns, issuer, agent, mint and recipient are addresses, the network is
  supported, the limits are canonical u64 amounts with 0 < per call <= total, the window is
  0 < issuedAt < expiresAt <= 2^53 - 1, and the operation passes the operation parser.\<close>

theorem permit_validator_exact:
  "validateUnsignedPurchasePermitV2 px v = Inr p \<longleftrightarrow>
     isPlainObject v \<and> jget v ''version'' = JInt 2
     \<and> jget v ''domain'' = JStr ''virtual-haibin/purchase-permit'' \<and> jget v ''subdelegation'' = JBool False
     \<and> map (jget v) [''grantId'', ''service'', ''capability'', ''network'', ''issuer'', ''authorizedAgent'', ''mint'',
           ''recipient'', ''maxPerCallAtomic'', ''maxTotalAtomic'']
       = map JStr [pp_grantId p, pp_service p, pp_capability p, pp_network p, pp_issuer p, pp_authorizedAgent p,
           pp_mint p, pp_recipient p, pp_maxPerCall p, pp_maxTotal p]
     \<and> jget v ''issuedAt'' = JInt (pp_issuedAt p) \<and> jget v ''expiresAt'' = JInt (pp_expiresAt p)
     \<and> grant_id_pattern (pp_grantId p) \<and> identifier_pattern (pp_service p) \<and> identifier_pattern (pp_capability p)
     \<and> pp_network p \<in> {''solana-payment-sandbox'', ''devnet''}
     \<and> list_all (\<lambda>a. a \<noteq> [] \<and> isAddress px a) [pp_issuer p, pp_authorizedAgent p, pp_mint p, pp_recipient p]
     \<and> atomic_pattern (pp_maxPerCall p) \<and> atomic_pattern (pp_maxTotal p)
     \<and> 0 < dec (pp_maxPerCall p) \<and> dec (pp_maxPerCall p) \<le> dec (pp_maxTotal p) \<and> dec (pp_maxTotal p) < 2 ^ 64
     \<and> 0 < pp_issuedAt p \<and> pp_issuedAt p < pp_expiresAt p \<and> pp_expiresAt p < 2 ^ 53
     \<and> validateExactOperation (jget v ''operation'') = Inr (pp_operation p)"
proof -
  have u64: "n \<le> MAX_U64 \<longleftrightarrow> n < 2 ^ 64" for n by (simp add: MAX_U64_def less_Suc_eq_le [symmetric])
  have safe: "i \<le> MAX_SAFE_INTEGER \<longleftrightarrow> i < 2 ^ 53" for i by (auto simp: MAX_SAFE_INTEGER_def)
  have op: "validateExactOperation w = Inr x \<longleftrightarrow> wf_operation x \<and> validateExactOperation w = Inr x" for w x
    using validateExactOperation_wf by blast
  show ?thesis
    unfolding validateUnsignedPurchasePermitV2_Inr_iff wf_permit_v2_def wf_permit_def permit_fields_read_simps
      u64 safe PURCHASE_PERMIT_DOMAIN_def SUPPORTED_NETWORKS_def list.map list.inject
    using op [of "jget v ''operation''" "pp_operation p"] by auto
qed

text \<open>An untrusted candidate verifies as a v2 permit exactly when it validates and its
  signature member carries an ed25519 signature of the issuer over the domain-separated canonical
  JSON of exactly the returned fields; what is returned are those fields and that signature.\<close>

theorem permit_verification_exact:
  "verifyPurchasePermitV2 px c = Inr sp \<longleftrightarrow>
     validateUnsignedPurchasePermitV2 px c = Inr (sg_body sp)
     \<and> isPlainObject (jget c ''signature'')
     \<and> jget (jget c ''signature'') ''algorithm'' = JStr ''ed25519''
     \<and> jget (jget c ''signature'') ''signature'' = JStr (sg_signature sp)
     \<and> isSignature px (sg_signature sp) \<and> importable px (pp_issuer (sg_body sp))
     \<and> (\<exists>json. canonicalize px (JObj (permit_v2_fields (sg_body sp))) = Some json
          \<and> verifyRaw px (pp_issuer (sg_body sp)) (sg_signature sp)
              (utf8 (''virtual-haibin/purchase-permit:v2'' @ [CHR 0x0A] @ json)))"
proof -
  have plain: "isPlainObject c \<and> validateUnsignedPurchasePermitV2 px c = Inr p
      \<longleftrightarrow> validateUnsignedPurchasePermitV2 px c = Inr p" for p
    by (auto simp: validateUnsignedPurchasePermitV2_Inr_iff)
  show ?thesis
    unfolding verifyPurchasePermitV2_def pv2.verify_iff
      canonicalizeUnsignedPurchasePermitV2_def canonicalBytes_def PERMIT_V2_PREFIX_def PURCHASE_PERMIT_DOMAIN_def
    using plain by auto
qed

text \<open>Signing succeeds exactly for a valid candidate whose issuer is the signing key, and what it
  returns verifies, under both the returned value and its JSON, as the same permit.\<close>

theorem permit_sign_verify_roundtrip:
  assumes "signatures_verify px" "canonical_total px"
  shows "(case signPurchasePermitV2 px v k of
       Inr sp \<Rightarrow> validateUnsignedPurchasePermitV2 px v = Inr (sg_body sp) \<and> keyAddress px k = pp_issuer (sg_body sp)
         \<and> verifyPurchasePermitV2 px (signed_permit_v2_json sp) = Inr sp
     | Inl _ \<Rightarrow> (case validateUnsignedPurchasePermitV2 px v of Inl _ \<Rightarrow> True
         | Inr p \<Rightarrow> keyAddress px k \<noteq> pp_issuer p))"
proof (cases "signPurchasePermitV2 px v k")
  case (Inr sp)
  then have s: "validateUnsignedPurchasePermitV2 px v = Inr (sg_body sp)" "keyAddress px k = pp_issuer (sg_body sp)"
    and b: "\<exists>b. canonicalizeUnsignedPurchasePermitV2 px (sg_body sp) = Some b \<and> sg_signature sp = signRaw px k b"
    unfolding signPurchasePermitV2_def pv2.sign_iff by blast+
  have wf: "wf_permit_v2 px (sg_body sp)" using s(1) by (rule pv2.validate_wf)
  have "validateUnsignedPurchasePermitV2 px (JObj (permit_v2_fields (sg_body sp))) = Inr (sg_body sp)"
    using validate_permit_v2_fields [OF wf, of "[]"] by simp
  with pv2.sign_then_verify [OF assms wf s(2)] b
  have "verifyPurchasePermitV2 px (signed_permit_v2_json sp) = Inr sp"
    unfolding verifyPurchasePermitV2_def signed_permit_v2_json_def
    by (cases sp) (auto simp: pv2.sign_iff)
  with Inr s show ?thesis by simp
next
  case (Inl e)
  show ?thesis
  proof (cases "validateUnsignedPurchasePermitV2 px v")
    case (Inr p)
    have "keyAddress px k \<noteq> pp_issuer p"
    proof
      assume k: "keyAddress px k = pp_issuer p"
      obtain b where "canonicalizeUnsignedPurchasePermitV2 px p = Some b"
        using canonicalBytes_total [OF assms(2) json_value_permit_fields(2)]
        unfolding canonicalizeUnsignedPurchasePermitV2_def by blast
      with Inr k have "signPurchasePermitV2 px v k = Inr \<lparr> sg_body = p, sg_signature = signRaw px k b \<rparr>"
        unfolding signPurchasePermitV2_def pv2.sign_iff by simp
      with Inl show False by simp
    qed
    with Inl Inr show ?thesis by simp
  qed (simp add: Inl)
qed

theorem permit_sign_verify_roundtrip_witness:
  "\<exists>sp. signPurchasePermitV2 sample_platform (JObj (permit_v2_fields sample_permit)) ''I'' = Inr sp
     \<and> verifyPurchasePermitV2 sample_platform (signed_permit_v2_json sp) = Inr sp"
proof -
  have v: "validateUnsignedPurchasePermitV2 sample_platform (JObj (permit_v2_fields sample_permit)) = Inr sample_permit"
    using validate_permit_v2_fields [OF wf_sample_permit, of "[]"] by simp
  have "keyAddress sample_platform ''I'' = pp_issuer sample_permit"
    by (simp add: sample_platform_def sample_permit_def)
  with permit_sign_verify_roundtrip [OF sample_signatures(1) sample_canonical_total(1),
      where v = "JObj (permit_v2_fields sample_permit)" and k = "''I''"] v
  show ?thesis by (simp split: sum.splits)
qed

text \<open>The digest that binds a request to its permit identifies the signed permit, signature
  included, as long as SHA-256 does not collide on the two messages.\<close>

theorem permit_digest_injective:
  assumes "canonical_total px" "canonical_faithful px"
    and "collision_free_on px
          (digest_inputs px PERMIT_V2_DIGEST_PREFIX {permit_digest_object_v2 a, permit_digest_object_v2 b})"
  shows "computePermitDigest px a = computePermitDigest px b \<longleftrightarrow> a = b"
  using permit_digest_identifies [OF assms] by blast

theorem permit_digest_injective_witness:
  "computePermitDigest sample_platform \<lparr> sg_body = sample_permit, sg_signature = ''s'' \<rparr>
     \<noteq> computePermitDigest sample_platform \<lparr> sg_body = sample_permit \<lparr> pp_maxTotal := ''99'' \<rparr>, sg_signature = ''s'' \<rparr>"
  unfolding permit_digest_injective [OF sample_canonical_total(1) sample_canonical_faithful(1) sample_collision_free]
  by (simp add: sample_permit_def)

text \<open>A v2 authorization request validates exactly when it is an object with no key beyond the
  fourteen of the protocol, in which every field reads back as the returned one, within its pattern
  and length, and the operation passes the operation parser; nothing unsigned rides along.\<close>

theorem request_validator_exact:
  "validateAuthorizationRequestV2 v = Inr r \<longleftrightarrow>
     (\<exists>kvs. v = JObj kvs \<and> fst ` set kvs \<subseteq> {''protocol'', ''version'', ''audience'', ''grantId'', ''permitDigest'',
          ''invocationId'', ''service'', ''capability'', ''network'', ''mint'', ''recipient'', ''amountAtomic'',
          ''issuedAt'', ''operation''})
     \<and> jget v ''protocol'' = JStr ''virtual-haibin/authorization-request'' \<and> jget v ''version'' = JInt 2
     \<and> map (jget v) [''audience'', ''grantId'', ''invocationId'', ''permitDigest'', ''service'', ''capability'',
           ''network'', ''mint'', ''recipient'', ''amountAtomic'']
       = map JStr [rq_audience r, rq_grantId r, rq_invocationId r, rq_permitDigest r, rq_service r, rq_capability r,
           rq_network r, rq_mint r, rq_recipient r, rq_amountAtomic r]
     \<and> jget v ''issuedAt'' = JInt (rq_issuedAt r) \<and> 0 < rq_issuedAt r \<and> rq_issuedAt r < 2 ^ 53
     \<and> list_all identifier_pattern [rq_audience r, rq_grantId r, rq_invocationId r]
     \<and> length (rq_permitDigest r) = 64 \<and> list_all is_hex_char (rq_permitDigest r)
     \<and> list_all (\<lambda>s. length s \<in> {1..256}) [rq_service r, rq_capability r, rq_network r, rq_mint r, rq_recipient r]
     \<and> atomic_pattern (rq_amountAtomic r)
     \<and> validateExactOperation (jget v ''operation'') = Inr (rq_operation r)"
proof -
  have safe: "i \<le> MAX_SAFE_INTEGER \<longleftrightarrow> i < 2 ^ 53" for i by (auto simp: MAX_SAFE_INTEGER_def)
  have len: "0 < length s \<and> length s \<le> MAX_FIELD_LENGTH \<longleftrightarrow> length s \<in> {1..256}" for s :: string
    by (cases s) (auto simp: MAX_FIELD_LENGTH_def)
  have dig: "digest_pattern s \<longleftrightarrow> length s = 64 \<and> list_all is_hex_char s" for s
    by (auto simp: digest_pattern_def class_between_def)
  have keys: "isPlainObject v \<and> set (jkeys v) \<subseteq> set REQUEST_FIELDS_V2 \<longleftrightarrow>
     (\<exists>kvs. v = JObj kvs \<and> fst ` set kvs \<subseteq> {''protocol'', ''version'', ''audience'', ''grantId'', ''permitDigest'',
          ''invocationId'', ''service'', ''capability'', ''network'', ''mint'', ''recipient'', ''amountAtomic'',
          ''issuedAt'', ''operation''})"
    by (cases v) (auto simp: REQUEST_FIELDS_V2_def REQUEST_FIELDS_V1_def)
  have op: "validateExactOperation w = Inr x \<longleftrightarrow> wf_operation x \<and> validateExactOperation w = Inr x" for w x
    using validateExactOperation_wf by blast
  show ?thesis
    unfolding validateAuthorizationRequestV2_Inr_iff keys [symmetric] wf_request_v2_def wf_request_def
      request_fields_read_simps safe len dig AUTHORIZATION_REQUEST_PROTOCOL_def list.map list.inject
    using op [of "jget v ''operation''" "rq_operation r"] by blast
qed

text \<open>An agent can sign exactly the well-formed requests; the signature verifies under the
  agent's own address, and a signature is accepted only if it is one of that address over the
  domain-separated canonical JSON of exactly these fields.\<close>

theorem request_signature_exact:
  assumes "signatures_verify px" "canonical_total px"
  shows "((\<exists>s. signAuthorizationRequestV2 px r k = Inr s) \<longleftrightarrow> wf_request_v2 r)
    \<and> (case signAuthorizationRequestV2 px r k of Inl _ \<Rightarrow> True | Inr s \<Rightarrow>
         verifyAuthorizationRequestSignature px (canonicalizeAuthorizationRequestV2 px r) (signature_json s) (keyAddress px k))
    \<and> (verifyAuthorizationRequestSignature px (canonicalizeAuthorizationRequestV2 px r) cand agent \<longleftrightarrow>
         (\<exists>t json. isPlainObject cand \<and> jget cand ''algorithm'' = JStr ''ed25519'' \<and> jget cand ''signature'' = JStr t
            \<and> isSignature px t \<and> isAddress px agent \<and> importable px agent
            \<and> canonicalize px (request_v2_json r) = Some json
            \<and> verifyRaw px agent t (utf8 (''virtual-haibin/authorization-request:v2'' @ [CHR 0x0A] @ json))))"
proof (intro conjI)
  show ex: "(\<exists>s. signAuthorizationRequestV2 px r k = Inr s) \<longleftrightarrow> wf_request_v2 r"
    using request_sign_then_verify [OF assms] sign_request_wf by blast
  show "case signAuthorizationRequestV2 px r k of Inl _ \<Rightarrow> True | Inr s \<Rightarrow>
         verifyAuthorizationRequestSignature px (canonicalizeAuthorizationRequestV2 px r) (signature_json s) (keyAddress px k)"
  proof (cases "signAuthorizationRequestV2 px r k")
    case (Inr s)
    then have "wf_request_v2 r" by (rule sign_request_wf)
    from request_sign_then_verify [OF assms this, of k] Inr show ?thesis by (simp only: sum.case) auto
  qed simp
  show "verifyAuthorizationRequestSignature px (canonicalizeAuthorizationRequestV2 px r) cand agent \<longleftrightarrow>
         (\<exists>t json. isPlainObject cand \<and> jget cand ''algorithm'' = JStr ''ed25519'' \<and> jget cand ''signature'' = JStr t
            \<and> isSignature px t \<and> isAddress px agent \<and> importable px agent
            \<and> canonicalize px (request_v2_json r) = Some json
            \<and> verifyRaw px agent t (utf8 (''virtual-haibin/authorization-request:v2'' @ [CHR 0x0A] @ json)))"
    unfolding verifyAuthorizationRequestSignature_iff canonicalizeAuthorizationRequestV2_def canonicalBytes_def
      REQUEST_V2_PREFIX_def AUTHORIZATION_REQUEST_PROTOCOL_def
    by auto
qed

theorem request_signature_exact_witness:
  "\<exists>s. signAuthorizationRequestV2 sample_platform sample_request ''A'' = Inr s
     \<and> verifyAuthorizationRequestSignature sample_platform
         (canonicalizeAuthorizationRequestV2 sample_platform sample_request) (signature_json s) ''KA''"
proof -
  note exact = request_signature_exact [OF sample_signatures(1) sample_canonical_total(1), where r = sample_request and k = "''A''"]
  obtain s where s: "signAuthorizationRequestV2 sample_platform sample_request ''A'' = Inr s"
    using exact [THEN conjunct1] by auto
  have "keyAddress sample_platform ''A'' = ''KA''" by (simp add: sample_platform_def)
  with exact [THEN conjunct2, THEN conjunct1] s show ?thesis by auto
qed

text \<open>C31. The permit evaluator allows a request exactly when the permit has not expired, service,
  capability, network, mint and recipient are the permitted ones, and the amount is canonical,
  positive, within the per-call limit and, with what is already committed, within the total; it
  gives reason codes exactly when it denies.\<close>

theorem purchase_policy_exact:
  "(dc_allowed (evaluatePurchasePermit clock permit request) \<longleftrightarrow>
     (case pr_now request of Some t \<Rightarrow> t | None \<Rightarrow> clock) \<le> pp_expiresAt permit
     \<and> pr_service request = pp_service permit \<and> pr_capability request = pp_capability permit
     \<and> pr_network request = pp_network permit \<and> pr_mint request = pp_mint permit
     \<and> pr_recipient request = pp_recipient permit
     \<and> atomic_pattern (pr_amountAtomic request) \<and> atomic_pattern (pr_alreadySpentAtomic request)
     \<and> 0 < dec (pr_amountAtomic request)
     \<and> dec (pr_amountAtomic request) \<le> dec (pp_maxPerCall permit)
     \<and> dec (pr_alreadySpentAtomic request) + dec (pr_amountAtomic request) \<le> dec (pp_maxTotal permit))
   \<and> (dc_allowed (evaluatePurchasePermit clock permit request)
        \<longleftrightarrow> dc_reasonCodes (evaluatePurchasePermit clock permit request) = [])"
  by (intro conjI, unfold evaluatePurchasePermit_allowed within_permit_def, rule refl,
      fold within_permit_def evaluatePurchasePermit_allowed, rule evaluatePurchasePermit_empty)

text \<open>The operation evaluator allows exactly the permitted operation itself, and names exactly the
  fields in which another one differs.\<close>

theorem operation_policy_exact:
  "(dc_allowed (evaluateExactOperation permitted requested) \<longleftrightarrow> requested = permitted)
   \<and> set (dc_reasonCodes (evaluateExactOperation permitted requested)) =
     (if op_method requested \<noteq> op_method permitted then {OPERATION_METHOD_MISMATCH} else {})
     \<union> (if op_resource requested \<noteq> op_resource permitted then {OPERATION_RESOURCE_MISMATCH} else {})
     \<union> (if op_operation requested \<noteq> op_operation permitted then {OPERATION_NOT_AUTHORIZED} else {})
     \<union> (if op_datasetId requested \<noteq> op_datasetId permitted then {OPERATION_ARGUMENT_NOT_AUTHORIZED} else {})"
  by (intro conjI evaluateExactOperation_allowed evaluateExactOperation_codes)

end
