(* ===== verification/Authority_Challenge.thy ===== *)
theory Authority_Challenge
  imports Mandate_Request Payments_Types
begin

text \<open>
  apps/authority/src/payment-challenge.ts: the trusted registry of paid resources, the outbound
  request derived from a verified operation, and the check of an untrusted 402 challenge against
  the settlement profile, the outbound request and the agent's signed request.
\<close>

section \<open>Registry\<close>

type_synonym paid_registry = "string \<Rightarrow> PaidResource option"

definition paidServiceKey :: "string \<Rightarrow> string \<Rightarrow> string" where
  "paidServiceKey serviceId capability = serviceId @ CHR 0x00 # capability"

text \<open>The registry loop; \<open>None\<close> is a throw.\<close>

fun register_resources :: "platform \<Rightarrow> paid_registry \<Rightarrow> PaidResource list \<Rightarrow> paid_registry option" where
  "register_resources px registry [] = Some registry"
| "register_resources px registry (r # rs) =
     (case parseUrl px (rc_url r) of
        None \<Rightarrow> None
      | Some u \<Rightarrow>
        if url_protocol u \<noteq> ''http:'' \<and> url_protocol u \<noteq> ''https:'' then None
        else if url_username u \<noteq> [] \<or> url_password u \<noteq> [] then None
        else if url_search u \<noteq> [] \<or> url_hash u \<noteq> [] then None
        else register_resources px
          (registry (paidServiceKey (rc_serviceId r) (rc_capability r) \<mapsto> r \<lparr> rc_url := url_text u \<rparr>)) rs)"

definition createPaidServiceRegistry :: "platform \<Rightarrow> PaidResource list \<Rightarrow> paid_registry option" where
  "createPaidServiceRegistry px resources = register_resources px Map.empty resources"

section \<open>The outbound request\<close>

text \<open>\<open>Inl\<close> is a throw (an unparsable URL or a body that cannot be canonicalized); \<open>Inr None\<close> says
  that the configured resource does not serve this method and path.\<close>

definition buildPaidRequest :: "platform \<Rightarrow> PaidResource \<Rightarrow> ExactOperation \<Rightarrow> unit + PaidRequest option" where
  "buildPaidRequest px resource p =
     (if rc_method resource \<noteq> op_method p then Inr None
      else case parseUrl px (rc_url resource) of
        None \<Rightarrow> Inl ()
      | Some u \<Rightarrow>
        if url_pathname u \<noteq> op_resource p then Inr None
        else case operationRequestBody px p of
          None \<Rightarrow> Inl ()
        | Some body \<Rightarrow> Inr (Some (createPaidRequest px (rc_url resource) (op_method p) body)))"

section \<open>Checking a challenge\<close>

datatype ChallengeReasonCode =
    FetchRejected ChallengeRejectionCode
  | UNSUPPORTED_PAYMENT_SCHEME
  | CHALLENGE_NETWORK_MISMATCH
  | ASSET_NOT_ALLOWED
  | CHALLENGE_RESOURCE_MISMATCH
  | CHALLENGE_FEE_PAYER_INVALID
  | CHALLENGE_REQUEST_MISMATCH

record ChallengeSelection =
  sel_requirement :: "PaymentRequirement option"
  sel_reasonCodes :: "ChallengeReasonCode list"

definition push_if :: "bool \<Rightarrow> 'c \<Rightarrow> 'c list \<Rightarrow> 'c list" where
  "push_if b c codes = (if b then codes @ [c] else codes)"

definition selectAndValidateChallenge ::
  "ChallengeResult \<Rightarrow> SettlementProfile \<Rightarrow> PaidRequest \<Rightarrow> 'a request_v1_scheme \<Rightarrow> address
     \<Rightarrow> ChallengeSelection" where
  "selectAndValidateChallenge challenge profile paidRequest request payerAddress =
     (case challenge of
        Rejected c \<Rightarrow> \<lparr> sel_requirement = None, sel_reasonCodes = [FetchRejected c] \<rparr>
      | Challenge ch \<Rightarrow>
        let sameScheme = filter (\<lambda>m. pm_scheme m = sp_scheme profile) (ch_requirements ch);
            candidates = filter (\<lambda>m. pm_network m \<in> set (sp_acceptedChallengeNetworks profile)) sameScheme
        in case candidates of
          [] \<Rightarrow> \<lparr> sel_requirement = None,
                  sel_reasonCodes = [if length sameScheme > 0 then CHALLENGE_NETWORK_MISMATCH
                                     else UNSUPPORTED_PAYMENT_SCHEME] \<rparr>
        | requirement # _ \<Rightarrow>
          let c0 = [];
              c1 = push_if (pm_protocol requirement \<noteq> sp_protocol profile
                      \<or> pm_x402Version requirement \<noteq> sp_x402Version profile)
                     (FetchRejected UNSUPPORTED_PAYMENT_PROTOCOL) c0;
              c2 = push_if (pm_asset requirement \<notin> set (sp_allowedAssets profile)) ASSET_NOT_ALLOWED c1;
              c3 = push_if (pm_resourceUrl requirement \<noteq> Some (pq_url paidRequest)
                      \<or> ch_requestSha256 ch \<noteq> pq_sha256 paidRequest) CHALLENGE_RESOURCE_MISMATCH c2;
              c4 = push_if (pm_feePayer requirement = None \<or> pm_feePayer requirement = Some payerAddress)
                     CHALLENGE_FEE_PAYER_INVALID c3;
              c5 = push_if (pm_asset requirement \<noteq> rq_mint request
                      \<or> pm_payTo requirement \<noteq> rq_recipient request
                      \<or> pm_amountAtomic requirement \<noteq> rq_amountAtomic request)
                     CHALLENGE_REQUEST_MISMATCH c4
          in \<lparr> sel_requirement = Some requirement, sel_reasonCodes = c5 \<rparr>)"

fun fetch_rejection_text :: "ChallengeRejectionCode \<Rightarrow> string" where
  "fetch_rejection_text CHALLENGE_NOT_PAYMENT_REQUIRED = ''CHALLENGE_NOT_PAYMENT_REQUIRED''"
| "fetch_rejection_text CHALLENGE_REDIRECT = ''CHALLENGE_REDIRECT''"
| "fetch_rejection_text CHALLENGE_MALFORMED = ''CHALLENGE_MALFORMED''"
| "fetch_rejection_text UNSUPPORTED_PAYMENT_PROTOCOL = ''UNSUPPORTED_PAYMENT_PROTOCOL''"

fun challenge_code_text :: "ChallengeReasonCode \<Rightarrow> string" where
  "challenge_code_text (FetchRejected c) = fetch_rejection_text c"
| "challenge_code_text UNSUPPORTED_PAYMENT_SCHEME = ''UNSUPPORTED_PAYMENT_SCHEME''"
| "challenge_code_text CHALLENGE_NETWORK_MISMATCH = ''CHALLENGE_NETWORK_MISMATCH''"
| "challenge_code_text ASSET_NOT_ALLOWED = ''ASSET_NOT_ALLOWED''"
| "challenge_code_text CHALLENGE_RESOURCE_MISMATCH = ''CHALLENGE_RESOURCE_MISMATCH''"
| "challenge_code_text CHALLENGE_FEE_PAYER_INVALID = ''CHALLENGE_FEE_PAYER_INVALID''"
| "challenge_code_text CHALLENGE_REQUEST_MISMATCH = ''CHALLENGE_REQUEST_MISMATCH''"

section \<open>What an accepted challenge guarantees\<close>

lemma push_if_Nil [simp]: "push_if b c codes = [] \<longleftrightarrow> \<not> b \<and> codes = []"
  by (simp add: push_if_def)

lemma filter_filter_hd: "filter Q (filter P xs) = y # ys \<Longrightarrow> y \<in> set xs \<and> P y \<and> Q y"
proof -
  assume "filter Q (filter P xs) = y # ys"
  then have "y \<in> set (filter Q (filter P xs))" by simp
  then show ?thesis by simp
qed

definition acceptable_requirement ::
  "SettlementProfile \<Rightarrow> PaidRequest \<Rightarrow> 'a request_v1_scheme \<Rightarrow> address \<Rightarrow> PaymentRequirement \<Rightarrow> bool" where
  "acceptable_requirement profile paidRequest request payer m \<longleftrightarrow>
     pm_protocol m = sp_protocol profile \<and> pm_x402Version m = sp_x402Version profile
     \<and> pm_scheme m = sp_scheme profile \<and> pm_network m \<in> set (sp_acceptedChallengeNetworks profile)
     \<and> pm_asset m \<in> set (sp_allowedAssets profile)
     \<and> pm_resourceUrl m = Some (pq_url paidRequest)
     \<and> (\<exists>f. pm_feePayer m = Some f \<and> f \<noteq> payer)
     \<and> pm_asset m = rq_mint request \<and> pm_payTo m = rq_recipient request
     \<and> pm_amountAtomic m = rq_amountAtomic request"

lemma select_no_codes:
  assumes "sel_reasonCodes (selectAndValidateChallenge c profile pq r payer) = []"
  shows "\<exists>ch m. c = Challenge ch \<and> sel_requirement (selectAndValidateChallenge c profile pq r payer) = Some m
    \<and> m \<in> set (ch_requirements ch) \<and> ch_requestSha256 ch = pq_sha256 pq
    \<and> acceptable_requirement profile pq r payer m"
proof (cases c)
  case (Rejected x)
  with assms show ?thesis by (simp add: selectAndValidateChallenge_def)
next
  case (Challenge ch)
  show ?thesis
  proof (cases "filter (\<lambda>m. pm_network m \<in> set (sp_acceptedChallengeNetworks profile))
      (filter (\<lambda>m. pm_scheme m = sp_scheme profile) (ch_requirements ch))")
    case Nil
    with assms Challenge show ?thesis by (simp add: selectAndValidateChallenge_def)
  next
    case (Cons m ms)
    note m = filter_filter_hd [OF Cons]
    have "sel_requirement (selectAndValidateChallenge c profile pq r payer) = Some m"
      using Challenge Cons by (simp add: selectAndValidateChallenge_def Let_def)
    moreover have "ch_requestSha256 ch = pq_sha256 pq" "acceptable_requirement profile pq r payer m"
      using assms m Challenge Cons
      by (auto simp: selectAndValidateChallenge_def Let_def acceptable_requirement_def)
    ultimately show ?thesis using Challenge m by blast
  qed
qed

text \<open>The first requirement of the accepted scheme and network decides; when it is acceptable and
  the challenge is for this request, no code is raised.\<close>

lemma select_accepts:
  assumes "filter (\<lambda>m. pm_scheme m = sp_scheme profile
      \<and> pm_network m \<in> set (sp_acceptedChallengeNetworks profile)) (ch_requirements ch) = m # ms"
    and "ch_requestSha256 ch = pq_sha256 pq" "acceptable_requirement profile pq r payer m"
  shows "selectAndValidateChallenge (Challenge ch) profile pq r payer
    = \<lparr> sel_requirement = Some m, sel_reasonCodes = [] \<rparr>"
proof -
  have "filter (\<lambda>m. pm_network m \<in> set (sp_acceptedChallengeNetworks profile))
      (filter (\<lambda>m. pm_scheme m = sp_scheme profile) (ch_requirements ch)) = m # ms"
    using assms(1) by (simp add: conj_commute)
  with assms(2,3) show ?thesis
    by (auto simp: selectAndValidateChallenge_def Let_def acceptable_requirement_def push_if_def)
qed

section \<open>What the outbound request is\<close>

lemma buildPaidRequest_Some:
  "buildPaidRequest px resource p = Inr (Some q) \<longleftrightarrow>
     rc_method resource = op_method p
     \<and> (\<exists>u body. parseUrl px (rc_url resource) = Some u \<and> url_pathname u = op_resource p
          \<and> operationRequestBody px p = Some body
          \<and> q = createPaidRequest px (rc_url resource) (op_method p) body)"
  by (auto simp: buildPaidRequest_def split: option.splits)

lemma buildPaidRequest_fields:
  assumes "buildPaidRequest px resource p = Inr (Some q)"
  shows "pq_url q = rc_url resource" "pq_method q = op_method p"
    "pq_contentType q = ''application/json''" "Some (pq_body q) = operationRequestBody px p"
    "paidRequestMatches px q (pq_sha256 q)"
  using assms by (auto simp: buildPaidRequest_Some created_request_matches)

text \<open>Different operations never share an outbound request on one resource: the path fixes the
  resource, the canonical body the action and the dataset.\<close>

lemma jnorm_body_object:
  "jnorm (JObj [(''operation'', JStr a), (''datasetId'', JStr b)])
     = jnorm (JObj [(''operation'', JStr c), (''datasetId'', JStr d)]) \<longleftrightarrow> a = c \<and> b = d"
  using jnorm_reads_agree(1) [of "[(''operation'', JStr a), (''datasetId'', JStr b)]"
      "[(''operation'', JStr c), (''datasetId'', JStr d)]" "''operation''" a c]
    jnorm_reads_agree(1) [of "[(''operation'', JStr a), (''datasetId'', JStr b)]"
      "[(''operation'', JStr c), (''datasetId'', JStr d)]" "''datasetId''" b d]
  by auto

lemma operationRequestBody_inject:
  assumes "canonical_faithful px" "operationRequestBody px p = Some b" "operationRequestBody px q = Some b"
  shows "op_operation p = op_operation q \<and> op_datasetId p = op_datasetId q"
  using canonical_faithfulD [OF assms(1), of "JObj [(''operation'', JStr (op_operation p)), (''datasetId'', JStr (op_datasetId p))]"
      "JObj [(''operation'', JStr (op_operation q)), (''datasetId'', JStr (op_datasetId q))]"]
    assms(2,3) jnorm_body_object
  by (auto simp: operationRequestBody_def)

lemma outbound_identifies_operation:
  assumes "canonical_faithful px"
    and "buildPaidRequest px resource p = Inr (Some a)" "buildPaidRequest px resource q = Inr (Some b)"
    and "pq_body a = pq_body b"
  shows "p = q"
proof -
  have "op_method p = op_method q" "op_resource p = op_resource q"
    using assms(2,3) by (auto simp: buildPaidRequest_Some)
  moreover have "operationRequestBody px p = Some (pq_body a)" "operationRequestBody px q = Some (pq_body a)"
    using buildPaidRequest_fields(4) [OF assms(2)] buildPaidRequest_fields(4) [OF assms(3)] assms(4) by simp_all
  then have "op_operation p = op_operation q \<and> op_datasetId p = op_datasetId q"
    by (rule operationRequestBody_inject [OF assms(1)])
  ultimately show ?thesis by (cases p; cases q) simp
qed

end
