(* ===== verification/Payment_Properties.thy ===== *)
theory Payment_Properties
  imports Sample_Data Authority_Challenge Evidence_Signed
begin

text \<open>
  Properties of the payment rail's pure parts: challenge normalisation and selection, the outbound
  request and its digest, and the signed service messages and receipts.
\<close>

lemma map_filter_enumerate:
  "map fst (List.map_filter (\<lambda>(i, e). map_option (Pair i) (f i e)) (List.enumerate n xs))
     = filter (\<lambda>i. f i (xs ! (i - n)) \<noteq> None) [n..<n + length xs]"
proof (induction xs arbitrary: n)
  case (Cons x xs)
  have "filter (\<lambda>i. f i ((x # xs) ! (i - n)) \<noteq> None) [Suc n..<n + length (x # xs)]
      = filter (\<lambda>i. f i (xs ! (i - Suc n)) \<noteq> None) [Suc n..<Suc n + length xs]"
    by (rule filter_cong) (auto simp: nth_Cons')
  moreover have "[n..<n + length (x # xs)] = n # [Suc n..<n + length (x # xs)]"
    by (rule upt_conv_Cons) simp
  ultimately show ?case
    using Cons.IH [of "Suc n"] by (simp add: map_filter_simps del: upt_Suc length_Cons split: option.split)
qed (simp add: map_filter_simps)

lemma indices_of_entries:
  assumes "\<And>i e m. f i e = Some m \<Longrightarrow> pm_acceptsIndex m = i"
  shows "map pm_acceptsIndex (List.map_filter (\<lambda>(i, e). f i e) (List.enumerate 0 xs))
    = filter (\<lambda>i. f i (xs ! i) \<noteq> None) [0..<length xs]"
proof -
  have "map pm_acceptsIndex (List.map_filter (\<lambda>(i, e). f i e) ys)
      = map fst (List.map_filter (\<lambda>(i, e). map_option (Pair i) (f i e)) ys)" for ys
    by (induction ys) (auto simp: map_filter_simps assms split: option.split)
  then show ?thesis using map_filter_enumerate [of f 0 xs] by simp
qed

text \<open>An entry the normalisation keeps: an object with the five texts, the amount a canonical u64.\<close>

definition well_formed_entry :: "jsval \<Rightarrow> bool" where
  "well_formed_entry e \<longleftrightarrow> isPlainObject e
     \<and> list_all (\<lambda>k. jstr_is (\<lambda>_. True) (jget e k)) [''scheme'', ''network'', ''asset'', ''payTo'']
     \<and> jstr_is (\<lambda>s. atomic_pattern s \<and> dec s < 2 ^ 64) (jget e ''amount'')"

lemma normalize_entry_kept: "(normalize_entry u i e \<noteq> None) = well_formed_entry e"
proof -
  have "jstr_is (\<lambda>s. atomic_pattern s \<and> dec s \<le> MAX_U64) v = jstr_is (\<lambda>s. atomic_pattern s \<and> dec s < 2 ^ 64) v" for v
    by (cases v) (simp_all add: MAX_U64_def less_Suc_eq_le [symmetric])
  then show ?thesis by (simp add: normalize_entry_def well_formed_entry_def Let_def not_less)
qed

text \<open>Normalising a 402 challenge copies, never invents: a challenge results exactly from an x402
  version 2 object with 1 to 16 accepts entries of which at least one is well formed (another version is UNSUPPORTED_PAYMENT_PROTOCOL, anything else
  CHALLENGE_MALFORMED); it then lists
  exactly the well-formed entries in their order, each with its own scheme, network, asset, payee,
  amount and fee payer verbatim, and the digest of the request it was fetched with.\<close>

theorem challenge_normalised_verbatim:
  "case normalizeChallenge d h of
     Rejected c \<Rightarrow> c = (if isPlainObject d \<and> jget d ''x402Version'' \<noteq> JInt 2
         then UNSUPPORTED_PAYMENT_PROTOCOL else CHALLENGE_MALFORMED)
       \<and> \<not> (isPlainObject d \<and> jget d ''x402Version'' = JInt 2
            \<and> (\<exists>accepts. jget d ''accepts'' = JArr accepts \<and> length accepts \<in> {1..16}
                 \<and> filter well_formed_entry accepts \<noteq> []))
   | Challenge c \<Rightarrow> isPlainObject d \<and> jget d ''x402Version'' = JInt 2 \<and> ch_requestSha256 c = h \<and> ch_raw c = d
       \<and> (\<exists>accepts. jget d ''accepts'' = JArr accepts \<and> length accepts \<in> {1..16}
            \<and> map pm_acceptsIndex (ch_requirements c)
                = filter (\<lambda>i. well_formed_entry (accepts ! i)) [0..<length accepts]
            \<and> ch_requirements c \<noteq> []
            \<and> list_all (\<lambda>m. verbatim_requirement (accepts ! pm_acceptsIndex m) m) (ch_requirements c))"
proof (cases "isPlainObject d \<and> jget d ''x402Version'' = JInt 2")
  case False
  then show ?thesis by (auto simp: normalizeChallenge_def)
next
  case True
  show ?thesis
  proof (cases "jarr (jget d ''accepts'')")
    case None
    with True show ?thesis by (auto simp: normalizeChallenge_def)
  next
    case (Some accepts)
    then have arr: "jget d ''accepts'' = JArr accepts" by (cases "jget d ''accepts''") auto
    define u where "u = (if isPlainObject (jget d ''resource'')
                   then str_opt (jget (jget d ''resource'') ''url'') else None)"
    define rs where "rs = List.map_filter (\<lambda>(i, e). normalize_entry u i e) (List.enumerate 0 accepts)"
    have idx: "map pm_acceptsIndex rs = filter (\<lambda>i. well_formed_entry (accepts ! i)) [0..<length accepts]"
      using indices_of_entries [of "normalize_entry u" accepts] normalize_entry_verbatim
      unfolding rs_def normalize_entry_kept by blast
    have "list_all (\<lambda>m. verbatim_requirement (accepts ! pm_acceptsIndex m) m) rs"
    proof (unfold list_all_iff, intro ballI)
      fix m assume "m \<in> set rs"
      then obtain i e where "(i, e) \<in> set (List.enumerate 0 accepts)" "normalize_entry u i e = Some m"
        unfolding rs_def by (auto simp: map_filter_def)
      then show "verbatim_requirement (accepts ! pm_acceptsIndex m) m"
        using normalize_entry_verbatim by (auto simp: in_set_enumerate_eq)
    qed
    moreover have "rs = [] \<longleftrightarrow> filter well_formed_entry accepts = []"
      using arg_cong [OF idx, of "\<lambda>xs. xs = []"] by (auto simp: filter_empty_conv all_set_conv_all_nth)
    moreover have "normalizeChallenge d h = (if length accepts \<notin> {1..16} \<or> rs = [] then Rejected CHALLENGE_MALFORMED
        else Challenge \<lparr> ch_requirements = rs, ch_requestSha256 = h, ch_raw = d \<rparr>)"
      using True Some unfolding normalizeChallenge_def u_def [symmetric] rs_def
      by (cases accepts) (auto simp: Let_def MAX_ACCEPTS_def u_def)
    ultimately show ?thesis using True arr idx by auto
  qed
qed

text \<open>C32. A challenge raises no reason code exactly when its first requirement of the profile's scheme
  and accepted networks speaks the profile's protocol, asks for an allowed asset, names the outbound
  URL, was fetched with exactly the outbound request, has a fee payer that is not our wallet, and
  asks for exactly the mint, recipient and amount the agent signed; that requirement is selected.\<close>

theorem challenge_selection_exact:
  "sel_reasonCodes (selectAndValidateChallenge c profile pq r payer) = [] \<longleftrightarrow>
     (\<exists>ch m ms. c = Challenge ch
        \<and> filter (\<lambda>m. pm_scheme m = sp_scheme profile
            \<and> pm_network m \<in> set (sp_acceptedChallengeNetworks profile)) (ch_requirements ch) = m # ms
        \<and> selectAndValidateChallenge c profile pq r payer = \<lparr> sel_requirement = Some m, sel_reasonCodes = [] \<rparr>
        \<and> ch_requestSha256 ch = pq_sha256 pq \<and> pm_resourceUrl m = Some (pq_url pq)
        \<and> pm_protocol m = sp_protocol profile \<and> pm_x402Version m = sp_x402Version profile
        \<and> pm_asset m \<in> set (sp_allowedAssets profile)
        \<and> pm_feePayer m \<notin> {None, Some payer}
        \<and> pm_asset m = rq_mint r \<and> pm_payTo m = rq_recipient r \<and> pm_amountAtomic m = rq_amountAtomic r)"
    (is "?L \<longleftrightarrow> ?R")
proof
  assume L: ?L
  then obtain ch where ch: "c = Challenge ch"
    using select_no_codes by blast
  let ?f = "filter (\<lambda>m. pm_network m \<in> set (sp_acceptedChallengeNetworks profile))
      (filter (\<lambda>m. pm_scheme m = sp_scheme profile) (ch_requirements ch))"
  obtain m ms where f: "?f = m # ms"
    using L ch by (cases ?f) (simp_all add: selectAndValidateChallenge_def)
  then have f': "filter (\<lambda>m. pm_scheme m = sp_scheme profile
            \<and> pm_network m \<in> set (sp_acceptedChallengeNetworks profile)) (ch_requirements ch) = m # ms"
    by (simp add: conj_commute)
  have "ch_requestSha256 ch = pq_sha256 pq \<and> acceptable_requirement profile pq r payer m"
    using L ch f filter_filter_hd [OF f]
    by (auto simp: selectAndValidateChallenge_def Let_def acceptable_requirement_def)
  moreover from this have "selectAndValidateChallenge c profile pq r payer = \<lparr> sel_requirement = Some m, sel_reasonCodes = [] \<rparr>"
    unfolding ch by (intro select_accepts [OF f']) simp_all
  ultimately show ?R
    using ch f' unfolding acceptable_requirement_def by (intro exI [of _ ch] exI [of _ m] exI [of _ ms]) auto
next
  assume ?R
  then show ?L by (elim exE conjE) simp
qed

text \<open>The digest of an outbound request identifies it: two requests that match the same
  recorded digest are the same URL, method, content type and body.\<close>

theorem paid_request_digest_identifies:
  assumes "collision_free_on px {paid_request_message a, paid_request_message b}"
    and "paidRequestMatches px a d" "paidRequestMatches px b d"
  shows "a = b"
  by (rule paid_request_identified [OF assms])

theorem paid_request_digest_identifies_witness:
  "\<not> paidRequestMatches sample_platform (createPaidRequest sample_platform ''/a'' ''POST'' ''{}'')
      (pq_sha256 (createPaidRequest sample_platform ''/b'' ''POST'' ''{}''))"
proof
  assume "paidRequestMatches sample_platform (createPaidRequest sample_platform ''/a'' ''POST'' ''{}'')
      (pq_sha256 (createPaidRequest sample_platform ''/b'' ''POST'' ''{}''))"
  moreover have "paidRequestMatches sample_platform (createPaidRequest sample_platform ''/b'' ''POST'' ''{}'')
      (pq_sha256 (createPaidRequest sample_platform ''/b'' ''POST'' ''{}''))"
    unfolding created_request_matches by (rule refl)
  ultimately have "createPaidRequest sample_platform ''/a'' ''POST'' ''{}'' = createPaidRequest sample_platform ''/b'' ''POST'' ''{}''"
    by (rule paid_request_digest_identifies [OF sample_collision_free])
  from arg_cong [OF this, of pq_url] show False unfolding createPaidRequest_simps by simp
qed

text \<open>The outbound request is sent to the trusted URL with the operation's method, as JSON, and its
  body determines the operation: two operations the resource serves that lead to the same body are
  the same operation.\<close>

theorem outbound_request_exact:
  assumes "canonical_faithful px"
    and "buildPaidRequest px resource p = Inr (Some a)" "buildPaidRequest px resource q = Inr (Some b)"
  shows "pq_url a = rc_url resource \<and> pq_method a = op_method p \<and> pq_contentType a = ''application/json''
    \<and> paidRequestMatches px a (pq_sha256 a) \<and> (pq_body a = pq_body b \<longleftrightarrow> p = q)"
  using buildPaidRequest_fields [OF assms(2)] outbound_identifies_operation [OF assms] assms(2,3) by auto

definition sample_resource :: PaidResource where
  "sample_resource = \<lparr> rc_serviceId = ''svc'', rc_capability = ''cap'', rc_url = ''/report'', rc_method = ''POST'' \<rparr>"

lemma sample_outbound:
  "buildPaidRequest sample_platform sample_resource sample_operation = Inr (Some
     (createPaidRequest sample_platform ''/report'' ''POST'' (the (operationRequestBody sample_platform sample_operation))))"
  "buildPaidRequest sample_platform sample_resource (sample_operation \<lparr> op_operation := ''export'' \<rparr>) = Inr (Some
     (createPaidRequest sample_platform ''/report'' ''POST''
        (the (operationRequestBody sample_platform (sample_operation \<lparr> op_operation := ''export'' \<rparr>)))))"
  by (simp_all add: buildPaidRequest_def sample_resource_def sample_operation_def sample_platform_def sample_parse_def
      operationRequestBody_def sample_canonicalize_def)

theorem outbound_request_exact_witness:
  "operationRequestBody sample_platform sample_operation
     \<noteq> operationRequestBody sample_platform (sample_operation \<lparr> op_operation := ''export'' \<rparr>)"
proof -
  from outbound_request_exact [OF sample_canonical_faithful(1) sample_outbound, THEN conjunct2, THEN conjunct2,
      THEN conjunct2, THEN conjunct2]
  have "the (operationRequestBody sample_platform sample_operation)
     \<noteq> the (operationRequestBody sample_platform (sample_operation \<lparr> op_operation := ''export'' \<rparr>))"
    unfolding createPaidRequest_simps by (simp add: sample_operation_def)
  then show ?thesis by metis
qed

text \<open>A receipt can be signed exactly with the key of the authority it names, keeps its fields, and
  then verifies against that authority's address and against no other pinned one.\<close>

theorem receipt_signature_exact:
  assumes "signatures_verify px" "canonical_total px"
  shows "case signAuthorizationReceipt px r k of
      Inl _ \<Rightarrow> keyAddress px k \<noteq> rcp_authority r
    | Inr s \<Rightarrow> keyAddress px k = rcp_authority r \<and> sg_body s = r
        \<and> (\<forall>pinned. verifyAuthorizationReceiptSignature px s pinned \<longleftrightarrow> pinned = rcp_authority r)"
proof (cases "keyAddress px k = rcp_authority r")
  case True
  from receipt_message.sign_then_verify [OF assms True] obtain s where
    "signAuthorizationReceipt px r k = Inr s" "sg_body s = r"
    "\<forall>pinned. verifyAuthorizationReceiptSignature px s pinned \<longleftrightarrow> pinned = rcp_authority r"
    unfolding signAuthorizationReceipt_def verifyAuthorizationReceiptSignature_def by blast
  with True show ?thesis by simp
next
  case False
  then show ?thesis by (simp add: signAuthorizationReceipt_def sign_pinned_def)
qed

text \<open>The same for the authority's service authorization and the service's acknowledgement.\<close>

theorem service_signatures_exact:
  assumes "signatures_verify px" "canonical_total px"
  shows "(case signServiceAuthorization px a k of
      Inl _ \<Rightarrow> keyAddress px k \<noteq> sa_authority a
    | Inr s \<Rightarrow> keyAddress px k = sa_authority a \<and> sg_body s = a
        \<and> (\<forall>pinned. verifyServiceAuthorizationSignature px s pinned \<longleftrightarrow> pinned = sa_authority a))
   \<and> (case signServiceAcknowledgement px c k of
      Inl _ \<Rightarrow> keyAddress px k \<noteq> sk_service c
    | Inr s \<Rightarrow> keyAddress px k = sk_service c \<and> sg_body s = c
        \<and> (\<forall>pinned. verifyServiceAcknowledgementSignature px s pinned \<longleftrightarrow> pinned = sk_service c))"
proof (intro conjI)
  show "case signServiceAuthorization px a k of
      Inl _ \<Rightarrow> keyAddress px k \<noteq> sa_authority a
    | Inr s \<Rightarrow> keyAddress px k = sa_authority a \<and> sg_body s = a
        \<and> (\<forall>pinned. verifyServiceAuthorizationSignature px s pinned \<longleftrightarrow> pinned = sa_authority a)"
  proof (cases "keyAddress px k = sa_authority a")
    case True
    from authorization_message.sign_then_verify [OF assms True] obtain s where
      "signServiceAuthorization px a k = Inr s" "sg_body s = a"
      "\<forall>pinned. verifyServiceAuthorizationSignature px s pinned \<longleftrightarrow> pinned = sa_authority a"
      unfolding signServiceAuthorization_def verifyServiceAuthorizationSignature_def by blast
    with True show ?thesis by simp
  qed (simp add: signServiceAuthorization_def sign_pinned_def)
  show "case signServiceAcknowledgement px c k of
      Inl _ \<Rightarrow> keyAddress px k \<noteq> sk_service c
    | Inr s \<Rightarrow> keyAddress px k = sk_service c \<and> sg_body s = c
        \<and> (\<forall>pinned. verifyServiceAcknowledgementSignature px s pinned \<longleftrightarrow> pinned = sk_service c)"
  proof (cases "keyAddress px k = sk_service c")
    case True
    from acknowledgement_message.sign_then_verify [OF assms True] obtain s where
      "signServiceAcknowledgement px c k = Inr s" "sg_body s = c"
      "\<forall>pinned. verifyServiceAcknowledgementSignature px s pinned \<longleftrightarrow> pinned = sk_service c"
      unfolding signServiceAcknowledgement_def verifyServiceAcknowledgementSignature_def by blast
    with True show ?thesis by simp
  qed (simp add: signServiceAcknowledgement_def sign_pinned_def)
qed

definition sample_receipt :: receipt_v2 where
  "sample_receipt = \<lparr> rcp_invocationId = ''i1'', rcp_grantId = ''G1'', rcp_authority = ''KT'', rcp_agent = ''KA'',
     rcp_permitDigest = sample_digest, rcp_requestFingerprint = ''f1'', rcp_service = ''svc'', rcp_capability = ''cap'',
     rcp_network = ''devnet'', rcp_mint = ''M'', rcp_recipient = ''R'', rcp_amountAtomic = ''4'', rcp_decision = ALLOW,
     rcp_reasonCodes = [], rcp_paymentTransactionId = Some ''tx'', rcp_decidedAt = 60,
     rcp_operation = sample_operation, rcp_operationDigest = sample_digest \<rparr>"

theorem receipt_signature_exact_witness:
  "\<exists>s. signAuthorizationReceipt sample_platform sample_receipt ''T'' = Inr s
     \<and> verifyAuthorizationReceiptSignature sample_platform s ''KT''
     \<and> \<not> verifyAuthorizationReceiptSignature sample_platform s ''KX''"
  using receipt_signature_exact [OF sample_signatures(1) sample_canonical_total(1), where r = sample_receipt and k = "''T''"]
  by (cases "signAuthorizationReceipt sample_platform sample_receipt ''T''") (simp_all add: sample_platform_def sample_receipt_def)

definition sample_service_authorization :: service_authorization where
  "sample_service_authorization = \<lparr> sa_authority = ''KT'', sa_invocationId = ''i1'', sa_grantId = ''G1'',
     sa_url = ''/report'', sa_requestSha256 = sample_digest, sa_operationDigest = sample_digest, sa_network = ''n'',
     sa_asset = ''M'', sa_payTo = ''R'', sa_amountAtomic = ''4'', sa_issuedAt = 60, sa_expiresAt = 120060 \<rparr>"

theorem service_signatures_exact_witness:
  "\<exists>s. signServiceAuthorization sample_platform sample_service_authorization ''T'' = Inr s
     \<and> verifyServiceAuthorizationSignature sample_platform s ''KT''"
proof -
  have k: "keyAddress sample_platform ''T'' = sa_authority sample_service_authorization"
    by (simp add: sample_platform_def sample_service_authorization_def)
  from service_signatures_exact [OF sample_signatures(1) sample_canonical_total(1),
      where a = sample_service_authorization and k = "''T''", THEN conjunct1] k
  show ?thesis
    by (cases "signServiceAuthorization sample_platform sample_service_authorization ''T''")
      (simp_all add: sample_service_authorization_def)
qed

end
