(* ===== verification/Evidence_Parse.thy ===== *)
theory Evidence_Parse
  imports Evidence_Signed Transport_Encoding "HOL-Library.Monad_Syntax"
begin

text \<open>
  packages/evidence/src/parse.ts: the combinators of the strict parser and the two service messages
  (the authorization the authority sends with a paid request, the acknowledgement the service
  answers with).  \<open>None\<close> is a thrown EvidenceFormatError; paths and texts of errors are dropped.
\<close>

section \<open>Combinators\<close>

definition p_object :: "jsval \<Rightarrow> string list \<Rightarrow> string list \<Rightarrow> jsval option" where
  "p_object v required optional =
     (if \<not> isPlainObject v then None
      else if find (\<lambda>k. k \<notin> set required \<and> k \<notin> set optional) (jkeys v) \<noteq> None then None
      else if find (\<lambda>k. k \<notin> set (jkeys v)) required \<noteq> None then None
      else Some v)"

definition p_string :: "nat \<Rightarrow> (string \<Rightarrow> bool) \<Rightarrow> jsval \<Rightarrow> string option" where
  "p_string mx pattern v =
     (case v of JStr s \<Rightarrow> if length s = 0 \<or> length s > mx then None
                           else if \<not> pattern s then None else Some s
      | _ \<Rightarrow> None)"

definition p_integer :: "int \<Rightarrow> jsval \<Rightarrow> int option" where
  "p_integer mn v = (if \<not> isSafeInteger v \<or> jint v < mn then None else Some (jint v))"

definition p_nullable :: "(jsval \<Rightarrow> 'a option) \<Rightarrow> jsval \<Rightarrow> 'a option option" where
  "p_nullable parse v = (if v = JNull then Some None else map_option Some (parse v))"

definition p_literal :: "jsval \<Rightarrow> jsval \<Rightarrow> unit option" where
  "p_literal v expected = (if v \<noteq> expected then None else Some ())"

section \<open>Patterns and bounds\<close>

definition any_string :: "string \<Rightarrow> bool" where
  "any_string s = True"

definition is_base58_char :: "char \<Rightarrow> bool" where
  "is_base58_char c \<longleftrightarrow> is_alnum c \<and> c \<noteq> CHR ''0'' \<and> c \<noteq> CHR ''I'' \<and> c \<noteq> CHR ''O'' \<and> c \<noteq> CHR ''l''"

text \<open>\<open>/^[1-9A-HJ-NP-Za-km-z]+$/\<close>, \<open>/^[0-9a-f]{64}$/\<close>\<close>

definition base58_pattern :: "string \<Rightarrow> bool" where
  "base58_pattern s \<longleftrightarrow> s \<noteq> [] \<and> list_all is_base58_char s"

definition hex64_pattern :: "string \<Rightarrow> bool" where
  "hex64_pattern s \<longleftrightarrow> class_between is_hex_char 64 64 s"

definition MAX_URL :: nat where
  "MAX_URL = 2048"

definition p_signature :: "jsval \<Rightarrow> string option" where
  "p_signature v = do {
     r \<leftarrow> p_object v [''algorithm'', ''signature''] [];
     _ \<leftarrow> p_literal (jget r ''algorithm'') (JStr ''ed25519'');
     p_string 128 base58_pattern (jget r ''signature'') }"

section \<open>Service messages\<close>

definition parseServiceAuthorization :: "jsval \<Rightarrow> service_authorization signed option" where
  "parseServiceAuthorization v = do {
     r \<leftarrow> p_object v [''version'', ''domain'', ''authority'', ''invocationId'', ''grantId'', ''request'',
             ''operationDigest'', ''payment'', ''issuedAt'', ''expiresAt'', ''signature''] [];
     q \<leftarrow> p_object (jget r ''request'') [''method'', ''url'', ''contentType'', ''requestSha256''] [];
     pay \<leftarrow> p_object (jget r ''payment'') [''network'', ''asset'', ''payTo'', ''amountAtomic''] [];
     _ \<leftarrow> p_literal (jget r ''version'') (JInt 1);
     _ \<leftarrow> p_literal (jget r ''domain'') (JStr ''virtual-haibin/service-authorization'');
     authority \<leftarrow> p_string 64 base58_pattern (jget r ''authority'');
     invocationId \<leftarrow> p_string 128 any_string (jget r ''invocationId'');
     grantId \<leftarrow> p_string 128 any_string (jget r ''grantId'');
     _ \<leftarrow> p_literal (jget q ''method'') (JStr ''POST'');
     url \<leftarrow> p_string MAX_URL any_string (jget q ''url'');
     _ \<leftarrow> p_literal (jget q ''contentType'') (JStr ''application/json'');
     requestSha256 \<leftarrow> p_string 64 hex64_pattern (jget q ''requestSha256'');
     operationDigest \<leftarrow> p_string 64 hex64_pattern (jget r ''operationDigest'');
     network \<leftarrow> p_string 128 any_string (jget pay ''network'');
     asset \<leftarrow> p_string 64 any_string (jget pay ''asset'');
     payTo \<leftarrow> p_string 64 any_string (jget pay ''payTo'');
     amountAtomic \<leftarrow> p_string 20 atomic_pattern (jget pay ''amountAtomic'');
     issuedAt \<leftarrow> p_integer 1 (jget r ''issuedAt'');
     expiresAt \<leftarrow> p_integer 1 (jget r ''expiresAt'');
     signature \<leftarrow> p_signature (jget r ''signature'');
     Some \<lparr> sg_body = \<lparr> sa_authority = authority, sa_invocationId = invocationId, sa_grantId = grantId,
                        sa_url = url, sa_requestSha256 = requestSha256, sa_operationDigest = operationDigest,
                        sa_network = network, sa_asset = asset, sa_payTo = payTo, sa_amountAtomic = amountAtomic,
                        sa_issuedAt = issuedAt, sa_expiresAt = expiresAt \<rparr>,
            sg_signature = signature \<rparr> }"

definition parseServiceAcknowledgement :: "jsval \<Rightarrow> service_acknowledgement signed option" where
  "parseServiceAcknowledgement v = do {
     r \<leftarrow> p_object v [''version'', ''domain'', ''service'', ''invocationId'', ''authorizationDigest'',
             ''requestSha256'', ''received'', ''payment'', ''result'', ''fulfilledAt'', ''signature''] [];
     rec \<leftarrow> p_object (jget r ''received'') [''method'', ''resource'', ''operation'', ''datasetId''] [];
     pay \<leftarrow> p_object (jget r ''payment'') [''transaction'', ''asset'', ''payTo'', ''amountAtomic''] [];
     res \<leftarrow> p_object (jget r ''result'') [''httpStatus'', ''contentType'', ''sha256'', ''bytes''] [];
     _ \<leftarrow> p_literal (jget r ''version'') (JInt 1);
     _ \<leftarrow> p_literal (jget r ''domain'') (JStr ''virtual-haibin/service-acknowledgement'');
     service \<leftarrow> p_string 64 base58_pattern (jget r ''service'');
     invocationId \<leftarrow> p_string 128 any_string (jget r ''invocationId'');
     authorizationDigest \<leftarrow> p_string 64 hex64_pattern (jget r ''authorizationDigest'');
     requestSha256 \<leftarrow> p_string 64 hex64_pattern (jget r ''requestSha256'');
     mthd \<leftarrow> p_string 16 any_string (jget rec ''method'');
     resource \<leftarrow> p_string 256 any_string (jget rec ''resource'');
     operation \<leftarrow> p_string 64 any_string (jget rec ''operation'');
     datasetId \<leftarrow> p_string 128 any_string (jget rec ''datasetId'');
     transaction \<leftarrow> p_nullable (p_string 128 base58_pattern) (jget pay ''transaction'');
     asset \<leftarrow> p_string 64 any_string (jget pay ''asset'');
     payTo \<leftarrow> p_string 64 any_string (jget pay ''payTo'');
     amountAtomic \<leftarrow> p_string 20 atomic_pattern (jget pay ''amountAtomic'');
     httpStatus \<leftarrow> p_integer 100 (jget res ''httpStatus'');
     _ \<leftarrow> p_literal (jget res ''contentType'') (JStr ''application/json'');
     sha256 \<leftarrow> p_string 64 hex64_pattern (jget res ''sha256'');
     bytes \<leftarrow> p_integer 0 (jget res ''bytes'');
     fulfilledAt \<leftarrow> p_integer 1 (jget r ''fulfilledAt'');
     signature \<leftarrow> p_signature (jget r ''signature'');
     Some \<lparr> sg_body = \<lparr> sk_service = service, sk_invocationId = invocationId,
                        sk_authorizationDigest = authorizationDigest, sk_requestSha256 = requestSha256,
                        sk_method = mthd, sk_resource = resource, sk_operation = operation,
                        sk_datasetId = datasetId, sk_transaction = transaction, sk_asset = asset,
                        sk_payTo = payTo, sk_amountAtomic = amountAtomic, sk_httpStatus = httpStatus,
                        sk_sha256 = sha256, sk_bytes = bytes, sk_fulfilledAt = fulfilledAt \<rparr>,
            sg_signature = signature \<rparr> }"

section \<open>What the combinators accept\<close>

named_theorems parse_iff

lemma p_object_iff:
  "p_object v req opt = Some r \<longleftrightarrow>
     r = v \<and> isPlainObject v \<and> set req \<subseteq> set (jkeys v) \<and> set (jkeys v) \<subseteq> set req \<union> set opt"
proof -
  have "find (\<lambda>k. k \<notin> set req \<and> k \<notin> set opt) (jkeys v) = None \<longleftrightarrow> set (jkeys v) \<subseteq> set req \<union> set opt"
    "find (\<lambda>k. k \<notin> set (jkeys v)) req = None \<longleftrightarrow> set req \<subseteq> set (jkeys v)"
    by (auto simp: find_None_iff)
  then show ?thesis by (auto simp: p_object_def)
qed

lemma p_object_all [parse_iff]:
  "p_object v req [] = Some r \<longleftrightarrow> r = v \<and> isPlainObject v \<and> set (jkeys v) = set req"
  by (auto simp: p_object_iff)

lemma p_string_iff [parse_iff]:
  "p_string mx P v = Some s \<longleftrightarrow> v = JStr s \<and> s \<noteq> [] \<and> length s \<le> mx \<and> P s"
  by (cases v) (auto simp: p_string_def)

lemma p_integer_iff [parse_iff]:
  "p_integer mn v = Some i \<longleftrightarrow> v = JInt i \<and> \<bar>i\<bar> \<le> MAX_SAFE_INTEGER \<and> mn \<le> i"
  by (cases v) (auto simp: p_integer_def)

lemma p_literal_iff [parse_iff]: "p_literal v e = Some u \<longleftrightarrow> v = e"
  by (simp add: p_literal_def)

lemma p_nullable_iff [parse_iff]:
  "p_nullable P v = Some x \<longleftrightarrow> v = JNull \<and> x = None \<or> v \<noteq> JNull \<and> (\<exists>a. P v = Some a \<and> x = Some a)"
  by (auto simp: p_nullable_def)

lemma bind_Some_iff [parse_iff]: "Option.bind m f = Some b \<longleftrightarrow> (\<exists>a. m = Some a \<and> f a = Some b)"
  by (cases m) simp_all

lemma p_signature_iff [parse_iff]:
  "p_signature v = Some s \<longleftrightarrow> isPlainObject v \<and> set (jkeys v) = {''algorithm'', ''signature''}
     \<and> jget v ''algorithm'' = JStr ''ed25519'' \<and> jget v ''signature'' = JStr s
     \<and> length s \<le> 128 \<and> base58_pattern s"
  by (auto simp: p_signature_def parse_iff base58_pattern_def)

section \<open>Objects up to the order of their keys\<close>

lemma jnorm_scalar_iff [simp]:
  "jnorm v = JStr s \<longleftrightarrow> v = JStr s" "jnorm v = JInt i \<longleftrightarrow> v = JInt i" "jnorm v = JBool b \<longleftrightarrow> v = JBool b"
  "jnorm v = JNull \<longleftrightarrow> v = JNull" "jnorm v = JUndef \<longleftrightarrow> v = JUndef"
  by (cases v; simp)+

lemma jnorm_objects_iff:
  assumes "distinct (map fst a)" "distinct (map fst b)"
  shows "jnorm (JObj a) = jnorm (JObj b) \<longleftrightarrow> set (map fst a) = set (map fst b)
    \<and> (\<forall>k \<in> set (map fst b). jnorm (jget (JObj a) k) = jnorm (jget (JObj b) k))" (is "?L \<longleftrightarrow> ?R")
proof
  let ?n = "map (\<lambda>kv. (fst kv, jnorm (snd kv)))"
  assume L: ?L
  then have "fst ` set (sort_key fst (?n a)) = fst ` set (sort_key fst (?n b))" by simp
  then have "set (map fst a) = set (map fst b)" by (simp add: image_image)
  with jnorm_jget_cong [OF L assms] show ?R by blast
next
  let ?n = "map (\<lambda>kv. (fst kv, jnorm (snd kv)))"
  assume R: ?R
  have dist: "distinct (map fst (?n c))" if "distinct (map fst c)" for c :: "(string \<times> jsval) list"
    using that by (simp add: comp_def)
  have rd: "map_of (?n c) k = (if k \<in> set (map fst c) then Some (jnorm (jget (JObj c) k)) else None)"
    for c :: "(string \<times> jsval) list" and k
    by (cases "map_of c k") (auto simp: map_of_map_snd map_of_eq_None_iff dest!: map_of_SomeD intro: rev_image_eqI)
  have "map_of (?n a) = map_of (?n b)" using R by (auto simp: fun_eq_iff rd)
  then have "set (?n a) = set (?n b)"
    using map_of_inject_set [OF dist [OF assms(1)] dist [OF assms(2)]] by simp
  moreover have "distinct (map fst (sort_key fst (?n a)))" "distinct (map fst (sort_key fst (?n b)))"
    unfolding distinct_sort_key using dist assms by blast+
  ultimately have "sort_key fst (?n a) = sort_key fst (?n b)"
    by (intro map_sorted_distinct_set_unique [of fst]) (simp_all add: distinct_map)
  then show ?L by simp
qed

lemma json_value_jget: "json_value v \<Longrightarrow> k \<in> set (jkeys v) \<Longrightarrow> json_value (jget v k)"
  by (cases v) (auto split: option.split dest: map_of_SomeD simp: map_of_eq_None_iff image_iff)

text \<open>A value is the same as a given object up to the order of keys exactly when it has the same keys and
  reads the same at each.\<close>

lemma same_object_iff:
  assumes "json_value v" "distinct (map fst b)"
  shows "jnorm v = jnorm (JObj b) \<longleftrightarrow> isPlainObject v \<and> set (jkeys v) = fst ` set b
    \<and> list_all (\<lambda>(k, x). jnorm (jget v k) = jnorm x) b"
proof (cases v)
  case (JObj a)
  have rd: "jget (JObj b) k = x" if "(k, x) \<in> set b" for k x
    using map_of_is_SomeI [OF assms(2) that] by simp
  have "(\<forall>k \<in> set (map fst b). jnorm (jget (JObj a) k) = jnorm (jget (JObj b) k))
      \<longleftrightarrow> list_all (\<lambda>(k, x). jnorm (jget v k) = jnorm x) b"
    unfolding list_all_iff JObj using rd by (fastforce simp del: jget.simps)
  with jnorm_objects_iff [of a b] assms JObj show ?thesis by simp
qed simp_all

section \<open>The parsers accept exactly the well-formed messages\<close>

definition wf_service_authorization :: "service_authorization signed \<Rightarrow> bool" where
  "wf_service_authorization m \<longleftrightarrow> (let a = sg_body m in
     base58_pattern (sa_authority a) \<and> length (sa_authority a) \<le> 64
     \<and> list_all (\<lambda>(n, t). t \<noteq> [] \<and> length t \<le> n) [(128, sa_invocationId a), (128, sa_grantId a), (2048, sa_url a),
          (128, sa_network a), (64, sa_asset a), (64, sa_payTo a)]
     \<and> hex64_pattern (sa_requestSha256 a) \<and> hex64_pattern (sa_operationDigest a)
     \<and> atomic_pattern (sa_amountAtomic a)
     \<and> 1 \<le> sa_issuedAt a \<and> sa_issuedAt a \<le> MAX_SAFE_INTEGER
     \<and> 1 \<le> sa_expiresAt a \<and> sa_expiresAt a \<le> MAX_SAFE_INTEGER
     \<and> base58_pattern (sg_signature m) \<and> length (sg_signature m) \<le> 128)"

definition wf_service_acknowledgement :: "service_acknowledgement signed \<Rightarrow> bool" where
  "wf_service_acknowledgement m \<longleftrightarrow> (let k = sg_body m in
     base58_pattern (sk_service k) \<and> length (sk_service k) \<le> 64
     \<and> list_all (\<lambda>(n, t). t \<noteq> [] \<and> length t \<le> n) [(128, sk_invocationId k), (16, sk_method k), (256, sk_resource k),
          (64, sk_operation k), (128, sk_datasetId k), (64, sk_asset k), (64, sk_payTo k)]
     \<and> list_all hex64_pattern [sk_authorizationDigest k, sk_requestSha256 k, sk_sha256 k]
     \<and> pred_option (\<lambda>t. base58_pattern t \<and> length t \<le> 128) (sk_transaction k)
     \<and> atomic_pattern (sk_amountAtomic k)
     \<and> 100 \<le> sk_httpStatus k \<and> sk_httpStatus k \<le> MAX_SAFE_INTEGER
     \<and> 0 \<le> sk_bytes k \<and> sk_bytes k \<le> MAX_SAFE_INTEGER
     \<and> 1 \<le> sk_fulfilledAt k \<and> sk_fulfilledAt k \<le> MAX_SAFE_INTEGER
     \<and> base58_pattern (sg_signature m) \<and> length (sg_signature m) \<le> 128)"

lemma pattern_nonempty:
  "base58_pattern s \<Longrightarrow> s \<noteq> []" "hex64_pattern s \<Longrightarrow> s \<noteq> [] \<and> length s \<le> 64"
  by (auto simp: base58_pattern_def hex64_pattern_def class_between_def)

lemma atomic_length: "atomic_pattern s \<Longrightarrow> s \<noteq> [] \<and> length s \<le> 20"
  by (cases s) (auto split: if_splits)

lemma wf_numbers: "(\<bar>i\<bar> \<le> MAX_SAFE_INTEGER \<and> 1 \<le> i) = (1 \<le> i \<and> i \<le> MAX_SAFE_INTEGER)"
  "(\<bar>i\<bar> \<le> MAX_SAFE_INTEGER \<and> 0 \<le> i) = (0 \<le> i \<and> i \<le> MAX_SAFE_INTEGER)"
  "(\<bar>i\<bar> \<le> MAX_SAFE_INTEGER \<and> 100 \<le> i) = (100 \<le> i \<and> i \<le> MAX_SAFE_INTEGER)"
  by (auto simp: MAX_SAFE_INTEGER_def)

lemma distinct_service_fields:
  "distinct (map fst (service_authorization_fields a @ [(''signature'', x)]))"
  "distinct (map fst (service_acknowledgement_fields k @ [(''signature'', x)]))"
  by (simp_all add: service_authorization_fields_def service_acknowledgement_fields_def)

lemma same_signature_iff:
  assumes "json_value v"
  shows "jnorm v = jnorm (signature_json s) \<longleftrightarrow> isPlainObject v \<and> set (jkeys v) = {''algorithm'', ''signature''}
    \<and> jget v ''algorithm'' = JStr ''ed25519'' \<and> jget v ''signature'' = JStr s"
  using same_object_iff [OF assms, of "[(''algorithm'', JStr ''ed25519''), (''signature'', JStr s)]"]
  by (simp add: signature_json_def)

lemma parseServiceAuthorization_iff:
  "parseServiceAuthorization v = Some m \<longleftrightarrow> (let a = sg_body m; q = jget v ''request''; p = jget v ''payment'' in
     isPlainObject v \<and> set (jkeys v) = set [''version'', ''domain'', ''authority'', ''invocationId'', ''grantId'',
         ''request'', ''operationDigest'', ''payment'', ''issuedAt'', ''expiresAt'', ''signature'']
     \<and> isPlainObject q \<and> set (jkeys q) = set [''method'', ''url'', ''contentType'', ''requestSha256'']
     \<and> isPlainObject p \<and> set (jkeys p) = set [''network'', ''asset'', ''payTo'', ''amountAtomic'']
     \<and> isPlainObject (jget v ''signature'') \<and> set (jkeys (jget v ''signature'')) = {''algorithm'', ''signature''}
     \<and> jget (jget v ''signature'') ''algorithm'' = JStr ''ed25519''
     \<and> jget (jget v ''signature'') ''signature'' = JStr (sg_signature m)
     \<and> jget v ''version'' = JInt 1 \<and> jget v ''domain'' = JStr SERVICE_AUTHORIZATION_DOMAIN
     \<and> jget v ''authority'' = JStr (sa_authority a) \<and> jget v ''invocationId'' = JStr (sa_invocationId a)
     \<and> jget v ''grantId'' = JStr (sa_grantId a) \<and> jget v ''operationDigest'' = JStr (sa_operationDigest a)
     \<and> jget v ''issuedAt'' = JInt (sa_issuedAt a) \<and> jget v ''expiresAt'' = JInt (sa_expiresAt a)
     \<and> jget q ''method'' = JStr ''POST'' \<and> jget q ''url'' = JStr (sa_url a)
     \<and> jget q ''contentType'' = JStr ''application/json'' \<and> jget q ''requestSha256'' = JStr (sa_requestSha256 a)
     \<and> jget p ''network'' = JStr (sa_network a) \<and> jget p ''asset'' = JStr (sa_asset a)
     \<and> jget p ''payTo'' = JStr (sa_payTo a) \<and> jget p ''amountAtomic'' = JStr (sa_amountAtomic a)
     \<and> wf_service_authorization m)" (is "?P \<longleftrightarrow> ?Q")
proof
  assume ?P
  then show ?Q
    unfolding parseServiceAuthorization_def parse_iff wf_service_authorization_def Let_def
    by (clarsimp simp: wf_numbers any_string_def MAX_URL_def SERVICE_AUTHORIZATION_DOMAIN_def)
next
  assume ?Q
  then show ?P
    using pattern_nonempty atomic_length
    unfolding parseServiceAuthorization_def parse_iff wf_service_authorization_def Let_def
    by (cases m; cases "sg_body m") (simp add: wf_numbers any_string_def MAX_URL_def SERVICE_AUTHORIZATION_DOMAIN_def)
qed

lemma parseServiceAcknowledgement_iff:
  "parseServiceAcknowledgement v = Some m \<longleftrightarrow> (let k = sg_body m; rc = jget v ''received''; p = jget v ''payment'';
       rs = jget v ''result'' in
     isPlainObject v \<and> set (jkeys v) = set [''version'', ''domain'', ''service'', ''invocationId'', ''authorizationDigest'',
         ''requestSha256'', ''received'', ''payment'', ''result'', ''fulfilledAt'', ''signature'']
     \<and> isPlainObject rc \<and> set (jkeys rc) = set [''method'', ''resource'', ''operation'', ''datasetId'']
     \<and> isPlainObject p \<and> set (jkeys p) = set [''transaction'', ''asset'', ''payTo'', ''amountAtomic'']
     \<and> isPlainObject rs \<and> set (jkeys rs) = set [''httpStatus'', ''contentType'', ''sha256'', ''bytes'']
     \<and> isPlainObject (jget v ''signature'') \<and> set (jkeys (jget v ''signature'')) = {''algorithm'', ''signature''}
     \<and> jget (jget v ''signature'') ''algorithm'' = JStr ''ed25519''
     \<and> jget (jget v ''signature'') ''signature'' = JStr (sg_signature m)
     \<and> jget v ''version'' = JInt 1 \<and> jget v ''domain'' = JStr SERVICE_ACKNOWLEDGEMENT_DOMAIN
     \<and> jget v ''service'' = JStr (sk_service k) \<and> jget v ''invocationId'' = JStr (sk_invocationId k)
     \<and> jget v ''authorizationDigest'' = JStr (sk_authorizationDigest k)
     \<and> jget v ''requestSha256'' = JStr (sk_requestSha256 k) \<and> jget v ''fulfilledAt'' = JInt (sk_fulfilledAt k)
     \<and> jget rc ''method'' = JStr (sk_method k) \<and> jget rc ''resource'' = JStr (sk_resource k)
     \<and> jget rc ''operation'' = JStr (sk_operation k) \<and> jget rc ''datasetId'' = JStr (sk_datasetId k)
     \<and> jget p ''transaction'' = opt_json JStr (sk_transaction k) \<and> jget p ''asset'' = JStr (sk_asset k)
     \<and> jget p ''payTo'' = JStr (sk_payTo k) \<and> jget p ''amountAtomic'' = JStr (sk_amountAtomic k)
     \<and> jget rs ''httpStatus'' = JInt (sk_httpStatus k) \<and> jget rs ''contentType'' = JStr ''application/json''
     \<and> jget rs ''sha256'' = JStr (sk_sha256 k) \<and> jget rs ''bytes'' = JInt (sk_bytes k)
     \<and> wf_service_acknowledgement m)" (is "?P \<longleftrightarrow> ?Q")
proof
  assume ?P
  then show ?Q
    unfolding parseServiceAcknowledgement_def parse_iff wf_service_acknowledgement_def Let_def opt_json_def
    apply clarsimp
    apply (elim disjE; clarsimp simp: wf_numbers any_string_def SERVICE_ACKNOWLEDGEMENT_DOMAIN_def)
    done
next
  assume ?Q
  then show ?P
    using pattern_nonempty atomic_length
    unfolding parseServiceAcknowledgement_def parse_iff wf_service_acknowledgement_def Let_def opt_json_def
    by (cases m; cases "sg_body m"; cases "sk_transaction (sg_body m)")
      (simp_all add: wf_numbers any_string_def SERVICE_ACKNOWLEDGEMENT_DOMAIN_def)
qed

lemma jnorm_opt_json [simp]: "jnorm v = jnorm (opt_json JStr x) \<longleftrightarrow> v = opt_json JStr x"
  by (cases x) (simp_all add: opt_json_def)

lemma parseServiceAuthorization_exact:
  assumes "json_value v"
  shows "parseServiceAuthorization v = Some m \<longleftrightarrow> wf_service_authorization m \<and> jnorm v = jnorm (signed_json service_authorization_fields m)"
    (is "_ \<longleftrightarrow> _ \<and> ?J")
proof -
  have J: "?J \<longleftrightarrow> isPlainObject v
      \<and> set (jkeys v) = fst ` set (service_authorization_fields (sg_body m) @ [(''signature'', signature_json (sg_signature m))])
      \<and> list_all (\<lambda>(k, x). jnorm (jget v k) = jnorm x)
          (service_authorization_fields (sg_body m) @ [(''signature'', signature_json (sg_signature m))])"
    unfolding signed_json_def by (rule same_object_iff [OF assms distinct_service_fields(1)])
  show ?thesis
  proof (cases "isPlainObject v \<and> set (jkeys v) = set [''version'', ''domain'', ''authority'', ''invocationId'', ''grantId'', ''request'', ''operationDigest'', ''payment'', ''issuedAt'', ''expiresAt'', ''signature'']")
    case False
    moreover have "fst ` set (service_authorization_fields (sg_body m) @ [(''signature'', signature_json (sg_signature m))])
        = set [''version'', ''domain'', ''authority'', ''invocationId'', ''grantId'', ''request'', ''operationDigest'', ''payment'', ''issuedAt'', ''expiresAt'', ''signature'']"
      by (simp add: service_authorization_fields_def)
    ultimately show ?thesis unfolding J parseServiceAuthorization_iff Let_def by blast
  next
    case True
    have q: "jnorm (jget v ''request'') = jnorm (JObj [(''method'', JStr ''POST''), (''url'', JStr (sa_url (sg_body m))), (''contentType'', JStr ''application/json''), (''requestSha256'', JStr (sa_requestSha256 (sg_body m)))]) \<longleftrightarrow> isPlainObject (jget v ''request'')
        \<and> set (jkeys (jget v ''request'')) = fst ` set [(''method'', JStr ''POST''), (''url'', JStr (sa_url (sg_body m))), (''contentType'', JStr ''application/json''), (''requestSha256'', JStr (sa_requestSha256 (sg_body m)))]
        \<and> list_all (\<lambda>(k, x). jnorm (jget (jget v ''request'') k) = jnorm x) [(''method'', JStr ''POST''), (''url'', JStr (sa_url (sg_body m))), (''contentType'', JStr ''application/json''), (''requestSha256'', JStr (sa_requestSha256 (sg_body m)))]"
      by (rule same_object_iff) (use json_value_jget [OF assms] True in simp_all)
    have p: "jnorm (jget v ''payment'') = jnorm (JObj [(''network'', JStr (sa_network (sg_body m))), (''asset'', JStr (sa_asset (sg_body m))), (''payTo'', JStr (sa_payTo (sg_body m))), (''amountAtomic'', JStr (sa_amountAtomic (sg_body m)))]) \<longleftrightarrow> isPlainObject (jget v ''payment'')
        \<and> set (jkeys (jget v ''payment'')) = fst ` set [(''network'', JStr (sa_network (sg_body m))), (''asset'', JStr (sa_asset (sg_body m))), (''payTo'', JStr (sa_payTo (sg_body m))), (''amountAtomic'', JStr (sa_amountAtomic (sg_body m)))]
        \<and> list_all (\<lambda>(k, x). jnorm (jget (jget v ''payment'') k) = jnorm x) [(''network'', JStr (sa_network (sg_body m))), (''asset'', JStr (sa_asset (sg_body m))), (''payTo'', JStr (sa_payTo (sg_body m))), (''amountAtomic'', JStr (sa_amountAtomic (sg_body m)))]"
      by (rule same_object_iff) (use json_value_jget [OF assms] True in simp_all)
    have s: "json_value (jget v ''signature'')" using json_value_jget [OF assms] True by simp
    show ?thesis
      unfolding J parseServiceAuthorization_iff Let_def service_authorization_fields_def
      using True same_signature_iff [OF s] by (auto simp: q p simp del: jnorm.simps(2))
  qed
qed

lemma parseServiceAcknowledgement_exact:
  assumes "json_value v"
  shows "parseServiceAcknowledgement v = Some m \<longleftrightarrow> wf_service_acknowledgement m \<and> jnorm v = jnorm (signed_json service_acknowledgement_fields m)"
    (is "_ \<longleftrightarrow> _ \<and> ?J")
proof -
  have J: "?J \<longleftrightarrow> isPlainObject v
      \<and> set (jkeys v) = fst ` set (service_acknowledgement_fields (sg_body m) @ [(''signature'', signature_json (sg_signature m))])
      \<and> list_all (\<lambda>(k, x). jnorm (jget v k) = jnorm x)
          (service_acknowledgement_fields (sg_body m) @ [(''signature'', signature_json (sg_signature m))])"
    unfolding signed_json_def by (rule same_object_iff [OF assms distinct_service_fields(2)])
  show ?thesis
  proof (cases "isPlainObject v \<and> set (jkeys v) = set [''version'', ''domain'', ''service'', ''invocationId'', ''authorizationDigest'', ''requestSha256'', ''received'', ''payment'', ''result'', ''fulfilledAt'', ''signature'']")
    case False
    moreover have "fst ` set (service_acknowledgement_fields (sg_body m) @ [(''signature'', signature_json (sg_signature m))])
        = set [''version'', ''domain'', ''service'', ''invocationId'', ''authorizationDigest'', ''requestSha256'', ''received'', ''payment'', ''result'', ''fulfilledAt'', ''signature'']"
      by (simp add: service_acknowledgement_fields_def)
    ultimately show ?thesis unfolding J parseServiceAcknowledgement_iff Let_def by blast
  next
    case True
    have r: "jnorm (jget v ''received'') = jnorm (JObj [(''method'', JStr (sk_method (sg_body m))), (''resource'', JStr (sk_resource (sg_body m))), (''operation'', JStr (sk_operation (sg_body m))), (''datasetId'', JStr (sk_datasetId (sg_body m)))]) \<longleftrightarrow> isPlainObject (jget v ''received'')
        \<and> set (jkeys (jget v ''received'')) = fst ` set [(''method'', JStr (sk_method (sg_body m))), (''resource'', JStr (sk_resource (sg_body m))), (''operation'', JStr (sk_operation (sg_body m))), (''datasetId'', JStr (sk_datasetId (sg_body m)))]
        \<and> list_all (\<lambda>(k, x). jnorm (jget (jget v ''received'') k) = jnorm x) [(''method'', JStr (sk_method (sg_body m))), (''resource'', JStr (sk_resource (sg_body m))), (''operation'', JStr (sk_operation (sg_body m))), (''datasetId'', JStr (sk_datasetId (sg_body m)))]"
      by (rule same_object_iff) (use json_value_jget [OF assms] True in simp_all)
    have p: "jnorm (jget v ''payment'') = jnorm (JObj [(''transaction'', opt_json JStr (sk_transaction (sg_body m))), (''asset'', JStr (sk_asset (sg_body m))), (''payTo'', JStr (sk_payTo (sg_body m))), (''amountAtomic'', JStr (sk_amountAtomic (sg_body m)))]) \<longleftrightarrow> isPlainObject (jget v ''payment'')
        \<and> set (jkeys (jget v ''payment'')) = fst ` set [(''transaction'', opt_json JStr (sk_transaction (sg_body m))), (''asset'', JStr (sk_asset (sg_body m))), (''payTo'', JStr (sk_payTo (sg_body m))), (''amountAtomic'', JStr (sk_amountAtomic (sg_body m)))]
        \<and> list_all (\<lambda>(k, x). jnorm (jget (jget v ''payment'') k) = jnorm x) [(''transaction'', opt_json JStr (sk_transaction (sg_body m))), (''asset'', JStr (sk_asset (sg_body m))), (''payTo'', JStr (sk_payTo (sg_body m))), (''amountAtomic'', JStr (sk_amountAtomic (sg_body m)))]"
      by (rule same_object_iff) (use json_value_jget [OF assms] True in simp_all)
    have e: "jnorm (jget v ''result'') = jnorm (JObj [(''httpStatus'', JInt (sk_httpStatus (sg_body m))), (''contentType'', JStr ''application/json''), (''sha256'', JStr (sk_sha256 (sg_body m))), (''bytes'', JInt (sk_bytes (sg_body m)))]) \<longleftrightarrow> isPlainObject (jget v ''result'')
        \<and> set (jkeys (jget v ''result'')) = fst ` set [(''httpStatus'', JInt (sk_httpStatus (sg_body m))), (''contentType'', JStr ''application/json''), (''sha256'', JStr (sk_sha256 (sg_body m))), (''bytes'', JInt (sk_bytes (sg_body m)))]
        \<and> list_all (\<lambda>(k, x). jnorm (jget (jget v ''result'') k) = jnorm x) [(''httpStatus'', JInt (sk_httpStatus (sg_body m))), (''contentType'', JStr ''application/json''), (''sha256'', JStr (sk_sha256 (sg_body m))), (''bytes'', JInt (sk_bytes (sg_body m)))]"
      by (rule same_object_iff) (use json_value_jget [OF assms] True in simp_all)
    have s: "json_value (jget v ''signature'')" using json_value_jget [OF assms] True by simp
    show ?thesis
      unfolding J parseServiceAcknowledgement_iff Let_def service_acknowledgement_fields_def
      using True same_signature_iff [OF s] by (auto simp: r p e simp del: jnorm.simps(2))
  qed
qed

end
