(* ===== verification/Evidence_Service.thy ===== *)
theory Evidence_Service
  imports Evidence_Parse
begin

text \<open>
  packages/evidence/src/service.ts, the transport of the two signed service messages and the check a
  paid service makes before its payment gate may settle: header encoding and decoding, and
  \<open>checkServiceAuthorization\<close>.
\<close>

section \<open>Headers\<close>

definition MAX_HEADER_CHARS :: nat where
  "MAX_HEADER_CHARS = 4096"

text \<open>\<open>None\<close> is the throw on a value without canonical text.\<close>

definition encodeServiceHeader :: "platform \<Rightarrow> jsval \<Rightarrow> string option" where
  "encodeServiceHeader px v = map_option (\<lambda>json. base64url_encode (utf8 json)) (canonicalize px v)"

definition decodeHeader :: "platform \<Rightarrow> string \<Rightarrow> jsval option" where
  "decodeHeader px header =
     (if length header = 0 \<or> length header > MAX_HEADER_CHARS \<or> \<not> list_all is_b64url_char header then None
      else parseJson px (base64url_decode header))"

definition decodeServiceAuthorizationHeader :: "platform \<Rightarrow> string \<Rightarrow> service_authorization signed option" where
  "decodeServiceAuthorizationHeader px header = Option.bind (decodeHeader px header) parseServiceAuthorization"

definition decodeServiceAcknowledgementHeader :: "platform \<Rightarrow> string \<Rightarrow> service_acknowledgement signed option" where
  "decodeServiceAcknowledgementHeader px header = Option.bind (decodeHeader px header) parseServiceAcknowledgement"

section \<open>The service's check of a paid request\<close>

datatype ServiceAuthorizationReasonCode =
    SERVICE_AUTHORIZATION_REQUIRED
  | SERVICE_AUTHORIZATION_INVALID
  | SERVICE_AUTHORIZATION_EXPIRED
  | SERVICE_AUTHORIZATION_REQUEST_MISMATCH
  | SERVICE_AUTHORIZATION_PAYMENT_MISMATCH

datatype ServiceAuthorizationCheck =
    CheckOk "service_authorization signed" string string
  | CheckFailed ServiceAuthorizationReasonCode

record service_check_context =
  sc_header :: "string option"
  sc_pinnedAuthority :: address
  sc_method :: string
  sc_path :: string
  sc_rawBody :: bytes
  sc_invocationIdHeader :: "string option"
  sc_asset :: string
  sc_payTo :: string
  sc_amountAtomic :: string
  sc_now :: int

text \<open>The digest of the request as received: the body bytes read as UTF-8 text.  \<open>None\<close> where the text
  does not encode back to the same bytes.\<close>

definition received_request_digest :: "platform \<Rightarrow> string \<Rightarrow> bytes \<Rightarrow> string option" where
  "received_request_digest px url rawBody =
     map_option (\<lambda>body. pq_sha256 (createPaidRequest px url ''POST'' body)) (utf8_decode rawBody)"

text \<open>\<open>None\<close> is the throw of the digest of an authorization without canonical text.\<close>

definition checkServiceAuthorization :: "platform \<Rightarrow> service_check_context \<Rightarrow> ServiceAuthorizationCheck option" where
  "checkServiceAuthorization px c =
     (case sc_header c of
        None \<Rightarrow> Some (CheckFailed SERVICE_AUTHORIZATION_REQUIRED)
      | Some header \<Rightarrow>
        if length header = 0 then Some (CheckFailed SERVICE_AUTHORIZATION_REQUIRED)
        else case decodeServiceAuthorizationHeader px header of
          None \<Rightarrow> Some (CheckFailed SERVICE_AUTHORIZATION_INVALID)
        | Some authorization \<Rightarrow>
          let a = sg_body authorization in
          if \<not> verifyServiceAuthorizationSignature px authorization (sc_pinnedAuthority c)
          then Some (CheckFailed SERVICE_AUTHORIZATION_INVALID)
          else if sc_now c < sa_issuedAt a - 30000 \<or> sc_now c > sa_expiresAt a
          then Some (CheckFailed SERVICE_AUTHORIZATION_EXPIRED)
          else case parseUrl px (sa_url a) of
            None \<Rightarrow> Some (CheckFailed SERVICE_AUTHORIZATION_INVALID)
          | Some u \<Rightarrow>
            if sc_method c \<noteq> ''POST'' \<or> sc_path c \<noteq> url_pathname u
              \<or> received_request_digest px (sa_url a) (sc_rawBody c) \<noteq> Some (sa_requestSha256 a)
              \<or> sc_invocationIdHeader c \<noteq> Some (sa_invocationId a)
            then Some (CheckFailed SERVICE_AUTHORIZATION_REQUEST_MISMATCH)
            else if sa_asset a \<noteq> sc_asset c \<or> sa_payTo a \<noteq> sc_payTo c \<or> sa_amountAtomic a \<noteq> sc_amountAtomic c
            then Some (CheckFailed SERVICE_AUTHORIZATION_PAYMENT_MISMATCH)
            else map_option (CheckOk authorization (sa_requestSha256 a))
                   (serviceAuthorizationDigest px authorization))"

section \<open>Headers read back\<close>

lemma base64url_encode_Nil: "base64url_encode s = [] \<longleftrightarrow> s = []"
  by (metis base64url_encode.simps(1) base64url_roundtrip)

lemma utf8_eq_Nil [simp]: "utf8 s = [] \<longleftrightarrow> s = []"
  using utf8_inject [of s "[]"] by (simp add: utf8_def)

lemma decodeHeader_encode:
  assumes "json_reads_back px" "json_value v" "encodeServiceHeader px v = Some h" "h \<noteq> []" "length h \<le> MAX_HEADER_CHARS"
  shows "\<exists>w. decodeHeader px h = Some w \<and> json_value w \<and> jnorm w = jnorm v"
proof -
  from assms(3) obtain s where s: "canonicalize px v = Some s" and h: "h = base64url_encode (utf8 s)"
    by (auto simp: encodeServiceHeader_def)
  from assms(1,2) s obtain w where "parseJson px (utf8 s) = Some w" "json_value w" "jnorm w = jnorm v"
    unfolding json_reads_back_def by blast
  with assms(4,5) show ?thesis
    by (auto simp: decodeHeader_def h base64url_roundtrip base64url_chars)
qed

lemma decodeHeader_bounded:
  "decodeHeader px h = Some v \<Longrightarrow> h \<noteq> [] \<and> length h \<le> MAX_HEADER_CHARS \<and> list_all is_b64url_char h"
  by (auto simp: decodeHeader_def split: if_splits)

lemma json_value_signed_service:
  "json_value (signed_json service_authorization_fields m)"
  "json_value (signed_json service_acknowledgement_fields k)"
  by (simp_all add: signed_json_def service_authorization_fields_def service_acknowledgement_fields_def
      signature_json_def)

lemma decode_authorization_encode:
  assumes "json_reads_back px" "wf_service_authorization m" "h \<noteq> []" "length h \<le> MAX_HEADER_CHARS"
    and "encodeServiceHeader px (signed_json service_authorization_fields m) = Some h"
  shows "decodeServiceAuthorizationHeader px h = Some m"
  using decodeHeader_encode [OF assms(1) json_value_signed_service(1) assms(5,3,4)] assms(2)
  by (auto simp: decodeServiceAuthorizationHeader_def parseServiceAuthorization_exact)

lemma decode_acknowledgement_encode:
  assumes "json_reads_back px" "wf_service_acknowledgement k" "h \<noteq> []" "length h \<le> MAX_HEADER_CHARS"
    and "encodeServiceHeader px (signed_json service_acknowledgement_fields k) = Some h"
  shows "decodeServiceAcknowledgementHeader px h = Some k"
  using decodeHeader_encode [OF assms(1) json_value_signed_service(2) assms(5,3,4)] assms(2)
  by (auto simp: decodeServiceAcknowledgementHeader_def parseServiceAcknowledgement_exact)

section \<open>What a passed check establishes\<close>

lemma checkServiceAuthorization_Ok:
  "checkServiceAuthorization px c = Some (CheckOk m sha d) \<longleftrightarrow>
     (\<exists>h u. sc_header c = Some h \<and> h \<noteq> [] \<and> decodeServiceAuthorizationHeader px h = Some m
       \<and> verifyServiceAuthorizationSignature px m (sc_pinnedAuthority c)
       \<and> sa_issuedAt (sg_body m) - 30000 \<le> sc_now c \<and> sc_now c \<le> sa_expiresAt (sg_body m)
       \<and> parseUrl px (sa_url (sg_body m)) = Some u
       \<and> sc_method c = ''POST'' \<and> sc_path c = url_pathname u
       \<and> received_request_digest px (sa_url (sg_body m)) (sc_rawBody c) = Some (sa_requestSha256 (sg_body m))
       \<and> sc_invocationIdHeader c = Some (sa_invocationId (sg_body m))
       \<and> sa_asset (sg_body m) = sc_asset c \<and> sa_payTo (sg_body m) = sc_payTo c
       \<and> sa_amountAtomic (sg_body m) = sc_amountAtomic c
       \<and> sha = sa_requestSha256 (sg_body m) \<and> serviceAuthorizationDigest px m = Some d)"
proof (cases "sc_header c")
  case (Some h)
  show ?thesis
  proof (cases "decodeServiceAuthorizationHeader px h")
    case (Some m')
    with \<open>sc_header c = Some h\<close> show ?thesis
      unfolding checkServiceAuthorization_def Let_def
      by (cases "parseUrl px (sa_url (sg_body m'))") auto
  qed (simp add: checkServiceAuthorization_def Some)
qed (simp add: checkServiceAuthorization_def)

end
