(* ===== verification/Payments_Interface.thy ===== *)
theory Payments_Interface
  imports Payments_Types
begin

text \<open>
  The PaymentProvider interface of packages/payments/src/types.ts and the environment a provider acts on.

  \<open>net_state\<close> is what the outside sees of a process: the number of interactions so far, the clock, and
  the requests it has sent, in order.  It is extensible, so a component that holds a provider adds its own
  fields and the provider's operations act on the whole state; this is how a \<open>beforeSubmit\<close> callback
  reaches the authority's store.

  \<open>world\<close> answers each interaction: how long it takes and what comes back.  Time only moves forward.
\<close>

section \<open>Requests, responses, the world\<close>

text \<open>What leaves the process: an unpaid probe, the paid retry with its service authorization header and
  payment credential, and a call of the pinned RPC.\<close>

datatype outbound =
    Probe PaidRequest string
  | PaidRetry PaidRequest string "string option" "(string \<times> string) list"
  | RpcCall string "jsval list"

fun is_paid_retry :: "outbound \<Rightarrow> bool" where
  "is_paid_retry (PaidRetry _ _ _ _) = True"
| "is_paid_retry _ = False"

text \<open>The body arrives in chunks, \<open>None\<close> where reading fails.\<close>

record http_response =
  hr_status :: int
  hr_headers :: "string \<Rightarrow> string option"
  hr_body :: "bytes option list"

record world =
  w_elapsed :: "nat \<Rightarrow> nat"
  w_fetch :: "nat \<Rightarrow> outbound \<Rightarrow> http_response option"
  w_rpc :: "nat \<Rightarrow> outbound \<Rightarrow> (bool \<times> jsval option) option"
  w_payload :: "nat \<Rightarrow> jsval \<Rightarrow> jsval option"

record net_state =
  ns_tick :: nat
  ns_now :: int
  ns_sent :: "outbound list"

text \<open>One interaction passes; \<open>send\<close> also records what left, \<open>pause\<close> is a timer of \<open>ms\<close> milliseconds.\<close>

definition pass :: "world \<Rightarrow> 'a net_state_scheme \<Rightarrow> 'a net_state_scheme" where
  "pass w s = s \<lparr> ns_tick := Suc (ns_tick s), ns_now := ns_now s + int (w_elapsed w (ns_tick s)) \<rparr>"

definition send :: "world \<Rightarrow> outbound \<Rightarrow> 'a net_state_scheme \<Rightarrow> 'a net_state_scheme" where
  "send w q s = pass w (s \<lparr> ns_sent := ns_sent s @ [q] \<rparr>)"

definition pause :: "world \<Rightarrow> nat \<Rightarrow> 'a net_state_scheme \<Rightarrow> 'a net_state_scheme" where
  "pause w ms s = pass w (s \<lparr> ns_now := ns_now s + int ms \<rparr>)"

definition paid_retries :: "'a net_state_scheme \<Rightarrow> outbound list" where
  "paid_retries s = filter is_paid_retry (ns_sent s)"

lemma pass_simps [simp]:
  "ns_tick (pass w s) = Suc (ns_tick s)" "ns_sent (pass w s) = ns_sent s" "ns_now s \<le> ns_now (pass w s)"
  "paid_retries (pass w s) = paid_retries s"
  by (simp_all add: pass_def paid_retries_def)

lemma send_simps [simp]:
  "ns_tick (send w q s) = Suc (ns_tick s)" "ns_sent (send w q s) = ns_sent s @ [q]" "ns_now s \<le> ns_now (send w q s)"
  "paid_retries (send w q s) = (if is_paid_retry q then paid_retries s @ [q] else paid_retries s)"
  by (simp_all add: send_def pass_def paid_retries_def)

lemma pause_simps [simp]:
  "ns_tick (pause w ms s) = Suc (ns_tick s)" "ns_sent (pause w ms s) = ns_sent s"
  "ns_now s + int ms \<le> ns_now (pause w ms s)" "paid_retries (pause w ms s) = paid_retries s"
  by (simp_all add: pause_def pass_def paid_retries_def)

section \<open>The interface\<close>

datatype payment_error =
    PaidServiceUnavailableError
  | PaymentNotSubmittedError
  | PaymentOutcomeUnknownError PaymentAttempt

text \<open>\<open>ei_beforeSubmit\<close> answers whether the callback resolved, and the state it left.\<close>

record 'st ExecuteInput =
  ei_request :: PaidRequest
  ei_challenge :: PaymentChallenge
  ei_requirement :: PaymentRequirement
  ei_reference :: string
  ei_serviceAuthorizationHeader :: "string option"
  ei_beforeSubmit :: "PaymentAttempt \<Rightarrow> 'st \<Rightarrow> bool \<times> 'st"

text \<open>\<open>pp_lookupSettlement\<close> answers \<open>None\<close> where it throws.\<close>

record 'st PaymentProvider =
  pp_settlementProfile :: string
  pp_payerAddress :: string
  pp_fetchChallenge :: "PaidRequest \<Rightarrow> string \<Rightarrow> 'st \<Rightarrow> (payment_error + ChallengeResult) \<times> 'st"
  pp_execute :: "'st ExecuteInput \<Rightarrow> 'st \<Rightarrow> (payment_error + PaymentExecution) \<times> 'st"
  pp_lookupSettlement :: "PaymentAttempt \<Rightarrow> 'st \<Rightarrow> SettlementLookup option \<times> 'st"

text \<open>
  The ordering contract of the interface.  \<open>paid\<close> reads the paid retries sent so far and \<open>frame\<close> the part
  of the state that is not the provider's.  \<open>submitted\<close>: the attempt was handed to \<open>beforeSubmit\<close>, which
  resolved before anything was sent, and after it at most one paid retry left, of exactly the given
  request; the attempt is for exactly the given requirement.  \<open>not_submitted\<close>: nothing was sent, whether or
  not \<open>beforeSubmit\<close> was called and rejected.
\<close>

definition attempt_for :: "'st ExecuteInput \<Rightarrow> PaymentAttempt \<Rightarrow> bool" where
  "attempt_for ei a \<longleftrightarrow>
     at_payTo a = pm_payTo (ei_requirement ei) \<and> at_amountAtomic a = pm_amountAtomic (ei_requirement ei)
     \<and> at_asset a = pm_asset (ei_requirement ei) \<and> at_network a = pm_network (ei_requirement ei)
     \<and> at_resourceUrl a = pq_url (ei_request ei) \<and> at_requestSha256 a = pq_sha256 (ei_request ei)
     \<and> pq_sha256 (ei_request ei) = ch_requestSha256 (ei_challenge ei)"

definition submitted ::
  "('st \<Rightarrow> outbound list) \<Rightarrow> ('st \<Rightarrow> 'f) \<Rightarrow> 'st ExecuteInput \<Rightarrow> PaymentAttempt \<Rightarrow> 'st \<Rightarrow> 'st \<Rightarrow> bool" where
  "submitted paid frame ei a s s' \<longleftrightarrow> attempt_for ei a
     \<and> (\<exists>s1 s2 sent. paid s1 = paid s \<and> frame s1 = frame s \<and> ei_beforeSubmit ei a s1 = (True, s2)
        \<and> frame s' = frame s2 \<and> paid s' = paid s2 @ sent
        \<and> (sent = [] \<or> (\<exists>credential.
             sent = [PaidRetry (ei_request ei) (ei_reference ei) (ei_serviceAuthorizationHeader ei) credential])))"

definition not_submitted ::
  "('st \<Rightarrow> outbound list) \<Rightarrow> ('st \<Rightarrow> 'f) \<Rightarrow> 'st ExecuteInput \<Rightarrow> 'st \<Rightarrow> 'st \<Rightarrow> bool" where
  "not_submitted paid frame ei s s' \<longleftrightarrow>
     paid s' = paid s \<and> frame s' = frame s
     \<or> (\<exists>a s1 s2. paid s1 = paid s \<and> frame s1 = frame s \<and> ei_beforeSubmit ei a s1 = (False, s2)
          \<and> frame s' = frame s2 \<and> paid s' = paid s2)"

locale payment_provider =
  fixes paid :: "'st \<Rightarrow> outbound list"
    and frame :: "'st \<Rightarrow> 'f"
    and pp :: "'st PaymentProvider"
  assumes probe_pays_nothing:
      "pp_fetchChallenge pp q ref s = (r, s') \<Longrightarrow> paid s' = paid s \<and> frame s' = frame s"
    and lookup_pays_nothing:
      "pp_lookupSettlement pp a s = (l, s') \<Longrightarrow> paid s' = paid s \<and> frame s' = frame s"
    and execute_settled: "pp_execute pp ei s = (Inr ex, s') \<Longrightarrow> submitted paid frame ei (ex_attempt ex) s s'"
    and execute_unknown:
      "pp_execute pp ei s = (Inl (PaymentOutcomeUnknownError a), s') \<Longrightarrow> submitted paid frame ei a s s'"
    and execute_not_submitted:
      "pp_execute pp ei s = (Inl PaymentNotSubmittedError, s') \<Longrightarrow> not_submitted paid frame ei s s'"
    and execute_reaches_service:
      "fst (pp_execute pp ei s) \<noteq> Inl PaidServiceUnavailableError"
begin

text \<open>With a callback that sends nothing, one execution pays at most once, and only when the callback
  resolved for an attempt of the given requirement.\<close>

lemma execute_pays_at_most_once:
  assumes quiet: "\<And>a s ok s'. ei_beforeSubmit ei a s = (ok, s') \<Longrightarrow> paid s' = paid s"
    and run: "pp_execute pp ei s = (r, s')"
  shows "paid s' = paid s
    \<or> (\<exists>credential a s1 s2. attempt_for ei a \<and> frame s1 = frame s \<and> ei_beforeSubmit ei a s1 = (True, s2)
         \<and> frame s' = frame s2
         \<and> paid s' = paid s @ [PaidRetry (ei_request ei) (ei_reference ei) (ei_serviceAuthorizationHeader ei) credential])"
proof -
  have sub: ?thesis if "submitted paid frame ei a s s'" for a
    using that quiet unfolding submitted_def by (metis append.right_neutral)
  show ?thesis
  proof (cases r)
    case (Inr ex)
    with run execute_settled sub show ?thesis by blast
  next
    case (Inl e)
    show ?thesis
    proof (cases e)
      case PaymentNotSubmittedError
      with run Inl have "not_submitted paid frame ei s s'" by (auto intro: execute_not_submitted)
      with quiet show ?thesis unfolding not_submitted_def by metis
    next
      case PaidServiceUnavailableError
      with run Inl execute_reaches_service [of ei s] show ?thesis by simp
    next
      case (PaymentOutcomeUnknownError a)
      with run Inl have "submitted paid frame ei a s s'" by (auto intro: execute_unknown)
      then show ?thesis by (rule sub)
    qed
  qed
qed

lemma not_submitted_pays_nothing:
  assumes "\<And>a s ok s'. ei_beforeSubmit ei a s = (ok, s') \<Longrightarrow> paid s' = paid s"
    and "pp_execute pp ei s = (Inl PaymentNotSubmittedError, s')"
  shows "paid s' = paid s"
  using execute_not_submitted [OF assms(2)] assms(1) unfolding not_submitted_def by metis

end

end
