(* ===== verification/Payments_Transaction.thy ===== *)
theory Payments_Transaction
  imports Payments_Types "HOL-Library.Word"
begin

text \<open>
  packages/payments/src/transaction-validator.ts: the check of an x402 exact payment transaction before
  it may leave the authority, over the decoded wire transaction and the expected facts.

  The Solana library is the record \<open>solana\<close>: base64 and wire decoding of a transaction with its
  compiled message (\<open>None\<close> where either decoder throws), address bytes, program-derived addresses,
  base58.  Instruction data are lists of 8-bit words and the amount is a 64-bit word.
\<close>

section \<open>The Solana library\<close>

record compiled_instruction =
  ci_programAddressIndex :: nat
  ci_accountIndices :: "nat list option"
  ci_data :: "8 word list option"

text \<open>\<open>tx_signatures\<close> is the dictionary of signatures by address, \<open>None\<close> where the slot is still empty;
  \<open>tx_version\<close> is \<open>None\<close> for a legacy message.\<close>

record wire_transaction =
  tx_messageBytes :: bytes
  tx_signatures :: "(address \<times> bytes option) list"
  tx_version :: "nat option"
  tx_numSignerAccounts :: nat
  tx_staticAccounts :: "address list"
  tx_lifetimeToken :: string
  tx_addressTableLookups :: "string list"
  tx_instructions :: "compiled_instruction list"

record solana =
  decodeTransaction :: "string \<Rightarrow> wire_transaction option"
  addressBytes :: "string \<Rightarrow> bytes option"
  programDerivedAddress :: "address \<Rightarrow> bytes list \<Rightarrow> address option"
  base58Text :: "bytes \<Rightarrow> string"

section \<open>Constants\<close>

definition TOKEN_PROGRAM :: string where
  "TOKEN_PROGRAM = ''TokenkegQfeZyiNwAJbNbGKPFXCWuBvf9Ss623VQ5DA''"

definition TOKEN_2022_PROGRAM :: string where
  "TOKEN_2022_PROGRAM = ''TokenzQdBNbLqP5VEhdkAS6EPFLC1PHnBqCXEpPxuEb''"

definition ASSOCIATED_TOKEN_PROGRAM :: string where
  "ASSOCIATED_TOKEN_PROGRAM = ''ATokenGPvbdGVxr1b2hvZbsiqW5xWH25efTNsLJA8knL''"

definition COMPUTE_BUDGET_PROGRAM :: string where
  "COMPUTE_BUDGET_PROGRAM = ''ComputeBudget111111111111111111111111111111''"

definition MEMO_PROGRAM :: string where
  "MEMO_PROGRAM = ''MemoSq4gqABAXKb96qnH8TysNcWxMyWCqXgDLGmfcHr''"

definition TRANSFER_CHECKED :: "8 word" where
  "TRANSFER_CHECKED = 12"

definition ALLOWED_COMPUTE_BUDGET :: "8 word list" where
  "ALLOWED_COMPUTE_BUDGET = [2, 3]"

definition MAX_MEMO_BYTES :: nat where
  "MAX_MEMO_BYTES = 256"

section \<open>Little-endian 64-bit integers\<close>

text \<open>\<open>DataView.getBigUint64(0, true)\<close> and \<open>setBigUint64(0, n, true)\<close>.\<close>

fun le_nat :: "8 word list \<Rightarrow> nat" where
  "le_nat [] = 0"
| "le_nat (b # bs) = unat b + 256 * le_nat bs"

definition get_u64_le :: "8 word list \<Rightarrow> 64 word" where
  "get_u64_le bs = word_of_nat (le_nat bs)"

fun le_bytes :: "nat \<Rightarrow> nat \<Rightarrow> 8 word list" where
  "le_bytes 0 n = []"
| "le_bytes (Suc k) n = word_of_nat n # le_bytes k (n div 256)"

definition put_u64_le :: "64 word \<Rightarrow> 8 word list" where
  "put_u64_le w = le_bytes 8 (unat w)"

lemma le_nat_bound: "le_nat bs < 256 ^ length bs"
proof (induction bs)
  case (Cons b bs)
  have "unat b < 256" using unsigned_less [of b, where ?'a = nat] by simp
  moreover have "256 * le_nat bs + 256 \<le> 256 * 256 ^ length bs"
    using Cons.IH by (metis Suc_leI add.commute mult_Suc_right mult_le_mono2)
  ultimately show ?case by simp
qed simp

lemma length_le_bytes [simp]: "length (le_bytes k n) = k"
  by (induction k arbitrary: n) simp_all

lemma le_bytes_le_nat: "length bs = k \<Longrightarrow> le_bytes k (le_nat bs) = bs"
proof (induction bs arbitrary: k)
  case (Cons b bs)
  have b: "unat b < 256" using unsigned_less [of b, where ?'a = nat] by simp
  moreover have "(256 :: 8 word) = 0" by simp
  then have "256 * (word_of_nat (le_nat bs) :: 8 word) = 0" by (metis mult_zero_left)
  then have "word_of_nat (unat b + 256 * le_nat bs) = b" by simp
  ultimately show ?case using Cons by auto
qed simp

lemma le_nat_le_bytes: "le_nat (le_bytes k n) = n mod 256 ^ k"
proof (induction k arbitrary: n)
  case (Suc k)
  have "n mod (256 * 256 ^ k) = n mod 256 + 256 * (n div 256 mod 256 ^ k)"
    by (simp add: mod_mult2_eq)
  with Suc show ?case by (simp add: unat_of_nat)
qed simp

lemma put_get_u64: "length bs = 8 \<Longrightarrow> put_u64_le (get_u64_le bs) = bs"
proof -
  assume l: "length bs = 8"
  then have "le_nat bs < 2 ^ 64" using le_nat_bound [of bs] by simp
  then have "unat (get_u64_le bs) = le_nat bs"
    by (simp add: get_u64_le_def unat_of_nat)
  with l show ?thesis by (simp add: put_u64_le_def le_bytes_le_nat)
qed

lemma get_put_u64: "get_u64_le (put_u64_le w) = w"
proof -
  have "unat w < 2 ^ LENGTH(64)" by (rule unsigned_less)
  then have "unat w mod 256 ^ 8 = unat w" by simp
  then show ?thesis by (simp add: get_u64_le_def put_u64_le_def le_nat_le_bytes del: power_numeral)
qed

lemma length_put_u64 [simp]: "length (put_u64_le w) = 8"
  by (simp add: put_u64_le_def)

section \<open>The validator\<close>

record ExpectedExactPayment =
  ep_payer :: string
  ep_feePayer :: string
  ep_asset :: string
  ep_payTo :: string
  ep_amountAtomic :: string
  ep_blockhash :: string

datatype reject_reason =
    CouldNotBeDecodedOrChecked
  | NoTransaction
  | PayerIsFeePayer
  | AmountNotCanonical
  | UnexpectedVersion
  | LookupTables
  | WrongBlockhash
  | WrongFeePayer
  | WrongSigners
  | WrongSignatureSet
  | NotSignedByPayer
  | UnexpectedComputeBudget
  | UnexpectedMemo
  | UnexpectedProgram
  | SecondTokenInstruction
  | NotTransferChecked
  | UnexpectedTransferAccounts
  | WrongAmount
  | WrongMint
  | WrongAuthority
  | WrongDestination
  | WrongSource
  | NoTransfer

text \<open>\<open>Valid payerSignature tokenProgram\<close>\<close>

datatype TransactionValidation =
    Valid string string
  | Invalid reject_reason

text \<open>\<open>None\<close> where an address does not parse or the derivation throws.\<close>

definition associatedTokenAddress :: "solana \<Rightarrow> string \<Rightarrow> string \<Rightarrow> string \<Rightarrow> string option" where
  "associatedTokenAddress sx owner mint tokenProgram =
     (case (addressBytes sx owner, addressBytes sx tokenProgram, addressBytes sx mint) of
        (Some o', Some p', Some m') \<Rightarrow> programDerivedAddress sx ASSOCIATED_TOKEN_PROGRAM [o', p', m']
      | _ \<Rightarrow> None)"

definition account_at :: "address list \<Rightarrow> nat \<Rightarrow> address option" where
  "account_at accounts i = (if i < length accounts then Some (accounts ! i) else None)"

definition ci_bytes :: "compiled_instruction \<Rightarrow> 8 word list" where
  "ci_bytes i = (case ci_data i of None \<Rightarrow> [] | Some d \<Rightarrow> d)"

definition ci_accounts :: "address list \<Rightarrow> compiled_instruction \<Rightarrow> address option list" where
  "ci_accounts accounts i =
     map (account_at accounts) (case ci_accountIndices i of None \<Rightarrow> [] | Some l \<Rightarrow> l)"

text \<open>The body of the loop past the compute-budget and memo cases: one token instruction of the
  program \<open>program\<close>.  \<open>None\<close> is acceptance.\<close>

definition check_transfer ::
  "solana \<Rightarrow> ExpectedExactPayment \<Rightarrow> string \<Rightarrow> 8 word list \<Rightarrow> address option list \<Rightarrow> reject_reason option" where
  "check_transfer sx expected program data instructionAccounts =
     (if length data \<noteq> 10 \<or> data ! 0 \<noteq> TRANSFER_CHECKED then Some NotTransferChecked
      else if length instructionAccounts \<noteq> 4 then Some UnexpectedTransferAccounts
      else if unat (get_u64_le (take 8 (drop 1 data))) \<noteq> dec (ep_amountAtomic expected) then Some WrongAmount
      else if instructionAccounts ! 1 \<noteq> Some (ep_asset expected) then Some WrongMint
      else if instructionAccounts ! 3 \<noteq> Some (ep_payer expected) then Some WrongAuthority
      else case associatedTokenAddress sx (ep_payTo expected) (ep_asset expected) program of
        None \<Rightarrow> Some CouldNotBeDecodedOrChecked
      | Some destination \<Rightarrow>
        if instructionAccounts ! 2 \<noteq> Some destination then Some WrongDestination
        else case associatedTokenAddress sx (ep_payer expected) (ep_asset expected) program of
          None \<Rightarrow> Some CouldNotBeDecodedOrChecked
        | Some source \<Rightarrow> if instructionAccounts ! 0 \<noteq> Some source then Some WrongSource else None)"

text \<open>The loop over the instructions, with the token program of the transfer seen so far.\<close>

fun check_instructions ::
  "solana \<Rightarrow> ExpectedExactPayment \<Rightarrow> address list \<Rightarrow> compiled_instruction list \<Rightarrow> string option
     \<Rightarrow> reject_reason + string option" where
  "check_instructions sx expected accounts [] transfer = Inr transfer"
| "check_instructions sx expected accounts (i # is) transfer =
     (let program = account_at accounts (ci_programAddressIndex i); data = ci_bytes i;
          instructionAccounts = ci_accounts accounts i in
      if program = Some COMPUTE_BUDGET_PROGRAM then
        if length instructionAccounts \<noteq> 0 \<or> length data = 0 \<or> hd data \<notin> set ALLOWED_COMPUTE_BUDGET
        then Inl UnexpectedComputeBudget
        else check_instructions sx expected accounts is transfer
      else if program = Some MEMO_PROGRAM then
        if length instructionAccounts \<noteq> 0 \<or> length data > MAX_MEMO_BYTES then Inl UnexpectedMemo
        else check_instructions sx expected accounts is transfer
      else case program of
        None \<Rightarrow> Inl UnexpectedProgram
      | Some p \<Rightarrow>
        if p \<noteq> TOKEN_PROGRAM \<and> p \<noteq> TOKEN_2022_PROGRAM then Inl UnexpectedProgram
        else if transfer \<noteq> None then Inl SecondTokenInstruction
        else case check_transfer sx expected p data instructionAccounts of
          Some r \<Rightarrow> Inl r
        | None \<Rightarrow> check_instructions sx expected accounts is (Some p))"

definition validateExactPaymentTransaction ::
  "solana \<Rightarrow> jsval \<Rightarrow> ExpectedExactPayment \<Rightarrow> TransactionValidation" where
  "validateExactPaymentTransaction sx transactionBase64 expected =
     (if \<not> jstr_is (\<lambda>s. length s \<noteq> 0) transactionBase64 then Invalid NoTransaction
      else if ep_feePayer expected = ep_payer expected then Invalid PayerIsFeePayer
      else if \<not> atomic_pattern (ep_amountAtomic expected) then Invalid AmountNotCanonical
      else case decodeTransaction sx (jstr transactionBase64) of
        None \<Rightarrow> Invalid CouldNotBeDecodedOrChecked
      | Some t \<Rightarrow>
        let accounts = tx_staticAccounts t; signatureKeys = map fst (tx_signatures t) in
        if tx_version t \<noteq> Some 0 then Invalid UnexpectedVersion
        else if length (tx_addressTableLookups t) > 0 then Invalid LookupTables
        else if tx_lifetimeToken t \<noteq> ep_blockhash expected then Invalid WrongBlockhash
        else if account_at accounts 0 \<noteq> Some (ep_feePayer expected) then Invalid WrongFeePayer
        else if tx_numSignerAccounts t \<noteq> 2 \<or> account_at accounts 1 \<noteq> Some (ep_payer expected)
        then Invalid WrongSigners
        else if length signatureKeys \<noteq> 2 \<or> ep_feePayer expected \<notin> set signatureKeys
          \<or> ep_payer expected \<notin> set signatureKeys then Invalid WrongSignatureSet
        else case map_of (tx_signatures t) (ep_payer expected) of
          None \<Rightarrow> Invalid NotSignedByPayer
        | Some None \<Rightarrow> Invalid NotSignedByPayer
        | Some (Some payerSignature) \<Rightarrow>
          case check_instructions sx expected accounts (tx_instructions t) None of
            Inl r \<Rightarrow> Invalid r
          | Inr None \<Rightarrow> Invalid NoTransfer
          | Inr (Some program) \<Rightarrow> Valid (base58Text sx payerSignature) program)"

section \<open>What a valid transaction does\<close>

definition is_benign :: "address list \<Rightarrow> compiled_instruction \<Rightarrow> bool" where
  "is_benign accounts i \<longleftrightarrow> ci_accounts accounts i = [] \<and>
     (account_at accounts (ci_programAddressIndex i) = Some COMPUTE_BUDGET_PROGRAM
        \<and> ci_bytes i \<noteq> [] \<and> (hd (ci_bytes i) = 2 \<or> hd (ci_bytes i) = 3)
      \<or> account_at accounts (ci_programAddressIndex i) = Some MEMO_PROGRAM \<and> length (ci_bytes i) \<le> 256)"

text \<open>The one instruction that moves tokens: TransferChecked of exactly the expected amount of the
  expected mint, from the payer's token account to the recipient's, under the payer's authority.\<close>

definition is_exact_transfer ::
  "solana \<Rightarrow> ExpectedExactPayment \<Rightarrow> address list \<Rightarrow> string \<Rightarrow> compiled_instruction \<Rightarrow> bool" where
  "is_exact_transfer sx e accounts program i \<longleftrightarrow>
     account_at accounts (ci_programAddressIndex i) = Some program
     \<and> program \<in> {TOKEN_PROGRAM, TOKEN_2022_PROGRAM}
     \<and> (\<exists>decimals. ci_bytes i = [TRANSFER_CHECKED] @ put_u64_le (word_of_nat (dec (ep_amountAtomic e))) @ [decimals])
     \<and> dec (ep_amountAtomic e) < 2 ^ 64
     \<and> (\<exists>source destination. associatedTokenAddress sx (ep_payer e) (ep_asset e) program = Some source
        \<and> associatedTokenAddress sx (ep_payTo e) (ep_asset e) program = Some destination
        \<and> ci_accounts accounts i = [Some source, Some (ep_asset e), Some destination, Some (ep_payer e)])"

lemma u64_le_eq_iff:
  assumes "length bs = 8"
  shows "unat (get_u64_le bs) = n \<longleftrightarrow> n < 2 ^ 64 \<and> bs = put_u64_le (word_of_nat n)"
proof
  assume n: "unat (get_u64_le bs) = n"
  have "unat (get_u64_le bs) < 2 ^ LENGTH(64)" by (rule unsigned_less)
  with n put_get_u64 [OF assms] show "n < 2 ^ 64 \<and> bs = put_u64_le (word_of_nat n)" by auto
next
  assume "n < 2 ^ 64 \<and> bs = put_u64_le (word_of_nat n)"
  then show "unat (get_u64_le bs) = n" by (simp add: get_put_u64 unat_of_nat)
qed

lemma length_10_cases: "length d = 10 \<Longrightarrow> \<exists>c bs x. d = c # bs @ [x] \<and> length bs = 8"
proof -
  assume l: "length d = 10"
  then obtain c d' where d: "d = c # d'" "length d' = 9" by (cases d) auto
  then obtain bs x where "d' = bs @ [x]" by (cases d' rule: rev_cases) auto
  with d show ?thesis by simp
qed

lemma four_elements:
  "length l = 4 \<and> l ! 0 = a \<and> l ! 1 = b \<and> l ! 2 = c \<and> l ! 3 = f \<longleftrightarrow> l = [a, b, c, f]" (is "?L \<longleftrightarrow> _")
proof
  assume ?L
  then obtain a' b' c' f' where "l = [a', b', c', f']"
    by (auto simp: length_Suc_conv numeral_eq_Suc)
  with \<open>?L\<close> show "l = [a, b, c, f]" by (simp add: numeral_eq_Suc)
qed (simp add: numeral_eq_Suc)

lemma transfer_data_iff:
  "length d = 10 \<and> d ! 0 = c \<and> unat (get_u64_le (take 8 (drop 1 d))) = n
     \<longleftrightarrow> n < 2 ^ 64 \<and> (\<exists>x. d = [c] @ put_u64_le (word_of_nat n) @ [x])" (is "?L \<longleftrightarrow> ?R")
proof
  assume ?L
  then obtain bs x where d: "d = c # bs @ [x]" "length bs = 8" by (auto dest!: length_10_cases)
  with \<open>?L\<close> have "unat (get_u64_le bs) = n" by simp
  with d show ?R by (auto simp: u64_le_eq_iff)
next
  assume R: ?R
  then obtain x where d: "d = c # put_u64_le (word_of_nat n) @ [x]" by auto
  have "unat (get_u64_le (put_u64_le (word_of_nat n))) = n"
    using R u64_le_eq_iff [OF length_put_u64] by blast
  with d show ?L by simp
qed

lemma check_transfer_None:
  "check_transfer sx e p d ia = None \<longleftrightarrow>
     dec (ep_amountAtomic e) < 2 ^ 64
     \<and> (\<exists>x. d = [TRANSFER_CHECKED] @ put_u64_le (word_of_nat (dec (ep_amountAtomic e))) @ [x])
     \<and> (\<exists>source destination. associatedTokenAddress sx (ep_payer e) (ep_asset e) p = Some source
        \<and> associatedTokenAddress sx (ep_payTo e) (ep_asset e) p = Some destination
        \<and> ia = [Some source, Some (ep_asset e), Some destination, Some (ep_payer e)])"
proof -
  have "check_transfer sx e p d ia = None \<longleftrightarrow>
     (length d = 10 \<and> d ! 0 = TRANSFER_CHECKED \<and> unat (get_u64_le (take 8 (drop 1 d))) = dec (ep_amountAtomic e))
     \<and> (\<exists>source destination. associatedTokenAddress sx (ep_payer e) (ep_asset e) p = Some source
        \<and> associatedTokenAddress sx (ep_payTo e) (ep_asset e) p = Some destination
        \<and> length ia = 4 \<and> ia ! 0 = Some source \<and> ia ! 1 = Some (ep_asset e) \<and> ia ! 2 = Some destination
        \<and> ia ! 3 = Some (ep_payer e))"
    unfolding check_transfer_def
    by (cases "associatedTokenAddress sx (ep_payTo e) (ep_asset e) p";
        cases "associatedTokenAddress sx (ep_payer e) (ep_asset e) p") auto
  then show ?thesis unfolding transfer_data_iff four_elements conj_assoc .
qed

lemma programs_distinct [simp]:
  "COMPUTE_BUDGET_PROGRAM \<noteq> TOKEN_PROGRAM" "COMPUTE_BUDGET_PROGRAM \<noteq> TOKEN_2022_PROGRAM"
  "MEMO_PROGRAM \<noteq> TOKEN_PROGRAM" "MEMO_PROGRAM \<noteq> TOKEN_2022_PROGRAM" "TOKEN_PROGRAM \<noteq> TOKEN_2022_PROGRAM"
  "COMPUTE_BUDGET_PROGRAM \<noteq> MEMO_PROGRAM"
  by (simp_all add: COMPUTE_BUDGET_PROGRAM_def MEMO_PROGRAM_def TOKEN_PROGRAM_def TOKEN_2022_PROGRAM_def)

lemmas programs_distinct' [simp] = programs_distinct [symmetric]

lemma check_instructions_Cons:
  "check_instructions sx e accounts (i # is) t = Inr r \<longleftrightarrow>
     is_benign accounts i \<and> check_instructions sx e accounts is t = Inr r
     \<or> t = None \<and> (\<exists>p. is_exact_transfer sx e accounts p i \<and> check_instructions sx e accounts is (Some p) = Inr r)"
proof (cases "account_at accounts (ci_programAddressIndex i)")
  case None
  then show ?thesis by (simp add: is_benign_def is_exact_transfer_def)
next
  case (Some p)
  consider "p = COMPUTE_BUDGET_PROGRAM" | "p = MEMO_PROGRAM" | "p = TOKEN_PROGRAM \<or> p = TOKEN_2022_PROGRAM"
    | "p \<notin> {COMPUTE_BUDGET_PROGRAM, MEMO_PROGRAM, TOKEN_PROGRAM, TOKEN_2022_PROGRAM}" by blast
  then show ?thesis
  proof cases
    case 1
    with Some show ?thesis
      by (simp add: is_benign_def is_exact_transfer_def ALLOWED_COMPUTE_BUDGET_def Let_def) blast
  next
    case 2
    with Some show ?thesis by (simp add: is_benign_def is_exact_transfer_def MAX_MEMO_BYTES_def Let_def) linarith
  next
    case 3
    then have np: "p \<noteq> COMPUTE_BUDGET_PROGRAM" "p \<noteq> MEMO_PROGRAM" by auto
    have "is_exact_transfer sx e accounts q i \<longleftrightarrow> q = p \<and> check_transfer sx e p (ci_bytes i) (ci_accounts accounts i) = None"
      for q using Some 3 unfolding is_exact_transfer_def check_transfer_None by auto
    moreover have "\<not> is_benign accounts i" using Some np by (simp add: is_benign_def)
    moreover have "check_instructions sx e accounts (i # is) t =
      (if t \<noteq> None then Inl SecondTokenInstruction
       else case check_transfer sx e p (ci_bytes i) (ci_accounts accounts i) of
          Some r \<Rightarrow> Inl r | None \<Rightarrow> check_instructions sx e accounts is (Some p))"
      using Some 3 np by auto
    ultimately show ?thesis by (simp split: option.split)
  next
    case 4
    with Some show ?thesis by (simp add: is_benign_def is_exact_transfer_def)
  qed
qed

declare check_instructions.simps(2) [simp del]

lemma check_instructions_after_transfer:
  "check_instructions sx e accounts is (Some p) = Inr r \<longleftrightarrow> r = Some p \<and> list_all (is_benign accounts) is"
  by (induction "is") (auto simp: check_instructions_Cons)

lemma check_instructions_exact:
  "check_instructions sx e accounts is None = Inr (Some p) \<longleftrightarrow>
     (\<exists>before i after. is = before @ i # after \<and> is_exact_transfer sx e accounts p i
        \<and> list_all (is_benign accounts) before \<and> list_all (is_benign accounts) after)"
proof (induction "is")
  case (Cons i "is")
  have "check_instructions sx e accounts (i # is) None = Inr (Some p) \<longleftrightarrow>
     is_benign accounts i \<and> check_instructions sx e accounts is None = Inr (Some p)
     \<or> is_exact_transfer sx e accounts p i \<and> list_all (is_benign accounts) is"
    by (auto simp: check_instructions_Cons check_instructions_after_transfer)
  also have "\<dots> \<longleftrightarrow> (\<exists>before j after. i # is = before @ j # after \<and> is_exact_transfer sx e accounts p j
        \<and> list_all (is_benign accounts) before \<and> list_all (is_benign accounts) after)" (is "_ \<longleftrightarrow> ?R")
  proof
    assume "is_benign accounts i \<and> check_instructions sx e accounts is None = Inr (Some p)
     \<or> is_exact_transfer sx e accounts p i \<and> list_all (is_benign accounts) is"
    then show ?R
    proof
      assume "is_benign accounts i \<and> check_instructions sx e accounts is None = Inr (Some p)"
      then obtain bf j af where "is = bf @ j # af" "is_exact_transfer sx e accounts p j"
          "list_all (is_benign accounts) (i # bf)" "list_all (is_benign accounts) af"
        unfolding Cons.IH by auto
      then show ?R by (intro exI [of _ "i # bf"]) auto
    next
      assume "is_exact_transfer sx e accounts p i \<and> list_all (is_benign accounts) is"
      then show ?R by (intro exI [of _ "[]"] exI [of _ i] exI [of _ "is"]) simp
    qed
  next
    assume ?R
    then show "is_benign accounts i \<and> check_instructions sx e accounts is None = Inr (Some p)
     \<or> is_exact_transfer sx e accounts p i \<and> list_all (is_benign accounts) is"
      unfolding Cons.IH Cons_eq_append_conv by fastforce
  qed
  finally show ?case .
qed simp

text \<open>The conditions on the message itself: version 0, no lookup tables, the authority's blockhash, the
  facilitator as fee payer and first account, the payer as the second and only other signer, who has signed.\<close>

definition message_as_expected :: "ExpectedExactPayment \<Rightarrow> wire_transaction \<Rightarrow> bool" where
  "message_as_expected e t \<longleftrightarrow>
     tx_version t = Some 0 \<and> tx_addressTableLookups t = [] \<and> tx_lifetimeToken t = ep_blockhash e
     \<and> account_at (tx_staticAccounts t) 0 = Some (ep_feePayer e)
     \<and> tx_numSignerAccounts t = 2 \<and> account_at (tx_staticAccounts t) 1 = Some (ep_payer e)
     \<and> length (tx_signatures t) = 2 \<and> {ep_feePayer e, ep_payer e} \<subseteq> fst ` set (tx_signatures t)"

lemma validate_exact:
  "validateExactPaymentTransaction sx v e = Valid sig program \<longleftrightarrow>
     (\<exists>b64 t raw before i after. v = JStr b64 \<and> b64 \<noteq> [] \<and> decodeTransaction sx b64 = Some t
        \<and> ep_feePayer e \<noteq> ep_payer e \<and> atomic_pattern (ep_amountAtomic e)
        \<and> message_as_expected e t
        \<and> map_of (tx_signatures t) (ep_payer e) = Some (Some raw) \<and> sig = base58Text sx raw
        \<and> tx_instructions t = before @ i # after
        \<and> is_exact_transfer sx e (tx_staticAccounts t) program i
        \<and> list_all (is_benign (tx_staticAccounts t)) (before @ after))" (is "?L \<longleftrightarrow> ?R")
proof
  assume L: ?L
  then obtain b64 where v: "v = JStr b64" "b64 \<noteq> []"
    by (cases v) (auto simp: validateExactPaymentTransaction_def split: if_splits)
  with L obtain t where t: "decodeTransaction sx b64 = Some t"
    by (cases "decodeTransaction sx b64") (auto simp: validateExactPaymentTransaction_def split: if_splits)
  with L v obtain raw where raw: "map_of (tx_signatures t) (ep_payer e) = Some (Some raw)"
    by (auto simp: validateExactPaymentTransaction_def Let_def split: if_splits option.splits)
  from L v t raw have c: "check_instructions sx e (tx_staticAccounts t) (tx_instructions t) None = Inr (Some program)"
      "sig = base58Text sx raw" "message_as_expected e t" "ep_feePayer e \<noteq> ep_payer e" "atomic_pattern (ep_amountAtomic e)"
    by (auto simp: validateExactPaymentTransaction_def message_as_expected_def Let_def
        split: if_splits option.splits sum.splits)
  then show ?R unfolding check_instructions_exact using v t raw by (auto simp: list_all_append)
next
  assume ?R
  then obtain b64 t raw bf i af where r: "v = JStr b64" "b64 \<noteq> []" "decodeTransaction sx b64 = Some t"
      "ep_feePayer e \<noteq> ep_payer e" "atomic_pattern (ep_amountAtomic e)" "message_as_expected e t"
      "map_of (tx_signatures t) (ep_payer e) = Some (Some raw)" "sig = base58Text sx raw"
      "tx_instructions t = bf @ i # af" "is_exact_transfer sx e (tx_staticAccounts t) program i"
      "list_all (is_benign (tx_staticAccounts t)) bf" "list_all (is_benign (tx_staticAccounts t)) af"
    by auto
  then have "check_instructions sx e (tx_staticAccounts t) (tx_instructions t) None = Inr (Some program)"
    unfolding check_instructions_exact by blast
  with r show ?L by (simp add: validateExactPaymentTransaction_def message_as_expected_def)
qed

section \<open>The payer's signature\<close>

text \<open>exact-transaction.ts: offline check that the payer signed exactly the message bytes.\<close>

definition verifyTransactionPayerSignature :: "platform \<Rightarrow> solana \<Rightarrow> string \<Rightarrow> string \<Rightarrow> bool" where
  "verifyTransactionPayerSignature px sx transactionBase64 payer =
     (case decodeTransaction sx transactionBase64 of
        None \<Rightarrow> False
      | Some t \<Rightarrow> (case map_of (tx_signatures t) payer of
          Some (Some signature) \<Rightarrow>
            if \<not> (isAddress px payer \<and> importable px payer) then False
            else verifyRaw px payer (base58Text sx signature) (tx_messageBytes t)
        | _ \<Rightarrow> False))"

end
