(* ===== verification/Payments_Settlement.thy ===== *)
theory Payments_Settlement
  imports Payments_Transaction
begin

text \<open>
  packages/payments/src/settlement-check.ts: the pure check of one transaction reported by the RPC
  against the payment that was authorized.  The answer is taken at its declared type
  \<open>RpcTransaction\<close>; the parts declared \<open>unknown\<close> stay JSON values, \<open>JUndef\<close> where absent.
\<close>

record rpc_instruction =
  ri_type :: "string option"
  ri_info :: jsval

record RpcTransaction =
  rt_slot :: "int option"
  rt_err :: jsval
  rt_signatures :: "string list option"
  rt_recentBlockhash :: "string option"
  rt_instructions :: "rpc_instruction list"

record ExpectedSettlement =
  es_payer :: string
  es_payerSignature :: string
  es_asset :: string
  es_payTo :: string
  es_amountAtomic :: string
  es_blockhash :: string

definition expected_settlement :: "PaymentAttempt \<Rightarrow> ExpectedSettlement" where
  "expected_settlement a =
     \<lparr> es_payer = at_payer a, es_payerSignature = at_payerSignature a, es_asset = at_asset a,
       es_payTo = at_payTo a, es_amountAtomic = at_amountAtomic a, es_blockhash = at_blockhash a \<rparr>"

text \<open>\<open>FailedOnchain\<close> carries the error as reported (the source stringifies it).\<close>

datatype SettledTransactionCheck =
    NotThisPayment
  | FactsMismatch string
  | FailedOnchain string jsval
  | Settled string "string option"

definition show_int :: "int \<Rightarrow> string" where
  "show_int i = (if i < 0 then CHR ''-'' # show_nat (nat (- i)) else show_nat (nat i))"

text \<open>The callback of \<open>some\<close>: the parsed instruction is the expected transfer.\<close>

definition instruction_matches :: "string \<Rightarrow> string \<Rightarrow> ExpectedSettlement \<Rightarrow> rpc_instruction \<Rightarrow> bool" where
  "instruction_matches destination destination2022 expected ix =
     (let info = ri_info ix;
          amount = (if isPlainObject (jget info ''tokenAmount'') then jget (jget info ''tokenAmount'') ''amount''
                    else JUndef)
      in ri_type ix = Some ''transferChecked''
         \<and> jget info ''mint'' = JStr (es_asset expected)
         \<and> jget info ''authority'' = JStr (es_payer expected)
         \<and> (jget info ''destination'' = JStr destination \<or> jget info ''destination'' = JStr destination2022)
         \<and> amount = JStr (es_amountAtomic expected))"

text \<open>\<open>None\<close> is the throw of a token-account derivation.\<close>

definition checkSettledTransaction ::
  "solana \<Rightarrow> RpcTransaction option \<Rightarrow> ExpectedSettlement \<Rightarrow> SettledTransactionCheck option" where
  "checkSettledTransaction sx tx expected =
     (case Option.bind tx rt_signatures of
        None \<Rightarrow> Some NotThisPayment
      | Some signatures \<Rightarrow>
        if es_payerSignature expected \<notin> set signatures then Some NotThisPayment
        else let t = the tx; transactionId = hd signatures in
          case (associatedTokenAddress sx (es_payTo expected) (es_asset expected) TOKEN_PROGRAM,
                associatedTokenAddress sx (es_payTo expected) (es_asset expected) TOKEN_2022_PROGRAM) of
            (Some destination, Some destination2022) \<Rightarrow>
              if \<not> (rt_recentBlockhash t = Some (es_blockhash expected)
                    \<and> list_ex (instruction_matches destination destination2022 expected) (rt_instructions t))
              then Some (FactsMismatch transactionId)
              else if rt_err t \<noteq> JNull \<and> rt_err t \<noteq> JUndef then Some (FailedOnchain transactionId (rt_err t))
              else Some (Settled transactionId (map_option show_int (rt_slot t)))
          | _ \<Rightarrow> None)"

text \<open>A transaction counts as settled exactly when it carries the payer's signature, is bound to the
  recorded blockhash, moves exactly the amount of the asset to the recipient under the payer's authority,
  and has no error.\<close>

lemma settled_iff:
  "checkSettledTransaction sx tx e = Some (Settled tid slot) \<longleftrightarrow>
     (\<exists>t sigs d d22 ix info. tx = Some t \<and> rt_signatures t = Some sigs \<and> es_payerSignature e \<in> set sigs
        \<and> tid = hd sigs \<and> slot = map_option show_int (rt_slot t)
        \<and> (rt_err t = JNull \<or> rt_err t = JUndef)
        \<and> rt_recentBlockhash t = Some (es_blockhash e)
        \<and> associatedTokenAddress sx (es_payTo e) (es_asset e) TOKEN_PROGRAM = Some d
        \<and> associatedTokenAddress sx (es_payTo e) (es_asset e) TOKEN_2022_PROGRAM = Some d22
        \<and> ix \<in> set (rt_instructions t) \<and> ri_type ix = Some ''transferChecked'' \<and> info = ri_info ix
        \<and> jget info ''mint'' = JStr (es_asset e) \<and> jget info ''authority'' = JStr (es_payer e)
        \<and> (jget info ''destination'' = JStr d \<or> jget info ''destination'' = JStr d22)
        \<and> jget (jget info ''tokenAmount'') ''amount'' = JStr (es_amountAtomic e))" (is "?L \<longleftrightarrow> ?R")
proof -
  have am: "(if isPlainObject v then jget v k else JUndef) = jget v k" for v k
    by (simp add: jget_not_object)
  show ?thesis
  proof
    assume L: ?L
    then obtain t sigs where t: "tx = Some t" "rt_signatures t = Some sigs"
      by (cases tx; cases "Option.bind tx rt_signatures") (auto simp: checkSettledTransaction_def)
    with L obtain d d22 where "associatedTokenAddress sx (es_payTo e) (es_asset e) TOKEN_PROGRAM = Some d"
        "associatedTokenAddress sx (es_payTo e) (es_asset e) TOKEN_2022_PROGRAM = Some d22"
      by (auto simp: checkSettledTransaction_def Let_def split: if_splits option.splits)
    with L t show ?R
      by (auto simp: checkSettledTransaction_def instruction_matches_def am Let_def list_ex_iff split: if_splits)
  next
    assume ?R
    then show ?L
      by (auto simp: checkSettledTransaction_def instruction_matches_def am Let_def list_ex_iff)
  qed
qed

text \<open>No answer of the check but \<open>NotThisPayment\<close> is given for a transaction without the payer's signature.\<close>

lemma payer_activity_is_not_settlement:
  "Option.bind tx rt_signatures = None \<or> (\<exists>sigs. Option.bind tx rt_signatures = Some sigs \<and> es_payerSignature e \<notin> set sigs)
     \<Longrightarrow> checkSettledTransaction sx tx e = Some NotThisPayment"
  by (auto simp: checkSettledTransaction_def)

end
