(* ===== verification/Payments_Provider.thy ===== *)
theory Payments_Provider
  imports Payments_Interface Payments_Settlement Transport_Encoding
begin

text \<open>
  packages/payments/src/x402-exact-provider.ts: the x402 provider on a trusted settlement profile.  Every
  interaction with the outside (HTTP, RPC, timers, the credential builder) is a step of \<open>net_state\<close>
  answered by the world; a failing step is \<open>None\<close> beside the state it leaves.

  \<open>x402_lib\<close> is the protocol library: decoding of the two response headers, encoding of the credential
  header, the declared reading of an RPC transaction, and JSON.stringify.
\<close>

record x402_lib =
  getPaymentRequiredResponse :: "(string \<Rightarrow> string option) \<Rightarrow> jsval option"
  getPaymentSettleResponse :: "(string \<Rightarrow> string option) \<Rightarrow> jsval option"
  encodePaymentSignatureHeader :: "jsval \<Rightarrow> (string \<times> string) list option"
  rpcTransaction :: "jsval \<Rightarrow> RpcTransaction option"
  jsonStringify :: "jsval \<Rightarrow> string"

record payment_env =
  en_platform :: platform
  en_solana :: solana
  en_x402 :: x402_lib
  en_world :: world

section \<open>Configuration\<close>

record X402ExactPaymentProviderOptions =
  xo_profile :: SettlementProfile
  xo_signer :: "address option"
  xo_maxResultBytes :: "nat option"
  xo_confirmationWaitMs :: "nat option"
  xo_expiryMarginBlocks :: "nat option"

record X402ExactPaymentProvider =
  xp_profile :: SettlementProfile
  xp_signer :: address
  xp_maxResultBytes :: nat
  xp_confirmationWaitMs :: nat
  xp_expiryMarginBlocks :: nat

definition or_default :: "'a option \<Rightarrow> 'a \<Rightarrow> 'a" where
  "or_default x d = (case x of None \<Rightarrow> d | Some a \<Rightarrow> a)"

text \<open>\<open>generated\<close> is the address of the freshly generated key.  The HTTP and RPC timeouts are the world's:
  a request that times out is a request without an answer.\<close>

definition create_x402_provider :: "X402ExactPaymentProviderOptions \<Rightarrow> address \<Rightarrow> X402ExactPaymentProvider" where
  "create_x402_provider options generated =
     \<lparr> xp_profile = xo_profile options,
       xp_signer = or_default (xo_signer options) generated,
       xp_maxResultBytes = or_default (xo_maxResultBytes options) (16 * 1024),
       xp_confirmationWaitMs = or_default (xo_confirmationWaitMs options) 10000,
       xp_expiryMarginBlocks = or_default (xo_expiryMarginBlocks options) 20 \<rparr>"

definition MAX_CHALLENGE_BODY_BYTES :: nat where
  "MAX_CHALLENGE_BODY_BYTES = 64 * 1024"

definition MAX_ACKNOWLEDGEMENT_CHARS :: nat where
  "MAX_ACKNOWLEDGEMENT_CHARS = 4096"

section \<open>Sequencing\<close>

definition attempt_bind :: "'a option \<times> 's \<Rightarrow> ('a \<Rightarrow> 's \<Rightarrow> 'b option \<times> 's) \<Rightarrow> 'b option \<times> 's" where
  "attempt_bind m f = (case m of (None, s) \<Rightarrow> (None, s) | (Some a, s) \<Rightarrow> f a s)"

lemma attempt_bind_Some [simp]: "attempt_bind (Some a, s) f = f a s"
  and attempt_bind_None [simp]: "attempt_bind (None, s) f = (None, s)"
  by (simp_all add: attempt_bind_def)

section \<open>The pinned RPC\<close>

definition rpc :: "payment_env \<Rightarrow> string \<Rightarrow> jsval list \<Rightarrow> 'a net_state_scheme \<Rightarrow> jsval option \<times> 'a net_state_scheme" where
  "rpc e mthd params s =
     (let q = RpcCall mthd params in
      (case w_rpc (en_world e) (ns_tick s) q of
         Some (True, Some body) \<Rightarrow>
           if nullish body \<or> jtruthy (jget body ''error'') then None else Some (jget body ''result'')
       | _ \<Rightarrow> None,
       send (en_world e) q s))"

definition freshBlockhash ::
  "payment_env \<Rightarrow> X402ExactPaymentProvider \<Rightarrow> 'a net_state_scheme \<Rightarrow> (string \<times> int) option \<times> 'a net_state_scheme" where
  "freshBlockhash e p s =
     attempt_bind (rpc e ''getLatestBlockhash'' [JObj [(''commitment'', JStr ''confirmed'')]] s) (\<lambda>result s.
       (if nullish result then None
        else let value = jget result ''value''; blockhash = jget value ''blockhash'';
                 lastValid = jget value ''lastValidBlockHeight'' in
          case (blockhash, lastValid) of
            (JStr b, JInt h) \<Rightarrow>
              if \<not> starts_with b (sp_requiredBlockhashPrefix (xp_profile p)) then None else Some (b, h)
          | _ \<Rightarrow> None, s))"

text \<open>\<open>None\<close> is a throw.\<close>

definition assertSandboxEnvironment ::
  "payment_env \<Rightarrow> X402ExactPaymentProvider \<Rightarrow> 'a net_state_scheme \<Rightarrow> string option \<times> 'a net_state_scheme" where
  "assertSandboxEnvironment e p s =
     attempt_bind (rpc e ''getVersion'' [] s) (\<lambda>version s.
       case jget version ''surfnet-version'' of
         JStr surfnetVersion \<Rightarrow> attempt_bind (freshBlockhash e p s) (\<lambda>_ s. (Some surfnetVersion, s))
       | _ \<Rightarrow> (None, s))"

definition fundSandboxWallet ::
  "payment_env \<Rightarrow> X402ExactPaymentProvider \<Rightarrow> string \<Rightarrow> int \<Rightarrow> 'a net_state_scheme \<Rightarrow> unit option \<times> 'a net_state_scheme" where
  "fundSandboxWallet e p mint amountAtomic s =
     (if sp_environment (xp_profile p) \<noteq> ''sandbox'' then (None, s)
      else attempt_bind (rpc e ''surfnet_setTokenAccount''
             [JStr (xp_signer p), JStr mint,
              JObj [(''amount'', JInt amountAtomic), (''state'', JStr ''initialized'')],
              JStr TOKEN_PROGRAM] s) (\<lambda>_ s. (Some (), s)))"

section \<open>Reading a response\<close>

text \<open>The loop of \<open>readBounded\<close> with the bytes read so far; \<open>None\<close> on a read error or past the bound.\<close>

fun readBounded :: "nat \<Rightarrow> bytes \<Rightarrow> bytes option list \<Rightarrow> bytes option" where
  "readBounded maxBytes out [] = Some out"
| "readBounded maxBytes out (None # rest) = None"
| "readBounded maxBytes out (Some value # rest) =
     (if length out + length value > maxBytes then None else readBounded maxBytes (out @ value) rest)"

definition summarizeResult :: "payment_env \<Rightarrow> X402ExactPaymentProvider \<Rightarrow> int \<Rightarrow> bytes \<Rightarrow> PaidResult" where
  "summarizeResult e p httpStatus body =
     (let r = \<lparr> rs_httpStatus = httpStatus, rs_json = JNull, rs_sha256 = sha256 (en_platform e) body,
                rs_bytes = length body, rs_bodyBase64 = None, rs_serviceAcknowledgementHeader = None \<rparr>
      in if length body > xp_maxResultBytes p then r
         else r \<lparr> rs_json := (case parseJson (en_platform e) body of None \<Rightarrow> JNull | Some v \<Rightarrow> v),
                  rs_bodyBase64 := Some (base64_encode body) \<rparr>)"

section \<open>The unpaid probe\<close>

text \<open>Reading (and dropping) the body of a 402 cannot change the result.\<close>

definition x402_fetchChallenge ::
  "payment_env \<Rightarrow> PaidRequest \<Rightarrow> string \<Rightarrow> 'a net_state_scheme \<Rightarrow> (payment_error + ChallengeResult) \<times> 'a net_state_scheme" where
  "x402_fetchChallenge e request reference s =
     (let requestSha256 = computePaidRequestDigest (en_platform e) request;
          q = Probe request reference;
          s' = send (en_world e) q s
      in (case w_fetch (en_world e) (ns_tick s) q of
            None \<Rightarrow> Inl PaidServiceUnavailableError
          | Some response \<Rightarrow>
            if hr_status response \<ge> 300 \<and> hr_status response < 400 then Inr (Rejected CHALLENGE_REDIRECT)
            else if hr_status response \<ge> 500 then Inl PaidServiceUnavailableError
            else if hr_status response \<noteq> 402 then Inr (Rejected CHALLENGE_NOT_PAYMENT_REQUIRED)
            else case getPaymentRequiredResponse (en_x402 e) (hr_headers response) of
              None \<Rightarrow> Inr (Rejected CHALLENGE_MALFORMED)
            | Some decoded \<Rightarrow> Inr (normalizeChallenge decoded requestSha256), s'))"

section \<open>Steps that send no payment\<close>

text \<open>A step of the provider: it sends no payment, leaves the rest of the state alone, only adds to what was
  sent, and time moves forward.\<close>

definition unpaid :: "'a net_state_scheme \<Rightarrow> 'a net_state_scheme \<Rightarrow> bool" where
  "unpaid s s' \<longleftrightarrow> paid_retries s' = paid_retries s \<and> net_state.more s' = net_state.more s \<and> ns_now s \<le> ns_now s'
     \<and> ns_tick s \<le> ns_tick s' \<and> (\<exists>l. ns_sent s' = ns_sent s @ l)"

lemma more_simps [simp]:
  "net_state.more (pass w s) = net_state.more s" "net_state.more (send w q s) = net_state.more s"
  "net_state.more (pause w ms s) = net_state.more s"
  by (simp_all add: pass_def send_def pause_def)

lemma unpaid_refl [simp, intro]: "unpaid s s"
  by (simp add: unpaid_def)

lemma unpaid_trans [trans]: "unpaid s t \<Longrightarrow> unpaid t u \<Longrightarrow> unpaid s u"
  by (auto simp: unpaid_def)

lemma unpaid_send: "\<not> is_paid_retry q \<Longrightarrow> unpaid s (send w q s)"
  by (simp add: unpaid_def)

lemma unpaid_pause: "unpaid s (pause w ms s)"
proof -
  have "ns_now s + int ms \<le> ns_now (pause w ms s)" by simp
  then have "ns_now s \<le> ns_now (pause w ms s)" by linarith
  then show ?thesis by (simp add: unpaid_def)
qed

lemma unpaid_pass: "unpaid s (pass w s)"
  by (simp add: unpaid_def)

lemma unpaid_rpc: "unpaid s (snd (rpc e m ps s))"
  by (simp add: rpc_def Let_def unpaid_send)

lemma unpaid_bind:
  assumes "unpaid s (snd m)" "\<And>a t. unpaid t (snd (f a t))"
  shows "unpaid s (snd (attempt_bind m f))"
  using assms unfolding attempt_bind_def
  by (auto split: prod.splits option.splits intro: unpaid_trans)

lemma unpaid_freshBlockhash: "unpaid s (snd (freshBlockhash e p s))"
  unfolding freshBlockhash_def by (rule unpaid_bind [OF unpaid_rpc]) simp

section \<open>Looking a payment up\<close>

text \<open>The standard \<open>BigInt\<close> on a text: white space around it is dropped, nothing is zero, a sign is
  allowed before decimal digits only, and \<open>0x\<close>, \<open>0o\<close>, \<open>0b\<close> start digits of those bases; any other text
  throws.\<close>

definition radix_digit :: "char \<Rightarrow> nat" where
  "radix_digit c =
     (if is_digit c then digit_val c
      else if 97 \<le> code c \<and> code c \<le> 102 then code c - 87
      else if 65 \<le> code c \<and> code c \<le> 70 then code c - 55 else 16)"

definition radix_value :: "nat \<Rightarrow> string \<Rightarrow> int option" where
  "radix_value base ds =
     (if ds \<noteq> [] \<and> list_all (\<lambda>c. radix_digit c < base) ds
      then Some (int (foldl (\<lambda>n c. base * n + radix_digit c) 0 ds)) else None)"

definition prefixed_integer :: "string \<Rightarrow> int option" where
  "prefixed_integer s =
     (case s of
        z # r # ds \<Rightarrow>
          if z \<noteq> CHR ''0'' then None
          else if r \<in> {CHR ''x'', CHR ''X''} then radix_value 16 ds
          else if r \<in> {CHR ''o'', CHR ''O''} then radix_value 8 ds
          else if r \<in> {CHR ''b'', CHR ''B''} then radix_value 2 ds else None
      | _ \<Rightarrow> None)"

definition parse_bigint :: "string \<Rightarrow> int option" where
  "parse_bigint s =
     (case trim s of
        [] \<Rightarrow> Some 0
      | c # ds \<Rightarrow>
        if c = CHR ''-'' then map_option uminus (radix_value 10 ds)
        else if c = CHR ''+'' then radix_value 10 ds
        else (case radix_value 10 (c # ds) of
            Some i \<Rightarrow> Some i | None \<Rightarrow> prefixed_integer (c # ds)))"

text \<open>\<open>BigInt\<close> of any JSON value.  An array is converted by its text: one of several elements has a
  comma in it, and an integer of 22 digits or more is written with an exponent.\<close>

fun json_bigint :: "jsval \<Rightarrow> int option" where
  "json_bigint (JInt i) = Some i"
| "json_bigint (JStr s) = parse_bigint s"
| "json_bigint (JBool b) = Some (if b then 1 else 0)"
| "json_bigint (JArr []) = Some 0"
| "json_bigint (JArr [v]) =
     (case v of
        JNull \<Rightarrow> Some 0
      | JUndef \<Rightarrow> Some 0
      | JInt i \<Rightarrow> if \<bar>i\<bar> < 10 ^ 21 then Some i else None
      | JStr s \<Rightarrow> parse_bigint s
      | JArr vs \<Rightarrow> json_bigint (JArr vs)
      | _ \<Rightarrow> None)"
| "json_bigint _ = None"

lemma radix_value_decimal: "ds \<noteq> [] \<Longrightarrow> list_all is_digit ds \<Longrightarrow> radix_value 10 ds = Some (int (dec ds))"
proof -
  have digit: "radix_digit c = digit_val c" "radix_digit c < 10" if "is_digit c" for c
    using that digit_val_less_10 by (simp_all add: radix_digit_def)
  have "foldl (\<lambda>n c. 10 * n + radix_digit c) m ds = foldl (\<lambda>n c. 10 * n + digit_val c) m ds"
    if "list_all is_digit ds" for m and ds
    using that by (induction ds arbitrary: m) (simp_all add: digit(1))
  then show "ds \<noteq> [] \<Longrightarrow> list_all is_digit ds \<Longrightarrow> radix_value 10 ds = Some (int (dec ds))"
    using digit(2) by (simp add: radix_value_def dec_def list_all_iff)
qed

text \<open>A canonical decimal, such as the stored block height, is read as the number it denotes.\<close>

lemma parse_bigint_decimal:
  assumes "list_all is_digit s" "s \<noteq> []"
  shows "parse_bigint s = Some (int (dec s))"
proof -
  have no_space: "\<not> js_space c" if "is_digit c" for c
    using that by (auto simp: js_space_def is_digit_def)
  have keep: "dropWhile js_space t = t" if "list_all is_digit t" for t
    using that no_space by (cases t) simp_all
  have "list_all is_digit (rev s)" using assms(1) by (simp add: list_all_iff)
  then have trimmed: "trim s = s" using assms(1) by (simp add: trim_def keep)
  obtain c ds where s: "s = c # ds" using assms(2) by (cases s) simp_all
  with assms(1) have "c \<noteq> CHR ''-''" "c \<noteq> CHR ''+''" by (auto simp: is_digit_def code_def)
  with trimmed s radix_value_decimal [OF assms(2,1)] show ?thesis by (simp add: parse_bigint_def)
qed

text \<open>The signatures of the history; \<open>None\<close> where an entry has no properties to read.\<close>

fun history_signatures :: "jsval list \<Rightarrow> string list option" where
  "history_signatures [] = Some []"
| "history_signatures (entry # rest) =
     (if nullish entry then None
      else map_option (\<lambda>l. (case str_opt (jget entry ''signature'') of None \<Rightarrow> [] | Some x \<Rightarrow> [x]) @ l)
             (history_signatures rest))"

text \<open>The loop over the candidates: the outer \<open>None\<close> is a throw, the inner one that no candidate decided.\<close>

fun lookup_candidates ::
  "payment_env \<Rightarrow> PaymentAttempt \<Rightarrow> string option \<Rightarrow> string list \<Rightarrow> 'a net_state_scheme
     \<Rightarrow> SettlementLookup option option \<times> 'a net_state_scheme" where
  "lookup_candidates e attempt hint [] s = (Some None, s)"
| "lookup_candidates e attempt hint (signature # rest) s =
     attempt_bind (rpc e ''getTransaction''
         [JStr signature, JObj [(''encoding'', JStr ''jsonParsed''), (''commitment'', JStr ''confirmed''),
           (''maxSupportedTransactionVersion'', JInt 0)]] s) (\<lambda>tx s.
       case checkSettledTransaction (en_solana e) (rpcTransaction (en_x402 e) tx) (expected_settlement attempt) of
         None \<Rightarrow> (None, s)
       | Some NotThisPayment \<Rightarrow> lookup_candidates e attempt hint rest s
       | Some (FactsMismatch t) \<Rightarrow> (Some (Some LookupInconclusive), s)
       | Some (FailedOnchain t err) \<Rightarrow> (Some (Some (LookupFailedOnchain t (jsonStringify (en_x402 e) err))), s)
       | Some (Settled t slot) \<Rightarrow>
           (Some (Some (LookupConfirmed \<lparr> cs_transactionId = t, cs_slot = slot,
              cs_facilitatorReportedTransaction = hint, cs_confirmedAt = ns_now s \<rparr>)), s))"

definition x402_lookup ::
  "payment_env \<Rightarrow> X402ExactPaymentProvider \<Rightarrow> PaymentAttempt \<Rightarrow> string option \<Rightarrow> 'a net_state_scheme
     \<Rightarrow> SettlementLookup option \<times> 'a net_state_scheme" where
  "x402_lookup e p attempt hint s =
     attempt_bind (rpc e ''getSignaturesForAddress''
         [JStr (at_payer attempt), JObj [(''limit'', JInt 50), (''commitment'', JStr ''confirmed'')]] s) (\<lambda>history s.
       case history_signatures (case history of JArr vs \<Rightarrow> vs | _ \<Rightarrow> []) of
         None \<Rightarrow> (None, s)
       | Some signatures \<Rightarrow>
         attempt_bind (lookup_candidates e attempt hint
             (dedup ((case hint of Some h \<Rightarrow> if h = [] then [] else [h] | None \<Rightarrow> []) @ signatures)) s) (\<lambda>found s.
           case found of
             Some l \<Rightarrow> (Some l, s)
           | None \<Rightarrow>
             attempt_bind (rpc e ''getBlockHeight'' [JObj [(''commitment'', JStr ''confirmed'')]] s) (\<lambda>h s.
               (case (json_bigint h, parse_bigint (at_lastValidBlockHeight attempt)) of
                  (Some height, Some lastValid) \<Rightarrow>
                    if height > lastValid + int (xp_expiryMarginBlocks p) then Some (LookupExpired (show_int height))
                    else Some (LookupPending (Some (show_int height)))
                | _ \<Rightarrow> None, s))))"

lemma unpaid_candidates: "unpaid s (snd (lookup_candidates e a h sigs s))"
proof (induction sigs arbitrary: s)
  case (Cons x sigs)
  show ?case unfolding lookup_candidates.simps
    by (rule unpaid_bind [OF unpaid_rpc]) (simp add: Cons.IH split: option.split SettledTransactionCheck.split)
qed simp

lemma unpaid_lookup: "unpaid s (snd (x402_lookup e p a h s))"
  unfolding x402_lookup_def
  by (intro unpaid_bind unpaid_rpc) (auto split: option.split intro!: unpaid_bind unpaid_candidates unpaid_rpc)

section \<open>Waiting for the confirmation\<close>

text \<open>The polling loop.  It ends because every round sleeps 500 ms on a clock that moves forward;
  \<open>None\<close> is the PaymentOutcomeUnknownError after it.\<close>

function await_loop ::
  "payment_env \<Rightarrow> X402ExactPaymentProvider \<Rightarrow> PaymentAttempt \<Rightarrow> string option \<Rightarrow> int \<Rightarrow> 'a net_state_scheme
     \<Rightarrow> ConfirmedSettlement option \<times> 'a net_state_scheme" where
  "await_loop e p attempt reported deadline s =
     (if \<not> ns_now s < deadline then (None, s)
      else case x402_lookup e p attempt reported s of (found, s') \<Rightarrow>
        (case found of
           Some (LookupConfirmed settlement) \<Rightarrow> (Some settlement, s')
         | Some (LookupFailedOnchain t err) \<Rightarrow> (None, s')
         | Some (LookupExpired h) \<Rightarrow> (None, s')
         | _ \<Rightarrow> await_loop e p attempt reported deadline (pause (en_world e) 500 s')))"
  by pat_completeness auto

lemma pause_progress:
  assumes "(l, s') = x402_lookup e p a h s"
  shows "ns_now s < ns_now (pause w 500 s')"
proof -
  have "ns_now s \<le> ns_now s'" using unpaid_lookup [of s e p a h] assms [symmetric] by (simp add: unpaid_def)
  moreover have "ns_now s' + 500 \<le> ns_now (pause w 500 s')" using pause_simps(3) [of s' 500 w] by simp
  ultimately show ?thesis by linarith
qed

termination await_loop
  by (relation "measure (\<lambda>(e, p, a, h, deadline, s). nat (deadline - ns_now s))")
    (auto intro: pause_progress)

declare await_loop.simps [simp del]

definition awaitConfirmation ::
  "payment_env \<Rightarrow> X402ExactPaymentProvider \<Rightarrow> PaymentAttempt \<Rightarrow> string option \<Rightarrow> 'a net_state_scheme
     \<Rightarrow> ConfirmedSettlement option \<times> 'a net_state_scheme" where
  "awaitConfirmation e p attempt reported s =
     await_loop e p attempt reported (ns_now s + int (xp_confirmationWaitMs p)) s"

lemma unpaid_await_loop: "unpaid s (snd (await_loop e p a h d s))"
proof (induction e p a h d s rule: await_loop.induct)
  case (1 e p a h d s)
  show ?case
  proof (cases "ns_now s < d")
    case True
    obtain l s' where l: "x402_lookup e p a h s = (l, s')" by fastforce
    then have u: "unpaid s s'" using unpaid_lookup [of s e p a h] by simp
    have "unpaid (pause (en_world e) 500 s') (snd (await_loop e p a h d (pause (en_world e) 500 s')))"
      if "l = None \<or> (\<exists>h. l = Some (LookupPending h)) \<or> l = Some LookupInconclusive"
      using 1 [OF _ l [symmetric]] True that by auto
    then show ?thesis
      using True l u by (subst await_loop.simps)
        (auto split: option.split SettlementLookup.split intro: unpaid_trans [OF u] unpaid_trans [OF unpaid_pause])
  qed (simp add: await_loop.simps)
qed

lemma unpaid_awaitConfirmation: "unpaid s (snd (awaitConfirmation e p a h s))"
  unfolding awaitConfirmation_def by (rule unpaid_await_loop)

section \<open>Executing a payment\<close>

fun jset :: "jsval \<Rightarrow> string \<Rightarrow> jsval \<Rightarrow> jsval" where
  "jset (JObj kvs) k v =
     (if k \<in> set (map fst kvs) then JObj (map (\<lambda>(k', v'). (k', if k' = k then v else v')) kvs)
      else JObj (kvs @ [(k, v)]))"
| "jset _ k v = JObj [(k, v)]"

fun jdelete :: "jsval \<Rightarrow> string \<Rightarrow> jsval" where
  "jdelete (JObj kvs) k = JObj (filter (\<lambda>kv. fst kv \<noteq> k) kvs)"
| "jdelete v k = v"

text \<open>The selected entry with the service's blockhash and expiry replaced by the authority's.\<close>

definition signed_requirement :: "jsval \<Rightarrow> string \<Rightarrow> int \<Rightarrow> jsval" where
  "signed_requirement original blockhash lastValidBlockHeight =
     (let extra = (if isPlainObject (jget original ''extra'') then jget original ''extra'' else JObj []);
          extra = jdelete (jdelete extra ''recentBlockhash'') ''lastValidBlockHeight''
      in jset original ''extra''
           (jset (jset extra ''recentBlockhash'' (JStr blockhash)) ''lastValidBlockHeight''
              (JStr (show_int lastValidBlockHeight))))"

text \<open>\<open>raw.accepts[i]\<close>\<close>

definition accepts_at :: "jsval \<Rightarrow> nat \<Rightarrow> jsval" where
  "accepts_at raw i = (case jget raw ''accepts'' of
     JArr vs \<Rightarrow> if i < length vs then vs ! i else JUndef | _ \<Rightarrow> JUndef)"

text \<open>Everything before transmission: the credential payload and the attempt, or a failure.\<close>

definition prepare ::
  "payment_env \<Rightarrow> X402ExactPaymentProvider \<Rightarrow> 'a net_state_scheme ExecuteInput \<Rightarrow> 'a net_state_scheme
     \<Rightarrow> (jsval \<times> PaymentAttempt) option \<times> 'a net_state_scheme" where
  "prepare e p input s =
     (let request = ei_request input; requirement = ei_requirement input; raw = ch_raw (ei_challenge input);
          original = accepts_at raw (pm_acceptsIndex requirement) in
      if \<not> paidRequestMatches (en_platform e) request (ch_requestSha256 (ei_challenge input)) then (None, s)
      else if jget original ''payTo'' \<noteq> JStr (pm_payTo requirement)
        \<or> jget original ''amount'' \<noteq> JStr (pm_amountAtomic requirement)
        \<or> jget original ''asset'' \<noteq> JStr (pm_asset requirement) then (None, s)
      else case pm_feePayer requirement of
        None \<Rightarrow> (None, s)
      | Some feePayer \<Rightarrow>
        if feePayer = xp_signer p then (None, s)
        else attempt_bind (freshBlockhash e p s) (\<lambda>(blockhash, lastValidBlockHeight) s.
          let asked = jset raw ''accepts'' (JArr [signed_requirement original blockhash lastValidBlockHeight]);
              s' = pass (en_world e) s in
          case w_payload (en_world e) (ns_tick s) asked of
            None \<Rightarrow> (None, s')
          | Some payload \<Rightarrow>
            let transaction = jget (jget payload ''payload'') ''transaction'' in
            case validateExactPaymentTransaction (en_solana e) transaction
                \<lparr> ep_payer = xp_signer p, ep_feePayer = feePayer, ep_asset = pm_asset requirement,
                  ep_payTo = pm_payTo requirement, ep_amountAtomic = pm_amountAtomic requirement,
                  ep_blockhash = blockhash \<rparr> of
              Invalid r \<Rightarrow> (None, s')
            | Valid payerSignature program \<Rightarrow>
              let attempt =
                \<lparr> at_protocol = ''x402'', at_scheme = pm_scheme requirement,
                  at_settlementProfile = sp_name (xp_profile p), at_network = pm_network requirement,
                  at_payer = xp_signer p, at_payerSignature = payerSignature, at_feePayer = feePayer,
                  at_asset = pm_asset requirement, at_payTo = pm_payTo requirement,
                  at_amountAtomic = pm_amountAtomic requirement, at_blockhash = blockhash,
                  at_lastValidBlockHeight = show_int lastValidBlockHeight,
                  at_resourceUrl = pq_url request, at_requestSha256 = pq_sha256 request,
                  at_transactionBase64 = Some (jstr transaction), at_preparedAt = ns_now s' \<rparr>
              in (Some (payload, attempt), s')))"

text \<open>From the paid retry on, every failure is an unknown outcome (\<open>None\<close>).\<close>

definition transmit ::
  "payment_env \<Rightarrow> X402ExactPaymentProvider \<Rightarrow> 'a net_state_scheme ExecuteInput \<Rightarrow> jsval \<Rightarrow> PaymentAttempt
     \<Rightarrow> 'a net_state_scheme \<Rightarrow> PaymentExecution option \<times> 'a net_state_scheme" where
  "transmit e p input payload attempt s =
     (case encodePaymentSignatureHeader (en_x402 e) payload of
        None \<Rightarrow> (None, s)
      | Some credential \<Rightarrow>
        let q = PaidRetry (ei_request input) (ei_reference input) (ei_serviceAuthorizationHeader input) credential;
            s' = send (en_world e) q s in
        case w_fetch (en_world e) (ns_tick s) q of
          None \<Rightarrow> (None, s')
        | Some response \<Rightarrow>
          case readBounded (xp_maxResultBytes p * 4) [] (hr_body response) of
            None \<Rightarrow> (None, s')
          | Some bodyBytes \<Rightarrow>
            if hr_status response \<noteq> 200 then (None, s')
            else case getPaymentSettleResponse (en_x402 e) (hr_headers response) of
              None \<Rightarrow> (None, s')
            | Some settle \<Rightarrow>
              if jget settle ''success'' \<noteq> JBool True then (None, s')
              else attempt_bind (awaitConfirmation e p attempt (str_opt (jget settle ''transaction'')) s')
                (\<lambda>settlement s.
                  let result = summarizeResult e p (hr_status response) bodyBytes;
                      result = (case hr_headers response ''x-vh-service-acknowledgement'' of
                        Some acknowledgement \<Rightarrow>
                          if length acknowledgement \<le> MAX_ACKNOWLEDGEMENT_CHARS
                          then result \<lparr> rs_serviceAcknowledgementHeader := Some acknowledgement \<rparr> else result
                      | None \<Rightarrow> result)
                  in (Some \<lparr> ex_attempt = attempt, ex_settlement = settlement, ex_result = result \<rparr>, s)))"

definition x402_execute ::
  "payment_env \<Rightarrow> X402ExactPaymentProvider \<Rightarrow> 'a net_state_scheme ExecuteInput \<Rightarrow> 'a net_state_scheme
     \<Rightarrow> (payment_error + PaymentExecution) \<times> 'a net_state_scheme" where
  "x402_execute e p input s =
     (case prepare e p input s of
        (None, s) \<Rightarrow> (Inl PaymentNotSubmittedError, s)
      | (Some (payload, attempt), s) \<Rightarrow>
        (case ei_beforeSubmit input attempt s of
           (False, s) \<Rightarrow> (Inl PaymentNotSubmittedError, s)
         | (True, s) \<Rightarrow>
           (case transmit e p input payload attempt s of
              (None, s) \<Rightarrow> (Inl (PaymentOutcomeUnknownError attempt), s)
            | (Some x, s) \<Rightarrow> (Inr x, s))))"

definition x402_provider :: "payment_env \<Rightarrow> X402ExactPaymentProvider \<Rightarrow> 'a net_state_scheme PaymentProvider" where
  "x402_provider e p =
     \<lparr> pp_settlementProfile = sp_name (xp_profile p), pp_payerAddress = xp_signer p,
       pp_fetchChallenge = x402_fetchChallenge e, pp_execute = x402_execute e p,
       pp_lookupSettlement = (\<lambda>attempt. x402_lookup e p attempt None) \<rparr>"

section \<open>The provider keeps the contract\<close>

lemma unpaid_fetchChallenge: "unpaid s (snd (x402_fetchChallenge e q r s))"
  by (simp add: x402_fetchChallenge_def Let_def unpaid_send)

lemma prepare_steps:
  "unpaid s (snd (prepare e p input s))
   \<and> (\<forall>payload a s'. prepare e p input s = (Some (payload, a), s') \<longrightarrow> attempt_for input a)"
proof -
  have pm: "pq_sha256 (ei_request input) = ch_requestSha256 (ei_challenge input)"
    if "paidRequestMatches (en_platform e) (ei_request input) (ch_requestSha256 (ei_challenge input))"
    using that by (simp add: paidRequestMatches_def)
  obtain f s1 where f: "freshBlockhash e p s = (f, s1)" by fastforce
  then have u: "unpaid s s1" using unpaid_freshBlockhash [of s e p] by simp
  show ?thesis
    unfolding prepare_def Let_def f
    using u pm by (cases f) (auto simp: attempt_for_def split: option.splits TransactionValidation.splits
        intro: unpaid_trans [OF u unpaid_pass])
qed

lemma transmit_steps:
  assumes "transmit e p input payload a s = (r, s')"
  shows "net_state.more s' = net_state.more s \<and> (\<exists>sent. paid_retries s' = paid_retries s @ sent
    \<and> (sent = [] \<or> (\<exists>credential. sent = [PaidRetry (ei_request input) (ei_reference input)
          (ei_serviceAuthorizationHeader input) credential])))
    \<and> (\<forall>x. r = Some x \<longrightarrow> ex_attempt x = a)"
proof (cases "encodePaymentSignatureHeader (en_x402 e) payload")
  case None
  with assms show ?thesis by (auto simp: transmit_def)
next
  case (Some credential)
  define q where "q = PaidRetry (ei_request input) (ei_reference input) (ei_serviceAuthorizationHeader input) credential"
  let ?s1 = "send (en_world e) q s"
  have "unpaid ?s1 (snd (transmit e p input payload a s))"
    unfolding transmit_def Let_def Some option.case q_def [symmetric]
    by (auto split: option.split intro!: unpaid_bind unpaid_awaitConfirmation)
  moreover have "ex_attempt x = a" if "fst (transmit e p input payload a s) = Some x" for x
    using that unfolding transmit_def Let_def attempt_bind_def
    by (auto split: option.splits if_splits prod.splits)
  moreover have "paid_retries ?s1 = paid_retries s @ [q]" by (simp add: q_def)
  ultimately show ?thesis using assms by (auto simp: unpaid_def q_def)
qed

lemma x402_execute_submitted:
  assumes "x402_execute e p input s = (r, s')" "r = Inr x \<and> a = ex_attempt x \<or> r = Inl (PaymentOutcomeUnknownError a)"
  shows "submitted paid_retries net_state.more input a s s'"
proof -
  obtain payload a' s1 where p: "prepare e p input s = (Some (payload, a'), s1)"
    using assms by (auto simp: x402_execute_def split: prod.splits option.splits)
  obtain s2 where b: "ei_beforeSubmit input a' s1 = (True, s2)"
    using assms p by (auto simp: x402_execute_def split: prod.splits bool.splits)
  obtain t s3 where t: "transmit e p input payload a' s2 = (t, s3)" by fastforce
  have ex: "ex_attempt x' = a'" if "t = Some x'" for x' using transmit_steps [OF t] that by blast
  have "x402_execute e p input s = (case t of None \<Rightarrow> Inl (PaymentOutcomeUnknownError a') | Some x \<Rightarrow> Inr x, s3)"
    by (simp add: x402_execute_def p b t split: option.split)
  with assms(1) have r: "r = (case t of None \<Rightarrow> Inl (PaymentOutcomeUnknownError a') | Some x \<Rightarrow> Inr x)" "s' = s3"
    by simp_all
  have "a = a'"
  proof (cases t)
    case None
    with assms(2) r(1) show ?thesis by simp
  next
    case (Some x')
    with assms(2) r(1) ex [OF Some] show ?thesis by simp
  qed
  moreover have "attempt_for input a'" "unpaid s s1" "s' = s3" using r(2) prepare_steps [of s e p input] p by auto
  moreover obtain sent where "net_state.more s3 = net_state.more s2" "paid_retries s3 = paid_retries s2 @ sent"
      "sent = [] \<or> (\<exists>credential. sent = [PaidRetry (ei_request input) (ei_reference input)
          (ei_serviceAuthorizationHeader input) credential])"
    using transmit_steps [OF t] by blast
  ultimately show ?thesis using b unfolding submitted_def unpaid_def by blast
qed

lemma x402_execute_not_submitted:
  assumes "x402_execute e p input s = (Inl PaymentNotSubmittedError, s')"
  shows "not_submitted paid_retries net_state.more input s s'"
proof (cases "prepare e p input s")
  case (Pair r s1)
  with prepare_steps [of s e p input] have u: "unpaid s s1" by simp
  show ?thesis
  proof (cases r)
    case None
    with assms Pair u show ?thesis by (simp add: x402_execute_def not_submitted_def unpaid_def)
  next
    case (Some pa)
    obtain payload a where pa: "pa = (payload, a)" by fastforce
    obtain ok s2 where b: "ei_beforeSubmit input a s1 = (ok, s2)" by fastforce
    have "\<not> ok \<and> s' = s2"
      using assms Pair Some pa b by (cases ok) (auto simp: x402_execute_def split: prod.splits option.splits)
    with b u have "ei_beforeSubmit input a s1 = (False, s')" by simp
    with u show ?thesis unfolding not_submitted_def unpaid_def by blast
  qed
qed

interpretation x402: payment_provider paid_retries net_state.more "x402_provider e p" for e p
proof
  fix q ref s r s'
  assume "pp_fetchChallenge (x402_provider e p) q ref s = (r, s')"
  then show "paid_retries s' = paid_retries s \<and> net_state.more s' = net_state.more s"
    using unpaid_fetchChallenge [of s e q ref] by (simp add: x402_provider_def unpaid_def)
next
  fix a s l s'
  assume "pp_lookupSettlement (x402_provider e p) a s = (l, s')"
  then show "paid_retries s' = paid_retries s \<and> net_state.more s' = net_state.more s"
    using unpaid_lookup [of s e p a None] by (simp add: x402_provider_def unpaid_def)
next
  fix ei s s' ex
  assume "pp_execute (x402_provider e p) ei s = (Inr ex, s')"
  then show "submitted paid_retries net_state.more ei (ex_attempt ex) s s'"
    by (intro x402_execute_submitted) (auto simp: x402_provider_def)
next
  fix ei s s' a
  assume "pp_execute (x402_provider e p) ei s = (Inl (PaymentOutcomeUnknownError a), s')"
  then show "submitted paid_retries net_state.more ei a s s'"
    by (intro x402_execute_submitted) (auto simp: x402_provider_def)
next
  fix ei s s'
  assume "pp_execute (x402_provider e p) ei s = (Inl PaymentNotSubmittedError, s')"
  then show "not_submitted paid_retries net_state.more ei s s'"
    by (intro x402_execute_not_submitted) (auto simp: x402_provider_def)
next
  fix ei s
  show "fst (pp_execute (x402_provider e p) ei s) \<noteq> Inl PaidServiceUnavailableError"
    by (auto simp: x402_provider_def x402_execute_def split: prod.splits option.splits bool.splits)
qed

end
