(* ===== verification/Authority_Service.thy ===== *)
theory Authority_Service
  imports Authority_Store_Reserve Authority_Challenge Policy Evidence_Service Payments_Provider
begin

text \<open>
  apps/authority/src/authorize.ts: the service that authenticates a request, decides it against the
  permit, the real 402 challenge and the durable budget, pays it, and reconciles payments whose outcome is
  unknown; with packages/audit.

  The service acts on \<open>authority_state\<close>: what the outside sees (\<open>net_state\<close>), the durable store, the audit
  log and the in-flight requests of the process.  Every access to the store is one atomic step, and before
  it any operations of other requests or other processes may have run: \<open>aa_others\<close> names them by the tick
  at which they fall.  An error is \<open>Inl\<close> beside the state it leaves.  Log entries are not modelled; the
  diagnostic text of a caught error is a fixed text where it is stored.
\<close>

section \<open>Audit log\<close>

record audit_event =
  ev_type :: string
  ev_actor :: string
  ev_mandateId :: string
  ev_data :: jsval
  ev_id :: string
  ev_timestamp :: int

section \<open>State and configuration\<close>

record PaymentEvidence =
  pe_settlementProfile :: string
  pe_protocol :: string
  pe_scheme :: string
  pe_challengeNetwork :: string
  pe_asset :: string
  pe_payTo :: string
  pe_amountAtomic :: string
  pe_resourceUrl :: "string option"
  pe_requestSha256 :: "string option"
  pe_payer :: "string option"
  pe_payerSignature :: "string option"
  pe_blockhash :: "string option"
  pe_transactionId :: "string option"
  pe_slot :: "string option"
  pe_resultSha256 :: "string option"

record AuthorizeResult =
  az_receipt :: signed_receipt
  az_replay :: bool
  az_payment :: "PaymentEvidence option"
  az_result :: jsval

datatype AuthorityReasonCode =
    PERMIT_INVALID | ISSUER_NOT_ENTITLED | AGENT_SIGNATURE_MISSING | AGENT_SIGNATURE_INVALID
  | REQUEST_AUDIENCE_MISMATCH | REQUEST_GRANT_MISMATCH | REQUEST_PERMIT_DIGEST_MISMATCH
  | REQUEST_TIMESTAMP_OUT_OF_RANGE | INVOCATION_CONFLICT | INVOCATION_IN_PROGRESS | GRANT_PERMIT_CONFLICT
  | PAYMENT_NOT_SUBMITTED | PAID_SERVICE_UNAVAILABLE | OUTBOUND_REQUEST_MISMATCH | RECONCILIATION_REQUIRED_CODE
  | INVOCATION_NOT_FOUND | EVIDENCE_NOT_FINAL | EVIDENCE_UNAVAILABLE

text \<open>The error classes; \<open>StoreFailure\<close> is an error of the store that is not caught, \<open>InternalError\<close> any
  other plain Error.\<close>

datatype authority_error =
    AgentAuthenticationError AuthorityReasonCode
  | IssuerNotEntitledError
  | OutboundRequestMismatchError
  | InvocationConflictError
  | InvocationInProgressError
  | GrantPermitConflictError
  | PaymentNotSubmittedFailure
  | PaidServiceUnavailableFailure
  | ReconciliationRequiredError
  | EvidenceRequestError int AuthorityReasonCode
  | StoreFailure store_error
  | InternalError

text \<open>The HTTP status and reason code each class carries; \<open>None\<close> for an unexpected error.\<close>

fun error_response :: "authority_error \<Rightarrow> (int \<times> AuthorityReasonCode) option" where
  "error_response (AgentAuthenticationError c) = Some (401, c)"
| "error_response IssuerNotEntitledError = Some (403, ISSUER_NOT_ENTITLED)"
| "error_response OutboundRequestMismatchError = Some (500, OUTBOUND_REQUEST_MISMATCH)"
| "error_response InvocationConflictError = Some (409, INVOCATION_CONFLICT)"
| "error_response InvocationInProgressError = Some (409, INVOCATION_IN_PROGRESS)"
| "error_response GrantPermitConflictError = Some (409, GRANT_PERMIT_CONFLICT)"
| "error_response PaymentNotSubmittedFailure = Some (502, PAYMENT_NOT_SUBMITTED)"
| "error_response PaidServiceUnavailableFailure = Some (502, PAID_SERVICE_UNAVAILABLE)"
| "error_response ReconciliationRequiredError = Some (409, RECONCILIATION_REQUIRED_CODE)"
| "error_response (EvidenceRequestError status c) = Some (status, c)"
| "error_response (StoreFailure e) = None"
| "error_response InternalError = None"

text \<open>\<open>au_pending\<close>: the requests of this process in flight, with the outcome their promise settles to.\<close>

record authority_state = net_state +
  au_store :: store
  au_audit :: "audit_event list"
  au_pending :: "string \<Rightarrow> (string \<times> (authority_error + AuthorizeResult)) option"

lemma more_store: "net_state.more s' = net_state.more s \<Longrightarrow> au_store s' = au_store s"
  by (cases s; cases s') simp

record IssuerEntitlement =
  ie_issuer :: string
  ie_settlementProfiles :: "string list"

record authority =
  aa_signer :: signing_key
  aa_address :: address
  aa_audience :: string
  aa_issuerEntitlement :: IssuerEntitlement
  aa_trustedServiceKeys :: "string \<Rightarrow> string option"
  aa_provider :: "authority_state PaymentProvider"
  aa_paidServices :: paid_registry
  aa_settlementProfiles :: "string \<Rightarrow> SettlementProfile option"
  aa_maxRequestAgeMs :: int
  aa_maxFutureSkewMs :: int
  aa_platform :: platform
  aa_world :: world
  aa_uuid :: "nat \<Rightarrow> string"
  aa_others :: "nat \<Rightarrow> (int \<times> store_op) list"

section \<open>Steps\<close>

type_synonym 'a action = "authority_state \<Rightarrow> (authority_error + 'a) \<times> authority_state"

definition act_bind :: "'a action \<Rightarrow> ('a \<Rightarrow> 'b action) \<Rightarrow> 'b action" where
  "act_bind m f s = (case m s of (Inl e, s') \<Rightarrow> (Inl e, s') | (Inr a, s') \<Rightarrow> f a s')"

definition act_fail :: "authority_error \<Rightarrow> 'a action" where
  "act_fail e s = (Inl e, s)"

definition act_return :: "'a \<Rightarrow> 'a action" where
  "act_return a s = (Inr a, s)"

text \<open>The store as it is when the step runs.\<close>

definition arrived :: "authority \<Rightarrow> authority_state \<Rightarrow> store" where
  "arrived A s = run_ops (aa_others A (ns_tick s)) (au_store s)"

definition store_step ::
  "authority \<Rightarrow> (int \<Rightarrow> store \<Rightarrow> (store_error + 'a) \<times> store) \<Rightarrow> authority_state \<Rightarrow> (store_error + 'a) \<times> authority_state" where
  "store_step A f s =
     (case f (ns_now s) (arrived A s) of (r, st) \<Rightarrow> (r, pass (aa_world A) (s \<lparr> au_store := st \<rparr>)))"

definition store_call :: "authority \<Rightarrow> (int \<Rightarrow> store \<Rightarrow> (store_error + 'a) \<times> store) \<Rightarrow> 'a action" where
  "store_call A f s =
     (case store_step A f s of (Inl e, s') \<Rightarrow> (Inl (StoreFailure e), s') | (Inr a, s') \<Rightarrow> (Inr a, s'))"

definition store_read :: "authority \<Rightarrow> (store \<Rightarrow> 'a) \<Rightarrow> 'a action" where
  "store_read A f = store_call A (\<lambda>_ st. (Inr (f st), st))"

definition audit_append :: "authority \<Rightarrow> string \<Rightarrow> string \<Rightarrow> string \<Rightarrow> jsval \<Rightarrow> authority_state \<Rightarrow> authority_state" where
  "audit_append A type actor mandateId data s =
     s \<lparr> au_audit := au_audit s @ [\<lparr> ev_type = type, ev_actor = actor, ev_mandateId = mandateId, ev_data = data,
           ev_id = aa_uuid A (length (au_audit s)), ev_timestamp = ns_now s \<rparr>] \<rparr>"

section \<open>Budget view and startup recovery\<close>

record GrantBudget =
  gb_maxTotalAtomic :: string
  gb_reservedAtomic :: string
  gb_consumedAtomic :: string
  gb_remainingAtomic :: string

definition grant_budget :: "grant \<Rightarrow> GrantBudget" where
  "grant_budget g =
     (let committed = dec (gr_reservedAtomic g) + dec (gr_consumedAtomic g) in
      \<lparr> gb_maxTotalAtomic = gr_maxTotalAtomic g, gb_reservedAtomic = gr_reservedAtomic g,
        gb_consumedAtomic = gr_consumedAtomic g,
        gb_remainingAtomic = show_int (int (dec (gr_maxTotalAtomic g)) - int committed) \<rparr>)"

definition getGrantBudget :: "authority \<Rightarrow> string \<Rightarrow> string \<Rightarrow> GrantBudget option action" where
  "getGrantBudget A issuer grantId = store_read A (\<lambda>st. map_option grant_budget (selectGrant st issuer grantId))"

definition recoverInterrupted :: "authority \<Rightarrow> recovery_result action" where
  "recoverInterrupted A =
     store_call A (recoverInterruptedInvocations ''authority restarted while payment was in progress'')"

section \<open>Authentication\<close>

record AuthorizeRequestInput =
  in_permit :: jsval
  in_authorizationRequest :: request_v2
  in_agentSignature :: jsval

record AuthenticatedRequest =
  ar_permit :: "permit_v2 signed"
  ar_request :: request_v2
  ar_agentSignature :: string
  ar_operationDigest :: string
  ar_fingerprint :: string

definition fingerprint_json :: "permit_v2 \<Rightarrow> request_v2 \<Rightarrow> string \<Rightarrow> jsval" where
  "fingerprint_json permit request operationDigest =
     JObj [(''version'', JInt 2), (''permitDigest'', JStr (rq_permitDigest request)),
       (''grantId'', JStr (pp_grantId permit)), (''agent'', JStr (pp_authorizedAgent permit)),
       (''invocationId'', JStr (rq_invocationId request)), (''service'', JStr (rq_service request)),
       (''capability'', JStr (rq_capability request)), (''network'', JStr (rq_network request)),
       (''mint'', JStr (rq_mint request)), (''recipient'', JStr (rq_recipient request)),
       (''amountAtomic'', JStr (rq_amountAtomic request)), (''operationDigest'', JStr operationDigest)]"

definition FINGERPRINT_PREFIX :: string where
  "FINGERPRINT_PREFIX = ''virtual-haibin/invocation-fingerprint:v2'' @ [CHR 0x0A]"

definition computeRequestFingerprint :: "platform \<Rightarrow> permit_v2 \<Rightarrow> request_v2 \<Rightarrow> string \<Rightarrow> string option" where
  "computeRequestFingerprint px permit request operationDigest =
     canonicalDigest px FINGERPRINT_PREFIX (fingerprint_json permit request operationDigest)"

text \<open>No durable state is read or written here; the time is read once.\<close>

definition authenticate :: "authority \<Rightarrow> AuthorizeRequestInput \<Rightarrow> int \<Rightarrow> authority_error + AuthenticatedRequest" where
  "authenticate A input now =
     (let px = aa_platform A; request = in_authorizationRequest input in
      if nullish (in_agentSignature input) then Inl (AgentAuthenticationError AGENT_SIGNATURE_MISSING)
      else case verifyPurchasePermitV2 px (in_permit input) of
        Inl _ \<Rightarrow> Inl (AgentAuthenticationError PERMIT_INVALID)
      | Inr signd \<Rightarrow>
        let permit = sg_body signd in
        if pp_issuer permit \<noteq> ie_issuer (aa_issuerEntitlement A)
          \<or> pp_network permit \<notin> set (ie_settlementProfiles (aa_issuerEntitlement A))
        then Inl IssuerNotEntitledError
        else if \<not> verifyAuthorizationRequestSignature px (canonicalizeAuthorizationRequestV2 px request)
                   (in_agentSignature input) (pp_authorizedAgent permit)
        then Inl (AgentAuthenticationError AGENT_SIGNATURE_INVALID)
        else if rq_audience request \<noteq> aa_audience A
        then Inl (AgentAuthenticationError REQUEST_AUDIENCE_MISMATCH)
        else if rq_grantId request \<noteq> pp_grantId permit
        then Inl (AgentAuthenticationError REQUEST_GRANT_MISMATCH)
        else case computePermitDigest px signd of
          None \<Rightarrow> Inl InternalError
        | Some digest \<Rightarrow>
          if rq_permitDigest request \<noteq> digest
          then Inl (AgentAuthenticationError REQUEST_PERMIT_DIGEST_MISMATCH)
          else if rq_issuedAt request < now - aa_maxRequestAgeMs A
            \<or> rq_issuedAt request > now + aa_maxFutureSkewMs A
          then Inl (AgentAuthenticationError REQUEST_TIMESTAMP_OUT_OF_RANGE)
          else case computeOperationDigest px (rq_operation request) of
            None \<Rightarrow> Inl InternalError
          | Some operationDigest \<Rightarrow>
            (case computeRequestFingerprint px permit request operationDigest of
               None \<Rightarrow> Inl InternalError
             | Some fingerprint \<Rightarrow>
               Inr \<lparr> ar_permit = signd, ar_request = request,
                     ar_agentSignature = jstr (jget (in_agentSignature input) ''signature''),
                     ar_operationDigest = operationDigest, ar_fingerprint = fingerprint \<rparr>))"

section \<open>Receipts and results\<close>

definition receipt_base :: "authority \<Rightarrow> invocation \<Rightarrow> 'a request_v1_scheme \<Rightarrow> receipt_v1" where
  "receipt_base A i request =
     \<lparr> rcp_invocationId = inv_id i, rcp_grantId = inv_grantId i, rcp_authority = aa_address A,
       rcp_agent = inv_agent i, rcp_permitDigest = rq_permitDigest request,
       rcp_requestFingerprint = inv_fingerprint i, rcp_service = rq_service request,
       rcp_capability = rq_capability request, rcp_network = rq_network request, rcp_mint = rq_mint request,
       rcp_recipient = rq_recipient request, rcp_amountAtomic = inv_amountAtomic i,
       rcp_decision = (if inv_state i = CONFIRMED then ALLOW else DENY),
       rcp_reasonCodes = inv_reasonCodes i, rcp_paymentTransactionId = inv_paymentTransactionId i,
       rcp_decidedAt = inv_decidedAt i \<rparr>"

text \<open>The receipt an invocation gets, signed; \<open>None\<close> where digest or signing throws.\<close>

definition build_receipt :: "authority \<Rightarrow> invocation \<Rightarrow> signed_receipt option" where
  "build_receipt A i =
     (let px = aa_platform A in
      case inv_request i of
        StoredV2 request \<Rightarrow>
          (case computeOperationDigest px (rq_operation request) of
             None \<Rightarrow> None
           | Some digest \<Rightarrow>
             (case signAuthorizationReceipt px
                 (receipt_v1.extend (receipt_base A i request)
                    (receipt_v2.fields (rq_operation request) digest)) (aa_signer A) of
                Inl _ \<Rightarrow> None | Inr r \<Rightarrow> Some (ReceiptV2 r)))
      | StoredV1 request \<Rightarrow>
          (case signAuthorizationReceiptV1 px (receipt_base A i request) (aa_signer A) of
             Inl _ \<Rightarrow> None | Inr r \<Rightarrow> Some (ReceiptV1 r)))"

definition ensureReceipt :: "authority \<Rightarrow> invocation \<Rightarrow> signed_receipt action" where
  "ensureReceipt A i =
     (case inv_receipt i of
        Some r \<Rightarrow> act_return r
      | None \<Rightarrow>
        if inv_state i \<noteq> DENIED \<and> inv_state i \<noteq> CONFIRMED then act_fail InternalError
        else case build_receipt A i of
          None \<Rightarrow> act_fail InternalError
        | Some r \<Rightarrow> store_call A (attachReceipt (inv_id i) r))"

definition payment_evidence :: "authority \<Rightarrow> invocation \<Rightarrow> PaymentRequirement \<Rightarrow> PaymentEvidence" where
  "payment_evidence A i m =
     (let attempt = inv_paymentAttempt i in
      \<lparr> pe_settlementProfile = (case attempt of Some a \<Rightarrow> at_settlementProfile a
           | None \<Rightarrow> pp_settlementProfile (aa_provider A)),
        pe_protocol = pm_protocol m, pe_scheme = pm_scheme m, pe_challengeNetwork = pm_network m,
        pe_asset = pm_asset m, pe_payTo = pm_payTo m, pe_amountAtomic = pm_amountAtomic m,
        pe_resourceUrl = pm_resourceUrl m, pe_requestSha256 = map_option at_requestSha256 attempt,
        pe_payer = map_option at_payer attempt, pe_payerSignature = map_option at_payerSignature attempt,
        pe_blockhash = map_option at_blockhash attempt,
        pe_transactionId = (case inv_settlement i of Some st \<Rightarrow> Some (cs_transactionId st)
           | None \<Rightarrow> inv_paymentTransactionId i),
        pe_slot = Option.bind (inv_settlement i) cs_slot,
        pe_resultSha256 = map_option rs_sha256 (inv_result i) \<rparr>)"

definition authorize_result :: "authority \<Rightarrow> invocation \<Rightarrow> signed_receipt \<Rightarrow> bool \<Rightarrow> AuthorizeResult" where
  "authorize_result A i receipt replay =
     \<lparr> az_receipt = receipt, az_replay = replay,
       az_payment = map_option (payment_evidence A i) (inv_paymentRequirement i),
       az_result = (case inv_result i of None \<Rightarrow> JNull | Some r \<Rightarrow> rs_json r) \<rparr>"

definition with_receipt_result :: "authority \<Rightarrow> invocation \<Rightarrow> bool \<Rightarrow> AuthorizeResult action" where
  "with_receipt_result A i replay =
     act_bind (ensureReceipt A i) (\<lambda>r. act_return (authorize_result A i r replay))"

definition resolveExisting :: "authority \<Rightarrow> invocation \<Rightarrow> string \<Rightarrow> AuthorizeResult action" where
  "resolveExisting A i fingerprint =
     (if inv_fingerprint i \<noteq> fingerprint then act_fail InvocationConflictError
      else case inv_state i of
        DENIED \<Rightarrow> with_receipt_result A i True
      | CONFIRMED \<Rightarrow> with_receipt_result A i True
      | RECONCILIATION_REQUIRED \<Rightarrow> act_fail ReconciliationRequiredError
      | RESERVED \<Rightarrow> act_fail InvocationInProgressError
      | FAILED \<Rightarrow> act_fail InternalError)"

definition auditDecision :: "authority \<Rightarrow> permit_v2 \<Rightarrow> invocation \<Rightarrow> authority_state \<Rightarrow> authority_state" where
  "auditDecision A permit i =
     audit_append A ''policy.decision'' (pp_authorizedAgent permit) (pp_grantId permit)
       (JObj [(''allowed'', JBool (inv_state i = RESERVED)), (''reasonCodes'', JArr (map JStr (inv_reasonCodes i))),
          (''invocationId'', JStr (inv_id i)), (''amountAtomic'', JStr (inv_amountAtomic i))])"

section \<open>Paying\<close>

definition outboundMatchesAuthorization :: "authority \<Rightarrow> invocation \<Rightarrow> PaidRequest \<Rightarrow> authority_error + bool" where
  "outboundMatchesAuthorization A i paidRequest =
     (case inv_request i of
        StoredV1 _ \<Rightarrow> Inr False
      | StoredV2 stored \<Rightarrow>
        (case aa_paidServices A (paidServiceKey (rq_service stored) (rq_capability stored)) of
           None \<Rightarrow> Inr False
         | Some resource \<Rightarrow>
           (case buildPaidRequest (aa_platform A) resource (rq_operation stored) of
              Inl _ \<Rightarrow> Inl InternalError
            | Inr None \<Rightarrow> Inr False
            | Inr (Some expected) \<Rightarrow>
                Inr (pq_sha256 expected = pq_sha256 paidRequest \<and> pq_url expected = pq_url paidRequest
                  \<and> pq_method expected = pq_method paidRequest \<and> pq_body expected = pq_body paidRequest))))"

definition signServiceAuthorization_for ::
  "authority \<Rightarrow> invocation \<Rightarrow> permit_v2 \<Rightarrow> PaidRequest \<Rightarrow> PaymentRequirement \<Rightarrow> int
     \<Rightarrow> service_authorization signed option" where
  "signServiceAuthorization_for A i permit paidRequest requirement issuedAt =
     (case inv_request i of
        StoredV1 _ \<Rightarrow> None
      | StoredV2 stored \<Rightarrow>
        (case computeOperationDigest (aa_platform A) (rq_operation stored) of
           None \<Rightarrow> None
         | Some digest \<Rightarrow>
           (case signServiceAuthorization (aa_platform A)
               \<lparr> sa_authority = aa_address A, sa_invocationId = inv_id i, sa_grantId = pp_grantId permit,
                 sa_url = pq_url paidRequest, sa_requestSha256 = pq_sha256 paidRequest,
                 sa_operationDigest = digest, sa_network = pm_network requirement,
                 sa_asset = pm_asset requirement, sa_payTo = pm_payTo requirement,
                 sa_amountAtomic = pm_amountAtomic requirement, sa_issuedAt = issuedAt,
                 sa_expiresAt = issuedAt + SERVICE_AUTHORIZATION_TTL_MS \<rparr> (aa_signer A) of
              Inl _ \<Rightarrow> None | Inr signd \<Rightarrow> Some signd)))"

text \<open>No problem of the list is reported, and the header decodes.\<close>

definition acknowledgement_matches ::
  "authority \<Rightarrow> invocation \<Rightarrow> string \<Rightarrow> service_authorization signed \<Rightarrow> PaidRequest \<Rightarrow> PaymentRequirement
     \<Rightarrow> ConfirmedSettlement \<Rightarrow> PaidResult \<Rightarrow> service_acknowledgement signed \<Rightarrow> bool" where
  "acknowledgement_matches A i pinned authorization paidRequest requirement settlement result signd =
     (let ack = sg_body signd in
      verifyServiceAcknowledgementSignature (aa_platform A) signd pinned
      \<and> sk_invocationId ack = inv_id i
      \<and> serviceAuthorizationDigest (aa_platform A) authorization = Some (sk_authorizationDigest ack)
      \<and> sk_requestSha256 ack = pq_sha256 paidRequest
      \<and> (case inv_request i of StoredV1 _ \<Rightarrow> False
          | StoredV2 r \<Rightarrow> sk_method ack = op_method (rq_operation r) \<and> sk_resource ack = op_resource (rq_operation r)
              \<and> sk_operation ack = op_operation (rq_operation r) \<and> sk_datasetId ack = op_datasetId (rq_operation r))
      \<and> sk_asset ack = pm_asset requirement \<and> sk_payTo ack = pm_payTo requirement
      \<and> sk_amountAtomic ack = pm_amountAtomic requirement
      \<and> sk_transaction ack = Some (cs_transactionId settlement)
      \<and> sk_sha256 ack = rs_sha256 result \<and> sk_bytes ack = int (rs_bytes result)
      \<and> sk_httpStatus ack = rs_httpStatus result)"

definition acceptAcknowledgement ::
  "authority \<Rightarrow> invocation \<Rightarrow> permit_v2 \<Rightarrow> service_authorization signed \<Rightarrow> PaidRequest \<Rightarrow> PaymentRequirement
     \<Rightarrow> ConfirmedSettlement \<Rightarrow> PaidResult \<Rightarrow> PaidResult" where
  "acceptAcknowledgement A i permit authorization paidRequest requirement settlement result =
     (let withoutAcknowledgement = result \<lparr> rs_serviceAcknowledgementHeader := None \<rparr> in
      case rs_serviceAcknowledgementHeader result of
        None \<Rightarrow> withoutAcknowledgement
      | Some header \<Rightarrow>
        (case aa_trustedServiceKeys A (pp_service permit) of
           None \<Rightarrow> withoutAcknowledgement
         | Some pinned \<Rightarrow>
           (case decodeServiceAcknowledgementHeader (aa_platform A) header of
              None \<Rightarrow> withoutAcknowledgement
            | Some ack \<Rightarrow>
                if acknowledgement_matches A i pinned authorization paidRequest requirement settlement result ack
                then result else withoutAcknowledgement)))"

text \<open>The store refuses to fail a reservation that is already gone; that one error is swallowed.\<close>

definition release_quietly :: "authority \<Rightarrow> string \<Rightarrow> string \<Rightarrow> unit action" where
  "release_quietly A x reason s =
     (case store_step A (fail x reason) s of
        (Inl InvalidStateTransition, s') \<Rightarrow> (Inr (), s')
      | (Inl e, s') \<Rightarrow> (Inl (StoreFailure e), s')
      | (Inr _, s') \<Rightarrow> (Inr (), s'))"

definition execute_input ::
  "authority \<Rightarrow> string \<Rightarrow> PaidRequest \<Rightarrow> PaymentChallenge \<Rightarrow> PaymentRequirement \<Rightarrow> service_authorization signed
     \<Rightarrow> string \<Rightarrow> authority_state ExecuteInput" where
  "execute_input A invocationId paidRequest challenge requirement serviceAuthorization header =
     \<lparr> ei_request = paidRequest, ei_challenge = challenge, ei_requirement = requirement,
       ei_reference = invocationId, ei_serviceAuthorizationHeader = Some header,
       ei_beforeSubmit = (\<lambda>attempt s.
         case store_step A (recordPaymentAttempt invocationId attempt (Some serviceAuthorization)) s of
           (r, s') \<Rightarrow> (isOk r, s')) \<rparr>"

text \<open>After a settled execution: keep a valid acknowledgement, confirm, and on a failure to record mark the
  invocation (an error of that is swallowed: the row stays RESERVED).\<close>

definition settle ::
  "authority \<Rightarrow> invocation \<Rightarrow> permit_v2 \<Rightarrow> PaidRequest \<Rightarrow> PaymentRequirement \<Rightarrow> service_authorization signed
     \<Rightarrow> PaymentExecution \<Rightarrow> invocation action" where
  "settle A i permit paidRequest requirement serviceAuthorization execution s =
     (let invocationId = inv_id i; settlement = ex_settlement execution;
          result = acceptAcknowledgement A i permit serviceAuthorization paidRequest requirement settlement
            (ex_result execution) in
      case store_step A (confirm invocationId
          \<lparr> cp_transactionId = cs_transactionId settlement, cp_settledAt = cs_confirmedAt settlement,
            cp_settlement = Some settlement, cp_result = Some result \<rparr>) s of
        (Inr confirmed, s') \<Rightarrow>
          (Inr confirmed, audit_append A ''payment.confirmed'' (aa_address A) (pp_grantId permit)
             (JObj [(''invocationId'', JStr invocationId), (''transactionId'', JStr (cs_transactionId settlement))]) s')
      | (Inl _, s') \<Rightarrow>
          (Inl ReconciliationRequiredError,
           snd (store_step A (markReconciliationRequired invocationId
             (''payment '' @ cs_transactionId settlement @ '' not recorded'')) s')))"

definition pay ::
  "authority \<Rightarrow> permit_v2 \<Rightarrow> invocation \<Rightarrow> PaidRequest \<Rightarrow> PaymentChallenge \<Rightarrow> PaymentRequirement \<Rightarrow> invocation action" where
  "pay A permit i paidRequest challenge requirement =
     (let invocationId = inv_id i in
      case outboundMatchesAuthorization A i paidRequest of
        Inl e \<Rightarrow> act_fail e
      | Inr False \<Rightarrow>
          act_bind (store_call A (fail invocationId ''outbound request does not match the authorized operation''))
            (\<lambda>_. act_fail OutboundRequestMismatchError)
      | Inr True \<Rightarrow>
        act_bind (getGrantBudget A (pp_issuer permit) (pp_grantId permit)) (\<lambda>budget s.
          case signServiceAuthorization_for A i permit paidRequest requirement (ns_now s) of
            None \<Rightarrow>
              act_bind (store_call A (fail invocationId ''service authorization not built''))
                (\<lambda>_. act_fail PaymentNotSubmittedFailure) s
          | Some serviceAuthorization \<Rightarrow>
            (case encodeServiceHeader (aa_platform A)
                (signed_json service_authorization_fields serviceAuthorization) of
               None \<Rightarrow>
                 act_bind (store_call A (markReconciliationRequired invocationId ''unknown''))
                   (\<lambda>_. act_fail ReconciliationRequiredError) s
             | Some header \<Rightarrow>
               (case pp_execute (aa_provider A)
                   (execute_input A invocationId paidRequest challenge requirement serviceAuthorization header) s of
                  (Inr execution, s') \<Rightarrow>
                    settle A i permit paidRequest requirement serviceAuthorization execution s'
                | (Inl PaymentNotSubmittedError, s') \<Rightarrow>
                    act_bind (release_quietly A invocationId ''payment not submitted'')
                      (\<lambda>_. act_fail PaymentNotSubmittedFailure) s'
                | (Inl _, s') \<Rightarrow>
                    act_bind (store_call A (markReconciliationRequired invocationId ''payment outcome unknown''))
                      (\<lambda>_. act_fail ReconciliationRequiredError) s'))))"

section \<open>Deciding a request\<close>

text \<open>The closure \<open>policy\<close> of \<open>#process\<close>: mint, recipient and amount, and the amount already committed.\<close>

definition policy_codes ::
  "permit_v2 \<Rightarrow> request_v2 \<Rightarrow> int \<Rightarrow> string \<times> string \<times> string \<Rightarrow> string \<Rightarrow> string list" where
  "policy_codes permit request decidedAt values committedAtomic =
     (case values of (mint, recipient, amountAtomic) \<Rightarrow>
        map operation_code_text (dc_reasonCodes (evaluateExactOperation (pp_operation permit) (rq_operation request)))
        @ map permit_code_text (dc_reasonCodes (evaluatePurchasePermit decidedAt permit
            \<lparr> pr_service = rq_service request, pr_capability = rq_capability request,
              pr_network = rq_network request, pr_mint = mint, pr_recipient = recipient,
              pr_amountAtomic = amountAtomic, pr_alreadySpentAtomic = committedAtomic,
              pr_now = Some decidedAt \<rparr>)))"

definition request_values :: "request_v2 \<Rightarrow> string \<times> string \<times> string" where
  "request_values request = (rq_mint request, rq_recipient request, rq_amountAtomic request)"

definition requirement_values :: "PaymentRequirement \<Rightarrow> string \<times> string \<times> string" where
  "requirement_values m = (pm_asset m, pm_payTo m, pm_amountAtomic m)"

text \<open>What step 2 of \<open>#process\<close> leaves: the codes, the challenge, the selected requirement, the request.\<close>

record quote =
  qt_codes :: "string list"
  qt_challenge :: "PaymentChallenge option"
  qt_requirement :: "PaymentRequirement option"
  qt_paidRequest :: "PaidRequest option"

definition no_quote :: "string list \<Rightarrow> PaidRequest option \<Rightarrow> quote" where
  "no_quote codes paidRequest =
     \<lparr> qt_codes = codes, qt_challenge = None, qt_requirement = None, qt_paidRequest = paidRequest \<rparr>"

definition probe_service :: "authority \<Rightarrow> permit_v2 \<Rightarrow> request_v2 \<Rightarrow> quote action" where
  "probe_service A permit request s =
     (case (case aa_paidServices A (paidServiceKey (rq_service request) (rq_capability request)) of
              None \<Rightarrow> Inr None
            | Some resource \<Rightarrow> buildPaidRequest (aa_platform A) resource (rq_operation request)) of
        Inl _ \<Rightarrow> (Inl InternalError, s)
      | Inr paidRequest \<Rightarrow>
        (case aa_settlementProfiles A (pp_network permit) of
           None \<Rightarrow> (Inr (no_quote [''SETTLEMENT_PROFILE_UNAVAILABLE''] paidRequest), s)
         | Some profile \<Rightarrow>
           if sp_name profile \<noteq> pp_settlementProfile (aa_provider A)
           then (Inr (no_quote [''SETTLEMENT_PROFILE_UNAVAILABLE''] paidRequest), s)
           else case paidRequest of
             None \<Rightarrow> (Inr (no_quote [''PAID_SERVICE_NOT_CONFIGURED''] None), s)
           | Some q \<Rightarrow>
             (case pp_fetchChallenge (aa_provider A) q (rq_invocationId request) s of
                (Inl PaidServiceUnavailableError, s') \<Rightarrow> (Inl PaidServiceUnavailableFailure, s')
              | (Inl _, s') \<Rightarrow> (Inl InternalError, s')
              | (Inr result, s') \<Rightarrow>
                let selection = selectAndValidateChallenge result profile q request
                      (pp_payerAddress (aa_provider A))
                in (Inr \<lparr> qt_codes = map challenge_code_text (sel_reasonCodes selection),
                          qt_challenge = (case result of Challenge ch \<Rightarrow> Some ch | Rejected _ \<Rightarrow> None),
                          qt_requirement = sel_requirement selection, qt_paidRequest = Some q \<rparr>, s'))))"

text \<open>The closure \<open>evaluate\<close>; the JavaScript Set keeps the first occurrence of each code.\<close>

definition evaluate_decision :: "permit_v2 \<Rightarrow> request_v2 \<Rightarrow> int \<Rightarrow> quote \<Rightarrow> string \<Rightarrow> budget_decision" where
  "evaluate_decision permit request decidedAt quote committedAtomic =
     (let codes = policy_codes permit request decidedAt (request_values request) committedAtomic @ qt_codes quote;
          codes = (case qt_requirement quote of
             Some m \<Rightarrow> codes @ policy_codes permit request decidedAt (requirement_values m) committedAtomic
           | None \<Rightarrow> if codes = [] then [''CHALLENGE_MALFORMED''] else codes)
      in if codes = [] then BudgetAllowed else BudgetDenied (dedup codes))"

definition reserve_input_for :: "AuthenticatedRequest \<Rightarrow> int \<Rightarrow> quote \<Rightarrow> reserve_input" where
  "reserve_input_for ar decidedAt quote =
     (let permit = sg_body (ar_permit ar); request = ar_request ar in
      \<lparr> ri_invocationId = rq_invocationId request, ri_fingerprint = ar_fingerprint ar,
        ri_grant = \<lparr> gt_issuer = pp_issuer permit, gt_grantId = pp_grantId permit,
                     gt_permitDigest = rq_permitDigest request, gt_maxTotalAtomic = pp_maxTotal permit \<rparr>,
        ri_agent = pp_authorizedAgent permit, ri_request = request, ri_amountAtomic = rq_amountAtomic request,
        ri_decidedAt = decidedAt, ri_paymentRequirement = qt_requirement quote,
        ri_authorization = Some \<lparr> sv_permit = ar_permit ar, sv_agentSignature = ar_agentSignature ar \<rparr> \<rparr>)"

definition carry_out :: "authority \<Rightarrow> AuthenticatedRequest \<Rightarrow> quote \<Rightarrow> reserve_result \<Rightarrow> AuthorizeResult action" where
  "carry_out A ar quote result s =
     (let permit = sg_body (ar_permit ar) in
      case result of
        ReserveGrantConflict _ \<Rightarrow> (Inl GrantPermitConflictError, s)
      | ReserveExisting i \<Rightarrow> resolveExisting A i (ar_fingerprint ar) s
      | ReserveDenied i \<Rightarrow> with_receipt_result A i False (auditDecision A permit i s)
      | ReserveReserved i \<Rightarrow>
        (case (qt_challenge quote, qt_requirement quote, qt_paidRequest quote) of
           (Some challenge, Some requirement, Some paidRequest) \<Rightarrow>
             act_bind (pay A permit i paidRequest challenge requirement)
               (\<lambda>confirmed. with_receipt_result A confirmed False) (auditDecision A permit i s)
         | _ \<Rightarrow>
             act_bind (store_call A (fail (rq_invocationId (ar_request ar)) ''internal: reserved without a payment requirement''))
               (\<lambda>_. act_fail InternalError) (auditDecision A permit i s)))"

definition process :: "authority \<Rightarrow> AuthenticatedRequest \<Rightarrow> AuthorizeResult action" where
  "process A ar =
     (let permit = sg_body (ar_permit ar); request = ar_request ar; fingerprint = ar_fingerprint ar in
      act_bind (store_read A (\<lambda>st. selectInvocation st (rq_invocationId request))) (\<lambda>known s.
        case (case known of None \<Rightarrow> None
              | Some i \<Rightarrow> if inv_state i = FAILED \<and> inv_fingerprint i = fingerprint then None else Some i) of
          Some i \<Rightarrow> resolveExisting A i fingerprint s
        | None \<Rightarrow>
          let decidedAt = ns_now s in
          act_bind (if policy_codes permit request decidedAt (request_values request) ''0'' = []
                    then probe_service A permit request else act_return (no_quote [] None)) (\<lambda>quote.
          act_bind (store_call A (reserve (reserve_input_for ar decidedAt quote)
                      (evaluate_decision permit request decidedAt quote))) (\<lambda>result.
            carry_out A ar quote result)) s))"

text \<open>A duplicate of a request in flight waits for the first one's outcome.\<close>

definition authorize :: "authority \<Rightarrow> AuthorizeRequestInput \<Rightarrow> AuthorizeResult action" where
  "authorize A input s =
     (case authenticate A input (ns_now s) of
        Inl e \<Rightarrow> (Inl e, s)
      | Inr ar \<Rightarrow>
        (case au_pending s (rq_invocationId (ar_request ar)) of
           Some (fingerprint, outcome) \<Rightarrow>
             if fingerprint \<noteq> ar_fingerprint ar then (Inl InvocationConflictError, s)
             else (case outcome of Inl e \<Rightarrow> Inl e | Inr result \<Rightarrow> Inr (result \<lparr> az_replay := True \<rparr>), s)
         | None \<Rightarrow> process A ar s))"

section \<open>Reconciliation\<close>

datatype reconciliation_kind =
    ReconciledConfirmed | ReconciledFailed | StillPending | NoAttemptRecorded | LookupError | AlreadyResolved

record ReconciliationReport =
  rep_invocationId :: string
  rep_outcome :: reconciliation_kind

definition resolve_and :: "authority \<Rightarrow> string \<Rightarrow> reconciliation_outcome \<Rightarrow> (invocation \<Rightarrow> unit action)
     \<Rightarrow> reconciliation_kind \<Rightarrow> ReconciliationReport action" where
  "resolve_and A x outcome after kind s =
     (case store_step A (resolveReconciliation x outcome) s of
        (Inl InvalidStateTransition, s') \<Rightarrow> (Inr \<lparr> rep_invocationId = x, rep_outcome = AlreadyResolved \<rparr>, s')
      | (Inl e, s') \<Rightarrow> (Inl (StoreFailure e), s')
      | (Inr i, s') \<Rightarrow>
        (case after i s' of
           (Inl (StoreFailure InvalidStateTransition), s'') \<Rightarrow>
             (Inr \<lparr> rep_invocationId = x, rep_outcome = AlreadyResolved \<rparr>, s'')
         | (Inl e, s'') \<Rightarrow> (Inl e, s'')
         | (Inr _, s'') \<Rightarrow> (Inr \<lparr> rep_invocationId = x, rep_outcome = kind \<rparr>, s'')))"

definition reconcile_one :: "authority \<Rightarrow> invocation \<Rightarrow> ReconciliationReport action" where
  "reconcile_one A i s =
     (let x = inv_id i in
      case inv_paymentAttempt i of
        None \<Rightarrow> (Inr \<lparr> rep_invocationId = x, rep_outcome = NoAttemptRecorded \<rparr>, s)
      | Some attempt \<Rightarrow>
        (case pp_lookupSettlement (aa_provider A) attempt s of
           (None, s') \<Rightarrow> (Inr \<lparr> rep_invocationId = x, rep_outcome = LookupError \<rparr>, s')
         | (Some (LookupConfirmed settlement), s') \<Rightarrow>
             resolve_and A x (OutcomeConfirmed settlement)
               (\<lambda>confirmed. act_bind (ensureReceipt A confirmed) (\<lambda>_. act_return ())) ReconciledConfirmed s'
         | (Some (LookupExpired h), s') \<Rightarrow>
             resolve_and A x (OutcomeFailed (''no matching transaction and blockhash expired (height '' @ h @ '')''))
               (\<lambda>_. act_return ()) ReconciledFailed s'
         | (Some (LookupFailedOnchain t e), s') \<Rightarrow>
             resolve_and A x (OutcomeFailed (''transaction '' @ t @ '' failed on-chain''))
               (\<lambda>_. act_return ()) ReconciledFailed s'
         | (Some (LookupPending h), s') \<Rightarrow> (Inr \<lparr> rep_invocationId = x, rep_outcome = StillPending \<rparr>, s')
         | (Some LookupInconclusive, s') \<Rightarrow> (Inr \<lparr> rep_invocationId = x, rep_outcome = StillPending \<rparr>, s')))"

fun reconcile_each :: "authority \<Rightarrow> invocation list \<Rightarrow> ReconciliationReport list action" where
  "reconcile_each A [] s = (Inr [], s)"
| "reconcile_each A (i # is) s =
     act_bind (reconcile_one A i) (\<lambda>r. act_bind (reconcile_each A is) (\<lambda>rs. act_return (r # rs))) s"

definition reconcileOnce :: "authority \<Rightarrow> ReconciliationReport list action" where
  "reconcileOnce A = act_bind (store_read A listReconciliationRequired) (reconcile_each A)"

text \<open>Single flight: a caller that finds a run in progress shares its outcome.\<close>

definition reconcile ::
  "authority \<Rightarrow> (authority_error + ReconciliationReport list) option \<Rightarrow> ReconciliationReport list action" where
  "reconcile A reconciliation s = (case reconciliation of None \<Rightarrow> reconcileOnce A s | Some outcome \<Rightarrow> (outcome, s))"

end
