(* ===== verification/Authority_Service_Lemmas.thy ===== *)
theory Authority_Service_Lemmas
  imports Authority_Service
begin

text \<open>
  Lemmas on the authority service: which steps send nothing, what authentication and the decision
  establish, and the decomposition of a run of \<open>authorize\<close> that ends in a payment.
\<close>

section \<open>Steps that send nothing\<close>

definition silent :: "'a action \<Rightarrow> bool" where
  "silent m \<longleftrightarrow> (\<forall>s. ns_sent (snd (m s)) = ns_sent s)"

named_theorems silent_intros

lemma silentD: "silent m \<Longrightarrow> m s = (r, s') \<Longrightarrow> ns_sent s' = ns_sent s"
  unfolding silent_def by (metis snd_conv)

lemma paid_of_sent: "ns_sent s' = ns_sent s \<Longrightarrow> paid_retries s' = paid_retries s"
  by (simp add: paid_retries_def)

lemma silent_bind [silent_intros]:
  "silent m \<Longrightarrow> (\<And>a. silent (f a)) \<Longrightarrow> silent (act_bind m f)"
  unfolding silent_def act_bind_def by (auto split: prod.splits sum.splits) (metis snd_conv)+

lemma silent_return [silent_intros]: "silent (act_return a)"
  and silent_fail [silent_intros]: "silent (act_fail e)"
  by (simp_all add: silent_def act_return_def act_fail_def)

lemma store_step_sent [simp]: "ns_sent (snd (store_step A f s)) = ns_sent s"
  by (simp add: store_step_def split: prod.split)

lemma store_step_sent': "store_step A f s = (r, s') \<Longrightarrow> ns_sent s' = ns_sent s"
  using store_step_sent [of A f s] by simp

lemma silent_store_call [silent_intros]: "silent (store_call A f)"
  unfolding silent_def store_call_def by (auto split: prod.split sum.split dest: store_step_sent')

lemma silent_store_read [silent_intros]: "silent (store_read A f)"
  unfolding store_read_def by (rule silent_store_call)

lemma audit_append_sent [simp]: "ns_sent (audit_append A t a m d s) = ns_sent s"
  by (simp add: audit_append_def)

lemma auditDecision_sent [simp]: "ns_sent (auditDecision A p i s) = ns_sent s"
  by (simp add: auditDecision_def)

lemma silent_ensureReceipt [silent_intros]: "silent (ensureReceipt A i)"
  unfolding ensureReceipt_def
  by (auto split: option.split intro: silent_intros)

lemma silent_with_receipt_result [silent_intros]: "silent (with_receipt_result A i b)"
  unfolding with_receipt_result_def by (intro silent_intros)

lemma silent_resolveExisting [silent_intros]: "silent (resolveExisting A i f)"
  unfolding resolveExisting_def by (auto split: inv_state.split intro: silent_intros)

lemma silent_getGrantBudget [silent_intros]: "silent (getGrantBudget A a b)"
  unfolding getGrantBudget_def by (rule silent_store_read)

lemma silent_release_quietly [silent_intros]: "silent (release_quietly A x r)"
proof -
  have "ns_sent (snd (release_quietly A x r s)) = ns_sent (snd (store_step A (fail x r) s))" for s
    unfolding release_quietly_def
    by (cases "store_step A (fail x r) s"; cases "fst (store_step A (fail x r) s)") (simp_all split: store_error.split)
  then show ?thesis unfolding silent_def by simp
qed

lemma settle_sent: "ns_sent (snd (settle A i p q m sa ex s)) = ns_sent s"
  unfolding settle_def Let_def
  by (auto split: prod.split sum.split dest: store_step_sent')

section \<open>What a run does to the store\<close>

text \<open>The operations of others that arrive at the given ticks.\<close>

definition others_at :: "authority \<Rightarrow> nat list \<Rightarrow> (int \<times> store_op) list" where
  "others_at A ticks = concat (map (aa_others A) ticks)"

lemma arrived_others: "arrived A s = run_ops (others_at A [ns_tick s]) (au_store s)"
  by (simp add: arrived_def others_at_def)

lemma others_at_append: "others_at A (ts @ us) = others_at A ts @ others_at A us"
  by (simp add: others_at_def)

text \<open>A step that only reads: the store afterwards is the one the operations of others made of it.\<close>

lemma store_read_store:
  "store_read A f s = (r, s') \<Longrightarrow> au_store s' = run_ops (others_at A [ns_tick s]) (au_store s)"
  by (auto simp: store_read_def store_call_def store_step_def arrived_others pass_def)

text \<open>A traced action changes the store by operations only.\<close>

definition traced :: "'a action \<Rightarrow> bool" where
  "traced m \<longleftrightarrow> (\<forall>s. \<exists>ps. au_store (snd (m s)) = run_ops ps (au_store s))"

named_theorems traced_intros

lemma tracedD: "traced m \<Longrightarrow> m s = (r, s') \<Longrightarrow> \<exists>ps. au_store s' = run_ops ps (au_store s)"
  unfolding traced_def by (metis snd_conv)

lemma traced_same: "(\<And>s. au_store (snd (m s)) = au_store s) \<Longrightarrow> traced m"
  unfolding traced_def by (intro allI exI [of _ "[]"]) simp

lemma traced_return [traced_intros]: "traced (act_return a)"
  and traced_fail [traced_intros]: "traced (act_fail e)"
  by (simp_all add: traced_same act_return_def act_fail_def)

lemma traced_bind [traced_intros]:
  assumes "traced m" "\<And>a. traced (f a)"
  shows "traced (act_bind m f)"
  unfolding traced_def
proof
  fix s
  obtain r s1 where m: "m s = (r, s1)" by fastforce
  obtain ps where ps: "au_store s1 = run_ops ps (au_store s)" using tracedD [OF assms(1) m] by blast
  show "\<exists>ps. au_store (snd (act_bind m f s)) = run_ops ps (au_store s)"
  proof (cases r)
    case (Inl e)
    with m ps show ?thesis by (auto simp: act_bind_def)
  next
    case (Inr a)
    obtain qs where "au_store (snd (f a s1)) = run_ops qs (au_store s1)"
      using assms(2) [of a] unfolding traced_def by blast
    with m ps Inr show ?thesis
      by (intro exI [of _ "ps @ qs"]) (simp add: act_bind_def run_ops_append)
  qed
qed

lemma store_step_store: "au_store (snd (store_step A f s)) = snd (f (ns_now s) (arrived A s))"
  by (simp add: store_step_def pass_def split: prod.split)

lemma store_step_traced:
  assumes "\<And>t st. snd (f t st) = apply_op (t, p) st" "store_step A f s = (r, s')"
  shows "\<exists>ps. au_store s' = run_ops ps (au_store s)"
proof -
  have "au_store s' = run_ops (aa_others A (ns_tick s) @ [(ns_now s, p)]) (au_store s)"
    using store_step_store [of A f s] assms by (simp add: run_ops_append arrived_def)
  then show ?thesis by blast
qed

lemma traced_store_call:
  assumes "\<And>t st. snd (f t st) = apply_op (t, p) st"
  shows "traced (store_call A f)"
  unfolding traced_def
proof
  fix s
  obtain r s' where "store_step A f s = (r, s')" by fastforce
  with store_step_traced [OF assms this]
  show "\<exists>ps. au_store (snd (store_call A f s)) = run_ops ps (au_store s)"
    by (simp add: store_call_def split: sum.split)
qed

lemma traced_ops [traced_intros]:
  "traced (store_call A (fail x r))" "traced (store_call A (markReconciliationRequired x r))"
  "traced (store_call A (attachReceipt x receipt))"
  using traced_store_call [of "fail x r" "OpFail x r" A]
    traced_store_call [of "markReconciliationRequired x r" "OpMarkReconciliation x r" A]
    traced_store_call [of "attachReceipt x receipt" "OpAttachReceipt x receipt" A]
  by simp_all

lemma traced_with_receipt_result [traced_intros]: "traced (with_receipt_result A i b)"
proof -
  have "traced (ensureReceipt A i)"
    unfolding ensureReceipt_def by (auto split: option.split intro: traced_intros)
  then show ?thesis unfolding with_receipt_result_def by (intro traced_intros)
qed

lemma traced_release_quietly [traced_intros]: "traced (release_quietly A x r)"
  unfolding traced_def
proof
  fix s
  obtain e s' where st: "store_step A (fail x r) s = (e, s')" by fastforce
  then have "snd (release_quietly A x r s) = s'"
    by (cases e) (simp_all add: release_quietly_def split: store_error.split)
  then show "\<exists>ps. au_store (snd (release_quietly A x r s)) = run_ops ps (au_store s)"
    using store_step_traced [of "fail x r" "OpFail x r", OF _ st] by simp
qed

lemma traced_settle: "traced (settle A i p q m sa ex)"
  unfolding traced_def
proof
  fix s
  let ?pay = "\<lparr> cp_transactionId = cs_transactionId (ex_settlement ex), cp_settledAt = cs_confirmedAt (ex_settlement ex),
            cp_settlement = Some (ex_settlement ex),
            cp_result = Some (acceptAcknowledgement A i p sa q m (ex_settlement ex) (ex_result ex)) \<rparr>"
  let ?why = "''payment '' @ cs_transactionId (ex_settlement ex) @ '' not recorded''"
  obtain r s1 where c: "store_step A (confirm (inv_id i) ?pay) s = (r, s1)" by fastforce
  obtain ps where ps: "au_store s1 = run_ops ps (au_store s)"
    using store_step_traced [of "confirm (inv_id i) ?pay" "OpConfirm (inv_id i) ?pay", OF _ c] by auto
  obtain r2 s2 where m: "store_step A (markReconciliationRequired (inv_id i) ?why) s1 = (r2, s2)" by fastforce
  obtain qs where qs: "au_store s2 = run_ops qs (au_store s1)"
    using store_step_traced [of "markReconciliationRequired (inv_id i) ?why" "OpMarkReconciliation (inv_id i) ?why", OF _ m]
    by auto
  have "au_store (snd (settle A i p q m sa ex s)) = au_store s1 \<or> au_store (snd (settle A i p q m sa ex s)) = au_store s2"
    using c m by (cases r) (simp_all add: settle_def Let_def audit_append_def)
  with ps qs show "\<exists>ps. au_store (snd (settle A i p q m sa ex s)) = run_ops ps (au_store s)"
    by (metis run_ops_append)
qed

section \<open>Decisions\<close>

lemma operation_codes_empty:
  "map operation_code_text (dc_reasonCodes (evaluateExactOperation p r)) = [] \<longleftrightarrow> r = p"
  using evaluateExactOperation_allowed [of p r] evaluateExactOperation_empty [of p r] by simp

definition purchase_of :: "request_v2 \<Rightarrow> int \<Rightarrow> string \<times> string \<times> string \<Rightarrow> string \<Rightarrow> purchase_request" where
  "purchase_of request decidedAt values committed =
     (case values of (mint, recipient, amountAtomic) \<Rightarrow>
        \<lparr> pr_service = rq_service request, pr_capability = rq_capability request,
          pr_network = rq_network request, pr_mint = mint, pr_recipient = recipient,
          pr_amountAtomic = amountAtomic, pr_alreadySpentAtomic = committed, pr_now = Some decidedAt \<rparr>)"

lemma policy_codes_empty:
  "policy_codes permit request t v c = [] \<longleftrightarrow>
     rq_operation request = pp_operation permit \<and> within_permit t permit (purchase_of request t v c)"
  using operation_codes_empty [of "pp_operation permit" "rq_operation request"]
    evaluatePurchasePermit_allowed [of t permit "purchase_of request t v c"]
    evaluatePurchasePermit_empty [of t permit "purchase_of request t v c"]
  by (cases v) (simp add: policy_codes_def purchase_of_def)

text \<open>More committed budget never turns a refusal into a permission.\<close>

lemma policy_codes_committed:
  assumes "policy_codes permit request t v c = []"
  shows "policy_codes permit request t v ''0'' = []"
proof -
  have "dec ''0'' = 0" by (simp add: dec_def digit_val_def code_def)
  with assms show ?thesis
    by (cases v) (auto simp: policy_codes_empty within_permit_def purchase_of_def)
qed

lemma evaluate_allowed:
  "evaluate_decision permit request t qt c = BudgetAllowed \<longleftrightarrow>
     policy_codes permit request t (request_values request) c = [] \<and> qt_codes qt = []
     \<and> (\<exists>m. qt_requirement qt = Some m \<and> policy_codes permit request t (requirement_values m) c = [])"
  by (auto simp: evaluate_decision_def Let_def split: option.splits)

text \<open>A reservation was allowed by the evaluator at exactly the amount the grant had committed.\<close>

lemma reserve_reserved:
  assumes "reserve p evaluate now st = (Inr (ReserveReserved i), st')"
  shows "inv_id i = ri_invocationId p \<and> selectInvocation st' (ri_invocationId p) = Some i
    \<and> evaluate (show_nat (committed_for st (input_key p))) = BudgetAllowed"
proof -
  obtain g s1 ex where g: "reserve_grant p now st = Inr (g, s1)"
      and d: "reserve_decide p evaluate ex now g s1 = Inr (ReserveReserved i, st')"
    using assms unfolding reserve_def transaction_def Let_def
    by (auto simp: sbind_Inr_iff split: option.splits if_splits sum.splits)
  have zero: "dec ''0'' = 0" by (simp add: dec_def digit_val_def code_def)
  have com: "dec (gr_reservedAtomic g) + dec (gr_consumedAtomic g) = committed_for st (input_key p)"
  proof (cases "selectGrant st (gt_issuer (ri_grant p)) (gt_grantId (ri_grant p))")
    case None
    with g have "gr_reservedAtomic g = ''0''" "gr_consumedAtomic g = ''0''"
      by (auto simp: reserve_grant_def Let_def sbind_Inr_iff insertGrant_def requireGrant_def
          selectGrant_def find_append split: if_splits option.splits)
    with None show ?thesis by (simp add: committed_for_def input_key_def zero)
  next
    case (Some h)
    with g show ?thesis by (simp add: committed_for_def input_key_def reserve_grant_def)
  qed
  from d have "selectInvocation st' (ri_invocationId p) = Some i"
      and "evaluate (show_nat (committed_for st (input_key p))) = BudgetAllowed"
    unfolding reserve_decide_def Let_def com [symmetric]
    by (auto simp: sbind_Inr_iff requireInvocation_def split: budget_decision.splits if_splits option.splits)
  then show ?thesis using selectInvocation_Some by blast
qed

section \<open>Authentication\<close>

definition authenticated_as :: "authority \<Rightarrow> AuthorizeRequestInput \<Rightarrow> int \<Rightarrow> AuthenticatedRequest \<Rightarrow> bool" where
  "authenticated_as A input now ar \<longleftrightarrow>
     (let px = aa_platform A; permit = sg_body (ar_permit ar); request = ar_request ar in
      verifyPurchasePermitV2 px (in_permit input) = Inr (ar_permit ar)
      \<and> request = in_authorizationRequest input
      \<and> pp_issuer permit = ie_issuer (aa_issuerEntitlement A)
      \<and> pp_network permit \<in> set (ie_settlementProfiles (aa_issuerEntitlement A))
      \<and> verifyAuthorizationRequestSignature px (canonicalizeAuthorizationRequestV2 px request)
          (in_agentSignature input) (pp_authorizedAgent permit)
      \<and> ar_agentSignature ar = jstr (jget (in_agentSignature input) ''signature'')
      \<and> rq_audience request = aa_audience A \<and> rq_grantId request = pp_grantId permit
      \<and> computePermitDigest px (ar_permit ar) = Some (rq_permitDigest request)
      \<and> now - aa_maxRequestAgeMs A \<le> rq_issuedAt request \<and> rq_issuedAt request \<le> now + aa_maxFutureSkewMs A
      \<and> computeOperationDigest px (rq_operation request) = Some (ar_operationDigest ar)
      \<and> computeRequestFingerprint px permit request (ar_operationDigest ar) = Some (ar_fingerprint ar))"

lemma verify_signature_not_nullish:
  "verifyAuthorizationRequestSignature px b v k \<Longrightarrow> \<not> nullish v"
  by (auto simp: verifyAuthorizationRequestSignature_def nullish_def)

lemma authenticate_iff: "authenticate A input now = Inr ar \<longleftrightarrow> authenticated_as A input now ar"
proof
  assume ok: "authenticate A input now = Inr ar"
  then obtain signd where v: "verifyPurchasePermitV2 (aa_platform A) (in_permit input) = Inr signd"
    unfolding authenticate_def Let_def by (auto split: if_splits sum.splits)
  from ok v obtain d od f where
    "computePermitDigest (aa_platform A) signd = Some d"
    "computeOperationDigest (aa_platform A) (rq_operation (in_authorizationRequest input)) = Some od"
    "computeRequestFingerprint (aa_platform A) (sg_body signd) (in_authorizationRequest input) od = Some f"
    unfolding authenticate_def Let_def by (auto split: if_splits option.splits)
  with ok v show "authenticated_as A input now ar"
    unfolding authenticate_def authenticated_as_def Let_def by (auto split: if_splits)
next
  assume "authenticated_as A input now ar"
  then show "authenticate A input now = Inr ar"
    using verify_signature_not_nullish
    unfolding authenticate_def authenticated_as_def Let_def by (cases ar) (auto simp: not_less)
qed

section \<open>Paying\<close>

lemma execute_input_quiet:
  "ei_beforeSubmit (execute_input A x q ch m sa h) a s = (ok, s') \<Longrightarrow> paid_retries s' = paid_retries s"
  by (auto simp: execute_input_def split: prod.splits intro!: paid_of_sent dest: store_step_sent')

text \<open>The kind of outcome a call may have once a payment has left.\<close>

fun outcome_after_payment :: "authority_error + 'a \<Rightarrow> bool" where
  "outcome_after_payment (Inr _) = True"
| "outcome_after_payment (Inl ReconciliationRequiredError) = True"
| "outcome_after_payment (Inl (StoreFailure _)) = True"
| "outcome_after_payment (Inl InternalError) = True"
| "outcome_after_payment (Inl _) = False"

text \<open>A payment left: exactly one paid retry, of the outbound request \<open>q\<close> for the requirement \<open>m\<close>.
  Its attempt was recorded, with the service authorization the header carries, by a successful
  recordPaymentAttempt on the store as others had left it, and the store at the end has come from
  there by operations.\<close>

definition paid_for ::
  "authority \<Rightarrow> string \<Rightarrow> PaidRequest \<Rightarrow> PaymentRequirement \<Rightarrow> authority_state \<Rightarrow> authority_state \<Rightarrow> bool" where
  "paid_for A x q m s s' \<longleftrightarrow>
     (\<exists>header credential a sa ticks t st ps. paid_retries s' = paid_retries s @ [PaidRetry q x (Some header) credential]
        \<and> encodeServiceHeader (aa_platform A) (signed_json service_authorization_fields sa) = Some header
        \<and> recordPaymentAttempt x a (Some sa) t (run_ops (others_at A ticks) (au_store s)) = (Inr (), st)
        \<and> au_store s' = run_ops ps st
        \<and> at_payTo a = pm_payTo m \<and> at_amountAtomic a = pm_amountAtomic m \<and> at_asset a = pm_asset m
        \<and> at_requestSha256 a = pq_sha256 q)"

lemma record_by_callback:
  assumes "ei_beforeSubmit (execute_input A x q ch m sa h) a s = (True, s')"
  shows "recordPaymentAttempt x a (Some sa) (ns_now s) (run_ops (others_at A [ns_tick s]) (au_store s))
    = (Inr (), au_store s')"
  using assms by (cases "recordPaymentAttempt x a (Some sa) (ns_now s) (arrived A s)")
    (auto simp: execute_input_def store_step_def arrived_others pass_def isOk_iff)

lemma execute_pays:
  assumes pp: "payment_provider paid_retries net_state.more (aa_provider A)"
    and run: "pp_execute (aa_provider A) (execute_input A x q ch m sa h) s = (r, s')"
    and h: "encodeServiceHeader (aa_platform A) (signed_json service_authorization_fields sa) = Some h"
  shows "paid_retries s' = paid_retries s \<or> paid_for A x q m s s'"
proof -
  let ?ei = "execute_input A x q ch m sa h"
  have "paid_retries s' = paid_retries s
    \<or> (\<exists>credential a s1 s2. attempt_for ?ei a \<and> net_state.more s1 = net_state.more s \<and> ei_beforeSubmit ?ei a s1 = (True, s2)
         \<and> net_state.more s' = net_state.more s2 \<and> paid_retries s' = paid_retries s
             @ [PaidRetry (ei_request ?ei) (ei_reference ?ei) (ei_serviceAuthorizationHeader ?ei) credential])"
    by (rule payment_provider.execute_pays_at_most_once [OF pp _ run]) (rule execute_input_quiet)
  then consider "paid_retries s' = paid_retries s"
    | credential a s1 s2 where "attempt_for ?ei a" "ei_beforeSubmit ?ei a s1 = (True, s2)"
        "net_state.more s1 = net_state.more s" "net_state.more s' = net_state.more s2"
        "paid_retries s' = paid_retries s @ [PaidRetry (ei_request ?ei) (ei_reference ?ei) (ei_serviceAuthorizationHeader ?ei) credential]"
    by blast
  then show ?thesis
  proof cases
    case 2
    have ei: "ei_request ?ei = q" "ei_reference ?ei = x" "ei_serviceAuthorizationHeader ?ei = Some h"
      "ei_requirement ?ei = m" by (simp_all add: execute_input_def)
    have st: "au_store s1 = au_store s" "au_store s' = run_ops [] (au_store s2)"
      using more_store [OF 2(3)] more_store [OF 2(4)] by simp_all
    have rec: "recordPaymentAttempt x a (Some sa) (ns_now s1) (run_ops (others_at A [ns_tick s1]) (au_store s))
        = (Inr (), au_store s2)"
      using record_by_callback [OF 2(2)] st(1) by simp
    have "at_payTo a = pm_payTo m" "at_amountAtomic a = pm_amountAtomic m" "at_asset a = pm_asset m"
      "at_requestSha256 a = pq_sha256 q"
      using 2(1) unfolding attempt_for_def ei by blast+
    with 2(5) h st(2) rec show ?thesis unfolding paid_for_def ei by blast
  qed simp
qed

text \<open>The frame around a payment: before it the store changed by others only, after it by operations.\<close>

lemma paid_for_cong:
  assumes paid: "paid_for A x q m s s'" and "paid_retries t = paid_retries s" "paid_retries t' = paid_retries s'"
    and st: "au_store s = run_ops (others_at A us) (au_store t)" "\<exists>ps. au_store t' = run_ops ps (au_store s')"
  shows "paid_for A x q m t t'"
proof -
  have st': "run_ops (others_at A ts) (au_store s) = run_ops (others_at A (us @ ts)) (au_store t)" for ts
    unfolding st(1) others_at_append run_ops_append ..
  from paid obtain header credential a sa ticks t1 st1 ps where
    p: "paid_retries s' = paid_retries s @ [PaidRetry q x (Some header) credential]"
      "encodeServiceHeader (aa_platform A) (signed_json service_authorization_fields sa) = Some header"
      "recordPaymentAttempt x a (Some sa) t1 (run_ops (others_at A (us @ ticks)) (au_store t)) = (Inr (), st1)"
      "au_store s' = run_ops ps st1"
      "at_payTo a = pm_payTo m" "at_amountAtomic a = pm_amountAtomic m" "at_asset a = pm_asset m"
      "at_requestSha256 a = pq_sha256 q"
    unfolding paid_for_def st' by blast
  obtain qs where "au_store t' = run_ops (ps @ qs) st1" using st(2) p(4) by (auto simp: run_ops_append)
  with p assms(2,3) show ?thesis unfolding paid_for_def by (metis (no_types, lifting))
qed

lemma silent_paid: "silent m \<Longrightarrow> m s = (r, s') \<Longrightarrow> paid_retries s' = paid_retries s"
  by (rule paid_of_sent, rule silentD)

lemma settle_outcome: "outcome_after_payment (fst (settle A i p q m sa ex s))"
  unfolding settle_def Let_def by (simp split: prod.split sum.split)

lemma mark_outcome: "outcome_after_payment (fst (act_bind (store_call A f) (\<lambda>_. act_fail ReconciliationRequiredError) s))"
  unfolding act_bind_def store_call_def act_fail_def by (simp split: prod.split sum.split)

text \<open>What follows the execution sends nothing, and a payment in it excludes the retryable outcomes.\<close>

definition after_execution ::
  "authority \<Rightarrow> permit_v2 \<Rightarrow> invocation \<Rightarrow> PaidRequest \<Rightarrow> PaymentRequirement \<Rightarrow> service_authorization signed
     \<Rightarrow> (payment_error + PaymentExecution) \<times> authority_state \<Rightarrow> (authority_error + invocation) \<times> authority_state" where
  "after_execution A permit i q m sa x =
     (case x of
        (Inr execution, s') \<Rightarrow> settle A i permit q m sa execution s'
      | (Inl PaymentNotSubmittedError, s') \<Rightarrow>
          act_bind (release_quietly A (inv_id i) ''payment not submitted'') (\<lambda>_. act_fail PaymentNotSubmittedFailure) s'
      | (Inl _, s') \<Rightarrow>
          act_bind (store_call A (markReconciliationRequired (inv_id i) ''payment outcome unknown''))
            (\<lambda>_. act_fail ReconciliationRequiredError) s')"

lemma after_execution_sent: "ns_sent (snd (after_execution A permit i q m sa (x, s))) = ns_sent s"
proof (cases x)
  case (Inr ex)
  then show ?thesis by (simp add: after_execution_def settle_sent)
next
  case (Inl e)
  have "silent (act_bind (release_quietly A (inv_id i) ''payment not submitted'') (\<lambda>_. act_fail PaymentNotSubmittedFailure :: invocation action))"
    "silent (act_bind (store_call A (markReconciliationRequired (inv_id i) ''payment outcome unknown''))
            (\<lambda>_. act_fail ReconciliationRequiredError :: invocation action))"
    by (intro silent_intros)+
  with Inl show ?thesis by (cases e) (simp_all add: after_execution_def silent_def)
qed

lemma after_execution_store: "\<exists>ps. au_store (snd (after_execution A permit i q m sa (x, s))) = run_ops ps (au_store s)"
proof (cases x)
  case (Inr ex)
  then show ?thesis using traced_settle [of A i permit q m sa ex] by (simp add: after_execution_def traced_def)
next
  case (Inl e)
  have "traced (act_bind (release_quietly A (inv_id i) ''payment not submitted'') (\<lambda>_. act_fail PaymentNotSubmittedFailure :: invocation action))"
    "traced (act_bind (store_call A (markReconciliationRequired (inv_id i) ''payment outcome unknown''))
            (\<lambda>_. act_fail ReconciliationRequiredError :: invocation action))"
    by (intro traced_intros)+
  with Inl show ?thesis by (cases e) (simp_all add: after_execution_def traced_def)
qed

lemma after_execution_outcome:
  "x \<noteq> Inl PaymentNotSubmittedError \<Longrightarrow> outcome_after_payment (fst (after_execution A permit i q m sa (x, s)))"
  unfolding after_execution_def
  by (auto simp: settle_outcome mark_outcome split: sum.split payment_error.split)

lemma pay_pays:
  assumes pp: "payment_provider paid_retries net_state.more (aa_provider A)"
    and run: "pay A permit i q ch m s = (r, s')"
  shows "paid_retries s' = paid_retries s
    \<or> paid_for A (inv_id i) q m s s' \<and> outboundMatchesAuthorization A i q = Inr True \<and> outcome_after_payment r"
proof (cases "outboundMatchesAuthorization A i q")
  case (Inl e)
  then have "silent (pay A permit i q ch m)" unfolding pay_def Let_def by (simp add: silent_intros)
  with run silent_paid show ?thesis by blast
next
  case (Inr b)
  show ?thesis
  proof (cases b)
    case False
    with Inr have "silent (pay A permit i q ch m)" unfolding pay_def Let_def by (simp add: silent_intros)
    with run silent_paid show ?thesis by blast
  next
    case True
    obtain b s1 where b: "getGrantBudget A (pp_issuer permit) (pp_grantId permit) s = (b, s1)" by fastforce
    then have p1: "paid_retries s1 = paid_retries s" by (rule silent_paid [OF silent_getGrantBudget])
    have st1: "au_store s1 = run_ops (others_at A [ns_tick s]) (au_store s)"
      using b unfolding getGrantBudget_def by (rule store_read_store)
    show ?thesis
    proof (cases b)
      case (Inl e)
      with run b Inr True p1 show ?thesis by (simp add: pay_def Let_def act_bind_def)
    next
      case budget: (Inr g)
      show ?thesis
      proof (cases "signServiceAuthorization_for A i permit q m (ns_now s1)")
        case None
        with run b budget Inr True
        have "act_bind (store_call A (fail (inv_id i) ''service authorization not built''))
                (\<lambda>_. act_fail PaymentNotSubmittedFailure) s1 = (r, s')"
          by (simp add: pay_def Let_def act_bind_def [of "getGrantBudget A _ _"])
        then have "paid_retries s' = paid_retries s1" by (rule silent_paid [rotated]) (intro silent_intros)
        with p1 show ?thesis by simp
      next
        case (Some sa)
        show ?thesis
        proof (cases "encodeServiceHeader (aa_platform A) (signed_json service_authorization_fields sa)")
          case None
          with run b budget Inr True Some
          have "act_bind (store_call A (markReconciliationRequired (inv_id i) ''unknown''))
                   (\<lambda>_. act_fail ReconciliationRequiredError) s1 = (r, s')"
            by (simp add: pay_def Let_def act_bind_def [of "getGrantBudget A _ _"])
          then have "paid_retries s' = paid_retries s1" by (rule silent_paid [rotated]) (intro silent_intros)
          with p1 show ?thesis by simp
        next
          case h: (Some h)
          obtain x s2 where x: "pp_execute (aa_provider A) (execute_input A (inv_id i) q ch m sa h) s1 = (x, s2)"
            by fastforce
          have after: "after_execution A permit i q m sa (x, s2) = (r, s')"
            using run b budget Inr True Some h x
            by (simp add: pay_def Let_def act_bind_def [of "getGrantBudget A _ _"] after_execution_def
                cong: payment_error.case_cong)
          then have p2: "paid_retries s' = paid_retries s2"
            using after_execution_sent [of A permit i q m sa x s2] by (intro paid_of_sent) simp
          show ?thesis
          proof (cases "x = Inl PaymentNotSubmittedError")
            case True
            with x have "paid_retries s2 = paid_retries s1"
              by (intro payment_provider.not_submitted_pays_nothing [OF pp execute_input_quiet]) auto
            with p1 p2 show ?thesis by simp
          next
            case False
            have "outcome_after_payment r"
              using after_execution_outcome [OF False, of A permit i q m sa s2] after by simp
            moreover have "\<exists>ps. au_store s' = run_ops ps (au_store s2)"
              using after_execution_store [of A permit i q m sa x s2] after by simp
            then have "paid_for A (inv_id i) q m s s'" if "paid_for A (inv_id i) q m s1 s2"
              using paid_for_cong [OF that p1 [symmetric] p2 st1] by blast
            ultimately show ?thesis using execute_pays [OF pp x h] p1 p2 Inr True \<open>b = Inr g\<close> by auto
          qed
        qed
      qed
    qed
  qed
qed

section \<open>A run of authorize\<close>

lemma probe_service_unpaid:
  assumes pp: "payment_provider paid_retries net_state.more (aa_provider A)"
    and run: "probe_service A permit request s = (r, s')"
  shows "paid_retries s' = paid_retries s"
proof -
  have "paid_retries t' = paid_retries t"
    if "pp_fetchChallenge (aa_provider A) q ref t = (x, t')" for q ref t x t'
    using payment_provider.probe_pays_nothing [OF pp that] by blast
  with run show ?thesis
    unfolding probe_service_def Let_def
    by (auto split: sum.splits option.splits if_splits prod.splits payment_error.splits)
qed

lemma probe_service_store:
  assumes pp: "payment_provider paid_retries net_state.more (aa_provider A)"
    and run: "probe_service A permit request s = (r, s')"
  shows "au_store s' = au_store s"
proof -
  have "au_store t' = au_store t"
    if "pp_fetchChallenge (aa_provider A) q ref t = (x, t')" for q ref t x t'
    using payment_provider.probe_pays_nothing [OF pp that] more_store by blast
  with run show ?thesis
    unfolding probe_service_def Let_def
    by (auto split: sum.splits option.splits if_splits prod.splits payment_error.splits)
qed

text \<open>What an allowed quote is: the challenge for the outbound request of the authorized operation, and a
  requirement whose values are the request's own.\<close>

lemma probe_service_allowed:
  assumes "probe_service A permit request s = (Inr qt, s')" "qt_codes qt = []" "qt_requirement qt = Some m"
    "qt_paidRequest qt = Some q"
  shows "\<exists>resource profile. aa_paidServices A (paidServiceKey (rq_service request) (rq_capability request)) = Some resource
    \<and> buildPaidRequest (aa_platform A) resource (rq_operation request) = Inr (Some q)
    \<and> aa_settlementProfiles A (pp_network permit) = Some profile
    \<and> acceptable_requirement profile q request (pp_payerAddress (aa_provider A)) m"
proof -
  obtain resource where r: "aa_paidServices A (paidServiceKey (rq_service request) (rq_capability request)) = Some resource"
      "buildPaidRequest (aa_platform A) resource (rq_operation request) = Inr (Some q)"
    using assms unfolding probe_service_def
    by (auto simp: no_quote_def Let_def split: sum.splits option.splits if_splits prod.splits payment_error.splits)
  with assms obtain profile result where p: "aa_settlementProfiles A (pp_network permit) = Some profile"
      "sel_reasonCodes (selectAndValidateChallenge result profile q request (pp_payerAddress (aa_provider A))) = []"
      "sel_requirement (selectAndValidateChallenge result profile q request (pp_payerAddress (aa_provider A))) = Some m"
    unfolding probe_service_def
    by (auto simp: no_quote_def Let_def split: sum.splits option.splits if_splits prod.splits payment_error.splits)
  from select_no_codes [OF p(2)] p(3) have "acceptable_requirement profile q request (pp_payerAddress (aa_provider A)) m"
    by auto
  with r p(1) show ?thesis by blast
qed

text \<open>Everything that holds when a run of \<open>process\<close> has paid.  The decision was made at the clock time
  \<open>t\<close> of the run, against what the grant had committed in the store that this run's own reserve found;
  the attempt is recorded on the row that reserve wrote.\<close>

definition justified_payment ::
  "authority \<Rightarrow> AuthenticatedRequest \<Rightarrow> authority_state \<Rightarrow> authority_state \<Rightarrow> bool" where
  "justified_payment A ar s s' \<longleftrightarrow>
     (let permit = sg_body (ar_permit ar); request = ar_request ar; t = ns_now (pass (aa_world A) s) in
      rq_operation request = pp_operation permit
      \<and> (\<exists>resource profile q m qt before1 before2 t1 t2 st1 st2 i c header credential a sa ps.
           aa_paidServices A (paidServiceKey (rq_service request) (rq_capability request)) = Some resource
           \<and> buildPaidRequest (aa_platform A) resource (pp_operation permit) = Inr (Some q)
           \<and> aa_settlementProfiles A (pp_network permit) = Some profile
           \<and> acceptable_requirement profile q request (pp_payerAddress (aa_provider A)) m
           \<and> qt_requirement qt = Some m
           \<and> c = show_nat (committed_for (run_ops (others_at A before1) (au_store s)) (pp_issuer permit, pp_grantId permit))
           \<and> within_permit t permit (purchase_of request t (request_values request) c)
           \<and> within_permit t permit (purchase_of request t (requirement_values m) c)
           \<and> reserve (reserve_input_for ar t qt) (evaluate_decision permit request t qt) t1
               (run_ops (others_at A before1) (au_store s)) = (Inr (ReserveReserved i), st1)
           \<and> recordPaymentAttempt (rq_invocationId request) a (Some sa) t2
               (run_ops (others_at A before2) st1) = (Inr (), st2)
           \<and> au_store s' = run_ops ps st2
           \<and> paid_retries s' = paid_retries s @ [PaidRetry q (rq_invocationId request) (Some header) credential]
           \<and> encodeServiceHeader (aa_platform A) (signed_json service_authorization_fields sa) = Some header
           \<and> at_payTo a = pm_payTo m \<and> at_amountAtomic a = pm_amountAtomic m \<and> at_asset a = pm_asset m
           \<and> at_requestSha256 a = pq_sha256 q))"

lemma outcome_of_error: "outcome_after_payment (Inl e :: authority_error + 'a) \<Longrightarrow> outcome_after_payment (Inl e :: authority_error + 'b)"
  by (cases e) simp_all

lemma receipt_outcome: "outcome_after_payment (fst (with_receipt_result A i b s))"
  unfolding with_receipt_result_def ensureReceipt_def
  by (auto simp: act_bind_def act_return_def act_fail_def store_call_def split: option.split prod.split sum.split)

lemma process_pays:
  assumes pp: "payment_provider paid_retries net_state.more (aa_provider A)"
    and run: "process A ar s = (r, s')"
  shows "paid_retries s' = paid_retries s \<or> justified_payment A ar s s' \<and> outcome_after_payment r"
proof -
  let ?permit = "sg_body (ar_permit ar)" and ?request = "ar_request ar"
  let ?x = "rq_invocationId ?request"
  obtain known s1 where k: "store_read A (\<lambda>st. selectInvocation st ?x) s = (known, s1)" by fastforce
  then have p1: "paid_retries s1 = paid_retries s" by (rule silent_paid [OF silent_store_read])
  have st1: "au_store s1 = run_ops (others_at A [ns_tick s]) (au_store s)" using k by (rule store_read_store)
  have now: "ns_now s1 = ns_now (pass (aa_world A) s)"
    using k by (auto simp: store_read_def store_call_def store_step_def pass_def)
  show ?thesis
  proof (cases "\<exists>e. known = Inl e
      \<or> (\<exists>i. known = Inr (Some i) \<and> \<not> (inv_state i = FAILED \<and> inv_fingerprint i = ar_fingerprint ar))")
    case True
    then have "paid_retries s' = paid_retries s1"
      using run k silent_paid [OF silent_resolveExisting]
      unfolding process_def act_bind_def Let_def by auto
    with p1 show ?thesis by simp
  next
    case False
    let ?t = "ns_now s1"
    let ?probe = "if policy_codes ?permit ?request ?t (request_values ?request) ''0'' = []
                    then probe_service A ?permit ?request else act_return (no_quote [] None)"
    obtain qt s2 where q: "?probe s1 = (qt, s2)" by fastforce
    then have p2: "paid_retries s2 = paid_retries s1"
      using probe_service_unpaid [OF pp] by (auto simp: act_return_def split: if_splits)
    have st2: "au_store s2 = au_store s1"
      using q probe_service_store [OF pp] by (auto simp: act_return_def split: if_splits)
    have rest: "act_bind ?probe (\<lambda>quote.
          act_bind (store_call A (reserve (reserve_input_for ar ?t quote)
                      (evaluate_decision ?permit ?request ?t quote))) (\<lambda>result. carry_out A ar quote result)) s1 = (r, s')"
      using run k False unfolding process_def act_bind_def [of "store_read A _"] Let_def
      by (cases known; cases "projr known") (auto split: if_splits)
    show ?thesis
    proof (cases qt)
      case (Inl e)
      with rest q p1 p2 show ?thesis by (simp add: act_bind_def)
    next
      case (Inr qt')
      let ?eval = "evaluate_decision ?permit ?request ?t qt'"
      obtain res s3 where res: "store_call A (reserve (reserve_input_for ar ?t qt') ?eval) s2 = (res, s3)" by fastforce
      then have p3: "paid_retries s3 = paid_retries s2" by (rule silent_paid [OF silent_store_call])
      have rest2: "case res of Inl e \<Rightarrow> (Inl e, s3) = (r, s') | Inr result \<Rightarrow> carry_out A ar qt' result s3 = (r, s')"
        using rest q Inr res by (simp add: act_bind_def split: sum.splits)
      show ?thesis
      proof (cases "\<exists>i. res = Inr (ReserveReserved i)")
        case False
        then have "paid_retries s' = paid_retries s3"
          using rest2 silent_paid [OF silent_resolveExisting] silentD [OF silent_with_receipt_result]
          by (cases res; cases "projr res") (auto simp: carry_out_def Let_def intro!: paid_of_sent)
        with p1 p2 p3 show ?thesis by simp
      next
        case True
        then obtain i where i: "res = Inr (ReserveReserved i)" by blast
        have "arrived A s2 = run_ops (others_at A ([ns_tick s] @ [ns_tick s2])) (au_store s)"
          unfolding arrived_others others_at_append run_ops_append st2 st1 ..
        then have reserved: "reserve (reserve_input_for ar ?t qt') ?eval (ns_now s2)
            (run_ops (others_at A ([ns_tick s] @ [ns_tick s2])) (au_store s)) = (Inr (ReserveReserved i), au_store s3)"
          using res i by (auto simp: store_call_def store_step_def pass_def split: prod.splits sum.splits)
        define c where "c = show_nat (committed_for
            (run_ops (others_at A ([ns_tick s] @ [ns_tick s2])) (au_store s)) (pp_issuer ?permit, pp_grantId ?permit))"
        have ev: "?eval c = BudgetAllowed" and id: "inv_id i = ?x"
          using reserve_reserved [OF reserved] unfolding c_def
          by (simp_all add: reserve_input_for_def Let_def input_key_def)
        from ev obtain m where m: "policy_codes ?permit ?request ?t (request_values ?request) c = []"
            "qt_codes qt' = []" "qt_requirement qt' = Some m"
            "policy_codes ?permit ?request ?t (requirement_values m) c = []"
          unfolding evaluate_allowed by blast
        then have probed: "probe_service A ?permit ?request s1 = (Inr qt', s2)"
          using q Inr policy_codes_committed [OF m(1)] by simp
        let ?s3 = "auditDecision A ?permit i s3"
        have p4: "paid_retries ?s3 = paid_retries s3" by (rule paid_of_sent) simp
        show ?thesis
        proof (cases "\<exists>ch q. qt_challenge qt' = Some ch \<and> qt_paidRequest qt' = Some q")
          case False
          have "act_bind (store_call A (fail ?x ''internal: reserved without a payment requirement''))
               (\<lambda>_. act_fail InternalError) ?s3 = (r, s')"
            using rest2 i False m(3) by (auto simp: carry_out_def Let_def split: option.splits)
          then have "paid_retries s' = paid_retries ?s3" by (rule silent_paid [rotated]) (intro silent_intros)
          with p1 p2 p3 p4 show ?thesis by simp
        next
          case True
          then obtain ch q where cq: "qt_challenge qt' = Some ch" "qt_paidRequest qt' = Some q" by blast
          obtain paid s4 where pay: "pay A ?permit i q ch m ?s3 = (paid, s4)" by fastforce
          have fin: "act_bind (\<lambda>_. (paid, s4)) (\<lambda>confirmed. with_receipt_result A confirmed False) ?s3 = (r, s')"
            using rest2 i cq m(3) pay by (simp add: carry_out_def Let_def act_bind_def)
          then have p5: "paid_retries s' = paid_retries s4"
            using silent_paid [OF silent_with_receipt_result] by (auto simp: act_bind_def split: sum.splits)
          have after: "\<exists>qs. au_store s' = run_ops qs (au_store s4)"
            using fin tracedD [OF traced_with_receipt_result] run_ops.simps(1)
            by (auto simp: act_bind_def split: sum.splits) (metis run_ops.simps(1))
          have out: "outcome_after_payment r" if "outcome_after_payment paid"
          proof (cases paid)
            case (Inl e)
            with fin have "r = Inl e" by (simp add: act_bind_def)
            with that Inl show ?thesis by (auto intro: outcome_of_error)
          next
            case (Inr conf)
            with fin receipt_outcome [of A conf False s4] show ?thesis by (simp add: act_bind_def)
          qed
          from pay_pays [OF pp pay] show ?thesis
          proof
            assume "paid_retries s4 = paid_retries ?s3"
            with p1 p2 p3 p4 p5 show ?thesis by simp
          next
            assume sent: "paid_for A (inv_id i) q m ?s3 s4 \<and> outboundMatchesAuthorization A i q = Inr True
                \<and> outcome_after_payment paid"
            then have "paid_for A ?x q m ?s3 s4" using id by simp
            then obtain header credential a sa ticks t2 st2 ps where paid:
              "paid_retries s4 = paid_retries ?s3 @ [PaidRetry q ?x (Some header) credential]"
              "encodeServiceHeader (aa_platform A) (signed_json service_authorization_fields sa) = Some header"
              "recordPaymentAttempt ?x a (Some sa) t2 (run_ops (others_at A ticks) (au_store s3)) = (Inr (), st2)"
              "au_store s4 = run_ops ps st2"
              "at_payTo a = pm_payTo m" "at_amountAtomic a = pm_amountAtomic m" "at_asset a = pm_asset m"
              "at_requestSha256 a = pq_sha256 q"
              unfolding paid_for_def by (auto simp: auditDecision_def audit_append_def)
            obtain ps' where end_store: "au_store s' = run_ops ps' st2"
              using after paid(4) by (metis run_ops_append)
            have retries: "paid_retries s' = paid_retries s @ [PaidRetry q ?x (Some header) credential]"
              using paid(1) p1 p2 p3 p4 p5 by simp
            obtain resource profile where reg: "aa_paidServices A (paidServiceKey (rq_service ?request) (rq_capability ?request)) = Some resource"
                "buildPaidRequest (aa_platform A) resource (rq_operation ?request) = Inr (Some q)"
                "aa_settlementProfiles A (pp_network ?permit) = Some profile"
                "acceptable_requirement profile q ?request (pp_payerAddress (aa_provider A)) m"
              using probe_service_allowed [OF probed m(2,3) cq(2)] by blast
            have within: "rq_operation ?request = pp_operation ?permit"
                "within_permit ?t ?permit (purchase_of ?request ?t (request_values ?request) c)"
                "within_permit ?t ?permit (purchase_of ?request ?t (requirement_values m) c)"
              using m(1,4) by (simp_all add: policy_codes_empty)
            have "justified_payment A ar s s'"
              unfolding justified_payment_def Let_def
              using reg within m(3) c_def reserved paid(2,3,5-8) end_store retries now by metis
            with out sent show ?thesis by blast
          qed
        qed
      qed
    qed
  qed
qed

lemma authorize_pays:
  assumes pp: "payment_provider paid_retries net_state.more (aa_provider A)"
    and run: "authorize A input s = (r, s')"
  shows "paid_retries s' = paid_retries s
    \<or> (\<exists>ar. authenticated_as A input (ns_now s) ar \<and> au_pending s (rq_invocationId (ar_request ar)) = None
         \<and> justified_payment A ar s s' \<and> outcome_after_payment r)"
proof (cases "authenticate A input (ns_now s)")
  case (Inl e)
  with run show ?thesis by (simp add: authorize_def)
next
  case (Inr ar)
  show ?thesis
  proof (cases "au_pending s (rq_invocationId (ar_request ar))")
    case None
    with run Inr have "process A ar s = (r, s')" by (simp add: authorize_def)
    from process_pays [OF pp this] Inr None show ?thesis unfolding authenticate_iff by blast
  next
    case (Some fo)
    with run Inr show ?thesis by (cases fo) (auto simp: authorize_def split: if_splits sum.splits)
  qed
qed

text \<open>A request the permit does not allow by itself is decided without contacting anyone.\<close>

lemma process_denied_silent:
  assumes "\<And>t. policy_codes (sg_body (ar_permit ar)) (ar_request ar) t (request_values (ar_request ar)) ''0'' \<noteq> []"
    and run: "process A ar s = (r, s')"
  shows "ns_sent s' = ns_sent s"
proof -
  let ?permit = "sg_body (ar_permit ar)" and ?request = "ar_request ar"
  have never: "evaluate_decision ?permit ?request t qt c \<noteq> BudgetAllowed" for t qt c
    using assms(1) policy_codes_committed unfolding evaluate_allowed by blast
  have step: "silent (\<lambda>s. act_bind (store_call A (reserve (reserve_input_for ar t qt) (evaluate_decision ?permit ?request t qt)))
      (\<lambda>result. carry_out A ar qt result) s)" for t qt
  proof -
    have "ns_sent (snd (carry_out A ar qt res s1)) = ns_sent s0"
      if st: "store_call A (reserve (reserve_input_for ar t qt) (evaluate_decision ?permit ?request t qt)) s0 = (Inr res, s1)"
      for res s0 s1
    proof -
      have s1: "ns_sent s1 = ns_sent s0" by (rule silentD [OF silent_store_call st])
      obtain st' where "reserve (reserve_input_for ar t qt) (evaluate_decision ?permit ?request t qt)
          (ns_now s0) (arrived A s0) = (Inr res, st')"
        using st by (auto simp: store_call_def store_step_def split: prod.splits sum.splits)
      with never reserve_reserved have nr: "res = ReserveReserved i \<Longrightarrow> False" for i by blast
      show ?thesis
      proof (cases res)
        case (ReserveReserved i)
        with nr show ?thesis by blast
      qed (use s1 silent_resolveExisting silent_with_receipt_result in \<open>simp_all add: carry_out_def Let_def silent_def\<close>)
    qed
    moreover have "ns_sent s1 = ns_sent s0"
      if "store_call A (reserve (reserve_input_for ar t qt) (evaluate_decision ?permit ?request t qt)) s0 = (x, s1)" for x s0 s1
      by (rule silentD [OF silent_store_call that])
    ultimately show ?thesis unfolding silent_def act_bind_def by (simp split: prod.split sum.split)
  qed
  have "silent (process A ar)"
    unfolding process_def Let_def using assms(1)
    by (intro silent_bind silent_store_read)
      (use step in \<open>auto simp: silent_def act_bind_def [of "act_return _"] act_return_def silent_resolveExisting [unfolded silent_def] split: option.split\<close>)
  with run show ?thesis by (rule silentD [rotated])
qed

text \<open>A known invocation that is not to be retried is answered from the store.\<close>

lemma process_known_silent:
  assumes "selectInvocation (arrived A s) (rq_invocationId (ar_request ar)) = Some i"
    and "\<not> (inv_state i = FAILED \<and> inv_fingerprint i = ar_fingerprint ar)"
  shows "ns_sent (snd (process A ar s)) = ns_sent s"
    and "fst (process A ar s) = fst (resolveExisting A i (ar_fingerprint ar)
           (pass (aa_world A) (s \<lparr> au_store := arrived A s \<rparr>)))"
proof -
  let ?s = "pass (aa_world A) (s \<lparr> au_store := arrived A s \<rparr>)"
  have k: "store_read A (\<lambda>st. selectInvocation st (rq_invocationId (ar_request ar))) s = (Inr (Some i), ?s)"
    using assms(1) by (simp add: store_read_def store_call_def store_step_def)
  have "process A ar s = resolveExisting A i (ar_fingerprint ar) ?s"
    unfolding process_def Let_def act_bind_def [of "store_read A _"] k prod.case sum.case option.case
      if_not_P [OF assms(2)] ..
  moreover have "ns_sent ?s = ns_sent s" by simp
  ultimately show "ns_sent (snd (process A ar s)) = ns_sent s"
    "fst (process A ar s) = fst (resolveExisting A i (ar_fingerprint ar) ?s)"
    using silent_resolveExisting [unfolded silent_def] by metis+
qed

section \<open>Reconciliation sends no payment\<close>

lemma silent_resolve_and:
  assumes "\<And>i. silent (after i)"
  shows "silent (resolve_and A x out after k)"
proof -
  have "ns_sent (snd (resolve_and A x out after k s)) = ns_sent s" for s
  proof -
    obtain r s1 where r: "store_step A (resolveReconciliation x out) s = (r, s1)" by fastforce
    then have s1: "ns_sent s1 = ns_sent s" by (rule store_step_sent')
    show ?thesis
    proof (cases r)
      case (Inl e)
      with r s1 show ?thesis by (cases e) (simp_all add: resolve_and_def)
    next
      case (Inr i)
      obtain a s2 where a: "after i s1 = (a, s2)" by fastforce
      with assms have "ns_sent s2 = ns_sent s1" by (rule silentD)
      with r s1 Inr a show ?thesis
        by (simp add: resolve_and_def split: sum.split authority_error.split store_error.split)
    qed
  qed
  then show ?thesis by (simp add: silent_def)
qed

lemma reconcile_one_unpaid:
  assumes pp: "payment_provider paid_retries net_state.more (aa_provider A)"
    and run: "reconcile_one A i s = (r, s')"
  shows "paid_retries s' = paid_retries s"
proof (cases "inv_paymentAttempt i")
  case None
  with run show ?thesis by (simp add: reconcile_one_def)
next
  case (Some a)
  obtain l s1 where l: "pp_lookupSettlement (aa_provider A) a s = (l, s1)" by fastforce
  then have p1: "paid_retries s1 = paid_retries s" using payment_provider.lookup_pays_nothing [OF pp] by blast
  have "silent (\<lambda>s. resolve_and A (inv_id i) out (\<lambda>c. act_bind (ensureReceipt A c) (\<lambda>_. act_return ())) k s)"
    "silent (\<lambda>s. resolve_and A (inv_id i) out (\<lambda>_. act_return ()) k s)" for out k
    by (intro silent_resolve_and silent_intros)+
  then have "ns_sent s' = ns_sent s1"
    using run Some l unfolding reconcile_one_def Let_def silent_def
    by (auto split: option.splits SettlementLookup.splits dest!: arg_cong [where f = snd])
  with p1 paid_of_sent show ?thesis by metis
qed

lemma reconcile_each_unpaid:
  assumes pp: "payment_provider paid_retries net_state.more (aa_provider A)"
  shows "reconcile_each A is s = (r, s') \<Longrightarrow> paid_retries s' = paid_retries s"
proof (induction "is" arbitrary: s r s')
  case (Cons i "is")
  obtain a s1 where a: "reconcile_one A i s = (a, s1)" by fastforce
  obtain b s2 where b: "reconcile_each A is s1 = (b, s2)" by fastforce
  have "paid_retries s1 = paid_retries s" "paid_retries s2 = paid_retries s1"
    using reconcile_one_unpaid [OF pp a] Cons.IH [OF b] by simp_all
  then show ?case using Cons.prems a b by (auto simp: act_bind_def act_return_def split: sum.splits)
qed simp

lemma reconcileOnce_unpaid:
  assumes pp: "payment_provider paid_retries net_state.more (aa_provider A)"
    and "reconcileOnce A s = (r, s')"
  shows "paid_retries s' = paid_retries s"
proof -
  obtain a s1 where a: "store_read A listReconciliationRequired s = (a, s1)" by fastforce
  then have "paid_retries s1 = paid_retries s" by (rule silent_paid [OF silent_store_read])
  with assms(2) a reconcile_each_unpaid [OF pp] show ?thesis
    unfolding reconcileOnce_def act_bind_def by (auto split: sum.splits)
qed

end
