(* ===== verification/Sample_Authority.thy ===== *)
theory Sample_Authority
  imports Store_Properties Authority_Service_Lemmas
begin

text \<open>
  A concrete authority for the witnesses: the sample permit's issuer is entitled, one paid service is
  registered, and the provider is a small one that keeps the interface's contract (it quotes the sample
  terms and settles at once).
\<close>

definition sample_world :: world where
  "sample_world = \<lparr> w_elapsed = (\<lambda>_. 0), w_fetch = (\<lambda>_ _. None), w_rpc = (\<lambda>_ _. None), w_payload = (\<lambda>_ _. None) \<rparr>"

definition sample_profile :: SettlementProfile where
  "sample_profile = \<lparr> sp_name = ''sandbox'', sp_permitNetwork = ''devnet'', sp_environment = ''sandbox'',
     sp_rpcUrl = ''r'', sp_acceptedChallengeNetworks = [''n''], sp_allowedAssets = [''M''], sp_protocol = ''x402'',
     sp_x402Version = 2, sp_scheme = ''exact'', sp_requiredBlockhashPrefix = ''b'' \<rparr>"

definition sample_requirement :: "string \<Rightarrow> PaymentRequirement" where
  "sample_requirement url = \<lparr> pm_protocol = ''x402'', pm_x402Version = 2, pm_acceptsIndex = 0, pm_scheme = ''exact'',
     pm_network = ''n'', pm_asset = ''M'', pm_payTo = ''R'', pm_amountAtomic = ''4'', pm_feePayer = Some ''F'',
     pm_maxTimeoutSeconds = None, pm_resourceUrl = Some url \<rparr>"

definition attempt_of :: "'st ExecuteInput \<Rightarrow> PaymentAttempt" where
  "attempt_of ei = sample_attempt \<lparr> at_payTo := pm_payTo (ei_requirement ei),
     at_amountAtomic := pm_amountAtomic (ei_requirement ei), at_asset := pm_asset (ei_requirement ei),
     at_network := pm_network (ei_requirement ei), at_resourceUrl := pq_url (ei_request ei),
     at_requestSha256 := pq_sha256 (ei_request ei) \<rparr>"

definition sample_execution :: "PaymentAttempt \<Rightarrow> PaymentExecution" where
  "sample_execution a = \<lparr> ex_attempt = a,
     ex_settlement = \<lparr> cs_transactionId = ''tx'', cs_slot = None, cs_facilitatorReportedTransaction = None, cs_confirmedAt = 62 \<rparr>,
     ex_result = \<lparr> rs_httpStatus = 200, rs_json = JNull, rs_sha256 = sample_digest, rs_bytes = 2, rs_bodyBase64 = None,
        rs_serviceAcknowledgementHeader = None \<rparr> \<rparr>"

definition sample_execute :: "authority_state ExecuteInput \<Rightarrow> authority_state \<Rightarrow> (payment_error + PaymentExecution) \<times> authority_state" where
  "sample_execute ei s =
     (if pq_sha256 (ei_request ei) \<noteq> ch_requestSha256 (ei_challenge ei) then (Inl PaymentNotSubmittedError, s)
      else case ei_beforeSubmit ei (attempt_of ei) s of
        (False, s') \<Rightarrow> (Inl PaymentNotSubmittedError, s')
      | (True, s') \<Rightarrow> (Inr (sample_execution (attempt_of ei)),
          send sample_world (PaidRetry (ei_request ei) (ei_reference ei) (ei_serviceAuthorizationHeader ei) []) s'))"

definition sample_provider :: "authority_state PaymentProvider" where
  "sample_provider = \<lparr> pp_settlementProfile = ''sandbox'', pp_payerAddress = ''P'',
     pp_fetchChallenge = (\<lambda>q ref s. (Inr (Challenge \<lparr> ch_requirements = [sample_requirement (pq_url q)],
        ch_requestSha256 = pq_sha256 q, ch_raw = JNull \<rparr>), send sample_world (Probe q ref) s)),
     pp_execute = sample_execute, pp_lookupSettlement = (\<lambda>a s. (None, s)) \<rparr>"

interpretation sample: payment_provider paid_retries net_state.more sample_provider
proof
  fix ei s s' ex
  assume "pp_execute sample_provider ei s = (Inr ex, s')"
  then show "submitted paid_retries net_state.more ei (ex_attempt ex) s s'"
    by (auto simp: sample_provider_def sample_execute_def submitted_def attempt_for_def attempt_of_def sample_execution_def
        split: if_splits prod.splits bool.splits)
next
  fix ei s s'
  assume "pp_execute sample_provider ei s = (Inl PaymentNotSubmittedError, s')"
  then show "not_submitted paid_retries net_state.more ei s s'"
    by (auto simp: sample_provider_def sample_execute_def not_submitted_def split: if_splits prod.splits bool.splits)
qed (auto simp: sample_provider_def sample_execute_def split: if_splits prod.splits bool.splits)

definition sample_authority :: authority where
  "sample_authority = \<lparr> aa_signer = ''T'', aa_address = ''KT'', aa_audience = ''auth'',
     aa_issuerEntitlement = \<lparr> ie_issuer = ''KI'', ie_settlementProfiles = [''devnet''] \<rparr>,
     aa_trustedServiceKeys = (\<lambda>_. None), aa_provider = sample_provider,
     aa_paidServices = [paidServiceKey ''svc'' ''cap'' \<mapsto> \<lparr> rc_serviceId = ''svc'', rc_capability = ''cap'',
        rc_url = ''/report'', rc_method = ''POST'' \<rparr>],
     aa_settlementProfiles = [''devnet'' \<mapsto> sample_profile], aa_maxRequestAgeMs = 120000, aa_maxFutureSkewMs = 30000,
     aa_platform = hex_platform, aa_world = sample_world, aa_uuid = (\<lambda>_. []), aa_others = (\<lambda>_. []) \<rparr>"

definition sample_signed_permit :: "permit_v2 signed" where
  "sample_signed_permit = \<lparr> sg_body = sample_permit,
     sg_signature = signRaw hex_platform ''I'' (the (canonicalizeUnsignedPurchasePermitV2 hex_platform sample_permit)) \<rparr>"

definition sample_agent_signature :: string where
  "sample_agent_signature = signRaw hex_platform ''A'' (the (canonicalizeAuthorizationRequestV2 hex_platform sample_request))"

definition sample_input :: AuthorizeRequestInput where
  "sample_input = \<lparr> in_permit = signed_permit_v2_json sample_signed_permit,
     in_authorizationRequest = sample_request, in_agentSignature = signature_json sample_agent_signature \<rparr>"

definition sample_ar :: AuthenticatedRequest where
  "sample_ar = \<lparr> ar_permit = sample_signed_permit, ar_request = sample_request,
     ar_agentSignature = sample_agent_signature, ar_operationDigest = sample_digest, ar_fingerprint = sample_digest \<rparr>"

definition sample_state :: authority_state where
  "sample_state = \<lparr> ns_tick = 0, ns_now = 60, ns_sent = [], au_store = empty_store, au_audit = [], au_pending = (\<lambda>_. None) \<rparr>"

section \<open>The sample request is authenticated\<close>

lemma hex_canonical: "canonicalize hex_platform v = Some (jtext (jnorm v))"
  by (simp add: hex_platform_def sample_platform_def sample_canonicalize_def)

lemma hex_digest: "canonicalDigest hex_platform p v = Some sample_digest"
  by (simp add: canonicalDigest_def canonicalBytes_def hex_canonical sha256Hex_def)
    (simp add: hex_platform_def sample_digest_def)

lemma hex_signs: "verifyRaw hex_platform (''K'' @ k) (signRaw hex_platform k m) m" "isSignature hex_platform (signRaw hex_platform k m)"
  "isAddress hex_platform (''K'' @ k)" "importable hex_platform x"
  by (simp_all add: hex_platform_def sample_platform_def)

lemma sample_permit_verifies: "verifyPurchasePermitV2 hex_platform (signed_permit_v2_json sample_signed_permit) = Inr sample_signed_permit"
proof -
  have wf: "wf_permit_v2 hex_platform sample_permit" using wf_sample_permit
    by (simp add: wf_permit_v2_def wf_permit_def hex_platform_def)
  have k: "keyAddress hex_platform ''I'' = pp_issuer sample_permit"
    by (simp add: hex_platform_def sample_platform_def sample_permit_def)
  obtain t where t: "signPurchasePermitV2 hex_platform (JObj (permit_v2_fields sample_permit)) ''I''
        = Inr \<lparr> sg_body = sample_permit, sg_signature = t \<rparr>"
      "verifyPurchasePermitV2 hex_platform (JObj (permit_v2_fields sample_permit @ [(''signature'', signature_json t)]))
        = Inr \<lparr> sg_body = sample_permit, sg_signature = t \<rparr>"
    using pv2.sign_then_verify [OF sample_signatures(2) sample_canonical_total(2) wf k]
    unfolding signPurchasePermitV2_def verifyPurchasePermitV2_def by blast
  then have e: "\<lparr> sg_body = sample_permit, sg_signature = t \<rparr> = sample_signed_permit"
    unfolding signPurchasePermitV2_def pv2.sign_iff by (auto simp: sample_signed_permit_def)
  have "sg_body sample_signed_permit = sample_permit" "sg_signature sample_signed_permit = t"
    by (simp_all add: e [symmetric])
  with t(2) show ?thesis unfolding signed_permit_v2_json_def e by simp
qed

lemma sample_request_verifies:
  "verifyAuthorizationRequestSignature hex_platform (canonicalizeAuthorizationRequestV2 hex_platform sample_request)
     (signature_json sample_agent_signature) ''KA''"
proof -
  obtain b where "canonicalizeAuthorizationRequestV2 hex_platform sample_request = Some b"
    by (simp add: canonicalizeAuthorizationRequestV2_def canonicalBytes_def hex_canonical)
  then show ?thesis
    using hex_signs [of "''A''"] hex_signs(4) [of "''KA''"] unfolding verifyAuthorizationRequestSignature_iff
    by (simp add: sample_agent_signature_def signature_json_def)
qed

lemma sample_digests: "computePermitDigest hex_platform sp = Some sample_digest"
  "computeOperationDigest hex_platform o1 = Some sample_digest"
  "computeRequestFingerprint hex_platform p r d = Some sample_digest"
  by (simp_all add: computePermitDigest_def computeOperationDigest_def computeRequestFingerprint_def hex_digest)

lemma sample_authenticated: "authenticate sample_authority sample_input 60 = Inr sample_ar"
proof -
  have f: "aa_platform sample_authority = hex_platform" "in_permit sample_input = signed_permit_v2_json sample_signed_permit"
    "in_authorizationRequest sample_input = sample_request" "in_agentSignature sample_input = signature_json sample_agent_signature"
    "ar_permit sample_ar = sample_signed_permit" "ar_request sample_ar = sample_request"
    "sg_body sample_signed_permit = sample_permit"
    by (simp_all add: sample_authority_def sample_input_def sample_ar_def sample_signed_permit_def)
  have a: "pp_authorizedAgent sample_permit = ''KA''" by (simp add: sample_permit_def)
  show ?thesis
    unfolding authenticate_iff authenticated_as_def Let_def f a
    using sample_permit_verifies sample_request_verifies
    by (simp add: sample_digests) (simp add: sample_authority_def sample_permit_def sample_request_def sample_ar_def signature_json_def)
qed

section \<open>The run\<close>

lemma sample_fields [simp]:
  "aa_platform sample_authority = hex_platform" "aa_provider sample_authority = sample_provider"
  "aa_world sample_authority = sample_world" "aa_others sample_authority n = []" "aa_signer sample_authority = ''T''"
  "aa_address sample_authority = ''KT''" "aa_trustedServiceKeys sample_authority x = None"
  "ar_permit sample_ar = sample_signed_permit" "ar_request sample_ar = sample_request"
  "ar_fingerprint sample_ar = sample_digest" "sg_body sample_signed_permit = sample_permit"
  by (simp_all add: sample_authority_def sample_ar_def sample_signed_permit_def)

lemma arrived_sample [simp]: "arrived sample_authority s = au_store s"
  by (simp add: arrived_def)

definition sample_paid_request :: PaidRequest where
  "sample_paid_request = createPaidRequest hex_platform ''/report'' ''POST'' (the (operationRequestBody hex_platform sample_operation))"

lemma sample_paid_request_built:
  "buildPaidRequest hex_platform \<lparr> rc_serviceId = ''svc'', rc_capability = ''cap'', rc_url = ''/report'', rc_method = ''POST'' \<rparr>
     sample_operation = Inr (Some sample_paid_request)"
  unfolding buildPaidRequest_Some
  by (simp add: sample_operation_def sample_paid_request_def operationRequestBody_def hex_canonical)
    (simp add: hex_platform_def sample_platform_def sample_parse_def)

lemma sample_policy: "c \<in> {''0''} \<Longrightarrow> policy_codes sample_permit sample_request 60 (''M'', ''R'', ''4'') c = []"
  unfolding policy_codes_empty
  by (simp add: sample_permit_def sample_request_def within_permit_def purchase_of_def dec_def char_simps digit_val_def)

definition sample_quote :: quote where
  "sample_quote = \<lparr> qt_codes = [], qt_challenge = Some \<lparr> ch_requirements = [sample_requirement ''/report''],
      ch_requestSha256 = pq_sha256 sample_paid_request, ch_raw = JNull \<rparr>,
     qt_requirement = Some (sample_requirement ''/report''), qt_paidRequest = Some sample_paid_request \<rparr>"

lemma sample_probe:
  "probe_service sample_authority sample_permit sample_request s
     = (Inr sample_quote, send sample_world (Probe sample_paid_request ''i1'') s)"
proof -
  have "rq_operation sample_request = sample_operation" by (simp add: sample_request_def)
  moreover have "pq_url sample_paid_request = ''/report''" by (simp add: sample_paid_request_def)
  moreover have "rq_service sample_request = ''svc''" "rq_capability sample_request = ''cap''" "pp_network sample_permit = ''devnet''"
    "rq_invocationId sample_request = ''i1''"
    "rq_mint sample_request = ''M''" "rq_recipient sample_request = ''R''" "rq_amountAtomic sample_request = ''4''"
    by (simp_all add: sample_request_def sample_permit_def)
  moreover have "aa_paidServices sample_authority (paidServiceKey ''svc'' ''cap'') =
      Some \<lparr> rc_serviceId = ''svc'', rc_capability = ''cap'', rc_url = ''/report'', rc_method = ''POST'' \<rparr>"
    "aa_settlementProfiles sample_authority ''devnet'' = Some sample_profile"
    by (simp_all add: sample_authority_def)
  ultimately show ?thesis
    by (simp add: probe_service_def sample_paid_request_built sample_profile_def sample_provider_def
        selectAndValidateChallenge_def sample_requirement_def push_if_def sample_quote_def)
qed

definition sample_reserve_input :: reserve_input where
  "sample_reserve_input = reserve_input_for sample_ar 60 sample_quote"

lemma sample_evaluate: "evaluate_decision sample_permit sample_request 60 sample_quote ''0'' = BudgetAllowed"
proof -
  have "request_values sample_request = (''M'', ''R'', ''4'')" "requirement_values (sample_requirement ''/report'') = (''M'', ''R'', ''4'')"
    by (simp_all add: request_values_def requirement_values_def sample_request_def sample_requirement_def)
  then show ?thesis unfolding evaluate_allowed using sample_policy by (simp add: sample_quote_def)
qed

lemma sample_reserves:
  "\<exists>st. reserve sample_reserve_input (evaluate_decision sample_permit sample_request 60 sample_quote) 60 empty_store
     = (Inr (ReserveReserved (new_row sample_reserve_input RESERVED [] 60)), st)
     \<and> store_inv st \<and> selectInvocation st ''i1'' = Some (new_row sample_reserve_input RESERVED [] 60)"
proof -
  let ?e = "evaluate_decision sample_permit sample_request 60 sample_quote"
  have f: "ri_invocationId sample_reserve_input = ''i1''" "ri_amountAtomic sample_reserve_input = ''4''"
    "ri_grant sample_reserve_input = sample_grant_terms"
    by (simp_all add: sample_reserve_input_def reserve_input_for_def Let_def sample_request_def sample_permit_def
        sample_grant_terms_def)
  have r: "\<exists>st. reserve sample_reserve_input ?e 60 empty_store
      = (Inr (ReserveReserved (new_row sample_reserve_input RESERVED [] 60)), st)"
    by (simp add: store_run_simps empty_store_def f sample_grant_terms_def sample_evaluate MAX_U64_def
        joined_codes_def char_simps show_nat_zero new_row_def dec_def digit_val_def)
  then obtain st where st: "reserve sample_reserve_input ?e 60 empty_store
      = (Inr (ReserveReserved (new_row sample_reserve_input RESERVED [] 60)), st)" by blast
  have "store_inv (snd (reserve sample_reserve_input ?e 60 empty_store))"
    by (rule store_inv_reserve [OF store_inv_empty]) (simp add: retry_same_grant_def selectInvocation_def empty_store_def)
  with st reserve_reserved [OF st] f show ?thesis by auto
qed

text \<open>The state after the probe, and after the reservation (whose store is \<open>st\<close>).\<close>

definition sample_probed :: authority_state where
  "sample_probed = send sample_world (Probe sample_paid_request ''i1'') (pass sample_world sample_state)"

definition sample_reserved :: "store \<Rightarrow> authority_state" where
  "sample_reserved st = auditDecision sample_authority sample_permit (new_row sample_reserve_input RESERVED [] 60)
     (pass sample_world (sample_probed \<lparr> au_store := st \<rparr>))"

lemma sample_times [simp]:
  "ns_now sample_probed = 60" "au_store sample_probed = empty_store" "ns_sent sample_probed = [Probe sample_paid_request ''i1'']"
  "ns_now (sample_reserved st) = 60" "au_store (sample_reserved st) = st"
  "ns_sent (sample_reserved st) = [Probe sample_paid_request ''i1'']"
  by (simp_all add: sample_probed_def sample_reserved_def sample_state_def send_def pass_def sample_world_def
      auditDecision_def audit_append_def)

lemma sample_known:
  "store_read sample_authority (\<lambda>st. selectInvocation st ''i1'') sample_state = (Inr None, pass sample_world sample_state)"
  by (simp add: store_read_def store_call_def store_step_def)
    (simp add: sample_state_def selectInvocation_def empty_store_def)

lemma sample_process:
  assumes "reserve sample_reserve_input (evaluate_decision sample_permit sample_request 60 sample_quote) 60 empty_store
     = (Inr (ReserveReserved (new_row sample_reserve_input RESERVED [] 60)), st)"
  shows "authorize sample_authority sample_input sample_state
    = act_bind (pay sample_authority sample_permit (new_row sample_reserve_input RESERVED [] 60) sample_paid_request
            (the (qt_challenge sample_quote)) (sample_requirement ''/report''))
          (\<lambda>c. with_receipt_result sample_authority c False) (sample_reserved st)"
proof -
  have t: "ns_now (pass sample_world sample_state) = 60" "ns_now sample_state = 60" "au_pending sample_state x = None" for x
    by (simp_all add: sample_state_def pass_def sample_world_def)
  have v: "request_values sample_request = (''M'', ''R'', ''4'')" "rq_invocationId sample_request = ''i1''"
    by (simp_all add: request_values_def sample_request_def)
  have res: "store_call sample_authority (reserve sample_reserve_input
      (evaluate_decision sample_permit sample_request 60 sample_quote)) sample_probed
      = (Inr (ReserveReserved (new_row sample_reserve_input RESERVED [] 60)), pass sample_world (sample_probed \<lparr> au_store := st \<rparr>))"
    by (simp add: store_call_def store_step_def assms)
  have "authorize sample_authority sample_input sample_state = process sample_authority sample_ar sample_state"
    by (simp add: authorize_def t sample_authenticated)
  also have "\<dots> = carry_out sample_authority sample_ar sample_quote
      (ReserveReserved (new_row sample_reserve_input RESERVED [] 60)) (pass sample_world (sample_probed \<lparr> au_store := st \<rparr>))"
    using res by (simp add: process_def Let_def v act_bind_def sample_known t sample_policy sample_probe
        sample_probed_def [symmetric] sample_reserve_input_def [symmetric])
  finally show ?thesis
    by (simp add: carry_out_def Let_def sample_reserved_def) (simp add: sample_quote_def)
qed

lemma sample_signs:
  "\<exists>sa h. signServiceAuthorization_for sample_authority (new_row sample_reserve_input RESERVED [] 60) sample_permit
       sample_paid_request m t = Some sa
     \<and> encodeServiceHeader hex_platform (signed_json service_authorization_fields sa) = Some h"
proof -
  have "inv_request (new_row sample_reserve_input RESERVED [] 60) = StoredV2 sample_request"
    by (simp add: new_row_def sample_reserve_input_def reserve_input_for_def Let_def)
  moreover have "keyAddress hex_platform ''T'' = ''KT''" by (simp add: hex_platform_def sample_platform_def)
  ultimately show ?thesis
    by (simp add: signServiceAuthorization_for_def sample_digests signServiceAuthorization_def sign_pinned_def
        service_canonicalBytes_def canonicalBytes_def hex_canonical encodeServiceHeader_def)
qed

lemma sample_pays:
  "paid_retries (snd (authorize sample_authority sample_input sample_state)) \<noteq> []"
proof -
  let ?row = "new_row sample_reserve_input RESERVED [] 60" and ?m = "sample_requirement ''/report''"
  let ?ch = "the (qt_challenge sample_quote)"
  obtain st where st: "reserve sample_reserve_input (evaluate_decision sample_permit sample_request 60 sample_quote) 60 empty_store
     = (Inr (ReserveReserved ?row), st)" "store_inv st" "selectInvocation st ''i1'' = Some ?row"
    using sample_reserves by blast
  have row: "inv_id ?row = ''i1''" "inv_request ?row = StoredV2 sample_request"
    by (simp_all add: new_row_def sample_reserve_input_def reserve_input_for_def Let_def sample_request_def)
  have out: "outboundMatchesAuthorization sample_authority ?row sample_paid_request = Inr True"
    by (simp add: outboundMatchesAuthorization_def row)
      (simp add: sample_authority_def sample_request_def sample_paid_request_built)
  obtain g s3 where g: "getGrantBudget sample_authority a b (sample_reserved st) = (Inr (g a b), s3)"
      "au_store s3 = st" "ns_sent s3 = [Probe sample_paid_request ''i1'']" for a b
    by (simp add: getGrantBudget_def store_read_def store_call_def store_step_def)
       (simp add: pass_def)
  obtain sa h where sa: "signServiceAuthorization_for sample_authority ?row sample_permit sample_paid_request ?m (ns_now s3) = Some sa"
      "encodeServiceHeader hex_platform (signed_json service_authorization_fields sa) = Some h"
    using sample_signs by blast
  let ?ei = "execute_input sample_authority ''i1'' sample_paid_request ?ch ?m sa h"
  obtain s4 where s4: "ei_beforeSubmit ?ei (attempt_of ?ei) s3 = (True, s4)" "ns_sent s4 = ns_sent s3"
    using recordPaymentAttempt_ok [OF st(2,3)] g(2)
    by (simp add: execute_input_def store_step_def)
  obtain x s5 where x: "pp_execute sample_provider ?ei s3 = (x, s5)" "paid_retries s5 \<noteq> []"
    using s4 by (simp add: sample_provider_def sample_execute_def) (simp add: execute_input_def sample_quote_def)
  have "pay sample_authority sample_permit ?row sample_paid_request ?ch ?m (sample_reserved st)
      = after_execution sample_authority sample_permit ?row sample_paid_request ?m sa (x, s5)"
    using out g(1) sa x row(1)
    by (cases x) (simp_all add: pay_def Let_def act_bind_def [of "getGrantBudget _ _ _"] after_execution_def split: payment_error.split)
  then have "paid_retries (snd (pay sample_authority sample_permit ?row sample_paid_request ?ch ?m (sample_reserved st))) \<noteq> []"
    using x(2) paid_of_sent [OF after_execution_sent] by metis
  moreover obtain c s6 where c: "pay sample_authority sample_permit ?row sample_paid_request ?ch ?m (sample_reserved st) = (c, s6)"
    by fastforce
  moreover have "paid_retries (snd (authorize sample_authority sample_input sample_state)) = paid_retries s6"
    using silent_with_receipt_result [unfolded silent_def]
    by (simp add: sample_process [OF st(1)] act_bind_def c paid_retries_def split: sum.split)
  ultimately show ?thesis by simp
qed

end
