(* ===== verification/Authority_Properties.thy ===== *)
theory Authority_Properties
  imports Sample_Authority Payment_Properties
begin

text \<open>
  Properties of the authority service and of its composition with the store, the payment provider and the
  paid service's check.
\<close>

text \<open>The checks of a request in the order in which the authority makes them, each with the error a failure is
  answered with.  The permit of the later checks is the verified one; a digest that cannot be computed is
  an internal error.\<close>

definition authentication_checks :: "authority \<Rightarrow> AuthorizeRequestInput \<Rightarrow> int \<Rightarrow> (bool \<times> authority_error) list" where
  "authentication_checks A input now =
     (let px = aa_platform A; request = in_authorizationRequest input;
          signd = projr (verifyPurchasePermitV2 px (in_permit input)); permit = sg_body signd;
          digest = computePermitDigest px signd; operation = computeOperationDigest px (rq_operation request) in
      [(\<not> nullish (in_agentSignature input), AgentAuthenticationError AGENT_SIGNATURE_MISSING),
       (isOk (verifyPurchasePermitV2 px (in_permit input)), AgentAuthenticationError PERMIT_INVALID),
       (pp_issuer permit = ie_issuer (aa_issuerEntitlement A)
          \<and> pp_network permit \<in> set (ie_settlementProfiles (aa_issuerEntitlement A)), IssuerNotEntitledError),
       (verifyAuthorizationRequestSignature px (canonicalizeAuthorizationRequestV2 px request)
          (in_agentSignature input) (pp_authorizedAgent permit), AgentAuthenticationError AGENT_SIGNATURE_INVALID),
       (rq_audience request = aa_audience A, AgentAuthenticationError REQUEST_AUDIENCE_MISMATCH),
       (rq_grantId request = pp_grantId permit, AgentAuthenticationError REQUEST_GRANT_MISMATCH),
       (digest \<noteq> None, InternalError),
       (digest = Some (rq_permitDigest request), AgentAuthenticationError REQUEST_PERMIT_DIGEST_MISMATCH),
       (now - aa_maxRequestAgeMs A \<le> rq_issuedAt request \<and> rq_issuedAt request \<le> now + aa_maxFutureSkewMs A,
          AgentAuthenticationError REQUEST_TIMESTAMP_OUT_OF_RANGE),
       (operation \<noteq> None, InternalError),
       (computeRequestFingerprint px permit request (the operation) \<noteq> None, InternalError)])"

fun first_failure :: "(bool \<times> 'e) list \<Rightarrow> 'e option" where
  "first_failure [] = None"
| "first_failure ((ok, e) # checks) = (if ok then first_failure checks else Some e)"

text \<open>C12. A request is authenticated exactly when the permit verifies under its own issuer, that issuer is
  the entitled one and may spend on the permit's network, the agent named in the permit signed exactly
  these request fields, the request is addressed to this authority, names the permit's grant and digest,
  and was signed within the accepted window of the clock; what is returned is that permit, that request,
  and the digest and fingerprint computed from them.  It is refused with an error exactly when that is the
  error of the first check that fails, in the order above.\<close>

theorem authentication_exact:
  "(authenticate A input now = Inr ar \<longleftrightarrow>
     (let px = aa_platform A; permit = sg_body (ar_permit ar); request = in_authorizationRequest input in
      verifyPurchasePermitV2 px (in_permit input) = Inr (ar_permit ar)
      \<and> pp_issuer permit = ie_issuer (aa_issuerEntitlement A)
      \<and> pp_network permit \<in> set (ie_settlementProfiles (aa_issuerEntitlement A))
      \<and> verifyAuthorizationRequestSignature px (canonicalizeAuthorizationRequestV2 px request)
          (in_agentSignature input) (pp_authorizedAgent permit)
      \<and> rq_audience request = aa_audience A \<and> rq_grantId request = pp_grantId permit
      \<and> computePermitDigest px (ar_permit ar) = Some (rq_permitDigest request)
      \<and> now - aa_maxRequestAgeMs A \<le> rq_issuedAt request \<and> rq_issuedAt request \<le> now + aa_maxFutureSkewMs A
      \<and> ar_request ar = request
      \<and> ar_agentSignature ar = jstr (jget (in_agentSignature input) ''signature'')
      \<and> computeOperationDigest px (rq_operation request) = Some (ar_operationDigest ar)
      \<and> computeRequestFingerprint px permit request (ar_operationDigest ar) = Some (ar_fingerprint ar)))
   \<and> (authenticate A input now = Inl e \<longleftrightarrow>
        first_failure (authentication_checks A input now) = Some e)"
proof
  show "authenticate A input now = Inl e \<longleftrightarrow>
      first_failure (authentication_checks A input now) = Some e"
  proof (cases "verifyPurchasePermitV2 (aa_platform A) (in_permit input)")
    case (Inl problem)
    then show ?thesis by (simp add: authenticate_def authentication_checks_def Let_def)
  next
    case (Inr signd)
    let ?request = "in_authorizationRequest input" and ?px = "aa_platform A"
    have late: "\<not> (rq_issuedAt ?request < now - aa_maxRequestAgeMs A \<or> rq_issuedAt ?request > now + aa_maxFutureSkewMs A)
        \<longleftrightarrow> now - aa_maxRequestAgeMs A \<le> rq_issuedAt ?request \<and> rq_issuedAt ?request \<le> now + aa_maxFutureSkewMs A"
      by auto
    from Inr show ?thesis
      by (cases "computePermitDigest ?px signd"; cases "computeOperationDigest ?px (rq_operation ?request)";
          cases "computeRequestFingerprint ?px (sg_body signd) ?request (the (computeOperationDigest ?px (rq_operation ?request)))")
        (simp_all add: authenticate_def authentication_checks_def Let_def late [symmetric])
  qed
qed (unfold authenticate_iff authenticated_as_def Let_def, auto)

text \<open>C2. Whatever answers the network, the paid service and other users of the store give, one call of
  authorize sends at most one payment, and only for an authenticated request that is not already in
  flight, whose operation is exactly the one the human approved: the paid retry carries exactly the
  registered resource's request for that operation, and the requirement paid is the one the profile and the
  signed request accept.  Both the request and the requirement are within the permit at the time of the
  decision, counting all that the grant had committed in the store when this call's reserve ran on it.
  That reserve granted the reservation, the attempt for exactly this requirement and request, with the
  service authorization the retry carries, was recorded on the store it left (between them only
  operations of others), and the store at the end has come from there by operations.  That the record
  came before the retry is the contract of the provider.\<close>

theorem payment_only_when_justified:
  assumes "payment_provider paid_retries net_state.more (aa_provider A)"
    and "authorize A input s = (r, s')" "paid_retries s' \<noteq> paid_retries s"
    and "t = ns_now (pass (aa_world A) s)"
  shows "\<exists>ar permit request x resource profile q m qt before1 st0 t1 i st1 before2 t2 a sa st2 ps c header credential.
      authenticate A input (ns_now s) = Inr ar \<and> permit = sg_body (ar_permit ar) \<and> request = ar_request ar
      \<and> x = rq_invocationId request \<and> au_pending s x = None
      \<and> rq_operation request = pp_operation permit
      \<and> aa_paidServices A (paidServiceKey (rq_service request) (rq_capability request)) = Some resource
      \<and> buildPaidRequest (aa_platform A) resource (pp_operation permit) = Inr (Some q)
      \<and> aa_settlementProfiles A (pp_network permit) = Some profile
      \<and> acceptable_requirement profile q request (pp_payerAddress (aa_provider A)) m \<and> qt_requirement qt = Some m
      \<and> st0 = run_ops (others_at A before1) (au_store s)
      \<and> c = show_nat (committed_for st0 (pp_issuer permit, pp_grantId permit))
      \<and> within_permit t permit (purchase_of request t (request_values request) c)
      \<and> within_permit t permit (purchase_of request t (requirement_values m) c)
      \<and> reserve (reserve_input_for ar t qt) (evaluate_decision permit request t qt) t1 st0 = (Inr (ReserveReserved i), st1)
      \<and> recordPaymentAttempt x a (Some sa) t2 (run_ops (others_at A before2) st1) = (Inr (), st2)
      \<and> at_payTo a = pm_payTo m \<and> at_amountAtomic a = pm_amountAtomic m \<and> at_asset a = pm_asset m
      \<and> at_requestSha256 a = pq_sha256 q
      \<and> au_store s' = run_ops ps st2
      \<and> paid_retries s' = paid_retries s @ [PaidRetry q x (Some header) credential]
      \<and> encodeServiceHeader (aa_platform A) (signed_json service_authorization_fields sa) = Some header"
proof -
  obtain ar where ar: "authenticated_as A input (ns_now s) ar" "au_pending s (rq_invocationId (ar_request ar)) = None"
      "justified_payment A ar s s'"
    using authorize_pays [OF assms(1,2)] assms(3) by blast
  from ar(3) show ?thesis
    using ar(1,2) unfolding justified_payment_def Let_def authenticate_iff assms(4) by metis
qed

theorem payment_only_when_justified_witness:
  "\<exists>q credential header. paid_retries (snd (authorize sample_authority sample_input sample_state))
     = [PaidRetry q ''i1'' (Some header) credential]"
proof -
  obtain r s' where run: "authorize sample_authority sample_input sample_state = (r, s')" by fastforce
  have none: "paid_retries sample_state = []" by (simp add: sample_state_def paid_retries_def)
  have pp: "payment_provider paid_retries net_state.more (aa_provider sample_authority)"
    using sample.payment_provider_axioms by simp
  have "paid_retries s' \<noteq> paid_retries sample_state" using sample_pays run none by simp
  from payment_only_when_justified [OF pp run this refl] none
  obtain ar q header credential where "authenticate sample_authority sample_input (ns_now sample_state) = Inr ar"
    "paid_retries s' = [PaidRetry q (rq_invocationId (ar_request ar)) (Some header) credential]" by auto
  moreover have "ns_now sample_state = 60" by (simp add: sample_state_def)
  ultimately have "paid_retries s' = [PaidRetry q ''i1'' (Some header) credential]"
    by (simp add: sample_authenticated sample_request_def)
  with run show ?thesis by auto
qed

text \<open>C24. The error answers that invite a retry or blame the caller (not authenticated, not entitled,
  outbound mismatch, conflict, in progress, grant conflict, payment not submitted, service unavailable)
  mean that this call paid nothing; once a payment has left, the answer is a result,
  RECONCILIATION_REQUIRED, or an internal failure.\<close>

theorem retryable_errors_paid_nothing:
  assumes "payment_provider paid_retries net_state.more (aa_provider A)"
    and "authorize A input s = (Inl e, s')"
  shows "case e of ReconciliationRequiredError \<Rightarrow> True | StoreFailure _ \<Rightarrow> True | InternalError \<Rightarrow> True
    | _ \<Rightarrow> paid_retries s' = paid_retries s"
  using authorize_pays [OF assms] by (cases e) auto

theorem retryable_errors_paid_nothing_witness:
  "paid_retries (snd (authorize sample_authority (sample_input \<lparr> in_agentSignature := JNull \<rparr>) sample_state)) = []"
proof -
  have pp: "payment_provider paid_retries net_state.more (aa_provider sample_authority)"
    using sample.payment_provider_axioms by simp
  have "authorize sample_authority (sample_input \<lparr> in_agentSignature := JNull \<rparr>) sample_state
      = (Inl (AgentAuthenticationError AGENT_SIGNATURE_MISSING), sample_state)"
    by (simp add: authorize_def authenticate_def nullish_def Let_def)
  from retryable_errors_paid_nothing [OF pp this] show ?thesis
    by (simp add: \<open>authorize _ _ _ = _\<close>) (simp add: sample_state_def paid_retries_def)
qed

text \<open>A request that is not authenticated, or that the permit does not allow by itself at any time and
  with nothing yet spent, is refused without contacting anyone: no probe of the paid service, no RPC, no
  payment.\<close>

theorem refused_request_contacts_nobody:
  assumes "authorize A input s = (r, s')"
    and "\<And>ar t. authenticate A input (ns_now s) = Inr ar \<Longrightarrow>
      \<not> (rq_operation (ar_request ar) = pp_operation (sg_body (ar_permit ar))
         \<and> within_permit t (sg_body (ar_permit ar)) (purchase_of (ar_request ar) t (request_values (ar_request ar)) ''0''))"
  shows "ns_sent s' = ns_sent s"
proof (cases "authenticate A input (ns_now s)")
  case (Inl e)
  with assms(1) show ?thesis by (simp add: authorize_def)
next
  case (Inr ar)
  have no: "policy_codes (sg_body (ar_permit ar)) (ar_request ar) t (request_values (ar_request ar)) ''0'' \<noteq> []" for t
    using assms(2) [OF Inr] unfolding policy_codes_empty by blast
  show ?thesis
  proof (cases "au_pending s (rq_invocationId (ar_request ar))")
    case None
    with assms(1) Inr have "process A ar s = (r, s')" by (simp add: authorize_def)
    then show ?thesis by (rule process_denied_silent [OF no])
  next
    case (Some fo)
    with assms(1) Inr show ?thesis by (cases fo) (auto simp: authorize_def split: if_splits sum.splits)
  qed
qed

theorem refused_request_contacts_nobody_witness:
  "ns_sent (snd (authorize sample_authority (sample_input \<lparr> in_agentSignature := JNull \<rparr>) sample_state)) = []"
proof -
  obtain r s' where run: "authorize sample_authority (sample_input \<lparr> in_agentSignature := JNull \<rparr>) sample_state = (r, s')"
    by fastforce
  have "authenticate sample_authority (sample_input \<lparr> in_agentSignature := JNull \<rparr>) (ns_now sample_state)
      = Inl (AgentAuthenticationError AGENT_SIGNATURE_MISSING)"
    by (simp add: authenticate_def nullish_def Let_def)
  with refused_request_contacts_nobody [OF run] have "ns_sent s' = ns_sent sample_state" by simp
  with run show ?thesis by (simp add: sample_state_def)
qed

text \<open>C26. A repeated request never pays again, unless it retries a FAILED invocation with the same fingerprint:
  when the store already holds the invocation, in any state but that one, nobody is contacted, and the
  answer is a conflict for another fingerprint, RECONCILIATION_REQUIRED or INVOCATION_IN_PROGRESS for those
  states, and for a decided invocation the stored result marked as a replay.\<close>

theorem known_invocation_never_pays:
  assumes "selectInvocation (arrived A s) (rq_invocationId (ar_request ar)) = Some i"
    and "\<not> (inv_state i = FAILED \<and> inv_fingerprint i = ar_fingerprint ar)"
    and "process A ar s = (r, s')"
  shows "ns_sent s' = ns_sent s
    \<and> (if inv_fingerprint i \<noteq> ar_fingerprint ar then r = Inl InvocationConflictError
       else case inv_state i of
         RECONCILIATION_REQUIRED \<Rightarrow> r = Inl ReconciliationRequiredError
       | RESERVED \<Rightarrow> r = Inl InvocationInProgressError
       | _ \<Rightarrow> (case r of Inr result \<Rightarrow> az_replay result
                 \<and> (case inv_receipt i of Some rc \<Rightarrow> az_receipt result = rc | None \<Rightarrow> True)
                 \<and> az_result result = (case inv_result i of None \<Rightarrow> JNull | Some x \<Rightarrow> rs_json x)
             | Inl _ \<Rightarrow> inv_receipt i = None))"
proof -
  let ?s = "pass (aa_world A) (s \<lparr> au_store := arrived A s \<rparr>)"
  have s: "ns_sent s' = ns_sent s" using process_known_silent(1) [OF assms(1,2)] assms(3) by simp
  have r: "r = fst (resolveExisting A i (ar_fingerprint ar) ?s)"
    using process_known_silent(2) [OF assms(1,2)] assms(3) by simp
  have w: "case fst (with_receipt_result A i True ?s) of Inr result \<Rightarrow> az_replay result
                 \<and> (case inv_receipt i of Some rc \<Rightarrow> az_receipt result = rc | None \<Rightarrow> True)
                 \<and> az_result result = (case inv_result i of None \<Rightarrow> JNull | Some x \<Rightarrow> rs_json x)
             | Inl _ \<Rightarrow> inv_receipt i = None"
    by (cases "inv_receipt i") (auto simp: with_receipt_result_def ensureReceipt_def act_bind_def act_return_def act_fail_def
        authorize_result_def split: option.split prod.split sum.split)
  show ?thesis
    using s r w assms(2)
    by (cases "inv_state i") (auto simp: resolveExisting_def act_fail_def)
qed

theorem known_invocation_never_pays_witness:
  "\<exists>s'. process sample_authority sample_ar (sample_state \<lparr> au_store := reserved_store \<rparr>) = (Inl InvocationConflictError, s')
     \<and> ns_sent s' = []"
proof -
  let ?i = "new_row sample_reserve RESERVED [] 60" and ?s = "sample_state \<lparr> au_store := reserved_store \<rparr>"
  obtain r s' where run: "process sample_authority sample_ar ?s = (r, s')" by fastforce
  have "selectInvocation (arrived sample_authority ?s) (rq_invocationId (ar_request sample_ar)) = Some ?i"
    using reserved_row by (simp add: sample_request_def)
  moreover have "\<not> (inv_state ?i = FAILED \<and> inv_fingerprint ?i = ar_fingerprint sample_ar)" by simp
  moreover have "length (inv_fingerprint ?i) \<noteq> length (ar_fingerprint sample_ar)"
    by (simp add: sample_reserve_def sample_digest_def)
  then have "inv_fingerprint ?i \<noteq> ar_fingerprint sample_ar" by metis
  ultimately have "ns_sent s' = ns_sent ?s \<and> r = Inl InvocationConflictError"
    using known_invocation_never_pays [OF _ _ run] by auto
  with run show ?thesis by (simp add: sample_state_def)
qed

text \<open>C27. Reconciliation only reads the chain: whatever the lookups answer, and whether it runs itself or shares
  the run in progress, a call of reconcile sends no payment.\<close>

theorem reconciliation_never_pays:
  assumes "payment_provider paid_retries net_state.more (aa_provider A)"
  shows "paid_retries (snd (reconcile A pending s)) = paid_retries s"
  using reconcileOnce_unpaid [OF assms] by (cases pending) (simp_all add: reconcile_def, metis prod.collapse)

theorem reconciliation_never_pays_witness:
  "\<forall>e p s. paid_retries (snd (reconcile (sample_authority \<lparr> aa_provider := x402_provider e p \<rparr>) None s)) = paid_retries s"
  by (intro allI, rule reconciliation_never_pays) (use x402.payment_provider_axioms in simp)

text \<open>The fingerprint of an invocation identifies what is asked for: where the hash does not collide on
  the two messages, equal fingerprints mean the same permit digest, grant, agent, invocation, service,
  capability, network, mint, recipient, amount and operation digest; the time of signing and the audience
  play no part.\<close>

theorem fingerprint_identifies_request:
  assumes "canonical_total px" "canonical_faithful px"
    and "collision_free_on px (digest_inputs px FINGERPRINT_PREFIX {fingerprint_json p r d, fingerprint_json p' r' d'})"
  shows "computeRequestFingerprint px p r d = computeRequestFingerprint px p' r' d' \<longleftrightarrow>
     rq_permitDigest r = rq_permitDigest r' \<and> pp_grantId p = pp_grantId p' \<and> pp_authorizedAgent p = pp_authorizedAgent p'
     \<and> rq_invocationId r = rq_invocationId r' \<and> rq_service r = rq_service r' \<and> rq_capability r = rq_capability r'
     \<and> rq_network r = rq_network r' \<and> rq_mint r = rq_mint r' \<and> rq_recipient r = rq_recipient r'
     \<and> rq_amountAtomic r = rq_amountAtomic r' \<and> d = d'" (is "?L \<longleftrightarrow> ?R")
proof
  assume ?L
  have v: "json_value (fingerprint_json p r d)" "json_value (fingerprint_json p' r' d')"
    by (simp_all add: fingerprint_json_def)
  have "jnorm (fingerprint_json p r d) = jnorm (fingerprint_json p' r' d')"
    using canonicalDigest_inject [OF assms(1,2) v assms(3)] \<open>?L\<close> by (simp add: computeRequestFingerprint_def)
  then show ?R
    unfolding fingerprint_json_def by (subst (asm) jnorm_objects_iff) simp_all
next
  assume ?R
  then show ?L by (simp add: computeRequestFingerprint_def fingerprint_json_def)
qed

theorem fingerprint_identifies_request_witness:
  "computeRequestFingerprint sample_platform sample_permit sample_request ''d''
     \<noteq> computeRequestFingerprint sample_platform sample_permit (sample_request \<lparr> rq_amountAtomic := ''5'' \<rparr>) ''d''"
  unfolding fingerprint_identifies_request [OF sample_canonical_total(1) sample_canonical_faithful(1) sample_collision_free]
  by (simp add: sample_request_def)

text \<open>The service's acknowledgement header is kept exactly when a key is pinned for the permit's
  service, the header decodes, verifies against that key, and states this invocation, the digest of the
  authorization that was sent, the digest of the request, the authorized operation, the terms paid, the
  confirmed transaction and the result received; otherwise it is dropped, and nothing else of the result
  changes either way.\<close>

theorem acknowledgement_kept_exactly:
  "acceptAcknowledgement A i permit sa q m settlement result =
     result \<lparr> rs_serviceAcknowledgementHeader :=
       (case rs_serviceAcknowledgementHeader result of
          None \<Rightarrow> None
        | Some h \<Rightarrow>
          if \<exists>pinned signd r. aa_trustedServiceKeys A (pp_service permit) = Some pinned
              \<and> decodeServiceAcknowledgementHeader (aa_platform A) h = Some signd
              \<and> verifyServiceAcknowledgementSignature (aa_platform A) signd pinned
              \<and> inv_request i = StoredV2 r
              \<and> [sk_invocationId (sg_body signd), sk_requestSha256 (sg_body signd), sk_method (sg_body signd),
                  sk_resource (sg_body signd), sk_operation (sg_body signd), sk_datasetId (sg_body signd),
                  sk_asset (sg_body signd), sk_payTo (sg_body signd), sk_amountAtomic (sg_body signd), sk_sha256 (sg_body signd)]
                = [inv_id i, pq_sha256 q, op_method (rq_operation r), op_resource (rq_operation r),
                  op_operation (rq_operation r), op_datasetId (rq_operation r),
                  pm_asset m, pm_payTo m, pm_amountAtomic m, rs_sha256 result]
              \<and> serviceAuthorizationDigest (aa_platform A) sa = Some (sk_authorizationDigest (sg_body signd))
              \<and> sk_transaction (sg_body signd) = Some (cs_transactionId settlement)
              \<and> sk_bytes (sg_body signd) = int (rs_bytes result) \<and> sk_httpStatus (sg_body signd) = rs_httpStatus result
          then Some h else None) \<rparr>"
  unfolding acceptAcknowledgement_def acknowledgement_matches_def Let_def
  by (cases result) (auto split: option.splits stored_request.splits)

text \<open>What the authority sends, the service accepts: the header encoding of a service authorization the
  authority signed for a paid request passes the service's check when the service has pinned that
  authority's key, receives exactly that request (method, path, body bytes, invocation id), charges exactly
  the authorized terms, and its clock is between the time of signing less 30 s and the expiry.\<close>

theorem service_accepts_what_authority_sends:
  assumes "signatures_verify px" "canonical_total px" "json_reads_back px" "keyAddress px (aa_signer A) = aa_address A"
    and "px = aa_platform A"
    and "signServiceAuthorization_for A i permit (createPaidRequest px url ''POST'' body) m issuedAt = Some sa"
    and "wf_service_authorization sa"
    and "encodeServiceHeader px (signed_json service_authorization_fields sa) = Some h" "h \<noteq> []" "length h \<le> 4096"
    and "parseUrl px url = Some u" "issuedAt - 30000 \<le> now" "now \<le> issuedAt + 120000"
  shows "\<exists>d. checkServiceAuthorization px
     \<lparr> sc_header = Some h, sc_pinnedAuthority = aa_address A, sc_method = ''POST'', sc_path = url_pathname u,
       sc_rawBody = utf8 body, sc_invocationIdHeader = Some (inv_id i), sc_asset = pm_asset m,
       sc_payTo = pm_payTo m, sc_amountAtomic = pm_amountAtomic m, sc_now = now \<rparr>
     = Some (CheckOk sa (computePaidRequestDigest px (createPaidRequest px url ''POST'' body)) d)"
proof -
  let ?q = "createPaidRequest px url ''POST'' body"
  obtain digest where sgn: "signServiceAuthorization px
               \<lparr> sa_authority = aa_address A, sa_invocationId = inv_id i, sa_grantId = pp_grantId permit,
                 sa_url = url, sa_requestSha256 = pq_sha256 ?q,
                 sa_operationDigest = digest, sa_network = pm_network m,
                 sa_asset = pm_asset m, sa_payTo = pm_payTo m,
                 sa_amountAtomic = pm_amountAtomic m, sa_issuedAt = issuedAt,
                 sa_expiresAt = issuedAt + SERVICE_AUTHORIZATION_TTL_MS \<rparr> (aa_signer A) = Inr sa" (is "signServiceAuthorization px ?b _ = _")
    using assms(5,6) by (auto simp: signServiceAuthorization_for_def split: stored_request.splits option.splits sum.splits)
  then have body: "sg_body sa = ?b"
    unfolding signServiceAuthorization_def by (auto dest: authorization_message.sign_only_own_key)
  have "keyAddress px (aa_signer A) = sa_authority ?b" using assms(4) by simp
  from authorization_message.sign_then_verify [OF assms(1,2) this] sgn
  have ver: "verifyServiceAuthorizationSignature px sa (aa_address A)"
    unfolding signServiceAuthorization_def verifyServiceAuthorizationSignature_def by auto
  have dec: "decodeServiceAuthorizationHeader px h = Some sa"
    using decode_authorization_encode [OF assms(3,7,9) _ assms(8)] assms(10) by (simp add: MAX_HEADER_CHARS_def)
  obtain d where "serviceAuthorizationDigest px sa = Some d"
    using canonicalDigest_total [OF assms(2) json_value_signed_service(1)]
    unfolding serviceAuthorizationDigest_def artifactDigest_def by blast
  then show ?thesis
    using dec ver assms(9,11-13)
    by (intro exI [of _ d]) (auto simp: checkServiceAuthorization_Ok body received_request_digest_def utf8_decode_iff
        utf8_inject SERVICE_AUTHORIZATION_TTL_MS_def)
qed

definition sample_signed_authorization :: "service_authorization signed" where
  "sample_signed_authorization = \<lparr> sg_body = sample_service_authorization, sg_signature = ''sT'' \<rparr>"

definition sample_header :: string where
  "sample_header = base64url_encode (utf8 (jtext (jnorm (signed_json service_authorization_fields sample_signed_authorization))))"

lemma wf_sample_authorization: "wf_service_authorization sample_signed_authorization"
  by (simp add: wf_service_authorization_def sample_signed_authorization_def sample_service_authorization_def
      base58_pattern_def is_base58_char_def hex64_pattern_def class_between_def sample_digest_def char_simps
      MAX_SAFE_INTEGER_def list_all_iff)

lemma length_json_quote_plain:
  "list_all (\<lambda>c. json_char c = [c]) s \<Longrightarrow> length (json_quote s) = 2 + length s"
  unfolding length_json_quote by (induction s) simp_all

lemma show_nat_samples: "show_nat (Suc 0) = ''1''" "show_nat 60 = ''60''" "show_nat 120060 = ''120060''"
  by (simp_all add: show_nat.simps digit_char_def char_of_def bit_numeral_rec bit_0)

lemma sample_header_length: "sample_header \<noteq> []" "length sample_header \<le> 4096"
proof -
  have "jlen (signed_json service_authorization_fields sample_signed_authorization) \<le> 1024"
    by (simp add: signed_json_def service_authorization_fields_def sample_signed_authorization_def
        sample_service_authorization_def signature_json_def SERVICE_AUTHORIZATION_DOMAIN_def length_json_quote
        json_char_def code_def sample_digest_def sum_list_replicate map_replicate show_nat_samples)
  then show "length sample_header \<le> 4096"
    using length_base64url [of "utf8 (jtext (jnorm (signed_json service_authorization_fields sample_signed_authorization)))"]
      length_utf8 [of "jtext (jnorm (signed_json service_authorization_fields sample_signed_authorization))"]
    unfolding sample_header_def length_jtext jlen_jnorm by linarith
  show "sample_header \<noteq> []"
    by (simp add: sample_header_def base64url_encode_Nil signed_json_def)
qed

lemma base58_signature: "canonicalDigest base58_platform p v = Some sample_digest" "keyAddress base58_platform k = ''K'' @ k"
  "signRaw base58_platform k b = ''s'' @ k" "sha256 base58_platform b = sample_digest"
  "canonicalize base58_platform v = Some (jtext (jnorm v))" "parseUrl base58_platform = sample_parse"
  using hex_digest hex_canonical
  by (simp_all add: canonicalDigest_def canonicalBytes_def sha256Hex_def base58_platform_def)
    (simp_all add: hex_platform_def sample_platform_def sample_digest_def)

definition base58_authority :: authority where
  "base58_authority = sample_authority \<lparr> aa_platform := base58_platform \<rparr>"

lemma base58_authority_fields: "aa_platform base58_authority = base58_platform" "aa_address base58_authority = ''KT''"
  "aa_signer base58_authority = ''T''"
  by (simp_all add: base58_authority_def sample_authority_def)

lemma sample_signed: "signServiceAuthorization_for base58_authority (new_row sample_reserve RESERVED [] 60) sample_permit
   (createPaidRequest base58_platform ''/report'' ''POST'' ''b'') (sample_requirement ''/report'') 60 = Some sample_signed_authorization"
  by (simp add: signServiceAuthorization_for_def new_row_def base58_authority_fields sample_reserve_def computeOperationDigest_def base58_signature
      signServiceAuthorization_def sign_pinned_def service_canonicalBytes_def canonicalBytes_def createPaidRequest_def computePaidRequestDigest_def
      sample_permit_def sample_requirement_def SERVICE_AUTHORIZATION_TTL_MS_def sample_signed_authorization_def sample_service_authorization_def)

theorem service_accepts_what_authority_sends_witness:
  "\<exists>d. checkServiceAuthorization base58_platform
     \<lparr> sc_header = Some sample_header, sc_pinnedAuthority = ''KT'', sc_method = ''POST'', sc_path = ''/report'',
       sc_rawBody = utf8 ''b'', sc_invocationIdHeader = Some ''i1'', sc_asset = ''M'',
       sc_payTo = ''R'', sc_amountAtomic = ''4'', sc_now = 70 \<rparr>
     = Some (CheckOk sample_signed_authorization sample_digest d)"
  using service_accepts_what_authority_sends [OF base58_platform_laws _ base58_authority_fields(1) [symmetric] sample_signed
      wf_sample_authorization _ sample_header_length, where now = 70]
  by (simp add: base58_authority_fields base58_signature sample_requirement_def sample_reserve_def computePaidRequestDigest_def sample_parse_def
      encodeServiceHeader_def sample_header_def)

end
