(* ===== verification/Provider_Properties.thy ===== *)
theory Provider_Properties
  imports Payments_Provider Sample_Data
begin

text \<open>
  What is shown of the payment provider (packages/payments): the transaction validator and the settlement
  check as relations, the ordering contract on the x402 provider itself, what a reported success rests on,
  how long the provider polls, and how much of a response it reads.
\<close>

section \<open>The transaction that is sent\<close>

text \<open>C11. The validator accepts a transaction exactly when it is the expected payment and nothing else:
  version 0, no lookup tables, the authority's own blockhash, the facilitator as fee payer, the payer as the
  only other signer and already signed, and, among compute-budget and memo instructions that touch no
  account, one single token instruction, whose ten data bytes are the TransferChecked tag, the expected
  amount as 64-bit little-endian, and a decimals byte, on the token accounts derived for payer and
  recipient.\<close>

theorem transaction_validator_exact:
  "validateExactPaymentTransaction sx v e = Valid sig program \<longleftrightarrow>
     (\<exists>b64 t raw before i after source destination decimals.
        v = JStr b64 \<and> b64 \<noteq> [] \<and> decodeTransaction sx b64 = Some t
        \<and> ep_feePayer e \<noteq> ep_payer e \<and> atomic_pattern (ep_amountAtomic e) \<and> dec (ep_amountAtomic e) < 2 ^ 64
        \<and> tx_version t = Some 0 \<and> tx_addressTableLookups t = [] \<and> tx_lifetimeToken t = ep_blockhash e
        \<and> account_at (tx_staticAccounts t) 0 = Some (ep_feePayer e)
        \<and> tx_numSignerAccounts t = 2 \<and> account_at (tx_staticAccounts t) 1 = Some (ep_payer e)
        \<and> length (tx_signatures t) = 2 \<and> {ep_feePayer e, ep_payer e} \<subseteq> fst ` set (tx_signatures t)
        \<and> map_of (tx_signatures t) (ep_payer e) = Some (Some raw) \<and> sig = base58Text sx raw
        \<and> tx_instructions t = before @ i # after
        \<and> account_at (tx_staticAccounts t) (ci_programAddressIndex i) = Some program
        \<and> program \<in> {TOKEN_PROGRAM, TOKEN_2022_PROGRAM}
        \<and> ci_bytes i = [TRANSFER_CHECKED] @ put_u64_le (word_of_nat (dec (ep_amountAtomic e))) @ [decimals]
        \<and> associatedTokenAddress sx (ep_payer e) (ep_asset e) program = Some source
        \<and> associatedTokenAddress sx (ep_payTo e) (ep_asset e) program = Some destination
        \<and> ci_accounts (tx_staticAccounts t) i = [Some source, Some (ep_asset e), Some destination, Some (ep_payer e)]
        \<and> list_all (is_benign (tx_staticAccounts t)) (before @ after))"
  unfolding validate_exact message_as_expected_def is_exact_transfer_def by blast

section \<open>The bounded reader\<close>

lemma readBounded_acc:
  "length out \<le> m \<Longrightarrow>
     readBounded m out cs = Some b \<longleftrightarrow> (\<exists>bs. cs = map Some bs \<and> b = out @ concat bs \<and> length b \<le> m)"
proof (induction cs arbitrary: out)
  case (Cons c cs)
  show ?case
  proof (cases c)
    case (Some v)
    have eq: "(\<exists>bs. Some v # cs = map Some bs \<and> b = out @ concat bs \<and> length b \<le> m)
        \<longleftrightarrow> (\<exists>bs. cs = map Some bs \<and> b = (out @ v) @ concat bs \<and> length b \<le> m)"
      by (auto simp: Cons_eq_map_conv)
    moreover have "readBounded m out (c # cs) = Some b \<longleftrightarrow>
        length (out @ v) \<le> m \<and> readBounded m (out @ v) cs = Some b" using Some by simp
    ultimately show ?thesis unfolding Some
    proof (cases "length (out @ v) \<le> m")
      case False
      then have "\<not> length b \<le> m" if "b = (out @ v) @ concat bs" for bs using that by simp
      with \<open>readBounded m out (c # cs) = Some b \<longleftrightarrow> _\<close> False Some
      show "(readBounded m out (Some v # cs) = Some b)
          = (\<exists>bs. Some v # cs = map Some bs \<and> b = out @ concat bs \<and> length b \<le> m)"
        unfolding eq by blast
    qed (use Cons.IH [of "out @ v"] eq Some in simp)
  qed (auto simp: Cons_eq_map_conv)
qed auto

text \<open>C35. The bounded reader returns a body exactly when every chunk arrives and the chunks together are
  within the bound, and then it returns their concatenation: it never buffers more than the bound.\<close>

theorem readBounded_exact:
  "readBounded maxBytes [] chunks = Some body \<longleftrightarrow>
     (\<exists>parts. chunks = map Some parts \<and> body = concat parts \<and> length body \<le> maxBytes)"
  by (subst readBounded_acc) simp_all

section \<open>What a reported success rests on\<close>

text \<open>\<open>chain_confirms e a c s s'\<close>: between the two states, in a state \<open>u\<close>, the provider asked its RPC for a
  transaction, and the answer passes the settlement check for the attempt, with the transaction and slot of
  the settlement.\<close>

definition get_transaction :: "string \<Rightarrow> jsval list" where
  "get_transaction signature =
     [JStr signature, JObj [(''encoding'', JStr ''jsonParsed''), (''commitment'', JStr ''confirmed''),
        (''maxSupportedTransactionVersion'', JInt 0)]]"

definition chain_confirms ::
  "payment_env \<Rightarrow> PaymentAttempt \<Rightarrow> ConfirmedSettlement \<Rightarrow> 'a net_state_scheme \<Rightarrow> 'a net_state_scheme \<Rightarrow> bool" where
  "chain_confirms e a c s s' \<longleftrightarrow>
     (\<exists>u signature tx. unpaid s u \<and> fst (rpc e ''getTransaction'' (get_transaction signature) u) = Some tx
        \<and> unpaid (snd (rpc e ''getTransaction'' (get_transaction signature) u)) s'
        \<and> checkSettledTransaction (en_solana e) (rpcTransaction (en_x402 e) tx) (expected_settlement a)
            = Some (Settled (cs_transactionId c) (cs_slot c)))"

lemma chain_confirms_after: "unpaid s t \<Longrightarrow> chain_confirms e a c t s' \<Longrightarrow> chain_confirms e a c s s'"
  unfolding chain_confirms_def by (blast intro: unpaid_trans)

lemma paid_retries_rpc [simp]: "paid_retries (snd (rpc e m ps s)) = paid_retries s"
  using unpaid_rpc [of s e m ps] by (simp add: unpaid_def)

lemma lookup_candidates_confirmed:
  "lookup_candidates e a h sigs s = (Some (Some (LookupConfirmed c)), s') \<Longrightarrow> chain_confirms e a c s s'"
proof (induction sigs arbitrary: s)
  case (Cons x sigs)
  obtain r s1 where r: "rpc e ''getTransaction'' (get_transaction x) s = (r, s1)" by fastforce
  have u: "unpaid s s1" using unpaid_rpc [of s e _ "get_transaction x"] r by (metis snd_conv)
  note run = Cons.prems [unfolded lookup_candidates.simps get_transaction_def [symmetric] r]
  then obtain v where v: "r = Some v" by (cases r) auto
  show ?case
  proof (cases "checkSettledTransaction (en_solana e) (rpcTransaction (en_x402 e) v) (expected_settlement a)")
    case None
    with run v show ?thesis by simp
  next
    case (Some k)
    show ?thesis
    proof (cases k)
      case NotThisPayment
      with run v Some have "lookup_candidates e a h sigs s1 = (Some (Some (LookupConfirmed c)), s')" by simp
      from Cons.IH [OF this] show ?thesis by (rule chain_confirms_after [OF u])
    next
      case (Settled t slot)
      with run v Some have "cs_transactionId c = t" "cs_slot c = slot" "s' = s1" by auto
      then show ?thesis using r v Some Settled unfolding chain_confirms_def
        by (intro exI [of _ s] exI [of _ x] exI [of _ v]) simp
    qed (use run v Some in auto)
  qed
qed simp

lemma x402_lookup_confirmed:
  assumes "x402_lookup e p a h s = (Some (LookupConfirmed c), s')"
  shows "chain_confirms e a c s s'"
proof -
  obtain r s1 where r: "rpc e ''getSignaturesForAddress''
         [JStr (at_payer a), JObj [(''limit'', JInt 50), (''commitment'', JStr ''confirmed'')]] s = (r, s1)" by fastforce
  have u: "unpaid s s1" using unpaid_rpc [of s e "''getSignaturesForAddress''"] r by (metis snd_conv)
  from assms obtain sigs where sg: "\<exists>v. r = Some v \<and> history_signatures (case v of JArr vs \<Rightarrow> vs | _ \<Rightarrow> []) = Some sigs"
    unfolding x402_lookup_def r by (cases r) (auto split: option.splits)
  obtain f s2 where f: "lookup_candidates e a h
     (dedup ((case h of Some h \<Rightarrow> if h = [] then [] else [h] | None \<Rightarrow> []) @ sigs)) s1 = (f, s2)" by fastforce
  from assms sg have run: "attempt_bind (f, s2) (\<lambda>found s.
           case found of
             Some l \<Rightarrow> (Some l, s)
           | None \<Rightarrow>
             attempt_bind (rpc e ''getBlockHeight'' [JObj [(''commitment'', JStr ''confirmed'')]] s) (\<lambda>h s.
               (case (json_bigint h, parse_bigint (at_lastValidBlockHeight a)) of
                  (Some height, Some lastValid) \<Rightarrow>
                    if height > lastValid + int (xp_expiryMarginBlocks p) then Some (LookupExpired (show_int height))
                    else Some (LookupPending (Some (show_int height)))
                | _ \<Rightarrow> None, s))) = (Some (LookupConfirmed c), s')"
    unfolding x402_lookup_def r f [symmetric] by auto
  then obtain g where g: "f = Some g" by (cases f) auto
  show ?thesis
  proof (cases g)
    case None
    with run g show ?thesis by (auto simp: attempt_bind_def split: option.splits prod.splits if_splits)
  next
    case (Some l)
    with run g f have "lookup_candidates e a h
     (dedup ((case h of Some h \<Rightarrow> if h = [] then [] else [h] | None \<Rightarrow> []) @ sigs)) s1 = (Some (Some (LookupConfirmed c)), s')" by auto
    then show ?thesis by (intro chain_confirms_after [OF u] lookup_candidates_confirmed)
  qed
qed

lemma await_loop_confirmed:
  "await_loop e p a h d s = (Some c, s') \<Longrightarrow> chain_confirms e a c s s'"
proof (induction e p a h d s rule: await_loop.induct)
  case (1 e p a h d s)
  have now: "ns_now s < d" using "1.prems" by (simp add: await_loop.simps split: if_splits)
  obtain l s1 where l: "x402_lookup e p a h s = (l, s1)" by fastforce
  then have u: "unpaid s (pause (en_world e) 500 s1)"
    using unpaid_lookup [of s e p a h] unpaid_pause unpaid_trans by (metis snd_conv)
  note run = "1.prems" [unfolded await_loop.simps [of e p a h d s] l]
  have IH: "chain_confirms e a c s s'"
    if "l = None \<or> (\<exists>h. l = Some (LookupPending h)) \<or> l = Some LookupInconclusive"
      and "await_loop e p a h d (pause (en_world e) 500 s1) = (Some c, s')"
    using chain_confirms_after [OF u] "1.IH" [OF _ l [symmetric]] now that by auto
  show ?case
  proof (cases l)
    case None
    with run now IH show ?thesis by simp
  next
    case (Some k)
    show ?thesis
    proof (cases k)
      case (LookupConfirmed c')
      with run now l Some have "x402_lookup e p a h s = (Some (LookupConfirmed c), s')" by simp
      then show ?thesis by (rule x402_lookup_confirmed)
    qed (use run now IH Some in simp_all)
  qed
qed

lemma transmit_confirmed:
  assumes "transmit e p input payload a s = (Some x, s')"
  shows "\<exists>credential. chain_confirms e a (ex_settlement x)
     (send (en_world e) (PaidRetry (ei_request input) (ei_reference input) (ei_serviceAuthorizationHeader input) credential) s) s'"
proof (cases "encodePaymentSignatureHeader (en_x402 e) payload")
  case None
  with assms show ?thesis by (simp add: transmit_def)
next
  case (Some credential)
  define q where "q = PaidRetry (ei_request input) (ei_reference input) (ei_serviceAuthorizationHeader input) credential"
  let ?s1 = "send (en_world e) q s"
  from assms [unfolded transmit_def Let_def Some option.case q_def [symmetric]]
  obtain reported where "awaitConfirmation e p a reported ?s1 = (Some (ex_settlement x), s')"
    by (auto simp: attempt_bind_def split: option.splits if_splits prod.splits)
  then have "chain_confirms e a (ex_settlement x) ?s1 s'"
    unfolding awaitConfirmation_def by (rule await_loop_confirmed)
  then show ?thesis unfolding q_def by blast
qed

lemma settled_facts:
  assumes "checkSettledTransaction sx tx e = Some (Settled tid slot)"
  shows "\<exists>t signatures destination ix. tx = Some t \<and> rt_signatures t = Some signatures
     \<and> es_payerSignature e \<in> set signatures \<and> tid = hd signatures
     \<and> (rt_err t = JNull \<or> rt_err t = JUndef) \<and> rt_recentBlockhash t = Some (es_blockhash e)
     \<and> ix \<in> set (rt_instructions t) \<and> ri_type ix = Some ''transferChecked''
     \<and> jget (ri_info ix) ''mint'' = JStr (es_asset e) \<and> jget (ri_info ix) ''authority'' = JStr (es_payer e)
     \<and> jget (ri_info ix) ''destination'' = JStr destination
     \<and> Some destination \<in> associatedTokenAddress sx (es_payTo e) (es_asset e) ` {TOKEN_PROGRAM, TOKEN_2022_PROGRAM}
     \<and> jget (jget (ri_info ix) ''tokenAmount'') ''amount'' = JStr (es_amountAtomic e)"
proof -
  have img: "Some d \<in> f ` {a, b}" if "f a = Some d \<or> f b = Some d" for f :: "string \<Rightarrow> string option" and a b d
    using that by (metis imageI insertI1 insertI2)
  obtain t signatures d d22 ix where
    "tx = Some t" "rt_signatures t = Some signatures" "es_payerSignature e \<in> set signatures" "tid = hd signatures"
    "rt_err t = JNull \<or> rt_err t = JUndef" "rt_recentBlockhash t = Some (es_blockhash e)"
    "ix \<in> set (rt_instructions t)" "ri_type ix = Some ''transferChecked''"
    "jget (ri_info ix) ''mint'' = JStr (es_asset e)" "jget (ri_info ix) ''authority'' = JStr (es_payer e)"
    "jget (jget (ri_info ix) ''tokenAmount'') ''amount'' = JStr (es_amountAtomic e)"
    and ata: "associatedTokenAddress sx (es_payTo e) (es_asset e) TOKEN_PROGRAM = Some d"
      "associatedTokenAddress sx (es_payTo e) (es_asset e) TOKEN_2022_PROGRAM = Some d22"
    and dest: "jget (ri_info ix) ''destination'' = JStr d \<or> jget (ri_info ix) ''destination'' = JStr d22"
    using assms unfolding settled_iff by blast
  moreover obtain destination where "jget (ri_info ix) ''destination'' = JStr destination"
      "Some destination \<in> associatedTokenAddress sx (es_payTo e) (es_asset e) ` {TOKEN_PROGRAM, TOKEN_2022_PROGRAM}"
    using dest img ata by metis
  ultimately show ?thesis by blast
qed

text \<open>C5. A payment is reported as made only on the authority's own reading of the chain: whatever the
  service and its facilitator answer, a successful execution has, after its paid retry (in a state \<open>u\<close>), asked
  the pinned RPC for a transaction that carries the payer's signature of this attempt, is bound to its
  blockhash, has no error, and moves exactly the amount of the asset to the recipient under the payer's
  authority.\<close>

theorem success_rests_on_the_chain:
  assumes "x402_execute e p input s = (Inr x, s')"
  shows "\<exists>credential u signature tx t signatures destination ix.
     PaidRetry (ei_request input) (ei_reference input) (ei_serviceAuthorizationHeader input) credential \<in> set (ns_sent u)
     \<and> fst (rpc e ''getTransaction'' (get_transaction signature) u) = Some tx
     \<and> unpaid (snd (rpc e ''getTransaction'' (get_transaction signature) u)) s'
     \<and> rpcTransaction (en_x402 e) tx = Some t
     \<and> rt_signatures t = Some signatures \<and> at_payerSignature (ex_attempt x) \<in> set signatures
     \<and> cs_transactionId (ex_settlement x) = hd signatures
     \<and> (rt_err t = JNull \<or> rt_err t = JUndef) \<and> rt_recentBlockhash t = Some (at_blockhash (ex_attempt x))
     \<and> ix \<in> set (rt_instructions t) \<and> ri_type ix = Some ''transferChecked''
     \<and> jget (ri_info ix) ''mint'' = JStr (at_asset (ex_attempt x))
     \<and> jget (ri_info ix) ''authority'' = JStr (at_payer (ex_attempt x))
     \<and> jget (ri_info ix) ''destination'' = JStr destination
     \<and> Some destination \<in> associatedTokenAddress (en_solana e) (at_payTo (ex_attempt x)) (at_asset (ex_attempt x))
          ` {TOKEN_PROGRAM, TOKEN_2022_PROGRAM}
     \<and> jget (jget (ri_info ix) ''tokenAmount'') ''amount'' = JStr (at_amountAtomic (ex_attempt x))"
proof -
  obtain payload a s1 s2 where p: "prepare e p input s = (Some (payload, a), s1)" "ei_beforeSubmit input a s1 = (True, s2)"
      "transmit e p input payload a s2 = (Some x, s')"
    using assms by (auto simp: x402_execute_def split: prod.splits option.splits bool.splits)
  from transmit_steps [OF p(3)] have a: "a = ex_attempt x" by simp
  define q where "q = PaidRetry (ei_request input) (ei_reference input) (ei_serviceAuthorizationHeader input)"
  from transmit_confirmed [OF p(3)] obtain credential u signature tx where
    u: "unpaid (send (en_world e) (q credential) s2) u"
       "fst (rpc e ''getTransaction'' (get_transaction signature) u) = Some tx"
       "unpaid (snd (rpc e ''getTransaction'' (get_transaction signature) u)) s'" and
    chk: "checkSettledTransaction (en_solana e) (rpcTransaction (en_x402 e) tx) (expected_settlement (ex_attempt x))
            = Some (Settled (cs_transactionId (ex_settlement x)) (cs_slot (ex_settlement x)))"
    unfolding chain_confirms_def q_def a by blast
  have "q credential \<in> set (ns_sent u)" using u(1) by (auto simp: unpaid_def)
  with u(2,3) settled_facts [OF chk, unfolded expected_settlement_def ExpectedSettlement.select_convs]
  show ?thesis unfolding q_def by blast
qed

section \<open>What is sent, and after what\<close>

text \<open>C4. The ordering contract, on the x402 provider: when its callback sends nothing itself, one execution
  sends at most one paid retry, of exactly the given request, and only after the callback resolved for an
  attempt at exactly the given requirement; a failure reported as not submitted has sent nothing, a success
  has sent exactly one, and the service being unreachable is never reported.\<close>

theorem x402_pays_once_after_callback:
  assumes "\<And>a s ok s'. ei_beforeSubmit input a s = (ok, s') \<Longrightarrow> paid_retries s' = paid_retries s"
    and "x402_execute e p input s = (r, s')"
  shows "case r of
     Inl PaidServiceUnavailableError \<Rightarrow> False
   | Inl PaymentNotSubmittedError \<Rightarrow> paid_retries s' = paid_retries s
   | Inl (PaymentOutcomeUnknownError a) \<Rightarrow> attempt_for input a
       \<and> (\<exists>s1 s2 sent. paid_retries s1 = paid_retries s \<and> ei_beforeSubmit input a s1 = (True, s2)
          \<and> paid_retries s' = paid_retries s @ sent
          \<and> (sent = [] \<or> (\<exists>credential. sent = [PaidRetry (ei_request input) (ei_reference input)
                (ei_serviceAuthorizationHeader input) credential])))
   | Inr x \<Rightarrow> attempt_for input (ex_attempt x)
       \<and> (\<exists>s1 s2 credential. paid_retries s1 = paid_retries s \<and> ei_beforeSubmit input (ex_attempt x) s1 = (True, s2)
          \<and> paid_retries s' = paid_retries s @ [PaidRetry (ei_request input) (ei_reference input)
                (ei_serviceAuthorizationHeader input) credential])"
proof -
  have run: "pp_execute (x402_provider e p) input s = (r, s')" using assms(2) by (simp add: x402_provider_def)
  show ?thesis
  proof (cases r)
    case (Inl err)
    show ?thesis
    proof (cases err)
      case PaidServiceUnavailableError
      with x402.execute_reaches_service [of e p input s] run Inl show ?thesis by simp
    next
      case PaymentNotSubmittedError
      with x402.not_submitted_pays_nothing [OF assms(1)] run Inl show ?thesis by simp
    next
      case (PaymentOutcomeUnknownError a)
      with x402.execute_unknown run Inl have "submitted paid_retries net_state.more input a s s'" by blast
      with Inl PaymentOutcomeUnknownError assms(1) show ?thesis unfolding submitted_def by simp metis
    qed
  next
    case (Inr x)
    obtain payload a s1 s2 where p: "prepare e p input s = (Some (payload, a), s1)" "ei_beforeSubmit input a s1 = (True, s2)"
        "transmit e p input payload a s2 = (Some x, s')"
      using assms(2) Inr by (auto simp: x402_execute_def split: prod.splits option.splits bool.splits)
    from transmit_confirmed [OF p(3)] obtain credential where
      "paid_retries s' = paid_retries s2 @ [PaidRetry (ei_request input) (ei_reference input)
                (ei_serviceAuthorizationHeader input) credential]"
      unfolding chain_confirms_def by (auto simp: unpaid_def paid_retries_rpc)
    moreover have "a = ex_attempt x" using transmit_steps [OF p(3)] by simp
    moreover have "unpaid s s1" "attempt_for input a" using prepare_steps [of s e p input] p(1) by auto
    ultimately show ?thesis using Inr p(2) assms(1) [OF p(2)] unfolding unpaid_def by auto
  qed
qed

section \<open>How long the provider polls\<close>

definition history_queries :: "'a net_state_scheme \<Rightarrow> nat" where
  "history_queries s = length (filter (\<lambda>q. case q of RpcCall m _ \<Rightarrow> m = ''getSignaturesForAddress'' | _ \<Rightarrow> False) (ns_sent s))"

lemma history_queries_simps [simp]:
  "history_queries (pause w ms s) = history_queries s"
  "history_queries (send w (RpcCall m ps) s) = history_queries s + (if m = ''getSignaturesForAddress'' then 1 else 0)"
  "history_queries (snd (rpc e m ps s)) = history_queries s + (if m = ''getSignaturesForAddress'' then 1 else 0)"
  by (simp_all add: history_queries_def rpc_def Let_def)

lemma history_queries_bind:
  "history_queries (snd (attempt_bind m f)) = n"
  if "\<And>a t. history_queries (snd (f a t)) = history_queries t" "history_queries (snd m) = n"
  using that by (auto simp: attempt_bind_def split: prod.splits option.splits)

lemma history_queries_candidates [simp]:
  "history_queries (snd (lookup_candidates e a h sigs s)) = history_queries s"
proof (induction sigs arbitrary: s)
  case (Cons x sigs)
  show ?case unfolding lookup_candidates.simps
    by (rule history_queries_bind) (simp_all add: Cons.IH split: option.split SettledTransactionCheck.split)
qed simp

lemma history_queries_lookup: "history_queries (snd (x402_lookup e p a h s)) = Suc (history_queries s)"
  unfolding x402_lookup_def
    by (rule history_queries_bind) (auto split: option.split intro!: history_queries_bind)

lemma history_queries_await_loop:
  "history_queries (snd (await_loop e p a h d s)) \<le> history_queries s + (nat (d - ns_now s) + 499) div 500"
proof (induction e p a h d s rule: await_loop.induct)
  case (1 e p a h d s)
  show ?case
  proof (cases "ns_now s < d")
    case True
    obtain l s1 where l: "x402_lookup e p a h s = (l, s1)" by fastforce
    have q: "history_queries s1 = Suc (history_queries s)" using history_queries_lookup [of e p a h s] l by simp
    have "ns_now s \<le> ns_now s1" using unpaid_lookup [of s e p a h] l by (simp add: unpaid_def)
    moreover have "ns_now s1 + 500 \<le> ns_now (pause (en_world e) 500 s1)" using pause_simps(3) [of s1 500] by simp
    ultimately have t: "nat (d - ns_now (pause (en_world e) 500 s1)) \<le> nat (d - ns_now s) - 500" by linarith
    have n: "nat (d - ns_now s) > 0" using True by simp
    have step: "Suc ((k' + 499) div 500) \<le> (k + 499) div 500" if "k' \<le> k - 500" "0 < k" for k k' :: nat
    proof (cases "500 \<le> k")
      case True
      then have "k' + 999 \<le> k + 499" using that by linarith
      then have "(k' + 999) div 500 \<le> (k + 499) div 500" by (rule div_le_mono)
      then show ?thesis by simp
    next
      case False
      then have "k' = 0" "500 \<le> k + 499" using that by auto
      then show ?thesis using div_le_mono [of 500 "k + 499" 500] by simp
    qed
    have one: "Suc 0 \<le> (nat (d - ns_now s) + 499) div 500" using step [of 0] n by simp
    have IH: "history_queries (snd (await_loop e p a h d (pause (en_world e) 500 s1)))
        \<le> history_queries s + (nat (d - ns_now s) + 499) div 500"
      if "l = None \<or> (\<exists>h. l = Some (LookupPending h)) \<or> l = Some LookupInconclusive"
    proof -
      have "history_queries (snd (await_loop e p a h d (pause (en_world e) 500 s1)))
          \<le> history_queries s1 + (nat (d - ns_now (pause (en_world e) 500 s1)) + 499) div 500"
        using "1.IH" [OF _ l [symmetric]] True that by auto
      with step [OF t n] q show ?thesis by linarith
    qed
    have "history_queries s1 \<le> history_queries s + (nat (d - ns_now s) + 499) div 500" using q one by linarith
    with IH True l show ?thesis
      unfolding await_loop.simps [of e p a h d s] by (simp split: option.split SettlementLookup.split)
  qed (simp add: await_loop.simps)
qed

text \<open>C34. Waiting for the confirmation ends: the loop polls at most once per started half second of the
  configured wait, however the RPC answers, sends no payment, and never lets time run backwards.\<close>

theorem confirmation_wait_bounded:
  "history_queries (snd (awaitConfirmation e p a h s)) \<le> history_queries s + (xp_confirmationWaitMs p + 499) div 500
   \<and> unpaid s (snd (awaitConfirmation e p a h s))"
  using history_queries_await_loop [of e p a h "ns_now s + int (xp_confirmationWaitMs p)" s]
    unpaid_awaitConfirmation [of s e p a h] unfolding awaitConfirmation_def by simp

end
