(* ===== verification/Sample_Provider.thy ===== *)
theory Sample_Provider
  imports Provider_Properties
begin

text \<open>
  A concrete run of the x402 provider for the witnesses: a world whose RPC hands out the blockhash, whose
  service answers the paid retry, and whose chain shows the transfer.
\<close>

text \<open>Every text decodes to the exact transfer, with the given signature of the payer.\<close>

definition solana_signed :: "string \<Rightarrow> solana" where
  "solana_signed sig = \<lparr>
     decodeTransaction = (\<lambda>_. Some \<lparr> tx_messageBytes = ''m'', tx_signatures = [(''F'', None), (''KP'', Some sig)],
        tx_version = Some 0, tx_numSignerAccounts = 2,
        tx_staticAccounts = [''F'', ''KP'', ''KP'' @ TOKEN_PROGRAM @ ''M'', ''M'', ''R'' @ TOKEN_PROGRAM @ ''M'', TOKEN_PROGRAM],
        tx_lifetimeToken = ''b'', tx_addressTableLookups = [],
        tx_instructions = [\<lparr> ci_programAddressIndex = 5, ci_accountIndices = Some [2, 3, 4, 1],
           ci_data = Some ([TRANSFER_CHECKED] @ put_u64_le 4 @ [6]) \<rparr>] \<rparr>),
     addressBytes = Some, programDerivedAddress = (\<lambda>_ seeds. Some (concat seeds)), base58Text = (\<lambda>b. b) \<rparr>"

definition sample_solana :: solana where
  "sample_solana = solana_signed ''ps''"

definition sample_transfer_info :: jsval where
  "sample_transfer_info = JObj [(''mint'', JStr ''M''), (''authority'', JStr ''KP''),
     (''destination'', JStr (''R'' @ TOKEN_PROGRAM @ ''M'')), (''tokenAmount'', JObj [(''amount'', JStr ''4'')])]"

definition sample_x402_lib :: x402_lib where
  "sample_x402_lib = \<lparr> getPaymentRequiredResponse = (\<lambda>_. None),
     getPaymentSettleResponse = (\<lambda>_. Some (JObj [(''success'', JBool True)])),
     encodePaymentSignatureHeader = (\<lambda>_. Some [(''PAYMENT-SIGNATURE'', ''c'')]),
     rpcTransaction = (\<lambda>_. Some \<lparr> rt_slot = Some 7, rt_err = JNull, rt_signatures = Some [''ps''],
        rt_recentBlockhash = Some ''b'',
        rt_instructions = [\<lparr> ri_type = Some ''transferChecked'', ri_info = sample_transfer_info \<rparr>] \<rparr>),
     jsonStringify = (\<lambda>_. []) \<rparr>"

fun sample_rpc_result :: "outbound \<Rightarrow> jsval" where
  "sample_rpc_result (RpcCall m _) =
     (if m = ''getLatestBlockhash''
      then JObj [(''value'', JObj [(''blockhash'', JStr ''b''), (''lastValidBlockHeight'', JInt 9)])]
      else if m = ''getSignaturesForAddress'' then JArr [JObj [(''signature'', JStr ''ps'')]] else JNull)"
| "sample_rpc_result _ = JNull"

definition paying_world :: world where
  "paying_world = \<lparr> w_elapsed = (\<lambda>_. 0),
     w_fetch = (\<lambda>_ _. Some \<lparr> hr_status = 200, hr_headers = (\<lambda>_. None), hr_body = [Some ''ok''] \<rparr>),
     w_rpc = (\<lambda>_ q. Some (True, Some (JObj [(''result'', sample_rpc_result q)]))),
     w_payload = (\<lambda>_ _. Some (JObj [(''payload'', JObj [(''transaction'', JStr ''tx'')])])) \<rparr>"

definition paying_env :: payment_env where
  "paying_env = \<lparr> en_platform = hex_platform, en_solana = sample_solana, en_x402 = sample_x402_lib, en_world = paying_world \<rparr>"

definition paying_provider :: X402ExactPaymentProvider where
  "paying_provider = create_x402_provider
     \<lparr> xo_profile = \<lparr> sp_name = ''sandbox'', sp_permitNetwork = ''devnet'', sp_environment = ''sandbox'',
          sp_rpcUrl = ''r'', sp_acceptedChallengeNetworks = [''n''], sp_allowedAssets = [''M''], sp_protocol = ''x402'',
          sp_x402Version = 2, sp_scheme = ''exact'', sp_requiredBlockhashPrefix = ''b'' \<rparr>,
       xo_signer = Some ''KP'', xo_maxResultBytes = None, xo_confirmationWaitMs = None, xo_expiryMarginBlocks = None \<rparr> ''G''"

definition paying_request :: PaidRequest where
  "paying_request = createPaidRequest hex_platform ''/report'' ''POST'' ''q''"

definition paying_input :: "net_state ExecuteInput" where
  "paying_input = \<lparr> ei_request = paying_request,
     ei_challenge = \<lparr> ch_requirements = [], ch_requestSha256 = pq_sha256 paying_request,
        ch_raw = JObj [(''accepts'', JArr [JObj [(''payTo'', JStr ''R''), (''amount'', JStr ''4''), (''asset'', JStr ''M'')]])] \<rparr>,
     ei_requirement = \<lparr> pm_protocol = ''x402'', pm_x402Version = 2, pm_acceptsIndex = 0, pm_scheme = ''exact'',
        pm_network = ''n'', pm_asset = ''M'', pm_payTo = ''R'', pm_amountAtomic = ''4'', pm_feePayer = Some ''F'',
        pm_maxTimeoutSeconds = None, pm_resourceUrl = None \<rparr>,
     ei_reference = ''i1'', ei_serviceAuthorizationHeader = Some ''h'', ei_beforeSubmit = (\<lambda>a s. (True, s)) \<rparr>"

definition paying_state :: net_state where
  "paying_state = \<lparr> ns_tick = 0, ns_now = 60, ns_sent = [] \<rparr>"

lemma paying_fields [simp]:
  "en_platform paying_env = hex_platform" "en_solana paying_env = sample_solana" "en_x402 paying_env = sample_x402_lib"
  "en_world paying_env = paying_world"
  by (simp_all add: paying_env_def)

lemma paying_provider_fields [simp]:
  "xp_signer paying_provider = ''KP''" "sp_name (xp_profile paying_provider) = ''sandbox''"
  "sp_requiredBlockhashPrefix (xp_profile paying_provider) = ''b''" "xp_maxResultBytes paying_provider = 16384"
  "xp_confirmationWaitMs paying_provider = 10000"
  by (simp_all add: paying_provider_def create_x402_provider_def or_default_def)

lemma paying_input_fields [simp]:
  "ei_request paying_input = paying_request" "pm_acceptsIndex (ei_requirement paying_input) = 0"
  "ch_requestSha256 (ei_challenge paying_input) = pq_sha256 paying_request" "pm_scheme (ei_requirement paying_input) = ''exact''"
  "pm_payTo (ei_requirement paying_input) = ''R''" "pm_amountAtomic (ei_requirement paying_input) = ''4''"
  "pm_asset (ei_requirement paying_input) = ''M''" "pm_network (ei_requirement paying_input) = ''n''"
  "pm_feePayer (ei_requirement paying_input) = Some ''F''" "ei_beforeSubmit paying_input a s = (True, s)"
  "jget (accepts_at (ch_raw (ei_challenge paying_input)) 0) ''payTo'' = JStr ''R''"
  "jget (accepts_at (ch_raw (ei_challenge paying_input)) 0) ''amount'' = JStr ''4''"
  "jget (accepts_at (ch_raw (ei_challenge paying_input)) 0) ''asset'' = JStr ''M''"
  by (simp_all add: paying_input_def accepts_at_def)

lemma paying_request_fields [simp]: "pq_url paying_request = ''/report''"
  "paidRequestMatches hex_platform paying_request (pq_sha256 paying_request)"
  by (simp_all add: paying_request_def createPaidRequest_def paidRequestMatches_def computePaidRequestDigest_def)

lemma paying_rpc: "rpc paying_env m ps s = (Some (sample_rpc_result (RpcCall m ps)), send paying_world (RpcCall m ps) s)"
  by (simp add: rpc_def paying_world_def nullish_def)

lemma paying_blockhash: "freshBlockhash paying_env paying_provider s
   = (Some (''b'', 9), send paying_world (RpcCall ''getLatestBlockhash'' [JObj [(''commitment'', JStr ''confirmed'')]]) s)"
  by (simp add: freshBlockhash_def paying_rpc nullish_def starts_with_def)

lemma signed_derived: "associatedTokenAddress (solana_signed sig) w m p = Some (w @ p @ m)"
  by (simp add: associatedTokenAddress_def solana_signed_def)

lemma signed_transaction_valid:
  "validateExactPaymentTransaction (solana_signed sig) (JStr ''tx'')
     \<lparr> ep_payer = ''KP'', ep_feePayer = ''F'', ep_asset = ''M'', ep_payTo = ''R'', ep_amountAtomic = ''4'', ep_blockhash = ''b'' \<rparr>
   = Valid sig TOKEN_PROGRAM"
proof -
  have "dec ''4'' = 4" by (simp add: dec_def)
  then show ?thesis
    unfolding validate_exact message_as_expected_def is_exact_transfer_def
    by (simp add: signed_derived) (simp add: solana_signed_def account_at_def ci_accounts_def ci_bytes_def
      Cons_eq_append_conv is_digit_def code_def)
qed

lemmas sample_derived = signed_derived [of "''ps''", folded sample_solana_def]

lemmas paying_transaction_valid = signed_transaction_valid [of "''ps''", folded sample_solana_def]

definition paying_attempt :: PaymentAttempt where
  "paying_attempt = \<lparr> at_protocol = ''x402'', at_scheme = ''exact'', at_settlementProfile = ''sandbox'',
     at_network = ''n'', at_payer = ''KP'', at_payerSignature = ''ps'', at_feePayer = ''F'', at_asset = ''M'',
     at_payTo = ''R'', at_amountAtomic = ''4'', at_blockhash = ''b'', at_lastValidBlockHeight = show_int 9,
     at_resourceUrl = ''/report'', at_requestSha256 = pq_sha256 paying_request, at_transactionBase64 = Some ''tx'',
     at_preparedAt = 60 \<rparr>"

lemma paying_prepare:
  "\<exists>s1. prepare paying_env paying_provider paying_input paying_state
     = (Some (JObj [(''payload'', JObj [(''transaction'', JStr ''tx'')])], paying_attempt), s1) \<and> ns_now s1 = 60"
  unfolding prepare_def Let_def
  by (simp add: paying_blockhash paying_transaction_valid)
    (simp add: paying_world_def paying_transaction_valid paying_attempt_def pass_def send_def paying_state_def)

lemma paying_settled:
  "checkSettledTransaction sample_solana (rpcTransaction sample_x402_lib v) (expected_settlement paying_attempt)
     = Some (Settled ''ps'' (Some (show_int 7)))"
  by (simp add: settled_iff sample_derived expected_settlement_def paying_attempt_def)
    (simp add: sample_x402_lib_def sample_transfer_info_def)

lemma paying_lookup:
  "\<exists>c s1. x402_lookup paying_env paying_provider paying_attempt None s = (Some (LookupConfirmed c), s1)"
  by (simp add: x402_lookup_def paying_rpc nullish_def paying_settled str_opt_def dedup_def)

lemma paying_confirmed:
  "\<exists>c s1. awaitConfirmation paying_env paying_provider paying_attempt None s = (Some c, s1)"
  using paying_lookup [of s] unfolding awaitConfirmation_def await_loop.simps [where s = s] by auto

lemma paying_transmit: "\<exists>x s1. transmit paying_env paying_provider paying_input payload paying_attempt s = (Some x, s1)"
proof -
  have lib: "encodePaymentSignatureHeader sample_x402_lib payload = Some [(''PAYMENT-SIGNATURE'', ''c'')]"
      "getPaymentSettleResponse sample_x402_lib h = Some (JObj [(''success'', JBool True)])" for h
    by (simp_all add: sample_x402_lib_def)
  have w: "w_fetch paying_world n q = Some \<lparr> hr_status = 200, hr_headers = (\<lambda>_. None), hr_body = [Some ''ok''] \<rparr>" for n q
    by (simp add: paying_world_def)
  define q where "q = PaidRetry (ei_request paying_input) (ei_reference paying_input)
     (ei_serviceAuthorizationHeader paying_input) [(''PAYMENT-SIGNATURE'', ''c'')]"
  obtain c s1 where "awaitConfirmation paying_env paying_provider paying_attempt None (send paying_world q s) = (Some c, s1)"
    using paying_confirmed by blast
  then show ?thesis
    unfolding transmit_def Let_def paying_fields lib option.case q_def [symmetric] w by simp
qed

text \<open>The execution succeeds.\<close>

lemma paying_executes: "\<exists>x s'. x402_execute paying_env paying_provider paying_input paying_state = (Inr x, s')"
proof -
  obtain s1 where p: "prepare paying_env paying_provider paying_input paying_state
     = (Some (JObj [(''payload'', JObj [(''transaction'', JStr ''tx'')])], paying_attempt), s1)"
    using paying_prepare by blast
  obtain x s2 where "transmit paying_env paying_provider paying_input
      (JObj [(''payload'', JObj [(''transaction'', JStr ''tx'')])]) paying_attempt s1 = (Some x, s2)"
    using paying_transmit by blast
  with p show ?thesis by (simp add: x402_execute_def)
qed

theorem x402_pays_once_after_callback_witness:
  "\<exists>x s'. x402_execute paying_env paying_provider paying_input paying_state = (Inr x, s')
     \<and> length (paid_retries s') = 1"
proof -
  obtain x s' where run: "x402_execute paying_env paying_provider paying_input paying_state = (Inr x, s')"
    using paying_executes by blast
  have "length (paid_retries s') = Suc (length (paid_retries paying_state))"
    using x402_pays_once_after_callback [OF _ run] by auto
  with run show ?thesis by (simp add: paying_state_def paid_retries_def)
qed

theorem success_rests_on_the_chain_witness:
  "\<exists>x s'. x402_execute paying_env paying_provider paying_input paying_state = (Inr x, s')
     \<and> at_payerSignature (ex_attempt x) = ''ps''"
proof -
  obtain x s' where run: "x402_execute paying_env paying_provider paying_input paying_state = (Inr x, s')"
    using paying_executes by blast
  have sigs: "rpcTransaction sample_x402_lib v = Some t \<Longrightarrow> rt_signatures t = Some [''ps'']" for v t
    by (auto simp: sample_x402_lib_def)
  from success_rests_on_the_chain [OF run] obtain tx t signatures where
    "rpcTransaction sample_x402_lib tx = Some t" "rt_signatures t = Some signatures"
    "at_payerSignature (ex_attempt x) \<in> set signatures"
    unfolding paying_fields by blast
  with sigs have "at_payerSignature (ex_attempt x) = ''ps''" by fastforce
  with run show ?thesis by blast
qed

end
