(* ===== verification/Evidence_Properties.thy ===== *)
theory Evidence_Properties
  imports Evidence_Service Payment_Properties
begin

text \<open>
  What is shown of the parsers of the evidence package: the closed, exact shapes of the messages exchanged
  with the paid service.
\<close>

text \<open>The parser of a service authorization is exact: a JSON value is accepted exactly when it is, up to
  the order of its keys, the JSON form of the message returned, with every field within its pattern, bound
  and type.  No key may be missing, repeated or added, at any level.  The parser of an acknowledgement is
  exact in the same way.\<close>

theorem service_message_parsers_exact:
  assumes "json_value v"
  shows "(parseServiceAuthorization v = Some \<lparr> sg_body = a, sg_signature = sig \<rparr> \<longleftrightarrow>
      jnorm v = jnorm (JObj (service_authorization_fields a @ [(''signature'', signature_json sig)]))
      \<and> base58_pattern (sa_authority a) \<and> length (sa_authority a) \<le> 64
      \<and> list_all (\<lambda>(n, t). t \<noteq> [] \<and> length t \<le> n) [(128, sa_invocationId a), (128, sa_grantId a), (2048, sa_url a),
           (128, sa_network a), (64, sa_asset a), (64, sa_payTo a)]
      \<and> hex64_pattern (sa_requestSha256 a) \<and> hex64_pattern (sa_operationDigest a)
      \<and> atomic_pattern (sa_amountAtomic a)
      \<and> 1 \<le> sa_issuedAt a \<and> sa_issuedAt a \<le> 2 ^ 53 - 1 \<and> 1 \<le> sa_expiresAt a \<and> sa_expiresAt a \<le> 2 ^ 53 - 1
      \<and> base58_pattern sig \<and> length sig \<le> 128)
    \<and> (parseServiceAcknowledgement v = Some m \<longleftrightarrow>
      jnorm v = jnorm (JObj (service_acknowledgement_fields (sg_body m) @ [(''signature'', signature_json (sg_signature m))]))
      \<and> wf_service_acknowledgement m)"
  unfolding parseServiceAuthorization_exact [OF assms] parseServiceAcknowledgement_exact [OF assms]
  by (auto simp: wf_service_authorization_def signed_json_def MAX_SAFE_INTEGER_def)

theorem service_message_parsers_exact_witness:
  "parseServiceAuthorization (JObj (service_authorization_fields sample_service_authorization @ [(''signature'', signature_json ''sT'')]))
     = Some \<lparr> sg_body = sample_service_authorization, sg_signature = ''sT'' \<rparr>
   \<and> parseServiceAuthorization (JObj ((''extra'', JNull) # service_authorization_fields sample_service_authorization
        @ [(''signature'', signature_json ''sT'')]))
     \<noteq> Some \<lparr> sg_body = sample_service_authorization, sg_signature = ''sT'' \<rparr>"
  (is "_ = Some ?m \<and> parseServiceAuthorization ?w \<noteq> _")
proof -
  let ?v = "JObj (service_authorization_fields sample_service_authorization @ [(''signature'', signature_json ''sT'')])"
  have v: "json_value ?v" "json_value ?w"
    by (simp_all add: service_authorization_fields_def signature_json_def)
  have "parseServiceAuthorization ?v = Some ?m"
    unfolding service_message_parsers_exact [OF v(1), THEN conjunct1]
    by (simp add: sample_service_authorization_def base58_pattern_def is_base58_char_def hex64_pattern_def
        class_between_def sample_digest_def char_simps list_all_iff)
  moreover have "jnorm ?w \<noteq> jnorm ?v"
    using arg_cong [where f = "\<lambda>v. case v of JObj kvs \<Rightarrow> length kvs | _ \<Rightarrow> 0", of "jnorm ?w" "jnorm ?v"]
    by (auto simp: service_authorization_fields_def)
  then have "parseServiceAuthorization ?w \<noteq> Some ?m"
    unfolding service_message_parsers_exact [OF v(2), THEN conjunct1] by blast
  ultimately show ?thesis by simp
qed

end
