(* ===== verification/Evidence_Bundle.thy ===== *)
theory Evidence_Bundle
  imports Evidence_Service Payments_Settlement
begin

text \<open>
  packages/evidence/src/types.ts and manifest.ts: the artifacts of one purchase, their digests, and the
  manifest in which the authority signs all of them.

  A parsed artifact carries the text of its domain (or protocol) field beside the typed value, because the
  parser of the bundle accepts any text there: \<open>'p tagged\<close>.  Version 2 of the bundle adds the two service
  messages, and its manifest their two digests: \<open>None\<close> in \<open>ea_service\<close> and \<open>em_serviceDigests\<close> is version 1.
\<close>

section \<open>Artifacts\<close>

definition EVIDENCE_BUNDLE_DOMAIN :: string where
  "EVIDENCE_BUNDLE_DOMAIN = ''virtual-haibin/evidence-bundle''"

definition EVIDENCE_MANIFEST_DOMAIN :: string where
  "EVIDENCE_MANIFEST_DOMAIN = ''virtual-haibin/evidence-manifest''"

datatype PurchaseState = CONFIRMED | DENIED | FAILED | RECONCILIATION_REQUIRED

definition PURCHASE_STATES :: "PurchaseState list" where
  "PURCHASE_STATES = [CONFIRMED, DENIED, FAILED, RECONCILIATION_REQUIRED]"

fun purchase_state_text :: "PurchaseState \<Rightarrow> string" where
  "purchase_state_text CONFIRMED = ''CONFIRMED''"
| "purchase_state_text DENIED = ''DENIED''"
| "purchase_state_text FAILED = ''FAILED''"
| "purchase_state_text RECONCILIATION_REQUIRED = ''RECONCILIATION_REQUIRED''"

record 'p tagged =
  tg_text :: string
  tg_value :: 'p

record EvidenceResult =
  er_httpStatus :: int
  er_bodyBase64 :: string
  er_bytes :: int
  er_sha256 :: string

record service_artifacts =
  sv_authorization :: "service_authorization signed option"
  sv_acknowledgement :: "service_acknowledgement signed option"

text \<open>The method and the content type of the outbound request are constants of its type.\<close>

record EvidenceArtifacts =
  ea_settlementProfile :: string
  ea_grantId :: string
  ea_invocationId :: string
  ea_purchasePermit :: "permit_v2 tagged signed"
  ea_request :: "request_v2 tagged"
  ea_agentSignature :: string
  ea_authorityDecision :: "receipt_v2 tagged signed option"
  ea_outboundRequest :: "PaidRequest option"
  ea_paymentRequirement :: "PaymentRequirement option"
  ea_paymentAttempt :: "PaymentAttempt option"
  ea_settlement :: "ConfirmedSettlement option"
  ea_result :: "EvidenceResult option"
  ea_service :: "service_artifacts option"

record EvidenceDigests =
  dg_purchasePermit :: string
  dg_authorizationRequest :: string
  dg_operation :: string
  dg_authorityDecision :: "string option"
  dg_outboundRequest :: "string option"
  dg_paymentRequirement :: "string option"
  dg_paymentAttempt :: "string option"
  dg_settlement :: "string option"
  dg_result :: "string option"

record service_digests =
  dg_serviceAuthorization :: "string option"
  dg_serviceAcknowledgement :: "string option"

record EvidenceManifest =
  em_authority :: string
  em_issuedAt :: int
  em_settlementProfile :: string
  em_grantId :: string
  em_invocationId :: string
  em_purchaseState :: PurchaseState
  em_decision :: verdict
  em_reasonCodes :: "string list"
  em_digests :: EvidenceDigests
  em_serviceDigests :: "service_digests option"

record EvidenceBundle = EvidenceArtifacts +
  eb_manifest :: "EvidenceManifest signed"

section \<open>JSON forms\<close>

definition with_text :: "string \<Rightarrow> string \<Rightarrow> (string \<times> jsval) list \<Rightarrow> (string \<times> jsval) list" where
  "with_text k t kvs = map (\<lambda>(k', v). (k', if k' = k then JStr t else v)) kvs"

definition permit_artifact_fields :: "permit_v2 tagged \<Rightarrow> (string \<times> jsval) list" where
  "permit_artifact_fields p = with_text ''domain'' (tg_text p) (permit_v2_fields (tg_value p))"

definition receipt_artifact_fields :: "receipt_v2 tagged \<Rightarrow> (string \<times> jsval) list" where
  "receipt_artifact_fields r = with_text ''domain'' (tg_text r) (receipt_v2_fields (tg_value r))"

definition request_artifact_fields :: "request_v2 tagged \<Rightarrow> (string \<times> jsval) list" where
  "request_artifact_fields r = with_text ''protocol'' (tg_text r)
     (shared_request_fields (tg_value r) 2 @ [(''operation'', operation_json (rq_operation (tg_value r)))])"

definition authorization_request_json :: "request_v2 tagged \<Rightarrow> string \<Rightarrow> jsval" where
  "authorization_request_json r agentSignature =
     JObj [(''request'', JObj (request_artifact_fields r)), (''agentSignature'', signature_json agentSignature)]"

definition outbound_request_json :: "PaidRequest \<Rightarrow> jsval" where
  "outbound_request_json q =
     JObj [(''method'', JStr (pq_method q)), (''url'', JStr (pq_url q)), (''contentType'', JStr (pq_contentType q)),
       (''body'', JStr (pq_body q)), (''sha256'', JStr (pq_sha256 q))]"

definition requirement_json :: "PaymentRequirement \<Rightarrow> jsval" where
  "requirement_json m =
     JObj [(''protocol'', JStr (pm_protocol m)), (''x402Version'', JInt (pm_x402Version m)),
       (''acceptsIndex'', JInt (int (pm_acceptsIndex m))), (''scheme'', JStr (pm_scheme m)),
       (''network'', JStr (pm_network m)), (''asset'', JStr (pm_asset m)), (''payTo'', JStr (pm_payTo m)),
       (''amountAtomic'', JStr (pm_amountAtomic m)), (''feePayer'', opt_json JStr (pm_feePayer m)),
       (''maxTimeoutSeconds'', opt_json (\<lambda>v. v) (pm_maxTimeoutSeconds m)),
       (''resourceUrl'', opt_json JStr (pm_resourceUrl m))]"

definition attempt_fields :: "PaymentAttempt \<Rightarrow> (string \<times> jsval) list" where
  "attempt_fields a =
     [(''protocol'', JStr (at_protocol a)), (''scheme'', JStr (at_scheme a)),
       (''settlementProfile'', JStr (at_settlementProfile a)), (''network'', JStr (at_network a)),
       (''payer'', JStr (at_payer a)), (''payerSignature'', JStr (at_payerSignature a)),
       (''feePayer'', JStr (at_feePayer a)), (''asset'', JStr (at_asset a)), (''payTo'', JStr (at_payTo a)),
       (''amountAtomic'', JStr (at_amountAtomic a)), (''blockhash'', JStr (at_blockhash a)),
       (''lastValidBlockHeight'', JStr (at_lastValidBlockHeight a)), (''resourceUrl'', JStr (at_resourceUrl a)),
       (''requestSha256'', JStr (at_requestSha256 a)), (''preparedAt'', JInt (at_preparedAt a))]
     @ (case at_transactionBase64 a of None \<Rightarrow> [] | Some t \<Rightarrow> [(''transactionBase64'', JStr t)])"

definition attempt_json :: "PaymentAttempt \<Rightarrow> jsval" where
  "attempt_json a = JObj (attempt_fields a)"

definition settlement_json :: "ConfirmedSettlement \<Rightarrow> jsval" where
  "settlement_json s =
     JObj [(''transactionId'', JStr (cs_transactionId s)), (''slot'', opt_json JStr (cs_slot s)),
       (''facilitatorReportedTransaction'', opt_json JStr (cs_facilitatorReportedTransaction s)),
       (''confirmedAt'', JInt (cs_confirmedAt s))]"

definition result_json :: "EvidenceResult \<Rightarrow> jsval" where
  "result_json r =
     JObj [(''httpStatus'', JInt (er_httpStatus r)), (''contentType'', JStr ''application/json''),
       (''bodyBase64'', JStr (er_bodyBase64 r)), (''bytes'', JInt (er_bytes r)), (''sha256'', JStr (er_sha256 r))]"

section \<open>Digests\<close>

text \<open>\<open>computePermitDigest\<close> of a parsed permit, whose domain is not checked yet.\<close>

definition artifactPermitDigest :: "platform \<Rightarrow> permit_v2 tagged signed \<Rightarrow> string option" where
  "artifactPermitDigest px p = canonicalDigest px PERMIT_V2_DIGEST_PREFIX
     (JObj (with_text ''domain'' (tg_text (sg_body p))
        ((''version'', JInt 2) # shared_permit_fields (tg_value (sg_body p))
           @ [(''signature'', signature_json (sg_signature p)),
              (''operation'', operation_json (pp_operation (tg_value (sg_body p))))])))"

text \<open>\<open>optional(name, value)\<close>: the inner \<open>None\<close> is the digest null, the outer one a throw.\<close>

definition optional_digest :: "platform \<Rightarrow> string \<Rightarrow> jsval option \<Rightarrow> string option option" where
  "optional_digest px name v = (case v of None \<Rightarrow> Some None | Some x \<Rightarrow> map_option Some (artifactDigest px name x))"

definition computeEvidenceDigests ::
  "platform \<Rightarrow> 'a EvidenceArtifacts_scheme \<Rightarrow> (EvidenceDigests \<times> service_digests option) option" where
  "computeEvidenceDigests px b = do {
     permit \<leftarrow> artifactPermitDigest px (ea_purchasePermit b);
     request \<leftarrow> artifactDigest px ''authorization-request'' (authorization_request_json (ea_request b) (ea_agentSignature b));
     operation \<leftarrow> computeOperationDigest px (rq_operation (tg_value (ea_request b)));
     decision \<leftarrow> optional_digest px ''authority-decision'' (map_option (signed_json receipt_artifact_fields) (ea_authorityDecision b));
     outbound \<leftarrow> optional_digest px ''outbound-request'' (map_option outbound_request_json (ea_outboundRequest b));
     requirement \<leftarrow> optional_digest px ''payment-requirement'' (map_option requirement_json (ea_paymentRequirement b));
     attempt \<leftarrow> optional_digest px ''payment-attempt'' (map_option attempt_json (ea_paymentAttempt b));
     settlement \<leftarrow> optional_digest px ''settlement'' (map_option settlement_json (ea_settlement b));
     result \<leftarrow> optional_digest px ''result'' (map_option result_json (ea_result b));
     let v1 = \<lparr> dg_purchasePermit = permit, dg_authorizationRequest = request, dg_operation = operation,
                dg_authorityDecision = decision, dg_outboundRequest = outbound, dg_paymentRequirement = requirement,
                dg_paymentAttempt = attempt, dg_settlement = settlement, dg_result = result \<rparr>;
     (case ea_service b of
        None \<Rightarrow> Some (v1, None)
      | Some sv \<Rightarrow> do {
          authorization \<leftarrow> optional_digest px ''service-authorization''
            (map_option (signed_json service_authorization_fields) (sv_authorization sv));
          acknowledgement \<leftarrow> optional_digest px ''service-acknowledgement''
            (map_option (signed_json service_acknowledgement_fields) (sv_acknowledgement sv));
          Some (v1, Some \<lparr> dg_serviceAuthorization = authorization, dg_serviceAcknowledgement = acknowledgement \<rparr>) }) }"

section \<open>The manifest\<close>

text \<open>The digests by name, as the properties of the object.\<close>

definition digest_entries :: "EvidenceDigests \<Rightarrow> service_digests option \<Rightarrow> (string \<times> string option) list" where
  "digest_entries d sd =
     [(''purchasePermit'', Some (dg_purchasePermit d)), (''authorizationRequest'', Some (dg_authorizationRequest d)),
      (''operation'', Some (dg_operation d)), (''authorityDecision'', dg_authorityDecision d),
      (''outboundRequest'', dg_outboundRequest d), (''paymentRequirement'', dg_paymentRequirement d),
      (''paymentAttempt'', dg_paymentAttempt d), (''settlement'', dg_settlement d), (''result'', dg_result d)]
     @ (case sd of None \<Rightarrow> []
        | Some s \<Rightarrow> [(''serviceAuthorization'', dg_serviceAuthorization s),
                     (''serviceAcknowledgement'', dg_serviceAcknowledgement s)])"

definition manifest_version :: "EvidenceManifest \<Rightarrow> nat" where
  "manifest_version m = (case em_serviceDigests m of None \<Rightarrow> 1 | Some _ \<Rightarrow> 2)"

definition manifest_fields :: "EvidenceManifest \<Rightarrow> (string \<times> jsval) list" where
  "manifest_fields m =
     [(''version'', JInt (int (manifest_version m))), (''domain'', JStr EVIDENCE_MANIFEST_DOMAIN),
      (''authority'', JStr (em_authority m)), (''issuedAt'', JInt (em_issuedAt m)),
      (''settlementProfile'', JStr (em_settlementProfile m)), (''grantId'', JStr (em_grantId m)),
      (''invocationId'', JStr (em_invocationId m)), (''purchaseState'', JStr (purchase_state_text (em_purchaseState m))),
      (''decision'', JStr (verdict_text (em_decision m))), (''reasonCodes'', JArr (map JStr (em_reasonCodes m))),
      (''digests'', JObj (map (\<lambda>(k, d). (k, opt_json JStr d)) (digest_entries (em_digests m) (em_serviceDigests m))))]"

definition manifest_prefix :: "EvidenceManifest \<Rightarrow> string" where
  "manifest_prefix m = EVIDENCE_MANIFEST_DOMAIN @ '':v'' @ show_nat (manifest_version m) @ [CHR 0x0A]"

definition canonicalizeManifest :: "platform \<Rightarrow> EvidenceManifest \<Rightarrow> bytes option" where
  "canonicalizeManifest px m = canonicalBytes px (manifest_prefix m) (JObj (manifest_fields m))"

definition signEvidenceManifest ::
  "platform \<Rightarrow> EvidenceManifest \<Rightarrow> signing_key \<Rightarrow> pinned_sign_error + EvidenceManifest signed" where
  "signEvidenceManifest px = sign_pinned px (canonicalizeManifest px) em_authority"

definition verifyEvidenceManifestSignature :: "platform \<Rightarrow> EvidenceManifest signed \<Rightarrow> address \<Rightarrow> bool" where
  "verifyEvidenceManifestSignature px = verify_pinned px (canonicalizeManifest px) em_authority"

text \<open>\<open>verifyAuthorizationReceiptSignature\<close> of a parsed receipt: its domain is signed with the rest, and not
  compared.\<close>

definition verifyReceiptArtifact :: "platform \<Rightarrow> receipt_v2 tagged signed \<Rightarrow> address \<Rightarrow> bool" where
  "verifyReceiptArtifact px = verify_pinned px
     (\<lambda>r. canonicalBytes px (AUTHORIZATION_RECEIPT_DOMAIN @ '':v2'' @ [CHR 0x0A]) (JObj (receipt_artifact_fields r)))
     (\<lambda>r. rcp_authority (tg_value r))"

section \<open>The manifest and the receipt are pinned messages\<close>

lemma fst_with_text [simp]: "map fst (with_text k t kvs) = map fst kvs"
  by (induction kvs) (auto simp: with_text_def)

lemma json_value_with_text: "json_value (JObj kvs) \<Longrightarrow> json_value (JObj (with_text k t kvs))"
proof -
  assume j: "json_value (JObj kvs)"
  then have "distinct (map fst (with_text k t kvs))" by simp
  moreover have "\<forall>kv \<in> set (with_text k t kvs). json_value (snd kv)"
    using j by (auto simp: with_text_def)
  ultimately show ?thesis by (simp only: json_value.simps simp_thms)
qed

lemma json_value_artifacts:
  "json_value (JObj (permit_artifact_fields p))" "json_value (JObj (receipt_artifact_fields r))"
  "json_value (JObj (request_artifact_fields q))"
  unfolding permit_artifact_fields_def receipt_artifact_fields_def request_artifact_fields_def
  by (rule json_value_with_text, rule json_value_permit_fields json_value_receipt_fields,
      rule json_value_with_text, rule json_value_receipt_fields,
      rule json_value_with_text, simp add: shared_request_fields_def)

lemma json_value_manifest: "json_value (JObj (manifest_fields m))"
proof -
  have "json_value (JObj (map (\<lambda>(k, d). (k, opt_json JStr d)) (digest_entries d sd)))" for d sd
    by (auto simp: digest_entries_def split: option.splits)
  then show ?thesis by (simp only: manifest_fields_def) simp
qed

interpretation manifest_message: pinned_message px manifest_prefix manifest_fields "canonicalizeManifest px" em_authority for px
  by unfold_locales (rule json_value_manifest, simp add: canonicalizeManifest_def)

interpretation receipt_artifact: pinned_message px "\<lambda>_. AUTHORIZATION_RECEIPT_DOMAIN @ '':v2'' @ [CHR 0x0A]"
    receipt_artifact_fields
    "\<lambda>r. canonicalBytes px (AUTHORIZATION_RECEIPT_DOMAIN @ '':v2'' @ [CHR 0x0A]) (JObj (receipt_artifact_fields r))"
    "\<lambda>r. rcp_authority (tg_value r)" for px
  by unfold_locales (rule json_value_artifacts, simp)

end
