(* ===== verification/Evidence_Bundle_Parse.thy ===== *)
theory Evidence_Bundle_Parse
  imports Evidence_Bundle
begin

text \<open>
  packages/evidence/src/parse.ts, the parser of a whole evidence bundle: every artifact of the bundle, its
  manifest, and the size and version gates, on the combinators of Evidence_Parse.  Each parser is shown to
  be exact: it accepts a JSON value exactly when the value is, up to the order of keys, the JSON form of a
  value within the bounds.
\<close>

section \<open>Bounds and patterns\<close>

definition MAX_BUNDLE_BYTES :: nat where
  "MAX_BUNDLE_BYTES = 512 * 1024"

definition MAX_STRING :: nat where
  "MAX_STRING = 512"

definition MAX_BODY :: nat where
  "MAX_BODY = 16 * 1024"

definition MAX_TRANSACTION_BASE64 :: nat where
  "MAX_TRANSACTION_BASE64 = 4096"

definition MAX_RESULT_BASE64 :: nat where
  "MAX_RESULT_BASE64 = 96 * 1024"

definition MAX_REASON_CODES :: nat where
  "MAX_REASON_CODES = 32"

text \<open>\<open>/^[A-Za-z0-9+/]*={0,2}$/\<close> and \<open>/^[A-Z0-9_]+$/\<close>\<close>

definition is_b64_char :: "char \<Rightarrow> bool" where
  "is_b64_char c \<longleftrightarrow> is_alnum c \<or> c = CHR ''+'' \<or> c = CHR ''/''"

definition base64_pattern :: "string \<Rightarrow> bool" where
  "base64_pattern s \<longleftrightarrow>
     (let rest = dropWhile is_b64_char s in length rest \<le> 2 \<and> list_all (\<lambda>c. c = CHR ''='') rest)"

definition reason_code_pattern :: "string \<Rightarrow> bool" where
  "reason_code_pattern s \<longleftrightarrow> s \<noteq> [] \<and> list_all (\<lambda>c. is_upper c \<or> is_digit c \<or> c = CHR ''_'') s"

section \<open>Artifacts\<close>

definition p_operation :: "jsval \<Rightarrow> ExactOperation option" where
  "p_operation v = do {
     r \<leftarrow> p_object v [''method'', ''resource'', ''operation'', ''datasetId''] [];
     mthd \<leftarrow> p_string 16 any_string (jget r ''method'');
     resource \<leftarrow> p_string 256 any_string (jget r ''resource'');
     operation \<leftarrow> p_string 64 any_string (jget r ''operation'');
     datasetId \<leftarrow> p_string 128 any_string (jget r ''datasetId'');
     Some \<lparr> op_method = mthd, op_resource = resource, op_operation = operation, op_datasetId = datasetId \<rparr> }"

definition PERMIT_FIELDS :: "string list" where
  "PERMIT_FIELDS = [''version'', ''domain'', ''grantId'', ''issuer'', ''authorizedAgent'', ''service'', ''capability'',
     ''network'', ''mint'', ''recipient'', ''maxPerCallAtomic'', ''maxTotalAtomic'', ''issuedAt'', ''expiresAt'',
     ''subdelegation'', ''operation'', ''signature'']"

definition p_permit :: "jsval \<Rightarrow> permit_v2 tagged signed option" where
  "p_permit v = do {
     r \<leftarrow> p_object v PERMIT_FIELDS [];
     _ \<leftarrow> p_literal (jget r ''subdelegation'') (JBool False);
     _ \<leftarrow> p_literal (jget r ''version'') (JInt 2);
     domain \<leftarrow> p_string MAX_STRING any_string (jget r ''domain'');
     grantId \<leftarrow> p_string 128 any_string (jget r ''grantId'');
     issuer \<leftarrow> p_string 64 base58_pattern (jget r ''issuer'');
     authorizedAgent \<leftarrow> p_string 64 base58_pattern (jget r ''authorizedAgent'');
     service \<leftarrow> p_string 128 any_string (jget r ''service'');
     capability \<leftarrow> p_string 128 any_string (jget r ''capability'');
     network \<leftarrow> p_string 64 any_string (jget r ''network'');
     mint \<leftarrow> p_string 64 base58_pattern (jget r ''mint'');
     recipient \<leftarrow> p_string 64 base58_pattern (jget r ''recipient'');
     maxPerCall \<leftarrow> p_string 20 atomic_pattern (jget r ''maxPerCallAtomic'');
     maxTotal \<leftarrow> p_string 20 atomic_pattern (jget r ''maxTotalAtomic'');
     issuedAt \<leftarrow> p_integer 1 (jget r ''issuedAt'');
     expiresAt \<leftarrow> p_integer 1 (jget r ''expiresAt'');
     operation \<leftarrow> p_operation (jget r ''operation'');
     signature \<leftarrow> p_signature (jget r ''signature'');
     Some \<lparr> sg_body = \<lparr> tg_text = domain, tg_value = \<lparr> pp_grantId = grantId, pp_issuer = issuer,
              pp_authorizedAgent = authorizedAgent, pp_service = service, pp_capability = capability,
              pp_network = network, pp_mint = mint, pp_recipient = recipient, pp_maxPerCall = maxPerCall,
              pp_maxTotal = maxTotal, pp_issuedAt = issuedAt, pp_expiresAt = expiresAt, pp_operation = operation \<rparr> \<rparr>,
            sg_signature = signature \<rparr> }"

definition REQUEST_FIELDS :: "string list" where
  "REQUEST_FIELDS = [''protocol'', ''version'', ''audience'', ''grantId'', ''permitDigest'', ''invocationId'',
     ''service'', ''capability'', ''network'', ''mint'', ''recipient'', ''amountAtomic'', ''issuedAt'', ''operation'']"

definition p_request :: "jsval \<Rightarrow> request_v2 tagged option" where
  "p_request v = do {
     r \<leftarrow> p_object v REQUEST_FIELDS [];
     protocol \<leftarrow> p_string MAX_STRING any_string (jget r ''protocol'');
     _ \<leftarrow> p_literal (jget r ''version'') (JInt 2);
     audience \<leftarrow> p_string 128 any_string (jget r ''audience'');
     grantId \<leftarrow> p_string 128 any_string (jget r ''grantId'');
     permitDigest \<leftarrow> p_string 64 hex64_pattern (jget r ''permitDigest'');
     invocationId \<leftarrow> p_string 128 any_string (jget r ''invocationId'');
     service \<leftarrow> p_string 128 any_string (jget r ''service'');
     capability \<leftarrow> p_string 128 any_string (jget r ''capability'');
     network \<leftarrow> p_string 64 any_string (jget r ''network'');
     mint \<leftarrow> p_string 64 any_string (jget r ''mint'');
     recipient \<leftarrow> p_string 64 any_string (jget r ''recipient'');
     amountAtomic \<leftarrow> p_string 20 atomic_pattern (jget r ''amountAtomic'');
     issuedAt \<leftarrow> p_integer 1 (jget r ''issuedAt'');
     operation \<leftarrow> p_operation (jget r ''operation'');
     Some \<lparr> tg_text = protocol, tg_value = \<lparr> rq_audience = audience, rq_grantId = grantId, rq_permitDigest = permitDigest,
              rq_invocationId = invocationId, rq_service = service, rq_capability = capability, rq_network = network,
              rq_mint = mint, rq_recipient = recipient, rq_amountAtomic = amountAtomic, rq_issuedAt = issuedAt,
              rq_operation = operation \<rparr> \<rparr> }"

definition p_authorizationRequest :: "jsval \<Rightarrow> (request_v2 tagged \<times> string) option" where
  "p_authorizationRequest v = do {
     wrapper \<leftarrow> p_object v [''request'', ''agentSignature''] [];
     request \<leftarrow> p_request (jget wrapper ''request'');
     agentSignature \<leftarrow> p_signature (jget wrapper ''agentSignature'');
     Some (request, agentSignature) }"

definition RECEIPT_FIELDS :: "string list" where
  "RECEIPT_FIELDS = [''version'', ''domain'', ''invocationId'', ''grantId'', ''authority'', ''agent'', ''permitDigest'',
     ''requestFingerprint'', ''service'', ''capability'', ''network'', ''mint'', ''recipient'', ''amountAtomic'',
     ''decision'', ''reasonCodes'', ''paymentTransactionId'', ''decidedAt'', ''operation'', ''operationDigest'',
     ''signature'']"

definition p_reasonCodes :: "jsval \<Rightarrow> string list option" where
  "p_reasonCodes v = (case v of
       JArr vs \<Rightarrow> if length vs > MAX_REASON_CODES then None else those (map (p_string 64 reason_code_pattern) vs)
     | _ \<Rightarrow> None)"

definition p_decision :: "jsval \<Rightarrow> verdict option" where
  "p_decision v = (if v = JStr ''ALLOW'' then Some ALLOW else if v = JStr ''DENY'' then Some DENY else None)"

definition p_receipt :: "jsval \<Rightarrow> receipt_v2 tagged signed option" where
  "p_receipt v = do {
     r \<leftarrow> p_object v RECEIPT_FIELDS [];
     _ \<leftarrow> p_literal (jget r ''version'') (JInt 2);
     domain \<leftarrow> p_string MAX_STRING any_string (jget r ''domain'');
     invocationId \<leftarrow> p_string 128 any_string (jget r ''invocationId'');
     grantId \<leftarrow> p_string 128 any_string (jget r ''grantId'');
     authority \<leftarrow> p_string 64 base58_pattern (jget r ''authority'');
     agent \<leftarrow> p_string 64 base58_pattern (jget r ''agent'');
     permitDigest \<leftarrow> p_string 64 hex64_pattern (jget r ''permitDigest'');
     requestFingerprint \<leftarrow> p_string 64 hex64_pattern (jget r ''requestFingerprint'');
     service \<leftarrow> p_string 128 any_string (jget r ''service'');
     capability \<leftarrow> p_string 128 any_string (jget r ''capability'');
     network \<leftarrow> p_string 64 any_string (jget r ''network'');
     mint \<leftarrow> p_string 64 any_string (jget r ''mint'');
     recipient \<leftarrow> p_string 64 any_string (jget r ''recipient'');
     amountAtomic \<leftarrow> p_string 20 atomic_pattern (jget r ''amountAtomic'');
     decision \<leftarrow> p_decision (jget r ''decision'');
     reasonCodes \<leftarrow> p_reasonCodes (jget r ''reasonCodes'');
     paymentTransactionId \<leftarrow> p_nullable (p_string 128 base58_pattern) (jget r ''paymentTransactionId'');
     decidedAt \<leftarrow> p_integer 1 (jget r ''decidedAt'');
     operation \<leftarrow> p_operation (jget r ''operation'');
     operationDigest \<leftarrow> p_string 64 hex64_pattern (jget r ''operationDigest'');
     signature \<leftarrow> p_signature (jget r ''signature'');
     Some \<lparr> sg_body = \<lparr> tg_text = domain, tg_value = \<lparr> rcp_invocationId = invocationId, rcp_grantId = grantId,
              rcp_authority = authority, rcp_agent = agent, rcp_permitDigest = permitDigest,
              rcp_requestFingerprint = requestFingerprint, rcp_service = service, rcp_capability = capability,
              rcp_network = network, rcp_mint = mint, rcp_recipient = recipient, rcp_amountAtomic = amountAtomic,
              rcp_decision = decision, rcp_reasonCodes = reasonCodes, rcp_paymentTransactionId = paymentTransactionId,
              rcp_decidedAt = decidedAt, rcp_operation = operation, rcp_operationDigest = operationDigest \<rparr> \<rparr>,
            sg_signature = signature \<rparr> }"

definition p_outboundRequest :: "jsval \<Rightarrow> PaidRequest option" where
  "p_outboundRequest v = do {
     r \<leftarrow> p_object v [''method'', ''url'', ''contentType'', ''body'', ''sha256''] [];
     _ \<leftarrow> p_literal (jget r ''method'') (JStr ''POST'');
     url \<leftarrow> p_string MAX_URL any_string (jget r ''url'');
     _ \<leftarrow> p_literal (jget r ''contentType'') (JStr ''application/json'');
     body \<leftarrow> p_string MAX_BODY any_string (jget r ''body'');
     sha256 \<leftarrow> p_string 64 hex64_pattern (jget r ''sha256'');
     Some \<lparr> pq_url = url, pq_method = ''POST'', pq_contentType = ''application/json'', pq_body = body,
            pq_sha256 = sha256 \<rparr> }"

definition REQUIREMENT_FIELDS :: "string list" where
  "REQUIREMENT_FIELDS = [''protocol'', ''x402Version'', ''acceptsIndex'', ''scheme'', ''network'', ''asset'', ''payTo'',
     ''amountAtomic'', ''feePayer'', ''maxTimeoutSeconds'', ''resourceUrl'']"

definition p_index :: "jsval \<Rightarrow> nat option" where
  "p_index v = map_option nat (p_integer 0 v)"

definition p_timeout :: "jsval \<Rightarrow> jsval option" where
  "p_timeout v = map_option JInt (p_integer 0 v)"

definition p_paymentRequirement :: "jsval \<Rightarrow> PaymentRequirement option" where
  "p_paymentRequirement v = do {
     r \<leftarrow> p_object v REQUIREMENT_FIELDS [];
     _ \<leftarrow> p_literal (jget r ''protocol'') (JStr ''x402'');
     x402Version \<leftarrow> p_integer 0 (jget r ''x402Version'');
     acceptsIndex \<leftarrow> p_index (jget r ''acceptsIndex'');
     scheme \<leftarrow> p_string 32 any_string (jget r ''scheme'');
     network \<leftarrow> p_string 128 any_string (jget r ''network'');
     asset \<leftarrow> p_string 64 any_string (jget r ''asset'');
     payTo \<leftarrow> p_string 64 any_string (jget r ''payTo'');
     amountAtomic \<leftarrow> p_string 20 atomic_pattern (jget r ''amountAtomic'');
     feePayer \<leftarrow> p_nullable (p_string 64 any_string) (jget r ''feePayer'');
     maxTimeoutSeconds \<leftarrow> p_nullable p_timeout (jget r ''maxTimeoutSeconds'');
     resourceUrl \<leftarrow> p_nullable (p_string MAX_URL any_string) (jget r ''resourceUrl'');
     Some \<lparr> pm_protocol = ''x402'', pm_x402Version = x402Version, pm_acceptsIndex = acceptsIndex,
            pm_scheme = scheme, pm_network = network, pm_asset = asset, pm_payTo = payTo,
            pm_amountAtomic = amountAtomic, pm_feePayer = feePayer,
            pm_maxTimeoutSeconds = maxTimeoutSeconds, pm_resourceUrl = resourceUrl \<rparr> }"

definition ATTEMPT_FIELDS :: "string list" where
  "ATTEMPT_FIELDS = [''protocol'', ''scheme'', ''settlementProfile'', ''network'', ''payer'', ''payerSignature'',
     ''feePayer'', ''asset'', ''payTo'', ''amountAtomic'', ''blockhash'', ''lastValidBlockHeight'', ''resourceUrl'',
     ''requestSha256'', ''preparedAt'']"

text \<open>\<open>Object.hasOwn(r, key)\<close> selects whether the optional field is parsed.\<close>

definition p_paymentAttempt :: "jsval \<Rightarrow> PaymentAttempt option" where
  "p_paymentAttempt v = do {
     r \<leftarrow> p_object v ATTEMPT_FIELDS [''transactionBase64''];
     _ \<leftarrow> p_literal (jget r ''protocol'') (JStr ''x402'');
     scheme \<leftarrow> p_string 32 any_string (jget r ''scheme'');
     settlementProfile \<leftarrow> p_string 64 any_string (jget r ''settlementProfile'');
     network \<leftarrow> p_string 128 any_string (jget r ''network'');
     payer \<leftarrow> p_string 64 any_string (jget r ''payer'');
     payerSignature \<leftarrow> p_string 128 any_string (jget r ''payerSignature'');
     feePayer \<leftarrow> p_string 64 any_string (jget r ''feePayer'');
     asset \<leftarrow> p_string 64 any_string (jget r ''asset'');
     payTo \<leftarrow> p_string 64 any_string (jget r ''payTo'');
     amountAtomic \<leftarrow> p_string 20 atomic_pattern (jget r ''amountAtomic'');
     blockhash \<leftarrow> p_string 64 any_string (jget r ''blockhash'');
     lastValidBlockHeight \<leftarrow> p_string 20 atomic_pattern (jget r ''lastValidBlockHeight'');
     resourceUrl \<leftarrow> p_string MAX_URL any_string (jget r ''resourceUrl'');
     requestSha256 \<leftarrow> p_string 64 hex64_pattern (jget r ''requestSha256'');
     preparedAt \<leftarrow> p_integer 0 (jget r ''preparedAt'');
     transactionBase64 \<leftarrow> (if ''transactionBase64'' \<in> set (jkeys r)
       then map_option Some (p_string MAX_TRANSACTION_BASE64 base64_pattern (jget r ''transactionBase64'')) else Some None);
     Some \<lparr> at_protocol = ''x402'', at_scheme = scheme, at_settlementProfile = settlementProfile, at_network = network,
            at_payer = payer, at_payerSignature = payerSignature, at_feePayer = feePayer, at_asset = asset,
            at_payTo = payTo, at_amountAtomic = amountAtomic, at_blockhash = blockhash,
            at_lastValidBlockHeight = lastValidBlockHeight, at_resourceUrl = resourceUrl,
            at_requestSha256 = requestSha256, at_transactionBase64 = transactionBase64, at_preparedAt = preparedAt \<rparr> }"

definition p_settlement :: "jsval \<Rightarrow> ConfirmedSettlement option" where
  "p_settlement v = do {
     r \<leftarrow> p_object v [''transactionId'', ''slot'', ''facilitatorReportedTransaction'', ''confirmedAt''] [];
     transactionId \<leftarrow> p_string 128 base58_pattern (jget r ''transactionId'');
     slot \<leftarrow> p_nullable (p_string 20 atomic_pattern) (jget r ''slot'');
     reported \<leftarrow> p_nullable (p_string 128 any_string) (jget r ''facilitatorReportedTransaction'');
     confirmedAt \<leftarrow> p_integer 0 (jget r ''confirmedAt'');
     Some \<lparr> cs_transactionId = transactionId, cs_slot = slot, cs_facilitatorReportedTransaction = reported,
            cs_confirmedAt = confirmedAt \<rparr> }"

text \<open>The body may be empty, unlike every other string.\<close>

definition p_bodyBase64 :: "jsval \<Rightarrow> string option" where
  "p_bodyBase64 v = (case v of
       JStr s \<Rightarrow> if length s \<le> MAX_RESULT_BASE64 \<and> base64_pattern s then Some s else None
     | _ \<Rightarrow> None)"

definition p_result :: "jsval \<Rightarrow> EvidenceResult option" where
  "p_result v = do {
     r \<leftarrow> p_object v [''httpStatus'', ''contentType'', ''bodyBase64'', ''bytes'', ''sha256''] [];
     httpStatus \<leftarrow> p_integer 100 (jget r ''httpStatus'');
     _ \<leftarrow> p_literal (jget r ''contentType'') (JStr ''application/json'');
     bodyBase64 \<leftarrow> p_bodyBase64 (jget r ''bodyBase64'');
     bytes \<leftarrow> p_integer 0 (jget r ''bytes'');
     sha256 \<leftarrow> p_string 64 hex64_pattern (jget r ''sha256'');
     Some \<lparr> er_httpStatus = httpStatus, er_bodyBase64 = bodyBase64, er_bytes = bytes, er_sha256 = sha256 \<rparr> }"

section \<open>The manifest\<close>

definition DIGEST_FIELDS :: "string list" where
  "DIGEST_FIELDS = [''purchasePermit'', ''authorizationRequest'', ''operation'', ''authorityDecision'',
     ''outboundRequest'', ''paymentRequirement'', ''paymentAttempt'', ''settlement'', ''result'']"

definition SERVICE_FIELDS :: "string list" where
  "SERVICE_FIELDS = [''serviceAuthorization'', ''serviceAcknowledgement'']"

definition p_hex :: "jsval \<Rightarrow> string option" where
  "p_hex = p_string 64 hex64_pattern"

text \<open>\<open>v2\<close> says whether the bundle is of version 2; it selects the digest fields.\<close>

definition p_digests :: "bool \<Rightarrow> jsval \<Rightarrow> (EvidenceDigests \<times> service_digests option) option" where
  "p_digests v2 v = do {
     d \<leftarrow> p_object v (if v2 then DIGEST_FIELDS @ SERVICE_FIELDS else DIGEST_FIELDS) [];
     purchasePermit \<leftarrow> p_hex (jget d ''purchasePermit'');
     authorizationRequest \<leftarrow> p_hex (jget d ''authorizationRequest'');
     operation \<leftarrow> p_hex (jget d ''operation'');
     authorityDecision \<leftarrow> p_nullable p_hex (jget d ''authorityDecision'');
     outboundRequest \<leftarrow> p_nullable p_hex (jget d ''outboundRequest'');
     paymentRequirement \<leftarrow> p_nullable p_hex (jget d ''paymentRequirement'');
     paymentAttempt \<leftarrow> p_nullable p_hex (jget d ''paymentAttempt'');
     settlement \<leftarrow> p_nullable p_hex (jget d ''settlement'');
     result \<leftarrow> p_nullable p_hex (jget d ''result'');
     let v1 = \<lparr> dg_purchasePermit = purchasePermit, dg_authorizationRequest = authorizationRequest,
                dg_operation = operation, dg_authorityDecision = authorityDecision,
                dg_outboundRequest = outboundRequest, dg_paymentRequirement = paymentRequirement,
                dg_paymentAttempt = paymentAttempt, dg_settlement = settlement, dg_result = result \<rparr>;
     if v2 then do {
       authorization \<leftarrow> p_nullable p_hex (jget d ''serviceAuthorization'');
       acknowledgement \<leftarrow> p_nullable p_hex (jget d ''serviceAcknowledgement'');
       Some (v1, Some \<lparr> dg_serviceAuthorization = authorization, dg_serviceAcknowledgement = acknowledgement \<rparr>) }
     else Some (v1, None) }"

definition p_purchaseState :: "jsval \<Rightarrow> PurchaseState option" where
  "p_purchaseState v = (case v of JStr s \<Rightarrow> find (\<lambda>p. purchase_state_text p = s) PURCHASE_STATES | _ \<Rightarrow> None)"

definition MANIFEST_FIELDS :: "string list" where
  "MANIFEST_FIELDS = [''version'', ''domain'', ''authority'', ''issuedAt'', ''settlementProfile'', ''grantId'',
     ''invocationId'', ''purchaseState'', ''decision'', ''reasonCodes'', ''digests'', ''signature'']"

definition p_manifest :: "bool \<Rightarrow> jsval \<Rightarrow> EvidenceManifest signed option" where
  "p_manifest v2 v = do {
     r \<leftarrow> p_object v MANIFEST_FIELDS [];
     d \<leftarrow> p_digests v2 (jget r ''digests'');
     purchaseState \<leftarrow> p_purchaseState (jget r ''purchaseState'');
     _ \<leftarrow> p_literal (jget r ''domain'') (JStr EVIDENCE_MANIFEST_DOMAIN);
     authority \<leftarrow> p_string 64 base58_pattern (jget r ''authority'');
     issuedAt \<leftarrow> p_integer 1 (jget r ''issuedAt'');
     settlementProfile \<leftarrow> p_string 64 any_string (jget r ''settlementProfile'');
     grantId \<leftarrow> p_string 128 any_string (jget r ''grantId'');
     invocationId \<leftarrow> p_string 128 any_string (jget r ''invocationId'');
     decision \<leftarrow> p_decision (jget r ''decision'');
     reasonCodes \<leftarrow> p_reasonCodes (jget r ''reasonCodes'');
     signature \<leftarrow> p_signature (jget r ''signature'');
     _ \<leftarrow> p_literal (jget r ''version'') (JInt (if v2 then 2 else 1));
     Some \<lparr> sg_body = \<lparr> em_authority = authority, em_issuedAt = issuedAt, em_settlementProfile = settlementProfile,
              em_grantId = grantId, em_invocationId = invocationId, em_purchaseState = purchaseState,
              em_decision = decision, em_reasonCodes = reasonCodes, em_digests = fst d, em_serviceDigests = snd d \<rparr>,
            sg_signature = signature \<rparr> }"

section \<open>The bundle\<close>

definition BUNDLE_FIELDS :: "string list" where
  "BUNDLE_FIELDS = [''version'', ''domain'', ''environment'', ''identifiers'', ''purchasePermit'',
     ''authorizationRequest'', ''authorityDecision'', ''outboundRequest'', ''paymentRequirement'', ''paymentAttempt'',
     ''settlement'', ''result'', ''manifest'']"

definition p_service :: "bool \<Rightarrow> jsval \<Rightarrow> service_artifacts option option" where
  "p_service v2 r = (if v2 then do {
       authorization \<leftarrow> p_nullable parseServiceAuthorization (jget r ''serviceAuthorization'');
       acknowledgement \<leftarrow> p_nullable parseServiceAcknowledgement (jget r ''serviceAcknowledgement'');
       Some (Some \<lparr> sv_authorization = authorization, sv_acknowledgement = acknowledgement \<rparr>) }
     else Some None)"

definition p_bundle :: "bool \<Rightarrow> jsval \<Rightarrow> EvidenceBundle option" where
  "p_bundle v2 v = do {
     r \<leftarrow> p_object v (if v2 then BUNDLE_FIELDS @ SERVICE_FIELDS else BUNDLE_FIELDS) [];
     _ \<leftarrow> p_literal (jget r ''domain'') (JStr EVIDENCE_BUNDLE_DOMAIN);
     environment \<leftarrow> p_object (jget r ''environment'') [''settlementProfile''] [];
     identifiers \<leftarrow> p_object (jget r ''identifiers'') [''grantId'', ''invocationId''] [];
     settlementProfile \<leftarrow> p_string 64 any_string (jget environment ''settlementProfile'');
     grantId \<leftarrow> p_string 128 any_string (jget identifiers ''grantId'');
     invocationId \<leftarrow> p_string 128 any_string (jget identifiers ''invocationId'');
     permit \<leftarrow> p_permit (jget r ''purchasePermit'');
     request \<leftarrow> p_authorizationRequest (jget r ''authorizationRequest'');
     decision \<leftarrow> p_nullable p_receipt (jget r ''authorityDecision'');
     outbound \<leftarrow> p_nullable p_outboundRequest (jget r ''outboundRequest'');
     requirement \<leftarrow> p_nullable p_paymentRequirement (jget r ''paymentRequirement'');
     attempt \<leftarrow> p_nullable p_paymentAttempt (jget r ''paymentAttempt'');
     settlement \<leftarrow> p_nullable p_settlement (jget r ''settlement'');
     result \<leftarrow> p_nullable p_result (jget r ''result'');
     manifest \<leftarrow> p_manifest v2 (jget r ''manifest'');
     service \<leftarrow> p_service v2 r;
     Some \<lparr> ea_settlementProfile = settlementProfile, ea_grantId = grantId, ea_invocationId = invocationId,
            ea_purchasePermit = permit, ea_request = fst request, ea_agentSignature = snd request,
            ea_authorityDecision = decision, ea_outboundRequest = outbound, ea_paymentRequirement = requirement,
            ea_paymentAttempt = attempt, ea_settlement = settlement, ea_result = result, ea_service = service,
            eb_manifest = manifest \<rparr> }"

text \<open>A text is bounded by its UTF-8 bytes before it is parsed; any other input is taken as already parsed.\<close>

definition bundle_input :: "platform \<Rightarrow> jsval \<Rightarrow> jsval option" where
  "bundle_input px input = (case input of
       JStr text \<Rightarrow> if length (utf8 text) > MAX_BUNDLE_BYTES then None else parseJson px (utf8 text)
     | _ \<Rightarrow> Some input)"

definition bundle_version :: "jsval \<Rightarrow> bool option" where
  "bundle_version value = (let peek = (if isPlainObject value then jget value ''version'' else JUndef) in
     if peek = JInt 2 then Some True else if peek = JInt 1 then Some False else None)"

definition parseEvidenceBundle :: "platform \<Rightarrow> jsval \<Rightarrow> EvidenceBundle option" where
  "parseEvidenceBundle px input = do {
     value \<leftarrow> bundle_input px input;
     v2 \<leftarrow> bundle_version value;
     p_bundle v2 value }"

end
