(* ===== verification/Evidence_Verify.thy ===== *)
theory Evidence_Verify
  imports Evidence_Bundle_Parse Policy
begin

text \<open>
  packages/evidence/src/verify.ts and online.ts: the standalone verifier.  It judges a bundle against pinned
  keys and profiles only, as a list of claims; the overall result is read off the claims.

  A problem is the condition under which the source reports it; the texts of problems and details are left
  out.  A part of the verification is the list of the claims it adds and whether it ended with a throw.
\<close>

section \<open>Claims and reports\<close>

datatype ClaimStatus =
    VERIFIED | INVALID | NOT_SATISFIED | AUTHORITY_ATTESTED | SERVICE_ATTESTED | NOT_CHECKED
  | NOT_PROVABLE_FROM_BUNDLE | INDETERMINATE

datatype ClaimCategory =
    FORMAT | TRUST | INTEGRITY | AUTHORIZATION | STATIC_POLICY | PAYMENT | RESULT | SETTLEMENT | BUDGET | SERVICE

record claim =
  cl_id :: string
  cl_category :: ClaimCategory
  cl_status :: ClaimStatus
  cl_required :: bool

datatype Overall = Overall_VALID | Overall_INVALID | Overall_INDETERMINATE

record VerificationReport =
  rp_overall :: Overall
  rp_online :: bool
  rp_decision :: "verdict option"
  rp_purchaseState :: "PurchaseState option"
  rp_invocationId :: "string option"
  rp_claims :: "claim list"
  rp_notProven :: "string list"

definition NOT_PROVEN :: "string list" where
  "NOT_PROVEN = [''that the human understood the permit they approved'',
     ''that the authority never bypassed policy on some other invocation'',
     ''the complete global cumulative budget history of the grant'',
     ''that no other payment was made for the same intent outside this invocation'',
     ''that the paid service's returned information is factually correct'',
     ''that the recipient actually consumed or acted on the result'',
     ''that the configured settlement RPC is honest (it is trusted, not trustless)'']"

definition claim_add :: "string \<Rightarrow> ClaimCategory \<Rightarrow> ClaimStatus \<Rightarrow> bool \<Rightarrow> claim" where
  "claim_add i category status required =
     \<lparr> cl_id = i, cl_category = category, cl_status = status, cl_required = required \<rparr>"

text \<open>VERIFIED when no problem holds, otherwise \<open>failStatus\<close>.\<close>

definition claim_check :: "string \<Rightarrow> ClaimCategory \<Rightarrow> bool list \<Rightarrow> bool \<Rightarrow> ClaimStatus \<Rightarrow> claim" where
  "claim_check i category problems required failStatus =
     claim_add i category (if list_all Not problems then VERIFIED else failStatus) required"

definition overallOf :: "claim list \<Rightarrow> Overall" where
  "overallOf claims =
     (if list_ex (\<lambda>c. cl_status c = INVALID) claims then Overall_INVALID
      else let unmet = filter (\<lambda>c. cl_required c \<and> cl_status c \<noteq> VERIFIED) claims in
        if length unmet = 0 then Overall_VALID
        else if list_all (\<lambda>c. cl_status c = INDETERMINATE) unmet then Overall_INDETERMINATE else Overall_INVALID)"

section \<open>Trust and options\<close>

record VerifierTrust =
  vt_issuer :: string
  vt_authority :: string
  vt_settlementProfiles :: "string \<Rightarrow> SettlementProfile option"
  vt_service :: "string option"

text \<open>The settlement RPC: \<open>None\<close> is a throw; a transaction is the JSON value of the answer.\<close>

record OnlineSettlementSource =
  os_getVersion :: "jsval option"
  os_getTransaction :: "string \<Rightarrow> jsval option"

datatype VerifyOptions = Offline | Online OnlineSettlementSource

text \<open>What the verifier takes from outside: the platform, the Solana library, and the reading of an RPC
  transaction at its declared type.\<close>

record verifier_env =
  ve_platform :: platform
  ve_solana :: solana
  ve_rpcTransaction :: "jsval \<Rightarrow> RpcTransaction option"

section \<open>Sequencing\<close>

type_synonym check_run = "claim list \<times> bool"

definition adds :: "claim list \<Rightarrow> check_run" where
  "adds cs = (cs, False)"

definition and_then :: "check_run \<Rightarrow> check_run \<Rightarrow> check_run" where
  "and_then a b = (if snd a then a else (fst a @ fst b, snd b))"

text \<open>A value whose computation throws where it is \<open>None\<close>.\<close>

definition needs :: "'a option \<Rightarrow> ('a \<Rightarrow> check_run) \<Rightarrow> check_run" where
  "needs x f = (case x of None \<Rightarrow> ([], True) | Some a \<Rightarrow> f a)"

section \<open>Trust and integrity\<close>

definition ALLOW_STATES :: "PurchaseState set" where
  "ALLOW_STATES = {CONFIRMED, FAILED, RECONCILIATION_REQUIRED}"

definition trust_claims :: "VerifierTrust \<Rightarrow> EvidenceBundle \<Rightarrow> check_run" where
  "trust_claims trust b =
     (let permit = tg_value (sg_body (ea_purchasePermit b)); m = sg_body (eb_manifest b);
          receipt = ea_authorityDecision b in
      adds
       [claim_check ''issuer_trusted'' TRUST [pp_issuer permit \<noteq> vt_issuer trust] True INVALID,
        claim_check ''authority_trusted'' TRUST
          [em_authority m \<noteq> vt_authority trust,
           case receipt of None \<Rightarrow> False | Some r \<Rightarrow> rcp_authority (tg_value (sg_body r)) \<noteq> vt_authority trust] True INVALID])"

definition digest_problems ::
  "(string \<times> string option) list \<Rightarrow> (string \<times> string option) list \<Rightarrow> bool list" where
  "digest_problems recomputed signd =
     map (\<lambda>name. map_of recomputed name \<noteq> map_of signd name) (dedup (map fst recomputed @ map fst signd))"

definition state_problems :: "EvidenceBundle \<Rightarrow> bool list" where
  "state_problems b =
     (let permit = tg_value (sg_body (ea_purchasePermit b)); request = tg_value (ea_request b);
          m = sg_body (eb_manifest b); state = em_purchaseState m; confirmed = (state = CONFIRMED);
          receipt = ea_authorityDecision b; attempt = ea_paymentAttempt b;
          expectReceipt = (state = CONFIRMED \<or> state = DENIED) in
      [em_grantId m \<noteq> ea_grantId b \<or> pp_grantId permit \<noteq> ea_grantId b \<or> rq_grantId request \<noteq> ea_grantId b,
       em_invocationId m \<noteq> ea_invocationId b \<or> rq_invocationId request \<noteq> ea_invocationId b,
       em_settlementProfile m \<noteq> ea_settlementProfile b \<or> pp_network permit \<noteq> ea_settlementProfile b,
       (em_decision m = DENY) \<noteq> (state = DENIED),
       (receipt \<noteq> None) \<noteq> expectReceipt]
      @ (case receipt of None \<Rightarrow> []
         | Some s \<Rightarrow> let r = tg_value (sg_body s) in
             [rcp_invocationId r \<noteq> ea_invocationId b \<or> rcp_grantId r \<noteq> ea_grantId b,
              rcp_decision r \<noteq> em_decision m \<or> rcp_reasonCodes r \<noteq> em_reasonCodes m])
      @ (if confirmed
         then [ea_outboundRequest b = None, ea_paymentRequirement b = None, attempt = None, ea_settlement b = None,
               ea_result b = None]
         else [ea_settlement b \<noteq> None \<or> ea_result b \<noteq> None])
      @ [state = RECONCILIATION_REQUIRED \<and> attempt = None, state = DENIED \<and> attempt \<noteq> None]
      @ (case ea_service b of None \<Rightarrow> []
         | Some sv \<Rightarrow> [sv_acknowledgement sv \<noteq> None \<and> \<not> confirmed, sv_authorization sv \<noteq> None \<and> attempt = None]))"

definition integrity_claims :: "verifier_env \<Rightarrow> VerifierTrust \<Rightarrow> EvidenceBundle \<Rightarrow> check_run" where
  "integrity_claims e trust b =
     (let px = ve_platform e; m = sg_body (eb_manifest b) in
      and_then
        (adds [claim_check ''manifest_signature'' INTEGRITY
           [\<not> verifyEvidenceManifestSignature px (eb_manifest b) (vt_authority trust)] True INVALID])
        (needs (computeEvidenceDigests px b) (\<lambda>recomputed. adds
           [claim_check ''artifact_digests'' INTEGRITY
              (digest_problems (digest_entries (fst recomputed) (snd recomputed))
                 (digest_entries (em_digests m) (em_serviceDigests m))) True INVALID,
            claim_check ''state_consistent'' INTEGRITY (state_problems b) True INVALID])))"

section \<open>Authorization\<close>

definition agent_signed :: "platform \<Rightarrow> EvidenceBundle \<Rightarrow> bool" where
  "agent_signed px b =
     (case validateAuthorizationRequestV2 (JObj (request_artifact_fields (ea_request b))) of
        Inl _ \<Rightarrow> False
      | Inr request \<Rightarrow> verifyAuthorizationRequestSignature px (canonicalizeAuthorizationRequestV2 px request)
          (signature_json (ea_agentSignature b)) (pp_authorizedAgent (tg_value (sg_body (ea_purchasePermit b)))))"

definition receipt_claims :: "verifier_env \<Rightarrow> VerifierTrust \<Rightarrow> EvidenceBundle \<Rightarrow> check_run" where
  "receipt_claims e trust b =
     (let px = ve_platform e; permit = tg_value (sg_body (ea_purchasePermit b)); request = tg_value (ea_request b);
          confirmed = (em_purchaseState (sg_body (eb_manifest b)) = CONFIRMED) in
      case ea_authorityDecision b of
        None \<Rightarrow> adds [claim_add ''authority_decision_signature'' AUTHORIZATION NOT_CHECKED False]
      | Some s \<Rightarrow>
        let r = tg_value (sg_body s) in
        needs (computeOperationDigest px (rq_operation request)) (\<lambda>operationDigest. adds
          [claim_check ''authority_decision_signature'' AUTHORIZATION
             [\<not> verifyReceiptArtifact px s (vt_authority trust),
              rcp_service r \<noteq> rq_service request, rcp_capability r \<noteq> rq_capability request,
              rcp_network r \<noteq> rq_network request, rcp_mint r \<noteq> rq_mint request,
              rcp_recipient r \<noteq> rq_recipient request, rcp_amountAtomic r \<noteq> rq_amountAtomic request,
              rcp_permitDigest r \<noteq> rq_permitDigest request,
              rcp_agent r \<noteq> pp_authorizedAgent permit,
              \<not> operationsEqual (rcp_operation r) (rq_operation request),
              rcp_operationDigest r \<noteq> operationDigest,
              confirmed \<and> (case ea_settlement b of None \<Rightarrow> True
                 | Some st \<Rightarrow> rcp_paymentTransactionId r \<noteq> Some (cs_transactionId st))] True INVALID]))"

definition authorization_claims :: "verifier_env \<Rightarrow> VerifierTrust \<Rightarrow> EvidenceBundle \<Rightarrow> check_run" where
  "authorization_claims e trust b =
     (let px = ve_platform e in
      and_then
        (adds [claim_check ''permit_signature'' AUTHORIZATION
                 [\<not> isOk (verifyPurchasePermitV2 px (signed_json permit_artifact_fields (ea_purchasePermit b)))] True INVALID,
               claim_check ''agent_request_signature'' AUTHORIZATION [\<not> agent_signed px b] True INVALID])
      (and_then
        (needs (artifactPermitDigest px (ea_purchasePermit b)) (\<lambda>permitDigest. adds
           [claim_check ''request_bound_to_permit'' AUTHORIZATION
              [rq_permitDigest (tg_value (ea_request b)) \<noteq> permitDigest] True INVALID]))
        (receipt_claims e trust b)))"

section \<open>Static policy\<close>

text \<open>The recomputed reasons, without the total budget, which no single bundle can settle.\<close>

definition static_codes :: "permit_v2 \<Rightarrow> request_v2 \<Rightarrow> string list" where
  "static_codes permit request =
     (let operationCodes = map operation_code_text
            (dc_reasonCodes (evaluateExactOperation (pp_operation permit) (rq_operation request)));
          permitCodes = filter (\<lambda>c. c \<noteq> ''TOTAL_BUDGET_EXCEEDED'') (map permit_code_text (dc_reasonCodes
            (evaluatePurchasePermit (rq_issuedAt request) permit
              \<lparr> pr_service = rq_service request, pr_capability = rq_capability request, pr_network = rq_network request,
                pr_mint = rq_mint request, pr_recipient = rq_recipient request, pr_amountAtomic = rq_amountAtomic request,
                pr_alreadySpentAtomic = ''0'', pr_now = Some (rq_issuedAt request) \<rparr>)));
          permitCodes = permitCodes @ (if rq_issuedAt request < pp_issuedAt permit then [''PERMIT_NOT_YET_VALID''] else [])
      in dedup (operationCodes @ permitCodes))"

definition policy_claim_codes :: "(string \<times> string list) list" where
  "policy_claim_codes =
     [(''permit_time_bounds'', [''PERMIT_EXPIRED'', ''PERMIT_NOT_YET_VALID'']),
      (''service_capability_match'', [''SERVICE_MISMATCH'', ''CAPABILITY_MISMATCH'']),
      (''network_profile_match'', [''NETWORK_MISMATCH'']),
      (''mint_match'', [''MINT_MISMATCH'']),
      (''recipient_match'', [''RECIPIENT_MISMATCH'']),
      (''per_call_limit'', [''PER_CALL_LIMIT_EXCEEDED'', ''INVALID_AMOUNT'']),
      (''method_resource_match'', [''OPERATION_METHOD_MISMATCH'', ''OPERATION_RESOURCE_MISMATCH'']),
      (''operation_matches_permit'', [''OPERATION_NOT_AUTHORIZED'']),
      (''operation_arguments_match'', [''OPERATION_ARGUMENT_NOT_AUTHORIZED''])]"

definition policy_claims :: "EvidenceBundle \<Rightarrow> check_run" where
  "policy_claims b =
     (let permit = tg_value (sg_body (ea_purchasePermit b)); request = tg_value (ea_request b);
          m = sg_body (eb_manifest b); allowed = (em_purchaseState m \<in> ALLOW_STATES);
          staticCodes = static_codes permit request in
      adds (map (\<lambda>(i, codes). claim_check i STATIC_POLICY (map (\<lambda>_. True) (filter (\<lambda>c. c \<in> set codes) staticCodes))
                   allowed (if allowed then INVALID else NOT_SATISFIED)) policy_claim_codes
        @ [if allowed
           then claim_check ''decision_matches_static_policy'' STATIC_POLICY [length staticCodes \<noteq> 0] True INVALID
           else if length staticCodes > 0
           then claim_check ''decision_matches_static_policy'' STATIC_POLICY
                  (map (\<lambda>c. c \<notin> set (em_reasonCodes m)) staticCodes) True INVALID
           else claim_add ''decision_matches_static_policy'' STATIC_POLICY AUTHORITY_ATTESTED False]))"

section \<open>Payment\<close>

definition profile_problems ::
  "SettlementProfile option \<Rightarrow> EvidenceManifest \<Rightarrow> PaymentRequirement \<Rightarrow> PaymentAttempt option \<Rightarrow> bool list" where
  "profile_problems profile m requirement attempt =
     (case profile of
        None \<Rightarrow> [True]
      | Some p \<Rightarrow>
         [em_settlementProfile m \<noteq> sp_name p,
          pm_protocol requirement \<noteq> sp_protocol p \<or> pm_x402Version requirement \<noteq> sp_x402Version p,
          pm_scheme requirement \<noteq> sp_scheme p,
          pm_network requirement \<notin> set (sp_acceptedChallengeNetworks p),
          pm_asset requirement \<notin> set (sp_allowedAssets p),
          case attempt of None \<Rightarrow> False | Some a \<Rightarrow> at_settlementProfile a \<noteq> sp_name p,
          case attempt of None \<Rightarrow> False | Some a \<Rightarrow> \<not> starts_with (at_blockhash a) (sp_requiredBlockhashPrefix p)])"

text \<open>\<open>body\<close> is the body of the authorized operation.\<close>

definition outbound_problems ::
  "platform \<Rightarrow> request_v2 \<Rightarrow> string \<Rightarrow> PaidRequest \<Rightarrow> PaymentRequirement \<Rightarrow> PaymentAttempt option \<Rightarrow> bool list" where
  "outbound_problems px request body outbound requirement attempt =
     (let p = rq_operation request; path = map_option url_pathname (parseUrl px (pq_url outbound)) in
      [path = None,
       pq_method outbound \<noteq> op_method p,
       case path of None \<Rightarrow> False | Some x \<Rightarrow> x \<noteq> op_resource p,
       pq_body outbound \<noteq> body,
       computePaidRequestDigest px outbound \<noteq> pq_sha256 outbound,
       pm_resourceUrl requirement \<noteq> Some (pq_url outbound),
       case attempt of None \<Rightarrow> False | Some a \<Rightarrow> at_requestSha256 a \<noteq> pq_sha256 outbound])"

definition outbound_claims ::
  "platform \<Rightarrow> request_v2 \<Rightarrow> PaidRequest option \<Rightarrow> PaymentRequirement \<Rightarrow> PaymentAttempt option \<Rightarrow> check_run" where
  "outbound_claims px request outbound requirement attempt =
     (case outbound of
        None \<Rightarrow> adds [claim_check ''outbound_request_matches_operation'' PAYMENT [True] True INVALID]
      | Some q \<Rightarrow> needs (operationRequestBody px (rq_operation request)) (\<lambda>body. adds
          [claim_check ''outbound_request_matches_operation'' PAYMENT
             (outbound_problems px request body q requirement attempt) True INVALID]))"

definition expected_payment :: "PaymentAttempt \<Rightarrow> ExpectedExactPayment" where
  "expected_payment a =
     \<lparr> ep_payer = at_payer a, ep_feePayer = at_feePayer a, ep_asset = at_asset a, ep_payTo = at_payTo a,
       ep_amountAtomic = at_amountAtomic a, ep_blockhash = at_blockhash a \<rparr>"

definition transaction_problems :: "platform \<Rightarrow> solana \<Rightarrow> PaymentAttempt \<Rightarrow> string \<Rightarrow> bool list" where
  "transaction_problems px sx a transactionBase64 =
     [case validateExactPaymentTransaction sx (JStr transactionBase64) (expected_payment a) of
        Invalid _ \<Rightarrow> True | Valid payerSignature _ \<Rightarrow> payerSignature \<noteq> at_payerSignature a,
      \<not> verifyTransactionPayerSignature px sx transactionBase64 (at_payer a)]"

definition attempt_claims :: "platform \<Rightarrow> solana \<Rightarrow> PaymentRequirement \<Rightarrow> PaymentAttempt option \<Rightarrow> check_run" where
  "attempt_claims px sx requirement attempt =
     (case attempt of
        None \<Rightarrow> adds [claim_add ''payment_attempt_matches_requirement'' PAYMENT NOT_CHECKED False,
                     claim_add ''payment_transaction'' PAYMENT NOT_CHECKED False]
      | Some a \<Rightarrow> adds
          [claim_check ''payment_attempt_matches_requirement'' PAYMENT
             [at_scheme a \<noteq> pm_scheme requirement, at_network a \<noteq> pm_network requirement,
              at_asset a \<noteq> pm_asset requirement, at_payTo a \<noteq> pm_payTo requirement,
              at_amountAtomic a \<noteq> pm_amountAtomic requirement, Some (at_feePayer a) \<noteq> pm_feePayer requirement,
              Some (at_resourceUrl a) \<noteq> pm_resourceUrl requirement, at_feePayer a = at_payer a] True INVALID,
           case at_transactionBase64 a of
             None \<Rightarrow> claim_add ''payment_transaction'' PAYMENT NOT_CHECKED False
           | Some t \<Rightarrow> claim_check ''payment_transaction'' PAYMENT (transaction_problems px sx a t) True INVALID])"

definition PAYMENT_CLAIMS :: "string list" where
  "PAYMENT_CLAIMS = [''settlement_profile_match'', ''x402_asset_matches'', ''x402_recipient_matches'',
     ''x402_amount_matches'', ''outbound_request_matches_operation'', ''payment_attempt_matches_requirement'',
     ''payment_transaction'']"

definition payment_claims :: "verifier_env \<Rightarrow> VerifierTrust \<Rightarrow> EvidenceBundle \<Rightarrow> check_run" where
  "payment_claims e trust b =
     (let px = ve_platform e; permit = tg_value (sg_body (ea_purchasePermit b)); request = tg_value (ea_request b);
          m = sg_body (eb_manifest b); profile = vt_settlementProfiles trust (pp_network permit);
          attempt = ea_paymentAttempt b in
      case (if em_purchaseState m \<in> ALLOW_STATES then ea_paymentRequirement b else None) of
        None \<Rightarrow> adds (map (\<lambda>i. claim_add i PAYMENT NOT_CHECKED False) PAYMENT_CLAIMS)
      | Some requirement \<Rightarrow>
        and_then
          (adds
            [claim_check ''settlement_profile_match'' PAYMENT (profile_problems profile m requirement attempt) True INVALID,
             claim_check ''x402_asset_matches'' PAYMENT
               [\<not> (pm_asset requirement = rq_mint request \<and> rq_mint request = pp_mint permit)] True INVALID,
             claim_check ''x402_recipient_matches'' PAYMENT
               [\<not> (pm_payTo requirement = rq_recipient request \<and> rq_recipient request = pp_recipient permit)] True INVALID,
             claim_check ''x402_amount_matches'' PAYMENT
               [\<not> (pm_amountAtomic requirement = rq_amountAtomic request
                   \<and> dec (pm_amountAtomic requirement) \<le> dec (pp_maxPerCall permit))] True INVALID])
        (and_then
          (outbound_claims px request (ea_outboundRequest b) requirement attempt)
          (attempt_claims px (ve_solana e) requirement attempt)))"

section \<open>Result and budget\<close>

definition result_problems :: "platform \<Rightarrow> EvidenceResult \<Rightarrow> bool list" where
  "result_problems px r =
     (let bytes = base64_decode (er_bodyBase64 r) in
      if base64_encode bytes \<noteq> er_bodyBase64 r then [True]
      else [sha256 px bytes \<noteq> er_sha256 r \<or> int (length bytes) \<noteq> er_bytes r])"

definition result_claims :: "platform \<Rightarrow> EvidenceBundle \<Rightarrow> check_run" where
  "result_claims px b =
     (case ea_result b of
        None \<Rightarrow> adds [claim_add ''result_digest'' RESULT NOT_CHECKED False]
      | Some r \<Rightarrow> adds [claim_check ''result_digest'' RESULT (result_problems px r) True INVALID,
                      claim_add ''result_observed_by_authority'' RESULT AUTHORITY_ATTESTED False])"

definition budget_claims :: check_run where
  "budget_claims = adds [claim_add ''total_budget_decision'' BUDGET AUTHORITY_ATTESTED False,
     claim_add ''global_budget_completeness'' BUDGET NOT_PROVABLE_FROM_BUNDLE False]"

section \<open>Service\<close>

definition service_authorization_problems ::
  "platform \<Rightarrow> VerifierTrust \<Rightarrow> EvidenceBundle \<Rightarrow> service_authorization signed \<Rightarrow> string \<Rightarrow> bool list" where
  "service_authorization_problems px trust b signd operationDigest =
     (let a = sg_body signd in
      [\<not> verifyServiceAuthorizationSignature px signd (vt_authority trust),
       sa_invocationId a \<noteq> ea_invocationId b \<or> sa_grantId a \<noteq> ea_grantId b,
       case ea_outboundRequest b of None \<Rightarrow> True
         | Some q \<Rightarrow> sa_url a \<noteq> pq_url q \<or> sa_requestSha256 a \<noteq> pq_sha256 q,
       sa_operationDigest a \<noteq> operationDigest,
       case ea_paymentRequirement b of None \<Rightarrow> True
         | Some m \<Rightarrow> sa_network a \<noteq> pm_network m \<or> sa_asset a \<noteq> pm_asset m \<or> sa_payTo a \<noteq> pm_payTo m
             \<or> sa_amountAtomic a \<noteq> pm_amountAtomic m])"

definition service_authorization_claims :: "verifier_env \<Rightarrow> VerifierTrust \<Rightarrow> EvidenceBundle \<Rightarrow> service_artifacts \<Rightarrow> check_run" where
  "service_authorization_claims e trust b sv =
     (case sv_authorization sv of
        None \<Rightarrow> adds [claim_add ''service_authorization'' SERVICE NOT_CHECKED False]
      | Some a \<Rightarrow> needs (computeOperationDigest (ve_platform e) (rq_operation (tg_value (ea_request b)))) (\<lambda>d. adds
          [claim_check ''service_authorization'' SERVICE
             (service_authorization_problems (ve_platform e) trust b a d) True INVALID]))"

text \<open>\<open>authorizationDigest\<close> is the digest of the bundled authorization, \<open>None\<close> where there is none.\<close>

definition acknowledgement_problems ::
  "platform \<Rightarrow> string \<Rightarrow> EvidenceBundle \<Rightarrow> service_acknowledgement signed \<Rightarrow> string option \<Rightarrow> bool list" where
  "acknowledgement_problems px pinned b signd authorizationDigest =
     (let k = sg_body signd; p = rq_operation (tg_value (ea_request b)) in
      [\<not> verifyServiceAcknowledgementSignature px signd pinned,
       sk_invocationId k \<noteq> ea_invocationId b,
       authorizationDigest \<noteq> Some (sk_authorizationDigest k),
       case ea_outboundRequest b of None \<Rightarrow> True | Some q \<Rightarrow> sk_requestSha256 k \<noteq> pq_sha256 q,
       sk_method k \<noteq> op_method p \<or> sk_resource k \<noteq> op_resource p \<or> sk_operation k \<noteq> op_operation p
         \<or> sk_datasetId k \<noteq> op_datasetId p,
       case ea_paymentRequirement b of None \<Rightarrow> True
         | Some m \<Rightarrow> sk_asset k \<noteq> pm_asset m \<or> sk_payTo k \<noteq> pm_payTo m \<or> sk_amountAtomic k \<noteq> pm_amountAtomic m,
       case ea_settlement b of None \<Rightarrow> True | Some st \<Rightarrow> sk_transaction k \<noteq> Some (cs_transactionId st),
       case ea_result b of None \<Rightarrow> True
         | Some r \<Rightarrow> sk_sha256 k \<noteq> er_sha256 r \<or> sk_bytes k \<noteq> er_bytes r \<or> sk_httpStatus k \<noteq> er_httpStatus r])"

definition acknowledgement_claims ::
  "verifier_env \<Rightarrow> string \<Rightarrow> EvidenceBundle \<Rightarrow> service_artifacts \<Rightarrow> service_acknowledgement signed \<Rightarrow> check_run" where
  "acknowledgement_claims e pinned b sv ack =
     (let px = ve_platform e in
      and_then
        (adds [claim_check ''service_trusted'' SERVICE [sk_service (sg_body ack) \<noteq> pinned] True INVALID])
        (needs (case sv_authorization sv of None \<Rightarrow> Some None
                 | Some a \<Rightarrow> map_option Some (serviceAuthorizationDigest px a)) (\<lambda>d.
           let problems = acknowledgement_problems px pinned b ack d in adds
             [claim_check ''service_acknowledgement'' SERVICE problems True INVALID,
              claim_add ''service_result_attestation'' SERVICE
                (if list_all Not problems then SERVICE_ATTESTED else INVALID) False])))"

definition result_correctness :: claim where
  "result_correctness = claim_add ''result_correctness'' SERVICE NOT_PROVABLE_FROM_BUNDLE False"

definition serviceClaims :: "verifier_env \<Rightarrow> VerifierTrust \<Rightarrow> EvidenceBundle \<Rightarrow> check_run" where
  "serviceClaims e trust b =
     (case ea_service b of
        None \<Rightarrow> adds (map (\<lambda>i. claim_add i SERVICE NOT_CHECKED False)
            [''service_authorization'', ''service_trusted'', ''service_acknowledgement'']
          @ [claim_add ''service_result_attestation'' SERVICE NOT_PROVABLE_FROM_BUNDLE False, result_correctness])
      | Some sv \<Rightarrow>
        and_then (service_authorization_claims e trust b sv)
        (and_then
          (case vt_service trust of
             None \<Rightarrow> adds [claim_add ''service_trusted'' SERVICE NOT_CHECKED False,
                claim_add ''service_acknowledgement'' SERVICE NOT_CHECKED False,
                claim_add ''service_result_attestation'' SERVICE NOT_PROVABLE_FROM_BUNDLE False]
           | Some pinned \<Rightarrow>
             if em_purchaseState (sg_body (eb_manifest b)) \<noteq> CONFIRMED
             then adds [claim_add ''service_trusted'' SERVICE NOT_CHECKED False,
                claim_add ''service_acknowledgement'' SERVICE NOT_CHECKED False,
                claim_add ''service_result_attestation'' SERVICE NOT_PROVABLE_FROM_BUNDLE False]
             else case sv_acknowledgement sv of
               None \<Rightarrow> adds [claim_add ''service_trusted'' SERVICE INVALID True,
                  claim_add ''service_acknowledgement'' SERVICE INVALID True,
                  claim_add ''service_result_attestation'' SERVICE NOT_PROVABLE_FROM_BUNDLE False]
             | Some ack \<Rightarrow> acknowledgement_claims e pinned b sv ack)
          (adds [result_correctness])))"

section \<open>Settlement\<close>

text \<open>The body of the \<open>try\<close>; \<open>None\<close> is a throw, which reads as INDETERMINATE.\<close>

definition observe_settlement ::
  "verifier_env \<Rightarrow> SettlementProfile option \<Rightarrow> OnlineSettlementSource \<Rightarrow> ConfirmedSettlement \<Rightarrow> PaymentAttempt
     \<Rightarrow> ClaimStatus option" where
  "observe_settlement e profile source settlement attempt =
     (case os_getVersion source of
        None \<Rightarrow> None
      | Some version \<Rightarrow>
        if (case profile of None \<Rightarrow> False | Some p \<Rightarrow> sp_environment p = ''sandbox'')
          \<and> \<not> jstr_is (\<lambda>_. True) (jget version ''surfnet-version'')
        then Some INDETERMINATE
        else case os_getTransaction source (cs_transactionId settlement) of
          None \<Rightarrow> None
        | Some tx \<Rightarrow>
          if tx = JNull then Some INDETERMINATE
          else case checkSettledTransaction (ve_solana e) (ve_rpcTransaction e tx) (expected_settlement attempt) of
            None \<Rightarrow> None
          | Some (Settled transactionId _) \<Rightarrow>
              Some (if transactionId = cs_transactionId settlement then VERIFIED else INVALID)
          | Some _ \<Rightarrow> Some INVALID)"

definition settlementClaims ::
  "verifier_env \<Rightarrow> SettlementProfile option \<Rightarrow> VerifyOptions \<Rightarrow> EvidenceBundle \<Rightarrow> check_run" where
  "settlementClaims e profile options b =
     (let state = em_purchaseState (sg_body (eb_manifest b)) in
      case (if state \<noteq> CONFIRMED then None else ea_settlement b, ea_paymentAttempt b) of
        (Some settlement, Some attempt) \<Rightarrow>
          (case options of
             Offline \<Rightarrow> adds [claim_add ''settlement'' SETTLEMENT AUTHORITY_ATTESTED False]
           | Online source \<Rightarrow> adds [claim_add ''settlement'' SETTLEMENT
               (case observe_settlement e profile source settlement attempt of None \<Rightarrow> INDETERMINATE | Some s \<Rightarrow> s) True])
      | _ \<Rightarrow> adds [claim_add ''settlement'' SETTLEMENT
               (if state = RECONCILIATION_REQUIRED then INDETERMINATE else NOT_CHECKED) False])"

section \<open>The verifier\<close>

definition verifyParsed :: "verifier_env \<Rightarrow> EvidenceBundle \<Rightarrow> VerifierTrust \<Rightarrow> VerifyOptions \<Rightarrow> check_run" where
  "verifyParsed e b trust options =
     foldr and_then
       [trust_claims trust b, integrity_claims e trust b, authorization_claims e trust b, policy_claims b,
        payment_claims e trust b, result_claims (ve_platform e) b, budget_claims, serviceClaims e trust b,
        settlementClaims e (vt_settlementProfiles trust (pp_network (tg_value (sg_body (ea_purchasePermit b))))) options b]
       (adds [])"

definition verifyEvidenceBundle :: "verifier_env \<Rightarrow> jsval \<Rightarrow> VerifierTrust \<Rightarrow> VerifyOptions \<Rightarrow> VerificationReport" where
  "verifyEvidenceBundle e input trust options =
     (let online = (case options of Offline \<Rightarrow> False | Online _ \<Rightarrow> True) in
      case parseEvidenceBundle (ve_platform e) input of
        None \<Rightarrow> \<lparr> rp_overall = Overall_INVALID, rp_online = online, rp_decision = None, rp_purchaseState = None,
                  rp_invocationId = None, rp_claims = [claim_add ''bundle_format'' FORMAT INVALID True],
                  rp_notProven = NOT_PROVEN \<rparr>
      | Some b \<Rightarrow>
        let checks = verifyParsed e b trust options;
            claims = claim_add ''bundle_format'' FORMAT VERIFIED True # fst checks
              @ (if snd checks then [claim_add ''verifier_internal'' FORMAT INVALID True] else [])
        in \<lparr> rp_overall = overallOf claims, rp_online = online, rp_decision = Some (em_decision (sg_body (eb_manifest b))),
             rp_purchaseState = Some (em_purchaseState (sg_body (eb_manifest b))),
             rp_invocationId = Some (ea_invocationId b), rp_claims = claims, rp_notProven = NOT_PROVEN \<rparr>)"

section \<open>The settlement RPC client\<close>

definition MAX_RPC_RESPONSE_BYTES :: nat where
  "MAX_RPC_RESPONSE_BYTES = 256 * 1024"

text \<open>\<open>transport\<close> answers one POST to the configured URL with \<open>response.ok\<close> and the text of the body; \<open>None\<close>
  is a failed fetch, a redirect or a timeout.  \<open>None\<close> of \<open>rpc_call\<close> is a throw.\<close>

definition rpc_call ::
  "platform \<Rightarrow> (jsval \<Rightarrow> (bool \<times> string) option) \<Rightarrow> string \<Rightarrow> jsval list \<Rightarrow> jsval option" where
  "rpc_call px transport mthd params =
     (case transport (JObj [(''jsonrpc'', JStr ''2.0''), (''id'', JInt 1), (''method'', JStr mthd), (''params'', JArr params)]) of
        None \<Rightarrow> None
      | Some (ok, text) \<Rightarrow>
        if \<not> ok then None
        else if length text > MAX_RPC_RESPONSE_BYTES then None
        else case parseJson px (utf8 text) of
          None \<Rightarrow> None
        | Some body \<Rightarrow>
          if nullish body \<or> jtruthy (jget body ''error'') then None else Some (jget body ''result''))"

definition createRpcSettlementSource ::
  "platform \<Rightarrow> (jsval \<Rightarrow> (bool \<times> string) option) \<Rightarrow> string \<Rightarrow> OnlineSettlementSource option" where
  "createRpcSettlementSource px transport rpcUrl =
     (case parseUrl px rpcUrl of
        None \<Rightarrow> None
      | Some url \<Rightarrow>
        if (url_protocol url \<noteq> ''https:'' \<and> url_protocol url \<noteq> ''http:'') \<or> url_username url \<noteq> [] \<or> url_password url \<noteq> []
        then None
        else Some \<lparr> os_getVersion = rpc_call px transport ''getVersion'' [],
          os_getTransaction = (\<lambda>signature. rpc_call px transport ''getTransaction''
            [JStr signature, JObj [(''encoding'', JStr ''jsonParsed''), (''commitment'', JStr ''confirmed''),
              (''maxSupportedTransactionVersion'', JInt 0)]]) \<rparr>)"

end
