(* ===== verification/Evidence_Bundle_Exact.thy ===== *)
theory Evidence_Bundle_Exact
  imports Evidence_Bundle_Parse
begin

text \<open>
  The parser of evidence bundles is exact: on a JSON value it succeeds exactly when the value is, up to the
  order of object keys, the JSON form of the result, and the result is within the bounds.  The locale
  \<open>exact_parser\<close> states this contract for one parser and gives the nullable field for free; every
  combinator and artifact parser interprets it.
\<close>

section \<open>Exact parsers\<close>

declare jnorm.simps(2) [simp del]

definition maybe_json :: "jsval \<Rightarrow> bool" where
  "maybe_json v \<longleftrightarrow> v = JUndef \<or> json_value v"

lemma maybe_json_jget [simp]: "maybe_json v \<Longrightarrow> maybe_json (jget v k)"
  by (cases v) (auto simp: maybe_json_def split: option.split dest!: map_of_SomeD)

lemma maybe_json_value: "json_value v \<Longrightarrow> maybe_json v"
  by (simp add: maybe_json_def)

lemma same_object:
  assumes "maybe_json v" "distinct (map fst b)"
  shows "jnorm v = jnorm (JObj b) \<longleftrightarrow> isPlainObject v \<and> set (jkeys v) = set (map fst b)
    \<and> list_all (\<lambda>(k, x). jnorm (jget v k) = jnorm x) b"
  using assms same_object_iff [of v b] by (cases "v = JUndef") (simp_all add: maybe_json_def jnorm.simps(2))

locale exact_parser =
  fixes parse :: "jsval \<Rightarrow> 'a option"
    and json :: "'a \<Rightarrow> jsval"
    and wf :: "'a \<Rightarrow> bool"
  assumes exact: "maybe_json v \<Longrightarrow> parse v = Some a \<longleftrightarrow> wf a \<and> jnorm v = jnorm (json a)"
    and not_null: "wf a \<Longrightarrow> jnorm (json a) \<noteq> JNull"
begin

lemma nullable:
  "maybe_json v \<Longrightarrow> p_nullable parse v = Some x \<longleftrightarrow> pred_option wf x \<and> jnorm v = jnorm (opt_json json x)"
  using not_null by (cases x) (auto simp: p_nullable_def opt_json_def exact dest!: sym [of JNull])

lemma reads_back: "wf a \<Longrightarrow> json_value v \<Longrightarrow> jnorm v = jnorm (json a) \<Longrightarrow> parse v = Some a"
  using exact [OF maybe_json_value] by blast

lemma determined: "json_value v \<Longrightarrow> json_value w \<Longrightarrow> parse v = Some a \<Longrightarrow> parse w = Some a \<Longrightarrow> jnorm v = jnorm w"
  using exact [OF maybe_json_value] by simp

end

definition bounded_text :: "nat \<Rightarrow> string \<Rightarrow> bool" where
  "bounded_text n s \<longleftrightarrow> s \<noteq> [] \<and> length s \<le> n"

definition safe_from :: "int \<Rightarrow> int \<Rightarrow> bool" where
  "safe_from mn i \<longleftrightarrow> mn \<le> i \<and> \<bar>i\<bar> \<le> MAX_SAFE_INTEGER"

interpretation text_parser: exact_parser "p_string n P" JStr "\<lambda>s. bounded_text n s \<and> P s" for n P
  by unfold_locales (auto simp: p_string_iff bounded_text_def)

interpretation integer_parser: exact_parser "p_integer mn" JInt "safe_from mn" for mn
  by unfold_locales (auto simp: p_integer_iff safe_from_def)

named_theorems exact_simps

lemmas [exact_simps] = text_parser.exact text_parser.nullable integer_parser.exact integer_parser.nullable
  p_literal_iff p_object_all bind_Some_iff

definition wf_signature :: "string \<Rightarrow> bool" where
  "wf_signature s \<longleftrightarrow> bounded_text 128 s \<and> base58_pattern s"

interpretation signature_parser: exact_parser p_signature signature_json wf_signature
proof
  fix v s
  assume v: "maybe_json v"
  show "p_signature v = Some s \<longleftrightarrow> wf_signature s \<and> jnorm v = jnorm (signature_json s)"
    unfolding p_signature_def signature_json_def using v
    by (simp add: same_object exact_simps wf_signature_def) blast
qed (simp add: signature_json_def)

lemmas [exact_simps] = signature_parser.exact

definition wf_operation_text :: "ExactOperation \<Rightarrow> bool" where
  "wf_operation_text p \<longleftrightarrow> bounded_text 16 (op_method p) \<and> bounded_text 256 (op_resource p)
     \<and> bounded_text 64 (op_operation p) \<and> bounded_text 128 (op_datasetId p)"

interpretation operation_parser: exact_parser p_operation operation_json wf_operation_text
proof
  fix v p
  assume v: "maybe_json v"
  then show "p_operation v = Some p \<longleftrightarrow> wf_operation_text p \<and> jnorm v = jnorm (operation_json p)"
    unfolding p_operation_def operation_json_def
    by (cases p) (auto simp: same_object exact_simps wf_operation_text_def any_string_def)
qed (simp add: operation_json_def)

lemmas [exact_simps] = operation_parser.exact


lemmas artifact_simps = same_object any_string_def MAX_STRING_def MAX_URL_def with_text_def signed_json_def

definition wf_permit_artifact :: "permit_v2 tagged signed \<Rightarrow> bool" where
  "wf_permit_artifact s \<longleftrightarrow> (let p = tg_value (sg_body s) in
     bounded_text 512 (tg_text (sg_body s)) \<and> bounded_text 128 (pp_grantId p)
     \<and> list_all (\<lambda>k. bounded_text 64 k \<and> base58_pattern k) [pp_issuer p, pp_authorizedAgent p, pp_mint p, pp_recipient p]
     \<and> bounded_text 128 (pp_service p) \<and> bounded_text 128 (pp_capability p) \<and> bounded_text 64 (pp_network p)
     \<and> list_all (\<lambda>k. bounded_text 20 k \<and> atomic_pattern k) [pp_maxPerCall p, pp_maxTotal p]
     \<and> safe_from 1 (pp_issuedAt p) \<and> safe_from 1 (pp_expiresAt p)
     \<and> wf_operation_text (pp_operation p) \<and> wf_signature (sg_signature s))"

interpretation permit_parser: exact_parser p_permit "signed_json permit_artifact_fields" wf_permit_artifact
proof
  fix v s
  assume v: "maybe_json v"
  show "p_permit v = Some s \<longleftrightarrow> wf_permit_artifact s \<and> jnorm v = jnorm (signed_json permit_artifact_fields s)"
    unfolding p_permit_def wf_permit_artifact_def Let_def PERMIT_FIELDS_def using v
    by (cases s; cases "sg_body s"; cases "tg_value (sg_body s)")
      (auto simp: exact_simps artifact_simps permit_artifact_fields_def permit_v2_fields_def shared_permit_fields_def)
qed (simp add: signed_json_def)

lemmas [exact_simps] = permit_parser.exact

definition wf_request_artifact :: "request_v2 tagged \<Rightarrow> bool" where
  "wf_request_artifact t \<longleftrightarrow> (let r = tg_value t in
     bounded_text 512 (tg_text t)
     \<and> list_all (bounded_text 128) [rq_audience r, rq_grantId r, rq_invocationId r, rq_service r, rq_capability r]
     \<and> list_all (bounded_text 64) [rq_permitDigest r, rq_network r, rq_mint r, rq_recipient r]
     \<and> hex64_pattern (rq_permitDigest r) \<and> bounded_text 20 (rq_amountAtomic r) \<and> atomic_pattern (rq_amountAtomic r)
     \<and> safe_from 1 (rq_issuedAt r) \<and> wf_operation_text (rq_operation r))"

interpretation request_parser: exact_parser p_request "\<lambda>r. JObj (request_artifact_fields r)" wf_request_artifact
proof
  fix v s
  assume v: "maybe_json v"
  show "p_request v = Some s \<longleftrightarrow> wf_request_artifact s \<and> jnorm v = jnorm (JObj (request_artifact_fields s))"
    unfolding p_request_def wf_request_artifact_def Let_def REQUEST_FIELDS_def using v
    by (cases s; cases "tg_value s")
      (auto simp: exact_simps artifact_simps request_artifact_fields_def shared_request_fields_def)
qed simp

lemmas [exact_simps] = request_parser.exact

interpretation wrapper_parser: exact_parser p_authorizationRequest "\<lambda>(r, sig). authorization_request_json r sig"
    "\<lambda>(r, sig). wf_request_artifact r \<and> wf_signature sig"
proof
  fix v s
  assume v: "maybe_json v"
  show "p_authorizationRequest v = Some s \<longleftrightarrow> (case s of (r, sig) \<Rightarrow> wf_request_artifact r \<and> wf_signature sig)
      \<and> jnorm v = jnorm (case s of (r, sig) \<Rightarrow> authorization_request_json r sig)"
    unfolding p_authorizationRequest_def authorization_request_json_def using v
    by (cases s) (auto simp: exact_simps same_object)
qed (simp add: authorization_request_json_def split: prod.split)

lemmas [exact_simps] = wrapper_parser.exact

interpretation decision_parser: exact_parser p_decision "\<lambda>d. JStr (verdict_text d)" "\<lambda>_. True"
proof
  fix v d
  show "p_decision v = Some d \<longleftrightarrow> True \<and> jnorm v = jnorm (JStr (verdict_text d))"
    by (cases d) (auto simp: p_decision_def)
qed simp

interpretation state_parser: exact_parser p_purchaseState "\<lambda>p. JStr (purchase_state_text p)" "\<lambda>_. True"
proof
  fix v p
  show "p_purchaseState v = Some p \<longleftrightarrow> True \<and> jnorm v = jnorm (JStr (purchase_state_text p))"
    by (cases v; cases p) (auto simp: p_purchaseState_def PURCHASE_STATES_def)
qed simp

definition wf_reason_codes :: "string list \<Rightarrow> bool" where
  "wf_reason_codes cs \<longleftrightarrow> length cs \<le> 32 \<and> list_all (\<lambda>c. bounded_text 64 c \<and> reason_code_pattern c) cs"

lemma those_strings:
  "those (map (p_string n P) vs) = Some cs \<longleftrightarrow> vs = map JStr cs \<and> list_all (\<lambda>c. bounded_text n c \<and> P c) cs"
proof (induction vs arbitrary: cs)
  case (Cons v vs)
  have p: "p_string n P v = Some c \<longleftrightarrow> v = JStr c \<and> bounded_text n c \<and> P c" for c
    by (simp add: p_string_iff bounded_text_def)
  show ?case
  proof (cases "p_string n P v")
    case None
    with p have "\<not> (v = JStr c \<and> bounded_text n c \<and> P c)" for c by simp
    with None show ?thesis by (cases cs) auto
  next
    case (Some a)
    with p have a: "v = JStr a" "bounded_text n a" "P a" by blast+
    with Some Cons.IH show ?thesis by (cases cs) auto
  qed
qed auto

interpretation codes_parser: exact_parser p_reasonCodes "\<lambda>cs. JArr (map JStr cs)" wf_reason_codes
proof
  fix v cs
  have j: "map jnorm vs = map JStr cs \<longleftrightarrow> vs = map JStr cs" for vs
  proof -
    have "map jnorm vs = map JStr cs \<Longrightarrow> vs = map JStr cs"
      by (induction vs arbitrary: cs) (auto simp: Cons_eq_map_conv)
    then show ?thesis by auto
  qed
  show "p_reasonCodes v = Some cs \<longleftrightarrow> wf_reason_codes cs \<and> jnorm v = jnorm (JArr (map JStr cs))"
    by (cases v) (auto simp: p_reasonCodes_def wf_reason_codes_def those_strings MAX_REASON_CODES_def j comp_def jnorm.simps(2))
qed simp

lemmas [exact_simps] = decision_parser.exact state_parser.exact codes_parser.exact

definition wf_receipt_artifact :: "receipt_v2 tagged signed \<Rightarrow> bool" where
  "wf_receipt_artifact s \<longleftrightarrow> (let r = tg_value (sg_body s) in
     bounded_text 512 (tg_text (sg_body s))
     \<and> list_all (bounded_text 128) [rcp_invocationId r, rcp_grantId r, rcp_service r, rcp_capability r]
     \<and> list_all (bounded_text 64) [rcp_authority r, rcp_agent r, rcp_permitDigest r, rcp_requestFingerprint r,
          rcp_network r, rcp_mint r, rcp_recipient r, rcp_operationDigest r]
     \<and> base58_pattern (rcp_authority r) \<and> base58_pattern (rcp_agent r)
     \<and> list_all hex64_pattern [rcp_permitDigest r, rcp_requestFingerprint r, rcp_operationDigest r]
     \<and> bounded_text 20 (rcp_amountAtomic r) \<and> atomic_pattern (rcp_amountAtomic r)
     \<and> wf_reason_codes (rcp_reasonCodes r)
     \<and> pred_option (\<lambda>t. bounded_text 128 t \<and> base58_pattern t) (rcp_paymentTransactionId r)
     \<and> safe_from 1 (rcp_decidedAt r) \<and> wf_operation_text (rcp_operation r) \<and> wf_signature (sg_signature s))"

interpretation receipt_parser: exact_parser p_receipt "signed_json receipt_artifact_fields" wf_receipt_artifact
proof
  fix v s
  assume v: "maybe_json v"
  show "p_receipt v = Some s \<longleftrightarrow> wf_receipt_artifact s \<and> jnorm v = jnorm (signed_json receipt_artifact_fields s)"
    unfolding p_receipt_def wf_receipt_artifact_def Let_def RECEIPT_FIELDS_def using v
    by (cases s; cases "sg_body s"; cases "tg_value (sg_body s)")
      (auto simp: exact_simps artifact_simps receipt_artifact_fields_def receipt_v2_fields_def receipt_fields_def)
qed (simp add: signed_json_def)

lemmas [exact_simps] = receipt_parser.exact receipt_parser.nullable


definition wf_outbound :: "PaidRequest \<Rightarrow> bool" where
  "wf_outbound q \<longleftrightarrow> pq_method q = ''POST'' \<and> pq_contentType q = ''application/json'' \<and> bounded_text 2048 (pq_url q)
     \<and> bounded_text 16384 (pq_body q) \<and> bounded_text 64 (pq_sha256 q) \<and> hex64_pattern (pq_sha256 q)"

interpretation outbound_parser: exact_parser p_outboundRequest outbound_request_json wf_outbound
proof
  fix v q
  assume v: "maybe_json v"
  show "p_outboundRequest v = Some q \<longleftrightarrow> wf_outbound q \<and> jnorm v = jnorm (outbound_request_json q)"
    unfolding p_outboundRequest_def wf_outbound_def outbound_request_json_def using v
    by (cases q) (auto simp: exact_simps artifact_simps MAX_BODY_def)
qed (simp add: outbound_request_json_def)

fun wf_timeout :: "jsval \<Rightarrow> bool" where
  "wf_timeout (JInt i) = safe_from 0 i"
| "wf_timeout _ = False"

definition wf_requirement :: "PaymentRequirement \<Rightarrow> bool" where
  "wf_requirement m \<longleftrightarrow> pm_protocol m = ''x402'' \<and> safe_from 0 (pm_x402Version m)
     \<and> safe_from 0 (int (pm_acceptsIndex m)) \<and> bounded_text 32 (pm_scheme m) \<and> bounded_text 128 (pm_network m)
     \<and> bounded_text 64 (pm_asset m) \<and> bounded_text 64 (pm_payTo m)
     \<and> bounded_text 20 (pm_amountAtomic m) \<and> atomic_pattern (pm_amountAtomic m)
     \<and> pred_option (bounded_text 64) (pm_feePayer m) \<and> pred_option wf_timeout (pm_maxTimeoutSeconds m)
     \<and> pred_option (bounded_text 2048) (pm_resourceUrl m)"

interpretation timeout_parser: exact_parser p_timeout "\<lambda>v. v" wf_timeout
proof
  fix v a
  show "p_timeout v = Some a \<longleftrightarrow> wf_timeout a \<and> jnorm v = jnorm a"
    by (cases a) (auto simp: p_timeout_def p_integer_iff safe_from_def)
next
  show "wf_timeout a \<Longrightarrow> jnorm a \<noteq> JNull" for a by (cases a) simp_all
qed

interpretation index_parser: exact_parser p_index "\<lambda>n. JInt (int n)" "\<lambda>n. safe_from 0 (int n)"
  by unfold_locales (auto simp: p_index_def p_integer_iff safe_from_def)

lemmas [exact_simps] = timeout_parser.nullable index_parser.exact

interpretation requirement_parser: exact_parser p_paymentRequirement requirement_json wf_requirement
proof
  fix v m
  assume v: "maybe_json v"
  show "p_paymentRequirement v = Some m \<longleftrightarrow> wf_requirement m \<and> jnorm v = jnorm (requirement_json m)"
    unfolding p_paymentRequirement_def wf_requirement_def requirement_json_def REQUIREMENT_FIELDS_def using v
    by (cases m) (auto simp: exact_simps artifact_simps)
qed (simp add: requirement_json_def)

definition wf_attempt :: "PaymentAttempt \<Rightarrow> bool" where
  "wf_attempt a \<longleftrightarrow> at_protocol a = ''x402'' \<and> bounded_text 32 (at_scheme a)
     \<and> list_all (bounded_text 64) [at_settlementProfile a, at_payer a, at_feePayer a, at_asset a, at_payTo a,
          at_blockhash a, at_requestSha256 a]
     \<and> bounded_text 128 (at_network a) \<and> bounded_text 128 (at_payerSignature a)
     \<and> list_all (\<lambda>k. bounded_text 20 k \<and> atomic_pattern k) [at_amountAtomic a, at_lastValidBlockHeight a]
     \<and> bounded_text 2048 (at_resourceUrl a) \<and> hex64_pattern (at_requestSha256 a)
     \<and> pred_option (\<lambda>t. bounded_text 4096 t \<and> base64_pattern t) (at_transactionBase64 a)
     \<and> safe_from 0 (at_preparedAt a)"

lemma attempt_keys:
  "map fst (attempt_fields a) = ATTEMPT_FIELDS @ (case at_transactionBase64 a of None \<Rightarrow> [] | Some _ \<Rightarrow> [''transactionBase64''])"
  "''transactionBase64'' \<notin> set ATTEMPT_FIELDS" "distinct ATTEMPT_FIELDS"
  by (auto simp: attempt_fields_def ATTEMPT_FIELDS_def split: option.split)

lemma p_object_optional:
  "k \<notin> set req \<Longrightarrow> p_object v req [k] = Some r \<longleftrightarrow>
     r = v \<and> isPlainObject v \<and> set (jkeys v) = (if k \<in> set (jkeys v) then insert k (set req) else set req)"
  unfolding p_object_iff by auto

interpretation attempt_parser: exact_parser p_paymentAttempt attempt_json wf_attempt
proof
  fix v a
  assume v: "maybe_json v"
  have d: "distinct (map fst (attempt_fields a))"
    using attempt_keys(2,3) by (auto simp: attempt_keys(1) split: option.split)
  have ne: "insert ''transactionBase64'' (set ATTEMPT_FIELDS) \<noteq> set ATTEMPT_FIELDS" using attempt_keys(2) by blast
  show "p_paymentAttempt v = Some a \<longleftrightarrow> wf_attempt a \<and> jnorm v = jnorm (attempt_json a)"
    unfolding p_paymentAttempt_def attempt_json_def same_object [OF v d] attempt_keys(1)
      p_object_optional [OF attempt_keys(2)] bind_Some_iff
    using v attempt_keys(2) ne
    by (cases a; cases "at_transactionBase64 a"; cases "''transactionBase64'' \<in> set (jkeys v)")
      (auto simp: exact_simps artifact_simps wf_attempt_def attempt_fields_def MAX_TRANSACTION_BASE64_def)
qed (simp add: attempt_json_def)

definition wf_settlement :: "ConfirmedSettlement \<Rightarrow> bool" where
  "wf_settlement s \<longleftrightarrow> bounded_text 128 (cs_transactionId s) \<and> base58_pattern (cs_transactionId s)
     \<and> pred_option (\<lambda>t. bounded_text 20 t \<and> atomic_pattern t) (cs_slot s)
     \<and> pred_option (bounded_text 128) (cs_facilitatorReportedTransaction s) \<and> safe_from 0 (cs_confirmedAt s)"

interpretation settlement_parser: exact_parser p_settlement settlement_json wf_settlement
proof
  fix v s
  assume v: "maybe_json v"
  show "p_settlement v = Some s \<longleftrightarrow> wf_settlement s \<and> jnorm v = jnorm (settlement_json s)"
    unfolding p_settlement_def wf_settlement_def settlement_json_def using v
    by (cases s) (auto simp: exact_simps artifact_simps)
qed (simp add: settlement_json_def)

definition wf_result :: "EvidenceResult \<Rightarrow> bool" where
  "wf_result r \<longleftrightarrow> safe_from 100 (er_httpStatus r) \<and> length (er_bodyBase64 r) \<le> 98304 \<and> base64_pattern (er_bodyBase64 r)
     \<and> safe_from 0 (er_bytes r) \<and> bounded_text 64 (er_sha256 r) \<and> hex64_pattern (er_sha256 r)"

interpretation body_parser: exact_parser p_bodyBase64 JStr "\<lambda>s. length s \<le> 98304 \<and> base64_pattern s"
proof
  fix v s
  show "p_bodyBase64 v = Some s \<longleftrightarrow> (length s \<le> 98304 \<and> base64_pattern s) \<and> jnorm v = jnorm (JStr s)"
    by (cases v) (auto simp: p_bodyBase64_def MAX_RESULT_BASE64_def)
qed simp

interpretation result_parser: exact_parser p_result result_json wf_result
proof
  fix v r
  assume v: "maybe_json v"
  show "p_result v = Some r \<longleftrightarrow> wf_result r \<and> jnorm v = jnorm (result_json r)"
    unfolding p_result_def wf_result_def result_json_def using v
    by (cases r) (auto simp: exact_simps body_parser.exact artifact_simps)
qed (simp add: result_json_def)

lemmas [exact_simps] = outbound_parser.nullable requirement_parser.nullable attempt_parser.nullable
  settlement_parser.nullable result_parser.nullable


section \<open>The manifest and the bundle\<close>

lemma opt_json_simps [simp]: "opt_json f None = JNull" "opt_json f (Some a) = f a"
  by (simp_all add: opt_json_def)

definition wf_digest :: "string \<Rightarrow> bool" where
  "wf_digest d \<longleftrightarrow> bounded_text 64 d \<and> hex64_pattern d"

interpretation hex_parser: exact_parser p_hex JStr wf_digest
  by unfold_locales (auto simp: p_hex_def text_parser.exact wf_digest_def)

lemmas [exact_simps] = hex_parser.exact hex_parser.nullable

definition digests_json :: "EvidenceDigests \<times> service_digests option \<Rightarrow> jsval" where
  "digests_json ds = JObj (map (\<lambda>(k, d). (k, opt_json JStr d)) (digest_entries (fst ds) (snd ds)))"

definition wf_digests :: "bool \<Rightarrow> EvidenceDigests \<times> service_digests option \<Rightarrow> bool" where
  "wf_digests v2 ds \<longleftrightarrow> (snd ds \<noteq> None \<longleftrightarrow> v2)
     \<and> list_all (\<lambda>(k, d). pred_option wf_digest d) (digest_entries (fst ds) (snd ds))"

interpretation digests_parser: exact_parser "p_digests v2" digests_json "wf_digests v2" for v2
proof
  fix v :: jsval and ds :: "EvidenceDigests \<times> service_digests option"
  assume v: "maybe_json v"
  obtain d sd where ds: "ds = (d, sd)" by fastforce
  show "p_digests v2 v = Some ds \<longleftrightarrow> wf_digests v2 ds \<and> jnorm v = jnorm (digests_json ds)"
  proof (cases sd)
    case None
    then show ?thesis
      unfolding p_digests_def wf_digests_def digests_json_def digest_entries_def DIGEST_FIELDS_def SERVICE_FIELDS_def ds Let_def
      using v by (cases d) (auto simp: exact_simps same_object split: if_splits)
  next
    case (Some s)
    then show ?thesis
      unfolding p_digests_def wf_digests_def digests_json_def digest_entries_def DIGEST_FIELDS_def SERVICE_FIELDS_def ds Let_def
      using v by (cases d; cases s) (auto simp: exact_simps same_object split: if_splits)
  qed
qed (simp add: digests_json_def)

lemmas [exact_simps] = digests_parser.exact

definition wf_manifest :: "bool \<Rightarrow> EvidenceManifest signed \<Rightarrow> bool" where
  "wf_manifest v2 s \<longleftrightarrow> (let m = sg_body s in
     bounded_text 64 (em_authority m) \<and> base58_pattern (em_authority m) \<and> safe_from 1 (em_issuedAt m)
     \<and> bounded_text 64 (em_settlementProfile m) \<and> bounded_text 128 (em_grantId m) \<and> bounded_text 128 (em_invocationId m)
     \<and> wf_reason_codes (em_reasonCodes m) \<and> wf_digests v2 (em_digests m, em_serviceDigests m)
     \<and> wf_signature (sg_signature s))"

lemma manifest_fields_digests:
  "manifest_fields m =
     [(''version'', JInt (int (manifest_version m))), (''domain'', JStr EVIDENCE_MANIFEST_DOMAIN),
      (''authority'', JStr (em_authority m)), (''issuedAt'', JInt (em_issuedAt m)),
      (''settlementProfile'', JStr (em_settlementProfile m)), (''grantId'', JStr (em_grantId m)),
      (''invocationId'', JStr (em_invocationId m)), (''purchaseState'', JStr (purchase_state_text (em_purchaseState m))),
      (''decision'', JStr (verdict_text (em_decision m))), (''reasonCodes'', JArr (map JStr (em_reasonCodes m))),
      (''digests'', digests_json (em_digests m, em_serviceDigests m))]"
  by (simp add: manifest_fields_def digests_json_def)

lemma wf_digests_version:
  "wf_digests v2 (em_digests m, em_serviceDigests m) \<Longrightarrow> int (manifest_version m) = (if v2 then 2 else 1)"
  by (auto simp: wf_digests_def manifest_version_def split: option.splits)

interpretation manifest_parser: exact_parser "p_manifest v2" "signed_json manifest_fields" "wf_manifest v2" for v2
proof
  fix v :: jsval and s :: "EvidenceManifest signed"
  assume v: "maybe_json v"
  obtain m t where s: "s = \<lparr> sg_body = m, sg_signature = t \<rparr>" by (cases s) auto
  have d: "distinct (map fst (manifest_fields m @ [(''signature'', signature_json t)]))"
    by (simp add: manifest_fields_digests)
  show "p_manifest v2 v = Some s \<longleftrightarrow> wf_manifest v2 s \<and> jnorm v = jnorm (signed_json manifest_fields s)"
  proof (cases "wf_digests v2 (em_digests m, em_serviceDigests m)")
    case True
    have ver: "int (manifest_version m) = (if v2 then 2 else 1)" using wf_digests_version [OF True] .
    show ?thesis
      unfolding p_manifest_def wf_manifest_def MANIFEST_FIELDS_def s signed_json_def signed.simps same_object [OF v d] Let_def
      unfolding manifest_fields_digests ver
      using v True by (cases m) (auto simp: exact_simps any_string_def)
  next
    case False
    then show ?thesis
      unfolding p_manifest_def wf_manifest_def s signed.simps Let_def
      using v by (cases m) (auto simp: exact_simps)
  qed
qed (simp add: signed_json_def)

lemma undefined_message:
  "parseServiceAuthorization JUndef = None" "parseServiceAcknowledgement JUndef = None"
  "JUndef \<noteq> jnorm (signed_json fs m)"
  by (simp_all add: parseServiceAuthorization_def parseServiceAcknowledgement_def p_object_def signed_json_def jnorm.simps(2))

interpretation service_authorization_parser:
  exact_parser parseServiceAuthorization "signed_json service_authorization_fields" wf_service_authorization
proof
  fix v m
  assume "maybe_json v"
  then show "parseServiceAuthorization v = Some m \<longleftrightarrow> wf_service_authorization m \<and> jnorm v = jnorm (signed_json service_authorization_fields m)"
    using parseServiceAuthorization_exact [of v m]
    by (cases "v = JUndef") (simp_all add: maybe_json_def undefined_message)
qed (simp add: signed_json_def)

interpretation service_acknowledgement_parser:
  exact_parser parseServiceAcknowledgement "signed_json service_acknowledgement_fields" wf_service_acknowledgement
proof
  fix v m
  assume "maybe_json v"
  then show "parseServiceAcknowledgement v = Some m \<longleftrightarrow> wf_service_acknowledgement m \<and> jnorm v = jnorm (signed_json service_acknowledgement_fields m)"
    using parseServiceAcknowledgement_exact [of v m]
    by (cases "v = JUndef") (simp_all add: maybe_json_def undefined_message)
qed (simp add: signed_json_def)

lemmas [exact_simps] = manifest_parser.exact service_authorization_parser.nullable service_acknowledgement_parser.nullable

definition service_fields :: "service_artifacts option \<Rightarrow> (string \<times> jsval) list" where
  "service_fields sv = (case sv of None \<Rightarrow> []
     | Some s \<Rightarrow> [(''serviceAuthorization'', opt_json (signed_json service_authorization_fields) (sv_authorization s)),
                 (''serviceAcknowledgement'', opt_json (signed_json service_acknowledgement_fields) (sv_acknowledgement s))])"

definition bundle_fields :: "EvidenceBundle \<Rightarrow> (string \<times> jsval) list" where
  "bundle_fields b =
     [(''version'', JInt (if ea_service b = None then 1 else 2)), (''domain'', JStr EVIDENCE_BUNDLE_DOMAIN),
      (''environment'', JObj [(''settlementProfile'', JStr (ea_settlementProfile b))]),
      (''identifiers'', JObj [(''grantId'', JStr (ea_grantId b)), (''invocationId'', JStr (ea_invocationId b))]),
      (''purchasePermit'', signed_json permit_artifact_fields (ea_purchasePermit b)),
      (''authorizationRequest'', authorization_request_json (ea_request b) (ea_agentSignature b)),
      (''authorityDecision'', opt_json (signed_json receipt_artifact_fields) (ea_authorityDecision b)),
      (''outboundRequest'', opt_json outbound_request_json (ea_outboundRequest b)),
      (''paymentRequirement'', opt_json requirement_json (ea_paymentRequirement b)),
      (''paymentAttempt'', opt_json attempt_json (ea_paymentAttempt b)),
      (''settlement'', opt_json settlement_json (ea_settlement b)),
      (''result'', opt_json result_json (ea_result b)),
      (''manifest'', signed_json manifest_fields (eb_manifest b))] @ service_fields (ea_service b)"

definition wf_service :: "service_artifacts \<Rightarrow> bool" where
  "wf_service s \<longleftrightarrow> pred_option wf_service_authorization (sv_authorization s)
     \<and> pred_option wf_service_acknowledgement (sv_acknowledgement s)"

definition wf_bundle :: "EvidenceBundle \<Rightarrow> bool" where
  "wf_bundle b \<longleftrightarrow> bounded_text 64 (ea_settlementProfile b) \<and> bounded_text 128 (ea_grantId b)
     \<and> bounded_text 128 (ea_invocationId b) \<and> wf_permit_artifact (ea_purchasePermit b)
     \<and> wf_request_artifact (ea_request b) \<and> wf_signature (ea_agentSignature b)
     \<and> pred_option wf_receipt_artifact (ea_authorityDecision b) \<and> pred_option wf_outbound (ea_outboundRequest b)
     \<and> pred_option wf_requirement (ea_paymentRequirement b) \<and> pred_option wf_attempt (ea_paymentAttempt b)
     \<and> pred_option wf_settlement (ea_settlement b) \<and> pred_option wf_result (ea_result b)
     \<and> wf_manifest (ea_service b \<noteq> None) (eb_manifest b) \<and> pred_option wf_service (ea_service b)"

lemma p_service_exact:
  "maybe_json v \<Longrightarrow> p_service v2 v = Some sv \<longleftrightarrow>
     (sv \<noteq> None \<longleftrightarrow> v2) \<and> pred_option wf_service sv \<and> list_all (\<lambda>(k, x). jnorm (jget v k) = jnorm x) (service_fields sv)"
  unfolding p_service_def service_fields_def wf_service_def
  by (cases v2; cases sv; cases "the sv") (auto simp: exact_simps)

lemma bundle_keys: "map fst (bundle_fields b) = (if ea_service b \<noteq> None then BUNDLE_FIELDS @ SERVICE_FIELDS else BUNDLE_FIELDS)"
  "distinct (BUNDLE_FIELDS @ SERVICE_FIELDS)"
  by (auto simp: bundle_fields_def service_fields_def BUNDLE_FIELDS_def SERVICE_FIELDS_def)

lemma p_bundle_exact:
  assumes v: "maybe_json v"
  shows "bundle_version v = Some v2 \<and> p_bundle v2 v = Some b
    \<longleftrightarrow> wf_bundle b \<and> v2 = (ea_service b \<noteq> None) \<and> jnorm v = jnorm (JObj (bundle_fields b))"
proof -
  have d: "distinct (map fst (bundle_fields b))" using bundle_keys by auto
  have ver: "bundle_version v = Some x \<longleftrightarrow> isPlainObject v \<and> jget v ''version'' = JInt (if x then 2 else 1)" for x
    by (auto simp: bundle_version_def Let_def split: if_splits)
  show ?thesis
    unfolding p_bundle_def same_object [OF v d] bundle_keys wf_bundle_def ver
    unfolding bundle_fields_def list_all_append
    using v by (cases b; cases v2) (auto simp: exact_simps p_service_exact same_object any_string_def split_beta)
qed

end
