(* ===== verification/Evidence_Verify_Lemmas.thy ===== *)
theory Evidence_Verify_Lemmas
  imports Evidence_Verify Evidence_Bundle_Exact
begin

text \<open>
  What the claims of the verifier mean.  A claim is acceptable when it is not INVALID and, if required,
  VERIFIED; the overall result is VALID exactly when no part threw and every claim is acceptable.  The section
  predicates below state, in terms of the bundle alone, when the claims of each part are acceptable.
\<close>

section \<open>Acceptable claims\<close>

definition claim_ok :: "claim \<Rightarrow> bool" where
  "claim_ok c \<longleftrightarrow> cl_status c \<noteq> INVALID \<and> (cl_required c \<longrightarrow> cl_status c = VERIFIED)"

definition run_ok :: "check_run \<Rightarrow> bool" where
  "run_ok r \<longleftrightarrow> \<not> snd r \<and> list_all claim_ok (fst r)"

named_theorems run_simps

lemma overall_valid_iff: "overallOf cs = Overall_VALID \<longleftrightarrow> list_all claim_ok cs"
  by (auto simp: overallOf_def claim_ok_def list_all_iff list_ex_iff filter_empty_conv Let_def)

lemma run_ok_adds [run_simps]: "run_ok (adds cs) \<longleftrightarrow> list_all claim_ok cs"
  by (simp add: run_ok_def adds_def)

lemma run_ok_and_then [run_simps]: "run_ok (and_then a b) \<longleftrightarrow> run_ok a \<and> run_ok b"
  by (auto simp: run_ok_def and_then_def)

lemma run_ok_needs [run_simps]: "run_ok (needs x f) \<longleftrightarrow> (\<exists>a. x = Some a \<and> run_ok (f a))"
  by (auto simp: run_ok_def needs_def split: option.splits)

lemma claim_ok_check [run_simps]: "claim_ok (claim_check i c ps True INVALID) \<longleftrightarrow> list_all Not ps"
  by (simp add: claim_ok_def claim_check_def claim_add_def)

lemma claim_ok_denied [run_simps]: "claim_ok (claim_check i c ps False NOT_SATISFIED)"
  by (simp add: claim_ok_def claim_check_def claim_add_def)

lemma claim_ok_add [run_simps]: "claim_ok (claim_add i c st r) \<longleftrightarrow> st \<noteq> INVALID \<and> (r \<longrightarrow> st = VERIFIED)"
  by (auto simp: claim_ok_def claim_add_def)

lemma verify_valid_iff:
  "rp_overall (verifyEvidenceBundle e input trust options) = Overall_VALID \<longleftrightarrow>
     (\<exists>b. parseEvidenceBundle (ve_platform e) input = Some b \<and> run_ok (verifyParsed e b trust options))"
  by (auto simp: verifyEvidenceBundle_def Let_def overall_valid_iff run_ok_def run_simps split: option.splits)

section \<open>Digests and state\<close>

lemma digest_problems_none:
  "list_all Not (digest_problems (digest_entries d sd) (digest_entries d' sd')) \<longleftrightarrow> d = d' \<and> sd = sd'"
proof (cases sd; cases sd')
  fix s s'
  assume "sd = Some s" "sd' = Some s'"
  then show ?thesis
    by (cases d; cases d'; cases s; cases s') (auto simp: digest_problems_def list_all_iff digest_entries_def)
qed (cases d; cases d'; auto simp: digest_problems_def list_all_iff digest_entries_def)+

definition state_consistent :: "EvidenceBundle \<Rightarrow> bool" where
  "state_consistent b \<longleftrightarrow>
     (let permit = tg_value (sg_body (ea_purchasePermit b)); request = tg_value (ea_request b);
          m = sg_body (eb_manifest b); state = em_purchaseState m in
      list_all (\<lambda>g. g = ea_grantId b) [em_grantId m, pp_grantId permit, rq_grantId request]
      \<and> list_all (\<lambda>i. i = ea_invocationId b) [em_invocationId m, rq_invocationId request]
      \<and> list_all (\<lambda>n. n = ea_settlementProfile b) [em_settlementProfile m, pp_network permit]
      \<and> (em_decision m = DENY \<longleftrightarrow> state = DENIED)
      \<and> (ea_authorityDecision b \<noteq> None \<longleftrightarrow> state \<in> {CONFIRMED, DENIED})
      \<and> pred_option (\<lambda>s. let r = tg_value (sg_body s) in rcp_invocationId r = ea_invocationId b
           \<and> rcp_grantId r = ea_grantId b \<and> rcp_decision r = em_decision m \<and> rcp_reasonCodes r = em_reasonCodes m)
         (ea_authorityDecision b)
      \<and> (state = CONFIRMED \<longrightarrow> ea_outboundRequest b \<noteq> None \<and> ea_paymentRequirement b \<noteq> None \<and> ea_paymentAttempt b \<noteq> None
           \<and> ea_settlement b \<noteq> None \<and> ea_result b \<noteq> None)
      \<and> (state \<noteq> CONFIRMED \<longrightarrow> ea_settlement b = None \<and> ea_result b = None)
      \<and> (state = RECONCILIATION_REQUIRED \<longrightarrow> ea_paymentAttempt b \<noteq> None)
      \<and> (state = DENIED \<longrightarrow> ea_paymentAttempt b = None)
      \<and> pred_option (\<lambda>sv. (sv_acknowledgement sv \<noteq> None \<longrightarrow> state = CONFIRMED)
           \<and> (sv_authorization sv \<noteq> None \<longrightarrow> ea_paymentAttempt b \<noteq> None)) (ea_service b))"

lemma state_problems_none: "list_all Not (state_problems b) \<longleftrightarrow> state_consistent b"
  unfolding state_problems_def state_consistent_def Let_def
  by (cases "ea_authorityDecision b"; cases "ea_service b"; cases "em_purchaseState (sg_body (eb_manifest b))"; simp) auto

section \<open>Trust and integrity\<close>

definition keys_pinned :: "VerifierTrust \<Rightarrow> EvidenceBundle \<Rightarrow> bool" where
  "keys_pinned trust b \<longleftrightarrow>
     pp_issuer (tg_value (sg_body (ea_purchasePermit b))) = vt_issuer trust
     \<and> em_authority (sg_body (eb_manifest b)) = vt_authority trust
     \<and> pred_option (\<lambda>s. rcp_authority (tg_value (sg_body s)) = vt_authority trust) (ea_authorityDecision b)"

lemma run_ok_trust [run_simps]: "run_ok (trust_claims trust b) \<longleftrightarrow> keys_pinned trust b"
  by (cases "ea_authorityDecision b") (auto simp: trust_claims_def keys_pinned_def Let_def run_simps)

definition manifest_binds :: "platform \<Rightarrow> VerifierTrust \<Rightarrow> EvidenceBundle \<Rightarrow> bool" where
  "manifest_binds px trust b \<longleftrightarrow>
     verifyEvidenceManifestSignature px (eb_manifest b) (vt_authority trust)
     \<and> computeEvidenceDigests px b
         = Some (em_digests (sg_body (eb_manifest b)), em_serviceDigests (sg_body (eb_manifest b)))"

lemma run_ok_integrity [run_simps]:
  "run_ok (integrity_claims e trust b) \<longleftrightarrow> manifest_binds (ve_platform e) trust b \<and> state_consistent b"
  by (auto simp: integrity_claims_def manifest_binds_def Let_def run_simps digest_problems_none state_problems_none prod_eq_iff)

section \<open>Authorization\<close>

definition human_signed :: "platform \<Rightarrow> permit_v2 tagged signed \<Rightarrow> bool" where
  "human_signed px s \<longleftrightarrow> (let p = tg_value (sg_body s) in
     tg_text (sg_body s) = PURCHASE_PERMIT_DOMAIN \<and> wf_permit_v2 px p
     \<and> isSignature px (sg_signature s) \<and> importable px (pp_issuer p)
     \<and> (case canonicalizeUnsignedPurchasePermitV2 px p of None \<Rightarrow> False | Some m \<Rightarrow> verifyRaw px (pp_issuer p) (sg_signature s) m))"

lemma permit_artifact_reads:
  "permit_fields_read (signed_json permit_artifact_fields s) p \<and> pp_operation p = pp_operation (tg_value (sg_body s))
     \<longleftrightarrow> tg_text (sg_body s) = PURCHASE_PERMIT_DOMAIN \<and> p = tg_value (sg_body s)"
  unfolding permit_fields_read_simps signed_json_def permit_artifact_fields_def with_text_def permit_v2_fields_def
    shared_permit_fields_def
  by (cases p; cases "tg_value (sg_body s)") auto

lemma permit_artifact_members:
  "jget (signed_json permit_artifact_fields s) ''version'' = JInt 2"
  "jget (signed_json permit_artifact_fields s) ''operation'' = operation_json (pp_operation (tg_value (sg_body s)))"
  "jget (signed_json permit_artifact_fields s) ''signature'' = signature_json (sg_signature s)"
  "isPlainObject (signed_json permit_artifact_fields s)"
  by (simp_all add: signed_json_def permit_artifact_fields_def with_text_def permit_v2_fields_def shared_permit_fields_def)

lemma operation_read_back: "validateExactOperation (operation_json q) = Inr p \<longleftrightarrow> wf_operation q \<and> p = q"
proof
  assume "validateExactOperation (operation_json q) = Inr p"
  then have "wf_operation p" "p = q"
    by (auto simp: validateExactOperation_wf) (simp add: validateExactOperation_Inr_iff operation_json_def)
  then show "wf_operation q \<and> p = q" by simp
qed (simp add: validate_operation_json)

lemma permit_artifact_validates:
  "validateUnsignedPurchasePermitV2 px (signed_json permit_artifact_fields s) = Inr p
     \<longleftrightarrow> tg_text (sg_body s) = PURCHASE_PERMIT_DOMAIN \<and> p = tg_value (sg_body s) \<and> wf_permit_v2 px p"
  unfolding validateUnsignedPurchasePermitV2_Inr_iff permit_artifact_members operation_read_back
  using permit_artifact_reads [of s p] permit_artifact_members(4) by (auto simp: wf_permit_v2_def)

lemma permit_artifact_verified:
  "isOk (verifyPurchasePermitV2 px (signed_json permit_artifact_fields s)) \<longleftrightarrow> human_signed px s"
proof -
  have "verifyPurchasePermitV2 px (signed_json permit_artifact_fields s) = Inr sp \<longleftrightarrow>
      human_signed px s \<and> sp = \<lparr> sg_body = tg_value (sg_body s), sg_signature = sg_signature s \<rparr>" for sp
    unfolding verifyPurchasePermitV2_def pv2.verify_iff permit_artifact_validates permit_artifact_members human_signed_def Let_def
    by (cases sp) (auto simp: signature_json_def permit_artifact_members(4) split: option.splits)
  then show ?thesis by (auto simp: isOk_iff)
qed

definition agent_asked :: "platform \<Rightarrow> EvidenceBundle \<Rightarrow> bool" where
  "agent_asked px b \<longleftrightarrow> (let r = tg_value (ea_request b); agent = pp_authorizedAgent (tg_value (sg_body (ea_purchasePermit b))) in
     tg_text (ea_request b) = AUTHORIZATION_REQUEST_PROTOCOL \<and> wf_request_v2 r
     \<and> isSignature px (ea_agentSignature b) \<and> isAddress px agent \<and> importable px agent
     \<and> (case canonicalizeAuthorizationRequestV2 px r of None \<Rightarrow> False | Some m \<Rightarrow> verifyRaw px agent (ea_agentSignature b) m))"

lemma request_artifact_validates:
  "validateAuthorizationRequestV2 (JObj (request_artifact_fields t)) = Inr r
     \<longleftrightarrow> tg_text t = AUTHORIZATION_REQUEST_PROTOCOL \<and> r = tg_value t \<and> wf_request_v2 r"
proof -
  let ?v = "JObj (request_artifact_fields t)"
  have "jget ?v ''operation'' = operation_json (rq_operation (tg_value t))" "set (jkeys ?v) \<subseteq> set REQUEST_FIELDS_V2"
    by (simp_all add: request_artifact_fields_def with_text_def shared_request_fields_def REQUEST_FIELDS_V2_def REQUEST_FIELDS_V1_def)
  moreover have "request_fields_read ?v r 2 \<and> rq_operation r = rq_operation (tg_value t)
      \<longleftrightarrow> tg_text t = AUTHORIZATION_REQUEST_PROTOCOL \<and> r = tg_value t"
    unfolding request_fields_read_simps request_artifact_fields_def with_text_def shared_request_fields_def
    by (cases r; cases "tg_value t") auto
  ultimately show ?thesis
    unfolding validateAuthorizationRequestV2_Inr_iff by (auto simp: operation_read_back wf_request_v2_def)
qed

lemma agent_signed_iff: "agent_signed px b \<longleftrightarrow> agent_asked px b"
proof (cases "validateAuthorizationRequestV2 (JObj (request_artifact_fields (ea_request b)))")
  case (Inl x)
  then have "\<not> (tg_text (ea_request b) = AUTHORIZATION_REQUEST_PROTOCOL \<and> wf_request_v2 (tg_value (ea_request b)))"
    using request_artifact_validates [of "ea_request b" "tg_value (ea_request b)"] by auto
  with Inl show ?thesis by (auto simp: agent_signed_def agent_asked_def Let_def)
next
  case (Inr r)
  from Inr [unfolded request_artifact_validates]
  have "tg_text (ea_request b) = AUTHORIZATION_REQUEST_PROTOCOL \<and> r = tg_value (ea_request b) \<and> wf_request_v2 r" .
  with Inr show ?thesis
    by (auto simp: agent_signed_def agent_asked_def Let_def verifyAuthorizationRequestSignature_iff signature_json_def
        split: option.splits)
qed

definition receipt_agrees :: "platform \<Rightarrow> VerifierTrust \<Rightarrow> EvidenceBundle \<Rightarrow> receipt_v2 tagged signed \<Rightarrow> bool" where
  "receipt_agrees px trust b s \<longleftrightarrow>
     (let r = tg_value (sg_body s); q = tg_value (ea_request b) in
      verifyReceiptArtifact px s (vt_authority trust)
      \<and> (rcp_service r, rcp_capability r, rcp_network r, rcp_mint r, rcp_recipient r, rcp_amountAtomic r, rcp_permitDigest r)
        = (rq_service q, rq_capability q, rq_network q, rq_mint q, rq_recipient q, rq_amountAtomic q, rq_permitDigest q)
      \<and> rcp_agent r = pp_authorizedAgent (tg_value (sg_body (ea_purchasePermit b)))
      \<and> rcp_operation r = rq_operation q
      \<and> computeOperationDigest px (rq_operation q) = Some (rcp_operationDigest r)
      \<and> (em_purchaseState (sg_body (eb_manifest b)) = CONFIRMED \<longrightarrow>
           ea_settlement b \<noteq> None \<and> rcp_paymentTransactionId r = map_option cs_transactionId (ea_settlement b)))"

definition authorized :: "platform \<Rightarrow> VerifierTrust \<Rightarrow> EvidenceBundle \<Rightarrow> bool" where
  "authorized px trust b \<longleftrightarrow>
     human_signed px (ea_purchasePermit b) \<and> agent_asked px b
     \<and> artifactPermitDigest px (ea_purchasePermit b) = Some (rq_permitDigest (tg_value (ea_request b)))
     \<and> pred_option (receipt_agrees px trust b) (ea_authorityDecision b)"

lemma run_ok_receipt [run_simps]:
  "run_ok (receipt_claims e trust b) \<longleftrightarrow> pred_option (receipt_agrees (ve_platform e) trust b) (ea_authorityDecision b)"
  by (cases "ea_authorityDecision b"; cases "ea_settlement b")
    (auto simp: receipt_claims_def receipt_agrees_def Let_def run_simps operationsEqual_iff)

lemma run_ok_authorization [run_simps]:
  "run_ok (authorization_claims e trust b) \<longleftrightarrow> authorized (ve_platform e) trust b"
  by (auto simp: authorization_claims_def authorized_def Let_def run_simps permit_artifact_verified agent_signed_iff)

section \<open>Static policy\<close>

definition within_static :: "permit_v2 \<Rightarrow> request_v2 \<Rightarrow> bool" where
  "within_static permit r \<longleftrightarrow>
     rq_operation r = pp_operation permit
     \<and> (rq_service r, rq_capability r, rq_network r, rq_mint r, rq_recipient r)
       = (pp_service permit, pp_capability permit, pp_network permit, pp_mint permit, pp_recipient permit)
     \<and> atomic_pattern (rq_amountAtomic r) \<and> 0 < dec (rq_amountAtomic r)
     \<and> dec (rq_amountAtomic r) \<le> dec (pp_maxPerCall permit)
     \<and> pp_issuedAt permit \<le> rq_issuedAt r \<and> rq_issuedAt r \<le> pp_expiresAt permit"

lemma permit_code_text_total: "permit_code_text c = ''TOTAL_BUDGET_EXCEEDED'' \<longleftrightarrow> c = TOTAL_BUDGET_EXCEEDED"
  by (cases c) simp_all

lemma filter_map_permit: "filter (\<lambda>c. c \<noteq> ''TOTAL_BUDGET_EXCEEDED'') (map permit_code_text cs) = []
   \<longleftrightarrow> set cs \<subseteq> {TOTAL_BUDGET_EXCEEDED}"
  by (auto simp: filter_empty_conv permit_code_text_total)

lemma only_total_budget:
  "set (dc_reasonCodes (evaluatePurchasePermit t p q)) \<subseteq> {TOTAL_BUDGET_EXCEEDED} \<longleftrightarrow>
     (case pr_now q of Some t' \<Rightarrow> t' | None \<Rightarrow> t) \<le> pp_expiresAt p \<and> pr_service q = pp_service p
     \<and> pr_capability q = pp_capability p \<and> pr_network q = pp_network p \<and> pr_mint q = pp_mint p
     \<and> pr_recipient q = pp_recipient p \<and> atomic_pattern (pr_amountAtomic q) \<and> atomic_pattern (pr_alreadySpentAtomic q)
     \<and> 0 < dec (pr_amountAtomic q) \<and> dec (pr_amountAtomic q) \<le> dec (pp_maxPerCall p)"
  by (auto simp: evaluatePurchasePermit_def Let_def split: if_splits option.splits)

lemma static_codes_empty: "static_codes permit r = [] \<longleftrightarrow> within_static permit r"
proof -
  have "map operation_code_text (dc_reasonCodes (evaluateExactOperation (pp_operation permit) (rq_operation r))) = []
      \<longleftrightarrow> rq_operation r = pp_operation permit"
    using evaluateExactOperation_allowed evaluateExactOperation_empty by auto
  then show ?thesis
    unfolding static_codes_def Let_def dedup_eq_Nil append_is_Nil_conv filter_map_permit only_total_budget
    by (auto simp: within_static_def)
qed

text \<open>For a denied purchase: every reason recomputed from the bundle is among the authority's reasons.\<close>

definition policy_agrees :: "EvidenceBundle \<Rightarrow> bool" where
  "policy_agrees b \<longleftrightarrow>
     (let permit = tg_value (sg_body (ea_purchasePermit b)); r = tg_value (ea_request b); m = sg_body (eb_manifest b) in
      if em_purchaseState m = DENIED then set (static_codes permit r) \<subseteq> set (em_reasonCodes m)
      else within_static permit r)"

lemma allow_states: "s \<in> ALLOW_STATES \<longleftrightarrow> s \<noteq> DENIED"
  by (cases s) (simp_all add: ALLOW_STATES_def)

lemma run_ok_policy [run_simps]: "run_ok (policy_claims b) \<longleftrightarrow> policy_agrees b"
proof -
  let ?m = "sg_body (eb_manifest b)" and ?sc = "static_codes (tg_value (sg_body (ea_purchasePermit b))) (tg_value (ea_request b))"
  have allowed: "list_all claim_ok (map (\<lambda>(i, codes). claim_check i STATIC_POLICY (map (\<lambda>_. True) (filter (\<lambda>c. c \<in> set codes) ?sc))
       True INVALID) policy_claim_codes)" if "?sc = []"
    using that by (simp add: list_all_iff run_simps split_beta)
  have denied: "list_all claim_ok (map (\<lambda>(i, codes). claim_check i STATIC_POLICY (map (\<lambda>_. True) (filter (\<lambda>c. c \<in> set codes) ?sc))
       False NOT_SATISFIED) policy_claim_codes)"
    by (simp add: list_all_iff run_simps split_beta)
  show ?thesis
  proof (cases "em_purchaseState ?m = DENIED")
    case True
    then show ?thesis using denied
      by (auto simp: policy_claims_def policy_agrees_def Let_def run_simps allow_states list_all_iff)
  next
    case False
    then show ?thesis using allowed
      by (auto simp: policy_claims_def policy_agrees_def Let_def run_simps allow_states static_codes_empty [symmetric])
  qed
qed

section \<open>Payment\<close>

definition profile_matches :: "VerifierTrust \<Rightarrow> EvidenceBundle \<Rightarrow> PaymentRequirement \<Rightarrow> bool" where
  "profile_matches trust b rq \<longleftrightarrow>
     (case vt_settlementProfiles trust (pp_network (tg_value (sg_body (ea_purchasePermit b)))) of
        None \<Rightarrow> False
      | Some p \<Rightarrow> em_settlementProfile (sg_body (eb_manifest b)) = sp_name p
          \<and> (pm_protocol rq, pm_x402Version rq, pm_scheme rq) = (sp_protocol p, sp_x402Version p, sp_scheme p)
          \<and> pm_network rq \<in> set (sp_acceptedChallengeNetworks p) \<and> pm_asset rq \<in> set (sp_allowedAssets p)
          \<and> pred_option (\<lambda>a. at_settlementProfile a = sp_name p
              \<and> starts_with (at_blockhash a) (sp_requiredBlockhashPrefix p)) (ea_paymentAttempt b))"

definition outbound_is :: "platform \<Rightarrow> EvidenceBundle \<Rightarrow> PaymentRequirement \<Rightarrow> PaidRequest \<Rightarrow> bool" where
  "outbound_is px b rq q \<longleftrightarrow> (let p = rq_operation (tg_value (ea_request b)) in
     map_option url_pathname (parseUrl px (pq_url q)) = Some (op_resource p) \<and> pq_method q = op_method p
     \<and> operationRequestBody px p = Some (pq_body q) \<and> computePaidRequestDigest px q = pq_sha256 q
     \<and> pm_resourceUrl rq = Some (pq_url q)
     \<and> pred_option (\<lambda>a. at_requestSha256 a = pq_sha256 q) (ea_paymentAttempt b))"

definition attempt_matches :: "platform \<Rightarrow> solana \<Rightarrow> PaymentRequirement \<Rightarrow> PaymentAttempt \<Rightarrow> bool" where
  "attempt_matches px sx rq a \<longleftrightarrow>
     (at_scheme a, at_network a, at_asset a, at_payTo a, at_amountAtomic a)
       = (pm_scheme rq, pm_network rq, pm_asset rq, pm_payTo rq, pm_amountAtomic rq)
     \<and> pm_feePayer rq = Some (at_feePayer a) \<and> pm_resourceUrl rq = Some (at_resourceUrl a) \<and> at_feePayer a \<noteq> at_payer a
     \<and> pred_option (\<lambda>t. (case validateExactPaymentTransaction sx (JStr t) (expected_payment a) of
              Invalid _ \<Rightarrow> False | Valid s _ \<Rightarrow> s = at_payerSignature a)
          \<and> verifyTransactionPayerSignature px sx t (at_payer a)) (at_transactionBase64 a)"

definition payment_matches :: "verifier_env \<Rightarrow> VerifierTrust \<Rightarrow> EvidenceBundle \<Rightarrow> PaymentRequirement \<Rightarrow> bool" where
  "payment_matches e trust b rq \<longleftrightarrow>
     (let permit = tg_value (sg_body (ea_purchasePermit b)); r = tg_value (ea_request b) in
      profile_matches trust b rq
      \<and> pm_asset rq = rq_mint r \<and> rq_mint r = pp_mint permit
      \<and> pm_payTo rq = rq_recipient r \<and> rq_recipient r = pp_recipient permit
      \<and> pm_amountAtomic rq = rq_amountAtomic r \<and> dec (pm_amountAtomic rq) \<le> dec (pp_maxPerCall permit)
      \<and> (case ea_outboundRequest b of None \<Rightarrow> False | Some q \<Rightarrow> outbound_is (ve_platform e) b rq q)
      \<and> pred_option (attempt_matches (ve_platform e) (ve_solana e) rq) (ea_paymentAttempt b))"

lemma profile_problems_none:
  "list_all Not (profile_problems (vt_settlementProfiles trust (pp_network (tg_value (sg_body (ea_purchasePermit b)))))
      (sg_body (eb_manifest b)) rq (ea_paymentAttempt b)) \<longleftrightarrow> profile_matches trust b rq"
  by (cases "ea_paymentAttempt b") (auto simp: profile_problems_def profile_matches_def split: option.split)

lemma run_ok_outbound:
  "run_ok (outbound_claims px (tg_value (ea_request b)) q rq (ea_paymentAttempt b))
     \<longleftrightarrow> (case q of None \<Rightarrow> False | Some q \<Rightarrow> outbound_is px b rq q)"
  by (cases q; cases "ea_paymentAttempt b")
    (auto simp: outbound_claims_def outbound_is_def outbound_problems_def Let_def run_simps)

lemma run_ok_attempt:
  "run_ok (attempt_claims px sx rq a) \<longleftrightarrow> pred_option (attempt_matches px sx rq) a"
proof (cases a)
  case (Some x)
  then show ?thesis
    by (cases "at_transactionBase64 x")
      (auto simp: attempt_claims_def attempt_matches_def transaction_problems_def run_simps split: TransactionValidation.splits)
qed (simp add: attempt_claims_def run_simps)

lemma run_ok_payment [run_simps]:
  "run_ok (payment_claims e trust b) \<longleftrightarrow>
     em_purchaseState (sg_body (eb_manifest b)) = DENIED \<or> pred_option (payment_matches e trust b) (ea_paymentRequirement b)"
proof (cases "em_purchaseState (sg_body (eb_manifest b)) = DENIED \<or> ea_paymentRequirement b = None")
  case True
  then show ?thesis by (auto simp: payment_claims_def Let_def run_simps allow_states list_all_iff PAYMENT_CLAIMS_def)
next
  case False
  then obtain rq where "ea_paymentRequirement b = Some rq" "em_purchaseState (sg_body (eb_manifest b)) \<noteq> DENIED" by blast
  then show ?thesis
    by (auto simp: payment_claims_def payment_matches_def Let_def run_simps allow_states profile_problems_none
        run_ok_outbound run_ok_attempt)
qed

section \<open>Result, service and settlement\<close>

definition result_matches :: "platform \<Rightarrow> EvidenceResult \<Rightarrow> bool" where
  "result_matches px r \<longleftrightarrow> (let body = base64_decode (er_bodyBase64 r) in
     base64_encode body = er_bodyBase64 r \<and> sha256 px body = er_sha256 r \<and> int (length body) = er_bytes r)"

lemma run_ok_result [run_simps]: "run_ok (result_claims px b) \<longleftrightarrow> pred_option (result_matches px) (ea_result b)"
  by (cases "ea_result b") (auto simp: result_claims_def result_matches_def result_problems_def Let_def run_simps)

lemma run_ok_budget [run_simps]: "run_ok budget_claims"
  by (simp add: budget_claims_def run_simps)

definition service_told :: "platform \<Rightarrow> VerifierTrust \<Rightarrow> EvidenceBundle \<Rightarrow> service_authorization signed \<Rightarrow> bool" where
  "service_told px trust b s \<longleftrightarrow> (let a = sg_body s in
     verifyServiceAuthorizationSignature px s (vt_authority trust)
     \<and> sa_invocationId a = ea_invocationId b \<and> sa_grantId a = ea_grantId b
     \<and> map_option (\<lambda>q. (pq_url q, pq_sha256 q)) (ea_outboundRequest b) = Some (sa_url a, sa_requestSha256 a)
     \<and> computeOperationDigest px (rq_operation (tg_value (ea_request b))) = Some (sa_operationDigest a)
     \<and> map_option (\<lambda>m. (pm_network m, pm_asset m, pm_payTo m, pm_amountAtomic m)) (ea_paymentRequirement b)
         = Some (sa_network a, sa_asset a, sa_payTo a, sa_amountAtomic a))"

definition service_answered ::
  "platform \<Rightarrow> string \<Rightarrow> EvidenceBundle \<Rightarrow> service_artifacts \<Rightarrow> service_acknowledgement signed \<Rightarrow> bool" where
  "service_answered px pinned b sv s \<longleftrightarrow> (let k = sg_body s; p = rq_operation (tg_value (ea_request b)) in
     sk_service k = pinned \<and> verifyServiceAcknowledgementSignature px s pinned
     \<and> sk_invocationId k = ea_invocationId b
     \<and> Option.bind (sv_authorization sv) (serviceAuthorizationDigest px) = Some (sk_authorizationDigest k)
     \<and> map_option pq_sha256 (ea_outboundRequest b) = Some (sk_requestSha256 k)
     \<and> (sk_method k, sk_resource k, sk_operation k, sk_datasetId k) = (op_method p, op_resource p, op_operation p, op_datasetId p)
     \<and> map_option (\<lambda>m. (pm_asset m, pm_payTo m, pm_amountAtomic m)) (ea_paymentRequirement b)
         = Some (sk_asset k, sk_payTo k, sk_amountAtomic k)
     \<and> ea_settlement b \<noteq> None \<and> sk_transaction k = map_option cs_transactionId (ea_settlement b)
     \<and> map_option (\<lambda>r. (er_sha256 r, er_bytes r, er_httpStatus r)) (ea_result b)
         = Some (sk_sha256 k, sk_bytes k, sk_httpStatus k))"

definition service_consistent :: "platform \<Rightarrow> VerifierTrust \<Rightarrow> EvidenceBundle \<Rightarrow> service_artifacts \<Rightarrow> bool" where
  "service_consistent px trust b sv \<longleftrightarrow>
     pred_option (service_told px trust b) (sv_authorization sv)
     \<and> (case vt_service trust of None \<Rightarrow> True
         | Some pinned \<Rightarrow> em_purchaseState (sg_body (eb_manifest b)) \<noteq> CONFIRMED
             \<or> (case sv_acknowledgement sv of None \<Rightarrow> False | Some k \<Rightarrow> service_answered px pinned b sv k))"

lemma run_ok_service_authorization:
  "run_ok (service_authorization_claims e trust b sv) \<longleftrightarrow> pred_option (service_told (ve_platform e) trust b) (sv_authorization sv)"
proof (cases "sv_authorization sv")
  case (Some a)
  then show ?thesis
    by (cases "ea_outboundRequest b"; cases "ea_paymentRequirement b")
      (auto simp: service_authorization_claims_def service_told_def service_authorization_problems_def Let_def run_simps)
qed (simp add: service_authorization_claims_def run_simps)

lemma acknowledgement_problems_none:
  "sk_service (sg_body k) = pinned
     \<and> list_all Not (acknowledgement_problems px pinned b k (Option.bind (sv_authorization sv) (serviceAuthorizationDigest px)))
     \<longleftrightarrow> service_answered px pinned b sv k"
  unfolding acknowledgement_problems_def service_answered_def Let_def
  by (cases "ea_outboundRequest b"; cases "ea_paymentRequirement b"; cases "ea_settlement b"; cases "ea_result b") auto

lemma run_ok_acknowledgement:
  "run_ok (acknowledgement_claims e pinned b sv k) \<longleftrightarrow> service_answered (ve_platform e) pinned b sv k"
proof (cases "sv_authorization sv")
  case None
  then have "\<not> service_answered (ve_platform e) pinned b sv k" by (simp add: service_answered_def Let_def)
  with None show ?thesis
    by (simp add: acknowledgement_claims_def acknowledgement_problems_def Let_def run_simps)
next
  case (Some a)
  show ?thesis
  proof (cases "serviceAuthorizationDigest (ve_platform e) a")
    case None
    with Some have "\<not> service_answered (ve_platform e) pinned b sv k" by (simp add: service_answered_def Let_def)
    with None Some show ?thesis by (simp add: acknowledgement_claims_def Let_def run_simps)
  next
    case (Some d)
    with \<open>sv_authorization sv = Some a\<close> show ?thesis
      unfolding acknowledgement_problems_none [of k pinned "ve_platform e" b sv, symmetric]
      by (auto simp: acknowledgement_claims_def Let_def run_simps)
  qed
qed

lemma run_ok_service [run_simps]:
  "run_ok (serviceClaims e trust b) \<longleftrightarrow> pred_option (service_consistent (ve_platform e) trust b) (ea_service b)"
proof (cases "ea_service b")
  case (Some sv)
  then show ?thesis
    by (cases "vt_service trust"; cases "sv_acknowledgement sv")
      (auto simp: serviceClaims_def service_consistent_def run_simps run_ok_service_authorization run_ok_acknowledgement
        result_correctness_def)
qed (simp add: serviceClaims_def run_simps result_correctness_def)

text \<open>Offline nothing is asked of the settlement; online a confirmed purchase must have been observed.\<close>

definition settlement_observed :: "verifier_env \<Rightarrow> VerifierTrust \<Rightarrow> VerifyOptions \<Rightarrow> EvidenceBundle \<Rightarrow> bool" where
  "settlement_observed e trust options b \<longleftrightarrow>
     (case options of Offline \<Rightarrow> True
      | Online source \<Rightarrow> em_purchaseState (sg_body (eb_manifest b)) \<noteq> CONFIRMED
          \<or> (case (ea_settlement b, ea_paymentAttempt b) of
               (Some s, Some a) \<Rightarrow> observe_settlement e
                  (vt_settlementProfiles trust (pp_network (tg_value (sg_body (ea_purchasePermit b))))) source s a = Some VERIFIED
             | _ \<Rightarrow> True))"

lemma run_ok_settlement [run_simps]:
  "run_ok (settlementClaims e (vt_settlementProfiles trust (pp_network (tg_value (sg_body (ea_purchasePermit b))))) options b)
     \<longleftrightarrow> settlement_observed e trust options b"
proof (cases "em_purchaseState (sg_body (eb_manifest b)) = CONFIRMED")
  case True
  then show ?thesis
    by (cases "ea_settlement b"; cases "ea_paymentAttempt b"; cases options)
      (auto simp: settlementClaims_def settlement_observed_def Let_def run_simps split: option.splits)
next
  case False
  then show ?thesis
    by (auto simp: settlementClaims_def settlement_observed_def Let_def run_simps split: VerifyOptions.splits)
qed

section \<open>The whole verification\<close>

definition valid_evidence :: "verifier_env \<Rightarrow> VerifierTrust \<Rightarrow> VerifyOptions \<Rightarrow> EvidenceBundle \<Rightarrow> bool" where
  "valid_evidence e trust options b \<longleftrightarrow>
     keys_pinned trust b \<and> manifest_binds (ve_platform e) trust b \<and> state_consistent b
     \<and> authorized (ve_platform e) trust b \<and> policy_agrees b
     \<and> (em_purchaseState (sg_body (eb_manifest b)) = DENIED \<or> pred_option (payment_matches e trust b) (ea_paymentRequirement b))
     \<and> pred_option (result_matches (ve_platform e)) (ea_result b)
     \<and> pred_option (service_consistent (ve_platform e) trust b) (ea_service b)
     \<and> settlement_observed e trust options b"

lemma run_ok_verifyParsed: "run_ok (verifyParsed e b trust options) \<longleftrightarrow> valid_evidence e trust options b"
  by (auto simp: verifyParsed_def valid_evidence_def run_simps)

lemma verdict_valid_iff:
  "rp_overall (verifyEvidenceBundle e input trust options) = Overall_VALID \<longleftrightarrow>
     (\<exists>b. parseEvidenceBundle (ve_platform e) input = Some b \<and> valid_evidence e trust options b)"
  unfolding verify_valid_iff run_ok_verifyParsed ..

end
