(* ===== verification/Evidence_Verdict.thy ===== *)
theory Evidence_Verdict
  imports Evidence_Verify_Lemmas
begin

text \<open>
  The third verdict.  Only the settlement claim can be required and INDETERMINATE, so the overall result is
  INDETERMINATE exactly when everything else is acceptable and the settlement could not be observed.
\<close>

section \<open>Claims that are decided\<close>

text \<open>A part none of whose required claims is left INDETERMINATE.\<close>

definition decided_run :: "check_run \<Rightarrow> bool" where
  "decided_run r \<longleftrightarrow> list_all (\<lambda>c. \<not> (cl_required c \<and> cl_status c = INDETERMINATE)) (fst r)"

named_theorems decided_simps

lemma decided_adds [decided_simps]:
  "decided_run (adds cs) \<longleftrightarrow> list_all (\<lambda>c. \<not> (cl_required c \<and> cl_status c = INDETERMINATE)) cs"
  by (simp add: decided_run_def adds_def)

lemma decided_and_then [decided_simps]: "decided_run a \<Longrightarrow> decided_run b \<Longrightarrow> decided_run (and_then a b)"
  by (auto simp: decided_run_def and_then_def)

lemma decided_needs [decided_simps]: "(\<And>a. decided_run (f a)) \<Longrightarrow> decided_run (needs x f)"
  by (auto simp: decided_run_def needs_def split: option.split)

lemma check_status [decided_simps]:
  "cl_status (claim_check i c ps r st) = INDETERMINATE \<longleftrightarrow> \<not> list_all Not ps \<and> st = INDETERMINATE"
  "cl_required (claim_check i c ps r st) = r" "cl_status (claim_add i c st r) = st" "cl_required (claim_add i c st r) = r"
  by (simp_all add: claim_check_def claim_add_def)

lemma decided_parts:
  "decided_run (trust_claims trust b)" "decided_run (integrity_claims e trust b)" "decided_run (authorization_claims e trust b)"
  "decided_run (policy_claims b)" "decided_run (payment_claims e trust b)" "decided_run (result_claims px b)"
  "decided_run budget_claims" "decided_run (serviceClaims e trust b)"
  unfolding trust_claims_def integrity_claims_def authorization_claims_def receipt_claims_def policy_claims_def payment_claims_def
    outbound_claims_def attempt_claims_def result_claims_def budget_claims_def serviceClaims_def service_authorization_claims_def
    acknowledgement_claims_def Let_def result_correctness_def
  by (auto simp: decided_simps list_all_iff intro!: decided_simps split: option.split)

text \<open>What precedes the settlement.\<close>

definition before_settlement :: "verifier_env \<Rightarrow> EvidenceBundle \<Rightarrow> VerifierTrust \<Rightarrow> check_run" where
  "before_settlement e b trust =
     foldr and_then
       [trust_claims trust b, integrity_claims e trust b, authorization_claims e trust b, policy_claims b,
        payment_claims e trust b, result_claims (ve_platform e) b, budget_claims, serviceClaims e trust b] (adds [])"

lemma verifyParsed_split:
  "verifyParsed e b trust options = and_then (before_settlement e b trust)
     (settlementClaims e (vt_settlementProfiles trust (pp_network (tg_value (sg_body (ea_purchasePermit b))))) options b)"
  unfolding verifyParsed_def before_settlement_def by (simp add: and_then_def adds_def prod_eq_iff)

lemma decided_before: "decided_run (before_settlement e b trust)"
  unfolding before_settlement_def using decided_parts by (simp add: decided_and_then decided_adds)

lemma before_settlement_offline: "run_ok (before_settlement e b trust) \<longleftrightarrow> valid_evidence e trust Offline b"
  by (auto simp: before_settlement_def valid_evidence_def run_simps settlement_observed_def)

section \<open>The overall result\<close>

definition claim_pending :: "claim \<Rightarrow> bool" where
  "claim_pending c \<longleftrightarrow> cl_status c \<noteq> INVALID \<and> (cl_required c \<longrightarrow> cl_status c \<in> {VERIFIED, INDETERMINATE})"

lemma overall_pending_iff: "overallOf cs \<noteq> Overall_INVALID \<longleftrightarrow> list_all claim_pending cs"
  by (auto simp: overallOf_def claim_pending_def list_all_iff list_ex_iff filter_empty_conv Let_def)

text \<open>The status of the settlement, as far as it is required.\<close>

definition settlement_undecided :: "verifier_env \<Rightarrow> VerifierTrust \<Rightarrow> VerifyOptions \<Rightarrow> EvidenceBundle \<Rightarrow> bool" where
  "settlement_undecided e trust options b \<longleftrightarrow>
     (case options of Offline \<Rightarrow> False
      | Online source \<Rightarrow> em_purchaseState (sg_body (eb_manifest b)) = CONFIRMED
          \<and> (case (ea_settlement b, ea_paymentAttempt b) of
               (Some s, Some a) \<Rightarrow> observe_settlement e
                  (vt_settlementProfiles trust (pp_network (tg_value (sg_body (ea_purchasePermit b))))) source s a
                    \<in> {None, Some INDETERMINATE}
             | _ \<Rightarrow> False))"

lemma settlement_claim:
  "\<exists>c. settlementClaims e (vt_settlementProfiles trust (pp_network (tg_value (sg_body (ea_purchasePermit b))))) options b = ([c], False)
     \<and> (claim_ok c \<longleftrightarrow> settlement_observed e trust options b)
     \<and> (claim_pending c \<longleftrightarrow> settlement_observed e trust options b \<or> settlement_undecided e trust options b)
     \<and> \<not> (settlement_observed e trust options b \<and> settlement_undecided e trust options b)"
proof -
  let ?profile = "vt_settlementProfiles trust (pp_network (tg_value (sg_body (ea_purchasePermit b))))"
  have "\<exists>c. settlementClaims e ?profile options b = ([c], False)"
    unfolding settlementClaims_def Let_def adds_def
    by (cases "em_purchaseState (sg_body (eb_manifest b)) = CONFIRMED"; cases options; cases "ea_settlement b";
        cases "ea_paymentAttempt b") simp_all
  then obtain c where c: "settlementClaims e ?profile options b = ([c], False)" ..
  have "cl_status c \<noteq> INVALID \<and> (cl_required c \<longrightarrow> cl_status c = VERIFIED) \<longleftrightarrow> settlement_observed e trust options b"
    using run_ok_settlement [of e trust b options] c by (simp add: run_ok_def claim_ok_def)
  moreover have "cl_required c \<and> cl_status c = INDETERMINATE \<longleftrightarrow> settlement_undecided e trust options b"
    using c unfolding settlementClaims_def settlement_undecided_def Let_def adds_def
    by (cases options; cases "ea_settlement b"; cases "ea_paymentAttempt b")
      (auto simp: claim_add_def split: option.splits if_splits)
  ultimately show ?thesis using c by (auto simp: claim_ok_def claim_pending_def)
qed

lemma verdict_indeterminate_iff:
  "rp_overall (verifyEvidenceBundle e input trust options) = Overall_INDETERMINATE \<longleftrightarrow>
     (\<exists>b. parseEvidenceBundle (ve_platform e) input = Some b \<and> valid_evidence e trust Offline b
        \<and> settlement_undecided e trust options b)"
proof (cases "parseEvidenceBundle (ve_platform e) input")
  case None
  then show ?thesis by (simp add: verifyEvidenceBundle_def Let_def)
next
  case (Some b)
  let ?r = "before_settlement e b trust"
  define claims where "claims = claim_add ''bundle_format'' FORMAT VERIFIED True # fst (verifyParsed e b trust options)
     @ (if snd (verifyParsed e b trust options) then [claim_add ''verifier_internal'' FORMAT INVALID True] else [])"
  obtain c where c: "settlementClaims e (vt_settlementProfiles trust (pp_network (tg_value (sg_body (ea_purchasePermit b))))) options b = ([c], False)"
    "claim_ok c \<longleftrightarrow> settlement_observed e trust options b"
    "claim_pending c \<longleftrightarrow> settlement_observed e trust options b \<or> settlement_undecided e trust options b"
    "\<not> (settlement_observed e trust options b \<and> settlement_undecided e trust options b)"
    using settlement_claim by blast
  have run: "verifyParsed e b trust options = and_then ?r ([c], False)" unfolding verifyParsed_split c(1) ..
  have fmt: "claim_ok (claim_add ''bundle_format'' FORMAT VERIFIED True)" "claim_pending (claim_add ''bundle_format'' FORMAT VERIFIED True)"
    "\<not> claim_pending (claim_add ''verifier_internal'' FORMAT INVALID True)" "\<not> claim_ok (claim_add ''verifier_internal'' FORMAT INVALID True)"
    by (simp_all add: claim_ok_def claim_pending_def claim_add_def)
  have same: "list_all claim_pending (fst ?r) \<longleftrightarrow> list_all claim_ok (fst ?r)"
    using decided_before [of e b trust] by (auto simp: decided_run_def claim_pending_def claim_ok_def list_all_iff)
  have "list_all claim_pending claims \<and> \<not> list_all claim_ok claims \<longleftrightarrow>
      run_ok ?r \<and> claim_pending c \<and> \<not> claim_ok c"
    using same fmt by (cases "snd ?r") (auto simp: claims_def run run_ok_def and_then_def)
  then have "overallOf claims = Overall_INDETERMINATE \<longleftrightarrow> run_ok ?r \<and> claim_pending c \<and> \<not> claim_ok c"
    using overall_pending_iff [of claims] overall_valid_iff [of claims] by (cases "overallOf claims") simp_all
  moreover have "rp_overall (verifyEvidenceBundle e input trust options) = overallOf claims"
    by (simp add: verifyEvidenceBundle_def Some Let_def claims_def)
  ultimately show ?thesis using Some c(2-4) by (auto simp: before_settlement_offline)
qed

end
