(* ===== verification/Authority_Export.thy ===== *)
theory Authority_Export
  imports Authority_Service Evidence_Verify_Lemmas
begin

text \<open>
  apps/authority/src/evidence-export.ts and \<open>exportEvidence\<close> of authorize.ts: the evidence bundle of a decided
  invocation, assembled from its row and signed by the authority's key.
\<close>

section \<open>Assembling a bundle\<close>

datatype EvidenceExportProblem = NOT_FINAL | UNAVAILABLE

text \<open>\<open>ExportThrow\<close> is any other error: a digest, a signature or a stored header that cannot be computed or read.\<close>

datatype export_error = EvidenceExportError EvidenceExportProblem | ExportThrow

text \<open>The final states of a row and the states of a bundle have the same names; RESERVED is not exported.\<close>

fun purchase_state_of :: "inv_state \<Rightarrow> PurchaseState option" where
  "purchase_state_of inv_state.RESERVED = None"
| "purchase_state_of inv_state.DENIED = Some PurchaseState.DENIED"
| "purchase_state_of inv_state.CONFIRMED = Some PurchaseState.CONFIRMED"
| "purchase_state_of inv_state.FAILED = Some PurchaseState.FAILED"
| "purchase_state_of inv_state.RECONCILIATION_REQUIRED = Some PurchaseState.RECONCILIATION_REQUIRED"

fun receipt_by :: "address \<Rightarrow> signed_receipt option \<Rightarrow> bool" where
  "receipt_by authority (Some (ReceiptV2 r)) = (rcp_authority (sg_body r) = authority)"
| "receipt_by authority _ = False"

text \<open>A row's receipt, permit and request carry the texts of their types.\<close>

definition receipt_artifact_of :: "signed_receipt option \<Rightarrow> receipt_v2 tagged signed option" where
  "receipt_artifact_of r = (case r of
     Some (ReceiptV2 s) \<Rightarrow> Some \<lparr> sg_body = \<lparr> tg_text = AUTHORIZATION_RECEIPT_DOMAIN, tg_value = sg_body s \<rparr>,
       sg_signature = sg_signature s \<rparr>
   | _ \<Rightarrow> None)"

definition permit_artifact_of :: "permit_v2 signed \<Rightarrow> permit_v2 tagged signed" where
  "permit_artifact_of s = \<lparr> sg_body = \<lparr> tg_text = PURCHASE_PERMIT_DOMAIN, tg_value = sg_body s \<rparr>,
     sg_signature = sg_signature s \<rparr>"

text \<open>The inner option is null; \<open>None\<close> is the missing body or settlement of a confirmed row.\<close>

definition exported_result :: "invocation \<Rightarrow> EvidenceResult option option" where
  "exported_result i =
     (if inv_state i \<noteq> inv_state.CONFIRMED then Some None
      else case (Option.bind (inv_result i) (\<lambda>r. map_option (Pair r) (rs_bodyBase64 r)), inv_settlement i) of
        (Some (r, body), Some _) \<Rightarrow> Some (Some \<lparr> er_httpStatus = rs_httpStatus r, er_bodyBase64 = body,
          er_bytes = int (rs_bytes r), er_sha256 = rs_sha256 r \<rparr>)
      | _ \<Rightarrow> None)"

text \<open>Derived again from the registry and the authenticated operation.\<close>

definition exported_outbound :: "platform \<Rightarrow> paid_registry \<Rightarrow> invocation \<Rightarrow> request_v2 \<Rightarrow> unit + PaidRequest option" where
  "exported_outbound px paidServices i request =
     (case inv_paymentRequirement i of
        None \<Rightarrow> Inr None
      | Some _ \<Rightarrow> (case paidServices (paidServiceKey (rq_service request) (rq_capability request)) of
          None \<Rightarrow> Inr None
        | Some resource \<Rightarrow> buildPaidRequest px resource (rq_operation request)))"

text \<open>The service exchange of a version 2 bundle; \<open>None\<close> is a throw of the header decoder.\<close>

definition exported_service :: "platform \<Rightarrow> invocation \<Rightarrow> service_artifacts option" where
  "exported_service px i =
     (let authorization = (case inv_paymentAttempt i of None \<Rightarrow> None | Some _ \<Rightarrow> inv_serviceAuthorization i) in
      case (if inv_state i = inv_state.CONFIRMED then Option.bind (inv_result i) rs_serviceAcknowledgementHeader else None) of
        None \<Rightarrow> Some \<lparr> sv_authorization = authorization, sv_acknowledgement = None \<rparr>
      | Some header \<Rightarrow> map_option (\<lambda>a. \<lparr> sv_authorization = authorization, sv_acknowledgement = Some a \<rparr>)
          (decodeServiceAcknowledgementHeader px header))"

definition artifacts_of ::
  "invocation \<Rightarrow> stored_authorization \<Rightarrow> request_v2 \<Rightarrow> EvidenceResult option \<Rightarrow> PaidRequest option
     \<Rightarrow> service_artifacts option \<Rightarrow> EvidenceArtifacts" where
  "artifacts_of i authorization request result outbound service =
     \<lparr> ea_settlementProfile = pp_network (sg_body (sv_permit authorization)), ea_grantId = inv_grantId i,
       ea_invocationId = inv_id i, ea_purchasePermit = permit_artifact_of (sv_permit authorization),
       ea_request = \<lparr> tg_text = AUTHORIZATION_REQUEST_PROTOCOL, tg_value = request \<rparr>,
       ea_agentSignature = sv_agentSignature authorization,
       ea_authorityDecision = receipt_artifact_of (inv_receipt i), ea_outboundRequest = outbound,
       ea_paymentRequirement = inv_paymentRequirement i, ea_paymentAttempt = inv_paymentAttempt i,
       ea_settlement = (if inv_state i = inv_state.CONFIRMED then inv_settlement i else None),
       ea_result = result, ea_service = service \<rparr>"

definition manifest_of ::
  "invocation \<Rightarrow> PurchaseState \<Rightarrow> address \<Rightarrow> int \<Rightarrow> EvidenceArtifacts \<Rightarrow> EvidenceDigests \<Rightarrow> service_digests option
     \<Rightarrow> EvidenceManifest" where
  "manifest_of i state authority issuedAt artifacts digests serviceDigests =
     \<lparr> em_authority = authority, em_issuedAt = issuedAt, em_settlementProfile = ea_settlementProfile artifacts,
       em_grantId = inv_grantId i, em_invocationId = inv_id i, em_purchaseState = state,
       em_decision = (if state = PurchaseState.DENIED then DENY else ALLOW), em_reasonCodes = inv_reasonCodes i,
       em_digests = digests, em_serviceDigests = serviceDigests \<rparr>"

definition sign_artifacts ::
  "platform \<Rightarrow> signing_key \<Rightarrow> (EvidenceDigests \<Rightarrow> service_digests option \<Rightarrow> EvidenceManifest) \<Rightarrow> EvidenceArtifacts
     \<Rightarrow> EvidenceBundle option" where
  "sign_artifacts px signer manifest artifacts =
     (case computeEvidenceDigests px artifacts of
        None \<Rightarrow> None
      | Some (digests, serviceDigests) \<Rightarrow>
        (case signEvidenceManifest px (manifest digests serviceDigests) signer of
           Inl _ \<Rightarrow> None
         | Inr m \<Rightarrow> Some (EvidenceArtifacts.extend artifacts (EvidenceBundle.fields m))))"

record export_input =
  xi_paidServices :: paid_registry
  xi_authorityAddress :: address
  xi_signer :: signing_key
  xi_issuedAt :: int
  xi_bundleVersion :: nat

definition buildEvidenceBundle :: "platform \<Rightarrow> export_input \<Rightarrow> invocation \<Rightarrow> export_error + EvidenceBundle" where
  "buildEvidenceBundle px input i =
     (case purchase_state_of (inv_state i) of
        None \<Rightarrow> Inl (EvidenceExportError NOT_FINAL)
      | Some state \<Rightarrow>
        (case (inv_authorization i, inv_request i) of
           (Some authorization, StoredV2 request) \<Rightarrow>
             if state \<in> {PurchaseState.CONFIRMED, PurchaseState.DENIED}
               \<and> \<not> receipt_by (xi_authorityAddress input) (inv_receipt i)
             then Inl (EvidenceExportError UNAVAILABLE)
             else case exported_result i of
               None \<Rightarrow> Inl (EvidenceExportError UNAVAILABLE)
             | Some result \<Rightarrow>
               (case exported_outbound px (xi_paidServices input) i request of
                  Inl _ \<Rightarrow> Inl ExportThrow
                | Inr outbound \<Rightarrow>
                  (case (if xi_bundleVersion input = 1 then Some None else map_option Some (exported_service px i)) of
                     None \<Rightarrow> Inl ExportThrow
                   | Some service \<Rightarrow>
                     let artifacts = artifacts_of i authorization request result outbound service in
                     case sign_artifacts px (xi_signer input)
                       (manifest_of i state (xi_authorityAddress input) (xi_issuedAt input) artifacts) artifacts of
                       None \<Rightarrow> Inl ExportThrow
                     | Some b \<Rightarrow> Inr b))
         | _ \<Rightarrow> Inl (EvidenceExportError UNAVAILABLE)))"

section \<open>The export operation of the authority\<close>

fun export_refusal :: "EvidenceExportProblem \<Rightarrow> AuthorityReasonCode" where
  "export_refusal NOT_FINAL = EVIDENCE_NOT_FINAL"
| "export_refusal UNAVAILABLE = EVIDENCE_UNAVAILABLE"

definition exportEvidence :: "authority \<Rightarrow> string \<Rightarrow> nat option \<Rightarrow> EvidenceBundle action" where
  "exportEvidence A invocationId bundleVersion =
     act_bind (store_read A (\<lambda>st. selectInvocation st invocationId)) (\<lambda>found s.
       case found of
         None \<Rightarrow> (Inl (EvidenceRequestError 404 INVOCATION_NOT_FOUND), s)
       | Some i \<Rightarrow>
         (case buildEvidenceBundle (aa_platform A)
             \<lparr> xi_paidServices = aa_paidServices A, xi_authorityAddress = aa_address A, xi_signer = aa_signer A,
               xi_issuedAt = ns_now s, xi_bundleVersion = (case bundleVersion of None \<Rightarrow> 2 | Some v \<Rightarrow> v) \<rparr> i of
            Inl (EvidenceExportError problem) \<Rightarrow> (Inl (EvidenceRequestError 409 (export_refusal problem)), s)
          | Inl ExportThrow \<Rightarrow> (Inl InternalError, s)
          | Inr b \<Rightarrow> (Inr b, s)))"

end
