(* ===== verification/Evidence_Binding.thy ===== *)
theory Evidence_Binding
  imports Evidence_Verify_Lemmas
begin

text \<open>
  The manifest determines the bundle: two well-formed bundles whose artifacts have the same digests carry the
  same artifacts, as long as the hash does not collide on the messages of corresponding artifacts.
\<close>

section \<open>Messages\<close>

definition artifact_message :: "platform \<Rightarrow> string \<Rightarrow> jsval \<Rightarrow> bytes option" where
  "artifact_message px name v = canonicalBytes px (ARTIFACT_DOMAIN @ '':'' @ name @ '':v1'' @ [CHR 0x0A]) v"

definition permit_message_json :: "permit_v2 tagged signed \<Rightarrow> jsval" where
  "permit_message_json p = JObj (with_text ''domain'' (tg_text (sg_body p))
     ((''version'', JInt 2) # shared_permit_fields (tg_value (sg_body p))
        @ [(''signature'', signature_json (sg_signature p)),
           (''operation'', operation_json (pp_operation (tg_value (sg_body p))))]))"

definition optional_artifacts :: "'a EvidenceArtifacts_scheme \<Rightarrow> (string \<times> jsval option) list" where
  "optional_artifacts b =
     [(''authority-decision'', map_option (signed_json receipt_artifact_fields) (ea_authorityDecision b)),
      (''outbound-request'', map_option outbound_request_json (ea_outboundRequest b)),
      (''payment-requirement'', map_option requirement_json (ea_paymentRequirement b)),
      (''payment-attempt'', map_option attempt_json (ea_paymentAttempt b)),
      (''settlement'', map_option settlement_json (ea_settlement b)),
      (''result'', map_option result_json (ea_result b)),
      (''service-authorization'', map_option (signed_json service_authorization_fields)
         (Option.bind (ea_service b) sv_authorization)),
      (''service-acknowledgement'', map_option (signed_json service_acknowledgement_fields)
         (Option.bind (ea_service b) sv_acknowledgement))]"

text \<open>What is hashed for a bundle, artifact by artifact.\<close>

definition evidence_messages :: "platform \<Rightarrow> 'a EvidenceArtifacts_scheme \<Rightarrow> bytes option list" where
  "evidence_messages px b =
     canonicalBytes px PERMIT_V2_DIGEST_PREFIX (permit_message_json (ea_purchasePermit b))
     # artifact_message px ''authorization-request'' (authorization_request_json (ea_request b) (ea_agentSignature b))
     # map (\<lambda>(name, v). Option.bind v (artifact_message px name)) (optional_artifacts b)"

definition no_collision :: "platform \<Rightarrow> bytes option \<Rightarrow> bytes option \<Rightarrow> bool" where
  "no_collision px x y \<longleftrightarrow> (map_option (sha256 px) x = map_option (sha256 px) y \<longrightarrow> x = y)"

lemma no_collision_refl [simp]: "no_collision px x x"
  by (simp add: no_collision_def)

section \<open>One artifact\<close>

lemma digest_determines:
  assumes "canonical_faithful px" "json_value v" "json_value w"
    and "canonicalDigest px p v = Some d" "canonicalDigest px p w = Some d"
    and "no_collision px (canonicalBytes px p v) (canonicalBytes px p w)"
  shows "jnorm v = jnorm w"
proof -
  obtain m m' where m: "canonicalBytes px p v = Some m" "canonicalBytes px p w = Some m'" "sha256 px m = sha256 px m'"
    using assms(4,5) by (auto simp: canonicalDigest_def sha256Hex_def)
  with assms(6) have "canonicalBytes px p w = Some m" by (simp add: no_collision_def)
  from canonicalBytes_inject [OF assms(1-3) m(1) this] show ?thesis .
qed

lemma optional_determines:
  assumes "canonical_faithful px" "pred_option json_value v" "pred_option json_value w"
    and "optional_digest px name v = Some d" "optional_digest px name w = Some d"
    and "no_collision px (Option.bind v (artifact_message px name)) (Option.bind w (artifact_message px name))"
  shows "map_option jnorm v = map_option jnorm w"
proof (cases v; cases w)
  fix x y
  assume vw: "v = Some x" "w = Some y"
  with assms(4,5) obtain d' where d: "artifactDigest px name x = Some d'" "artifactDigest px name y = Some d'"
    by (auto simp: optional_digest_def)
  from digest_determines [OF assms(1) _ _ d [unfolded artifactDigest_def]] assms(2,3,6) vw
  show ?thesis by (simp add: artifact_message_def)
qed (use assms(4,5) in \<open>auto simp: optional_digest_def\<close>)

context exact_parser
begin

lemma json_inject:
  assumes "wf a" "wf b" "json_value (json a)" "jnorm (json a) = jnorm (json b)"
  shows "a = b"
  using reads_back [OF assms(1,3) refl] reads_back [OF assms(2-4)] by (rule option.inject [THEN iffD1, OF trans [OF sym]])

lemma optional_inject:
  assumes "pred_option wf x" "pred_option wf y" "\<And>a. wf a \<Longrightarrow> json_value (json a)"
    and "map_option jnorm (map_option json x) = map_option jnorm (map_option json y)"
  shows "x = y"
proof (cases x; cases y)
  fix a b
  assume xy: "x = Some a" "y = Some b"
  have "a = b" by (rule json_inject) (use assms xy in simp_all)
  with xy show ?thesis by simp
qed (use assms(4) in simp_all)

lemma determined_by_digest:
  assumes "canonical_faithful px" "pred_option wf x" "pred_option wf y" "\<And>a. wf a \<Longrightarrow> json_value (json a)"
    and "optional_digest px name (map_option json x) = Some d" "optional_digest px name (map_option json y) = Some d"
    and "no_collision px (Option.bind (map_option json x) (artifact_message px name))
      (Option.bind (map_option json y) (artifact_message px name))"
  shows "x = y"
proof (rule optional_inject [OF assms(2,3,4)])
  have "pred_option json_value (map_option json x)" "pred_option json_value (map_option json y)"
    using assms(2-4) by (auto simp: option.pred_map option.pred_set)
  from optional_determines [OF assms(1) this assms(5-7)]
  show "map_option jnorm (map_option json x) = map_option jnorm (map_option json y)" .
qed

end

section \<open>The artifacts are JSON values\<close>

lemma json_value_signed:
  assumes "json_value (JObj (flds (sg_body s)))" "list_all (\<lambda>k. k \<noteq> ''signature'') (map fst (flds (sg_body s)))"
  shows "json_value (signed_json flds s)"
proof -
  have "''signature'' \<notin> fst ` set (flds (sg_body s))" using assms(2) by (auto simp: list_all_iff)
  with assms(1) show ?thesis by (auto simp: signed_json_def signature_json_def)
qed

lemma json_value_signed_artifacts:
  "json_value (signed_json permit_artifact_fields p)" "json_value (signed_json receipt_artifact_fields r)"
proof -
  have "list_all (\<lambda>k. k \<noteq> ''signature'') (map fst (permit_artifact_fields (sg_body p)))"
    unfolding permit_artifact_fields_def fst_with_text by (simp add: permit_v2_fields_def shared_permit_fields_def)
  then show "json_value (signed_json permit_artifact_fields p)"
    by (rule json_value_signed [OF json_value_artifacts(1)])
  have "list_all (\<lambda>k. k \<noteq> ''signature'') (map fst (receipt_artifact_fields (sg_body r)))"
    unfolding receipt_artifact_fields_def fst_with_text by (simp add: receipt_v2_fields_def receipt_fields_def)
  then show "json_value (signed_json receipt_artifact_fields r)"
    by (rule json_value_signed [OF json_value_artifacts(2)])
qed

lemma json_value_plain_artifacts:
  "json_value (authorization_request_json q g)" "json_value (outbound_request_json o1)"
  "wf_requirement m \<Longrightarrow> json_value (requirement_json m)" "json_value (attempt_json a)"
  "json_value (settlement_json st)" "json_value (result_json er)"
proof -
  show "json_value (authorization_request_json q g)"
    using json_value_artifacts(3) [of q] by (simp add: authorization_request_json_def signature_json_def)
  have "json_value v" if "wf_timeout v" for v using that by (cases v) simp_all
  then show "wf_requirement m \<Longrightarrow> json_value (requirement_json m)"
    by (cases "pm_maxTimeoutSeconds m") (auto simp: wf_requirement_def requirement_json_def)
  show "json_value (attempt_json a)"
    by (cases "at_transactionBase64 a") (simp_all add: attempt_json_def attempt_fields_def)
qed (simp_all add: outbound_request_json_def settlement_json_def result_json_def)

lemma json_value_permit_message: "json_value (permit_message_json p)"
  unfolding permit_message_json_def
  by (rule json_value_with_text) (simp add: shared_permit_fields_def signature_json_def)

lemma permit_message_norm:
  "jnorm (permit_message_json p) = jnorm (permit_message_json q) \<longleftrightarrow>
     jnorm (signed_json permit_artifact_fields p) = jnorm (signed_json permit_artifact_fields q)"
proof -
  have "jnorm (permit_message_json p) = jnorm (signed_json permit_artifact_fields p)" for p
  proof -
    have d: "distinct (map fst (permit_artifact_fields (sg_body p) @ [(''signature'', signature_json (sg_signature p))]))"
      by (simp add: permit_artifact_fields_def permit_v2_fields_def shared_permit_fields_def)
    show ?thesis
      unfolding signed_json_def same_object [OF maybe_json_value [OF json_value_permit_message] d]
      unfolding permit_message_json_def permit_artifact_fields_def permit_v2_fields_def shared_permit_fields_def with_text_def
      by (simp add: insert_commute)
  qed
  then show ?thesis by simp
qed

section \<open>The digests determine the artifacts\<close>

lemma computed_digests:
  "computeEvidenceDigests px b = Some (d, sd) \<longleftrightarrow>
     artifactPermitDigest px (ea_purchasePermit b) = Some (dg_purchasePermit d)
     \<and> artifactDigest px ''authorization-request'' (authorization_request_json (ea_request b) (ea_agentSignature b))
         = Some (dg_authorizationRequest d)
     \<and> computeOperationDigest px (rq_operation (tg_value (ea_request b))) = Some (dg_operation d)
     \<and> optional_digest px ''authority-decision'' (map_option (signed_json receipt_artifact_fields) (ea_authorityDecision b))
         = Some (dg_authorityDecision d)
     \<and> optional_digest px ''outbound-request'' (map_option outbound_request_json (ea_outboundRequest b)) = Some (dg_outboundRequest d)
     \<and> optional_digest px ''payment-requirement'' (map_option requirement_json (ea_paymentRequirement b))
         = Some (dg_paymentRequirement d)
     \<and> optional_digest px ''payment-attempt'' (map_option attempt_json (ea_paymentAttempt b)) = Some (dg_paymentAttempt d)
     \<and> optional_digest px ''settlement'' (map_option settlement_json (ea_settlement b)) = Some (dg_settlement d)
     \<and> optional_digest px ''result'' (map_option result_json (ea_result b)) = Some (dg_result d)
     \<and> (case (ea_service b, sd) of
          (None, None) \<Rightarrow> True
        | (Some sv, Some sg) \<Rightarrow>
            optional_digest px ''service-authorization'' (map_option (signed_json service_authorization_fields) (sv_authorization sv))
              = Some (dg_serviceAuthorization sg)
            \<and> optional_digest px ''service-acknowledgement''
                (map_option (signed_json service_acknowledgement_fields) (sv_acknowledgement sv)) = Some (dg_serviceAcknowledgement sg)
        | _ \<Rightarrow> False)"
  unfolding computeEvidenceDigests_def Let_def
  by (cases d; cases "ea_service b"; cases sd; cases "the sd") (auto simp: bind_eq_Some_conv)

lemma computed_service:
  assumes "computeEvidenceDigests px b = Some (d, Some sg)"
  obtains sv where "ea_service b = Some sv"
    and "optional_digest px ''service-authorization'' (map_option (signed_json service_authorization_fields) (sv_authorization sv))
      = Some (dg_serviceAuthorization sg)"
    and "optional_digest px ''service-acknowledgement'' (map_option (signed_json service_acknowledgement_fields) (sv_acknowledgement sv))
      = Some (dg_serviceAcknowledgement sg)"
  using assms unfolding computed_digests by (cases "ea_service b") simp_all

lemma computed_no_service: "computeEvidenceDigests px b = Some (d, None) \<Longrightarrow> ea_service b = None"
  unfolding computed_digests by (cases "ea_service b") simp_all

lemma digests_determine_artifacts:
  assumes px: "canonical_faithful px" and wf: "wf_bundle b" "wf_bundle b'"
    and d: "computeEvidenceDigests px b = Some ds" "computeEvidenceDigests px b' = Some ds"
    and nc: "list_all2 (no_collision px) (evidence_messages px b) (evidence_messages px b')"
  shows "ea_purchasePermit b = ea_purchasePermit b'"
    and "ea_request b = ea_request b' \<and> ea_agentSignature b = ea_agentSignature b'"
    and "ea_authorityDecision b = ea_authorityDecision b'" "ea_outboundRequest b = ea_outboundRequest b'"
    and "ea_paymentRequirement b = ea_paymentRequirement b'" "ea_paymentAttempt b = ea_paymentAttempt b'"
    and "ea_settlement b = ea_settlement b'" "ea_result b = ea_result b'" "ea_service b = ea_service b'"
proof -
  obtain d' sd where ds: "ds = (d', sd)" by fastforce
  note D = d [unfolded ds computed_digests]
  note N = nc [unfolded evidence_messages_def optional_artifacts_def, simplified]
  note W = wf [unfolded wf_bundle_def]
  note opt = optional_determines [OF px]
  show "ea_purchasePermit b = ea_purchasePermit b'"
  proof (rule permit_parser.json_inject)
    have "jnorm (permit_message_json (ea_purchasePermit b)) = jnorm (permit_message_json (ea_purchasePermit b'))"
      using digest_determines [OF px json_value_permit_message json_value_permit_message] D N
      unfolding artifactPermitDigest_def permit_message_json_def [symmetric] by blast
    then show "jnorm (signed_json permit_artifact_fields (ea_purchasePermit b))
        = jnorm (signed_json permit_artifact_fields (ea_purchasePermit b'))" unfolding permit_message_norm .
  qed (use W json_value_signed_artifacts in blast)+
  have "(ea_request b, ea_agentSignature b) = (ea_request b', ea_agentSignature b')"
  proof (rule wrapper_parser.json_inject)
    show "jnorm (case (ea_request b, ea_agentSignature b) of (r, sig) \<Rightarrow> authorization_request_json r sig)
        = jnorm (case (ea_request b', ea_agentSignature b') of (r, sig) \<Rightarrow> authorization_request_json r sig)"
      using digest_determines [OF px json_value_plain_artifacts(1) json_value_plain_artifacts(1)] D N
      unfolding artifactDigest_def artifact_message_def prod.case by blast
  qed (use W json_value_plain_artifacts(1) in auto)
  then show "ea_request b = ea_request b' \<and> ea_agentSignature b = ea_agentSignature b'" by simp
  show "ea_authorityDecision b = ea_authorityDecision b'"
    by (rule receipt_parser.determined_by_digest [OF px]) (use D N W json_value_signed_artifacts in blast)+
  show "ea_outboundRequest b = ea_outboundRequest b'"
    by (rule outbound_parser.determined_by_digest [OF px]) (use D N W json_value_plain_artifacts in blast)+
  show "ea_paymentRequirement b = ea_paymentRequirement b'"
    by (rule requirement_parser.determined_by_digest [OF px]) (use D N W json_value_plain_artifacts in blast)+
  show "ea_paymentAttempt b = ea_paymentAttempt b'"
    by (rule attempt_parser.determined_by_digest [OF px]) (use D N W json_value_plain_artifacts in blast)+
  show "ea_settlement b = ea_settlement b'"
    by (rule settlement_parser.determined_by_digest [OF px]) (use D N W json_value_plain_artifacts in blast)+
  show "ea_result b = ea_result b'"
    by (rule result_parser.determined_by_digest [OF px]) (use D N W json_value_plain_artifacts in blast)+
  show "ea_service b = ea_service b'"
  proof (cases sd)
    case None
    then show ?thesis using computed_no_service d ds by metis
  next
    case (Some sg)
    obtain sv where sv: "ea_service b = Some sv"
      "optional_digest px ''service-authorization'' (map_option (signed_json service_authorization_fields) (sv_authorization sv))
        = Some (dg_serviceAuthorization sg)"
      "optional_digest px ''service-acknowledgement'' (map_option (signed_json service_acknowledgement_fields) (sv_acknowledgement sv))
        = Some (dg_serviceAcknowledgement sg)"
      using computed_service [OF d(1) [unfolded ds Some]] by blast
    obtain sv' where sv': "ea_service b' = Some sv'"
      "optional_digest px ''service-authorization'' (map_option (signed_json service_authorization_fields) (sv_authorization sv'))
        = Some (dg_serviceAuthorization sg)"
      "optional_digest px ''service-acknowledgement'' (map_option (signed_json service_acknowledgement_fields) (sv_acknowledgement sv'))
        = Some (dg_serviceAcknowledgement sg)"
      using computed_service [OF d(2) [unfolded ds Some]] by blast
    have w: "wf_service sv" "wf_service sv'" using wf sv(1) sv'(1) by (simp_all add: wf_bundle_def)
    have n: "no_collision px (Option.bind (map_option (signed_json service_authorization_fields) (sv_authorization sv))
          (artifact_message px ''service-authorization''))
        (Option.bind (map_option (signed_json service_authorization_fields) (sv_authorization sv'))
          (artifact_message px ''service-authorization''))"
      "no_collision px (Option.bind (map_option (signed_json service_acknowledgement_fields) (sv_acknowledgement sv))
          (artifact_message px ''service-acknowledgement''))
        (Option.bind (map_option (signed_json service_acknowledgement_fields) (sv_acknowledgement sv'))
          (artifact_message px ''service-acknowledgement''))"
      using N sv(1) sv'(1) by simp_all
    have "sv_authorization sv = sv_authorization sv'"
      by (rule service_authorization_parser.determined_by_digest [OF px _ _ _ sv(2) sv'(2) n(1)])
        (use w json_value_signed_service in \<open>simp_all add: wf_service_def\<close>)
    moreover have "sv_acknowledgement sv = sv_acknowledgement sv'"
      by (rule service_acknowledgement_parser.determined_by_digest [OF px _ _ _ sv(3) sv'(3) n(2)])
        (use w json_value_signed_service in \<open>simp_all add: wf_service_def\<close>)
    ultimately show ?thesis using sv(1) sv'(1) by simp
  qed
qed

text \<open>With the manifest the bundle is determined.\<close>

lemma manifest_determines:
  assumes "canonical_faithful px" "wf_bundle b" "wf_bundle b'"
    and "manifest_binds px trust b" "state_consistent b" "manifest_binds px trust' b'" "state_consistent b'"
    and "eb_manifest b = eb_manifest b'"
    and "list_all2 (no_collision px) (evidence_messages px b) (evidence_messages px b')"
  shows "b = b'"
proof -
  have d: "computeEvidenceDigests px b = computeEvidenceDigests px b'" "computeEvidenceDigests px b \<noteq> None"
    using assms(4,6,8) by (simp_all add: manifest_binds_def)
  then obtain ds where "computeEvidenceDigests px b = Some ds" "computeEvidenceDigests px b' = Some ds" by auto
  note a = digests_determine_artifacts [OF assms(1-3) this assms(9)]
  have "ea_grantId b = ea_grantId b'" "ea_invocationId b = ea_invocationId b'" "ea_settlementProfile b = ea_settlementProfile b'"
    using assms(5,7,8) by (simp_all add: state_consistent_def Let_def)
  with a assms(8) show ?thesis by (cases b; cases b') simp
qed

section \<open>Bundles as JSON\<close>

lemma parse_exact:
  assumes "json_value v" "\<And>t. v \<noteq> JStr t"
  shows "parseEvidenceBundle px v = Some b \<longleftrightarrow> wf_bundle b \<and> jnorm v = jnorm (JObj (bundle_fields b))"
proof -
  have "bundle_input px v = Some v" using assms(2) by (cases v) (auto simp: bundle_input_def)
  then have "parseEvidenceBundle px v = Some b \<longleftrightarrow> (\<exists>v2. bundle_version v = Some v2 \<and> p_bundle v2 v = Some b)"
    by (auto simp: parseEvidenceBundle_def bind_eq_Some_conv)
  then show ?thesis using p_bundle_exact [OF maybe_json_value [OF assms(1)]] by simp
qed

lemma json_value_bundle:
  assumes "wf_bundle b"
  shows "json_value (JObj (bundle_fields b))"
proof -
  have m: "json_value (opt_json requirement_json (ea_paymentRequirement b))"
    using assms json_value_plain_artifacts(3) by (cases "ea_paymentRequirement b") (simp_all add: wf_bundle_def)
  have man: "json_value (signed_json manifest_fields (eb_manifest b))"
    by (rule json_value_signed [OF json_value_manifest]) (simp add: manifest_fields_def)
  have d: "distinct (map fst (bundle_fields b))" using bundle_keys by auto
  have "\<forall>kv \<in> set (service_fields (ea_service b)). json_value (snd kv)"
    by (auto simp: service_fields_def json_value_signed_service intro: json_value_opt_json split: option.splits)
  moreover have "json_value (opt_json (signed_json receipt_artifact_fields) (ea_authorityDecision b))"
    "json_value (opt_json outbound_request_json (ea_outboundRequest b))" "json_value (opt_json attempt_json (ea_paymentAttempt b))"
    "json_value (opt_json settlement_json (ea_settlement b))" "json_value (opt_json result_json (ea_result b))"
    by (rule json_value_opt_json, rule json_value_signed_artifacts json_value_plain_artifacts)+
  ultimately have "\<forall>kv \<in> set (bundle_fields b). json_value (snd kv)"
    using m man json_value_signed_artifacts(1) json_value_plain_artifacts(1) by (simp add: bundle_fields_def)
  with d show ?thesis by (simp only: json_value.simps simp_thms)
qed

text \<open>A well-formed bundle survives being written as JSON and parsed again.\<close>

lemma bundle_reads_back: "wf_bundle b \<Longrightarrow> parseEvidenceBundle px (JObj (bundle_fields b)) = Some b"
  by (simp add: parse_exact json_value_bundle del: json_value.simps)

end
