(* ===== verification/Authority_Export_Lemmas.thy ===== *)
theory Authority_Export_Lemmas
  imports Authority_Export Authority_Service_Lemmas Evidence_Binding
begin

text \<open>
  What an exported bundle says: the artifacts of the row, under a manifest that verifies and binds them.  For a
  row that holds what an authenticated request asked, the verifier's claims on trust, integrity, authorization
  and policy are acceptable.
\<close>

section \<open>A successful export\<close>

lemma sign_artifacts_Some:
  assumes "signatures_verify px" "canonical_total px"
    and "\<And>d sd. em_authority (manifest d sd) = authority" "\<And>d sd. em_digests (manifest d sd) = d"
      "\<And>d sd. em_serviceDigests (manifest d sd) = sd"
    and "sign_artifacts px signer manifest a = Some b"
  shows "EvidenceArtifacts.truncate b = a \<and> (\<exists>d sd. sg_body (eb_manifest b) = manifest d sd)
    \<and> verifyEvidenceManifestSignature px (eb_manifest b) authority
    \<and> computeEvidenceDigests px b = Some (em_digests (sg_body (eb_manifest b)), em_serviceDigests (sg_body (eb_manifest b)))"
proof -
  obtain d sd m where d: "computeEvidenceDigests px a = Some (d, sd)"
      and m: "signEvidenceManifest px (manifest d sd) signer = Inr m"
      and b: "b = EvidenceArtifacts.extend a (EvidenceBundle.fields m)"
    using assms(6) by (auto simp: sign_artifacts_def split: option.splits sum.splits)
  have k: "keyAddress px signer = em_authority (manifest d sd)" "sg_body m = manifest d sd"
    using manifest_message.sign_only_own_key m unfolding signEvidenceManifest_def by blast+
  obtain s where s: "signEvidenceManifest px (manifest d sd) signer = Inr s"
      "\<And>pinned. verifyEvidenceManifestSignature px s pinned \<longleftrightarrow> pinned = em_authority (manifest d sd)"
    using manifest_message.sign_then_verify [OF assms(1,2) k(1)]
    unfolding signEvidenceManifest_def verifyEvidenceManifestSignature_def by blast
  have "computeEvidenceDigests px b = computeEvidenceDigests px a"
    by (cases a) (simp add: b computeEvidenceDigests_def EvidenceArtifacts.extend_def EvidenceBundle.fields_def)
  moreover have "EvidenceArtifacts.truncate b = a" "eb_manifest b = m"
    by (cases a; simp add: b EvidenceArtifacts.truncate_def EvidenceArtifacts.extend_def EvidenceBundle.fields_def)+
  ultimately show ?thesis using d m s k assms(3-5) by auto
qed

definition receipt_present :: "PurchaseState \<Rightarrow> export_input \<Rightarrow> invocation \<Rightarrow> bool" where
  "receipt_present state input i \<longleftrightarrow>
     (state \<in> {PurchaseState.CONFIRMED, PurchaseState.DENIED} \<longrightarrow> receipt_by (xi_authorityAddress input) (inv_receipt i))"

definition exchange_of :: "platform \<Rightarrow> export_input \<Rightarrow> invocation \<Rightarrow> service_artifacts option option" where
  "exchange_of px input i = (if xi_bundleVersion input = 1 then Some None else map_option Some (exported_service px i))"

lemma buildEvidenceBundle_Inr:
  "buildEvidenceBundle px input i = Inr b \<longleftrightarrow> (\<exists>state authorization request result outbound service.
    purchase_state_of (inv_state i) = Some state \<and> inv_authorization i = Some authorization \<and> inv_request i = StoredV2 request
    \<and> receipt_present state input i \<and> exported_result i = Some result
    \<and> exported_outbound px (xi_paidServices input) i request = Inr outbound \<and> exchange_of px input i = Some service
    \<and> sign_artifacts px (xi_signer input) (manifest_of i state (xi_authorityAddress input) (xi_issuedAt input)
          (artifacts_of i authorization request result outbound service))
        (artifacts_of i authorization request result outbound service) = Some b)"
  unfolding buildEvidenceBundle_def Let_def exchange_of_def [symmetric]
  by (auto simp: receipt_present_def split: option.split stored_request.split sum.split)

text \<open>With keys that verify, the export gives the artifacts of the row and a manifest that binds them.\<close>

lemma buildEvidenceBundle_binds:
  assumes "signatures_verify px" "canonical_total px" "buildEvidenceBundle px input i = Inr b"
  obtains state authorization request result outbound service where
    "purchase_state_of (inv_state i) = Some state" "inv_authorization i = Some authorization" "inv_request i = StoredV2 request"
    "exported_result i = Some result" "exported_outbound px (xi_paidServices input) i request = Inr outbound"
    "receipt_present state input i" "exchange_of px input i = Some service"
    "EvidenceArtifacts.truncate b = artifacts_of i authorization request result outbound service"
    "\<exists>d sd. sg_body (eb_manifest b) = manifest_of i state (xi_authorityAddress input) (xi_issuedAt input)
        (artifacts_of i authorization request result outbound service) d sd"
    "\<forall>trust. vt_authority trust = xi_authorityAddress input \<longrightarrow> manifest_binds px trust b"
proof -
  obtain state authorization request result outbound service where c:
    "purchase_state_of (inv_state i) = Some state" "inv_authorization i = Some authorization" "inv_request i = StoredV2 request"
    "receipt_present state input i" "exported_result i = Some result"
    "exported_outbound px (xi_paidServices input) i request = Inr outbound" "exchange_of px input i = Some service"
    "sign_artifacts px (xi_signer input) (manifest_of i state (xi_authorityAddress input) (xi_issuedAt input)
        (artifacts_of i authorization request result outbound service))
      (artifacts_of i authorization request result outbound service) = Some b"
    using assms(3) unfolding buildEvidenceBundle_Inr by blast
  have f: "em_authority (manifest_of i state (xi_authorityAddress input) t a d sd) = xi_authorityAddress input"
    "em_digests (manifest_of i state (xi_authorityAddress input) t a d sd) = d"
    "em_serviceDigests (manifest_of i state (xi_authorityAddress input) t a d sd) = sd" for t a d sd
    by (simp_all add: manifest_of_def)
  note s = sign_artifacts_Some [OF assms(1,2) f c(8)]
  have "manifest_binds px trust b" if "vt_authority trust = xi_authorityAddress input" for trust
    using s that by (simp add: manifest_binds_def)
  with c s that show ?thesis by blast
qed

section \<open>Rows that hold an authenticated request\<close>

definition recorded :: "AuthenticatedRequest \<Rightarrow> invocation \<Rightarrow> bool" where
  "recorded ar i \<longleftrightarrow>
     (let permit = sg_body (ar_permit ar); request = ar_request ar in
      inv_id i = rq_invocationId request \<and> inv_grantId i = pp_grantId permit \<and> inv_agent i = pp_authorizedAgent permit
      \<and> inv_request i = StoredV2 request \<and> inv_amountAtomic i = rq_amountAtomic request
      \<and> inv_authorization i = Some \<lparr> sv_permit = ar_permit ar, sv_agentSignature = ar_agentSignature ar \<rparr>)"

lemma recorded_new_row: "recorded ar (new_row (reserve_input_for ar t quote) st codes n)"
  by (simp add: recorded_def Let_def new_row_def reserve_input_for_def)

lemma recorded_with_receipt [simp]: "recorded ar (with_receipt r n i) \<longleftrightarrow> recorded ar i"
  by (simp add: recorded_def with_receipt_def)

lemma build_receipt_with_receipt [simp]: "build_receipt A (with_receipt r n i) = build_receipt A i"
proof -
  have "receipt_base A (with_receipt r n i) q = receipt_base A i q" "inv_request (with_receipt r n i) = inv_request i"
    for q :: "'a request_v1_scheme" by (simp_all add: receipt_base_def with_receipt_def)
  then show ?thesis
    by (simp add: build_receipt_def receipt_base_def with_receipt_def Let_def cong: stored_request.case_cong option.case_cong)
qed

lemma permit_artifact_digest: "artifactPermitDigest px (permit_artifact_of s) = computePermitDigest px s"
  by (simp add: artifactPermitDigest_def permit_artifact_of_def computePermitDigest_def permit_digest_object_v2_def
      with_text_def shared_permit_fields_def)

lemma verified_permit_signed:
  assumes "verifyPurchasePermitV2 px c = Inr s"
  shows "human_signed px (permit_artifact_of s)" "wf_permit_v2 px (sg_body s)"
proof -
  have v: "validateUnsignedPurchasePermitV2 px c = Inr (sg_body s)" "isSignature px (sg_signature s)"
      "importable px (pp_issuer (sg_body s))"
      "\<exists>m. canonicalizeUnsignedPurchasePermitV2 px (sg_body s) = Some m \<and> verifyRaw px (pp_issuer (sg_body s)) (sg_signature s) m"
    using assms unfolding verifyPurchasePermitV2_def pv2.verify_iff by blast+
  then show wf: "wf_permit_v2 px (sg_body s)" unfolding validateUnsignedPurchasePermitV2_Inr_iff
    by (auto simp: wf_permit_v2_def validateExactOperation_wf)
  with v show "human_signed px (permit_artifact_of s)"
    by (auto simp: human_signed_def permit_artifact_of_def Let_def)
qed

lemma authenticated_signs:
  assumes "authenticated_as A input now ar" "wf_request_v2 (ar_request ar)"
    and "ea_purchasePermit b = permit_artifact_of (ar_permit ar)"
    and "ea_request b = \<lparr> tg_text = AUTHORIZATION_REQUEST_PROTOCOL, tg_value = ar_request ar \<rparr>"
    and "ea_agentSignature b = ar_agentSignature ar"
  shows "human_signed (aa_platform A) (ea_purchasePermit b)" "agent_asked (aa_platform A) b"
    and "artifactPermitDigest (aa_platform A) (ea_purchasePermit b) = Some (rq_permitDigest (tg_value (ea_request b)))"
proof -
  note a = assms(1) [unfolded authenticated_as_def Let_def]
  show "human_signed (aa_platform A) (ea_purchasePermit b)" using a verified_permit_signed(1) assms(3) by metis
  have "pp_authorizedAgent (tg_value (sg_body (ea_purchasePermit b))) = pp_authorizedAgent (sg_body (ar_permit ar))"
    by (simp add: assms(3) permit_artifact_of_def)
  moreover have "verifyAuthorizationRequestSignature (aa_platform A)
      (canonicalizeAuthorizationRequestV2 (aa_platform A) (ar_request ar)) (in_agentSignature input)
      (pp_authorizedAgent (sg_body (ar_permit ar)))" using a by blast
  then obtain t m where "jget (in_agentSignature input) ''signature'' = JStr t" "isSignature (aa_platform A) t"
      "isAddress (aa_platform A) (pp_authorizedAgent (sg_body (ar_permit ar)))"
      "importable (aa_platform A) (pp_authorizedAgent (sg_body (ar_permit ar)))"
      "canonicalizeAuthorizationRequestV2 (aa_platform A) (ar_request ar) = Some m"
      "verifyRaw (aa_platform A) (pp_authorizedAgent (sg_body (ar_permit ar))) t m"
    unfolding verifyAuthorizationRequestSignature_iff by blast
  moreover from this(1) a have "ar_agentSignature ar = t" by simp
  ultimately show "agent_asked (aa_platform A) b" using assms(2,4,5) by (simp add: agent_asked_def Let_def)
  show "artifactPermitDigest (aa_platform A) (ea_purchasePermit b) = Some (rq_permitDigest (tg_value (ea_request b)))"
    using a by (simp add: assms(3,4) permit_artifact_digest)
qed

lemma receipt_artifact_same:
  "verifyReceiptArtifact px \<lparr> sg_body = \<lparr> tg_text = AUTHORIZATION_RECEIPT_DOMAIN, tg_value = sg_body s \<rparr>, sg_signature = sg_signature s \<rparr> k
     \<longleftrightarrow> verifyAuthorizationReceiptSignature px s k"
proof -
  have "receipt_artifact_fields \<lparr> tg_text = AUTHORIZATION_RECEIPT_DOMAIN, tg_value = r \<rparr> = receipt_v2_fields r" for r
    by (simp add: receipt_artifact_fields_def with_text_def receipt_v2_fields_def receipt_fields_def)
  then show ?thesis
    unfolding verifyReceiptArtifact_def verifyAuthorizationReceiptSignature_def receipt_artifact.verify_iff receipt_message.verify_iff
    by simp
qed

lemma built_receipt:
  assumes "signatures_verify (aa_platform A)" "canonical_total (aa_platform A)"
    and "recorded ar i" "build_receipt A i = Some r"
  obtains s where "r = ReceiptV2 s" "verifyAuthorizationReceiptSignature (aa_platform A) s (aa_address A)"
    "receipt_v1.truncate (sg_body s) = receipt_base A i (ar_request ar)"
    "rcp_operation (sg_body s) = rq_operation (ar_request ar)"
    "computeOperationDigest (aa_platform A) (rq_operation (ar_request ar)) = Some (rcp_operationDigest (sg_body s))"
proof -
  have "inv_request i = StoredV2 (ar_request ar)" using assms(3) by (simp add: recorded_def Let_def)
  with assms(4) obtain d s where d: "computeOperationDigest (aa_platform A) (rq_operation (ar_request ar)) = Some d"
      and r: "r = ReceiptV2 s" and s: "signAuthorizationReceipt (aa_platform A) (receipt_v1.extend (receipt_base A i (ar_request ar))
        (receipt_v2.fields (rq_operation (ar_request ar)) d)) (aa_signer A) = Inr s"
    by (auto simp: build_receipt_def Let_def split: option.splits sum.splits)
  let ?b = "receipt_v1.extend (receipt_base A i (ar_request ar)) (receipt_v2.fields (rq_operation (ar_request ar)) d)"
  have b: "sg_body s = ?b" "keyAddress (aa_platform A) (aa_signer A) = rcp_authority ?b"
    using receipt_message.sign_only_own_key [OF s [unfolded signAuthorizationReceipt_def]] by simp_all
  have "rcp_authority ?b = aa_address A"
    by (simp add: receipt_base_def receipt_v1.extend_def)
  with receipt_message.sign_then_verify [OF assms(1,2) b(2)] s
  have "verifyAuthorizationReceiptSignature (aa_platform A) s (aa_address A)"
    by (auto simp: signAuthorizationReceipt_def verifyAuthorizationReceiptSignature_def)
  with r d b(1) that [of s] show ?thesis
    by (simp add: receipt_v1.extend_def receipt_v1.truncate_def receipt_v2.fields_def)
qed

section \<open>The claims of an exported bundle\<close>

lemma truncated_fields:
  assumes "EvidenceArtifacts.truncate b = a"
  shows "ea_settlementProfile b = ea_settlementProfile a" "ea_grantId b = ea_grantId a" "ea_invocationId b = ea_invocationId a"
    "ea_purchasePermit b = ea_purchasePermit a" "ea_request b = ea_request a" "ea_agentSignature b = ea_agentSignature a"
    "ea_authorityDecision b = ea_authorityDecision a" "ea_outboundRequest b = ea_outboundRequest a"
    "ea_paymentRequirement b = ea_paymentRequirement a" "ea_paymentAttempt b = ea_paymentAttempt a"
    "ea_settlement b = ea_settlement a" "ea_result b = ea_result a" "ea_service b = ea_service a"
  using assms by (auto simp: EvidenceArtifacts.truncate_def)

text \<open>A row whose decision carries the receipt the authority builds for it, and no receipt otherwise.\<close>

definition receipted :: "authority \<Rightarrow> invocation \<Rightarrow> bool" where
  "receipted A i \<longleftrightarrow>
     (if inv_state i \<in> {inv_state.DENIED, inv_state.CONFIRMED} then inv_receipt i \<noteq> None \<and> inv_receipt i = build_receipt A i
      else inv_receipt i = None)
     \<and> (inv_state i = inv_state.CONFIRMED \<longrightarrow>
          inv_settlement i \<noteq> None \<and> inv_paymentTransactionId i = map_option cs_transactionId (inv_settlement i))"

definition verifier_pins :: "authority \<Rightarrow> VerifierTrust \<Rightarrow> bool" where
  "verifier_pins A trust \<longleftrightarrow> vt_issuer trust = ie_issuer (aa_issuerEntitlement A) \<and> vt_authority trust = aa_address A"

lemma receipt_base_fields:
  assumes "receipt_v1.truncate r = receipt_base A i q"
  shows "rcp_invocationId r = inv_id i" "rcp_grantId r = inv_grantId i" "rcp_authority r = aa_address A" "rcp_agent r = inv_agent i"
    "rcp_permitDigest r = rq_permitDigest q" "rcp_service r = rq_service q" "rcp_capability r = rq_capability q"
    "rcp_network r = rq_network q" "rcp_mint r = rq_mint q" "rcp_recipient r = rq_recipient q"
    "rcp_amountAtomic r = inv_amountAtomic i" "rcp_decision r = (if inv_state i = inv_state.CONFIRMED then ALLOW else DENY)"
    "rcp_reasonCodes r = inv_reasonCodes i" "rcp_paymentTransactionId r = inv_paymentTransactionId i"
  using assms by (auto simp: receipt_base_def receipt_v1.truncate_def)

lemma exported_receipt:
  assumes "signatures_verify (aa_platform A)" "canonical_total (aa_platform A)" "recorded ar i" "receipted A i"
    and "inv_state i \<in> {inv_state.DENIED, inv_state.CONFIRMED}"
  obtains s where "receipt_artifact_of (inv_receipt i) = Some s" "verifyReceiptArtifact (aa_platform A) s (aa_address A)"
    "receipt_v1.truncate (tg_value (sg_body s)) = receipt_base A i (ar_request ar)"
    "rcp_operation (tg_value (sg_body s)) = rq_operation (ar_request ar)"
    "computeOperationDigest (aa_platform A) (rq_operation (ar_request ar)) = Some (rcp_operationDigest (tg_value (sg_body s)))"
proof -
  obtain r where r: "inv_receipt i = Some r" "build_receipt A i = Some r"
    using assms(4,5) by (auto simp: receipted_def)
  obtain t where t: "r = ReceiptV2 t" "verifyAuthorizationReceiptSignature (aa_platform A) t (aa_address A)"
    "receipt_v1.truncate (sg_body t) = receipt_base A i (ar_request ar)"
    "rcp_operation (sg_body t) = rq_operation (ar_request ar)"
    "computeOperationDigest (aa_platform A) (rq_operation (ar_request ar)) = Some (rcp_operationDigest (sg_body t))"
    using built_receipt [OF assms(1-3) r(2)] by blast
  let ?s = "\<lparr> sg_body = \<lparr> tg_text = AUTHORIZATION_RECEIPT_DOMAIN, tg_value = sg_body t \<rparr>, sg_signature = sg_signature t \<rparr>"
  have "receipt_artifact_of (inv_receipt i) = Some ?s" by (simp add: receipt_artifact_of_def r t)
  with t(2-) that [of ?s] receipt_artifact_same show ?thesis by simp
qed

lemma exported_claims:
  assumes laws: "signatures_verify (aa_platform A)" "canonical_total (aa_platform A)"
    and auth: "authenticated_as A input now ar" "wf_request_v2 (ar_request ar)"
    and row: "recorded ar i" "receipted A i"
    and build: "buildEvidenceBundle (aa_platform A) xi i = Inr b" "xi_authorityAddress xi = aa_address A"
    and trust: "verifier_pins A trust"
  shows "keys_pinned trust b" "manifest_binds (aa_platform A) trust b" "authorized (aa_platform A) trust b"
proof -
  let ?px = "aa_platform A"
  obtain state authorization request result outbound service where c:
    "purchase_state_of (inv_state i) = Some state" "inv_authorization i = Some authorization" "inv_request i = StoredV2 request"
    "exported_result i = Some result" "exported_outbound ?px (xi_paidServices xi) i request = Inr outbound"
    "receipt_present state xi i" "exchange_of ?px xi i = Some service"
    "EvidenceArtifacts.truncate b = artifacts_of i authorization request result outbound service"
    "\<exists>d sd. sg_body (eb_manifest b) = manifest_of i state (xi_authorityAddress xi) (xi_issuedAt xi)
        (artifacts_of i authorization request result outbound service) d sd"
    "\<forall>trust. vt_authority trust = xi_authorityAddress xi \<longrightarrow> manifest_binds ?px trust b"
    by (rule buildEvidenceBundle_binds [OF laws build(1)])
  have ar: "authorization = \<lparr> sv_permit = ar_permit ar, sv_agentSignature = ar_agentSignature ar \<rparr>" "request = ar_request ar"
      "inv_amountAtomic i = rq_amountAtomic request" "inv_agent i = pp_authorizedAgent (sg_body (ar_permit ar))"
    using row(1) c(2,3) by (simp_all add: recorded_def Let_def)
  note f = truncated_fields [OF c(8), unfolded artifacts_of_def EvidenceArtifacts.simps]
  have m: "em_authority (sg_body (eb_manifest b)) = aa_address A" "em_purchaseState (sg_body (eb_manifest b)) = state"
    using c(9) build(2) by (auto simp: manifest_of_def)
  show "manifest_binds ?px trust b" using c(10) trust build(2) by (simp add: verifier_pins_def)
  have issuer: "pp_issuer (tg_value (sg_body (ea_purchasePermit b))) = vt_issuer trust"
    using auth(1) trust by (simp add: f ar permit_artifact_of_def authenticated_as_def Let_def verifier_pins_def)
  have receipts: "pred_option (\<lambda>s. verifyReceiptArtifact ?px s (aa_address A)
      \<and> receipt_v1.truncate (tg_value (sg_body s)) = receipt_base A i (ar_request ar)
      \<and> rcp_operation (tg_value (sg_body s)) = rq_operation (ar_request ar)
      \<and> computeOperationDigest ?px (rq_operation (ar_request ar)) = Some (rcp_operationDigest (tg_value (sg_body s))))
      (ea_authorityDecision b)"
  proof (cases "inv_state i \<in> {inv_state.DENIED, inv_state.CONFIRMED}")
    case True
    show ?thesis by (rule exported_receipt [OF laws row True]) (simp add: f(7))
  next
    case False
    then have "ea_authorityDecision b = None" using row(2) by (simp add: f receipted_def receipt_artifact_of_def)
    then show ?thesis by simp
  qed
  show "keys_pinned trust b"
    using receipts receipt_base_fields(3) issuer m trust
    by (cases "ea_authorityDecision b") (auto simp: keys_pinned_def verifier_pins_def)
  have tx: "state = PurchaseState.CONFIRMED \<Longrightarrow> ea_settlement b \<noteq> None
      \<and> inv_paymentTransactionId i = map_option cs_transactionId (ea_settlement b)"
    using row(2) c(1) by (cases "inv_state i") (simp_all add: f receipted_def)
  have "pred_option (receipt_agrees ?px trust b) (ea_authorityDecision b)"
  proof (cases "ea_authorityDecision b")
    case (Some s)
    with receipts have s: "verifyReceiptArtifact ?px s (aa_address A)"
        "receipt_v1.truncate (tg_value (sg_body s)) = receipt_base A i (ar_request ar)"
        "rcp_operation (tg_value (sg_body s)) = rq_operation (ar_request ar)"
        "computeOperationDigest ?px (rq_operation (ar_request ar)) = Some (rcp_operationDigest (tg_value (sg_body s)))"
      by auto
    note rf = receipt_base_fields [OF s(2)]
    have "tg_value (ea_request b) = ar_request ar" "tg_value (sg_body (ea_purchasePermit b)) = sg_body (ar_permit ar)"
      by (simp_all add: f ar permit_artifact_of_def)
    moreover have "vt_authority trust = aa_address A" using trust by (simp add: verifier_pins_def)
    ultimately show ?thesis using s(1,3,4) tx unfolding Some option.pred_inject receipt_agrees_def Let_def
      by (simp add: rf m ar)
  qed simp
  moreover have "ea_purchasePermit b = permit_artifact_of (ar_permit ar)"
    "ea_request b = \<lparr> tg_text = AUTHORIZATION_REQUEST_PROTOCOL, tg_value = ar_request ar \<rparr>"
    "ea_agentSignature b = ar_agentSignature ar" by (simp_all add: f ar)
  note authenticated_signs [OF auth this]
  ultimately show "authorized ?px trust b" unfolding authorized_def by blast
qed

section \<open>Denials\<close>

lemma static_within_policy:
  assumes "pp_issuedAt permit \<le> rq_issuedAt r" "rq_issuedAt r \<le> pp_expiresAt permit" "atomic_pattern c"
  shows "set (static_codes permit r) \<subseteq> set (policy_codes permit r t (request_values r) c)"
proof -
  have "atomic_pattern ''0''" by (simp add: is_digit_def code_def)
  then have codes: "set (dc_reasonCodes (evaluatePurchasePermit (rq_issuedAt r) permit
      \<lparr> pr_service = rq_service r, pr_capability = rq_capability r, pr_network = rq_network r, pr_mint = rq_mint r,
        pr_recipient = rq_recipient r, pr_amountAtomic = rq_amountAtomic r, pr_alreadySpentAtomic = ''0'',
        pr_now = Some (rq_issuedAt r) \<rparr>)) - {TOTAL_BUDGET_EXCEEDED}
    \<subseteq> set (dc_reasonCodes (evaluatePurchasePermit t permit
      \<lparr> pr_service = rq_service r, pr_capability = rq_capability r, pr_network = rq_network r, pr_mint = rq_mint r,
        pr_recipient = rq_recipient r, pr_amountAtomic = rq_amountAtomic r, pr_alreadySpentAtomic = c, pr_now = Some t \<rparr>))"
    using assms by (auto simp: evaluatePurchasePermit_def Let_def split: if_splits)
  have "set (filter (\<lambda>c. c \<noteq> ''TOTAL_BUDGET_EXCEEDED'') (map permit_code_text xs)) = permit_code_text ` (set xs - {TOTAL_BUDGET_EXCEEDED})"
    for xs by (auto simp: permit_code_text_total)
  then show ?thesis
    using assms(1) image_mono [OF codes, of permit_code_text]
    by (simp add: static_codes_def policy_codes_def request_values_def Let_def le_supI2)
qed

lemma denied_codes:
  assumes "evaluate_decision permit request t quote c = BudgetDenied codes"
  shows "set (policy_codes permit request t (request_values request) c) \<subseteq> set codes"
  using assms by (auto simp: evaluate_decision_def Let_def split: option.splits if_splits)

lemma reserve_denied_row:
  assumes "reserve p evaluate n st = (Inr (ReserveDenied i), st')" "store_inv st"
    and "selectInvocation st (ri_invocationId p) = None"
  shows "\<exists>c codes. atomic_pattern c \<and> evaluate c = BudgetDenied codes \<and> i = new_row p inv_state.DENIED codes n"
proof -
  have key: "retry_same_grant st p" using assms(3) by (simp add: retry_same_grant_def)
  from assms(2) key assms(1) show ?thesis
  proof (cases rule: reserve_cases)
    case (decided g s1)
    note d = decided(9) [unfolded assms(3)] and new = decided(2) [unfolded assms(3)]
    let ?c = "show_nat (dec (gr_reservedAtomic g) + dec (gr_consumedAtomic g))"
    from reserve_decide_Inr [OF decided(1) new decided(5) _ d]
    obtain codes where codes: "evaluate ?c = BudgetDenied codes" "selectInvocation st' (ri_invocationId p) = Some i"
        "st' = Authority_Store_Reserve.decided p None inv_state.DENIED codes n s1"
      by (auto split: budget_decision.splits)
    then have "i = new_row p inv_state.DENIED codes n"
      using selectInvocation_decided [OF new, of inv_state.DENIED codes n "ri_invocationId p"] by simp
    moreover have "atomic_pattern ?c"
    proof (rule atomic_pattern_show_nat)
      have "g \<in> set (st_grants s1)" using decided(5) by (auto dest: selectGrant_Some)
      then have ok: "grant_ok (st_invocations s1) g" using decided(1) by (simp add: store_inv_def)
      then have "dec (gr_maxTotalAtomic g) < 10 ^ 20" using grant_ok_bounds dec_atomic_bound by blast
      with ok show "dec (gr_reservedAtomic g) + dec (gr_consumedAtomic g) < 10 ^ 20" by (simp add: grant_ok_def)
    qed
    ultimately show ?thesis using codes(1) by blast
  qed simp_all
qed

section \<open>When an export succeeds\<close>

lemma optional_digest_total:
  "canonical_total px \<Longrightarrow> pred_option json_value v \<Longrightarrow> \<exists>d. optional_digest px name v = Some d"
  using canonicalDigest_total by (cases v) (fastforce simp: optional_digest_def artifactDigest_def)+

lemma optional_artifact_total:
  "canonical_total px \<Longrightarrow> (\<And>a. json_value (f a)) \<Longrightarrow> \<exists>d. optional_digest px name (map_option f x) = Some d"
  by (rule optional_digest_total) (cases x; simp)+

lemma digests_total:
  assumes px: "canonical_total px" and m: "pred_option (\<lambda>m. json_value (requirement_json m)) (ea_paymentRequirement b)"
  shows "\<exists>d sd. computeEvidenceDigests px b = Some (d, sd)"
proof -
  note t = canonicalDigest_total [OF px] and opt = optional_artifact_total [OF px]
  have "\<exists>d. artifactPermitDigest px (ea_purchasePermit b) = Some d"
    unfolding artifactPermitDigest_def permit_message_json_def [symmetric] using t json_value_permit_message by blast
  moreover have "\<exists>d. artifactDigest px ''authorization-request'' (authorization_request_json (ea_request b) (ea_agentSignature b)) = Some d"
    unfolding artifactDigest_def using t json_value_plain_artifacts by blast
  moreover have "\<exists>d. computeOperationDigest px (rq_operation (tg_value (ea_request b))) = Some d"
    unfolding computeOperationDigest_def using t json_value_operation by blast
  moreover have "\<exists>d. optional_digest px ''payment-requirement'' (map_option requirement_json (ea_paymentRequirement b)) = Some d"
    using m by (intro optional_digest_total [OF px]) (cases "ea_paymentRequirement b"; simp)
  moreover have "\<exists>d. optional_digest px ''authority-decision'' (map_option (signed_json receipt_artifact_fields) (ea_authorityDecision b)) = Some d"
    "\<exists>d. optional_digest px ''outbound-request'' (map_option outbound_request_json (ea_outboundRequest b)) = Some d"
    "\<exists>d. optional_digest px ''payment-attempt'' (map_option attempt_json (ea_paymentAttempt b)) = Some d"
    "\<exists>d. optional_digest px ''settlement'' (map_option settlement_json (ea_settlement b)) = Some d"
    "\<exists>d. optional_digest px ''result'' (map_option result_json (ea_result b)) = Some d"
    by (rule opt, rule json_value_signed_artifacts json_value_plain_artifacts)+
  moreover have "\<exists>d. optional_digest px ''service-authorization'' (map_option (signed_json service_authorization_fields) x) = Some d"
    "\<exists>d. optional_digest px ''service-acknowledgement'' (map_option (signed_json service_acknowledgement_fields) y) = Some d" for x y
    by (rule opt, rule json_value_signed_service)+
  ultimately obtain d1 d2 d3 d4 d5 d6 d7 d8 d9 dx dy where d:
    "artifactPermitDigest px (ea_purchasePermit b) = Some d1"
    "artifactDigest px ''authorization-request'' (authorization_request_json (ea_request b) (ea_agentSignature b)) = Some d2"
    "computeOperationDigest px (rq_operation (tg_value (ea_request b))) = Some d3"
    "optional_digest px ''payment-requirement'' (map_option requirement_json (ea_paymentRequirement b)) = Some d4"
    "optional_digest px ''authority-decision'' (map_option (signed_json receipt_artifact_fields) (ea_authorityDecision b)) = Some d5"
    "optional_digest px ''outbound-request'' (map_option outbound_request_json (ea_outboundRequest b)) = Some d6"
    "optional_digest px ''payment-attempt'' (map_option attempt_json (ea_paymentAttempt b)) = Some d7"
    "optional_digest px ''settlement'' (map_option settlement_json (ea_settlement b)) = Some d8"
    "optional_digest px ''result'' (map_option result_json (ea_result b)) = Some d9"
    "\<And>x. optional_digest px ''service-authorization'' (map_option (signed_json service_authorization_fields) x) = Some (dx x)"
    "\<And>y. optional_digest px ''service-acknowledgement'' (map_option (signed_json service_acknowledgement_fields) y) = Some (dy y)"
    by metis
  then show ?thesis unfolding computeEvidenceDigests_def Let_def by (simp add: d split: option.split)
qed

lemma sign_artifacts_total:
  assumes "signatures_verify px" "canonical_total px" "\<And>d sd. em_authority (manifest d sd) = keyAddress px signer"
    and "pred_option (\<lambda>m. json_value (requirement_json m)) (ea_paymentRequirement a)"
  shows "\<exists>b. sign_artifacts px signer manifest a = Some b"
proof -
  obtain d sd where "computeEvidenceDigests px a = Some (d, sd)" using digests_total [OF assms(2,4)] by blast
  moreover obtain m where "signEvidenceManifest px (manifest d sd) signer = Inr m"
    using manifest_message.sign_then_verify [OF assms(1,2) assms(3) [symmetric]] unfolding signEvidenceManifest_def by blast
  ultimately show ?thesis by (simp add: sign_artifacts_def)
qed

text \<open>The configured URLs parse.\<close>

definition registry_parses :: "platform \<Rightarrow> paid_registry \<Rightarrow> bool" where
  "registry_parses px services \<longleftrightarrow> (\<forall>k resource. services k = Some resource \<longrightarrow> parseUrl px (rc_url resource) \<noteq> None)"

lemma exported_outbound_total:
  assumes "canonical_total px" "registry_parses px services"
  shows "\<exists>q. exported_outbound px services i request = Inr q"
proof -
  have "\<exists>q. buildPaidRequest px resource p = Inr q" if "services k = Some resource" for k resource p
  proof -
    obtain body where "operationRequestBody px p = Some body"
      using canonical_totalD [OF assms(1)] by (fastforce simp: operationRequestBody_def)
    moreover obtain u where "parseUrl px (rc_url resource) = Some u"
      using assms(2) \<open>services k = Some resource\<close> by (auto simp: registry_parses_def)
    ultimately show ?thesis by (simp add: buildPaidRequest_def)
  qed
  then show ?thesis by (cases "services (paidServiceKey (rq_service request) (rq_capability request))")
    (simp_all add: exported_outbound_def split: option.split)
qed

section \<open>The evidence of a denial\<close>

text \<open>For a newly denied invocation of an authenticated request, with the receipt attached: whenever its agent
  signed within the permit's validity, the export succeeds and everything the verifier asks holds.\<close>

lemma denied_export:
  assumes laws: "signatures_verify (aa_platform A)" "canonical_total (aa_platform A)"
    and auth: "authenticated_as A input now ar" "wf_request_v2 (ar_request ar)"
    and denied: "reserve (reserve_input_for ar t quote) (evaluate_decision (sg_body (ar_permit ar)) (ar_request ar) t quote) n st
      = (Inr (ReserveDenied i), st')" "store_inv st" "selectInvocation st (rq_invocationId (ar_request ar)) = None"
    and receipt: "build_receipt A i = Some r"
    and signed_in_time: "pp_issuedAt (sg_body (ar_permit ar)) \<le> rq_issuedAt (ar_request ar)"
      "rq_issuedAt (ar_request ar) \<le> pp_expiresAt (sg_body (ar_permit ar))"
    and trust: "verifier_pins A trust" "ve_platform e = aa_platform A"
    and build: "buildEvidenceBundle (aa_platform A) xi (with_receipt r m i) = Inr b" "xi_authorityAddress xi = aa_address A"
  shows "valid_evidence e trust options b \<and> em_purchaseState (sg_body (eb_manifest b)) = PurchaseState.DENIED"
proof -
  let ?px = "aa_platform A" and ?p = "reserve_input_for ar t quote" and ?i = "with_receipt r m i"
  let ?permit = "sg_body (ar_permit ar)" and ?request = "ar_request ar"
  have "ri_invocationId ?p = rq_invocationId ?request" by (simp add: reserve_input_for_def Let_def)
  with denied(3) have new: "selectInvocation st (ri_invocationId ?p) = None" by simp
  obtain c codes where codes: "atomic_pattern c" "evaluate_decision ?permit ?request t quote c = BudgetDenied codes"
      and i: "i = new_row ?p inv_state.DENIED codes n"
    using reserve_denied_row [OF denied(1,2) new] by blast
  have rec: "recorded ar ?i" by (simp add: i recorded_new_row)
  have rcd: "receipted A ?i" using receipt by (simp add: receipted_def) (simp add: with_receipt_def i new_row_def)
  note claims = exported_claims [OF laws auth rec rcd build trust(1)]
  obtain state authorization request result outbound service where c:
    "purchase_state_of (inv_state ?i) = Some state" "inv_authorization ?i = Some authorization" "inv_request ?i = StoredV2 request"
    "exported_result ?i = Some result" "exported_outbound ?px (xi_paidServices xi) ?i request = Inr outbound"
    "receipt_present state xi ?i" "exchange_of ?px xi ?i = Some service"
    "EvidenceArtifacts.truncate b = artifacts_of ?i authorization request result outbound service"
    "\<exists>d sd. sg_body (eb_manifest b) = manifest_of ?i state (xi_authorityAddress xi) (xi_issuedAt xi)
        (artifacts_of ?i authorization request result outbound service) d sd"
    "\<forall>trust. vt_authority trust = xi_authorityAddress xi \<longrightarrow> manifest_binds ?px trust b"
    by (rule buildEvidenceBundle_binds [OF laws build(1)])
  have row: "inv_state ?i = inv_state.DENIED" "inv_paymentAttempt ?i = None" "inv_result ?i = None" "inv_reasonCodes ?i = codes"
    by (simp_all add: i with_receipt_def new_row_def)
  have s: "state = PurchaseState.DENIED" "result = None" "request = ?request"
      "authorization = \<lparr> sv_permit = ar_permit ar, sv_agentSignature = ar_agentSignature ar \<rparr>"
      "inv_grantId ?i = pp_grantId ?permit" "inv_id ?i = rq_invocationId ?request"
    using c(1-4) row rec by (simp_all add: exported_result_def recorded_def Let_def)
  have sv: "service = None \<or> service = Some \<lparr> sv_authorization = None, sv_acknowledgement = None \<rparr>"
    using c(7) row by (auto simp: exchange_of_def exported_service_def split: if_splits)
  note f = truncated_fields [OF c(8), unfolded artifacts_of_def EvidenceArtifacts.simps]
  have m: "em_purchaseState (sg_body (eb_manifest b)) = PurchaseState.DENIED" "em_decision (sg_body (eb_manifest b)) = DENY"
      "em_reasonCodes (sg_body (eb_manifest b)) = codes" "em_grantId (sg_body (eb_manifest b)) = pp_grantId ?permit"
      "em_invocationId (sg_body (eb_manifest b)) = rq_invocationId ?request"
      "em_settlementProfile (sg_body (eb_manifest b)) = pp_network ?permit"
    using c(9) s row by (auto simp: manifest_of_def artifacts_of_def)
  have "rq_grantId ?request = pp_grantId ?permit" using auth(1) unfolding authenticated_as_def Let_def by blast
  moreover obtain sr where sr: "receipt_artifact_of (inv_receipt ?i) = Some sr"
      "receipt_v1.truncate (tg_value (sg_body sr)) = receipt_base A ?i ?request"
    using exported_receipt [OF laws rec rcd] row(1) by blast
  ultimately have "state_consistent b"
    using sv receipt_base_fields [OF sr(2)] row s
    by (auto simp: state_consistent_def Let_def f m permit_artifact_of_def)
  moreover have "policy_agrees b"
    using static_within_policy [OF signed_in_time codes(1), of t] denied_codes [OF codes(2)]
    by (simp add: policy_agrees_def Let_def f m s permit_artifact_of_def)
  moreover have "pred_option (service_consistent ?px trust b) (ea_service b)"
    using sv by (auto simp: f service_consistent_def m split: option.split)
  moreover have "settlement_observed e trust options b" by (simp add: settlement_observed_def m split: VerifyOptions.split)
  ultimately show ?thesis using claims by (simp add: valid_evidence_def trust(2) f s m)
qed

text \<open>The row of a denial with its receipt.\<close>

lemma denied_row:
  assumes "signatures_verify (aa_platform A)" "canonical_total (aa_platform A)"
    and "reserve (reserve_input_for ar t quote) (evaluate_decision (sg_body (ar_permit ar)) (ar_request ar) t quote) n st
      = (Inr (ReserveDenied i), st')" "store_inv st" "selectInvocation st (rq_invocationId (ar_request ar)) = None"
    and "build_receipt A i = Some r"
  shows "\<exists>codes. i = new_row (reserve_input_for ar t quote) inv_state.DENIED codes n" "receipt_by (aa_address A) (Some r)"
proof -
  have "ri_invocationId (reserve_input_for ar t quote) = rq_invocationId (ar_request ar)" by (simp add: reserve_input_for_def Let_def)
  then show i: "\<exists>codes. i = new_row (reserve_input_for ar t quote) inv_state.DENIED codes n"
    using reserve_denied_row [OF assms(3,4)] assms(5) by auto
  then have "recorded ar i" using recorded_new_row by blast
  from built_receipt [OF assms(1,2) this assms(6)] receipt_base_fields(3) show "receipt_by (aa_address A) (Some r)"
    by (metis receipt_by.simps(1))
qed

lemma denied_export_total:
  assumes laws: "signatures_verify (aa_platform A)" "canonical_total (aa_platform A)"
    and denied: "reserve (reserve_input_for ar t quote) (evaluate_decision (sg_body (ar_permit ar)) (ar_request ar) t quote) n st
      = (Inr (ReserveDenied i), st')" "store_inv st" "selectInvocation st (rq_invocationId (ar_request ar)) = None"
    and receipt: "build_receipt A i = Some r"
    and xi: "xi_authorityAddress xi = aa_address A" "keyAddress (aa_platform A) (xi_signer xi) = aa_address A"
      "registry_parses (aa_platform A) (xi_paidServices xi)"
    and json: "pred_option (\<lambda>m. json_value (requirement_json m)) (qt_requirement quote)"
  shows "\<exists>b. buildEvidenceBundle (aa_platform A) xi (with_receipt r m i) = Inr b"
proof -
  let ?i = "with_receipt r m i"
  obtain codes where i: "i = new_row (reserve_input_for ar t quote) inv_state.DENIED codes n"
    using denied_row [OF laws denied receipt] by blast
  have row: "inv_state ?i = inv_state.DENIED" "inv_authorization ?i = Some \<lparr> sv_permit = ar_permit ar, sv_agentSignature = ar_agentSignature ar \<rparr>"
    "inv_request ?i = StoredV2 (ar_request ar)" "inv_receipt ?i = Some r" "inv_paymentRequirement ?i = qt_requirement quote"
    by (simp_all add: i with_receipt_def new_row_def reserve_input_for_def Let_def)
  obtain q where q: "exported_outbound (aa_platform A) (xi_paidServices xi) ?i (ar_request ar) = Inr q"
    using exported_outbound_total [OF laws(2) xi(3)] by blast
  have "\<exists>service. exchange_of (aa_platform A) xi ?i = Some service"
    using row(1) by (simp add: exchange_of_def exported_service_def)
  then obtain service where sv: "exchange_of (aa_platform A) xi ?i = Some service" by blast
  let ?a = "artifacts_of ?i \<lparr> sv_permit = ar_permit ar, sv_agentSignature = ar_agentSignature ar \<rparr> (ar_request ar) None q service"
  obtain b where "sign_artifacts (aa_platform A) (xi_signer xi)
      (manifest_of ?i PurchaseState.DENIED (xi_authorityAddress xi) (xi_issuedAt xi) ?a) ?a = Some b"
    using sign_artifacts_total [OF laws, of "manifest_of ?i PurchaseState.DENIED (xi_authorityAddress xi) (xi_issuedAt xi) ?a"
      "xi_signer xi" ?a] xi(1,2) json row(5) by (auto simp: manifest_of_def artifacts_of_def)
  then show ?thesis
    using row q sv denied_row(2) [OF laws denied receipt] xi(1)
    unfolding buildEvidenceBundle_Inr by (auto simp: exported_result_def receipt_present_def)
qed

text \<open>The export step of the authority on a row found in the store.\<close>

lemma exportEvidence_row:
  assumes "selectInvocation (arrived A s) x = Some i"
  obtains s' where "exportEvidence A x v s = (case buildEvidenceBundle (aa_platform A)
     \<lparr> xi_paidServices = aa_paidServices A, xi_authorityAddress = aa_address A, xi_signer = aa_signer A,
       xi_issuedAt = ns_now s', xi_bundleVersion = (case v of None \<Rightarrow> 2 | Some v \<Rightarrow> v) \<rparr> i of
     Inl (EvidenceExportError problem) \<Rightarrow> (Inl (EvidenceRequestError 409 (export_refusal problem)), s')
   | Inl ExportThrow \<Rightarrow> (Inl InternalError, s')
   | Inr b \<Rightarrow> (Inr b, s'))"
  using assms unfolding exportEvidence_def act_bind_def store_read_def store_call_def store_step_def by simp

end
