(* ===== verification/Sample_Evidence.thy ===== *)
theory Sample_Evidence
  imports Sample_Authority Sample_Provider Evidence_Binding
begin

text \<open>
  A complete evidence bundle for the witnesses: one confirmed purchase of the sample operation, every artifact
  within the parser's bounds, signed on a platform whose keys and signatures are base58 texts.
\<close>

definition evidence_permit :: permit_v2 where
  "evidence_permit = sample_permit \<lparr> pp_issuer := ''KX'' \<rparr>"

definition evidence_request_sent :: PaidRequest where
  "evidence_request_sent = createPaidRequest base58_platform ''/report'' ''POST''
     (the (operationRequestBody base58_platform sample_operation))"

definition evidence_receipt :: receipt_v2 where
  "evidence_receipt = \<lparr> rcp_invocationId = ''i1'', rcp_grantId = ''G1'', rcp_authority = ''KT'', rcp_agent = ''KA'',
     rcp_permitDigest = sample_digest, rcp_requestFingerprint = sample_digest, rcp_service = ''svc'', rcp_capability = ''cap'',
     rcp_network = ''devnet'', rcp_mint = ''M'', rcp_recipient = ''R'', rcp_amountAtomic = ''4'', rcp_decision = ALLOW,
     rcp_reasonCodes = [], rcp_paymentTransactionId = Some ''tx'', rcp_decidedAt = 60, rcp_operation = sample_operation,
     rcp_operationDigest = sample_digest \<rparr>"

definition evidence_digests :: EvidenceDigests where
  "evidence_digests = \<lparr> dg_purchasePermit = sample_digest, dg_authorizationRequest = sample_digest, dg_operation = sample_digest,
     dg_authorityDecision = Some sample_digest, dg_outboundRequest = Some sample_digest, dg_paymentRequirement = Some sample_digest,
     dg_paymentAttempt = Some sample_digest, dg_settlement = Some sample_digest, dg_result = Some sample_digest \<rparr>"

definition evidence_manifest :: EvidenceManifest where
  "evidence_manifest = \<lparr> em_authority = ''KT'', em_issuedAt = 70, em_settlementProfile = ''devnet'', em_grantId = ''G1'',
     em_invocationId = ''i1'', em_purchaseState = PurchaseState.CONFIRMED, em_decision = ALLOW, em_reasonCodes = [],
     em_digests = evidence_digests,
     em_serviceDigests = Some \<lparr> dg_serviceAuthorization = None, dg_serviceAcknowledgement = None \<rparr> \<rparr>"

definition evidence_attempt :: PaymentAttempt where
  "evidence_attempt = sample_attempt \<lparr> at_settlementProfile := ''devnet'', at_payerSignature := ''sP'',
     at_transactionBase64 := Some ''tx'' \<rparr>"

definition sample_env :: verifier_env where
  "sample_env = \<lparr> ve_platform = base58_platform, ve_solana = solana_signed ''sP'',
     ve_rpcTransaction = (\<lambda>_. None) \<rparr>"

definition sample_bundle :: EvidenceBundle where
  "sample_bundle =
     \<lparr> ea_settlementProfile = ''devnet'', ea_grantId = ''G1'', ea_invocationId = ''i1'',
       ea_purchasePermit = \<lparr> sg_body = \<lparr> tg_text = PURCHASE_PERMIT_DOMAIN, tg_value = evidence_permit \<rparr>, sg_signature = ''sX'' \<rparr>,
       ea_request = \<lparr> tg_text = AUTHORIZATION_REQUEST_PROTOCOL, tg_value = sample_request \<rparr>, ea_agentSignature = ''sA'',
       ea_authorityDecision = Some \<lparr> sg_body = \<lparr> tg_text = AUTHORIZATION_RECEIPT_DOMAIN, tg_value = evidence_receipt \<rparr>,
         sg_signature = ''sT'' \<rparr>,
       ea_outboundRequest = Some evidence_request_sent, ea_paymentRequirement = Some (sample_requirement ''/report''),
       ea_paymentAttempt = Some evidence_attempt,
       ea_settlement = Some \<lparr> cs_transactionId = ''tx'', cs_slot = None, cs_facilitatorReportedTransaction = None, cs_confirmedAt = 62 \<rparr>,
       ea_result = Some \<lparr> er_httpStatus = 200, er_bodyBase64 = base64_encode ''{}'', er_bytes = 2, er_sha256 = sample_digest \<rparr>,
       ea_service = Some \<lparr> sv_authorization = None, sv_acknowledgement = None \<rparr>,
       eb_manifest = \<lparr> sg_body = evidence_manifest, sg_signature = ''sT'' \<rparr> \<rparr>"

definition sample_trust :: VerifierTrust where
  "sample_trust = \<lparr> vt_issuer = ''KX'', vt_authority = ''KT'',
     vt_settlementProfiles = [''devnet'' \<mapsto> sample_profile \<lparr> sp_name := ''devnet'' \<rparr>], vt_service = None \<rparr>"

section \<open>The bundle is well-formed\<close>

lemma base58_canonical: "canonicalize base58_platform v = Some (jtext (jnorm v))"
  by (simp add: base58_platform_def hex_platform_def sample_platform_def sample_canonicalize_def)

lemma base58_digest: "canonicalDigest base58_platform p v = Some sample_digest"
  by (simp add: canonicalDigest_def canonicalBytes_def base58_canonical sha256Hex_def)
    (simp add: base58_platform_def hex_platform_def sample_digest_def)

lemma base58_signs:
  "isAddress base58_platform x = (x \<noteq> [])" "isSignature base58_platform x = (x \<noteq> [])" "importable base58_platform x"
  "verifyRaw base58_platform a s m = (s = ''s'' @ drop 1 a)" "sha256 base58_platform m = sample_digest"
  by (simp_all add: base58_platform_def hex_platform_def sample_platform_def sample_digest_def)

lemma base58_texts:
  "base58_pattern ''KX''" "base58_pattern ''KA''" "base58_pattern ''KT''" "base58_pattern ''M''" "base58_pattern ''R''"
  "base58_pattern ''sX''" "base58_pattern ''sA''" "base58_pattern ''sT''" "base58_pattern ''tx''" "hex64_pattern sample_digest"
  "length sample_digest = 64" "sample_digest \<noteq> []"
  by (simp_all add: base58_pattern_def is_base58_char_def hex64_pattern_def class_between_def sample_digest_def char_simps list_all_iff)

lemma evidence_body:
  "operationRequestBody base58_platform sample_operation = Some (pq_body evidence_request_sent)"
  "pq_body evidence_request_sent \<noteq> []" "length (pq_body evidence_request_sent) \<le> 16384"
proof -
  have b: "pq_body evidence_request_sent = jtext (jnorm (JObj [(''operation'', JStr ''summarize''), (''datasetId'', JStr ''d1'')]))"
    "operationRequestBody base58_platform sample_operation
      = Some (jtext (jnorm (JObj [(''operation'', JStr ''summarize''), (''datasetId'', JStr ''d1'')])))"
    by (simp_all add: evidence_request_sent_def operationRequestBody_def base58_canonical sample_operation_def)
  then show "operationRequestBody base58_platform sample_operation = Some (pq_body evidence_request_sent)" by simp
  show "pq_body evidence_request_sent \<noteq> []" unfolding b(1) by (simp only: jtext_tag_body list.simps simp_thms)
  show "length (pq_body evidence_request_sent) \<le> 16384"
    unfolding b(1) length_jtext jlen_jnorm
    using length_json_quote_le [of "''operation''"] length_json_quote_le [of "''summarize''"]
      length_json_quote_le [of "''datasetId''"] length_json_quote_le [of "''d1''"] by simp
qed

lemma evidence_outbound [simp]:
  "pq_url evidence_request_sent = ''/report''" "pq_method evidence_request_sent = ''POST''"
  "pq_contentType evidence_request_sent = ''application/json''" "pq_sha256 evidence_request_sent = sample_digest"
  "computePaidRequestDigest base58_platform evidence_request_sent = sample_digest"
  by (simp_all add: evidence_request_sent_def createPaidRequest_def computePaidRequestDigest_def base58_signs)

lemma base64_text:
  "base64_pattern (base64_encode bs)" "length (base64_encode bs) \<le> 2 * length bs + 2"
proof -
  have "is_b64_char (url_to_std c)" if "is_b64url_char c" for c
    using that by (auto simp: url_to_std_def is_b64_char_def is_b64url_char_def is_alnum_def is_digit_def is_lower_def is_upper_def code_def)
  then have chars: "\<forall>c \<in> set (map url_to_std (base64url_encode bs)). is_b64_char c"
    using base64url_chars [of bs] by (simp add: list_all_iff)
  have "\<not> is_b64_char CHR ''=''" by (simp add: is_b64_char_def char_simps)
  then have "dropWhile is_b64_char (replicate n CHR ''='') = replicate n CHR ''=''" for n by (cases n) simp_all
  then have "dropWhile is_b64_char (base64_encode bs) = replicate ((3 - length bs mod 3) mod 3) CHR ''=''"
    unfolding base64_encode_def using dropWhile_append2 chars by metis
  moreover have "(3 - length bs mod 3) mod 3 \<le> 2" by simp
  ultimately show "base64_pattern (base64_encode bs)" by (simp add: base64_pattern_def list_all_iff)
  show "length (base64_encode bs) \<le> 2 * length bs + 2"
    using length_base64url [of bs] \<open>_ \<le> 2\<close> unfolding base64_encode_def length_append length_map length_replicate by linarith
qed

lemmas bundle_bounds = char_simps base64_pattern_def is_b64_char_def bounded_text_def safe_from_def MAX_SAFE_INTEGER_def base58_texts list_all_iff

lemma wf_evidence_parts:
  "wf_operation_text sample_operation" "wf_signature ''sX''" "wf_signature ''sA''" "wf_signature ''sT''"
  "wf_digest sample_digest" "wf_outbound evidence_request_sent" "wf_requirement (sample_requirement ''/report'')"
  "wf_attempt evidence_attempt"
  by (simp_all add: wf_operation_text_def wf_signature_def wf_digest_def wf_outbound_def wf_requirement_def wf_attempt_def
      sample_operation_def sample_requirement_def evidence_attempt_def sample_attempt_def bundle_bounds evidence_body)

lemma wf_evidence_signed:
  "wf_permit_artifact (ea_purchasePermit sample_bundle)" "wf_request_artifact (ea_request sample_bundle)"
  "pred_option wf_receipt_artifact (ea_authorityDecision sample_bundle)" "pred_option wf_result (ea_result sample_bundle)"
  "pred_option wf_settlement (ea_settlement sample_bundle)"
  by (simp_all add: sample_bundle_def wf_permit_artifact_def wf_request_artifact_def wf_receipt_artifact_def wf_result_def
      wf_settlement_def evidence_permit_def sample_permit_def sample_request_def evidence_receipt_def wf_evidence_parts
      PURCHASE_PERMIT_DOMAIN_def AUTHORIZATION_REQUEST_PROTOCOL_def AUTHORIZATION_RECEIPT_DOMAIN_def wf_reason_codes_def
      bounded_text_def safe_from_def MAX_SAFE_INTEGER_def base58_texts base64_text char_simps
      order.trans [OF base64_text(2)])

lemma wf_sample_bundle: "wf_bundle sample_bundle"
proof -
  have "wf_manifest True (eb_manifest sample_bundle)"
    by (simp add: sample_bundle_def wf_manifest_def evidence_manifest_def evidence_digests_def wf_digests_def digest_entries_def
        wf_reason_codes_def bounded_text_def safe_from_def MAX_SAFE_INTEGER_def base58_texts wf_evidence_parts)
  then show ?thesis
    using wf_evidence_signed wf_evidence_parts by (simp add: wf_bundle_def) (simp add: sample_bundle_def bounded_text_def wf_service_def)
qed

section \<open>The bundle is valid evidence\<close>

lemma evidence_permit_wf: "wf_permit_v2 base58_platform evidence_permit"
proof -
  have "wf_permit_v2 sample_platform sample_permit" by simp
  then show ?thesis
    by (simp add: wf_permit_v2_def wf_permit_def evidence_permit_def base58_signs sample_platform_def)
qed

lemma evidence_digests_computed:
  "computeEvidenceDigests base58_platform sample_bundle
     = Some (evidence_digests, Some \<lparr> dg_serviceAuthorization = None, dg_serviceAcknowledgement = None \<rparr>)"
  by (simp add: computeEvidenceDigests_def artifactPermitDigest_def artifactDigest_def computeOperationDigest_def base58_digest
      optional_digest_def sample_bundle_def evidence_digests_def)

lemma evidence_signatures:
  "human_signed base58_platform (ea_purchasePermit sample_bundle)" "agent_asked base58_platform sample_bundle"
  "verifyEvidenceManifestSignature base58_platform (eb_manifest sample_bundle) ''KT''"
  "pred_option (\<lambda>s. verifyReceiptArtifact base58_platform s ''KT'') (ea_authorityDecision sample_bundle)"
proof -
  have c: "\<exists>m. canonicalBytes base58_platform p v = Some m" for p v
    by (simp add: canonicalBytes_def base58_canonical)
  show "human_signed base58_platform (ea_purchasePermit sample_bundle)"
    using evidence_permit_wf c
    by (simp add: human_signed_def sample_bundle_def Let_def base58_signs canonicalizeUnsignedPurchasePermitV2_def
        evidence_permit_def split: option.split)
  show "agent_asked base58_platform sample_bundle"
    using c by (simp add: agent_asked_def sample_bundle_def Let_def base58_signs canonicalizeAuthorizationRequestV2_def
        evidence_permit_def sample_permit_def split: option.split)
  show "verifyEvidenceManifestSignature base58_platform (eb_manifest sample_bundle) ''KT''"
    unfolding verifyEvidenceManifestSignature_def manifest_message.verify_iff
    using c by (simp add: sample_bundle_def evidence_manifest_def base58_signs)
  show "pred_option (\<lambda>s. verifyReceiptArtifact base58_platform s ''KT'') (ea_authorityDecision sample_bundle)"
    unfolding verifyReceiptArtifact_def receipt_artifact.verify_iff
    using c by (simp add: sample_bundle_def evidence_receipt_def base58_signs)
qed

lemma evidence_keys: "keys_pinned sample_trust sample_bundle" "manifest_binds base58_platform sample_trust sample_bundle"
  using evidence_signatures(3) evidence_digests_computed
  by (simp_all add: keys_pinned_def manifest_binds_def sample_trust_def)
    (simp_all add: sample_bundle_def evidence_permit_def evidence_manifest_def evidence_receipt_def)

lemma evidence_state: "state_consistent sample_bundle"
  by (simp add: state_consistent_def Let_def sample_bundle_def evidence_permit_def sample_permit_def sample_request_def
      evidence_manifest_def evidence_receipt_def)

lemma evidence_authorized: "authorized base58_platform sample_trust sample_bundle"
proof -
  have "artifactPermitDigest base58_platform (ea_purchasePermit sample_bundle) = Some (rq_permitDigest (tg_value (ea_request sample_bundle)))"
    by (simp add: artifactPermitDigest_def base58_digest sample_bundle_def sample_request_def)
  moreover have "pred_option (receipt_agrees base58_platform sample_trust sample_bundle) (ea_authorityDecision sample_bundle)"
    using evidence_signatures(4)
    by (simp add: receipt_agrees_def Let_def sample_bundle_def sample_trust_def evidence_receipt_def sample_request_def
        evidence_permit_def sample_permit_def computeOperationDigest_def base58_digest evidence_manifest_def)
  ultimately show ?thesis using evidence_signatures(1,2) by (simp add: authorized_def)
qed

lemma evidence_policy: "policy_agrees sample_bundle"
  by (simp add: policy_agrees_def Let_def sample_bundle_def evidence_manifest_def within_static_def sample_request_def
      evidence_permit_def sample_permit_def dec_def char_simps)

lemma evidence_payment: "payment_matches sample_env sample_trust sample_bundle (sample_requirement ''/report'')"
proof -
  have "outbound_is base58_platform sample_bundle (sample_requirement ''/report'') evidence_request_sent"
    using evidence_body(1)
    by (simp add: outbound_is_def Let_def sample_bundle_def sample_request_def sample_requirement_def evidence_attempt_def sample_attempt_def)
      (simp add: sample_operation_def base58_platform_def hex_platform_def sample_platform_def sample_parse_def)
  moreover have "attempt_matches base58_platform (solana_signed ''sP'') (sample_requirement ''/report'') evidence_attempt"
    by (simp add: attempt_matches_def sample_requirement_def evidence_attempt_def sample_attempt_def expected_payment_def
        signed_transaction_valid verifyTransactionPayerSignature_def)
      (simp add: solana_signed_def base58_signs)
  moreover have "profile_matches sample_trust sample_bundle (sample_requirement ''/report'')"
    by (simp add: profile_matches_def sample_trust_def sample_bundle_def evidence_permit_def sample_permit_def evidence_manifest_def
        sample_profile_def sample_requirement_def evidence_attempt_def sample_attempt_def starts_with_def)
  moreover have "dec ''4'' \<le> dec ''5''" by (simp add: dec_def)
  ultimately show ?thesis
    by (simp add: payment_matches_def Let_def sample_env_def)
      (simp add: sample_bundle_def sample_requirement_def sample_request_def evidence_permit_def sample_permit_def)
qed

lemma sample_valid: "valid_evidence sample_env sample_trust Offline sample_bundle"
proof -
  have "pred_option (result_matches base58_platform) (ea_result sample_bundle)"
    by (simp add: sample_bundle_def result_matches_def Let_def base64_roundtrip base58_signs)
  moreover have "pred_option (service_consistent base58_platform sample_trust sample_bundle) (ea_service sample_bundle)"
    by (simp add: sample_bundle_def service_consistent_def sample_trust_def)
  moreover have "ea_paymentRequirement sample_bundle = Some (sample_requirement ''/report'')" "ve_platform sample_env = base58_platform"
    by (simp_all add: sample_bundle_def sample_env_def)
  ultimately show ?thesis
    using evidence_keys evidence_state evidence_authorized evidence_policy evidence_payment
    by (simp add: valid_evidence_def settlement_observed_def)
qed

end
