(* ===== verification/Bundle_Properties.thy ===== *)
theory Bundle_Properties
  imports Evidence_Verdict Authority_Export_Lemmas Sample_Evidence
begin

text \<open>
  Properties of the evidence bundle: its parser, the verdict of the standalone verifier, and the export by the
  authority.
\<close>

section \<open>The parser\<close>

lemma parse_of_input:
  assumes "bundle_input px input = Some v" "json_value v"
  shows "parseEvidenceBundle px input = Some b \<longleftrightarrow> wf_bundle b \<and> jnorm v = jnorm (JObj (bundle_fields b))"
proof -
  have "parseEvidenceBundle px input = Some b \<longleftrightarrow> (\<exists>v2. bundle_version v = Some v2 \<and> p_bundle v2 v = Some b)"
    using assms(1) by (auto simp: parseEvidenceBundle_def bind_eq_Some_conv)
  then show ?thesis using p_bundle_exact [OF maybe_json_value [OF assms(2)]] by simp
qed

lemma parsed_wf:
  "bundle_input px input = Some v \<Longrightarrow> json_value v \<Longrightarrow> parseEvidenceBundle px input = Some b \<Longrightarrow> wf_bundle b"
  using parse_of_input by blast

text \<open>C33. The bundle parser is exact.  Given as an object, or as a text within the size bound that
  JSON.parse reads, an input is accepted precisely when it is the JSON form of a bundle whose strings,
  numbers, lists and patterns are within the documented bounds, with no key missing and no other key
  anywhere, and the bundle returned is that one.\<close>

theorem evidence_parser_exact:
  assumes "bundle_input px input = Some v" "json_value v"
  shows "parseEvidenceBundle px input = Some b \<longleftrightarrow> wf_bundle b \<and> jnorm v = jnorm (JObj (bundle_fields b))"
  by (rule parse_of_input [OF assms])

theorem evidence_parser_exact_witness:
  "parseEvidenceBundle base58_platform (JObj (bundle_fields sample_bundle)) = Some sample_bundle"
proof -
  have "bundle_input base58_platform (JObj (bundle_fields sample_bundle)) = Some (JObj (bundle_fields sample_bundle))"
    by (simp add: bundle_input_def)
  from evidence_parser_exact [OF this json_value_bundle [OF wf_sample_bundle]] wf_sample_bundle show ?thesis by simp
qed

section \<open>The verdict\<close>

text \<open>C8. The overall verdict, exactly.  A bundle that does not parse is INVALID.  A parsed bundle is VALID when
  the evidence holds: pinned keys, a manifest signed by the authority that binds every artifact, a consistent
  state, the human's and the agent's signatures, policy, payment, result, service and (online) the settlement
  on the chain; INDETERMINATE when everything else holds and the settlement could not be observed; and INVALID
  otherwise.\<close>

theorem verdict_exact:
  "rp_overall (verifyEvidenceBundle e input trust options) =
     (case parseEvidenceBundle (ve_platform e) input of
        None \<Rightarrow> Overall_INVALID
      | Some b \<Rightarrow> if valid_evidence e trust options b then Overall_VALID
          else if valid_evidence e trust Offline b \<and> settlement_undecided e trust options b then Overall_INDETERMINATE
          else Overall_INVALID)"
  using verdict_valid_iff [of e input trust options] verdict_indeterminate_iff [of e input trust options]
  by (cases "rp_overall (verifyEvidenceBundle e input trust options)"; cases "parseEvidenceBundle (ve_platform e) input")
    (auto split: if_splits)


lemma confirmed_parts:
  assumes "state_consistent b" "em_purchaseState (sg_body (eb_manifest b)) = PurchaseState.CONFIRMED"
  obtains q rq a s er receipt where "ea_outboundRequest b = Some q" "ea_paymentRequirement b = Some rq"
    "ea_paymentAttempt b = Some a" "ea_settlement b = Some s" "ea_result b = Some er" "ea_authorityDecision b = Some receipt"
    "rcp_decision (tg_value (sg_body receipt)) = ALLOW"
proof -
  note c = assms(1) [unfolded state_consistent_def Let_def assms(2)]
  then obtain q rq a s er receipt where p: "ea_outboundRequest b = Some q" "ea_paymentRequirement b = Some rq"
    "ea_paymentAttempt b = Some a" "ea_settlement b = Some s" "ea_result b = Some er" "ea_authorityDecision b = Some receipt"
    by auto
  have "em_decision (sg_body (eb_manifest b)) = ALLOW" using c by (cases "em_decision (sg_body (eb_manifest b))") simp_all
  with c p(6) have "rcp_decision (tg_value (sg_body receipt)) = ALLOW" by simp
  with p that show thesis by blast
qed

text \<open>C3. What a VALID verdict on a confirmed purchase means, whoever made the bundle.  The human whose key is
  pinned signed the permit; the agent it names signed a request for exactly the operation in it, within its
  time and per-call limit; the request sent to the service was that operation's, and the payment went to the
  permit's recipient, in its mint, for the requested amount, bound to that very request; if the transaction
  is in the bundle it is exactly this transfer, signed by the payer; the pinned authority signed an ALLOW
  receipt naming the settled transaction; the result's bytes have the recorded hash; and online the settlement
  was found on the chain.\<close>

theorem valid_evidence_means:
  assumes "rp_overall (verifyEvidenceBundle e input trust options) = Overall_VALID"
    and "rp_purchaseState (verifyEvidenceBundle e input trust options) = Some PurchaseState.CONFIRMED"
  shows "\<exists>b q a s er receipt.
      parseEvidenceBundle (ve_platform e) input = Some b
      \<and> (ea_outboundRequest b, ea_paymentAttempt b, ea_settlement b, ea_result b, ea_authorityDecision b)
          = (Some q, Some a, Some s, Some er, Some receipt)
      \<and> (let permit = tg_value (sg_body (ea_purchasePermit b)); request = tg_value (ea_request b); px = ve_platform e in
         pp_issuer permit = vt_issuer trust \<and> human_signed px (ea_purchasePermit b) \<and> agent_asked px b
         \<and> artifactPermitDigest px (ea_purchasePermit b) = Some (rq_permitDigest request)
         \<and> rq_operation request = pp_operation permit
         \<and> pp_issuedAt permit \<le> rq_issuedAt request \<and> rq_issuedAt request \<le> pp_expiresAt permit
         \<and> dec (rq_amountAtomic request) \<le> dec (pp_maxPerCall permit)
         \<and> pq_method q = op_method (pp_operation permit)
         \<and> map_option url_pathname (parseUrl px (pq_url q)) = Some (op_resource (pp_operation permit))
         \<and> operationRequestBody px (pp_operation permit) = Some (pq_body q)
         \<and> (at_payTo a, at_asset a, at_amountAtomic a, at_resourceUrl a, at_requestSha256 a)
             = (pp_recipient permit, pp_mint permit, rq_amountAtomic request, pq_url q, computePaidRequestDigest px q)
         \<and> pred_option (\<lambda>t. (case validateExactPaymentTransaction (ve_solana e) (JStr t) (expected_payment a) of
                Invalid _ \<Rightarrow> False | Valid signature _ \<Rightarrow> signature = at_payerSignature a)
              \<and> verifyTransactionPayerSignature px (ve_solana e) t (at_payer a)) (at_transactionBase64 a)
         \<and> verifyReceiptArtifact px receipt (vt_authority trust) \<and> rcp_decision (tg_value (sg_body receipt)) = ALLOW
         \<and> rcp_paymentTransactionId (tg_value (sg_body receipt)) = Some (cs_transactionId s)
         \<and> sha256 px (base64_decode (er_bodyBase64 er)) = er_sha256 er
         \<and> (case options of Offline \<Rightarrow> True | Online source \<Rightarrow>
              observe_settlement e (vt_settlementProfiles trust (pp_network permit)) source s a = Some VERIFIED))"
proof -
  obtain b where b: "parseEvidenceBundle (ve_platform e) input = Some b" "valid_evidence e trust options b"
    using assms(1) verdict_valid_iff by blast
  have st: "em_purchaseState (sg_body (eb_manifest b)) = PurchaseState.CONFIRMED"
    using assms(2) b(1) by (simp add: verifyEvidenceBundle_def Let_def)
  note v = b(2) [unfolded valid_evidence_def]
  obtain q rq a s er receipt where parts: "ea_outboundRequest b = Some q" "ea_paymentRequirement b = Some rq"
      "ea_paymentAttempt b = Some a" "ea_settlement b = Some s" "ea_result b = Some er" "ea_authorityDecision b = Some receipt"
      and allow: "rcp_decision (tg_value (sg_body receipt)) = ALLOW"
    by (rule confirmed_parts [OF _ st]) (use v in blast)
  have au: "human_signed (ve_platform e) (ea_purchasePermit b)" "agent_asked (ve_platform e) b"
      "artifactPermitDigest (ve_platform e) (ea_purchasePermit b) = Some (rq_permitDigest (tg_value (ea_request b)))"
      "receipt_agrees (ve_platform e) trust b receipt"
    using v parts(6) by (simp_all add: authorized_def)
  have pay: "payment_matches e trust b rq" using v st parts(2) by simp
  have policy: "within_static (tg_value (sg_body (ea_purchasePermit b))) (tg_value (ea_request b))"
    using v st by (simp add: policy_agrees_def Let_def)
  have sent: "outbound_is (ve_platform e) b rq q" "attempt_matches (ve_platform e) (ve_solana e) rq a"
    using pay parts by (simp_all add: payment_matches_def Let_def)
  have terms: "pm_asset rq = pp_mint (tg_value (sg_body (ea_purchasePermit b)))"
      "pm_payTo rq = pp_recipient (tg_value (sg_body (ea_purchasePermit b)))"
      "pm_amountAtomic rq = rq_amountAtomic (tg_value (ea_request b))"
    using pay by (simp_all add: payment_matches_def Let_def)
  have chain: "case options of Offline \<Rightarrow> True | Online source \<Rightarrow> observe_settlement e
      (vt_settlementProfiles trust (pp_network (tg_value (sg_body (ea_purchasePermit b))))) source s a = Some VERIFIED"
    using v st parts by (simp add: settlement_observed_def split: VerifyOptions.splits)
  have issuer: "pp_issuer (tg_value (sg_body (ea_purchasePermit b))) = vt_issuer trust"
      "sha256 (ve_platform e) (base64_decode (er_bodyBase64 er)) = er_sha256 er"
    using v parts(5) by (simp_all add: keys_pinned_def result_matches_def Let_def)
  show ?thesis
    unfolding Let_def
    by (rule exI [of _ b], rule exI [of _ q], rule exI [of _ a], rule exI [of _ s], rule exI [of _ er], rule exI [of _ receipt])
      (use b(1) au(1-3) au(4) [unfolded receipt_agrees_def Let_def] policy [unfolded within_static_def] terms chain issuer allow
        st parts sent(1) [unfolded outbound_is_def Let_def] sent(2) [unfolded attempt_matches_def] in simp)
qed

theorem valid_evidence_means_witness:
  "\<exists>b. parseEvidenceBundle base58_platform (JObj (bundle_fields sample_bundle)) = Some b
     \<and> pp_issuer (tg_value (sg_body (ea_purchasePermit b))) = ''KX''
     \<and> map_option at_payTo (ea_paymentAttempt b) = Some ''R''"
proof -
  let ?r = "verifyEvidenceBundle sample_env (JObj (bundle_fields sample_bundle)) sample_trust Offline"
  have p: "parseEvidenceBundle (ve_platform sample_env) (JObj (bundle_fields sample_bundle)) = Some sample_bundle"
    by (rule bundle_reads_back [OF wf_sample_bundle])
  have valid: "rp_overall ?r = Overall_VALID" using verdict_valid_iff p sample_valid by blast
  have "rp_purchaseState ?r = Some PurchaseState.CONFIRMED"
    using p by (simp add: verifyEvidenceBundle_def Let_def) (simp add: sample_bundle_def evidence_manifest_def)
  from valid_evidence_means [OF valid this] p
  obtain a where "pp_issuer (tg_value (sg_body (ea_purchasePermit sample_bundle))) = vt_issuer sample_trust"
      "ea_paymentAttempt sample_bundle = Some a" "at_payTo a = pp_recipient (tg_value (sg_body (ea_purchasePermit sample_bundle)))"
    unfolding Let_def by auto
  moreover have "ve_platform sample_env = base58_platform" "vt_issuer sample_trust = ''KX''"
      "pp_recipient (tg_value (sg_body (ea_purchasePermit sample_bundle))) = ''R''"
    by (simp_all add: sample_env_def sample_trust_def sample_bundle_def evidence_permit_def sample_permit_def)
  ultimately show ?thesis using p by simp
qed

text \<open>C9. The manifest determines the evidence.  Two VALID bundles under the same signed manifest are the same
  bundle, whatever text or object they came from: nothing in a bundle can be exchanged without a new
  signature of the authority, as long as SHA-256 does not collide on the artifacts compared.\<close>

theorem manifest_determines_evidence:
  assumes "canonical_faithful (ve_platform e)"
    and "bundle_input (ve_platform e) input = Some v" "json_value v"
    and "bundle_input (ve_platform e) input' = Some v'" "json_value v'"
    and "rp_overall (verifyEvidenceBundle e input trust options) = Overall_VALID"
    and "rp_overall (verifyEvidenceBundle e input' trust' options') = Overall_VALID"
    and "parseEvidenceBundle (ve_platform e) input = Some b" "parseEvidenceBundle (ve_platform e) input' = Some b'"
    and "eb_manifest b = eb_manifest b'"
    and "list_all2 (no_collision (ve_platform e)) (evidence_messages (ve_platform e) b) (evidence_messages (ve_platform e) b')"
  shows "b = b'"
proof -
  have wf: "wf_bundle b" "wf_bundle b'" using assms(2-5,8,9) parsed_wf by blast+
  have "valid_evidence e trust options b" "valid_evidence e trust' options' b'"
    using assms(6-9) by (simp_all add: verdict_valid_iff)
  then have v: "manifest_binds (ve_platform e) trust b" "state_consistent b"
    "manifest_binds (ve_platform e) trust' b'" "state_consistent b'"
    by (simp_all add: valid_evidence_def)
  show ?thesis by (rule manifest_determines [OF assms(1) wf v assms(10,11)])
qed

theorem manifest_determines_evidence_witness:
  "the (parseEvidenceBundle base58_platform (JObj (bundle_fields sample_bundle))) = sample_bundle"
proof -
  let ?v = "JObj (bundle_fields sample_bundle)"
  have env: "ve_platform sample_env = base58_platform" by (simp add: sample_env_def)
  have p: "parseEvidenceBundle base58_platform ?v = Some sample_bundle" by (rule bundle_reads_back [OF wf_sample_bundle])
  then have b: "parseEvidenceBundle base58_platform ?v = Some (the (parseEvidenceBundle base58_platform ?v))" by simp
  have i: "bundle_input base58_platform ?v = Some ?v" by (simp add: bundle_input_def)
  have valid: "rp_overall (verifyEvidenceBundle sample_env ?v sample_trust Offline) = Overall_VALID"
    unfolding verdict_valid_iff env using p sample_valid by blast
  have "canonicalize base58_platform = canonicalize hex_platform" by (simp add: base58_platform_def)
  then have f: "canonical_faithful base58_platform"
    using sample_canonical_faithful(2) unfolding canonical_faithful_def by (simp only:)
  have j: "json_value ?v" by (rule json_value_bundle [OF wf_sample_bundle])
  have m: "eb_manifest (the (parseEvidenceBundle base58_platform ?v)) = eb_manifest sample_bundle" unfolding p option.sel ..
  have n: "list_all2 (no_collision base58_platform)
      (evidence_messages base58_platform (the (parseEvidenceBundle base58_platform ?v)))
      (evidence_messages base58_platform sample_bundle)" unfolding p option.sel by (rule list.rel_refl) simp
  show ?thesis
    by (rule manifest_determines_evidence [of sample_env, unfolded env, OF f i j i j valid valid b p m n])
qed

end
