(* ===== verification/Authority_Refusal.thy ===== *)
theory Authority_Refusal
  imports Authority_Export_Lemmas
begin

text \<open>
  A refused purchase from the request to its evidence: the row a refusal leaves in the store with its receipt,
  the export that follows, and the cases in which an export itself is refused.
\<close>

section \<open>The row of a refusal\<close>

text \<open>The store is used by this process alone.\<close>

definition quiet :: "authority \<Rightarrow> bool" where
  "quiet A \<longleftrightarrow> (\<forall>n. aa_others A n = [])"

lemma arrived_quiet [simp]: "quiet A \<Longrightarrow> arrived A s = au_store s"
  by (simp add: quiet_def arrived_def)

lemma au_store_pass [simp]: "au_store (pass w s) = au_store s"
  by (simp add: pass_def)

lemma au_store_audit [simp]: "au_store (auditDecision A p i s) = au_store s"
  by (simp add: auditDecision_def audit_append_def)

lemma reserve_denied:
  assumes "reserve p evaluate now st = (Inr (ReserveDenied i), st')"
  shows "selectInvocation st' (ri_invocationId p) = Some i"
proof -
  have "\<exists>g s1 ex. reserve_decide p evaluate ex now g s1 = Inr (ReserveDenied i, st')"
    using assms unfolding reserve_def transaction_def Let_def
    by (auto simp: sbind_Inr_iff split: option.splits if_splits sum.splits)
  then obtain g s1 ex where d: "reserve_decide p evaluate ex now g s1 = Inr (ReserveDenied i, st')" by blast
  then show ?thesis
    unfolding reserve_decide_def Let_def
    by (cases "evaluate (show_nat (dec (gr_reservedAtomic g) + dec (gr_consumedAtomic g)))")
      (auto simp: sbind_Inr_iff requireInvocation_def split: if_splits option.splits)
qed

lemma reserve_existing:
  assumes "reserve p evaluate now st = (Inr (ReserveExisting i), st')"
  shows "selectInvocation st (ri_invocationId p) = Some i"
proof -
  have "reserve_decide p evaluate ex now g s1 \<noteq> Inr (ReserveExisting i, st')" for ex g s1
    unfolding reserve_decide_def Let_def
    by (auto simp: sbind_Inr_iff split: budget_decision.splits if_splits)
  then show ?thesis
    using assms unfolding reserve_def transaction_def Let_def
    by (auto simp: sbind_Inr_iff split: option.splits if_splits sum.splits)
qed

lemma store_call_Inr:
  "store_call A f s = (Inr a, s') \<longleftrightarrow> (\<exists>st. f (ns_now s) (arrived A s) = (Inr a, st) \<and> s' = pass (aa_world A) (s \<lparr> au_store := st \<rparr>))"
  by (auto simp: store_call_def store_step_def split: prod.splits sum.splits)

lemma act_bind_Inr: "act_bind m f s = (Inr b, s') \<longleftrightarrow> (\<exists>a s1. m s = (Inr a, s1) \<and> f a s1 = (Inr b, s'))"
  by (auto simp: act_bind_def split: prod.splits sum.splits)

text \<open>The receipt of a row just denied is built and attached.\<close>

lemma denied_receipt:
  assumes "quiet A" "store_inv (au_store s)" "selectInvocation (au_store s) (inv_id i) = Some i"
    and "inv_state i = inv_state.DENIED" "inv_receipt i = None"
    and "with_receipt_result A i b s = (Inr result, s')"
  obtains r m where "build_receipt A i = Some r" "selectInvocation (au_store s') (inv_id i) = Some (with_receipt r m i)"
proof -
  obtain r0 where r0: "ensureReceipt A i s = (Inr r0, s')"
    using assms(6) by (auto simp: with_receipt_result_def act_bind_Inr act_return_def)
  then obtain r where r: "build_receipt A i = Some r" "store_call A (attachReceipt (inv_id i) r) s = (Inr r0, s')"
    using assms(4,5) by (auto simp: ensureReceipt_def act_fail_def split: option.splits)
  have "attachReceipt (inv_id i) r (ns_now s) (au_store s) = (Inr r, set_row (inv_id i) (with_receipt r (ns_now s)) (au_store s))"
    by (rule attachReceipt_new [OF assms(2,3)]) (simp_all add: assms(4,5))
  with r(2) assms(1) have "au_store s' = set_row (inv_id i) (with_receipt r (ns_now s)) (au_store s)"
    by (auto simp: store_call_Inr)
  then have "selectInvocation (au_store s') (inv_id i) = Some (with_receipt r (ns_now s) i)"
    using assms(3) by (simp add: selectInvocation_set_row)
  with r(1) that show thesis by blast
qed

text \<open>A request the permit does not allow by itself, asked for the first time: the reservation is denied.\<close>

lemma refused_run:
  assumes quiet: "quiet A" and inv: "store_inv (au_store s)"
    and new: "selectInvocation (au_store s) (rq_invocationId (ar_request ar)) = None"
    and no: "\<And>t. policy_codes (sg_body (ar_permit ar)) (ar_request ar) t (request_values (ar_request ar)) ''0'' \<noteq> []"
    and run: "process A ar s = (Inr result, s')"
  obtains t i st' r m where "t = ns_now (pass (aa_world A) s)"
    "reserve (reserve_input_for ar t (no_quote [] None))
       (evaluate_decision (sg_body (ar_permit ar)) (ar_request ar) t (no_quote [] None)) t (au_store s) = (Inr (ReserveDenied i), st')"
    "build_receipt A i = Some r" "selectInvocation (au_store s') (rq_invocationId (ar_request ar)) = Some (with_receipt r m i)"
proof -
  define s1 where "s1 = pass (aa_world A) s"
  let ?p = "reserve_input_for ar (ns_now s1) (no_quote [] None)"
    and ?e = "evaluate_decision (sg_body (ar_permit ar)) (ar_request ar) (ns_now s1) (no_quote [] None)"
  have id: "ri_invocationId ?p = rq_invocationId (ar_request ar)" by (simp add: reserve_input_for_def Let_def)
  have read: "store_read A (\<lambda>st. selectInvocation st (rq_invocationId (ar_request ar))) s = (Inr None, s1)"
    using quiet new by (simp add: store_read_def store_call_def store_step_def s1_def)
  have s1: "au_store s1 = au_store s" by (simp add: s1_def)
  have "act_bind (store_call A (reserve ?p ?e)) (\<lambda>res. carry_out A ar (no_quote [] None) res) s1 = (Inr result, s')"
    using run no unfolding process_def Let_def act_bind_def [of "store_read A _"] read
    by (simp add: act_bind_def [of "act_return _"] act_return_def)
  then obtain res s2 where s2: "store_call A (reserve ?p ?e) s1 = (Inr res, s2)"
      and out: "carry_out A ar (no_quote [] None) res s2 = (Inr result, s')"
    by (auto simp: act_bind_Inr)
  obtain st' where st': "reserve ?p ?e (ns_now s1) (au_store s) = (Inr res, st')" "au_store s2 = st'"
    using s2 quiet s1 by (auto simp: store_call_Inr)
  have key: "retry_same_grant (au_store s) ?p" using new id by (simp add: retry_same_grant_def)
  have inv': "store_inv st'" using store_inv_reserve [OF inv key, of ?e "ns_now s1"] st'(1) by simp
  have never: "?e c \<noteq> BudgetAllowed" for c
    using no policy_codes_committed unfolding evaluate_allowed by blast
  have existing: "res \<noteq> ReserveExisting j" for j
    using reserve_existing st'(1) new id by (metis option.distinct(1))
  show thesis
  proof (cases res)
    case (ReserveDenied i)
    note st'' = st'(1) [unfolded ReserveDenied]
    obtain codes where i: "i = new_row ?p inv_state.DENIED codes (ns_now s1)"
      using reserve_denied_row [OF st'' inv] new id by auto
    then have row: "inv_id i = rq_invocationId (ar_request ar)" "inv_state i = inv_state.DENIED" "inv_receipt i = None"
      using id by (simp_all add: new_row_def)
    let ?s3 = "auditDecision A (sg_body (ar_permit ar)) i s2"
    have "with_receipt_result A i False ?s3 = (Inr result, s')" using out by (simp add: ReserveDenied carry_out_def Let_def)
    moreover have "selectInvocation (au_store ?s3) (inv_id i) = Some i" "store_inv (au_store ?s3)"
      using reserve_denied [OF st''] inv' st'(2) row id by simp_all
    ultimately obtain r m where "build_receipt A i = Some r" "selectInvocation (au_store s') (inv_id i) = Some (with_receipt r m i)"
      using denied_receipt [OF quiet _ _ row(2,3)] by blast
    with that [OF _ st''] row(1) s1_def show thesis by simp
  next
    case (ReserveReserved i)
    with st'(1) reserve_reserved never show thesis by blast
  next
    case (ReserveGrantConflict g)
    with out show thesis by (simp add: carry_out_def Let_def)
  qed (use existing in blast)
qed

section \<open>What can be exported\<close>

text \<open>A row kept with the signed permit and the agent's signature, a receipt by this authority where the state
  has one, and for a confirmed purchase the result's bytes and the settlement.\<close>

definition exportable :: "address \<Rightarrow> invocation \<Rightarrow> bool" where
  "exportable authority i \<longleftrightarrow>
     inv_authorization i \<noteq> None \<and> (case inv_request i of StoredV2 _ \<Rightarrow> True | StoredV1 _ \<Rightarrow> False)
     \<and> (inv_state i \<in> {inv_state.CONFIRMED, inv_state.DENIED} \<longrightarrow> receipt_by authority (inv_receipt i))
     \<and> (inv_state i = inv_state.CONFIRMED \<longrightarrow>
          Option.bind (inv_result i) rs_bodyBase64 \<noteq> None \<and> inv_settlement i \<noteq> None)"

lemma build_not_final:
  "inv_state i = inv_state.RESERVED \<Longrightarrow> buildEvidenceBundle px xi i = Inl (EvidenceExportError NOT_FINAL)"
  by (simp add: buildEvidenceBundle_def)

lemma exported_result_total:
  "(\<exists>result. exported_result i = Some result) \<longleftrightarrow>
     (inv_state i = inv_state.CONFIRMED \<longrightarrow> Option.bind (inv_result i) rs_bodyBase64 \<noteq> None \<and> inv_settlement i \<noteq> None)"
  by (cases "inv_result i"; cases "rs_bodyBase64 (the (inv_result i))"; cases "inv_settlement i") (simp_all add: exported_result_def)

lemma build_unavailable:
  assumes "inv_state i \<noteq> inv_state.RESERVED"
  shows "\<not> exportable (xi_authorityAddress xi) i \<Longrightarrow> buildEvidenceBundle px xi i = Inl (EvidenceExportError UNAVAILABLE)"
    and "exportable (xi_authorityAddress xi) i \<Longrightarrow> buildEvidenceBundle px xi i \<noteq> Inl (EvidenceExportError problem)"
proof -
  obtain state where state: "purchase_state_of (inv_state i) = Some state"
      "state \<in> {PurchaseState.CONFIRMED, PurchaseState.DENIED} \<longleftrightarrow> inv_state i \<in> {inv_state.CONFIRMED, inv_state.DENIED}"
    using assms by (cases "inv_state i") simp_all
  show "buildEvidenceBundle px xi i = Inl (EvidenceExportError UNAVAILABLE)" if "\<not> exportable (xi_authorityAddress xi) i"
    using that exported_result_total [of i] state unfolding buildEvidenceBundle_def exportable_def
    by (cases "inv_authorization i"; cases "inv_request i"; cases "exported_result i") auto
  show "buildEvidenceBundle px xi i \<noteq> Inl (EvidenceExportError problem)" if "exportable (xi_authorityAddress xi) i"
    using that exported_result_total [of i] state unfolding buildEvidenceBundle_def exportable_def Let_def
    by (cases "inv_authorization i"; cases "inv_request i"; cases "exported_result i") (auto split: sum.split option.split)
qed

lemma exportEvidence_steps:
  assumes "exportEvidence A x v s = (r, s')"
  shows "au_store s' = arrived A s \<and> ns_sent s' = ns_sent s
    \<and> (case selectInvocation (arrived A s) x of
         None \<Rightarrow> r = Inl (EvidenceRequestError 404 INVOCATION_NOT_FOUND)
       | Some i \<Rightarrow> r = (case buildEvidenceBundle (aa_platform A)
           \<lparr> xi_paidServices = aa_paidServices A, xi_authorityAddress = aa_address A, xi_signer = aa_signer A,
             xi_issuedAt = ns_now s', xi_bundleVersion = (case v of None \<Rightarrow> 2 | Some v \<Rightarrow> v) \<rparr> i of
           Inl (EvidenceExportError problem) \<Rightarrow> Inl (EvidenceRequestError 409 (export_refusal problem))
         | Inl ExportThrow \<Rightarrow> Inl InternalError
         | Inr b \<Rightarrow> Inr b))"
  using assms unfolding exportEvidence_def act_bind_def store_read_def store_call_def store_step_def
  by (cases "selectInvocation (arrived A s) x") (auto split: sum.splits export_error.splits)

lemma exportEvidence_state:
  "exportEvidence A x v s = (r, s') \<Longrightarrow> s' = pass (aa_world A) (s \<lparr> au_store := arrived A s \<rparr>)"
  unfolding exportEvidence_def act_bind_def store_read_def store_call_def store_step_def
  by (cases "selectInvocation (arrived A s) x") (auto split: sum.splits export_error.splits)

text \<open>A bundle exported from a row: every artifact is the row's own, and the manifest, which verifies under the
  authority's key, states the row's outcome and binds each artifact.  The result is there for a confirmed
  purchase only, the outbound request is the one the registry gives for the stored operation, and the
  service's side is there unless version 1 is asked for.\<close>

definition exported_row :: "authority \<Rightarrow> nat option \<Rightarrow> invocation \<Rightarrow> EvidenceBundle \<Rightarrow> bool" where
  "exported_row A v i b \<longleftrightarrow>
     (let px = aa_platform A; m = sg_body (eb_manifest b); confirmed = (inv_state i = inv_state.CONFIRMED) in
      verifyEvidenceManifestSignature px (eb_manifest b) (aa_address A) \<and> em_authority m = aa_address A
      \<and> computeEvidenceDigests px b = Some (em_digests m, em_serviceDigests m)
      \<and> purchase_state_of (inv_state i) = Some (em_purchaseState m) \<and> em_reasonCodes m = inv_reasonCodes i
      \<and> em_decision m = (if inv_state i = inv_state.DENIED then DENY else ALLOW)
      \<and> (ea_invocationId b, ea_grantId b, em_invocationId m, em_grantId m) = (inv_id i, inv_grantId i, inv_id i, inv_grantId i)
      \<and> (\<exists>kept. inv_authorization i = Some kept
           \<and> ea_purchasePermit b = \<lparr> sg_body = \<lparr> tg_text = PURCHASE_PERMIT_DOMAIN, tg_value = sg_body (sv_permit kept) \<rparr>,
               sg_signature = sg_signature (sv_permit kept) \<rparr>
           \<and> ea_settlementProfile b = pp_network (sg_body (sv_permit kept)) \<and> em_settlementProfile m = ea_settlementProfile b
           \<and> ea_agentSignature b = sv_agentSignature kept)
      \<and> inv_request i = StoredV2 (tg_value (ea_request b)) \<and> tg_text (ea_request b) = AUTHORIZATION_REQUEST_PROTOCOL
      \<and> ea_authorityDecision b = (case inv_receipt i of
          Some (ReceiptV2 r) \<Rightarrow> Some \<lparr> sg_body = \<lparr> tg_text = AUTHORIZATION_RECEIPT_DOMAIN, tg_value = sg_body r \<rparr>,
            sg_signature = sg_signature r \<rparr>
        | _ \<Rightarrow> None)
      \<and> ea_paymentRequirement b = inv_paymentRequirement i \<and> ea_paymentAttempt b = inv_paymentAttempt i
      \<and> ea_settlement b = (if confirmed then inv_settlement i else None)
      \<and> (if confirmed
         then \<exists>r body. inv_result i = Some r \<and> rs_bodyBase64 r = Some body \<and> ea_result b = Some
           \<lparr> er_httpStatus = rs_httpStatus r, er_bodyBase64 = body, er_bytes = int (rs_bytes r), er_sha256 = rs_sha256 r \<rparr>
         else ea_result b = None)
      \<and> (case (inv_paymentRequirement i, aa_paidServices A (paidServiceKey (rq_service (tg_value (ea_request b)))
            (rq_capability (tg_value (ea_request b))))) of
           (Some _, Some resource) \<Rightarrow>
             buildPaidRequest px resource (rq_operation (tg_value (ea_request b))) = Inr (ea_outboundRequest b)
         | _ \<Rightarrow> ea_outboundRequest b = None)
      \<and> (if v = Some 1 then ea_service b = None
         else \<exists>exchange. ea_service b = Some exchange
           \<and> sv_authorization exchange = (if inv_paymentAttempt i = None then None else inv_serviceAuthorization i)
           \<and> (case (if confirmed then Option.bind (inv_result i) rs_serviceAcknowledgementHeader else None) of
                None \<Rightarrow> sv_acknowledgement exchange = None
              | Some header \<Rightarrow> sv_acknowledgement exchange \<noteq> None
                  \<and> sv_acknowledgement exchange = decodeServiceAcknowledgementHeader px header)))"

text \<open>What makes an export fail in the middle: the outbound request cannot be built from the registry's entry, the
  stored acknowledgement header does not decode, the signing key is not the one of the configured address, or
  the stored requirement is not a JSON value.\<close>

definition export_throws :: "authority \<Rightarrow> nat option \<Rightarrow> invocation \<Rightarrow> bool" where
  "export_throws A v i \<longleftrightarrow>
     (inv_paymentRequirement i \<noteq> None \<and> (\<exists>request resource u. inv_request i = StoredV2 request
        \<and> aa_paidServices A (paidServiceKey (rq_service request) (rq_capability request)) = Some resource
        \<and> buildPaidRequest (aa_platform A) resource (rq_operation request) = Inl u))
     \<or> (v \<noteq> Some 1 \<and> inv_state i = inv_state.CONFIRMED \<and> (\<exists>header.
        Option.bind (inv_result i) rs_serviceAcknowledgementHeader = Some header
        \<and> decodeServiceAcknowledgementHeader (aa_platform A) header = None))
     \<or> keyAddress (aa_platform A) (aa_signer A) \<noteq> aa_address A
     \<or> (\<exists>m. inv_paymentRequirement i = Some m \<and> \<not> json_value (requirement_json m))"

lemma build_throws:
  assumes laws: "signatures_verify (aa_platform A)" "canonical_total (aa_platform A)"
    and build: "buildEvidenceBundle (aa_platform A) xi i = Inl ExportThrow"
    and xi: "xi_authorityAddress xi = aa_address A" "xi_bundleVersion xi = (case v of None \<Rightarrow> 2 | Some v \<Rightarrow> v)"
      "xi_paidServices xi = aa_paidServices A" "xi_signer xi = aa_signer A"
  shows "export_throws A v i"
proof (rule ccontr)
  assume no: "\<not> export_throws A v i"
  obtain state kept request where row: "purchase_state_of (inv_state i) = Some state" "inv_authorization i = Some kept"
      "inv_request i = StoredV2 request"
    using build by (auto simp: buildEvidenceBundle_def split: option.splits stored_request.splits)
  obtain outbound where outbound: "exported_outbound (aa_platform A) (xi_paidServices xi) i request = Inr outbound"
    using no row(3) by (cases "exported_outbound (aa_platform A) (xi_paidServices xi) i request")
      (auto simp: exported_outbound_def export_throws_def xi(3) split: option.splits)
  have version: "xi_bundleVersion xi = 1 \<longleftrightarrow> v = Some 1" by (cases v) (simp_all add: xi(2))
  have header: "decodeServiceAcknowledgementHeader (aa_platform A) h \<noteq> None"
    if "v \<noteq> Some 1" "inv_state i = inv_state.CONFIRMED" "Option.bind (inv_result i) rs_serviceAcknowledgementHeader = Some h" for h
    using no that by (auto simp: export_throws_def)
  obtain service where service: "exchange_of (aa_platform A) xi i = Some service"
  proof (cases "exchange_of (aa_platform A) xi i")
    case None
    then have "v \<noteq> Some 1" "exported_service (aa_platform A) i = None"
      using version by (auto simp: exchange_of_def split: if_splits)
    with header show ?thesis by (auto simp: exported_service_def Let_def split: if_splits option.splits)
  qed (use that in blast)
  have signs: "\<exists>b. sign_artifacts (aa_platform A) (xi_signer xi) (manifest_of i state (xi_authorityAddress xi) (xi_issuedAt xi) a) a = Some b"
    if "ea_paymentRequirement a = inv_paymentRequirement i" for a
    using no that by (intro sign_artifacts_total [OF laws])
      (cases "inv_paymentRequirement i"; auto simp: export_throws_def manifest_of_def xi)+
  obtain b where "sign_artifacts (aa_platform A) (xi_signer xi) (manifest_of i state (xi_authorityAddress xi) (xi_issuedAt xi)
      (artifacts_of i kept request result outbound service)) (artifacts_of i kept request result outbound service) = Some (b result)"
    for result using signs [of "artifacts_of i kept request _ outbound service"] by (simp add: artifacts_of_def) metis
  with build row outbound service show False
    unfolding buildEvidenceBundle_def Let_def exchange_of_def [symmetric]
    by (auto split: if_splits option.splits)
qed

lemma exported_row:
  assumes laws: "signatures_verify (aa_platform A)" "canonical_total (aa_platform A)"
    and build: "buildEvidenceBundle (aa_platform A) xi i = Inr b"
    and xi: "xi_authorityAddress xi = aa_address A" "xi_bundleVersion xi = (case v of None \<Rightarrow> 2 | Some v \<Rightarrow> v)"
      "xi_paidServices xi = aa_paidServices A"
  shows "exported_row A v i b"
proof -
  obtain state authorization request result outbound service where c:
    "purchase_state_of (inv_state i) = Some state" "inv_authorization i = Some authorization" "inv_request i = StoredV2 request"
    "exported_result i = Some result" "exported_outbound (aa_platform A) (xi_paidServices xi) i request = Inr outbound"
    "receipt_present state xi i" "exchange_of (aa_platform A) xi i = Some service"
    "EvidenceArtifacts.truncate b = artifacts_of i authorization request result outbound service"
    "\<exists>d sd. sg_body (eb_manifest b) = manifest_of i state (xi_authorityAddress xi) (xi_issuedAt xi)
        (artifacts_of i authorization request result outbound service) d sd"
    "\<forall>trust. vt_authority trust = xi_authorityAddress xi \<longrightarrow> manifest_binds (aa_platform A) trust b"
    by (rule buildEvidenceBundle_binds [OF laws build])
  note f = truncated_fields [OF c(8), unfolded artifacts_of_def EvidenceArtifacts.simps]
  have m: "em_purchaseState (sg_body (eb_manifest b)) = state" "em_reasonCodes (sg_body (eb_manifest b)) = inv_reasonCodes i"
    "em_invocationId (sg_body (eb_manifest b)) = inv_id i" "em_grantId (sg_body (eb_manifest b)) = inv_grantId i"
    using c(9) by (auto simp: manifest_of_def)
  have "vt_authority \<lparr> vt_issuer = [], vt_authority = aa_address A, vt_settlementProfiles = (\<lambda>_. None), vt_service = None \<rparr>
      = xi_authorityAddress xi" using xi(1) by simp
  with c(10) have "manifest_binds (aa_platform A)
      \<lparr> vt_issuer = [], vt_authority = aa_address A, vt_settlementProfiles = (\<lambda>_. None), vt_service = None \<rparr> b" by blast
  then have "verifyEvidenceManifestSignature (aa_platform A) (eb_manifest b) (aa_address A)"
    "computeEvidenceDigests (aa_platform A) b
      = Some (em_digests (sg_body (eb_manifest b)), em_serviceDigests (sg_body (eb_manifest b)))"
    by (simp_all add: manifest_binds_def)
  moreover have "em_authority (sg_body (eb_manifest b)) = aa_address A"
    "em_decision (sg_body (eb_manifest b)) = (if inv_state i = inv_state.DENIED then DENY else ALLOW)"
    "em_settlementProfile (sg_body (eb_manifest b)) = ea_settlementProfile b"
    using c(1,9) xi(1) by (cases "inv_state i"; auto simp: manifest_of_def f artifacts_of_def)+
  moreover have "if inv_state i = inv_state.CONFIRMED
      then \<exists>r body. inv_result i = Some r \<and> rs_bodyBase64 r = Some body \<and> ea_result b = Some
        \<lparr> er_httpStatus = rs_httpStatus r, er_bodyBase64 = body, er_bytes = int (rs_bytes r), er_sha256 = rs_sha256 r \<rparr>
      else ea_result b = None"
    using c(4) by (auto simp: exported_result_def f Option.bind_eq_Some_conv split: if_splits option.splits)
  moreover have "case (inv_paymentRequirement i, aa_paidServices A (paidServiceKey (rq_service request) (rq_capability request))) of
           (Some _, Some resource) \<Rightarrow> buildPaidRequest (aa_platform A) resource (rq_operation request) = Inr outbound
         | _ \<Rightarrow> outbound = None"
    using c(5) by (auto simp: exported_outbound_def xi(3) split: option.splits)
  moreover have "if v = Some 1 then service = None
      else \<exists>exchange. service = Some exchange
           \<and> sv_authorization exchange = (if inv_paymentAttempt i = None then None else inv_serviceAuthorization i)
           \<and> (case (if inv_state i = inv_state.CONFIRMED then Option.bind (inv_result i) rs_serviceAcknowledgementHeader else None) of
                None \<Rightarrow> sv_acknowledgement exchange = None
              | Some header \<Rightarrow> sv_acknowledgement exchange \<noteq> None
                  \<and> sv_acknowledgement exchange = decodeServiceAcknowledgementHeader (aa_platform A) header)"
  proof -
    have version: "xi_bundleVersion xi = 1 \<longleftrightarrow> v = Some 1" by (cases v) (simp_all add: xi(2))
    show ?thesis
      using c(7) unfolding exchange_of_def version exported_service_def Let_def
      by (auto split: if_splits option.splits)
  qed
  ultimately show ?thesis
    using c(1-3) m unfolding exported_row_def Let_def f tagged.simps permit_artifact_of_def receipt_artifact_of_def
    by (intro conjI exI [of _ authorization]) (assumption | simp only: prod.inject)+
qed

end
