(* ===== verification/Sample_Refusal.thy ===== *)
theory Sample_Refusal
  imports Sample_Evidence Authority_Refusal
begin

text \<open>
  A refused purchase for the witnesses: the sample authority on base58 texts is asked for more than the permit's
  per-call limit, answers with a signed denial, and exports it.
\<close>

definition refusal_authority :: authority where
  "refusal_authority = sample_authority \<lparr> aa_platform := base58_platform,
     aa_issuerEntitlement := \<lparr> ie_issuer = ''KX'', ie_settlementProfiles = [''devnet''] \<rparr> \<rparr>"

definition refused_permit :: "permit_v2 signed" where
  "refused_permit = \<lparr> sg_body = evidence_permit, sg_signature = ''sX'' \<rparr>"

definition refused_request :: request_v2 where
  "refused_request = sample_request \<lparr> rq_amountAtomic := ''9'' \<rparr>"

definition refused_input :: AuthorizeRequestInput where
  "refused_input = \<lparr> in_permit = signed_permit_v2_json refused_permit, in_authorizationRequest = refused_request,
     in_agentSignature = signature_json ''sA'' \<rparr>"

definition refused_ar :: AuthenticatedRequest where
  "refused_ar = \<lparr> ar_permit = refused_permit, ar_request = refused_request, ar_agentSignature = ''sA'',
     ar_operationDigest = sample_digest, ar_fingerprint = sample_digest \<rparr>"

lemma refusal_fields [simp]:
  "aa_platform refusal_authority = base58_platform" "aa_address refusal_authority = ''KT''" "aa_signer refusal_authority = ''T''"
  "aa_world refusal_authority = sample_world" "ie_issuer (aa_issuerEntitlement refusal_authority) = ''KX''" "quiet refusal_authority"
  "ar_permit refused_ar = refused_permit" "ar_request refused_ar = refused_request" "ar_fingerprint refused_ar = sample_digest"
  "sg_body refused_permit = evidence_permit"
  by (simp_all add: refusal_authority_def sample_authority_def quiet_def refused_ar_def refused_permit_def)

section \<open>The request is authenticated\<close>

lemma refused_permit_verifies:
  "verifyPurchasePermitV2 base58_platform (signed_permit_v2_json refused_permit) = Inr refused_permit"
proof -
  have k: "keyAddress base58_platform ''X'' = pp_issuer evidence_permit"
    by (simp add: base58_platform_def hex_platform_def sample_platform_def evidence_permit_def)
  obtain t where t: "signPurchasePermitV2 base58_platform (JObj (permit_v2_fields evidence_permit)) ''X''
        = Inr \<lparr> sg_body = evidence_permit, sg_signature = t \<rparr>"
      "verifyPurchasePermitV2 base58_platform (JObj (permit_v2_fields evidence_permit @ [(''signature'', signature_json t)]))
        = Inr \<lparr> sg_body = evidence_permit, sg_signature = t \<rparr>"
    using pv2.sign_then_verify [OF base58_platform_laws(1,2) evidence_permit_wf k]
    unfolding signPurchasePermitV2_def verifyPurchasePermitV2_def by blast
  have "signRaw base58_platform ''X'' m = ''sX''" for m by (simp add: base58_platform_def)
  with t(1) have "t = ''sX''" unfolding signPurchasePermitV2_def pv2.sign_iff by auto
  with t(2) show ?thesis by (simp add: signed_permit_v2_json_def refused_permit_def)
qed

lemma refused_request_verifies:
  "verifyAuthorizationRequestSignature base58_platform (canonicalizeAuthorizationRequestV2 base58_platform refused_request)
     (signature_json ''sA'') ''KA''"
proof -
  obtain b where "canonicalizeAuthorizationRequestV2 base58_platform refused_request = Some b"
    by (simp add: canonicalizeAuthorizationRequestV2_def canonicalBytes_def base58_canonical)
  then show ?thesis unfolding verifyAuthorizationRequestSignature_iff by (simp add: base58_signs signature_json_def)
qed

lemma refused_authenticated: "authenticate refusal_authority refused_input 60 = Inr refused_ar"
proof -
  have d: "computePermitDigest base58_platform sp = Some sample_digest" "computeOperationDigest base58_platform p = Some sample_digest"
    "computeRequestFingerprint base58_platform pm r od = Some sample_digest" for sp p pm r od
    by (simp_all add: computePermitDigest_def computeOperationDigest_def computeRequestFingerprint_def base58_digest)
  have a: "pp_authorizedAgent evidence_permit = ''KA''" by (simp add: evidence_permit_def sample_permit_def)
  have f: "in_permit refused_input = signed_permit_v2_json refused_permit" "in_authorizationRequest refused_input = refused_request"
    "in_agentSignature refused_input = signature_json ''sA''" by (simp_all add: refused_input_def)
  show ?thesis
    unfolding authenticate_iff authenticated_as_def Let_def f refusal_fields a
    using refused_permit_verifies refused_request_verifies
    by (simp add: d) (simp add: refusal_authority_def sample_authority_def evidence_permit_def sample_permit_def refused_request_def
        sample_request_def refused_ar_def signature_json_def)
qed

lemma refused_policy: "policy_codes evidence_permit refused_request t (request_values refused_request) c \<noteq> []"
  unfolding policy_codes_empty
  by (simp add: evidence_permit_def sample_permit_def refused_request_def sample_request_def within_permit_def purchase_of_def
      request_values_def dec_def)

section \<open>The request is refused\<close>

lemma refused_decision:
  "evaluate_decision evidence_permit refused_request 60 (no_quote [] None) ''0'' = BudgetDenied [''PER_CALL_LIMIT_EXCEEDED'']"
proof -
  have "policy_codes evidence_permit refused_request 60 (request_values refused_request) ''0'' = [''PER_CALL_LIMIT_EXCEEDED'']"
    by (simp add: policy_codes_def Let_def evaluateExactOperation_def evaluatePurchasePermit_def evidence_permit_def sample_permit_def
        refused_request_def sample_request_def request_values_def dec_def char_simps deny_if_def)
  then show ?thesis by (simp add: evaluate_decision_def Let_def no_quote_def dedup_def)
qed

definition refused_reserve :: reserve_input where
  "refused_reserve = reserve_input_for refused_ar 60 (no_quote [] None)"

lemma refused_reserves:
  "\<exists>st. reserve refused_reserve (evaluate_decision evidence_permit refused_request 60 (no_quote [] None)) 60 empty_store
     = (Inr (ReserveDenied (new_row refused_reserve inv_state.DENIED [''PER_CALL_LIMIT_EXCEEDED''] 60)), st)"
proof -
  have f: "ri_invocationId refused_reserve = ''i1''" "ri_amountAtomic refused_reserve = ''9''"
    "ri_grant refused_reserve = sample_grant_terms \<lparr> gt_issuer := ''KX'' \<rparr>"
    by (simp_all add: refused_reserve_def reserve_input_for_def Let_def refused_request_def sample_request_def evidence_permit_def
        sample_permit_def sample_grant_terms_def)
  show ?thesis
    by (simp add: store_run_simps empty_store_def f sample_grant_terms_def refused_decision MAX_U64_def
        joined_codes_def char_simps show_nat_zero new_row_def dec_def digit_val_def)
qed

section \<open>The authority answers\<close>

lemma selectInvocation_empty: "selectInvocation empty_store x = None"
  by (simp add: selectInvocation_def empty_store_def)

lemma refused_answered:
  "\<exists>result s'. authorize refusal_authority refused_input sample_state = (Inr result, s')"
proof -
  let ?e = "evaluate_decision evidence_permit refused_request 60 (no_quote [] None)"
  let ?row = "new_row refused_reserve inv_state.DENIED [''PER_CALL_LIMIT_EXCEEDED''] 60"
  define s1 where "s1 = pass sample_world sample_state"
  have s0: "ns_now sample_state = 60" "au_store sample_state = empty_store" "au_pending sample_state x = None"
    "sample_state \<lparr> au_store := empty_store \<rparr> = sample_state" for x
    by (simp_all add: sample_state_def)
  have t1: "ns_now s1 = 60" "au_store s1 = empty_store" using s0 by (simp_all add: s1_def pass_def sample_world_def)
  have id: "rq_invocationId refused_request = ''i1''" "ri_invocationId refused_reserve = ''i1''"
    by (simp_all add: refused_reserve_def reserve_input_for_def Let_def refused_request_def sample_request_def)
  obtain st where st: "reserve refused_reserve ?e 60 empty_store = (Inr (ReserveDenied ?row), st)"
    using refused_reserves by blast
  have inv: "store_inv st"
    using store_inv_reserve [OF store_inv_empty, of refused_reserve ?e 60] st
    by (simp add: retry_same_grant_def selectInvocation_def empty_store_def)
  have row: "selectInvocation st ''i1'' = Some ?row" using reserve_denied [OF st] id by simp
  define s2 where "s2 = auditDecision refusal_authority evidence_permit ?row (pass sample_world (s1 \<lparr> au_store := st \<rparr>))"
  have t2: "au_store s2 = st" "ns_now s2 = 60" by (simp_all add: s2_def) (simp add: auditDecision_def audit_append_def t1 pass_def sample_world_def)
  have "recorded refused_ar ?row" unfolding refused_reserve_def by (rule recorded_new_row)
  then have q: "inv_request ?row = StoredV2 refused_request" "inv_id ?row = ''i1''" "inv_state ?row = inv_state.DENIED" "inv_receipt ?row = None"
    using id by (simp_all add: recorded_def Let_def new_row_def)
  obtain d where d: "computeOperationDigest base58_platform (rq_operation refused_request) = Some d"
    by (simp add: computeOperationDigest_def base58_digest)
  have k: "keyAddress base58_platform ''T'' = rcp_authority (receipt_v1.extend (receipt_base refusal_authority ?row refused_request)
      (receipt_v2.fields (rq_operation refused_request) d))"
    by (simp add: receipt_v1.extend_def receipt_base_def base58_platform_def hex_platform_def sample_platform_def)
  obtain r where r: "build_receipt refusal_authority ?row = Some (ReceiptV2 r)"
    using receipt_message.sign_then_verify [OF base58_platform_laws(1,2) k]
    by (auto simp: build_receipt_def q d signAuthorizationReceipt_def Let_def)
  have "attachReceipt ''i1'' (ReceiptV2 r) 60 st = (Inr (ReceiptV2 r), set_row ''i1'' (with_receipt (ReceiptV2 r) 60) st)"
    by (rule attachReceipt_new [OF inv row]) (simp_all add: q)
  then have "\<exists>x s'. with_receipt_result refusal_authority ?row False s2 = (Inr x, s')"
    by (simp add: with_receipt_result_def ensureReceipt_def q r act_bind_def store_call_def store_step_def t2 id act_return_def)
  then have "\<exists>x s'. carry_out refusal_authority refused_ar (no_quote [] None) (ReserveDenied ?row)
      (pass sample_world (s1 \<lparr> au_store := st \<rparr>)) = (Inr x, s')"
    by (simp add: carry_out_def s2_def)
  moreover have "store_call refusal_authority (reserve refused_reserve ?e) s1
      = (Inr (ReserveDenied ?row), pass sample_world (s1 \<lparr> au_store := st \<rparr>))"
    unfolding store_call_Inr using st t1 by simp
  moreover have "store_read refusal_authority (\<lambda>st. selectInvocation st ''i1'') sample_state = (Inr None, s1)"
    using selectInvocation_empty by (simp add: store_read_def store_call_def store_step_def s0 s1_def)
  ultimately have "\<exists>x s'. process refusal_authority refused_ar sample_state = (Inr x, s')"
    using refused_policy [of 60 "''0''"]
    by (simp add: process_def Let_def act_bind_def act_return_def id t1 refused_reserve_def [symmetric])
  then show ?thesis using refused_authenticated s0 by (simp add: authorize_def)
qed

section \<open>The exported denial is within the parser's bounds\<close>

definition refusal_trust :: VerifierTrust where
  "refusal_trust = \<lparr> vt_issuer = ''KX'', vt_authority = ''KT'', vt_settlementProfiles = (\<lambda>_. None), vt_service = None \<rparr>"

lemma wf_refused_parts:
  "wf_permit_artifact (permit_artifact_of refused_permit)"
  "wf_request_artifact \<lparr> tg_text = AUTHORIZATION_REQUEST_PROTOCOL, tg_value = refused_request \<rparr>"
  by (simp_all add: wf_permit_artifact_def wf_request_artifact_def permit_artifact_of_def refused_permit_def evidence_permit_def
      sample_permit_def refused_request_def sample_request_def wf_evidence_parts PURCHASE_PERMIT_DOMAIN_def
      AUTHORIZATION_REQUEST_PROTOCOL_def bounded_text_def safe_from_def MAX_SAFE_INTEGER_def base58_texts char_simps)

lemma wf_refused_receipt:
  assumes "receipt_v1.truncate (tg_value (sg_body s)) = receipt_base refusal_authority
      (with_receipt r n (new_row refused_reserve inv_state.DENIED [''PER_CALL_LIMIT_EXCEEDED''] 60)) refused_request"
    and "rcp_operation (tg_value (sg_body s)) = sample_operation"
    and "rcp_operationDigest (tg_value (sg_body s)) = sample_digest" "sg_signature s = ''sT''"
    and "tg_text (sg_body s) = AUTHORIZATION_RECEIPT_DOMAIN"
  shows "wf_receipt_artifact s"
proof -
  note f = receipt_base_fields [OF assms(1)]
  have fp: "rcp_requestFingerprint (tg_value (sg_body s)) = sample_digest" "rcp_decidedAt (tg_value (sg_body s)) = 60"
    using assms(1) by (simp_all add: receipt_base_def receipt_v1.truncate_def with_receipt_def new_row_def refused_reserve_def
        reserve_input_for_def Let_def)
  show ?thesis
    unfolding wf_receipt_artifact_def Let_def f fp assms(2-5)
    by (simp add: with_receipt_def new_row_def refused_reserve_def reserve_input_for_def Let_def refused_request_def
        sample_request_def evidence_permit_def sample_permit_def wf_evidence_parts bounded_text_def safe_from_def MAX_SAFE_INTEGER_def
        base58_texts char_simps AUTHORIZATION_RECEIPT_DOMAIN_def wf_reason_codes_def reason_code_pattern_def class_between_def list_all_iff)
qed

lemma base58_evidence_digests:
  assumes "computeEvidenceDigests base58_platform b = Some (d, sd)"
  shows "list_all (\<lambda>(k, d). pred_option wf_digest d) (digest_entries d sd)" "sd \<noteq> None \<longleftrightarrow> ea_service b \<noteq> None"
proof -
  have o: "optional_digest base58_platform name v = Some x \<Longrightarrow> pred_option wf_digest x" for name v x
    using wf_evidence_parts by (cases v) (auto simp: optional_digest_def artifactDigest_def base58_digest)
  note c = assms [unfolded computed_digests artifactPermitDigest_def artifactDigest_def computeOperationDigest_def base58_digest]
  have "pred_option wf_digest x" if "x \<in> {dg_authorityDecision d, dg_outboundRequest d, dg_paymentRequirement d,
      dg_paymentAttempt d, dg_settlement d, dg_result d}" for x
    using that c o by blast
  moreover have "wf_digest (dg_purchasePermit d)" "wf_digest (dg_authorizationRequest d)" "wf_digest (dg_operation d)"
    using c wf_evidence_parts(5) by auto
  moreover have "pred_option wf_digest (dg_serviceAuthorization g) \<and> pred_option wf_digest (dg_serviceAcknowledgement g)"
    if "sd = Some g" for g
    by (rule computed_service [OF assms [unfolded that]]) (use o in blast)
  ultimately show "list_all (\<lambda>(k, d). pred_option wf_digest d) (digest_entries d sd)"
    by (cases sd) (simp_all add: digest_entries_def)
  show "sd \<noteq> None \<longleftrightarrow> ea_service b \<noteq> None"
    using assms unfolding computed_digests by (cases "ea_service b"; cases sd) simp_all
qed

lemma wf_refused_bundle:
  assumes run: "exportEvidence refusal_authority ''i1'' None s = (Inr b, s')" "ns_now s = 60"
    and row: "selectInvocation (au_store s) ''i1''
      = Some (with_receipt r n (new_row refused_reserve inv_state.DENIED [''PER_CALL_LIMIT_EXCEEDED''] 60))"
    and r: "build_receipt refusal_authority (new_row refused_reserve inv_state.DENIED [''PER_CALL_LIMIT_EXCEEDED''] 60) = Some r"
  shows "wf_bundle b"
proof -
  let ?i = "with_receipt r n (new_row refused_reserve inv_state.DENIED [''PER_CALL_LIMIT_EXCEEDED''] 60)"
  let ?xi = "\<lparr> xi_paidServices = aa_paidServices refusal_authority, xi_authorityAddress = ''KT'', xi_signer = ''T'',
      xi_issuedAt = 60, xi_bundleVersion = 2 \<rparr>"
  have "ns_now s' = 60" using exportEvidence_state [OF run(1)] run(2) by (simp add: pass_def sample_world_def)
  with exportEvidence_steps [OF run(1)] row have build: "buildEvidenceBundle base58_platform ?xi ?i = Inr b"
    by (auto split: sum.splits export_error.splits)
  obtain state authorization request result outbound service where c:
    "purchase_state_of (inv_state ?i) = Some state" "inv_authorization ?i = Some authorization" "inv_request ?i = StoredV2 request"
    "exported_result ?i = Some result" "exported_outbound base58_platform (xi_paidServices ?xi) ?i request = Inr outbound"
    "receipt_present state ?xi ?i" "exchange_of base58_platform ?xi ?i = Some service"
    "EvidenceArtifacts.truncate b = artifacts_of ?i authorization request result outbound service"
    "\<exists>d sd. sg_body (eb_manifest b) = manifest_of ?i state (xi_authorityAddress ?xi) (xi_issuedAt ?xi)
        (artifacts_of ?i authorization request result outbound service) d sd"
    "\<forall>trust. vt_authority trust = xi_authorityAddress ?xi \<longrightarrow> manifest_binds base58_platform trust b"
    by (rule buildEvidenceBundle_binds [OF base58_platform_laws(1,2) build])
  have rec: "recorded refused_ar ?i" by (simp add: refused_reserve_def recorded_new_row)
  have rcd: "receipted refusal_authority ?i" using r by (simp add: receipted_def)
  have i: "inv_state ?i = inv_state.DENIED" "inv_paymentRequirement ?i = None" "inv_paymentAttempt ?i = None" "inv_settlement ?i = None"
    "inv_result ?i = None" "inv_reasonCodes ?i = [''PER_CALL_LIMIT_EXCEEDED'']"
    by (simp_all add: with_receipt_def new_row_def refused_reserve_def reserve_input_for_def Let_def no_quote_def)
  have rq: "request = refused_request" "authorization = \<lparr> sv_permit = refused_permit, sv_agentSignature = ''sA'' \<rparr>"
      "inv_grantId ?i = ''G1''" "inv_id ?i = ''i1''"
    using c(2,3) rec by (simp_all add: recorded_def Let_def refused_ar_def refused_permit_def evidence_permit_def sample_permit_def
        refused_request_def sample_request_def)
  have none: "result = None" "outbound = None" "service = Some \<lparr> sv_authorization = None, sv_acknowledgement = None \<rparr>"
    using c(4,5,7) i by (auto simp: exported_result_def exported_outbound_def exchange_of_def exported_service_def)
  note f = truncated_fields [OF c(8), unfolded artifacts_of_def EvidenceArtifacts.simps rq none i]
  obtain sr where sr: "receipt_artifact_of (inv_receipt ?i) = Some sr" "verifyReceiptArtifact base58_platform sr ''KT''"
      "receipt_v1.truncate (tg_value (sg_body sr)) = receipt_base refusal_authority ?i refused_request"
      "rcp_operation (tg_value (sg_body sr)) = rq_operation refused_request"
      "computeOperationDigest base58_platform (rq_operation refused_request) = Some (rcp_operationDigest (tg_value (sg_body sr)))"
    by (rule exported_receipt [of refusal_authority refused_ar ?i]) (use base58_platform_laws rec rcd i in simp_all)
  have "sg_signature sr = ''sT''"
    using sr(2) unfolding verifyReceiptArtifact_def receipt_artifact.verify_iff by (auto simp: base58_signs)
  with sr(1,4,5) have sg: "sg_signature sr = ''sT''" "rcp_operationDigest (tg_value (sg_body sr)) = sample_digest"
      "rcp_operation (tg_value (sg_body sr)) = sample_operation" "tg_text (sg_body sr) = AUTHORIZATION_RECEIPT_DOMAIN"
    by (auto simp: computeOperationDigest_def base58_digest refused_request_def sample_request_def receipt_artifact_of_def
        split: option.splits signed_receipt.splits)
  have "wf_receipt_artifact sr" by (rule wf_refused_receipt [OF sr(3) sg(3,2,1,4)])
  moreover have "wf_manifest True (eb_manifest b)"
  proof -
    have m: "manifest_binds base58_platform refusal_trust b" using c(10) by (simp add: refusal_trust_def)
    then have "sg_signature (eb_manifest b) = ''sT''"
      unfolding manifest_binds_def verifyEvidenceManifestSignature_def manifest_message.verify_iff
      by (auto simp: base58_signs refusal_trust_def)
    moreover have "computeEvidenceDigests base58_platform b
        = Some (em_digests (sg_body (eb_manifest b)), em_serviceDigests (sg_body (eb_manifest b)))"
      using m by (simp add: manifest_binds_def)
    from base58_evidence_digests [OF this] f(13)
    have "wf_digests True (em_digests (sg_body (eb_manifest b)), em_serviceDigests (sg_body (eb_manifest b)))"
      by (simp add: wf_digests_def)
    moreover have "wf_reason_codes [''PER_CALL_LIMIT_EXCEEDED'']"
      by (simp add: wf_reason_codes_def reason_code_pattern_def bounded_text_def char_simps)
    ultimately show ?thesis using c(9) i rq wf_evidence_parts
      by (auto simp: wf_manifest_def manifest_of_def artifacts_of_def safe_from_def MAX_SAFE_INTEGER_def bounded_text_def base58_texts
          refused_permit_def evidence_permit_def sample_permit_def)
  qed
  ultimately show ?thesis
    using wf_refused_parts sr(1) wf_evidence_parts
    by (simp add: wf_bundle_def f wf_service_def bounded_text_def) (simp add: refused_permit_def evidence_permit_def sample_permit_def)
qed

lemma wf_refused_request: "wf_request_v2 refused_request"
proof -
  have "wf_request_v2 sample_request" by simp
  then show ?thesis by (simp add: wf_request_v2_def wf_request_def refused_request_def char_simps)
qed

lemma refused_row:
  assumes "authorize refusal_authority refused_input sample_state = (Inr result, s')"
  obtains r m where
    "build_receipt refusal_authority (new_row refused_reserve inv_state.DENIED [''PER_CALL_LIMIT_EXCEEDED''] 60) = Some r"
    "selectInvocation (au_store s') ''i1''
       = Some (with_receipt r m (new_row refused_reserve inv_state.DENIED [''PER_CALL_LIMIT_EXCEEDED''] 60))"
proof -
  have s: "ns_now sample_state = 60" "au_store sample_state = empty_store" "au_pending sample_state x = None"
    "ns_now (pass sample_world sample_state) = 60" for x
    by (simp_all add: sample_state_def pass_def sample_world_def)
  have "process refusal_authority refused_ar sample_state = (Inr result, s')"
    using assms refused_authenticated s by (simp add: authorize_def)
  moreover have "store_inv (au_store sample_state)" "selectInvocation (au_store sample_state) (rq_invocationId (ar_request refused_ar)) = None"
    using s(2) store_inv_empty selectInvocation_empty by simp_all
  moreover have "\<And>t. policy_codes (sg_body (ar_permit refused_ar)) (ar_request refused_ar) t (request_values (ar_request refused_ar)) ''0'' \<noteq> []"
    using refused_policy by simp
  ultimately obtain t i st r m where run: "t = ns_now (pass (aa_world refusal_authority) sample_state)"
      "reserve (reserve_input_for refused_ar t (no_quote [] None))
         (evaluate_decision (sg_body (ar_permit refused_ar)) (ar_request refused_ar) t (no_quote [] None)) t (au_store sample_state)
       = (Inr (ReserveDenied i), st)"
      "build_receipt refusal_authority i = Some r"
      "selectInvocation (au_store s') (rq_invocationId (ar_request refused_ar)) = Some (with_receipt r m i)"
    using refused_run [OF refusal_fields(6), of sample_state refused_ar result s'] by metis
  have "i = new_row refused_reserve inv_state.DENIED [''PER_CALL_LIMIT_EXCEEDED''] 60"
    using run(1,2) refused_reserves s by (simp add: refused_reserve_def)
  moreover have "rq_invocationId refused_request = ''i1''" by (simp add: refused_request_def sample_request_def)
  ultimately show thesis using run(3,4) that by simp
qed

end
