(* ===== verification/Export_Properties.thy ===== *)
theory Export_Properties
  imports Sample_Refusal
begin

text \<open>
  Properties of the evidence the authority exports, and of the composition of the authority, its store, the
  export and the standalone verifier.
\<close>

text \<open>C23. What an export answers, in every case, is decided by the row and nothing is sent or written: an unknown
  invocation is 404; one still reserved is EVIDENCE_NOT_FINAL and one without the kept artifacts
  EVIDENCE_UNAVAILABLE, both 409; otherwise the bundle has every artifact of exactly that row (permit, request,
  agent signature, decision, requirement, attempt, settlement, result, outbound request and, unless version 1 is
  asked for, the service's authorization and acknowledgement) under a manifest that verifies under the
  authority's key, states the row's outcome and reasons, and binds every artifact by its digest.  The one other
  answer is an internal error, and then the outbound request cannot be built from the registry, the stored
  acknowledgement header does not decode, the signing key is not that of the authority's address, or the
  stored requirement is not a JSON value.\<close>

theorem export_exact:
  assumes "signatures_verify (aa_platform A)" "canonical_total (aa_platform A)"
    and "exportEvidence A x v s = (r, s')"
  shows "au_store s' = arrived A s \<and> ns_sent s' = ns_sent s
    \<and> (case selectInvocation (arrived A s) x of
         None \<Rightarrow> r = Inl (EvidenceRequestError 404 INVOCATION_NOT_FOUND)
       | Some i \<Rightarrow>
         if inv_state i = inv_state.RESERVED then r = Inl (EvidenceRequestError 409 EVIDENCE_NOT_FINAL)
         else if \<not> exportable (aa_address A) i then r = Inl (EvidenceRequestError 409 EVIDENCE_UNAVAILABLE)
         else case r of Inl e \<Rightarrow> e = InternalError \<and> export_throws A v i
           | Inr b \<Rightarrow> inv_id i = x \<and> exported_row A v i b)"
proof -
  note steps = exportEvidence_steps [OF assms(3)]
  show ?thesis
  proof (cases "selectInvocation (arrived A s) x")
    case None
    with steps show ?thesis by simp
  next
    case (Some i)
    let ?xi = "\<lparr> xi_paidServices = aa_paidServices A, xi_authorityAddress = aa_address A, xi_signer = aa_signer A,
      xi_issuedAt = ns_now s', xi_bundleVersion = (case v of None \<Rightarrow> 2 | Some v \<Rightarrow> v) \<rparr>"
    have id: "inv_id i = x" using Some by (auto dest: selectInvocation_Some)
    have r: "r = (case buildEvidenceBundle (aa_platform A) ?xi i of
           Inl (EvidenceExportError problem) \<Rightarrow> Inl (EvidenceRequestError 409 (export_refusal problem))
         | Inl ExportThrow \<Rightarrow> Inl InternalError | Inr b \<Rightarrow> Inr b)" using steps Some by simp
    have built: "exported_row A v i b" if "buildEvidenceBundle (aa_platform A) ?xi i = Inr b" for b
      by (rule exported_row [OF assms(1,2) that]) simp_all
    have thrown: "export_throws A v i" if "buildEvidenceBundle (aa_platform A) ?xi i = Inl ExportThrow"
      by (rule build_throws [OF assms(1,2) that]) simp_all
    show ?thesis
    proof (cases "inv_state i = inv_state.RESERVED")
      case True
      with steps Some r show ?thesis by (simp add: build_not_final)
    next
      case False
      note refused = build_unavailable [OF False, of ?xi]
      show ?thesis
      proof (cases "exportable (aa_address A) i")
        case True
        with refused(2) have "buildEvidenceBundle (aa_platform A) ?xi i \<noteq> Inl (EvidenceExportError problem)" for problem by simp
        with r have "case r of Inl e \<Rightarrow> e = InternalError \<and> export_throws A v i | Inr b \<Rightarrow> exported_row A v i b"
          using built thrown by (auto split: sum.splits export_error.splits)
        with steps Some False True id show ?thesis by (simp split: sum.splits)
      qed (use steps Some False r refused(1) in simp)
    qed
  qed
qed

text \<open>A refused purchase and the bundle exported for it.\<close>

theorem export_exact_witness:
  "\<exists>result s' i b. authorize refusal_authority refused_input sample_state = (Inr result, s')
     \<and> selectInvocation (au_store s') ''i1'' = Some i \<and> inv_state i = inv_state.DENIED
     \<and> fst (exportEvidence refusal_authority ''i1'' None (sample_state \<lparr> au_store := au_store s' \<rparr>)) = Inr b
     \<and> exported_row refusal_authority None i b"
proof -
  obtain result s' where run: "authorize refusal_authority refused_input sample_state = (Inr result, s')"
    using refused_answered by blast
  obtain r m where row: "build_receipt refusal_authority (new_row refused_reserve inv_state.DENIED [''PER_CALL_LIMIT_EXCEEDED''] 60) = Some r"
      "selectInvocation (au_store s') ''i1''
         = Some (with_receipt r m (new_row refused_reserve inv_state.DENIED [''PER_CALL_LIMIT_EXCEEDED''] 60))"
    by (rule refused_row [OF run])
  let ?i = "with_receipt r m (new_row refused_reserve inv_state.DENIED [''PER_CALL_LIMIT_EXCEEDED''] 60)"
    and ?s = "sample_state \<lparr> au_store := au_store s' \<rparr>"
  obtain answer s'' where out: "exportEvidence refusal_authority ''i1'' None ?s = (answer, s'')" by fastforce
  have laws: "signatures_verify (aa_platform refusal_authority)" "canonical_total (aa_platform refusal_authority)"
    using base58_platform_laws by simp_all
  have arrived: "selectInvocation (arrived refusal_authority ?s) ''i1'' = Some ?i"
    using row(2) refusal_fields by simp
  have i: "inv_state ?i = inv_state.DENIED" "inv_paymentRequirement ?i = None"
      "inv_receipt ?i = Some r" "inv_authorization ?i \<noteq> None" "inv_request ?i = StoredV2 refused_request"
    by (simp_all add: with_receipt_def new_row_def refused_reserve_def reserve_input_for_def Let_def no_quote_def)
  have "recorded refused_ar ?i" by (simp add: refused_reserve_def recorded_new_row)
  then obtain t where t: "r = ReceiptV2 t" "receipt_v1.truncate (sg_body t) = receipt_base refusal_authority ?i (ar_request refused_ar)"
    using built_receipt [OF laws, of refused_ar ?i r] row(1) by auto
  have kept: "receipt_by (aa_address refusal_authority) (Some r)" using receipt_base_fields(3) [OF t(2)] t(1) by simp
  with i have "exportable (aa_address refusal_authority) ?i" by (simp add: exportable_def)
  moreover have "\<not> export_throws refusal_authority None ?i"
    using i by (simp add: export_throws_def) (simp add: base58_platform_def hex_platform_def sample_platform_def
        refusal_authority_def sample_authority_def)
  ultimately obtain b where "answer = Inr b" "exported_row refusal_authority None ?i b"
    using export_exact [OF laws out] arrived i(1) by (auto split: sum.splits)
  with run row(2) i(1) out show ?thesis by (metis fst_conv)
qed

text \<open>C13. A refusal by the permit's own terms leaves evidence that convinces a stranger.  Take an authority whose
  key has the configured address, whose registered URLs parse and whose store no other process uses, and an
  authenticated request for an invocation the store does not know and that is not in flight, signed within its
  permit's validity, which asks for something the permit allows at no time even with nothing spent.  When the
  authority answers it, an export of that invocation at any later time, in either format, gives a bundle of a
  DENIED purchase in which everything the verifier asks holds, online or offline, for any verifier that pins
  the same issuer and authority; if it is within the parser's bounds, the verifier's verdict on it is VALID.\<close>

theorem refusal_has_valid_evidence:
  assumes laws: "signatures_verify (aa_platform A)" "canonical_total (aa_platform A)"
    and config: "quiet A" "keyAddress (aa_platform A) (aa_signer A) = aa_address A"
      "registry_parses (aa_platform A) (aa_paidServices A)" "store_inv (au_store s)"
    and request: "authenticate A input (ns_now s) = Inr ar" "wf_request_v2 (ar_request ar)"
      "au_pending s (rq_invocationId (ar_request ar)) = None"
      "selectInvocation (au_store s) (rq_invocationId (ar_request ar)) = None"
    and refused: "\<And>t. \<not> (rq_operation (ar_request ar) = pp_operation (sg_body (ar_permit ar))
         \<and> within_permit t (sg_body (ar_permit ar)) (purchase_of (ar_request ar) t (request_values (ar_request ar)) ''0''))"
    and in_time: "pp_issuedAt (sg_body (ar_permit ar)) \<le> rq_issuedAt (ar_request ar)"
      "rq_issuedAt (ar_request ar) \<le> pp_expiresAt (sg_body (ar_permit ar))"
    and answered: "authorize A input s = (Inr result, s')"
    and verifier: "verifier_pins A trust" "ve_platform e = aa_platform A"
    and later: "au_store s'' = au_store s'"
  shows "\<exists>b. fst (exportEvidence A (rq_invocationId (ar_request ar)) v s'') = Inr b
    \<and> em_purchaseState (sg_body (eb_manifest b)) = PurchaseState.DENIED \<and> valid_evidence e trust options b
    \<and> (wf_bundle b \<longrightarrow> rp_overall (verifyEvidenceBundle e (JObj (bundle_fields b)) trust options) = Overall_VALID)"
proof -
  let ?x = "rq_invocationId (ar_request ar)"
  have no: "policy_codes (sg_body (ar_permit ar)) (ar_request ar) t (request_values (ar_request ar)) ''0'' \<noteq> []" for t
    using refused [of t] unfolding policy_codes_empty by blast
  have "process A ar s = (Inr result, s')" using answered request(1,3) by (simp add: authorize_def)
  then obtain t i st' r m where run:
    "reserve (reserve_input_for ar t (no_quote [] None))
       (evaluate_decision (sg_body (ar_permit ar)) (ar_request ar) t (no_quote [] None)) t (au_store s) = (Inr (ReserveDenied i), st')"
    "build_receipt A i = Some r" "selectInvocation (au_store s') ?x = Some (with_receipt r m i)"
    by (rule refused_run [OF config(1,4) request(4) no])
  obtain r' s3 where e: "exportEvidence A ?x v s'' = (r', s3)" by fastforce
  let ?xi = "\<lparr> xi_paidServices = aa_paidServices A, xi_authorityAddress = aa_address A, xi_signer = aa_signer A,
      xi_issuedAt = ns_now s3, xi_bundleVersion = (case v of None \<Rightarrow> 2 | Some v \<Rightarrow> v) \<rparr>"
  obtain b where b: "buildEvidenceBundle (aa_platform A) ?xi (with_receipt r m i) = Inr b"
    using denied_export_total [OF laws run(1) config(4) request(4) run(2), of ?xi m] config(2,3) by (auto simp: no_quote_def)
  have "r' = Inr b" using exportEvidence_steps [OF e] run(3) b later config(1) by simp
  moreover have "valid_evidence e trust options b \<and> em_purchaseState (sg_body (eb_manifest b)) = PurchaseState.DENIED"
    by (rule denied_export [OF laws request(1) [unfolded authenticate_iff] request(2) run(1) config(4) request(4) run(2) in_time
          verifier b]) simp
  moreover have "rp_overall (verifyEvidenceBundle e (JObj (bundle_fields b)) trust options) = Overall_VALID"
    if "wf_bundle b" "valid_evidence e trust options b"
    unfolding verdict_valid_iff using bundle_reads_back [OF that(1)] that(2) by blast
  ultimately show ?thesis using e by auto
qed

theorem refusal_has_valid_evidence_witness:
  "\<exists>result s' b. authorize refusal_authority refused_input sample_state = (Inr result, s')
     \<and> fst (exportEvidence refusal_authority ''i1'' None (sample_state \<lparr> au_store := au_store s' \<rparr>)) = Inr b
     \<and> rp_overall (verifyEvidenceBundle sample_env (JObj (bundle_fields b)) refusal_trust Offline) = Overall_VALID"
proof -
  obtain result s' where run: "authorize refusal_authority refused_input sample_state = (Inr result, s')"
    using refused_answered by blast
  have laws: "signatures_verify (aa_platform refusal_authority)" "canonical_total (aa_platform refusal_authority)"
    using base58_platform_laws by simp_all
  have env: "verifier_pins refusal_authority refusal_trust" "ve_platform sample_env = aa_platform refusal_authority"
    by (simp_all add: verifier_pins_def refusal_trust_def sample_env_def)
  have config: "quiet refusal_authority" "keyAddress (aa_platform refusal_authority) (aa_signer refusal_authority) = aa_address refusal_authority"
      "registry_parses (aa_platform refusal_authority) (aa_paidServices refusal_authority)" "store_inv (au_store sample_state)"
    using store_inv_empty by (simp_all add: sample_state_def registry_parses_def)
      (simp_all add: base58_platform_def hex_platform_def sample_platform_def sample_parse_def refusal_authority_def sample_authority_def)
  have auth: "authenticate refusal_authority refused_input (ns_now sample_state) = Inr refused_ar"
    "au_pending sample_state x = None" "selectInvocation (au_store sample_state) x = None" for x
    using refused_authenticated selectInvocation_empty by (simp_all add: sample_state_def)
  have rq: "wf_request_v2 (ar_request refused_ar)" "rq_invocationId (ar_request refused_ar) = ''i1''"
    "pp_issuedAt (sg_body (ar_permit refused_ar)) \<le> rq_issuedAt (ar_request refused_ar)"
    "rq_issuedAt (ar_request refused_ar) \<le> pp_expiresAt (sg_body (ar_permit refused_ar))"
    using wf_refused_request by (simp_all add: refused_request_def sample_request_def evidence_permit_def sample_permit_def)
  have no: "\<not> (rq_operation (ar_request refused_ar) = pp_operation (sg_body (ar_permit refused_ar))
       \<and> within_permit t (sg_body (ar_permit refused_ar)) (purchase_of (ar_request refused_ar) t (request_values (ar_request refused_ar)) ''0''))"
    for t using refused_policy [of t "''0''"] unfolding policy_codes_empty refusal_fields by blast
  let ?s = "sample_state \<lparr> au_store := au_store s' \<rparr>"
  from refusal_has_valid_evidence [OF laws config auth(1) rq(1) auth(2,3) no rq(3,4) run env, of ?s None Offline]
  obtain b where b: "fst (exportEvidence refusal_authority ''i1'' None ?s) = Inr b"
      "wf_bundle b \<longrightarrow> rp_overall (verifyEvidenceBundle sample_env (JObj (bundle_fields b)) refusal_trust Offline) = Overall_VALID"
    unfolding rq(2) by auto
  moreover have "wf_bundle b"
    by (rule refused_row [OF run], rule wf_refused_bundle [of ?s _ "snd (exportEvidence refusal_authority ''i1'' None ?s)"])
      (use b(1) in \<open>simp_all add: prod_eq_iff sample_state_def\<close>)
  ultimately show ?thesis using run by blast
qed

end
