(* ===== verification/Agent_Sessions.thy ===== *)
theory Agent_Sessions
  imports Authority_Service
begin

text \<open>
  apps/agent/src/sessions.ts: the sessions of the agent's HTTP API.  A \<open>Session\<close> is an object that request
  handlers keep using after it has left the table, so the store keeps every object created, in order of
  creation, and a reference to one is its index.  Maps and sets are lists in insertion order; setting a key
  that is present keeps its place.
\<close>

section \<open>State\<close>

record InstalledPermit =
  ip_permit :: "permit_v2 signed"
  ip_digest :: string

record Session =
  ss_createdAt :: int
  ss_expiresAt :: int
  ss_installed :: "InstalledPermit option"
  ss_invocations :: "string list"
  ss_decided :: "string list"
  ss_audit :: "audit_event list"

datatype ClaimResult = Claimed | AlreadyOwn | Foreign | Limit

record SessionStoreOptions =
  so_ttlMs :: int
  so_maxSessions :: nat
  so_maxInvocations :: nat
  so_maxOwned :: nat

text \<open>\<open>sn_keys\<close> is the weak map from a session to the digest of its token.\<close>

record session_store =
  sn_objects :: "Session list"
  sn_keys :: "string list"
  sn_sessions :: "(string \<times> nat) list"
  sn_owners :: "(string \<times> string) list"

definition empty_sessions :: session_store where
  "empty_sessions = \<lparr> sn_objects = [], sn_keys = [], sn_sessions = [], sn_owners = [] \<rparr>"

definition default_options :: SessionStoreOptions where
  "default_options = \<lparr> so_ttlMs = 60 * 60 * 1000, so_maxSessions = 100, so_maxInvocations = 200, so_maxOwned = 50000 \<rparr>"

definition RETIRED :: string where
  "RETIRED = ''retired''"

definition TOKEN_PATTERN :: "string \<Rightarrow> bool" where
  "TOKEN_PATTERN s \<longleftrightarrow> length s = 43 \<and> list_all is_b64url_char s"

definition token_digest :: "platform \<Rightarrow> string \<Rightarrow> string" where
  "token_digest px token = sha256Hex px (utf8 token)"

section \<open>Maps and sets in insertion order\<close>

fun map_set :: "string \<Rightarrow> 'v \<Rightarrow> (string \<times> 'v) list \<Rightarrow> (string \<times> 'v) list" where
  "map_set k v [] = [(k, v)]"
| "map_set k v ((k', v') # kvs) = (if k' = k then (k, v) # kvs else (k', v') # map_set k v kvs)"

definition map_delete :: "string \<Rightarrow> (string \<times> 'v) list \<Rightarrow> (string \<times> 'v) list" where
  "map_delete k kvs = filter (\<lambda>kv. fst kv \<noteq> k) kvs"

definition set_add :: "string \<Rightarrow> string list \<Rightarrow> string list" where
  "set_add x xs = (if x \<in> set xs then xs else xs @ [x])"

definition on_session :: "nat \<Rightarrow> (Session \<Rightarrow> Session) \<Rightarrow> session_store \<Rightarrow> session_store" where
  "on_session i f st = st \<lparr> sn_objects := (sn_objects st)[i := f (sn_objects st ! i)] \<rparr>"

definition key_of :: "session_store \<Rightarrow> nat \<Rightarrow> string option" where
  "key_of st i = (if i < length (sn_keys st) then Some (sn_keys st ! i) else None)"

section \<open>Ending sessions\<close>

text \<open>The invocations of an ended session are retired, not released.\<close>

fun retire :: "string \<Rightarrow> string list \<Rightarrow> (string \<times> string) list \<Rightarrow> (string \<times> string) list" where
  "retire key [] owners = owners"
| "retire key (x # xs) owners =
     retire key xs (if map_of owners x = Some key then map_set x RETIRED owners else owners)"

definition evict :: "string \<Rightarrow> session_store \<Rightarrow> session_store" where
  "evict key st =
     (case map_of (sn_sessions st) key of
        None \<Rightarrow> st
      | Some i \<Rightarrow> st \<lparr> sn_owners := retire key (ss_invocations (sn_objects st ! i)) (sn_owners st),
                      sn_sessions := map_delete key (sn_sessions st) \<rparr>)"

fun prune_each :: "int \<Rightarrow> (string \<times> nat) list \<Rightarrow> session_store \<Rightarrow> session_store" where
  "prune_each now [] st = st"
| "prune_each now ((key, i) # kvs) st =
     prune_each now kvs (if ss_expiresAt (sn_objects st ! i) \<le> now then evict key st else st)"

definition prune :: "int \<Rightarrow> session_store \<Rightarrow> session_store" where
  "prune now st = prune_each now (sn_sessions st) st"

definition live_sessions :: "int \<Rightarrow> session_store \<Rightarrow> nat \<times> session_store" where
  "live_sessions now st = (let st = prune now st in (length (sn_sessions st), st))"

section \<open>Creating and finding sessions\<close>

lemma evict_shorter: "sn_sessions st = (key, i) # kvs \<Longrightarrow> length (sn_sessions (evict key st)) < Suc (length kvs)"
  by (simp add: evict_def map_delete_def le_imp_less_Suc)

function evict_oldest :: "nat \<Rightarrow> session_store \<Rightarrow> session_store" where
  "evict_oldest bound st =
     (if length (sn_sessions st) < bound then st
      else case sn_sessions st of [] \<Rightarrow> st | (key, _) # _ \<Rightarrow> evict_oldest bound (evict key st))"
  by pat_completeness auto
termination
  by (relation "measure (\<lambda>(_, st). length (sn_sessions st))") (auto dest: evict_shorter)

declare evict_oldest.simps [simp del]

text \<open>\<open>bytes\<close> is what \<open>randomBytes(32)\<close> gave; the clock is read once to prune and once for the new session.\<close>

definition create_session ::
  "platform \<Rightarrow> SessionStoreOptions \<Rightarrow> int \<Rightarrow> int \<Rightarrow> bytes \<Rightarrow> session_store \<Rightarrow> (string \<times> nat) \<times> session_store" where
  "create_session px opts prunedAt now bytes st =
     (let st = evict_oldest (so_maxSessions opts) (prune prunedAt st);
          token = base64url_encode bytes; key = token_digest px token; i = length (sn_objects st) in
      ((token, i),
       st \<lparr> sn_objects := sn_objects st @ [\<lparr> ss_createdAt = now, ss_expiresAt = now + so_ttlMs opts, ss_installed = None,
                ss_invocations = [], ss_decided = [], ss_audit = [] \<rparr>],
            sn_keys := sn_keys st @ [key], sn_sessions := map_set key i (sn_sessions st) \<rparr>))"

text \<open>The session of an \<open>Authorization\<close> header, or none.\<close>

definition authenticate_session :: "platform \<Rightarrow> int \<Rightarrow> string option \<Rightarrow> session_store \<Rightarrow> nat option \<times> session_store" where
  "authenticate_session px now authorization st =
     (case authorization of
        None \<Rightarrow> (None, st)
      | Some h \<Rightarrow>
        if \<not> starts_with h ''Bearer '' then (None, st)
        else let token = drop (length ''Bearer '') h in
          if \<not> TOKEN_PATTERN token then (None, st)
          else let st = prune now st in (map_of (sn_sessions st) (token_digest px token), st))"

section \<open>Invocations\<close>

function drop_owners :: "nat \<Rightarrow> (string \<times> string) list \<Rightarrow> (string \<times> string) list" where
  "drop_owners bound owners =
     (if length owners \<le> bound then owners
      else case owners of [] \<Rightarrow> owners | (oldest, _) # _ \<Rightarrow> drop_owners bound (map_delete oldest owners))"
  by pat_completeness auto
termination
  by (relation "measure (\<lambda>(_, owners). length owners)") (auto simp: map_delete_def le_imp_less_Suc)

declare drop_owners.simps [simp del]

definition claimInvocation ::
  "SessionStoreOptions \<Rightarrow> nat \<Rightarrow> string \<Rightarrow> session_store \<Rightarrow> ClaimResult \<times> session_store" where
  "claimInvocation opts i x st =
     (let owner = map_of (sn_owners st) x in
      case key_of st i of
        None \<Rightarrow> (Foreign, st)
      | Some key \<Rightarrow>
        if owner \<noteq> None \<and> owner \<noteq> Some key then (Foreign, st)
        else if owner = Some key then (AlreadyOwn, st)
        else if length (ss_invocations (sn_objects st ! i)) \<ge> so_maxInvocations opts then (Limit, st)
        else
          let st = on_session i (\<lambda>s. s \<lparr> ss_invocations := set_add x (ss_invocations s) \<rparr>) st in
          (Claimed, st \<lparr> sn_owners := drop_owners (so_maxOwned opts) (map_set x key (sn_owners st)) \<rparr>))"

definition markDecided :: "nat \<Rightarrow> string \<Rightarrow> session_store \<Rightarrow> session_store" where
  "markDecided i x st =
     (if map_of (sn_owners st) x = key_of st i
      then on_session i (\<lambda>s. s \<lparr> ss_decided := set_add x (ss_decided s) \<rparr>) st else st)"

definition canReadEvidence :: "nat \<Rightarrow> string \<Rightarrow> session_store \<Rightarrow> bool" where
  "canReadEvidence i x st \<longleftrightarrow>
     (case key_of st i of
        None \<Rightarrow> False
      | Some key \<Rightarrow> x \<in> set (ss_decided (sn_objects st ! i)) \<and> map_of (sn_owners st) x = Some key)"

end
