(* ===== verification/Http.thy ===== *)
theory Http
  imports Transport_Encoding Platform Mandate_Permit
begin

text \<open>
  What the HTTP servers of the repository share: the requests they see, the bounded reading of a JSON body from
  its chunks, bearer credentials, and the percent encoding of a path segment (\<open>encodeURIComponent\<close> and
  \<open>decodeURIComponent\<close>).  A response is its status and payload; CORS and content headers are not modelled.
\<close>

section \<open>Requests and their bodies\<close>

record http_request =
  hr_method :: string
  hr_url :: string
  hr_authorization :: "string option"
  hr_chunks :: "bytes list"

text \<open>The chunks of a body, or nothing as soon as their total exceeds the bound.\<close>

fun read_chunks :: "nat \<Rightarrow> nat \<Rightarrow> bytes list \<Rightarrow> bytes list \<Rightarrow> bytes list option" where
  "read_chunks bound totalBytes chunks [] = Some chunks"
| "read_chunks bound totalBytes chunks (buffer # rest) =
     (let totalBytes = totalBytes + length buffer in
      if totalBytes > bound then None else read_chunks bound totalBytes (chunks @ [buffer]) rest)"

lemma read_chunks_exact:
  "totalBytes \<le> bound \<Longrightarrow> read_chunks bound totalBytes chunks rest =
     (if totalBytes + length (concat rest) \<le> bound then Some (chunks @ rest) else None)"
  by (induction bound totalBytes chunks rest rule: read_chunks.induct) (auto simp: Let_def)

section \<open>Bearer credentials\<close>

definition bearer_token :: "string option \<Rightarrow> string option" where
  "bearer_token header =
     (case header of
        None \<Rightarrow> None
      | Some h \<Rightarrow> if starts_with h ''Bearer '' then Some (drop (length ''Bearer '') h) else None)"

text \<open>Equal length first, then \<open>timingSafeEqual\<close>, which is equality of the bytes.\<close>

definition presents :: "string \<Rightarrow> string option \<Rightarrow> bool" where
  "presents secret header =
     (case bearer_token header of
        None \<Rightarrow> False
      | Some t \<Rightarrow> length (utf8 t) = length (utf8 secret) \<and> utf8 t = utf8 secret)"

lemma starts_with_iff: "starts_with s p \<longleftrightarrow> s = p @ drop (length p) s"
  by (metis append_eq_conv_conj append_take_drop_id starts_with_def)

lemma presents_iff: "presents secret header \<longleftrightarrow> header = Some (''Bearer '' @ secret)"
proof (cases header)
  case (Some h)
  show ?thesis
  proof (cases "starts_with h ''Bearer ''")
    case True
    then obtain t where "h = ''Bearer '' @ t" unfolding starts_with_iff by metis
    then show ?thesis using Some by (auto simp: presents_def bearer_token_def starts_with_def utf8_inject)
  next
    case False
    then have "h \<noteq> ''Bearer '' @ secret" by (auto simp: starts_with_def)
    with False Some show ?thesis by (simp add: presents_def bearer_token_def)
  qed
qed (simp add: presents_def bearer_token_def)

section \<open>Percent encoding\<close>

definition uri_unreserved :: "char \<Rightarrow> bool" where
  "uri_unreserved c \<longleftrightarrow> is_alnum c \<or> c \<in> {CHR ''-'', CHR ''_'', CHR ''.'', CHR 0x21, CHR 0x7E, CHR 0x2A, CHR 0x27, CHR 0x28, CHR 0x29}"

definition upper_hex_digit :: "nat \<Rightarrow> char" where
  "upper_hex_digit n = char_of (if n < 10 then 48 + n else 55 + n)"

definition percent_byte :: "char \<Rightarrow> string" where
  "percent_byte b = [CHR 0x25, upper_hex_digit (code b div 16), upper_hex_digit (code b mod 16)]"

definition encodeURIComponent :: "string \<Rightarrow> string" where
  "encodeURIComponent s = concat (map (\<lambda>c. if uri_unreserved c then [c] else concat (map percent_byte (utf8_char c))) s)"

definition hex_pair :: "char \<Rightarrow> char \<Rightarrow> nat option" where
  "hex_pair h l =
     (let value = (\<lambda>c. if is_digit c then Some (code c - 48)
                       else if 65 \<le> code c \<and> code c \<le> 70 then Some (code c - 55)
                       else if 97 \<le> code c \<and> code c \<le> 102 then Some (code c - 87) else None) in
      case (value h, value l) of (Some a, Some b) \<Rightarrow> Some (16 * a + b) | _ \<Rightarrow> None)"

text \<open>\<open>None\<close> is the thrown URIError, or a character outside the model's strings.\<close>

fun decodeURIComponent :: "string \<Rightarrow> string option" where
  "decodeURIComponent [] = Some []"
| "decodeURIComponent (c # r) =
     (if c \<noteq> CHR 0x25 then map_option (Cons c) (decodeURIComponent r)
      else case r of
        h # l # r' \<Rightarrow>
          (case hex_pair h l of
             None \<Rightarrow> None
           | Some a \<Rightarrow>
             if a < 128 then map_option (Cons (char_of a)) (decodeURIComponent r')
             else case r' of
               p # h' # l' # r'' \<Rightarrow>
                 (case hex_pair h' l' of
                    None \<Rightarrow> None
                  | Some b \<Rightarrow>
                    if p = CHR 0x25 \<and> (a = 194 \<or> a = 195) \<and> 128 \<le> b \<and> b < 192
                    then map_option (Cons (char_of ((a - 192) * 64 + (b - 128)))) (decodeURIComponent r'') else None)
             | _ \<Rightarrow> None)
      | _ \<Rightarrow> None)"

lemma hex_pair_percent: "n < 256 \<Longrightarrow> hex_pair (upper_hex_digit (n div 16)) (upper_hex_digit (n mod 16)) = Some n"
proof -
  have digit: "(if is_digit c then Some (code c - 48) else if 65 \<le> code c \<and> code c \<le> 70 then Some (code c - 55)
      else if 97 \<le> code c \<and> code c \<le> 102 then Some (code c - 87) else None) = Some m"
    if "c = upper_hex_digit m" "m < 16" for c m
    using that by (auto simp: upper_hex_digit_def is_digit_def code_char_of)
  assume "n < 256"
  then have "n div 16 < 16" "n mod 16 < 16" by auto
  then show ?thesis unfolding hex_pair_def Let_def using digit [OF refl] by simp
qed

lemma decode_encode_component: "decodeURIComponent (encodeURIComponent s) = Some s"
proof (induction s)
  case (Cons c s)
  have less: "code c < 256" by (rule code_less_256)
  consider "uri_unreserved c" | "\<not> uri_unreserved c" "code c < 128"
    | "\<not> uri_unreserved c" "\<not> code c < 128" by blast
  then show ?case
  proof cases
    case 1
    then have "c \<noteq> CHR 0x25" by (auto simp: uri_unreserved_def is_alnum_def is_digit_def is_lower_def is_upper_def code_def)
    with 1 Cons show ?thesis by (simp add: encodeURIComponent_def)
  next
    case 2
    then have "utf8_char c = [c]" by (simp add: utf8_char_def)
    with 2 Cons less show ?thesis by (simp add: encodeURIComponent_def percent_byte_def hex_pair_percent)
  next
    case 3
    have "192 + code c div 64 < 256" "128 + code c mod 64 < 256" using less by auto
    moreover have "code c div 64 = 2 \<or> code c div 64 = 3" using 3 less by auto
    moreover have "code c mod 64 < 64" "code c div 64 * 64 + code c mod 64 = code c" by simp_all
    ultimately show ?thesis using 3 Cons
      by (auto simp: encodeURIComponent_def percent_byte_def hex_pair_percent utf8_char_def code_char_of)
  qed
qed (simp add: encodeURIComponent_def)

text \<open>Of an identifier only the colons are escaped.\<close>

lemma encode_identifier_char:
  assumes "is_segment_char c \<or> c = CHR ''.'' \<or> c = CHR '':''"
  shows "(if uri_unreserved c then [c] else concat (map percent_byte (utf8_char c))) = (if c = CHR '':'' then ''%3A'' else [c])"
proof (cases "c = CHR '':''")
  case True
  have "\<not> uri_unreserved CHR '':''" "concat (map percent_byte (utf8_char CHR '':'')) = ''%3A''" by code_simp+
  with True show ?thesis by simp
next
  case False
  with assms show ?thesis by (auto simp: uri_unreserved_def is_segment_char_def)
qed

lemma encode_identifier:
  assumes "list_all (\<lambda>c. is_segment_char c \<or> c = CHR ''.'' \<or> c = CHR '':'') s"
  shows "encodeURIComponent s = concat (map (\<lambda>c. if c = CHR '':'' then ''%3A'' else [c]) s)"
  using assms unfolding encodeURIComponent_def by (induction s) (simp_all add: encode_identifier_char del: if_split)

lemma encode_identifier_plain:
  assumes "list_all (\<lambda>c. is_segment_char c \<or> c = CHR ''.'' \<or> c = CHR '':'') s"
  shows "CHR '':'' \<notin> set s \<Longrightarrow> encodeURIComponent s = s"
    and "CHR '':'' \<in> set s \<Longrightarrow> CHR 0x25 \<in> set (encodeURIComponent s)"
proof -
  show "CHR '':'' \<notin> set s \<Longrightarrow> encodeURIComponent s = s"
    unfolding encode_identifier [OF assms] by (induction s) auto
  show "CHR '':'' \<in> set s \<Longrightarrow> CHR 0x25 \<in> set (encodeURIComponent s)"
    unfolding encode_identifier [OF assms] by auto
qed

end
