(* ===== verification/Agent_Server.thy ===== *)
theory Agent_Server
  imports Agent_Sessions Http
begin

text \<open>
  apps/agent/src/server.ts: the agent's HTTP API.  Each route runs on the session store, and other requests may
  run where it awaits something.  The service and the
  authority are functions of what the agent sends them (\<open>None\<close> where the fetch or the reading of its JSON throws).
\<close>

section \<open>Data\<close>

record AgentServerOptions =
  ag_agentIdentity :: signing_key
  ag_agentAddress :: address
  ag_authoritySharedSecret :: string
  ag_authorityAudience :: string

definition AGENT_MAX_BODY_BYTES :: nat where
  "AGENT_MAX_BODY_BYTES = 16 * 1024"

definition AGENT_MAX_EVIDENCE_BYTES :: nat where
  "AGENT_MAX_EVIDENCE_BYTES = 512 * 1024"

definition INVOCATION_ID_PATTERN :: "string \<Rightarrow> bool" where
  "INVOCATION_ID_PATTERN = identifier_pattern"

datatype DemoScenario = Honest | Overcharge | WrongRecipient | WrongAsset | LostResponse | DropCredential

definition DEMO_SCENARIOS :: "(string \<times> DemoScenario) list" where
  "DEMO_SCENARIOS = [(''honest'', Honest), (''overcharge'', Overcharge), (''wrong-recipient'', WrongRecipient),
     (''wrong-asset'', WrongAsset), (''lost-response'', LostResponse), (''drop-credential'', DropCredential)]"

record DemoInput =
  di_amountAtomic :: "string option"
  di_invocationId :: string
  di_scenario :: DemoScenario
  di_operation :: string
  di_datasetId :: string

text \<open>The quote is forwarded to the client as the object it arrived as.\<close>

record ServiceQuote =
  sq_quoteId :: string
  sq_service :: string
  sq_capability :: string
  sq_method :: string
  sq_resource :: string
  sq_network :: string
  sq_mint :: string
  sq_recipient :: string
  sq_amountAtomic :: string
  sq_value :: jsval

text \<open>\<open>HttpInputError\<close> with its status and reason code; any other error is answered with a 500.\<close>

datatype agent_error = AgentInputError int "string option" | AgentInternalError

section \<open>Parsing\<close>

definition QUOTE_FIELDS :: "string list" where
  "QUOTE_FIELDS = [''quoteId'', ''service'', ''capability'', ''method'', ''resource'', ''network'', ''mint'',
     ''recipient'', ''amountAtomic'']"

definition parseServiceQuote :: "jsval \<Rightarrow> agent_error + ServiceQuote" where
  "parseServiceQuote v =
     (if \<not> isPlainObject v then Inl AgentInternalError
      else if \<not> list_all (\<lambda>f. jstr_is (\<lambda>s. \<not> (length s = 0 \<or> length s > 256)) (jget v f)) QUOTE_FIELDS
      then Inl AgentInternalError
      else Inr \<lparr> sq_quoteId = jstr (jget v ''quoteId''), sq_service = jstr (jget v ''service''),
             sq_capability = jstr (jget v ''capability''), sq_method = jstr (jget v ''method''),
             sq_resource = jstr (jget v ''resource''), sq_network = jstr (jget v ''network''),
             sq_mint = jstr (jget v ''mint''), sq_recipient = jstr (jget v ''recipient''),
             sq_amountAtomic = jstr (jget v ''amountAtomic''), sq_value = v \<rparr>)"

text \<open>\<open>v ?? d\<close>\<close>

definition or_else :: "jsval \<Rightarrow> jsval \<Rightarrow> jsval" where
  "or_else v d = (if nullish v then d else v)"

definition parseDemoInput :: "string \<Rightarrow> jsval \<Rightarrow> agent_error + DemoInput" where
  "parseDemoInput uuid body =
     (let bad = Inl (AgentInputError 400 None) in
      if \<not> isPlainObject body then bad
      else if ''quotedPrice'' \<in> set (jkeys body) then bad
      else let amountAtomic = or_else (jget body ''amountAtomic'') JNull in
      if amountAtomic \<noteq> JNull \<and> \<not> jstr_is atomic_pattern amountAtomic then bad
      else let invocationId = or_else (jget body ''invocationId'') (JStr uuid) in
      if \<not> jstr_is INVOCATION_ID_PATTERN invocationId then bad
      else let scenario = or_else (jget body ''scenario'') (JStr ''honest'') in
      if \<not> jstr_is (\<lambda>s. s \<in> set (map fst DEMO_SCENARIOS)) scenario then bad
      else let operation = or_else (jget body ''operation'') (JStr ''summarize'');
               datasetId = or_else (jget body ''datasetId'') (JStr ''dataset-a'') in
      if \<not> (jstr_is (\<lambda>_. True) operation \<and> jstr_is (\<lambda>_. True) datasetId) then bad
      else Inr \<lparr> di_amountAtomic = (if amountAtomic = JNull then None else Some (jstr amountAtomic)),
             di_invocationId = jstr invocationId, di_scenario = the (map_of DEMO_SCENARIOS (jstr scenario)),
             di_operation = jstr operation, di_datasetId = jstr datasetId \<rparr>)"

definition readJson :: "platform \<Rightarrow> bytes list \<Rightarrow> agent_error + jsval" where
  "readJson px request =
     (case read_chunks AGENT_MAX_BODY_BYTES 0 [] request of
        None \<Rightarrow> Inl (AgentInputError 413 None)
      | Some chunks \<Rightarrow>
        if length chunks = 0 then Inr (JObj [])
        else case parseJson px (concat chunks) of None \<Rightarrow> Inl (AgentInputError 400 None) | Some v \<Rightarrow> Inr v)"

section \<open>Installing a permit\<close>

definition append_audit ::
  "nat \<Rightarrow> string \<times> int \<Rightarrow> string \<Rightarrow> string \<Rightarrow> string \<Rightarrow> jsval \<Rightarrow> session_store \<Rightarrow> session_store" where
  "append_audit i stamp type actor mandateId data =
     on_session i (\<lambda>s. s \<lparr> ss_audit := ss_audit s @ [\<lparr> ev_type = type, ev_actor = actor, ev_mandateId = mandateId,
       ev_data = data, ev_id = fst stamp, ev_timestamp = snd stamp \<rparr>] \<rparr>)"

definition installPermit ::
  "platform \<Rightarrow> AgentServerOptions \<Rightarrow> nat \<Rightarrow> jsval \<Rightarrow> session_store
     \<Rightarrow> (agent_error + permit_v2 signed) \<times> session_store" where
  "installPermit px opts i candidate st =
     (case verifyPurchasePermitV2 px candidate of
        Inl _ \<Rightarrow> (Inl (AgentInputError 400 None), st)
      | Inr permit \<Rightarrow>
        if pp_authorizedAgent (sg_body permit) \<noteq> ag_agentAddress opts then (Inl (AgentInputError 400 None), st)
        else case computePermitDigest px permit of
          None \<Rightarrow> (Inl AgentInternalError, st)
        | Some digest \<Rightarrow>
          (Inr permit, on_session i (\<lambda>s. s \<lparr> ss_installed := Some \<lparr> ip_permit = permit, ip_digest = digest \<rparr> \<rparr>) st))"

section \<open>Buying\<close>

text \<open>What the outside answers, the clock and the random values of one request, and what other requests do to the
  store while it awaits its body (\<open>gw_reading\<close>) or an answer (\<open>gw_others\<close>).\<close>

record agent_world =
  gw_quote :: "(int \<times> jsval option) option"
  gw_scenario :: "string \<Rightarrow> DemoScenario \<Rightarrow> int option"
  gw_authorize :: "jsval \<Rightarrow> (int \<times> jsval option) option"
  gw_evidence :: "string \<Rightarrow> (int \<times> string) option"
  gw_now :: int
  gw_pruned :: int
  gw_bytes :: bytes
  gw_uuid :: string
  gw_events :: "nat \<Rightarrow> string \<times> int"
  gw_reading :: "session_store \<Rightarrow> session_store"
  gw_others :: "session_store \<Rightarrow> session_store"

definition response_ok :: "int \<Rightarrow> bool" where
  "response_ok status \<longleftrightarrow> 200 \<le> status \<and> status < 300"

definition fetch_quote :: "agent_world \<Rightarrow> agent_error + ServiceQuote" where
  "fetch_quote w =
     (case gw_quote w of
        Some (status, Some v) \<Rightarrow> if \<not> response_ok status then Inl AgentInternalError else parseServiceQuote v
      | _ \<Rightarrow> Inl AgentInternalError)"

definition demo_operation :: "DemoInput \<Rightarrow> ServiceQuote \<Rightarrow> agent_error + ExactOperation" where
  "demo_operation input quote =
     (case validateExactOperation (JObj [(''method'', JStr (sq_method quote)), (''resource'', JStr (sq_resource quote)),
         (''operation'', JStr (di_operation input)), (''datasetId'', JStr (di_datasetId input))]) of
        Inl _ \<Rightarrow> Inl (AgentInputError 400 None) | Inr operation \<Rightarrow> Inr operation)"

definition setup_scenario :: "agent_world \<Rightarrow> DemoInput \<Rightarrow> agent_error + unit" where
  "setup_scenario w input =
     (if di_scenario input = Honest then Inr ()
      else case gw_scenario w (di_invocationId input) (di_scenario input) of
        None \<Rightarrow> Inl AgentInternalError
      | Some status \<Rightarrow> if \<not> response_ok status then Inl AgentInternalError else Inr ())"

definition demo_request ::
  "AgentServerOptions \<Rightarrow> InstalledPermit \<Rightarrow> DemoInput \<Rightarrow> ServiceQuote \<Rightarrow> ExactOperation \<Rightarrow> int \<Rightarrow> request_v2" where
  "demo_request opts installed input quote operation now =
     \<lparr> rq_audience = ag_authorityAudience opts, rq_grantId = pp_grantId (sg_body (ip_permit installed)),
       rq_permitDigest = ip_digest installed, rq_invocationId = di_invocationId input,
       rq_service = sq_service quote, rq_capability = sq_capability quote, rq_network = sq_network quote,
       rq_mint = sq_mint quote, rq_recipient = sq_recipient quote,
       rq_amountAtomic = (case di_amountAtomic input of None \<Rightarrow> sq_amountAtomic quote | Some a \<Rightarrow> a),
       rq_issuedAt = now, rq_operation = operation \<rparr>"

definition authorize_body :: "permit_v2 signed \<Rightarrow> request_v2 \<Rightarrow> string \<Rightarrow> jsval" where
  "authorize_body permit request signature =
     JObj [(''permit'', signed_permit_v2_json permit), (''authorizationRequest'', request_v2_json request),
       (''agentSignature'', signature_json signature)]"

text \<open>Everything before the authority is asked: the quote, the operation and the request, and the body to post.\<close>

definition prepare_demo ::
  "platform \<Rightarrow> AgentServerOptions \<Rightarrow> agent_world \<Rightarrow> InstalledPermit \<Rightarrow> DemoInput
     \<Rightarrow> agent_error + ServiceQuote \<times> ExactOperation \<times> jsval" where
  "prepare_demo px opts w installed input =
     sbind (fetch_quote w) (\<lambda>quote.
     sbind (demo_operation input quote) (\<lambda>operation.
     sbind (setup_scenario w input) (\<lambda>_.
       let request = demo_request opts installed input quote operation (gw_now w) in
       case signAuthorizationRequestV2 px request (ag_agentIdentity opts) of
         Inl _ \<Rightarrow> Inl AgentInternalError
       | Inr signature \<Rightarrow> Inr (quote, operation, authorize_body (ip_permit installed) request signature))))"

text \<open>The property read \<open>v.k\<close>, which throws on null and undefined.\<close>

definition read_property :: "jsval \<Rightarrow> string \<Rightarrow> jsval option" where
  "read_property v k = (if nullish v then None else Some (jget v k))"

record demo_answer =
  da_status :: jsval
  da_httpStatus :: "int option"
  da_invocationId :: string
  da_operation :: "ExactOperation option"
  da_quote :: "jsval option"
  da_authority :: "jsval option"
  da_authorization :: "jsval option"
  da_result :: "jsval option"
  da_audit :: "audit_event list"

definition audit_list :: "nat \<Rightarrow> session_store \<Rightarrow> audit_event list" where
  "audit_list i st = ss_audit (sn_objects st ! i)"

text \<open>A refusal of the authority.\<close>

definition relay_refusal ::
  "nat \<Rightarrow> DemoInput \<Rightarrow> ServiceQuote \<Rightarrow> ExactOperation \<Rightarrow> int \<Rightarrow> jsval \<Rightarrow> session_store
     \<Rightarrow> (agent_error + demo_answer) \<times> session_store" where
  "relay_refusal i input quote operation status refusal st =
     (case read_property refusal ''reasonCode'' of
        None \<Rightarrow> (Inl AgentInternalError, st)
      | Some reasonCode \<Rightarrow>
        let st = (if reasonCode = JStr ''RECONCILIATION_REQUIRED'' then markDecided i (di_invocationId input) st else st) in
        (Inr \<lparr> da_status = or_else reasonCode (JStr ''REFUSED''), da_httpStatus = Some status,
               da_invocationId = di_invocationId input, da_operation = Some operation, da_quote = Some (sq_value quote),
               da_authority = Some refusal, da_authorization = None, da_result = None,
               da_audit = audit_list i st \<rparr>, st))"

text \<open>A decision of the authority.  Reading the members of a decision that has no receipt throws, after the
  invocation was marked.\<close>

definition relay_decision ::
  "agent_world \<Rightarrow> nat \<Rightarrow> permit_v2 \<Rightarrow> DemoInput \<Rightarrow> ServiceQuote \<Rightarrow> ExactOperation \<Rightarrow> jsval \<Rightarrow> session_store
     \<Rightarrow> (agent_error + demo_answer) \<times> session_store" where
  "relay_decision w i permit input quote operation authorization st =
     (let st = markDecided i (di_invocationId input) st in
      case Option.bind (read_property authorization ''receipt'') (\<lambda>receipt. read_property receipt ''reasonCodes'') of
        None \<Rightarrow> (Inl AgentInternalError, st)
      | Some reasonCodes \<Rightarrow>
        let st = append_audit i (gw_events w 0) ''authority.decision'' (pp_authorizedAgent permit) (pp_grantId permit)
              (JObj [(''decision'', jget authorization ''decision''), (''reasonCodes'', reasonCodes),
                 (''invocationId'', JStr (di_invocationId input)), (''replay'', jget authorization ''replay'')]) st;
            answer = \<lparr> da_status = JStr ''DENIED'', da_httpStatus = None, da_invocationId = di_invocationId input,
              da_operation = Some operation, da_quote = Some (sq_value quote), da_authority = None,
              da_authorization = Some authorization, da_result = None, da_audit = audit_list i st \<rparr> in
        if jget authorization ''decision'' \<noteq> JStr ''ALLOW'' then (Inr answer, st)
        else
          let st = append_audit i (gw_events w 1) ''service.completed'' (pp_authorizedAgent permit) (pp_grantId permit)
                (JObj [(''service'', JStr (sq_service quote)),
                   (''transactionId'', or_else (jget (jget authorization ''payment'') ''transactionId'') JNull)]) st in
          (Inr (answer \<lparr> da_status := JStr (if jtruthy (jget authorization ''replay'') then ''REPLAYED'' else ''COMPLETED''),
                  da_result := Some (jget authorization ''result''), da_audit := audit_list i st \<rparr>), st))"

definition runDemo ::
  "platform \<Rightarrow> AgentServerOptions \<Rightarrow> SessionStoreOptions \<Rightarrow> agent_world \<Rightarrow> nat \<Rightarrow> DemoInput \<Rightarrow> session_store
     \<Rightarrow> (agent_error + demo_answer) \<times> session_store" where
  "runDemo px opts sopts w i input st =
     (case ss_installed (sn_objects st ! i) of
        None \<Rightarrow>
          (Inr \<lparr> da_status = JStr ''NO_PERMIT'', da_httpStatus = Some 409, da_invocationId = di_invocationId input,
                 da_operation = None, da_quote = None, da_authority = None, da_authorization = None, da_result = None,
                 da_audit = [] \<rparr>, st)
      | Some _ \<Rightarrow>
        (case claimInvocation sopts i (di_invocationId input) st of
           (Foreign, st) \<Rightarrow> (Inl (AgentInputError 409 (Some ''INVOCATION_NOT_AVAILABLE'')), st)
         | (Limit, st) \<Rightarrow> (Inl (AgentInputError 429 (Some ''SESSION_INVOCATION_LIMIT'')), st)
         | (_, st) \<Rightarrow>
           (case ss_installed (sn_objects st ! i) of
              None \<Rightarrow> (Inl AgentInternalError, st)
            | Some installed \<Rightarrow>
              (case prepare_demo px opts w installed input of
                 Inl e \<Rightarrow> (Inl e, gw_others w st)
               | Inr (quote, operation, body) \<Rightarrow>
                 (case gw_authorize w body of
                    None \<Rightarrow> (Inl AgentInternalError, gw_others w st)
                  | Some (status, answer) \<Rightarrow>
                    if status \<in> {401, 403, 409, 502} then
                      (case answer of None \<Rightarrow> (Inl AgentInternalError, gw_others w st)
                       | Some refusal \<Rightarrow> relay_refusal i input quote operation status refusal (gw_others w st))
                    else if \<not> response_ok status then (Inl AgentInternalError, gw_others w st)
                    else (case answer of None \<Rightarrow> (Inl AgentInternalError, gw_others w st)
                      | Some authorization \<Rightarrow>
                        relay_decision w i (sg_body (ip_permit installed)) input quote operation authorization
                          (gw_others w st)))))))"

section \<open>Routes\<close>

datatype agent_payload =
    AgentHealth
  | AgentIdentity address
  | SessionPayload string int
  | PermitPayload "permit_v2 signed option"
  | InstalledPayload "permit_v2 signed"
  | EvidencePayload string
  | DemoPayload demo_answer
  | AgentErrorPayload "string option"
  | NoPayload

fun agent_error_reply :: "agent_error \<Rightarrow> int \<times> agent_payload" where
  "agent_error_reply (AgentInputError status reasonCode) = (status, AgentErrorPayload reasonCode)"
| "agent_error_reply AgentInternalError = (500, AgentErrorPayload None)"

definition requireSession :: "platform \<Rightarrow> agent_world \<Rightarrow> http_request \<Rightarrow> session_store \<Rightarrow> (agent_error + nat) \<times> session_store" where
  "requireSession px w request st =
     (case authenticate_session px (gw_pruned w) (hr_authorization request) st of
        (None, st) \<Rightarrow> (Inl (AgentInputError 401 (Some ''SESSION_REQUIRED'')), st)
      | (Some i, st) \<Rightarrow> (Inr i, st))"

text \<open>A route that needs a session.\<close>

definition with_session ::
  "platform \<Rightarrow> agent_world \<Rightarrow> http_request
     \<Rightarrow> (nat \<Rightarrow> session_store \<Rightarrow> (agent_error + int \<times> agent_payload) \<times> session_store)
     \<Rightarrow> session_store \<Rightarrow> (int \<times> agent_payload) \<times> session_store" where
  "with_session px w request route st =
     (case requireSession px w request st of
        (Inl e, st) \<Rightarrow> (agent_error_reply e, st)
      | (Inr i, st) \<Rightarrow>
        (case route i st of (Inl e, st) \<Rightarrow> (agent_error_reply e, st) | (Inr reply, st) \<Rightarrow> (reply, st)))"

definition get_permit :: "nat \<Rightarrow> session_store \<Rightarrow> (agent_error + int \<times> agent_payload) \<times> session_store" where
  "get_permit i st =
     (let installed = ss_installed (sn_objects st ! i) in
      (Inr (if installed = None then 404 else 200, PermitPayload (map_option ip_permit installed)), st))"

definition post_permit ::
  "platform \<Rightarrow> AgentServerOptions \<Rightarrow> agent_world \<Rightarrow> http_request \<Rightarrow> nat \<Rightarrow> session_store
     \<Rightarrow> (agent_error + int \<times> agent_payload) \<times> session_store" where
  "post_permit px opts w request i st =
     (let st = gw_reading w st in
      case readJson px (hr_chunks request) of
        Inl e \<Rightarrow> (Inl e, st)
      | Inr body \<Rightarrow>
        (case installPermit px opts i (jget body ''permit'') st of
           (Inl e, st) \<Rightarrow> (Inl e, st)
         | (Inr permit, st) \<Rightarrow>
           (Inr (200, InstalledPayload permit),
            append_audit i (gw_events w 0) ''permit.installed'' (ag_agentAddress opts) (pp_grantId (sg_body permit))
              (JObj [(''issuer'', JStr (pp_issuer (sg_body permit))),
                 (''operation'', JStr (op_operation (pp_operation (sg_body permit)))),
                 (''datasetId'', JStr (op_datasetId (pp_operation (sg_body permit))))]) st)))"

definition get_evidence ::
  "agent_world \<Rightarrow> http_request \<Rightarrow> nat \<Rightarrow> session_store \<Rightarrow> (agent_error + int \<times> agent_payload) \<times> session_store" where
  "get_evidence w request i st =
     (case decodeURIComponent (drop (length ''/evidence/'') (hr_url request)) of
        None \<Rightarrow> (Inl (AgentInputError 400 None), st)
      | Some x \<Rightarrow>
        if \<not> INVOCATION_ID_PATTERN x then (Inl (AgentInputError 400 None), st)
        else if \<not> canReadEvidence i x st then (Inl (AgentInputError 404 (Some ''EVIDENCE_NOT_AVAILABLE'')), st)
        else case gw_evidence w (''/evidence/'' @ encodeURIComponent x) of
          None \<Rightarrow> (Inl AgentInternalError, gw_others w st)
        | Some (status, text) \<Rightarrow>
          if length text > AGENT_MAX_EVIDENCE_BYTES then (Inl AgentInternalError, gw_others w st)
          else (Inr (status, EvidencePayload text), gw_others w st))"

definition post_demo ::
  "platform \<Rightarrow> AgentServerOptions \<Rightarrow> SessionStoreOptions \<Rightarrow> agent_world \<Rightarrow> http_request \<Rightarrow> nat \<Rightarrow> session_store
     \<Rightarrow> (agent_error + int \<times> agent_payload) \<times> session_store" where
  "post_demo px opts sopts w request i st =
     (let st = gw_reading w st in
      case sbind (readJson px (hr_chunks request)) (parseDemoInput (gw_uuid w)) of
        Inl e \<Rightarrow> (Inl e, st)
      | Inr input \<Rightarrow>
        (case runDemo px opts sopts w i input st of
           (Inl e, st) \<Rightarrow> (Inl e, st)
         | (Inr answer, st) \<Rightarrow>
           (Inr (case da_httpStatus answer of Some status \<Rightarrow> status
                  | None \<Rightarrow> if da_status answer = JStr ''DENIED'' then 403 else 200, DemoPayload answer), st)))"

definition agent_server ::
  "platform \<Rightarrow> AgentServerOptions \<Rightarrow> SessionStoreOptions \<Rightarrow> agent_world \<Rightarrow> http_request \<Rightarrow> session_store
     \<Rightarrow> (int \<times> agent_payload) \<times> session_store" where
  "agent_server px opts sopts w request st =
     (let method = hr_method request; url = hr_url request in
      if method = ''OPTIONS'' then ((204, NoPayload), st)
      else if method = ''GET'' \<and> url = ''/health'' then ((200, AgentHealth), st)
      else if method = ''GET'' \<and> url = ''/identity'' then ((200, AgentIdentity (ag_agentAddress opts)), st)
      else if method = ''POST'' \<and> url = ''/session'' then
        (case create_session px sopts (gw_pruned w) (gw_now w) (gw_bytes w) st of
           ((token, i), st) \<Rightarrow> ((201, SessionPayload token (ss_expiresAt (sn_objects st ! i))), st))
      else if method = ''GET'' \<and> url = ''/permit'' then with_session px w request get_permit st
      else if method = ''POST'' \<and> url = ''/permit'' then with_session px w request (post_permit px opts w request) st
      else if method = ''GET'' \<and> starts_with url ''/evidence/'' then with_session px w request (get_evidence w request) st
      else if method = ''POST'' \<and> url = ''/demo'' then with_session px w request (post_demo px opts sopts w request) st
      else ((404, AgentErrorPayload None), st))"

end
