(* ===== verification/Agent_Sessions_Inv.thy ===== *)
theory Agent_Sessions_Inv
  imports Agent_Sessions
begin

text \<open>
  The invariant of the agent's sessions over every interleaving of its operations, and what it gives: who may
  read the evidence of an invocation, and for how long an invocation stays with its session.
\<close>

section \<open>Maps in insertion order\<close>

declare map_of_eq_Some_iff [simp del] map_of_eq_None_iff [simp del]

lemma map_of_map_set [simp]: "map_of (map_set k v kvs) y = (if y = k then Some v else map_of kvs y)"
  by (induction k v kvs rule: map_set.induct) auto

lemma fst_map_set: "fst ` set (map_set k v kvs) = insert k (fst ` set kvs)"
  by (induction k v kvs rule: map_set.induct) auto

lemma distinct_map_set [simp]: "distinct (map fst (map_set k v kvs)) = distinct (map fst kvs)"
  by (induction k v kvs rule: map_set.induct) (auto simp: fst_map_set)

lemma length_map_set: "length (map_set k v kvs) = (if map_of kvs k = None then Suc (length kvs) else length kvs)"
  by (induction k v kvs rule: map_set.induct) auto

lemma map_of_map_delete [simp]: "map_of (map_delete k kvs) y = (if y = k then None else map_of kvs y)"
  by (induction kvs) (auto simp: map_delete_def)

lemma distinct_map_delete [simp]: "distinct (map fst kvs) \<Longrightarrow> distinct (map fst (map_delete k kvs))"
  by (induction kvs) (auto simp: map_delete_def)

lemma length_map_delete: "length (map_delete k kvs) \<le> length kvs"
  by (simp add: map_delete_def)

lemma map_of_drop_owners: "map_of (drop_owners bound owners) y \<in> {None, map_of owners y}"
proof (induction bound owners rule: drop_owners.induct)
  case (1 bound owners)
  show ?case
  proof (cases "length owners \<le> bound")
    case False
    then obtain k v kvs where o: "owners = (k, v) # kvs" by (cases owners) auto
    from 1 [OF False o refl] False show ?thesis by (subst drop_owners.simps) (auto simp: o split: if_splits)
  qed (simp add: drop_owners.simps)
qed

lemma distinct_drop_owners: "distinct (map fst owners) \<Longrightarrow> distinct (map fst (drop_owners bound owners))"
proof (induction bound owners rule: drop_owners.induct)
  case (1 bound owners)
  then show ?case by (subst drop_owners.simps) (auto split: list.split)
qed

lemma length_drop_owners: "distinct (map fst owners) \<Longrightarrow> length (drop_owners bound owners) = min bound (length owners)"
proof (induction bound owners rule: drop_owners.induct)
  case (1 bound owners)
  show ?case
  proof (cases "length owners \<le> bound")
    case False
    then obtain k v kvs where o: "owners = (k, v) # kvs" by (cases owners) auto
    have "map_delete k owners = kvs" using 1(2) by (auto simp: o map_delete_def filter_id_conv image_iff)
    then show ?thesis using 1(1) [OF False o refl] 1(2) False by (subst drop_owners.simps) (auto simp: o)
  qed (simp add: drop_owners.simps)
qed

lemma map_of_retire:
  "map_of (retire key xs owners) y = (if y \<in> set xs \<and> map_of owners y = Some key then Some RETIRED else map_of owners y)"
  by (induction key xs owners rule: retire.induct) auto

lemma distinct_retire [simp]: "distinct (map fst (retire key xs owners)) = distinct (map fst owners)"
  by (induction key xs owners rule: retire.induct) auto

lemma length_retire [simp]: "length (retire key xs owners) = length owners"
  by (induction key xs owners rule: retire.induct) (auto simp: length_map_set)

section \<open>The invariant\<close>

definition holder :: "Session list \<Rightarrow> string list \<Rightarrow> string \<Rightarrow> string \<Rightarrow> bool" where
  "holder objects keys x k \<longleftrightarrow> (\<exists>i < length objects. keys ! i = k \<and> x \<in> set (ss_invocations (objects ! i)))"

definition owners_held :: "Session list \<Rightarrow> string list \<Rightarrow> (string \<times> string) list \<Rightarrow> bool" where
  "owners_held objects keys owners \<longleftrightarrow> (\<forall>x k. map_of owners x = Some k \<longrightarrow> k = RETIRED \<or> holder objects keys x k)"

lemma owners_heldD: "owners_held objects keys owners \<Longrightarrow> map_of owners x = Some k \<Longrightarrow> k = RETIRED \<or> holder objects keys x k"
  by (simp add: owners_held_def)

lemma owners_held_retire: "owners_held objects keys owners \<Longrightarrow> owners_held objects keys (retire key xs owners)"
  unfolding owners_held_def map_of_retire by (simp split: if_split)

lemma holder_append: "holder objects keys x k \<Longrightarrow> length keys = length objects \<Longrightarrow> holder (objects @ [s]) (keys @ [k']) x k"
  unfolding holder_def by (auto simp: nth_append intro: less_SucI)

lemma owners_held_append:
  "owners_held objects keys owners \<Longrightarrow> length keys = length objects \<Longrightarrow> owners_held (objects @ [s]) (keys @ [k']) owners"
  unfolding owners_held_def using holder_append by blast

text \<open>The session that owns an invocation has it among its own; only its own invocations are decided.\<close>

definition sessions_ok :: "SessionStoreOptions \<Rightarrow> session_store \<Rightarrow> bool" where
  "sessions_ok opts st \<longleftrightarrow>
     length (sn_keys st) = length (sn_objects st) \<and> distinct (sn_keys st) \<and> RETIRED \<notin> set (sn_keys st)
     \<and> distinct (map fst (sn_sessions st)) \<and> length (sn_sessions st) \<le> max 1 (so_maxSessions opts)
     \<and> list_all (\<lambda>(k, i). i < length (sn_objects st) \<and> sn_keys st ! i = k) (sn_sessions st)
     \<and> distinct (map fst (sn_owners st)) \<and> length (sn_owners st) \<le> so_maxOwned opts
     \<and> list_all (\<lambda>s. length (ss_invocations s) \<le> so_maxInvocations opts \<and> set (ss_decided s) \<subseteq> set (ss_invocations s))
         (sn_objects st)
     \<and> owners_held (sn_objects st) (sn_keys st) (sn_owners st)"

text \<open>Everything the server does to the store; a new token's digest is new (\<open>randomBytes\<close> and SHA-256).\<close>

inductive session_step :: "platform \<Rightarrow> SessionStoreOptions \<Rightarrow> session_store \<Rightarrow> session_store \<Rightarrow> bool" for px opts where
  create: "token_digest px (base64url_encode bytes) \<notin> insert RETIRED (set (sn_keys st))
    \<Longrightarrow> session_step px opts st (snd (create_session px opts t t' bytes st))"
| find: "session_step px opts st (snd (authenticate_session px t h st))"
| count: "session_step px opts st (snd (live_sessions t st))"
| install: "session_step px opts st (on_session i (\<lambda>s. s \<lparr> ss_installed := p \<rparr>) st)"
| log: "session_step px opts st (on_session i (\<lambda>s. s \<lparr> ss_audit := ss_audit s @ [ev] \<rparr>) st)"
| claim: "session_step px opts st (snd (claimInvocation opts i x st))"
| decide: "session_step px opts st (markDecided i x st)"

abbreviation session_steps :: "platform \<Rightarrow> SessionStoreOptions \<Rightarrow> session_store \<Rightarrow> session_store \<Rightarrow> bool" where
  "session_steps px opts \<equiv> (session_step px opts)\<^sup>*\<^sup>*"

lemma sessions_ok_empty: "sessions_ok opts empty_sessions"
  by (simp add: sessions_ok_def empty_sessions_def owners_held_def)

lemma sessions_ok_evict: "sessions_ok opts st \<Longrightarrow> sessions_ok opts (evict key st)"
proof (cases "map_of (sn_sessions st) key")
  case (Some i)
  assume ok: "sessions_ok opts st"
  have "list_all P (map_delete key kvs)" if "list_all P kvs" for P kvs
    using that by (simp add: map_delete_def list_all_iff)
  with ok Some show ?thesis
    using order.trans [OF length_map_delete [of key "sn_sessions st"]]
    by (auto simp: sessions_ok_def evict_def owners_held_retire)
qed (simp add: evict_def)

lemma sessions_ok_prune_each: "sessions_ok opts st \<Longrightarrow> sessions_ok opts (prune_each now kvs st)"
  by (induction now kvs st rule: prune_each.induct) (simp_all add: sessions_ok_evict)

lemma sessions_ok_prune: "sessions_ok opts st \<Longrightarrow> sessions_ok opts (prune now st)"
  by (simp add: prune_def sessions_ok_prune_each)

lemma evict_oldest_ok:
  "sessions_ok opts st \<Longrightarrow> sessions_ok opts (evict_oldest bound st)
     \<and> (length (sn_sessions (evict_oldest bound st)) < bound \<or> sn_sessions (evict_oldest bound st) = [])"
proof (induction bound st rule: evict_oldest.induct)
  case (1 bound st)
  then show ?case by (subst (1 2 3) evict_oldest.simps) (auto split: list.split simp: sessions_ok_evict)
qed

lemma evict_objects [simp]: "sn_objects (evict key st) = sn_objects st" "sn_keys (evict key st) = sn_keys st"
  by (simp_all add: evict_def split: option.split)

lemma prune_each_objects [simp]:
  "sn_objects (prune_each now kvs st) = sn_objects st" "sn_keys (prune_each now kvs st) = sn_keys st"
  by (induction now kvs st rule: prune_each.induct) simp_all

lemma prune_objects [simp]: "sn_objects (prune now st) = sn_objects st" "sn_keys (prune now st) = sn_keys st"
  by (simp_all add: prune_def)

lemma evict_oldest_objects [simp]:
  "sn_objects (evict_oldest bound st) = sn_objects st \<and> sn_keys (evict_oldest bound st) = sn_keys st"
proof (induction bound st rule: evict_oldest.induct)
  case (1 bound st)
  then show ?case by (subst (1 2) evict_oldest.simps) (auto split: list.split)
qed

lemma sessions_ok_on_session:
  assumes "sessions_ok opts st" "\<And>s. ss_invocations (f s) = ss_invocations s"
    and "\<And>s. set (ss_decided s) \<subseteq> set (ss_invocations s) \<Longrightarrow> i < length (sn_objects st) \<Longrightarrow> s = sn_objects st ! i
      \<Longrightarrow> set (ss_decided (f s)) \<subseteq> set (ss_invocations s)"
  shows "sessions_ok opts (on_session i f st)"
proof (cases "i < length (sn_objects st)")
  case True
  let ?s = "sn_objects st ! i"
  have f: "length (ss_invocations (f ?s)) \<le> so_maxInvocations opts \<and> set (ss_decided (f ?s)) \<subseteq> set (ss_invocations (f ?s))"
    using assms True by (simp add: sessions_ok_def list_all_length)
  have inv: "ss_invocations ((sn_objects st)[i := f ?s] ! j) = ss_invocations (sn_objects st ! j)" for j
    using True assms(2) by (cases "j = i") simp_all
  have "list_all (\<lambda>s. length (ss_invocations s) \<le> so_maxInvocations opts \<and> set (ss_decided s) \<subseteq> set (ss_invocations s))
      ((sn_objects st)[i := f ?s])"
    using assms(1) f True by (auto simp: sessions_ok_def list_all_length nth_list_update)
  then show ?thesis using assms(1) unfolding sessions_ok_def on_session_def by (simp add: owners_held_def holder_def inv)
next
  case False
  then have "on_session i f st = st" by (simp add: on_session_def list_update_beyond)
  with assms(1) show ?thesis by simp
qed

lemma sessions_ok_create:
  assumes "sessions_ok opts st" "token_digest px (base64url_encode bytes) \<notin> insert RETIRED (set (sn_keys st))"
  shows "sessions_ok opts (snd (create_session px opts t t' bytes st))"
proof -
  let ?st = "evict_oldest (so_maxSessions opts) (prune t st)" and ?key = "token_digest px (base64url_encode bytes)"
  have ok: "sessions_ok opts ?st" "length (sn_sessions ?st) < so_maxSessions opts \<or> sn_sessions ?st = []"
    using evict_oldest_ok [OF sessions_ok_prune [OF assms(1)], of "so_maxSessions opts" t] by simp_all
  have new: "?key \<notin> set (sn_keys ?st)" "?key \<noteq> RETIRED" using assms(2) by simp_all
  have "set (map_set ?key i kvs) \<subseteq> insert (?key, i) (set kvs)" for i :: nat and kvs
    by (induction ?key i kvs rule: map_set.induct) auto
  then have live: "list_all P (map_set ?key i kvs)" if "P (?key, i)" "list_all P kvs" for P and i :: nat and kvs
    using that by (fastforce simp: list_all_iff)
  have short: "length (map_set ?key i (sn_sessions ?st)) \<le> max 1 (so_maxSessions opts)" for i
    using ok(2) by (auto simp: length_map_set)
  show ?thesis
    using ok(1) new short unfolding create_session_def Let_def
    by (auto simp: sessions_ok_def nth_append less_Suc_eq intro!: live owners_held_append elim!: list.pred_mono_strong)
qed

lemma sessions_ok_claim:
  assumes ok: "sessions_ok opts st"
  shows "sessions_ok opts (snd (claimInvocation opts i x st))"
proof (cases "fst (claimInvocation opts i x st) = Claimed")
  case True
  then have i: "i < length (sn_objects st)" "map_of (sn_owners st) x = None"
      "length (ss_invocations (sn_objects st ! i)) < so_maxInvocations opts"
    using ok by (auto simp: claimInvocation_def Let_def key_of_def sessions_ok_def split: option.splits if_splits)
  let ?f = "\<lambda>s. s \<lparr> ss_invocations := set_add x (ss_invocations s) \<rparr>"
  let ?objects = "(sn_objects st)[i := ?f (sn_objects st ! i)]"
    and ?owners = "drop_owners (so_maxOwned opts) (map_set x (sn_keys st ! i) (sn_owners st))"
  have st': "snd (claimInvocation opts i x st) = st \<lparr> sn_objects := ?objects, sn_owners := ?owners \<rparr>"
    using True i ok by (auto simp: claimInvocation_def Let_def key_of_def on_session_def sessions_ok_def split: option.splits if_splits)
  have add: "set (set_add x xs) = insert x (set xs)" "length (set_add x xs) \<le> Suc (length xs)" for xs
    by (auto simp: set_add_def)
  have more: "set (ss_invocations (sn_objects st ! j)) \<subseteq> set (ss_invocations (?objects ! j))" for j
    using i(1) add by (cases "j = i") auto
  have "list_all (\<lambda>s. length (ss_invocations s) \<le> so_maxInvocations opts \<and> set (ss_decided s) \<subseteq> set (ss_invocations s)) ?objects"
    using ok i add [of "ss_invocations (sn_objects st ! i)"]
    by (auto simp: sessions_ok_def list_all_length nth_list_update)
  moreover have "k = RETIRED \<or> holder ?objects (sn_keys st) y k" if "map_of ?owners y = Some k" for y k
  proof -
    from that map_of_drop_owners [of "so_maxOwned opts" "map_set x (sn_keys st ! i) (sn_owners st)" y]
    have "map_of (map_set x (sn_keys st ! i) (sn_owners st)) y = Some k" by simp
    then consider "y = x" "k = sn_keys st ! i" | "map_of (sn_owners st) y = Some k" by (cases "y = x") simp_all
    then show ?thesis
    proof cases
      case 1
      with i(1) add show ?thesis unfolding holder_def by (intro disjI2 exI [of _ i]) simp
    next
      case 2
      then have "k = RETIRED \<or> holder (sn_objects st) (sn_keys st) y k" using ok owners_heldD by (simp only: sessions_ok_def) blast
      with more show ?thesis by (fastforce simp: holder_def)
    qed
  qed
  then have "owners_held ?objects (sn_keys st) ?owners" unfolding owners_held_def by blast
  ultimately show ?thesis
    using ok unfolding st' sessions_ok_def by (simp add: distinct_drop_owners length_drop_owners)
next
  case False
  then have "snd (claimInvocation opts i x st) = st"
    by (auto simp: claimInvocation_def Let_def split: option.splits if_splits)
  with ok show ?thesis by simp
qed

lemma sessions_ok_decide:
  assumes ok: "sessions_ok opts st"
  shows "sessions_ok opts (markDecided i x st)"
proof (cases "map_of (sn_owners st) x = key_of st i")
  case True
  have "x \<in> set (ss_invocations (sn_objects st ! i))" if i: "i < length (sn_objects st)"
  proof -
    have "sn_keys st ! i \<in> set (sn_keys st)" "RETIRED \<notin> set (sn_keys st)" using i ok by (simp_all add: sessions_ok_def)
    then have "sn_keys st ! i \<noteq> RETIRED" by metis
    moreover have "map_of (sn_owners st) x = Some (sn_keys st ! i)" using True i ok by (simp add: key_of_def sessions_ok_def)
    ultimately have "holder (sn_objects st) (sn_keys st) x (sn_keys st ! i)"
      using ok owners_heldD unfolding sessions_ok_def by blast
    then obtain j where j: "j < length (sn_objects st)" "sn_keys st ! j = sn_keys st ! i" "x \<in> set (ss_invocations (sn_objects st ! j))"
      by (auto simp: holder_def)
    with i ok nth_eq_iff_index_eq [of "sn_keys st" j i] have "j = i" by (simp add: sessions_ok_def)
    with j(3) show ?thesis by simp
  qed
  moreover have "set (set_add x xs) = insert x (set xs)" for xs by (auto simp: set_add_def)
  ultimately have "sessions_ok opts (on_session i (\<lambda>s. s \<lparr> ss_decided := set_add x (ss_decided s) \<rparr>) st)"
    by (intro sessions_ok_on_session [OF ok]) simp_all
  with True show ?thesis by (simp add: markDecided_def)
qed (simp add: markDecided_def ok)

lemma sessions_ok_step: "session_step px opts st st' \<Longrightarrow> sessions_ok opts st \<Longrightarrow> sessions_ok opts st'"
proof (induction rule: session_step.induct)
  case (find st t h)
  then show ?case
    by (auto simp: authenticate_session_def Let_def sessions_ok_prune split: option.split)
next
  case (count st t)
  then show ?case by (simp add: live_sessions_def Let_def sessions_ok_prune)
qed (simp_all add: sessions_ok_create sessions_ok_claim sessions_ok_decide, (rule sessions_ok_on_session; simp)+)

lemma sessions_ok_steps: "session_steps px opts st st' \<Longrightarrow> sessions_ok opts st \<Longrightarrow> sessions_ok opts st'"
  by (induction rule: rtranclp_induct) (auto intro: sessions_ok_step)

section \<open>Who owns an invocation\<close>

lemma readable_owned:
  assumes "sessions_ok opts st" "canReadEvidence i x st"
  shows "i < length (sn_objects st)" "map_of (sn_owners st) x = Some (sn_keys st ! i)" "x \<in> set (ss_invocations (sn_objects st ! i))"
proof -
  show i: "i < length (sn_objects st)" and "map_of (sn_owners st) x = Some (sn_keys st ! i)"
    using assms by (auto simp: canReadEvidence_def key_of_def sessions_ok_def split: if_splits)
  have "x \<in> set (ss_decided (sn_objects st ! i))"
    using assms(2) by (auto simp: canReadEvidence_def split: option.splits)
  then show "x \<in> set (ss_invocations (sn_objects st ! i))"
    using assms(1) i by (auto simp: sessions_ok_def list_all_length)
qed

lemma claim_foreign:
  assumes "sessions_ok opts st" "map_of (sn_owners st) x = Some k" "key_of st j \<noteq> Some k"
  shows "fst (claimInvocation opts j x st) = Foreign"
  using assms by (auto simp: claimInvocation_def Let_def split: option.split)

lemma other_key:
  assumes "sessions_ok opts st" "i < length (sn_objects st)" "j \<noteq> i"
  shows "key_of st j \<noteq> Some (sn_keys st ! i)"
  using assms nth_eq_iff_index_eq [of "sn_keys st" j i] by (auto simp: key_of_def sessions_ok_def)

text \<open>Ownership only moves forward as long as the map of owners has not been full.\<close>

definition owners_kept :: "SessionStoreOptions \<Rightarrow> session_store \<Rightarrow> session_store \<Rightarrow> bool" where
  "owners_kept opts st st' \<longleftrightarrow> length (sn_owners st) \<le> length (sn_owners st')
     \<and> (length (sn_owners st') < so_maxOwned opts \<longrightarrow>
          (\<forall>x k. map_of (sn_owners st) x = Some k \<longrightarrow> map_of (sn_owners st') x \<in> {Some k, Some RETIRED}))"

lemma owners_kept_refl [simp]: "owners_kept opts st st"
  by (simp add: owners_kept_def)

lemma owners_kept_trans:
  assumes "owners_kept opts a b" "owners_kept opts b c"
  shows "owners_kept opts a c"
proof -
  have "map_of (sn_owners c) x \<in> {Some k, Some RETIRED}"
    if full: "length (sn_owners c) < so_maxOwned opts" and x: "map_of (sn_owners a) x = Some k" for x k
  proof -
    have "length (sn_owners b) < so_maxOwned opts" using assms(2) full by (simp add: owners_kept_def)
    then have "map_of (sn_owners b) x \<in> {Some k, Some RETIRED}" using assms(1) x by (simp add: owners_kept_def)
    then consider "map_of (sn_owners b) x = Some k" | "map_of (sn_owners b) x = Some RETIRED" by blast
    then show ?thesis using assms(2) full by cases (auto simp: owners_kept_def)
  qed
  with assms show ?thesis by (simp add: owners_kept_def)
qed

lemma owners_kept_evict: "owners_kept opts st (evict key st)"
  by (auto simp: owners_kept_def evict_def map_of_retire split: option.split)

lemma owners_kept_prune_each: "owners_kept opts st (prune_each now kvs st)"
proof (induction now kvs st rule: prune_each.induct)
  case (2 now key i kvs st)
  then show ?case using owners_kept_trans [OF owners_kept_evict] by (cases "ss_expiresAt (sn_objects st ! i) \<le> now") simp_all
qed simp

lemma owners_kept_evict_oldest: "owners_kept opts st (evict_oldest bound st)"
proof (induction bound st rule: evict_oldest.induct)
  case (1 bound st)
  show ?case
  proof (cases "length (sn_sessions st) < bound \<or> sn_sessions st = []")
    case False
    then obtain key i kvs where s: "sn_sessions st = (key, i) # kvs" by (cases "sn_sessions st") auto
    have "evict_oldest bound st = evict_oldest bound (evict key st)" using False s by (subst evict_oldest.simps) simp
    moreover have "owners_kept opts (evict key st) (evict_oldest bound (evict key st))" using 1 False s by simp
    ultimately show ?thesis using owners_kept_trans [OF owners_kept_evict] by metis
  next
    case True
    then have "evict_oldest bound st = st" by (subst evict_oldest.simps) (auto split: list.split)
    then show ?thesis by simp
  qed
qed

lemma owners_kept_claim:
  assumes "sessions_ok opts st"
  shows "owners_kept opts st (snd (claimInvocation opts i x st))"
proof (cases "fst (claimInvocation opts i x st) = Claimed")
  case True
  then obtain k where k: "map_of (sn_owners st) x = None"
      "sn_owners (snd (claimInvocation opts i x st)) = drop_owners (so_maxOwned opts) (map_set x k (sn_owners st))"
    by (auto simp: claimInvocation_def Let_def on_session_def split: option.splits if_splits)
  have "distinct (map fst (sn_owners st))" "length (sn_owners st) \<le> so_maxOwned opts" using assms by (simp_all add: sessions_ok_def)
  then have len: "length (sn_owners (snd (claimInvocation opts i x st))) = min (so_maxOwned opts) (Suc (length (sn_owners st)))"
      "length (sn_owners st) \<le> so_maxOwned opts"
    using k by (simp_all add: length_drop_owners length_map_set)
  show ?thesis
  proof (cases "Suc (length (sn_owners st)) \<le> so_maxOwned opts")
    case True
    then have "sn_owners (snd (claimInvocation opts i x st)) = map_set x k (sn_owners st)"
      unfolding k(2) by (subst drop_owners.simps) (simp add: length_map_set k(1))
    then show ?thesis using k(1) by (auto simp: owners_kept_def length_map_set)
  qed (use len in \<open>simp add: owners_kept_def\<close>)
next
  case False
  then have "snd (claimInvocation opts i x st) = st"
    by (auto simp: claimInvocation_def Let_def split: option.splits if_splits)
  then show ?thesis by simp
qed

lemma owners_kept_step: "session_step px opts st st' \<Longrightarrow> sessions_ok opts st \<Longrightarrow> owners_kept opts st st'"
proof (induction rule: session_step.induct)
  case (create bytes st t t')
  have "owners_kept opts st (evict_oldest (so_maxSessions opts) (prune t st))"
    using owners_kept_trans [OF owners_kept_prune_each owners_kept_evict_oldest] by (simp add: prune_def)
  then show ?case by (simp add: create_session_def Let_def owners_kept_def)
next
  case (find st t h)
  then show ?case
    using owners_kept_prune_each by (auto simp: authenticate_session_def Let_def prune_def split: option.split)
next
  case (count st t)
  then show ?case using owners_kept_prune_each by (simp add: live_sessions_def Let_def prune_def)
qed (simp_all add: owners_kept_claim, simp_all add: on_session_def markDecided_def owners_kept_def)

lemma owners_kept_steps: "session_steps px opts st st' \<Longrightarrow> sessions_ok opts st \<Longrightarrow> owners_kept opts st st'"
proof (induction rule: rtranclp_induct)
  case (step b c)
  then show ?case using owners_kept_trans owners_kept_step sessions_ok_steps by meson
qed simp

declare map_of_eq_Some_iff [simp] map_of_eq_None_iff [simp]

end
