(* ===== verification/Authority_Server.thy ===== *)
theory Authority_Server
  imports Authority_Export Http
begin

text \<open>
  apps/authority/src/server.ts and trust.ts, and the check of the shared secret in index.ts: the HTTP surface of
  the authority.  A reply is a status and a payload; the texts of errors and the log are not modelled.
\<close>

section \<open>Trust files and the shared secret\<close>

text \<open>The contents of a file, \<open>None\<close> where reading it throws; the result \<open>None\<close> is the error that fails the start.\<close>

definition loadPinnedPublicKey :: "platform \<Rightarrow> string option \<Rightarrow> string option" where
  "loadPinnedPublicKey px contents =
     (case contents of
        None \<Rightarrow> None
      | Some text \<Rightarrow>
        let key = trim text in if length key = 0 \<or> \<not> isAddress px key then None else Some key)"

definition loadIssuerEntitlement :: "platform \<Rightarrow> string option \<Rightarrow> string list \<Rightarrow> IssuerEntitlement option" where
  "loadIssuerEntitlement px contents settlementProfiles =
     (case contents of
        None \<Rightarrow> None
      | Some text \<Rightarrow>
        let issuer = trim text in
        if length issuer = 0 \<or> \<not> isAddress px issuer then None
        else if length settlementProfiles = 0 then None
        else Some \<lparr> ie_issuer = issuer, ie_settlementProfiles = settlementProfiles \<rparr>)"

definition PLACEHOLDER_SECRET :: string where
  "PLACEHOLDER_SECRET = ''replace-with-local-development-secret''"

definition MIN_SECRET_LENGTH :: nat where
  "MIN_SECRET_LENGTH = 32"

definition shared_secret_accepted :: "string option \<Rightarrow> bool" where
  "shared_secret_accepted sharedSecret =
     (case sharedSecret of
        None \<Rightarrow> False
      | Some s \<Rightarrow> \<not> (s = [] \<or> length s < MIN_SECRET_LENGTH \<or> s = PLACEHOLDER_SECRET))"

section \<open>Requests\<close>

definition AUTHORITY_MAX_BODY_BYTES :: nat where
  "AUTHORITY_MAX_BODY_BYTES = 16 * 1024"

definition MAX_EVIDENCE_BYTES :: nat where
  "MAX_EVIDENCE_BYTES = 512 * 1024"

text \<open>\<open>/^\/evidence\/([A-Za-z0-9_.:-]{1,128})$/\<close>, with the group it captures.\<close>

definition EVIDENCE_PATH :: "string \<Rightarrow> string option" where
  "EVIDENCE_PATH url =
     (let x = drop (length ''/evidence/'') url in
      if starts_with url ''/evidence/'' \<and> identifier_pattern x then Some x else None)"

definition readJsonBody :: "platform \<Rightarrow> bytes list \<Rightarrow> int + jsval" where
  "readJsonBody px request =
     (case read_chunks AUTHORITY_MAX_BODY_BYTES 0 [] request of
        None \<Rightarrow> Inl 413
      | Some chunks \<Rightarrow>
        if length chunks = 0 then Inl 400
        else case parseJson px (concat chunks) of None \<Rightarrow> Inl 400 | Some v \<Rightarrow> Inr v)"

fun drain :: "nat \<Rightarrow> bytes list \<Rightarrow> bool" where
  "drain n [] = True"
| "drain n (chunk # rest) =
     (let n = n + length chunk in if n > AUTHORITY_MAX_BODY_BYTES then False else drain n rest)"

section \<open>Replies\<close>

datatype authority_payload =
    HealthBody address
  | DecisionBody AuthorizeResult
  | EvidenceBody string
  | ReportsBody "ReconciliationReport list"
  | ErrorBody "AuthorityReasonCode option"
  | InternalErrorBody

text \<open>The decision, replay, receipt, payment and result of \<open>DecisionBody\<close> are those of the result it carries.\<close>

fun error_reply :: "authority_error \<Rightarrow> int \<times> authority_payload" where
  "error_reply e = (case error_response e of
     Some (status, c) \<Rightarrow> (status, ErrorBody (Some c)) | None \<Rightarrow> (500, InternalErrorBody))"

definition reply_of :: "('a \<Rightarrow> int \<times> authority_payload) \<Rightarrow> (authority_error + 'a) \<times> authority_state
    \<Rightarrow> (int \<times> authority_payload) \<times> authority_state" where
  "reply_of ok r = (case r of (Inl e, s) \<Rightarrow> (error_reply e, s) | (Inr a, s) \<Rightarrow> (ok a, s))"

definition authorize_route :: "authority \<Rightarrow> jsval \<Rightarrow> authority_state \<Rightarrow> (int \<times> authority_payload) \<times> authority_state" where
  "authorize_route A rawBody s =
     (if \<not> isPlainObject rawBody then ((400, ErrorBody None), s)
      else if jget rawBody ''permit'' = JUndef then ((400, ErrorBody None), s)
      else case validateAuthorizationRequestV2 (jget rawBody ''authorizationRequest'') of
        Inl _ \<Rightarrow> ((400, ErrorBody None), s)
      | Inr request \<Rightarrow>
        reply_of (\<lambda>result. (200, DecisionBody result))
          (authorize A \<lparr> in_permit = jget rawBody ''permit'', in_authorizationRequest = request,
             in_agentSignature = jget rawBody ''agentSignature'' \<rparr> s))"

definition evidence_body :: "platform \<Rightarrow> EvidenceBundle \<Rightarrow> int \<times> authority_payload" where
  "evidence_body px b =
     (case canonicalize px (JObj (bundle_fields b)) of
        None \<Rightarrow> (500, InternalErrorBody)
      | Some body \<Rightarrow>
        if length (utf8 body) > MAX_EVIDENCE_BYTES then (500, InternalErrorBody) else (200, EvidenceBody body))"

text \<open>\<open>reconciliation\<close> is the run in progress that a caller of the reconcile route would share.\<close>

definition authority_server ::
  "authority \<Rightarrow> string \<Rightarrow> (authority_error + ReconciliationReport list) option \<Rightarrow> http_request
     \<Rightarrow> authority_state \<Rightarrow> (int \<times> authority_payload) \<times> authority_state" where
  "authority_server A sharedSecret reconciliation request s =
     (if hr_method request = ''GET'' \<and> hr_url request = ''/health'' then ((200, HealthBody (aa_address A)), s)
      else if hr_method request = ''POST'' \<and> hr_url request = ''/authorize'' then
        if \<not> presents sharedSecret (hr_authorization request) then ((401, ErrorBody None), s)
        else case readJsonBody (aa_platform A) (hr_chunks request) of
          Inl status \<Rightarrow> ((status, ErrorBody None), s)
        | Inr rawBody \<Rightarrow> authorize_route A rawBody s
      else if hr_method request = ''GET'' \<and> starts_with (hr_url request) ''/evidence/'' then
        if \<not> presents sharedSecret (hr_authorization request) then ((401, ErrorBody None), s)
        else case EVIDENCE_PATH (hr_url request) of
          None \<Rightarrow> ((400, ErrorBody None), s)
        | Some x \<Rightarrow> reply_of (evidence_body (aa_platform A)) (exportEvidence A x None s)
      else if hr_method request = ''POST'' \<and> hr_url request = ''/reconcile'' then
        if \<not> presents sharedSecret (hr_authorization request) then ((401, ErrorBody None), s)
        else if \<not> drain 0 (hr_chunks request) then ((413, ErrorBody None), s)
        else reply_of (\<lambda>reports. (200, ReportsBody reports)) (reconcile A reconciliation s)
      else ((404, ErrorBody None), s))"

end
