(* ===== verification/Agent_Server_Inv.thy ===== *)
theory Agent_Server_Inv
  imports Agent_Server Agent_Sessions_Inv Authority_Server Authority_Service_Lemmas
begin

text \<open>
  The atomic steps of the agent's requests, that every request is a sequence of them, the invariant of the
  installed permits, and what the authority makes of the request the agent sends it.
\<close>

section \<open>Atomic steps\<close>

inductive agent_step ::
  "platform \<Rightarrow> AgentServerOptions \<Rightarrow> SessionStoreOptions \<Rightarrow> session_store \<Rightarrow> session_store \<Rightarrow> bool" for px aopts sopts where
  create: "token_digest px (base64url_encode bytes) \<notin> insert RETIRED (set (sn_keys st))
    \<Longrightarrow> agent_step px aopts sopts st (snd (create_session px sopts t t' bytes st))"
| find: "agent_step px aopts sopts st (snd (authenticate_session px t h st))"
| install: "agent_step px aopts sopts st (snd (installPermit px aopts i candidate st))"
| log: "agent_step px aopts sopts st (append_audit i stamp type actor mandateId data st)"
| claim: "agent_step px aopts sopts st (snd (claimInvocation sopts i x st))"
| decide: "agent_step px aopts sopts st (markDecided i x st)"

abbreviation agent_steps ::
  "platform \<Rightarrow> AgentServerOptions \<Rightarrow> SessionStoreOptions \<Rightarrow> session_store \<Rightarrow> session_store \<Rightarrow> bool" where
  "agent_steps px aopts sopts \<equiv> (agent_step px aopts sopts)\<^sup>*\<^sup>*"

lemma install_step: "session_steps px sopts st (snd (installPermit px aopts i candidate st))"
  unfolding installPermit_def
  by (auto split: sum.split option.split intro: session_step.install)

lemma agent_step_sessions: "agent_step px aopts sopts st st' \<Longrightarrow> session_steps px sopts st st'"
proof (induction rule: agent_step.induct)
  case (install st i candidate)
  then show ?case by (rule install_step)
next
  case (log st i stamp type actor mandateId data)
  then show ?case unfolding append_audit_def by (intro r_into_rtranclp session_step.log)
qed (auto intro: session_step.intros)

lemma agent_steps_sessions: "agent_steps px aopts sopts st st' \<Longrightarrow> session_steps px sopts st st'"
  by (induction rule: rtranclp_induct) (auto intro: rtranclp_trans agent_step_sessions)

section \<open>Installed permits\<close>

definition installed_by :: "platform \<Rightarrow> AgentServerOptions \<Rightarrow> InstalledPermit \<Rightarrow> bool" where
  "installed_by px aopts p \<longleftrightarrow>
     verifyPurchasePermitV2 px (signed_permit_v2_json (ip_permit p)) = Inr (ip_permit p)
     \<and> pp_authorizedAgent (sg_body (ip_permit p)) = ag_agentAddress aopts
     \<and> computePermitDigest px (ip_permit p) = Some (ip_digest p)"

definition installed_ok :: "platform \<Rightarrow> AgentServerOptions \<Rightarrow> session_store \<Rightarrow> bool" where
  "installed_ok px aopts st \<longleftrightarrow> list_all (\<lambda>s. pred_option (installed_by px aopts) (ss_installed s)) (sn_objects st)"

lemma verify_own_json: "verifyPurchasePermitV2 px c = Inr sp \<Longrightarrow> verifyPurchasePermitV2 px (signed_permit_v2_json sp) = Inr sp"
proof -
  assume v: "verifyPurchasePermitV2 px c = Inr sp"
  then have "wf_permit_v2 px (sg_body sp)" "\<exists>b. canonicalizeUnsignedPurchasePermitV2 px (sg_body sp) = Some b
      \<and> verifyRaw px (pp_issuer (sg_body sp)) (sg_signature sp) b" "isSignature px (sg_signature sp)"
      "importable px (pp_issuer (sg_body sp))"
    unfolding verifyPurchasePermitV2_def pv2.verify_iff by (blast intro: pv2.validate_wf)+
  then show ?thesis
    unfolding verifyPurchasePermitV2_def pv2.verify_iff signed_permit_v2_json_def pv2.signature_read
    by (simp add: signature_json_def validate_permit_v2_fields)
qed

lemma installed_ok_on_session:
  assumes "installed_ok px aopts st" "i < length (sn_objects st) \<Longrightarrow>
    pred_option (installed_by px aopts) (ss_installed (f (sn_objects st ! i)))"
  shows "installed_ok px aopts (on_session i f st)"
  using assms by (cases "i < length (sn_objects st)") (auto simp: installed_ok_def on_session_def list_all_length nth_list_update)

lemma installed_nth: "installed_ok px aopts st \<Longrightarrow> i < length (sn_objects st)
    \<Longrightarrow> pred_option (installed_by px aopts) (ss_installed (sn_objects st ! i))"
  by (simp add: installed_ok_def list_all_length)

lemma installed_ok_step: "agent_step px aopts sopts st st' \<Longrightarrow> installed_ok px aopts st \<Longrightarrow> installed_ok px aopts st'"
proof (induction rule: agent_step.induct)
  case (create bytes st t t')
  then show ?case by (simp add: create_session_def Let_def installed_ok_def)
next
  case (find st t h)
  then show ?case by (auto simp: authenticate_session_def Let_def installed_ok_def split: option.split)
next
  case (install st i candidate)
  then show ?case unfolding installPermit_def
    by (auto split: sum.split option.split intro!: installed_ok_on_session simp: installed_by_def dest: verify_own_json)
next
  case (log st i stamp type actor mandateId data)
  then show ?case unfolding append_audit_def by (intro installed_ok_on_session) (auto intro: installed_nth)
next
  case (claim st i x)
  have "installed_ok px aopts (on_session i (\<lambda>s. s \<lparr> ss_invocations := set_add x (ss_invocations s) \<rparr>) st)"
    using claim by (intro installed_ok_on_session) (auto intro: installed_nth)
  with claim show ?case
    by (auto simp: claimInvocation_def Let_def installed_ok_def split: option.split)
next
  case (decide st i x)
  then show ?case unfolding markDecided_def by (auto intro!: installed_ok_on_session intro: installed_nth)
qed

lemma installed_ok_steps: "agent_steps px aopts sopts st st' \<Longrightarrow> installed_ok px aopts st \<Longrightarrow> installed_ok px aopts st'"
  by (induction rule: rtranclp_induct) (auto intro: installed_ok_step)

lemma installed_ok_empty: "installed_ok px aopts empty_sessions"
  by (simp add: installed_ok_def empty_sessions_def)

section \<open>A request is a sequence of steps\<close>

definition others_step :: "platform \<Rightarrow> AgentServerOptions \<Rightarrow> SessionStoreOptions \<Rightarrow> agent_world \<Rightarrow> bool" where
  "others_step px aopts sopts w \<longleftrightarrow>
     (\<forall>st. agent_steps px aopts sopts st (gw_reading w st)) \<and> (\<forall>st. agent_steps px aopts sopts st (gw_others w st))"

lemma step_then: "agent_steps px aopts sopts a b \<Longrightarrow> agent_step px aopts sopts b c \<Longrightarrow> agent_steps px aopts sopts a c"
  by simp

lemma relay_refusal_steps:
  "agent_steps px aopts sopts a st \<Longrightarrow>
     agent_steps px aopts sopts a (snd (relay_refusal i input quote operation status refusal st))"
  unfolding relay_refusal_def Let_def by (auto split: option.split intro: step_then agent_step.decide)

lemma relay_decision_steps:
  assumes "agent_steps px aopts sopts a st"
  shows "agent_steps px aopts sopts a (snd (relay_decision w i permit input quote operation authorization st))"
proof -
  have d: "agent_steps px aopts sopts a (markDecided i (di_invocationId input) st)"
    using assms agent_step.decide by (rule step_then)
  note l = step_then [OF d agent_step.log]
  show ?thesis unfolding relay_decision_def Let_def
    by (auto split: option.split intro: d l step_then [OF l agent_step.log])
qed

lemma runDemo_steps:
  assumes "others_step px aopts sopts w" "agent_steps px aopts sopts a st"
  shows "agent_steps px aopts sopts a (snd (runDemo px aopts sopts w i input st))"
proof -
  obtain c st1 where c: "claimInvocation sopts i (di_invocationId input) st = (c, st1)" by fastforce
  have s1: "agent_steps px aopts sopts a st1"
    using step_then [OF assms(2) agent_step.claim, of i "di_invocationId input"] c by simp
  have s2: "agent_steps px aopts sopts a (gw_others w st1)"
    using s1 assms(1) unfolding others_step_def by (meson rtranclp_trans)
  note r = relay_refusal_steps [OF s2] relay_decision_steps [OF s2]
  show ?thesis
    unfolding runDemo_def c using assms(2) s1 s2 r
    by (auto split: option.split ClaimResult.split sum.split)
qed

lemma with_session_steps:
  assumes "\<And>i st'. agent_steps px aopts sopts st st' \<Longrightarrow> agent_steps px aopts sopts st (snd (route i st'))"
  shows "agent_steps px aopts sopts st (snd (with_session px w request route st))"
proof -
  obtain r st1 where f: "authenticate_session px (gw_pruned w) (hr_authorization request) st = (r, st1)" by fastforce
  have s: "agent_steps px aopts sopts st st1"
    using agent_step.find [of px aopts sopts st "gw_pruned w" "hr_authorization request"] f by simp
  show ?thesis
  proof (cases r)
    case (Some i)
    obtain x st2 where "route i st1 = (x, st2)" by fastforce
    with assms [OF s, of i] show ?thesis
      by (cases x) (simp_all add: with_session_def requireSession_def f Some)
  qed (simp add: with_session_def requireSession_def f s)
qed

lemma post_permit_steps:
  assumes "others_step px aopts sopts w" "agent_steps px aopts sopts a st"
  shows "agent_steps px aopts sopts a (snd (post_permit px aopts w request i st))"
proof -
  have s: "agent_steps px aopts sopts a (gw_reading w st)"
    using assms unfolding others_step_def by (meson rtranclp_trans)
  show ?thesis
  proof (cases "readJson px (hr_chunks request)")
    case (Inr body)
    obtain r st1 where i: "installPermit px aopts i (jget body ''permit'') (gw_reading w st) = (r, st1)" by fastforce
    have s1: "agent_steps px aopts sopts a st1"
      using step_then [OF s agent_step.install, of i "jget body ''permit''"] i by simp
    show ?thesis using s1 step_then [OF s1 agent_step.log]
      by (cases r) (simp_all add: post_permit_def Let_def Inr i)
  qed (simp add: post_permit_def Let_def s)
qed

lemma get_evidence_steps:
  assumes "others_step px aopts sopts w" "agent_steps px aopts sopts a st"
  shows "agent_steps px aopts sopts a (snd (get_evidence w request i st))"
proof -
  have s: "agent_steps px aopts sopts a (gw_others w st)"
    using assms unfolding others_step_def by (meson rtranclp_trans)
  show ?thesis unfolding get_evidence_def using s assms(2) by (auto split: option.split)
qed

lemma post_demo_steps:
  assumes "others_step px aopts sopts w" "agent_steps px aopts sopts a st"
  shows "agent_steps px aopts sopts a (snd (post_demo px aopts sopts w request i st))"
proof -
  have s: "agent_steps px aopts sopts a (gw_reading w st)"
    using assms unfolding others_step_def by (meson rtranclp_trans)
  show ?thesis
  proof (cases "sbind (readJson px (hr_chunks request)) (parseDemoInput (gw_uuid w))")
    case (Inr input)
    obtain r st1 where r: "runDemo px aopts sopts w i input (gw_reading w st) = (r, st1)" by fastforce
    have "agent_steps px aopts sopts a st1" using runDemo_steps [OF assms(1) s, of i input] r by simp
    then show ?thesis by (cases r) (simp_all add: post_demo_def Let_def Inr r)
  qed (simp add: post_demo_def Let_def s)
qed

lemma agent_server_steps:
  assumes "others_step px aopts sopts w"
    and "token_digest px (base64url_encode (gw_bytes w)) \<notin> insert RETIRED (set (sn_keys st))"
  shows "agent_steps px aopts sopts st (snd (agent_server px aopts sopts w request st))"
proof -
  obtain token i st1 where c: "create_session px sopts (gw_pruned w) (gw_now w) (gw_bytes w) st = ((token, i), st1)"
    by (metis surj_pair)
  have n: "agent_steps px aopts sopts st st1"
    using agent_step.create [OF assms(2), of aopts sopts "gw_pruned w" "gw_now w"] c by simp
  have p: "agent_steps px aopts sopts st (snd (with_session px w request get_permit st))"
    by (rule with_session_steps) (simp add: get_permit_def Let_def)
  have pp: "agent_steps px aopts sopts st (snd (with_session px w request (post_permit px aopts w request) st))"
    by (rule with_session_steps) (rule post_permit_steps [OF assms(1)])
  have e: "agent_steps px aopts sopts st (snd (with_session px w request (get_evidence w request) st))"
    by (rule with_session_steps) (rule get_evidence_steps [OF assms(1)])
  have d: "agent_steps px aopts sopts st (snd (with_session px w request (post_demo px aopts sopts w request) st))"
    by (rule with_session_steps) (rule post_demo_steps [OF assms(1)])
  show ?thesis unfolding agent_server_def Let_def c using n p pp e d by simp
qed

section \<open>What the agent sends the authority\<close>

lemma prepared_body:
  assumes "prepare_demo px aopts w installed input = Inr (quote, operation, body)"
  shows "\<exists>request signature. request = demo_request aopts installed input quote operation (gw_now w)
    \<and> signAuthorizationRequestV2 px request (ag_agentIdentity aopts) = Inr signature
    \<and> body = authorize_body (ip_permit installed) request signature"
proof -
  from assms obtain q x where *: "(case signAuthorizationRequestV2 px (demo_request aopts installed input q x (gw_now w))
      (ag_agentIdentity aopts) of Inl _ \<Rightarrow> Inl AgentInternalError
      | Inr signature \<Rightarrow> Inr (q, x, authorize_body (ip_permit installed)
          (demo_request aopts installed input q x (gw_now w)) signature)) = Inr (quote, operation, body)"
    unfolding prepare_demo_def sbind_Inr_iff Let_def by blast
  then show ?thesis
    by (cases "signAuthorizationRequestV2 px (demo_request aopts installed input q x (gw_now w)) (ag_agentIdentity aopts)") auto
qed

lemma authorize_route_body:
  assumes "wf_request_v2 request"
  shows "authorize_route A (authorize_body permit request signature) s =
    reply_of (\<lambda>result. (200, DecisionBody result))
      (authorize A \<lparr> in_permit = signed_permit_v2_json permit, in_authorizationRequest = request,
         in_agentSignature = signature_json signature \<rparr> s)"
proof -
  have "jget (authorize_body permit request signature) ''permit'' = signed_permit_v2_json permit"
    "jget (authorize_body permit request signature) ''authorizationRequest'' = request_v2_json request"
    "jget (authorize_body permit request signature) ''agentSignature'' = signature_json signature"
    "isPlainObject (authorize_body permit request signature)" "signed_permit_v2_json permit \<noteq> JUndef"
    by (simp_all add: authorize_body_def signed_permit_v2_json_def)
  then show ?thesis unfolding authorize_route_def by (simp add: validate_request_v2_json [OF assms])
qed

lemma agent_request_authenticates:
  assumes "signatures_verify px" "canonical_total px" "px = aa_platform A"
    and "installed_by px aopts installed" "ag_agentAddress aopts = keyAddress px (ag_agentIdentity aopts)"
    and "request = demo_request aopts installed input quote operation now'"
    and "signAuthorizationRequestV2 px request (ag_agentIdentity aopts) = Inr signature"
    and "ag_authorityAudience aopts = aa_audience A"
    and "pp_issuer (sg_body (ip_permit installed)) = ie_issuer (aa_issuerEntitlement A)"
    and "pp_network (sg_body (ip_permit installed)) \<in> set (ie_settlementProfiles (aa_issuerEntitlement A))"
    and "now - aa_maxRequestAgeMs A \<le> now'" "now' \<le> now + aa_maxFutureSkewMs A"
  shows "\<exists>ar. authenticate A \<lparr> in_permit = signed_permit_v2_json (ip_permit installed),
      in_authorizationRequest = request, in_agentSignature = signature_json signature \<rparr> now = Inr ar
    \<and> ar_permit ar = ip_permit installed \<and> ar_request ar = request"
proof -
  have wf: "wf_request_v2 request" using assms(7) by (rule sign_request_wf)
  obtain s where s: "signAuthorizationRequestV2 px request (ag_agentIdentity aopts) = Inr s"
      "verifyAuthorizationRequestSignature px (canonicalizeAuthorizationRequestV2 px request) (signature_json s)
         (keyAddress px (ag_agentIdentity aopts))"
    using request_sign_then_verify [OF assms(1,2) wf] by blast
  then have ver: "verifyAuthorizationRequestSignature px (canonicalizeAuthorizationRequestV2 px request)
      (signature_json signature) (pp_authorizedAgent (sg_body (ip_permit installed)))"
    using assms(4,5,7) by (simp add: installed_by_def)
  obtain od where od: "computeOperationDigest px (rq_operation request) = Some od"
    using canonicalDigest_total [OF assms(2), of "operation_json (rq_operation request)"]
    unfolding computeOperationDigest_def by (auto simp: operation_json_def)
  have fj: "json_value (fingerprint_json (sg_body (ip_permit installed)) request od)" by (simp add: fingerprint_json_def)
  obtain f where f: "computeRequestFingerprint px (sg_body (ip_permit installed)) request od = Some f"
    using canonicalDigest_total [OF assms(2) fj] unfolding computeRequestFingerprint_def by blast
  let ?ar = "\<lparr> ar_permit = ip_permit installed, ar_request = request, ar_agentSignature = signature,
    ar_operationDigest = od, ar_fingerprint = f \<rparr>"
  have "authenticated_as A \<lparr> in_permit = signed_permit_v2_json (ip_permit installed),
      in_authorizationRequest = request, in_agentSignature = signature_json signature \<rparr> now ?ar"
    using assms(3,4,8-12) ver od f
    unfolding authenticated_as_def Let_def installed_by_def by (simp add: assms(6) demo_request_def signature_json_def)
  then show ?thesis unfolding authenticate_iff [symmetric] by (intro exI [of _ ?ar]) simp
qed

end
