(* ===== verification/Agent_Properties.thy ===== *)
theory Agent_Properties
  imports Agent_Server_Inv Authority_Properties
begin

text \<open>
  What the agent promises for every interleaving of its requests: evidence goes to the session that owns the
  invocation alone, an invocation stays with its session as long as the owners fit the configured bound, installed
  permits are verified ones for this agent; and what the agent and the authority make of each other's messages.
\<close>

section \<open>Sessions keep their digest\<close>

lemma keys_kept_step: "session_step px opts st st' \<Longrightarrow> \<exists>ks. sn_keys st' = sn_keys st @ ks"
proof (induction rule: session_step.induct)
  case (find st t h)
  then show ?case by (simp add: authenticate_session_def Let_def split: option.split)
next
  case (claim st i x)
  then show ?case by (auto simp: claimInvocation_def Let_def on_session_def split: option.split)
qed (simp_all add: create_session_def live_sessions_def Let_def on_session_def markDecided_def)

lemma keys_kept_steps: "session_steps px opts st st' \<Longrightarrow> \<exists>ks. sn_keys st' = sn_keys st @ ks"
proof (induction rule: rtranclp_induct)
  case (step b c)
  from step(3) keys_kept_step [OF step(2)] show ?case by (metis append_assoc)
qed simp

lemma claimed_owner:
  assumes "sessions_ok opts st" "fst (claimInvocation opts i x st) = Claimed" "st' = snd (claimInvocation opts i x st)"
    and "length (sn_owners st') < so_maxOwned opts"
  shows "i < length (sn_keys st)" "sn_keys st' = sn_keys st" "map_of (sn_owners st') x = Some (sn_keys st ! i)"
proof -
  from assms(2,3) have i: "i < length (sn_keys st)" "map_of (sn_owners st) x = None" "sn_keys st' = sn_keys st"
      and owners: "sn_owners st' = drop_owners (so_maxOwned opts) (map_set x (sn_keys st ! i) (sn_owners st))"
    by (auto simp: claimInvocation_def Let_def key_of_def on_session_def split: option.splits if_splits)
  show "i < length (sn_keys st)" "sn_keys st' = sn_keys st" by (fact i)+
  have "distinct (map fst (sn_owners st))" using assms(1) by (simp add: sessions_ok_def)
  then have "length (map_set x (sn_keys st ! i) (sn_owners st)) \<le> so_maxOwned opts"
    using assms(4) unfolding owners by (simp add: length_drop_owners)
  then show "map_of (sn_owners st') x = Some (sn_keys st ! i)" unfolding owners by (subst drop_owners.simps) simp
qed

lemma not_own_foreign:
  assumes "sessions_ok opts st" "map_of (sn_owners st) x = Some k" "key_of st j \<noteq> Some k"
  shows "fst (claimInvocation opts j x st) = Foreign \<and> \<not> canReadEvidence j x st \<and> markDecided j x st = st"
  using assms claim_foreign [OF assms] by (auto simp: canReadEvidence_def markDecided_def split: option.split)

section \<open>A sample store\<close>

text \<open>Two sessions; the first has an invocation that was decided for it, the second one of its own.\<close>

definition sample_options :: SessionStoreOptions where
  "sample_options = \<lparr> so_ttlMs = 100, so_maxSessions = 2, so_maxInvocations = 3, so_maxOwned = 2 \<rparr>"

definition sample_store_0 :: session_store where
  "sample_store_0 = snd (create_session sample_platform sample_options 5 5 ''BB''
     (snd (create_session sample_platform sample_options 0 0 ''AA'' empty_sessions)))"

definition sample_store_1 :: session_store where
  "sample_store_1 = markDecided 0 ''inv-a'' (snd (claimInvocation sample_options 0 ''inv-a'' sample_store_0))"

definition sample_store_2 :: session_store where
  "sample_store_2 = snd (claimInvocation sample_options 1 ''inv-b'' sample_store_1)"

lemma sample_token_digests: "distinct [token_digest sample_platform (base64url_encode ''AA''),
    token_digest sample_platform (base64url_encode ''BB''), RETIRED]"
  by code_simp

lemma sample_steps_0: "session_steps sample_platform sample_options empty_sessions sample_store_0"
proof -
  let ?st = "snd (create_session sample_platform sample_options 0 0 ''AA'' empty_sessions)"
  have "session_step sample_platform sample_options empty_sessions ?st"
    using sample_token_digests by (intro session_step.create) (simp add: empty_sessions_def)
  moreover have "session_step sample_platform sample_options ?st sample_store_0"
    unfolding sample_store_0_def using sample_token_digests
    by (intro session_step.create) (auto simp: create_session_def Let_def empty_sessions_def)
  ultimately show ?thesis by simp
qed

lemma sample_steps: "session_steps sample_platform sample_options empty_sessions sample_store_1"
    "session_steps sample_platform sample_options empty_sessions sample_store_2"
  using sample_steps_0 unfolding sample_store_2_def sample_store_1_def
  by (meson rtranclp.rtrancl_into_rtrancl session_step.claim session_step.decide)+

section \<open>Properties\<close>

lemma evidence_isolated:
  assumes "session_steps px opts empty_sessions st" "canReadEvidence i x st" "j \<noteq> i"
  shows "x \<in> set (ss_invocations (sn_objects st ! i))
    \<and> \<not> canReadEvidence j x st \<and> fst (claimInvocation opts j x st) = Foreign \<and> markDecided j x st = st"
proof -
  have ok: "sessions_ok opts st" using sessions_ok_steps [OF assms(1) sessions_ok_empty] .
  note owned = readable_owned [OF ok assms(2)]
  show ?thesis using not_own_foreign [OF ok owned(2) other_key [OF ok owned(1) assms(3)]] owned(3) by simp
qed

text \<open>C16. An invocation a session claimed is refused to every other session from then on, also after its own session
  has ended, for as long as the number of remembered invocations stays below the configured bound.\<close>

theorem ownership_permanent:
  assumes "session_steps px opts empty_sessions st" "fst (claimInvocation opts i x st) = Claimed"
    and "session_steps px opts (snd (claimInvocation opts i x st)) st'" "length (sn_owners st') < so_maxOwned opts"
    and "j \<noteq> i"
  shows "fst (claimInvocation opts j x st') = Foreign \<and> \<not> canReadEvidence j x st'"
proof -
  let ?st1 = "snd (claimInvocation opts i x st)"
  have ok: "sessions_ok opts st" using sessions_ok_steps [OF assms(1) sessions_ok_empty] .
  then have ok1: "sessions_ok opts ?st1" by (rule sessions_ok_claim)
  note ok' = sessions_ok_steps [OF assms(3) ok1]
  note kept = owners_kept_steps [OF assms(3) ok1]
  then have "length (sn_owners ?st1) < so_maxOwned opts" using assms(4) by (simp add: owners_kept_def)
  note own = claimed_owner [OF ok assms(2) refl this]
  obtain ks where ks: "sn_keys st' = sn_keys st @ ks" using keys_kept_steps [OF assms(3)] own(2) by auto
  have i: "i < length (sn_objects st')" "sn_keys st' ! i = sn_keys st ! i"
    using own(1) ks ok' by (simp_all add: sessions_ok_def nth_append)
  consider "map_of (sn_owners st') x = Some (sn_keys st' ! i)" | "map_of (sn_owners st') x = Some RETIRED"
    using kept own(3) assms(4) i by (auto simp: owners_kept_def)
  then show ?thesis
  proof cases
    case 1
    then show ?thesis using not_own_foreign [OF ok' 1 other_key [OF ok' i(1) assms(5)]] by simp
  next
    case 2
    have "RETIRED \<notin> set (sn_keys st')" "j < length (sn_keys st') \<Longrightarrow> sn_keys st' ! j \<in> set (sn_keys st')"
      using ok' by (simp_all add: sessions_ok_def)
    then have "key_of st' j \<noteq> Some RETIRED" by (metis key_of_def option.inject option.distinct(1))
    then show ?thesis using not_own_foreign [OF ok' 2] by simp
  qed
qed

theorem ownership_permanent_witness:
  "fst (claimInvocation sample_options 1 ''inv-a'' sample_store_1) = Foreign \<and> \<not> canReadEvidence 1 ''inv-a'' sample_store_1"
proof -
  have "fst (claimInvocation sample_options 0 ''inv-a'' sample_store_0) = Claimed" by code_simp
  moreover have "length (sn_owners sample_store_1) < so_maxOwned sample_options" by code_simp
  moreover have "session_steps sample_platform sample_options (snd (claimInvocation sample_options 0 ''inv-a'' sample_store_0)) sample_store_1"
    unfolding sample_store_1_def by (rule r_into_rtranclp) (rule session_step.decide)
  ultimately show ?thesis using ownership_permanent [OF sample_steps_0] by simp
qed

text \<open>C38. When the bound is reached, the next fresh invocation drops the oldest remembered one, and whichever session
  made that claim can take the dropped one over, whoever owned it.\<close>

theorem oldest_owner_dropped:
  assumes "session_steps px opts empty_sessions st" "sn_owners st = (x, k) # os" "length (sn_owners st) = so_maxOwned opts"
    and "fst (claimInvocation opts j y st) = Claimed" "st' = snd (claimInvocation opts j y st)"
    and "length (ss_invocations (sn_objects st' ! j)) < so_maxInvocations opts"
  shows "fst (claimInvocation opts j x st') = Claimed"
proof -
  have ok: "sessions_ok opts st" using sessions_ok_steps [OF assms(1) sessions_ok_empty] .
  from assms(4,5) have j: "j < length (sn_keys st)" "map_of (sn_owners st) y = None" "sn_keys st' = sn_keys st"
      and owners: "sn_owners st' = drop_owners (so_maxOwned opts) (map_set y (sn_keys st ! j) (sn_owners st))"
    by (auto simp: claimInvocation_def Let_def key_of_def on_session_def split: option.splits if_splits)
  have "y \<noteq> x" using j(2) assms(2) by auto
  have "distinct (map fst (sn_owners st))" using ok by (simp add: sessions_ok_def)
  then have "map_of os x = None" "distinct (map fst os)" "map_of os y = None"
    using assms(2) j(2) \<open>y \<noteq> x\<close> by (auto simp: map_of_eq_None_iff)
  moreover have "map_delete x ((x, k) # map_set y v os) = map_set y v os" if "map_of os x = None" for v
  proof -
    have "x \<notin> fst ` set (map_set y v os)" using that \<open>y \<noteq> x\<close> by (simp add: fst_map_set map_of_eq_None_iff)
    then show ?thesis by (force simp: map_delete_def filter_id_conv)
  qed
  ultimately have "sn_owners st' = map_set y (sn_keys st ! j) os"
    using assms(2,3) \<open>y \<noteq> x\<close> unfolding owners
    by (subst drop_owners.simps, simp add: length_map_set, subst drop_owners.simps, simp add: length_map_set)
  then have "map_of (sn_owners st') x = None" using \<open>map_of os x = None\<close> \<open>y \<noteq> x\<close> by simp
  then show ?thesis using j(1,3) assms(6) by (simp add: claimInvocation_def Let_def key_of_def del: map_of_eq_None_iff)
qed

theorem oldest_owner_dropped_witness:
  "fst (claimInvocation sample_options 1 ''inv-a'' (snd (claimInvocation sample_options 1 ''inv-c'' sample_store_2))) = Claimed"
proof -
  have "fst (claimInvocation sample_options 1 ''inv-c'' sample_store_2) = Claimed" by code_simp
  moreover have "length (ss_invocations (sn_objects (snd (claimInvocation sample_options 1 ''inv-c'' sample_store_2)) ! 1))
      < so_maxInvocations sample_options" by code_simp
  moreover have "length (sn_owners sample_store_2) = so_maxOwned sample_options" by code_simp
  moreover have "fst (hd (sn_owners sample_store_2)) = ''inv-a''" "sn_owners sample_store_2 \<noteq> []" by code_simp+
  then have "sn_owners sample_store_2 = (''inv-a'', snd (hd (sn_owners sample_store_2))) # tl (sn_owners sample_store_2)"
    by (cases "sn_owners sample_store_2") auto
  ultimately show ?thesis using oldest_owner_dropped [OF sample_steps(2)] by metis
qed

section \<open>The server\<close>

lemma sessions_prune_each:
  "distinct (map fst (sn_sessions st)) \<Longrightarrow> (k, i) \<in> set (sn_sessions (prune_each now kvs st))
     \<Longrightarrow> (k, i) \<in> set (sn_sessions st) \<and> ((k, i) \<in> set kvs \<longrightarrow> now < ss_expiresAt (sn_objects st ! i))"
proof (induction now kvs st rule: prune_each.induct)
  case (2 now key j kvs st)
  let ?st = "if ss_expiresAt (sn_objects st ! j) \<le> now then evict key st else st"
  have "(k, i) \<in> set (sn_sessions st) \<and> k \<noteq> key" if "(k, i) \<in> set (sn_sessions (evict key st))"
    using that by (cases "map_of (sn_sessions st) key") (force simp: evict_def map_delete_def)+
  then have sub: "(k, i) \<in> set (sn_sessions ?st) \<Longrightarrow> (k, i) \<in> set (sn_sessions st) \<and>
      (ss_expiresAt (sn_objects st ! j) \<le> now \<longrightarrow> k \<noteq> key)" by (simp split: if_splits)
  have o: "sn_objects ?st = sn_objects st" by simp
  have "distinct (map fst (sn_sessions ?st))" using 2(2) by (auto simp: evict_def split: option.split)
  from 2(1) [OF this] 2(3) have ih: "(k, i) \<in> set (sn_sessions ?st)" "(k, i) \<in> set kvs \<longrightarrow> now < ss_expiresAt (sn_objects st ! i)"
    by (simp_all only: o prune_each.simps) simp_all
  show ?case using sub [OF ih(1)] ih(2) by (cases "ss_expiresAt (sn_objects st ! j) \<le> now") auto
qed simp

lemma found_session:
  assumes "sessions_ok opts st" "authenticate_session px now h st = (Some i, st')"
  shows "\<exists>token. h = Some (''Bearer '' @ token) \<and> st' = prune now st \<and> i < length (sn_objects st)
    \<and> sn_keys st ! i = token_digest px token \<and> now < ss_expiresAt (sn_objects st ! i)"
proof -
  from assms(2) obtain t where t: "h = Some t" "starts_with t ''Bearer ''" "st' = prune now st"
      "map_of (sn_sessions (prune now st)) (token_digest px (drop (length ''Bearer '') t)) = Some i"
    by (auto simp: authenticate_session_def Let_def split: option.splits if_splits)
  then obtain u where u: "t = ''Bearer '' @ u" unfolding starts_with_iff by metis
  from t(4) u have m: "(token_digest px u, i) \<in> set (sn_sessions (prune_each now (sn_sessions st) st))"
    by (simp add: prune_def map_of_SomeD)
  have "distinct (map fst (sn_sessions st))" using assms(1) by (simp add: sessions_ok_def)
  from sessions_prune_each [OF this m] have "(token_digest px u, i) \<in> set (sn_sessions st)"
      "now < ss_expiresAt (sn_objects st ! i)" by auto
  with assms(1) t(1,3) u show ?thesis by (auto simp: sessions_ok_def list_all_iff)
qed

text \<open>C6. A text that the evidence route relays is the authority's answer for an invocation of the caller: the request
  carried the token of a session that has not expired, which claimed the invocation itself and had it decided, and
  no other session can read it.\<close>

theorem evidence_served_to_owner_only:
  assumes "agent_steps px aopts sopts empty_sessions st"
    and "agent_server px aopts sopts w request st = ((status, EvidencePayload text), st')"
  shows "\<exists>token i x. hr_authorization request = Some (''Bearer '' @ token) \<and> i < length (sn_objects st)
    \<and> sn_keys st ! i = token_digest px token \<and> gw_pruned w < ss_expiresAt (sn_objects st ! i)
    \<and> decodeURIComponent (drop (length ''/evidence/'') (hr_url request)) = Some x
    \<and> gw_evidence w (''/evidence/'' @ encodeURIComponent x) = Some (status, text)
    \<and> x \<in> set (ss_invocations (sn_objects st ! i)) \<and> x \<in> set (ss_decided (sn_objects st ! i))
    \<and> (\<forall>j. canReadEvidence j x (prune (gw_pruned w) st) \<longleftrightarrow> j = i)"
proof -
  have steps: "session_steps px sopts empty_sessions st" using assms(1) by (rule agent_steps_sessions)
  have ok: "sessions_ok sopts st" using sessions_ok_steps [OF steps sessions_ok_empty] .
  have route: "fst (with_session px w request (get_evidence w request) st) = (status, EvidencePayload text)"
    using assms(2) unfolding agent_server_def Let_def
    by (auto simp: with_session_def requireSession_def get_permit_def post_permit_def post_demo_def Let_def
        split: if_splits prod.splits option.splits sum.splits elim: agent_error_reply.elims)
  obtain r st1 where f: "authenticate_session px (gw_pruned w) (hr_authorization request) st = (r, st1)" by fastforce
  with route obtain i where r: "r = Some i"
    by (cases r) (auto simp: with_session_def requireSession_def)
  with f obtain token where t: "hr_authorization request = Some (''Bearer '' @ token)" "st1 = prune (gw_pruned w) st"
      "i < length (sn_objects st)" "sn_keys st ! i = token_digest px token" "gw_pruned w < ss_expiresAt (sn_objects st ! i)"
    using found_session [OF ok] by blast
  have "\<exists>reply. fst (get_evidence w request i st1) = Inr (status, EvidencePayload text)"
    using route f r by (auto simp: with_session_def requireSession_def split: prod.splits sum.splits elim: agent_error_reply.elims)
  then obtain x where x: "decodeURIComponent (drop (length ''/evidence/'') (hr_url request)) = Some x"
      "canReadEvidence i x st1" "gw_evidence w (''/evidence/'' @ encodeURIComponent x) = Some (status, text)"
    by (auto simp: get_evidence_def split: option.splits if_splits)
  have "session_step px sopts st st1" using session_step.count [of px sopts st "gw_pruned w"] t(2) by (simp add: live_sessions_def Let_def)
  with steps have steps1: "session_steps px sopts empty_sessions st1" by simp
  then have ok1: "sessions_ok sopts st1" using sessions_ok_steps sessions_ok_empty by blast
  have own: "x \<in> set (ss_invocations (sn_objects st ! i))" "x \<in> set (ss_decided (sn_objects st ! i))"
    using readable_owned(3) [OF ok1 x(2)] x(2) t(2) by (auto simp: canReadEvidence_def split: option.splits)
  have "\<not> canReadEvidence j x st1" if "j \<noteq> i" for j using evidence_isolated [OF steps1 x(2) that] by blast
  then have "\<forall>j. canReadEvidence j x (prune (gw_pruned w) st) \<longleftrightarrow> j = i" using x(2) t(2) by blast
  then show ?thesis using t x(1,3) own by blast
qed

section \<open>A sample run\<close>

definition sample_agent :: AgentServerOptions where
  "sample_agent = \<lparr> ag_agentIdentity = ''A'', ag_agentAddress = ''KA'', ag_authoritySharedSecret = ''s3'',
     ag_authorityAudience = ''auth'' \<rparr>"

definition sample_token :: string where
  "sample_token = base64url_encode (replicate 32 CHR ''A'')"

lemma base58_token_digest: "token_digest base58_platform t = sample_digest"
  by (simp add: token_digest_def sha256Hex_def base58_signature)

definition base58_permit :: "permit_v2 signed" where
  "base58_permit = \<lparr> sg_body = sample_permit, sg_signature = ''sI'' \<rparr>"

lemma base58_permit_verifies: "verifyPurchasePermitV2 base58_platform (signed_permit_v2_json base58_permit) = Inr base58_permit"
proof -
  have wf: "wf_permit_v2 base58_platform sample_permit" using wf_sample_permit
    by (simp add: wf_permit_v2_def wf_permit_def base58_platform_def hex_platform_def)
  have k: "keyAddress base58_platform ''I'' = pp_issuer sample_permit" by (simp add: base58_signature sample_permit_def)
  obtain t where t: "signPurchasePermitV2 base58_platform (JObj (permit_v2_fields sample_permit)) ''I''
        = Inr \<lparr> sg_body = sample_permit, sg_signature = t \<rparr>"
      "verifyPurchasePermitV2 base58_platform (JObj (permit_v2_fields sample_permit @ [(''signature'', signature_json t)]))
        = Inr \<lparr> sg_body = sample_permit, sg_signature = t \<rparr>"
    using pv2.sign_then_verify [OF base58_platform_laws(1,2) wf k]
    unfolding signPurchasePermitV2_def verifyPurchasePermitV2_def by blast
  then have "t = ''sI''" unfolding signPurchasePermitV2_def pv2.sign_iff by (auto simp: base58_signature)
  with t(2) show ?thesis by (simp add: base58_permit_def signed_permit_v2_json_def)
qed

lemma base58_permit_digest: "computePermitDigest base58_platform base58_permit = Some sample_digest"
  by (simp add: computePermitDigest_def base58_signature)

definition sample_session :: Session where
  "sample_session = \<lparr> ss_createdAt = 0, ss_expiresAt = 3600000,
     ss_installed = Some \<lparr> ip_permit = base58_permit, ip_digest = sample_digest \<rparr>,
     ss_invocations = [''i1''], ss_decided = [''i1''], ss_audit = [] \<rparr>"

definition agent_store :: session_store where
  "agent_store = \<lparr> sn_objects = [sample_session], sn_keys = [sample_digest], sn_sessions = [(sample_digest, 0)],
     sn_owners = [(''i1'', sample_digest)] \<rparr>"

definition sample_agent_world :: agent_world where
  "sample_agent_world = \<lparr> gw_quote = Some (200, Some (JObj (map (\<lambda>(f, v). (f, JStr v))
       [(''quoteId'', ''q''), (''service'', ''svc''), (''capability'', ''cap''), (''method'', op_method sample_operation),
        (''resource'', op_resource sample_operation), (''network'', ''devnet''), (''mint'', ''M''), (''recipient'', ''R''),
        (''amountAtomic'', ''4'')]))),
     gw_scenario = (\<lambda>_ _. None), gw_authorize = (\<lambda>_. None), gw_evidence = (\<lambda>_. Some (200, ''bundle'')),
     gw_now = 50, gw_pruned = 50, gw_bytes = [], gw_uuid = [], gw_events = (\<lambda>_. ([], 0)), gw_reading = (\<lambda>st. st),
     gw_others = (\<lambda>st. st) \<rparr>"

lemma sample_token_pattern: "TOKEN_PATTERN sample_token"
  by code_simp

lemma agent_store_steps: "agent_steps base58_platform sample_agent default_options empty_sessions agent_store"
proof -
  let ?st0 = "snd (create_session base58_platform default_options 0 0 (replicate 32 CHR ''A'') empty_sessions)"
  let ?st1 = "snd (installPermit base58_platform sample_agent 0 (signed_permit_v2_json base58_permit) ?st0)"
  let ?st2 = "snd (claimInvocation default_options 0 ''i1'' ?st1)"
  have "length sample_digest \<noteq> length RETIRED" by (simp add: sample_digest_def RETIRED_def)
  then have new: "sample_digest \<noteq> RETIRED" by metis
  have "agent_step base58_platform sample_agent default_options empty_sessions ?st0"
    using new by (intro agent_step.create) (simp add: base58_token_digest empty_sessions_def)
  then have "agent_steps base58_platform sample_agent default_options empty_sessions (markDecided 0 ''i1'' ?st2)"
    by (meson agent_step.claim agent_step.decide agent_step.install rtranclp.rtrancl_into_rtrancl r_into_rtranclp)
  moreover have "markDecided 0 ''i1'' ?st2 = agent_store"
  proof -
    have "evict_oldest 100 st = st" if "sn_sessions st = []" for st using that by (subst evict_oldest.simps) simp
    then have st0: "?st0 = \<lparr> sn_objects = [sample_session \<lparr> ss_installed := None, ss_invocations := [], ss_decided := [] \<rparr>],
        sn_keys = [sample_digest], sn_sessions = [(sample_digest, 0)], sn_owners = [] \<rparr>"
      by (simp add: create_session_def Let_def base58_token_digest empty_sessions_def prune_def default_options_def sample_session_def)
    have st1: "?st1 = \<lparr> sn_objects = [sample_session \<lparr> ss_invocations := [], ss_decided := [] \<rparr>],
        sn_keys = [sample_digest], sn_sessions = [(sample_digest, 0)], sn_owners = [] \<rparr>"
      unfolding installPermit_def st0
      using base58_permit_verifies base58_permit_digest
      by (simp add: on_session_def sample_session_def sample_agent_def) (simp add: base58_permit_def sample_permit_def)
    have "drop_owners 50000 [x] = [x]" for x by (subst drop_owners.simps) simp
    then show ?thesis
      unfolding st1 by (simp add: claimInvocation_def Let_def key_of_def on_session_def set_add_def default_options_def
          markDecided_def agent_store_def) (simp add: sample_session_def)
  qed
  ultimately show ?thesis by simp
qed

definition sample_evidence_request :: http_request where
  "sample_evidence_request = \<lparr> hr_method = ''GET'', hr_url = ''/evidence/i1'', hr_authorization = Some (''Bearer '' @ sample_token),
     hr_chunks = [] \<rparr>"

lemma sample_evidence_served:
  "agent_server base58_platform sample_agent default_options sample_agent_world sample_evidence_request agent_store
     = ((200, EvidencePayload ''bundle''), agent_store)"
proof -
  have p: "prune 50 agent_store = agent_store" by (simp add: prune_def agent_store_def sample_session_def)
  have "authenticate_session base58_platform 50 (Some (''Bearer '' @ sample_token)) agent_store = (Some 0, agent_store)"
    using sample_token_pattern p
    by (simp add: authenticate_session_def starts_with_def Let_def base58_token_digest) (simp add: agent_store_def)
  moreover have "canReadEvidence 0 ''i1'' agent_store" by (simp add: canReadEvidence_def key_of_def agent_store_def sample_session_def)
  moreover have "decodeURIComponent ''i1'' = Some ''i1''" "INVOCATION_ID_PATTERN ''i1''" "starts_with ''/evidence/i1'' ''/evidence/''"
    by code_simp+
  ultimately show ?thesis
    by (simp add: agent_server_def sample_evidence_request_def with_session_def requireSession_def get_evidence_def
        sample_agent_world_def AGENT_MAX_EVIDENCE_BYTES_def)
qed

theorem evidence_served_to_owner_only_witness:
  "\<exists>token i x. Some (''Bearer '' @ sample_token) = Some (''Bearer '' @ token) \<and> i < length (sn_objects agent_store)
    \<and> x \<in> set (ss_decided (sn_objects agent_store ! i)) \<and> (\<forall>j. canReadEvidence j x (prune 50 agent_store) \<longleftrightarrow> j = i)"
proof -
  have "gw_pruned sample_agent_world = 50" "hr_authorization sample_evidence_request = Some (''Bearer '' @ sample_token)"
    by (simp_all add: sample_agent_world_def sample_evidence_request_def)
  with evidence_served_to_owner_only [OF agent_store_steps sample_evidence_served] show ?thesis by auto
qed


text \<open>Handling a request, interleaved with any others, keeps the invariant of the sessions and of their permits:
  every installed permit is one whose signature verifies, issued to this agent, with its digest beside it.\<close>

theorem agent_invariant_kept:
  assumes "agent_steps px aopts sopts empty_sessions st" "others_step px aopts sopts w"
    and "token_digest px (base64url_encode (gw_bytes w)) \<notin> insert RETIRED (set (sn_keys st))"
  shows "sessions_ok sopts (snd (agent_server px aopts sopts w request st))
    \<and> installed_ok px aopts (snd (agent_server px aopts sopts w request st))"
proof -
  have "agent_steps px aopts sopts empty_sessions (snd (agent_server px aopts sopts w request st))"
    using assms(1) agent_server_steps [OF assms(2,3)] by (rule rtranclp_trans)
  then show ?thesis
    using sessions_ok_steps [OF agent_steps_sessions sessions_ok_empty] installed_ok_steps [OF _ installed_ok_empty] by blast
qed

theorem agent_invariant_kept_witness:
  "sessions_ok default_options (snd (agent_server base58_platform sample_agent default_options sample_agent_world sample_evidence_request empty_sessions))"
proof -
  have "others_step base58_platform sample_agent default_options sample_agent_world"
    by (simp add: others_step_def sample_agent_world_def)
  moreover have "length sample_digest \<noteq> length RETIRED" by (simp add: sample_digest_def RETIRED_def)
  then have "sample_digest \<noteq> RETIRED" by metis
  ultimately show ?thesis
    using agent_invariant_kept [where px = base58_platform and aopts = sample_agent and st = empty_sessions and w = sample_agent_world]
    by (simp add: base58_token_digest) (simp add: empty_sessions_def)
qed

section \<open>The agent and the authority\<close>

text \<open>C14. What the agent posts for a session's installed permit is decided by the authority, and is not refused as
  unauthenticated, when the two are set up for each other: the permit's issuer is the entitled one and the
  permit's network one of its profiles (a permit of another issuer is installed too, and answered 403), the
  agent is configured with the authority's audience and its own key's address, its clock is within the
  authority's window, the body is read back as it was sent, and nothing is in flight for the invocation.
  The authority then decides exactly that permit and exactly the request the agent built from the quote and
  the caller's operation.\<close>

theorem agent_request_decided:
  assumes "signatures_verify px" "canonical_total px" "px = aa_platform A"
    and "ag_agentAddress aopts = keyAddress px (ag_agentIdentity aopts)" "ag_authorityAudience aopts = aa_audience A"
    and "agent_steps px aopts sopts empty_sessions st" "i < length (sn_objects st)"
    and "ss_installed (sn_objects st ! i) = Some installed"
    and "prepare_demo px aopts w installed input = Inr (quote, operation, body)"
    and "pp_issuer (sg_body (ip_permit installed)) = ie_issuer (aa_issuerEntitlement A)"
    and "pp_network (sg_body (ip_permit installed)) \<in> set (ie_settlementProfiles (aa_issuerEntitlement A))"
    and "ns_now s - aa_maxRequestAgeMs A \<le> gw_now w" "gw_now w \<le> ns_now s + aa_maxFutureSkewMs A"
    and "readJsonBody px chunks = Inr body" "au_pending s (di_invocationId input) = None"
  shows "\<exists>ar. ar_permit ar = ip_permit installed
    \<and> ar_request ar = demo_request aopts installed input quote operation (gw_now w)
    \<and> authority_server A secret running \<lparr> hr_method = ''POST'', hr_url = ''/authorize'',
          hr_authorization = Some (''Bearer '' @ secret), hr_chunks = chunks \<rparr> s
      = reply_of (\<lambda>result. (200, DecisionBody result)) (process A ar s)"
proof -
  have inst: "installed_by px aopts installed"
    using installed_nth [OF installed_ok_steps [OF assms(6) installed_ok_empty] assms(7)] assms(8) by simp
  obtain request signature where r: "request = demo_request aopts installed input quote operation (gw_now w)"
      "signAuthorizationRequestV2 px request (ag_agentIdentity aopts) = Inr signature"
      "body = authorize_body (ip_permit installed) request signature"
    using prepared_body [OF assms(9)] by blast
  from agent_request_authenticates [OF assms(1-3) inst assms(4) r(1,2) assms(5,10-13)]
  obtain ar where ar: "authenticate A \<lparr> in_permit = signed_permit_v2_json (ip_permit installed),
      in_authorizationRequest = request, in_agentSignature = signature_json signature \<rparr> (ns_now s) = Inr ar"
      "ar_permit ar = ip_permit installed" "ar_request ar = request" by blast
  have "rq_invocationId (ar_request ar) = di_invocationId input" using ar(3) r(1) by (simp add: demo_request_def)
  then have "authorize A \<lparr> in_permit = signed_permit_v2_json (ip_permit installed),
      in_authorizationRequest = request, in_agentSignature = signature_json signature \<rparr> s = process A ar s"
    using ar(1) assms(15) by (simp add: authorize_def)
  then have "authorize_route A body s = reply_of (\<lambda>result. (200, DecisionBody result)) (process A ar s)"
    using authorize_route_body [OF sign_request_wf [OF r(2)]] r(3) by simp
  moreover have "presents secret (Some (''Bearer '' @ secret))" by (simp only: presents_iff)
  ultimately show ?thesis
    using ar(2,3) r(1) assms(3,14) by (intro exI [of _ ar]) (simp add: authority_server_def)
qed


definition sample_demo_input :: DemoInput where
  "sample_demo_input = \<lparr> di_amountAtomic = None, di_invocationId = ''i1'', di_scenario = Honest,
     di_operation = op_operation sample_operation, di_datasetId = op_datasetId sample_operation \<rparr>"

definition sample_body :: jsval where
  "sample_body = authorize_body base58_permit sample_request ''sA''"

lemma sample_prepared:
  "\<exists>quote operation. prepare_demo base58_platform sample_agent sample_agent_world
     \<lparr> ip_permit = base58_permit, ip_digest = sample_digest \<rparr> sample_demo_input = Inr (quote, operation, sample_body)"
proof -
  obtain quote where q: "fetch_quote sample_agent_world = Inr quote" "sq_service quote = ''svc''" "sq_capability quote = ''cap''"
      "sq_network quote = ''devnet''" "sq_mint quote = ''M''" "sq_recipient quote = ''R''" "sq_amountAtomic quote = ''4''"
      "sq_method quote = op_method sample_operation" "sq_resource quote = op_resource sample_operation"
    by (simp add: fetch_quote_def sample_agent_world_def response_ok_def parseServiceQuote_def QUOTE_FIELDS_def sample_operation_def)
  have op: "demo_operation sample_demo_input quote = Inr sample_operation"
    using validate_operation_json [of sample_operation] wf_sample_permit q
    by (simp add: demo_operation_def sample_demo_input_def operation_json_def wf_permit_v2_def sample_permit_def)
  have req: "demo_request sample_agent \<lparr> ip_permit = base58_permit, ip_digest = sample_digest \<rparr> sample_demo_input quote
      sample_operation 50 = sample_request"
    using q by (simp add: demo_request_def sample_agent_def base58_permit_def sample_permit_def sample_demo_input_def sample_request_def)
  obtain t where t: "signAuthorizationRequestV2 base58_platform sample_request ''A'' = Inr t"
    using request_sign_then_verify [OF base58_platform_laws(1,2) wf_sample_request] by blast
  then have "t = ''sA''" by (auto simp: signAuthorizationRequestV2_def base58_signature split: sum.splits option.splits)
  with t op req q(1) show ?thesis
    by (simp add: prepare_demo_def setup_scenario_def Let_def sample_body_def)
      (simp add: sample_demo_input_def sample_agent_world_def sample_agent_def)
qed

lemma show_nat_body: "show_nat 2 = ''2''" "show_nat 50 = ''50''" "show_nat 100 = ''100''"
  by (simp_all add: show_nat.simps digit_char_def char_of_def bit_numeral_rec bit_0)

lemma sample_body_read: "readJsonBody base58_platform [utf8 (jtext sample_body)] = Inr sample_body"
proof -
  have "jlen sample_body \<le> 4096"
    by (simp add: sample_body_def authorize_body_def signed_permit_v2_json_def base58_permit_def permit_v2_fields_def
        shared_permit_fields_def request_v2_json_def shared_request_fields_def sample_request_def sample_permit_def
        signature_json_def operation_json_def sample_operation_def AUTHORIZATION_REQUEST_PROTOCOL_def PURCHASE_PERMIT_DOMAIN_def
        length_json_quote json_char_def code_def sample_digest_def sum_list_replicate map_replicate show_nat_samples show_nat_body)
  then have "length (utf8 (jtext sample_body)) \<le> AUTHORITY_MAX_BODY_BYTES"
    using length_utf8 [of "jtext sample_body"] unfolding length_jtext AUTHORITY_MAX_BODY_BYTES_def by linarith
  moreover have "parseJson base58_platform (utf8 (jtext sample_body)) = Some sample_body"
    using jread_jtext [of sample_body "length (jtext sample_body)" "[]"]
    by (simp add: base58_platform_def hex_platform_def sample_platform_def sample_parse_json_def utf8_decode_utf8)
  ultimately show ?thesis unfolding readJsonBody_def by (simp add: read_chunks_exact)
qed

theorem agent_request_decided_witness:
  "\<exists>ar. ar_permit ar = base58_permit \<and> ar_request ar = sample_request
    \<and> authority_server base58_authority ''s'' None \<lparr> hr_method = ''POST'', hr_url = ''/authorize'',
          hr_authorization = Some (''Bearer s''), hr_chunks = [utf8 (jtext sample_body)] \<rparr> sample_state
      = reply_of (\<lambda>result. (200, DecisionBody result)) (process base58_authority ar sample_state)"
proof -
  obtain quote operation where p: "prepare_demo base58_platform sample_agent sample_agent_world
     \<lparr> ip_permit = base58_permit, ip_digest = sample_digest \<rparr> sample_demo_input = Inr (quote, operation, sample_body)"
    using sample_prepared by blast
  have "request_v2_json (demo_request sample_agent \<lparr> ip_permit = base58_permit, ip_digest = sample_digest \<rparr> sample_demo_input quote operation 50)
      = request_v2_json sample_request"
    using prepared_body [OF p] by (auto simp: sample_body_def authorize_body_def sample_agent_world_def)
  then have r: "demo_request sample_agent \<lparr> ip_permit = base58_permit, ip_digest = sample_digest \<rparr> sample_demo_input quote operation 50
      = sample_request"
    by (simp add: request_v2_json_def shared_request_fields_def operation_json_def demo_request_def sample_request_def)
  have f: "gw_now sample_agent_world = 50" "ns_now sample_state = 60" "au_pending sample_state x = None" for x
    by (simp_all add: sample_agent_world_def sample_state_def)
  have a: "aa_audience base58_authority = ''auth''" "aa_issuerEntitlement base58_authority = \<lparr> ie_issuer = ''KI'', ie_settlementProfiles = [''devnet''] \<rparr>"
    "aa_maxRequestAgeMs base58_authority = 120000" "aa_maxFutureSkewMs base58_authority = 30000"
    by (simp_all add: base58_authority_def sample_authority_def)
  have i: "0 < length (sn_objects agent_store)" "ss_installed (sn_objects agent_store ! 0)
      = Some \<lparr> ip_permit = base58_permit, ip_digest = sample_digest \<rparr>"
    by (simp_all add: agent_store_def sample_session_def)
  have k: "ag_agentAddress sample_agent = keyAddress base58_platform (ag_agentIdentity sample_agent)"
    "ag_authorityAudience sample_agent = aa_audience base58_authority"
    by (simp_all add: sample_agent_def base58_signature a)
  have t: "pp_issuer (sg_body (ip_permit \<lparr> ip_permit = base58_permit, ip_digest = sample_digest \<rparr>))
       = ie_issuer (aa_issuerEntitlement base58_authority)"
    "pp_network (sg_body (ip_permit \<lparr> ip_permit = base58_permit, ip_digest = sample_digest \<rparr>))
       \<in> set (ie_settlementProfiles (aa_issuerEntitlement base58_authority))"
    "ns_now sample_state - aa_maxRequestAgeMs base58_authority \<le> gw_now sample_agent_world"
    "gw_now sample_agent_world \<le> ns_now sample_state + aa_maxFutureSkewMs base58_authority"
    by (simp_all add: a f base58_permit_def sample_permit_def)
  from agent_request_decided [OF base58_platform_laws(1,2) base58_authority_fields(1) [symmetric] k agent_store_steps i p t
      sample_body_read f(3), of "''s''" None]
  show ?thesis by (simp add: f r)
qed

section \<open>The authority's HTTP surface\<close>

text \<open>A caller that does not present the shared secret as its bearer token changes nothing at the authority and
  learns nothing but its public address, whatever route, body or state.\<close>

theorem authority_needs_secret:
  assumes "hr_authorization request \<noteq> Some (''Bearer '' @ secret)"
  shows "snd (authority_server A secret running request s) = s
    \<and> fst (authority_server A secret running request s)
      \<in> {(200, HealthBody (aa_address A)), (401, ErrorBody None), (404, ErrorBody None)}"
proof -
  have "\<not> presents secret (hr_authorization request)" using assms by (simp only: presents_iff simp_thms)
  then show ?thesis by (simp add: authority_server_def)
qed

theorem authority_needs_secret_witness:
  "snd (authority_server base58_authority ''s'' None \<lparr> hr_method = ''POST'', hr_url = ''/reconcile'',
     hr_authorization = Some ''Bearer t'', hr_chunks = [] \<rparr> sample_state) = sample_state"
  using authority_needs_secret [of "\<lparr> hr_method = ''POST'', hr_url = ''/reconcile'', hr_authorization = Some ''Bearer t'',
      hr_chunks = [] \<rparr>" "''s''"] by simp

text \<open>C39. The evidence relay works for exactly the invocation IDs without a colon: the agent escapes the ID in the
  path it asks the authority for, and the authority matches the escaped path, so that of an ID with a colon, which
  both sides accept for a purchase, it refuses the export with status 400 whatever it holds.\<close>

theorem evidence_relay_exact:
  assumes "INVOCATION_ID_PATTERN x"
  shows "authority_server A secret running \<lparr> hr_method = ''GET'', hr_url = ''/evidence/'' @ encodeURIComponent x,
       hr_authorization = Some (''Bearer '' @ secret), hr_chunks = [] \<rparr> s
    = (if CHR '':'' \<in> set x then ((400, ErrorBody None), s)
       else reply_of (evidence_body (aa_platform A)) (exportEvidence A x None s))"
proof -
  have chars: "list_all (\<lambda>c. is_segment_char c \<or> c = CHR ''.'' \<or> c = CHR '':'') x"
    using assms by (simp add: INVOCATION_ID_PATTERN_def identifier_pattern_def class_between_def)
  have "EVIDENCE_PATH (''/evidence/'' @ encodeURIComponent x) = (if CHR '':'' \<in> set x then None else Some x)"
  proof (cases "CHR '':'' \<in> set x")
    case True
    then have "CHR 0x25 \<in> set (encodeURIComponent x)" by (rule encode_identifier_plain(2) [OF chars])
    moreover have "\<not> (is_segment_char CHR 0x25 \<or> CHR 0x25 = CHR ''.'' \<or> CHR 0x25 = CHR '':'')" by code_simp
    ultimately have "\<not> identifier_pattern (encodeURIComponent x)"
      unfolding identifier_pattern_def class_between_def list_all_iff by blast
    with True show ?thesis by (simp add: EVIDENCE_PATH_def Let_def)
  next
    case False
    with encode_identifier_plain(1) [OF chars] assms show ?thesis
      by (simp add: EVIDENCE_PATH_def Let_def starts_with_def INVOCATION_ID_PATTERN_def)
  qed
  moreover have "presents secret (Some (''Bearer '' @ secret))" by (simp only: presents_iff)
  moreover have "starts_with (''/evidence/'' @ encodeURIComponent x) ''/evidence/''" by (simp add: starts_with_def)
  ultimately show ?thesis by (simp add: authority_server_def)
qed

theorem evidence_relay_exact_witness:
  "fst (authority_server base58_authority ''s'' None \<lparr> hr_method = ''GET'', hr_url = ''/evidence/a%3Ab'',
     hr_authorization = Some ''Bearer s'', hr_chunks = [] \<rparr> sample_state) = (400, ErrorBody None)"
proof -
  have "INVOCATION_ID_PATTERN ''a:b''" "encodeURIComponent ''a:b'' = ''a%3Ab''" by code_simp+
  with evidence_relay_exact [of "''a:b''" base58_authority "''s''" None sample_state] show ?thesis by simp
qed

end
