(* ===== verification/Paid_Service.thy ===== *)
theory Paid_Service
  imports Agent_Server Authority_Server
begin

text \<open>
  apps/service-agent/src/report.ts and app.ts: the paid report service.  The middleware of the report route is
  modelled in its order: the strict body, the check of the authorization of a paid request, the payment gate, the
  report with its acknowledgement.  A payment gate (Pay Kit) is a function of the scenario and the request: it
  answers itself, or lets the request pass with the payment it settled; \<open>svs_gated\<close> records what a gate was given.
  What express does with a request before the route (routing, reading and parsing the body) is in \<open>service_request\<close>.
\<close>

section \<open>JSON text\<close>

text \<open>\<open>JSON.stringify(v)\<close>: members that are undefined are left out, and are null in an array.\<close>

fun json_stringify :: "jsval \<Rightarrow> string" where
  "json_stringify JUndef = ''null''"
| "json_stringify JNull = ''null''"
| "json_stringify (JBool b) = (if b then ''true'' else ''false'')"
| "json_stringify (JInt i) = show_int i"
| "json_stringify (JNonInt s) = s"
| "json_stringify (JStr s) = json_quote s"
| "json_stringify (JArr vs) = ''['' @ join_with '','' (map json_stringify vs) @ '']''"
| "json_stringify (JObj kvs) = CHR 0x7B # join_with '','' (concat (map (\<lambda>kv. if snd kv = JUndef then []
     else [json_quote (fst kv) @ '':'' @ json_stringify (snd kv)]) kvs)) @ [CHR 0x7D]"

section \<open>Reports\<close>

definition SERVICE_ID :: string where
  "SERVICE_ID = ''mock-dataset-reports''"

definition CAPABILITY :: string where
  "CAPABILITY = ''reports.generate''"

definition REPORT_RESOURCE :: string where
  "REPORT_RESOURCE = ''/api/v1/report''"

definition OPERATIONS :: "string list" where
  "OPERATIONS = [''summarize'', ''export'']"

record report_row =
  rr_region :: string
  rr_revenue :: int

definition DATASETS :: "(string \<times> report_row list) list" where
  "DATASETS =
     [(''dataset-a'', [\<lparr> rr_region = ''north'', rr_revenue = 120 \<rparr>, \<lparr> rr_region = ''south'', rr_revenue = 95 \<rparr>,
        \<lparr> rr_region = ''east'', rr_revenue = 143 \<rparr>]),
      (''dataset-b'', [\<lparr> rr_region = ''west'', rr_revenue = 88 \<rparr>, \<lparr> rr_region = ''central'', rr_revenue = 131 \<rparr>])]"

record ReportRequest =
  rpt_operation :: string
  rpt_datasetId :: string

definition parseReportRequest :: "jsval \<Rightarrow> ReportRequest option" where
  "parseReportRequest body =
     (if \<not> isPlainObject body then None
      else if sort (jkeys body) \<noteq> [''datasetId'', ''operation''] then None
      else if \<not> jstr_is (\<lambda>s. s \<in> set OPERATIONS) (jget body ''operation'') then None
      else if \<not> jstr_is (\<lambda>s. s \<in> set (map fst DATASETS)) (jget body ''datasetId'') then None
      else Some \<lparr> rpt_operation = jstr (jget body ''operation''), rpt_datasetId = jstr (jget body ''datasetId'') \<rparr>)"

definition row_json :: "report_row \<Rightarrow> jsval" where
  "row_json r = JObj [(''region'', JStr (rr_region r)), (''revenue'', JInt (rr_revenue r))]"

text \<open>Sorting by falling revenue is stable.\<close>

definition runReport :: "ReportRequest \<Rightarrow> jsval" where
  "runReport report =
     (let rows = (case map_of DATASETS (rpt_datasetId report) of None \<Rightarrow> [] | Some rows \<Rightarrow> rows) in
      if rpt_operation report = ''export''
      then JObj [(''kind'', JStr ''export''), (''rowCount'', JInt (int (length rows))), (''rows'', JArr (map row_json rows))]
      else JObj [(''kind'', JStr ''summary''), (''rowCount'', JInt (int (length rows))),
             (''totalRevenue'', JInt (foldl (\<lambda>s r. s + rr_revenue r) 0 rows)),
             (''topRegion'', case sort_key (\<lambda>r. - rr_revenue r) rows of [] \<Rightarrow> JNull | r # _ \<Rightarrow> JStr (rr_region r))])"

section \<open>The application\<close>

record service_request =
  sr_method :: string
  sr_path :: string
  sr_paymentSignature :: "string option"
  sr_authorization :: "string option"
  sr_invocationId :: "string option"
  sr_rawBody :: "bytes option"
  sr_body :: jsval

text \<open>The protocol and transaction of a settled payment, \<open>None\<close> where the gate reports none.\<close>

datatype gate_outcome = GateResponds int | GatePasses "(string option \<times> string option) option"

record ServiceAppOptions =
  vo_gates :: "DemoScenario \<Rightarrow> service_request \<Rightarrow> gate_outcome"
  vo_serviceKey :: signing_key
  vo_serviceAddress :: address
  vo_authorityKey :: "string option"
  vo_network :: string
  vo_asset :: string
  vo_payTo :: string
  vo_amountAtomic :: string

record service_state =
  svs_scenarios :: "(string \<times> DemoScenario) list"
  svs_gated :: "(DemoScenario \<times> service_request) list"

definition SCENARIOS :: "(string \<times> DemoScenario) list" where
  "SCENARIOS = [(''honest'', Honest), (''overcharge'', Overcharge), (''wrong-recipient'', WrongRecipient),
     (''wrong-asset'', WrongAsset), (''lost-response'', LostResponse), (''drop-credential'', DropCredential)]"

definition MAX_SCENARIOS :: nat where
  "MAX_SCENARIOS = 1000"

definition scenarioFor :: "service_state \<Rightarrow> service_request \<Rightarrow> DemoScenario" where
  "scenarioFor st request =
     (case sr_invocationId request of
        None \<Rightarrow> Honest
      | Some x \<Rightarrow> if x = [] then Honest
                  else case map_of (svs_scenarios st) x of None \<Rightarrow> Honest | Some scenario \<Rightarrow> scenario)"

definition service_quote :: "ServiceAppOptions \<Rightarrow> string \<Rightarrow> jsval" where
  "service_quote opts quoteId =
     JObj [(''quoteId'', JStr quoteId), (''service'', JStr SERVICE_ID), (''capability'', JStr CAPABILITY),
       (''method'', JStr ''POST''), (''resource'', JStr REPORT_RESOURCE), (''operations'', JArr (map JStr OPERATIONS)),
       (''network'', JStr (vo_network opts)), (''mint'', JStr (vo_asset opts)), (''recipient'', JStr (vo_payTo opts)),
       (''amountAtomic'', JStr (vo_amountAtomic opts)),
       (''display'', JObj [(''tokenLabel'', JStr ''sandbox USDC (no real value)''), (''decimals'', JInt 6),
          (''note'', JStr ''same price for every operation'')])]"

text \<open>The scenario route; the result says whether it was set.\<close>

definition set_scenario :: "jsval \<Rightarrow> service_state \<Rightarrow> bool \<times> service_state" where
  "set_scenario body st =
     (let invocationId = jget body ''invocationId''; scenario = jget body ''scenario'' in
      if \<not> jstr_is INVOCATION_ID_PATTERN invocationId \<or> \<not> jstr_is (\<lambda>s. s \<in> set (map fst SCENARIOS)) scenario
      then (False, st)
      else
        let scenarios = (if length (svs_scenarios st) \<ge> MAX_SCENARIOS
              then (case svs_scenarios st of [] \<Rightarrow> [] | (oldest, _) # _ \<Rightarrow> map_delete oldest (svs_scenarios st))
              else svs_scenarios st) in
        (True, st \<lparr> svs_scenarios := map_set (jstr invocationId) (the (map_of SCENARIOS (jstr scenario))) scenarios \<rparr>))"

section \<open>The report route\<close>

datatype service_reply =
    SocketDestroyed
  | GateReply int
  | ServiceError int "string option"
  | ServiceReport string "string option"

fun authorization_code_text :: "ServiceAuthorizationReasonCode \<Rightarrow> string" where
  "authorization_code_text SERVICE_AUTHORIZATION_REQUIRED = ''SERVICE_AUTHORIZATION_REQUIRED''"
| "authorization_code_text SERVICE_AUTHORIZATION_INVALID = ''SERVICE_AUTHORIZATION_INVALID''"
| "authorization_code_text SERVICE_AUTHORIZATION_EXPIRED = ''SERVICE_AUTHORIZATION_EXPIRED''"
| "authorization_code_text SERVICE_AUTHORIZATION_REQUEST_MISMATCH = ''SERVICE_AUTHORIZATION_REQUEST_MISMATCH''"
| "authorization_code_text SERVICE_AUTHORIZATION_PAYMENT_MISMATCH = ''SERVICE_AUTHORIZATION_PAYMENT_MISMATCH''"

definition paid :: "service_request \<Rightarrow> bool" where
  "paid request \<longleftrightarrow> (case sr_paymentSignature request of None \<Rightarrow> False | Some s \<Rightarrow> s \<noteq> [])"

text \<open>What the second middleware leaves in \<open>response.locals.authorization\<close>, or the refusal it answers.\<close>

definition check_paid ::
  "platform \<Rightarrow> ServiceAppOptions \<Rightarrow> int \<Rightarrow> service_request
     \<Rightarrow> service_reply + (service_authorization signed \<times> string \<times> string) option" where
  "check_paid px opts now request =
     (if \<not> paid request then Inr None
      else case vo_authorityKey opts of
        None \<Rightarrow> Inl (ServiceError 503 (Some ''SERVICE_AUTHORIZATION_UNAVAILABLE''))
      | Some authorityKey \<Rightarrow>
        (case checkServiceAuthorization px
            \<lparr> sc_header = sr_authorization request, sc_pinnedAuthority = authorityKey, sc_method = sr_method request,
              sc_path = sr_path request, sc_rawBody = (case sr_rawBody request of None \<Rightarrow> [] | Some b \<Rightarrow> b),
              sc_invocationIdHeader = sr_invocationId request, sc_asset = vo_asset opts, sc_payTo = vo_payTo opts,
              sc_amountAtomic = vo_amountAtomic opts, sc_now = now \<rparr> of
           None \<Rightarrow> Inl (ServiceError 500 None)
         | Some (CheckFailed c) \<Rightarrow> Inl (ServiceError 403 (Some (authorization_code_text c)))
         | Some (CheckOk m sha d) \<Rightarrow> Inr (Some (m, sha, d))))"

definition report_text :: "service_request \<Rightarrow> ReportRequest \<Rightarrow> (string option \<times> string option) option \<Rightarrow> string" where
  "report_text request report payment =
     json_stringify (JObj [(''service'', JStr SERVICE_ID), (''capability'', JStr CAPABILITY),
       (''received'', JObj [(''method'', JStr (sr_method request)), (''resource'', JStr REPORT_RESOURCE),
          (''operation'', JStr (rpt_operation report)), (''datasetId'', JStr (rpt_datasetId report))]),
       (''result'', runReport report),
       (''paidWith'', JObj [(''protocol'', opt_json JStr (Option.bind payment fst)),
          (''transaction'', opt_json JStr (Option.bind payment snd))])])"

definition acknowledgement_for ::
  "platform \<Rightarrow> ServiceAppOptions \<Rightarrow> service_request \<Rightarrow> ReportRequest \<Rightarrow> (string option \<times> string option) option
     \<Rightarrow> service_authorization signed \<times> string \<times> string \<Rightarrow> bytes \<Rightarrow> int \<Rightarrow> service_acknowledgement" where
  "acknowledgement_for px opts request report payment authorization bytes now =
     (case authorization of (m, requestSha256, authorizationDigest) \<Rightarrow>
      \<lparr> sk_service = vo_serviceAddress opts, sk_invocationId = sa_invocationId (sg_body m),
        sk_authorizationDigest = authorizationDigest, sk_requestSha256 = requestSha256,
        sk_method = sr_method request, sk_resource = REPORT_RESOURCE, sk_operation = rpt_operation report,
        sk_datasetId = rpt_datasetId report, sk_transaction = Option.bind payment snd, sk_asset = vo_asset opts,
        sk_payTo = vo_payTo opts, sk_amountAtomic = vo_amountAtomic opts, sk_httpStatus = 200,
        sk_sha256 = sha256Hex px bytes, sk_bytes = int (length bytes), sk_fulfilledAt = now \<rparr>)"

text \<open>A throw here is after the gate has settled.\<close>

definition fulfil ::
  "platform \<Rightarrow> ServiceAppOptions \<Rightarrow> int \<Rightarrow> service_request \<Rightarrow> ReportRequest
     \<Rightarrow> (string option \<times> string option) option \<Rightarrow> (service_authorization signed \<times> string \<times> string) option
     \<Rightarrow> service_reply" where
  "fulfil px opts now request report payment authorization =
     (let body = report_text request report payment in
      case authorization of
        None \<Rightarrow> ServiceReport body None
      | Some a \<Rightarrow>
        (case signServiceAcknowledgement px (acknowledgement_for px opts request report payment a (utf8 body) now)
            (vo_serviceKey opts) of
           Inl _ \<Rightarrow> ServiceError 500 None
         | Inr acknowledgement \<Rightarrow>
           (case encodeServiceHeader px (signed_json service_acknowledgement_fields acknowledgement) of
              None \<Rightarrow> ServiceError 500 None
            | Some h \<Rightarrow> ServiceReport body (Some h))))"

text \<open>The checks and the gate wait, and the handler of the scenario route may run meanwhile; no other
  handler changes what this route reads.  So the scenario is looked up after the check, and again after
  the gate: \<open>during_check\<close> and \<open>during_gate\<close> are the bodies the scenario route is given in these two waits.
  A request without a credential is not checked, so nothing runs before its gate.\<close>

definition scenarios_set :: "jsval list \<Rightarrow> service_state \<Rightarrow> service_state" where
  "scenarios_set bodies st = fold (\<lambda>body st. snd (set_scenario body st)) bodies st"

definition report_route ::
  "platform \<Rightarrow> ServiceAppOptions \<Rightarrow> int \<Rightarrow> int \<Rightarrow> jsval list \<Rightarrow> jsval list \<Rightarrow> service_request \<Rightarrow> service_state
     \<Rightarrow> service_reply \<times> service_state" where
  "report_route px opts checked fulfilled during_check during_gate request st =
     (case parseReportRequest (sr_body request) of
        None \<Rightarrow> (ServiceError 400 None, st)
      | Some report \<Rightarrow>
        let st = (if paid request then scenarios_set during_check st else st) in
        case check_paid px opts checked request of
          Inl refusal \<Rightarrow> (refusal, st)
        | Inr authorization \<Rightarrow>
          let scenario = scenarioFor st request in
          if scenario = DropCredential \<and> paid request then (SocketDestroyed, st)
          else
            let gated = st \<lparr> svs_gated := svs_gated st @ [(scenario, request)] \<rparr>;
                st = scenarios_set during_gate gated in
            case vo_gates opts scenario request of
              GateResponds status \<Rightarrow> (GateReply status, st)
            | GatePasses payment \<Rightarrow>
              if scenarioFor st request = LostResponse then (SocketDestroyed, st)
              else (fulfil px opts fulfilled request report payment authorization, st))"

lemma scenarios_set_gated [simp]: "svs_gated (scenarios_set bodies st) = svs_gated st"
  by (induction bodies arbitrary: st) (simp_all add: scenarios_set_def set_scenario_def Let_def)

lemma set_scenario_gated:
  "snd (set_scenario body (st \<lparr> svs_gated := g \<rparr>)) = snd (set_scenario body st) \<lparr> svs_gated := g \<rparr>"
  by (cases st) (simp add: set_scenario_def Let_def split: list.split)

lemma scenarios_set_with_gated:
  "scenarios_set bodies (st \<lparr> svs_gated := g \<rparr>) = scenarios_set bodies st \<lparr> svs_gated := g \<rparr>"
  by (induction bodies arbitrary: st) (simp_all add: scenarios_set_def set_scenario_gated)

lemma scenarioFor_gated [simp]: "scenarioFor (st \<lparr> svs_gated := g \<rparr>) request = scenarioFor st request"
  by (simp add: scenarioFor_def split: option.split)

text \<open>The second lookup sees every scenario set since the request arrived.\<close>

lemma scenario_after_gate:
  "scenarioFor (scenarios_set during_gate (scenarios_set during_check st \<lparr> svs_gated := g \<rparr>)) request
     = scenarioFor (scenarios_set (during_check @ during_gate) st) request"
  by (simp add: scenarios_set_with_gated) (simp add: scenarios_set_def)

text \<open>The pinned authority key of index.ts: read until the file holds one, then kept.\<close>

definition readAuthorityKey :: "string option \<Rightarrow> string option \<Rightarrow> string option" where
  "readAuthorityKey authorityKey contents =
     (case authorityKey of
        Some key \<Rightarrow> Some key
      | None \<Rightarrow>
        (case contents of
           None \<Rightarrow> None
         | Some text \<Rightarrow> if class_between is_base58_char 32 44 (trim text) then Some (trim text) else None))"

end
