(* ===== verification/Service_Properties.thy ===== *)
theory Service_Properties
  imports Paid_Service Authority_Properties
begin

text \<open>
  What the paid service promises to the authority: a gate is given a paid request only after the authority's
  signed authorization for exactly that request was checked, and the acknowledgement of a fulfilled request is one
  the authority keeps.
\<close>

section \<open>The gate\<close>

text \<open>C7. A payment gate is given a request with a payment credential only when the header carries an authorization
  that verifies under the pinned authority key, is in its time window, and names exactly the method, path, body
  bytes and invocation received and this service's price; a refusal reaches no gate.\<close>

theorem gate_only_after_authorization:
  assumes "report_route px opts checked fulfilled during_check during_gate request st = (reply, st')" "svs_gated st' \<noteq> svs_gated st" "paid request"
  shows "\<exists>key h m u report.
      svs_gated st' = svs_gated st @ [(scenarioFor (scenarios_set during_check st) request, request)]
    \<and> parseReportRequest (sr_body request) = Some report
    \<and> vo_authorityKey opts = Some key \<and> sr_authorization request = Some h
    \<and> decodeServiceAuthorizationHeader px h = Some m \<and> verifyServiceAuthorizationSignature px m key
    \<and> sa_issuedAt (sg_body m) - 30000 \<le> checked \<and> checked \<le> sa_expiresAt (sg_body m)
    \<and> sr_method request = ''POST'' \<and> parseUrl px (sa_url (sg_body m)) = Some u \<and> sr_path request = url_pathname u
    \<and> received_request_digest px (sa_url (sg_body m)) (case sr_rawBody request of None \<Rightarrow> [] | Some b \<Rightarrow> b)
        = Some (sa_requestSha256 (sg_body m))
    \<and> sr_invocationId request = Some (sa_invocationId (sg_body m))
    \<and> sa_asset (sg_body m) = vo_asset opts \<and> sa_payTo (sg_body m) = vo_payTo opts
    \<and> sa_amountAtomic (sg_body m) = vo_amountAtomic opts"
proof -
  obtain report where rep: "parseReportRequest (sr_body request) = Some report"
    using assms(1,2) by (cases "parseReportRequest (sr_body request)") (auto simp: report_route_def)
  obtain authorization where c: "check_paid px opts checked request = Inr authorization"
    using assms(1,2) rep by (cases "check_paid px opts checked request") (auto simp: report_route_def Let_def split: if_splits)
  have g: "svs_gated st' = svs_gated st @ [(scenarioFor (scenarios_set during_check st) request, request)]"
    using assms rep c by (auto simp: report_route_def Let_def split: if_splits gate_outcome.splits)
  obtain key where k: "vo_authorityKey opts = Some key"
    using c assms(3) by (auto simp: check_paid_def split: option.splits)
  obtain m sha d where ok: "checkServiceAuthorization px
            \<lparr> sc_header = sr_authorization request, sc_pinnedAuthority = key, sc_method = sr_method request,
              sc_path = sr_path request, sc_rawBody = (case sr_rawBody request of None \<Rightarrow> [] | Some b \<Rightarrow> b),
              sc_invocationIdHeader = sr_invocationId request, sc_asset = vo_asset opts, sc_payTo = vo_payTo opts,
              sc_amountAtomic = vo_amountAtomic opts, sc_now = checked \<rparr> = Some (CheckOk m sha d)"
    using c assms(3) k by (auto simp: check_paid_def split: option.splits ServiceAuthorizationCheck.splits)
  from ok [unfolded checkServiceAuthorization_Ok] g rep k show ?thesis by auto
qed

section \<open>The acknowledgement\<close>

lemma parse_report_cong:
  assumes "json_value v" "json_value w" "jnorm v = jnorm w"
  shows "parseReportRequest v = parseReportRequest w"
proof (cases "isPlainObject v \<and> isPlainObject w")
  case True
  then obtain a b where v: "v = JObj a" "w = JObj b" by (auto simp: isPlainObject_iff)
  with assms have d: "distinct (map fst a)" "distinct (map fst b)" by auto
  have n: "jnorm (jget v k) = jnorm (jget w k)" for k
    using jnorm_jget_cong [OF _ d, of k] assms(3) v by simp
  have str: "jstr_is P (jget v k) = jstr_is P (jget w k)" "jstr (jget v k) = jstr (jget w k)" for P k
    using n [of k] by (cases "jget v k"; cases "jget w k"; simp)+
  have "map fst (sort_key fst (map (\<lambda>kv. (fst kv, jnorm (snd kv))) a)) = map fst (sort_key fst (map (\<lambda>kv. (fst kv, jnorm (snd kv))) b))"
    using assms(3) v by simp
  moreover have "map fst (insort_key fst x xs) = insort (fst x) (map fst xs)" for x and xs :: "(string \<times> jsval) list"
    by (induction xs) simp_all
  then have "map fst (sort_key fst xs) = sort (map fst xs)" for xs :: "(string \<times> jsval) list"
    by (induction xs) simp_all
  ultimately have "sort (jkeys v) = sort (jkeys w)" using v by (simp add: comp_def)
  with str True show ?thesis unfolding parseReportRequest_def by simp
next
  case False
  have "isPlainObject v = isPlainObject w" using assms(3) by (cases v; cases w; simp)
  with False show ?thesis by (auto simp: parseReportRequest_def)
qed

lemma parse_report_body:
  assumes "json_reads_back px" "operationRequestBody px p = Some body" "parseJson px (utf8 body) = Some w"
    and "op_operation p \<in> set OPERATIONS" "op_datasetId p \<in> set (map fst DATASETS)"
  shows "parseReportRequest w = Some \<lparr> rpt_operation = op_operation p, rpt_datasetId = op_datasetId p \<rparr>"
proof -
  let ?v = "JObj [(''operation'', JStr (op_operation p)), (''datasetId'', JStr (op_datasetId p))]"
  have "json_value ?v" by simp
  with assms(1,2) obtain w' where "parseJson px (utf8 body) = Some w'" "json_value w'" "jnorm w' = jnorm ?v"
    unfolding json_reads_back_def operationRequestBody_def by blast
  with assms(3) have w: "json_value w" "jnorm w = jnorm ?v" by simp_all
  have "sort [''operation'', ''datasetId''] = [''datasetId'', ''operation'']"
    by (simp add: less_eq_char_def less_char_def)
  then have "sort (jkeys ?v) = [''datasetId'', ''operation'']" by (simp only: jkeys.simps list.map fst_conv)
  then have "parseReportRequest ?v = Some \<lparr> rpt_operation = op_operation p, rpt_datasetId = op_datasetId p \<rparr>"
    using assms(4,5) unfolding parseReportRequest_def by simp
  then show ?thesis using parse_report_cong [OF w(1) _ w(2)] by simp
qed

text \<open>Each side has pinned the other's key, and both sign with their own; the service charges the terms.\<close>

definition trusts_each_other :: "platform \<Rightarrow> authority \<Rightarrow> ServiceAppOptions \<Rightarrow> permit_v2 \<Rightarrow> bool" where
  "trusts_each_other px A opts permit \<longleftrightarrow>
     keyAddress px (aa_signer A) = aa_address A \<and> keyAddress px (vo_serviceKey opts) = vo_serviceAddress opts
     \<and> vo_authorityKey opts = Some (aa_address A) \<and> aa_trustedServiceKeys A (pp_service permit) = Some (vo_serviceAddress opts)"

definition charges :: "ServiceAppOptions \<Rightarrow> PaymentRequirement \<Rightarrow> bool" where
  "charges opts m \<longleftrightarrow> vo_asset opts = pm_asset m \<and> vo_payTo opts = pm_payTo m \<and> vo_amountAtomic opts = pm_amountAtomic m"

definition report_operation :: "ExactOperation \<Rightarrow> bool" where
  "report_operation p \<longleftrightarrow> op_method p = ''POST'' \<and> op_resource p = REPORT_RESOURCE
     \<and> op_operation p \<in> set OPERATIONS \<and> op_datasetId p \<in> set (map fst DATASETS)"

definition fitting_header :: "platform \<Rightarrow> jsval \<Rightarrow> string \<Rightarrow> bool" where
  "fitting_header px v h \<longleftrightarrow> encodeServiceHeader px v = Some h \<and> h \<noteq> [] \<and> length h \<le> MAX_HEADER_CHARS"

text \<open>The paid retry of a request as the service receives it.\<close>

definition received_retry :: "platform \<Rightarrow> PaidRequest \<Rightarrow> string \<Rightarrow> string \<Rightarrow> string \<Rightarrow> service_request option" where
  "received_retry px q x h credential =
     (case (parseUrl px (pq_url q), parseJson px (utf8 (pq_body q))) of
        (Some u, Some body) \<Rightarrow>
          Some \<lparr> sr_method = pq_method q, sr_path = url_pathname u, sr_paymentSignature = Some credential,
                 sr_authorization = Some h, sr_invocationId = Some x, sr_rawBody = Some (utf8 (pq_body q)), sr_body = body \<rparr>
      | _ \<Rightarrow> None)"

text \<open>What the provider returns of a report it got.\<close>

definition received_report :: "platform \<Rightarrow> string \<Rightarrow> string \<Rightarrow> jsval \<Rightarrow> string option \<Rightarrow> PaidResult" where
  "received_report px text k json bodyBase64 =
     \<lparr> rs_httpStatus = 200, rs_json = json, rs_sha256 = sha256Hex px (utf8 text), rs_bytes = length (utf8 text),
        rs_bodyBase64 = bodyBase64, rs_serviceAcknowledgementHeader = Some k \<rparr>"

lemma paid_report_parses:
  assumes "json_reads_back px" "buildPaidRequest px resource p = Inr (Some q)" "report_operation p"
    and "received_retry px q x h credential = Some request"
  shows "\<exists>u. parseUrl px (pq_url q) = Some u \<and> q = createPaidRequest px (pq_url q) ''POST'' (pq_body q)
    \<and> sr_path request = url_pathname u \<and> sr_method request = ''POST'' \<and> sr_rawBody request = Some (utf8 (pq_body q))
    \<and> sr_authorization request = Some h \<and> sr_invocationId request = Some x \<and> sr_paymentSignature request = Some credential
    \<and> parseReportRequest (sr_body request) = Some \<lparr> rpt_operation = op_operation p, rpt_datasetId = op_datasetId p \<rparr>"
proof -
  from assms(2) obtain body where b: "operationRequestBody px p = Some body"
      "q = createPaidRequest px (rc_url resource) (op_method p) body"
    by (auto simp: buildPaidRequest_def split: if_splits option.splits)
  from assms(4) obtain u w where u: "parseUrl px (pq_url q) = Some u" "parseJson px (utf8 (pq_body q)) = Some w"
      "request = \<lparr> sr_method = pq_method q, sr_path = url_pathname u, sr_paymentSignature = Some credential,
         sr_authorization = Some h, sr_invocationId = Some x, sr_rawBody = Some (utf8 (pq_body q)), sr_body = w \<rparr>"
    by (auto simp: received_retry_def split: option.splits)
  have "parseReportRequest w = Some \<lparr> rpt_operation = op_operation p, rpt_datasetId = op_datasetId p \<rparr>"
    using parse_report_body [OF assms(1) b(1)] u(2) b(2) assms(3) by (simp add: report_operation_def)
  then show ?thesis using u b(2) assms(3) by (simp add: report_operation_def)
qed

text \<open>C15. The two sides agree on the exchange: given the authorization the authority signed for the paid request it
  received, the service lets it through its gate and answers the report with a signed acknowledgement; and of the
  report as it was received, with the transaction confirmed, the authority keeps that acknowledgement.\<close>

theorem authority_keeps_acknowledgement:
  assumes "signatures_verify px" "canonical_total px" "json_reads_back px" "px = aa_platform A"
    and "trusts_each_other px A opts permit" "charges opts m"
    and "inv_request i = StoredV2 r" "report_operation (rq_operation r)"
    and "buildPaidRequest px resource (rq_operation r) = Inr (Some q)"
    and "signServiceAuthorization_for A i permit q m issuedAt = Some sa" "wf_service_authorization sa"
    and "fitting_header px (signed_json service_authorization_fields sa) h"
    and "received_retry px q (inv_id i) h credential = Some request" "credential \<noteq> []"
    and "issuedAt - 30000 \<le> checked" "checked \<le> issuedAt + 120000"
    and "scenarioFor (scenarios_set during_check st) request = Honest"
    and "payment = Some (protocol, Some (cs_transactionId settlement))" "vo_gates opts Honest request = GatePasses payment"
    and "report = \<lparr> rpt_operation = op_operation (rq_operation r), rpt_datasetId = op_datasetId (rq_operation r) \<rparr>"
    and "text = report_text request report payment"
    and "scenarioFor (scenarios_set (during_check @ during_gate) st) request \<noteq> LostResponse"
  shows "\<exists>d k signd. serviceAuthorizationDigest px sa = Some d
    \<and> signServiceAcknowledgement px (acknowledgement_for px opts request report payment (sa, pq_sha256 q, d) (utf8 text)
        fulfilled) (vo_serviceKey opts) = Inr signd
    \<and> fst (report_route px opts checked fulfilled during_check during_gate request st) = ServiceReport text (Some k)
    \<and> encodeServiceHeader px (signed_json service_acknowledgement_fields signd) = Some k
    \<and> verifyServiceAcknowledgementSignature px signd (vo_serviceAddress opts)
    \<and> (wf_service_acknowledgement signd \<and> k \<noteq> [] \<and> length k \<le> MAX_HEADER_CHARS \<longrightarrow>
         acceptAcknowledgement A i permit sa q m settlement (received_report px text k json bodyBase64)
           = received_report px text k json bodyBase64)"
proof -
  from paid_report_parses [OF assms(3,9,8,13)] obtain u where u: "parseUrl px (pq_url q) = Some u"
      "q = createPaidRequest px (pq_url q) ''POST'' (pq_body q)"
    and rq: "sr_path request = url_pathname u" "sr_method request = ''POST''" "sr_rawBody request = Some (utf8 (pq_body q))"
      "sr_authorization request = Some h" "sr_invocationId request = Some (inv_id i)" "sr_paymentSignature request = Some credential"
    and rep: "parseReportRequest (sr_body request) = Some report" using assms(20) by blast
  have t: "keyAddress px (aa_signer A) = aa_address A" "keyAddress px (vo_serviceKey opts) = vo_serviceAddress opts"
      "vo_authorityKey opts = Some (aa_address A)" "aa_trustedServiceKeys A (pp_service permit) = Some (vo_serviceAddress opts)"
    using assms(5) by (simp_all add: trusts_each_other_def)
  have h: "encodeServiceHeader px (signed_json service_authorization_fields sa) = Some h" "h \<noteq> []" "length h \<le> 4096"
    using assms(12) by (simp_all add: fitting_header_def MAX_HEADER_CHARS_def)
  have sa: "signServiceAuthorization_for A i permit (createPaidRequest px (pq_url q) ''POST'' (pq_body q)) m issuedAt = Some sa"
    using assms(10) u(2) by simp
  obtain d where ok: "checkServiceAuthorization px
     \<lparr> sc_header = Some h, sc_pinnedAuthority = aa_address A, sc_method = ''POST'', sc_path = url_pathname u,
       sc_rawBody = utf8 (pq_body q), sc_invocationIdHeader = Some (inv_id i), sc_asset = pm_asset m,
       sc_payTo = pm_payTo m, sc_amountAtomic = pm_amountAtomic m, sc_now = checked \<rparr>
     = Some (CheckOk sa (pq_sha256 q) d)"
    using service_accepts_what_authority_sends [OF assms(1-3) t(1) assms(4) sa assms(11) h u(1) assms(15,16)]
      u(2) by (metis createPaidRequest_simps(5))
  have d: "serviceAuthorizationDigest px sa = Some d" "sa_invocationId (sg_body sa) = inv_id i"
    using ok unfolding checkServiceAuthorization_Ok by auto
  have c: "check_paid px opts checked request = Inr (Some (sa, pq_sha256 q, d))"
    using ok t(3) assms(6,14) rq by (simp add: check_paid_def paid_def charges_def)
  let ?ack = "acknowledgement_for px opts request report payment (sa, pq_sha256 q, d) (utf8 text) fulfilled"
  have sk: "sk_service ?ack = vo_serviceAddress opts" by (simp add: acknowledgement_for_def)
  from acknowledgement_message.sign_then_verify [OF assms(1,2), of "vo_serviceKey opts" "?ack"] t(2) sk
  obtain signd where s: "signServiceAcknowledgement px ?ack (vo_serviceKey opts) = Inr signd" "sg_body signd = ?ack"
    and v: "verifyServiceAcknowledgementSignature px signd (vo_serviceAddress opts)"
    unfolding signServiceAcknowledgement_def verifyServiceAcknowledgementSignature_def by auto
  obtain jt where "canonicalize px (signed_json service_acknowledgement_fields signd) = Some jt"
    using canonical_totalD [OF assms(2) json_value_signed_service(2) [of signd]] by blast
  then obtain k where k: "encodeServiceHeader px (signed_json service_acknowledgement_fields signd) = Some k"
    by (simp add: encodeServiceHeader_def)
  have "paid request" using rq(6) assms(14) by (simp add: paid_def)
  then have reply: "fst (report_route px opts checked fulfilled during_check during_gate request st) = ServiceReport text (Some k)"
    using assms(17,19,21,22) rep c s(1) k by (simp add: report_route_def Let_def fulfil_def scenario_after_gate)
  have "acknowledgement_matches A i (vo_serviceAddress opts) sa q m settlement (received_report px text k json bodyBase64) signd"
    using v s(2) assms(4,6,7,8,18,20) d rq(2)
    by (simp add: acknowledgement_matches_def Let_def acknowledgement_for_def received_report_def charges_def report_operation_def)
  then have "acceptAcknowledgement A i permit sa q m settlement (received_report px text k json bodyBase64)
      = received_report px text k json bodyBase64" if "wf_service_acknowledgement signd" "k \<noteq> []" "length k \<le> MAX_HEADER_CHARS"
    using decode_acknowledgement_encode [OF assms(3) that k] t(4) assms(4)
    by (simp add: acceptAcknowledgement_def Let_def received_report_def)
  with reply k v s(1) d(1) show ?thesis by blast
qed

section \<open>A sample exchange\<close>

definition svc_operation :: ExactOperation where
  "svc_operation = \<lparr> op_method = ''POST'', op_resource = REPORT_RESOURCE, op_operation = ''export'', op_datasetId = ''dataset-a'' \<rparr>"

definition svc_request :: request_v2 where
  "svc_request = sample_request \<lparr> rq_operation := svc_operation \<rparr>"

definition svc_row :: invocation where
  "svc_row = (new_row sample_reserve RESERVED [] 60) \<lparr> inv_request := StoredV2 svc_request \<rparr>"

definition svc_authority :: authority where
  "svc_authority = base58_authority \<lparr> aa_trustedServiceKeys := (\<lambda>_. Some ''KS'') \<rparr>"

definition svc_body :: string where
  "svc_body = the (operationRequestBody base58_platform svc_operation)"

definition svc_paid_request :: PaidRequest where
  "svc_paid_request = createPaidRequest base58_platform REPORT_RESOURCE ''POST'' svc_body"

definition svc_authorization :: "service_authorization signed" where
  "svc_authorization = \<lparr> sg_body = sample_service_authorization \<lparr> sa_url := REPORT_RESOURCE \<rparr>, sg_signature = ''sT'' \<rparr>"

definition svc_header :: string where
  "svc_header = base64url_encode (utf8 (jtext (jnorm (signed_json service_authorization_fields svc_authorization))))"

definition svc_settlement :: ConfirmedSettlement where
  "svc_settlement = \<lparr> cs_transactionId = ''tx'', cs_slot = None, cs_facilitatorReportedTransaction = None, cs_confirmedAt = 80 \<rparr>"

definition svc_options :: ServiceAppOptions where
  "svc_options = \<lparr> vo_gates = (\<lambda>_ _. GatePasses (Some (Some ''x402'', Some ''tx''))), vo_serviceKey = ''S'', vo_serviceAddress = ''KS'',
     vo_authorityKey = Some ''KT'', vo_network = ''n'', vo_asset = ''M'', vo_payTo = ''R'', vo_amountAtomic = ''4'' \<rparr>"

definition svc_received :: service_request where
  "svc_received = \<lparr> sr_method = ''POST'', sr_path = REPORT_RESOURCE, sr_paymentSignature = Some ''cr'',
     sr_authorization = Some svc_header, sr_invocationId = Some ''i1'', sr_rawBody = Some (utf8 svc_body),
     sr_body = jnorm (JObj [(''operation'', JStr ''export''), (''datasetId'', JStr ''dataset-a'')]) \<rparr>"

definition svc_state :: service_state where
  "svc_state = \<lparr> svs_scenarios = [], svs_gated = [] \<rparr>"

lemma svc_signed: "signServiceAuthorization_for svc_authority svc_row sample_permit svc_paid_request (sample_requirement REPORT_RESOURCE) 60
    = Some svc_authorization"
  by (simp add: signServiceAuthorization_for_def svc_row_def new_row_def svc_authority_def base58_authority_fields sample_reserve_def computeOperationDigest_def
      base58_signature svc_request_def svc_paid_request_def signServiceAuthorization_def sign_pinned_def service_canonicalBytes_def
      canonicalBytes_def createPaidRequest_def computePaidRequestDigest_def sample_permit_def sample_requirement_def
      SERVICE_AUTHORIZATION_TTL_MS_def svc_authorization_def sample_service_authorization_def)

lemma svc_authorization_wf: "wf_service_authorization svc_authorization"
  by (simp add: wf_service_authorization_def svc_authorization_def sample_service_authorization_def REPORT_RESOURCE_def
      base58_pattern_def is_base58_char_def hex64_pattern_def class_between_def sample_digest_def char_simps
      MAX_SAFE_INTEGER_def list_all_iff)

lemma fitting_base58:
  assumes "jlen (signed_json fs m) \<le> 1024" "h = base64url_encode (utf8 (jtext (jnorm (signed_json fs m))))"
  shows "fitting_header base58_platform (signed_json fs m) h"
proof -
  have "length h \<le> MAX_HEADER_CHARS"
    using assms(1) length_base64url [of "utf8 (jtext (jnorm (signed_json fs m)))"] length_utf8 [of "jtext (jnorm (signed_json fs m))"]
    unfolding length_jtext jlen_jnorm MAX_HEADER_CHARS_def assms(2) by linarith
  moreover have "h \<noteq> []" using assms(2) by (simp add: base64url_encode_Nil signed_json_def)
  ultimately show ?thesis using assms(2) by (simp add: fitting_header_def encodeServiceHeader_def base58_signature)
qed

lemma svc_header_fits: "fitting_header base58_platform (signed_json service_authorization_fields svc_authorization) svc_header"
proof (rule fitting_base58)
  show "jlen (signed_json service_authorization_fields svc_authorization) \<le> 1024"
    by (simp add: signed_json_def service_authorization_fields_def svc_authorization_def
        sample_service_authorization_def signature_json_def SERVICE_AUTHORIZATION_DOMAIN_def length_json_quote REPORT_RESOURCE_def
        json_char_def code_def sample_digest_def sum_list_replicate map_replicate show_nat_samples)
qed (simp add: svc_header_def)

lemma svc_reads_back: "parseJson base58_platform (utf8 svc_body)
    = Some (jnorm (JObj [(''operation'', JStr ''export''), (''datasetId'', JStr ''dataset-a'')]))"
  and svc_body: "operationRequestBody base58_platform svc_operation = Some svc_body"
proof -
  let ?v = "jnorm (JObj [(''operation'', JStr ''export''), (''datasetId'', JStr ''dataset-a'')])"
  show "operationRequestBody base58_platform svc_operation = Some svc_body"
    by (simp add: svc_body_def operationRequestBody_def base58_signature)
  then have "svc_body = jtext ?v" by (simp add: operationRequestBody_def base58_signature svc_operation_def)
  then show "parseJson base58_platform (utf8 svc_body) = Some ?v"
    using jread_jtext [of ?v "length (jtext ?v)" "[]"]
    by (simp add: base58_platform_def hex_platform_def sample_platform_def sample_parse_json_def utf8_decode_utf8)
qed

lemma svc_built: "buildPaidRequest base58_platform \<lparr> rc_serviceId = ''svc'', rc_capability = ''cap'', rc_url = REPORT_RESOURCE, rc_method = ''POST'' \<rparr>
    svc_operation = Inr (Some svc_paid_request)"
  using svc_body by (simp add: buildPaidRequest_def base58_signature sample_parse_def svc_paid_request_def) (simp add: svc_operation_def)

lemma svc_retry: "received_retry base58_platform svc_paid_request ''i1'' svc_header ''cr'' = Some svc_received"
  using svc_reads_back by (simp add: received_retry_def base58_signature sample_parse_def svc_paid_request_def svc_received_def)

definition svc_report :: ReportRequest where
  "svc_report = \<lparr> rpt_operation = ''export'', rpt_datasetId = ''dataset-a'' \<rparr>"

definition svc_text :: string where
  "svc_text = report_text svc_received svc_report (Some (Some ''x402'', Some ''tx''))"

definition svc_acknowledgement :: "service_acknowledgement signed" where
  "svc_acknowledgement = \<lparr> sg_body = acknowledgement_for base58_platform svc_options svc_received svc_report
     (Some (Some ''x402'', Some ''tx'')) (svc_authorization, pq_sha256 svc_paid_request, sample_digest) (utf8 svc_text) 75,
     sg_signature = ''sS'' \<rparr>"

lemma svc_pq_sha: "pq_sha256 svc_paid_request = sample_digest"
  by (simp add: svc_paid_request_def computePaidRequestDigest_def base58_signature)

lemma show_nat_report: "show_nat 3 = ''3''" "show_nat 120 = ''120''" "show_nat 95 = ''95''" "show_nat 143 = ''143''"
    "show_nat 200 = ''200''" "show_nat 75 = ''75''"
  by (simp_all add: show_nat.simps digit_char_def char_of_def bit_numeral_rec bit_0)

lemma svc_text_length: "length (utf8 svc_text) \<le> 1000"
proof -
  have "length svc_text \<le> 500"
    by (simp add: svc_text_def svc_received_def svc_report_def report_text_def runReport_def DATASETS_def row_json_def opt_json_def
        SERVICE_ID_def CAPABILITY_def REPORT_RESOURCE_def length_json_quote json_char_def code_def show_int_def show_nat_report)
  then show ?thesis using length_utf8 [of svc_text] by linarith
qed

lemma svc_acknowledgement_body: "sg_body svc_acknowledgement = \<lparr> sk_service = ''KS'', sk_invocationId = ''i1'',
    sk_authorizationDigest = sample_digest, sk_requestSha256 = sample_digest, sk_method = ''POST'', sk_resource = REPORT_RESOURCE,
    sk_operation = ''export'', sk_datasetId = ''dataset-a'', sk_transaction = Some ''tx'', sk_asset = ''M'', sk_payTo = ''R'',
    sk_amountAtomic = ''4'', sk_httpStatus = 200, sk_sha256 = sample_digest, sk_bytes = int (length (utf8 svc_text)),
    sk_fulfilledAt = 75 \<rparr>"
  by (simp add: svc_acknowledgement_def acknowledgement_for_def svc_pq_sha svc_options_def svc_received_def svc_report_def
      svc_authorization_def sample_service_authorization_def sha256Hex_def base58_signature)

lemma svc_acknowledgement_wf: "wf_service_acknowledgement svc_acknowledgement"
  using svc_text_length
  by (simp add: wf_service_acknowledgement_def Let_def svc_acknowledgement_body)
    (simp add: svc_acknowledgement_def REPORT_RESOURCE_def base58_pattern_def is_base58_char_def hex64_pattern_def
      class_between_def sample_digest_def char_simps MAX_SAFE_INTEGER_def list_all_iff)

lemma svc_acknowledgement_fits:
  "encodeServiceHeader base58_platform (signed_json service_acknowledgement_fields svc_acknowledgement) = Some k
     \<Longrightarrow> k \<noteq> [] \<and> length k \<le> MAX_HEADER_CHARS"
proof -
  assume k: "encodeServiceHeader base58_platform (signed_json service_acknowledgement_fields svc_acknowledgement) = Some k"
  have digits: "length (show_nat (length (utf8 svc_text))) \<le> 4"
    using length_show_nat [of "length (utf8 svc_text)" 3] svc_text_length by simp
  have plain: "length (json_quote s) \<le> 2 + 6 * length s" for s by (rule length_json_quote_le)
  have "jlen (signed_json service_acknowledgement_fields svc_acknowledgement) \<le> 1024"
    using digits plain [of "show_nat (length (utf8 svc_text))"]
    by (simp add: signed_json_def service_acknowledgement_fields_def svc_acknowledgement_body opt_json_def)
      (simp add: svc_acknowledgement_def signature_json_def SERVICE_ACKNOWLEDGEMENT_DOMAIN_def length_json_quote REPORT_RESOURCE_def
        json_char_def code_def sample_digest_def sum_list_replicate map_replicate show_nat_samples show_nat_report)
  from fitting_base58 [OF this refl] k show ?thesis by (simp add: fitting_header_def)
qed

lemma svc_trust:
  "aa_platform svc_authority = base58_platform" "trusts_each_other base58_platform svc_authority svc_options sample_permit"
  "charges svc_options (sample_requirement url)" "inv_request svc_row = StoredV2 svc_request" "inv_id svc_row = ''i1''"
  by (simp_all add: svc_authority_def base58_authority_fields trusts_each_other_def svc_options_def base58_signature charges_def
      sample_requirement_def svc_row_def new_row_def sample_reserve_def)

lemma svc_report_operation: "report_operation (rq_operation svc_request)"
  by (simp add: report_operation_def svc_request_def svc_operation_def OPERATIONS_def DATASETS_def)

lemma svc_gate: "scenarioFor svc_state svc_received = Honest"
  "vo_gates svc_options Honest svc_received = GatePasses (Some (Some ''x402'', Some (cs_transactionId svc_settlement)))"
  "svc_report = \<lparr> rpt_operation = op_operation (rq_operation svc_request), rpt_datasetId = op_datasetId (rq_operation svc_request) \<rparr>"
  "svc_text = report_text svc_received svc_report (Some (Some ''x402'', Some (cs_transactionId svc_settlement)))"
  "scenarioFor (scenarios_set [] svc_state) svc_received = Honest"
  "scenarioFor (scenarios_set ([] @ []) svc_state) svc_received \<noteq> LostResponse"
  by (simp_all add: scenarios_set_def scenarioFor_def svc_state_def svc_received_def svc_options_def svc_settlement_def svc_report_def svc_text_def
      svc_request_def svc_operation_def)

theorem authority_keeps_acknowledgement_witness:
  "\<exists>k. fst (report_route base58_platform svc_options 70 75 [] [] svc_received svc_state) = ServiceReport svc_text (Some k)
    \<and> acceptAcknowledgement svc_authority svc_row sample_permit svc_authorization svc_paid_request (sample_requirement REPORT_RESOURCE)
        svc_settlement (received_report base58_platform svc_text k JNull None) = received_report base58_platform svc_text k JNull None"
proof -
  have q: "buildPaidRequest base58_platform \<lparr> rc_serviceId = ''svc'', rc_capability = ''cap'', rc_url = REPORT_RESOURCE, rc_method = ''POST'' \<rparr>
      (rq_operation svc_request) = Inr (Some svc_paid_request)" using svc_built by (simp add: svc_request_def)
  have retry: "received_retry base58_platform svc_paid_request (inv_id svc_row) svc_header ''cr'' = Some svc_received"
    using svc_retry svc_trust(5) by simp
  obtain d k signd where d: "serviceAuthorizationDigest base58_platform svc_authorization = Some d"
    and s: "signServiceAcknowledgement base58_platform (acknowledgement_for base58_platform svc_options svc_received svc_report
        (Some (Some ''x402'', Some (cs_transactionId svc_settlement))) (svc_authorization, pq_sha256 svc_paid_request, d) (utf8 svc_text) 75)
        (vo_serviceKey svc_options) = Inr signd"
    and r: "fst (report_route base58_platform svc_options 70 75 [] [] svc_received svc_state) = ServiceReport svc_text (Some k)"
    and e: "encodeServiceHeader base58_platform (signed_json service_acknowledgement_fields signd) = Some k"
    and kept: "wf_service_acknowledgement signd \<and> k \<noteq> [] \<and> length k \<le> MAX_HEADER_CHARS \<longrightarrow>
        acceptAcknowledgement svc_authority svc_row sample_permit svc_authorization svc_paid_request (sample_requirement REPORT_RESOURCE)
          svc_settlement (received_report base58_platform svc_text k JNull None) = received_report base58_platform svc_text k JNull None"
    using authority_keeps_acknowledgement [OF base58_platform_laws svc_trust(1) [symmetric] svc_trust(2,3,4) svc_report_operation q
        svc_signed svc_authorization_wf svc_header_fits retry _ _ _ svc_gate(5) refl svc_gate(2-4,6), of 70 75 JNull None] by auto
  have "d = sample_digest" using d by (simp add: serviceAuthorizationDigest_def artifactDigest_def base58_signature)
  then have "signd = svc_acknowledgement" using s
    unfolding signServiceAcknowledgement_def sign_pinned_def
    by (auto simp: svc_acknowledgement_def svc_settlement_def svc_options_def base58_signature split: if_splits option.splits)
  then show ?thesis using kept r e svc_acknowledgement_wf svc_acknowledgement_fits by blast
qed

theorem gate_only_after_authorization_witness:
  "\<exists>m. decodeServiceAuthorizationHeader base58_platform svc_header = Some m
     \<and> verifyServiceAuthorizationSignature base58_platform m ''KT'' \<and> sa_invocationId (sg_body m) = ''i1''"
proof -
  let ?r = "report_route base58_platform svc_options 70 75 [] [] svc_received svc_state"
  have dec: "decodeServiceAuthorizationHeader base58_platform svc_header = Some svc_authorization"
    using decode_authorization_encode [OF base58_platform_laws(3) svc_authorization_wf] svc_header_fits by (simp add: fitting_header_def)
  have rep: "parseReportRequest (sr_body svc_received) = Some svc_report"
    using parse_report_body [OF base58_platform_laws(3) svc_body svc_reads_back]
    by (simp add: svc_received_def svc_operation_def svc_report_def OPERATIONS_def DATASETS_def)
  have "\<exists>a. check_paid base58_platform svc_options 70 svc_received = Inr a"
  proof -
    have v: "verifyServiceAuthorizationSignature base58_platform svc_authorization ''KT''"
      unfolding verifyServiceAuthorizationSignature_def authorization_message.verify_iff
      by (simp add: canonicalBytes_def base58_signature) (simp add: svc_authorization_def sample_service_authorization_def
          base58_platform_def hex_platform_def sample_platform_def)
    obtain d where "serviceAuthorizationDigest base58_platform svc_authorization = Some d"
      by (simp add: serviceAuthorizationDigest_def artifactDigest_def base58_signature)
    then have "checkServiceAuthorization base58_platform
            \<lparr> sc_header = sr_authorization svc_received, sc_pinnedAuthority = ''KT'', sc_method = sr_method svc_received,
              sc_path = sr_path svc_received, sc_rawBody = utf8 svc_body,
              sc_invocationIdHeader = sr_invocationId svc_received, sc_asset = ''M'', sc_payTo = ''R'',
              sc_amountAtomic = ''4'', sc_now = 70 \<rparr> = Some (CheckOk svc_authorization sample_digest d)"
      using dec v svc_header_fits unfolding checkServiceAuthorization_Ok
      by (simp add: svc_received_def fitting_header_def base58_signature sample_parse_def received_request_digest_def
          utf8_decode_utf8 computePaidRequestDigest_def) (simp add: svc_authorization_def sample_service_authorization_def)
    then show ?thesis by (simp add: check_paid_def paid_def svc_options_def) (simp add: svc_received_def)
  qed
  then have "svs_gated (snd ?r) \<noteq> svs_gated svc_state"
    using rep svc_gate by (auto simp: report_route_def Let_def split: if_splits)
  moreover have "paid svc_received" "vo_authorityKey svc_options = Some ''KT''" "sr_authorization svc_received = Some svc_header"
    "sr_invocationId svc_received = Some ''i1''"
    by (simp_all add: paid_def svc_received_def svc_options_def)
  ultimately show ?thesis
    using gate_only_after_authorization [of base58_platform svc_options 70 75 "[]" "[]" svc_received svc_state "fst ?r" "snd ?r"] by auto
qed

end
