(* ===== verification/Approver.thy ===== *)
theory Approver
  imports Agent_Server
begin

text \<open>
  apps/approver/src/approve.ts, server.ts and the approval code of issuer-key.ts: the human's approval boundary,
  which signs a permit for the fixed terms and the three fields the human chooses.  Its log and the CORS headers
  are not modelled.
\<close>

section \<open>Approving\<close>

record ApprovalTerms =
  tm_service :: string
  tm_capability :: string
  tm_network :: string
  tm_mint :: string
  tm_recipient :: string
  tm_maxPerCallAtomic :: string
  tm_maxTotalAtomic :: string
  tm_ttlMs :: int
  tm_method :: string
  tm_resource :: string

record ApprovalRequest =
  apr_agent :: string
  apr_operation :: string
  apr_datasetId :: string

definition APPROVAL_FIELDS :: "string list" where
  "APPROVAL_FIELDS = [''agent'', ''operation'', ''datasetId'']"

text \<open>\<open>None\<close> is an invalid request.\<close>

definition parseApprovalRequest :: "platform \<Rightarrow> jsval \<Rightarrow> ApprovalTerms \<Rightarrow> ApprovalRequest option" where
  "parseApprovalRequest px candidate terms =
     (if \<not> isPlainObject candidate then None
      else case find (\<lambda>k. k \<notin> set APPROVAL_FIELDS) (jkeys candidate) of
        Some _ \<Rightarrow> None
      | None \<Rightarrow>
        if \<not> jstr_is (isAddress px) (jget candidate ''agent'') then None
        else case validateExactOperation (JObj [(''method'', JStr (tm_method terms)), (''resource'', JStr (tm_resource terms)),
            (''operation'', jget candidate ''operation''), (''datasetId'', jget candidate ''datasetId'')]) of
          Inl _ \<Rightarrow> None
        | Inr operation \<Rightarrow> Some \<lparr> apr_agent = jstr (jget candidate ''agent''), apr_operation = op_operation operation,
                              apr_datasetId = op_datasetId operation \<rparr>)"

record IssuerKey =
  ik_keyPair :: signing_key
  ik_address :: address

definition approved_permit :: "ApprovalRequest \<Rightarrow> ApprovalTerms \<Rightarrow> address \<Rightarrow> int \<Rightarrow> string \<Rightarrow> permit_v2" where
  "approved_permit approval terms issuer now grantId =
     \<lparr> pp_grantId = grantId, pp_issuer = issuer, pp_authorizedAgent = apr_agent approval, pp_service = tm_service terms,
        pp_capability = tm_capability terms, pp_network = tm_network terms, pp_mint = tm_mint terms,
        pp_recipient = tm_recipient terms, pp_maxPerCall = tm_maxPerCallAtomic terms, pp_maxTotal = tm_maxTotalAtomic terms,
        pp_issuedAt = now, pp_expiresAt = now + tm_ttlMs terms,
        pp_operation = \<lparr> op_method = tm_method terms, op_resource = tm_resource terms,
          op_operation = apr_operation approval, op_datasetId = apr_datasetId approval \<rparr> \<rparr>"

definition issuePermit ::
  "platform \<Rightarrow> ApprovalRequest \<Rightarrow> ApprovalTerms \<Rightarrow> IssuerKey \<Rightarrow> int \<Rightarrow> string \<Rightarrow> sign_error + permit_v2 signed" where
  "issuePermit px approval terms issuer now grantId =
     signPurchasePermitV2 px (JObj (permit_v2_fields (approved_permit approval terms (ik_address issuer) now grantId)))
       (ik_keyPair issuer)"

section \<open>The server\<close>

definition APPROVER_MAX_BODY_BYTES :: nat where
  "APPROVER_MAX_BODY_BYTES = 4 * 1024"

definition APPROVAL_CODE_PATTERN :: "string \<Rightarrow> bool" where
  "APPROVAL_CODE_PATTERN = class_between is_hex_char 32 32"

definition approver_body :: "platform \<Rightarrow> bytes list \<Rightarrow> int + jsval" where
  "approver_body px request =
     (case read_chunks APPROVER_MAX_BODY_BYTES 0 [] request of
        None \<Rightarrow> Inl 413
      | Some chunks \<Rightarrow> (case parseJson px (concat chunks) of None \<Rightarrow> Inl 400 | Some v \<Rightarrow> Inr v))"

record ApproverServerOptions =
  ao_issuer :: IssuerKey
  ao_approvalCode :: string
  ao_terms :: ApprovalTerms

datatype approver_payload =
    ApproverNoContent
  | ApproverHealth address ApprovalTerms
  | PermitIssued "permit_v2 signed"
  | ApproverError "string option"

definition approver_server ::
  "platform \<Rightarrow> ApproverServerOptions \<Rightarrow> int \<Rightarrow> string \<Rightarrow> http_request \<Rightarrow> int \<times> approver_payload" where
  "approver_server px opts now newGrantId request =
     (if hr_method request = ''OPTIONS'' then (204, ApproverNoContent)
      else if hr_method request = ''GET'' \<and> hr_url request = ''/health''
      then (200, ApproverHealth (ik_address (ao_issuer opts)) (ao_terms opts))
      else if hr_method request = ''POST'' \<and> hr_url request = ''/approvals'' then
        if \<not> presents (ao_approvalCode opts) (hr_authorization request)
        then (401, ApproverError (Some ''APPROVAL_CODE_REQUIRED''))
        else case approver_body px (hr_chunks request) of
          Inl status \<Rightarrow> (status, ApproverError None)
        | Inr body \<Rightarrow>
          (case parseApprovalRequest px body (ao_terms opts) of
             None \<Rightarrow> (400, ApproverError None)
           | Some approval \<Rightarrow>
             (case issuePermit px approval (ao_terms opts) (ao_issuer opts) now newGrantId of
                Inl _ \<Rightarrow> (500, ApproverError None)
              | Inr permit \<Rightarrow> (201, PermitIssued permit)))
      else (404, ApproverError None))"

section \<open>What an approval is\<close>

lemma parseApprovalRequest_Some:
  "parseApprovalRequest px v terms = Some a \<longleftrightarrow>
     isPlainObject v \<and> set (jkeys v) \<subseteq> {''agent'', ''operation'', ''datasetId''}
     \<and> jget v ''agent'' = JStr (apr_agent a) \<and> isAddress px (apr_agent a)
     \<and> jget v ''operation'' = JStr (apr_operation a) \<and> jget v ''datasetId'' = JStr (apr_datasetId a)
     \<and> wf_operation \<lparr> op_method = tm_method terms, op_resource = tm_resource terms,
          op_operation = apr_operation a, op_datasetId = apr_datasetId a \<rparr>" (is "_ \<longleftrightarrow> ?R")
proof -
  let ?o = "JObj [(''method'', JStr (tm_method terms)), (''resource'', JStr (tm_resource terms)),
            (''operation'', jget v ''operation''), (''datasetId'', jget v ''datasetId'')]"
  have o: "validateExactOperation ?o = Inr p \<longleftrightarrow> wf_operation p \<and> op_method p = tm_method terms
      \<and> op_resource p = tm_resource terms \<and> jget v ''operation'' = JStr (op_operation p)
      \<and> jget v ''datasetId'' = JStr (op_datasetId p)" for p
    unfolding validateExactOperation_Inr_iff by (auto simp: OPERATION_FIELDS_def)
  have f: "find (\<lambda>k. k \<notin> set APPROVAL_FIELDS) (jkeys v) = None \<longleftrightarrow> set (jkeys v) \<subseteq> {''agent'', ''operation'', ''datasetId''}"
    unfolding find_unknown_None by (simp add: APPROVAL_FIELDS_def)
  let ?p = "\<lparr> op_method = tm_method terms, op_resource = tm_resource terms,
          op_operation = apr_operation a, op_datasetId = apr_datasetId a \<rparr>"
  show ?thesis
  proof
    assume L: "parseApprovalRequest px v terms = Some a"
    then obtain p where g: "isPlainObject v" "find (\<lambda>k. k \<notin> set APPROVAL_FIELDS) (jkeys v) = None"
        "jstr_is (isAddress px) (jget v ''agent'')" "validateExactOperation ?o = Inr p"
        and a: "a = \<lparr> apr_agent = jstr (jget v ''agent''), apr_operation = op_operation p, apr_datasetId = op_datasetId p \<rparr>"
      unfolding parseApprovalRequest_def by (auto split: if_splits option.splits sum.splits)
    from g(4) have "wf_operation p" "?p = p" unfolding o by (simp_all add: a)
    then have "wf_operation ?p" by simp
    with g a show ?R unfolding o f jstr_is_iff by auto
  next
    assume R: ?R
    then have "validateExactOperation ?o = Inr ?p" unfolding o by simp
    with R f show "parseApprovalRequest px v terms = Some a"
      unfolding parseApprovalRequest_def by (simp add: jstr_is_iff)
  qed
qed

text \<open>What it signs is the approved permit, when that permit is well formed and the key is the issuer's.\<close>

lemma validate_own_fields:
  "validateUnsignedPurchasePermitV2 px (JObj (permit_v2_fields p)) = Inr q \<longleftrightarrow> q = p \<and> wf_permit_v2 px p"
proof
  assume v: "validateUnsignedPurchasePermitV2 px (JObj (permit_v2_fields p)) = Inr q"
  have own: "jget (JObj (permit_v2_fields p)) ''operation'' = operation_json (pp_operation p)"
    by (simp add: permit_v2_fields_def shared_permit_fields_def)
  from v have r: "permit_fields_read (JObj (permit_v2_fields p)) q" "wf_permit_v2 px q"
      "validateExactOperation (operation_json (pp_operation p)) = Inr (pp_operation q)"
    unfolding validateUnsignedPurchasePermitV2_Inr_iff own by simp_all
  from r(3) have "pp_operation q = pp_operation p"
    unfolding validateExactOperation_Inr_iff by (cases "pp_operation q"; cases "pp_operation p") (simp add: js_simps)
  then have "q = p"
    using permit_v2_eqI [OF r(1) fields_read_own(2) [of p "[]"]] by simp
  with r(2) show "q = p \<and> wf_permit_v2 px p" by simp
next
  assume "q = p \<and> wf_permit_v2 px p"
  then show "validateUnsignedPurchasePermitV2 px (JObj (permit_v2_fields p)) = Inr q"
    using validate_permit_v2_fields [of px p "[]"] by simp
qed

lemma issuePermit_Inr:
  "issuePermit px a terms issuer now g = Inr sp \<longleftrightarrow>
     sg_body sp = approved_permit a terms (ik_address issuer) now g \<and> wf_permit_v2 px (sg_body sp)
     \<and> keyAddress px (ik_keyPair issuer) = ik_address issuer
     \<and> (\<exists>b. canonicalizeUnsignedPurchasePermitV2 px (sg_body sp) = Some b \<and> sg_signature sp = signRaw px (ik_keyPair issuer) b)"
proof -
  let ?p = "approved_permit a terms (ik_address issuer) now g"
  have i: "pp_issuer ?p = ik_address issuer" by (simp add: approved_permit_def)
  then show ?thesis unfolding issuePermit_def signPurchasePermitV2_def pv2.sign_iff validate_own_fields by auto
qed

lemma approver_body_Inr:
  "approver_body px chunks = Inr v \<longleftrightarrow> length (concat chunks) \<le> 4096 \<and> parseJson px (concat chunks) = Some v"
  by (simp add: approver_body_def APPROVER_MAX_BODY_BYTES_def read_chunks_exact split: option.split)

end
