(* ===== verification/Approver_Properties.thy ===== *)
theory Approver_Properties
  imports Approver Agent_Properties
begin

text \<open>
  What the approval boundary issues, and to whom: exactly the fixed terms and the three chosen fields, to the bearer
  of the approval code, as a permit the agent it names can install.
\<close>

lemma approver_server_issued:
  "approver_server px opts now g request = (201, PermitIssued sp) \<longleftrightarrow>
     hr_method request = ''POST'' \<and> hr_url request = ''/approvals'' \<and> presents (ao_approvalCode opts) (hr_authorization request)
     \<and> (\<exists>body a. approver_body px (hr_chunks request) = Inr body \<and> parseApprovalRequest px body (ao_terms opts) = Some a
          \<and> issuePermit px a (ao_terms opts) (ao_issuer opts) now g = Inr sp)"
  unfolding approver_server_def by (auto split: sum.splits option.splits)

text \<open>C17. A permit leaves the approval boundary exactly when a POST to /approvals carries the human's approval code, its
  body of at most 4096 bytes is an object with no other key than agent, operation and datasetId, and these name an
  address and an operation that is well formed under the configured method and resource; the permit is the one of
  the configured terms and of these three values alone, valid from now for the configured time, and signed by the
  issuer's key.\<close>

theorem approval_exact:
  "approver_server px opts now g request = (201, PermitIssued sp) \<longleftrightarrow>
     hr_method request = ''POST'' \<and> hr_url request = ''/approvals''
     \<and> hr_authorization request = Some (''Bearer '' @ ao_approvalCode opts)
     \<and> length (concat (hr_chunks request)) \<le> 4096
     \<and> (\<exists>body agent operation dataset x.
          parseJson px (concat (hr_chunks request)) = Some body \<and> isPlainObject body
          \<and> set (jkeys body) \<subseteq> {''agent'', ''operation'', ''datasetId''}
          \<and> map (jget body) [''agent'', ''operation'', ''datasetId''] = map JStr [agent, operation, dataset]
          \<and> isAddress px agent
          \<and> x = \<lparr> op_method = tm_method (ao_terms opts), op_resource = tm_resource (ao_terms opts),
               op_operation = operation, op_datasetId = dataset \<rparr>
          \<and> validateExactOperation (operation_json x) = Inr x
          \<and> sg_body sp = \<lparr> pp_grantId = g, pp_issuer = ik_address (ao_issuer opts), pp_authorizedAgent = agent,
               pp_service = tm_service (ao_terms opts), pp_capability = tm_capability (ao_terms opts),
               pp_network = tm_network (ao_terms opts), pp_mint = tm_mint (ao_terms opts),
               pp_recipient = tm_recipient (ao_terms opts), pp_maxPerCall = tm_maxPerCallAtomic (ao_terms opts),
               pp_maxTotal = tm_maxTotalAtomic (ao_terms opts), pp_issuedAt = now,
               pp_expiresAt = now + tm_ttlMs (ao_terms opts), pp_operation = x \<rparr>
          \<and> signPurchasePermitV2 px (JObj (permit_v2_fields (sg_body sp))) (ik_keyPair (ao_issuer opts)) = Inr sp)"
    (is "_ \<longleftrightarrow> ?R")
proof -
  let ?p = "\<lambda>a. approved_permit a (ao_terms opts) (ik_address (ao_issuer opts)) now g"
  have v: "validateExactOperation (operation_json x) = Inr x \<longleftrightarrow> wf_operation x" for x
    using validate_operation_json [of x] validateExactOperation_wf by blast
  have i: "issuePermit px a (ao_terms opts) (ao_issuer opts) now g = Inr sp \<longleftrightarrow> sg_body sp = ?p a
      \<and> signPurchasePermitV2 px (JObj (permit_v2_fields (sg_body sp))) (ik_keyPair (ao_issuer opts)) = Inr sp" for a
    unfolding issuePermit_def signPurchasePermitV2_def pv2.sign_iff validate_own_fields by auto
  show ?thesis
  proof
    assume "approver_server px opts now g request = (201, PermitIssued sp)"
    then show ?R
      unfolding approver_server_issued presents_iff approver_body_Inr parseApprovalRequest_Some i v
      by (auto simp: approved_permit_def)
  next
    assume R: ?R
    then obtain body agent operation dataset where b: "parseJson px (concat (hr_chunks request)) = Some body" "isPlainObject body"
        "set (jkeys body) \<subseteq> {''agent'', ''operation'', ''datasetId''}"
        "map (jget body) [''agent'', ''operation'', ''datasetId''] = map JStr [agent, operation, dataset]" "isAddress px agent"
        "wf_operation \<lparr> op_method = tm_method (ao_terms opts), op_resource = tm_resource (ao_terms opts),
               op_operation = operation, op_datasetId = dataset \<rparr>"
        "sg_body sp = ?p \<lparr> apr_agent = agent, apr_operation = operation, apr_datasetId = dataset \<rparr>"
        "signPurchasePermitV2 px (JObj (permit_v2_fields (sg_body sp))) (ik_keyPair (ao_issuer opts)) = Inr sp"
      unfolding v by (auto simp: approved_permit_def)
    let ?a = "\<lparr> apr_agent = agent, apr_operation = operation, apr_datasetId = dataset \<rparr>"
    have "parseApprovalRequest px body (ao_terms opts) = Some ?a" unfolding parseApprovalRequest_Some using b(2-6) by simp
    moreover have "issuePermit px ?a (ao_terms opts) (ao_issuer opts) now g = Inr sp" using b(7,8) unfolding i by simp
    ultimately show "approver_server px opts now g request = (201, PermitIssued sp)"
      unfolding approver_server_issued presents_iff approver_body_Inr using R b(1) by blast
  qed
qed

text \<open>C18. A permit that the approval boundary issues for an agent is installed by that agent, unchanged, in whatever
  session presents it, and every other agent refuses it with status 400 and an unchanged store.\<close>

theorem approved_permit_installs:
  assumes "signatures_verify px" "canonical_total px"
    and "approver_server px opts now g request = (201, PermitIssued sp)"
  shows "\<exists>d. computePermitDigest px sp = Some d
    \<and> installPermit px aopts i (signed_permit_v2_json sp) st =
       (if pp_authorizedAgent (sg_body sp) = ag_agentAddress aopts
        then (Inr sp, on_session i (\<lambda>s. s \<lparr> ss_installed := Some \<lparr> ip_permit = sp, ip_digest = d \<rparr> \<rparr>) st)
        else (Inl (AgentInputError 400 None), st))"
proof -
  from assms(3) obtain a where "issuePermit px a (ao_terms opts) (ao_issuer opts) now g = Inr sp"
    unfolding approver_server_issued by blast
  then have s: "wf_permit_v2 px (sg_body sp)" "keyAddress px (ik_keyPair (ao_issuer opts)) = pp_issuer (sg_body sp)"
      "\<exists>b. canonicalizeUnsignedPurchasePermitV2 px (sg_body sp) = Some b \<and> sg_signature sp = signRaw px (ik_keyPair (ao_issuer opts)) b"
    unfolding issuePermit_Inr by (auto simp: approved_permit_def)
  have "verifyPurchasePermitV2 px (signed_permit_v2_json sp) = Inr sp"
    using pv2.sign_then_verify [OF assms(1,2) s(1,2)] s(3)
    unfolding verifyPurchasePermitV2_def signed_permit_v2_json_def
    by (cases sp) (auto simp: pv2.sign_iff)
  moreover obtain d where "computePermitDigest px sp = Some d"
    using canonicalBytes_total [OF assms(2) json_value_permit_digest_object, of PERMIT_V2_DIGEST_PREFIX sp]
    by (auto simp: computePermitDigest_def canonicalDigest_def)
  ultimately show ?thesis by (simp add: installPermit_def)
qed

section \<open>A sample approval\<close>

definition sample_approver :: ApproverServerOptions where
  "sample_approver = \<lparr> ao_issuer = \<lparr> ik_keyPair = ''I'', ik_address = ''KI'' \<rparr>, ao_approvalCode = replicate 32 CHR ''0'',
     ao_terms = \<lparr> tm_service = ''svc'', tm_capability = ''cap'', tm_network = ''devnet'', tm_mint = ''M'', tm_recipient = ''R'',
       tm_maxPerCallAtomic = ''5'', tm_maxTotalAtomic = ''9'', tm_ttlMs = 99, tm_method = op_method sample_operation,
       tm_resource = op_resource sample_operation \<rparr> \<rparr>"

definition sample_approval_body :: jsval where
  "sample_approval_body = JObj [(''agent'', JStr ''KA''), (''operation'', JStr (op_operation sample_operation)),
     (''datasetId'', JStr (op_datasetId sample_operation))]"

definition sample_approval_request :: http_request where
  "sample_approval_request = \<lparr> hr_method = ''POST'', hr_url = ''/approvals'',
     hr_authorization = Some (''Bearer '' @ replicate 32 CHR ''0''), hr_chunks = [utf8 (jtext sample_approval_body)] \<rparr>"

lemma sample_approval: "approver_server base58_platform sample_approver 1 ''G1'' sample_approval_request = (201, PermitIssued base58_permit)"
proof -
  have "jlen sample_approval_body \<le> 2048"
    by (simp add: sample_approval_body_def sample_operation_def length_json_quote json_char_def code_def)
  then have "length (utf8 (jtext sample_approval_body)) \<le> 4096"
    using length_utf8 [of "jtext sample_approval_body"] unfolding length_jtext by linarith
  moreover have "parseJson base58_platform (utf8 (jtext sample_approval_body)) = Some sample_approval_body"
    using jread_jtext [of sample_approval_body "length (jtext sample_approval_body)" "[]"]
    by (simp add: base58_platform_def hex_platform_def sample_platform_def sample_parse_json_def utf8_decode_utf8)
  ultimately have body: "approver_body base58_platform (hr_chunks sample_approval_request) = Inr sample_approval_body"
    unfolding approver_body_Inr by (simp add: sample_approval_request_def)
  let ?a = "\<lparr> apr_agent = ''KA'', apr_operation = op_operation sample_operation, apr_datasetId = op_datasetId sample_operation \<rparr>"
  have wf: "wf_permit_v2 base58_platform sample_permit" using wf_sample_permit
    by (simp add: wf_permit_v2_def wf_permit_def base58_platform_def hex_platform_def)
  have x: "\<lparr> op_method = op_method sample_operation, op_resource = op_resource sample_operation,
      op_operation = op_operation sample_operation, op_datasetId = op_datasetId sample_operation \<rparr> = sample_operation" by simp
  have "wf_operation \<lparr> op_method = op_method sample_operation, op_resource = op_resource sample_operation,
      op_operation = op_operation sample_operation, op_datasetId = op_datasetId sample_operation \<rparr>"
    unfolding x using wf by (simp add: wf_permit_v2_def sample_permit_def)
  then have "parseApprovalRequest base58_platform sample_approval_body (ao_terms sample_approver) = Some ?a"
    unfolding parseApprovalRequest_Some
    by (simp add: sample_approval_body_def sample_approver_def wf_permit_v2_def sample_permit_def base58_platform_def hex_platform_def
        sample_platform_def)
  moreover have "issuePermit base58_platform ?a (ao_terms sample_approver) (ao_issuer sample_approver) 1 ''G1'' = Inr base58_permit"
  proof -
    have "approved_permit ?a (ao_terms sample_approver) (ik_address (ao_issuer sample_approver)) 1 ''G1'' = sample_permit"
      by (simp add: approved_permit_def sample_approver_def sample_permit_def)
    moreover obtain b where "canonicalizeUnsignedPurchasePermitV2 base58_platform sample_permit = Some b"
      by (simp add: canonicalizeUnsignedPurchasePermitV2_def canonicalBytes_def base58_signature)
    ultimately show ?thesis
      using wf unfolding issuePermit_Inr by (simp add: base58_permit_def) (simp add: sample_approver_def base58_signature)
  qed
  ultimately show ?thesis
    unfolding approver_server_issued presents_iff using body by (simp add: sample_approval_request_def sample_approver_def)
qed

theorem approved_permit_installs_witness:
  "fst (installPermit base58_platform sample_agent 0 (signed_permit_v2_json base58_permit) empty_sessions) = Inr base58_permit
   \<and> fst (installPermit base58_platform (sample_agent \<lparr> ag_agentAddress := ''KB'' \<rparr>) 0 (signed_permit_v2_json base58_permit) empty_sessions)
     = Inl (AgentInputError 400 None)"
  using approved_permit_installs [OF base58_platform_laws(1,2) sample_approval, of sample_agent 0 empty_sessions]
    approved_permit_installs [OF base58_platform_laws(1,2) sample_approval, of "sample_agent \<lparr> ag_agentAddress := ''KB'' \<rparr>" 0 empty_sessions]
  by (auto simp: base58_permit_def sample_permit_def sample_agent_def)

end
