(* ===== verification/Key_Files.thy ===== *)
theory Key_Files
  imports Approver Authority_Server "HOL-Library.Word"
begin

text \<open>
  packages/identity/src/key-file.ts, the approval code of apps/approver/src/issuer-key.ts and the start of
  apps/approver/src/index.ts: private key files, published public keys.

  The file system is a map from paths to files with their permission bits.  Between the check of a path and its
  exclusive creation other processes may act (\<open>meanwhile\<close>); the random bytes are arguments.  A file that is deleted
  between its check and its reading is not modelled: no process of the repository deletes a key file.
\<close>

record private_file =
  pf_mode :: "32 word"
  pf_contents :: bytes

type_synonym files = "string \<rightharpoonup> private_file"

text \<open>The error of a file that others can read, of a file that appeared before its exclusive creation, of a seed of the
  wrong length, and of a malformed approval code.\<close>

datatype key_file_error = ReadableByOthers | AlreadyExists | WrongSeedLength | MalformedApprovalCode

unbundle bit_operations_syntax

definition private_mode :: "32 word \<Rightarrow> bool" where
  "private_mode mode \<longleftrightarrow> mode AND 0x3F = 0"

definition readOrCreatePrivateFile ::
  "string \<Rightarrow> bytes \<Rightarrow> (files \<Rightarrow> files) \<Rightarrow> files \<Rightarrow> (key_file_error + bytes \<times> bool) \<times> files" where
  "readOrCreatePrivateFile file created meanwhile fs =
     (case fs file of
        Some f \<Rightarrow>
          if \<not> private_mode (pf_mode f) then (Inl ReadableByOthers, fs) else (Inr (pf_contents f, False), fs)
      | None \<Rightarrow>
        let fs = meanwhile fs in
        if fs file \<noteq> None then (Inl AlreadyExists, fs)
        else (Inr (created, True), fs(file \<mapsto> \<lparr> pf_mode = 0x180, pf_contents = created \<rparr>)))"

definition SEED_BYTES :: nat where
  "SEED_BYTES = 32"

text \<open>The signing key of a seed is the seed.\<close>

definition loadOrCreateSigningKey ::
  "platform \<Rightarrow> string \<Rightarrow> bytes \<Rightarrow> (files \<Rightarrow> files) \<Rightarrow> files \<Rightarrow> (key_file_error + IssuerKey \<times> bool) \<times> files" where
  "loadOrCreateSigningKey px file random meanwhile fs =
     (case readOrCreatePrivateFile file random meanwhile fs of
        (Inl e, fs) \<Rightarrow> (Inl e, fs)
      | (Inr (seed, created), fs) \<Rightarrow>
        if length seed \<noteq> SEED_BYTES then (Inl WrongSeedLength, fs)
        else (Inr (\<lparr> ik_keyPair = seed, ik_address = keyAddress px seed \<rparr>, created), fs))"

text \<open>The states of the file system after the write and after the rename; the mode of a file that exists is kept.\<close>

definition publishPublicKey :: "string \<Rightarrow> string \<Rightarrow> files \<Rightarrow> files list" where
  "publishPublicKey file publicKey fs =
     (let tmp = file @ ''.tmp'';
          written = \<lparr> pf_mode = (case fs tmp of None \<Rightarrow> 0x1A4 | Some f \<Rightarrow> pf_mode f), pf_contents = utf8 (publicKey @ [CHR 0x0A]) \<rparr>;
          fs1 = fs(tmp \<mapsto> written)
      in [fs1, (fs1(tmp := None))(file \<mapsto> written)])"

text \<open>\<open>code_bytes\<close> is the text the random bytes give in hexadecimal; a text outside the model's characters is malformed.\<close>

definition loadOrCreateApprovalCode ::
  "string \<Rightarrow> bytes \<Rightarrow> (files \<Rightarrow> files) \<Rightarrow> files \<Rightarrow> (key_file_error + string \<times> bool) \<times> files" where
  "loadOrCreateApprovalCode file code_bytes meanwhile fs =
     (case readOrCreatePrivateFile file code_bytes meanwhile fs of
        (Inl e, fs) \<Rightarrow> (Inl e, fs)
      | (Inr (contents, created), fs) \<Rightarrow>
        (case utf8_decode contents of
           None \<Rightarrow> (Inl MalformedApprovalCode, fs)
         | Some text \<Rightarrow>
           if \<not> APPROVAL_CODE_PATTERN (trim text) then (Inl MalformedApprovalCode, fs) else (Inr (trim text, created), fs)))"

text \<open>The text \<open>readFileSync(file, 'utf8')\<close> reads, \<open>None\<close> where it throws or the text is outside the model's characters.\<close>

definition read_text :: "string \<Rightarrow> files \<Rightarrow> string option" where
  "read_text file fs = Option.bind (fs file) (\<lambda>f. utf8_decode (pf_contents f))"

section \<open>Starting the approver\<close>

record approver_config =
  ac_keyFile :: string
  ac_codeFile :: string
  ac_trustFile :: string
  ac_allowedOrigin :: string
  ac_network :: string
  ac_mint :: string
  ac_recipient :: string

definition approver_terms :: "approver_config \<Rightarrow> ApprovalTerms" where
  "approver_terms config =
     \<lparr> tm_service = ''mock-dataset-reports'', tm_capability = ''reports.generate'', tm_network = ac_network config,
       tm_mint = ac_mint config, tm_recipient = ac_recipient config, tm_maxPerCallAtomic = ''20000'',
       tm_maxTotalAtomic = ''50000'', tm_ttlMs = 30 * 60 * 1000, tm_method = ''POST'', tm_resource = ''/api/v1/report'' \<rparr>"

text \<open>\<open>requireEnv\<close>: a variable that is unset or empty is the empty text here, and fails the start.  The mint and
  the recipient are required last, in the arguments of \<open>createApproverServer\<close>: a start without them has
  published the key.  \<open>None\<close> is a start that fails.\<close>

definition start_approver ::
  "platform \<Rightarrow> approver_config \<Rightarrow> bytes \<Rightarrow> bytes \<Rightarrow> files \<Rightarrow> ApproverServerOptions option \<times> files" where
  "start_approver px config random code_bytes fs =
     (if [] \<in> {ac_keyFile config, ac_codeFile config, ac_trustFile config, ac_allowedOrigin config}
        \<or> ac_network config \<noteq> ''solana-payment-sandbox'' then (None, fs)
      else case loadOrCreateSigningKey px (ac_keyFile config) random (\<lambda>fs. fs) fs of
        (Inl _, fs) \<Rightarrow> (None, fs)
      | (Inr (issuer, _), fs) \<Rightarrow>
        (case loadOrCreateApprovalCode (ac_codeFile config) code_bytes (\<lambda>fs. fs) fs of
           (Inl _, fs) \<Rightarrow> (None, fs)
         | (Inr (approvalCode, _), fs) \<Rightarrow>
           let fs = last (publishPublicKey (ac_trustFile config) (ik_address issuer) fs) in
           if ac_mint config = [] \<or> ac_recipient config = [] then (None, fs)
           else (Some \<lparr> ao_issuer = issuer, ao_approvalCode = approvalCode, ao_terms = approver_terms config \<rparr>, fs)))"

section \<open>Lemmas\<close>

lemma created_mode_private [simp]: "private_mode 0x180"
  by (simp add: private_mode_def)

lemma private_file_read:
  "fs file = Some f \<Longrightarrow> private_mode (pf_mode f) \<Longrightarrow> readOrCreatePrivateFile file c m fs = (Inr (pf_contents f, False), fs)"
  by (simp add: readOrCreatePrivateFile_def)

text \<open>What was read or created is in the file, and private.\<close>

lemma private_file_there:
  assumes "readOrCreatePrivateFile file c m fs = (Inr (k, b), fs')"
  shows "\<exists>f. fs' file = Some f \<and> private_mode (pf_mode f) \<and> pf_contents f = k"
  using assms by (auto simp: readOrCreatePrivateFile_def Let_def split: option.splits if_splits)

text \<open>The file is never touched once it exists.\<close>

section \<open>What other processes do\<close>

text \<open>Any use of this module by any process that does not publish a public key under the path \<open>p\<close>.\<close>

definition keeps :: "string \<Rightarrow> (files \<Rightarrow> files) \<Rightarrow> bool" where
  "keeps p m \<longleftrightarrow> (\<forall>fs f. fs p = Some f \<longrightarrow> m fs p = Some f)"

inductive file_step :: "string \<Rightarrow> files \<Rightarrow> files \<Rightarrow> bool" for p where
  load: "keeps p m \<Longrightarrow> file_step p fs (snd (readOrCreatePrivateFile q c m fs))"
| publish: "p \<notin> {q, q @ ''.tmp''} \<Longrightarrow> g \<in> set (publishPublicKey q key fs) \<Longrightarrow> file_step p fs g"

abbreviation file_steps :: "string \<Rightarrow> files \<Rightarrow> files \<Rightarrow> bool" where
  "file_steps p \<equiv> (file_step p)\<^sup>*\<^sup>*"

lemma file_step_keeps: "file_step p fs fs' \<Longrightarrow> fs p = Some f \<Longrightarrow> fs' p = Some f"
proof (induction rule: file_step.induct)
  case (load m fs q c)
  then show ?case by (auto simp: readOrCreatePrivateFile_def Let_def keeps_def split: option.split)
next
  case (publish q g key fs)
  then show ?case by (auto simp: publishPublicKey_def Let_def)
qed

lemma file_steps_keep: "file_steps p fs fs' \<Longrightarrow> fs p = Some f \<Longrightarrow> fs' p = Some f"
  by (induction rule: rtranclp_induct) (auto dest: file_step_keeps)

text \<open>A private file that was read or created once is read with the same contents ever after.\<close>

lemma private_file_kept:
  assumes "readOrCreatePrivateFile p c m fs = (Inr (k, b), fs1)" "file_steps p fs1 fs2"
  shows "readOrCreatePrivateFile p c' m' fs2 = (Inr (k, False), fs2)"
  using private_file_there [OF assms(1)] file_steps_keep [OF assms(2)] private_file_read by blast

section \<open>Published keys\<close>

definition base58_text :: "string \<Rightarrow> bool" where
  "base58_text s \<longleftrightarrow> s \<noteq> [] \<and> list_all is_base58_char s"

lemma base58_plain: "is_base58_char c \<Longrightarrow> \<not> js_space c \<and> code c < 128"
  by (auto simp: is_base58_char_def is_alnum_def is_digit_def is_lower_def is_upper_def js_space_def)

lemma trim_base58: "base58_text s \<Longrightarrow> trim (s @ [CHR 0x0A]) = s"
proof -
  assume s: "base58_text s"
  then have ends: "\<not> js_space (hd s)" "\<not> js_space (last s)" "s \<noteq> []"
    using base58_plain by (auto simp: base58_text_def list_all_iff)
  then have "dropWhile js_space (s @ [CHR 0x0A]) = s @ [CHR 0x0A]" by (cases s) auto
  moreover have "dropWhile js_space (rev s) = rev s" using ends(2,3) by (cases "rev s") (auto simp: last_rev [of "rev s", simplified])
  ultimately show ?thesis by (simp add: trim_def js_space_def code_def)
qed

text \<open>A reader of a published key sees the old file or the new one, never a part of it.\<close>

lemma published_atomic:
  "g \<in> set (publishPublicKey file key fs) \<Longrightarrow>
     g file = fs file \<or> read_text file g = Some (key @ [CHR 0x0A])"
  by (auto simp: publishPublicKey_def Let_def read_text_def utf8_decode_utf8 simp del: utf8_append)

lemma published_last:
  "last (publishPublicKey file key fs) p =
     (if p = file then Some \<lparr> pf_mode = (case fs (file @ ''.tmp'') of None \<Rightarrow> 0x1A4 | Some f \<Rightarrow> pf_mode f), pf_contents = utf8 (key @ [CHR 0x0A]) \<rparr>
      else if p = file @ ''.tmp'' then None else fs p)"
  by (simp add: publishPublicKey_def Let_def)

end
