(* ===== verification/Key_Properties.thy ===== *)
theory Key_Properties
  imports Key_Files Approver_Properties
begin

text \<open>
  Keys survive restarts, a created key is never overwritten, and the key an approver publishes is the one the
  authority pins and the issuer of the permits.
\<close>

lemma approval_code_survives:
  assumes "loadOrCreateApprovalCode file code_bytes meanwhile fs = (Inr (c, created), fs1)" "file_steps file fs1 fs2"
  shows "loadOrCreateApprovalCode file code_bytes' meanwhile' fs2 = (Inr (c, False), fs2)"
proof -
  obtain r fs' where run: "readOrCreatePrivateFile file code_bytes meanwhile fs = (r, fs')" by fastforce
  with assms(1) obtain x where r: "r = Inr x" by (cases r) (simp_all add: loadOrCreateApprovalCode_def)
  obtain k b where x: "x = (k, b)" by fastforce
  from assms(1) run r x obtain t where t: "utf8_decode k = Some t"
    by (cases "utf8_decode k") (simp_all add: loadOrCreateApprovalCode_def)
  then have ok: "APPROVAL_CODE_PATTERN (trim t)" "c = trim t" "fs' = fs1"
    using assms(1) run r x by (simp_all add: loadOrCreateApprovalCode_def split: if_splits)
  have "readOrCreatePrivateFile file code_bytes' meanwhile' fs2 = (Inr (k, False), fs2)"
    using private_file_kept [OF _ assms(2)] run r x ok(3) by blast
  with t ok show ?thesis by (simp add: loadOrCreateApprovalCode_def)
qed

text \<open>C22. A signing key that was loaded or created once is loaded, unchanged, ever after, whatever any processes do with
  their key files and published keys in between (an existing key file is never overwritten), and its file holds
  exactly its 32 bytes, which only its owner can read.\<close>

theorem signing_key_survives:
  assumes "loadOrCreateSigningKey px file random meanwhile fs = (Inr (key, created), fs1)" "file_steps file fs1 fs2"
  shows "loadOrCreateSigningKey px file random' meanwhile' fs2 = (Inr (key, False), fs2)
    \<and> (\<exists>mode. private_mode mode \<and> length (ik_keyPair key) = 32
         \<and> fs2 file = Some \<lparr> pf_mode = mode, pf_contents = ik_keyPair key \<rparr>)"
proof -
  from assms(1) obtain k b where k: "readOrCreatePrivateFile file random meanwhile fs = (Inr (k, b), fs1)"
      "length k = SEED_BYTES" "key = \<lparr> ik_keyPair = k, ik_address = keyAddress px k \<rparr>"
    by (auto simp: loadOrCreateSigningKey_def split: prod.splits sum.splits if_splits)
  have r: "readOrCreatePrivateFile file random' meanwhile' fs2 = (Inr (k, False), fs2)"
    using private_file_kept [OF k(1) assms(2)] .
  obtain f where "fs2 file = Some f" "private_mode (pf_mode f)" "pf_contents f = k" using private_file_there [OF r] by blast
  moreover have "f = \<lparr> pf_mode = pf_mode f, pf_contents = pf_contents f \<rparr>" by simp
  ultimately show ?thesis using r k(2,3) by (auto simp: loadOrCreateSigningKey_def SEED_BYTES_def)
qed

definition sample_seed :: bytes where
  "sample_seed = replicate 32 CHR ''7''"

text \<open>A fresh key, and another process that then loads or creates a key of its own.\<close>

theorem signing_key_survives_witness:
  "loadOrCreateSigningKey sample_platform ''k'' ''other'' (\<lambda>fs. fs)
     ((\<lambda>_. None)(''k'' \<mapsto> \<lparr> pf_mode = 0x180, pf_contents = sample_seed \<rparr>, ''j'' \<mapsto> \<lparr> pf_mode = 0x180, pf_contents = ''x'' \<rparr>))
   = (Inr (\<lparr> ik_keyPair = sample_seed, ik_address = CHR ''K'' # sample_seed \<rparr>, False),
      (\<lambda>_. None)(''k'' \<mapsto> \<lparr> pf_mode = 0x180, pf_contents = sample_seed \<rparr>, ''j'' \<mapsto> \<lparr> pf_mode = 0x180, pf_contents = ''x'' \<rparr>))"
  (is "_ = (_, ?fs2)")
proof -
  let ?fs1 = "(\<lambda>_. None)(''k'' \<mapsto> \<lparr> pf_mode = 0x180, pf_contents = sample_seed \<rparr>) :: files"
  have "snd (readOrCreatePrivateFile ''j'' ''x'' (\<lambda>fs. fs) ?fs1) = ?fs2"
    by (simp add: readOrCreatePrivateFile_def)
  then have steps: "file_steps ''k'' ?fs1 ?fs2"
    using file_step.load [of "''k''" "\<lambda>fs. fs" ?fs1 "''j''" "''x''"] by (auto simp: keeps_def)
  have "loadOrCreateSigningKey sample_platform ''k'' sample_seed (\<lambda>fs. fs) (\<lambda>_. None)
      = (Inr (\<lparr> ik_keyPair = sample_seed, ik_address = CHR ''K'' # sample_seed \<rparr>, True), ?fs1)"
    by (simp add: loadOrCreateSigningKey_def readOrCreatePrivateFile_def sample_seed_def SEED_BYTES_def sample_platform_def)
  from signing_key_survives [OF this steps] show ?thesis by blast
qed

text \<open>C19. When the approver has started, the authority that reads its trust file pins exactly the issuer of every permit the
  approver will issue, and starting it again with any random bytes gives the same issuer, and the same approval
  code.\<close>

theorem issuer_published_and_pinned:
  assumes "signatures_verify px" "\<And>k. base58_text (keyAddress px k)"
    and "start_approver px config random code_bytes fs = (Some opts, fs')"
    and "distinct [ac_keyFile config, ac_codeFile config, ac_trustFile config, ac_trustFile config @ ''.tmp'']" "profiles \<noteq> []"
  shows "loadIssuerEntitlement px (read_text (ac_trustFile config) fs') profiles
       = Some \<lparr> ie_issuer = ik_address (ao_issuer opts), ie_settlementProfiles = profiles \<rparr>
    \<and> fst (start_approver px config random' code_bytes' fs') = Some opts
    \<and> (case approver_server px opts now g request of
         (_, PermitIssued sp) \<Rightarrow> pp_issuer (sg_body sp) = ik_address (ao_issuer opts)
       | _ \<Rightarrow> True)"
proof -
  let ?tmp = "ac_trustFile config @ ''.tmp''"
  from assms(3) obtain k b c fs1 contents b' fs2 t where n: "ac_network config = ''solana-payment-sandbox''"
        "[] \<notin> {ac_keyFile config, ac_codeFile config, ac_trustFile config, ac_allowedOrigin config}"
        "ac_mint config \<noteq> []" "ac_recipient config \<noteq> []"
      and k: "readOrCreatePrivateFile (ac_keyFile config) random (\<lambda>fs. fs) fs = (Inr (k, b), fs1)" "length k = SEED_BYTES"
      and c: "readOrCreatePrivateFile (ac_codeFile config) code_bytes (\<lambda>fs. fs) fs1 = (Inr (contents, b'), fs2)"
        "utf8_decode contents = Some t" "APPROVAL_CODE_PATTERN (trim t)"
      and o: "opts = \<lparr> ao_issuer = \<lparr> ik_keyPair = k, ik_address = keyAddress px k \<rparr>, ao_approvalCode = trim t,
          ao_terms = approver_terms config \<rparr>" "fs' = last (publishPublicKey (ac_trustFile config) (keyAddress px k) fs2)"
    unfolding start_approver_def loadOrCreateSigningKey_def loadOrCreateApprovalCode_def Let_def
    by (auto split: if_splits prod.splits sum.splits option.splits)
  obtain f where f: "fs1 (ac_keyFile config) = Some f" "private_mode (pf_mode f)" "pf_contents f = k"
    using private_file_there [OF k(1)] by blast
  obtain h where h: "fs2 (ac_codeFile config) = Some h" "private_mode (pf_mode h)" "pf_contents h = contents"
    using private_file_there [OF c(1)] by blast
  have "fs2 (ac_keyFile config) = Some f"
    using f(1) c(1) assms(4) by (auto simp: readOrCreatePrivateFile_def split: option.splits if_splits)
  then have files: "fs' (ac_keyFile config) = Some f" "fs' (ac_codeFile config) = Some h"
    using h(1) assms(4) unfolding o(2) published_last by auto
  have trusted: "fs' (ac_trustFile config) = Some \<lparr> pf_mode = (case fs2 ?tmp of None \<Rightarrow> 0x1A4 | Some f \<Rightarrow> pf_mode f),
      pf_contents = utf8 (keyAddress px k @ [CHR 0x0A]) \<rparr>" "fs' ?tmp = None"
    unfolding o(2) published_last by simp_all
  then have "read_text (ac_trustFile config) fs' = Some (keyAddress px k @ [CHR 0x0A])"
    by (simp add: read_text_def utf8_decode_utf8 del: utf8_append)
  moreover have "keyAddress px k \<noteq> []" "isAddress px (keyAddress px k)"
    using assms(1,2) by (simp_all add: base58_text_def signatures_verify_def)
  ultimately have "loadIssuerEntitlement px (read_text (ac_trustFile config) fs') profiles
       = Some \<lparr> ie_issuer = keyAddress px k, ie_settlementProfiles = profiles \<rparr>"
    using trim_base58 [OF assms(2)] assms(5) by (simp add: loadIssuerEntitlement_def)
  moreover have "fst (start_approver px config random' code_bytes' fs') = Some opts"
  proof -
    have "readOrCreatePrivateFile (ac_keyFile config) random' (\<lambda>fs. fs) fs' = (Inr (k, False), fs')"
      using private_file_read [of fs' "ac_keyFile config", OF files(1) f(2)] f(3) by simp
    moreover have "readOrCreatePrivateFile (ac_codeFile config) code_bytes' (\<lambda>fs. fs) fs' = (Inr (contents, False), fs')"
      using private_file_read [of fs' "ac_codeFile config", OF files(2) h(2)] h(3) by simp
    ultimately show ?thesis using n k(2) c(2,3) o(1)
      by (simp add: start_approver_def loadOrCreateSigningKey_def loadOrCreateApprovalCode_def Let_def)
  qed
  moreover have "pp_issuer (sg_body sp) = ik_address (ao_issuer opts)"
    if "approver_server px opts now g request = (i, PermitIssued sp)" for i sp
  proof -
    from that obtain a where "issuePermit px a (ao_terms opts) (ao_issuer opts) now g = Inr sp"
      unfolding approver_server_def by (auto split: sum.splits option.splits if_splits)
    then show ?thesis unfolding issuePermit_Inr by (simp add: approved_permit_def)
  qed
  ultimately show ?thesis using o(1) by (auto split: approver_payload.split prod.split)
qed

text \<open>A platform whose addresses are the letter K and the characters of the seed.\<close>

definition sample_config :: approver_config where
  "sample_config = \<lparr> ac_keyFile = ''k'', ac_codeFile = ''c'', ac_trustFile = ''t'', ac_allowedOrigin = ''o'', ac_network = ''solana-payment-sandbox'',
     ac_mint = ''M'', ac_recipient = ''R'' \<rparr>"

definition plain_platform :: platform where
  "plain_platform = sample_platform \<lparr> keyAddress := (\<lambda>k. CHR ''K'' # filter is_base58_char k),
     signRaw := (\<lambda>k m. ''s''), verifyRaw := (\<lambda>a s m. True) \<rparr>"

theorem issuer_published_and_pinned_witness:
  "\<exists>opts fs'. start_approver plain_platform sample_config sample_seed (replicate 32 CHR ''a'') (\<lambda>_. None) = (Some opts, fs')
     \<and> loadIssuerEntitlement plain_platform (read_text ''t'' fs') [''p'']
       = Some \<lparr> ie_issuer = CHR ''K'' # sample_seed, ie_settlementProfiles = [''p''] \<rparr>"
proof -
  have laws: "signatures_verify plain_platform" "base58_text (keyAddress plain_platform k)" for k
    by (auto simp: signatures_verify_def plain_platform_def sample_platform_def base58_text_def list_all_iff is_base58_char_def
        is_alnum_def is_upper_def code_def)
  have key: "keyAddress plain_platform sample_seed = CHR ''K'' # sample_seed"
    by (simp add: plain_platform_def sample_seed_def is_base58_char_def is_alnum_def is_digit_def code_def)
  have code: "utf8_decode (replicate 32 CHR ''a'') = Some (replicate 32 CHR ''a'')" "trim (replicate 32 CHR ''a'') = replicate 32 CHR ''a''"
    "APPROVAL_CODE_PATTERN (replicate 32 CHR ''a'')"
    by code_simp+
  have l: "loadOrCreateSigningKey plain_platform ''k'' sample_seed (\<lambda>fs. fs) (\<lambda>_. None)
      = (Inr (\<lparr> ik_keyPair = sample_seed, ik_address = CHR ''K'' # sample_seed \<rparr>, True),
         [''k'' \<mapsto> \<lparr> pf_mode = 0x180, pf_contents = sample_seed \<rparr>])"
    using key by (simp add: loadOrCreateSigningKey_def readOrCreatePrivateFile_def SEED_BYTES_def) (simp add: sample_seed_def)
  have c: "fst (loadOrCreateApprovalCode ''c'' (replicate 32 CHR ''a'') (\<lambda>fs. fs) [''k'' \<mapsto> \<lparr> pf_mode = 0x180, pf_contents = sample_seed \<rparr>])
      = Inr (replicate 32 CHR ''a'', True)"
    using code by (simp add: loadOrCreateApprovalCode_def readOrCreatePrivateFile_def)
  obtain opts fs' where s: "start_approver plain_platform sample_config sample_seed (replicate 32 CHR ''a'') (\<lambda>_. None) = (Some opts, fs')"
      "ik_address (ao_issuer opts) = CHR ''K'' # sample_seed"
    using l c by (cases "loadOrCreateApprovalCode ''c'' (replicate 32 CHR ''a'') (\<lambda>fs. fs) [''k'' \<mapsto> \<lparr> pf_mode = 0x180, pf_contents = sample_seed \<rparr>]")
      (simp add: start_approver_def sample_config_def Let_def)
  have "distinct [ac_keyFile sample_config, ac_codeFile sample_config, ac_trustFile sample_config, ac_trustFile sample_config @ ''.tmp'']"
    by (simp add: sample_config_def)
  from issuer_published_and_pinned [OF laws s(1) this, of "[''p'']"] s show ?thesis by (simp add: sample_config_def)
qed

end
