(* ===== verification/Verifier_App.thy ===== *)
theory Verifier_App
  imports Evidence_Verify Authority_Server
begin

text \<open>
  apps/verifier/src/cli.ts and server.ts: the command line and the HTTP front of the standalone verifier.  Both hand
  a bundle and the keys of pinned trust files to \<open>verifyEvidenceBundle\<close>.  The file system answers \<open>statSync\<close> and
  \<open>readFileSync\<close> (\<open>None\<close> where they throw), \<open>rpcFactory\<close> is the client of the configured settlement RPC; usage texts
  and the layout of the printed report are not modelled.
\<close>

section \<open>Arguments\<close>

text \<open>\<open>va_bundle\<close>, the trust files: \<open>None\<close> is undefined.\<close>

record cli_args =
  ca_bundle :: "string option"
  ca_issuerTrust :: "string option"
  ca_authorityTrust :: "string option"
  ca_serviceTrust :: "string option"
  ca_online :: bool
  ca_rpc :: string
  ca_json :: bool

definition SOLANA_PAYMENT_SANDBOX_DEFAULT_RPC_URL :: string where
  "SOLANA_PAYMENT_SANDBOX_DEFAULT_RPC_URL = ''https://402.surfnet.dev:8899''"

definition default_args :: cli_args where
  "default_args = \<lparr> ca_bundle = None, ca_issuerTrust = None, ca_authorityTrust = None, ca_serviceTrust = None,
     ca_online = False, ca_rpc = SOLANA_PAYMENT_SANDBOX_DEFAULT_RPC_URL, ca_json = False \<rparr>"

text \<open>The flags that take a value, and what they set.\<close>

fun set_value :: "string \<Rightarrow> string \<Rightarrow> cli_args \<Rightarrow> cli_args option" where
  "set_value arg v args =
     (if arg = ''--issuer-trust'' then Some (args \<lparr> ca_issuerTrust := Some v \<rparr>)
      else if arg = ''--authority-trust'' then Some (args \<lparr> ca_authorityTrust := Some v \<rparr>)
      else if arg = ''--service-trust'' then Some (args \<lparr> ca_serviceTrust := Some v \<rparr>)
      else if arg = ''--rpc'' then Some (args \<lparr> ca_rpc := v \<rparr>)
      else None)"

text \<open>The loop over the arguments; the flag is \<open>sawOffline\<close>, \<open>None\<close> a usage error.\<close>

fun parse_arguments :: "string list \<Rightarrow> cli_args \<Rightarrow> bool \<Rightarrow> (cli_args \<times> bool) option" where
  "parse_arguments [] args sawOffline = Some (args, sawOffline)"
| "parse_arguments (arg # rest) args sawOffline =
     (if set_value arg [] args \<noteq> None then
        (case rest of
           [] \<Rightarrow> None
         | v # rest \<Rightarrow>
           if starts_with v ''--'' then None
           else (case set_value arg v args of None \<Rightarrow> None | Some args \<Rightarrow> parse_arguments rest args sawOffline))
      else if arg = ''--online'' then parse_arguments rest (args \<lparr> ca_online := True \<rparr>) sawOffline
      else if arg = ''--offline'' then parse_arguments rest args True
      else if arg = ''--json'' then parse_arguments rest (args \<lparr> ca_json := True \<rparr>) sawOffline
      else if starts_with arg ''--'' \<or> ca_bundle args \<noteq> None then None
      else parse_arguments rest (args \<lparr> ca_bundle := Some arg \<rparr>) sawOffline)"

definition given :: "string option \<Rightarrow> bool" where
  "given v \<longleftrightarrow> (case v of None \<Rightarrow> False | Some s \<Rightarrow> s \<noteq> [])"

definition parseArgs :: "string list \<Rightarrow> cli_args option" where
  "parseArgs argv =
     (case argv of
        [] \<Rightarrow> None
      | command # rest \<Rightarrow>
        if command \<noteq> ''verify'' then None
        else case parse_arguments rest default_args False of
          None \<Rightarrow> None
        | Some (args, sawOffline) \<Rightarrow>
          if sawOffline \<and> ca_online args then None
          else if \<not> given (ca_bundle args) \<or> \<not> given (ca_issuerTrust args) \<or> \<not> given (ca_authorityTrust args) then None
          else Some args)"

section \<open>Files\<close>

text \<open>\<open>fw_stat\<close>: whether a path is a regular file, and its size.\<close>

record file_world =
  fw_stat :: "string \<Rightarrow> (bool \<times> nat) option"
  fw_read :: "string \<Rightarrow> string option"

definition readTrustKey :: "platform \<Rightarrow> file_world \<Rightarrow> string \<Rightarrow> string option" where
  "readTrustKey px fw file =
     (case fw_stat fw file of
        None \<Rightarrow> None
      | Some (isFile, bytes) \<Rightarrow>
        if \<not> isFile \<or> bytes > 256 then None
        else case fw_read fw file of
          None \<Rightarrow> None
        | Some text \<Rightarrow> if isAddress px (trim text) then Some (trim text) else None)"

definition readBundle :: "file_world \<Rightarrow> string \<Rightarrow> string option" where
  "readBundle fw file =
     (case fw_stat fw file of
        None \<Rightarrow> None
      | Some (isFile, bytes) \<Rightarrow>
        if \<not> isFile then None
        else if bytes > MAX_BUNDLE_BYTES then Some (replicate (MAX_BUNDLE_BYTES + 1) CHR ''x'')
        else fw_read fw file)"

section \<open>The command line\<close>

definition pinned_trust :: "string \<Rightarrow> string \<Rightarrow> string option \<Rightarrow> SettlementProfile \<Rightarrow> VerifierTrust" where
  "pinned_trust issuer authority service profile =
     \<lparr> vt_issuer = issuer, vt_authority = authority,
       vt_settlementProfiles = (\<lambda>n. if n = sp_permitNetwork profile then Some profile else None), vt_service = service \<rparr>"

text \<open>The inputs read in the \<open>try\<close>: \<open>None\<close> ends with the usage text.\<close>

definition cli_inputs ::
  "platform \<Rightarrow> file_world \<Rightarrow> string list \<Rightarrow> (cli_args \<times> string \<times> string \<times> string option \<times> string) option" where
  "cli_inputs px fw argv =
     (case parseArgs argv of
        None \<Rightarrow> None
      | Some args \<Rightarrow>
        (case readTrustKey px fw (the (ca_issuerTrust args)) of
           None \<Rightarrow> None
         | Some issuer \<Rightarrow>
           (case readTrustKey px fw (the (ca_authorityTrust args)) of
              None \<Rightarrow> None
            | Some authority \<Rightarrow>
              (case (case ca_serviceTrust args of None \<Rightarrow> Some None
                     | Some file \<Rightarrow> map_option Some (readTrustKey px fw file)) of
                 None \<Rightarrow> None
               | Some service \<Rightarrow>
                 map_option (\<lambda>bundle. (args, issuer, authority, service, bundle)) (readBundle fw (the (ca_bundle args)))))))"

definition exit_code :: "Overall \<Rightarrow> int" where
  "exit_code overall = (case overall of Overall_VALID \<Rightarrow> 0 | Overall_INDETERMINATE \<Rightarrow> 2 | Overall_INVALID \<Rightarrow> 1)"

text \<open>The exit code and the printed report; \<open>None\<close> where a bad RPC URL makes the promise reject.\<close>

definition runVerifierCli ::
  "verifier_env \<Rightarrow> file_world \<Rightarrow> (string \<Rightarrow> OnlineSettlementSource) \<Rightarrow> string list \<Rightarrow> (int \<times> VerificationReport option) option" where
  "runVerifierCli e fw rpcFactory argv =
     (case cli_inputs (ve_platform e) fw argv of
        None \<Rightarrow> Some (64, None)
      | Some (args, issuer, authority, service, bundle) \<Rightarrow>
        (case solanaPaymentSandboxProfile (ve_platform e) (ca_rpc args) of
           None \<Rightarrow> None
         | Some profile \<Rightarrow>
           let report = verifyEvidenceBundle e (JStr bundle) (pinned_trust issuer authority service profile)
                 (if ca_online args then Online (rpcFactory (sp_rpcUrl profile)) else Offline)
           in Some (exit_code (rp_overall report), Some report)))"

section \<open>The server\<close>

record VerifierServerOptions =
  vs_issuerTrustFile :: string
  vs_authorityTrustFile :: string
  vs_serviceTrustFile :: "string option"

definition readKey :: "platform \<Rightarrow> file_world \<Rightarrow> string \<Rightarrow> string option" where
  "readKey px fw file =
     (case fw_read fw file of None \<Rightarrow> None | Some text \<Rightarrow> if isAddress px (trim text) then Some (trim text) else None)"

text \<open>The chunks of a body up to the bound; the rest is drained.\<close>

fun read_body :: "nat \<Rightarrow> bytes list \<Rightarrow> bytes list \<Rightarrow> nat \<times> bytes list" where
  "read_body seen chunks [] = (seen, chunks)"
| "read_body seen chunks (buffer # rest) =
     (let seen = seen + length buffer in
      read_body seen (if seen \<le> MAX_BUNDLE_BYTES then chunks @ [buffer] else chunks) rest)"

definition readBody :: "bytes list \<Rightarrow> bytes option" where
  "readBody request =
     (let (seen, chunks) = read_body 0 [] request in if seen > MAX_BUNDLE_BYTES then None else Some (concat chunks))"

text \<open>The path and the \<open>mode\<close> parameter of the request's URL are read by the platform (\<open>None\<close>: no URL).  A body that is
  not UTF-8 is outside the model.\<close>

record verifier_request =
  vr_method :: string
  vr_target :: "(string \<times> string option) option"
  vr_chunks :: "bytes list"

datatype verifier_reply =
    VerifierNoContent
  | VerifierHealth "string option" "string option" "string option"
  | VerifierReport VerificationReport string string "string option"
  | VerifierError

definition verifier_server ::
  "verifier_env \<Rightarrow> VerifierServerOptions \<Rightarrow> SettlementProfile \<Rightarrow> file_world \<Rightarrow> (string \<Rightarrow> OnlineSettlementSource)
     \<Rightarrow> verifier_request \<Rightarrow> int \<times> verifier_reply" where
  "verifier_server e opts profile fw rpcFactory request =
     (case vr_target request of
        None \<Rightarrow> (500, VerifierError)
      | Some (pathname, mode) \<Rightarrow>
        if vr_method request = ''OPTIONS'' then (204, VerifierNoContent)
        else
          let px = ve_platform e;
              issuer = readKey px fw (vs_issuerTrustFile opts); authority = readKey px fw (vs_authorityTrustFile opts);
              service = Option.bind (vs_serviceTrustFile opts) (readKey px fw) in
          if vr_method request = ''GET'' \<and> pathname = ''/health'' then (200, VerifierHealth issuer authority service)
          else if vr_method request = ''POST'' \<and> pathname = ''/verify'' then
            (case (issuer, authority) of
               (Some issuer, Some authority) \<Rightarrow>
                 (case readBody (vr_chunks request) of
                    None \<Rightarrow> (413, VerifierError)
                  | Some body \<Rightarrow>
                    (case utf8_decode body of
                       None \<Rightarrow> (500, VerifierError)
                     | Some text \<Rightarrow>
                       (200, VerifierReport (verifyEvidenceBundle e (JStr text) (pinned_trust issuer authority service profile)
                               (if mode = Some ''online'' then Online (rpcFactory (sp_rpcUrl profile)) else Offline))
                             issuer authority service)))
             | _ \<Rightarrow> (503, VerifierError))
          else (404, VerifierError))"

end
