(* ===== verification/Verifier_Properties.thy ===== *)
theory Verifier_Properties
  imports Verifier_App Sample_Evidence
begin

text \<open>The two front ends of the verifier give the same verdict, except where the service key cannot be read.\<close>

lemma read_body_exact:
  "seen \<le> MAX_BUNDLE_BYTES \<Longrightarrow> length (concat chunks) = seen \<Longrightarrow>
     (case read_body seen chunks rest of (t, cs) \<Rightarrow> if t > MAX_BUNDLE_BYTES then None else Some (concat cs))
     = (if seen + length (concat rest) > MAX_BUNDLE_BYTES then None else Some (concat chunks @ concat rest))"
proof (induction seen chunks rest rule: read_body.induct)
  case (2 seen chunks buffer rest)
  have over: "MAX_BUNDLE_BYTES < t \<Longrightarrow> MAX_BUNDLE_BYTES < fst (read_body t cs r)" for t cs r
    by (induction t cs r rule: read_body.induct) (simp_all add: Let_def)
  show ?case
  proof (cases "seen + length buffer \<le> MAX_BUNDLE_BYTES")
    case True
    then show ?thesis using 2 by (simp add: Let_def add.assoc)
  next
    case False
    then show ?thesis using over [of "seen + length buffer" chunks rest] by (simp add: Let_def case_prod_beta)
  qed
qed simp

lemma readBody_exact: "readBody request = (if length (concat request) > MAX_BUNDLE_BYTES then None else Some (concat request))"
  using read_body_exact [of 0 "[]" request] by (simp add: readBody_def)

lemma trust_key_read: "readTrustKey px fw file = Some key \<Longrightarrow> readKey px fw file = Some key"
  by (auto simp: readTrustKey_def readKey_def split: option.splits if_splits)

lemma utf8_filler: "length (utf8 (replicate n CHR ''x'')) = n"
  by (induction n) (simp_all add: utf8_char_def code_def)

text \<open>What the command line makes of the bundle file: its text within the bound, and above it a filler that the
  verifier refuses.\<close>

lemma cli_bundle:
  assumes "cli_inputs px fw argv = Some (args, issuer, authority, service, bundle)"
    and "fw_read fw (the (ca_bundle args)) = Some contents"
      "fw_stat fw (the (ca_bundle args)) = Some (True, length (utf8 contents))"
  shows "if length (utf8 contents) \<le> MAX_BUNDLE_BYTES then bundle = contents else MAX_BUNDLE_BYTES < length (utf8 bundle)"
  using assms by (auto simp: cli_inputs_def readBundle_def utf8_filler split: option.splits)

lemma oversized_invalid:
  assumes "MAX_BUNDLE_BYTES < length (utf8 bundle)"
  shows "rp_overall (verifyEvidenceBundle e (JStr bundle) trust options) = Overall_INVALID"
  using assms by (simp add: verifyEvidenceBundle_def parseEvidenceBundle_def bundle_input_def)

text \<open>C20. Whenever the command line judges a bundle file, its exit code is 0, 1 or 2 exactly as the verdict is VALID,
  INVALID or INDETERMINATE, and the HTTP front with the same trust files and RPC, given the bytes of that file,
  answers with the same report if they are at most 524288 bytes; above that it answers 413 without a report,
  and the command line's verdict is INVALID.\<close>

theorem verifier_fronts_agree:
  assumes "cli_inputs (ve_platform e) fw argv = Some (args, issuer, authority, service, bundle)"
    and "solanaPaymentSandboxProfile (ve_platform e) (ca_rpc args) = Some profile"
    and "fw_read fw (the (ca_bundle args)) = Some contents"
      "fw_stat fw (the (ca_bundle args)) = Some (True, length (utf8 contents))" "concat chunks = utf8 contents"
  shows "\<exists>report. runVerifierCli e fw rpcFactory argv
       = Some (case rp_overall report of Overall_VALID \<Rightarrow> 0 | Overall_INVALID \<Rightarrow> 1 | Overall_INDETERMINATE \<Rightarrow> 2, Some report)
    \<and> verifier_server e \<lparr> vs_issuerTrustFile = the (ca_issuerTrust args), vs_authorityTrustFile = the (ca_authorityTrust args),
          vs_serviceTrustFile = ca_serviceTrust args \<rparr> profile fw rpcFactory
        \<lparr> vr_method = ''POST'', vr_target = Some (''/verify'', if ca_online args then Some ''online'' else Some ''offline''),
          vr_chunks = chunks \<rparr>
      = (if length (utf8 contents) \<le> 524288 then (200, VerifierReport report issuer authority service) else (413, VerifierError))
    \<and> (if length (utf8 contents) \<le> 524288 then bundle = contents else rp_overall report = Overall_INVALID)"
proof -
  from assms(1) have keys: "readTrustKey (ve_platform e) fw (the (ca_issuerTrust args)) = Some issuer"
      "readTrustKey (ve_platform e) fw (the (ca_authorityTrust args)) = Some authority"
      "(case ca_serviceTrust args of None \<Rightarrow> Some None
          | Some file \<Rightarrow> map_option Some (readTrustKey (ve_platform e) fw file)) = Some service"
    unfolding cli_inputs_def by (auto split: option.splits)
  have service: "Option.bind (ca_serviceTrust args) (readKey (ve_platform e) fw) = service"
    using keys(3) trust_key_read by (cases "ca_serviceTrust args") auto
  have body: "readBody chunks = (if length (utf8 contents) \<le> 524288 then Some (utf8 contents) else None)"
    using assms(5) by (simp add: readBody_exact MAX_BUNDLE_BYTES_def)
  have same: "if length (utf8 contents) \<le> 524288 then bundle = contents else MAX_BUNDLE_BYTES < length (utf8 bundle)"
    using cli_bundle [OF assms(1,3,4)] by (simp add: MAX_BUNDLE_BYTES_def)
  let ?report = "verifyEvidenceBundle e (JStr bundle) (pinned_trust issuer authority service profile)
    (if ca_online args then Online (rpcFactory (sp_rpcUrl profile)) else Offline)"
  have "runVerifierCli e fw rpcFactory argv = Some (exit_code (rp_overall ?report), Some ?report)"
    using assms(1,2) by (simp add: runVerifierCli_def Let_def)
  moreover have "exit_code (rp_overall ?report)
      = (case rp_overall ?report of Overall_VALID \<Rightarrow> 0 | Overall_INVALID \<Rightarrow> 1 | Overall_INDETERMINATE \<Rightarrow> 2)"
    by (simp add: exit_code_def split: Overall.split)
  moreover have "verifier_server e \<lparr> vs_issuerTrustFile = the (ca_issuerTrust args), vs_authorityTrustFile = the (ca_authorityTrust args),
          vs_serviceTrustFile = ca_serviceTrust args \<rparr> profile fw rpcFactory
        \<lparr> vr_method = ''POST'', vr_target = Some (''/verify'', if ca_online args then Some ''online'' else Some ''offline''),
          vr_chunks = chunks \<rparr>
      = (if length (utf8 contents) \<le> 524288 then (200, VerifierReport ?report issuer authority service) else (413, VerifierError))"
    using trust_key_read [OF keys(1)] trust_key_read [OF keys(2)] service body same
    by (cases "ca_online args") (simp_all add: verifier_server_def Let_def utf8_decode_utf8)
  ultimately show ?thesis using same oversized_invalid by (auto split: if_splits)
qed

section \<open>Samples\<close>

text \<open>The directory holds a bundle and two trust files; the service's file is missing.\<close>

definition sample_files :: file_world where
  "sample_files = \<lparr> fw_stat = (\<lambda>f. if f \<in> {''b.json'', ''i'', ''a''} then Some (True, 2) else None),
     fw_read = (\<lambda>f. if f = ''b.json'' then Some ''no'' else if f = ''i'' then Some (''I'' @ [CHR 0x0A])
        else if f = ''a'' then Some ''A'' else None) \<rparr>"

definition sample_argv :: "string list" where
  "sample_argv = [''verify'', ''--issuer-trust'', ''i'', ''b.json'', ''--authority-trust'', ''a'', ''--online'']"

definition sample_source :: OnlineSettlementSource where
  "sample_source = \<lparr> os_getVersion = None, os_getTransaction = (\<lambda>_. None) \<rparr>"

definition sample_cli_args :: cli_args where
  "sample_cli_args = default_args \<lparr> ca_bundle := Some ''b.json'', ca_issuerTrust := Some ''i'', ca_authorityTrust := Some ''a'',
     ca_online := True \<rparr>"

lemma sample_args_parsed: "parseArgs sample_argv = Some sample_cli_args"
  by (simp add: parseArgs_def sample_argv_def starts_with_def given_def default_args_def sample_cli_args_def)

lemma sample_inputs: "cli_inputs base58_platform sample_files sample_argv = Some (sample_cli_args, ''I'', ''A'', None, ''no'')"
  by (simp add: cli_inputs_def sample_args_parsed)
    (simp add: sample_cli_args_def default_args_def readTrustKey_def readBundle_def sample_files_def base58_platform_def hex_platform_def sample_platform_def trim_def
      js_space_def code_def MAX_BUNDLE_BYTES_def)

lemma sample_bundle_file: "fw_read sample_files (the (ca_bundle sample_cli_args)) = Some ''no''"
    "fw_stat sample_files (the (ca_bundle sample_cli_args)) = Some (True, length (utf8 ''no''))"
  by (simp_all add: sample_files_def sample_cli_args_def utf8_char_def code_def)

theorem verifier_fronts_agree_witness:
  "\<exists>profile report. runVerifierCli sample_env sample_files (\<lambda>_. sample_source) sample_argv
       = Some (case rp_overall report of Overall_VALID \<Rightarrow> 0 | Overall_INVALID \<Rightarrow> 1 | Overall_INDETERMINATE \<Rightarrow> 2, Some report)
    \<and> verifier_server sample_env \<lparr> vs_issuerTrustFile = ''i'', vs_authorityTrustFile = ''a'', vs_serviceTrustFile = None \<rparr>
        profile sample_files (\<lambda>_. sample_source)
        \<lparr> vr_method = ''POST'', vr_target = Some (''/verify'', Some ''online''), vr_chunks = [''n'', ''o''] \<rparr>
      = (200, VerifierReport report ''I'' ''A'' None)"
proof -
  obtain profile where p: "solanaPaymentSandboxProfile base58_platform (ca_rpc sample_cli_args) = Some profile"
    by (simp add: solanaPaymentSandboxProfile_def base58_platform_def hex_platform_def sample_platform_def sample_parse_def)
  have v: "ve_platform sample_env = base58_platform" by (simp add: sample_env_def)
  show ?thesis
    using verifier_fronts_agree [of sample_env sample_files sample_argv sample_cli_args "''I''" "''A''" None "''no''" profile
        "''no''" "[''n'', ''o'']" "\<lambda>_. sample_source"] sample_inputs sample_bundle_file p
    by (simp add: v utf8_char_def code_def) (auto simp: sample_cli_args_def default_args_def)
qed

text \<open>A configured service trust file that the HTTP front cannot read, or that holds no key, is treated as if none were
  configured: the bundle is judged without the service's pin, while the command line refuses with exit code 64.\<close>

theorem unreadable_service_key_ignored:
  assumes "readKey (ve_platform e) fw file = None"
  shows "verifier_server e (opts \<lparr> vs_serviceTrustFile := Some file \<rparr>) profile fw rpcFactory request
       = verifier_server e (opts \<lparr> vs_serviceTrustFile := None \<rparr>) profile fw rpcFactory request
    \<and> (case parseArgs argv of None \<Rightarrow> True
       | Some args \<Rightarrow> ca_serviceTrust args \<noteq> Some file \<or> runVerifierCli e fw rpcFactory argv = Some (64, None))"
proof -
  have "readTrustKey (ve_platform e) fw file = None" using assms trust_key_read by (metis not_None_eq)
  then have "runVerifierCli e fw rpcFactory argv = Some (64, None)"
    if "parseArgs argv = Some args" "ca_serviceTrust args = Some file" for args
    using that by (simp add: runVerifierCli_def cli_inputs_def split: option.split)
  then show ?thesis using assms by (simp add: verifier_server_def split: option.split)
qed

theorem unreadable_service_key_ignored_witness:
  "runVerifierCli sample_env sample_files (\<lambda>_. sample_source) (sample_argv @ [''--service-trust'', ''s'']) = Some (64, None)
   \<and> (\<forall>profile q. verifier_server sample_env \<lparr> vs_issuerTrustFile = ''i'', vs_authorityTrustFile = ''a'', vs_serviceTrustFile = Some ''s'' \<rparr>
          profile sample_files (\<lambda>_. sample_source) q
       = verifier_server sample_env \<lparr> vs_issuerTrustFile = ''i'', vs_authorityTrustFile = ''a'', vs_serviceTrustFile = None \<rparr>
          profile sample_files (\<lambda>_. sample_source) q)"
proof -
  have r: "readKey (ve_platform sample_env) sample_files ''s'' = None" by (simp add: readKey_def sample_files_def)
  have a: "parseArgs (sample_argv @ [''--service-trust'', ''s'']) = Some (sample_cli_args \<lparr> ca_serviceTrust := Some ''s'' \<rparr>)"
    by (simp add: parseArgs_def sample_argv_def starts_with_def given_def default_args_def sample_cli_args_def)
  note u = unreadable_service_key_ignored [OF r, where opts = "\<lparr> vs_issuerTrustFile = ''i'', vs_authorityTrustFile = ''a'', vs_serviceTrustFile = None \<rparr>"
      and rpcFactory = "\<lambda>_. sample_source" and argv = "sample_argv @ [''--service-trust'', ''s'']"]
  show ?thesis using u [THEN conjunct1] u [THEN conjunct2] a by simp
qed

end
