(* ===== verification/Web_Model.thy ===== *)
theory Web_Model
  imports Evidence_Verify Decimal
begin

text \<open>
  apps/web/src/model.ts: the view model of the demonstration page.  Amounts as grouped units and as decimal tokens,
  the purchase timeline, the comparison of an allowed and a blocked request, and the grouping of the verifier's
  claims.  The two characters of the page outside Latin-1 stand at their Windows-1252 codes: the em dash \<open>DASH\<close> and
  the ellipsis \<open>ELLIPSIS\<close>.  A claim has the fields of the verifier's claim without its detail text.
\<close>

definition DASH :: string where
  "DASH = [CHR 0x97]"

definition ELLIPSIS :: string where
  "ELLIPSIS = [CHR 0x85]"

section \<open>Values\<close>

text \<open>Whether an optional string is present and not empty.\<close>

definition shown :: "string option \<Rightarrow> bool" where
  "shown v \<longleftrightarrow> (case v of None \<Rightarrow> False | Some s \<Rightarrow> s \<noteq> [])"

record ViewReceipt =
  vr_decision :: verdict
  vr_reasonCodes :: "string list"
  vr_service :: string
  vr_capability :: string
  vr_network :: string
  vr_mint :: string
  vr_recipient :: string
  vr_amountAtomic :: string
  vr_permitDigest :: string
  vr_paymentTransactionId :: "string option"
  vr_operation :: "ExactOperation option"

record ViewPayment =
  vp_protocol :: "string option"
  vp_asset :: "string option"
  vp_payTo :: "string option"
  vp_amountAtomic :: "string option"
  vp_payerSignature :: "string option"
  vp_transactionId :: "string option"
  vp_requestSha256 :: "string option"
  vp_settlementProfile :: "string option"

record ViewQuote =
  vq_service :: string
  vq_method :: string
  vq_resource :: string
  vq_network :: string
  vq_mint :: string
  vq_recipient :: string
  vq_amountAtomic :: string

record ViewAuthorization =
  va_decision :: verdict
  va_replay :: bool
  va_receipt :: ViewReceipt
  va_payment :: "ViewPayment option"
  va_result :: jsval

record DemoResponse =
  dr_status :: "string option"
  dr_invocationId :: "string option"
  dr_operation :: "ExactOperation option"
  dr_quote :: "ViewQuote option"
  dr_authorization :: "ViewAuthorization option"

section \<open>Formatting\<close>

text \<open>\<open>s.slice(0, -n)\<close> and \<open>s.slice(-n)\<close>; \<open>-0\<close> is 0.\<close>

definition slice_to_minus :: "string \<Rightarrow> nat \<Rightarrow> string" where
  "slice_to_minus s n = (if n = 0 then [] else take (length s - n) s)"

definition slice_from_minus :: "string \<Rightarrow> nat \<Rightarrow> string" where
  "slice_from_minus s n = (if n = 0 then s else drop (length s - n) s)"

definition shorten :: "string option \<Rightarrow> nat \<Rightarrow> string" where
  "shorten v keep =
     (case v of
        None \<Rightarrow> DASH
      | Some s \<Rightarrow>
        if s = [] then DASH
        else if length s \<le> keep * 2 + 1 then s
        else take keep s @ ELLIPSIS @ slice_from_minus s keep)"

definition digits_only :: "string \<Rightarrow> bool" where
  "digits_only s \<longleftrightarrow> s \<noteq> [] \<and> list_all is_digit s"

text \<open>The replacement of \<open>/\B(?=(\d{3})+(?!\d))/g\<close> on a text of digits: a comma at every inner position that has a
  positive multiple of three digits after it.\<close>

fun group_thousands :: "string \<Rightarrow> string" where
  "group_thousands [] = []"
| "group_thousands (c # cs) =
     (if cs \<noteq> [] \<and> length cs mod 3 = 0 then c # CHR '','' # group_thousands cs else c # group_thousands cs)"

definition formatUnits :: "string option \<Rightarrow> string" where
  "formatUnits atomic =
     (case atomic of None \<Rightarrow> DASH | Some s \<Rightarrow> if digits_only s then group_thousands s else DASH)"

definition padStart :: "string \<Rightarrow> nat \<Rightarrow> string" where
  "padStart s n = replicate (n - length s) CHR ''0'' @ s"

text \<open>\<open>/^0+(?=\d)/\<close>: the leading zeros that have a digit after them.\<close>

fun strip_leading_zeros :: "string \<Rightarrow> string" where
  "strip_leading_zeros (c # d # s) = (if c = CHR ''0'' then strip_leading_zeros (d # s) else c # d # s)"
| "strip_leading_zeros s = s"

definition strip_trailing_zeros :: "string \<Rightarrow> string" where
  "strip_trailing_zeros s = rev (dropWhile (\<lambda>c. c = CHR ''0'') (rev s))"

definition formatToken :: "string option \<Rightarrow> nat \<Rightarrow> string" where
  "formatToken atomic decimals =
     (case atomic of
        None \<Rightarrow> DASH
      | Some s \<Rightarrow>
        if \<not> digits_only s then DASH
        else let padded = padStart s (decimals + 1);
                 whole = strip_leading_zeros (slice_to_minus padded decimals);
                 fraction = strip_trailing_zeros (slice_from_minus padded decimals) in
          if fraction \<noteq> [] then whole @ CHR ''.'' # fraction else whole)"

definition opLabel :: "ExactOperation option \<Rightarrow> string" where
  "opLabel operation =
     (case operation of None \<Rightarrow> DASH | Some x \<Rightarrow> op_operation x @ CHR ''('' # op_datasetId x @ '')'')"

section \<open>The purchase timeline\<close>

datatype StepState = Done | Blocked | NotReached | Pending

record TimelineStep =
  ts_id :: string
  ts_label :: string
  ts_state :: StepState
  ts_value :: string
  ts_detail :: "string option"

definition timeline_step :: "string \<Rightarrow> string \<Rightarrow> StepState \<times> string \<times> string option \<Rightarrow> TimelineStep" where
  "timeline_step i l v = \<lparr> ts_id = i, ts_label = l, ts_state = fst v, ts_value = fst (snd v), ts_detail = snd (snd v) \<rparr>"

definition OPERATION_CODES :: "string list" where
  "OPERATION_CODES = [''OPERATION_NOT_AUTHORIZED'', ''OPERATION_ARGUMENT_NOT_AUTHORIZED'', ''OPERATION_METHOD_MISMATCH'',
     ''OPERATION_RESOURCE_MISMATCH'']"

definition BUDGET_CODES :: "string list" where
  "BUDGET_CODES = [''PER_CALL_LIMIT_EXCEEDED'', ''TOTAL_BUDGET_EXCEEDED'', ''INVALID_AMOUNT'']"

definition claimStatus :: "VerificationReport option \<Rightarrow> string \<Rightarrow> ClaimStatus option" where
  "claimStatus report i =
     (case report of None \<Rightarrow> None | Some r \<Rightarrow> map_option cl_status (find (\<lambda>c. cl_id c = i) (rp_claims r)))"

definition reached :: "bool \<Rightarrow> bool \<Rightarrow> string \<Rightarrow> string option \<Rightarrow> StepState \<times> string \<times> string option" where
  "reached denied condition v detail =
     (if condition then (Done, v, if shown detail then detail else None)
      else (NotReached, if denied then ''NOT REACHED'' else DASH, None))"

definition buildTimeline :: "DemoResponse \<Rightarrow> bool \<Rightarrow> VerificationReport option \<Rightarrow> TimelineStep list" where
  "buildTimeline run bundleFetched report =
     (let authorization = dr_authorization run;
          receipt = map_option va_receipt authorization;
          payment = Option.bind authorization va_payment;
          codes = (case receipt of None \<Rightarrow> [] | Some r \<Rightarrow> vr_reasonCodes r);
          operationBlocked = list_ex (\<lambda>c. c \<in> set OPERATION_CODES) codes;
          budgetBlocked = list_ex (\<lambda>c. c \<in> set BUDGET_CODES) codes;
          denied = (map_option va_decision authorization = Some DENY);
          transactionId = Option.bind payment vp_transactionId in
      [timeline_step ''permission'' ''Human permission''
         (if receipt \<noteq> None then (Done, ''VERIFIED'', Some ''Signed by the trusted issuer'') else (NotReached, DASH, None)),
       timeline_step ''agent'' ''Agent identity''
         (if receipt \<noteq> None then (Done, ''VERIFIED'', Some ''Request signed by the permitted agent'') else (NotReached, DASH, None)),
       timeline_step ''operation'' ''Operation''
         (if receipt = None then (NotReached, DASH, None)
          else if operationBlocked
          then (Blocked, ''NOT AUTHORIZED'', Some (join_with '', '' (filter (\<lambda>c. c \<in> set OPERATION_CODES) codes)))
          else (Done, ''AUTHORIZED'', Some (opLabel (dr_operation run)))),
       timeline_step ''budget'' ''Budget''
         (if receipt = None \<or> operationBlocked then (NotReached, if operationBlocked then ''NOT REACHED'' else DASH, None)
          else if budgetBlocked
          then (Blocked, ''EXCEEDED'', Some (join_with '', '' (filter (\<lambda>c. c \<in> set BUDGET_CODES) codes)))
          else (Done, ''AVAILABLE'', None)),
       timeline_step ''challenge'' ''x402 challenge''
         (reached denied (Option.bind payment vp_protocol = Some ''x402'') ''VERIFIED'' (Some ''Payment terms match the human permit'')),
       timeline_step ''service-authorization'' ''Service authorization''
         (if shown transactionId
          then if claimStatus report ''service_authorization'' = Some VERIFIED
               then (Done, ''VERIFIED'', Some ''Service checked Virtual Haibin's signature before settling'')
               else (Pending, if report \<noteq> None then ''NOT VERIFIED'' else ''CHECKING'' @ ELLIPSIS, None)
          else (NotReached, if denied then ''NOT REACHED'' else DASH, None)),
       timeline_step ''payment'' ''Payment''
         (reached denied (shown transactionId) ''SETTLED''
            (if shown transactionId then Some (''Transaction '' @ shorten transactionId 6) else None)),
       timeline_step ''result'' ''Service result''
         (reached denied (\<not> nullish (case authorization of None \<Rightarrow> JUndef | Some a \<Rightarrow> va_result a) \<and> \<not> denied) ''RECEIVED'' None),
       timeline_step ''evidence'' ''Evidence''
         (if denied then (NotReached, DASH, None)
          else if bundleFetched then (Done, ''AVAILABLE'', Some ''Signed, portable bundle exported'')
          else (if shown transactionId then Pending else NotReached,
                if shown transactionId then ''EXPORTING'' @ ELLIPSIS else DASH, None))])"

section \<open>Comparison of two requests\<close>

record ComparisonRow =
  cr_label :: string
  cr_allowed :: string
  cr_blocked :: string
  cr_same :: "bool option"
  cr_emphasis :: "string option"

record run_facts =
  rf_permit :: "string option"
  rf_asks :: "string option"
  rf_dataset :: "string option"
  rf_merchant :: "string option"
  rf_endpoint :: "string option"
  rf_token :: "string option"
  rf_recipient :: "string option"
  rf_price :: "string option"
  rf_decision :: "string option"
  rf_payment :: "string option"

text \<open>\<open>a ?? b ?? null\<close> for a field of the receipt and of the quote.\<close>

definition first_known :: "'a option \<Rightarrow> 'a option \<Rightarrow> 'a option" where
  "first_known a b = (case a of None \<Rightarrow> b | Some x \<Rightarrow> Some x)"

fun verdict_name :: "verdict \<Rightarrow> string" where
  "verdict_name ALLOW = ''ALLOW''"
| "verdict_name DENY = ''DENY''"

definition facts :: "ExactOperation option \<Rightarrow> DemoResponse option \<Rightarrow> run_facts" where
  "facts permit run =
     (let authorization = Option.bind run dr_authorization; receipt = map_option va_receipt authorization;
          quote = Option.bind run dr_quote; operation = Option.bind run dr_operation in
      \<lparr> rf_permit = (if permit \<noteq> None \<and> run \<noteq> None then Some (opLabel permit) else None),
        rf_asks = map_option op_operation operation,
        rf_dataset = map_option op_datasetId operation,
        rf_merchant = first_known (map_option vr_service receipt) (map_option vq_service quote),
        rf_endpoint = (case quote of
            Some q \<Rightarrow> Some (vq_method q @ '' '' @ vq_resource q)
          | None \<Rightarrow> map_option (\<lambda>x. op_method x @ '' '' @ op_resource x) operation),
        rf_token = first_known (map_option vr_mint receipt) (map_option vq_mint quote),
        rf_recipient = first_known (map_option vr_recipient receipt) (map_option vq_recipient quote),
        rf_price = first_known (map_option vr_amountAtomic receipt) (map_option vq_amountAtomic quote),
        rf_decision = map_option (\<lambda>a. verdict_name (va_decision a)) authorization,
        rf_payment = (if run = None then None
          else Some (if shown (Option.bind (Option.bind authorization va_payment) vp_transactionId) then ''SETTLED'' else ''NONE'')) \<rparr>)"

definition comparison_row :: "string \<Rightarrow> string option \<Rightarrow> string option \<Rightarrow> (string \<Rightarrow> string) \<Rightarrow> string option \<Rightarrow> ComparisonRow" where
  "comparison_row label a b display emphasis =
     \<lparr> cr_label = label,
       cr_allowed = (case a of None \<Rightarrow> DASH | Some v \<Rightarrow> display v),
       cr_blocked = (case b of None \<Rightarrow> DASH | Some v \<Rightarrow> display v),
       cr_same = (if a = None \<or> b = None then None else Some (a = b)),
       cr_emphasis = emphasis \<rparr>"

definition buildComparison :: "ExactOperation option \<Rightarrow> DemoResponse option \<Rightarrow> DemoResponse option \<Rightarrow> ComparisonRow list" where
  "buildComparison permit allowed blocked =
     (let a = facts permit allowed; b = facts permit blocked;
          row = (\<lambda>label field display emphasis. comparison_row label (field a) (field b) display emphasis) in
      [row ''Human permit'' rf_permit id None,
       row ''Agent asks'' rf_asks id None,
       row ''Dataset'' rf_dataset id None,
       row ''Merchant'' rf_merchant id None,
       row ''Endpoint'' rf_endpoint id None,
       row ''Token'' rf_token (\<lambda>v. ''Sandbox USDC '' @ shorten (Some v) 4) None,
       row ''Recipient'' rf_recipient (\<lambda>v. shorten (Some v) 6) None,
       row ''Price'' rf_price (\<lambda>v. formatUnits (Some v) @ '' units'') None,
       row ''Decision'' rf_decision id (Some ''decision''),
       row ''Payment'' rf_payment id (Some ''payment'')])"

section \<open>The verifier's claims in groups\<close>

record labelled_claim =
  lc_claim :: claim
  lc_label :: "string option"

record ClaimGroup =
  cg_id :: string
  cg_title :: string
  cg_claims :: "labelled_claim list"

definition GROUPS :: "(string \<times> string \<times> (string \<times> string) list) list" where
  "GROUPS =
     [(''identity'', ''Identity & authority'',
        [(''issuer_trusted'', ''Trusted human issuer''), (''permit_signature'', ''Human permission signature''),
         (''agent_request_signature'', ''Agent signature''), (''request_bound_to_permit'', ''Request bound to this permit''),
         (''authority_trusted'', ''Trusted Virtual Haibin authority''),
         (''authority_decision_signature'', ''Authority decision signature''),
         (''manifest_signature'', ''Evidence manifest signature''), (''artifact_digests'', ''Evidence integrity (digests)''),
         (''state_consistent'', ''Evidence consistency''), (''bundle_format'', ''Evidence format'')]),
      (''request'', ''Request vs human permission'',
        [(''operation_matches_permit'', ''Operation''), (''operation_arguments_match'', ''Dataset''),
         (''method_resource_match'', ''Method & endpoint''), (''service_capability_match'', ''Service''),
         (''network_profile_match'', ''Network''), (''mint_match'', ''Token''), (''recipient_match'', ''Recipient''),
         (''per_call_limit'', ''Per-call limit''), (''permit_time_bounds'', ''Within permit validity''),
         (''decision_matches_static_policy'', ''Decision matches policy'')]),
      (''service'', ''Service'',
        [(''service_authorization'', ''Service authorization''), (''service_trusted'', ''Trusted service key''),
         (''service_acknowledgement'', ''Service acknowledgement''), (''service_result_attestation'', ''Result attestation'')]),
      (''payment'', ''Payment'',
        [(''settlement_profile_match'', ''Sandbox settlement profile''), (''x402_asset_matches'', ''x402 token''),
         (''x402_recipient_matches'', ''x402 recipient''), (''x402_amount_matches'', ''x402 amount''),
         (''outbound_request_matches_operation'', ''Paid request = approved operation''),
         (''payment_attempt_matches_requirement'', ''Payment requirement''), (''payment_transaction'', ''Signed transfer''),
         (''settlement'', ''Settlement''), (''result_digest'', ''Result bytes'')]),
      (''limits'', ''Limits of proof'',
        [(''result_correctness'', ''Result correctness''), (''global_budget_completeness'', ''Global budget history''),
         (''total_budget_decision'', ''Total budget decision''),
         (''result_observed_by_authority'', ''Result observed by authority'')])]"

text \<open>The names an object literal inherits: the operator \<open>in\<close> finds them in every group, with a value that is no
  label (\<open>None\<close>).\<close>

definition INHERITED :: "string list" where
  "INHERITED = [''constructor'', ''__defineGetter__'', ''__defineSetter__'', ''hasOwnProperty'', ''__lookupGetter__'',
     ''__lookupSetter__'', ''isPrototypeOf'', ''propertyIsEnumerable'', ''toString'', ''valueOf'', ''__proto__'', ''toLocaleString'']"

definition in_group :: "string \<Rightarrow> (string \<times> string) list \<Rightarrow> bool" where
  "in_group i labels \<longleftrightarrow> i \<in> fst ` set labels \<or> i \<in> set INHERITED"

definition group_of :: "VerificationReport \<Rightarrow> string \<times> string \<times> (string \<times> string) list \<Rightarrow> ClaimGroup" where
  "group_of report g =
     \<lparr> cg_id = fst g, cg_title = fst (snd g),
       cg_claims = map (\<lambda>c. \<lparr> lc_claim = c, lc_label = map_of (snd (snd g)) (cl_id c) \<rparr>)
         (filter (\<lambda>c. in_group (cl_id c) (snd (snd g))) (rp_claims report)) \<rparr>"

definition groupClaims :: "VerificationReport \<Rightarrow> ClaimGroup list" where
  "groupClaims report =
     (let groups = map (group_of report) GROUPS;
          placed = (\<Union>g \<in> set groups. (\<lambda>c. cl_id (lc_claim c)) ` set (cg_claims g));
          other = map (\<lambda>c. \<lparr> lc_claim = c, lc_label = Some (cl_id c) \<rparr>) (filter (\<lambda>c. cl_id c \<notin> placed) (rp_claims report));
          groups = (if length other > 0
            then groups @ [\<lparr> cg_id = ''other'', cg_title = ''Other checks'', cg_claims = other \<rparr>] else groups) in
      filter (\<lambda>g. length (cg_claims g) > 0) groups)"

fun STATUS_LABEL :: "ClaimStatus \<Rightarrow> string" where
  "STATUS_LABEL VERIFIED = ''Verified''"
| "STATUS_LABEL INVALID = ''Invalid''"
| "STATUS_LABEL NOT_SATISFIED = ''Not satisfied''"
| "STATUS_LABEL AUTHORITY_ATTESTED = ''Authority-attested''"
| "STATUS_LABEL SERVICE_ATTESTED = ''Service-attested''"
| "STATUS_LABEL NOT_CHECKED = ''Not checked''"
| "STATUS_LABEL NOT_PROVABLE_FROM_BUNDLE = ''Not provable''"
| "STATUS_LABEL INDETERMINATE = ''Indeterminate''"

end
