(* ===== verification/Web_App.thy ===== *)
theory Web_App
  imports Web_Model Paid_Service
begin

text \<open>
  apps/web/src/api.ts and the handlers of apps/web/src/App.tsx: what the page sends to the agent, the approver and the
  verifier, and the state it keeps.  \<open>web_world\<close> answers every call (\<open>None\<close> where \<open>fetch\<close> rejects) and reads
  bodies at their declared types; texts of messages are not kept, apart from the one for an ended session.  \<open>pg_sent\<close>
  records the calls.  A handler is a function here, from the page it starts on to the page it leaves when nothing else
  happens while it waits.  Theory Web_Interleaving has the same handlers cut at every \<open>await\<close>, in any interleaving, and
  shows that a handler left alone does what its function says.
\<close>

section \<open>Calls\<close>

datatype api = AgentApi | ApproverApi | VerifierApi

record web_call =
  wc_api :: api
  wc_method :: string
  wc_path :: string
  wc_authorization :: "string option"
  wc_body :: "string option"

record web_answer =
  wa_status :: int
  wa_json :: "jsval option"
  wa_text :: string

record web_world =
  ww_fetch :: "nat \<Rightarrow> web_call \<Rightarrow> web_answer option"
  ww_demo :: "jsval \<Rightarrow> DemoResponse"
  ww_report :: "jsval \<Rightarrow> VerificationReport"

text \<open>\<open>ApiError\<close> with its status, and any other error.\<close>

datatype page_error = ApiError int | OtherError

datatype page_message = SessionEnded | Unreachable | Message

datatype run_kind = AllowRun | DenyRun

record page_run =
  pr_httpStatus :: int
  pr_response :: DemoResponse

record page =
  pg_token :: "string option"
  pg_agent :: "string option"
  pg_terms :: "jsval option"
  pg_setupError :: "page_message option"
  pg_permit :: "jsval option"
  pg_approving :: bool
  pg_approvalError :: "page_message option"
  pg_runs :: "run_kind \<Rightarrow> page_run option"
  pg_latest :: "run_kind option"
  pg_running :: "run_kind option"
  pg_runError :: "page_message option"
  pg_bundle :: "string option"
  pg_report :: "VerificationReport option"
  pg_verifying :: "string option"
  pg_evidenceError :: "page_message option"
  pg_extraRuns :: "(string \<times> page_run) list"
  pg_sent :: "web_call list"

definition initial_page :: page where
  "initial_page = \<lparr> pg_token = None, pg_agent = None, pg_terms = None, pg_setupError = None, pg_permit = None, pg_approving = False,
     pg_approvalError = None, pg_runs = (\<lambda>_. None), pg_latest = None, pg_running = None, pg_runError = None, pg_bundle = None,
     pg_report = None, pg_verifying = None, pg_evidenceError = None, pg_extraRuns = [], pg_sent = [] \<rparr>"

definition web_fetch :: "web_world \<Rightarrow> web_call \<Rightarrow> page \<Rightarrow> web_answer option \<times> page" where
  "web_fetch w call pg = (ww_fetch w (length (pg_sent pg)) call, pg \<lparr> pg_sent := pg_sent pg @ [call] \<rparr>)"

text \<open>\<open>json(response)\<close>: a body that cannot be read is the empty object; reading a member of null throws.\<close>

definition api_body :: "web_answer \<Rightarrow> jsval" where
  "api_body a = (case wa_json a of None \<Rightarrow> JObj [] | Some v \<Rightarrow> v)"

definition api_json :: "web_answer option \<Rightarrow> page_error + jsval" where
  "api_json answer =
     (case answer of
        None \<Rightarrow> Inl OtherError
      | Some a \<Rightarrow>
        if \<not> response_ok (wa_status a) then Inl (if nullish (api_body a) then OtherError else ApiError (wa_status a))
        else Inr (api_body a))"

definition member :: "string \<Rightarrow> page_error + jsval \<Rightarrow> page_error + jsval" where
  "member k r = sbind r (\<lambda>body. if nullish body then Inl OtherError else Inr (jget body k))"

definition session_call :: web_call where
  "session_call = \<lparr> wc_api = AgentApi, wc_method = ''POST'', wc_path = ''/session'', wc_authorization = None, wc_body = None \<rparr>"

definition session_result :: "web_answer option \<Rightarrow> page_error + string" where
  "session_result answer = map_sum id jstr (member ''token'' (api_json answer))"

definition startSession :: "web_world \<Rightarrow> page \<Rightarrow> (page_error + unit) \<times> page" where
  "startSession w pg =
     (let (answer, pg) = web_fetch w session_call pg in
      case session_result answer of
        Inl e \<Rightarrow> (Inl e, pg)
      | Inr token \<Rightarrow> (Inr (), pg \<lparr> pg_token := Some token \<rparr>))"

definition agentAuth :: "page \<Rightarrow> page_error + string" where
  "agentAuth pg = (case pg_token pg of None \<Rightarrow> Inl (ApiError 401) | Some token \<Rightarrow> Inr (''Bearer '' @ token))"

text \<open>A call to the agent with the session's token.\<close>

definition agent_request :: "string \<Rightarrow> string \<Rightarrow> string option \<Rightarrow> string \<Rightarrow> web_call" where
  "agent_request mthd target body auth =
     \<lparr> wc_api = AgentApi, wc_method = mthd, wc_path = target, wc_authorization = Some auth, wc_body = body \<rparr>"

definition agent_call ::
  "web_world \<Rightarrow> string \<Rightarrow> string \<Rightarrow> string option \<Rightarrow> page \<Rightarrow> (page_error + web_answer option) \<times> page" where
  "agent_call w mthd target body pg =
     (case agentAuth pg of
        Inl e \<Rightarrow> (Inl e, pg)
      | Inr auth \<Rightarrow>
        let (answer, pg) = web_fetch w (agent_request mthd target body auth) pg in (Inr answer, pg))"

definition identity_call :: web_call where
  "identity_call = \<lparr> wc_api = AgentApi, wc_method = ''GET'', wc_path = ''/identity'', wc_authorization = None, wc_body = None \<rparr>"

definition getAgentIdentity :: "web_world \<Rightarrow> page \<Rightarrow> (page_error + jsval) \<times> page" where
  "getAgentIdentity w pg =
     (let (answer, pg) = web_fetch w identity_call pg in (member ''agent'' (api_json answer), pg))"

definition terms_call :: web_call where
  "terms_call = \<lparr> wc_api = ApproverApi, wc_method = ''GET'', wc_path = ''/health'', wc_authorization = None, wc_body = None \<rparr>"

definition getApproverTerms :: "web_world \<Rightarrow> page \<Rightarrow> (page_error + jsval) \<times> page" where
  "getApproverTerms w pg =
     (let (answer, pg) = web_fetch w terms_call pg in (api_json answer, pg))"

definition approve_call :: "string \<Rightarrow> string \<Rightarrow> string \<Rightarrow> string \<Rightarrow> web_call" where
  "approve_call agent approvalCode operation datasetId =
     \<lparr> wc_api = ApproverApi, wc_method = ''POST'', wc_path = ''/approvals'',
       wc_authorization = Some (''Bearer '' @ approvalCode),
       wc_body = Some (json_stringify (JObj [(''agent'', JStr agent), (''operation'', JStr operation), (''datasetId'', JStr datasetId)])) \<rparr>"

definition approve :: "web_world \<Rightarrow> string \<Rightarrow> string \<Rightarrow> string \<Rightarrow> string \<Rightarrow> page \<Rightarrow> (page_error + jsval) \<times> page" where
  "approve w agent approvalCode operation datasetId pg =
     (let (answer, pg) = web_fetch w (approve_call agent approvalCode operation datasetId) pg
      in (member ''permit'' (api_json answer), pg))"

definition permit_body :: "jsval \<Rightarrow> string option" where
  "permit_body permit = Some (json_stringify (JObj [(''permit'', permit)]))"

definition web_installPermit :: "web_world \<Rightarrow> jsval \<Rightarrow> page \<Rightarrow> (page_error + jsval) \<times> page" where
  "web_installPermit w permit pg =
     (case agent_call w ''POST'' ''/permit'' (permit_body permit) pg of
        (Inl e, pg) \<Rightarrow> (Inl e, pg)
      | (Inr answer, pg) \<Rightarrow> (api_json answer, pg))"

text \<open>The refusals (4xx other than 401) are data.\<close>

definition run_result :: "web_world \<Rightarrow> web_answer option \<Rightarrow> page_error + page_run" where
  "run_result w answer =
     (case answer of
        None \<Rightarrow> Inl OtherError
      | Some a \<Rightarrow>
        if wa_status a = 401 \<or> wa_status a \<ge> 500
        then Inl (if nullish (api_body a) then OtherError else ApiError (wa_status a))
        else Inr \<lparr> pr_httpStatus = wa_status a, pr_response = ww_demo w (api_body a) \<rparr>)"

definition runOperation :: "web_world \<Rightarrow> (string \<times> jsval) list \<Rightarrow> page \<Rightarrow> (page_error + page_run) \<times> page" where
  "runOperation w body pg =
     (case agent_call w ''POST'' ''/demo'' (Some (json_stringify (JObj body))) pg of
        (Inl e, pg) \<Rightarrow> (Inl e, pg)
      | (Inr answer, pg) \<Rightarrow> (run_result w answer, pg))"

definition evidence_path :: "string \<Rightarrow> string" where
  "evidence_path invocationId = ''/evidence/'' @ encodeURIComponent invocationId"

definition evidence_result :: "web_answer option \<Rightarrow> page_error + string" where
  "evidence_result answer =
     (case answer of
        None \<Rightarrow> Inl OtherError
      | Some a \<Rightarrow> if \<not> response_ok (wa_status a) then Inl (ApiError (wa_status a)) else Inr (wa_text a))"

definition web_getEvidence :: "web_world \<Rightarrow> string \<Rightarrow> page \<Rightarrow> (page_error + string) \<times> page" where
  "web_getEvidence w invocationId pg =
     (case agent_call w ''GET'' (evidence_path invocationId) None pg of
        (Inl e, pg) \<Rightarrow> (Inl e, pg)
      | (Inr answer, pg) \<Rightarrow> (evidence_result answer, pg))"

definition verify_call :: "string \<Rightarrow> string \<Rightarrow> web_call" where
  "verify_call bundle mode = \<lparr> wc_api = VerifierApi, wc_method = ''POST'', wc_path = ''/verify?mode='' @ mode,
     wc_authorization = None, wc_body = Some bundle \<rparr>"

definition report_result :: "web_world \<Rightarrow> web_answer option \<Rightarrow> page_error + VerificationReport" where
  "report_result w answer = map_sum id (ww_report w) (member ''report'' (api_json answer))"

definition verifyEvidence :: "web_world \<Rightarrow> string \<Rightarrow> string \<Rightarrow> page \<Rightarrow> (page_error + VerificationReport) \<times> page" where
  "verifyEvidence w bundle mode pg =
     (let (answer, pg) = web_fetch w (verify_call bundle mode) pg in (report_result w answer, pg))"

section \<open>Handlers\<close>

definition page_message_of :: "page_error \<Rightarrow> page_message" where
  "page_message_of e = (if e = ApiError 401 then SessionEnded else Message)"

definition start_or_report :: "web_world \<Rightarrow> page \<Rightarrow> page" where
  "start_or_report w pg =
     (case startSession w pg of (Inr _, pg) \<Rightarrow> pg | (Inl _, pg) \<Rightarrow> pg \<lparr> pg_setupError := Some Unreachable \<rparr>)"

text \<open>The effect on loading the page.\<close>

definition on_load :: "web_world \<Rightarrow> page \<Rightarrow> page" where
  "on_load w pg =
     (let pg = start_or_report w pg;
          pg = (case getAgentIdentity w pg of
              (Inr agent, pg) \<Rightarrow> pg \<lparr> pg_agent := Some (jstr agent) \<rparr>
            | (Inl _, pg) \<Rightarrow> pg \<lparr> pg_setupError := Some Unreachable \<rparr>) in
      case getApproverTerms w pg of
        (Inr health, pg) \<Rightarrow> if nullish health then pg \<lparr> pg_setupError := Some Unreachable \<rparr> else pg \<lparr> pg_terms := Some (jget health ''terms'') \<rparr>
      | (Inl _, pg) \<Rightarrow> pg \<lparr> pg_setupError := Some Unreachable \<rparr>)"

definition recoverExpiredSession :: "web_world \<Rightarrow> page_error \<Rightarrow> page \<Rightarrow> page" where
  "recoverExpiredSession w e pg =
     (if e = ApiError 401 then start_or_report w (pg \<lparr> pg_permit := None \<rparr>) else pg)"

definition APPROVED :: "string \<times> string" where
  "APPROVED = (''summarize'', ''dataset-a'')"

definition VIOLATION :: "string \<times> string" where
  "VIOLATION = (''export'', ''dataset-a'')"

definition run_body :: "string \<times> string \<Rightarrow> (string \<times> jsval) list" where
  "run_body x = [(''operation'', JStr (fst x)), (''datasetId'', JStr (snd x))]"

definition onApprove :: "web_world \<Rightarrow> string \<Rightarrow> page \<Rightarrow> bool \<times> page" where
  "onApprove w approvalCode pg =
     (case pg_agent pg of
        None \<Rightarrow> (False, pg)
      | Some agent \<Rightarrow>
        let pg = pg \<lparr> pg_approving := True, pg_approvalError := None \<rparr>;
            failed = (\<lambda>e pg. (False, (recoverExpiredSession w e (pg \<lparr> pg_approvalError := Some (page_message_of e) \<rparr>)) \<lparr> pg_approving := False \<rparr>)) in
        case approve w agent approvalCode (fst APPROVED) (snd APPROVED) pg of
          (Inl e, pg) \<Rightarrow> failed e pg
        | (Inr issued, pg) \<Rightarrow>
          (case web_installPermit w issued pg of
             (Inl e, pg) \<Rightarrow> failed e pg
           | (Inr _, pg) \<Rightarrow>
             (True, pg \<lparr> pg_permit := Some issued, pg_runs := (\<lambda>_. None), pg_latest := None, pg_bundle := None,
                pg_report := None, pg_approving := False \<rparr>)))"

definition on_verify :: "web_world \<Rightarrow> string \<Rightarrow> string \<Rightarrow> page \<Rightarrow> page" where
  "on_verify w bundleText mode pg =
     (let pg = pg \<lparr> pg_verifying := Some mode, pg_evidenceError := None \<rparr> in
      case verifyEvidence w bundleText mode pg of
        (Inr report, pg) \<Rightarrow> pg \<lparr> pg_report := Some report, pg_verifying := None \<rparr>
      | (Inl e, pg) \<Rightarrow> pg \<lparr> pg_evidenceError := Some (page_message_of e), pg_verifying := None \<rparr>)"

text \<open>The invocation whose evidence is fetched: a completed purchase of the approved operation.\<close>

definition completed_purchase :: "run_kind \<Rightarrow> DemoResponse \<Rightarrow> string option" where
  "completed_purchase kind response =
     (case (dr_authorization response, dr_invocationId response) of
        (Some a, Some x) \<Rightarrow>
          if kind = AllowRun \<and> va_decision a = ALLOW \<and> shown (Option.bind (va_payment a) vp_transactionId) \<and> x \<noteq> []
          then Some x else None
      | _ \<Rightarrow> None)"

definition fetch_evidence :: "web_world \<Rightarrow> string \<Rightarrow> page \<Rightarrow> page" where
  "fetch_evidence w invocationId pg =
     (let pg = pg \<lparr> pg_bundle := None, pg_report := None \<rparr> in
      case web_getEvidence w invocationId pg of
        (Inl e, pg) \<Rightarrow> pg \<lparr> pg_evidenceError := Some (page_message_of e) \<rparr>
      | (Inr exported, pg) \<Rightarrow> on_verify w exported ''offline'' (pg \<lparr> pg_bundle := Some exported \<rparr>))"

definition onRun :: "web_world \<Rightarrow> run_kind \<Rightarrow> page \<Rightarrow> page" where
  "onRun w kind pg =
     (let pg = pg \<lparr> pg_running := Some kind, pg_runError := None \<rparr> in
      case runOperation w (run_body (if kind = AllowRun then APPROVED else VIOLATION)) pg of
        (Inl e, pg) \<Rightarrow> (recoverExpiredSession w e (pg \<lparr> pg_runError := Some (page_message_of e) \<rparr>)) \<lparr> pg_running := None \<rparr>
      | (Inr run, pg) \<Rightarrow>
        let pg = pg \<lparr> pg_runs := (pg_runs pg)(kind := Some run), pg_latest := Some kind \<rparr> in
        (case completed_purchase kind (pr_response run) of
           None \<Rightarrow> pg \<lparr> pg_running := None \<rparr>
         | Some invocationId \<Rightarrow> (fetch_evidence w invocationId pg) \<lparr> pg_running := None \<rparr>))"

definition onExtra :: "web_world \<Rightarrow> string \<Rightarrow> (string \<times> jsval) list \<Rightarrow> page \<Rightarrow> page" where
  "onExtra w label body pg =
     (case runOperation w body pg of
        (Inl e, pg) \<Rightarrow> pg \<lparr> pg_runError := Some (page_message_of e) \<rparr>
      | (Inr run, pg) \<Rightarrow> pg \<lparr> pg_extraRuns := take 6 ((label, run) # pg_extraRuns pg) \<rparr>)"

definition onVerify :: "web_world \<Rightarrow> string \<Rightarrow> page \<Rightarrow> page" where
  "onVerify w mode pg = (case pg_bundle pg of None \<Rightarrow> pg | Some bundle \<Rightarrow> on_verify w bundle mode pg)"

text \<open>What is shown of the latest run.\<close>

definition shown_timeline :: "page \<Rightarrow> TimelineStep list option" where
  "shown_timeline pg =
     (case pg_latest pg of
        None \<Rightarrow> None
      | Some latest \<Rightarrow>
        map_option (\<lambda>run. buildTimeline (pr_response run) (latest = AllowRun \<and> pg_bundle pg \<noteq> None)
          (if latest = AllowRun then pg_report pg else None)) (pg_runs pg latest))"

end
