(* ===== verification/Web_Interleaving.thy ===== *)
theory Web_Interleaving
  imports Web_App
begin

text \<open>
  The page as it runs: the handlers of App.tsx are async, and while one waits for an answer the user may press another
  button and any other handler may go on.  A \<open>browser\<close> is the page with the calls that wait for their answer; a step is
  an action of the user, which runs a handler up to its first call, or the answer to any of the waiting calls, which runs
  the handler that waits for it up to its next call.  The calls of the load (session, identity, terms) wait together.
  A handler reads the state of the page when it starts; only \<open>sessionToken\<close> and what \<open>setRuns\<close> and \<open>setExtraRuns\<close> update
  are read when they are used, as in the code.
\<close>

section \<open>Who waits for an answer\<close>

datatype after = AfterApproval | AfterRun

datatype waiter =
    SessionAnswer
  | IdentityAnswer
  | TermsAnswer
  | PermitAnswer
  | InstallAnswer jsval
  | RunAnswer run_kind
  | EvidenceAnswer
  | ReportAnswer bool
  | ExtraAnswer string
  | RecoveryAnswer after

text \<open>\<open>ReportAnswer True\<close> is the verification inside a run.  A waiting call is named by its position in \<open>pg_sent\<close>.\<close>

record browser =
  br_page :: page
  br_pending :: "(nat \<times> waiter) list"

definition send :: "waiter \<Rightarrow> web_call \<Rightarrow> browser \<Rightarrow> browser" where
  "send t call b = \<lparr> br_page = (br_page b) \<lparr> pg_sent := pg_sent (br_page b) @ [call] \<rparr>,
     br_pending = br_pending b @ [(length (pg_sent (br_page b)), t)] \<rparr>"

definition set_page :: "(page \<Rightarrow> page) \<Rightarrow> browser \<Rightarrow> browser" where
  "set_page f b = b \<lparr> br_page := f (br_page b) \<rparr>"

text \<open>A call with the session's token, or the error of \<open>agentAuth\<close>.\<close>

definition agent_send :: "waiter \<Rightarrow> string \<Rightarrow> string \<Rightarrow> string option \<Rightarrow> (page_error \<Rightarrow> browser \<Rightarrow> browser) \<Rightarrow> browser \<Rightarrow> browser" where
  "agent_send t mthd target body failed b =
     (case agentAuth (br_page b) of
        Inl e \<Rightarrow> failed e b
      | Inr auth \<Rightarrow> send t (agent_request mthd target body auth) b)"

section \<open>The pieces of the handlers\<close>

definition finished :: "after \<Rightarrow> page \<Rightarrow> page" where
  "finished a pg = (case a of AfterApproval \<Rightarrow> pg \<lparr> pg_approving := False \<rparr> | AfterRun \<Rightarrow> pg \<lparr> pg_running := None \<rparr>)"

definition recover_then :: "after \<Rightarrow> page_error \<Rightarrow> browser \<Rightarrow> browser" where
  "recover_then a e b =
     (if e = ApiError 401 then send (RecoveryAnswer a) session_call (set_page (\<lambda>pg. pg \<lparr> pg_permit := None \<rparr>) b)
      else set_page (finished a) b)"

definition approval_failed :: "page_error \<Rightarrow> browser \<Rightarrow> browser" where
  "approval_failed e b = recover_then AfterApproval e (set_page (\<lambda>pg. pg \<lparr> pg_approvalError := Some (page_message_of e) \<rparr>) b)"

definition run_failed :: "page_error \<Rightarrow> browser \<Rightarrow> browser" where
  "run_failed e b = recover_then AfterRun e (set_page (\<lambda>pg. pg \<lparr> pg_runError := Some (page_message_of e) \<rparr>) b)"

definition extra_failed :: "page_error \<Rightarrow> browser \<Rightarrow> browser" where
  "extra_failed e b = set_page (\<lambda>pg. pg \<lparr> pg_runError := Some (page_message_of e) \<rparr>) b"

definition fetch_failed :: "page_error \<Rightarrow> browser \<Rightarrow> browser" where
  "fetch_failed e b = set_page (\<lambda>pg. pg \<lparr> pg_evidenceError := Some (page_message_of e), pg_running := None \<rparr>) b"

definition send_verify :: "bool \<Rightarrow> string \<Rightarrow> string \<Rightarrow> browser \<Rightarrow> browser" where
  "send_verify in_run bundleText mode b =
     send (ReportAnswer in_run) (verify_call bundleText mode)
       (set_page (\<lambda>pg. pg \<lparr> pg_verifying := Some mode, pg_evidenceError := None \<rparr>) b)"

text \<open>What the user does.\<close>

datatype page_action =
    Approve string
  | Run run_kind
  | Extra string "(string \<times> jsval) list"
  | Verify string

definition start_action :: "page_action \<Rightarrow> browser \<Rightarrow> browser" where
  "start_action a b =
     (case a of
        Approve approvalCode \<Rightarrow>
          (case pg_agent (br_page b) of
             None \<Rightarrow> b
           | Some agent \<Rightarrow> send PermitAnswer (approve_call agent approvalCode (fst APPROVED) (snd APPROVED))
               (set_page (\<lambda>pg. pg \<lparr> pg_approving := True, pg_approvalError := None \<rparr>) b))
      | Run kind \<Rightarrow>
          agent_send (RunAnswer kind) ''POST'' ''/demo''
            (Some (json_stringify (JObj (run_body (if kind = AllowRun then APPROVED else VIOLATION))))) run_failed
            (set_page (\<lambda>pg. pg \<lparr> pg_running := Some kind, pg_runError := None \<rparr>) b)
      | Extra label body \<Rightarrow>
          agent_send (ExtraAnswer label) ''POST'' ''/demo'' (Some (json_stringify (JObj body))) extra_failed b
      | Verify mode \<Rightarrow>
          (case pg_bundle (br_page b) of None \<Rightarrow> b | Some bundle \<Rightarrow> send_verify False bundle mode b))"

text \<open>What an answer does, for the handler that waits for it.\<close>

definition session_answered :: "web_answer option \<Rightarrow> page \<Rightarrow> page" where
  "session_answered answer pg =
     (case session_result answer of
        Inl _ \<Rightarrow> pg \<lparr> pg_setupError := Some Unreachable \<rparr>
      | Inr token \<Rightarrow> pg \<lparr> pg_token := Some token \<rparr>)"

definition report_answered :: "web_world \<Rightarrow> bool \<Rightarrow> web_answer option \<Rightarrow> page \<Rightarrow> page" where
  "report_answered w in_run answer pg =
     (let pg = (case report_result w answer of
            Inr report \<Rightarrow> pg \<lparr> pg_report := Some report, pg_verifying := None \<rparr>
          | Inl e \<Rightarrow> pg \<lparr> pg_evidenceError := Some (page_message_of e), pg_verifying := None \<rparr>)
      in if in_run then pg \<lparr> pg_running := None \<rparr> else pg)"

definition run_answered :: "run_kind \<Rightarrow> page_run \<Rightarrow> browser \<Rightarrow> browser" where
  "run_answered kind run b =
     (let b = set_page (\<lambda>pg. pg \<lparr> pg_runs := (pg_runs pg)(kind := Some run), pg_latest := Some kind \<rparr>) b in
      case completed_purchase kind (pr_response run) of
        None \<Rightarrow> set_page (\<lambda>pg. pg \<lparr> pg_running := None \<rparr>) b
      | Some invocationId \<Rightarrow>
          agent_send EvidenceAnswer ''GET'' (evidence_path invocationId) None fetch_failed
            (set_page (\<lambda>pg. pg \<lparr> pg_bundle := None, pg_report := None \<rparr>) b))"

definition resume :: "web_world \<Rightarrow> waiter \<Rightarrow> web_answer option \<Rightarrow> browser \<Rightarrow> browser" where
  "resume w t answer b =
     (case t of
        SessionAnswer \<Rightarrow> set_page (session_answered answer) b
      | IdentityAnswer \<Rightarrow>
          set_page (\<lambda>pg. case member ''agent'' (api_json answer) of
              Inr agent \<Rightarrow> pg \<lparr> pg_agent := Some (jstr agent) \<rparr>
            | Inl _ \<Rightarrow> pg \<lparr> pg_setupError := Some Unreachable \<rparr>) b
      | TermsAnswer \<Rightarrow>
          set_page (\<lambda>pg. case api_json answer of
              Inr health \<Rightarrow> if nullish health then pg \<lparr> pg_setupError := Some Unreachable \<rparr> else pg \<lparr> pg_terms := Some (jget health ''terms'') \<rparr>
            | Inl _ \<Rightarrow> pg \<lparr> pg_setupError := Some Unreachable \<rparr>) b
      | PermitAnswer \<Rightarrow>
          (case member ''permit'' (api_json answer) of
             Inl e \<Rightarrow> approval_failed e b
           | Inr issued \<Rightarrow> agent_send (InstallAnswer issued) ''POST'' ''/permit'' (permit_body issued) approval_failed b)
      | InstallAnswer issued \<Rightarrow>
          (case api_json answer of
             Inl e \<Rightarrow> approval_failed e b
           | Inr _ \<Rightarrow> set_page (\<lambda>pg. pg \<lparr> pg_permit := Some issued, pg_runs := (\<lambda>_. None), pg_latest := None, pg_bundle := None,
                pg_report := None, pg_approving := False \<rparr>) b)
      | RunAnswer kind \<Rightarrow>
          (case run_result w answer of Inl e \<Rightarrow> run_failed e b | Inr run \<Rightarrow> run_answered kind run b)
      | EvidenceAnswer \<Rightarrow>
          (case evidence_result answer of
             Inl e \<Rightarrow> fetch_failed e b
           | Inr exported \<Rightarrow> send_verify True exported ''offline'' (set_page (\<lambda>pg. pg \<lparr> pg_bundle := Some exported \<rparr>) b))
      | ReportAnswer in_run \<Rightarrow> set_page (report_answered w in_run answer) b
      | ExtraAnswer label \<Rightarrow>
          (case run_result w answer of
             Inl e \<Rightarrow> extra_failed e b
           | Inr run \<Rightarrow> set_page (\<lambda>pg. pg \<lparr> pg_extraRuns := take 6 ((label, run) # pg_extraRuns pg) \<rparr>) b)
      | RecoveryAnswer a \<Rightarrow> set_page (finished a \<circ> session_answered answer) b)"

definition take_answer :: "web_world \<Rightarrow> nat \<times> waiter \<Rightarrow> browser \<Rightarrow> browser" where
  "take_answer w x b =
     resume w (snd x) (ww_fetch w (fst x) (pg_sent (br_page b) ! fst x)) (b \<lparr> br_pending := remove1 x (br_pending b) \<rparr>)"

section \<open>Steps\<close>

definition loading :: browser where
  "loading = send TermsAnswer terms_call (send IdentityAnswer identity_call (send SessionAnswer session_call
     \<lparr> br_page = initial_page, br_pending = [] \<rparr>))"

text \<open>The requests of the buttons among the technical details.\<close>

definition extra_bodies :: "(string \<times> jsval) list list" where
  "extra_bodies = run_body (''summarize'', ''dataset-b'')
     # map (\<lambda>s. run_body APPROVED @ [(''scenario'', JStr s)]) [''overcharge'', ''wrong-recipient'', ''wrong-asset'']"

definition possible :: "string set \<Rightarrow> page_action \<Rightarrow> bool" where
  "possible codes a \<longleftrightarrow>
     (case a of
        Approve approvalCode \<Rightarrow> approvalCode \<in> codes
      | Run kind \<Rightarrow> True
      | Extra label body \<Rightarrow> body \<in> set extra_bodies
      | Verify mode \<Rightarrow> mode \<in> {''offline'', ''online''})"

text \<open>\<open>codes\<close> are the approval codes the user types.  An action is possible at any moment: a click may reach its handler
  before a change of the state has been drawn, so the buttons' \<open>disabled\<close> is not relied on.\<close>

inductive browser_step :: "web_world \<Rightarrow> string set \<Rightarrow> browser \<Rightarrow> browser \<Rightarrow> bool" for w codes where
  act: "possible codes a \<Longrightarrow> browser_step w codes b (start_action a b)"
| answer: "x \<in> set (br_pending b) \<Longrightarrow> browser_step w codes b (take_answer w x b)"

abbreviation browser_steps :: "web_world \<Rightarrow> string set \<Rightarrow> browser \<Rightarrow> browser \<Rightarrow> bool" where
  "browser_steps w codes \<equiv> (browser_step w codes)\<^sup>*\<^sup>*"

text \<open>Whether the page offers an action: ApprovalCard, ActionCards, EvidencePanel and the buttons of the details.\<close>

definition offered :: "page \<Rightarrow> page_action \<Rightarrow> bool" where
  "offered pg a \<longleftrightarrow>
     (case a of
        Approve approvalCode \<Rightarrow> pg_permit pg = None \<and> \<not> pg_approving pg \<and> trim approvalCode \<noteq> [] \<and> pg_agent pg \<noteq> None
      | Run kind \<Rightarrow> pg_permit pg \<noteq> None \<and> pg_running pg = None
      | Extra label body \<Rightarrow> pg_permit pg \<noteq> None
      | Verify mode \<Rightarrow> pg_bundle pg \<noteq> None \<and> pg_verifying pg = None)"

section \<open>A handler left alone\<close>

text \<open>Every waiting call has been sent.\<close>

definition awaits_sent :: "browser \<Rightarrow> bool" where
  "awaits_sent b \<longleftrightarrow> (\<forall>x \<in> set (br_pending b). fst x < length (pg_sent (br_page b)))"

declare awaits_sent_def [simp]

definition on_page :: "page \<Rightarrow> browser \<Rightarrow> browser" where
  "on_page pg b = \<lparr> br_page = pg, br_pending = br_pending b \<rparr>"

lemma on_page [simp]:
  "br_page (on_page pg b) = pg" "br_pending (on_page pg b) = br_pending b" "on_page pg (on_page pg' b) = on_page pg b"
  "on_page (br_page b) b = b"
  by (simp_all add: on_page_def)

lemma set_page_on: "set_page f b = on_page (f (br_page b)) b"
  by (simp add: set_page_def on_page_def)

text \<open>Taking the answer to the call sent last.\<close>

lemma answered_at_once:
  assumes "awaits_sent b"
    and "browser_steps w codes (resume w t (fst (web_fetch w call (br_page b))) (on_page (snd (web_fetch w call (br_page b))) b)) c"
  shows "browser_steps w codes (send t call b) c"
proof -
  let ?x = "(length (pg_sent (br_page b)), t)"
  have "?x \<notin> set (br_pending b)" using assms(1) by (auto simp: awaits_sent_def)
  then have "take_answer w ?x (send t call b) = resume w t (fst (web_fetch w call (br_page b))) (on_page (snd (web_fetch w call (br_page b))) b)"
    by (simp add: take_answer_def send_def remove1_append web_fetch_def on_page_def)
  moreover have "browser_step w codes (send t call b) (take_answer w ?x (send t call b))"
    by (rule browser_step.answer) (simp add: send_def)
  ultimately show ?thesis using assms(2) by (metis converse_rtranclp_into_rtranclp)
qed

lemma settled: "c = c' \<Longrightarrow> browser_steps w codes c c'" by simp

lemma verify_alone:
  assumes "awaits_sent b"
  shows "browser_steps w codes (send_verify in_run bundleText mode b)
    (on_page ((if in_run then finished AfterRun else id) (on_verify w bundleText mode (br_page b))) b)"
  unfolding send_verify_def set_page_on
  by (rule answered_at_once)
    (use assms in \<open>auto simp: resume_def set_page_on report_answered_def on_verify_def verifyEvidence_def finished_def web_fetch_def
      intro!: settled arg_cong2 [where f = on_page] split: sum.split\<close>)

lemma recover_alone:
  assumes "awaits_sent b"
  shows "browser_steps w codes (recover_then a e b) (on_page (finished a (recoverExpiredSession w e (br_page b))) b)"
proof (cases "e = ApiError 401")
  case True
  then show ?thesis unfolding recover_then_def set_page_on
    by (simp, intro answered_at_once)
      (use assms in \<open>auto simp: resume_def set_page_on session_answered_def recoverExpiredSession_def start_or_report_def startSession_def web_fetch_def
        intro!: settled split: sum.split\<close>)
qed (simp add: recover_then_def set_page_on recoverExpiredSession_def)

lemma run_failed_alone:
  "awaits_sent b \<Longrightarrow> browser_steps w codes (run_failed e b)
     (on_page ((recoverExpiredSession w e ((br_page b) \<lparr> pg_runError := Some (page_message_of e) \<rparr>)) \<lparr> pg_running := None \<rparr>) b)"
  using recover_alone [of "set_page (\<lambda>pg. pg \<lparr> pg_runError := Some (page_message_of e) \<rparr>) b" w codes AfterRun e]
  by (simp add: run_failed_def set_page_on finished_def)

lemma approval_failed_alone:
  "awaits_sent b \<Longrightarrow> browser_steps w codes (approval_failed e b)
     (on_page ((recoverExpiredSession w e ((br_page b) \<lparr> pg_approvalError := Some (page_message_of e) \<rparr>)) \<lparr> pg_approving := False \<rparr>) b)"
  using recover_alone [of "set_page (\<lambda>pg. pg \<lparr> pg_approvalError := Some (page_message_of e) \<rparr>) b" w codes AfterApproval e]
  by (simp add: approval_failed_def set_page_on finished_def)

text \<open>A call with the token, in the two models.\<close>

lemma agent_send_alone:
  assumes "awaits_sent b" "agent_call w mthd target body (br_page b) = (r, pg)"
    and "\<And>e. r = Inl e \<Longrightarrow> pg = br_page b \<Longrightarrow> browser_steps w codes (failed e b) c"
    and "\<And>answer. r = Inr answer \<Longrightarrow> awaits_sent (on_page pg b) \<Longrightarrow> browser_steps w codes (resume w t answer (on_page pg b)) c"
  shows "browser_steps w codes (agent_send t mthd target body failed b) c"
proof (cases "agentAuth (br_page b)")
  case (Inl e)
  then show ?thesis using assms(2,3) by (simp add: agent_send_def agent_call_def)
next
  case (Inr auth)
  then have "r = Inr (fst (web_fetch w (agent_request mthd target body auth) (br_page b)))"
      "pg = snd (web_fetch w (agent_request mthd target body auth) (br_page b))"
    using assms(2) by (simp_all add: agent_call_def case_prod_beta)
  then show ?thesis using assms(4) Inr assms(1)
    by (auto simp: agent_send_def web_fetch_def less_SucI intro!: answered_at_once)
qed

lemma fetch_alone:
  assumes "awaits_sent b"
  shows "browser_steps w codes
    (agent_send EvidenceAnswer ''GET'' (evidence_path x) None fetch_failed
       (set_page (\<lambda>pg. pg \<lparr> pg_bundle := None, pg_report := None \<rparr>) b))
    (on_page ((fetch_evidence w x (br_page b)) \<lparr> pg_running := None \<rparr>) b)"
proof -
  let ?b = "set_page (\<lambda>pg. pg \<lparr> pg_bundle := None, pg_report := None \<rparr>) b"
  obtain r pg where c: "agent_call w ''GET'' (evidence_path x) None (br_page ?b) = (r, pg)" by fastforce
  have aw: "awaits_sent ?b" using assms by (simp add: set_page_on)
  show ?thesis
  proof (rule agent_send_alone [OF aw c])
    fix e assume "r = Inl e"
    then show "browser_steps w codes (fetch_failed e ?b) (on_page ((fetch_evidence w x (br_page b)) \<lparr> pg_running := None \<rparr>) b)" if "pg = br_page ?b"
      using c that by (intro settled) (simp add: fetch_failed_def set_page_on fetch_evidence_def web_getEvidence_def)
  next
    fix answer assume r: "r = Inr answer" and aw: "awaits_sent (on_page pg ?b)"
    show "browser_steps w codes (resume w EvidenceAnswer answer (on_page pg ?b)) (on_page ((fetch_evidence w x (br_page b)) \<lparr> pg_running := None \<rparr>) b)"
    proof (cases "evidence_result answer")
      case (Inl e)
      then show ?thesis using c r
        by (intro settled) (simp add: resume_def fetch_failed_def set_page_on fetch_evidence_def web_getEvidence_def)
    next
      case (Inr exported)
      then show ?thesis using c r aw verify_alone [of "set_page (\<lambda>pg. pg \<lparr> pg_bundle := Some exported \<rparr>) (on_page pg ?b)" w codes True exported "''offline''"]
        by (simp add: resume_def set_page_on fetch_evidence_def web_getEvidence_def finished_def)
    qed
  qed
qed


text \<open>The handlers on the page alone, as one function of the action.\<close>

definition handled :: "web_world \<Rightarrow> page_action \<Rightarrow> page \<Rightarrow> page" where
  "handled w a pg =
     (case a of
        Approve approvalCode \<Rightarrow> snd (onApprove w approvalCode pg)
      | Run kind \<Rightarrow> onRun w kind pg
      | Extra label body \<Rightarrow> onExtra w label body pg
      | Verify mode \<Rightarrow> onVerify w mode pg)"

lemma run_answered_alone:
  assumes "awaits_sent b"
  shows "browser_steps w codes (run_answered kind run b)
    (on_page (let pg = (br_page b) \<lparr> pg_runs := (pg_runs (br_page b))(kind := Some run), pg_latest := Some kind \<rparr> in
       case completed_purchase kind (pr_response run) of
         None \<Rightarrow> pg \<lparr> pg_running := None \<rparr>
       | Some x \<Rightarrow> (fetch_evidence w x pg) \<lparr> pg_running := None \<rparr>) b)"
proof (cases "completed_purchase kind (pr_response run)")
  case None
  then show ?thesis by (simp add: run_answered_def set_page_on)
next
  case (Some x)
  let ?b = "set_page (\<lambda>pg. pg \<lparr> pg_runs := (pg_runs pg)(kind := Some run), pg_latest := Some kind \<rparr>) b"
  have "awaits_sent ?b" using assms by (simp add: set_page_on)
  from fetch_alone [OF this, of w codes x] Some show ?thesis by (simp add: run_answered_def set_page_on Let_def)
qed

lemma run_alone:
  assumes "awaits_sent b"
  shows "browser_steps w codes (start_action (Run kind) b) (on_page (onRun w kind (br_page b)) b)"
proof -
  let ?b = "set_page (\<lambda>pg. pg \<lparr> pg_running := Some kind, pg_runError := None \<rparr>) b"
  let ?body = "Some (json_stringify (JObj (run_body (if kind = AllowRun then APPROVED else VIOLATION))))"
  obtain r pg where c: "agent_call w ''POST'' ''/demo'' ?body (br_page ?b) = (r, pg)" by fastforce
  have aw: "awaits_sent ?b" using assms by (simp add: set_page_on)
  have "browser_steps w codes (agent_send (RunAnswer kind) ''POST'' ''/demo'' ?body run_failed ?b) (on_page (onRun w kind (br_page b)) b)"
  proof (rule agent_send_alone [OF aw c])
    fix e assume "r = Inl e" "pg = br_page ?b"
    then show "browser_steps w codes (run_failed e ?b) (on_page (onRun w kind (br_page b)) b)"
      using c run_failed_alone [OF aw, of w codes e] by (simp add: onRun_def runOperation_def set_page_on)
  next
    fix answer assume r: "r = Inr answer" and aw: "awaits_sent (on_page pg ?b)"
    show "browser_steps w codes (resume w (RunAnswer kind) answer (on_page pg ?b)) (on_page (onRun w kind (br_page b)) b)"
      using c r run_failed_alone [OF aw, of w codes] run_answered_alone [OF aw, of w codes kind]
      by (cases "run_result w answer") (simp_all add: resume_def onRun_def runOperation_def set_page_on)
  qed
  then show ?thesis by (simp add: start_action_def)
qed

lemma extra_alone:
  assumes "awaits_sent b"
  shows "browser_steps w codes (start_action (Extra label body) b) (on_page (onExtra w label body (br_page b)) b)"
proof -
  obtain r pg where c: "agent_call w ''POST'' ''/demo'' (Some (json_stringify (JObj body))) (br_page b) = (r, pg)" by fastforce
  have "browser_steps w codes (agent_send (ExtraAnswer label) ''POST'' ''/demo'' (Some (json_stringify (JObj body))) extra_failed b)
      (on_page (onExtra w label body (br_page b)) b)"
    by (rule agent_send_alone [OF assms c])
      (use c in \<open>auto simp: extra_failed_def onExtra_def runOperation_def set_page_on resume_def split: sum.split\<close>)
  then show ?thesis by (simp add: start_action_def)
qed

lemma install_alone:
  assumes "awaits_sent b"
  shows "browser_steps w codes (agent_send (InstallAnswer issued) ''POST'' ''/permit'' (permit_body issued) approval_failed b)
    (on_page (case web_installPermit w issued (br_page b) of
        (Inl e, pg) \<Rightarrow> (recoverExpiredSession w e (pg \<lparr> pg_approvalError := Some (page_message_of e) \<rparr>)) \<lparr> pg_approving := False \<rparr>
      | (Inr _, pg) \<Rightarrow> pg \<lparr> pg_permit := Some issued, pg_runs := (\<lambda>_. None), pg_latest := None, pg_bundle := None,
                pg_report := None, pg_approving := False \<rparr>) b)" (is "browser_steps _ _ _ (on_page ?fin b)")
proof -
  obtain r pg where c: "agent_call w ''POST'' ''/permit'' (permit_body issued) (br_page b) = (r, pg)" by fastforce
  show ?thesis
  proof (rule agent_send_alone [OF assms c])
    fix e assume "r = Inl e" "pg = br_page b"
    then show "browser_steps w codes (approval_failed e b) (on_page ?fin b)"
      using c approval_failed_alone [OF assms, of w codes e] by (simp add: web_installPermit_def)
  next
    fix answer assume r: "r = Inr answer" and aw: "awaits_sent (on_page pg b)"
    show "browser_steps w codes (resume w (InstallAnswer issued) answer (on_page pg b)) (on_page ?fin b)"
      using c r approval_failed_alone [OF aw, of w codes]
      by (cases "api_json answer") (simp_all add: resume_def web_installPermit_def set_page_on)
  qed
qed

lemma approve_alone:
  assumes "awaits_sent b"
  shows "browser_steps w codes (start_action (Approve approvalCode) b) (on_page (snd (onApprove w approvalCode (br_page b))) b)"
proof (cases "pg_agent (br_page b)")
  case (Some agent)
  let ?b = "set_page (\<lambda>pg. pg \<lparr> pg_approving := True, pg_approvalError := None \<rparr>) b"
  let ?call = "approve_call agent approvalCode (fst APPROVED) (snd APPROVED)"
  obtain answer pg where f: "web_fetch w ?call (br_page ?b) = (answer, pg)" by fastforce
  have aw: "awaits_sent ?b" using assms by (simp add: set_page_on)
  have aw': "awaits_sent (on_page pg b)" using assms f by (auto simp: web_fetch_def set_page_on)
  have "browser_steps w codes (send PermitAnswer ?call ?b) (on_page (snd (onApprove w approvalCode (br_page b))) b)"
  proof (rule answered_at_once [OF aw], unfold f, cases "member ''permit'' (api_json answer)")
    case (Inl e)
    then show "browser_steps w codes (resume w PermitAnswer (fst (answer, pg)) (on_page (snd (answer, pg)) ?b))
        (on_page (snd (onApprove w approvalCode (br_page b))) b)"
      using f Some approval_failed_alone [OF aw', of w codes e] by (simp add: resume_def onApprove_def approve_def set_page_on)
  next
    case (Inr issued)
    then show "browser_steps w codes (resume w PermitAnswer (fst (answer, pg)) (on_page (snd (answer, pg)) ?b))
        (on_page (snd (onApprove w approvalCode (br_page b))) b)"
      using f Some install_alone [OF aw', of w codes issued]
      by (cases "web_installPermit w issued pg"; cases "fst (web_installPermit w issued pg)")
        (simp_all add: resume_def onApprove_def approve_def set_page_on)
  qed
  then show ?thesis using Some by (simp add: start_action_def)
qed (simp add: start_action_def onApprove_def)

lemma handler_alone:
  assumes "awaits_sent b" "possible codes a"
  shows "browser_steps w codes b (on_page (handled w a (br_page b)) b)"
proof -
  have "browser_steps w codes (start_action a b) (on_page (handled w a (br_page b)) b)"
  proof (cases a)
    case (Verify mode)
    then show ?thesis using verify_alone [OF assms(1), of w codes False _ mode]
      by (simp add: start_action_def handled_def onVerify_def split: option.split)
  qed (simp_all add: handled_def approve_alone run_alone extra_alone assms(1) del: awaits_sent_def)
  then show ?thesis using browser_step.act [OF assms(2)] by (metis converse_rtranclp_into_rtranclp)
qed

lemma load_alone: "browser_steps w codes loading \<lparr> br_page = on_load w initial_page, br_pending = [] \<rparr>"
proof -
  let ?sent = "initial_page \<lparr> pg_sent := [session_call, identity_call, terms_call] \<rparr>"
  define b1 where "b1 = take_answer w (0, SessionAnswer) loading"
  define b2 where "b2 = take_answer w (1, IdentityAnswer) b1"
  define b3 where "b3 = take_answer w (2, TermsAnswer) b2"
  have l: "loading = \<lparr> br_page = ?sent, br_pending = [(0, SessionAnswer), (1, IdentityAnswer), (2, TermsAnswer)] \<rparr>"
    by (simp add: loading_def send_def initial_page_def)
  have p1: "b1 = \<lparr> br_page = session_answered (ww_fetch w 0 session_call) ?sent, br_pending = [(1, IdentityAnswer), (2, TermsAnswer)] \<rparr>"
    by (simp add: b1_def take_answer_def l resume_def set_page_def)
  have p2: "br_pending b2 = [(2, TermsAnswer)]" by (simp add: b2_def take_answer_def p1 resume_def set_page_def)
  have s1: "browser_step w codes loading b1" unfolding b1_def by (rule browser_step.answer) (simp add: l)
  have s2: "browser_step w codes b1 b2" unfolding b2_def by (rule browser_step.answer) (simp add: p1)
  have s3: "browser_step w codes b2 b3" unfolding b3_def by (rule browser_step.answer) (simp add: p2)
  have "b3 = \<lparr> br_page = on_load w initial_page, br_pending = [] \<rparr>"
    unfolding b3_def b2_def p1
    by (cases "session_result (ww_fetch w 0 session_call)"; cases "member ''agent'' (api_json (ww_fetch w 1 identity_call))";
        cases "api_json (ww_fetch w 2 terms_call)")
      (simp_all add: take_answer_def resume_def set_page_def session_answered_def on_load_def start_or_report_def startSession_def
        getAgentIdentity_def getApproverTerms_def web_fetch_def initial_page_def Let_def numeral_2_eq_2)
  then show ?thesis using s1 s2 s3 by (auto intro: rtranclp.rtrancl_into_rtrancl)
qed

section \<open>A visit as a list of moves\<close>

text \<open>Actions the page offers, and answers by their position among the waiting calls.\<close>

datatype move = Act page_action | AnswerTo nat

fun run_moves :: "web_world \<Rightarrow> string list \<Rightarrow> move list \<Rightarrow> browser \<Rightarrow> browser option" where
  "run_moves w codes [] b = Some b"
| "run_moves w codes (Act a # ms) b =
     (if offered (br_page b) a \<and> possible (set codes) a then run_moves w codes ms (start_action a b) else None)"
| "run_moves w codes (AnswerTo k # ms) b =
     (if k < length (br_pending b) then run_moves w codes ms (take_answer w (br_pending b ! k) b) else None)"

lemma moves_are_steps: "run_moves w codes ms b = Some b' \<Longrightarrow> browser_steps w (set codes) b b'"
proof (induction w codes ms b rule: run_moves.induct)
  case (2 w codes a ms b)
  then show ?case using browser_step.act [of "set codes" a w b] by (auto intro: converse_rtranclp_into_rtranclp split: if_splits)
next
  case (3 w codes k ms b)
  then show ?case using browser_step.answer [of "br_pending b ! k" b w "set codes"]
    by (auto intro: converse_rtranclp_into_rtranclp split: if_splits)
qed simp

end
