(* ===== verification/Web_Properties.thy ===== *)
theory Web_Properties
  imports Web_Model "HOL-Library.Multiset"
begin

text \<open>
  What the page shows is what the backend said: amounts read back as the number they format, the steps of the timeline
  rest on their data, and every claim of the verifier is shown.
\<close>

section \<open>Units\<close>

lemma length_concat_threes: "\<forall>g \<in> set gs. length g = 3 \<Longrightarrow> length (concat gs) = 3 * length gs"
  by (induction gs) simp_all

text \<open>The groups between the commas: three digits each, and one to three in the first.\<close>

lemma group_thousands_groups:
  "s \<noteq> [] \<Longrightarrow> \<exists>first groups. group_thousands s = join_with '','' (first # groups) \<and> concat (first # groups) = s
     \<and> first \<noteq> [] \<and> length first \<le> 3 \<and> (\<forall>g \<in> set groups. length g = 3)"
proof (induction s)
  case (Cons c cs)
  show ?case
  proof (cases "cs = []")
    case True
    then show ?thesis by (intro exI [of _ "[c]"] exI [of _ "[]"]) simp
  next
    case False
    then obtain first groups where g: "group_thousands cs = join_with '','' (first # groups)" "concat (first # groups) = cs"
        "first \<noteq> []" "length first \<le> 3" "\<forall>g \<in> set groups. length g = 3"
      using Cons.IH by blast
    have len: "length cs = length first + 3 * length groups"
      using arg_cong [OF g(2), of length] length_concat_threes [OF g(5)] by simp
    show ?thesis
    proof (cases "length cs mod 3 = 0")
      case True
      with len have "length first mod 3 = 0" by simp
      moreover have "length first = 1 \<or> length first = 2 \<or> length first = 3"
        using g(3,4) by (cases first) (auto simp: le_Suc_eq numeral_3_eq_3)
      ultimately have "length first = 3" by auto
      with True False g show ?thesis
        by (intro exI [of _ "[c]"] exI [of _ "first # groups"]) simp
    next
      case no: False
      with len have "length first \<noteq> 3" by auto
      with no False g show ?thesis
        by (intro exI [of _ "c # first"] exI [of _ groups]) (cases groups; simp)
    qed
  qed
qed simp

section \<open>Tokens\<close>

lemma dec_Cons: "dec (c # s) = digit_val c * 10 ^ length s + dec s"
proof (induction s rule: rev_induct)
  case (snoc x xs)
  have "dec ((c # xs) @ [x]) = 10 * dec (c # xs) + digit_val x" by (rule dec_snoc)
  with snoc show ?case by (simp add: algebra_simps)
qed simp

lemma dec_append: "dec (a @ b) = dec a * 10 ^ length b + dec b"
  by (induction a) (simp_all add: dec_Cons power_add algebra_simps)

lemma dec_zeros [simp]: "dec (replicate n CHR ''0'') = 0"
  by (induction n) (simp_all add: dec_Cons)

lemma dec_strip_leading [simp]: "dec (strip_leading_zeros s) = dec s"
  by (induction s rule: strip_leading_zeros.induct) (simp_all add: dec_Cons)

lemma strip_leading_canonical:
  "s \<noteq> [] \<Longrightarrow> list_all is_digit s \<Longrightarrow> canonical_digits (strip_leading_zeros s)"
  by (induction s rule: strip_leading_zeros.induct) (auto simp: canonical_digits_def)

lemma strip_trailing:
  "\<exists>n. s = strip_trailing_zeros s @ replicate n CHR ''0''"
  "strip_trailing_zeros s = [] \<or> last (strip_trailing_zeros s) \<noteq> CHR ''0''"
proof -
  let ?z = "\<lambda>c. c = CHR ''0''"
  have "rev s = takeWhile ?z (rev s) @ dropWhile ?z (rev s)" by simp
  moreover have "takeWhile ?z (rev s) = replicate (length (takeWhile ?z (rev s))) CHR ''0''"
    by (rule replicate_length_same [symmetric]) (auto dest: set_takeWhileD)
  ultimately have "rev s = replicate (length (takeWhile ?z (rev s))) CHR ''0'' @ dropWhile ?z (rev s)" by metis
  then have "s = strip_trailing_zeros s @ replicate (length (takeWhile ?z (rev s))) CHR ''0''"
    unfolding strip_trailing_zeros_def by (metis rev_append rev_replicate rev_rev_ident)
  then show "\<exists>n. s = strip_trailing_zeros s @ replicate n CHR ''0''" ..
  show "strip_trailing_zeros s = [] \<or> last (strip_trailing_zeros s) \<noteq> CHR ''0''"
    using hd_dropWhile [of ?z "rev s"] by (auto simp: strip_trailing_zeros_def last_rev)
qed

text \<open>C36. With a positive number of decimals an amount in base units is shown as the canonical decimal of that value:
  an integer part without needless zeros and at most that many decimals, without zeros at the end, and the point
  only before a fraction.  In units it is shown as its own digits with a comma between groups of three, of which
  only the first may be shorter.  (With no decimals the code loses the integer part, see below.)\<close>

theorem token_amount_exact:
  assumes "digits_only s" "0 < d"
  shows "(\<exists>whole fraction. formatToken (Some s) d = whole @ (if fraction = [] then [] else CHR ''.'' # fraction)
      \<and> canonical_digits whole \<and> list_all is_digit fraction \<and> length fraction \<le> d
      \<and> (fraction = [] \<or> last fraction \<noteq> CHR ''0'')
      \<and> dec whole * 10 ^ d + dec fraction * 10 ^ (d - length fraction) = dec s)
    \<and> (\<exists>first groups. formatUnits (Some s) = join_with '','' (first # groups) \<and> concat (first # groups) = s
      \<and> first \<noteq> [] \<and> length first \<le> 3 \<and> (\<forall>g \<in> set groups. length g = 3))"
proof -
  let ?p = "padStart s (d + 1)"
  let ?w = "strip_leading_zeros (slice_to_minus ?p d)" and ?f = "slice_from_minus ?p d"
  let ?t = "strip_trailing_zeros ?f"
  have p: "list_all is_digit ?p" "dec ?p = dec s" "d < length ?p"
    using assms(1) by (auto simp: padStart_def digits_only_def dec_append list_all_iff)
  have split: "?p = slice_to_minus ?p d @ ?f" "length ?f = d"
    using assms(2) p(3) by (simp_all add: slice_to_minus_def slice_from_minus_def)
  have digits: "list_all is_digit (slice_to_minus ?p d)" "list_all is_digit ?f"
    using p(1) split(1) by (metis list_all_append)+
  have "?p \<noteq> []" using p(3) by auto
  then have "slice_to_minus ?p d \<noteq> []" using p(3) assms(2) by (simp add: slice_to_minus_def)
  then have w: "canonical_digits ?w" using digits(1) by (rule strip_leading_canonical)
  obtain n where n: "?f = ?t @ replicate n CHR ''0''" using strip_trailing(1) by blast
  then have len: "length ?t + n = d" using split(2) by (metis length_append length_replicate)
  then have l: "length ?t \<le> d" "n = d - length ?t" by auto
  have f: "dec ?f = dec ?t * 10 ^ (d - length ?t)" using arg_cong [OF n, of dec] l(2) by (simp add: dec_append)
  have t: "list_all is_digit ?t" using digits(2) n by (metis list_all_append)
  have "dec ?w * 10 ^ d + dec ?t * 10 ^ (d - length ?t) = dec s"
    using p(2) arg_cong [OF split(1), of dec] split(2) f by (simp add: dec_append)
  moreover have "formatToken (Some s) d = ?w @ (if ?t = [] then [] else CHR ''.'' # ?t)"
    using assms(1) by (simp add: formatToken_def Let_def)
  ultimately have "\<exists>whole fraction. formatToken (Some s) d = whole @ (if fraction = [] then [] else CHR ''.'' # fraction)
      \<and> canonical_digits whole \<and> list_all is_digit fraction \<and> length fraction \<le> d
      \<and> (fraction = [] \<or> last fraction \<noteq> CHR ''0'')
      \<and> dec whole * 10 ^ d + dec fraction * 10 ^ (d - length fraction) = dec s"
    using w t l(1) strip_trailing(2) by blast
  moreover have "s \<noteq> []" using assms(1) by (auto simp: digits_only_def)
  then have "\<exists>first groups. formatUnits (Some s) = join_with '','' (first # groups) \<and> concat (first # groups) = s
      \<and> first \<noteq> [] \<and> length first \<le> 3 \<and> (\<forall>g \<in> set groups. length g = 3)"
    using assms(1) group_thousands_groups by (simp add: formatUnits_def)
  ultimately show ?thesis ..
qed

theorem token_amount_exact_witness:
  "formatToken (Some ''10000'') 6 = ''0.01'' \<and> formatUnits (Some ''1234567'') = ''1,234,567''
   \<and> dec ''0'' * 10 ^ 6 + dec ''01'' * 10 ^ 4 = dec ''10000''
   \<and> (\<exists>first groups. ''1,234,567'' = join_with '','' (first # groups) \<and> concat (first # groups) = ''1234567''
        \<and> length first \<le> 3 \<and> (\<forall>g \<in> set groups. length g = 3))"
proof -
  have d: "digits_only ''10000''" "digits_only ''1234567''" by code_simp+
  have f: "formatToken (Some ''10000'') 6 = ''0.01''" "formatUnits (Some ''1234567'') = ''1,234,567''" by code_simp+
  obtain w r where w: "''0.01'' = w @ (if r = [] then [] else CHR ''.'' # r)" "canonical_digits w" "list_all is_digit r"
      "dec w * 10 ^ 6 + dec r * 10 ^ (6 - length r) = dec ''10000''"
    using token_amount_exact [OF d(1), of 6] unfolding f by auto
  have "list_all is_digit w" using w(2) by (simp add: canonical_digits_def)
  then have "w = ''0'' \<and> r = ''01''"
    using w(1,3) by (cases w) (auto simp: is_digit_def code_def Cons_eq_append_conv split: if_splits)
  with w(4) f token_amount_exact [OF d(2), of 1, unfolded f] show ?thesis by auto
qed

text \<open>With no decimals the integer part is lost and the zeros at the end with it.\<close>

theorem zero_decimals_lose_amount:
  "formatToken (Some ''10000'') 0 = ''.1''"
  by code_simp

section \<open>The timeline\<close>

definition step_of :: "DemoResponse \<Rightarrow> bool \<Rightarrow> VerificationReport option \<Rightarrow> string \<Rightarrow> StepState option" where
  "step_of run fetched report i = map_option ts_state (find (\<lambda>s. ts_id s = i) (buildTimeline run fetched report))"

text \<open>A step of the timeline is shown as done exactly on its data: the authority's receipt for the human permission
  and the agent, a receipt without an operation code or a budget code for these two, an x402 payment for the challenge,
  a transaction for the payment, additionally the verifier's VERIFIED claim for the service authorization, a result
  of a request that was not denied, and a fetched bundle.  A step is blocked exactly by a code of the signed receipt.\<close>

theorem timeline_rests_on_data:
  "map ts_id (buildTimeline run fetched report) =
     [''permission'', ''agent'', ''operation'', ''budget'', ''challenge'', ''service-authorization'', ''payment'', ''result'', ''evidence'']
   \<and> (let receipt = map_option va_receipt (dr_authorization run);
          codes = (case receipt of None \<Rightarrow> {} | Some r \<Rightarrow> set (vr_reasonCodes r));
          payment = Option.bind (dr_authorization run) va_payment;
          settled = (\<exists>p t. payment = Some p \<and> vp_transactionId p = Some t \<and> t \<noteq> []);
          denied = (\<exists>a. dr_authorization run = Some a \<and> va_decision a = DENY);
          done = (\<lambda>i. step_of run fetched report i = Some Done); blocked = (\<lambda>i. step_of run fetched report i = Some Blocked) in
        (done ''permission'' \<longleftrightarrow> receipt \<noteq> None) \<and> (done ''agent'' \<longleftrightarrow> receipt \<noteq> None)
      \<and> (blocked ''operation'' \<longleftrightarrow> codes \<inter> set OPERATION_CODES \<noteq> {})
      \<and> (done ''operation'' \<longleftrightarrow> receipt \<noteq> None \<and> codes \<inter> set OPERATION_CODES = {})
      \<and> (blocked ''budget'' \<longleftrightarrow> codes \<inter> set OPERATION_CODES = {} \<and> codes \<inter> set BUDGET_CODES \<noteq> {})
      \<and> (done ''budget'' \<longleftrightarrow> receipt \<noteq> None \<and> codes \<inter> (set OPERATION_CODES \<union> set BUDGET_CODES) = {})
      \<and> (done ''challenge'' \<longleftrightarrow> (\<exists>p. payment = Some p \<and> vp_protocol p = Some ''x402''))
      \<and> (done ''payment'' \<longleftrightarrow> settled)
      \<and> (done ''service-authorization'' \<longleftrightarrow> settled \<and> claimStatus report ''service_authorization'' = Some VERIFIED)
      \<and> (done ''result'' \<longleftrightarrow> \<not> denied \<and> (\<exists>a. dr_authorization run = Some a \<and> \<not> nullish (va_result a)))
      \<and> (done ''evidence'' \<longleftrightarrow> \<not> denied \<and> fetched))"
proof -
  have shown: "shown (Option.bind p vp_transactionId) \<longleftrightarrow> (\<exists>q t. p = Some q \<and> vp_transactionId q = Some t \<and> t \<noteq> [])" for p
    by (cases p) (auto simp: shown_def split: option.splits)
  have x: "Option.bind p vp_protocol = Some ''x402'' \<longleftrightarrow> (\<exists>q. p = Some q \<and> vp_protocol q = Some ''x402'')" for p
    by (cases p) auto
  have ids: "map ts_id (buildTimeline run fetched report) =
     [''permission'', ''agent'', ''operation'', ''budget'', ''challenge'', ''service-authorization'', ''payment'', ''result'', ''evidence'']"
    unfolding buildTimeline_def Let_def timeline_step_def by simp
  show ?thesis
  proof (cases "dr_authorization run")
    case None
    then show ?thesis unfolding ids
      by (simp add: step_of_def buildTimeline_def Let_def timeline_step_def reached_def shown_def nullish_def)
  next
    case (Some a)
    have codes: "list_ex (\<lambda>c. c \<in> set cs) (vr_reasonCodes (va_receipt a)) \<longleftrightarrow> set (vr_reasonCodes (va_receipt a)) \<inter> set cs \<noteq> {}" for cs
      by (auto simp: list_ex_iff)
    show ?thesis unfolding ids
      by (simp add: Some step_of_def buildTimeline_def Let_def timeline_step_def reached_def codes Int_Un_distrib
          shown [of "va_payment a", simplified] x [of "va_payment a", simplified])
  qed
qed

section \<open>The claims\<close>

lemma groups_disjoint: "distinct (concat (map (\<lambda>g. map fst (snd (snd g))) GROUPS))"
  unfolding GROUPS_def by simp

text \<open>Every claim whose identifier an object literal does not inherit is shown exactly once.\<close>

lemma mset_filter_groups:
  assumes "distinct (concat (map ks gs))"
  shows "mset (concat (map (\<lambda>g. filter (\<lambda>c. f c \<in> set (ks g)) cs) gs)) = mset (filter (\<lambda>c. f c \<in> set (concat (map ks gs))) cs)"
  using assms
proof (induction gs)
  case (Cons g gs)
  have "mset (filter (\<lambda>c. f c \<in> set (ks g) \<union> set (concat (map ks gs))) cs)
      = mset (filter (\<lambda>c. f c \<in> set (ks g)) cs) + mset (filter (\<lambda>c. f c \<in> set (concat (map ks gs))) cs)"
  proof (induction cs)
    case (Cons c cs)
    have "\<not> (f c \<in> set (ks g) \<and> f c \<in> set (concat (map ks gs)))" using Cons.prems \<open>distinct (concat (map ks (g # gs)))\<close> by auto
    with Cons show ?case by auto
  qed simp
  with Cons show ?case by simp
qed simp

definition shown_claims :: "VerificationReport \<Rightarrow> claim list" where
  "shown_claims report = concat (map (\<lambda>g. map lc_claim (cg_claims g)) (groupClaims report))"

lemma concat_nonempty: "concat (map f (filter (\<lambda>g. length (f' g) > 0) gs)) = concat (map f gs)"
  if "\<And>g. f' g = [] \<Longrightarrow> f g = []" for f f' gs
  using that by (induction gs) auto

lemma shown_claims_mset:
  assumes "\<forall>c \<in> set (rp_claims report). cl_id c \<notin> set INHERITED"
  shows "mset (shown_claims report) = mset (rp_claims report)"
proof -
  let ?ks = "\<lambda>g. map fst (snd (snd g))" and ?cs = "rp_claims report"
  let ?all = "set (concat (map ?ks GROUPS))"
  have g: "map lc_claim (cg_claims (group_of report g)) = filter (\<lambda>c. cl_id c \<in> set (?ks g)) ?cs" for g
    using assms by (auto simp: group_of_def in_group_def comp_def intro!: filter_cong)
  then have ids: "(\<lambda>c. cl_id (lc_claim c)) ` set (cg_claims (group_of report g)) = cl_id ` set (filter (\<lambda>c. cl_id c \<in> set (?ks g)) ?cs)" for g
    by (metis image_image list.set_map)
  let ?placed = "\<Union>g \<in> set (map (group_of report) GROUPS). (\<lambda>c. cl_id (lc_claim c)) ` set (cg_claims g)"
  have "?placed = (\<Union>g \<in> set GROUPS. cl_id ` set (filter (\<lambda>c. cl_id c \<in> set (?ks g)) ?cs))"
    unfolding set_map UN_simps ids ..
  also have "\<dots> = cl_id ` set ?cs \<inter> ?all" unfolding set_concat set_map UN_simps by (simp only: set_filter) blast
  finally have placed: "c \<in> set ?cs \<Longrightarrow> cl_id c \<in> ?placed \<longleftrightarrow> cl_id c \<in> ?all" for c by blast
  let ?other = "filter (\<lambda>c. cl_id c \<notin> ?placed) ?cs"
  have other: "?other = filter (\<lambda>c. cl_id c \<notin> ?all) ?cs" using placed by (intro filter_cong) auto
  have "shown_claims report = concat (map (\<lambda>g. map lc_claim (cg_claims g)) (map (group_of report) GROUPS)) @ ?other"
    unfolding shown_claims_def groupClaims_def Let_def
    by (subst concat_nonempty) (simp_all add: comp_def)
  also have "concat (map (\<lambda>g. map lc_claim (cg_claims g)) (map (group_of report) GROUPS))
      = concat (map (\<lambda>g. filter (\<lambda>c. cl_id c \<in> set (?ks g)) ?cs) GROUPS)" by (simp add: comp_def g)
  finally have "mset (shown_claims report)
      = mset (filter (\<lambda>c. cl_id c \<in> ?all) ?cs) + mset (filter (\<lambda>c. cl_id c \<notin> ?all) ?cs)"
    unfolding other using mset_filter_groups [OF groups_disjoint, of cl_id ?cs] by simp
  then show ?thesis by (metis mset_filter multiset_partition)
qed

section \<open>The claims of the verifier\<close>

definition group_ids :: "string set" where
  "group_ids = set (concat (map (\<lambda>g. map fst (snd (snd g))) GROUPS))"

definition placed_run :: "check_run \<Rightarrow> bool" where
  "placed_run r \<longleftrightarrow> (\<forall>c \<in> set (fst r). cl_id c \<in> group_ids)"

lemma placed_and_then: "placed_run a \<Longrightarrow> placed_run b \<Longrightarrow> placed_run (and_then a b)"
  by (auto simp: placed_run_def and_then_def)

lemma placed_needs: "(\<And>a. placed_run (f a)) \<Longrightarrow> placed_run (needs x f)"
  by (auto simp: placed_run_def needs_def split: option.split)

lemma placed_adds: "placed_run (adds cs) \<longleftrightarrow> (\<forall>c \<in> set cs. cl_id c \<in> group_ids)"
  by (simp add: placed_run_def adds_def)

lemma claim_ids [simp]: "cl_id (claim_add i k st r) = i" "cl_id (claim_check i k ps r st) = i"
  by (simp_all add: claim_add_def claim_check_def)

lemma ids_grouped: "list_all (\<lambda>i. i \<in> group_ids)
  [''issuer_trusted'', ''authority_trusted'', ''manifest_signature'', ''artifact_digests'', ''state_consistent'',
   ''authority_decision_signature'', ''permit_signature'', ''agent_request_signature'', ''request_bound_to_permit'',
   ''permit_time_bounds'', ''service_capability_match'', ''network_profile_match'', ''mint_match'', ''recipient_match'',
   ''per_call_limit'', ''method_resource_match'', ''operation_matches_permit'', ''operation_arguments_match'',
   ''decision_matches_static_policy'', ''settlement_profile_match'', ''x402_asset_matches'', ''x402_recipient_matches'',
   ''x402_amount_matches'', ''outbound_request_matches_operation'', ''payment_attempt_matches_requirement'',
   ''payment_transaction'', ''result_digest'', ''result_observed_by_authority'', ''total_budget_decision'',
   ''global_budget_completeness'', ''service_authorization'', ''service_trusted'', ''service_acknowledgement'',
   ''service_result_attestation'', ''result_correctness'', ''settlement'', ''bundle_format'']"
  unfolding group_ids_def GROUPS_def by simp

lemmas grouped [simp] = ids_grouped [simplified]

lemmas placed_rules = placed_and_then placed_needs

lemma trust_placed: "placed_run (trust_claims trust b)"
  by (simp add: trust_claims_def placed_adds Let_def)

lemma integrity_placed: "placed_run (integrity_claims e trust b)"
  unfolding integrity_claims_def Let_def by (intro placed_rules) (simp_all add: placed_adds)

lemma authorization_placed: "placed_run (authorization_claims e trust b)"
proof -
  have "placed_run (receipt_claims e trust b)"
    unfolding receipt_claims_def Let_def by (cases "ea_authorityDecision b") (simp_all add: placed_adds placed_needs)
  then show ?thesis unfolding authorization_claims_def Let_def by (intro placed_rules) (simp_all add: placed_adds)
qed

lemma policy_placed: "placed_run (policy_claims b)"
  by (simp add: policy_claims_def policy_claim_codes_def Let_def placed_adds)

lemma payment_placed: "placed_run (payment_claims e trust b)"
proof -
  have "placed_run (outbound_claims px request outbound requirement attempt)" for px request outbound requirement attempt
    unfolding outbound_claims_def by (cases outbound) (simp_all add: placed_adds placed_needs)
  moreover have "placed_run (attempt_claims px sx requirement attempt)" for px sx requirement attempt
    unfolding attempt_claims_def by (cases attempt) (simp_all add: placed_adds split: option.split)
  ultimately show ?thesis
    unfolding payment_claims_def Let_def
    by (auto simp: placed_adds PAYMENT_CLAIMS_def intro!: placed_and_then split: option.split)
qed

lemma result_placed: "placed_run (result_claims px b)" "placed_run budget_claims"
  by (simp_all add: result_claims_def budget_claims_def placed_adds split: option.split)

lemma service_placed: "placed_run (serviceClaims e trust b)"
proof -
  have "placed_run (service_authorization_claims e trust b sv)" for sv
    unfolding service_authorization_claims_def by (cases "sv_authorization sv") (simp_all add: placed_adds placed_needs)
  moreover have "placed_run (acknowledgement_claims e pinned b sv ack)" for pinned sv ack
    unfolding acknowledgement_claims_def Let_def by (intro placed_rules) (simp_all add: placed_adds)
  ultimately show ?thesis
    unfolding serviceClaims_def
    by (auto simp: placed_adds result_correctness_def intro!: placed_and_then split: option.split)
qed

lemma settlement_placed: "placed_run (settlementClaims e profile options b)"
  unfolding settlementClaims_def Let_def by (auto simp: placed_adds split: option.split VerifyOptions.split)

lemma parsed_placed: "placed_run (verifyParsed e b trust options)"
  unfolding verifyParsed_def
  by (simp add: placed_and_then trust_placed integrity_placed authorization_placed policy_placed payment_placed result_placed
      service_placed settlement_placed placed_adds)

lemma verifier_ids:
  "c \<in> set (rp_claims (verifyEvidenceBundle e input trust options)) \<Longrightarrow> cl_id c \<in> group_ids \<or> cl_id c = ''verifier_internal''"
  using parsed_placed
  by (auto simp: verifyEvidenceBundle_def Let_def placed_run_def split: option.splits if_splits)

lemma not_inherited: "i \<in> group_ids \<or> i = ''verifier_internal'' \<Longrightarrow> i \<notin> set INHERITED"
  unfolding group_ids_def GROUPS_def INHERITED_def by auto

lemma other_group:
  assumes "g \<in> set (groupClaims report)" "l \<in> set (cg_claims g)" "\<forall>c \<in> set (rp_claims report). cl_id c \<notin> set INHERITED"
  shows "lc_label l \<noteq> None \<and> lc_claim l \<in> set (rp_claims report) \<and> (cg_id g = ''other'' \<longrightarrow> cl_id (lc_claim l) \<notin> group_ids)"
proof -
  let ?gs = "map (group_of report) GROUPS"
  let ?placed = "\<Union>g \<in> set ?gs. (\<lambda>c. cl_id (lc_claim c)) ` set (cg_claims g)"
  from assms(1) have "g \<in> set ?gs \<or> g = \<lparr> cg_id = ''other'', cg_title = ''Other checks'', cg_claims = map (\<lambda>c. \<lparr> lc_claim = c, lc_label = Some (cl_id c) \<rparr>)
      (filter (\<lambda>c. cl_id c \<notin> ?placed) (rp_claims report)) \<rparr>"
    by (auto simp: groupClaims_def Let_def split: if_splits)
  then show ?thesis
  proof
    assume "g \<in> set ?gs"
    then obtain h where h: "h \<in> set GROUPS" "g = group_of report h" by auto
    have "fst h \<noteq> ''other''" using h(1) unfolding GROUPS_def by auto
    moreover obtain c where c: "l = \<lparr> lc_claim = c, lc_label = map_of (snd (snd h)) (cl_id c) \<rparr>" "c \<in> set (rp_claims report)"
        "in_group (cl_id c) (snd (snd h))"
      using assms(2) unfolding h(2) group_of_def by auto
    moreover have "map_of (snd (snd h)) (cl_id c) \<noteq> None"
      using c(2,3) assms(3) unfolding in_group_def map_of_eq_None_iff by blast
    ultimately show ?thesis unfolding h(2) by (simp add: group_of_def)
  next
    assume g: "g = \<lparr> cg_id = ''other'', cg_title = ''Other checks'', cg_claims = map (\<lambda>c. \<lparr> lc_claim = c, lc_label = Some (cl_id c) \<rparr>)
      (filter (\<lambda>c. cl_id c \<notin> ?placed) (rp_claims report)) \<rparr>"
    with assms(2) obtain c where c: "l = \<lparr> lc_claim = c, lc_label = Some (cl_id c) \<rparr>" "c \<in> set (rp_claims report)" "cl_id c \<notin> ?placed" by auto
    have "cl_id c \<notin> group_ids"
    proof
      assume "cl_id c \<in> group_ids"
      then obtain h where h: "h \<in> set GROUPS" "cl_id c \<in> fst ` set (snd (snd h))" by (auto simp: group_ids_def)
      then have "\<lparr> lc_claim = c, lc_label = map_of (snd (snd h)) (cl_id c) \<rparr> \<in> set (cg_claims (group_of report h))"
        using c(2) by (auto simp: group_of_def in_group_def)
      then have "cl_id c \<in> (\<lambda>c. cl_id (lc_claim c)) ` set (cg_claims (group_of report h))" by force
      with h(1) c(3) show False by auto
    qed
    with c show ?thesis by simp
  qed
qed

text \<open>Of a report of the verifier the page shows every claim exactly once, each with a label, and nothing else; the
  only claim that can end up under the other checks is the one that reports a failure of the verifier itself.\<close>

theorem verifier_claims_shown:
  "mset (concat (map (\<lambda>g. map lc_claim (cg_claims g)) (groupClaims (verifyEvidenceBundle e input trust options))))
     = mset (rp_claims (verifyEvidenceBundle e input trust options))
   \<and> None \<notin> set (map lc_label (concat (map cg_claims (groupClaims (verifyEvidenceBundle e input trust options)))))
   \<and> set (map (\<lambda>l. cl_id (lc_claim l)) (concat (map cg_claims (filter (\<lambda>g. cg_id g = ''other'')
        (groupClaims (verifyEvidenceBundle e input trust options)))))) \<subseteq> {''verifier_internal''}"
proof -
  let ?r = "verifyEvidenceBundle e input trust options"
  have plain: "\<forall>c \<in> set (rp_claims ?r). cl_id c \<notin> set INHERITED" using verifier_ids not_inherited by blast
  have l: "lc_label l \<noteq> None" "cg_id g = ''other'' \<Longrightarrow> cl_id (lc_claim l) = ''verifier_internal''"
    if "g \<in> set (groupClaims ?r)" "l \<in> set (cg_claims g)" for g l
    using other_group [OF that plain] verifier_ids [of "lc_claim l" e input trust options] by blast+
  have "None \<notin> set (map lc_label (concat (map cg_claims (groupClaims ?r))))" using l(1) by force
  moreover have "set (map (\<lambda>l. cl_id (lc_claim l)) (concat (map cg_claims (filter (\<lambda>g. cg_id g = ''other'') (groupClaims ?r)))))
      \<subseteq> {''verifier_internal''}" using l(2) by auto
  ultimately show ?thesis using shown_claims_mset [OF plain] unfolding shown_claims_def by blast
qed

text \<open>A claim with an inherited name would be shown in every group.\<close>

lemma inherited_shown_everywhere:
  "length (shown_claims \<lparr> rp_overall = Overall_INVALID, rp_online = False, rp_decision = None, rp_purchaseState = None,
     rp_invocationId = None, rp_claims = [claim_add ''constructor'' FORMAT INVALID True], rp_notProven = [] \<rparr>) = 5"
  by code_simp

end
