(* ===== verification/Web_App_Properties.thy ===== *)
theory Web_App_Properties
  imports Web_App Web_Properties Approver_Properties
begin

text \<open>
  A sample visit, and where the page says something else than what happened.
\<close>

section \<open>A sample visit\<close>

text \<open>Everything is answered; the agent buys once and refuses afterwards (409).\<close>

definition bought :: DemoResponse where
  "bought = \<lparr> dr_status = None, dr_invocationId = Some ''i1'', dr_operation = None, dr_quote = None,
     dr_authorization = Some \<lparr> va_decision = ALLOW, va_replay = False,
       va_receipt = \<lparr> vr_decision = ALLOW, vr_reasonCodes = [], vr_service = ''svc'', vr_capability = ''cap'', vr_network = ''n'',
         vr_mint = ''M'', vr_recipient = ''R'', vr_amountAtomic = ''4'', vr_permitDigest = ''d'', vr_paymentTransactionId = Some ''tx'',
         vr_operation = None \<rparr>,
       va_payment = Some \<lparr> vp_protocol = Some ''x402'', vp_asset = None, vp_payTo = None, vp_amountAtomic = None,
         vp_payerSignature = None, vp_transactionId = Some ''tx'', vp_requestSha256 = None, vp_settlementProfile = None \<rparr>,
       va_result = JNull \<rparr> \<rparr>"

definition refused :: DemoResponse where
  "refused = \<lparr> dr_status = None, dr_invocationId = None, dr_operation = None, dr_quote = None, dr_authorization = None \<rparr>"

definition sample_report :: VerificationReport where
  "sample_report = \<lparr> rp_overall = Overall_VALID, rp_online = False, rp_decision = None, rp_purchaseState = None,
     rp_invocationId = None, rp_claims = [], rp_notProven = [] \<rparr>"

definition answer_json :: "int \<Rightarrow> jsval \<Rightarrow> web_answer option" where
  "answer_json status v = Some \<lparr> wa_status = status, wa_json = Some v, wa_text = ''bundle'' \<rparr>"

definition sample_web :: web_world where
  "sample_web = \<lparr> ww_fetch = (\<lambda>j c.
       if wc_path c = ''/session'' then answer_json 201 (JObj [(''token'', JStr ''tok'')])
       else if wc_path c = ''/identity'' then answer_json 200 (JObj [(''agent'', JStr ''KA'')])
       else if wc_path c = ''/approvals'' then
         (if wc_authorization c = Some (''Bearer '' @ replicate 32 CHR ''0'') then answer_json 201 (JObj [(''permit'', JStr ''p'')])
          else answer_json 401 (JObj []))
       else if wc_path c = ''/demo'' then (if j < 8 then answer_json 200 (JBool True) else answer_json 409 (JBool False))
       else answer_json 200 (JObj [])),
     ww_demo = (\<lambda>v. if v = JBool True then bought else refused), ww_report = (\<lambda>_. sample_report) \<rparr>"

definition page_0 :: page where "page_0 = on_load sample_web initial_page"
definition page_1 :: page where "page_1 = snd (onApprove sample_web (replicate 32 CHR ''0'') page_0)"
definition page_2 :: page where "page_2 = onRun sample_web AllowRun page_1"

lemma sample_pages:
  "pg_agent page_0 = Some ''KA''" "pg_token page_1 = Some ''tok''" "pg_permit page_1 = Some (JStr ''p'')" "length (pg_sent page_1) = 5"
  by code_simp+

lemma sample_purchase: "pg_token page_2 = Some ''tok''" "pg_agent page_2 = Some ''KA''" "pg_permit page_2 = Some (JStr ''p'')"
  "pg_bundle page_2 = Some ''bundle''" "pg_report page_2 = Some sample_report" "length (pg_sent page_2) = 8"
  by code_simp+

section \<open>Properties\<close>

text \<open>C37. A mistyped approval code costs the session: the approver answers 401, which the page takes for an expired session
  of the agent, so it drops the permit it holds, asks the agent for a new session and says that the session has ended.\<close>

theorem wrong_code_ends_session:
  assumes "pg_agent pg = Some agent" "approvalCode \<noteq> ao_approvalCode opts"
    and "approve w agent approvalCode (fst APPROVED) (snd APPROVED) (pg \<lparr> pg_approving := True, pg_approvalError := None \<rparr>) = (r, pg1)"
    and "r = api_json (Some a)" "api_body a = JObj kvs"
    and "wa_status a = fst (approver_server px opts now g \<lparr> hr_method = ''POST'', hr_url = ''/approvals'',
           hr_authorization = Some (''Bearer '' @ approvalCode), hr_chunks = chunks \<rparr>)"
  shows "fst (onApprove w approvalCode pg) = False
    \<and> pg_permit (snd (onApprove w approvalCode pg)) = None
    \<and> pg_approvalError (snd (onApprove w approvalCode pg)) = Some SessionEnded
    \<and> pg_sent (snd (onApprove w approvalCode pg)) = pg_sent pg1 @ [\<lparr> wc_api = AgentApi, wc_method = ''POST'', wc_path = ''/session'',
         wc_authorization = None, wc_body = None \<rparr>]"
proof -
  have "wa_status a = 401" using assms(2,6) by (simp add: approver_server_def presents_iff)
  then have r: "r = Inl (ApiError 401)" using assms(4,5) by (simp add: api_json_def response_ok_def nullish_def)
  have start: "pg_permit (start_or_report w p) = pg_permit p \<and> pg_approvalError (start_or_report w p) = pg_approvalError p
      \<and> pg_sent (start_or_report w p) = pg_sent p @ [\<lparr> wc_api = AgentApi, wc_method = ''POST'', wc_path = ''/session'',
         wc_authorization = None, wc_body = None \<rparr>]" for p
    by (simp add: start_or_report_def startSession_def web_fetch_def session_call_def split: sum.split)
  show ?thesis using assms(1,3) r
    by (simp add: onApprove_def recoverExpiredSession_def page_message_of_def start)
qed

theorem wrong_code_ends_session_witness:
  "pg_permit page_2 = Some (JStr ''p'') \<and> pg_permit (snd (onApprove sample_web ''typo'' page_2)) = None
   \<and> pg_approvalError (snd (onApprove sample_web ''typo'' page_2)) = Some SessionEnded"
proof -
  let ?a = "\<lparr> wa_status = 401, wa_json = Some (JObj []), wa_text = ''bundle'' \<rparr>"
  obtain r pg1 where r: "approve sample_web ''KA'' ''typo'' (fst APPROVED) (snd APPROVED) (page_2 \<lparr> pg_approving := True, pg_approvalError := None \<rparr>) = (r, pg1)"
    by fastforce
  moreover have "length ''typo'' \<noteq> length (replicate 32 CHR ''0'')" by simp
  then have typo: "''typo'' \<noteq> replicate 32 CHR ''0''" by metis
  ultimately have "r = member ''permit'' (api_json (Some ?a))"
    by (simp add: approve_def approve_call_def web_fetch_def sample_web_def answer_json_def)
  then have "r = api_json (Some ?a)" by (simp add: api_json_def response_ok_def member_def api_body_def nullish_def)
  moreover have "''typo'' \<noteq> ao_approvalCode sample_approver" using typo by (simp add: sample_approver_def)
  moreover have "wa_status ?a = fst (approver_server base58_platform sample_approver 0 [] \<lparr> hr_method = ''POST'', hr_url = ''/approvals'',
           hr_authorization = Some (''Bearer '' @ ''typo''), hr_chunks = [] \<rparr>)"
    using typo by (simp add: approver_server_def presents_iff sample_approver_def)
  moreover have "api_body ?a = JObj []" by (simp add: api_body_def)
  ultimately show ?thesis
    using wrong_code_ends_session [OF sample_purchase(2) _ r, where a = ?a and px = base58_platform and opts = sample_approver and now = 0 and g = "[]"
        and chunks = "[]" and kvs = "[]"] sample_purchase(3) by blast
qed

text \<open>A later run of the approved operation that is refused without a decision keeps the bundle of the earlier purchase,
  and the timeline of the refused run shows its evidence step as done.\<close>

theorem stale_evidence_shown:
  assumes "pg_bundle pg = Some b"
    and "runOperation w (run_body APPROVED) (pg \<lparr> pg_running := Some AllowRun, pg_runError := None \<rparr>) = (Inr run, pg1)"
    and "dr_authorization (pr_response run) = None"
  shows "pg_bundle (onRun w AllowRun pg) = Some b
    \<and> map_option (\<lambda>steps. map_option ts_state (find (\<lambda>s. ts_id s = ''evidence'') steps)) (shown_timeline (onRun w AllowRun pg))
       = Some (Some Done)"
proof -
  have kept: "pg_bundle pg1 = Some b"
    using assms(1,2) by (auto simp: runOperation_def agent_call_def web_fetch_def split: sum.splits prod.splits)
  have c: "completed_purchase AllowRun (pr_response run) = None" using assms(3) by (simp add: completed_purchase_def)
  have run: "onRun w AllowRun pg = (pg1 \<lparr> pg_runs := (pg_runs pg1)(AllowRun := Some run), pg_latest := Some AllowRun \<rparr>) \<lparr> pg_running := None \<rparr>"
    using assms(2) c by (simp add: onRun_def)
  show ?thesis unfolding run using kept assms(3)
    by (simp add: shown_timeline_def buildTimeline_def Let_def timeline_step_def)
qed

theorem stale_evidence_shown_witness:
  "map_option (\<lambda>run. dr_authorization (pr_response run)) (pg_runs (onRun sample_web AllowRun page_2) AllowRun) = Some None
   \<and> map_option (\<lambda>steps. map_option ts_state (find (\<lambda>s. ts_id s = ''evidence'') steps)) (shown_timeline (onRun sample_web AllowRun page_2))
       = Some (Some Done)"
proof -
  let ?pg = "page_2 \<lparr> pg_running := Some AllowRun, pg_runError := None \<rparr>"
  obtain pg1 where r: "runOperation sample_web (run_body APPROVED) ?pg = (Inr \<lparr> pr_httpStatus = 409, pr_response = refused \<rparr>, pg1)"
    using sample_purchase by (simp add: runOperation_def agent_call_def agentAuth_def web_fetch_def agent_request_def) (simp add: sample_web_def answer_json_def api_body_def run_result_def)
  then have "pg_runs (onRun sample_web AllowRun page_2) AllowRun = Some \<lparr> pr_httpStatus = 409, pr_response = refused \<rparr>"
    by (simp add: onRun_def completed_purchase_def refused_def)
  then show ?thesis using stale_evidence_shown [OF sample_purchase(4) r] by (simp add: refused_def)
qed

text \<open>An extra run that fails for the session says so, but starts no new one.\<close>

lemma extra_starts_no_session:
  assumes "runOperation w body pg = (Inl (ApiError 401), pg1)"
  shows "onExtra w label body pg = pg1 \<lparr> pg_runError := Some SessionEnded \<rparr>"
  using assms by (simp add: onExtra_def page_message_of_def)

end
