(* ===== verification/Web_Interleaving_Properties.thy ===== *)
theory Web_Interleaving_Properties
  imports Web_Interleaving Web_App_Properties
begin

text \<open>
  What the page sends and shows over every interleaving of its handlers: an invariant of the page with one clause for
  every waiting call; a visit in which the report of an earlier purchase ends up beside the bundle of a later one.
\<close>

section \<open>What an answer is\<close>

definition answered :: "web_world \<Rightarrow> web_call list \<Rightarrow> (web_call \<Rightarrow> bool) \<Rightarrow> (web_answer option \<Rightarrow> bool) \<Rightarrow> bool" where
  "answered w sent C A \<longleftrightarrow> (\<exists>j < length sent. C (sent ! j) \<and> A (ww_fetch w j (sent ! j)))"

definition issued :: "web_world \<Rightarrow> web_call list \<Rightarrow> string \<Rightarrow> bool" where
  "issued w sent t \<longleftrightarrow> answered w sent (\<lambda>c. c = session_call) (\<lambda>a. session_result a = Inr t)"

definition named :: "web_world \<Rightarrow> web_call list \<Rightarrow> string \<Rightarrow> bool" where
  "named w sent agent \<longleftrightarrow> answered w sent (\<lambda>c. c = identity_call) (\<lambda>a. \<exists>v. member ''agent'' (api_json a) = Inr v \<and> agent = jstr v)"

definition permitted :: "web_world \<Rightarrow> string set \<Rightarrow> web_call list \<Rightarrow> jsval \<Rightarrow> bool" where
  "permitted w codes sent p \<longleftrightarrow>
     answered w sent (\<lambda>c. \<exists>agent. \<exists>approvalCode \<in> codes. c = approve_call agent approvalCode (fst APPROVED) (snd APPROVED))
       (\<lambda>a. member ''permit'' (api_json a) = Inr p)"

definition install_call :: "string \<Rightarrow> jsval \<Rightarrow> web_call" where
  "install_call t p = agent_request ''POST'' ''/permit'' (permit_body p) (''Bearer '' @ t)"

definition installed :: "web_world \<Rightarrow> web_call list \<Rightarrow> jsval \<Rightarrow> bool" where
  "installed w sent p \<longleftrightarrow> (\<exists>t. issued w sent t \<and> answered w sent (\<lambda>c. c = install_call t p) (\<lambda>a. isOk (api_json a)))"

definition demo_call :: "string \<Rightarrow> (string \<times> jsval) list \<Rightarrow> web_call" where
  "demo_call t body = agent_request ''POST'' ''/demo'' (Some (json_stringify (JObj body))) (''Bearer '' @ t)"

definition purchased :: "web_world \<Rightarrow> web_call list \<Rightarrow> string \<Rightarrow> bool" where
  "purchased w sent x \<longleftrightarrow> answered w sent (\<lambda>c. \<exists>t. c = demo_call t (run_body APPROVED))
     (\<lambda>a. \<exists>run. run_result w a = Inr run \<and> completed_purchase AllowRun (pr_response run) = Some x)"

definition evidence_call :: "string \<Rightarrow> string \<Rightarrow> web_call" where
  "evidence_call t x = agent_request ''GET'' (evidence_path x) None (''Bearer '' @ t)"

definition evidenced :: "web_world \<Rightarrow> web_call list \<Rightarrow> string \<Rightarrow> bool" where
  "evidenced w sent e \<longleftrightarrow> answered w sent (\<lambda>c. \<exists>t x. purchased w sent x \<and> c = evidence_call t x) (\<lambda>a. evidence_result a = Inr e)"

definition reported :: "web_world \<Rightarrow> web_call list \<Rightarrow> VerificationReport \<Rightarrow> bool" where
  "reported w sent r \<longleftrightarrow> (\<exists>e. evidenced w sent e \<and> answered w sent (\<lambda>c. \<exists>mode. c = verify_call e mode) (\<lambda>a. report_result w a = Inr r))"

definition page_bodies :: "(string \<times> jsval) list list" where
  "page_bodies = run_body APPROVED # run_body VIOLATION # extra_bodies"

text \<open>The calls the page can make after the calls \<open>sent\<close>: what each is made of, and where that came from.\<close>

inductive sourced :: "web_world \<Rightarrow> string set \<Rightarrow> web_call list \<Rightarrow> web_call \<Rightarrow> bool" for w codes sent where
  session: "sourced w codes sent session_call"
| identity: "sourced w codes sent identity_call"
| terms: "sourced w codes sent terms_call"
| approval: "approvalCode \<in> codes \<Longrightarrow> named w sent agent
    \<Longrightarrow> sourced w codes sent (approve_call agent approvalCode (fst APPROVED) (snd APPROVED))"
| install: "issued w sent t \<Longrightarrow> permitted w codes sent p \<Longrightarrow> sourced w codes sent (install_call t p)"
| demo: "issued w sent t \<Longrightarrow> body \<in> set page_bodies \<Longrightarrow> sourced w codes sent (demo_call t body)"
| evidence: "issued w sent t \<Longrightarrow> purchased w sent x \<Longrightarrow> sourced w codes sent (evidence_call t x)"
| verify: "evidenced w sent e \<Longrightarrow> mode \<in> {''offline'', ''online''} \<Longrightarrow> sourced w codes sent (verify_call e mode)"

section \<open>The invariant\<close>

definition page_sound :: "web_world \<Rightarrow> string set \<Rightarrow> page \<Rightarrow> bool" where
  "page_sound w codes pg \<longleftrightarrow>
     (\<forall>i < length (pg_sent pg). sourced w codes (take i (pg_sent pg)) (pg_sent pg ! i))
   \<and> (\<forall>t. pg_token pg = Some t \<longrightarrow> issued w (pg_sent pg) t)
   \<and> (\<forall>a. pg_agent pg = Some a \<longrightarrow> named w (pg_sent pg) a)
   \<and> (\<forall>p. pg_permit pg = Some p \<longrightarrow> permitted w codes (pg_sent pg) p \<and> installed w (pg_sent pg) p)
   \<and> (\<forall>e. pg_bundle pg = Some e \<longrightarrow> evidenced w (pg_sent pg) e)
   \<and> (\<forall>r. pg_report pg = Some r \<longrightarrow> reported w (pg_sent pg) r)"

definition awaited :: "web_world \<Rightarrow> string set \<Rightarrow> web_call list \<Rightarrow> web_call \<Rightarrow> waiter \<Rightarrow> bool" where
  "awaited w codes sent c t \<longleftrightarrow>
     (case t of
        SessionAnswer \<Rightarrow> c = session_call
      | IdentityAnswer \<Rightarrow> c = identity_call
      | TermsAnswer \<Rightarrow> c = terms_call
      | PermitAnswer \<Rightarrow> (\<exists>agent. \<exists>approvalCode \<in> codes. c = approve_call agent approvalCode (fst APPROVED) (snd APPROVED))
      | InstallAnswer p \<Rightarrow> permitted w codes sent p \<and> (\<exists>token. issued w sent token \<and> c = install_call token p)
      | RunAnswer kind \<Rightarrow> (\<exists>token. c = demo_call token (run_body (if kind = AllowRun then APPROVED else VIOLATION)))
      | EvidenceAnswer \<Rightarrow> (\<exists>token x. purchased w sent x \<and> c = evidence_call token x)
      | ReportAnswer in_run \<Rightarrow> (\<exists>e mode. evidenced w sent e \<and> c = verify_call e mode)
      | ExtraAnswer label \<Rightarrow> (\<exists>token body. c = demo_call token body)
      | RecoveryAnswer a \<Rightarrow> c = session_call)"

definition browser_sound :: "web_world \<Rightarrow> string set \<Rightarrow> browser \<Rightarrow> bool" where
  "browser_sound w codes b \<longleftrightarrow> page_sound w codes (br_page b)
     \<and> (\<forall>(i, t) \<in> set (br_pending b). i < length (pg_sent (br_page b))
          \<and> awaited w codes (pg_sent (br_page b)) (pg_sent (br_page b) ! i) t)"

lemma answered_mono: "answered w sent C A \<Longrightarrow> (\<And>c. C c \<Longrightarrow> C' c) \<Longrightarrow> answered w (sent @ cs) C' A"
  unfolding answered_def by (metis length_append nth_append trans_less_add1)

lemma answered_at: "i < length sent \<Longrightarrow> C (sent ! i) \<Longrightarrow> A (ww_fetch w i (sent ! i)) \<Longrightarrow> answered w sent C A"
  unfolding answered_def by blast

named_theorems answer_mono

lemma facts_mono [answer_mono]:
  "issued w sent t \<Longrightarrow> issued w (sent @ cs) t"
  "named w sent a \<Longrightarrow> named w (sent @ cs) a"
  "permitted w codes sent p \<Longrightarrow> permitted w codes (sent @ cs) p"
  "purchased w sent x \<Longrightarrow> purchased w (sent @ cs) x"
  unfolding issued_def named_def permitted_def purchased_def by (auto elim: answered_mono)

lemma later_facts_mono [answer_mono]:
  "installed w sent p \<Longrightarrow> installed w (sent @ cs) p"
  "evidenced w sent e \<Longrightarrow> evidenced w (sent @ cs) e"
  unfolding installed_def evidenced_def by (blast intro: answered_mono answer_mono)+

lemma reported_mono [answer_mono]: "reported w sent r \<Longrightarrow> reported w (sent @ cs) r"
  unfolding reported_def by (blast intro: answered_mono answer_mono)

lemma sourced_mono: "sourced w codes sent c \<Longrightarrow> sourced w codes (sent @ cs) c"
  by (induction rule: sourced.induct) (auto intro: sourced.intros answer_mono)

lemma awaited_mono: "awaited w codes sent c t \<Longrightarrow> awaited w codes (sent @ cs) c t"
  by (cases t) (auto simp: awaited_def intro: answer_mono)

lemma sent_sound:
  assumes "browser_sound w codes b" "sourced w codes (pg_sent (br_page b)) c" "awaited w codes (pg_sent (br_page b)) c t"
  shows "browser_sound w codes (send t c b)"
proof -
  let ?s = "pg_sent (br_page b)"
  have "sourced w codes (take i (?s @ [c])) ((?s @ [c]) ! i)" if "i < Suc (length ?s)" for i
    using assms(1,2) that by (cases "i = length ?s") (auto simp: browser_sound_def page_sound_def nth_append)
  moreover have "\<forall>(i, u) \<in> set (br_pending (send t c b)). i < length (pg_sent (br_page (send t c b)))
      \<and> awaited w codes (pg_sent (br_page (send t c b))) (pg_sent (br_page (send t c b)) ! i) u"
    using assms(1,3) by (fastforce simp: browser_sound_def send_def nth_append intro: awaited_mono)
  moreover from calculation(1) have "page_sound w codes (br_page (send t c b))"
    using assms(1) unfolding browser_sound_def page_sound_def by (simp add: send_def) (blast intro: answer_mono)
  ultimately show ?thesis by (simp add: browser_sound_def)
qed

lemma set_page_sound:
  assumes "browser_sound w codes b" "pg_sent (f (br_page b)) = pg_sent (br_page b)"
    and "page_sound w codes (br_page b) \<Longrightarrow> page_sound w codes (f (br_page b))"
  shows "browser_sound w codes (set_page f b)"
  using assms by (auto simp: browser_sound_def set_page_def)

text \<open>A change of what no clause speaks of, or to nothing.\<close>

lemma page_sound_same:
  assumes "page_sound w codes pg" "pg_sent pg' = pg_sent pg" "pg_token pg' = pg_token pg" "pg_agent pg' = pg_agent pg"
    and "pg_permit pg' \<in> {None, pg_permit pg}" "pg_bundle pg' \<in> {None, pg_bundle pg}" "pg_report pg' \<in> {None, pg_report pg}"
  shows "page_sound w codes pg'"
  using assms unfolding page_sound_def by auto

lemma same_sound:
  assumes "browser_sound w codes b" "pg_sent (f (br_page b)) = pg_sent (br_page b)" "pg_token (f (br_page b)) = pg_token (br_page b)"
    "pg_agent (f (br_page b)) = pg_agent (br_page b)" "pg_permit (f (br_page b)) \<in> {None, pg_permit (br_page b)}"
    "pg_bundle (f (br_page b)) \<in> {None, pg_bundle (br_page b)}" "pg_report (f (br_page b)) \<in> {None, pg_report (br_page b)}"
  shows "browser_sound w codes (set_page f b)"
  by (rule set_page_sound [where f = f]) (use assms page_sound_same [OF _ assms(2-7)] in blast)+


section \<open>Steps preserve it\<close>

lemma agent_send_sound:
  assumes "browser_sound w codes b" "\<And>e. agentAuth (br_page b) = Inl e \<Longrightarrow> browser_sound w codes (failed e b)"
    and "\<And>token. issued w (pg_sent (br_page b)) token \<Longrightarrow>
      sourced w codes (pg_sent (br_page b)) (agent_request mthd target body (''Bearer '' @ token))
      \<and> awaited w codes (pg_sent (br_page b)) (agent_request mthd target body (''Bearer '' @ token)) t"
  shows "browser_sound w codes (agent_send t mthd target body failed b)"
proof (cases "pg_token (br_page b)")
  case (Some token)
  then have "issued w (pg_sent (br_page b)) token" using assms(1) by (simp add: browser_sound_def page_sound_def)
  then show ?thesis using Some assms(1,3) sent_sound by (simp add: agent_send_def agentAuth_def)
qed (use assms(2) in \<open>simp add: agent_send_def agentAuth_def\<close>)

lemma recover_sound:
  assumes "browser_sound w codes b"
  shows "browser_sound w codes (recover_then a e b)"
proof -
  have "browser_sound w codes (set_page (\<lambda>pg. pg \<lparr> pg_permit := None \<rparr>) b)" by (rule same_sound) (use assms in simp_all)
  moreover have "browser_sound w codes (set_page (finished a) b)"
    by (rule same_sound) (use assms in \<open>simp_all add: finished_def split: after.split\<close>)
  ultimately show ?thesis by (auto simp: recover_then_def awaited_def intro!: sent_sound sourced.session)
qed

lemma failed_sound:
  assumes "browser_sound w codes b"
  shows "browser_sound w codes (approval_failed e b)" "browser_sound w codes (run_failed e b)"
    "browser_sound w codes (extra_failed e b)" "browser_sound w codes (fetch_failed e b)"
  unfolding approval_failed_def run_failed_def extra_failed_def fetch_failed_def
  by (intro recover_sound same_sound; use assms in simp)+

lemma send_verify_sound:
  assumes "browser_sound w codes b" "evidenced w (pg_sent (br_page b)) e" "mode \<in> {''offline'', ''online''}"
  shows "browser_sound w codes (send_verify in_run e mode b)"
proof -
  have "browser_sound w codes (set_page (\<lambda>pg. pg \<lparr> pg_verifying := Some mode, pg_evidenceError := None \<rparr>) b)"
    by (rule same_sound) (use assms in simp_all)
  then show ?thesis unfolding send_verify_def
    by (rule sent_sound) (use assms sourced.verify in \<open>auto simp: set_page_def awaited_def\<close>)
qed

lemma send_demo_sound:
  assumes "browser_sound w codes b" "body \<in> set page_bodies" "\<And>e. browser_sound w codes (failed e b)"
    and "\<And>token. awaited w codes (pg_sent (br_page b)) (demo_call token body) t"
  shows "browser_sound w codes (agent_send t ''POST'' ''/demo'' (Some (json_stringify (JObj body))) failed b)"
  using assms sourced.demo [OF _ assms(2)] unfolding demo_call_def by (intro agent_send_sound) blast+

lemma act_sound:
  assumes "browser_sound w codes b" "possible codes a"
  shows "browser_sound w codes (start_action a b)"
proof (cases a)
  case (Approve approvalCode)
  have "browser_sound w codes (set_page (\<lambda>pg. pg \<lparr> pg_approving := True, pg_approvalError := None \<rparr>) b)"
    by (rule same_sound) (use assms in simp_all)
  moreover have "named w (pg_sent (br_page b)) agent" if "pg_agent (br_page b) = Some agent" for agent
    using assms(1) that by (simp add: browser_sound_def page_sound_def)
  moreover have "approvalCode \<in> codes" using assms(2) Approve by (simp add: possible_def)
  moreover from this have "awaited w codes s (approve_call agent approvalCode (fst APPROVED) (snd APPROVED)) PermitAnswer" for s agent
    unfolding awaited_def by simp blast
  ultimately show ?thesis using assms(1) Approve
    by (auto simp: start_action_def set_page_def intro!: sent_sound sourced.approval split: option.split)
next
  case (Run kind)
  have ok: "browser_sound w codes (set_page (\<lambda>pg. pg \<lparr> pg_running := Some kind, pg_runError := None \<rparr>) b)"
    by (rule same_sound) (use assms in simp_all)
  have "run_body (if kind = AllowRun then APPROVED else VIOLATION) \<in> set page_bodies" by (simp add: page_bodies_def)
  moreover have "awaited w codes s (demo_call token (run_body (if kind = AllowRun then APPROVED else VIOLATION))) (RunAnswer kind)"
    for s token
    unfolding awaited_def by simp blast
  ultimately show ?thesis using send_demo_sound [OF ok, where failed = run_failed and t = "RunAnswer kind"] failed_sound(2) [OF ok]
    by (simp add: Run start_action_def del: json_stringify.simps)
next
  case (Extra label body)
  then have "body \<in> set page_bodies" using assms(2) by (simp add: possible_def page_bodies_def)
  moreover have "awaited w codes s (demo_call token body) (ExtraAnswer label)" for s token unfolding awaited_def by simp blast
  ultimately show ?thesis using Extra assms(1) by (simp add: start_action_def send_demo_sound failed_sound del: json_stringify.simps)
next
  case (Verify mode)
  moreover have "evidenced w (pg_sent (br_page b)) e" if "pg_bundle (br_page b) = Some e" for e
    using assms(1) that by (simp add: browser_sound_def page_sound_def)
  ultimately show ?thesis using assms send_verify_sound
    by (cases "pg_bundle (br_page b)") (simp_all add: start_action_def possible_def)
qed


text \<open>The answer to a waiting call.\<close>

lemma run_answered_sound:
  assumes "browser_sound w codes b"
    and "\<And>x. completed_purchase kind (pr_response run) = Some x \<Longrightarrow> purchased w (pg_sent (br_page b)) x"
  shows "browser_sound w codes (run_answered kind run b)"
proof -
  let ?b = "set_page (\<lambda>pg. pg \<lparr> pg_runs := (pg_runs pg)(kind := Some run), pg_latest := Some kind \<rparr>) b"
  have ok: "browser_sound w codes ?b" by (rule same_sound) (use assms in simp_all)
  have stop: "browser_sound w codes (set_page (\<lambda>pg. pg \<lparr> pg_running := None \<rparr>) ?b)" by (rule same_sound) (use ok in simp_all)
  have clear: "browser_sound w codes (set_page (\<lambda>pg. pg \<lparr> pg_bundle := None, pg_report := None \<rparr>) ?b)"
    by (rule same_sound) (use ok in simp_all)
  have "browser_sound w codes (agent_send EvidenceAnswer ''GET'' (evidence_path x) None fetch_failed
      (set_page (\<lambda>pg. pg \<lparr> pg_bundle := None, pg_report := None \<rparr>) ?b))" if "purchased w (pg_sent (br_page b)) x" for x
    using that clear failed_sound(4) sourced.evidence [of w _ _ x codes]
    by (intro agent_send_sound) (auto simp: set_page_def awaited_def evidence_call_def)
  then show ?thesis using stop assms(2) by (auto simp: run_answered_def Let_def split: option.split)
qed

lemma page_sound_token:
  "page_sound w codes pg \<Longrightarrow> (\<And>t. session_result a = Inr t \<Longrightarrow> issued w (pg_sent pg) t) \<Longrightarrow> page_sound w codes (session_answered a pg)"
  by (auto simp: page_sound_def session_answered_def split: sum.split)

lemma answer_sound:
  assumes b: "browser_sound w codes b" and i: "i < length (pg_sent (br_page b))"
    and t: "awaited w codes (pg_sent (br_page b)) (pg_sent (br_page b) ! i) t"
  shows "browser_sound w codes (resume w t (ww_fetch w i (pg_sent (br_page b) ! i)) b)"
proof -
  let ?s = "pg_sent (br_page b)"
  let ?a = "ww_fetch w i (?s ! i)"
  note at = answered_at [OF i]
  have pg: "page_sound w codes (br_page b)" using b by (simp add: browser_sound_def)
  have token: "issued w ?s u" if "?s ! i = session_call" "session_result ?a = Inr u" for u
    unfolding issued_def by (rule at) (use that in simp_all)
  show ?thesis
  proof (cases t)
    case SessionAnswer
    then show ?thesis using b t token page_sound_token
      by (auto simp: resume_def awaited_def session_answered_def intro!: set_page_sound split: sum.split)
  next
    case IdentityAnswer
    then have "named w ?s (jstr v)" if "member ''agent'' (api_json ?a) = Inr v" for v
      unfolding named_def by (intro at) (use that t in \<open>auto simp: awaited_def\<close>)
    then show ?thesis using IdentityAnswer b
      by (auto simp: resume_def page_sound_def intro!: set_page_sound split: sum.split)
  next
    case TermsAnswer
    then show ?thesis using b by (auto simp: resume_def page_sound_def intro!: set_page_sound split: sum.split)
  next
    case PermitAnswer
    then have p: "permitted w codes ?s v" if "member ''permit'' (api_json ?a) = Inr v" for v
      unfolding permitted_def by (intro at) (use that t in \<open>auto simp: awaited_def\<close>)
    have "browser_sound w codes (agent_send (InstallAnswer v) ''POST'' ''/permit'' (permit_body v) approval_failed b)"
      if "permitted w codes ?s v" for v
      using that b failed_sound(1) [OF b] sourced.install [of w ?s _ codes v]
      by (intro agent_send_sound) (auto simp: awaited_def install_call_def)
    with p show ?thesis using PermitAnswer b failed_sound(1) by (auto simp: resume_def split: sum.split)
  next
    case (InstallAnswer p)
    then obtain token where p: "permitted w codes ?s p" "issued w ?s token" "?s ! i = install_call token p"
      using t by (auto simp: awaited_def)
    then have "installed w ?s p" if "isOk (api_json ?a)" unfolding installed_def
      using that by (intro exI [of _ token] conjI at) simp_all
    then show ?thesis using InstallAnswer b p failed_sound(1)
      by (auto simp: resume_def isOk_iff page_sound_def intro!: set_page_sound split: sum.split)
  next
    case (RunAnswer kind)
    have "purchased w ?s x" if "run_result w ?a = Inr run" "completed_purchase kind (pr_response run) = Some x" for run x
    proof -
      have "kind = AllowRun" using that(2) by (auto simp: completed_purchase_def split: option.splits if_splits)
      then show ?thesis unfolding purchased_def using that t RunAnswer by (intro at) (auto simp: awaited_def)
    qed
    with run_answered_sound [OF b] failed_sound(2) [OF b] show ?thesis
      unfolding RunAnswer resume_def by (cases "run_result w ?a") simp_all
  next
    case EvidenceAnswer
    then have e: "evidenced w ?s e" if "evidence_result ?a = Inr e" for e
      unfolding evidenced_def using that t by (intro at) (auto simp: awaited_def)
    have "browser_sound w codes (send_verify True e ''offline'' (set_page (\<lambda>pg. pg \<lparr> pg_bundle := Some e \<rparr>) b))" if "evidenced w ?s e" for e
      by (intro send_verify_sound set_page_sound) (use that b in \<open>auto simp: page_sound_def set_page_def\<close>)
    with e show ?thesis using EvidenceAnswer b failed_sound(4) by (auto simp: resume_def split: sum.split)
  next
    case (ReportAnswer in_run)
    then obtain e mode where e: "evidenced w ?s e" "?s ! i = verify_call e mode" using t by (auto simp: awaited_def)
    then have "reported w ?s r" if "report_result w ?a = Inr r" for r
      unfolding reported_def using that by (intro exI [of _ e] conjI at exI [of _ mode]) auto
    then show ?thesis using ReportAnswer b
      by (auto simp: resume_def page_sound_def report_answered_def Let_def intro!: set_page_sound split: sum.split)
  next
    case (ExtraAnswer label)
    then show ?thesis using b failed_sound(3) by (auto simp: resume_def intro!: same_sound split: sum.split)
  next
    case (RecoveryAnswer a)
    then have "page_sound w codes (session_answered ?a (br_page b))"
      using pg t token page_sound_token by (simp add: awaited_def)
    then have "page_sound w codes (finished a (session_answered ?a (br_page b)))"
      by (rule page_sound_same) (simp_all add: finished_def split: after.split)
    then show ?thesis using RecoveryAnswer b
      by (auto simp: resume_def finished_def session_answered_def intro!: set_page_sound split: sum.split after.split)
  qed
qed

lemma fewer_pending_sound: "browser_sound w codes b \<Longrightarrow> set ps \<subseteq> set (br_pending b) \<Longrightarrow> browser_sound w codes (b \<lparr> br_pending := ps \<rparr>)"
  by (auto simp: browser_sound_def)

lemma step_sound: "browser_step w codes b b' \<Longrightarrow> browser_sound w codes b \<Longrightarrow> browser_sound w codes b'"
proof (induction rule: browser_step.induct)
  case (answer x b)
  obtain i t where x: "x = (i, t)" by fastforce
  have "browser_sound w codes (b \<lparr> br_pending := remove1 x (br_pending b) \<rparr>)"
    using answer(2) by (rule fewer_pending_sound) (rule set_remove1_subset)
  moreover have "i < length (pg_sent (br_page b)) \<and> awaited w codes (pg_sent (br_page b)) (pg_sent (br_page b) ! i) t"
    using answer x by (auto simp: browser_sound_def)
  ultimately show ?case using answer_sound [of w codes "b \<lparr> br_pending := remove1 x (br_pending b) \<rparr>" i t] x
    by (simp add: take_answer_def)
qed (simp add: act_sound)

lemma loading_sound: "browser_sound w codes loading"
  unfolding loading_def
  by (intro sent_sound)
    (auto simp: browser_sound_def page_sound_def initial_page_def awaited_def send_def intro: sourced.intros)

lemma steps_sound: "browser_steps w codes loading b \<Longrightarrow> browser_sound w codes b"
  by (induction rule: rtranclp_induct) (auto intro: loading_sound step_sound)

section \<open>A sample visit\<close>

text \<open>The agent buys twice, as i1 and i2; the text of a bundle is the path it was asked at, and a report names the bundle it
  is about.\<close>

definition sample_shop :: web_world where
  "sample_shop = \<lparr> ww_fetch = (\<lambda>j c.
       if wc_path c = ''/session'' then answer_json 201 (JObj [(''token'', JStr ''tok'')])
       else if wc_path c = ''/identity'' then answer_json 200 (JObj [(''agent'', JStr ''KA'')])
       else if wc_path c = ''/approvals'' then
         (if wc_authorization c = Some ''Bearer code'' then answer_json 201 (JObj [(''permit'', JStr ''p'')])
          else answer_json 401 (JObj []))
       else if wc_path c = ''/demo'' then answer_json 200 (JStr (if j = 5 then ''i1'' else ''i2''))
       else if wc_api c = VerifierApi then answer_json 200 (JObj [(''report'', JStr (the (wc_body c)))])
       else Some \<lparr> wa_status = 200, wa_json = Some (JObj []), wa_text = wc_path c \<rparr>),
     ww_demo = (\<lambda>v. bought \<lparr> dr_invocationId := Some (jstr v) \<rparr>),
     ww_report = (\<lambda>v. sample_report \<lparr> rp_invocationId := Some (jstr v) \<rparr>) \<rparr>"

definition first_purchase :: "move list" where
  "first_purchase = [AnswerTo 0, AnswerTo 0, AnswerTo 0, Act (Approve ''code''), AnswerTo 0, AnswerTo 0,
     Act (Run AllowRun), AnswerTo 0, AnswerTo 0, AnswerTo 0]"

text \<open>The online verification of the first bundle is slower than the whole second purchase.\<close>

definition slow_verification :: "move list" where
  "slow_verification = [Act (Verify ''online''), Act (Run AllowRun), AnswerTo 1, AnswerTo 1, AnswerTo 1, AnswerTo 0]"

definition shown_evidence :: "browser \<Rightarrow> string option \<times> string option option" where
  "shown_evidence b = (pg_bundle (br_page b), map_option rp_invocationId (pg_report (br_page b)))"

lemma sample_moves:
  "map_option (\<lambda>b. (shown_evidence b, pg_permit (br_page b))) (run_moves sample_shop [''code''] first_purchase loading)
     = Some ((Some ''/evidence/i1'', Some (Some ''/evidence/i1'')), Some (JStr ''p''))"
  by code_simp

lemma old_report_beside_new_bundle:
  "map_option (\<lambda>b. (shown_evidence b, br_pending b)) (run_moves sample_shop [''code''] (first_purchase @ slow_verification) loading)
     = Some ((Some ''/evidence/i2'', Some (Some ''/evidence/i1'')), [])"
  by code_simp

section \<open>Property\<close>

text \<open>C21. Whatever the user does and in whatever order the answers arrive: every call is one of the page's eight and made of
  what was answered before it (sourced).  The approval code goes only into the Authorization of POST /approvals; the token is one
  the agent issued and goes only into the Authorization of a call to the agent; what is installed is a permit the approver
  answered; what is verified is a text the agent answered for a purchase.  The permit shown was answered by the approver to
  a code the user typed, and an installation of it was accepted under an issued token; the bundle shown was
  answered for a purchase, and the report shown is one the verifier answered for such a bundle.\<close>

theorem page_consistent:
  assumes "browser_steps w codes loading b"
  shows "(\<forall>i < length (pg_sent (br_page b)). sourced w codes (take i (pg_sent (br_page b))) (pg_sent (br_page b) ! i))
    \<and> (\<forall>p. pg_permit (br_page b) = Some p \<longrightarrow>
         permitted w codes (pg_sent (br_page b)) p \<and> installed w (pg_sent (br_page b)) p)
    \<and> (\<forall>e. pg_bundle (br_page b) = Some e \<longrightarrow> evidenced w (pg_sent (br_page b)) e)
    \<and> (\<forall>r. pg_report (br_page b) = Some r \<longrightarrow> reported w (pg_sent (br_page b)) r)"
  using steps_sound [OF assms] by (simp add: browser_sound_def page_sound_def)

theorem page_consistent_witness:
  "\<exists>b. run_moves sample_shop [''code''] first_purchase loading = Some b \<and> permitted sample_shop {''code''} (pg_sent (br_page b)) (JStr ''p'')
     \<and> installed sample_shop (pg_sent (br_page b)) (JStr ''p'') \<and> evidenced sample_shop (pg_sent (br_page b)) ''/evidence/i1''"
proof -
  obtain b where b: "run_moves sample_shop [''code''] first_purchase loading = Some b" "pg_permit (br_page b) = Some (JStr ''p'')"
      "pg_bundle (br_page b) = Some ''/evidence/i1''"
    using sample_moves by (auto simp: shown_evidence_def)
  from page_consistent [OF moves_are_steps [OF b(1)]] b show ?thesis by auto
qed

end
