(* ===== verification/Store_Schema.thy ===== *)
theory Store_Schema
  imports Authority_Store
begin

text \<open>
  apps/authority/src/store/sqlite-store.ts: the schema of the database, its versions and their migrations.

  A database is its \<open>user_version\<close>, its tables with their columns, constraints and rows, and its indexes; the SQL of a
  version is the list of its statements, executed as SQLite does: a statement that fails throws, an added column is
  NULL in every row.  \<open>Authority_Store\<close> has the rows of version 4 as records.
\<close>

section \<open>Tables\<close>

datatype sql_type = SqlText | SqlInteger

datatype sql_value = SqlNull | TextValue string | IntegerValue int

datatype column_check = Unchecked | CheckAtomic | CheckIn "string list"

record sql_column =
  co_name :: string
  co_type :: sql_type
  co_notNull :: bool
  co_default :: sql_value
  co_check :: column_check

text \<open>\<open>NotNullWhen c v d\<close> is \<open>CHECK (c <> v OR d IS NOT NULL)\<close>; an AUTOINCREMENT key is a primary key.\<close>

datatype table_constraint =
    PrimaryKey "string list"
  | ForeignKey "string list" string "string list"
  | NotNullWhen string string string

record sql_table =
  tb_columns :: "sql_column list"
  tb_constraints :: "table_constraint list"
  tb_rows :: "sql_value list list"

record database =
  db_version :: int
  db_tables :: "(string \<times> sql_table) list"
  db_indexes :: "(string \<times> string \<times> string list) list"

definition names_of :: "database \<Rightarrow> string list" where
  "names_of db = map fst (db_tables db) @ map fst (db_indexes db)"

definition column_names :: "sql_table \<Rightarrow> string list" where
  "column_names t = map co_name (tb_columns t)"

section \<open>Statements\<close>

datatype sql_statement =
    CreateTable string "sql_column list" "table_constraint list"
  | CreateIndex string string "string list"
  | AddColumn string sql_column

definition add_column :: "sql_column \<Rightarrow> sql_table \<Rightarrow> sql_table" where
  "add_column c t = t \<lparr> tb_columns := tb_columns t @ [c], tb_rows := map (\<lambda>row. row @ [co_default c]) (tb_rows t) \<rparr>"

text \<open>\<open>None\<close> is a statement that fails.\<close>

fun exec_statement :: "sql_statement \<Rightarrow> database \<Rightarrow> database option" where
  "exec_statement (CreateTable name columns constraints) db =
     (if name \<in> set (names_of db) then None
      else Some (db \<lparr> db_tables := db_tables db @ [(name, \<lparr> tb_columns = columns, tb_constraints = constraints, tb_rows = [] \<rparr>)] \<rparr>))"
| "exec_statement (CreateIndex name table columns) db =
     (case map_of (db_tables db) table of
        None \<Rightarrow> None
      | Some t \<Rightarrow>
        if name \<in> set (names_of db) \<or> \<not> list_all (\<lambda>c. c \<in> set (column_names t)) columns then None
        else Some (db \<lparr> db_indexes := db_indexes db @ [(name, table, columns)] \<rparr>))"
| "exec_statement (AddColumn table c) db =
     (case map_of (db_tables db) table of
        None \<Rightarrow> None
      | Some t \<Rightarrow>
        if co_name c \<in> set (column_names t) \<or> co_notNull c \<and> co_default c = SqlNull then None
        else Some (db \<lparr> db_tables := map (\<lambda>(n, t). (n, if n = table then add_column c t else t)) (db_tables db) \<rparr>))"

fun exec_sql :: "sql_statement list \<Rightarrow> database \<Rightarrow> database option" where
  "exec_sql [] db = Some db"
| "exec_sql (s # ss) db = Option.bind (exec_statement s db) (exec_sql ss)"

section \<open>The versions\<close>

definition text_not_null :: "string \<Rightarrow> sql_column" where
  "text_not_null n = \<lparr> co_name = n, co_type = SqlText, co_notNull = True, co_default = SqlNull, co_check = Unchecked \<rparr>"

definition text_column :: "string \<Rightarrow> sql_column" where
  "text_column n = \<lparr> co_name = n, co_type = SqlText, co_notNull = False, co_default = SqlNull, co_check = Unchecked \<rparr>"

definition integer_not_null :: "string \<Rightarrow> sql_column" where
  "integer_not_null n = \<lparr> co_name = n, co_type = SqlInteger, co_notNull = True, co_default = SqlNull, co_check = Unchecked \<rparr>"

definition atomic_column :: "string \<Rightarrow> sql_column" where
  "atomic_column n = (text_not_null n) \<lparr> co_check := CheckAtomic \<rparr>"

definition INVOCATION_STATES :: "string list" where
  "INVOCATION_STATES = [''RESERVED'', ''DENIED'', ''CONFIRMED'', ''FAILED'', ''RECONCILIATION_REQUIRED'']"

definition SCHEMA_V1 :: "sql_statement list" where
  "SCHEMA_V1 =
     [CreateTable ''grants''
        [text_not_null ''issuer'', text_not_null ''grant_id'', text_not_null ''permit_digest'',
         atomic_column ''max_total_atomic'', atomic_column ''reserved_atomic'', atomic_column ''consumed_atomic'',
         integer_not_null ''created_at'', integer_not_null ''updated_at'']
        [PrimaryKey [''issuer'', ''grant_id'']],
      CreateTable ''invocations''
        [text_not_null ''invocation_id'', text_not_null ''fingerprint'', text_not_null ''issuer'', text_not_null ''grant_id'',
         text_not_null ''agent'', text_not_null ''request_json'', atomic_column ''amount_atomic'',
         (text_not_null ''state'') \<lparr> co_check := CheckIn INVOCATION_STATES \<rparr>,
         (text_not_null ''reason_codes_json'') \<lparr> co_default := TextValue ''[]'' \<rparr>,
         text_column ''payment_transaction_id'', text_column ''receipt_json'', text_column ''state_reason'',
         integer_not_null ''decided_at'', integer_not_null ''created_at'', integer_not_null ''updated_at'']
        [PrimaryKey [''invocation_id''], ForeignKey [''issuer'', ''grant_id''] ''grants'' [''issuer'', ''grant_id''],
         NotNullWhen ''state'' ''CONFIRMED'' ''payment_transaction_id''],
      CreateIndex ''invocations_by_state'' ''invocations'' [''state''],
      CreateTable ''invocation_transitions''
        [integer_not_null ''id'', text_not_null ''invocation_id'', text_column ''from_state'', text_not_null ''to_state'',
         text_column ''reason'', integer_not_null ''at'']
        [PrimaryKey [''id''], ForeignKey [''invocation_id''] ''invocations'' [''invocation_id'']]]"

definition SCHEMA_V2 :: "sql_statement list" where
  "SCHEMA_V2 =
     [AddColumn ''invocations'' (text_column ''payment_requirement_json''),
      AddColumn ''invocations'' (text_column ''payment_attempt_json''),
      AddColumn ''invocations'' (text_column ''settlement_json''),
      AddColumn ''invocations'' (text_column ''result_json'')]"

definition SCHEMA_V3 :: "sql_statement list" where
  "SCHEMA_V3 = [AddColumn ''invocations'' (text_column ''authorization_json'')]"

definition SCHEMA_V4 :: "sql_statement list" where
  "SCHEMA_V4 = [AddColumn ''invocations'' (text_column ''service_authorization_json'')]"

definition MIGRATIONS :: "(int \<times> sql_statement list) list" where
  "MIGRATIONS = [(1, SCHEMA_V1), (2, SCHEMA_V2), (3, SCHEMA_V3), (4, SCHEMA_V4)]"

definition SQLITE_SCHEMA_VERSION :: int where
  "SQLITE_SCHEMA_VERSION = 4"

section \<open>Opening a database\<close>

datatype migration_error = SchemaNewer | StatementFailed | LockTimeout

text \<open>
  \<open>others\<close> is what other processes do to the file between the read of the version and \<open>BEGIN IMMEDIATE\<close>; \<open>locked\<close>
  says that the write lock was not free within the busy timeout.
\<close>

definition migrate ::
  "(database \<Rightarrow> database) \<Rightarrow> bool \<Rightarrow> database \<Rightarrow> (migration_error + unit) \<times> database" where
  "migrate others locked db =
     (let version = db_version db; pending = filter (\<lambda>m. fst m > version) MIGRATIONS in
      if version > SQLITE_SCHEMA_VERSION then (Inl SchemaNewer, db)
      else if length pending = 0 then (Inr (), db)
      else let db = others db in
        if locked then (Inl LockTimeout, db)
        else case exec_sql (concat (map snd pending)) db of
          None \<Rightarrow> (Inl StatementFailed, db)
        | Some db' \<Rightarrow> (Inr (), db' \<lparr> db_version := SQLITE_SCHEMA_VERSION \<rparr>))"

abbreviation migrate_alone :: "database \<Rightarrow> (migration_error + unit) \<times> database" where
  "migrate_alone \<equiv> migrate (\<lambda>db. db) False"

section \<open>Schemas\<close>

type_synonym schema = "(string \<times> sql_column list \<times> table_constraint list) list \<times> (string \<times> string \<times> string list) list"

definition schema_of :: "database \<Rightarrow> schema" where
  "schema_of db = (map (\<lambda>(n, t). (n, tb_columns t, tb_constraints t)) (db_tables db), db_indexes db)"

definition new_database :: database where
  "new_database = \<lparr> db_version = 0, db_tables = [], db_indexes = [] \<rparr>"

text \<open>The schema that the first versions give on a new database.\<close>

definition schema_at :: "int \<Rightarrow> schema" where
  "schema_at v = schema_of (the (exec_sql (concat (map snd (filter (\<lambda>m. fst m \<le> v) MIGRATIONS))) new_database))"

definition at_version :: "int \<Rightarrow> database \<Rightarrow> bool" where
  "at_version v db \<longleftrightarrow> db_version db = v \<and> schema_of db = schema_at v"

section \<open>Constraints and contents\<close>

definition value_ok :: "sql_column \<Rightarrow> sql_value \<Rightarrow> bool" where
  "value_ok c v =
     (case v of
        SqlNull \<Rightarrow> \<not> co_notNull c
      | TextValue s \<Rightarrow> co_type c = SqlText
          \<and> (case co_check c of Unchecked \<Rightarrow> True | CheckAtomic \<Rightarrow> atomicCheck s | CheckIn ss \<Rightarrow> s \<in> set ss)
      | IntegerValue _ \<Rightarrow> co_type c = SqlInteger \<and> co_check c = Unchecked)"

definition cell :: "sql_table \<Rightarrow> sql_value list \<Rightarrow> string \<Rightarrow> sql_value option" where
  "cell t row c = map_of (zip (column_names t) row) c"

definition select :: "sql_table \<Rightarrow> string list \<Rightarrow> sql_value option list list" where
  "select t cs = map (\<lambda>row. map (cell t row) cs) (tb_rows t)"

fun constraint_ok :: "database \<Rightarrow> sql_table \<Rightarrow> table_constraint \<Rightarrow> bool" where
  "constraint_ok db t (PrimaryKey ks) \<longleftrightarrow> set ks \<subseteq> set (column_names t) \<and> distinct (select t ks)"
| "constraint_ok db t (ForeignKey ks other ks') \<longleftrightarrow> set ks \<subseteq> set (column_names t)
     \<and> (case map_of (db_tables db) other of
          None \<Rightarrow> False
        | Some o' \<Rightarrow> set ks' \<subseteq> set (column_names o') 
          \<and> (\<forall>r \<in> set (select t ks). Some SqlNull \<in> set r \<or> r \<in> set (select o' ks')))"
| "constraint_ok db t (NotNullWhen c v d) \<longleftrightarrow> {c, d} \<subseteq> set (column_names t)
     \<and> [Some (TextValue v), Some SqlNull] \<notin> set (select t [c, d])"

definition table_ok :: "database \<Rightarrow> sql_table \<Rightarrow> bool" where
  "table_ok db t \<longleftrightarrow>
     distinct (column_names t) \<and> list_all (\<lambda>row. list_all2 value_ok (tb_columns t) row) (tb_rows t)
     \<and> list_all (constraint_ok db t) (tb_constraints t)"

definition database_ok :: "database \<Rightarrow> bool" where
  "database_ok db \<longleftrightarrow> distinct (names_of db) \<and> list_all (\<lambda>(n, t). table_ok db t) (db_tables db)"

section \<open>Added columns\<close>

text \<open>A column that may be added to any table: nullable, and the rows it is added to get NULL.\<close>

definition nullable :: "sql_column \<Rightarrow> bool" where
  "nullable c \<longleftrightarrow> \<not> co_notNull c \<and> co_default c = SqlNull"

definition added_to :: "string \<Rightarrow> sql_column \<Rightarrow> database \<Rightarrow> database" where
  "added_to name c db = db \<lparr> db_tables := map (\<lambda>(n, t). (n, if n = name then add_column c t else t)) (db_tables db) \<rparr>"

lemma added_to_tables: "map_of (db_tables (added_to name c db)) n
    = map_option (\<lambda>t. if n = name then add_column c t else t) (map_of (db_tables db) n)"
proof -
  have "map_of (map (\<lambda>(n, t). (n, if n = name then add_column c t else t)) ts) n
      = map_option (\<lambda>t. if n = name then add_column c t else t) (map_of ts n)" for ts
    by (induction ts) auto
  then show ?thesis by (simp add: added_to_def)
qed

lemma added_to_same [simp]: "db_version (added_to name c db) = db_version db" "db_indexes (added_to name c db) = db_indexes db"
  "names_of (added_to name c db) = names_of db"
  by (auto simp: added_to_def names_of_def)

lemma add_column_names [simp]: "column_names (add_column c t) = column_names t @ [co_name c]"
  "tb_constraints (add_column c t) = tb_constraints t"
  by (simp_all add: add_column_def column_names_def)

lemma exec_add_column:
  "exec_statement (AddColumn name c) db = Some db' \<Longrightarrow> db' = added_to name c db"
  by (auto simp: added_to_def split: option.splits if_splits)

definition rows_fit :: "sql_table \<Rightarrow> bool" where
  "rows_fit t \<longleftrightarrow> list_all (\<lambda>row. length row = length (tb_columns t)) (tb_rows t)"

lemma table_ok_fit: "table_ok db t \<Longrightarrow> rows_fit t"
  by (auto simp: table_ok_def rows_fit_def list_all_iff dest!: list_all2_lengthD)

lemma cell_add_column:
  assumes "length row = length (tb_columns t)"
  shows "cell (add_column c t) (row @ [v]) n =
    (case cell t row n of Some x \<Rightarrow> Some x | None \<Rightarrow> if n = co_name c then Some v else None)"
proof -
  have "cell (add_column c t) (row @ [v]) n = (map_of (zip (column_names t) row @ [(co_name c, v)])) n"
    using assms by (simp add: cell_def column_names_def zip_append add_column_def)
  also have "\<dots> = (case map_of (zip (column_names t) row) n of Some x \<Rightarrow> Some x | None \<Rightarrow> if n = co_name c then Some v else None)"
    unfolding map_of_append by (auto simp: map_add_def split: option.split)
  finally show ?thesis by (simp add: cell_def)
qed

lemma cell_None:
  "length row = length (tb_columns t) \<Longrightarrow> cell t row n = None \<longleftrightarrow> n \<notin> set (column_names t)"
  by (simp add: cell_def map_of_zip_is_None column_names_def)

text \<open>Reading other columns gives what it gave; the new column is NULL everywhere.\<close>

lemma select_add_column:
  assumes "rows_fit t" "set cs \<subseteq> set (column_names t)"
  shows "select (add_column c t) cs = select t cs"
proof -
  have "cell (add_column c t) (row @ [v]) n = cell t row n"
    if "row \<in> set (tb_rows t)" "n \<in> set cs" for row n v
    using that assms cell_None [of row t n] by (auto simp: cell_add_column rows_fit_def list_all_iff split: option.split)
  then show ?thesis by (auto simp: select_def add_column_def)
qed

lemma select_new_column:
  assumes "rows_fit t" "co_name c \<notin> set (column_names t)"
  shows "select (add_column c t) [co_name c] = replicate (length (tb_rows t)) [Some (co_default c)]"
proof -
  have "cell (add_column c t) (row @ [v]) (co_name c) = Some v" if "row \<in> set (tb_rows t)" for row v
    using that assms cell_None [of row t "co_name c"] by (auto simp: cell_add_column rows_fit_def list_all_iff split: option.split)
  then show ?thesis by (auto simp: select_def add_column_def map_replicate_const [symmetric])
qed

text \<open>The constraints hold with the added column.\<close>

lemma select_added:
  assumes "table_ok db t" "set cs \<subseteq> set (column_names t)"
  shows "select (if n = name then add_column c t else t) cs = select t cs"
  using select_add_column [OF table_ok_fit [OF assms(1)] assms(2)] by simp

lemma constraint_added:
  assumes ok: "database_ok db" and t: "table_ok db t" and con: "constraint_ok db t k"
  shows "constraint_ok (added_to name c db) (if n = name then add_column c t else t) k"
proof -
  let ?t = "if n = name then add_column c t else t"
  have sub: "set cs \<subseteq> set (column_names t) \<Longrightarrow> set cs \<subseteq> set (column_names ?t)" for cs by auto
  show ?thesis
  proof (cases k)
    case (PrimaryKey ks)
    with con show ?thesis using select_added [OF t, of ks n name c] sub [of ks] by (simp split del: if_split)
  next
    case (NotNullWhen x v d)
    with con show ?thesis using select_added [OF t, of "[x, d]" n name c] sub [of "[x, d]"] by (simp split del: if_split)
  next
    case (ForeignKey ks other ks')
    with con obtain o' where o': "map_of (db_tables db) other = Some o'" "set ks' \<subseteq> set (column_names o')"
        "set ks \<subseteq> set (column_names t)" "\<forall>r \<in> set (select t ks). Some SqlNull \<in> set r \<or> r \<in> set (select o' ks')"
      by (auto split: option.splits)
    then have "table_ok db o'" using ok by (auto simp: database_ok_def list_all_iff dest!: map_of_SomeD)
    then have "select (if other = name then add_column c o' else o') ks' = select o' ks'"
      by (rule select_added [OF _ o'(2)])
    then show ?thesis using o' ForeignKey select_added [OF t o'(3), of n name c] sub [OF o'(3)]
      by (auto simp: added_to_tables)
  qed
qed

lemma database_ok_added:
  assumes ok: "database_ok db" and c: "nullable c"
    and fresh: "\<And>t. (name, t) \<in> set (db_tables db) \<Longrightarrow> co_name c \<notin> set (column_names t)"
  shows "database_ok (added_to name c db)"
proof -
  have "table_ok (added_to name c db) (if n = name then add_column c t else t)" if nt: "(n, t) \<in> set (db_tables db)" for n t
  proof -
    have t: "table_ok db t" using ok nt by (auto simp: database_ok_def list_all_iff)
    then have "\<forall>k \<in> set (tb_constraints t). constraint_ok (added_to name c db) (if n = name then add_column c t else t) k"
      using constraint_added [OF ok t] by (simp add: table_ok_def list_all_iff)
    moreover have "value_ok c (co_default c)" using c by (simp add: nullable_def value_ok_def)
    then have "\<forall>row \<in> set (tb_rows (if n = name then add_column c t else t)).
        list_all2 value_ok (tb_columns (if n = name then add_column c t else t)) row"
      using t by (auto simp: table_ok_def list_all_iff add_column_def intro!: list_all2_appendI)
    moreover have "distinct (column_names (if n = name then add_column c t else t))"
      using t fresh [of t] nt by (auto simp: table_ok_def)
    ultimately show ?thesis by (auto simp: table_ok_def list_all_iff)
  qed
  then have "list_all (\<lambda>(n, t). table_ok (added_to name c db) t) (db_tables (added_to name c db))"
    by (auto simp: list_all_iff added_to_def)
  then show ?thesis using ok by (simp add: database_ok_def)
qed

section \<open>What a migration keeps\<close>

text \<open>\<open>db'\<close> has every table and row of \<open>db\<close> with their contents, and NULL in the columns it adds.\<close>

definition extends :: "database \<Rightarrow> database \<Rightarrow> bool" where
  "extends db db' \<longleftrightarrow> (\<forall>n t. map_of (db_tables db) n = Some t \<longrightarrow>
     (\<exists>t'. map_of (db_tables db') n = Some t' \<and> length (tb_rows t') = length (tb_rows t)
        \<and> set (column_names t) \<subseteq> set (column_names t')
        \<and> (\<forall>cs. set cs \<subseteq> set (column_names t) \<longrightarrow> select t' cs = select t cs)
        \<and> (\<forall>c \<in> set (column_names t') - set (column_names t). select t' [c] = replicate (length (tb_rows t)) [Some SqlNull])))"

lemma extends_refl: "extends db db"
  by (simp add: extends_def)

lemma extends_trans: 
  assumes "extends a b" "extends b c"
  shows "extends a c"
  unfolding extends_def
proof (intro allI impI)
  fix n t
  assume t: "map_of (db_tables a) n = Some t"
  obtain u where u: "map_of (db_tables b) n = Some u" "length (tb_rows u) = length (tb_rows t)"
      "set (column_names t) \<subseteq> set (column_names u)" "\<And>cs. set cs \<subseteq> set (column_names t) \<Longrightarrow> select u cs = select t cs"
      "\<And>x. x \<in> set (column_names u) - set (column_names t) \<Longrightarrow> select u [x] = replicate (length (tb_rows t)) [Some SqlNull]"
    using assms(1) t unfolding extends_def by blast
  obtain w where w: "map_of (db_tables c) n = Some w" "length (tb_rows w) = length (tb_rows u)"
      "set (column_names u) \<subseteq> set (column_names w)" "\<And>cs. set cs \<subseteq> set (column_names u) \<Longrightarrow> select w cs = select u cs"
      "\<And>x. x \<in> set (column_names w) - set (column_names u) \<Longrightarrow> select w [x] = replicate (length (tb_rows u)) [Some SqlNull]"
    using assms(2) u(1) unfolding extends_def by blast
  have "select w [x] = replicate (length (tb_rows t)) [Some SqlNull]" if "x \<in> set (column_names w) - set (column_names t)" for x
    using that u(2,5) w(4) [of "[x]"] w(5) by (cases "x \<in> set (column_names u)") auto
  moreover have "select w cs = select t cs" if "set cs \<subseteq> set (column_names t)" for cs
    using that u(3,4) w(4) by simp
  ultimately show "\<exists>t'. map_of (db_tables c) n = Some t' \<and> length (tb_rows t') = length (tb_rows t)
        \<and> set (column_names t) \<subseteq> set (column_names t')
        \<and> (\<forall>cs. set cs \<subseteq> set (column_names t) \<longrightarrow> select t' cs = select t cs)
        \<and> (\<forall>c \<in> set (column_names t') - set (column_names t). select t' [c] = replicate (length (tb_rows t)) [Some SqlNull])"
    using u(2,3) w(1,2,3) by (intro exI [of _ w]) auto
qed

lemma extends_added:
  assumes "database_ok db" "nullable c" "\<And>t. (name, t) \<in> set (db_tables db) \<Longrightarrow> co_name c \<notin> set (column_names t)"
  shows "extends db (added_to name c db)"
  unfolding extends_def
proof (intro allI impI)
  fix n t
  assume t: "map_of (db_tables db) n = Some t"
  then have fit: "rows_fit t" using assms(1) table_ok_fit by (auto simp: database_ok_def list_all_iff dest!: map_of_SomeD)
  let ?t = "if n = name then add_column c t else t"
  have rows: "length (tb_rows ?t) = length (tb_rows t)" "set (column_names t) \<subseteq> set (column_names ?t)"
    by (auto simp: add_column_def column_names_def)
  have old: "select ?t cs = select t cs" if "set cs \<subseteq> set (column_names t)" for cs
    using select_add_column [OF fit that] by simp
  have new: "select ?t [x] = replicate (length (tb_rows t)) [Some SqlNull]" if "x \<in> set (column_names ?t) - set (column_names t)" for x
    using that select_new_column [OF fit, of c] assms(2) by (auto simp: nullable_def split: if_splits)
  show "\<exists>t'. map_of (db_tables (added_to name c db)) n = Some t' \<and> length (tb_rows t') = length (tb_rows t)
        \<and> set (column_names t) \<subseteq> set (column_names t')
        \<and> (\<forall>cs. set cs \<subseteq> set (column_names t) \<longrightarrow> select t' cs = select t cs)
        \<and> (\<forall>c \<in> set (column_names t') - set (column_names t). select t' [c] = replicate (length (tb_rows t)) [Some SqlNull])"
    using t rows old new by (intro exI [of _ ?t]) (simp add: added_to_tables split del: if_split)
qed

section \<open>Adding text columns\<close>

definition widened :: "string \<Rightarrow> string list \<Rightarrow> schema \<Rightarrow> schema" where
  "widened name cs sch = (map (\<lambda>(n, cols, cons). (n, if n = name then cols @ map text_column cs else cols, cons)) (fst sch), snd sch)"

lemma text_column_simps [simp]: "co_name (text_column n) = n" "nullable (text_column n)" "\<not> co_notNull (text_column n)"
  by (simp_all add: text_column_def nullable_def)

lemma schema_added: "schema_of (added_to name (text_column c) db) = widened name [c] (schema_of db)"
  by (auto simp: schema_of_def widened_def added_to_def add_column_def)

lemma widened_Nil [simp]: "widened name [] sch = sch"
  by (cases sch) (auto simp: widened_def intro!: map_idI)

lemma widened_append: "widened name cs (widened name bs sch) = widened name (bs @ cs) sch"
  by (auto simp: widened_def)

lemma add_text_columns:
  assumes "database_ok db" "map_of (db_tables db) name = Some t" "distinct cs" "set cs \<inter> set (column_names t) = {}"
  shows "\<exists>db'. exec_sql (map (\<lambda>c. AddColumn name (text_column c)) cs) db = Some db' \<and> database_ok db' \<and> extends db db'
     \<and> db_version db' = db_version db \<and> schema_of db' = widened name cs (schema_of db)"
  using assms
proof (induction cs arbitrary: db t)
  case Nil
  then show ?case by (simp add: extends_refl)
next
  case (Cons c cs)
  let ?db = "added_to name (text_column c) db"
  have only: "t' = t" if "(name, t') \<in> set (db_tables db)" for t'
    using Cons.prems(1,2) that by (auto simp: database_ok_def names_of_def)
  have fresh: "co_name (text_column c) \<notin> set (column_names t')" if "(name, t') \<in> set (db_tables db)" for t'
    using only [OF that] Cons.prems(4) by simp
  have ok: "database_ok ?db" "extends db ?db"
    using Cons.prems(1) by (auto intro!: database_ok_added extends_added dest: fresh)
  have "exec_statement (AddColumn name (text_column c)) db = Some ?db"
    using Cons.prems(2,4) by (simp add: added_to_def)
  moreover have "map_of (db_tables ?db) name = Some (add_column (text_column c) t)"
    using Cons.prems(2) by (simp add: added_to_tables)
  then obtain db' where "exec_sql (map (\<lambda>c. AddColumn name (text_column c)) cs) ?db = Some db'" "database_ok db'"
      "extends ?db db'" "db_version db' = db_version ?db" "schema_of db' = widened name cs (schema_of ?db)"
    using Cons.IH [OF ok(1)] Cons.prems(3,4) by fastforce
  ultimately show ?case using extends_trans [OF ok(2)]
    by (auto simp: schema_added widened_append)
qed

end
