(* ===== verification/Authority_Start.thy ===== *)
theory Authority_Start
  imports Key_Files Payments_Provider Store_Schema
begin

text \<open>
  The start of apps/authority/src/index.ts: the checks of the environment, the receipt key and its publication, the
  payment provider on the pinned sandbox, the trust roots, the recovery of interrupted invocations and the
  reconciliation runs.

  A start that throws is \<open>None\<close>, with the files and the state as it left them.  The directories exist; the process
  listens when the start returned.  The store of the state is the content of the database file, \<open>opened\<close> the result of
  opening it (\<open>migrate\<close>).
\<close>

section \<open>The environment\<close>

record authority_env =
  ae_sharedSecret :: "string option"
  ae_audience :: "string option"
  ae_databasePath :: "string option"
  ae_sandboxRpcUrl :: "string option"
  ae_paidReportUrl :: "string option"
  ae_trustedIssuerFile :: "string option"
  ae_receiptKeyFile :: "string option"
  ae_authorityTrustFile :: "string option"
  ae_serviceTrustFile :: "string option"

text \<open>A variable that is absent or empty is refused.\<close>

definition env_given :: "string option \<Rightarrow> bool" where
  "env_given v \<longleftrightarrow> v \<noteq> None \<and> v \<noteq> Some []"

definition env_complete :: "authority_env \<Rightarrow> bool" where
  "env_complete v \<longleftrightarrow>
     (env_given (ae_sandboxRpcUrl v) \<and> env_given (ae_paidReportUrl v)) \<and> env_given (ae_trustedIssuerFile v)
     \<and> (env_given (ae_receiptKeyFile v) \<and> env_given (ae_authorityTrustFile v)) \<and> env_given (ae_serviceTrustFile v)
     \<and> env_given (ae_databasePath v) \<and> env_given (ae_audience v) \<and> shared_secret_accepted (ae_sharedSecret v)"

section \<open>Reconciliation runs\<close>

datatype run_log = ReconciliationRun string "ReconciliationReport list" | ReconciliationError authority_error

definition notable :: "ReconciliationReport list \<Rightarrow> ReconciliationReport list" where
  "notable reports = filter (\<lambda>r. rep_outcome r \<noteq> StillPending \<and> rep_outcome r \<noteq> NoAttemptRecorded) reports"

text \<open>
  One call of \<open>reconcileOnce\<close>: what it logs and the state it leaves.  \<open>reconciling\<close> says that an earlier call has not
  finished; \<open>reconciliation\<close> is the run of the service in progress that this one would share.
\<close>

definition reconcile_tick ::
  "authority \<Rightarrow> (authority_error + ReconciliationReport list) option \<Rightarrow> string \<Rightarrow> bool \<Rightarrow> authority_state
     \<Rightarrow> run_log option \<times> authority_state" where
  "reconcile_tick A reconciliation trigger reconciling s =
     (if reconciling then (None, s)
      else case reconcile A reconciliation s of
        (Inl e, s) \<Rightarrow> (Some (ReconciliationError e), s)
      | (Inr reports, s) \<Rightarrow>
        (if (if trigger = ''startup'' then length reports > 0 else length (notable reports) > 0)
         then Some (ReconciliationRun trigger reports) else None, s))"

section \<open>The start\<close>

definition mock_dataset_reports :: string where
  "mock_dataset_reports = ''mock-dataset-reports''"

definition paid_report :: "string \<Rightarrow> PaidResource" where
  "paid_report url = \<lparr> rc_serviceId = mock_dataset_reports, rc_capability = ''reports.generate'', rc_url = url, rc_method = ''POST'' \<rparr>"

text \<open>What the process is given besides its environment: random bytes for a new key, the generated wallet, event
  identifiers, and the other processes on the database.\<close>

record start_world =
  sw_random :: bytes
  sw_wallet :: address
  sw_uuid :: "nat \<Rightarrow> string"
  sw_others :: "nat \<Rightarrow> (int \<times> store_op) list"
  sw_opened :: "migration_error + unit"

definition start_service ::
  "payment_env \<Rightarrow> authority_env \<Rightarrow> start_world \<Rightarrow> IssuerKey \<Rightarrow> SettlementProfile \<Rightarrow> X402ExactPaymentProvider \<Rightarrow> files
     \<Rightarrow> authority_state \<Rightarrow> authority option \<times> authority_state" where
  "start_service e v w receiptKey profile provider fs s =
     (let px = en_platform e in
      case createPaidServiceRegistry px [paid_report (the (ae_paidReportUrl v))] of
        None \<Rightarrow> (None, s)
      | Some paidServices \<Rightarrow>
        (case loadIssuerEntitlement px (read_text (the (ae_trustedIssuerFile v)) fs) [sp_permitNetwork profile] of
           None \<Rightarrow> (None, s)
         | Some issuerEntitlement \<Rightarrow>
           (case loadPinnedPublicKey px (read_text (the (ae_serviceTrustFile v)) fs) of
              None \<Rightarrow> (None, s)
            | Some serviceKey \<Rightarrow>
              if sw_opened w \<noteq> Inr () then (None, s)
              else
                let A = \<lparr> aa_signer = ik_keyPair receiptKey, aa_address = ik_address receiptKey,
                          aa_audience = the (ae_audience v), aa_issuerEntitlement = issuerEntitlement,
                          aa_trustedServiceKeys = [mock_dataset_reports \<mapsto> serviceKey],
                          aa_provider = x402_provider e provider, aa_paidServices = paidServices,
                          aa_settlementProfiles = [sp_permitNetwork profile \<mapsto> profile],
                          aa_maxRequestAgeMs = 120000, aa_maxFutureSkewMs = 30000, aa_platform = px,
                          aa_world = en_world e, aa_uuid = sw_uuid w, aa_others = sw_others w \<rparr>
                in case recoverInterrupted A s of
                  (Inl _, s) \<Rightarrow> (None, s)
                | (Inr interrupted, s) \<Rightarrow> (Some A, snd (reconcile_tick A None ''startup'' False s)))))"

definition start_authority ::
  "payment_env \<Rightarrow> authority_env \<Rightarrow> start_world \<Rightarrow> files \<Rightarrow> authority_state \<Rightarrow> authority option \<times> files \<times> authority_state" where
  "start_authority e v w fs s =
     (if \<not> env_complete v then (None, fs, s)
      else case loadOrCreateSigningKey (en_platform e) (the (ae_receiptKeyFile v)) (sw_random w) (\<lambda>fs. fs) fs of
        (Inl _, fs) \<Rightarrow> (None, fs, s)
      | (Inr (receiptKey, created), fs) \<Rightarrow>
        let fs = last (publishPublicKey (the (ae_authorityTrustFile v)) (ik_address receiptKey) fs) in
        case solanaPaymentSandboxProfile (en_platform e) (the (ae_sandboxRpcUrl v)) of
          None \<Rightarrow> (None, fs, s)
        | Some profile \<Rightarrow>
          let provider = create_x402_provider
                \<lparr> xo_profile = profile, xo_signer = None, xo_maxResultBytes = None, xo_confirmationWaitMs = None,
                  xo_expiryMarginBlocks = None \<rparr> (sw_wallet w)
          in case assertSandboxEnvironment e provider s of
            (None, s) \<Rightarrow> (None, fs, s)
          | (Some surfnetVersion, s) \<Rightarrow>
            (case fundSandboxWallet e provider SANDBOX_USDC_MINT 100000000 s of
               (None, s) \<Rightarrow> (None, fs, s)
             | (Some _, s) \<Rightarrow>
               (case start_service e v w receiptKey profile provider fs s of (A, s) \<Rightarrow> (A, fs, s))))"

section \<open>The store through a start\<close>

definition none_reserved :: "store \<Rightarrow> bool" where
  "none_reserved st \<longleftrightarrow> store_inv st \<and> (\<forall>x. state_of st x \<noteq> Some inv_state.RESERVED)"

lemma none_reserved_resolve: "none_reserved st \<Longrightarrow> none_reserved (snd (resolveReconciliation x out t st))"
proof -
  assume st: "none_reserved st"
  have "state_of (snd (resolveReconciliation x out t st)) y \<noteq> Some inv_state.RESERVED" for y
  proof (cases "state_of st x = Some inv_state.RECONCILIATION_REQUIRED")
    case True
    with st show ?thesis
      by (cases out) (auto simp: none_reserved_def state_of_def resolve_confirmed_ok resolve_failed_ok
          selectInvocation_set_row split: if_splits)
  next
    case False
    with st show ?thesis by (simp add: none_reserved_def resolveReconciliation_error)
  qed
  with st show ?thesis by (simp add: none_reserved_def store_inv_resolveReconciliation)
qed

lemma none_reserved_attach: "none_reserved st \<Longrightarrow> none_reserved (snd (attachReceipt x r t st))"
proof -
  assume st: "none_reserved st"
  have "state_of (snd (attachReceipt x r t st)) y \<noteq> Some inv_state.RESERVED" for y
  proof (cases "\<exists>i. selectInvocation st x = Some i \<and> inv_state i \<in> {inv_state.DENIED, inv_state.CONFIRMED} \<and> inv_receipt i = None")
    case True
    then obtain i where "selectInvocation st x = Some i" "inv_state i \<in> {inv_state.DENIED, inv_state.CONFIRMED}" "inv_receipt i = None" by blast
    with st attachReceipt_new [of st x i r t] show ?thesis
      by (auto simp: none_reserved_def state_of_def selectInvocation_set_row)
  next
    case False
    then have "snd (attachReceipt x r t st) = st"
      using st by (subst attachReceipt_other) (auto simp: none_reserved_def split: option.splits)
    with st show ?thesis by (simp add: none_reserved_def)
  qed
  with st show ?thesis by (simp add: none_reserved_def store_inv_attachReceipt)
qed

text \<open>Steps of a service that is alone on its database.\<close>

definition keeps_none_reserved :: "'a action \<Rightarrow> bool" where
  "keeps_none_reserved m \<longleftrightarrow> (\<forall>s. none_reserved (au_store s) \<longrightarrow> none_reserved (au_store (snd (m s))))"

definition alone :: "authority \<Rightarrow> bool" where
  "alone A \<longleftrightarrow> (\<forall>n. aa_others A n = [])"

lemma pass_store [simp]: "au_store (pass w s) = au_store s"
  by (simp add: pass_def)

lemma alone_step: "alone A \<Longrightarrow> au_store (snd (store_step A f s)) = snd (f (ns_now s) (au_store s))"
  by (simp add: store_step_def arrived_def alone_def split: prod.split)

lemma alone_call: "alone A \<Longrightarrow> au_store (snd (store_call A f s)) = snd (f (ns_now s) (au_store s))"
  using alone_step [of A f s] by (auto simp: store_call_def split: prod.splits sum.splits)

lemma keeps_bind:
  assumes "keeps_none_reserved m" "\<And>a. keeps_none_reserved (f a)"
  shows "keeps_none_reserved (act_bind m f)"
  unfolding keeps_none_reserved_def
proof (intro allI impI)
  fix s :: authority_state
  assume s: "none_reserved (au_store s)"
  obtain r s1 where r: "m s = (r, s1)" by fastforce
  then have "none_reserved (au_store s1)" using assms(1) s unfolding keeps_none_reserved_def by (metis snd_conv)
  with assms(2) r show "none_reserved (au_store (snd (act_bind m f s)))"
    by (cases r) (simp_all add: act_bind_def keeps_none_reserved_def)
qed

lemma keeps_ensureReceipt: "alone A \<Longrightarrow> keeps_none_reserved (ensureReceipt A i)"
  by (auto simp: keeps_none_reserved_def ensureReceipt_def act_return_def act_fail_def alone_call none_reserved_attach
      split: option.split)

lemma keeps_resolve:
  assumes "alone A" "\<And>i. keeps_none_reserved (after i)"
  shows "keeps_none_reserved (resolve_and A x out after kind)"
  unfolding keeps_none_reserved_def
proof (intro allI impI)
  fix s :: authority_state
  assume s: "none_reserved (au_store s)"
  obtain r s1 where r: "store_step A (resolveReconciliation x out) s = (r, s1)" by fastforce
  have s1: "none_reserved (au_store s1)"
    using alone_step [OF assms(1), of "resolveReconciliation x out" s] none_reserved_resolve [OF s] by (simp add: r)
  then have "none_reserved (au_store (snd (after i s1)))" for i using assms(2) by (simp add: keeps_none_reserved_def)
  then have after: "after i s1 = (b, s2) \<Longrightarrow> none_reserved (au_store s2)" for i b s2 by (metis snd_conv)
  show "none_reserved (au_store (snd (resolve_and A x out after kind s)))"
    using s1 by (auto simp: resolve_and_def r dest: after split: sum.splits store_error.splits prod.splits authority_error.splits)
qed

lemma keeps_reconcile_one:
  assumes "alone A" "\<And>a s. net_state.more (snd (pp_lookupSettlement (aa_provider A) a s)) = net_state.more s"
  shows "keeps_none_reserved (reconcile_one A i)"
  unfolding keeps_none_reserved_def
proof (intro allI impI)
  fix s :: authority_state
  assume s: "none_reserved (au_store s)"
  show "none_reserved (au_store (snd (reconcile_one A i s)))"
  proof (cases "inv_paymentAttempt i")
    case (Some a)
    obtain l s1 where l: "pp_lookupSettlement (aa_provider A) a s = (l, s1)" by fastforce
    then have s1: "none_reserved (au_store s1)" using s assms(2) [of a s] more_store [of s1 s] by simp
    have "keeps_none_reserved (\<lambda>s. resolve_and A (inv_id i) out (\<lambda>c. act_bind (ensureReceipt A c) (\<lambda>_. act_return ())) k s)"
      "keeps_none_reserved (\<lambda>s. resolve_and A (inv_id i) out (\<lambda>_. act_return ()) k s)" for out k
      by (intro keeps_resolve keeps_bind keeps_ensureReceipt assms(1), simp add: keeps_none_reserved_def act_return_def)+
    then show ?thesis using s1 Some l
      by (auto simp: reconcile_one_def Let_def keeps_none_reserved_def split: option.split SettlementLookup.split)
  qed (simp add: reconcile_one_def s)
qed

lemma keeps_reconcile:
  assumes "alone A" "\<And>a s. net_state.more (snd (pp_lookupSettlement (aa_provider A) a s)) = net_state.more s"
  shows "keeps_none_reserved (reconcile A None)"
proof -
  have each: "keeps_none_reserved (reconcile_each A is)" for "is"
  proof (induction "is")
    case (Cons i "is")
    have "keeps_none_reserved (act_bind (reconcile_one A i) (\<lambda>r. act_bind (reconcile_each A is) (\<lambda>rs. act_return (r # rs))))"
      by (intro keeps_bind keeps_reconcile_one assms Cons.IH) (simp add: keeps_none_reserved_def act_return_def)
    then show ?case by (simp add: keeps_none_reserved_def)
  qed (simp add: keeps_none_reserved_def)
  have "keeps_none_reserved (store_read A listReconciliationRequired)"
    using assms(1) by (simp add: keeps_none_reserved_def store_read_def alone_call)
  then have "keeps_none_reserved (reconcileOnce A)" unfolding reconcileOnce_def using each by (intro keeps_bind)
  then show ?thesis by (simp add: keeps_none_reserved_def reconcile_def)
qed

text \<open>Recovery leaves no reservation.\<close>

lemma recovered_none_reserved:
  assumes "alone A" "store_inv (au_store s)" "recoverInterrupted A s = (r, s')"
  shows "none_reserved (au_store s')"
proof -
  let ?f = "recoverInterruptedInvocations ''authority restarted while payment was in progress''"
  have e: "au_store s' = snd (?f (ns_now s) (au_store s))"
    using alone_call [OF assms(1), of ?f s] assms(3) by (simp add: recoverInterrupted_def)
  obtain res st where r: "?f (ns_now s) (au_store s) = (Inr res, st)" "store_inv st"
      "\<forall>y. state_of st y = (case selectInvocation (au_store s) y of None \<Rightarrow> None
         | Some i \<Rightarrow> Some (if inv_state i = inv_state.RESERVED then recovered (inv_paymentAttempt i \<noteq> None) else inv_state i))"
    using recover_ok [OF assms(2), of "''authority restarted while payment was in progress''" "ns_now s"] by blast
  then show ?thesis unfolding e r(1) by (auto simp: none_reserved_def recovered_def split: option.splits)
qed

end
