(* ===== verification/Start_Properties.thy ===== *)
theory Start_Properties
  imports Authority_Start Key_Properties Sample_Provider
begin

text \<open>
  What holds when the authority starts to listen.
\<close>

section \<open>Starts\<close>

lemma incomplete_environment_does_nothing: "\<not> env_complete v \<Longrightarrow> start_authority e v w fs s = (None, fs, s)"
  by (simp add: start_authority_def)

lemma unpaid_sandbox_check: "unpaid s (snd (assertSandboxEnvironment e p s))"
proof -
  have "unpaid t (snd (attempt_bind (freshBlockhash e p t) (\<lambda>_ s. (Some v, s))))" for v :: string and t
    by (rule unpaid_bind [OF unpaid_freshBlockhash]) simp
  then show ?thesis unfolding assertSandboxEnvironment_def
    by (intro unpaid_bind [OF unpaid_rpc]) (auto split: jsval.split)
qed

lemma unpaid_funding: "unpaid s (snd (fundSandboxWallet e p m a s))"
  by (auto simp: fundSandboxWallet_def intro!: unpaid_bind unpaid_rpc)

lemma start_service_facts:
  assumes "start_service e v w key profile provider fs s = (Some A, s')"
  shows "aa_signer A = ik_keyPair key" "aa_address A = ik_address key" "aa_provider A = x402_provider e provider"
    "aa_others A = sw_others w" "aa_platform A = en_platform e"
    "\<exists>r s1. recoverInterrupted A s = (r, s1) \<and> s' = snd (reconcile A None s1)"
    "loadIssuerEntitlement (en_platform e) (Key_Files.read_text (the (ae_trustedIssuerFile v)) fs) [sp_permitNetwork profile]
       = Some (aa_issuerEntitlement A)"
  using assms by (auto simp: start_service_def reconcile_tick_def Let_def split: option.splits if_splits prod.splits sum.splits)

lemma start_authority_facts:
  assumes "start_authority e v w fs s = (Some A, fs', s')"
  obtains key created profile provider fs1 s1 where "env_complete v"
    "loadOrCreateSigningKey (en_platform e) (the (ae_receiptKeyFile v)) (sw_random w) (\<lambda>fs. fs) fs = (Inr (key, created), fs1)"
    "fs' = last (publishPublicKey (the (ae_authorityTrustFile v)) (ik_address key) fs1)"
    "solanaPaymentSandboxProfile (en_platform e) (the (ae_sandboxRpcUrl v)) = Some profile" "xp_profile provider = profile"
    "unpaid s s1" "start_service e v w key profile provider fs' s1 = (Some A, s')"
proof -
  from assms have env: "env_complete v" by (simp add: start_authority_def split: if_splits)
  obtain l fs1 where l: "loadOrCreateSigningKey (en_platform e) (the (ae_receiptKeyFile v)) (sw_random w) (\<lambda>fs. fs) fs = (l, fs1)"
    by fastforce
  with assms env obtain key created where key: "l = Inr (key, created)"
    by (cases l) (auto simp: start_authority_def)
  from assms env l key obtain profile where profile: "solanaPaymentSandboxProfile (en_platform e) (the (ae_sandboxRpcUrl v)) = Some profile"
    by (auto simp: start_authority_def Let_def split: option.splits)
  let ?provider = "create_x402_provider \<lparr> xo_profile = profile, xo_signer = None, xo_maxResultBytes = None,
     xo_confirmationWaitMs = None, xo_expiryMarginBlocks = None \<rparr> (sw_wallet w)"
  obtain a s1 where a: "assertSandboxEnvironment e ?provider s = (a, s1)" by fastforce
  obtain f s2 where f: "fundSandboxWallet e ?provider SANDBOX_USDC_MINT 100000000 s1 = (f, s2)" by fastforce
  have start: "a \<noteq> None" "f \<noteq> None" "fs' = last (publishPublicKey (the (ae_authorityTrustFile v)) (ik_address key) fs1)"
    "start_service e v w key profile ?provider fs' s2 = (Some A, s')"
    using assms env l key profile a f by (auto simp: start_authority_def Let_def split: option.splits prod.splits)
  have "unpaid s s2"
    using unpaid_sandbox_check [of s e ?provider] unpaid_funding [of s1 e ?provider SANDBOX_USDC_MINT 100000000] a f
    by (auto intro: unpaid_trans)
  moreover have "xp_profile ?provider = profile" by (simp add: create_x402_provider_def)
  ultimately show thesis using that env l key profile start(3,4) by blast
qed

lemma sandbox_profile:
  "solanaPaymentSandboxProfile px u = Some p \<Longrightarrow> sp_environment p = ''sandbox'' \<and> sp_requiredBlockhashPrefix p = ''SURFNETxSAFEHASH''"
  by (auto simp: solanaPaymentSandboxProfile_def split: option.splits if_splits)

lemma silent_recover: "silent (recoverInterrupted A)"
  unfolding recoverInterrupted_def by (rule silent_store_call)

text \<open>C29. When the authority has started on a database nobody else uses, no invocation is RESERVED, so nothing interrupted
  can be paid twice; the start itself sent no payment; its payments go to the sandbox profile; the key it published is
  the one a verifier pins for its receipts, and the next start loads the same key.\<close>

theorem authority_starts_clean:
  assumes "signatures_verify (en_platform e)" "\<And>k. base58_text (keyAddress (en_platform e) k)"
    and "start_authority e v w fs s = (Some A, fs', s')" "store_inv (au_store s)" "sw_others w = (\<lambda>_. [])"
    and "the (ae_receiptKeyFile v) \<notin> {the (ae_authorityTrustFile v), the (ae_authorityTrustFile v) @ ''.tmp''}"
  shows "store_inv (au_store s') \<and> (\<forall>x. state_of (au_store s') x \<noteq> Some inv_state.RESERVED)
    \<and> paid_retries s' = paid_retries s
    \<and> (\<exists>p. aa_provider A = x402_provider e p \<and> sp_environment (xp_profile p) = ''sandbox'')
    \<and> loadPinnedPublicKey (en_platform e) (Key_Files.read_text (the (ae_authorityTrustFile v)) fs') = Some (aa_address A)
    \<and> loadOrCreateSigningKey (en_platform e) (the (ae_receiptKeyFile v)) random' meanwhile' fs'
        = (Inr (\<lparr> ik_keyPair = aa_signer A, ik_address = aa_address A \<rparr>, False), fs')"
proof -
  let ?px = "en_platform e" and ?key = "the (ae_receiptKeyFile v)" and ?trust = "the (ae_authorityTrustFile v)"
  obtain key created profile provider fs1 s1 where env: "env_complete v"
    and key: "loadOrCreateSigningKey ?px ?key (sw_random w) (\<lambda>fs. fs) fs = (Inr (key, created), fs1)"
    and fs': "fs' = last (publishPublicKey ?trust (ik_address key) fs1)"
    and profile: "solanaPaymentSandboxProfile ?px (the (ae_sandboxRpcUrl v)) = Some profile" "xp_profile provider = profile"
    and s1: "unpaid s s1" and run: "start_service e v w key profile provider fs' s1 = (Some A, s')"
    by (rule start_authority_facts [OF assms(3)])
  note facts = start_service_facts [OF run]
  obtain r s2 where r: "recoverInterrupted A s1 = (r, s2)" "s' = snd (reconcile A None s2)" using facts(6) by blast
  have alone: "alone A" by (simp add: alone_def facts(4) assms(5))
  have "store_inv (au_store s1)" using assms(4) s1 more_store [of s1 s] by (simp add: unpaid_def)
  then have "none_reserved (au_store s2)" using recovered_none_reserved [OF alone _ r(1)] by blast
  moreover have "net_state.more (snd (pp_lookupSettlement (aa_provider A) a t)) = net_state.more t" for a t
    using unpaid_lookup [of t e provider a None] by (simp add: facts(3) x402_provider_def unpaid_def)
  ultimately have "none_reserved (au_store s')"
    using keeps_reconcile [OF alone] r(2) unfolding keeps_none_reserved_def by blast
  moreover have "paid_retries s' = paid_retries s"
  proof -
    have pp: "payment_provider paid_retries net_state.more (aa_provider A)"
      unfolding facts(3) by (rule x402.payment_provider_axioms)
    have "paid_retries (snd (reconcile A None s2)) = paid_retries s2"
      using reconcileOnce_unpaid [OF pp, of s2 "fst (reconcileOnce A s2)" "snd (reconcileOnce A s2)"]
      by (simp add: reconcile_def)
    then show ?thesis using r s1 silent_paid [OF silent_recover r(1)] by (simp add: unpaid_def)
  qed
  moreover have "sp_environment (xp_profile provider) = ''sandbox''"
    using sandbox_profile [OF profile(1)] profile(2) by simp
  moreover have "loadPinnedPublicKey ?px (Key_Files.read_text ?trust fs') = Some (aa_address A)"
  proof -
    have address: "ik_address key = keyAddress ?px (ik_keyPair key)"
      using key by (auto simp: loadOrCreateSigningKey_def split: prod.splits sum.splits if_splits)
    have "read_text ?trust fs' = Some (ik_address key @ [CHR 0x0A])"
      by (simp add: fs' published_last Key_Files.read_text_def utf8_decode_utf8 del: utf8_append)
    moreover have "isAddress ?px (ik_address key)" "ik_address key \<noteq> []"
      using assms(1,2) by (auto simp: address signatures_verify_def base58_text_def)
    moreover have "trim (ik_address key @ [CHR 0x0A]) = ik_address key"
      unfolding address by (rule trim_base58 [OF assms(2)])
    ultimately show ?thesis by (simp add: loadPinnedPublicKey_def facts(2))
  qed
  moreover have "loadOrCreateSigningKey ?px ?key random' meanwhile' fs'
        = (Inr (\<lparr> ik_keyPair = aa_signer A, ik_address = aa_address A \<rparr>, False), fs')"
  proof -
    obtain k b where k: "readOrCreatePrivateFile ?key (sw_random w) (\<lambda>fs. fs) fs = (Inr (k, b), fs1)" "length k = SEED_BYTES"
        "key = \<lparr> ik_keyPair = k, ik_address = keyAddress ?px k \<rparr>"
      using key by (auto simp: loadOrCreateSigningKey_def split: prod.splits sum.splits if_splits)
    have "file_step ?key fs1 fs'"
      unfolding fs' using assms(6) by (intro file_step.publish) (auto simp: publishPublicKey_def Let_def)
    then have "readOrCreatePrivateFile ?key random' meanwhile' fs' = (Inr (k, False), fs')"
      using private_file_kept [OF k(1)] by blast
    then show ?thesis using k(2,3) facts(1,2) by (simp add: loadOrCreateSigningKey_def)
  qed
  ultimately show ?thesis unfolding none_reserved_def facts(3) by blast
qed

text \<open>A first start on a database with an interrupted invocation.\<close>

fun start_rpc_result :: "outbound \<Rightarrow> jsval" where
  "start_rpc_result (RpcCall m _) =
     (if m = ''getVersion'' then JObj [(''surfnet-version'', JStr ''1'')]
      else if m = ''getLatestBlockhash''
      then JObj [(''value'', JObj [(''blockhash'', JStr ''SURFNETxSAFEHASH1''), (''lastValidBlockHeight'', JInt 9)])]
      else JNull)"
| "start_rpc_result _ = JNull"

definition start_env :: payment_env where
  "start_env = \<lparr> en_platform = plain_platform, en_solana = sample_solana, en_x402 = sample_x402_lib,
     en_world = \<lparr> w_elapsed = (\<lambda>_. 0), w_fetch = (\<lambda>_ _. None),
       w_rpc = (\<lambda>_ q. Some (True, Some (JObj [(''result'', start_rpc_result q)]))), w_payload = (\<lambda>_ _. None) \<rparr> \<rparr>"

definition start_vars :: authority_env where
  "start_vars = \<lparr> ae_sharedSecret = Some (replicate 32 CHR ''x''), ae_audience = Some ''auth'', ae_databasePath = Some ''db'',
     ae_sandboxRpcUrl = Some ''rpc'', ae_paidReportUrl = Some ''report'', ae_trustedIssuerFile = Some ''i'',
     ae_receiptKeyFile = Some ''k'', ae_authorityTrustFile = Some ''a'', ae_serviceTrustFile = Some ''s'' \<rparr>"

definition start_files :: files where
  "start_files = [''i'' \<mapsto> \<lparr> pf_mode = 0x1A4, pf_contents = ''KI'' \<rparr>, ''s'' \<mapsto> \<lparr> pf_mode = 0x1A4, pf_contents = ''KS'' \<rparr>]"

definition sample_start_world :: start_world where
  "sample_start_world = \<lparr> sw_random = sample_seed, sw_wallet = ''KP'', sw_uuid = (\<lambda>_. []), sw_others = (\<lambda>_. []), sw_opened = Inr () \<rparr>"

definition start_state :: authority_state where
  "start_state = \<lparr> ns_tick = 0, ns_now = 60, ns_sent = [], au_store = reserved_store, au_audit = [], au_pending = (\<lambda>_. None) \<rparr>"

lemma recovery_succeeds:
  assumes "alone A" "store_inv (au_store s)"
  shows "\<exists>res s'. recoverInterrupted A s = (Inr res, s')"
proof -
  obtain res st where "recoverInterruptedInvocations ''authority restarted while payment was in progress'' (ns_now s) (au_store s) = (Inr res, st)"
    using recover_ok [OF assms(2), of "''authority restarted while payment was in progress''" "ns_now s"] by blast
  then show ?thesis using assms(1)
    by (simp add: recoverInterrupted_def store_call_def store_step_def arrived_def alone_def)
qed

lemma plain_platform_laws: "signatures_verify plain_platform" "base58_text (keyAddress plain_platform k)"
  by (auto simp: signatures_verify_def plain_platform_def sample_platform_def base58_text_def list_all_iff is_base58_char_def
      is_alnum_def is_upper_def code_def)

lemma sample_start:
  "\<exists>A fs' s'. start_authority start_env start_vars sample_start_world start_files start_state = (Some A, fs', s')"
proof -
  have env: "env_complete start_vars"
    by (simp add: env_complete_def start_vars_def env_given_def shared_secret_accepted_def MIN_SECRET_LENGTH_def) code_simp
  obtain key fs1 where key: "loadOrCreateSigningKey plain_platform ''k'' sample_seed (\<lambda>fs. fs) start_files = (Inr (key, True), fs1)"
    "fs1 ''i'' = start_files ''i''" "fs1 ''s'' = start_files ''s''"
    by (simp add: loadOrCreateSigningKey_def readOrCreatePrivateFile_def start_files_def SEED_BYTES_def) (simp add: sample_seed_def)
  let ?fs = "last (publishPublicKey ''a'' (ik_address key) fs1)"
  have files: "?fs ''i'' = start_files ''i''" "?fs ''s'' = start_files ''s''" using key(2,3) by (simp_all add: published_last)
  have e: "en_platform start_env = plain_platform" by (simp add: start_env_def)
  obtain profile where profile: "solanaPaymentSandboxProfile plain_platform ''rpc'' = Some profile"
    by (simp add: solanaPaymentSandboxProfile_def plain_platform_def sample_platform_def sample_parse_def)
  have rpc: "fst (assertSandboxEnvironment start_env p s) \<noteq> None" "fst (fundSandboxWallet start_env p m a s) \<noteq> None"
    if "xp_profile p = profile" for p m a and s :: authority_state
    using that sandbox_profile [OF profile]
    by (simp_all add: assertSandboxEnvironment_def fundSandboxWallet_def freshBlockhash_def rpc_def Let_def start_env_def
        starts_with_def attempt_bind_def nullish_def)
  let ?provider = "create_x402_provider \<lparr> xo_profile = profile, xo_signer = None, xo_maxResultBytes = None,
     xo_confirmationWaitMs = None, xo_expiryMarginBlocks = None \<rparr> ''KP''"
  have p: "xp_profile ?provider = profile" by (simp add: create_x402_provider_def)
  obtain version s1 where s1: "assertSandboxEnvironment start_env ?provider start_state = (Some version, s1)"
    using rpc(1) [OF p, of start_state] by (cases "assertSandboxEnvironment start_env ?provider start_state") auto
  obtain u s2 where s2: "fundSandboxWallet start_env ?provider SANDBOX_USDC_MINT 100000000 s1 = (Some u, s2)"
    using rpc(2) [OF p, of SANDBOX_USDC_MINT 100000000 s1]
    by (cases "fundSandboxWallet start_env ?provider SANDBOX_USDC_MINT 100000000 s1") auto
  have "unpaid start_state s2"
    using unpaid_sandbox_check [of start_state start_env ?provider] unpaid_funding [of s1 start_env ?provider SANDBOX_USDC_MINT 100000000] s1 s2
    by (auto intro: unpaid_trans)
  then have inv: "store_inv (au_store s2)" using more_store [of s2 start_state] sample_stores_inv(1)
    by (simp add: unpaid_def start_state_def)
  obtain r where r: "createPaidServiceRegistry plain_platform [paid_report ''report''] = Some r"
    by (simp add: createPaidServiceRegistry_def plain_platform_def sample_platform_def sample_parse_def paid_report_def)
  obtain i where i: "loadIssuerEntitlement plain_platform (Key_Files.read_text ''i'' ?fs) [sp_permitNetwork profile] = Some i"
    by (simp add: files Key_Files.read_text_def start_files_def loadIssuerEntitlement_def plain_platform_def sample_platform_def trim_def js_space_def code_def
        utf8_decode.simps)
  obtain k where k: "loadPinnedPublicKey plain_platform (Key_Files.read_text ''s'' ?fs) = Some k"
    by (simp add: files Key_Files.read_text_def start_files_def loadPinnedPublicKey_def plain_platform_def sample_platform_def trim_def js_space_def code_def
        utf8_decode.simps)
  have "\<exists>A s'. start_service start_env start_vars sample_start_world key profile ?provider ?fs s2 = (Some A, s')"
  proof -
    let ?A = "\<lparr> aa_signer = ik_keyPair key, aa_address = ik_address key, aa_audience = ''auth'', aa_issuerEntitlement = i,
       aa_trustedServiceKeys = [mock_dataset_reports \<mapsto> k], aa_provider = x402_provider start_env ?provider, aa_paidServices = r,
       aa_settlementProfiles = [sp_permitNetwork profile \<mapsto> profile], aa_maxRequestAgeMs = 120000, aa_maxFutureSkewMs = 30000,
       aa_platform = plain_platform, aa_world = en_world start_env, aa_uuid = (\<lambda>_. []), aa_others = (\<lambda>_. []) \<rparr>"
    obtain res s3 where "recoverInterrupted ?A s2 = (Inr res, s3)"
      using recovery_succeeds [of ?A s2] inv by (auto simp: alone_def)
    then show ?thesis using e r i k
      by (simp add: start_service_def Let_def start_vars_def sample_start_world_def)
  qed
  then show ?thesis using env key(1) profile s1 s2 e
    by (auto simp: start_authority_def Let_def) (simp add: start_vars_def sample_start_world_def Let_def)
qed

theorem authority_starts_clean_witness:
  "state_of (au_store start_state) ''i1'' = Some inv_state.RESERVED
   \<and> (\<exists>A fs' s'. start_authority start_env start_vars sample_start_world start_files start_state = (Some A, fs', s')
        \<and> state_of (au_store s') ''i1'' \<noteq> Some inv_state.RESERVED
        \<and> loadPinnedPublicKey plain_platform (Key_Files.read_text ''a'' fs') = Some (aa_address A))"
proof -
  obtain A fs' s' where run: "start_authority start_env start_vars sample_start_world start_files start_state = (Some A, fs', s')"
    using sample_start by blast
  have e: "en_platform start_env = plain_platform" by (simp add: start_env_def)
  have v: "the (ae_receiptKeyFile start_vars) = ''k''" "the (ae_authorityTrustFile start_vars) = ''a''" by (simp_all add: start_vars_def)
  have "store_inv (au_store start_state)" "sw_others sample_start_world = (\<lambda>_. [])"
    using sample_stores_inv(1) by (simp_all add: start_state_def sample_start_world_def)
  from authority_starts_clean [OF _ _ run this] plain_platform_laws
  have "state_of (au_store s') ''i1'' \<noteq> Some inv_state.RESERVED \<and> loadPinnedPublicKey plain_platform (Key_Files.read_text ''a'' fs') = Some (aa_address A)"
    unfolding e v by simp
  moreover have "state_of (au_store start_state) ''i1'' = Some inv_state.RESERVED"
    using reserved_row by (auto simp: start_state_def state_of_def)
  ultimately show ?thesis using run by blast
qed

end
