(* ===== verification/Schema_Properties.thy ===== *)
theory Schema_Properties
  imports Store_Schema
begin

text \<open>
  What opening a database does: every earlier version reaches the current schema with its contents, and an opening
  that fails changes nothing.
\<close>

section \<open>The versions\<close>

definition added_columns :: "string list" where
  "added_columns = [''payment_requirement_json'', ''payment_attempt_json'', ''settlement_json'', ''result_json'',
     ''authorization_json'', ''service_authorization_json'']"

definition later_columns :: "int \<Rightarrow> string list" where
  "later_columns v = drop (if v = 1 then 0 else if v = 2 then 4 else if v = 3 then 5 else 6) added_columns"

lemma versions: "0 \<le> v \<Longrightarrow> v \<le> 4 \<Longrightarrow> v = 0 \<or> v \<in> {1, 2, 3, 4 :: int}"
  by auto

lemma pending_columns:
  "v \<in> {1, 2, 3, 4} \<Longrightarrow> concat (map snd (filter (\<lambda>m. fst m > v) MIGRATIONS))
     = map (\<lambda>c. AddColumn ''invocations'' (text_column c)) (later_columns v)"
  by (auto simp: MIGRATIONS_def SCHEMA_V2_def SCHEMA_V3_def SCHEMA_V4_def later_columns_def added_columns_def)

lemma schemas_widen: "v \<in> {1, 2, 3, 4} \<Longrightarrow> widened ''invocations'' (later_columns v) (schema_at v) = schema_at 4"
proof -
  have "widened ''invocations'' (later_columns 1) (schema_at 1) = schema_at 4"
    "widened ''invocations'' (later_columns 2) (schema_at 2) = schema_at 4"
    "widened ''invocations'' (later_columns 3) (schema_at 3) = schema_at 4"
    "widened ''invocations'' (later_columns 4) (schema_at 4) = schema_at 4"
    by code_simp+
  then show "v \<in> {1, 2, 3, 4} \<Longrightarrow> ?thesis" by blast
qed

definition invocation_columns :: "int \<Rightarrow> string list" where
  "invocation_columns v = map co_name (fst (the (map_of (fst (schema_at v)) ''invocations'')))"

lemma invocation_columns_disjoint:
  "v \<in> {1, 2, 3, 4} \<Longrightarrow> list_all (\<lambda>c. c \<notin> set (invocation_columns v)) (later_columns v)"
proof -
  have "list_all (\<lambda>c. c \<notin> set (invocation_columns 1)) (later_columns 1)" "list_all (\<lambda>c. c \<notin> set (invocation_columns 2)) (later_columns 2)"
    "list_all (\<lambda>c. c \<notin> set (invocation_columns 3)) (later_columns 3)" "list_all (\<lambda>c. c \<notin> set (invocation_columns 4)) (later_columns 4)"
    by code_simp+
  then show "v \<in> {1, 2, 3, 4} \<Longrightarrow> ?thesis" by blast
qed

lemma invocations_in_schema: "v \<in> {1, 2, 3, 4} \<Longrightarrow> map_of (fst (schema_at v)) ''invocations'' \<noteq> None"
proof -
  have "map_of (fst (schema_at 1)) ''invocations'' \<noteq> None" "map_of (fst (schema_at 2)) ''invocations'' \<noteq> None"
    "map_of (fst (schema_at 3)) ''invocations'' \<noteq> None" "map_of (fst (schema_at 4)) ''invocations'' \<noteq> None"
    by code_simp+
  then show "v \<in> {1, 2, 3, 4} \<Longrightarrow> ?thesis" by blast
qed

lemma schema_table: "map_of (fst (schema_of db)) n = map_option (\<lambda>t. (tb_columns t, tb_constraints t)) (map_of (db_tables db) n)"
proof -
  have "map_of (map (\<lambda>(n, t). (n, tb_columns t, tb_constraints t)) ts) n
      = map_option (\<lambda>t. (tb_columns t, tb_constraints t)) (map_of ts n)" for ts
    by (induction ts) auto
  then show ?thesis by (simp add: schema_of_def)
qed

lemma invocations_table:
  assumes "v \<in> {1, 2, 3, 4}" "schema_of db = schema_at v"
  obtains t where "map_of (db_tables db) ''invocations'' = Some t" "column_names t = invocation_columns v"
proof -
  obtain p where p: "map_of (fst (schema_at v)) ''invocations'' = Some p" using invocations_in_schema [OF assms(1)] by blast
  then obtain t where "map_of (db_tables db) ''invocations'' = Some t" "p = (tb_columns t, tb_constraints t)"
    using schema_table [of db "''invocations''"] assms(2) by (cases "map_of (db_tables db) ''invocations''") simp_all
  with p that show thesis by (simp add: invocation_columns_def column_names_def)
qed

section \<open>Migrations\<close>

lemma new_database_migrates:
  "exec_sql (concat (map snd (filter (\<lambda>m. fst m > 0) MIGRATIONS))) new_database
     = Some (the (exec_sql (concat (map snd (filter (\<lambda>m. fst m > 0) MIGRATIONS))) new_database))"
  by code_simp

lemma schema_current:
  "schema_of (the (exec_sql (concat (map snd (filter (\<lambda>m. fst m > 0) MIGRATIONS))) new_database)) = schema_at 4"
  by code_simp

lemma new_database_unique: "at_version 0 db \<Longrightarrow> db = new_database"
proof -
  assume db: "at_version 0 db"
  have "schema_at 0 = ([], [])" by code_simp
  with db show "db = new_database" by (cases db) (auto simp: at_version_def new_database_def schema_of_def)
qed

lemma migrate_pending:
  assumes "0 \<le> db_version db" "db_version db < 4"
  shows "migrate others False db =
    (case exec_sql (concat (map snd (filter (\<lambda>m. fst m > db_version db) MIGRATIONS))) (others db) of
       None \<Rightarrow> (Inl StatementFailed, others db) | Some db' \<Rightarrow> (Inr (), db' \<lparr> db_version := 4 \<rparr>))"
proof -
  have "(4, SCHEMA_V4) \<in> set (filter (\<lambda>m. fst m > db_version db) MIGRATIONS)" using assms by (simp add: MIGRATIONS_def)
  then have "length (filter (\<lambda>m. fst m > db_version db) MIGRATIONS) \<noteq> 0" by (metis length_pos_if_in_set less_numeral_extra(3))
  with assms show ?thesis unfolding migrate_def Let_def SQLITE_SCHEMA_VERSION_def by simp
qed

lemma new_database_result:
  "migrate_alone new_database
     = (Inr (), (the (exec_sql (concat (map snd (filter (\<lambda>m. fst m > 0) MIGRATIONS))) new_database)) \<lparr> db_version := 4 \<rparr>)"
proof -
  have v: "db_version new_database = 0" by (simp add: new_database_def)
  from new_database_migrates obtain d where d: "exec_sql (concat (map snd (filter (\<lambda>m. fst m > 0) MIGRATIONS))) new_database = Some d"
    by blast
  have "migrate_alone new_database = (case exec_sql (concat (map snd (filter (\<lambda>m. fst m > 0) MIGRATIONS))) new_database of
       None \<Rightarrow> (Inl StatementFailed, new_database) | Some db' \<Rightarrow> (Inr (), db' \<lparr> db_version := 4 \<rparr>))"
    using migrate_pending [of new_database "\<lambda>db. db"] by (simp only: v order_refl zero_less_numeral simp_thms)
  then show ?thesis unfolding d by simp
qed

lemma schema_of_version [simp]: "schema_of (db \<lparr> db_version := v \<rparr>) = schema_of db"
  "database_ok (db \<lparr> db_version := v \<rparr>) = database_ok db" "extends db' (db \<lparr> db_version := v \<rparr>) = extends db' db"
proof -
  have c: "constraint_ok (db \<lparr> db_version := v \<rparr>) = constraint_ok db"
  proof (intro ext)
    show "constraint_ok (db \<lparr> db_version := v \<rparr>) t k = constraint_ok db t k" for t k by (cases k) simp_all
  qed
  show "schema_of (db \<lparr> db_version := v \<rparr>) = schema_of db"
    "database_ok (db \<lparr> db_version := v \<rparr>) = database_ok db" "extends db' (db \<lparr> db_version := v \<rparr>) = extends db' db"
    by (simp_all add: schema_of_def database_ok_def names_of_def table_ok_def c extends_def)
qed

lemma new_database_ok: "database_ok (snd (migrate_alone new_database))"
  unfolding new_database_result snd_conv by code_simp

lemma migrate_new: "at_version 4 (snd (migrate_alone new_database))" "extends new_database (snd (migrate_alone new_database))"
  using schema_current by (simp add: new_database_result at_version_def) (simp add: extends_def new_database_def)

lemma current_migrates: "at_version SQLITE_SCHEMA_VERSION db \<Longrightarrow> migrate others locked db = (Inr (), db)"
  by (simp add: migrate_def at_version_def MIGRATIONS_def SQLITE_SCHEMA_VERSION_def)

lemma version_migrates:
  assumes "0 \<le> v" "v \<le> SQLITE_SCHEMA_VERSION" "at_version v db" "database_ok db"
  shows "\<exists>db'. migrate_alone db = (Inr (), db') \<and> at_version SQLITE_SCHEMA_VERSION db' \<and> database_ok db' \<and> extends db db'"
proof (cases "v = 0")
  case True
  then have "db = new_database" using new_database_unique assms(3) by blast
  then show ?thesis using migrate_new new_database_ok arg_cong [OF new_database_result, of fst]
    by (intro exI [of _ "snd (migrate_alone new_database)"]) (simp add: prod_eq_iff SQLITE_SCHEMA_VERSION_def)
next
  case False
  then have v: "v \<in> {1, 2, 3, 4}" using versions assms(1,2) by (auto simp: SQLITE_SCHEMA_VERSION_def)
  from assms(3) have db: "db_version db = v" "schema_of db = schema_at v" by (simp_all add: at_version_def)
  obtain t where t: "map_of (db_tables db) ''invocations'' = Some t" "column_names t = invocation_columns v"
    using invocations_table [OF v db(2)] .
  have "distinct (later_columns v)" by (simp add: later_columns_def added_columns_def)
  moreover have "set (later_columns v) \<inter> set (column_names t) = {}"
    using invocation_columns_disjoint [OF v] t(2) by (auto simp: list_all_iff)
  ultimately obtain db' where db': "exec_sql (map (\<lambda>c. AddColumn ''invocations'' (text_column c)) (later_columns v)) db = Some db'"
      "database_ok db'" "extends db db'" "schema_of db' = schema_at 4" "db_version db' = v"
    using add_text_columns [OF assms(4) t(1), of "later_columns v"] unfolding db schemas_widen [OF v] by blast
  show ?thesis
  proof (cases "v = 4")
    case True
    then have "later_columns v = []" by (simp add: later_columns_def added_columns_def)
    then show ?thesis using assms(4) True db db'(1) extends_refl
      by (simp add: migrate_def SQLITE_SCHEMA_VERSION_def MIGRATIONS_def at_version_def)
  next
    case False
    then have "0 \<le> db_version db" "db_version db < 4" using v db(1) by auto
    from migrate_pending [OF this, of "\<lambda>db. db"] have "migrate_alone db = (Inr (), db' \<lparr> db_version := 4 \<rparr>)"
      using db'(1) by (simp add: db(1) pending_columns [OF v])
    then show ?thesis using db' by (simp add: at_version_def SQLITE_SCHEMA_VERSION_def)
  qed
qed

text \<open>C30. A database of any version up to the current one, whose rows satisfy its constraints, is migrated: it then has
  exactly the schema of a new database of the current version, its rows still satisfy every constraint of that schema,
  no table, row or value is lost, and the added columns are NULL; opening it again changes nothing.\<close>

theorem every_version_migrates:
  assumes "0 \<le> v" "v \<le> SQLITE_SCHEMA_VERSION" "at_version v db" "database_ok db"
  shows "\<exists>db'. migrate_alone db = (Inr (), db') \<and> at_version SQLITE_SCHEMA_VERSION db' \<and> database_ok db' \<and> extends db db'
     \<and> migrate_alone db' = (Inr (), db')"
proof -
  obtain db' where db': "migrate_alone db = (Inr (), db')" "at_version SQLITE_SCHEMA_VERSION db'" "database_ok db'" "extends db db'"
    using version_migrates [OF assms] by blast
  from db'(2) have "migrate_alone db' = (Inr (), db')" by (rule current_migrates)
  with db' show ?thesis by blast
qed

lemma extended_table:
  assumes "extends db db'" "map_of (db_tables db) n = Some t"
  obtains t' where "map_of (db_tables db') n = Some t'" "\<And>cs. set cs \<subseteq> set (column_names t) \<Longrightarrow> select t' cs = select t cs"
  using assms unfolding extends_def by blast

text \<open>A database of the first version with a grant and a confirmed purchase under it.\<close>

definition sample_v1 :: database where
  "sample_v1 =
     (let d = the (exec_sql SCHEMA_V1 new_database) in
      d \<lparr> db_version := 1, db_tables := map (\<lambda>(n, t). (n, t \<lparr> tb_rows :=
        (if n = ''grants'' then
           [[TextValue ''I'', TextValue ''g'', TextValue ''d'', TextValue ''50'', TextValue ''0'', TextValue ''4'',
             IntegerValue 1, IntegerValue 2]]
         else if n = ''invocations'' then
           [[TextValue ''i1'', TextValue ''f'', TextValue ''I'', TextValue ''g'', TextValue ''A'', TextValue ''{}'', TextValue ''4'',
             TextValue ''CONFIRMED'', TextValue ''[]'', TextValue ''tx'', SqlNull, SqlNull, IntegerValue 1, IntegerValue 1,
             IntegerValue 2]]
         else []) \<rparr>)) (db_tables d) \<rparr>)"

definition sample_v1_invocations :: sql_table where
  "sample_v1_invocations = the (map_of (db_tables sample_v1) ''invocations'')"

theorem every_version_migrates_witness:
  "\<exists>db' t. migrate_alone sample_v1 = (Inr (), db') \<and> map_of (db_tables db') ''invocations'' = Some t
     \<and> select t [''invocation_id'', ''payment_transaction_id''] = [[Some (TextValue ''i1''), Some (TextValue ''tx'')]]"
proof -
  have v: "at_version 1 sample_v1" "database_ok sample_v1" by code_simp+
  have t: "map_of (db_tables sample_v1) ''invocations'' = Some sample_v1_invocations"
    "set [''invocation_id'', ''payment_transaction_id''] \<subseteq> set (column_names sample_v1_invocations)"
    "select sample_v1_invocations [''invocation_id'', ''payment_transaction_id''] = [[Some (TextValue ''i1''), Some (TextValue ''tx'')]]"
    by code_simp+
  obtain db' where "migrate_alone sample_v1 = (Inr (), db')" "extends sample_v1 db'"
    using every_version_migrates [OF _ _ v] by (auto simp: SQLITE_SCHEMA_VERSION_def)
  moreover from extended_table [OF this(2) t(1)] obtain t' where "map_of (db_tables db') ''invocations'' = Some t'"
      "select t' [''invocation_id'', ''payment_transaction_id''] = select sample_v1_invocations [''invocation_id'', ''payment_transaction_id'']"
    using t(2) by blast
  ultimately show ?thesis unfolding t(3) by blast
qed

section \<open>Openings that fail\<close>

text \<open>A database of a newer version, a lock that is not free and a statement that fails: the database is as it was found.\<close>

lemma failed_opening_changes_nothing:
  assumes "migrate others locked db = (Inl e, db')"
  shows "db' = (if e = SchemaNewer then db else others db)"
  using assms by (auto simp: migrate_def Let_def split: if_splits option.splits)

lemma newer_version_refused: "db_version db > SQLITE_SCHEMA_VERSION \<Longrightarrow> migrate others locked db = (Inl SchemaNewer, db)"
  by (simp add: migrate_def)

text \<open>The first pending statement fails on a database that has been migrated meanwhile.\<close>

lemma current_columns: "list_all (\<lambda>c. c \<in> set (invocation_columns 4)) added_columns"
  "''grants'' \<in> fst ` set (fst (schema_at 4))"
  by code_simp+

lemma pending_fails:
  assumes "0 \<le> v" "v < 4" "schema_of db = schema_at 4"
  shows "exec_sql (concat (map snd (filter (\<lambda>m. fst m > v) MIGRATIONS))) db = None"
proof (cases "v = 0")
  case True
  have "''grants'' \<in> fst ` set (fst (schema_of db))" using current_columns(2) assms(3) by simp
  then have "''grants'' \<in> set (names_of db)" by (force simp: schema_of_def names_of_def)
  then show ?thesis using True by (simp add: MIGRATIONS_def SCHEMA_V1_def)
next
  case False
  then have v: "v \<in> {1, 2, 3, 4}" "v \<in> {1, 2, 3}" using assms(1,2) by auto
  obtain t where t: "map_of (db_tables db) ''invocations'' = Some t" "column_names t = invocation_columns 4"
    by (rule invocations_table [of 4 db]) (use assms(3) in auto)
  obtain c cs where c: "later_columns v = c # cs" "c \<in> set added_columns"
    using v(2) by (auto simp: later_columns_def added_columns_def)
  then have "c \<in> set (column_names t)" using current_columns(1) t(2) by (auto simp: list_all_iff)
  then show ?thesis unfolding pending_columns [OF v(1)] c(1) using t(1) by simp
qed

text \<open>The version is read before the lock is taken.  When two processes open the same old database at once and the
  other one migrates it first, this one fails to open it; the database is then the migrated one, with all it held,
  and the next opening succeeds.\<close>

theorem concurrent_opening_refused:
  assumes "0 \<le> v" "v < SQLITE_SCHEMA_VERSION" "at_version v db" "database_ok db"
    and "others = (\<lambda>db. snd (migrate_alone db))"
  shows "\<exists>db'. migrate others False db = (Inl StatementFailed, db') \<and> at_version SQLITE_SCHEMA_VERSION db'
     \<and> database_ok db' \<and> extends db db' \<and> migrate others False db' = (Inr (), db')"
proof -
  have v: "0 \<le> v" "v < 4" "db_version db = v" using assms(1-3) by (simp_all add: SQLITE_SCHEMA_VERSION_def at_version_def)
  obtain db' where db': "migrate_alone db = (Inr (), db')" "at_version SQLITE_SCHEMA_VERSION db'" "database_ok db'" "extends db db'"
    using version_migrates [OF assms(1) _ assms(3,4)] assms(2) by auto
  then have "schema_of db' = schema_at 4" "others db = db'" using assms(5) by (simp_all add: at_version_def SQLITE_SCHEMA_VERSION_def)
  then have "migrate others False db = (Inl StatementFailed, db')"
    using migrate_pending [of db others] pending_fails [OF v(1,2)] v by simp
  moreover have "migrate others False db' = (Inr (), db')" using db'(2) by (rule current_migrates)
  ultimately show ?thesis using db' by blast
qed

theorem concurrent_opening_refused_witness:
  "\<exists>db'. migrate (\<lambda>db. snd (migrate_alone db)) False new_database = (Inl StatementFailed, db')
     \<and> migrate (\<lambda>db. snd (migrate_alone db)) False db' = (Inr (), db')"
proof -
  have "at_version 0 new_database" "database_ok new_database" by code_simp+
  from concurrent_opening_refused [OF _ _ this refl] show ?thesis by (auto simp: SQLITE_SCHEMA_VERSION_def)
qed

end
