(* ===== verification/Service_Start.thy ===== *)
theory Service_Start
  imports Key_Files Paid_Service
begin

text \<open>
  The keys of apps/service-agent/src/index.ts: the service publishes its own key and reads the authority's when the
  first paid request needs it.  The payment kit, its gates and the sandbox accounts are outside the model.
\<close>

text \<open>The key of the service, and the files with its public key published; \<open>None\<close> is a start that fails.\<close>

definition start_service_key ::
  "platform \<Rightarrow> string \<Rightarrow> string \<Rightarrow> bytes \<Rightarrow> files \<Rightarrow> IssuerKey option \<times> files" where
  "start_service_key px keyFile trustFile random fs =
     (case loadOrCreateSigningKey px keyFile random (\<lambda>fs. fs) fs of
        (Inl _, fs) \<Rightarrow> (None, fs)
      | (Inr (serviceKey, _), fs) \<Rightarrow> (Some serviceKey, last (publishPublicKey trustFile (ik_address serviceKey) fs)))"

text \<open>What the successive calls of \<open>readAuthorityKey\<close> return, for the contents of the file at each of them.\<close>

fun read_over_time :: "string option list \<Rightarrow> string option \<Rightarrow> string option list" where
  "read_over_time [] key = []"
| "read_over_time (c # cs) key = readAuthorityKey key c # read_over_time cs (readAuthorityKey key c)"

text \<open>Once the service has read a key it keeps it, whatever the file holds later.\<close>

lemma authority_key_kept: "read_over_time cs (Some k) = replicate (length cs) (Some k)"
  by (induction cs) (simp_all add: readAuthorityKey_def)

text \<open>The key that was published is the one that is read, also by a service that looked before it was there.\<close>

lemma published_key_read:
  assumes "class_between is_base58_char 32 44 key"
  shows "read_over_time (replicate n None @ Key_Files.read_text file (last (publishPublicKey file key fs)) # cs) None
    = replicate n None @ Some key # replicate (length cs) (Some key)"
proof -
  have "base58_text key" using assms by (auto simp: class_between_def list_all_iff base58_text_def)
  then have t: "trim (key @ [CHR 0x0A]) = key" by (rule trim_base58)
  have "Key_Files.read_text file (last (publishPublicKey file key fs)) = Some (key @ [CHR 0x0A])"
    by (simp add: published_last Key_Files.read_text_def utf8_decode_utf8 del: utf8_append)
  then show ?thesis using assms t
    by (induction n) (simp_all add: readAuthorityKey_def authority_key_kept)
qed

text \<open>The authority pins the key a started service signs its acknowledgements with.\<close>

lemma service_key_pinned:
  assumes "signatures_verify px" "\<And>k. base58_text (keyAddress px k)"
    and "start_service_key px keyFile trustFile random fs = (Some key, fs')"
  shows "loadPinnedPublicKey px (Key_Files.read_text trustFile fs') = Some (keyAddress px (ik_keyPair key))"
proof -
  from assms(3) obtain fs1 where fs': "fs' = last (publishPublicKey trustFile (keyAddress px (ik_keyPair key)) fs1)"
    by (auto simp: start_service_key_def loadOrCreateSigningKey_def split: prod.splits sum.splits if_splits)
  have "Key_Files.read_text trustFile fs' = Some (keyAddress px (ik_keyPair key) @ [CHR 0x0A])"
    by (simp add: fs' published_last Key_Files.read_text_def utf8_decode_utf8 del: utf8_append)
  moreover have "isAddress px (keyAddress px (ik_keyPair key))" "keyAddress px (ik_keyPair key) \<noteq> []"
    using assms(1,2) by (auto simp: signatures_verify_def base58_text_def)
  ultimately show ?thesis using trim_base58 [OF assms(2)] by (simp add: loadPinnedPublicKey_def)
qed

end
