(* ===== verification/Spec2Isabelle.thy ===== *)
theory Spec2Isabelle
  imports Store_Properties Mandate_Properties Payment_Properties Authority_Properties Sample_Provider
    Evidence_Properties Bundle_Properties Export_Properties Agent_Properties Service_Properties Approver_Properties
    Key_Properties Verifier_Properties Web_Interleaving_Properties Start_Properties Schema_Properties Service_Start
begin

text \<open>
  Virtual Haibin: a human signs a purchase permit, an agent asks an authority to buy one exact operation under
  it, and the authority alone decides, pays (x402 on Solana) and signs a receipt.  Afterwards it exports one
  portable evidence bundle per purchase, which anyone can verify against pinned keys.

  \<^bold>\<open>The program.\<close>  packages/mandate holds the signed messages (operation, permit, request), packages/policy the
  two decision functions, packages/payments the paid request, the payment provider and its checks,
  packages/evidence the signed artifacts and the messages exchanged with the paid service, packages/audit a
  log, and apps/authority the service with its durable store.  A request flows through
  \<open>authorize\<close>: \<open>authenticate\<close> (permit, entitlement, agent signature, audience, grant, digest, time), then
  \<open>process\<close>: a known invocation is answered from the store; otherwise policy on the signed terms, the unpaid
  probe of the service and the selection of a challenge entry, one atomic \<open>reserve\<close> of the store with the
  policy run again inside it, and \<open>pay\<close>: the provider builds and checks the transaction, hands the attempt to
  the store, transmits, and confirms on the authority's own RPC.

  \<^bold>\<open>Theories and sources.\<close>
  \<^item> Prelude, Encoding, Decimal, Transport_Encoding: errors as sums with \<open>sbind\<close>, JSON values \<open>jsval\<close> and
    their normal form, string quoting, UTF-8, decimal texts, base64url.
  \<^item> Platform: what the code takes from outside, as the record \<open>platform\<close> (addresses, Ed25519, RFC 8785
    canonical JSON, SHA-256, the URL parser, JSON.parse), with the documented behaviour relied on as named
    predicates: \<open>signatures_verify\<close>, \<open>canonical_total\<close>, \<open>canonical_faithful\<close>, \<open>json_reads_back\<close>,
    \<open>collision_free_on\<close>.  Sample_Platform shows that they can hold.
  \<^item> Mandate_Operation, Mandate_Permit, Mandate_Request: packages/mandate/src (operation.ts, domain.ts, crypto.ts,
    canonical.ts, authorization-request.ts).  Policy: packages/policy/src.
  \<^item> Payments_Types: types.ts, paid-request.ts, settlement-profile.ts and \<open>normalizeChallenge\<close>.
    Payments_Transaction: transaction-validator.ts and the payer-signature check of exact-transaction.ts,
    on bytes (\<open>8 word\<close>) with the amount read as a little-endian \<open>64 word\<close>.  Payments_Settlement:
    settlement-check.ts.  Payments_Interface: the interface PaymentProvider, whose ordering contract is the locale
    \<open>payment_provider\<close>.  Payments_Provider: x402-exact-provider.ts, with the interpretation of that locale.
  \<^item> Authority_Store: the rows, constraints and transactions of store/sqlite-store.ts; Authority_Store_Inv,
    Authority_Store_Ops, Authority_Store_Reserve: the invariant, what each operation computes, the step relation
    and the locale \<open>durable_store\<close> with its interpretation.  Authority_Ledger: the abstract ledger and the
    simulation.
  \<^item> Authority_Challenge: payment-challenge.ts.  Authority_Service: authorize.ts and packages/audit, with its lemmas
    in Authority_Service_Lemmas.
  \<^item> Evidence_Signed: receipt.ts, the signed messages of service.ts, \<open>artifactDigest\<close> of manifest.ts.
    Evidence_Parse: the combinators and the two service messages of parse.ts.  Evidence_Service: the header
    encoding and the service's check in service.ts.
  \<^item> Evidence_Bundle: types.ts and manifest.ts, the artifacts of a purchase, their digests and the signed manifest.
    Evidence_Bundle_Parse: the strict parser of parse.ts, with its exactness in Evidence_Bundle_Exact (one
    interpretation of the locale \<open>exact_parser\<close> per artifact).  Evidence_Verify: verify.ts and online.ts, one
    definition per group of claims; Evidence_Verify_Lemmas says when each group is acceptable and defines
    \<open>valid_evidence\<close>, Evidence_Verdict the undecided verdict, Evidence_Binding what the digests determine.
  \<^item> Authority_Export: evidence-export.ts and \<open>exportEvidence\<close>; Authority_Export_Lemmas what an exported bundle says,
    Authority_Refusal the run from a refused request to its evidence.
  \<^item> Http, Authority_Server: bounded bodies, bearer credentials and URI components; server.ts and trust.ts of
    apps/authority, which map the service's outcomes to replies.
  \<^item> Agent_Sessions, Agent_Sessions_Inv: sessions.ts of apps/agent (capability tokens, owners of invocations, expiry and
    eviction) with its invariant over any sequence of operations.  Agent_Server, Agent_Server_Inv: its server.ts, with
    other requests running wherever a request waits.
  \<^item> Paid_Service: report.ts and app.ts of apps/service-agent, the middleware in its order around the payment gate.
  \<^item> Approver, Key_Files: approve.ts, server.ts, issuer-key.ts and index.ts of apps/approver, and key-file.ts of
    packages/identity on a map of files.
  \<^item> Verifier_App: cli.ts and server.ts of apps/verifier.  Web_Model: model.ts of apps/web.
    Web_App: api.ts and the handlers of App.tsx, each as a function of the page when nothing happens while it waits.
    Web_Interleaving: the same handlers cut at every \<open>await\<close>, in any interleaving with the user's actions and with each
    other; a handler left alone does what its function says (\<open>handler_alone\<close>, \<open>load_alone\<close>).
  \<^item> Store_Schema: the SQL schema versions of sqlite-store.ts and their migrations.  Authority_Start: the start of
    apps/authority/src/index.ts.  Service_Start: the keys of apps/service-agent/src/index.ts.
  \<^item> Sample_Data, Sample_Authority, Sample_Provider, Sample_Evidence, Sample_Refusal: concrete inputs and runs for the
    witnesses; the remaining theories state the properties.

  \<^bold>\<open>State.\<close>  The store is three lists of rows in insertion order with the tables' constraints; a transaction
  either commits or leaves them unchanged.  The authority's state extends \<open>net_state\<close> (interaction counter,
  clock, everything sent) with the store, the audit log and the in-flight requests of the process; the
  outcome an in-flight promise will settle to is part of that entry.  Whatever answers from outside (HTTP, RPC, timers, the
  credential builder) is the parameter \<open>world\<close>, indexed by the interaction counter; its clock only moves
  forward.  Each access to the store is one atomic step, and before it any operations of other requests or
  other processes may run (\<open>aa_others\<close>, by interaction counter), so the properties of the service hold for every interleaving
  of store operations.

  \<^bold>\<open>What is shown.\<close>  The store: budgets are never exceeded over any sequence of operations, the transition
  log is a path of the state machine, settled rows are immutable, each operation succeeds in exactly its
  state and moves exactly its amount, recovery resolves every reservation, and the whole store refines an
  abstract ledger without counters.  Where the counters are said to be sums over the rows, and for the ledger, a retry of
  a FAILED invocation is taken to name the grant of its row (\<open>ops_obligation\<close>): the store reuses the row without
  comparing, and two requests of one fingerprint name one grant.  A reservation that recovery released and a retry took again
  does not fence the process that held it before.  The service: the first failing check of authentication decides its error,
  a payment only when everything justifies it, the reservation made in the store of the run and the attempt recorded on what
  the reservation left, at most one paid retry per request, nothing paid where the caller is told to
  retry, no payment for known invocations other than the retry of a FAILED one, in reconciliation or for requests outside the
  permit.  The provider: its
  ordering contract, a success only on the chain's evidence, bounded waiting and reading, the transaction
  validator equal to a declarative description.  The messages: validators and parsers accept exactly the
  documented values, signatures round trip, digests identify their contents, domains do not mix.  The evidence:
  the bundle parser is exact, the verifier's verdict equals a declarative predicate on the bundle, a VALID
  verdict on a confirmed purchase means what it should in terms of the signed artifacts, the manifest
  determines the bundle, an export carries exactly its row, every artifact included, and authorize, export and verify compose: a
  purchase refused by the permit's terms yields evidence with the verdict VALID.  The processes around it: a permit the approver issues
  carries the configured terms and three chosen values alone and is installed by the agent it names; its issuer is
  the key the authority pins from the published file; what the agent posts for a permit of that issuer is decided by the
  authority, not refused as unauthenticated; evidence reaches the session that owns the invocation only, for every interleaving of
  requests; the service settles nothing before it has checked the authority's authorization, and the authority
  keeps the acknowledgement it answers; the two front ends of the verifier agree up to the size the server takes; the page
  sends each secret to its one receiver only, shows a permit, a bundle or a report only when it was answered for it, in every
  interleaving, shows every claim of a report once, and amounts at their value.  Key files survive every interleaving of processes.  A database of every
  earlier version is migrated without loss, and an authority that has started holds no interrupted reservation, has
  paid nothing and has published the key of its receipts.

  \<^bold>\<open>Bounds and termination.\<close>  The loops over lists are structural recursions.  The confirmation loop is a
  recursion on the time left to its deadline: every round sleeps 500 ms on a clock that moves forward, so it
  polls at most once per started half second of the wait.  No fuel is used in the model of the code.

  \<^bold>\<open>Decisions.\<close>  Strings are HOL strings (code units below 256); other code points are outside the model.
  JSON numbers are integers or opaque texts (\<open>JNonInt\<close>).  Diagnostic texts of errors are dropped or fixed
  where they are stored, reason codes and error classes are kept.  RPC answers are taken at the declared type
  of the code that reads them.  Structured log lines are not modelled.  A parsed bundle artifact keeps the
  text of its domain or protocol field (\<open>tagged\<close>), because the parser accepts any text there and the
  verifier judges it; a problem the verifier lists is the condition under which it is listed; a throw inside a
  check of the verifier is the flag of \<open>check_run\<close>, as its outer handler turns it into an INVALID claim.

  Sessions of the agent are kept by index, its maps are insertion-ordered lists; what other requests do to the store
  while one waits is a function (\<open>gw_reading\<close>, \<open>gw_others\<close>).  The service's report route handles one
  request, with any scenario requests that arrive while it checks the authorization and while the gate runs (the scenario
  is read again after the gate); the payment gate is a function of scenario and request that records what it was given (\<open>svs_gated\<close>).
  The page's calls are answered by a function of position and call, so an answer may come at any time after its call; an action
  of the user is possible at any moment.  A private key file that disappears between the check of its mode and the read is
  not modelled: no process of the system removes one.
  Response headers, CORS and log lines of the servers are left out; a payload is the value that is serialized.

  \<^bold>\<open>Not modelled.\<close>  the SQL text of the store's statements, the JSON text of its columns and the SQLite library; the start of the
  agent, the service and the verifier (environment variables), and ports, timers and signals of all processes; the layout of the printed verification report; the React
  components of the page; the mock payment provider and other test support, which touch no
  network and are used by tests only.
\<close>

section \<open>Domain separation\<close>

text \<open>Every prefix under which the system signs or hashes canonical JSON.\<close>

definition domain_prefixes :: "string list" where
  "domain_prefixes = [PERMIT_V1_PREFIX, PERMIT_V2_PREFIX, PERMIT_V1_DIGEST_PREFIX, PERMIT_V2_DIGEST_PREFIX,
     REQUEST_V1_PREFIX, REQUEST_V2_PREFIX, EXACT_OPERATION_PREFIX, PAID_REQUEST_DOMAIN,
     AUTHORIZATION_RECEIPT_DOMAIN @ '':v1'' @ [CHR 0x0A], AUTHORIZATION_RECEIPT_DOMAIN @ '':v2'' @ [CHR 0x0A],
     SERVICE_AUTHORIZATION_DOMAIN @ '':v1'' @ [CHR 0x0A], SERVICE_ACKNOWLEDGEMENT_DOMAIN @ '':v1'' @ [CHR 0x0A],
     ARTIFACT_DOMAIN @ '':service-authorization:v1'' @ [CHR 0x0A]]"

lemmas domain_prefix_defs = PERMIT_V1_PREFIX_def PERMIT_V2_PREFIX_def PERMIT_V1_DIGEST_PREFIX_def
  PERMIT_V2_DIGEST_PREFIX_def PURCHASE_PERMIT_DOMAIN_def REQUEST_V1_PREFIX_def REQUEST_V2_PREFIX_def
  AUTHORIZATION_REQUEST_PROTOCOL_def EXACT_OPERATION_PREFIX_def PAID_REQUEST_DOMAIN_def
  AUTHORIZATION_RECEIPT_DOMAIN_def SERVICE_AUTHORIZATION_DOMAIN_def SERVICE_ACKNOWLEDGEMENT_DOMAIN_def
  ARTIFACT_DOMAIN_def

lemma one_line_prefix:
  "list_all (\<lambda>p. p \<noteq> [] \<and> last p = CHR 0x0A \<and> CHR 0x0A \<notin> set (butlast p)) domain_prefixes"
  by (simp add: domain_prefixes_def domain_prefix_defs)

lemma distinct_domain_prefixes: "distinct domain_prefixes"
  by (simp add: domain_prefixes_def domain_prefix_defs)

lemma one_line_inject:
  assumes "p @ x = q @ y"
    and "p \<noteq> [] \<and> last p = c \<and> c \<notin> set (butlast p)" "q \<noteq> [] \<and> last q = c \<and> c \<notin> set (butlast q)"
  shows "p = q"
proof -
  have line: "takeWhile (\<lambda>z. z \<noteq> c) (r @ z) @ [c] = r" if "r \<noteq> [] \<and> last r = c \<and> c \<notin> set (butlast r)" for r z
  proof -
    from that obtain b where r: "r = b @ [c]" "c \<notin> set b" by (metis append_butlast_last_id)
    from r(2) have "takeWhile (\<lambda>z. z \<noteq> c) (b @ c # z) = b" by (induction b) auto
    with r(1) show ?thesis by simp
  qed
  show ?thesis using line [OF assms(2), of x] line [OF assms(3), of y] assms(1) by simp
qed

text \<open>Messages of different kinds or versions never coincide: the bytes signed or hashed under one
  prefix for one value are never those of another prefix and any value, so no permit signature is a
  request signature, no v1 signature a v2 one, no digest message a signing message.\<close>

theorem domains_separate:
  assumes "p \<in> set domain_prefixes" "q \<in> set domain_prefixes"
    and "canonicalBytes px p v = Some b" "canonicalBytes px q w = Some b"
  shows "p = q"
proof -
  obtain x y where "utf8 (p @ x) = b" "utf8 (q @ y) = b"
    using assms(3,4) unfolding canonicalBytes_def map_option_eq_Some by blast
  then have "p @ x = q @ y" using utf8_inject by metis
  moreover have "p \<noteq> [] \<and> last p = CHR 0x0A \<and> CHR 0x0A \<notin> set (butlast p)"
      "q \<noteq> [] \<and> last q = CHR 0x0A \<and> CHR 0x0A \<notin> set (butlast q)"
    using one_line_prefix assms(1,2) unfolding list_all_iff by blast+
  ultimately show ?thesis by (rule one_line_inject)
qed

theorem domains_separate_witness:
  "canonicalBytes sample_platform PERMIT_V1_PREFIX JNull \<noteq> canonicalBytes sample_platform PERMIT_V2_PREFIX JNull"
proof
  assume "canonicalBytes sample_platform PERMIT_V1_PREFIX JNull = canonicalBytes sample_platform PERMIT_V2_PREFIX JNull"
  moreover obtain b where "canonicalBytes sample_platform PERMIT_V1_PREFIX JNull = Some b"
    using canonicalBytes_total [OF sample_canonical_total(1), of JNull] by auto
  ultimately have "PERMIT_V1_PREFIX = PERMIT_V2_PREFIX"
    by (intro domains_separate [of _ _ sample_platform JNull b JNull]) (simp_all add: domain_prefixes_def)
  then show False by (simp add: PERMIT_V1_PREFIX_def PERMIT_V2_PREFIX_def)
qed

end
